(* ===== verification/Prelude.thy ===== *)
theory Prelude
  imports Main "HOL-Library.Word"
begin

text \<open>
  Shared vocabulary of the development: identifiers and strings, the two result
  types every operation of the backend uses (a value or an exception, and a
  state-passing action that may raise), and the lemmas on association tables
  (lists of rows) that the persistence components share.
\<close>

section \<open>Identifiers and text\<close>

text \<open>
  A Python \<open>uuid.UUID\<close> is a 128-bit value; PostgreSQL compares its \<open>uuid\<close> columns
  bytewise, which is the unsigned order of the word. A Python \<open>str\<close> is a sequence of
  code points (\<open>ustr\<close>), so that \<open>length\<close> counts what \<open>len\<close> counts. Fixed ASCII
  vocabulary (enum values, field names, constraint names) is a HOL \<^typ>\<open>string\<close>.
\<close>

type_synonym uuid = "128 word"
type_synonym ustr = "nat list"

definition ascii :: "string \<Rightarrow> ustr" where
  "ascii s = map of_char s"

lemma ascii_append [simp]: "ascii (s @ t) = ascii s @ ascii t"
  by (simp add: ascii_def)

lemma ascii_Nil [simp]: "ascii [] = []"
  by (simp add: ascii_def)

lemma length_ascii [simp]: "length (ascii s) = length s"
  by (simp add: ascii_def)

text \<open>The code points that \<open>str.isspace\<close> accepts, and \<open>str.strip\<close>.\<close>

definition is_space :: "nat \<Rightarrow> bool" where
  "is_space c \<longleftrightarrow>
     9 \<le> c \<and> c \<le> 13 \<or> 28 \<le> c \<and> c \<le> 32 \<or> c = 133 \<or> c = 160 \<or> c = 5760 \<or>
     8192 \<le> c \<and> c \<le> 8202 \<or> c = 8232 \<or> c = 8233 \<or> c = 8239 \<or> c = 8287 \<or> c = 12288"

definition lstrip :: "ustr \<Rightarrow> ustr" where
  "lstrip s = dropWhile is_space s"

definition rstrip :: "ustr \<Rightarrow> ustr" where
  "rstrip s = rev (dropWhile is_space (rev s))"

definition strip :: "ustr \<Rightarrow> ustr" where
  "strip s = rstrip (lstrip s)"

lemma length_strip: "length (strip s) \<le> length s"
proof -
  have "length (rstrip t) \<le> length t" for t
    by (simp add: rstrip_def length_dropWhile_le [of is_space "rev t", simplified])
  moreover have "length (lstrip s) \<le> length s"
    by (simp add: lstrip_def length_dropWhile_le)
  ultimately show ?thesis
    unfolding strip_def using order_trans by blast
qed

lemma strip_Nil [simp]: "strip [] = []"
  by (simp add: strip_def lstrip_def rstrip_def)

lemma rstrip_hd: "rstrip s \<noteq> [] \<Longrightarrow> hd (rstrip s) = hd s"
proof -
  assume ne: "rstrip s \<noteq> []"
  have "s = rstrip s @ rev (takeWhile is_space (rev s))"
    by (metis rstrip_def rev_append rev_rev_ident takeWhile_dropWhile_id)
  then show ?thesis using ne by (metis hd_append2)
qed

lemma rstrip_last: "rstrip s \<noteq> [] \<Longrightarrow> \<not> is_space (last (rstrip s))"
  by (simp add: rstrip_def last_rev hd_dropWhile)

lemma lstrip_hd: "lstrip s \<noteq> [] \<Longrightarrow> \<not> is_space (hd (lstrip s))"
  by (simp add: lstrip_def hd_dropWhile)

lemma lstrip_id: "s = [] \<or> \<not> is_space (hd s) \<Longrightarrow> lstrip s = s"
  by (cases s) (auto simp: lstrip_def)

lemma rstrip_id: "s = [] \<or> \<not> is_space (last s) \<Longrightarrow> rstrip s = s"
proof -
  assume "s = [] \<or> \<not> is_space (last s)"
  then have "rev s = [] \<or> \<not> is_space (hd (rev s))"
    by (auto simp: hd_rev)
  then have "dropWhile is_space (rev s) = rev s"
    using lstrip_id lstrip_def by metis
  then show ?thesis by (simp add: rstrip_def)
qed

text \<open>A stripped text is its own strip: nothing but its ends decides.\<close>

lemma strip_eq_iff: "strip s = s \<longleftrightarrow> s = [] \<or> (\<not> is_space (hd s) \<and> \<not> is_space (last s))"
proof
  assume eq: "strip s = s"
  show "s = [] \<or> (\<not> is_space (hd s) \<and> \<not> is_space (last s))"
  proof (cases "s = []")
    case False
    then have r: "rstrip (lstrip s) \<noteq> []" using eq by (simp add: strip_def)
    then have l: "lstrip s \<noteq> []" by (auto simp: rstrip_def)
    have "hd s = hd (lstrip s)" using r eq rstrip_hd [of "lstrip s"] by (simp add: strip_def)
    moreover have "last s = last (rstrip (lstrip s))" using eq by (simp add: strip_def)
    ultimately show ?thesis using lstrip_hd [OF l] rstrip_last [OF r] by simp
  qed simp
next
  assume "s = [] \<or> (\<not> is_space (hd s) \<and> \<not> is_space (last s))"
  then show "strip s = s"
    by (auto simp: strip_def lstrip_id rstrip_id)
qed

lemma strip_idem [simp]: "strip (strip s) = strip s"
proof (cases "strip s = []")
  case False
  then have "lstrip s \<noteq> []" by (auto simp: strip_def rstrip_def)
  then show ?thesis
    using False lstrip_hd rstrip_last [of "lstrip s"] rstrip_hd [of "lstrip s"]
    by (subst strip_eq_iff) (simp add: strip_def)
qed simp

section \<open>Results and actions\<close>

text \<open>
  An operation that may raise returns \<open>Inl\<close> the exception or \<open>Inr\<close> the value. An
  operation that also changes a state takes the state and returns both: the state it
  leaves behind is there even when it raises, as a Python exception does not undo the
  assignments that ran before it.
\<close>

type_synonym ('e, 'a) result = "'e + 'a"
type_synonym ('s, 'e, 'a) action = "'s \<Rightarrow> ('e + 'a) \<times> 's"

named_theorems action_simps

definition bindE :: "'e + 'a \<Rightarrow> ('a \<Rightarrow> 'e + 'b) \<Rightarrow> 'e + 'b" where
  "bindE r f = (case r of Inl e \<Rightarrow> Inl e | Inr x \<Rightarrow> f x)"

definition returnA :: "'a \<Rightarrow> ('s, 'e, 'a) action" where
  "returnA x s = (Inr x, s)"

definition raiseA :: "'e \<Rightarrow> ('s, 'e, 'a) action" where
  "raiseA e s = (Inl e, s)"

definition bindA :: "('s, 'e, 'a) action \<Rightarrow> ('a \<Rightarrow> ('s, 'e, 'b) action) \<Rightarrow> ('s, 'e, 'b) action" where
  "bindA m f s = (case m s of (Inl e, s') \<Rightarrow> (Inl e, s') | (Inr x, s') \<Rightarrow> f x s')"

definition liftE :: "'e + 'a \<Rightarrow> ('s, 'e, 'a) action" where
  "liftE r s = (r, s)"

definition readA :: "('s \<Rightarrow> 'a) \<Rightarrow> ('s, 'e, 'a) action" where
  "readA f s = (Inr (f s), s)"

definition modifyA :: "('s \<Rightarrow> 's) \<Rightarrow> ('s, 'e, unit) action" where
  "modifyA f s = (Inr (), f s)"

text \<open>\<open>try: m except e: h e\<close>. The handler runs from the state \<open>m\<close> left behind.\<close>

definition catchA :: "('s, 'e, 'a) action \<Rightarrow> ('e \<Rightarrow> ('s, 'e, 'a) action) \<Rightarrow> ('s, 'e, 'a) action" where
  "catchA m h s = (case m s of (Inl e, s') \<Rightarrow> h e s' | (Inr x, s') \<Rightarrow> (Inr x, s'))"

lemma bindE_simps [simp]:
  "bindE (Inl e) f = Inl e"
  "bindE (Inr x) f = f x"
  by (simp_all add: bindE_def)

lemma bindE_Inr: "bindE r f = Inr y \<longleftrightarrow> (\<exists>x. r = Inr x \<and> f x = Inr y)"
  by (cases r) auto

lemma bindE_Inl: "bindE r f = Inl e \<longleftrightarrow> r = Inl e \<or> (\<exists>x. r = Inr x \<and> f x = Inl e)"
  by (cases r) auto

lemma action_apply [action_simps]:
  "returnA x s = (Inr x, s)"
  "raiseA e s = (Inl e, s)"
  "liftE r s = (r, s)"
  "readA f s = (Inr (f s), s)"
  "modifyA g s = (Inr (), g s)"
  by (simp_all add: returnA_def raiseA_def liftE_def readA_def modifyA_def)

lemma bindA_Inr [action_simps]: "m s = (Inr x, s') \<Longrightarrow> bindA m f s = f x s'"
  by (simp add: bindA_def)

lemma bindA_Inl [action_simps]: "m s = (Inl e, s') \<Longrightarrow> bindA m f s = (Inl e, s')"
  by (simp add: bindA_def)

lemma catchA_Inr [action_simps]: "m s = (Inr x, s') \<Longrightarrow> catchA m h s = (Inr x, s')"
  by (simp add: catchA_def)

lemma catchA_Inl [action_simps]: "m s = (Inl e, s') \<Longrightarrow> catchA m h s = h e s'"
  by (simp add: catchA_def)

text \<open>A step that only returns, or raises, disappears.\<close>

lemma bind_pure:
  "bindA (returnA x) f = f x"
  "bindA (liftE (Inr x)) f = f x"
  "bindA (liftE (Inl e)) f = raiseA e"
  "bindA (raiseA e) f = raiseA e"
  by (rule ext, simp add: bindA_def returnA_def liftE_def raiseA_def)+

text \<open>Inversion: what a run that returned, or raised, must have done.\<close>

lemma bindA_InrE:
  assumes "bindA m f s = (Inr y, s')"
  obtains x s1 where "m s = (Inr x, s1)" and "f x s1 = (Inr y, s')"
  using assms by (auto simp: bindA_def split: prod.splits sum.splits)

lemma bindA_InlE:
  assumes "bindA m f s = (Inl e, s')"
  obtains "m s = (Inl e, s')" | x s1 where "m s = (Inr x, s1)" and "f x s1 = (Inl e, s')"
  using assms by (auto simp: bindA_def split: prod.splits sum.splits)

lemma catchA_InrE:
  assumes "catchA m h s = (Inr y, s')"
  obtains "m s = (Inr y, s')" | e s1 where "m s = (Inl e, s1)" and "h e s1 = (Inr y, s')"
  using assms by (auto simp: catchA_def split: prod.splits sum.splits)

lemma catchA_InlE:
  assumes "catchA m h s = (Inl e, s')"
  obtains e1 s1 where "m s = (Inl e1, s1)" and "h e1 s1 = (Inl e, s')"
  using assms by (auto simp: catchA_def split: prod.splits sum.splits)

text \<open>
  \<open>runs P m Q E\<close>: from a state in \<open>P\<close> the action returns into \<open>Q\<close> or raises into \<open>E\<close>.
  The rules follow the shape of the action.
\<close>

definition runs :: "('s \<Rightarrow> bool) \<Rightarrow> ('s, 'e, 'a) action \<Rightarrow> ('a \<Rightarrow> 's \<Rightarrow> bool) \<Rightarrow> ('s \<Rightarrow> bool) \<Rightarrow> bool" where
  "runs P m Q E \<longleftrightarrow> (\<forall>s. P s \<longrightarrow> (case m s of (Inr x, s') \<Rightarrow> Q x s' | (Inl e, s') \<Rightarrow> E s'))"

lemma runsI:
  assumes "\<And>s x s'. P s \<Longrightarrow> m s = (Inr x, s') \<Longrightarrow> Q x s'" and "\<And>s e s'. P s \<Longrightarrow> m s = (Inl e, s') \<Longrightarrow> E s'"
  shows "runs P m Q E"
  using assms by (auto simp: runs_def split: prod.splits sum.splits)

lemma runs_bind:
  assumes "runs P m Q E" and "\<And>x. runs (Q x) (f x) R E"
  shows "runs P (bindA m f) R E"
  using assms unfolding runs_def bindA_def by (fastforce split: prod.splits sum.splits)

lemma runs_option:
  "runs P n Q E \<Longrightarrow> (\<And>y. runs P (k y) Q E) \<Longrightarrow> runs P (case x of None \<Rightarrow> n | Some y \<Rightarrow> k y) Q E"
  by (cases x) simp_all

lemma runs_returnA: "(\<And>s. P s \<Longrightarrow> Q x s) \<Longrightarrow> runs P (returnA x) Q E"
  by (simp add: runs_def returnA_def)

lemma runs_raiseA: "(\<And>s. P s \<Longrightarrow> E s) \<Longrightarrow> runs P (raiseA e) Q E"
  by (simp add: runs_def raiseA_def)

lemma runs_liftE:
  assumes "\<And>s x. P s \<Longrightarrow> r = Inr x \<Longrightarrow> Q x s" and "\<And>s. P s \<Longrightarrow> E s"
  shows "runs P (liftE r) Q E"
  using assms by (auto simp: runs_def liftE_def split: sum.splits)

lemma runs_catch:
  assumes "runs P m Q E1" and "\<And>e. runs E1 (h e) Q E"
  shows "runs P (catchA m h) Q E"
  using assms unfolding runs_def catchA_def by (fastforce split: prod.splits sum.splits)

lemma runs_if:
  assumes "runs P m Q E" and "runs P m' Q E"
  shows "runs P (if c then m else m') Q E"
  using assms by simp

lemma runs_weaken:
  assumes "runs P m Q E" and "\<And>s. P' s \<Longrightarrow> P s" and "\<And>x s. Q x s \<Longrightarrow> Q' x s" and "\<And>s. E s \<Longrightarrow> E' s"
  shows "runs P' m Q' E'"
  using assms unfolding runs_def by (fastforce split: prod.splits sum.splits)

lemma runs_result:
  assumes "runs P m (\<lambda>_. Q) Q" and "P s"
  shows "Q (snd (m s))"
  using assms by (cases "m s"; cases "fst (m s)") (auto simp: runs_def)

text \<open>A fallible function on the elements of a list: the first failure is the result.\<close>

fun traverse :: "('a \<Rightarrow> 'e + 'b) \<Rightarrow> 'a list \<Rightarrow> 'e + 'b list" where
  "traverse f [] = Inr []"
| "traverse f (x # xs) = bindE (f x) (\<lambda>y. bindE (traverse f xs) (\<lambda>ys. Inr (y # ys)))"

lemma traverse_map: "(\<And>x. x \<in> set xs \<Longrightarrow> f x = Inr (g x)) \<Longrightarrow> traverse f xs = Inr (map g xs)"
  by (induction xs) auto

section \<open>Tables\<close>

text \<open>
  A database table is the list of its rows. A query by key is \<^const>\<open>find\<close>, an update
  rewrites the rows a predicate selects, a unique index is \<^const>\<open>distinct\<close> of the key
  column.
\<close>

definition update_rows :: "('r \<Rightarrow> bool) \<Rightarrow> ('r \<Rightarrow> 'r) \<Rightarrow> 'r list \<Rightarrow> 'r list" where
  "update_rows p f rows = map (\<lambda>r. if p r then f r else r) rows"

definition exists_row :: "('r \<Rightarrow> bool) \<Rightarrow> 'r list \<Rightarrow> bool" where
  "exists_row p rows \<longleftrightarrow> list_ex p rows"

definition sum_rows :: "('r \<Rightarrow> int) \<Rightarrow> ('r \<Rightarrow> bool) \<Rightarrow> 'r list \<Rightarrow> int" where
  "sum_rows v p rows = sum_list (map v (filter p rows))"

lemma exists_row_iff: "exists_row p rows \<longleftrightarrow> (\<exists>r \<in> set rows. p r)"
  by (simp add: exists_row_def list_ex_iff)

lemma find_None_iff_ball: "find p rows = None \<longleftrightarrow> (\<forall>r \<in> set rows. \<not> p r)"
  by (simp add: find_None_iff Ball_def)

lemma find_SomeD: "find p rows = Some r \<Longrightarrow> r \<in> set rows \<and> p r"
  by (auto simp: find_Some_iff)

lemma find_append: "find p (xs @ ys) = (case find p xs of None \<Rightarrow> find p ys | Some r \<Rightarrow> Some r)"
  by (induction xs) auto

lemma find_cong: "(\<And>r. r \<in> set rows \<Longrightarrow> p r = q r) \<Longrightarrow> find p rows = find q rows"
  by (induction rows) auto

lemma update_rows_Nil [simp]: "update_rows p f [] = []"
  by (simp add: update_rows_def)

lemma update_rows_Cons [simp]:
  "update_rows p f (r # rows) = (if p r then f r else r) # update_rows p f rows"
  by (simp add: update_rows_def)

lemma length_update_rows [simp]: "length (update_rows p f rows) = length rows"
  by (simp add: update_rows_def)

lemma set_update_rows: "set (update_rows p f rows) = (\<lambda>r. if p r then f r else r) ` set rows"
  by (simp add: update_rows_def)

lemma map_key_update_rows:
  "(\<And>r. r \<in> set rows \<Longrightarrow> p r \<Longrightarrow> k (f r) = k r) \<Longrightarrow> map k (update_rows p f rows) = map k rows"
  by (induction rows) auto

lemma find_update_rows_same:
  "(\<And>r. p (f r) = p r) \<Longrightarrow> find p (update_rows p f rows) = map_option f (find p rows)"
  by (induction rows) auto

lemma find_update_rows_other:
  "(\<And>r. p r \<Longrightarrow> \<not> q r) \<Longrightarrow> (\<And>r. p r \<Longrightarrow> q (f r) = q r) \<Longrightarrow>
   find q (update_rows p f rows) = find q rows"
  by (induction rows) auto

lemma update_rows_id: "(\<And>r. r \<in> set rows \<Longrightarrow> p r \<Longrightarrow> f r = r) \<Longrightarrow> update_rows p f rows = rows"
  by (induction rows) auto

lemma sum_rows_Nil [simp]: "sum_rows v p [] = 0"
  by (simp add: sum_rows_def)

lemma sum_rows_Cons [simp]: "sum_rows v p (r # rows) = (if p r then v r else 0) + sum_rows v p rows"
  by (simp add: sum_rows_def)

lemma sum_rows_append [simp]: "sum_rows v p (xs @ ys) = sum_rows v p xs + sum_rows v p ys"
  by (simp add: sum_rows_def)

lemma sum_rows_filter_out: "(\<And>r. p r \<Longrightarrow> q r) \<Longrightarrow> sum_rows v p (filter q rows) = sum_rows v p rows"
  by (induction rows) auto

lemma sum_rows_none: "(\<And>r. r \<in> set rows \<Longrightarrow> \<not> p r) \<Longrightarrow> sum_rows v p rows = 0"
  by (induction rows) auto

lemma sum_rows_nonneg: "(\<And>r. r \<in> set rows \<Longrightarrow> 0 \<le> v r) \<Longrightarrow> 0 \<le> sum_rows v p rows"
  by (induction rows) auto

text \<open>With a unique key, the row found by the key is the only one that has it.\<close>

lemma find_unique_key:
  assumes "distinct (map k rows)" and "r \<in> set rows" and "k r = x"
  shows "find (\<lambda>r. k r = x) rows = Some r"
  using assms by (induction rows) (auto simp: rev_image_eqI)

lemma distinct_map_snoc:
  "distinct (map k (rows @ [r])) \<longleftrightarrow> distinct (map k rows) \<and> k r \<notin> k ` set rows"
  by auto

lemma length_filter_snoc:
  "length (filter p (rows @ [r])) = length (filter p rows) + (if p r then 1 else 0)"
  by simp

end
