(* ===== verification/Calendar.thy ===== *)
theory Calendar
  imports Prelude
begin

text \<open>
  What the backend uses of Python's \<open>datetime\<close>, \<open>calendar\<close> and \<open>zoneinfo\<close>: proleptic
  Gregorian dates with their ordinals, month arithmetic that clamps the day, and instants
  in time with their Seoul date.

  \<^item> A \<open>datetime.date\<close> is \<open>Date y m d\<close>; the constructor check of \<open>date(y, m, d)\<close> is
    \<open>valid_date\<close>.
  \<^item> An aware \<open>datetime\<close> is its instant: an integer number of microseconds on the scale
    where day \<open>n\<close> of the proleptic calendar (UTC) starts at \<open>n * day_us\<close>.
  \<^item> \<open>ZoneInfo("Asia/Seoul")\<close> is the fixed offset of nine hours that the zone has had since
    October 1988; the model is about instants after that.
\<close>

section \<open>Dates\<close>

datatype date = Date (date_year: int) (date_month: int) (date_day: int)

definition is_leap :: "int \<Rightarrow> bool" where
  "is_leap y \<longleftrightarrow> y mod 4 = 0 \<and> (y mod 100 \<noteq> 0 \<or> y mod 400 = 0)"

text \<open>\<open>calendar.monthrange(y, m)[1]\<close>.\<close>

definition days_in_month :: "int \<Rightarrow> int \<Rightarrow> int" where
  "days_in_month y m =
     (if m = 2 then (if is_leap y then 29 else 28)
      else if m \<in> {4, 6, 9, 11} then 30 else 31)"

fun valid_date :: "date \<Rightarrow> bool" where
  "valid_date (Date y m d) \<longleftrightarrow>
     1 \<le> y \<and> y \<le> 9999 \<and> 1 \<le> m \<and> m \<le> 12 \<and> 1 \<le> d \<and> d \<le> days_in_month y m"

text \<open>Python compares dates field by field.\<close>

instantiation date :: linorder
begin

definition less_eq_date :: "date \<Rightarrow> date \<Rightarrow> bool" where
  "less_eq_date a b \<longleftrightarrow>
     date_year a < date_year b \<or> date_year a = date_year b \<and>
       (date_month a < date_month b \<or> date_month a = date_month b \<and> date_day a \<le> date_day b)"

definition less_date :: "date \<Rightarrow> date \<Rightarrow> bool" where
  "less_date a b \<longleftrightarrow>
     date_year a < date_year b \<or> date_year a = date_year b \<and>
       (date_month a < date_month b \<or> date_month a = date_month b \<and> date_day a < date_day b)"

instance
proof
  fix x y z :: date
  show "x < y \<longleftrightarrow> x \<le> y \<and> \<not> y \<le> x" by (auto simp: less_eq_date_def less_date_def)
  show "x \<le> x" by (simp add: less_eq_date_def)
  show "x \<le> y \<Longrightarrow> y \<le> z \<Longrightarrow> x \<le> z" by (auto simp: less_eq_date_def)
  show "x \<le> y \<Longrightarrow> y \<le> x \<Longrightarrow> x = y" by (cases x; cases y) (auto simp: less_eq_date_def)
  show "x \<le> y \<or> y \<le> x" by (auto simp: less_eq_date_def)
qed

end

section \<open>Ordinals\<close>

text \<open>\<open>date.toordinal\<close> and \<open>date.fromordinal\<close>; day 1 is the first of January of year 1.\<close>

definition days_before_year :: "int \<Rightarrow> int" where
  "days_before_year y = (y - 1) * 365 + (y - 1) div 4 - (y - 1) div 100 + (y - 1) div 400"

definition days_before_month :: "int \<Rightarrow> int \<Rightarrow> int" where
  "days_before_month y m =
     (if m \<le> 1 then 0 else if m = 2 then 31 else
       (if is_leap y then 1 else 0) +
       (if m = 3 then 59 else if m = 4 then 90 else if m = 5 then 120 else if m = 6 then 151
        else if m = 7 then 181 else if m = 8 then 212 else if m = 9 then 243
        else if m = 10 then 273 else if m = 11 then 304 else if m = 12 then 334 else 365))"

fun date_ordinal :: "date \<Rightarrow> int" where
  "date_ordinal (Date y m d) = days_before_year y + days_before_month y m + d"

definition year_of_ordinal :: "int \<Rightarrow> int" where
  "year_of_ordinal n =
     (let n0 = n - 1; n400 = n0 div 146097; r400 = n0 mod 146097;
          n100 = r400 div 36524; r100 = r400 mod 36524;
          n4 = r100 div 1461; r4 = r100 mod 1461; n1 = r4 div 365;
          y = n400 * 400 + 1 + n100 * 100 + n4 * 4 + n1
      in if n1 = 4 \<or> n100 = 4 then y - 1 else y)"

definition month_of_yday :: "int \<Rightarrow> int \<Rightarrow> int" where
  "month_of_yday y k =
     (if k \<le> days_before_month y 2 then 1 else if k \<le> days_before_month y 3 then 2
      else if k \<le> days_before_month y 4 then 3 else if k \<le> days_before_month y 5 then 4
      else if k \<le> days_before_month y 6 then 5 else if k \<le> days_before_month y 7 then 6
      else if k \<le> days_before_month y 8 then 7 else if k \<le> days_before_month y 9 then 8
      else if k \<le> days_before_month y 10 then 9 else if k \<le> days_before_month y 11 then 10
      else if k \<le> days_before_month y 12 then 11 else 12)"

definition date_of_ordinal :: "int \<Rightarrow> date" where
  "date_of_ordinal n =
     (let y = year_of_ordinal n; k = n - days_before_year y; m = month_of_yday y k
      in Date y m (k - days_before_month y m))"

lemma div_pred:
  assumes "0 < (k::int)"
  shows "y div k = (y - 1) div k + (if y mod k = 0 then 1 else 0)"
proof (cases "y mod k = 0")
  case True
  then have "y - 1 = k * (y div k - 1) + (k - 1)"
    using div_mult_mod_eq [of y k] by (simp add: algebra_simps)
  then have "(y - 1) div k = y div k - 1" using assms by (intro int_div_pos_eq [of _ _ _ "k - 1"]) auto
  with True show ?thesis by simp
next
  case False
  then have "0 < y mod k" using assms by (simp add: order_le_neq_trans)
  then have "(y - 1) div k = y div k"
    using assms div_mult_mod_eq [of y k] pos_mod_bound [OF assms, of y]
    by (intro int_div_pos_eq [of _ _ _ "y mod k - 1"]) (auto simp: algebra_simps)
  with False show ?thesis by simp
qed

lemma leap_count:
  assumes "p4 = (q4::int) + (if a then 1 else 0)" and "p100 = q100 + (if b then 1 else 0)"
    and "p400 = q400 + (if c then 1 else 0)" and "b \<Longrightarrow> a" and "c \<Longrightarrow> b"
  shows "y * 365 + p4 - p100 + p400 =
    (y - 1) * 365 + q4 - q100 + q400 + (if a \<and> (\<not> b \<or> c) then 366 else 365)"
  using assms by (cases a; cases b; cases c) simp_all

lemma days_before_year_Suc: "days_before_year (y + 1) = days_before_year y + (if is_leap y then 366 else 365)"
proof -
  have "y mod 100 = 0 \<Longrightarrow> y mod 4 = 0" using mod_mod_cancel [of 4 100 y] by simp
  moreover have "y mod 400 = 0 \<Longrightarrow> y mod 100 = 0" using mod_mod_cancel [of 100 400 y] by simp
  ultimately show ?thesis
    unfolding days_before_year_def is_leap_def add_diff_cancel_right'
    by (intro leap_count div_pred) simp_all
qed

lemma month_cases:
  assumes "1 \<le> (m::int)" "m \<le> 12"
  obtains "m = 1" | "m = 2" | "m = 3" | "m = 4" | "m = 5" | "m = 6" | "m = 7" | "m = 8"
    | "m = 9" | "m = 10" | "m = 11" | "m = 12"
proof -
  from assms have "m = 1 \<or> m = 2 \<or> m = 3 \<or> m = 4 \<or> m = 5 \<or> m = 6 \<or> m = 7 \<or> m = 8
      \<or> m = 9 \<or> m = 10 \<or> m = 11 \<or> m = 12" by presburger
  then show ?thesis using that by (elim disjE)
qed

lemma days_before_month_Suc:
  "1 \<le> m \<Longrightarrow> m \<le> 12 \<Longrightarrow> days_before_month y (m + 1) = days_before_month y m + days_in_month y m"
  by (erule (1) month_cases) (simp_all add: days_before_month_def days_in_month_def)

lemma days_in_month_bounds: "28 \<le> days_in_month y m" "days_in_month y m \<le> 31"
  by (simp_all add: days_in_month_def)

lemma days_before_month_nonneg: "0 \<le> days_before_month y m"
  by (simp add: days_before_month_def)

lemma days_before_month_mono_nat:
  "1 \<le> m \<Longrightarrow> m + int k \<le> 13 \<Longrightarrow> days_before_month y m \<le> days_before_month y (m + int k)"
proof (induction k)
  case (Suc k)
  then show ?case
    using days_before_month_Suc [of "m + int k" y] days_in_month_bounds(1) [of y "m + int k"]
    by (simp add: algebra_simps)
qed simp

lemma days_before_month_mono: "1 \<le> m \<Longrightarrow> m \<le> m' \<Longrightarrow> m' \<le> 13 \<Longrightarrow> days_before_month y m \<le> days_before_month y m'"
  using days_before_month_mono_nat [of m "nat (m' - m)" y] by simp

lemma yday_less:
  assumes "1 \<le> m" "m < m'" "m' \<le> 13" "d \<le> days_in_month y m"
  shows "days_before_month y m + d \<le> days_before_month y m'"
  using days_before_month_mono [of "m + 1" m' y] days_before_month_Suc [of m y] assms by simp

lemma days_before_month_13: "days_before_month y 13 = (if is_leap y then 366 else 365)"
  by (simp add: days_before_month_def)

lemma days_before_month_end:
  assumes "1 \<le> m" "m \<le> 12" "d \<le> days_in_month y m"
  shows "days_before_month y m + d \<le> (if is_leap y then 366 else 365)"
  using yday_less [of m 13 d y] assms by (simp add: days_before_month_13)

lemma days_before_year_mono_nat: "days_before_year y + 365 * int k \<le> days_before_year (y + int k)"
proof (induction k)
  case (Suc k)
  then show ?case using days_before_year_Suc [of "y + int k"]
    by (simp add: algebra_simps split: if_splits)
qed simp

lemma days_before_year_less:
  assumes "y < y'"
  shows "days_before_year y + (if is_leap y then 366 else 365) \<le> days_before_year y'"
proof -
  have "days_before_year (y + 1) + 365 * int (nat (y' - (y + 1))) \<le>
      days_before_year (y + 1 + int (nat (y' - (y + 1))))"
    by (rule days_before_year_mono_nat)
  then show ?thesis using assms by (simp add: days_before_year_Suc)
qed

lemma days_before_year_mono: "y \<le> y' \<Longrightarrow> days_before_year y \<le> days_before_year y'"
  using days_before_year_mono_nat [of y "nat (y' - y)"] by simp

text \<open>On valid dates, the ordinal orders dates as Python compares them.\<close>

lemma date_ordinal_less:
  assumes "valid_date a" "valid_date b" "a < b"
  shows "date_ordinal a < date_ordinal b"
proof -
  obtain y m d y' m' d' where ab: "a = Date y m d" "b = Date y' m' d'" by (cases a; cases b)
  from assms ab consider "y < y'" | "y = y'" "m < m'" | "y = y'" "m = m'" "d < d'"
    by (auto simp: less_date_def)
  then show ?thesis
  proof cases
    case 1
    then show ?thesis
      using days_before_month_end [of m d y] days_before_year_less [of y y']
        days_before_month_nonneg [of y' m'] assms ab by auto
  next
    case 2
    then show ?thesis using yday_less [of m m' d y] assms ab by auto
  next
    case 3
    then show ?thesis using ab by simp
  qed
qed

lemma date_ordinal_inj: "valid_date a \<Longrightarrow> valid_date b \<Longrightarrow> date_ordinal a = date_ordinal b \<Longrightarrow> a = b"
  using date_ordinal_less [of a b] date_ordinal_less [of b a] by (metis less_irrefl not_less_iff_gr_or_eq)

lemma date_ordinal_le_iff:
  "valid_date a \<Longrightarrow> valid_date b \<Longrightarrow> date_ordinal a \<le> date_ordinal b \<longleftrightarrow> a \<le> b"
  using date_ordinal_less [of a b] date_ordinal_less [of b a] date_ordinal_inj [of a b]
  by (metis leD leI less_le not_less_iff_gr_or_eq)

text \<open>The 400, 100, 4 and 1 year cycles that \<open>date.fromordinal\<close> divides by.\<close>

lemma days_before_year_cycles:
  assumes "0 \<le> a" "a \<le> 3" "0 \<le> b" "b \<le> 24" "0 \<le> c" "c \<le> 3"
  shows "days_before_year (q * 400 + 1 + c * 100 + b * 4 + a) = 146097 * q + 36524 * c + 1461 * b + 365 * a"
proof -
  let ?z = "q * 400 + c * 100 + b * 4 + a"
  have "?z div 4 = 100 * q + 25 * c + b" by (rule int_div_pos_eq [of _ _ _ a]) (use assms in auto)
  moreover have "?z div 100 = 4 * q + c" by (rule int_div_pos_eq [of _ _ _ "b * 4 + a"]) (use assms in auto)
  moreover have "?z div 400 = q" by (rule int_div_pos_eq [of _ _ _ "c * 100 + b * 4 + a"]) (use assms in auto)
  ultimately show ?thesis by (simp add: days_before_year_def algebra_simps)
qed

lemma is_leap_cycle4:
  assumes "0 \<le> b" "b \<le> 23"
  shows "is_leap (q * 400 + c * 100 + (b + 1) * 4)"
proof -
  have "(q * 400 + c * 100 + (b + 1) * 4) mod 4 = 0"
    by (rule int_mod_pos_eq [of _ _ "q * 100 + c * 25 + b + 1"]) simp_all
  moreover have "(q * 400 + c * 100 + (b + 1) * 4) mod 100 = (b + 1) * 4"
    by (rule int_mod_pos_eq [of _ _ "4 * q + c"]) (use assms in auto)
  ultimately show ?thesis using assms by (simp add: is_leap_def)
qed

lemma is_leap_400: "is_leap (q * 400)"
  by (simp add: is_leap_def)

lemma year_of_ordinal_bounds:
  "1 \<le> n - days_before_year (year_of_ordinal n) \<and>
   n - days_before_year (year_of_ordinal n) \<le> (if is_leap (year_of_ordinal n) then 366 else 365)"
proof -
  obtain q r where q: "q = (n - 1) div 146097" and r: "r = (n - 1) mod 146097" by simp
  obtain c s where c: "c = r div 36524" and s: "s = r mod 36524" by simp
  obtain b t where b: "b = s div 1461" and t: "t = s mod 1461" by simp
  obtain a u where a: "a = t div 365" and u: "u = t mod 365" by simp
  have n: "n - 1 = 146097 * q + r" "0 \<le> r" "r < 146097" using q r by simp_all
  have r': "r = 36524 * c + s" "0 \<le> s" "s < 36524" using c s by simp_all
  have s': "s = 1461 * b + t" "0 \<le> t" "t < 1461" using b t by simp_all
  have t': "t = 365 * a + u" "0 \<le> u" "u < 365" using a u by simp_all
  have bc: "0 \<le> c" "c \<le> 4" using n(2,3) r' by linarith+
  have bb: "0 \<le> b" "b \<le> 24" using r'(2,3) s' by linarith+
  have ba: "0 \<le> a" "a \<le> 4" using s'(2,3) t' by linarith+
  have y: "year_of_ordinal n = (let y = q * 400 + 1 + c * 100 + b * 4 + a in if a = 4 \<or> c = 4 then y - 1 else y)"
    by (simp add: year_of_ordinal_def Let_def a b c q r s t)
  consider "c = 4" | "c \<le> 3" "a = 4" | "c \<le> 3" "a \<le> 3" using bc ba by linarith
  then show ?thesis
  proof cases
    case 1
    then have z: "s = 0" using n(3) r' by linarith
    then have "b = 0" "t = 0" using b t by simp_all
    then have "a = 0" using a by simp
    have yr: "year_of_ordinal n = (q + 1) * 400" using y 1 \<open>b = 0\<close> \<open>a = 0\<close> by simp
    have "days_before_year (q * 400 + 1 + 3 * 100 + 24 * 4 + 3) = 146097 * q + 36524 * 3 + 1461 * 24 + 365 * 3"
      by (rule days_before_year_cycles) simp_all
    then have "days_before_year ((q + 1) * 400) = 146097 * q + 145731" by (simp add: algebra_simps)
    moreover have "n = 146097 * q + 146097" using n r' 1 z by simp
    ultimately show ?thesis using yr is_leap_400 [of "q + 1"] by simp
  next
    case 2
    then have "b \<le> 23" using r'(3) s' t' bb by linarith
    have yr: "year_of_ordinal n = q * 400 + c * 100 + (b + 1) * 4" using y 2 by simp
    have "days_before_year (q * 400 + 1 + c * 100 + b * 4 + 3) = 146097 * q + 36524 * c + 1461 * b + 365 * 3"
      using bb bc 2 by (intro days_before_year_cycles) simp_all
    moreover have "q * 400 + 1 + c * 100 + b * 4 + 3 = q * 400 + c * 100 + (b + 1) * 4" by simp
    moreover have "n = 146097 * q + 36524 * c + 1461 * b + 1461"
      using n r' s' t' 2 by linarith
    ultimately show ?thesis using yr is_leap_cycle4 [OF bb(1) \<open>b \<le> 23\<close>, of q c] by simp
  next
    case 3
    then have yr: "year_of_ordinal n = q * 400 + 1 + c * 100 + b * 4 + a" using y by simp
    have "days_before_year (q * 400 + 1 + c * 100 + b * 4 + a) = 146097 * q + 36524 * c + 1461 * b + 365 * a"
      using bb bc ba 3 by (intro days_before_year_cycles) simp_all
    then have "n - days_before_year (year_of_ordinal n) = u + 1"
      unfolding yr using n r' s' t' by linarith
    then show ?thesis using t'(2,3) by simp
  qed
qed

lemma month_of_yday_bounds:
  assumes "1 \<le> k" "k \<le> days_before_month y 13"
  shows "1 \<le> month_of_yday y k \<and> month_of_yday y k \<le> 12 \<and>
    days_before_month y (month_of_yday y k) < k \<and>
    k \<le> days_before_month y (month_of_yday y k) + days_in_month y (month_of_yday y k)"
  using assms unfolding month_of_yday_def
  by (auto simp: days_before_month_Suc [symmetric] days_before_month_def [of y 1])

theorem date_of_ordinal_valid:
  assumes "1 \<le> n" "n \<le> 3652059"
  shows "valid_date (date_of_ordinal n) \<and> date_ordinal (date_of_ordinal n) = n"
proof -
  obtain y where y: "y = year_of_ordinal n" by simp
  obtain k where k: "k = n - days_before_year y" by simp
  have b: "1 \<le> k" "k \<le> days_before_month y 13"
    using year_of_ordinal_bounds [of n] y k by (simp_all add: days_before_month_13)
  have "days_before_year 10000 = 3652059" "days_before_year 1 = 0"
    by (simp_all add: days_before_year_def)
  then have "\<not> 10000 \<le> y" "\<not> y < 1"
    using assms b k days_before_year_mono [of 10000 y] days_before_year_less [of y 1]
    unfolding days_before_month_13 by linarith+
  moreover obtain m where m: "m = month_of_yday y k" by simp
  moreover have "date_of_ordinal n = Date y m (k - days_before_month y m)"
    using y k m by (simp add: date_of_ordinal_def Let_def)
  ultimately show ?thesis
    using month_of_yday_bounds [OF b] k by simp
qed

lemma date_ordinal_range:
  assumes "valid_date a"
  shows "1 \<le> date_ordinal a \<and> date_ordinal a \<le> 3652059"
proof -
  obtain y m d where a: "a = Date y m d" by (cases a)
  have v: "valid_date (Date 1 1 1)" "valid_date (Date 9999 12 31)"
    by (simp_all add: days_in_month_def)
  have "d \<le> 31" using assms a days_in_month_bounds(2) [of y m] by simp
  then have "Date 1 1 1 \<le> a" "a \<le> Date 9999 12 31"
    using assms a by (auto simp: less_eq_date_def)
  then have "date_ordinal (Date 1 1 1) \<le> date_ordinal a" "date_ordinal a \<le> date_ordinal (Date 9999 12 31)"
    using assms v by (simp_all only: date_ordinal_le_iff)
  moreover have "date_ordinal (Date 1 1 1) = 1" "date_ordinal (Date 9999 12 31) = 3652059"
    by (simp_all add: days_before_year_def days_before_month_def is_leap_def)
  ultimately show ?thesis by simp
qed

theorem date_of_ordinal_inverse: "valid_date a \<Longrightarrow> date_of_ordinal (date_ordinal a) = a"
  using date_ordinal_range date_of_ordinal_valid date_ordinal_inj by blast

section \<open>Month arithmetic\<close>

text \<open>
  \<open>_add_months(start_date, months)\<close>, defined alike in \<open>receipts/domain/model.py\<close> and in
  \<open>ocr/domain/model.py\<close>. The result is \<open>None\<close> where \<open>date(...)\<close> raises \<open>ValueError\<close>
  (a year beyond 9999). Python's \<open>//\<close> and \<open>%\<close> are \<open>div\<close> and \<open>mod\<close>.
\<close>

definition mk_date :: "int \<Rightarrow> int \<Rightarrow> int \<Rightarrow> date option" where
  "mk_date y m d = (if valid_date (Date y m d) then Some (Date y m d) else None)"

fun add_months :: "date \<Rightarrow> int \<Rightarrow> date option" where
  "add_months (Date y0 m0 d0) months =
     (let month_index = m0 - 1 + months;
          y = y0 + month_index div 12;
          m = month_index mod 12 + 1;
          last_day = days_in_month y m;
          d = min d0 last_day
      in mk_date y m d)"

text \<open>The number of months since year 0, the quantity that month arithmetic adds to.\<close>

definition month_count :: "date \<Rightarrow> int" where
  "month_count a = 12 * date_year a + (date_month a - 1)"

lemma month_count_le: "a \<le> b \<Longrightarrow> valid_date a \<Longrightarrow> valid_date b \<Longrightarrow> month_count a \<le> month_count b"
  by (cases a; cases b) (auto simp: less_eq_date_def month_count_def)

lemma month_count_less: "month_count a < month_count b \<Longrightarrow> valid_date a \<Longrightarrow> valid_date b \<Longrightarrow> a < b"
  by (metis month_count_le not_le)

lemma mk_date_Some: "mk_date y m d = Some b \<longleftrightarrow> b = Date y m d \<and> valid_date b"
  by (auto simp: mk_date_def simp del: valid_date.simps)

lemma add_months_year_month:
  "12 * (y0 + (m0 - 1 + k) div 12) + ((m0 - 1 + k) mod 12 + 1 - 1) = 12 * y0 + (m0 - 1) + (k::int)"
  by (simp add: algebra_simps)

text \<open>The month advances by exactly \<open>months\<close>; the day is kept, or is the month's last.\<close>

lemma add_months_Some:
  assumes "add_months a k = Some b"
  shows "valid_date b" and "month_count b = month_count a + k"
    and "date_day b = min (date_day a) (days_in_month (date_year b) (date_month b))"
proof -
  obtain y m d where a: "a = Date y m d" by (cases a)
  obtain q r where qr: "q = (m - 1 + k) div 12" "r = (m - 1 + k) mod 12" by simp
  have b: "b = Date (y + q) (r + 1) (min d (days_in_month (y + q) (r + 1)))" and v: "valid_date b"
    using assms unfolding a add_months.simps Let_def qr [symmetric] mk_date_Some
    by blast+
  show "valid_date b" by (rule v)
  have "m - 1 + k = q * 12 + r" unfolding qr by simp
  then show "month_count b = month_count a + k"
    unfolding a b month_count_def by simp
  show "date_day b = min (date_day a) (days_in_month (date_year b) (date_month b))"
    unfolding a b by simp
qed

lemma add_months_defined:
  assumes "valid_date a" "0 \<le> k" "month_count a + k < 12 * 10000"
  shows "add_months a k \<noteq> None"
proof -
  obtain y m d where a: "a = Date y m d" by (cases a)
  have "0 \<le> (m - 1 + k) mod 12" "(m - 1 + k) mod 12 < 12" by simp_all
  moreover have "0 \<le> (m - 1 + k) div 12" using assms a by (simp add: pos_imp_zdiv_nonneg_iff)
  moreover have "y + (m - 1 + k) div 12 \<le> 9999"
    using assms a add_months_year_month [of y m k] by (simp add: month_count_def)
  ultimately show ?thesis
    using assms a days_in_month_bounds(1) [of "y + (m - 1 + k) div 12" "(m - 1 + k) mod 12 + 1"]
    by (auto simp: Let_def mk_date_def)
qed

lemma add_months_less:
  assumes "valid_date a" "0 < k" "add_months a k = Some b"
  shows "a < b"
  using add_months_Some [OF assms(3)] assms by (intro month_count_less) auto

lemma date_le_iff_month:
  "valid_date a \<Longrightarrow> valid_date b \<Longrightarrow>
   a \<le> b \<longleftrightarrow> month_count a < month_count b \<or> month_count a = month_count b \<and> date_day a \<le> date_day b"
  by (cases a; cases b) (auto simp: less_eq_date_def month_count_def)

lemma add_months_mono:
  assumes "valid_date a" "valid_date a'" "a \<le> a'" "add_months a k = Some b" "add_months a' k = Some b'"
  shows "b \<le> b'"
proof (cases "month_count a < month_count a'")
  case True
  then show ?thesis
    using add_months_Some [OF assms(4)] add_months_Some [OF assms(5)] by (simp add: date_le_iff_month)
next
  case False
  then have eq: "month_count a = month_count a'" and day: "date_day a \<le> date_day a'"
    using assms(1-3) by (auto simp: date_le_iff_month)
  have "month_count b = month_count b'"
    using add_months_Some(2) [OF assms(4)] add_months_Some(2) [OF assms(5)] eq by simp
  moreover have "1 \<le> date_month b" "date_month b \<le> 12" "1 \<le> date_month b'" "date_month b' \<le> 12"
    using add_months_Some(1) [OF assms(4)] add_months_Some(1) [OF assms(5)] by (cases b; cases b'; simp)+
  ultimately have "date_year b = date_year b' \<and> date_month b = date_month b'"
    unfolding month_count_def by presburger
  then show ?thesis
    using add_months_Some [OF assms(4)] add_months_Some [OF assms(5)] day
    by (auto simp: less_eq_date_def)
qed

section \<open>Instants\<close>

type_synonym datetime = int

definition day_us :: int where "day_us = 86400000000"

definition second_us :: int where "second_us = 1000000"

definition seoul_offset_us :: int where "seoul_offset_us = 9 * 3600 * 1000000"

text \<open>\<open>datetime.combine(d, t, tzinfo=SEOUL_TZ)\<close>, with \<open>t\<close> the microseconds since midnight.\<close>

definition seoul_datetime :: "date \<Rightarrow> int \<Rightarrow> datetime" where
  "seoul_datetime d t = date_ordinal d * day_us + t - seoul_offset_us"

text \<open>\<open>dt.astimezone(SEOUL_TZ).date()\<close> (its ordinal, and the date) and \<open>.time()\<close>.\<close>

definition seoul_day :: "datetime \<Rightarrow> int" where
  "seoul_day t = (t + seoul_offset_us) div day_us"

definition seoul_date :: "datetime \<Rightarrow> date" where
  "seoul_date t = date_of_ordinal (seoul_day t)"

definition seoul_time :: "datetime \<Rightarrow> int" where
  "seoul_time t = (t + seoul_offset_us) mod day_us"

lemma seoul_day_datetime:
  assumes "0 \<le> t" "t < day_us"
  shows "seoul_day (seoul_datetime d t) = date_ordinal d" and "seoul_time (seoul_datetime d t) = t"
proof -
  have "seoul_datetime d t + seoul_offset_us = day_us * date_ordinal d + t"
    by (simp add: seoul_datetime_def)
  then show "seoul_day (seoul_datetime d t) = date_ordinal d" "seoul_time (seoul_datetime d t) = t"
    using assms unfolding seoul_day_def seoul_time_def
    by (simp_all only: int_div_pos_eq [of _ day_us "date_ordinal d" t] int_mod_pos_eq [of _ day_us "date_ordinal d" t])
qed

text \<open>An instant lies in the Seoul day that starts at its date's midnight.\<close>

lemma seoul_day_bounds:
  "seoul_day t * day_us - seoul_offset_us \<le> t" "t < (seoul_day t + 1) * day_us - seoul_offset_us"
proof -
  obtain r where r: "r = (t + seoul_offset_us) mod day_us" by simp
  have "t + seoul_offset_us = seoul_day t * day_us + r"
    unfolding seoul_day_def r by simp
  moreover have "0 \<le> r" "r < day_us" using r by (simp_all add: day_us_def)
  ultimately show "seoul_day t * day_us - seoul_offset_us \<le> t" "t < (seoul_day t + 1) * day_us - seoul_offset_us"
    by (simp_all add: distrib_right)
qed

lemma seoul_midnight_le_iff:
  "seoul_datetime d 0 \<le> t \<longleftrightarrow> date_ordinal d \<le> seoul_day t"
proof
  assume "seoul_datetime d 0 \<le> t"
  then have "date_ordinal d * day_us < (seoul_day t + 1) * day_us"
    using seoul_day_bounds(2) [of t] by (simp add: seoul_datetime_def)
  then show "date_ordinal d \<le> seoul_day t" by (simp add: day_us_def)
next
  assume "date_ordinal d \<le> seoul_day t"
  then have "date_ordinal d * day_us \<le> seoul_day t * day_us" by (simp add: day_us_def)
  then show "seoul_datetime d 0 \<le> t" using seoul_day_bounds(1) [of t] by (simp add: seoul_datetime_def)
qed

lemma seoul_date_valid:
  assumes "1 \<le> seoul_day t" and "seoul_day t \<le> 3652059"
  shows "valid_date (seoul_date t)" and "date_ordinal (seoul_date t) = seoul_day t"
  using date_of_ordinal_valid [OF assms] by (simp_all add: seoul_date_def)

end
