(* ===== verification/Text_Codec.thy ===== *)
theory Text_Codec
  imports Calendar
begin

text \<open>
  The textual forms of \<open>uuid.UUID\<close> and of UTC \<open>datetime\<close> values that the backend writes
  into JSON payloads and idempotency keys (\<open>str(uuid)\<close>, \<open>datetime.isoformat()\<close>) and the
  parsers that read them back. The parsers accept the written forms (\<open>UUID\<close> in either
  case, with or without dashes); the further spellings of Python's \<open>UUID(...)\<close> and
  \<open>fromisoformat\<close> are not modelled, since these parsers only ever see written values.
\<close>

section \<open>Positional digits\<close>

text \<open>\<open>str(n)\<close> of a natural number.\<close>

fun nat_text :: "nat \<Rightarrow> ustr" where
  "nat_text n = (if n < 10 then [48 + n] else nat_text (n div 10) @ [48 + n mod 10])"

declare nat_text.simps [simp del]

fun digits_of :: "nat \<Rightarrow> nat \<Rightarrow> nat \<Rightarrow> nat list" where
  "digits_of base 0 x = []"
| "digits_of base (Suc n) x = digits_of base n (x div base) @ [x mod base]"

definition number_of :: "nat \<Rightarrow> nat list \<Rightarrow> nat" where
  "number_of base ds = foldl (\<lambda>a d. base * a + d) 0 ds"

lemma length_digits_of [simp]: "length (digits_of b n x) = n"
  by (induction n arbitrary: x) auto

lemma digits_of_less: "0 < b \<Longrightarrow> d \<in> set (digits_of b n x) \<Longrightarrow> d < b"
  by (induction n arbitrary: x) auto

lemma number_of_snoc: "number_of b (ds @ [d]) = b * number_of b ds + d"
  by (simp add: number_of_def)

lemma number_of_digits_of: "number_of b (digits_of b n x) = x mod b ^ n"
proof (induction n arbitrary: x)
  case 0
  then show ?case by (simp add: number_of_def)
next
  case (Suc n)
  then show ?case by (simp add: number_of_snoc mod_mult2_eq)
qed

section \<open>UUIDs\<close>

definition hex_char :: "nat \<Rightarrow> nat" where
  "hex_char d = (if d < 10 then 48 + d else 87 + d)"

definition hex_value :: "nat \<Rightarrow> nat option" where
  "hex_value c =
     (if 48 \<le> c \<and> c \<le> 57 then Some (c - 48)
      else if 97 \<le> c \<and> c \<le> 102 then Some (c - 87)
      else if 65 \<le> c \<and> c \<le> 70 then Some (c - 55) else None)"

definition uuid_hex :: "uuid \<Rightarrow> ustr" where
  "uuid_hex u = map hex_char (digits_of 16 32 (unat u))"

definition uuid_str :: "uuid \<Rightarrow> ustr" where
  "uuid_str u =
     (let h = uuid_hex u
      in take 8 h @ [45] @ take 4 (drop 8 h) @ [45] @ take 4 (drop 12 h) @ [45] @
         take 4 (drop 16 h) @ [45] @ drop 20 h)"

fun read_all :: "('a \<Rightarrow> 'b option) \<Rightarrow> 'a list \<Rightarrow> 'b list option" where
  "read_all f [] = Some []"
| "read_all f (x # xs) =
     (case f x of None \<Rightarrow> None | Some y \<Rightarrow> map_option (\<lambda>ys. y # ys) (read_all f xs))"

definition uuid_parse :: "ustr \<Rightarrow> uuid option" where
  "uuid_parse s =
     (let h = filter (\<lambda>c. c \<noteq> 45) s
      in if length h \<noteq> 32 then None
         else map_option (\<lambda>ds. word_of_nat (number_of 16 ds)) (read_all hex_value h))"

lemma read_all_map: "(\<And>x. x \<in> set xs \<Longrightarrow> f (g x) = Some x) \<Longrightarrow> read_all f (map g xs) = Some xs"
  by (induction xs) auto

lemma hex_value_char: "d < 16 \<Longrightarrow> hex_value (hex_char d) = Some d"
  by (auto simp: hex_value_def hex_char_def)

lemma hex_char_not_dash: "hex_char d \<noteq> 45"
  by (simp add: hex_char_def)

lemma length_uuid_hex [simp]: "length (uuid_hex u) = 32"
  by (simp add: uuid_hex_def del: digits_of.simps)

lemma length_uuid_str: "length (uuid_str u) = 36"
  by (simp add: uuid_str_def Let_def)

lemma take_drop_join: "take n (drop k xs) @ drop (k + n) xs = drop k xs"
  using append_take_drop_id [of n "drop k xs"] by (simp add: add.commute)

lemma filter_dash_uuid_str: "filter (\<lambda>c. c \<noteq> 45) (uuid_str u) = uuid_hex u"
proof -
  have all: "filter (\<lambda>c. c \<noteq> 45) xs = xs" if "set xs \<subseteq> set (uuid_hex u)" for xs
    using that hex_char_not_dash by (intro filter_True) (auto simp: uuid_hex_def)
  have sub: "set (take n (drop k (uuid_hex u))) \<subseteq> set (uuid_hex u)"
    "set (take n (uuid_hex u)) \<subseteq> set (uuid_hex u)" "set (drop k (uuid_hex u)) \<subseteq> set (uuid_hex u)" for n k
    by (meson order_trans set_take_subset set_drop_subset)+
  have "filter (\<lambda>c. c \<noteq> 45) (uuid_str u) =
      take 8 (uuid_hex u) @ take 4 (drop 8 (uuid_hex u)) @ take 4 (drop 12 (uuid_hex u)) @
      take 4 (drop 16 (uuid_hex u)) @ drop 20 (uuid_hex u)"
    unfolding uuid_str_def Let_def by (simp add: all sub)
  also have "\<dots> = uuid_hex u"
    using take_drop_join [of 4 8 "uuid_hex u"] take_drop_join [of 4 12 "uuid_hex u"]
      take_drop_join [of 4 16 "uuid_hex u"] by simp
  finally show ?thesis .
qed

theorem uuid_parse_str: "uuid_parse (uuid_str u) = Some u"
proof -
  have "read_all hex_value (uuid_hex u) = Some (digits_of 16 32 (unat u))"
    unfolding uuid_hex_def by (rule read_all_map) (simp add: hex_value_char digits_of_less del: digits_of.simps)
  moreover have "number_of 16 (digits_of 16 32 (unat u)) = unat u"
    using unsigned_less [of u, where ?'a = nat] by (simp add: number_of_digits_of del: digits_of.simps)
  ultimately show ?thesis
    by (simp add: uuid_parse_def Let_def filter_dash_uuid_str)
qed

lemma uuid_str_inj [simp]: "uuid_str u = uuid_str v \<longleftrightarrow> u = v"
  by (metis uuid_parse_str option.inject)

section \<open>Decimal fields and ISO 8601 instants\<close>

definition dec_char :: "nat \<Rightarrow> nat" where
  "dec_char d = 48 + d"

definition dec_value :: "nat \<Rightarrow> nat option" where
  "dec_value c = (if 48 \<le> c \<and> c \<le> 57 then Some (c - 48) else None)"

text \<open>\<open>'%0nd' % x\<close> and its reading.\<close>

definition dec_field :: "nat \<Rightarrow> int \<Rightarrow> ustr" where
  "dec_field n x = map dec_char (digits_of 10 n (nat x))"

definition dec_read :: "ustr \<Rightarrow> int option" where
  "dec_read s = map_option (\<lambda>ds. int (number_of 10 ds)) (read_all dec_value s)"

lemma length_dec_field [simp]: "length (dec_field n x) = n"
  by (simp add: dec_field_def)

lemma dec_read_field:
  assumes "0 \<le> x" "x < 10 ^ n"
  shows "dec_read (dec_field n x) = Some x"
proof -
  have "read_all dec_value (dec_field n x) = Some (digits_of 10 n (nat x))"
    unfolding dec_field_def
    by (rule read_all_map) (use digits_of_less [of 10] in \<open>fastforce simp: dec_value_def dec_char_def\<close>)
  moreover have "nat x mod 10 ^ n = nat x"
    using assms by (intro mod_less) (metis nat_less_iff of_nat_numeral of_nat_power)
  ultimately show ?thesis using assms(1)
    by (simp add: dec_read_def number_of_digits_of)
qed

lemma dec_read_2: "0 \<le> x \<Longrightarrow> x < 100 \<Longrightarrow> dec_read (dec_field 2 x) = Some x"
  by (rule dec_read_field) simp_all

lemma dec_read_4: "0 \<le> x \<Longrightarrow> x < 10000 \<Longrightarrow> dec_read (dec_field 4 x) = Some x"
  by (rule dec_read_field) simp_all

text \<open>
  \<open>datetime.isoformat()\<close> of a UTC instant: \<open>YYYY-MM-DDTHH:MM:SS[.ffffff]+00:00\<close>, the
  fraction only when it is not zero.
\<close>

definition valid_instant :: "datetime \<Rightarrow> bool" where
  "valid_instant t \<longleftrightarrow> 1 \<le> t div day_us \<and> t div day_us \<le> 3652059"

definition isoformat :: "datetime \<Rightarrow> ustr" where
  "isoformat t =
     (let d = date_of_ordinal (t div day_us); s = (t mod day_us) div second_us; us = t mod second_us
      in dec_field 4 (date_year d) @ [45] @ dec_field 2 (date_month d) @ [45] @ dec_field 2 (date_day d) @
         [84] @ dec_field 2 (s div 3600) @ [58] @ dec_field 2 (s div 60 mod 60) @ [58] @ dec_field 2 (s mod 60) @
         (if us = 0 then [] else [46] @ dec_field 6 us) @ [43, 48, 48, 58, 48, 48])"

text \<open>\<open>datetime.fromisoformat\<close> on the forms above.\<close>

definition fromisoformat :: "ustr \<Rightarrow> datetime option" where
  "fromisoformat s =
     (let frac = (if length s = 25 then Some 0
                  else if length s = 32 \<and> s ! 19 = 46 then dec_read (take 6 (drop 20 s)) else None);
          zone = drop (length s - 6) s
      in case (dec_read (take 4 s), dec_read (take 2 (drop 5 s)), dec_read (take 2 (drop 8 s)),
               dec_read (take 2 (drop 11 s)), dec_read (take 2 (drop 14 s)), dec_read (take 2 (drop 17 s)), frac)
         of (Some y, Some mo, Some d, Some h, Some mi, Some se, Some us) \<Rightarrow>
              if valid_date (Date y mo d) \<and> h < 24 \<and> mi < 60 \<and> se < 60 \<and>
                 s ! 4 = 45 \<and> s ! 7 = 45 \<and> s ! 10 = 84 \<and> s ! 13 = 58 \<and> s ! 16 = 58 \<and>
                 zone = [43, 48, 48, 58, 48, 48]
              then Some (date_ordinal (Date y mo d) * day_us + ((h * 60 + mi) * 60 + se) * second_us + us)
              else None
          | _ \<Rightarrow> None)"

lemma length2E: "length xs = 2 \<Longrightarrow> \<exists>a b. xs = [a, b]"
  by (auto simp: length_Suc_conv numeral_2_eq_2)

lemma length4E: "length xs = 4 \<Longrightarrow> \<exists>a b c d. xs = [a, b, c, d]"
  by (auto simp: length_Suc_conv numeral_eq_Suc)

lemma iso_slices:
  assumes "length y = 4" "length mo = 2" "length d = 2" "length h = 2" "length mi = 2" "length se = 2"
    and "length z = 6" and s: "s = y @ [45] @ mo @ [45] @ d @ [84] @ h @ [58] @ mi @ [58] @ se @ f @ z"
  shows "length s = 25 + length f" "take 4 s = y" "take 2 (drop 5 s) = mo" "take 2 (drop 8 s) = d"
    "take 2 (drop 11 s) = h" "take 2 (drop 14 s) = mi" "take 2 (drop 17 s) = se"
    "s ! 4 = 45" "s ! 7 = 45" "s ! 10 = 84" "s ! 13 = 58" "s ! 16 = 58"
    "drop (length s - 6) s = z" "drop 19 s = f @ z"
proof -
  obtain y1 y2 y3 y4 m1 m2 d1 d2 h1 h2 i1 i2 s1 s2 where
    e: "y = [y1, y2, y3, y4]" "mo = [m1, m2]" "d = [d1, d2]" "h = [h1, h2]" "mi = [i1, i2]" "se = [s1, s2]"
    using length4E length2E assms(1-6) by meson
  obtain p where p: "p = y @ [45] @ mo @ [45] @ d @ [84] @ h @ [58] @ mi @ [58] @ se" by simp
  have sp: "s = (p @ f) @ z" and len: "length p = 19" using s p e by simp_all
  show "length s = 25 + length f" using sp len assms(7) by simp
  show "drop (length s - 6) s = z" "drop 19 s = f @ z" using sp len assms(7) by simp_all
  show "take 4 s = y" "take 2 (drop 5 s) = mo" "take 2 (drop 8 s) = d"
    "take 2 (drop 11 s) = h" "take 2 (drop 14 s) = mi" "take 2 (drop 17 s) = se"
    "s ! 4 = 45" "s ! 7 = 45" "s ! 10 = 84" "s ! 13 = 58" "s ! 16 = 58"
    unfolding s e by simp_all
qed

lemma iso_fraction:
  assumes "drop 19 s = f @ z" "length z = 6" "length s = 25 + length f"
    and "f = (if us = 0 then [] else [46] @ dec_field 6 us)" "0 \<le> us" "us < 1000000"
  shows "(if length s = 25 then Some 0
     else if length s = 32 \<and> s ! 19 = 46 then dec_read (take 6 (drop 20 s)) else None) = Some us"
proof (cases "us = 0")
  case False
  then have f: "f = 46 # dec_field 6 us" using assms(4) by simp
  have "s ! 19 = 46" using assms(1,3) f nth_drop [of 19 s 0] by simp
  moreover have "drop 20 s = dec_field 6 us @ z"
    using assms(1) f drop_drop [of 1 19 s] by simp
  ultimately show ?thesis using f assms(3,5,6) by (simp add: dec_read_field)
qed (use assms in simp)

lemma clock_fields:
  assumes "0 \<le> (s::int)" "s < 86400"
  shows "0 \<le> s div 3600" "s div 3600 < 24" "0 \<le> s div 60 mod 60" "s div 60 mod 60 < 60"
    "0 \<le> s mod 60" "s mod 60 < 60" "(s div 3600 * 60 + s div 60 mod 60) * 60 + s mod 60 = s"
proof -
  have "s div 3600 = s div 60 div 60" by (simp add: zdiv_zmult2_eq [symmetric])
  then show "(s div 3600 * 60 + s div 60 mod 60) * 60 + s mod 60 = s" by simp
  show "s div 3600 < 24" using assms by linarith
qed (use assms in \<open>simp_all add: pos_imp_zdiv_nonneg_iff\<close>)

theorem fromisoformat_isoformat:
  assumes "valid_instant t"
  shows "fromisoformat (isoformat t) = Some t"
proof -
  obtain y m d where date: "date_of_ordinal (t div day_us) = Date y m d" by (cases "date_of_ordinal (t div day_us)")
  have v: "valid_date (Date y m d)" and o: "date_ordinal (Date y m d) = t div day_us"
    using date_of_ordinal_valid [of "t div day_us"] assms date unfolding valid_instant_def by metis+
  have dim: "d \<le> 31" using v days_in_month_bounds(2) [of y m] by simp
  obtain s where s: "s = (t mod day_us) div second_us" by simp
  obtain us where us: "us = t mod second_us" by simp
  have "0 \<le> t mod day_us" "t mod day_us < 86400 * second_us" by (simp_all add: day_us_def second_us_def)
  then have sb: "0 \<le> s" "s < 86400" unfolding s second_us_def by linarith+
  have ub: "0 \<le> us" "us < 1000000" unfolding us second_us_def by simp_all
  have "t mod day_us mod second_us = us" unfolding us day_us_def second_us_def by (rule mod_mod_cancel) simp
  then have "t mod day_us = s * second_us + us" using s by (metis div_mult_mod_eq)
  then have t: "(t div day_us) * day_us + s * second_us + us = t" by (metis add.assoc div_mult_mod_eq)
  obtain f where f: "f = (if us = 0 then [] else [46] @ dec_field 6 us)" by simp
  have iso: "isoformat t = dec_field 4 y @ [45] @ dec_field 2 m @ [45] @ dec_field 2 d @ [84] @ dec_field 2 (s div 3600)
      @ [58] @ dec_field 2 (s div 60 mod 60) @ [58] @ dec_field 2 (s mod 60) @ f @ [43, 48, 48, 58, 48, 48]"
    unfolding isoformat_def Let_def date date.sel s [symmetric] us [symmetric] f by simp
  have z6: "length [43, 48, 48, 58, 48, 48 :: nat] = 6" by simp
  note sl = iso_slices [OF length_dec_field length_dec_field length_dec_field length_dec_field length_dec_field
    length_dec_field z6 iso]
  note frac = iso_fraction [OF sl(14) z6 sl(1) f ub]
  note cf = clock_fields(1-6) [OF sb]
  have yb: "0 \<le> y" "y < 10000" "0 \<le> m" "m < 100" "0 \<le> d" "d < 100" using v dim by simp_all
  have cf': "s div 3600 < 100" "s div 60 mod 60 < 100" "s mod 60 < 100" using cf by linarith+
  have reads: "dec_read (dec_field 4 y) = Some y" "dec_read (dec_field 2 m) = Some m" "dec_read (dec_field 2 d) = Some d"
    "dec_read (dec_field 2 (s div 3600)) = Some (s div 3600)"
    "dec_read (dec_field 2 (s div 60 mod 60)) = Some (s div 60 mod 60)"
    "dec_read (dec_field 2 (s mod 60)) = Some (s mod 60)"
    by (rule dec_read_4 [OF yb(1,2)] dec_read_2 [OF yb(3,4)] dec_read_2 [OF yb(5,6)]
        dec_read_2 [OF cf(1) cf'(1)] dec_read_2 [OF cf(3) cf'(2)] dec_read_2 [OF cf(5) cf'(3)])+
  show ?thesis
    unfolding fromisoformat_def Let_def frac sl(2-13) reads
    by (simp only: v cf clock_fields(7) [OF sb] o t prod.case option.case simp_thms if_True)
qed

end
