(* ===== verification/Core_Domain.thy ===== *)
theory Core_Domain
  imports Text_Codec
begin

text \<open>
  The shared domain primitives of \<open>app/core\<close>: the exception classes of the whole backend
  with their hierarchy, the HTTP status each gets from the handlers that \<open>app/main.py\<close>
  registers, the \<open>Notification\<close> that collects validation failures, and the recording of
  domain events on an aggregate.
\<close>

section \<open>Exceptions\<close>

text \<open>
  \<open>ErrorDetail(field, message)\<close>. The messages of the source are Korean sentences; a
  message is named here by an ASCII identifier, one per sentence of the source.
\<close>

datatype error_detail = ErrorDetail (detail_field: string) (detail_message: string)

text \<open>
  The exceptions the modelled code raises or catches. The classes of third-party packages
  that the code names are \<open>IntegrityError\<close> (with the violated constraint), \<open>DataError\<close> and
  \<open>PendingRollbackError\<close> of SQLAlchemy, \<open>HttpClientError\<close> (\<open>httpx.HTTPError\<close>, in the OCR client also for \<open>OSError\<close>); \<open>PyValueError\<close>, \<open>PyKeyError\<close>, \<open>PyOverflowError\<close>, \<open>PyOSError\<close>, \<open>PyTypeError\<close> (also for
  \<open>AttributeError\<close>) and \<open>PyRuntimeError\<close> are Python's own;
  \<open>HandlerFailure\<close> is whatever an event handler or a provider call raises. \<open>FuelExhausted\<close> is no
  exception of the program: it marks a run of a loop that the model has cut off, and no run that has
  the stated fuel ends with it.
\<close>

datatype exn =
    ValidationError "error_detail list"
  | InvalidCreditTransactionCursorError
  | InvalidNotificationCursorError
  | NotFoundError string
  | ExternalServiceError
  | ReceiptImageUnreadableError "int list"
  | PromotionNotFoundError
  | PromotionCodeNotFoundError
  | ReceiptNotFoundError uuid
  | PromotionRedemptionConflictError string
  | InsufficientCreditError
  | UnsupportedReceiptError "int list" "int list"
  | AuthenticationError
  | AuthenticationRequiredError
  | AuthorizationError
  | UserNotRegisteredError
  | UserAlreadyExistsError
  | FileNotFoundError uuid
  | ConflictError string
  | ReceiptOcrProviderUnavailableError
  | CreditTransactionWriteConflictError
  | IntegrityError string
  | DataError
  | PendingRollbackError
  | StaleDataError
  | UnregisteredEventTypeError string
  | ConflictingEventTypeError string
  | PyValueError
  | PyKeyError string
  | PyTypeError
  | PyOverflowError
  | PyOSError
  | HttpClientError
  | PyRuntimeError
  | HandlerFailure
  | FuelExhausted

text \<open>The classes, each with its base class, as \<open>type(e).__mro__\<close> lists them.\<close>

datatype exn_class =
    C_Exception | C_DomainError | C_ValidationError | C_NotFoundError | C_ConflictError
  | C_ExternalServiceError | C_AuthenticationError | C_AuthorizationError
  | C_InvalidCreditTransactionCursorError | C_InvalidNotificationCursorError | C_ReceiptImageUnreadableError
  | C_PromotionNotFoundError | C_PromotionCodeNotFoundError | C_ReceiptNotFoundError
  | C_PromotionRedemptionConflictError | C_InsufficientCreditError
  | C_UnsupportedReceiptError | C_ReceiptOcrProviderUnavailableError | C_AuthenticationRequiredError
  | C_UserNotRegisteredError | C_UserAlreadyExistsError | C_FileNotFoundError | C_OtherException

fun mro :: "exn_class \<Rightarrow> exn_class list" where
  "mro C_Exception = [C_Exception]"
| "mro C_OtherException = [C_OtherException, C_Exception]"
| "mro C_DomainError = [C_DomainError, C_Exception]"
| "mro C_ValidationError = [C_ValidationError, C_DomainError, C_Exception]"
| "mro C_NotFoundError = [C_NotFoundError, C_DomainError, C_Exception]"
| "mro C_ConflictError = [C_ConflictError, C_DomainError, C_Exception]"
| "mro C_ExternalServiceError = [C_ExternalServiceError, C_DomainError, C_Exception]"
| "mro C_AuthenticationError = [C_AuthenticationError, C_DomainError, C_Exception]"
| "mro C_AuthorizationError = [C_AuthorizationError, C_DomainError, C_Exception]"
| "mro C_InvalidCreditTransactionCursorError =
     [C_InvalidCreditTransactionCursorError, C_ValidationError, C_DomainError, C_Exception]"
| "mro C_InvalidNotificationCursorError = [C_InvalidNotificationCursorError, C_DomainError, C_Exception]"
| "mro C_ReceiptImageUnreadableError =
     [C_ReceiptImageUnreadableError, C_ValidationError, C_DomainError, C_Exception]"
| "mro C_PromotionNotFoundError = [C_PromotionNotFoundError, C_NotFoundError, C_DomainError, C_Exception]"
| "mro C_PromotionCodeNotFoundError =
     [C_PromotionCodeNotFoundError, C_NotFoundError, C_DomainError, C_Exception]"
| "mro C_ReceiptNotFoundError = [C_ReceiptNotFoundError, C_NotFoundError, C_DomainError, C_Exception]"
| "mro C_PromotionRedemptionConflictError =
     [C_PromotionRedemptionConflictError, C_ConflictError, C_DomainError, C_Exception]"
| "mro C_InsufficientCreditError = [C_InsufficientCreditError, C_ConflictError, C_DomainError, C_Exception]"
| "mro C_UnsupportedReceiptError = [C_UnsupportedReceiptError, C_DomainError, C_Exception]"
| "mro C_ReceiptOcrProviderUnavailableError =
     [C_ReceiptOcrProviderUnavailableError, C_DomainError, C_Exception]"
| "mro C_AuthenticationRequiredError =
     [C_AuthenticationRequiredError, C_AuthenticationError, C_DomainError, C_Exception]"
| "mro C_UserNotRegisteredError = [C_UserNotRegisteredError, C_NotFoundError, C_DomainError, C_Exception]"
| "mro C_UserAlreadyExistsError = [C_UserAlreadyExistsError, C_ConflictError, C_DomainError, C_Exception]"
| "mro C_FileNotFoundError = [C_FileNotFoundError, C_NotFoundError, C_DomainError, C_Exception]"

fun class_of :: "exn \<Rightarrow> exn_class" where
  "class_of (ValidationError _) = C_ValidationError"
| "class_of InvalidCreditTransactionCursorError = C_InvalidCreditTransactionCursorError"
| "class_of InvalidNotificationCursorError = C_InvalidNotificationCursorError"
| "class_of (NotFoundError _) = C_NotFoundError"
| "class_of ExternalServiceError = C_ExternalServiceError"
| "class_of (ReceiptImageUnreadableError _) = C_ReceiptImageUnreadableError"
| "class_of PromotionNotFoundError = C_PromotionNotFoundError"
| "class_of PromotionCodeNotFoundError = C_PromotionCodeNotFoundError"
| "class_of (ReceiptNotFoundError _) = C_ReceiptNotFoundError"
| "class_of (PromotionRedemptionConflictError _) = C_PromotionRedemptionConflictError"
| "class_of InsufficientCreditError = C_InsufficientCreditError"
| "class_of (UnsupportedReceiptError _ _) = C_UnsupportedReceiptError"
| "class_of ReceiptOcrProviderUnavailableError = C_ReceiptOcrProviderUnavailableError"
| "class_of AuthenticationError = C_AuthenticationError"
| "class_of AuthenticationRequiredError = C_AuthenticationRequiredError"
| "class_of AuthorizationError = C_AuthorizationError"
| "class_of UserNotRegisteredError = C_UserNotRegisteredError"
| "class_of UserAlreadyExistsError = C_UserAlreadyExistsError"
| "class_of (FileNotFoundError _) = C_FileNotFoundError"
| "class_of (ConflictError _) = C_ConflictError"
| "class_of _ = C_OtherException"

definition is_instance :: "exn_class \<Rightarrow> exn \<Rightarrow> bool" where
  "is_instance c e \<longleftrightarrow> c \<in> set (mro (class_of e))"

section \<open>HTTP status\<close>

text \<open>
  \<open>_register_exception_handlers\<close> and the status each registered handler answers with.
  The dispatch takes the handler of the first class of the exception's MRO that has one.
\<close>

definition registered_handlers :: "(exn_class \<times> int) list" where
  "registered_handlers =
     [(C_ValidationError, 422), (C_NotFoundError, 404), (C_ConflictError, 409),
      (C_ExternalServiceError, 503), (C_AuthenticationError, 401), (C_AuthorizationError, 403),
      (C_ReceiptOcrProviderUnavailableError, 503), (C_ReceiptImageUnreadableError, 422),
      (C_UnsupportedReceiptError, 422), (C_DomainError, 400), (C_Exception, 500)]"

fun first_handler :: "(exn_class \<times> int) list \<Rightarrow> exn_class list \<Rightarrow> int option" where
  "first_handler hs [] = None"
| "first_handler hs (c # cs) = (case map_of hs c of Some st \<Rightarrow> Some st | None \<Rightarrow> first_handler hs cs)"

definition http_status :: "exn \<Rightarrow> int option" where
  "http_status e = first_handler registered_handlers (mro (class_of e))"

lemma http_status_simps:
  "http_status (ValidationError ds) = Some 422"
  "http_status InvalidCreditTransactionCursorError = Some 422"
  "http_status InvalidNotificationCursorError = Some 400"
  "http_status (NotFoundError m) = Some 404"
  "http_status ExternalServiceError = Some 503"
  "http_status (ReceiptImageUnreadableError is) = Some 422"
  "http_status PromotionNotFoundError = Some 404"
  "http_status PromotionCodeNotFoundError = Some 404"
  "http_status (ReceiptNotFoundError u) = Some 404"
  "http_status (PromotionRedemptionConflictError m) = Some 409"
  "http_status InsufficientCreditError = Some 409"
  "http_status (UnsupportedReceiptError us rs) = Some 422"
  "http_status ReceiptOcrProviderUnavailableError = Some 503"
  "http_status AuthenticationError = Some 401"
  "http_status AuthenticationRequiredError = Some 401"
  "http_status AuthorizationError = Some 403"
  "http_status UserNotRegisteredError = Some 404"
  "http_status UserAlreadyExistsError = Some 409"
  "http_status (FileNotFoundError u) = Some 404"
  "http_status (ConflictError m) = Some 409"
  by (simp_all add: http_status_def registered_handlers_def)

lemma http_status_total: "\<exists>st. http_status e = Some st"
  by (cases e) (simp_all add: http_status_def registered_handlers_def)

lemma http_status_500_iff: "http_status e = Some 500 \<longleftrightarrow> \<not> is_instance C_DomainError e"
  by (cases e) (simp_all add: http_status_def registered_handlers_def is_instance_def)

section \<open>Collecting validation failures\<close>

text \<open>
  The details of a \<open>ValidationError\<close>, subclasses included: those carry the detail their
  constructor builds.
\<close>

fun validation_details :: "exn \<Rightarrow> error_detail list option" where
  "validation_details (ValidationError ds) = Some ds"
| "validation_details InvalidCreditTransactionCursorError = Some [ErrorDetail ''cursor'' ''invalid_cursor'']"
| "validation_details (ReceiptImageUnreadableError _) = Some [ErrorDetail ''file'' ''receipt_image_unreadable'']"
| "validation_details _ = None"

lemma validation_details_iff: "validation_details e \<noteq> None \<longleftrightarrow> is_instance C_ValidationError e"
  by (cases e) (simp_all add: is_instance_def)

text \<open>
  \<open>Notification\<close>: its state is the list of details collected so far. \<open>collect\<close> runs a
  factory (here: takes its result), returns the value or \<open>None\<close> and appends the details of
  a \<open>ValidationError\<close>; other exceptions pass through. \<open>raise_if_any\<close> raises one
  \<open>ValidationError\<close> with all of them.
\<close>

type_synonym notification = "error_detail list"

definition collect :: "exn + 'a \<Rightarrow> (notification, exn, 'a option) action" where
  "collect factory ds =
     (case factory of
        Inr v \<Rightarrow> (Inr (Some v), ds)
      | Inl e \<Rightarrow> (case validation_details e of Some es \<Rightarrow> (Inr None, ds @ es) | None \<Rightarrow> (Inl e, ds)))"

definition raise_if_any :: "(notification, exn, unit) action" where
  "raise_if_any ds = (if ds \<noteq> [] then (Inl (ValidationError ds), ds) else (Inr (), ds))"

text \<open>The details a factory contributes: none where it succeeds.\<close>

definition failed_details :: "exn + 'a \<Rightarrow> error_detail list" where
  "failed_details r = (case r of Inr _ \<Rightarrow> [] | Inl e \<Rightarrow> (case validation_details e of Some es \<Rightarrow> es | None \<Rightarrow> []))"

text \<open>A factory that can only fail by a non-empty \<open>ValidationError\<close>, as value objects do.\<close>

definition validates :: "exn + 'a \<Rightarrow> bool" where
  "validates r \<longleftrightarrow> (\<forall>e. r = Inl e \<longrightarrow> (\<exists>d es. validation_details e = Some (d # es)))"

lemma validates_simps [simp]:
  "validates (Inr v)"
  "validates (Inl (ValidationError (d # es)))"
  "validates (if b then r1 else r2) \<longleftrightarrow> (if b then validates r1 else validates r2)"
  by (auto simp: validates_def)

lemma validates_bindE: "validates r \<Longrightarrow> (\<And>v. r = Inr v \<Longrightarrow> validates (f v)) \<Longrightarrow> validates (bindE r f)"
  by (cases r) (auto simp: validates_def)

lemma failed_details_Inr [simp]: "failed_details (Inr v) = []"
  by (simp add: failed_details_def)

lemma failed_details_ValidationError [simp]: "failed_details (Inl (ValidationError es)) = es"
  by (simp add: failed_details_def)

lemma validates_Inr_iff: "validates r \<Longrightarrow> failed_details r = [] \<longleftrightarrow> (\<exists>v. r = Inr v)"
  by (cases r) (auto simp: validates_def failed_details_def)

definition value_of :: "exn + 'a \<Rightarrow> 'a option" where
  "value_of r = (case r of Inr v \<Rightarrow> Some v | Inl _ \<Rightarrow> None)"

lemma value_of_simps [simp]: "value_of (Inr v) = Some v" "value_of (Inl e) = None"
  by (simp_all add: value_of_def)

lemma collect_validates: "validates r \<Longrightarrow> collect r ds = (Inr (value_of r), ds @ failed_details r)"
  by (cases r) (auto simp: validates_def collect_def failed_details_def)

lemma bindA_collect [action_simps]:
  "validates r \<Longrightarrow> bindA (collect r) f ds = f (value_of r) (ds @ failed_details r)"
  by (simp add: bindA_def collect_validates)

lemma bindA_raise_if_any [action_simps]:
  "bindA raise_if_any f ds = (if ds = [] then f () [] else (Inl (ValidationError ds), ds))"
  by (simp add: bindA_def raise_if_any_def)

section \<open>Aggregates and their events\<close>

text \<open>
  \<open>AggregateRoot\<close>: \<open>record_event\<close> appends to the events of the aggregate, \<open>pull_events\<close>
  hands them over and clears them.
\<close>

record 'e aggregate_root =
  pending_events :: "'e list"

definition record_event :: "'e \<Rightarrow> ('e, 'z) aggregate_root_scheme \<Rightarrow> ('e, 'z) aggregate_root_scheme" where
  "record_event e a = a\<lparr>pending_events := pending_events a @ [e]\<rparr>"

definition pull_events :: "('e, 'z) aggregate_root_scheme \<Rightarrow> 'e list \<times> ('e, 'z) aggregate_root_scheme" where
  "pull_events a = (pending_events a, a\<lparr>pending_events := []\<rparr>)"

lemma pull_after_record: "fst (pull_events (record_event e a)) = fst (pull_events a) @ [e]"
  by (simp add: pull_events_def record_event_def)

lemma pull_twice: "fst (pull_events (snd (pull_events a))) = []"
  by (simp add: pull_events_def)

end
