(* ===== verification/Events.thy ===== *)
theory Events
  imports Core_Domain
begin

text \<open>
  The domain events of the modules and their way through the outbox payload:
  \<open>app/core/db/outbox/serialization.py\<close> (the type registry, the field codecs,
  \<open>serialize_event\<close> and \<open>deserialize_event\<close>) over the event classes of the modules'
  \<open>domain/events.py\<close>.
\<close>

section \<open>String enumerations\<close>

text \<open>
  A \<open>StrEnum\<close> has a value per member, and \<open>Enum(value)\<close> finds the member or raises
  \<open>ValueError\<close>. What the codecs rely on is stated once.
\<close>

locale str_enum =
  fixes val :: "'a \<Rightarrow> string" and of_val :: "string \<Rightarrow> 'a option"
  assumes of_val_val: "of_val (val m) = Some m"
    and val_of_val: "of_val s = Some m \<Longrightarrow> val m = s"
begin

lemma val_inj: "val m = val n \<longleftrightarrow> m = n"
  by (metis of_val_val option.inject)

lemma of_val_None: "of_val s = None \<longleftrightarrow> s \<notin> range val"
  by (metis of_val_val option.exhaust option.distinct(1) rangeE rangeI val_of_val)

end

datatype credit_reason = MONTHLY_OCR_ALLOWANCE | EVENT_OCR_ALLOWANCE | OCR_USAGE
datatype credit_source_type = PROMOTION_REDEMPTION | MONTHLY_ALLOWANCE | OCR_ANALYSIS
datatype message_type = TRANSACTIONAL | MARKETING
datatype notification_category = PRODUCT_MANAGEMENT | WARRANTY | BENEFIT

fun credit_reason_value :: "credit_reason \<Rightarrow> string" where
  "credit_reason_value MONTHLY_OCR_ALLOWANCE = ''monthlyOcrAllowance''"
| "credit_reason_value EVENT_OCR_ALLOWANCE = ''eventOcrAllowance''"
| "credit_reason_value OCR_USAGE = ''ocrUsage''"

definition credit_reason_of :: "string \<Rightarrow> credit_reason option" where
  "credit_reason_of s =
     find (\<lambda>m. credit_reason_value m = s) [MONTHLY_OCR_ALLOWANCE, EVENT_OCR_ALLOWANCE, OCR_USAGE]"

fun credit_source_value :: "credit_source_type \<Rightarrow> string" where
  "credit_source_value PROMOTION_REDEMPTION = ''promotionRedemption''"
| "credit_source_value MONTHLY_ALLOWANCE = ''monthlyAllowance''"
| "credit_source_value OCR_ANALYSIS = ''ocrAnalysis''"

definition credit_source_of :: "string \<Rightarrow> credit_source_type option" where
  "credit_source_of s =
     find (\<lambda>m. credit_source_value m = s) [PROMOTION_REDEMPTION, MONTHLY_ALLOWANCE, OCR_ANALYSIS]"

fun message_type_value :: "message_type \<Rightarrow> string" where
  "message_type_value TRANSACTIONAL = ''transactional''"
| "message_type_value MARKETING = ''marketing''"

definition message_type_of :: "string \<Rightarrow> message_type option" where
  "message_type_of s = find (\<lambda>m. message_type_value m = s) [TRANSACTIONAL, MARKETING]"

fun category_value :: "notification_category \<Rightarrow> string" where
  "category_value PRODUCT_MANAGEMENT = ''product_management''"
| "category_value WARRANTY = ''warranty''"
| "category_value BENEFIT = ''benefit''"

definition category_of :: "string \<Rightarrow> notification_category option" where
  "category_of s = find (\<lambda>m. category_value m = s) [PRODUCT_MANAGEMENT, WARRANTY, BENEFIT]"

text \<open>Any enumeration whose reader searches the list of all its members is one.\<close>

lemma str_enumI:
  assumes "\<And>s. of_val s = find (\<lambda>m. val m = s) ms" and "\<And>m. m \<in> set ms" and "\<And>m n. val m = val n \<Longrightarrow> m = n"
  shows "str_enum val of_val"
proof
  fix m
  show "of_val (val m) = Some m"
  proof (cases "find (\<lambda>n. val n = val m) ms")
    case None
    then show ?thesis using assms(2) by (simp add: find_None_iff_ball) blast
  next
    case (Some n)
    then show ?thesis using assms(1,3) find_SomeD [OF Some] by simp
  qed
next
  fix s m
  assume "of_val s = Some m"
  then show "val m = s" using assms(1) find_SomeD by fastforce
qed

interpretation reason: str_enum credit_reason_value credit_reason_of
proof (rule str_enumI [OF credit_reason_of_def])
  fix m show "m \<in> set [MONTHLY_OCR_ALLOWANCE, EVENT_OCR_ALLOWANCE, OCR_USAGE]" by (cases m) simp_all
  fix m n show "credit_reason_value m = credit_reason_value n \<Longrightarrow> m = n" by (cases m; cases n) simp_all
qed

interpretation source: str_enum credit_source_value credit_source_of
proof (rule str_enumI [OF credit_source_of_def])
  fix m show "m \<in> set [PROMOTION_REDEMPTION, MONTHLY_ALLOWANCE, OCR_ANALYSIS]" by (cases m) simp_all
  fix m n show "credit_source_value m = credit_source_value n \<Longrightarrow> m = n" by (cases m; cases n) simp_all
qed

interpretation msgtype: str_enum message_type_value message_type_of
proof (rule str_enumI [OF message_type_of_def])
  fix m show "m \<in> set [TRANSACTIONAL, MARKETING]" by (cases m) simp_all
  fix m n show "message_type_value m = message_type_value n \<Longrightarrow> m = n" by (cases m; cases n) simp_all
qed

interpretation category: str_enum category_value category_of
proof (rule str_enumI [OF category_of_def])
  fix m show "m \<in> set [PRODUCT_MANAGEMENT, WARRANTY, BENEFIT]" by (cases m) simp_all
  fix m n show "category_value m = category_value n \<Longrightarrow> m = n" by (cases m; cases n) simp_all
qed

section \<open>Event classes\<close>

datatype event_body =
    CreditGranted uuid int credit_reason "credit_source_type option" "uuid option" "ustr option"
  | CreditUsed uuid int credit_reason
  | UserCreditsDeleted uuid
  | PromotionRedemptionGranted uuid uuid uuid "uuid option" int ustr
  | NotificationCreated uuid uuid message_type ustr ustr ustr "ustr option" "uuid option" notification_category
  | UserCredentialCreated uuid uuid ustr
  | AccountWithdrawn uuid uuid
  | UserRegistered uuid "ustr option" "ustr option"
  | UserProfileImageChanged uuid "ustr option" "ustr option"
  | UserWithdrawn uuid
  | FileUploaded uuid uuid ustr ustr int ustr
  | FileDeleted uuid uuid "ustr list"

text \<open>
  \<open>DomainEvent\<close>: a fresh id, the instant of its creation and the version, which is 1
  wherever the code creates an event.
\<close>

record domain_event =
  ev_id :: uuid
  ev_occurred_at :: datetime
  ev_version :: int
  ev_body :: event_body

definition new_event :: "uuid \<Rightarrow> datetime \<Rightarrow> event_body \<Rightarrow> domain_event" where
  "new_event i t b = \<lparr>ev_id = i, ev_occurred_at = t, ev_version = 1, ev_body = b\<rparr>"

text \<open>A field value of an event object, its JSON form, and a field's declared type.\<close>

datatype enum_member =
    EReason credit_reason | ESource credit_source_type | EMessage message_type | ECategory notification_category

datatype field_value =
    FNone | FUuid uuid | FTime datetime | FEnum enum_member | FStr ustr | FInt int | FStrs "ustr list"

datatype json = JNull | JStr ustr | JInt int | JStrs "ustr list"

datatype field_type = TUuid | TTime | TReason | TSource | TMessage | TCategory | TStr | TInt | TStrList

text \<open>A default is absent, a constant, or a factory that makes a new value when it is called.\<close>

datatype field_default = NoDefault | Default field_value | NewUuid | NowUtc

record field_spec =
  fs_name :: string
  fs_type :: field_type
  fs_optional :: bool
  fs_default :: field_default

definition fld :: "string \<Rightarrow> field_type \<Rightarrow> field_spec" where
  "fld n t = \<lparr>fs_name = n, fs_type = t, fs_optional = False, fs_default = NoDefault\<rparr>"

definition opt_fld :: "string \<Rightarrow> field_type \<Rightarrow> field_spec" where
  "opt_fld n t = \<lparr>fs_name = n, fs_type = t, fs_optional = True, fs_default = NoDefault\<rparr>"

datatype event_class =
    CreditGrantedC | CreditUsedC | UserCreditsDeletedC | PromotionRedemptionGrantedC
  | NotificationCreatedC | UserCredentialCreatedC | AccountWithdrawnC | UserRegisteredC
  | UserProfileImageChangedC | UserWithdrawnC | FileUploadedC | FileDeletedC

fun class_name :: "event_class \<Rightarrow> string" where
  "class_name CreditGrantedC = ''CreditGranted''"
| "class_name CreditUsedC = ''CreditUsed''"
| "class_name UserCreditsDeletedC = ''UserCreditsDeleted''"
| "class_name PromotionRedemptionGrantedC = ''PromotionRedemptionGranted''"
| "class_name NotificationCreatedC = ''NotificationCreated''"
| "class_name UserCredentialCreatedC = ''UserCredentialCreated''"
| "class_name AccountWithdrawnC = ''AccountWithdrawn''"
| "class_name UserRegisteredC = ''UserRegistered''"
| "class_name UserProfileImageChangedC = ''UserProfileImageChanged''"
| "class_name UserWithdrawnC = ''UserWithdrawn''"
| "class_name FileUploadedC = ''FileUploaded''"
| "class_name FileDeletedC = ''FileDeleted''"

lemma class_name_inj: "class_name c = class_name d \<longleftrightarrow> c = d"
  by (cases c; cases d) simp_all

text \<open>\<open>dataclasses.fields(cls)\<close>: the fields of \<open>DomainEvent\<close>, then those of the class.\<close>

definition base_fields :: "field_spec list" where
  "base_fields =
     [\<lparr>fs_name = ''event_id'', fs_type = TUuid, fs_optional = False, fs_default = NewUuid\<rparr>,
      \<lparr>fs_name = ''occurred_at'', fs_type = TTime, fs_optional = False, fs_default = NowUtc\<rparr>,
      \<lparr>fs_name = ''event_version'', fs_type = TInt, fs_optional = False, fs_default = Default (FInt 1)\<rparr>]"

fun own_fields :: "event_class \<Rightarrow> field_spec list" where
  "own_fields CreditGrantedC =
     [fld ''user_id'' TUuid, fld ''amount'' TInt, fld ''reason'' TReason, opt_fld ''source_type'' TSource,
      opt_fld ''source_id'' TUuid, opt_fld ''idempotency_key'' TStr]"
| "own_fields CreditUsedC = [fld ''user_id'' TUuid, fld ''amount'' TInt, fld ''reason'' TReason]"
| "own_fields UserCreditsDeletedC = [fld ''user_id'' TUuid]"
| "own_fields PromotionRedemptionGrantedC =
     [fld ''redemption_id'' TUuid, fld ''promotion_id'' TUuid, fld ''user_id'' TUuid,
      opt_fld ''promotion_code_id'' TUuid, fld ''benefit_amount'' TInt, fld ''idempotency_key'' TStr]"
| "own_fields NotificationCreatedC =
     [fld ''notification_id'' TUuid, fld ''user_id'' TUuid, fld ''message_type'' TMessage, fld ''kind'' TStr,
      fld ''title'' TStr, fld ''message'' TStr, opt_fld ''resource_type'' TStr, opt_fld ''resource_id'' TUuid,
      \<lparr>fs_name = ''category'', fs_type = TCategory, fs_optional = False,
       fs_default = Default (FEnum (ECategory PRODUCT_MANAGEMENT))\<rparr>]"
| "own_fields UserCredentialCreatedC = [fld ''credentials_id'' TUuid, fld ''user_id'' TUuid, fld ''role'' TStr]"
| "own_fields AccountWithdrawnC = [fld ''credentials_id'' TUuid, fld ''user_id'' TUuid]"
| "own_fields UserRegisteredC = [fld ''user_id'' TUuid, opt_fld ''email'' TStr, opt_fld ''name'' TStr]"
| "own_fields UserProfileImageChangedC =
     [fld ''user_id'' TUuid, opt_fld ''previous_image_url'' TStr, opt_fld ''new_image_url'' TStr]"
| "own_fields UserWithdrawnC = [fld ''user_id'' TUuid]"
| "own_fields FileUploadedC =
     [fld ''file_id'' TUuid, fld ''user_id'' TUuid, fld ''original_name'' TStr, fld ''content_type'' TStr,
      fld ''size'' TInt, fld ''storage_key'' TStr]"
| "own_fields FileDeletedC = [fld ''file_id'' TUuid, fld ''user_id'' TUuid, fld ''storage_keys'' TStrList]"

definition class_fields :: "event_class \<Rightarrow> field_spec list" where
  "class_fields c = base_fields @ own_fields c"

end
