(* ===== verification/Serialization.thy ===== *)
theory Serialization
  imports Events "HOL-Library.AList"
begin

text \<open>
  \<open>app/core/db/outbox/serialization.py\<close>: the registry of event types, the field codecs,
  \<open>serialize_event\<close> and \<open>deserialize_event\<close>, and the registries the modules build and
  \<open>app/main.py\<close> merges.
\<close>

section \<open>The registry of event types\<close>

text \<open>
  \<open>EventTypeRegistry._types\<close> is a dict from class names to classes, an association list in
  insertion order. The classes are a parameter \<open>'c\<close> with their \<open>__name__\<close>, so that two
  classes may share a name. \<open>merge\<close> absorbs item by item: when it raises, the items before
  the conflict stay absorbed.
\<close>

type_synonym 'c registry = "(string \<times> 'c) list"

definition register :: "('c \<Rightarrow> string) \<Rightarrow> 'c \<Rightarrow> 'c registry \<Rightarrow> 'c registry" where
  "register name c reg = AList.update (name c) c reg"

definition resolve :: "'c registry \<Rightarrow> string \<Rightarrow> exn + 'c" where
  "resolve reg n = (case map_of reg n of Some c \<Rightarrow> Inr c | None \<Rightarrow> Inl (UnregisteredEventTypeError n))"

fun merge_items :: "'c registry \<Rightarrow> ('c registry, exn, unit) action" where
  "merge_items [] reg = (Inr (), reg)"
| "merge_items ((n, c) # items) reg =
     (case map_of reg n of
        Some c' \<Rightarrow> if c' \<noteq> c then (Inl (ConflictingEventTypeError n), reg)
                   else merge_items items (AList.update n c reg)
      | None \<Rightarrow> merge_items items (AList.update n c reg))"

text \<open>Two registries are compatible when no name stands for two classes.\<close>

definition compatible :: "'c registry \<Rightarrow> 'c registry \<Rightarrow> bool" where
  "compatible r1 r2 \<longleftrightarrow> (\<forall>(n, c) \<in> set r2. map_of r1 n = None \<or> map_of r1 n = Some c)"

text \<open>One item: absorbed when its name is free or already stands for the same class.\<close>

lemma merge_items_Cons:
  "merge_items ((n, c) # items) reg =
     (if map_of reg n \<in> {None, Some c} then merge_items items (AList.update n c reg)
      else (Inl (ConflictingEventTypeError n), reg))"
  by (cases "map_of reg n") auto

lemma merge_items_state:
  "fst (merge_items items reg) = Inr () \<Longrightarrow> map_of (snd (merge_items items reg)) = map_of reg ++ map_of (rev items)"
proof (induction items arbitrary: reg)
  case (Cons nc items)
  obtain n c where nc: "nc = (n, c)" by (cases nc)
  have ok: "map_of reg n \<in> {None, Some c}"
    using Cons.prems unfolding nc merge_items_Cons by (simp split: if_splits)
  have "map_of (AList.update n c reg) ++ map_of (rev items) = map_of reg ++ map_of (rev (nc # items))"
    by (rule ext) (simp add: nc update_conv' map_add_def split: option.splits)
  then show ?case using Cons ok unfolding nc merge_items_Cons by simp
qed simp

lemma compatible_Cons:
  "compatible reg ((n, c) # items) \<longleftrightarrow> map_of reg n \<in> {None, Some c} \<and> compatible reg items"
  by (simp add: compatible_def)

lemma compatible_update:
  assumes "n \<notin> fst ` set items"
  shows "compatible (AList.update n c reg) items \<longleftrightarrow> compatible reg items"
proof -
  have "m \<noteq> n" if "(m, d) \<in> set items" for m d using that assms by (auto simp: rev_image_eqI)
  then show ?thesis by (fastforce simp: compatible_def update_conv')
qed

lemma merge_items_ok_iff:
  "distinct (map fst items) \<Longrightarrow> fst (merge_items items reg) = Inr () \<longleftrightarrow> compatible reg items"
proof (induction items arbitrary: reg)
  case (Cons nc items)
  obtain n c where nc: "nc = (n, c)" by (cases nc)
  show ?case using Cons compatible_update [of n items c reg]
    unfolding nc merge_items_Cons compatible_Cons by simp
qed (simp add: compatible_def)

lemma resolve_register: "resolve (register name c reg) n = (if n = name c then Inr c else resolve reg n)"
  by (simp add: resolve_def register_def update_conv')

section \<open>Field codecs\<close>

text \<open>The classes of the model, and the fields of an event object under their names.\<close>

fun body_class :: "event_body \<Rightarrow> event_class" where
  "body_class (CreditGranted _ _ _ _ _ _) = CreditGrantedC"
| "body_class (CreditUsed _ _ _) = CreditUsedC"
| "body_class (UserCreditsDeleted _) = UserCreditsDeletedC"
| "body_class (PromotionRedemptionGranted _ _ _ _ _ _) = PromotionRedemptionGrantedC"
| "body_class (NotificationCreated _ _ _ _ _ _ _ _ _) = NotificationCreatedC"
| "body_class (UserCredentialCreated _ _ _) = UserCredentialCreatedC"
| "body_class (AccountWithdrawn _ _) = AccountWithdrawnC"
| "body_class (UserRegistered _ _ _) = UserRegisteredC"
| "body_class (UserProfileImageChanged _ _ _) = UserProfileImageChangedC"
| "body_class (UserWithdrawn _) = UserWithdrawnC"
| "body_class (FileUploaded _ _ _ _ _ _) = FileUploadedC"
| "body_class (FileDeleted _ _ _) = FileDeletedC"

definition opt_value :: "('a \<Rightarrow> field_value) \<Rightarrow> 'a option \<Rightarrow> field_value" where
  "opt_value f x = (case x of None \<Rightarrow> FNone | Some v \<Rightarrow> f v)"

fun body_values :: "event_body \<Rightarrow> field_value list" where
  "body_values (CreditGranted u a r st si k) =
     [FUuid u, FInt a, FEnum (EReason r), opt_value (FEnum \<circ> ESource) st, opt_value FUuid si, opt_value FStr k]"
| "body_values (CreditUsed u a r) = [FUuid u, FInt a, FEnum (EReason r)]"
| "body_values (UserCreditsDeleted u) = [FUuid u]"
| "body_values (PromotionRedemptionGranted r p u c b k) =
     [FUuid r, FUuid p, FUuid u, opt_value FUuid c, FInt b, FStr k]"
| "body_values (NotificationCreated n u mt k ti me rt ri cat) =
     [FUuid n, FUuid u, FEnum (EMessage mt), FStr k, FStr ti, FStr me, opt_value FStr rt, opt_value FUuid ri,
      FEnum (ECategory cat)]"
| "body_values (UserCredentialCreated c u r) = [FUuid c, FUuid u, FStr r]"
| "body_values (AccountWithdrawn c u) = [FUuid c, FUuid u]"
| "body_values (UserRegistered u e n) = [FUuid u, opt_value FStr e, opt_value FStr n]"
| "body_values (UserProfileImageChanged u p n) = [FUuid u, opt_value FStr p, opt_value FStr n]"
| "body_values (UserWithdrawn u) = [FUuid u]"
| "body_values (FileUploaded f u n ct sz k) = [FUuid f, FUuid u, FStr n, FStr ct, FInt sz, FStr k]"
| "body_values (FileDeleted f u ks) = [FUuid f, FUuid u, FStrs ks]"

text \<open>An event object as Python holds it: its class and its attributes.\<close>

record event_instance =
  inst_class :: event_class
  inst_fields :: "(string \<times> field_value) list"

definition instance_of :: "domain_event \<Rightarrow> event_instance" where
  "instance_of e =
     \<lparr>inst_class = body_class (ev_body e),
      inst_fields = zip (map fs_name (class_fields (body_class (ev_body e))))
        ([FUuid (ev_id e), FTime (ev_occurred_at e), FInt (ev_version e)] @ body_values (ev_body e))\<rparr>"

fun enum_value :: "enum_member \<Rightarrow> string" where
  "enum_value (EReason m) = credit_reason_value m"
| "enum_value (ESource m) = credit_source_value m"
| "enum_value (EMessage m) = message_type_value m"
| "enum_value (ECategory m) = category_value m"

text \<open>\<open>_encode_value\<close>.\<close>

fun encode_value :: "field_value \<Rightarrow> json" where
  "encode_value (FUuid u) = JStr (uuid_str u)"
| "encode_value (FTime t) = JStr (isoformat t)"
| "encode_value (FEnum m) = JStr (ascii (enum_value m))"
| "encode_value FNone = JNull"
| "encode_value (FStr s) = JStr s"
| "encode_value (FInt i) = JInt i"
| "encode_value (FStrs ss) = JStrs ss"

fun of_json :: "json \<Rightarrow> field_value" where
  "of_json JNull = FNone"
| "of_json (JStr s) = FStr s"
| "of_json (JInt i) = FInt i"
| "of_json (JStrs ss) = FStrs ss"

text \<open>The members of an enumeration type, by value.\<close>

fun enum_find :: "field_type \<Rightarrow> string \<Rightarrow> enum_member option" where
  "enum_find TReason s = map_option EReason (credit_reason_of s)"
| "enum_find TSource s = map_option ESource (credit_source_of s)"
| "enum_find TMessage s = map_option EMessage (message_type_of s)"
| "enum_find TCategory s = map_option ECategory (category_of s)"
| "enum_find _ s = None"

definition is_enum_type :: "field_type \<Rightarrow> bool" where
  "is_enum_type t \<longleftrightarrow> t \<in> {TReason, TSource, TMessage, TCategory}"

definition ascii_text :: "ustr \<Rightarrow> string option" where
  "ascii_text s = (if list_all (\<lambda>c. c < 256) s then Some (map char_of s) else None)"

text \<open>
  \<open>_decode_value\<close> takes a payload value, or a default that is already an object: \<open>UUID(v)\<close>
  of a UUID and \<open>datetime.fromisoformat(v)\<close> of a datetime raise, an enumeration accepts
  its own members, every other type returns the value as it is.
\<close>

definition decode_value :: "field_type \<Rightarrow> field_value \<Rightarrow> exn + field_value" where
  "decode_value t v =
     (if v = FNone then Inr FNone
      else if t = TUuid then
        (case v of FStr s \<Rightarrow> (case uuid_parse s of Some u \<Rightarrow> Inr (FUuid u) | None \<Rightarrow> Inl PyValueError)
                 | _ \<Rightarrow> Inl PyTypeError)
      else if t = TTime then
        (case v of FStr s \<Rightarrow> (case fromisoformat s of Some d \<Rightarrow> Inr (FTime d) | None \<Rightarrow> Inl PyValueError)
                 | _ \<Rightarrow> Inl PyTypeError)
      else if is_enum_type t then
        (case v of
           FStr s \<Rightarrow> (case Option.bind (ascii_text s) (enum_find t) of
                        Some m \<Rightarrow> Inr (FEnum m) | None \<Rightarrow> Inl PyValueError)
         | FEnum m \<Rightarrow> if enum_find t (enum_value m) = Some m then Inr v else Inl PyValueError
         | _ \<Rightarrow> Inl PyValueError)
      else Inr v)"

text \<open>\<open>serialize_event\<close>.\<close>

type_synonym payload = "(string \<times> json) list"

definition serialize_event :: "domain_event \<Rightarrow> string \<times> payload" where
  "serialize_event e =
     (class_name (inst_class (instance_of e)), map (map_prod id encode_value) (inst_fields (instance_of e)))"

text \<open>
  \<open>_payload_value\<close> and \<open>deserialize_event\<close>. The values a default factory would make
  (\<open>uuid4()\<close>, the current time) are arguments.
\<close>

definition payload_value :: "uuid \<Rightarrow> datetime \<Rightarrow> field_spec \<Rightarrow> payload \<Rightarrow> exn + field_value" where
  "payload_value new_id now f p =
     (case map_of p (fs_name f) of
        Some j \<Rightarrow> Inr (of_json j)
      | None \<Rightarrow> (case fs_default f of
                   Default v \<Rightarrow> Inr v
                 | NewUuid \<Rightarrow> Inr (FUuid new_id)
                 | NowUtc \<Rightarrow> Inr (FTime now)
                 | NoDefault \<Rightarrow> Inl (PyKeyError (fs_name f))))"

fun decode_fields :: "uuid \<Rightarrow> datetime \<Rightarrow> payload \<Rightarrow> field_spec list \<Rightarrow> exn + (string \<times> field_value) list" where
  "decode_fields new_id now p [] = Inr []"
| "decode_fields new_id now p (f # fs) =
     bindE (payload_value new_id now f p) (\<lambda>v.
     bindE (decode_value (fs_type f) v) (\<lambda>w.
     bindE (decode_fields new_id now p fs) (\<lambda>rest.
     Inr ((fs_name f, w) # rest))))"

definition deserialize_event ::
    "uuid \<Rightarrow> datetime \<Rightarrow> event_class registry \<Rightarrow> string \<Rightarrow> payload \<Rightarrow> exn + event_instance" where
  "deserialize_event new_id now reg event_type p =
     bindE (resolve reg event_type) (\<lambda>c.
     bindE (decode_fields new_id now p (class_fields c)) (\<lambda>fs.
     Inr \<lparr>inst_class = c, inst_fields = fs\<rparr>))"

section \<open>Reading back what was written\<close>

fun has_type :: "field_type \<Rightarrow> field_value \<Rightarrow> bool" where
  "has_type t FNone = True"
| "has_type t (FUuid _) = (t = TUuid)"
| "has_type t (FTime d) = (t = TTime \<and> valid_instant d)"
| "has_type t (FEnum m) =
     (case m of EReason _ \<Rightarrow> t = TReason | ESource _ \<Rightarrow> t = TSource | EMessage _ \<Rightarrow> t = TMessage
              | ECategory _ \<Rightarrow> t = TCategory)"
| "has_type t (FStr _) = (t = TStr)"
| "has_type t (FInt _) = (t = TInt)"
| "has_type t (FStrs _) = (t = TStrList)"

lemma ascii_text_ascii: "ascii_text (ascii s) = Some s"
proof -
  have "of_char c < (256::nat)" for c :: char by (rule nat_of_char_less_256)
  then show ?thesis by (simp add: ascii_text_def ascii_def list_all_iff map_idI)
qed

lemma enum_find_value: "has_type t (FEnum m) \<Longrightarrow> enum_find t (enum_value m) = Some m"
  by (cases m) (simp_all add: reason.of_val_val source.of_val_val msgtype.of_val_val category.of_val_val)

lemma has_type_enum: "has_type t (FEnum m) \<Longrightarrow> is_enum_type t"
  by (cases m) (simp_all add: is_enum_type_def)

lemma decode_encode:
  assumes "has_type t v"
  shows "decode_value t (of_json (encode_value v)) = Inr v"
proof (cases v)
  case (FEnum m)
  then have "is_enum_type t" "enum_find t (enum_value m) = Some m"
    using assms has_type_enum enum_find_value by blast+
  then show ?thesis using FEnum
    by (auto simp: decode_value_def is_enum_type_def ascii_text_ascii)
qed (use assms in \<open>auto simp: decode_value_def is_enum_type_def uuid_parse_str fromisoformat_isoformat\<close>)

lemma decode_fields_written:
  "length fs = length vs \<Longrightarrow> \<forall>(f, v) \<in> set (zip fs vs). map_of p (fs_name f) = Some (encode_value v) \<and> has_type (fs_type f) v \<Longrightarrow>
   decode_fields i t p fs = Inr (zip (map fs_name fs) vs)"
  by (induction fs vs rule: list_induct2) (simp_all add: payload_value_def decode_encode)

text \<open>The fields of a class have distinct names, and its objects hold values of their types.\<close>

definition event_values :: "domain_event \<Rightarrow> field_value list" where
  "event_values e = [FUuid (ev_id e), FTime (ev_occurred_at e), FInt (ev_version e)] @ body_values (ev_body e)"

lemma opt_value_simps [simp]: "opt_value f None = FNone" "opt_value f (Some v) = f v"
  by (simp_all add: opt_value_def)

lemma has_type_opt [simp]: "(\<And>v. has_type t (f v)) \<Longrightarrow> has_type t (opt_value f x)"
  by (cases x) simp_all

lemmas field_tables = class_fields_def base_fields_def fld_def opt_fld_def

lemma distinct_fields: "distinct (map fs_name (class_fields c))"
  by (cases c) (simp_all add: field_tables)

lemma length_fields: "length (class_fields (body_class (ev_body e))) = length (event_values e)"
  by (cases "ev_body e") (simp_all add: field_tables event_values_def)

lemma typed_fields:
  "valid_instant (ev_occurred_at e) \<Longrightarrow>
   list_all2 (\<lambda>f v. has_type (fs_type f) v) (class_fields (body_class (ev_body e))) (event_values e)"
  by (cases "ev_body e") (simp_all add: field_tables event_values_def)

lemma instance_of_values:
  "instance_of e = \<lparr>inst_class = body_class (ev_body e),
     inst_fields = zip (map fs_name (class_fields (body_class (ev_body e)))) (event_values e)\<rparr>"
  by (simp add: instance_of_def event_values_def)

lemma serialize_event_values:
  "serialize_event e = (class_name (body_class (ev_body e)),
     zip (map fs_name (class_fields (body_class (ev_body e)))) (map encode_value (event_values e)))"
  by (auto simp: serialize_event_def instance_of_values zip_map2)

lemma payload_lookup:
  assumes "distinct (map k fs)" "length fs = length vs" "(f, v) \<in> set (zip fs vs)"
  shows "map_of (zip (map k fs) (map g vs)) (k f) = Some (g v)"
proof (rule map_of_is_SomeI)
  show "distinct (map fst (zip (map k fs) (map g vs)))" using assms by simp
  show "(k f, g v) \<in> set (zip (map k fs) (map g vs))"
    using assms(3) by (force simp: set_zip)
qed

lemma decode_written:
  assumes "valid_instant (ev_occurred_at e)"
  shows "decode_fields i t (snd (serialize_event e)) (class_fields (body_class (ev_body e))) = Inr (inst_fields (instance_of e))"
proof -
  have "map_of (snd (serialize_event e)) (fs_name f) = Some (encode_value v) \<and> has_type (fs_type f) v"
    if "(f, v) \<in> set (zip (class_fields (body_class (ev_body e))) (event_values e))" for f v
    using payload_lookup [OF distinct_fields length_fields that] typed_fields [OF assms] that
    by (auto simp: serialize_event_values list_all2_iff)
  then show ?thesis
    by (subst decode_fields_written [OF length_fields]) (auto simp: instance_of_values)
qed

lemma deserialize_written:
  assumes "valid_instant (ev_occurred_at e)"
    and "resolve reg (class_name (body_class (ev_body e))) = Inr (body_class (ev_body e))"
  shows "deserialize_event i t reg (fst (serialize_event e)) (snd (serialize_event e)) = Inr (instance_of e)"
proof -
  have "fst (serialize_event e) = class_name (body_class (ev_body e))" by (simp add: serialize_event_values)
  then show ?thesis
    using assms by (simp add: deserialize_event_def decode_written) (simp add: instance_of_values)
qed

text \<open>C31. Round trip through the outbox payload: an event whose class the registry resolves
  is read back as the object that was written, with no default filled in.\<close>

theorem deserialize_serialize:
  assumes "valid_instant (ev_occurred_at e)"
    and "resolve reg (class_name (body_class (ev_body e))) = Inr (body_class (ev_body e))"
  shows "deserialize_event i t reg (fst (serialize_event e)) (snd (serialize_event e)) = Inr (instance_of e)"
  by (rule deserialize_written [OF assms])

definition sample_event :: domain_event where
  "sample_event = new_event 7 (738000 * day_us + 3723000004)
     (CreditGranted 11 5 EVENT_OCR_ALLOWANCE (Some PROMOTION_REDEMPTION) (Some 13) None)"

lemma sample_event_valid: "valid_instant (ev_occurred_at sample_event)"
  by (simp add: sample_event_def new_event_def valid_instant_def day_us_def)

theorem deserialize_serialize_witness:
  "deserialize_event 0 0 [(''CreditGranted'', CreditGrantedC)] (fst (serialize_event sample_event))
     (snd (serialize_event sample_event)) = Inr (instance_of sample_event)"
  by (rule deserialize_serialize [OF sample_event_valid])
    (simp add: sample_event_def new_event_def resolve_def)

text \<open>Two events written as the same type and payload are the same event.\<close>

theorem serialize_event_inj:
  assumes "serialize_event e1 = serialize_event e2"
    and "valid_instant (ev_occurred_at e1)" and "valid_instant (ev_occurred_at e2)"
  shows "e1 = e2"
proof -
  have c: "body_class (ev_body e1) = body_class (ev_body e2)"
    using assms(1) by (simp add: serialize_event_values class_name_inj)
  have "inst_fields (instance_of e1) = inst_fields (instance_of e2)"
    using decode_written [OF assms(2)] decode_written [OF assms(3)] c assms(1) by (metis sum.inject(2))
  then have v: "event_values e1 = event_values e2"
    using c length_fields [of e1] length_fields [of e2]
    by (metis event_instance.select_convs(2) instance_of_values length_map map_snd_zip)
  then have "ev_body e1 = ev_body e2"
    using c by (cases "ev_body e1"; cases "ev_body e2") (simp_all add: event_values_def opt_value_def split: option.splits)
  then show ?thesis using v by (simp add: event_values_def)
qed

theorem serialize_event_inj_witness:
  "serialize_event sample_event = serialize_event sample_event \<and> sample_event = sample_event"
  using serialize_event_inj [OF refl sample_event_valid sample_event_valid] by simp

section \<open>The registries of the modules\<close>

definition registry_of :: "event_class list \<Rightarrow> event_class registry" where
  "registry_of cs = foldl (\<lambda>reg c. register class_name c reg) [] cs"

definition build_notification_event_registry :: "event_class registry" where
  "build_notification_event_registry = registry_of [NotificationCreatedC]"

definition build_credits_event_registry :: "event_class registry" where
  "build_credits_event_registry = registry_of [CreditGrantedC, CreditUsedC, UserCreditsDeletedC]"

definition build_promotions_event_registry :: "event_class registry" where
  "build_promotions_event_registry = registry_of [PromotionRedemptionGrantedC]"

definition build_users_event_registry :: "event_class registry" where
  "build_users_event_registry = registry_of [UserRegisteredC, UserProfileImageChangedC, UserWithdrawnC]"

definition build_auth_event_registry :: "event_class registry" where
  "build_auth_event_registry = registry_of [UserCredentialCreatedC, AccountWithdrawnC]"

definition build_files_event_registry :: "event_class registry" where
  "build_files_event_registry = registry_of [FileUploadedC, FileDeletedC]"

definition event_registry_builders :: "event_class registry list" where
  "event_registry_builders =
     [build_notification_event_registry, build_credits_event_registry, build_promotions_event_registry,
      build_users_event_registry, build_auth_event_registry, build_files_event_registry]"

text \<open>\<open>_build_merged_event_registry\<close>.\<close>

fun merge_all :: "'c registry list \<Rightarrow> ('c registry, exn, unit) action" where
  "merge_all [] = returnA ()"
| "merge_all (r # rs) = bindA (merge_items r) (\<lambda>_. merge_all rs)"

definition build_merged_event_registry :: "exn + event_class registry" where
  "build_merged_event_registry =
     (case merge_all event_registry_builders [] of (Inl e, _) \<Rightarrow> Inl e | (Inr _, reg) \<Rightarrow> Inr reg)"

lemmas registry_tables = build_notification_event_registry_def build_credits_event_registry_def
  build_promotions_event_registry_def build_users_event_registry_def build_auth_event_registry_def
  build_files_event_registry_def event_registry_builders_def registry_of_def register_def

definition merged_classes :: "event_class list" where
  "merged_classes =
     [NotificationCreatedC, CreditGrantedC, CreditUsedC, UserCreditsDeletedC, PromotionRedemptionGrantedC,
      UserRegisteredC, UserProfileImageChangedC, UserWithdrawnC, UserCredentialCreatedC, AccountWithdrawnC,
      FileUploadedC, FileDeletedC]"

lemma merged_registry: "build_merged_event_registry = Inr (map (\<lambda>c. (class_name c, c)) merged_classes)"
  by (simp add: build_merged_event_registry_def merged_classes_def registry_tables bindA_def returnA_def)

text \<open>The merged registry of the process is built without a conflict, and the relay that uses
  it resolves every event class of the backend under its own name.\<close>

theorem merged_registry_resolves:
  "\<exists>reg. build_merged_event_registry = Inr reg \<and> (\<forall>c. resolve reg (class_name c) = Inr c)"
proof (intro exI conjI allI)
  show "build_merged_event_registry = Inr (map (\<lambda>c. (class_name c, c)) merged_classes)"
    by (rule merged_registry)
  show "resolve (map (\<lambda>c. (class_name c, c)) merged_classes) (class_name c) = Inr c" for c
    by (cases c) (simp_all add: resolve_def merged_classes_def)
qed

text \<open>Merging registries: the merge succeeds exactly when no name stands for two classes,
  and then a name resolves in the merged registry as in the first one, or as in the second
  where the first has no entry.\<close>

theorem merge_items_correct:
  assumes "distinct (map fst items)"
  shows "(fst (merge_items items reg) = Inr () \<longleftrightarrow> compatible reg items) \<and>
    (compatible reg items \<longrightarrow>
      map_of (snd (merge_items items reg)) = map_of items ++ map_of reg)"
proof (intro conjI impI)
  show ok: "fst (merge_items items reg) = Inr () \<longleftrightarrow> compatible reg items"
    by (rule merge_items_ok_iff [OF assms])
  assume c: "compatible reg items"
  have rev: "map_of (rev items) = map_of items"
    using assms by (subst map_of_inject_set) (simp_all add: rev_map [symmetric])
  have same: "map_of items n = Some d \<Longrightarrow> map_of reg n \<in> {None, Some d}" for n d
    using c unfolding compatible_def by (auto dest!: map_of_SomeD)
  have "map_of reg ++ map_of items = map_of items ++ map_of reg"
    using same by (intro ext) (fastforce simp: map_add_def split: option.splits)
  then show "map_of (snd (merge_items items reg)) = map_of items ++ map_of reg"
    using merge_items_state ok c rev by metis
qed

theorem merge_items_correct_witness:
  "fst (merge_items build_users_event_registry build_credits_event_registry) = Inr ()"
  using merge_items_correct [of build_users_event_registry build_credits_event_registry]
  by (simp add: registry_tables compatible_def)

text \<open>A payload without an event id or instant cannot be read: the default factories make
  objects, which the decoders of their types refuse.\<close>

lemma missing_base_field:
  assumes "map_of p ''event_id'' = None"
  shows "decode_fields i t p (class_fields c) = Inl PyTypeError"
  using assms by (simp add: field_tables payload_value_def decode_value_def)

end
