(* ===== verification/Session.thy ===== *)
theory Session
  imports Serialization
begin

text \<open>
  The database session and the units of work over it: \<open>app/core/db/unit_of_work.py\<close> and
  \<open>app/core/application/unit_of_work.py\<close>. SQLAlchemy and PostgreSQL are third-party; what
  the use cases rely on is written out here: a session sees the committed rows and its own
  writes, a flush checks the constraints, a failed flush makes the session refuse work until
  \<open>rollback()\<close>, a commit publishes its writes, a rollback or a closed session drops them.
\<close>

section \<open>Sessions\<close>

text \<open>
  \<open>committed\<close> is the database as other sessions see it, \<open>working\<close> the database as this
  transaction sees it.
\<close>

record 'db session =
  committed :: 'db
  working :: 'db
  tx_failed :: bool

definition open_session :: "'db \<Rightarrow> 'db session" where
  "open_session db = \<lparr>committed = db, working = db, tx_failed = False\<rparr>"

definition query_session :: "('db \<Rightarrow> 'a) \<Rightarrow> ('db session, exn, 'a) action" where
  "query_session f s = (if tx_failed s then (Inl PendingRollbackError, s) else (Inr (f (working s)), s))"

definition write_session :: "('db \<Rightarrow> 'db) \<Rightarrow> ('db session, exn, unit) action" where
  "write_session g s =
     (if tx_failed s then (Inl PendingRollbackError, s) else (Inr (), s\<lparr>working := g (working s)\<rparr>))"

text \<open>
  \<open>session.flush()\<close>: the pending rows reach the database, which checks its constraints
  (\<open>violation\<close> names the error for a violated one). \<open>session.commit()\<close> flushes first.
\<close>

definition flush_session :: "('db \<Rightarrow> exn option) \<Rightarrow> ('db session, exn, unit) action" where
  "flush_session violation s =
     (if tx_failed s then (Inl PendingRollbackError, s)
      else case violation (working s) of
             None \<Rightarrow> (Inr (), s)
           | Some e \<Rightarrow> (Inl e, s\<lparr>tx_failed := True\<rparr>))"

definition commit_session :: "('db \<Rightarrow> exn option) \<Rightarrow> ('db session, exn, unit) action" where
  "commit_session violation =
     bindA (flush_session violation) (\<lambda>_. modifyA (\<lambda>s. s\<lparr>committed := working s\<rparr>))"

definition rollback_session :: "('db session, exn, unit) action" where
  "rollback_session s = (Inr (), s\<lparr>working := committed s, tx_failed := False\<rparr>)"

text \<open>What other sessions commit meanwhile: this transaction sees it (READ COMMITTED).\<close>

definition interfere :: "('db \<Rightarrow> 'db) \<Rightarrow> ('db session, exn, unit) action" where
  "interfere rival = modifyA (\<lambda>s. s\<lparr>committed := rival (committed s), working := rival (working s)\<rparr>)"

lemma open_session_simps [simp]:
  "committed (open_session db) = db" "working (open_session db) = db" "\<not> tx_failed (open_session db)"
  by (simp_all add: open_session_def)

lemma session_apply [action_simps]:
  "\<not> tx_failed s \<Longrightarrow> query_session f s = (Inr (f (working s)), s)"
  "\<not> tx_failed s \<Longrightarrow> write_session g s = (Inr (), s\<lparr>working := g (working s)\<rparr>)"
  "\<not> tx_failed s \<Longrightarrow> violation (working s) = None \<Longrightarrow> flush_session violation s = (Inr (), s)"
  "\<not> tx_failed s \<Longrightarrow> violation (working s) = Some e \<Longrightarrow>
     flush_session violation s = (Inl e, s\<lparr>tx_failed := True\<rparr>)"
  "rollback_session s = (Inr (), s\<lparr>working := committed s, tx_failed := False\<rparr>)"
  "interfere rival s = (Inr (), s\<lparr>committed := rival (committed s), working := rival (working s)\<rparr>)"
  by (simp_all add: query_session_def write_session_def flush_session_def rollback_session_def
      interfere_def modifyA_def)

lemma session_bind [action_simps]:
  "\<not> tx_failed s \<Longrightarrow> bindA (query_session f) q s = q (f (working s)) s"
  "\<not> tx_failed s \<Longrightarrow> bindA (write_session g) k s = k () (s\<lparr>working := g (working s)\<rparr>)"
  "bindA rollback_session k s = k () (s\<lparr>working := committed s, tx_failed := False\<rparr>)"
  "bindA (interfere rival) k s = k () (s\<lparr>committed := rival (committed s), working := rival (working s)\<rparr>)"
  by (simp_all add: bindA_def session_apply)

lemma commit_session_apply [action_simps]:
  "\<not> tx_failed s \<Longrightarrow> violation (working s) = None \<Longrightarrow>
     commit_session violation s = (Inr (), s\<lparr>committed := working s\<rparr>)"
  "\<not> tx_failed s \<Longrightarrow> violation (working s) = Some e \<Longrightarrow>
     commit_session violation s = (Inl e, s\<lparr>tx_failed := True\<rparr>)"
  by (simp_all add: commit_session_def bindA_def flush_session_def modifyA_def)

lemma runs_query:
  assumes "\<And>s. P s \<Longrightarrow> Q (f (working s)) s" and "\<And>s. P s \<Longrightarrow> E s"
  shows "runs P (query_session f) Q E"
  using assms by (auto simp: runs_def query_session_def)

lemma runs_write:
  assumes "\<And>s. P s \<Longrightarrow> Q () (s\<lparr>working := g (working s)\<rparr>)" and "\<And>s. P s \<Longrightarrow> E s"
  shows "runs P (write_session g) Q E"
  using assms by (auto simp: runs_def write_session_def)

lemma runs_flush:
  assumes "\<And>s. P s \<Longrightarrow> violation (working s) = None \<Longrightarrow> Q () s"
    and "\<And>s. P s \<Longrightarrow> E s" and "\<And>s. P s \<Longrightarrow> E (s\<lparr>tx_failed := True\<rparr>)"
  shows "runs P (flush_session violation) Q E"
  using assms by (auto simp: runs_def flush_session_def split: option.splits)

lemma runs_commit:
  assumes "\<And>s. P s \<Longrightarrow> violation (working s) = None \<Longrightarrow> Q () (s\<lparr>committed := working s\<rparr>)"
    and "\<And>s. P s \<Longrightarrow> E s" and "\<And>s. P s \<Longrightarrow> E (s\<lparr>tx_failed := True\<rparr>)"
  shows "runs P (commit_session violation) Q E"
  using assms by (auto simp: runs_def commit_session_def bindA_def flush_session_def modifyA_def split: option.splits)

lemma runs_quiet:
  assumes "\<And>s. P s \<Longrightarrow> Q () s"
  shows "runs P (interfere id) Q E"
  using assms by (simp add: runs_def interfere_def modifyA_def)

section \<open>Constraints\<close>

text \<open>The constraints of a table, each with the error PostgreSQL raises for it; the first violated one decides.\<close>

definition first_violation :: "(bool \<times> exn) list \<Rightarrow> exn option" where
  "first_violation checks = map_option snd (find (\<lambda>(ok, e). \<not> ok) checks)"

definition int4 :: "int \<Rightarrow> bool" where
  "int4 x \<longleftrightarrow> - 2147483648 \<le> x \<and> x \<le> 2147483647"

lemma first_violation_None: "first_violation checks = None \<longleftrightarrow> (\<forall>(ok, e) \<in> set checks. ok)"
  by (auto simp: first_violation_def find_None_iff_ball)

lemma first_violation_Some: "first_violation checks = Some e \<Longrightarrow> \<exists>ok. (ok, e) \<in> set checks \<and> \<not> ok"
  by (auto simp: first_violation_def dest!: find_SomeD)

lemma checks_simps:
  "(\<forall>(ok, e) \<in> set []. ok) \<longleftrightarrow> True"
  "(\<forall>(ok, e) \<in> set ((ok1, e1) # checks). ok) \<longleftrightarrow> ok1 \<and> (\<forall>(ok, e) \<in> set checks. ok)"
  "(\<forall>(ok, e) \<in> set (xs @ ys). ok) \<longleftrightarrow> (\<forall>(ok, e) \<in> set xs. ok) \<and> (\<forall>(ok, e) \<in> set ys. ok)"
  "(\<forall>(ok, e) \<in> set (concat (map f rows)). ok) \<longleftrightarrow> (\<forall>r \<in> set rows. \<forall>(ok, e) \<in> set (f r). ok)"
  by auto

section \<open>Units of work\<close>

text \<open>
  \<open>SqlAlchemyUnitOfWork\<close> is the session's own commit and rollback; with
  \<open>DeferredCommitUnitOfWork(rollback=session.rollback)\<close> the commit is left to the caller.
\<close>

definition sqlalchemy_commit :: "('db \<Rightarrow> exn option) \<Rightarrow> ('db session, exn, unit) action" where
  "sqlalchemy_commit violation = commit_session violation"

definition sqlalchemy_rollback :: "('db session, exn, unit) action" where
  "sqlalchemy_rollback = rollback_session"

definition deferred_commit :: "('db session, exn, unit) action" where
  "deferred_commit = returnA ()"

definition deferred_rollback :: "('db session, exn, unit) action option \<Rightarrow> ('db session, exn, unit) action" where
  "deferred_rollback cb = (case cb of Some r \<Rightarrow> r | None \<Rightarrow> returnA ())"

text \<open>
  The contract a use case relies on: on rows without a violation a commit succeeds, keeps
  what the transaction sees and either publishes all of it or nothing; a rollback returns
  to the committed rows.
\<close>

locale unit_of_work =
  fixes violation :: "'db \<Rightarrow> exn option"
    and uow_commit :: "('db session, exn, unit) action"
    and uow_rollback :: "('db session, exn, unit) action"
  assumes commit_ok: "\<not> tx_failed s \<Longrightarrow> violation (working s) = None \<Longrightarrow>
      \<exists>c. uow_commit s = (Inr (), s\<lparr>committed := c\<rparr>) \<and> c \<in> {committed s, working s}"
    and rollback_ok: "uow_rollback s = (Inr (), s\<lparr>working := committed s, tx_failed := False\<rparr>)"
begin

text \<open>\<open>flush(); commit()\<close>, the tail of every command.\<close>

lemma flush_commit_ok:
  assumes "\<not> tx_failed s" and "violation (working s) = None"
  obtains c where "bindA (flush_session violation) (\<lambda>_. uow_commit) s = (Inr (), s\<lparr>committed := c\<rparr>)"
    and "c \<in> {committed s, working s}"
proof -
  obtain c where "uow_commit s = (Inr (), s\<lparr>committed := c\<rparr>)" and "c \<in> {committed s, working s}"
    using commit_ok [OF assms] by blast
  with that show thesis using assms by (simp add: bindA_def flush_session_def)
qed

lemma flush_commit_violation:
  assumes "\<not> tx_failed s" and "violation (working s) = Some e"
  shows "bindA (flush_session violation) (\<lambda>_. uow_commit) s = (Inl e, s\<lparr>tx_failed := True\<rparr>)"
  using assms by (simp add: bindA_def flush_session_def)

text \<open>After a failed flush the rollback restores the rows of the others, and the session works again.\<close>

lemma rollback_after_failure:
  "snd (uow_rollback (s\<lparr>tx_failed := True\<rparr>)) = s\<lparr>working := committed s, tx_failed := False\<rparr>"
  by (simp add: rollback_ok)

end

interpretation sqlalchemy: unit_of_work violation "sqlalchemy_commit violation" sqlalchemy_rollback for violation
  by unfold_locales (auto simp: sqlalchemy_commit_def sqlalchemy_rollback_def action_simps
      intro!: exI [of _ "working _"])

interpretation deferred: unit_of_work violation deferred_commit "deferred_rollback (Some rollback_session)" for violation
proof unfold_locales
  fix s :: "'a session"
  show "\<exists>c. deferred_commit s = (Inr (), s\<lparr>committed := c\<rparr>) \<and> c \<in> {committed s, working s}"
    by (rule exI [of _ "committed s"]) (simp add: deferred_commit_def returnA_def)
qed (simp add: deferred_rollback_def action_simps)

end
