(* ===== verification/Outbox.thy ===== *)
theory Outbox
  imports Session
begin

text \<open>
  The transactional outbox: \<open>app/core/db/outbox/orm.py\<close> (the table), \<open>publisher.py\<close> (rows
  are added inside the caller's transaction), \<open>relay.py\<close> (the poller),
  \<open>immediate_dispatch.py\<close> (the attempt right after the response) and
  \<open>app/core/application/event_dispatcher.py\<close>.
\<close>

section \<open>The table and the publisher\<close>

text \<open>The rows of \<open>outbox_events\<close>, in the order of their autoincrement \<open>id\<close>.\<close>

record outbox_row =
  ob_event_id :: uuid
  ob_event_type :: string
  ob_payload :: payload
  ob_occurred_at :: datetime
  ob_retry_count :: int

record outbox_db =
  outbox_events :: "outbox_row list"

definition outbox_violation :: "('z) outbox_db_scheme \<Rightarrow> exn option" where
  "outbox_violation db =
     (if distinct (map ob_event_id (outbox_events db)) then None
      else Some (IntegrityError ''uq_outbox_events_event_id''))"

definition outbox_row_of :: "domain_event \<Rightarrow> outbox_row" where
  "outbox_row_of e =
     \<lparr>ob_event_id = ev_id e, ob_event_type = fst (serialize_event e), ob_payload = snd (serialize_event e),
      ob_occurred_at = ev_occurred_at e, ob_retry_count = 0\<rparr>"

text \<open>\<open>OutboxEventPublisher.publish\<close>: an unregistered type fails before its row is added.\<close>

fun publish :: "event_class registry \<Rightarrow> domain_event list \<Rightarrow> (('z) outbox_db_scheme session, exn, unit) action" where
  "publish reg [] = returnA ()"
| "publish reg (e # es) =
     bindA (liftE (resolve reg (fst (serialize_event e)))) (\<lambda>_.
     bindA (write_session (\<lambda>db. db\<lparr>outbox_events := outbox_events db @ [outbox_row_of e]\<rparr>)) (\<lambda>_.
     publish reg es))"

definition publishable :: "event_class registry \<Rightarrow> domain_event \<Rightarrow> bool" where
  "publishable reg e \<longleftrightarrow> resolve reg (class_name (body_class (ev_body e))) = Inr (body_class (ev_body e))"

lemma publish_ok [action_simps]:
  "\<forall>e \<in> set es. publishable reg e \<Longrightarrow> \<not> tx_failed s \<Longrightarrow>
   publish reg es s = (Inr (), s\<lparr>working := (working s)\<lparr>outbox_events := outbox_events (working s) @ map outbox_row_of es\<rparr>\<rparr>)"
  by (induction es arbitrary: s)
    (simp_all add: action_simps bindA_def publishable_def serialize_event_values)

declare publish.simps(2) [simp del]

section \<open>The dispatcher\<close>

text \<open>
  \<open>EventDispatcher\<close>: handlers per class in registration order; the first that raises
  stops the rest. Handlers are actions on whatever they touch (\<open>'w\<close>).
\<close>

type_synonym 'w handler = "event_instance \<Rightarrow> ('w, exn, unit) action"
type_synonym 'w dispatcher = "(event_class \<times> 'w handler) list"

definition register_handler :: "event_class \<Rightarrow> 'w handler \<Rightarrow> 'w dispatcher \<Rightarrow> 'w dispatcher" where
  "register_handler c h d = d @ [(c, h)]"

fun run_handlers :: "'w handler list \<Rightarrow> event_instance \<Rightarrow> ('w, exn, unit) action" where
  "run_handlers [] ev = returnA ()"
| "run_handlers (h # hs) ev = bindA (h ev) (\<lambda>_. run_handlers hs ev)"

fun dispatch :: "'w dispatcher \<Rightarrow> event_instance list \<Rightarrow> ('w, exn, unit) action" where
  "dispatch d [] = returnA ()"
| "dispatch d (ev # evs) =
     bindA (run_handlers (map snd (filter (\<lambda>(c, h). c = inst_class ev) d)) ev) (\<lambda>_. dispatch d evs)"

section \<open>Claims\<close>

record claim =
  cl_event_id :: uuid
  cl_event_type :: string
  cl_payload :: payload
  cl_retry_count :: int
  cl_claimed_at :: datetime

record relay_config =
  redeliver_after_seconds :: int
  max_retry :: int
  batch_size :: nat

definition eligible :: "relay_config \<Rightarrow> datetime \<Rightarrow> outbox_row \<Rightarrow> bool" where
  "eligible cfg now r \<longleftrightarrow>
     ob_occurred_at r < now - redeliver_after_seconds cfg * second_us \<and> ob_retry_count r < max_retry cfg"

definition claim_row :: "datetime \<Rightarrow> outbox_row \<Rightarrow> claim" where
  "claim_row now r =
     \<lparr>cl_event_id = ob_event_id r, cl_event_type = ob_event_type r, cl_payload = ob_payload r,
      cl_retry_count = ob_retry_count r, cl_claimed_at = max now (ob_occurred_at r + 1)\<rparr>"

definition stamp_claim :: "claim \<Rightarrow> outbox_row list \<Rightarrow> outbox_row list" where
  "stamp_claim c rows = update_rows (\<lambda>r. ob_event_id r = cl_event_id c) (\<lambda>r. r\<lparr>ob_occurred_at := cl_claimed_at c\<rparr>) rows"

text \<open>
  \<open>_claim_next\<close>: the first eligible row that no other transaction has locked
  (\<open>SKIP LOCKED\<close>; \<open>locked\<close> is the set of locked rows, by event id).
\<close>

definition claim_next :: "relay_config \<Rightarrow> datetime \<Rightarrow> (uuid \<Rightarrow> bool) \<Rightarrow> outbox_row list \<Rightarrow> claim option \<times> outbox_row list" where
  "claim_next cfg now locked rows =
     (case find (\<lambda>r. eligible cfg now r \<and> \<not> locked (ob_event_id r)) rows of
        None \<Rightarrow> (None, rows)
      | Some r \<Rightarrow> (Some (claim_row now r), stamp_claim (claim_row now r) rows))"

text \<open>The condition on which a finished claim may touch its row, and the two ways to finish.\<close>

definition owns :: "claim \<Rightarrow> outbox_row \<Rightarrow> bool" where
  "owns c r \<longleftrightarrow>
     ob_event_id r = cl_event_id c \<and> ob_retry_count r = cl_retry_count c \<and> ob_occurred_at r = cl_claimed_at c"

definition delete_succeeded :: "claim \<Rightarrow> outbox_row list \<Rightarrow> outbox_row list" where
  "delete_succeeded c rows = filter (\<lambda>r. \<not> owns c r) rows"

definition mark_failed :: "claim \<Rightarrow> outbox_row list \<Rightarrow> outbox_row list" where
  "mark_failed c rows = update_rows (owns c) (\<lambda>r. r\<lparr>ob_retry_count := cl_retry_count c + 1\<rparr>) rows"

section \<open>The relay\<close>

definition redeliver ::
    "(uuid \<times> datetime) \<Rightarrow> event_class registry \<Rightarrow> 'w dispatcher \<Rightarrow> string \<Rightarrow> payload \<Rightarrow> ('w, exn, unit) action" where
  "redeliver fresh reg d event_type p =
     bindA (liftE (deserialize_event (fst fresh) (snd fresh) reg event_type p)) (\<lambda>ev. dispatch d [ev])"

text \<open>
  \<open>OutboxRelay.run_once\<close>. \<open>clock i\<close> is the clock's reading at the \<open>i\<close>-th claim and
  \<open>locked i\<close> the rows locked by others then; \<open>n\<close> is what is left of the batch. The result
  is the number processed, the table and what the handlers left behind.
\<close>

fun relay_loop ::
    "relay_config \<Rightarrow> (uuid \<times> datetime) \<Rightarrow> event_class registry \<Rightarrow> 'w dispatcher \<Rightarrow> (nat \<Rightarrow> datetime) \<Rightarrow>
     (nat \<Rightarrow> uuid \<Rightarrow> bool) \<Rightarrow> nat \<Rightarrow> nat \<Rightarrow> outbox_row list \<times> 'w \<Rightarrow> nat \<times> outbox_row list \<times> 'w" where
  "relay_loop cfg fresh reg d clock locked 0 i (rows, w) = (i, rows, w)"
| "relay_loop cfg fresh reg d clock locked (Suc n) i (rows, w) =
     (case claim_next cfg (clock i) (locked i) rows of
        (None, rows1) \<Rightarrow> (i, rows1, w)
      | (Some c, rows1) \<Rightarrow>
          (case redeliver fresh reg d (cl_event_type c) (cl_payload c) w of
             (Inl _, w1) \<Rightarrow> relay_loop cfg fresh reg d clock locked n (Suc i) (mark_failed c rows1, w1)
           | (Inr _, w1) \<Rightarrow> relay_loop cfg fresh reg d clock locked n (Suc i) (delete_succeeded c rows1, w1)))"

definition run_once ::
    "relay_config \<Rightarrow> (uuid \<times> datetime) \<Rightarrow> event_class registry \<Rightarrow> 'w dispatcher \<Rightarrow> (nat \<Rightarrow> datetime) \<Rightarrow>
     (nat \<Rightarrow> uuid \<Rightarrow> bool) \<Rightarrow> outbox_row list \<times> 'w \<Rightarrow> nat \<times> outbox_row list \<times> 'w" where
  "run_once cfg fresh reg d clock locked st = relay_loop cfg fresh reg d clock locked (batch_size cfg) 0 st"

section \<open>Immediate dispatch\<close>

text \<open>
  \<open>dispatch_outbox_event_immediately\<close>: the row is claimed only while it is untouched, that
  is with no failure and with the instant of its event.
\<close>

definition immediate_claim ::
    "(uuid \<times> datetime) \<Rightarrow> event_class registry \<Rightarrow> datetime \<Rightarrow> uuid \<Rightarrow> outbox_row list \<Rightarrow>
     (claim \<times> event_instance) option \<times> outbox_row list" where
  "immediate_claim fresh reg now i rows =
     (case find (\<lambda>r. ob_event_id r = i) rows of
        None \<Rightarrow> (None, rows)
      | Some r \<Rightarrow>
          (case deserialize_event (fst fresh) (snd fresh) reg (ob_event_type r) (ob_payload r) of
             Inl _ \<Rightarrow> (None, rows)
           | Inr ev \<Rightarrow>
               if ob_retry_count r \<noteq> 0 \<or> map_of (inst_fields ev) ''occurred_at'' \<noteq> Some (FTime (ob_occurred_at r))
               then (None, rows)
               else (Some (claim_row now r, ev), stamp_claim (claim_row now r) rows)))"

definition dispatch_immediately ::
    "(uuid \<times> datetime) \<Rightarrow> event_class registry \<Rightarrow> 'w dispatcher \<Rightarrow> datetime \<Rightarrow> uuid \<Rightarrow> outbox_row list \<times> 'w \<Rightarrow>
     outbox_row list \<times> 'w" where
  "dispatch_immediately fresh reg d now i st =
     (case immediate_claim fresh reg now i (fst st) of
        (None, rows) \<Rightarrow> (rows, snd st)
      | (Some (c, ev), rows) \<Rightarrow>
          (case dispatch d [ev] (snd st) of
             (Inl _, w) \<Rightarrow> (mark_failed c rows, w)
           | (Inr _, w) \<Rightarrow> (delete_succeeded c rows, w)))"

fun dispatch_all_immediately ::
    "(uuid \<times> datetime) \<Rightarrow> event_class registry \<Rightarrow> 'w dispatcher \<Rightarrow> (nat \<Rightarrow> datetime) \<Rightarrow> nat \<Rightarrow> uuid list \<Rightarrow>
     outbox_row list \<times> 'w \<Rightarrow> outbox_row list \<times> 'w" where
  "dispatch_all_immediately fresh reg d clock k [] st = st"
| "dispatch_all_immediately fresh reg d clock k (i # is) st =
     dispatch_all_immediately fresh reg d clock (Suc k) is (dispatch_immediately fresh reg d (clock k) i st)"

section \<open>Claims and their rows\<close>

lemma claim_row_simps [simp]:
  "cl_event_id (claim_row now r) = ob_event_id r"
  "cl_event_type (claim_row now r) = ob_event_type r"
  "cl_payload (claim_row now r) = ob_payload r"
  "cl_retry_count (claim_row now r) = ob_retry_count r"
  "cl_claimed_at (claim_row now r) = max now (ob_occurred_at r + 1)"
  by (simp_all add: claim_row_def)

lemma claim_next_cases:
  obtains "claim_next cfg now locked rows = (None, rows)"
    and "\<forall>r \<in> set rows. eligible cfg now r \<longrightarrow> locked (ob_event_id r)"
  | r where "claim_next cfg now locked rows = (Some (claim_row now r), stamp_claim (claim_row now r) rows)"
    and "r \<in> set rows" and "eligible cfg now r" and "\<not> locked (ob_event_id r)"
proof (cases "find (\<lambda>r. eligible cfg now r \<and> \<not> locked (ob_event_id r)) rows")
  case None
  then have "\<forall>r \<in> set rows. eligible cfg now r \<longrightarrow> locked (ob_event_id r)"
    by (auto simp: find_None_iff_ball)
  then show thesis
    by (rule that(1) [rotated]) (simp only: claim_next_def None option.case)
next
  case (Some r)
  then show thesis using that(2) find_SomeD [OF Some] by (simp add: claim_next_def)
qed

lemma event_ids_stamp [simp]: "map ob_event_id (stamp_claim c rows) = map ob_event_id rows"
  unfolding stamp_claim_def by (rule map_key_update_rows) simp

lemma event_ids_mark [simp]: "map ob_event_id (mark_failed c rows) = map ob_event_id rows"
  unfolding mark_failed_def by (rule map_key_update_rows) simp

lemma event_ids_delete: "distinct (map ob_event_id rows) \<Longrightarrow> distinct (map ob_event_id (delete_succeeded c rows))"
  by (simp add: delete_succeeded_def distinct_map_filter)

text \<open>
  What finishing a claim does to the table it was made on: the success removes the row of
  the event, the failure counts a retry on it; no other row changes.
\<close>

lemma same_row: "distinct (map ob_event_id rows) \<Longrightarrow> r \<in> set rows \<Longrightarrow> x \<in> set rows \<Longrightarrow> ob_event_id x = ob_event_id r \<Longrightarrow> x = r"
  by (simp add: distinct_map inj_on_def)

lemma settle_success:
  assumes "distinct (map ob_event_id rows)" and "r \<in> set rows"
  shows "delete_succeeded (claim_row now r) (stamp_claim (claim_row now r) rows) =
    filter (\<lambda>x. ob_event_id x \<noteq> ob_event_id r) rows"
proof -
  have "owns (claim_row now r) (if ob_event_id x = ob_event_id r
      then x\<lparr>ob_occurred_at := max now (ob_occurred_at r + 1)\<rparr> else x) \<longleftrightarrow> ob_event_id x = ob_event_id r"
    if "x \<in> set rows" for x
    using same_row [OF assms that] by (auto simp: owns_def)
  then have "filter (\<lambda>y. \<not> owns (claim_row now r) y) (stamp_claim (claim_row now r) xs) =
      filter (\<lambda>x. ob_event_id x \<noteq> ob_event_id r) xs" if "set xs \<subseteq> set rows" for xs
    using that by (induction xs) (auto simp: stamp_claim_def)
  then show ?thesis by (simp add: delete_succeeded_def)
qed

lemma settle_failure:
  assumes "distinct (map ob_event_id rows)" and "r \<in> set rows"
  shows "mark_failed (claim_row now r) (stamp_claim (claim_row now r) rows) =
    update_rows (\<lambda>x. ob_event_id x = ob_event_id r)
      (\<lambda>x. x\<lparr>ob_occurred_at := max now (ob_occurred_at r + 1), ob_retry_count := ob_retry_count r + 1\<rparr>) rows"
proof -
  have "owns (claim_row now r) (if ob_event_id x = ob_event_id r
      then x\<lparr>ob_occurred_at := max now (ob_occurred_at r + 1)\<rparr> else x) \<longleftrightarrow> ob_event_id x = ob_event_id r"
    if "x \<in> set rows" for x
    using same_row [OF assms that] by (auto simp: owns_def)
  then have "mark_failed (claim_row now r) (stamp_claim (claim_row now r) xs) =
      update_rows (\<lambda>x. ob_event_id x = ob_event_id r)
      (\<lambda>x. x\<lparr>ob_occurred_at := max now (ob_occurred_at r + 1), ob_retry_count := ob_retry_count r + 1\<rparr>) xs"
    if "set xs \<subseteq> set rows" for xs
    using that by (induction xs) (auto simp: stamp_claim_def mark_failed_def)
  then show ?thesis by simp
qed

section \<open>Immediate dispatch of a published event\<close>

lemma event_occurred_at: "map_of (inst_fields (instance_of e)) ''occurred_at'' = Some (FTime (ev_occurred_at e))"
  by (simp add: instance_of_def class_fields_def base_fields_def)

lemma immediate_claim_published:
  assumes "distinct (map ob_event_id rows)" and "outbox_row_of e \<in> set rows"
    and "valid_instant (ev_occurred_at e)" and "publishable reg e"
  shows "immediate_claim fresh reg now (ev_id e) rows =
    (Some (claim_row now (outbox_row_of e), instance_of e), stamp_claim (claim_row now (outbox_row_of e)) rows)"
proof -
  have "find (\<lambda>r. ob_event_id r = ev_id e) rows = Some (outbox_row_of e)"
    using find_unique_key [OF assms(1,2)] by (simp add: outbox_row_of_def)
  moreover have "deserialize_event (fst fresh) (snd fresh) reg (ob_event_type (outbox_row_of e))
      (ob_payload (outbox_row_of e)) = Inr (instance_of e)"
    using deserialize_written [OF assms(3)] assms(4) by (simp add: outbox_row_of_def publishable_def)
  ultimately show ?thesis
    by (simp add: immediate_claim_def event_occurred_at) (simp add: outbox_row_of_def)
qed

text \<open>The immediate dispatch of a published event whose row no relay has touched hands the
  handlers the event that was published, once; when they all return the row is gone, when one
  raises the row stays with one failed attempt, and no other row changes.\<close>

theorem dispatch_immediately_published:
  assumes "distinct (map ob_event_id rows)" and "outbox_row_of e \<in> set rows"
    and "valid_instant (ev_occurred_at e)" and "publishable reg e"
  shows "dispatch_immediately fresh reg d now (ev_id e) (rows, w) =
    (case dispatch d [instance_of e] w of
       (Inr _, w') \<Rightarrow> (filter (\<lambda>r. ob_event_id r \<noteq> ev_id e) rows, w')
     | (Inl _, w') \<Rightarrow>
         (update_rows (\<lambda>r. ob_event_id r = ev_id e)
            (\<lambda>r. r\<lparr>ob_occurred_at := max now (ev_occurred_at e + 1), ob_retry_count := 1\<rparr>) rows, w'))"
proof -
  note settle = settle_success [OF assms(1,2)] settle_failure [OF assms(1,2)]
  have "ob_event_id (outbox_row_of e) = ev_id e" "ob_occurred_at (outbox_row_of e) = ev_occurred_at e"
    "ob_retry_count (outbox_row_of e) = 0" by (simp_all add: outbox_row_of_def)
  then show ?thesis
    using settle
    by (simp add: dispatch_immediately_def immediate_claim_published [OF assms]
        split: prod.splits sum.splits)
qed

section \<open>A relay run\<close>

text \<open>
  Over a run whose clock moves by less than the redelivery delay, a row that was claimed is
  not claimed again: \<open>stale\<close> bounds the rows a run can still claim.
\<close>

definition stale :: "relay_config \<Rightarrow> (nat \<Rightarrow> datetime) \<Rightarrow> nat \<Rightarrow> outbox_row list \<Rightarrow> nat" where
  "stale cfg clock i rows =
     length (filter (\<lambda>r. \<exists>j\<ge>i. ob_occurred_at r < clock j - redeliver_after_seconds cfg * second_us) rows)"

definition short_run :: "relay_config \<Rightarrow> (nat \<Rightarrow> datetime) \<Rightarrow> bool" where
  "short_run cfg clock \<longleftrightarrow> (\<forall>i j. i \<le> j \<longrightarrow> clock j - redeliver_after_seconds cfg * second_us \<le> clock i)"

lemma length_filter_mono: "(\<And>x. x \<in> set xs \<Longrightarrow> p x \<Longrightarrow> q x) \<Longrightarrow> length (filter p xs) \<le> length (filter q xs)"
  by (induction xs) (auto simp: le_Suc_eq)

lemma length_filter_strict:
  assumes "\<And>x. x \<in> set xs \<Longrightarrow> p x \<Longrightarrow> q x" and "x \<in> set xs" and "q x" and "\<not> p x"
  shows "length (filter p xs) < length (filter q xs)"
  using assms
proof (induction xs)
  case (Cons y ys)
  have "length (filter p ys) \<le> length (filter q ys)" using Cons.prems(1) by (intro length_filter_mono) simp
  then show ?case using Cons by (auto simp: less_Suc_eq_le)
qed simp

lemma stale_settled:
  assumes "short_run cfg clock" and "distinct (map ob_event_id rows)" and "r \<in> set rows"
    and "eligible cfg (clock i) r"
  shows "stale cfg clock (Suc i) (delete_succeeded (claim_row (clock i) r) (stamp_claim (claim_row (clock i) r) rows))
      < stale cfg clock i rows"
    and "stale cfg clock (Suc i) (mark_failed (claim_row (clock i) r) (stamp_claim (claim_row (clock i) r) rows))
      < stale cfg clock i rows"
proof -
  let ?old = "\<lambda>i r. \<exists>j\<ge>i. ob_occurred_at r < clock j - redeliver_after_seconds cfg * second_us"
  let ?f = "\<lambda>x. x\<lparr>ob_occurred_at := max (clock i) (ob_occurred_at r + 1), ob_retry_count := ob_retry_count r + 1\<rparr>"
  have mono: "?old (Suc i) x \<Longrightarrow> ?old i x" for x by (meson Suc_leD)
  have rold: "?old i r" using assms(4) by (auto simp: eligible_def)
  have fnew: "\<not> ?old (Suc i) (?f x)" for x
    using assms(1) unfolding short_run_def by (auto simp: not_less intro: max.coboundedI1 Suc_leD)
  show "stale cfg clock (Suc i) (delete_succeeded (claim_row (clock i) r) (stamp_claim (claim_row (clock i) r) rows))
      < stale cfg clock i rows"
    unfolding stale_def settle_success [OF assms(2,3)] filter_filter
    by (rule length_filter_strict [where x = r]) (use mono rold assms(3) in auto)
  have gone: "filter (?old (Suc i)) (update_rows (\<lambda>x. ob_event_id x = ob_event_id r) ?f xs) =
      filter (\<lambda>x. ob_event_id x \<noteq> ob_event_id r \<and> ?old (Suc i) x) xs" for xs
    using fnew by (induction xs) auto
  show "stale cfg clock (Suc i) (mark_failed (claim_row (clock i) r) (stamp_claim (claim_row (clock i) r) rows))
      < stale cfg clock i rows"
    unfolding stale_def settle_failure [OF assms(2,3)] gone
    by (rule length_filter_strict [where x = r], use mono rold assms(3) in auto)
qed

lemma relay_loop_drains:
  assumes "short_run cfg clock" and "distinct (map ob_event_id rows)"
    and "relay_loop cfg fresh reg d clock locked n i (rows, w) = (k, rows', w')"
  shows "i \<le> k \<and> k \<le> i + n \<and> k \<le> i + stale cfg clock i rows \<and>
    (stale cfg clock i rows < n \<longrightarrow>
       (\<forall>r \<in> set rows'. eligible cfg (clock k) r \<longrightarrow> locked k (ob_event_id r)))"
  using assms(2,3)
proof (induction n arbitrary: i rows w)
  case (Suc n)
  show ?case
  proof (cases rule: claim_next_cases [of cfg "clock i" "locked i" rows])
    case 1
    then show ?thesis using Suc.prems by auto
  next
    case (2 r)
    obtain res w1 where red: "redeliver fresh reg d (ob_event_type r) (ob_payload r) w = (res, w1)" by fastforce
    let ?c = "claim_row (clock i) r"
    obtain next_rows where nr: "next_rows = (case res of Inl _ \<Rightarrow> mark_failed ?c (stamp_claim ?c rows)
        | Inr _ \<Rightarrow> delete_succeeded ?c (stamp_claim ?c rows))" by simp
    have run: "relay_loop cfg fresh reg d clock locked n (Suc i) (next_rows, w1) = (k, rows', w')"
      using Suc.prems(2) 2(1) red nr by (cases res) simp_all
    have "stale cfg clock (Suc i) next_rows < stale cfg clock i rows" "distinct (map ob_event_id next_rows)"
      using stale_settled [OF assms(1) Suc.prems(1) 2(2,3)] Suc.prems(1) nr
      by (cases res; simp add: event_ids_delete)+
    then show ?thesis using Suc.IH [OF _ run] by auto
  qed
qed simp


text \<open>A relay run handles at most \<open>batch_size\<close> rows and no row twice; a batch larger than the
  table leaves no row behind that is eligible and not locked by another transaction.\<close>

theorem run_once_drains:
  assumes "short_run cfg clock" and "distinct (map ob_event_id rows)"
    and "run_once cfg fresh reg d clock locked (rows, w) = (k, rows', w')"
  shows "k \<le> batch_size cfg \<and> k \<le> length rows \<and>
    (length rows < batch_size cfg \<longrightarrow>
       (\<forall>r \<in> set rows'. eligible cfg (clock k) r \<longrightarrow> locked k (ob_event_id r)))"
proof -
  have "stale cfg clock 0 rows \<le> length rows" by (simp add: stale_def)
  then show ?thesis
    using relay_loop_drains [OF assms(1,2) assms(3) [unfolded run_once_def]] by auto
qed

section \<open>Sample runs\<close>

definition sample_outbox :: "outbox_row list" where
  "sample_outbox = [outbox_row_of sample_event, (outbox_row_of sample_event)\<lparr>ob_event_id := 8\<rparr>]"

theorem dispatch_immediately_published_witness:
  "dispatch_immediately (0, 0) [(''CreditGranted'', CreditGrantedC)] [] (738001 * day_us) (ev_id sample_event)
     (sample_outbox, ()) = ([(outbox_row_of sample_event)\<lparr>ob_event_id := 8\<rparr>], ())"
  by (subst dispatch_immediately_published)
    (simp_all add: sample_event_valid sample_outbox_def outbox_row_of_def publishable_def resolve_def bindA_def returnA_def,
     simp_all add: sample_event_def new_event_def)

definition sample_config :: relay_config where
  "sample_config = \<lparr>redeliver_after_seconds = 60, max_retry = 5, batch_size = 20\<rparr>"

theorem run_once_drains_witness:
  "fst (run_once sample_config (0, 0) [] [] (\<lambda>_. 738001 * day_us) (\<lambda>_ _. False) (sample_outbox, ())) \<le> 2"
proof -
  obtain k rows w where run: "run_once sample_config (0, 0) [] [] (\<lambda>_. 738001 * day_us) (\<lambda>_ _. False) (sample_outbox, ())
      = (k, rows, w)" by (metis prod_cases3)
  have "k \<le> length sample_outbox"
    using run_once_drains [OF _ _ run]
    by (simp add: short_run_def sample_config_def second_us_def sample_outbox_def outbox_row_of_def
        sample_event_def new_event_def)
  then show ?thesis using run by (simp add: sample_outbox_def)
qed

end
