(* ===== verification/Outbox_Protocol.thy ===== *)
theory Outbox_Protocol
  imports Outbox
begin

text \<open>
  The outbox table under several workers: relay runs of several processes, immediate
  dispatches and requests that publish, each of which may stop at any point. The steps are
  the operations of \<^theory_text>\<open>Outbox\<close> between two commits, with the clock readings
  arbitrary, since the workers' clocks need not agree.
\<close>

section \<open>Workers and steps\<close>

text \<open>
  A worker is idle, has committed a claim and runs the handlers, or the handlers have
  returned and the row is still to be deleted.
\<close>

datatype phase = Idle | Claimed claim | Delivered claim

fun claim_of :: "phase \<Rightarrow> claim option" where
  "claim_of Idle = None"
| "claim_of (Claimed c) = Some c"
| "claim_of (Delivered c) = Some c"

text \<open>\<open>pr_published\<close> and \<open>pr_delivered\<close> are histories: no step reads them but to keep ids fresh.\<close>

record protocol =
  pr_rows :: "outbox_row list"
  pr_worker :: "nat \<Rightarrow> phase"
  pr_published :: "uuid list"
  pr_delivered :: "uuid list"

definition initial_protocol :: protocol where
  "initial_protocol = \<lparr>pr_rows = [], pr_worker = (\<lambda>_. Idle), pr_published = [], pr_delivered = []\<rparr>"

inductive protocol_step :: "relay_config \<Rightarrow> event_class registry \<Rightarrow> protocol \<Rightarrow> protocol \<Rightarrow> bool"
  for cfg :: relay_config and reg :: "event_class registry" where
  publishes:
    "ev_id e \<notin> set (pr_published p) \<Longrightarrow>
     protocol_step cfg reg p (p\<lparr>pr_rows := pr_rows p @ [outbox_row_of e], pr_published := pr_published p @ [ev_id e]\<rparr>)"
| relay_claims:
    "pr_worker p w = Idle \<Longrightarrow> claim_next cfg now locked (pr_rows p) = (Some c, rows) \<Longrightarrow>
     protocol_step cfg reg p (p\<lparr>pr_rows := rows, pr_worker := (pr_worker p)(w := Claimed c)\<rparr>)"
| immediate_claims:
    "pr_worker p w = Idle \<Longrightarrow> immediate_claim fresh reg now i (pr_rows p) = (Some (c, ev), rows) \<Longrightarrow>
     protocol_step cfg reg p (p\<lparr>pr_rows := rows, pr_worker := (pr_worker p)(w := Claimed c)\<rparr>)"
| delivers:
    "pr_worker p w = Claimed c \<Longrightarrow>
     protocol_step cfg reg p
       (p\<lparr>pr_worker := (pr_worker p)(w := Delivered c), pr_delivered := pr_delivered p @ [cl_event_id c]\<rparr>)"
| fails:
    "pr_worker p w = Claimed c \<Longrightarrow>
     protocol_step cfg reg p (p\<lparr>pr_rows := mark_failed c (pr_rows p), pr_worker := (pr_worker p)(w := Idle)\<rparr>)"
| settles:
    "pr_worker p w = Delivered c \<Longrightarrow>
     protocol_step cfg reg p (p\<lparr>pr_rows := delete_succeeded c (pr_rows p), pr_worker := (pr_worker p)(w := Idle)\<rparr>)"
| crashes:
    "protocol_step cfg reg p (p\<lparr>pr_worker := (pr_worker p)(w := Idle)\<rparr>)"

inductive protocol_reachable :: "relay_config \<Rightarrow> event_class registry \<Rightarrow> protocol \<Rightarrow> bool"
  for cfg :: relay_config and reg :: "event_class registry" where
  starts: "protocol_reachable cfg reg initial_protocol"
| steps: "protocol_reachable cfg reg p \<Longrightarrow> protocol_step cfg reg p q \<Longrightarrow> protocol_reachable cfg reg q"

section \<open>What a claim step does\<close>

text \<open>Both ways to claim pick a row, stamp it with a later instant and remember the stamp.\<close>

definition claims_row :: "relay_config \<Rightarrow> outbox_row list \<Rightarrow> claim \<Rightarrow> outbox_row list \<Rightarrow> bool" where
  "claims_row cfg rows c rows' \<longleftrightarrow>
     (\<exists>r now. r \<in> set rows \<and> c = claim_row now r \<and> rows' = stamp_claim c rows \<and>
        (ob_retry_count r < max_retry cfg \<or> ob_retry_count r = 0))"

lemma relay_claims_row: "claim_next cfg now locked rows = (Some c, rows') \<Longrightarrow> claims_row cfg rows c rows'"
  by (cases rule: claim_next_cases [of cfg now locked rows]) (auto simp: claims_row_def eligible_def)

lemma immediate_claims_row: "immediate_claim fresh reg now i rows = (Some (c, ev), rows') \<Longrightarrow> claims_row cfg rows c rows'"
  by (auto simp: immediate_claim_def claims_row_def dest!: find_SomeD split: option.splits sum.splits if_splits)

lemma protocol_step_cases:
  assumes "protocol_step cfg reg p q"
  obtains (publish) e where "ev_id e \<notin> set (pr_published p)"
      "q = p\<lparr>pr_rows := pr_rows p @ [outbox_row_of e], pr_published := pr_published p @ [ev_id e]\<rparr>"
  | (claim) w c rows where "pr_worker p w = Idle" "claims_row cfg (pr_rows p) c rows"
      "q = p\<lparr>pr_rows := rows, pr_worker := (pr_worker p)(w := Claimed c)\<rparr>"
  | (deliver) w c where "pr_worker p w = Claimed c"
      "q = p\<lparr>pr_worker := (pr_worker p)(w := Delivered c), pr_delivered := pr_delivered p @ [cl_event_id c]\<rparr>"
  | (fail) w c where "pr_worker p w = Claimed c"
      "q = p\<lparr>pr_rows := mark_failed c (pr_rows p), pr_worker := (pr_worker p)(w := Idle)\<rparr>"
  | (settle) w c where "pr_worker p w = Delivered c"
      "q = p\<lparr>pr_rows := delete_succeeded c (pr_rows p), pr_worker := (pr_worker p)(w := Idle)\<rparr>"
  | (crash) w where "q = p\<lparr>pr_worker := (pr_worker p)(w := Idle)\<rparr>"
  using assms
proof cases
  case (relay_claims w now locked c rows)
  then show thesis using claim relay_claims_row by blast
next
  case (immediate_claims w fresh now i c ev rows)
  then show thesis using claim immediate_claims_row by blast
qed (use publish deliver fail settle crash in blast)+

text \<open>Rows by id are unaffected in number by claims and failures; every other field only moves up.\<close>

lemma claims_row_ids: "claims_row cfg rows c rows' \<Longrightarrow> map ob_event_id rows' = map ob_event_id rows"
  by (auto simp: claims_row_def)

lemma ids_of_map: "map ob_event_id rows' = map ob_event_id rows \<Longrightarrow> ob_event_id ` set rows' = ob_event_id ` set rows"
  by (metis list.set_map)

lemma claims_rowE:
  assumes "claims_row cfg rows c rows'"
  obtains r now where "r \<in> set rows" "c = claim_row now r" "rows' = stamp_claim c rows"
    "ob_retry_count r < max_retry cfg \<or> ob_retry_count r = 0"
  using assms by (auto simp: claims_row_def)

lemma mem_stamp:
  "x \<in> set (stamp_claim c rows) \<longleftrightarrow>
     (\<exists>r \<in> set rows. x = (if ob_event_id r = cl_event_id c then r\<lparr>ob_occurred_at := cl_claimed_at c\<rparr> else r))"
  by (auto simp: stamp_claim_def set_update_rows)

lemma mem_mark:
  "x \<in> set (mark_failed c rows) \<longleftrightarrow>
     (\<exists>r \<in> set rows. x = (if owns c r then r\<lparr>ob_retry_count := cl_retry_count c + 1\<rparr> else r))"
  by (auto simp: mark_failed_def set_update_rows)

lemma mem_delete: "x \<in> set (delete_succeeded c rows) \<longleftrightarrow> x \<in> set rows \<and> \<not> owns c x"
  by (auto simp: delete_succeeded_def)

section \<open>Ids\<close>

definition ids_ok :: "protocol \<Rightarrow> bool" where
  "ids_ok p \<longleftrightarrow> distinct (map ob_event_id (pr_rows p)) \<and>
     ob_event_id ` set (pr_rows p) \<subseteq> set (pr_published p) \<and>
     (\<forall>w c. claim_of (pr_worker p w) = Some c \<longrightarrow> cl_event_id c \<in> set (pr_published p))"

lemma ids_ok_step: "ids_ok p \<Longrightarrow> protocol_step cfg reg p q \<Longrightarrow> ids_ok q"
proof (erule protocol_step_cases)
  fix e
  assume ok: "ids_ok p" and "ev_id e \<notin> set (pr_published p)"
    and q: "q = p\<lparr>pr_rows := pr_rows p @ [outbox_row_of e], pr_published := pr_published p @ [ev_id e]\<rparr>"
  then have "ev_id e \<notin> ob_event_id ` set (pr_rows p)" unfolding ids_ok_def by blast
  then show "ids_ok q" using ok q by (auto simp: ids_ok_def outbox_row_of_def)
next
  fix w c rows
  assume ok: "ids_ok p" and c: "claims_row cfg (pr_rows p) c rows"
    and q: "q = p\<lparr>pr_rows := rows, pr_worker := (pr_worker p)(w := Claimed c)\<rparr>"
  note ids = claims_row_ids [OF c] ids_of_map [OF claims_row_ids [OF c]]
  have "cl_event_id c \<in> ob_event_id ` set (pr_rows p)" using c by (auto elim: claims_rowE)
  then show "ids_ok q" using ok q ids by (auto simp: ids_ok_def)
next
  fix w c
  assume "ids_ok p" "q = p\<lparr>pr_rows := mark_failed c (pr_rows p), pr_worker := (pr_worker p)(w := Idle)\<rparr>"
  then show "ids_ok q" using ids_of_map [OF event_ids_mark] by (auto simp: ids_ok_def)
next
  fix w c
  assume "ids_ok p" "q = p\<lparr>pr_rows := delete_succeeded c (pr_rows p), pr_worker := (pr_worker p)(w := Idle)\<rparr>"
  then show "ids_ok q" by (auto simp: ids_ok_def event_ids_delete mem_delete)
next
  fix w c
  assume ok: "ids_ok p" and w: "pr_worker p w = Claimed c"
    and q: "q = p\<lparr>pr_worker := (pr_worker p)(w := Delivered c), pr_delivered := pr_delivered p @ [cl_event_id c]\<rparr>"
  have "claim_of (pr_worker p w) = Some c" using w by simp
  then have "cl_event_id c \<in> set (pr_published p)" using ok unfolding ids_ok_def by blast
  then show "ids_ok q" using ok q by (auto simp: ids_ok_def)
qed (auto simp: ids_ok_def)

lemma ids_ok_reachable: "protocol_reachable cfg reg p \<Longrightarrow> ids_ok p"
proof (induction rule: protocol_reachable.induct)
  case starts
  then show ?case by (simp add: ids_ok_def initial_protocol_def)
qed (rule ids_ok_step)

section \<open>Nothing is lost\<close>

definition kept :: "protocol \<Rightarrow> bool" where
  "kept p \<longleftrightarrow>
     (\<forall>i \<in> set (pr_published p). i \<in> ob_event_id ` set (pr_rows p) \<or> i \<in> set (pr_delivered p)) \<and>
     (\<forall>w c. pr_worker p w = Delivered c \<longrightarrow> cl_event_id c \<in> set (pr_delivered p))"

lemma kept_step: "kept p \<Longrightarrow> protocol_step cfg reg p q \<Longrightarrow> kept q"
proof (erule protocol_step_cases)
  fix w c rows
  assume "kept p" and c: "claims_row cfg (pr_rows p) c rows"
    and "q = p\<lparr>pr_rows := rows, pr_worker := (pr_worker p)(w := Claimed c)\<rparr>"
  then show "kept q" using ids_of_map [OF claims_row_ids [OF c]] by (auto simp: kept_def)
next
  fix w c
  assume "kept p" "q = p\<lparr>pr_rows := mark_failed c (pr_rows p), pr_worker := (pr_worker p)(w := Idle)\<rparr>"
  then show "kept q" using ids_of_map [OF event_ids_mark] by (auto simp: kept_def)
next
  fix w c
  assume k: "kept p" and w: "pr_worker p w = Delivered c"
    and q: "q = p\<lparr>pr_rows := delete_succeeded c (pr_rows p), pr_worker := (pr_worker p)(w := Idle)\<rparr>"
  have "i \<in> ob_event_id ` set (delete_succeeded c (pr_rows p)) \<or> i \<in> set (pr_delivered p)"
    if "i \<in> set (pr_published p)" for i
  proof (cases "i = cl_event_id c")
    case True
    then show ?thesis using k w by (auto simp: kept_def)
  next
    case False
    then have "r \<in> set (delete_succeeded c (pr_rows p))" if "r \<in> set (pr_rows p)" "ob_event_id r = i" for r
      using that by (simp add: mem_delete owns_def)
    then show ?thesis using k that by (fastforce simp: kept_def)
  qed
  then show "kept q" using k q by (auto simp: kept_def)
qed (auto simp: kept_def outbox_row_of_def)

text \<open>C2. No event is lost: whatever the workers do, and wherever they stop, an event whose
  publication was committed has its row in the outbox until its handlers have returned.\<close>

theorem no_event_lost:
  assumes "protocol_reachable cfg reg p" and "i \<in> set (pr_published p)" and "i \<notin> set (pr_delivered p)"
  shows "\<exists>r \<in> set (pr_rows p). ob_event_id r = i"
proof -
  have "kept p" using assms(1)
  proof (induction rule: protocol_reachable.induct)
    case starts
    then show ?case by (simp add: kept_def initial_protocol_def)
  qed (rule kept_step)
  then show ?thesis using assms(2,3) by (auto simp: kept_def)
qed

section \<open>Retries\<close>

definition retries_ok :: "relay_config \<Rightarrow> protocol \<Rightarrow> bool" where
  "retries_ok cfg p \<longleftrightarrow>
     (\<forall>r \<in> set (pr_rows p). 0 \<le> ob_retry_count r \<and> ob_retry_count r \<le> max_retry cfg) \<and>
     (\<forall>w c. claim_of (pr_worker p w) = Some c \<longrightarrow> 0 \<le> cl_retry_count c \<and> cl_retry_count c < max_retry cfg)"

lemma retries_ok_step:
  assumes "retries_ok cfg p" and "protocol_step cfg reg p q" and "1 \<le> max_retry cfg"
  shows "retries_ok cfg q"
  using assms(2)
proof (cases rule: protocol_step_cases)
  case (claim w c rows)
  then show ?thesis using assms(1,3)
    by (auto simp: retries_ok_def mem_stamp elim!: claims_rowE)
next
  case (fail w c)
  have "0 \<le> cl_retry_count c \<and> cl_retry_count c < max_retry cfg"
    using assms(1) fail(1) unfolding retries_ok_def by (metis claim_of.simps(2))
  then show ?thesis using assms(1) fail(2) by (auto simp: retries_ok_def mem_mark)
next
  case (deliver w c)
  then show ?thesis using assms(1) unfolding retries_ok_def
    by (auto split: if_splits) (metis claim_of.simps(2))+
qed (use assms in \<open>auto simp: retries_ok_def outbox_row_of_def mem_delete\<close>)

text \<open>The retry counter of an outbox row stays between 0 and \<open>max_retry\<close>: a row is given up,
  and kept for inspection, after \<open>max_retry\<close> failures.\<close>

theorem retry_count_bounded:
  assumes "protocol_reachable cfg reg p" and "1 \<le> max_retry cfg" and "r \<in> set (pr_rows p)"
  shows "0 \<le> ob_retry_count r \<and> ob_retry_count r \<le> max_retry cfg"
proof -
  have "retries_ok cfg p" using assms(1)
  proof (induction rule: protocol_reachable.induct)
    case starts
    then show ?case by (simp add: retries_ok_def initial_protocol_def)
  next
    case (steps p q)
    then show ?case using retries_ok_step assms(2) by blast
  qed
  then show ?thesis using assms(3) by (auto simp: retries_ok_def)
qed

section \<open>Fencing\<close>

text \<open>A claim never lies after the stamp of its row, and two claims of an event differ in time.\<close>

definition fenced :: "protocol \<Rightarrow> bool" where
  "fenced p \<longleftrightarrow>
     (\<forall>w c. claim_of (pr_worker p w) = Some c \<longrightarrow>
        (\<forall>r \<in> set (pr_rows p). ob_event_id r = cl_event_id c \<longrightarrow> cl_claimed_at c \<le> ob_occurred_at r)) \<and>
     (\<forall>w v c d. w \<noteq> v \<longrightarrow> claim_of (pr_worker p w) = Some c \<longrightarrow> claim_of (pr_worker p v) = Some d \<longrightarrow>
        cl_event_id c = cl_event_id d \<longrightarrow> cl_claimed_at c \<noteq> cl_claimed_at d)"

lemma fencedD:
  assumes "fenced p"
  shows "claim_of (pr_worker p w) = Some c \<Longrightarrow> r \<in> set (pr_rows p) \<Longrightarrow> ob_event_id r = cl_event_id c \<Longrightarrow>
      cl_claimed_at c \<le> ob_occurred_at r"
    and "w \<noteq> v \<Longrightarrow> claim_of (pr_worker p w) = Some c \<Longrightarrow> claim_of (pr_worker p v) = Some d \<Longrightarrow>
      cl_event_id c = cl_event_id d \<Longrightarrow> cl_claimed_at c \<noteq> cl_claimed_at d"
  using assms by (auto simp: fenced_def)

lemma fencedI:
  assumes "\<And>w c r. claim_of (pr_worker p w) = Some c \<Longrightarrow> r \<in> set (pr_rows p) \<Longrightarrow> ob_event_id r = cl_event_id c \<Longrightarrow>
      cl_claimed_at c \<le> ob_occurred_at r"
    and "\<And>w v c d. w \<noteq> v \<Longrightarrow> claim_of (pr_worker p w) = Some c \<Longrightarrow> claim_of (pr_worker p v) = Some d \<Longrightarrow>
      cl_event_id c = cl_event_id d \<Longrightarrow> cl_claimed_at c \<noteq> cl_claimed_at d"
  shows "fenced p"
  using assms by (auto simp: fenced_def)

text \<open>Steps that make no claim keep at most the claims there were, and no row moves back.\<close>

lemma fenced_weaken:
  assumes "fenced p"
    and "\<And>w c. claim_of (pr_worker q w) = Some c \<Longrightarrow> claim_of (pr_worker p w) = Some c"
    and "\<And>x. x \<in> set (pr_rows q) \<Longrightarrow>
      (\<exists>r \<in> set (pr_rows p). ob_event_id x = ob_event_id r \<and> ob_occurred_at x = ob_occurred_at r) \<or>
      ob_event_id x \<notin> set (pr_published p)"
    and "ids_ok p"
  shows "fenced q"
proof (rule fencedI)
  fix w c x
  assume c: "claim_of (pr_worker q w) = Some c" and x: "x \<in> set (pr_rows q)" "ob_event_id x = cl_event_id c"
  have "cl_event_id c \<in> set (pr_published p)" using assms(2) [OF c] assms(4) unfolding ids_ok_def by blast
  then show "cl_claimed_at c \<le> ob_occurred_at x"
    using assms(3) [OF x(1)] fencedD(1) [OF assms(1) assms(2) [OF c]] x(2) by auto
qed (use fencedD(2) [OF assms(1)] assms(2) in blast)

lemma fenced_step:
  assumes "fenced p" and "ids_ok p" and "protocol_step cfg reg p q"
  shows "fenced q"
  using assms(3)
proof (cases rule: protocol_step_cases)
  case (publish e)
  then show ?thesis by (intro fenced_weaken [OF assms(1) _ _ assms(2)]) (auto simp: outbox_row_of_def)
next
  case (claim w c rows)
  obtain r now where r: "r \<in> set (pr_rows p)" "c = claim_row now r" "rows = stamp_claim c (pr_rows p)"
    using claims_rowE [OF claim(2)] by metis
  have one: "x = r" if "x \<in> set (pr_rows p)" "ob_event_id x = ob_event_id r" for x
    using same_row [OF _ r(1) that] assms(2) by (simp add: ids_ok_def)
  have later: "cl_claimed_at d < cl_claimed_at c"
    if "claim_of (pr_worker p v) = Some d" "cl_event_id d = ob_event_id r" for v d
    using fencedD(1) [OF assms(1) that(1) r(1)] that(2) r(2) by simp
  show ?thesis
  proof (rule fencedI)
    fix v d x
    assume d: "claim_of (pr_worker q v) = Some d" and x: "x \<in> set (pr_rows q)" "ob_event_id x = cl_event_id d"
    obtain y where y: "y \<in> set (pr_rows p)"
      "x = (if ob_event_id y = ob_event_id r then y\<lparr>ob_occurred_at := cl_claimed_at c\<rparr> else y)"
      using x(1) claim(3) r(2,3) by (auto simp: mem_stamp)
    have id: "ob_event_id x = ob_event_id y" using y(2) by simp
    show "cl_claimed_at d \<le> ob_occurred_at x"
    proof (cases "v = w")
      case True
      then have dc: "d = c" using d claim(3) by simp
      have "ob_event_id y = ob_event_id r" using x(2) unfolding id dc using r(2) by simp
      then show ?thesis using y(2) dc by simp
    next
      case False
      then have "claim_of (pr_worker p v) = Some d" using d claim(3) by simp
      then show ?thesis
        using later [of v d] fencedD(1) [OF assms(1) _ y(1), of v d] x(2) y(2) id by (simp split: if_splits)
    qed
  next
    fix v u d f
    assume vu: "v \<noteq> u" and d: "claim_of (pr_worker q v) = Some d" and f: "claim_of (pr_worker q u) = Some f"
      and eq: "cl_event_id d = cl_event_id f"
    have cid: "cl_event_id c = ob_event_id r" using r(2) by simp
    consider "v = w" "u \<noteq> w" | "u = w" "v \<noteq> w" | "v \<noteq> w" "u \<noteq> w" using vu by blast
    then show "cl_claimed_at d \<noteq> cl_claimed_at f"
    proof cases
      case 1
      then have "d = c" "claim_of (pr_worker p u) = Some f" using d f claim(3) by simp_all
      then show ?thesis using later [of u f] eq cid by simp
    next
      case 2
      then have "f = c" "claim_of (pr_worker p v) = Some d" using d f claim(3) by simp_all
      then show ?thesis using later [of v d] eq cid by simp
    next
      case 3
      then have "claim_of (pr_worker p v) = Some d" "claim_of (pr_worker p u) = Some f" using d f claim(3) by simp_all
      then show ?thesis using fencedD(2) [OF assms(1) vu _ _ eq] by blast
    qed
  qed
next
  case (deliver w c)
  then show ?thesis
    by (intro fenced_weaken [OF assms(1) _ _ assms(2)]) (auto split: if_splits)
next
  case (fail w c)
  then show ?thesis
    by (intro fenced_weaken [OF assms(1) _ _ assms(2)]) (auto simp: mem_mark split: if_splits)
next
  case (settle w c)
  then show ?thesis
    by (intro fenced_weaken [OF assms(1) _ _ assms(2)]) (auto simp: mem_delete split: if_splits)
next
  case (crash w)
  then show ?thesis
    by (intro fenced_weaken [OF assms(1) _ _ assms(2)]) (auto split: if_splits)
qed

lemma fenced_reachable: "protocol_reachable cfg reg p \<Longrightarrow> fenced p"
proof (induction rule: protocol_reachable.induct)
  case starts
  then show ?case by (simp add: fenced_def initial_protocol_def)
next
  case (steps p q)
  then show ?case using fenced_step ids_ok_reachable by blast
qed

text \<open>C30. A superseded claim is fenced off: when another worker has claimed the event again, the
  older claim neither deletes the row nor counts a failure on it.\<close>

theorem superseded_claim_is_fenced:
  assumes "protocol_reachable cfg reg p" and "w \<noteq> v"
    and "claim_of (pr_worker p w) = Some c" and "claim_of (pr_worker p v) = Some d"
    and "cl_event_id c = cl_event_id d" and "cl_claimed_at c < cl_claimed_at d"
  shows "delete_succeeded c (pr_rows p) = pr_rows p \<and> mark_failed c (pr_rows p) = pr_rows p"
proof -
  have "\<not> owns c r" if "r \<in> set (pr_rows p)" for r
    using fencedD(1) [OF fenced_reachable [OF assms(1)] assms(4) that] assms(5,6) by (auto simp: owns_def)
  then show ?thesis
    unfolding delete_succeeded_def mark_failed_def by (auto intro!: filter_True update_rows_id)
qed

section \<open>A run with a lease that expires\<close>

text \<open>
  One event, claimed by worker 0, whose handlers run longer than the redelivery delay, and
  then by worker 1.
\<close>

definition sample_relay :: relay_config where
  "sample_relay = \<lparr>redeliver_after_seconds = 60, max_retry = 3, batch_size = 10\<rparr>"

definition sample_row :: outbox_row where
  "sample_row = outbox_row_of sample_event"

definition first_claim :: claim where
  "first_claim = claim_row (ob_occurred_at sample_row + 100 * second_us) sample_row"

definition second_claim :: claim where
  "second_claim = claim_row (ob_occurred_at sample_row + 300 * second_us)
     (sample_row\<lparr>ob_occurred_at := cl_claimed_at first_claim\<rparr>)"

definition stamped_row :: outbox_row where
  "stamped_row = sample_row\<lparr>ob_occurred_at := cl_claimed_at second_claim\<rparr>"

definition sample_published :: protocol where
  "sample_published = initial_protocol\<lparr>pr_rows := [sample_row], pr_published := [ev_id sample_event]\<rparr>"

definition sample_superseded :: protocol where
  "sample_superseded = sample_published\<lparr>pr_rows := [stamped_row],
     pr_worker := (\<lambda>_. Idle)(0 := Claimed first_claim, 1 := Claimed second_claim)\<rparr>"

lemma sample_row_simps:
  "ob_event_id sample_row = ev_id sample_event" "ob_retry_count sample_row = 0"
  by (simp_all add: sample_row_def outbox_row_of_def)

lemma sample_published_reachable: "protocol_reachable sample_relay reg sample_published"
proof (rule protocol_reachable.steps [OF protocol_reachable.starts])
  show "protocol_step sample_relay reg initial_protocol sample_published"
    using protocol_step.publishes [of sample_event initial_protocol sample_relay reg]
    by (simp add: sample_published_def sample_row_def initial_protocol_def)
qed

lemma sample_superseded_reachable: "protocol_reachable sample_relay reg sample_superseded"
proof -
  let ?q = "sample_published\<lparr>pr_rows := [sample_row\<lparr>ob_occurred_at := cl_claimed_at first_claim\<rparr>],
     pr_worker := (\<lambda>_. Idle)(0 := Claimed first_claim)\<rparr>"
  have "claim_next sample_relay (ob_occurred_at sample_row + 100 * second_us) (\<lambda>_. False) [sample_row] =
      (Some first_claim, [sample_row\<lparr>ob_occurred_at := cl_claimed_at first_claim\<rparr>])"
    by (simp add: claim_next_def eligible_def sample_relay_def sample_row_simps first_claim_def stamp_claim_def second_us_def)
  then have "protocol_step sample_relay reg sample_published ?q"
    using protocol_step.relay_claims [of sample_published 0 sample_relay]
    by (fastforce simp: sample_published_def initial_protocol_def)
  then have q: "protocol_reachable sample_relay reg ?q"
    by (rule protocol_reachable.steps [OF sample_published_reachable])
  have "claim_next sample_relay (ob_occurred_at sample_row + 300 * second_us) (\<lambda>_. False)
      [sample_row\<lparr>ob_occurred_at := cl_claimed_at first_claim\<rparr>] = (Some second_claim, [stamped_row])"
    by (simp add: claim_next_def eligible_def sample_relay_def sample_row_simps first_claim_def second_claim_def
        stamped_row_def stamp_claim_def second_us_def)
  then have "protocol_step sample_relay reg ?q sample_superseded"
    using protocol_step.relay_claims [of ?q 1 sample_relay]
    by (fastforce simp: sample_superseded_def sample_published_def initial_protocol_def)
  then show ?thesis by (rule protocol_reachable.steps [OF q])
qed

theorem no_event_lost_witness: "\<exists>r \<in> set (pr_rows sample_superseded). ob_event_id r = ev_id sample_event"
  by (rule no_event_lost [OF sample_superseded_reachable [of "[]"]])
    (simp_all add: sample_superseded_def sample_published_def initial_protocol_def)

theorem retry_count_bounded_witness:
  "0 \<le> ob_retry_count stamped_row \<and> ob_retry_count stamped_row \<le> max_retry sample_relay"
  by (rule retry_count_bounded [OF sample_superseded_reachable [of "[]"]])
    (simp_all add: sample_relay_def sample_superseded_def)

theorem superseded_claim_is_fenced_witness:
  "delete_succeeded first_claim (pr_rows sample_superseded) = pr_rows sample_superseded \<and>
   mark_failed first_claim (pr_rows sample_superseded) = pr_rows sample_superseded"
  by (rule superseded_claim_is_fenced [OF sample_superseded_reachable [of "[]"], of 0 1 _ second_claim])
    (simp_all add: sample_superseded_def first_claim_def second_claim_def second_us_def)

text \<open>Delivery is at least once and not exactly once: a state is reachable in which the handlers
  have run twice for one event, when they outlast the redelivery delay.\<close>

theorem delivery_may_repeat:
  "\<exists>p. protocol_reachable sample_relay reg p \<and> pr_delivered p = [ev_id sample_event, ev_id sample_event]"
proof -
  let ?p1 = "sample_superseded\<lparr>pr_worker := (pr_worker sample_superseded)(0 := Delivered first_claim),
    pr_delivered := pr_delivered sample_superseded @ [cl_event_id first_claim]\<rparr>"
  let ?p2 = "?p1\<lparr>pr_worker := (pr_worker ?p1)(1 := Delivered second_claim),
    pr_delivered := pr_delivered ?p1 @ [cl_event_id second_claim]\<rparr>"
  have "protocol_reachable sample_relay reg ?p1"
    by (rule protocol_reachable.steps [OF sample_superseded_reachable protocol_step.delivers])
      (simp add: sample_superseded_def)
  then have "protocol_reachable sample_relay reg ?p2"
    by (rule protocol_reachable.steps [OF _ protocol_step.delivers]) (simp add: sample_superseded_def)
  moreover have "pr_delivered ?p2 = [ev_id sample_event, ev_id sample_event]"
    by (simp add: sample_superseded_def sample_published_def initial_protocol_def first_claim_def second_claim_def
        sample_row_simps)
  ultimately show ?thesis by blast
qed

end
