(* ===== verification/Credits.thy ===== *)
theory Credits
  imports Outbox
begin

text \<open>
  The credits module: \<open>app/modules/credits/domain\<close> (counts, amounts, balances and the
  \<open>UserCredit\<close> aggregate), \<open>infrastructure/persistence\<close> (tables with their constraints, the
  mapper and the repository) and the ports between them.
\<close>

section \<open>Value objects\<close>

datatype feature_key = OCR
datatype credit_action = GRANT | USE

fun feature_key_value :: "feature_key \<Rightarrow> string" where
  "feature_key_value OCR = ''ocr''"

definition feature_key_of :: "string \<Rightarrow> feature_key option" where
  "feature_key_of s = find (\<lambda>m. feature_key_value m = s) [OCR]"

fun credit_action_value :: "credit_action \<Rightarrow> string" where
  "credit_action_value GRANT = ''grant''"
| "credit_action_value USE = ''use''"

definition credit_action_of :: "string \<Rightarrow> credit_action option" where
  "credit_action_of s = find (\<lambda>m. credit_action_value m = s) [GRANT, USE]"

interpretation feature: str_enum feature_key_value feature_key_of
proof (rule str_enumI [OF feature_key_of_def])
  fix m show "m \<in> set [OCR]" by (cases m) simp
  fix m n :: feature_key show "m = n" by (cases m; cases n) simp
qed

interpretation action: str_enum credit_action_value credit_action_of
proof (rule str_enumI [OF credit_action_of_def])
  fix m show "m \<in> set [GRANT, USE]" by (cases m) simp_all
  fix m n show "credit_action_value m = credit_action_value n \<Longrightarrow> m = n" by (cases m; cases n) simp_all
qed

datatype credit_count = CreditCount (count_value: int)
datatype credit_amount = CreditAmount (amount_value: int)

definition mk_credit_count :: "string \<Rightarrow> int \<Rightarrow> exn + credit_count" where
  "mk_credit_count field_name v =
     (if v < 0 then Inl (ValidationError [ErrorDetail field_name ''credit_count_non_negative'']) else Inr (CreditCount v))"

definition mk_credit_amount :: "string \<Rightarrow> int \<Rightarrow> exn + credit_amount" where
  "mk_credit_amount field_name v =
     (if v < 1 then Inl (ValidationError [ErrorDetail field_name ''credit_amount_positive'']) else Inr (CreditAmount v))"

record credit_balance =
  total_granted :: credit_count
  used :: credit_count
  remaining :: credit_count

definition mk_credit_balance :: "int \<Rightarrow> int \<Rightarrow> int \<Rightarrow> exn + credit_balance" where
  "mk_credit_balance total_granted_count used_count remaining_count =
     bindE (mk_credit_count ''total_granted_count'' total_granted_count) (\<lambda>t.
     bindE (mk_credit_count ''used_count'' used_count) (\<lambda>u.
     bindE (mk_credit_count ''remaining_count'' remaining_count) (\<lambda>r.
       if count_value t \<noteq> count_value u + count_value r
       then Inl (ValidationError [ErrorDetail ''total_granted_count'' ''counts_inconsistent''])
       else Inr \<lparr>total_granted = t, used = u, remaining = r\<rparr>)))"

abbreviation total_granted_count :: "credit_balance \<Rightarrow> int" where
  "total_granted_count b \<equiv> count_value (total_granted b)"

abbreviation used_count :: "credit_balance \<Rightarrow> int" where
  "used_count b \<equiv> count_value (used b)"

abbreviation remaining_count :: "credit_balance \<Rightarrow> int" where
  "remaining_count b \<equiv> count_value (remaining b)"

definition can_cover :: "credit_balance \<Rightarrow> credit_amount \<Rightarrow> bool" where
  "can_cover b amount \<longleftrightarrow> remaining_count b \<ge> amount_value amount"

text \<open>What the constructors of balances and amounts guarantee.\<close>

definition balance_ok :: "credit_balance \<Rightarrow> bool" where
  "balance_ok b \<longleftrightarrow> 0 \<le> used_count b \<and> 0 \<le> remaining_count b \<and> total_granted_count b = used_count b + remaining_count b"

definition amount_ok :: "credit_amount \<Rightarrow> bool" where
  "amount_ok a \<longleftrightarrow> 1 \<le> amount_value a"

lemma mk_credit_balance_Inr:
  "mk_credit_balance t u r = Inr b \<longleftrightarrow>
     0 \<le> u \<and> 0 \<le> r \<and> t = u + r \<and> b = \<lparr>total_granted = CreditCount t, used = CreditCount u, remaining = CreditCount r\<rparr>"
  by (auto simp: mk_credit_balance_def mk_credit_count_def)

lemma mk_credit_balance_ok: "mk_credit_balance t u r = Inr b \<Longrightarrow> balance_ok b"
  by (simp add: mk_credit_balance_Inr balance_ok_def)

lemma mk_credit_amount_ok: "mk_credit_amount f v = Inr a \<Longrightarrow> amount_ok a \<and> amount_value a = v"
  by (auto simp: mk_credit_amount_def amount_ok_def split: if_splits)

section \<open>The aggregate\<close>

record user_credit = "domain_event aggregate_root" +
  uc_id :: uuid
  uc_feature_key :: feature_key
  uc_balance :: credit_balance

definition restore_user_credit :: "uuid \<Rightarrow> feature_key \<Rightarrow> int \<Rightarrow> int \<Rightarrow> int \<Rightarrow> exn + user_credit" where
  "restore_user_credit user_id fk total_granted_n used_n remaining_n =
     bindE (mk_credit_balance total_granted_n used_n remaining_n) (\<lambda>b.
       Inr \<lparr>pending_events = [], uc_id = user_id, uc_feature_key = fk, uc_balance = b\<rparr>)"

definition user_credit_use :: "credit_amount \<Rightarrow> user_credit \<Rightarrow> exn + user_credit" where
  "user_credit_use amount uc =
     (if \<not> can_cover (uc_balance uc) amount then Inl InsufficientCreditError
      else bindE (mk_credit_balance (total_granted_count (uc_balance uc))
                    (used_count (uc_balance uc) + amount_value amount)
                    (remaining_count (uc_balance uc) - amount_value amount)) (\<lambda>b.
           Inr (uc\<lparr>uc_balance := b\<rparr>)))"

text \<open>\<open>grant\<close>: the id and the instant of the event it records are arguments.\<close>

definition user_credit_grant ::
    "uuid \<Rightarrow> datetime \<Rightarrow> credit_amount \<Rightarrow> credit_reason \<Rightarrow> credit_source_type option \<Rightarrow> uuid option \<Rightarrow> ustr option \<Rightarrow>
     user_credit \<Rightarrow> exn + user_credit" where
  "user_credit_grant event_id now amount reason source_type source_id idempotency_key uc =
     bindE (mk_credit_balance (total_granted_count (uc_balance uc) + amount_value amount)
              (used_count (uc_balance uc))
              (remaining_count (uc_balance uc) + amount_value amount)) (\<lambda>b.
       Inr (record_event
              (new_event event_id now
                 (CreditGranted (uc_id uc) (amount_value amount) reason source_type source_id idempotency_key))
              (uc\<lparr>uc_balance := b\<rparr>)))"

lemma user_credit_use_ok:
  assumes "balance_ok (uc_balance uc)" and "amount_ok a"
  shows "user_credit_use a uc =
    (if remaining_count (uc_balance uc) < amount_value a then Inl InsufficientCreditError
     else Inr (uc\<lparr>uc_balance :=
       \<lparr>total_granted = total_granted (uc_balance uc),
        used = CreditCount (used_count (uc_balance uc) + amount_value a),
        remaining = CreditCount (remaining_count (uc_balance uc) - amount_value a)\<rparr>\<rparr>))"
  using assms
  by (cases "total_granted (uc_balance uc)")
    (auto simp: user_credit_use_def can_cover_def mk_credit_balance_def mk_credit_count_def balance_ok_def amount_ok_def)

lemma user_credit_grant_ok:
  assumes "balance_ok (uc_balance uc)" and "amount_ok a"
  shows "user_credit_grant i t a r st si k uc =
    Inr (uc\<lparr>pending_events := pending_events uc @
              [new_event i t (CreditGranted (uc_id uc) (amount_value a) r st si k)],
            uc_balance :=
       \<lparr>total_granted = CreditCount (total_granted_count (uc_balance uc) + amount_value a),
        used = used (uc_balance uc),
        remaining = CreditCount (remaining_count (uc_balance uc) + amount_value a)\<rparr>\<rparr>)"
  using assms
  by (simp add: user_credit_grant_def mk_credit_balance_def mk_credit_count_def balance_ok_def amount_ok_def
      record_event_def)

text \<open>\<open>UserCredit\<close> keeps a consistent balance under both of its operations: counts are not
  negative and what was granted is what was used plus what remains; a use beyond the
  remaining count raises and no other error is possible.\<close>

theorem user_credit_invariant:
  assumes "balance_ok (uc_balance uc)" and "amount_ok a"
  shows "(case user_credit_use a uc of
            Inr uc' \<Rightarrow> balance_ok (uc_balance uc') \<and> amount_value a \<le> remaining_count (uc_balance uc)
          | Inl e \<Rightarrow> e = InsufficientCreditError \<and> remaining_count (uc_balance uc) < amount_value a) \<and>
         (\<exists>uc'. user_credit_grant i t a r st si k uc = Inr uc' \<and> balance_ok (uc_balance uc') \<and>
            remaining_count (uc_balance uc') = remaining_count (uc_balance uc) + amount_value a)"
  using assms by (auto simp: user_credit_use_ok user_credit_grant_ok balance_ok_def amount_ok_def)

theorem user_credit_invariant_witness:
  "user_credit_use (CreditAmount 3) \<lparr>pending_events = [], uc_id = 1, uc_feature_key = OCR,
     uc_balance = \<lparr>total_granted = CreditCount 5, used = CreditCount 3, remaining = CreditCount 2\<rparr>\<rparr> =
   Inl InsufficientCreditError"
  using user_credit_invariant [of "\<lparr>pending_events = [], uc_id = 1, uc_feature_key = OCR,
     uc_balance = \<lparr>total_granted = CreditCount 5, used = CreditCount 3, remaining = CreditCount 2\<rparr>\<rparr>" "CreditAmount 3"
     1 0 OCR_USAGE None None None]
  by (simp add: balance_ok_def amount_ok_def split: sum.splits)

section \<open>Tables\<close>

text \<open>
  \<open>user_credits\<close> and \<open>credit_transactions\<close>. The columns \<open>current_period\<close>, \<open>updated_at\<close> and
  \<open>user_credits.created_at\<close> are written by the database only and read by nothing.
\<close>

record user_credit_row =
  ucr_user_id :: uuid
  ucr_feature_key :: string
  ucr_total_granted_count :: int
  ucr_used_count :: int
  ucr_remaining_count :: int

record credit_tx_row =
  ctr_id :: uuid
  ctr_user_id :: uuid
  ctr_feature_key :: string
  ctr_reason :: string
  ctr_action :: string
  ctr_amount :: int
  ctr_source_type :: "string option"
  ctr_source_id :: "uuid option"
  ctr_idempotency_key :: "ustr option"
  ctr_created_at :: datetime

record credit_db = outbox_db +
  user_credits :: "user_credit_row list"
  credit_transactions :: "credit_tx_row list"

text \<open>
  Constraints in the order they are checked; the first that does not hold is the error. A
  value out of the range of its column is a \<open>DataError\<close>.
\<close>

definition user_credit_checks :: "user_credit_row \<Rightarrow> (bool \<times> exn) list" where
  "user_credit_checks r =
     [(int4 (ucr_total_granted_count r) \<and> int4 (ucr_used_count r) \<and> int4 (ucr_remaining_count r), DataError),
      (ucr_feature_key r = ''ocr'', IntegrityError ''ck_user_credits_feature_key_allowed''),
      (ucr_total_granted_count r \<ge> 0, IntegrityError ''ck_user_credits_total_granted_count_non_negative''),
      (ucr_used_count r \<ge> 0, IntegrityError ''ck_user_credits_used_count_non_negative''),
      (ucr_remaining_count r \<ge> 0, IntegrityError ''ck_user_credits_remaining_count_non_negative''),
      (ucr_total_granted_count r = ucr_used_count r + ucr_remaining_count r,
       IntegrityError ''ck_user_credits_counts_consistent'')]"

definition credit_tx_checks :: "credit_tx_row \<Rightarrow> (bool \<times> exn) list" where
  "credit_tx_checks r =
     [(int4 (ctr_amount r) \<and> (\<forall>k. ctr_idempotency_key r = Some k \<longrightarrow> length k \<le> 255), DataError),
      (ctr_feature_key r = ''ocr'', IntegrityError ''ck_credit_transactions_feature_key_allowed''),
      (ctr_reason r \<in> {''monthlyOcrAllowance'', ''eventOcrAllowance'', ''ocrUsage''},
       IntegrityError ''ck_credit_transactions_reason_allowed''),
      (ctr_action r \<in> {''grant'', ''use''}, IntegrityError ''ck_credit_transactions_action_allowed''),
      (ctr_reason r \<in> {''monthlyOcrAllowance'', ''eventOcrAllowance''} \<and> ctr_action r = ''grant'' \<or>
       ctr_reason r = ''ocrUsage'' \<and> ctr_action r = ''use'',
       IntegrityError ''ck_credit_transactions_reason_action_pair''),
      (ctr_amount r > 0, IntegrityError ''ck_credit_transactions_amount_positive''),
      (ctr_source_type r \<in> {None, Some ''promotionRedemption'', Some ''monthlyAllowance'', Some ''ocrAnalysis''},
       IntegrityError ''ck_credit_transactions_source_type_allowed''),
      (ctr_source_type r = None \<longleftrightarrow> ctr_source_id r = None,
       IntegrityError ''ck_credit_transactions_source_pair_complete'')]"

definition user_credit_key :: "user_credit_row \<Rightarrow> uuid \<times> string" where
  "user_credit_key r = (ucr_user_id r, ucr_feature_key r)"

text \<open>The entries of the two partial unique indexes.\<close>

definition idempotency_keys :: "credit_tx_row list \<Rightarrow> ustr list" where
  "idempotency_keys txs = List.map_filter ctr_idempotency_key txs"

definition source_key :: "credit_tx_row \<Rightarrow> (string \<times> uuid \<times> uuid \<times> string \<times> string) option" where
  "source_key r =
     (case (ctr_source_type r, ctr_source_id r) of
        (Some t, Some i) \<Rightarrow> Some (t, i, ctr_user_id r, ctr_feature_key r, ctr_action r)
      | _ \<Rightarrow> None)"

definition source_keys :: "credit_tx_row list \<Rightarrow> (string \<times> uuid \<times> uuid \<times> string \<times> string) list" where
  "source_keys txs = List.map_filter source_key txs"

definition credit_checks :: "('z) credit_db_scheme \<Rightarrow> (bool \<times> exn) list" where
  "credit_checks db =
     concat (map user_credit_checks (user_credits db)) @
     [(distinct (map user_credit_key (user_credits db)), IntegrityError ''pk_user_credits'')] @
     concat (map credit_tx_checks (credit_transactions db)) @
     [(distinct (map ctr_id (credit_transactions db)), IntegrityError ''pk_credit_transactions''),
      (distinct (idempotency_keys (credit_transactions db)),
       IntegrityError ''ix_credit_transactions_idempotency_key_unique''),
      (distinct (source_keys (credit_transactions db)), IntegrityError ''ix_credit_transactions_source_unique''),
      (distinct (map ob_event_id (outbox_events db)), IntegrityError ''uq_outbox_events_event_id'')]"

definition credit_violation :: "('z) credit_db_scheme \<Rightarrow> exn option" where
  "credit_violation db = first_violation (credit_checks db)"

definition user_credit_row_ok :: "user_credit_row \<Rightarrow> bool" where
  "user_credit_row_ok r \<longleftrightarrow> (\<forall>(ok, e) \<in> set (user_credit_checks r). ok)"

definition credit_tx_row_ok :: "credit_tx_row \<Rightarrow> bool" where
  "credit_tx_row_ok r \<longleftrightarrow> (\<forall>(ok, e) \<in> set (credit_tx_checks r). ok)"

lemma credit_violation_None:
  "credit_violation db = None \<longleftrightarrow>
     (\<forall>r \<in> set (user_credits db). user_credit_row_ok r) \<and> distinct (map user_credit_key (user_credits db)) \<and>
     (\<forall>r \<in> set (credit_transactions db). credit_tx_row_ok r) \<and> distinct (map ctr_id (credit_transactions db)) \<and>
     distinct (idempotency_keys (credit_transactions db)) \<and> distinct (source_keys (credit_transactions db)) \<and>
     distinct (map ob_event_id (outbox_events db))"
  unfolding credit_violation_def first_violation_None credit_checks_def user_credit_row_ok_def credit_tx_row_ok_def
  by (simp only: set_append ball_Un set_concat set_map UN_ball_bex_simps list.set ball_simps prod.case) blast

end
