(* ===== verification/Credits_Repository.thy ===== *)
theory Credits_Repository
  imports Credits
begin

text \<open>
  The credit repository: \<open>app/modules/credits/infrastructure/persistence/mapper.py\<close> and
  \<open>repository.py\<close> with the data of \<open>application/ports/credit_repository.py\<close>, as actions on
  a session over any database that contains the credit tables.
\<close>

section \<open>Mapper\<close>

definition user_credit_to_domain :: "user_credit_row option \<Rightarrow> uuid \<Rightarrow> exn + user_credit" where
  "user_credit_to_domain record user_id =
     (case record of
        None \<Rightarrow> restore_user_credit user_id OCR 0 0 0
      | Some r \<Rightarrow>
          (case feature_key_of (ucr_feature_key r) of
             None \<Rightarrow> Inl PyValueError
           | Some fk \<Rightarrow> restore_user_credit (ucr_user_id r) fk (ucr_total_granted_count r) (ucr_used_count r)
                          (ucr_remaining_count r)))"

definition user_credit_to_balance :: "user_credit_row option \<Rightarrow> uuid \<Rightarrow> exn + credit_balance" where
  "user_credit_to_balance record user_id =
     bindE (user_credit_to_domain record user_id) (\<lambda>uc. Inr (uc_balance uc))"

record credit_tx_item =
  cti_transaction_id :: uuid
  cti_user_id :: uuid
  cti_reason :: credit_reason
  cti_action :: credit_action
  cti_amount :: credit_amount
  cti_created_at :: datetime

definition transaction_to_list_item :: "credit_tx_row \<Rightarrow> exn + credit_tx_item" where
  "transaction_to_list_item r =
     (case credit_reason_of (ctr_reason r) of
        None \<Rightarrow> Inl PyValueError
      | Some reason \<Rightarrow>
          (case credit_action_of (ctr_action r) of
             None \<Rightarrow> Inl PyValueError
           | Some action \<Rightarrow>
               bindE (mk_credit_amount ''amount'' (ctr_amount r)) (\<lambda>amount.
               Inr \<lparr>cti_transaction_id = ctr_id r, cti_user_id = ctr_user_id r, cti_reason = reason,
                    cti_action = action, cti_amount = amount, cti_created_at = ctr_created_at r\<rparr>)))"

section \<open>Repository\<close>

type_synonym ('z, 'a) credit_action_on = "('z credit_db_scheme session, exn, 'a) action"

definition find_credit_row :: "uuid \<Rightarrow> string \<Rightarrow> 'z credit_db_scheme \<Rightarrow> user_credit_row option" where
  "find_credit_row user_id fk db = find (\<lambda>r. user_credit_key r = (user_id, fk)) (user_credits db)"

definition get_balance :: "uuid \<Rightarrow> ('z, credit_balance) credit_action_on" where
  "get_balance user_id =
     bindA (query_session (find_credit_row user_id (feature_key_value OCR))) (\<lambda>record.
     liftE (user_credit_to_balance record user_id))"

text \<open>
  \<open>SELECT ... FOR UPDATE\<close> waits for the holder of the row's lock, so that the rows others
  commit while it waits (\<open>rival\<close>) are visible to it.
\<close>

definition get_user_credit_for_update ::
    "('z credit_db_scheme \<Rightarrow> 'z credit_db_scheme) \<Rightarrow> uuid \<Rightarrow> ('z, user_credit) credit_action_on" where
  "get_user_credit_for_update rival user_id =
     bindA (interfere rival) (\<lambda>_.
     bindA (query_session (find_credit_row user_id (feature_key_value OCR))) (\<lambda>record.
     liftE (user_credit_to_domain record user_id)))"

definition user_credit_to_row :: "user_credit \<Rightarrow> user_credit_row" where
  "user_credit_to_row uc =
     \<lparr>ucr_user_id = uc_id uc, ucr_feature_key = feature_key_value (uc_feature_key uc),
      ucr_total_granted_count = total_granted_count (uc_balance uc), ucr_used_count = used_count (uc_balance uc),
      ucr_remaining_count = remaining_count (uc_balance uc)\<rparr>"

definition put_user_credit :: "user_credit \<Rightarrow> 'z credit_db_scheme \<Rightarrow> 'z credit_db_scheme" where
  "put_user_credit uc db =
     (case find_credit_row (uc_id uc) (feature_key_value (uc_feature_key uc)) db of
        None \<Rightarrow> db\<lparr>user_credits := user_credits db @ [user_credit_to_row uc]\<rparr>
      | Some _ \<Rightarrow>
          db\<lparr>user_credits := update_rows (\<lambda>r. user_credit_key r = (uc_id uc, feature_key_value (uc_feature_key uc)))
               (\<lambda>r. r\<lparr>ucr_total_granted_count := total_granted_count (uc_balance uc),
                      ucr_used_count := used_count (uc_balance uc),
                      ucr_remaining_count := remaining_count (uc_balance uc)\<rparr>) (user_credits db)\<rparr>)"

definition save_user_credit :: "user_credit \<Rightarrow> ('z, unit) credit_action_on" where
  "save_user_credit uc = write_session (put_user_credit uc)"

text \<open>\<open>CreditTransactionAppend\<close> and the row it becomes; id and \<open>created_at\<close> are defaults of the table.\<close>

record credit_append =
  ca_user_id :: uuid
  ca_reason :: credit_reason
  ca_action :: credit_action
  ca_amount :: credit_amount
  ca_source_type :: "credit_source_type option"
  ca_source_id :: "uuid option"
  ca_idempotency_key :: "ustr option"

definition mk_credit_append ::
    "uuid \<Rightarrow> credit_reason \<Rightarrow> credit_action \<Rightarrow> credit_amount \<Rightarrow> credit_source_type option \<Rightarrow> uuid option \<Rightarrow>
     ustr option \<Rightarrow> exn + credit_append" where
  "mk_credit_append user_id reason action amount source_type source_id idempotency_key =
     (if (source_type = None) \<noteq> (source_id = None)
      then Inl (ValidationError [ErrorDetail ''source'' ''source_pair_incomplete''])
      else Inr \<lparr>ca_user_id = user_id, ca_reason = reason, ca_action = action, ca_amount = amount,
                ca_source_type = source_type, ca_source_id = source_id, ca_idempotency_key = idempotency_key\<rparr>)"

definition append_to_row :: "uuid \<Rightarrow> datetime \<Rightarrow> credit_append \<Rightarrow> credit_tx_row" where
  "append_to_row tx_id db_now t =
     \<lparr>ctr_id = tx_id, ctr_user_id = ca_user_id t, ctr_feature_key = feature_key_value OCR,
      ctr_reason = credit_reason_value (ca_reason t), ctr_action = credit_action_value (ca_action t),
      ctr_amount = amount_value (ca_amount t), ctr_source_type = map_option credit_source_value (ca_source_type t),
      ctr_source_id = ca_source_id t, ctr_idempotency_key = ca_idempotency_key t, ctr_created_at = db_now\<rparr>"

definition append_transaction :: "uuid \<Rightarrow> datetime \<Rightarrow> credit_append \<Rightarrow> ('z, unit) credit_action_on" where
  "append_transaction tx_id db_now t =
     write_session (\<lambda>db. db\<lparr>credit_transactions := credit_transactions db @ [append_to_row tx_id db_now t]\<rparr>)"

text \<open>
  \<open>flush_pending_writes\<close>: the violation of one of three constraints, the name of the primary
  key of \<open>user_credits\<close> among them, is reported as a write conflict.
\<close>

definition idempotent_constraints :: "string list" where
  "idempotent_constraints =
     [''ix_credit_transactions_idempotency_key_unique'', ''ix_credit_transactions_source_unique'', ''pk_user_credits'']"

fun is_write_conflict :: "exn \<Rightarrow> bool" where
  "is_write_conflict (IntegrityError c) = (c \<in> set idempotent_constraints)"
| "is_write_conflict _ = False"

definition flush_pending_writes :: "('z credit_db_scheme \<Rightarrow> 'z credit_db_scheme) \<Rightarrow> ('z, unit) credit_action_on" where
  "flush_pending_writes rival =
     bindA (interfere rival) (\<lambda>_.
     catchA (flush_session credit_violation)
       (\<lambda>e. if is_write_conflict e then raiseA CreditTransactionWriteConflictError else raiseA e))"

definition exists_transaction_with_idempotency_key :: "ustr \<Rightarrow> ('z, bool) credit_action_on" where
  "exists_transaction_with_idempotency_key k =
     query_session (\<lambda>db. exists_row (\<lambda>r. ctr_idempotency_key r = Some k) (credit_transactions db))"

definition exists_transaction_with_source ::
    "uuid \<Rightarrow> credit_source_type \<Rightarrow> uuid \<Rightarrow> credit_action \<Rightarrow> ('z, bool) credit_action_on" where
  "exists_transaction_with_source user_id source_type source_id action =
     query_session (\<lambda>db. exists_row
       (\<lambda>r. ctr_source_type r = Some (credit_source_value source_type) \<and> ctr_source_id r = Some source_id \<and>
            ctr_user_id r = user_id \<and> ctr_feature_key r = feature_key_value OCR \<and>
            ctr_action r = credit_action_value action)
       (credit_transactions db))"

definition delete_by_user_id :: "uuid \<Rightarrow> ('z, unit) credit_action_on" where
  "delete_by_user_id user_id =
     bindA (write_session (\<lambda>db. db\<lparr>credit_transactions := filter (\<lambda>r. ctr_user_id r \<noteq> user_id) (credit_transactions db)\<rparr>))
       (\<lambda>_. write_session (\<lambda>db. db\<lparr>user_credits := filter (\<lambda>r. ucr_user_id r \<noteq> user_id) (user_credits db)\<rparr>))"

section \<open>The stored balance\<close>

definition stored_balance :: "uuid \<Rightarrow> 'z credit_db_scheme \<Rightarrow> credit_balance" where
  "stored_balance u db =
     (case find_credit_row u ''ocr'' db of
        None \<Rightarrow> \<lparr>total_granted = CreditCount 0, used = CreditCount 0, remaining = CreditCount 0\<rparr>
      | Some r \<Rightarrow> \<lparr>total_granted = CreditCount (ucr_total_granted_count r), used = CreditCount (ucr_used_count r),
                   remaining = CreditCount (ucr_remaining_count r)\<rparr>)"

definition stored_user_credit :: "uuid \<Rightarrow> 'z credit_db_scheme \<Rightarrow> user_credit" where
  "stored_user_credit u db = \<lparr>pending_events = [], uc_id = u, uc_feature_key = OCR, uc_balance = stored_balance u db\<rparr>"

lemma user_credit_row_okD:
  assumes "user_credit_row_ok r"
  shows "ucr_feature_key r = ''ocr''" "0 \<le> ucr_used_count r" "0 \<le> ucr_remaining_count r"
    "ucr_total_granted_count r = ucr_used_count r + ucr_remaining_count r"
  using assms by (simp_all add: user_credit_row_ok_def user_credit_checks_def)

lemma find_credit_rowD:
  "find_credit_row u fk db = Some r \<Longrightarrow> r \<in> set (user_credits db) \<and> ucr_user_id r = u \<and> ucr_feature_key r = fk"
  by (auto simp: find_credit_row_def user_credit_key_def dest!: find_SomeD)

lemma user_credit_to_domain_stored:
  assumes "credit_violation db = None"
  shows "user_credit_to_domain (find_credit_row u ''ocr'' db) u = Inr (stored_user_credit u db)"
proof (cases "find_credit_row u ''ocr'' db")
  case None
  then show ?thesis
    by (simp add: user_credit_to_domain_def restore_user_credit_def stored_user_credit_def stored_balance_def
        mk_credit_balance_def mk_credit_count_def)
next
  case (Some r)
  note r = find_credit_rowD [OF Some]
  have ok: "user_credit_row_ok r" using assms r by (auto simp: credit_violation_None)
  note d = user_credit_row_okD [OF ok]
  have "mk_credit_balance (ucr_total_granted_count r) (ucr_used_count r) (ucr_remaining_count r) =
      Inr (stored_balance u db)"
    by (simp add: mk_credit_balance_Inr d Some stored_balance_def)
  moreover have "feature_key_of (ucr_feature_key r) = Some OCR"
    using d(1) by (simp add: feature_key_of_def)
  ultimately show ?thesis
    using Some r by (simp add: user_credit_to_domain_def restore_user_credit_def stored_user_credit_def)
qed

lemma stored_balance_ok:
  assumes "credit_violation db = None"
  shows "balance_ok (stored_balance u db)"
proof (cases "find_credit_row u ''ocr'' db")
  case (Some r)
  then have "user_credit_row_ok r" using assms find_credit_rowD [OF Some] by (simp add: credit_violation_None)
  then show ?thesis using user_credit_row_okD [of r] Some by (simp add: stored_balance_def balance_ok_def)
qed (simp add: stored_balance_def balance_ok_def)

lemma get_balance_ok [action_simps]:
  assumes "\<not> tx_failed s" and "credit_violation (working s) = None"
  shows "get_balance u s = (Inr (stored_balance u (working s)), s)"
  using user_credit_to_domain_stored [OF assms(2)] assms(1)
  by (simp add: get_balance_def action_simps user_credit_to_balance_def stored_user_credit_def)

lemma get_user_credit_for_update_ok:
  assumes "\<not> tx_failed s" and "credit_violation (rival (working s)) = None"
  shows "get_user_credit_for_update rival u s =
    (Inr (stored_user_credit u (rival (working s))),
     s\<lparr>committed := rival (committed s), working := rival (working s)\<rparr>)"
  using user_credit_to_domain_stored [OF assms(2)] assms(1)
  by (simp add: get_user_credit_for_update_def action_simps)

text \<open>The stored balance after a write: the saved one for its user, the old one for every other.\<close>

lemma find_credit_row_put:
  "find_credit_row u ''ocr'' (put_user_credit uc db) =
    (if u = uc_id uc then
       Some (case find_credit_row u ''ocr'' db of
               None \<Rightarrow> user_credit_to_row uc
             | Some r \<Rightarrow> r\<lparr>ucr_total_granted_count := total_granted_count (uc_balance uc),
                          ucr_used_count := used_count (uc_balance uc),
                          ucr_remaining_count := remaining_count (uc_balance uc)\<rparr>)
     else find_credit_row u ''ocr'' db)"
proof -
  have fk: "feature_key_value (uc_feature_key uc) = ''ocr''" by (cases "uc_feature_key uc") simp
  show ?thesis
  proof (cases "find_credit_row (uc_id uc) ''ocr'' db")
    case None
    then show ?thesis
      by (auto simp: put_user_credit_def fk find_credit_row_def find_append user_credit_to_row_def user_credit_key_def
          split: option.splits)
  next
    case (Some r)
    show ?thesis
    proof (cases "u = uc_id uc")
      case True
      then show ?thesis using Some fk
        by (simp add: put_user_credit_def find_credit_row_def user_credit_key_def)
          (subst find_update_rows_same, simp_all)
    next
      case False
      then show ?thesis using Some fk
        by (simp add: put_user_credit_def find_credit_row_def user_credit_key_def)
          (subst find_update_rows_other, auto)
    qed
  qed
qed

lemma stored_balance_put:
  "stored_balance u (put_user_credit uc db) = (if u = uc_id uc then uc_balance uc else stored_balance u db)"
  by (auto simp: stored_balance_def find_credit_row_put user_credit_to_row_def split: option.splits)

lemma stored_balance_cong: "user_credits db' = user_credits db \<Longrightarrow> stored_balance u db' = stored_balance u db"
  by (simp add: stored_balance_def find_credit_row_def)

lemma put_user_credit_other [simp]:
  "credit_transactions (put_user_credit uc db) = credit_transactions db"
  "outbox_events (put_user_credit uc db) = outbox_events db"
  by (simp_all add: put_user_credit_def split: option.splits)

end
