(* ===== verification/Credits_Commands.thy ===== *)
theory Credits_Commands
  imports Credits_Repository
begin

text \<open>
  The commands of \<open>app/modules/credits/application/commands\<close>: grant, reserve, finalize, use
  and delete, each over a repository, a unit of work and the outbox publisher of the module.
\<close>

section \<open>Commands\<close>

text \<open>
  What a call takes from its surroundings: fresh ids, the clocks of the process and of the
  database, and what other sessions commit while it waits for the row lock and before its
  flush.
\<close>

record 'db credit_env =
  ce_event_id :: uuid
  ce_now :: datetime
  ce_tx_id :: uuid
  ce_db_now :: datetime
  ce_rival_lock :: "'db \<Rightarrow> 'db"
  ce_rival_flush :: "'db \<Rightarrow> 'db"

record grant_command =
  gc_user_id :: uuid
  gc_amount :: credit_amount
  gc_reason :: credit_reason
  gc_source_type :: "credit_source_type option"
  gc_source_id :: "uuid option"
  gc_idempotency_key :: "ustr option"

definition mk_grant_command ::
    "uuid \<Rightarrow> credit_amount \<Rightarrow> credit_reason \<Rightarrow> credit_source_type option \<Rightarrow> uuid option \<Rightarrow> ustr option \<Rightarrow>
     exn + grant_command" where
  "mk_grant_command user_id amount reason source_type source_id idempotency_key =
     (if (source_type = None) \<noteq> (source_id = None)
      then Inl (ValidationError [ErrorDetail ''source'' ''source_pair_incomplete''])
      else Inr \<lparr>gc_user_id = user_id, gc_amount = amount, gc_reason = reason, gc_source_type = source_type,
                gc_source_id = source_id, gc_idempotency_key = idempotency_key\<rparr>)"

record grant_result =
  gr_total_granted_count :: int
  gr_remaining_count :: int

definition grant_result_of :: "credit_balance \<Rightarrow> grant_result" where
  "grant_result_of b = \<lparr>gr_total_granted_count = total_granted_count b, gr_remaining_count = remaining_count b\<rparr>"

definition is_duplicate_grant :: "grant_command \<Rightarrow> ('z, bool) credit_action_on" where
  "is_duplicate_grant cmd =
     bindA (case gc_idempotency_key cmd of
              Some k \<Rightarrow> exists_transaction_with_idempotency_key k
            | None \<Rightarrow> returnA False) (\<lambda>dup.
     if dup then returnA True
     else (case (gc_source_type cmd, gc_source_id cmd) of
             (Some t, Some i) \<Rightarrow> exists_transaction_with_source (gc_user_id cmd) t i GRANT
           | _ \<Rightarrow> returnA False))"

definition has_idempotent_identity :: "grant_command \<Rightarrow> bool" where
  "has_idempotent_identity cmd \<longleftrightarrow>
     gc_idempotency_key cmd \<noteq> None \<or> (gc_source_type cmd \<noteq> None \<and> gc_source_id cmd \<noteq> None)"

definition grant_credit ::
    "('z, unit) credit_action_on \<Rightarrow> ('z, unit) credit_action_on \<Rightarrow> 'z credit_db_scheme credit_env \<Rightarrow>
     grant_command \<Rightarrow> ('z, grant_result) credit_action_on" where
  "grant_credit uow_commit uow_rollback env cmd =
     bindA (is_duplicate_grant cmd) (\<lambda>dup.
     if dup then bindA (get_balance (gc_user_id cmd)) (\<lambda>b. returnA (grant_result_of b))
     else
       bindA (get_user_credit_for_update (ce_rival_lock env) (gc_user_id cmd)) (\<lambda>uc.
       bindA (liftE (user_credit_grant (ce_event_id env) (ce_now env) (gc_amount cmd) (gc_reason cmd)
                       (gc_source_type cmd) (gc_source_id cmd) (gc_idempotency_key cmd) uc)) (\<lambda>granted.
       bindA (save_user_credit granted) (\<lambda>_.
       bindA (liftE (mk_credit_append (gc_user_id cmd) (gc_reason cmd) GRANT (gc_amount cmd) (gc_source_type cmd)
                       (gc_source_id cmd) (gc_idempotency_key cmd))) (\<lambda>tx.
       bindA (append_transaction (ce_tx_id env) (ce_db_now env) tx) (\<lambda>_.
       bindA (publish build_credits_event_registry (fst (pull_events granted))) (\<lambda>_.
       catchA
         (bindA (flush_pending_writes (ce_rival_flush env)) (\<lambda>_.
          bindA uow_commit (\<lambda>_.
          returnA (grant_result_of (uc_balance granted)))))
         (\<lambda>e. if e = CreditTransactionWriteConflictError then
                (if \<not> has_idempotent_identity cmd then raiseA e
                 else bindA uow_rollback (\<lambda>_.
                      bindA (get_balance (gc_user_id cmd)) (\<lambda>b. returnA (grant_result_of b))))
              else raiseA e))))))))"

record use_command =
  us_user_id :: uuid
  us_amount :: credit_amount
  us_reason :: credit_reason

definition reserve_credit :: "'z credit_db_scheme credit_env \<Rightarrow> use_command \<Rightarrow> ('z, unit) credit_action_on" where
  "reserve_credit env cmd =
     bindA (get_user_credit_for_update (ce_rival_lock env) (us_user_id cmd)) (\<lambda>uc.
     bindA (liftE (user_credit_use (us_amount cmd) uc)) (\<lambda>used_credit.
     save_user_credit used_credit))"

definition finalize_credit_usage ::
    "('z, unit) credit_action_on \<Rightarrow> 'z credit_db_scheme credit_env \<Rightarrow> use_command \<Rightarrow> ('z, unit) credit_action_on" where
  "finalize_credit_usage uow_commit env cmd =
     bindA (liftE (mk_credit_append (us_user_id cmd) (us_reason cmd) USE (us_amount cmd) None None None)) (\<lambda>tx.
     bindA (append_transaction (ce_tx_id env) (ce_db_now env) tx) (\<lambda>_.
     bindA (publish build_credits_event_registry
              [new_event (ce_event_id env) (ce_now env)
                 (CreditUsed (us_user_id cmd) (amount_value (us_amount cmd)) (us_reason cmd))]) (\<lambda>_.
     uow_commit)))"

definition use_credit ::
    "('z, unit) credit_action_on \<Rightarrow> 'z credit_db_scheme credit_env \<Rightarrow> use_command \<Rightarrow> ('z, unit) credit_action_on" where
  "use_credit uow_commit env cmd =
     bindA (reserve_credit env cmd) (\<lambda>_. finalize_credit_usage uow_commit env cmd)"

definition delete_user_credits ::
    "('z, unit) credit_action_on \<Rightarrow> 'z credit_db_scheme credit_env \<Rightarrow> uuid \<Rightarrow> ('z, unit) credit_action_on" where
  "delete_user_credits uow_commit env user_id =
     bindA (delete_by_user_id user_id) (\<lambda>_.
     bindA (publish build_credits_event_registry
              [new_event (ce_event_id env) (ce_now env) (UserCreditsDeleted user_id)]) (\<lambda>_.
     uow_commit))"

section \<open>Effects\<close>

text \<open>
  What each command is to do to the tables: the specification the commands are shown to
  implement.
\<close>

definition grant_tx :: "'db credit_env \<Rightarrow> grant_command \<Rightarrow> credit_tx_row" where
  "grant_tx env cmd =
     \<lparr>ctr_id = ce_tx_id env, ctr_user_id = gc_user_id cmd, ctr_feature_key = ''ocr'',
      ctr_reason = credit_reason_value (gc_reason cmd), ctr_action = ''grant'',
      ctr_amount = amount_value (gc_amount cmd), ctr_source_type = map_option credit_source_value (gc_source_type cmd),
      ctr_source_id = gc_source_id cmd, ctr_idempotency_key = gc_idempotency_key cmd, ctr_created_at = ce_db_now env\<rparr>"

definition grant_event :: "'db credit_env \<Rightarrow> grant_command \<Rightarrow> domain_event" where
  "grant_event env cmd = new_event (ce_event_id env) (ce_now env)
     (CreditGranted (gc_user_id cmd) (amount_value (gc_amount cmd)) (gc_reason cmd) (gc_source_type cmd)
        (gc_source_id cmd) (gc_idempotency_key cmd))"

definition raised_balance :: "int \<Rightarrow> credit_balance \<Rightarrow> credit_balance" where
  "raised_balance a b = \<lparr>total_granted = CreditCount (total_granted_count b + a), used = used b,
     remaining = CreditCount (remaining_count b + a)\<rparr>"

definition spent_balance :: "int \<Rightarrow> credit_balance \<Rightarrow> credit_balance" where
  "spent_balance a b = \<lparr>total_granted = total_granted b, used = CreditCount (used_count b + a),
     remaining = CreditCount (remaining_count b - a)\<rparr>"

definition put_balance :: "uuid \<Rightarrow> credit_balance \<Rightarrow> 'z credit_db_scheme \<Rightarrow> 'z credit_db_scheme" where
  "put_balance u b db = put_user_credit \<lparr>pending_events = [], uc_id = u, uc_feature_key = OCR, uc_balance = b\<rparr> db"

definition add_records :: "credit_tx_row list \<Rightarrow> domain_event list \<Rightarrow> 'z credit_db_scheme \<Rightarrow> 'z credit_db_scheme" where
  "add_records txs es db =
     db\<lparr>credit_transactions := credit_transactions db @ txs, outbox_events := outbox_events db @ map outbox_row_of es\<rparr>"

definition grant_effect :: "'z credit_db_scheme credit_env \<Rightarrow> grant_command \<Rightarrow> 'z credit_db_scheme \<Rightarrow> 'z credit_db_scheme" where
  "grant_effect env cmd db =
     add_records [grant_tx env cmd] [grant_event env cmd]
       (put_balance (gc_user_id cmd)
          (raised_balance (amount_value (gc_amount cmd)) (stored_balance (gc_user_id cmd) db)) db)"

definition use_tx :: "'db credit_env \<Rightarrow> use_command \<Rightarrow> credit_tx_row" where
  "use_tx env cmd =
     \<lparr>ctr_id = ce_tx_id env, ctr_user_id = us_user_id cmd, ctr_feature_key = ''ocr'',
      ctr_reason = credit_reason_value (us_reason cmd), ctr_action = ''use'', ctr_amount = amount_value (us_amount cmd),
      ctr_source_type = None, ctr_source_id = None, ctr_idempotency_key = None, ctr_created_at = ce_db_now env\<rparr>"

definition use_event :: "'db credit_env \<Rightarrow> use_command \<Rightarrow> domain_event" where
  "use_event env cmd = new_event (ce_event_id env) (ce_now env)
     (CreditUsed (us_user_id cmd) (amount_value (us_amount cmd)) (us_reason cmd))"

definition reserve_effect :: "use_command \<Rightarrow> 'z credit_db_scheme \<Rightarrow> 'z credit_db_scheme" where
  "reserve_effect cmd db =
     put_balance (us_user_id cmd) (spent_balance (amount_value (us_amount cmd)) (stored_balance (us_user_id cmd) db)) db"

definition use_effect :: "'z credit_db_scheme credit_env \<Rightarrow> use_command \<Rightarrow> 'z credit_db_scheme \<Rightarrow> 'z credit_db_scheme" where
  "use_effect env cmd db = add_records [use_tx env cmd] [use_event env cmd] (reserve_effect cmd db)"

definition delete_effect :: "'z credit_db_scheme credit_env \<Rightarrow> uuid \<Rightarrow> 'z credit_db_scheme \<Rightarrow> 'z credit_db_scheme" where
  "delete_effect env u db =
     db\<lparr>credit_transactions := filter (\<lambda>r. ctr_user_id r \<noteq> u) (credit_transactions db),
        user_credits := filter (\<lambda>r. ucr_user_id r \<noteq> u) (user_credits db),
        outbox_events := outbox_events db @
          [outbox_row_of (new_event (ce_event_id env) (ce_now env) (UserCreditsDeleted u))]\<rparr>"

text \<open>When a grant counts as a duplicate.\<close>

definition grant_seen :: "grant_command \<Rightarrow> 'z credit_db_scheme \<Rightarrow> bool" where
  "grant_seen cmd db \<longleftrightarrow>
     (\<exists>r \<in> set (credit_transactions db).
        (gc_idempotency_key cmd \<noteq> None \<and> ctr_idempotency_key r = gc_idempotency_key cmd) \<or>
        (\<exists>t i. gc_source_type cmd = Some t \<and> gc_source_id cmd = Some i \<and>
           source_key r = Some (credit_source_value t, i, gc_user_id cmd, ''ocr'', ''grant'')))"

definition grant_command_ok :: "grant_command \<Rightarrow> bool" where
  "grant_command_ok cmd \<longleftrightarrow> (gc_source_type cmd = None) = (gc_source_id cmd = None) \<and> amount_ok (gc_amount cmd)"

lemma credits_publishable [simp]:
  "publishable build_credits_event_registry (grant_event env cmd)"
  "publishable build_credits_event_registry (use_event env ucmd)"
  "publishable build_credits_event_registry (new_event i t (UserCreditsDeleted u))"
  by (simp_all add: publishable_def grant_event_def use_event_def new_event_def registry_tables resolve_def)

lemma is_duplicate_grant_ok:
  "\<not> tx_failed s \<Longrightarrow> is_duplicate_grant cmd s = (Inr (grant_seen cmd (working s)), s)"
  by (auto simp: is_duplicate_grant_def exists_transaction_with_idempotency_key_def
      exists_transaction_with_source_def grant_seen_def exists_row_iff action_simps bindA_def returnA_def
      source_key_def query_session_def split: option.splits)

section \<open>The commands do what the effects say\<close>

text \<open>The state of a session after the rows of others and the effect of a command.\<close>

definition after :: "('db \<Rightarrow> 'db) \<Rightarrow> ('db \<Rightarrow> 'db) \<Rightarrow> 'db session \<Rightarrow> 'db session" where
  "after rival effect s = s\<lparr>committed := rival (committed s), working := effect (rival (working s))\<rparr>"

lemma after_simps [simp]:
  "committed (after rival effect s) = rival (committed s)"
  "working (after rival effect s) = effect (rival (working s))"
  "tx_failed (after rival effect s) = tx_failed s"
  by (simp_all add: after_def)

lemma put_user_credit_balance:
  "put_user_credit \<lparr>pending_events = es, uc_id = u, uc_feature_key = OCR, uc_balance = b\<rparr> = put_balance u b"
  by (rule ext) (simp add: put_balance_def put_user_credit_def user_credit_to_row_def split: option.split)

text \<open>The try block at the end of a grant, whatever the unit of work.\<close>

definition grant_tail ::
    "('z, unit) credit_action_on \<Rightarrow> ('z, unit) credit_action_on \<Rightarrow> 'z credit_db_scheme credit_env \<Rightarrow>
     grant_command \<Rightarrow> credit_balance \<Rightarrow> ('z, grant_result) credit_action_on" where
  "grant_tail uow_commit uow_rollback env cmd b =
     catchA
       (bindA (flush_pending_writes (ce_rival_flush env)) (\<lambda>_.
        bindA uow_commit (\<lambda>_. returnA (grant_result_of b))))
       (\<lambda>e. if e = CreditTransactionWriteConflictError then
              (if \<not> has_idempotent_identity cmd then raiseA e
               else bindA uow_rollback (\<lambda>_.
                    bindA (get_balance (gc_user_id cmd)) (\<lambda>b. returnA (grant_result_of b))))
            else raiseA e)"

lemma grant_credit_fresh:
  assumes "\<not> tx_failed s" and "credit_violation (ce_rival_lock env (working s)) = None"
    and "\<not> grant_seen cmd (working s)" and "grant_command_ok cmd"
  shows "grant_credit uow_commit uow_rollback env cmd s =
    grant_tail uow_commit uow_rollback env cmd
      (raised_balance (amount_value (gc_amount cmd)) (stored_balance (gc_user_id cmd) (ce_rival_lock env (working s))))
      (after (ce_rival_lock env) (grant_effect env cmd) s)"
proof -
  let ?w = "ce_rival_lock env (working s)"
  note upd = get_user_credit_for_update_ok [where rival = "ce_rival_lock env", OF assms(1,2)]
  have bal: "balance_ok (stored_balance (gc_user_id cmd) ?w)" by (rule stored_balance_ok [OF assms(2)])
  have granted: "user_credit_grant (ce_event_id env) (ce_now env) (gc_amount cmd) (gc_reason cmd) (gc_source_type cmd)
      (gc_source_id cmd) (gc_idempotency_key cmd) (stored_user_credit (gc_user_id cmd) ?w) =
      Inr \<lparr>pending_events = [grant_event env cmd], uc_id = gc_user_id cmd, uc_feature_key = OCR,
        uc_balance = raised_balance (amount_value (gc_amount cmd)) (stored_balance (gc_user_id cmd) ?w)\<rparr>"
    using bal assms(4)
    by (subst user_credit_grant_ok) (simp_all add: stored_user_credit_def grant_event_def raised_balance_def grant_command_ok_def)
  have app: "mk_credit_append (gc_user_id cmd) (gc_reason cmd) GRANT (gc_amount cmd) (gc_source_type cmd) (gc_source_id cmd)
      (gc_idempotency_key cmd) = Inr \<lparr>ca_user_id = gc_user_id cmd, ca_reason = gc_reason cmd, ca_action = GRANT,
      ca_amount = gc_amount cmd, ca_source_type = gc_source_type cmd, ca_source_id = gc_source_id cmd,
      ca_idempotency_key = gc_idempotency_key cmd\<rparr>"
    using assms(4) by (simp add: mk_credit_append_def grant_command_ok_def)
  show ?thesis
    unfolding grant_credit_def
    using assms(1,3)
    by (simp add: bindA_def is_duplicate_grant_ok upd liftE_def granted app save_user_credit_def append_transaction_def
        session_apply publish_ok pull_events_def put_user_credit_balance append_to_row_def grant_tail_def after_def grant_effect_def
        add_records_def grant_tx_def grant_event_def [symmetric])
qed

lemma grant_credit_duplicate:
  assumes "\<not> tx_failed s" and "credit_violation (working s) = None" and "grant_seen cmd (working s)"
  shows "grant_credit uow_commit uow_rollback env cmd s =
    (Inr (grant_result_of (stored_balance (gc_user_id cmd) (working s))), s)"
  using assms by (simp add: grant_credit_def bindA_def is_duplicate_grant_ok get_balance_ok returnA_def)

text \<open>A credit command relies on its unit of work only through the contract.\<close>

locale credit_uow = unit_of_work credit_violation uow_commit uow_rollback
  for uow_commit :: "('z, unit) credit_action_on" and uow_rollback :: "('z, unit) credit_action_on"
begin

lemma grant_tail_ok:
  assumes "\<not> tx_failed s" and "credit_violation (ce_rival_flush env (working s)) = None"
  obtains c where "grant_tail uow_commit uow_rollback env cmd b s =
      (Inr (grant_result_of b), s\<lparr>committed := c, working := ce_rival_flush env (working s)\<rparr>)"
    and "c \<in> {ce_rival_flush env (committed s), ce_rival_flush env (working s)}"
proof -
  obtain t where t: "t = s\<lparr>committed := ce_rival_flush env (committed s), working := ce_rival_flush env (working s)\<rparr>"
    by simp
  have t': "\<not> tx_failed t" "credit_violation (working t) = None" using assms t by simp_all
  obtain c where c: "uow_commit t = (Inr (), t\<lparr>committed := c\<rparr>)" "c \<in> {committed t, working t}"
    using commit_ok [OF t'] by blast
  have fl: "flush_pending_writes (ce_rival_flush env) s = (Inr (), t)"
    unfolding flush_pending_writes_def using assms t by (simp add: bindA_def session_apply catchA_def)
  have "grant_tail uow_commit uow_rollback env cmd b s = (Inr (grant_result_of b), t\<lparr>committed := c\<rparr>)"
    unfolding grant_tail_def catchA_def bindA_def by (simp add: fl c(1) returnA_def)
  then show thesis using that [of c] c(2) t by simp
qed

lemma grant_tail_conflict:
  assumes "\<not> tx_failed s" and "credit_violation (ce_rival_flush env (working s)) = Some e" and "is_write_conflict e"
    and "has_idempotent_identity cmd" and "credit_violation (ce_rival_flush env (committed s)) = None"
  shows "grant_tail uow_commit uow_rollback env cmd b s =
    (Inr (grant_result_of (stored_balance (gc_user_id cmd) (ce_rival_flush env (committed s)))),
     s\<lparr>committed := ce_rival_flush env (committed s), working := ce_rival_flush env (committed s)\<rparr>)"
proof -
  obtain t where t: "t = s\<lparr>committed := ce_rival_flush env (committed s), working := ce_rival_flush env (working s),
      tx_failed := True\<rparr>" by simp
  have fl: "flush_pending_writes (ce_rival_flush env) s = (Inl CreditTransactionWriteConflictError, t)"
    unfolding flush_pending_writes_def using assms t by (simp add: bindA_def session_apply catchA_def raiseA_def)
  show ?thesis
    unfolding grant_tail_def catchA_def bindA_def using assms(1,4,5) t
    by (simp add: fl rollback_ok get_balance_ok returnA_def)
qed

lemma grant_tail_error:
  assumes "\<not> tx_failed s" and "credit_violation (ce_rival_flush env (working s)) = Some e"
    and "\<not> is_write_conflict e \<or> \<not> has_idempotent_identity cmd"
  shows "grant_tail uow_commit uow_rollback env cmd b s =
    (Inl (if is_write_conflict e then CreditTransactionWriteConflictError else e),
     s\<lparr>committed := ce_rival_flush env (committed s), working := ce_rival_flush env (working s), tx_failed := True\<rparr>)"
proof -
  have ne: "e \<noteq> CreditTransactionWriteConflictError"
    using first_violation_Some [OF assms(2) [unfolded credit_violation_def]]
    by (auto simp: credit_checks_def user_credit_checks_def credit_tx_checks_def)
  have fl: "flush_pending_writes (ce_rival_flush env) s =
      (Inl (if is_write_conflict e then CreditTransactionWriteConflictError else e),
       s\<lparr>committed := ce_rival_flush env (committed s), working := ce_rival_flush env (working s), tx_failed := True\<rparr>)"
    unfolding flush_pending_writes_def using assms by (simp add: bindA_def session_apply catchA_def raiseA_def)
  show ?thesis
    unfolding grant_tail_def catchA_def bindA_def using assms(3) ne by (auto simp: fl raiseA_def)
qed

end

interpretation committing: credit_uow "sqlalchemy_commit credit_violation" sqlalchemy_rollback
  by unfold_locales

interpretation deferring: credit_uow deferred_commit "deferred_rollback (Some rollback_session)"
  by unfold_locales

end
