(* ===== verification/Credits_Properties.thy ===== *)
theory Credits_Properties
  imports Credits_Commands "HOL-Library.Multiset"
begin

text \<open>
  What holds of the credit commands: when a write meets the constraints, that grants count
  once, that uses never overdraw, and that the balances agree with the ledger after any
  sequence of calls.
\<close>

section \<open>Writes that meet the constraints\<close>

definition fresh_ids :: "'z credit_db_scheme credit_env \<Rightarrow> 'z credit_db_scheme \<Rightarrow> bool" where
  "fresh_ids env db \<longleftrightarrow>
     ce_tx_id env \<notin> ctr_id ` set (credit_transactions db) \<and> ce_event_id env \<notin> ob_event_id ` set (outbox_events db)"

definition grant_admissible :: "'z credit_db_scheme credit_env \<Rightarrow> grant_command \<Rightarrow> 'z credit_db_scheme \<Rightarrow> bool" where
  "grant_admissible env cmd db \<longleftrightarrow>
     grant_command_ok cmd \<and> gc_reason cmd \<noteq> OCR_USAGE \<and> fresh_ids env db \<and>
     total_granted_count (stored_balance (gc_user_id cmd) db) + amount_value (gc_amount cmd) \<le> 2147483647 \<and>
     (case gc_idempotency_key cmd of None \<Rightarrow> True | Some k \<Rightarrow> length k \<le> 255)"

definition use_admissible :: "'z credit_db_scheme credit_env \<Rightarrow> use_command \<Rightarrow> 'z credit_db_scheme \<Rightarrow> bool" where
  "use_admissible env cmd db \<longleftrightarrow>
     amount_ok (us_amount cmd) \<and> us_reason cmd = OCR_USAGE \<and> fresh_ids env db \<and>
     amount_value (us_amount cmd) \<le> remaining_count (stored_balance (us_user_id cmd) db)"

lemma map_filter_snoc:
  "List.map_filter f (xs @ [x]) = List.map_filter f xs @ (case f x of None \<Rightarrow> [] | Some y \<Rightarrow> [y])"
  by (induction xs) (auto simp: List.map_filter_def split: option.splits)

lemma set_map_filter: "y \<in> set (List.map_filter f xs) \<longleftrightarrow> (\<exists>x \<in> set xs. f x = Some y)"
  by (auto simp: List.map_filter_def) force

lemma not_seen_keys:
  assumes "\<not> grant_seen cmd db"
  shows "gc_idempotency_key cmd = Some k \<Longrightarrow> k \<notin> set (idempotency_keys (credit_transactions db))"
    and "source_key (grant_tx env cmd) = Some sk \<Longrightarrow> sk \<notin> set (source_keys (credit_transactions db))"
  using assms
  by (auto simp: grant_seen_def idempotency_keys_def source_keys_def set_map_filter source_key_def grant_tx_def
      split: option.splits)

text \<open>Saving a balance with counts in range keeps the table of balances within its constraints.\<close>

definition storable :: "credit_balance \<Rightarrow> bool" where
  "storable b \<longleftrightarrow> balance_ok b \<and> total_granted_count b \<le> 2147483647"

lemma storable_row:
  assumes "storable b" and "ucr_feature_key r = ''ocr''"
  shows "user_credit_row_ok (r\<lparr>ucr_total_granted_count := total_granted_count b, ucr_used_count := used_count b,
    ucr_remaining_count := remaining_count b\<rparr>)"
  using assms by (auto simp: user_credit_row_ok_def user_credit_checks_def storable_def balance_ok_def int4_def)

lemma storable_new_row:
  "storable b \<Longrightarrow> user_credit_row_ok (user_credit_to_row \<lparr>pending_events = es, uc_id = u, uc_feature_key = OCR, uc_balance = b\<rparr>)"
  by (auto simp: user_credit_row_ok_def user_credit_checks_def user_credit_to_row_def storable_def balance_ok_def int4_def)

lemma put_balance_rows:
  assumes "\<forall>r \<in> set (user_credits db). user_credit_row_ok r" and "distinct (map user_credit_key (user_credits db))"
    and "storable b"
  shows "(\<forall>r \<in> set (user_credits (put_balance u b db)). user_credit_row_ok r) \<and>
    distinct (map user_credit_key (user_credits (put_balance u b db)))"
proof (cases "find_credit_row u ''ocr'' db")
  case None
  then have "(u, ''ocr'') \<notin> user_credit_key ` set (user_credits db)"
    by (auto simp: find_credit_row_def find_None_iff_ball)
  moreover have "user_credit_key (user_credit_to_row \<lparr>pending_events = [], uc_id = u, uc_feature_key = OCR, uc_balance = b\<rparr>)
      = (u, ''ocr'')" by (simp add: user_credit_key_def user_credit_to_row_def)
  ultimately show ?thesis
    using assms None storable_new_row [OF assms(3)] by (simp add: put_balance_def put_user_credit_def)
next
  case (Some r)
  let ?f = "\<lambda>r. r\<lparr>ucr_total_granted_count := total_granted_count b, ucr_used_count := used_count b,
      ucr_remaining_count := remaining_count b\<rparr>"
  have rows: "user_credits (put_balance u b db) = update_rows (\<lambda>r. user_credit_key r = (u, ''ocr'')) ?f (user_credits db)"
    using Some by (simp add: put_balance_def put_user_credit_def)
  have "map user_credit_key (update_rows (\<lambda>r. user_credit_key r = (u, ''ocr'')) ?f (user_credits db)) =
      map user_credit_key (user_credits db)"
    by (rule map_key_update_rows) (simp add: user_credit_key_def)
  then show ?thesis
    using assms storable_row [OF assms(3)] unfolding rows by (auto simp: set_update_rows user_credit_key_def)
qed

lemma grant_tx_row_ok: "grant_admissible env cmd db \<Longrightarrow> balance_ok (stored_balance (gc_user_id cmd) db) \<Longrightarrow> credit_tx_row_ok (grant_tx env cmd)"
  by (cases "gc_reason cmd"; cases "gc_source_type cmd"; cases "the (gc_source_type cmd)")
    (auto simp: credit_tx_row_ok_def credit_tx_checks_def grant_tx_def grant_admissible_def grant_command_ok_def
      amount_ok_def int4_def balance_ok_def)

lemma put_balance_other [simp]:
  "credit_transactions (put_balance u b db) = credit_transactions db"
  "outbox_events (put_balance u b db) = outbox_events db"
  by (simp_all add: put_balance_def)

lemma add_records_simps [simp]:
  "user_credits (add_records txs es db) = user_credits db"
  "credit_transactions (add_records txs es db) = credit_transactions db @ txs"
  "outbox_events (add_records txs es db) = outbox_events db @ map outbox_row_of es"
  by (simp_all add: add_records_def)

lemma event_id_simps [simp]:
  "ob_event_id (outbox_row_of e) = ev_id e" "ev_id (grant_event env cmd) = ce_event_id env"
  "ev_id (use_event env ucmd) = ce_event_id env" "ctr_id (grant_tx env cmd) = ce_tx_id env"
  "ctr_id (use_tx env ucmd) = ce_tx_id env" "ctr_idempotency_key (grant_tx env cmd) = gc_idempotency_key cmd"
  "ctr_idempotency_key (use_tx env ucmd) = None" "source_key (use_tx env ucmd) = None"
  by (simp_all add: outbox_row_of_def grant_event_def use_event_def new_event_def grant_tx_def use_tx_def source_key_def)

lemma grant_effect_valid:
  assumes "credit_violation db = None" and "grant_admissible env cmd db" and "\<not> grant_seen cmd db"
  shows "credit_violation (grant_effect env cmd db) = None"
proof -
  let ?b = "stored_balance (gc_user_id cmd) db"
  note bal = stored_balance_ok [OF assms(1), of "gc_user_id cmd"]
  have "storable (raised_balance (amount_value (gc_amount cmd)) ?b)"
    using bal assms(2) by (auto simp: storable_def raised_balance_def balance_ok_def grant_admissible_def
        grant_command_ok_def amount_ok_def)
  note rows = put_balance_rows [OF _ _ this, of db "gc_user_id cmd"]
  show ?thesis
    using assms rows grant_tx_row_ok [OF assms(2) bal] not_seen_keys(1) [OF assms(3)]
      not_seen_keys(2) [OF assms(3), where env = env]
    unfolding credit_violation_None grant_effect_def
    by (auto simp: idempotency_keys_def source_keys_def map_filter_snoc grant_admissible_def fresh_ids_def
        split: option.splits)
qed

lemma use_effect_valid:
  assumes "credit_violation db = None" and "use_admissible env cmd db"
  shows "credit_violation (use_effect env cmd db) = None"
proof -
  let ?b = "stored_balance (us_user_id cmd) db"
  note bal = stored_balance_ok [OF assms(1), of "us_user_id cmd"]
  have tot: "total_granted_count ?b \<le> 2147483647"
  proof (cases "find_credit_row (us_user_id cmd) ''ocr'' db")
    case (Some r)
    then have "user_credit_row_ok r" using assms(1) find_credit_rowD [OF Some] by (simp add: credit_violation_None)
    then show ?thesis using Some
      by (simp add: stored_balance_def user_credit_row_ok_def user_credit_checks_def int4_def)
  qed (simp add: stored_balance_def)
  have st: "storable (spent_balance (amount_value (us_amount cmd)) ?b)"
    using bal assms(2) tot by (auto simp: storable_def spent_balance_def balance_ok_def use_admissible_def amount_ok_def)
  note rows = put_balance_rows [OF _ _ st, of db "us_user_id cmd"]
  have "credit_tx_row_ok (use_tx env cmd)"
    using assms(2) bal tot
    by (auto simp: credit_tx_row_ok_def credit_tx_checks_def use_tx_def use_admissible_def amount_ok_def int4_def balance_ok_def)
  then show ?thesis
    using assms rows unfolding credit_violation_None use_effect_def reserve_effect_def
    by (auto simp: idempotency_keys_def source_keys_def map_filter_snoc use_admissible_def fresh_ids_def)
qed

section \<open>Uses\<close>

lemma use_credit_reserved:
  assumes "\<not> tx_failed s" and "credit_violation (ce_rival_lock env (working s)) = None" and "amount_ok (us_amount cmd)"
  shows "use_credit uow_commit env cmd s =
    (if remaining_count (stored_balance (us_user_id cmd) (ce_rival_lock env (working s))) < amount_value (us_amount cmd)
     then (Inl InsufficientCreditError, after (ce_rival_lock env) id s)
     else uow_commit (after (ce_rival_lock env) (use_effect env cmd) s))"
proof -
  let ?w = "ce_rival_lock env (working s)"
  note upd = get_user_credit_for_update_ok [where rival = "ce_rival_lock env", OF assms(1,2)]
  have bal: "balance_ok (stored_balance (us_user_id cmd) ?w)" by (rule stored_balance_ok [OF assms(2)])
  have used: "user_credit_use (us_amount cmd) (stored_user_credit (us_user_id cmd) ?w) =
      (if remaining_count (stored_balance (us_user_id cmd) ?w) < amount_value (us_amount cmd) then Inl InsufficientCreditError
       else Inr \<lparr>pending_events = [], uc_id = us_user_id cmd, uc_feature_key = OCR,
         uc_balance = spent_balance (amount_value (us_amount cmd)) (stored_balance (us_user_id cmd) ?w)\<rparr>)"
    using bal assms(3)
    by (subst user_credit_use_ok) (simp_all add: stored_user_credit_def spent_balance_def)
  have pub: "publishable build_credits_event_registry
      (new_event (ce_event_id env) (ce_now env) (CreditUsed (us_user_id cmd) (amount_value (us_amount cmd)) (us_reason cmd)))"
    using credits_publishable(2) [of env cmd] by (simp add: use_event_def)
  show ?thesis
    unfolding use_credit_def reserve_credit_def finalize_credit_usage_def
    using assms(1)
    by (simp add: bindA_def upd liftE_def used save_user_credit_def append_transaction_def mk_credit_append_def
        session_apply publish_ok pub put_user_credit_balance append_to_row_def after_def use_effect_def reserve_effect_def
        add_records_def use_tx_def use_event_def)
qed

text \<open>C5. Using a credit: with enough credits left the balance, one ledger row and one event are
  written and committed together; otherwise the call raises and the database is unchanged.\<close>

theorem use_credit_outcome:
  assumes "credit_violation db = None" and "amount_ok (us_amount cmd)" and "us_reason cmd = OCR_USAGE"
    and "fresh_ids env db" and "ce_rival_lock env = id"
  shows "use_credit (sqlalchemy_commit credit_violation) env cmd (open_session db) =
    (if amount_value (us_amount cmd) \<le> remaining_count (stored_balance (us_user_id cmd) db)
     then (Inr (), open_session (use_effect env cmd db))
     else (Inl InsufficientCreditError, open_session db))"
proof -
  have s: "\<not> tx_failed (open_session db)" "credit_violation (ce_rival_lock env (working (open_session db))) = None"
    using assms(1,5) by simp_all
  show ?thesis
  proof (cases "amount_value (us_amount cmd) \<le> remaining_count (stored_balance (us_user_id cmd) db)")
    case True
    then have "credit_violation (use_effect env cmd db) = None"
      using use_effect_valid assms by (auto simp: use_admissible_def)
    then have "sqlalchemy_commit credit_violation (after id (use_effect env cmd) (open_session db)) =
        (Inr (), open_session (use_effect env cmd db))"
      by (simp add: sqlalchemy_commit_def action_simps after_def open_session_def)
    then show ?thesis using True assms(5) by (simp add: use_credit_reserved [OF s assms(2)])
  next
    case False
    have "after (ce_rival_lock env) id (open_session db) = open_session db"
      by (simp add: assms(5) after_def open_session_def)
    then show ?thesis using False assms(5) by (simp add: use_credit_reserved [OF s assms(2)])
  qed
qed

section \<open>Grants count once\<close>

text \<open>C3. A grant that is new and whose identity is not in the ledger is written and committed: the
  balance, one ledger row and one event, and the result is the new balance.\<close>

theorem grant_credit_commits:
  assumes "credit_violation db = None" and "grant_admissible env cmd db" and "\<not> grant_seen cmd db"
    and "ce_rival_lock env = id" and "ce_rival_flush env = id"
  shows "grant_credit (sqlalchemy_commit credit_violation) sqlalchemy_rollback env cmd (open_session db) =
    (Inr \<lparr>gr_total_granted_count = total_granted_count (stored_balance (gc_user_id cmd) db) + amount_value (gc_amount cmd),
          gr_remaining_count = remaining_count (stored_balance (gc_user_id cmd) db) + amount_value (gc_amount cmd)\<rparr>,
     open_session (grant_effect env cmd db))"
proof -
  have s: "\<not> tx_failed (open_session db)" "credit_violation (ce_rival_lock env (working (open_session db))) = None"
    "\<not> grant_seen cmd (working (open_session db))" "grant_command_ok cmd"
    using assms by (simp_all add: grant_admissible_def)
  have "credit_violation (grant_effect env cmd db) = None" by (rule grant_effect_valid [OF assms(1-3)])
  then show ?thesis
    unfolding grant_credit_fresh [OF s]
    by (simp add: grant_tail_def catchA_def bindA_def flush_pending_writes_def interfere_def modifyA_def assms(4,5)
        after_def open_session_def flush_session_def sqlalchemy_commit_def commit_session_def returnA_def
        grant_result_of_def raised_balance_def)
qed

lemma grant_seen_after:
  assumes "gc_idempotency_key cmd2 = gc_idempotency_key cmd \<and> gc_idempotency_key cmd \<noteq> None \<or>
    gc_source_type cmd2 = gc_source_type cmd \<and> gc_source_id cmd2 = gc_source_id cmd \<and>
    gc_user_id cmd2 = gc_user_id cmd \<and> gc_source_type cmd \<noteq> None \<and> gc_source_id cmd \<noteq> None"
  shows "grant_seen cmd2 (grant_effect env cmd db)"
  using assms by (auto simp: grant_seen_def grant_effect_def grant_tx_def source_key_def)

text \<open>Replay: a second call with the same idempotency key, or the same source and user, grants
  nothing, publishes nothing and answers with the balance as it is.\<close>

theorem grant_credit_idempotent:
  assumes "credit_violation db = None" and "grant_admissible env cmd db" and "\<not> grant_seen cmd db"
    and "gc_idempotency_key cmd2 = gc_idempotency_key cmd \<and> gc_idempotency_key cmd \<noteq> None \<or>
      gc_source_type cmd2 = gc_source_type cmd \<and> gc_source_id cmd2 = gc_source_id cmd \<and>
      gc_user_id cmd2 = gc_user_id cmd \<and> gc_source_type cmd \<noteq> None \<and> gc_source_id cmd \<noteq> None"
  shows "grant_credit uow_commit uow_rollback env2 cmd2 (open_session (grant_effect env cmd db)) =
    (Inr (grant_result_of (stored_balance (gc_user_id cmd2) (grant_effect env cmd db))),
     open_session (grant_effect env cmd db))"
proof -
  have "grant_seen cmd2 (grant_effect env cmd db)" by (rule grant_seen_after [OF assms(4)])
  then show ?thesis
    using grant_credit_duplicate [of "open_session (grant_effect env cmd db)" cmd2 uow_commit uow_rollback env2]
      grant_effect_valid [OF assms(1-3)] by simp
qed

text \<open>A lost race: when another session's commit makes the flush violate one of the identity
  constraints, the grant leaves exactly the other session's database behind and answers with
  the balance there, under either unit of work.\<close>

theorem grant_credit_race:
  assumes "credit_violation (ce_rival_lock env db) = None" and "\<not> grant_seen cmd db" and "grant_command_ok cmd"
    and "has_idempotent_identity cmd"
    and "credit_violation (ce_rival_flush env (grant_effect env cmd (ce_rival_lock env db))) = Some (IntegrityError c)"
    and "c \<in> set idempotent_constraints"
    and "credit_violation (ce_rival_flush env (ce_rival_lock env db)) = None"
  shows "grant_credit (sqlalchemy_commit credit_violation) sqlalchemy_rollback env cmd (open_session db) =
      (Inr (grant_result_of (stored_balance (gc_user_id cmd) (ce_rival_flush env (ce_rival_lock env db)))),
       open_session (ce_rival_flush env (ce_rival_lock env db))) \<and>
    grant_credit deferred_commit (deferred_rollback (Some rollback_session)) env cmd (open_session db) =
      (Inr (grant_result_of (stored_balance (gc_user_id cmd) (ce_rival_flush env (ce_rival_lock env db)))),
       open_session (ce_rival_flush env (ce_rival_lock env db)))"
proof -
  have s: "\<not> tx_failed (open_session db)" "credit_violation (ce_rival_lock env (working (open_session db))) = None"
    "\<not> grant_seen cmd (working (open_session db))" "grant_command_ok cmd" using assms by simp_all
  let ?s = "after (ce_rival_lock env) (grant_effect env cmd) (open_session db)"
  have t: "\<not> tx_failed ?s" "credit_violation (ce_rival_flush env (working ?s)) = Some (IntegrityError c)"
    "is_write_conflict (IntegrityError c)" "credit_violation (ce_rival_flush env (committed ?s)) = None"
    using assms by simp_all
  have fin: "?s\<lparr>committed := ce_rival_flush env (committed ?s), working := ce_rival_flush env (committed ?s)\<rparr> =
      open_session (ce_rival_flush env (ce_rival_lock env db))" by (simp add: after_def open_session_def)
  note a = committing.grant_tail_conflict [OF t(1-3) assms(4) t(4), unfolded fin after_simps open_session_simps]
  note b = deferring.grant_tail_conflict [OF t(1-3) assms(4) t(4), unfolded fin after_simps open_session_simps]
  show ?thesis unfolding grant_credit_fresh [OF s] using a b by simp
qed

section \<open>Erasure\<close>

lemma distinct_map_filter_filter:
  "distinct (List.map_filter f xs) \<Longrightarrow> distinct (List.map_filter f (filter p xs))"
  by (induction xs) (auto simp: List.map_filter_simps set_map_filter split: option.splits)

lemma delete_effect_valid:
  assumes "credit_violation db = None" and "ce_event_id env \<notin> ob_event_id ` set (outbox_events db)"
  shows "credit_violation (delete_effect env u db) = None"
  using assms unfolding credit_violation_None delete_effect_def
  by (auto simp: distinct_map_filter idempotency_keys_def source_keys_def new_event_def distinct_map_filter_filter)

lemma delete_user_credits_runs:
  "\<not> tx_failed s \<Longrightarrow> delete_user_credits uow_commit env u s = uow_commit (after id (delete_effect env u) s)"
  by (simp add: delete_user_credits_def delete_by_user_id_def bindA_def session_apply publish_ok after_def
      delete_effect_def add_records_def)

text \<open>Deleting a user's credits commits a database without a balance or ledger row of the user,
  with every row of other users as it was, and one event.\<close>

theorem delete_user_credits_outcome:
  assumes "credit_violation db = None" and "ce_event_id env \<notin> ob_event_id ` set (outbox_events db)"
  shows "delete_user_credits (sqlalchemy_commit credit_violation) env u (open_session db) =
      (Inr (), open_session (delete_effect env u db)) \<and>
    (\<forall>v. stored_balance v (delete_effect env u db) =
      (if v = u then \<lparr>total_granted = CreditCount 0, used = CreditCount 0, remaining = CreditCount 0\<rparr>
       else stored_balance v db)) \<and>
    filter (\<lambda>r. ctr_user_id r = u) (credit_transactions (delete_effect env u db)) = []"
proof (intro conjI allI)
  have "credit_violation (delete_effect env u db) = None" by (rule delete_effect_valid [OF assms])
  then show "delete_user_credits (sqlalchemy_commit credit_violation) env u (open_session db) =
      (Inr (), open_session (delete_effect env u db))"
    by (simp add: delete_user_credits_runs sqlalchemy_commit_def action_simps after_def open_session_def)
  fix v
  have "find (\<lambda>r. user_credit_key r = (v, ''ocr'')) (filter (\<lambda>r. ucr_user_id r \<noteq> u) rows) =
      (if v = u then None else find (\<lambda>r. user_credit_key r = (v, ''ocr'')) rows)" for rows
    by (induction rows) (auto simp: user_credit_key_def)
  then show "stored_balance v (delete_effect env u db) =
      (if v = u then \<lparr>total_granted = CreditCount 0, used = CreditCount 0, remaining = CreditCount 0\<rparr>
       else stored_balance v db)"
    by (simp add: stored_balance_def find_credit_row_def delete_effect_def)
  show "filter (\<lambda>r. ctr_user_id r = u) (credit_transactions (delete_effect env u db)) = []"
    by (simp add: delete_effect_def)
qed

lemma stored_balance_delete:
  "stored_balance v (delete_effect env u db) =
      (if v = u then \<lparr>total_granted = CreditCount 0, used = CreditCount 0, remaining = CreditCount 0\<rparr>
       else stored_balance v db)"
proof -
  have "find (\<lambda>r. user_credit_key r = (v, ''ocr'')) (filter (\<lambda>r. ucr_user_id r \<noteq> u) rows) =
      (if v = u then None else find (\<lambda>r. user_credit_key r = (v, ''ocr'')) rows)" for rows
    by (induction rows) (auto simp: user_credit_key_def)
  then show ?thesis
    by (simp add: stored_balance_def find_credit_row_def delete_effect_def)
qed

section \<open>Balances and the ledger\<close>

text \<open>The balance of every user is the sum of the ledger: grants, and uses.\<close>

definition ledger_ok :: "'z credit_db_scheme \<Rightarrow> bool" where
  "ledger_ok db \<longleftrightarrow> (\<forall>u.
     total_granted_count (stored_balance u db) =
       sum_rows ctr_amount (\<lambda>r. ctr_user_id r = u \<and> ctr_action r = ''grant'') (credit_transactions db) \<and>
     used_count (stored_balance u db) =
       sum_rows ctr_amount (\<lambda>r. ctr_user_id r = u \<and> ctr_action r = ''use'') (credit_transactions db))"

lemma stored_balance_effects:
  "stored_balance u (grant_effect env cmd db) =
     (if u = gc_user_id cmd then raised_balance (amount_value (gc_amount cmd)) (stored_balance u db) else stored_balance u db)"
  "stored_balance u (use_effect env ucmd db) =
     (if u = us_user_id ucmd then spent_balance (amount_value (us_amount ucmd)) (stored_balance u db) else stored_balance u db)"
proof -
  have put: "stored_balance u (add_records txs es (put_balance v b db)) = (if u = v then b else stored_balance u db)" for txs es v b
    by (simp add: stored_balance_cong [OF add_records_simps(1)]) (simp add: put_balance_def stored_balance_put)
  show "stored_balance u (grant_effect env cmd db) =
     (if u = gc_user_id cmd then raised_balance (amount_value (gc_amount cmd)) (stored_balance u db) else stored_balance u db)"
    by (simp add: grant_effect_def put)
  show "stored_balance u (use_effect env ucmd db) =
     (if u = us_user_id ucmd then spent_balance (amount_value (us_amount ucmd)) (stored_balance u db) else stored_balance u db)"
    by (simp add: use_effect_def reserve_effect_def put)
qed

lemma ledger_grant: "ledger_ok db \<Longrightarrow> ledger_ok (grant_effect env cmd db)"
  unfolding ledger_ok_def stored_balance_effects
  by (auto simp: grant_effect_def grant_tx_def raised_balance_def)

lemma ledger_use: "ledger_ok db \<Longrightarrow> ledger_ok (use_effect env cmd db)"
  unfolding ledger_ok_def stored_balance_effects
  by (auto simp: use_effect_def reserve_effect_def use_tx_def spent_balance_def)

lemma ledger_delete:
  assumes "ledger_ok db"
  shows "ledger_ok (delete_effect env u db)"
proof -
  have s: "sum_rows ctr_amount (\<lambda>r. ctr_user_id r = v \<and> ctr_action r = a) (filter (\<lambda>r. ctr_user_id r \<noteq> u) txs) =
      (if v = u then 0 else sum_rows ctr_amount (\<lambda>r. ctr_user_id r = v \<and> ctr_action r = a) txs)" for v a txs
    by (induction txs) auto
  show ?thesis
    using assms unfolding ledger_ok_def stored_balance_delete
    by (simp add: delete_effect_def s)
qed

text \<open>
  Calls as they reach the module, one after the other, each in a session of its own; a
  command object exists only when its constructors accepted it.
\<close>

datatype credit_call =
    CallGrant "credit_db credit_env" grant_command
  | CallUse "credit_db credit_env" use_command
  | CallDelete "credit_db credit_env" uuid

definition serial :: "'db credit_env \<Rightarrow> 'db credit_env" where
  "serial env = env\<lparr>ce_rival_lock := id, ce_rival_flush := id\<rparr>"

fun call_ok :: "credit_call \<Rightarrow> bool" where
  "call_ok (CallGrant env cmd) = grant_command_ok cmd"
| "call_ok (CallUse env cmd) = amount_ok (us_amount cmd)"
| "call_ok (CallDelete env u) = True"

fun run_call :: "credit_call \<Rightarrow> credit_db \<Rightarrow> credit_db" where
  "run_call (CallGrant env cmd) db =
     committed (snd (grant_credit (sqlalchemy_commit credit_violation) sqlalchemy_rollback (serial env) cmd (open_session db)))"
| "run_call (CallUse env cmd) db =
     committed (snd (use_credit (sqlalchemy_commit credit_violation) (serial env) cmd (open_session db)))"
| "run_call (CallDelete env u) db =
     committed (snd (delete_user_credits (sqlalchemy_commit credit_violation) (serial env) u (open_session db)))"

lemma serial_simps [simp]: "ce_rival_lock (serial env) = id" "ce_rival_flush (serial env) = id"
  by (simp_all add: serial_def)

lemma commit_outcome:
  assumes "\<not> tx_failed s"
  shows "committed (snd (sqlalchemy_commit violation s)) =
    (if violation (working s) = None then working s else committed s)"
  using assms by (cases "violation (working s)") (simp_all add: sqlalchemy_commit_def action_simps)

lemma run_call_cases:
  assumes "credit_violation db = None" and "call_ok c"
  shows "run_call c db = db \<or> (credit_violation (run_call c db) = None \<and> (ledger_ok db \<longrightarrow> ledger_ok (run_call c db)))"
proof (cases c)
  case (CallGrant env cmd)
  let ?env = "serial env"
  have s: "\<not> tx_failed (open_session db)" "credit_violation (ce_rival_lock ?env (working (open_session db))) = None"
    using assms by simp_all
  show ?thesis
  proof (cases "grant_seen cmd db")
    case True
    then show ?thesis using grant_credit_duplicate [of "open_session db"] assms(1) CallGrant by simp
  next
    case False
    then have ns: "\<not> grant_seen cmd (working (open_session db))" "grant_command_ok cmd" using CallGrant assms by simp_all
    let ?t = "after (ce_rival_lock ?env) (grant_effect ?env cmd) (open_session db)"
    have t: "\<not> tx_failed ?t" "working ?t = grant_effect ?env cmd db" "committed ?t = db" by simp_all
    let ?b = "raised_balance (amount_value (gc_amount cmd)) (stored_balance (gc_user_id cmd) db)"
    let ?r = "grant_tail (sqlalchemy_commit credit_violation) sqlalchemy_rollback ?env cmd ?b ?t"
    have eq: "run_call c db = committed (snd ?r)"
      using grant_credit_fresh [OF s ns] CallGrant by simp
    show ?thesis
    proof (cases "credit_violation (grant_effect ?env cmd db)")
      case None
      then have "credit_violation (ce_rival_flush ?env (working ?t)) = None" by simp
      from committing.grant_tail_ok [OF t(1) this] obtain c' where
        "?r = (Inr (grant_result_of ?b), ?t\<lparr>committed := c', working := ce_rival_flush ?env (working ?t)\<rparr>)"
        and c': "c' \<in> {ce_rival_flush ?env (committed ?t), ce_rival_flush ?env (working ?t)}" by metis
      then have "committed (snd ?r) = c'" by simp
      then show ?thesis using c' eq None by (auto simp: ledger_grant)
    next
      case (Some e)
      then have v: "credit_violation (ce_rival_flush ?env (working ?t)) = Some e" by simp
      have vc: "credit_violation (ce_rival_flush ?env (committed ?t)) = None" using assms(1) by simp
      show ?thesis
      proof (cases "is_write_conflict e \<and> has_idempotent_identity cmd")
        case True
        then show ?thesis using eq committing.grant_tail_conflict [OF t(1) v _ _ vc] by simp
      next
        case False
        then show ?thesis using eq committing.grant_tail_error [OF t(1) v] by simp
      qed
    qed
  qed
next
  case (CallUse env cmd)
  have s: "\<not> tx_failed (open_session db)" "credit_violation (ce_rival_lock (serial env) (working (open_session db))) = None"
    using assms by simp_all
  show ?thesis
    using CallUse assms use_credit_reserved [OF s, of cmd "sqlalchemy_commit credit_violation"]
    by (simp add: commit_outcome ledger_use)
next
  case (CallDelete env u)
  then show ?thesis
    using assms delete_user_credits_runs [of "open_session db"] by (simp add: commit_outcome ledger_delete)
qed

text \<open>C4. Whatever calls are made, in whatever order and however each of them ends, the committed
  database satisfies its constraints and every balance equals the sums of the ledger.\<close>

theorem credit_calls_keep_ledger:
  assumes "credit_violation db = None" and "ledger_ok db" and "list_all call_ok calls"
  shows "credit_violation (fold run_call calls db) = None \<and> ledger_ok (fold run_call calls db)"
  using assms
proof (induction calls arbitrary: db)
  case (Cons c calls)
  then have "credit_violation (run_call c db) = None \<and> ledger_ok (run_call c db)"
    using run_call_cases [of db c] by auto
  then show ?case using Cons by simp
qed simp

section \<open>Exactly once, and where it fails\<close>

lemma count_key:
  assumes "distinct (idempotency_keys txs)"
  shows "length (filter (\<lambda>r. ctr_idempotency_key r = Some k) txs) = (if k \<in> set (idempotency_keys txs) then 1 else 0)"
  using assms
proof (induction txs)
  case (Cons r txs)
  then show ?case
    by (cases "ctr_idempotency_key r") (auto simp: idempotency_keys_def List.map_filter_simps)
qed (simp add: idempotency_keys_def List.map_filter_simps)

lemma write_conflict_cases:
  assumes "credit_violation db = Some e" and "is_write_conflict e"
  shows "\<not> distinct (map user_credit_key (user_credits db)) \<or> \<not> distinct (idempotency_keys (credit_transactions db)) \<or>
    \<not> distinct (source_keys (credit_transactions db))"
proof -
  obtain ok where "(ok, e) \<in> set (credit_checks db)" "\<not> ok"
    using first_violation_Some assms(1) unfolding credit_violation_def by blast
  then show ?thesis
    using assms(2)
    by (auto simp: credit_checks_def user_credit_checks_def credit_tx_checks_def idempotent_constraints_def)
qed

lemma put_balance_keys:
  assumes "distinct (map user_credit_key (user_credits db))"
  shows "distinct (map user_credit_key (user_credits (put_balance u b db)))"
proof (cases "find_credit_row u ''ocr'' db")
  case None
  then have "(u, ''ocr'') \<notin> user_credit_key ` set (user_credits db)"
    by (auto simp: find_credit_row_def find_None_iff_ball)
  then show ?thesis
    using assms None by (simp add: put_balance_def put_user_credit_def) (simp add: user_credit_key_def user_credit_to_row_def)
next
  case (Some r)
  have "map user_credit_key (user_credits (put_balance u b db)) = map user_credit_key (user_credits db)"
    using Some unfolding put_balance_def put_user_credit_def
    by simp (rule map_key_update_rows, simp add: user_credit_key_def)
  then show ?thesis using assms by simp
qed

text \<open>The rows a grant is identified by: the row with its key, the row with its source. At least one is there, of each at most one.\<close>

definition granted_once :: "grant_command \<Rightarrow> 'z credit_db_scheme \<Rightarrow> bool" where
  "granted_once cmd db \<longleftrightarrow>
     grant_seen cmd db \<and>
     (\<forall>k \<in> set_option (gc_idempotency_key cmd). length (filter (\<lambda>r. ctr_idempotency_key r = Some k) (credit_transactions db)) \<le> 1) \<and>
     (\<forall>t \<in> set_option (gc_source_type cmd). \<forall>i \<in> set_option (gc_source_id cmd).
        length (filter (\<lambda>r. source_key r = Some (credit_source_value t, i, gc_user_id cmd, ''ocr'', ''grant'')) (credit_transactions db)) \<le> 1)"

lemma count_map_filter:
  "distinct (List.map_filter f xs) \<Longrightarrow> length (filter (\<lambda>x. f x = Some k) xs) \<le> 1"
proof (induction xs)
  case (Cons x xs)
  have "filter (\<lambda>x. f x = Some k) xs = []" if "k \<notin> set (List.map_filter f xs)"
    using that by (auto simp: set_map_filter filter_empty_conv)
  then show ?case using Cons by (auto simp: List.map_filter_simps split: option.splits)
qed simp

lemma granted_onceI:
  assumes "credit_violation db = None" and "grant_seen cmd db"
  shows "granted_once cmd db"
  using assms count_map_filter [of ctr_idempotency_key "credit_transactions db"] count_map_filter [of source_key "credit_transactions db"]
  by (simp add: granted_once_def credit_violation_None idempotency_keys_def source_keys_def)

text \<open>
  Between its \<open>INSERT\<close>s and the flush a grant's rows are seen by nobody: what others commit then is the same with
  and without them. First balance rows of one user exclude each other, which is the race of
  \<open>first_balance_race_loses_grant\<close> below.
\<close>

definition commits_beside_grant :: "'z credit_db_scheme credit_env \<Rightarrow> grant_command \<Rightarrow> 'z credit_db_scheme \<Rightarrow> bool" where
  "commits_beside_grant env cmd db \<longleftrightarrow>
     mset (credit_transactions (ce_rival_flush env (grant_effect env cmd db))) =
       add_mset (grant_tx env cmd) (mset (credit_transactions (ce_rival_flush env db))) \<and>
     mset (map user_credit_key (user_credits (ce_rival_flush env (grant_effect env cmd db)))) =
       mset (map user_credit_key (user_credits (ce_rival_flush env db))) +
       (if find_credit_row (gc_user_id cmd) ''ocr'' db = None then {#(gc_user_id cmd, ''ocr'')#} else {#})"

definition first_balance_raced :: "'z credit_db_scheme credit_env \<Rightarrow> grant_command \<Rightarrow> 'z credit_db_scheme \<Rightarrow> bool" where
  "first_balance_raced env cmd db \<longleftrightarrow>
     find_credit_row (gc_user_id cmd) ''ocr'' db = None \<and>
     find_credit_row (gc_user_id cmd) ''ocr'' (ce_rival_flush env db) \<noteq> None"

lemma distinct_map_filter_add:
  assumes "mset xs = add_mset x (mset ys)" and "distinct (List.map_filter f ys)" and "\<not> distinct (List.map_filter f xs)"
  obtains k where "f x = Some k" and "k \<in> set (List.map_filter f ys)"
proof -
  have eq: "mset (List.map_filter f zs) = image_mset (the \<circ> f) (filter_mset (\<lambda>z. f z \<noteq> None) (mset zs))" for zs
    by (simp add: List.map_filter_def)
  have "mset (List.map_filter f xs) = mset (List.map_filter f (x # ys))" by (simp only: eq assms(1) mset.simps)
  then have "\<not> distinct (List.map_filter f (x # ys))" using assms(3) mset_eq_imp_distinct_iff by blast
  then show thesis using assms(2) that by (auto simp: List.map_filter_simps split: option.splits)
qed

lemma conflict_means_granted:
  assumes "credit_violation (ce_rival_flush env db) = None" and "commits_beside_grant env cmd db" and "\<not> first_balance_raced env cmd db"
    and "credit_violation (ce_rival_flush env (grant_effect env cmd db)) = Some e" and "is_write_conflict e"
  shows "grant_seen cmd (ce_rival_flush env db)"
proof -
  let ?rows = "credit_transactions (ce_rival_flush env db)" and ?more = "credit_transactions (ce_rival_flush env (grant_effect env cmd db))"
  let ?keys = "map user_credit_key (user_credits (ce_rival_flush env db))"
  have more: "mset ?more = add_mset (grant_tx env cmd) (mset ?rows)" using assms(2) by (simp add: commits_beside_grant_def)
  have valid: "distinct ?keys" "distinct (List.map_filter ctr_idempotency_key ?rows)" "distinct (List.map_filter source_key ?rows)"
    using assms(1) by (simp_all add: credit_violation_None idempotency_keys_def source_keys_def)
  have "(gc_user_id cmd, ''ocr'') \<notin> set ?keys" if "find_credit_row (gc_user_id cmd) ''ocr'' db = None"
    using assms(3) that by (auto simp: first_balance_raced_def find_credit_row_def find_None_iff_ball)
  then have "distinct (if find_credit_row (gc_user_id cmd) ''ocr'' db = None then (gc_user_id cmd, ''ocr'') # ?keys else ?keys)"
    using valid(1) by simp
  moreover have "mset (map user_credit_key (user_credits (ce_rival_flush env (grant_effect env cmd db)))) =
      mset (if find_credit_row (gc_user_id cmd) ''ocr'' db = None then (gc_user_id cmd, ''ocr'') # ?keys else ?keys)"
    using assms(2) by (simp add: commits_beside_grant_def)
  ultimately have "distinct (map user_credit_key (user_credits (ce_rival_flush env (grant_effect env cmd db))))"
    using mset_eq_imp_distinct_iff by blast
  then consider "\<not> distinct (List.map_filter ctr_idempotency_key ?more)" | "\<not> distinct (List.map_filter source_key ?more)"
    using write_conflict_cases [OF assms(4,5)] by (auto simp: idempotency_keys_def source_keys_def)
  then show ?thesis
  proof cases
    case 1
    then obtain k where "gc_idempotency_key cmd = Some k" "k \<in> set (List.map_filter ctr_idempotency_key ?rows)"
      using distinct_map_filter_add [OF more valid(2)] by force
    then show ?thesis by (auto simp: grant_seen_def set_map_filter)
  next
    case 2
    then obtain k where "source_key (grant_tx env cmd) = Some k" "k \<in> set (List.map_filter source_key ?rows)"
      using distinct_map_filter_add [OF more valid(3)] by blast
    moreover from this(1) obtain t i where "gc_source_type cmd = Some t" "gc_source_id cmd = Some i"
      "k = (credit_source_value t, i, gc_user_id cmd, ''ocr'', ''grant'')"
      by (auto simp: source_key_def grant_tx_def split: option.splits)
    ultimately show ?thesis unfolding grant_seen_def set_map_filter by blast
  qed
qed

lemma grant_tx_seen:
  assumes "has_idempotent_identity cmd" and "grant_tx env cmd \<in> set (credit_transactions db)"
  shows "grant_seen cmd db"
  using assms by (auto simp: grant_seen_def has_idempotent_identity_def source_key_def grant_tx_def intro!: bexI [of _ "grant_tx env cmd"])

context credit_uow
begin

text \<open>The four ends of a grant under either unit of work.\<close>

lemma grant_run:
  assumes "grant_command_ok cmd" and "credit_violation db = None" and "credit_violation (ce_rival_lock env db) = None"
    and "credit_violation (ce_rival_flush env (ce_rival_lock env db)) = None"
  shows "grant_credit uow_commit uow_rollback env cmd (open_session db) =
    (let w = ce_rival_lock env db; b = raised_balance (amount_value (gc_amount cmd)) (stored_balance (gc_user_id cmd) w);
         t = after (ce_rival_lock env) (grant_effect env cmd) (open_session db)
     in if grant_seen cmd db then (Inr (grant_result_of (stored_balance (gc_user_id cmd) db)), open_session db)
        else
          (case credit_violation (ce_rival_flush env (grant_effect env cmd w)) of
             None \<Rightarrow> grant_tail uow_commit uow_rollback env cmd b t
           | Some e \<Rightarrow>
               if is_write_conflict e \<and> has_idempotent_identity cmd
               then (Inr (grant_result_of (stored_balance (gc_user_id cmd) (ce_rival_flush env w))), open_session (ce_rival_flush env w))
               else (Inl (if is_write_conflict e then CreditTransactionWriteConflictError else e),
                     t\<lparr>committed := ce_rival_flush env w, working := ce_rival_flush env (grant_effect env cmd w), tx_failed := True\<rparr>)))"
proof (cases "grant_seen cmd db")
  case True
  then show ?thesis using grant_credit_duplicate [of "open_session db" cmd uow_commit uow_rollback env] assms(2) by (simp add: Let_def)
next
  case False
  have s: "\<not> tx_failed (open_session db)" "credit_violation (ce_rival_lock env (working (open_session db))) = None"
    "\<not> grant_seen cmd (working (open_session db))" using assms False by simp_all
  let ?t = "after (ce_rival_lock env) (grant_effect env cmd) (open_session db)"
  have t: "\<not> tx_failed ?t" "credit_violation (ce_rival_flush env (committed ?t)) = None" using assms(4) by simp_all
  have fin: "?t\<lparr>committed := c, working := c\<rparr> = open_session c" for c by (simp add: after_def open_session_def)
  show ?thesis
  proof (cases "credit_violation (ce_rival_flush env (grant_effect env cmd (ce_rival_lock env db)))")
    case None
    then show ?thesis using False by (simp add: grant_credit_fresh [OF s assms(1)])
  next
    case (Some e)
    then have v: "credit_violation (ce_rival_flush env (working ?t)) = Some e" by simp
    show ?thesis
      using grant_tail_conflict [OF t(1) v _ _ t(2)] grant_tail_error [OF t(1) v] Some False fin
      by (auto simp: grant_credit_fresh [OF s assms(1)] Let_def)
  qed
qed

text \<open>The transaction ends up with the grant once, or the call fails and leaves what others committed.\<close>

lemma grant_counts_once:
  assumes "has_idempotent_identity cmd" and "grant_command_ok cmd" and "credit_violation db = None"
    and "credit_violation (ce_rival_lock env db) = None" and "credit_violation (ce_rival_flush env (ce_rival_lock env db)) = None"
    and "commits_beside_grant env cmd (ce_rival_lock env db)" and "\<not> first_balance_raced env cmd (ce_rival_lock env db)"
  shows "case grant_credit uow_commit uow_rollback env cmd (open_session db) of
      (Inr res, s) \<Rightarrow> granted_once cmd (working s)
    | (Inl e, s) \<Rightarrow> committed s = ce_rival_flush env (ce_rival_lock env db)"
proof -
  let ?w = "ce_rival_lock env db" and ?t = "after (ce_rival_lock env) (grant_effect env cmd) (open_session db)"
  let ?after = "ce_rival_flush env (grant_effect env cmd ?w)"
  have made: "granted_once cmd ?after" if "credit_violation ?after = None"
  proof -
    have "grant_tx env cmd \<in># mset (credit_transactions ?after)" using assms(6) by (simp add: commits_beside_grant_def)
    then show ?thesis using granted_onceI [OF that grant_tx_seen [OF assms(1), of env]] by simp
  qed
  have replayed: "granted_once cmd (ce_rival_flush env ?w)" if "credit_violation ?after = Some e" "is_write_conflict e" for e
    by (rule granted_onceI [OF assms(5) conflict_means_granted [OF assms(5-7) that]])
  have tail: "case grant_tail uow_commit uow_rollback env cmd b ?t of
      (Inr res, s) \<Rightarrow> granted_once cmd (working s) | (Inl e, s) \<Rightarrow> committed s = ce_rival_flush env ?w"
    if v: "credit_violation ?after = None" for b
  proof -
    obtain c where "grant_tail uow_commit uow_rollback env cmd b ?t =
        (Inr (grant_result_of b), ?t\<lparr>committed := c, working := ce_rival_flush env (working ?t)\<rparr>)"
      by (rule grant_tail_ok [of ?t env cmd b]) (use v in simp_all)
    then show ?thesis using made [OF v] by simp
  qed
  show ?thesis
    using granted_onceI [OF assms(3), of cmd] replayed tail
    by (auto simp: grant_run [OF assms(2-5)] Let_def split: option.split)
qed

end

lemma committing_tail:
  assumes "\<not> tx_failed s" and "credit_violation (ce_rival_flush env (working s)) = None"
  shows "grant_tail (sqlalchemy_commit credit_violation) sqlalchemy_rollback env cmd b s =
    (Inr (grant_result_of b), s\<lparr>committed := ce_rival_flush env (working s), working := ce_rival_flush env (working s)\<rparr>)"
  using assms
  by (simp add: grant_tail_def catchA_def bindA_def flush_pending_writes_def interfere_def modifyA_def
      flush_session_def sqlalchemy_commit_def commit_session_def returnA_def)

lemma committing_is_done:
  assumes "grant_command_ok cmd" and "credit_violation db = None" and "credit_violation (ce_rival_lock env db) = None"
    and "credit_violation (ce_rival_flush env (ce_rival_lock env db)) = None"
    and "grant_credit (sqlalchemy_commit credit_violation) sqlalchemy_rollback env cmd (open_session db) = (Inr res, s)"
  shows "committed s = working s"
  using assms(5) unfolding committing.grant_run [OF assms(1-4)] Let_def
  by (auto simp: committing_tail split: if_splits option.splits)

text \<open>C1. Exactly once under contention. A grant that has an idempotency key, or a source, and returns leaves
  one ledger row with its key or its source and no second one with either, whatever others committed before the
  call got the lock of the user's row or before its flush, and whether it commits itself or leaves that to the use case
  it is part of; a grant that fails leaves what the others committed. The one case that is excluded, two grants that
  race to insert a user's first balance row, is \<open>first_balance_race_loses_grant\<close> below.\<close>

theorem grant_credit_exactly_once:
  assumes "has_idempotent_identity cmd" and "grant_command_ok cmd" and "credit_violation db = None"
    and "credit_violation (ce_rival_lock env db) = None" and "credit_violation (ce_rival_flush env (ce_rival_lock env db)) = None"
    and "commits_beside_grant env cmd (ce_rival_lock env db)" and "\<not> first_balance_raced env cmd (ce_rival_lock env db)"
  shows "(case grant_credit (sqlalchemy_commit credit_violation) sqlalchemy_rollback env cmd (open_session db) of
        (Inr res, s) \<Rightarrow> granted_once cmd (committed s)
      | (Inl e, s) \<Rightarrow> committed s = ce_rival_flush env (ce_rival_lock env db)) \<and>
    (case grant_credit deferred_commit (deferred_rollback (Some rollback_session)) env cmd (open_session db) of
        (Inr res, s) \<Rightarrow> granted_once cmd (working s)
      | (Inl e, s) \<Rightarrow> committed s = ce_rival_flush env (ce_rival_lock env db))"
  using committing.grant_counts_once [OF assms] deferring.grant_counts_once [OF assms]
    committing_is_done [OF assms(2-5)]
  by (auto split: prod.split sum.split)

lemma first_violation_skip: "\<forall>(ok, e) \<in> set xs. ok \<Longrightarrow> first_violation (xs @ ys) = first_violation ys"
  by (induction xs) (auto simp: first_violation_def)

lemma violation_pk:
  assumes "\<forall>r \<in> set (user_credits db). user_credit_row_ok r" and "\<not> distinct (map user_credit_key (user_credits db))"
  shows "credit_violation db = Some (IntegrityError ''pk_user_credits'')"
proof -
  have "\<forall>(ok, e) \<in> set (concat (map user_credit_checks (user_credits db))). ok"
    using assms(1) by (auto simp: user_credit_row_ok_def)
  then show ?thesis
    using assms(2) unfolding credit_violation_def credit_checks_def
    by (simp add: first_violation_skip) (simp add: first_violation_def)
qed

text \<open>A session that inserts a user's first balance row, with a ledger row of its own.\<close>

definition insert_first_balance :: "user_credit_row \<Rightarrow> credit_tx_row \<Rightarrow> 'z credit_db_scheme \<Rightarrow> 'z credit_db_scheme" where
  "insert_first_balance r t db =
     db\<lparr>user_credits := user_credits db @ [r], credit_transactions := credit_transactions db @ [t]\<rparr>"

text \<open>C32. Where it fails: two different grants that race to insert a user's first balance row. The
  primary key of the balance table counts as an identity constraint, so the loser takes the
  other grant for its own replay: it returns normally, and its credits are in no ledger row.\<close>

theorem first_balance_race_loses_grant:
  assumes "credit_violation db = None" and "grant_admissible env cmd db" and "\<not> grant_seen cmd db"
    and "has_idempotent_identity cmd" and "find_credit_row (gc_user_id cmd) ''ocr'' db = None"
    and "ce_rival_lock env = id" and "ce_rival_flush env = insert_first_balance r t"
    and "user_credit_key r = (gc_user_id cmd, ''ocr'')"
    and "credit_violation (insert_first_balance r t db) = None" and "\<not> grant_seen cmd (insert_first_balance r t db)"
  shows "\<exists>res s'. grant_credit (sqlalchemy_commit credit_violation) sqlalchemy_rollback env cmd (open_session db) = (Inr res, s') \<and>
    committed s' = insert_first_balance r t db \<and> \<not> grant_seen cmd (committed s')"
proof -
  let ?b = "raised_balance (amount_value (gc_amount cmd)) (stored_balance (gc_user_id cmd) db)"
  let ?t = "after (ce_rival_lock env) (grant_effect env cmd) (open_session db)"
  have s: "\<not> tx_failed (open_session db)" "credit_violation (ce_rival_lock env (working (open_session db))) = None"
    "\<not> grant_seen cmd (working (open_session db))" "grant_command_ok cmd"
    using assms(1-3,6) by (simp_all add: grant_admissible_def)
  have rows: "user_credits (grant_effect env cmd db) = user_credits db @
      [user_credit_to_row \<lparr>pending_events = [], uc_id = gc_user_id cmd, uc_feature_key = OCR, uc_balance = ?b\<rparr>]"
    using assms(5) by (simp add: grant_effect_def put_balance_def put_user_credit_def)
  have "\<forall>x \<in> set (user_credits (insert_first_balance r t (grant_effect env cmd db))). user_credit_row_ok x"
    using grant_effect_valid [OF assms(1-3)] assms(9) by (auto simp: credit_violation_None insert_first_balance_def)
  moreover have "\<not> distinct (map user_credit_key (user_credits (insert_first_balance r t (grant_effect env cmd db))))"
    using assms(8) by (simp add: insert_first_balance_def rows) (simp add: user_credit_key_def user_credit_to_row_def)
  ultimately have v: "credit_violation (ce_rival_flush env (working ?t)) = Some (IntegrityError ''pk_user_credits'')"
    using violation_pk assms(6,7) by simp
  have vc: "credit_violation (ce_rival_flush env (committed ?t)) = None" using assms(6,7,9) by simp
  have t: "\<not> tx_failed ?t" "is_write_conflict (IntegrityError ''pk_user_credits'')"
    by (simp_all add: idempotent_constraints_def)
  show ?thesis
    unfolding grant_credit_fresh [OF s]
    using committing.grant_tail_conflict [OF t(1) v t(2) assms(4) vc] assms(6,7,10) by simp
qed

section \<open>Sample calls\<close>

definition empty_credit_db :: credit_db where
  "empty_credit_db = \<lparr>outbox_events = [], user_credits = [], credit_transactions = []\<rparr>"

definition quiet_env :: "uuid \<Rightarrow> credit_db credit_env" where
  "quiet_env i = \<lparr>ce_event_id = i, ce_now = 738000 * day_us, ce_tx_id = i, ce_db_now = 738000 * day_us,
     ce_rival_lock = id, ce_rival_flush = id\<rparr>"

definition event_grant :: "uuid \<Rightarrow> string \<Rightarrow> grant_command" where
  "event_grant u k = \<lparr>gc_user_id = u, gc_amount = CreditAmount 5, gc_reason = EVENT_OCR_ALLOWANCE,
     gc_source_type = None, gc_source_id = None, gc_idempotency_key = Some (ascii k)\<rparr>"

definition one_use :: "uuid \<Rightarrow> use_command" where
  "one_use u = \<lparr>us_user_id = u, us_amount = CreditAmount 1, us_reason = OCR_USAGE\<rparr>"

definition rival_row :: user_credit_row where
  "rival_row = \<lparr>ucr_user_id = 1, ucr_feature_key = ''ocr'', ucr_total_granted_count = 3, ucr_used_count = 0,
     ucr_remaining_count = 3\<rparr>"

definition rival_tx :: "string \<Rightarrow> credit_tx_row" where
  "rival_tx k = \<lparr>ctr_id = 99, ctr_user_id = 1, ctr_feature_key = ''ocr'', ctr_reason = ''monthlyOcrAllowance'',
     ctr_action = ''grant'', ctr_amount = 3, ctr_source_type = None, ctr_source_id = None,
     ctr_idempotency_key = Some (ascii k), ctr_created_at = 738000 * day_us\<rparr>"

definition rival_env :: "string \<Rightarrow> credit_db credit_env" where
  "rival_env k = (quiet_env 7)\<lparr>ce_rival_flush := insert_first_balance rival_row (rival_tx k)\<rparr>"

lemma ascii_inj [simp]: "ascii s = ascii t \<longleftrightarrow> s = t"
  by (metis ascii_text_ascii option.inject)

lemma empty_credit_ok: "credit_violation empty_credit_db = None" "ledger_ok empty_credit_db"
  by (simp_all add: credit_violation_None empty_credit_db_def idempotency_keys_def source_keys_def List.map_filter_simps
      ledger_ok_def stored_balance_def find_credit_row_def)

lemma empty_stored [simp]: "find_credit_row u fk empty_credit_db = None"
  by (simp add: find_credit_row_def empty_credit_db_def)

lemma empty_not_seen: "\<not> grant_seen cmd empty_credit_db"
  by (simp add: grant_seen_def empty_credit_db_def)

lemma event_grant_admissible:
  "grant_admissible (quiet_env i) (event_grant u ''k'') empty_credit_db"
  "grant_admissible (rival_env k) (event_grant u ''k'') empty_credit_db"
  by (simp_all add: grant_admissible_def grant_command_ok_def event_grant_def amount_ok_def fresh_ids_def
      empty_credit_db_def stored_balance_def find_credit_row_def)

lemma rival_valid: "credit_violation (insert_first_balance rival_row (rival_tx ''m'') empty_credit_db) = None"
  "credit_violation (insert_first_balance rival_row (rival_tx ''k'') empty_credit_db) = None"
  by (simp_all add: credit_violation_None insert_first_balance_def empty_credit_db_def idempotency_keys_def source_keys_def
      List.map_filter_simps user_credit_row_ok_def user_credit_checks_def credit_tx_row_ok_def credit_tx_checks_def
      rival_row_def rival_tx_def int4_def source_key_def)

theorem grant_credit_commits_witness:
  "snd (grant_credit (sqlalchemy_commit credit_violation) sqlalchemy_rollback (quiet_env 7) (event_grant 1 ''k'')
     (open_session empty_credit_db)) = open_session (grant_effect (quiet_env 7) (event_grant 1 ''k'') empty_credit_db)"
  by (subst grant_credit_commits [OF empty_credit_ok(1) event_grant_admissible(1) empty_not_seen])
    (simp_all add: quiet_env_def)

theorem grant_credit_idempotent_witness:
  "snd (grant_credit (sqlalchemy_commit credit_violation) sqlalchemy_rollback (quiet_env 8) (event_grant 1 ''k'')
     (open_session (grant_effect (quiet_env 7) (event_grant 1 ''k'') empty_credit_db))) =
   open_session (grant_effect (quiet_env 7) (event_grant 1 ''k'') empty_credit_db)"
  by (subst grant_credit_idempotent [OF empty_credit_ok(1) event_grant_admissible(1) empty_not_seen])
    (simp_all add: event_grant_def)

theorem use_credit_outcome_witness:
  "use_credit (sqlalchemy_commit credit_violation) (quiet_env 7) (one_use 1) (open_session empty_credit_db) =
   (Inl InsufficientCreditError, open_session empty_credit_db)"
  by (subst use_credit_outcome [OF empty_credit_ok(1)])
    (simp_all add: one_use_def amount_ok_def fresh_ids_def empty_credit_db_def quiet_env_def stored_balance_def
      find_credit_row_def)

theorem delete_user_credits_outcome_witness:
  "snd (delete_user_credits (sqlalchemy_commit credit_violation) (quiet_env 7) 1 (open_session empty_credit_db)) =
   open_session (delete_effect (quiet_env 7) 1 empty_credit_db)"
  using delete_user_credits_outcome [OF empty_credit_ok(1), of "quiet_env 7" 1]
  by (simp add: empty_credit_db_def)

theorem credit_calls_keep_ledger_witness:
  "ledger_ok (fold run_call [CallGrant (quiet_env 7) (event_grant 1 ''k''), CallUse (quiet_env 8) (one_use 1),
     CallDelete (quiet_env 9) 1] empty_credit_db)"
  using credit_calls_keep_ledger [OF empty_credit_ok, of "[CallGrant (quiet_env 7) (event_grant 1 ''k''),
    CallUse (quiet_env 8) (one_use 1), CallDelete (quiet_env 9) 1]"]
  by (simp add: grant_command_ok_def event_grant_def one_use_def amount_ok_def)

lemma rival_race: "credit_violation (insert_first_balance rival_row (rival_tx ''k'')
    (grant_effect (rival_env ''k'') (event_grant 1 ''k'') empty_credit_db)) = Some (IntegrityError ''pk_user_credits'')"
proof (rule violation_pk)
  have g: "credit_violation (grant_effect (rival_env ''k'') (event_grant 1 ''k'') empty_credit_db) = None"
    by (rule grant_effect_valid [OF empty_credit_ok(1) event_grant_admissible(2) empty_not_seen])
  show "\<forall>r \<in> set (user_credits (insert_first_balance rival_row (rival_tx ''k'')
      (grant_effect (rival_env ''k'') (event_grant 1 ''k'') empty_credit_db))). user_credit_row_ok r"
    using g rival_valid(2) by (auto simp: credit_violation_None insert_first_balance_def)
  show "\<not> distinct (map user_credit_key (user_credits (insert_first_balance rival_row (rival_tx ''k'')
      (grant_effect (rival_env ''k'') (event_grant 1 ''k'') empty_credit_db))))"
    by (simp add: insert_first_balance_def grant_effect_def put_balance_def put_user_credit_def user_credit_to_row_def
        event_grant_def user_credit_key_def rival_row_def)
qed

theorem grant_credit_race_witness:
  "snd (grant_credit (sqlalchemy_commit credit_violation) sqlalchemy_rollback (rival_env ''k'') (event_grant 1 ''k'')
     (open_session empty_credit_db)) = open_session (insert_first_balance rival_row (rival_tx ''k'') empty_credit_db)"
proof -
  have env: "ce_rival_lock (rival_env ''k'') = id"
    "ce_rival_flush (rival_env ''k'') = insert_first_balance rival_row (rival_tx ''k'')"
    by (simp_all add: rival_env_def quiet_env_def)
  show ?thesis
    using grant_credit_race [of "rival_env ''k''" empty_credit_db "event_grant 1 ''k''" "''pk_user_credits''"]
      rival_race rival_valid(2) empty_credit_ok empty_not_seen
    by (simp add: env) (simp add: grant_command_ok_def event_grant_def amount_ok_def has_idempotent_identity_def
        idempotent_constraints_def)
qed

definition sourced_grant :: grant_command where
  "sourced_grant = \<lparr>gc_user_id = 2, gc_amount = CreditAmount 5, gc_reason = EVENT_OCR_ALLOWANCE,
     gc_source_type = Some PROMOTION_REDEMPTION, gc_source_id = Some 44, gc_idempotency_key = None\<rparr>"

theorem grant_credit_exactly_once_witness:
  "\<exists>res s. grant_credit (sqlalchemy_commit credit_violation) sqlalchemy_rollback (rival_env ''m'') sourced_grant
      (open_session empty_credit_db) = (Inr res, s) \<and>
    granted_once sourced_grant (committed s) \<and> credit_transactions (committed s) = [grant_tx (rival_env ''m'') sourced_grant, rival_tx ''m'']"
proof -
  let ?env = "rival_env ''m''"
  have env: "ce_rival_lock ?env = id" "ce_rival_flush ?env = insert_first_balance rival_row (rival_tx ''m'')"
    by (simp_all add: rival_env_def quiet_env_def)
  have cmd: "has_idempotent_identity sourced_grant" "grant_command_ok sourced_grant"
    by (simp_all add: has_idempotent_identity_def grant_command_ok_def sourced_grant_def amount_ok_def)
  have admissible: "grant_admissible ?env sourced_grant empty_credit_db"
    using cmd(2) by (simp add: grant_admissible_def sourced_grant_def fresh_ids_def empty_credit_db_def stored_balance_def
        find_credit_row_def)
  have beside: "commits_beside_grant ?env sourced_grant empty_credit_db" "\<not> first_balance_raced ?env sourced_grant empty_credit_db"
    by (simp_all add: commits_beside_grant_def first_balance_raced_def env insert_first_balance_def grant_effect_def put_balance_def
        put_user_credit_def find_credit_row_def empty_credit_db_def user_credit_to_row_def user_credit_key_def sourced_grant_def
        rival_row_def)
  have once: "case grant_credit (sqlalchemy_commit credit_violation) sqlalchemy_rollback ?env sourced_grant (open_session empty_credit_db) of
        (Inr res, s) \<Rightarrow> granted_once sourced_grant (committed s)
      | (Inl e, s) \<Rightarrow> committed s = ce_rival_flush ?env (ce_rival_lock ?env empty_credit_db)"
    by (rule conjunct1 [OF grant_credit_exactly_once [OF cmd empty_credit_ok(1)]])
      (use empty_credit_ok(1) rival_valid(1) beside in \<open>simp_all add: env\<close>)
  have "credit_violation (insert_first_balance rival_row (rival_tx ''m'') (grant_effect ?env sourced_grant empty_credit_db)) = None"
    using grant_effect_valid [OF empty_credit_ok(1) admissible empty_not_seen] rival_valid(1)
    by (auto simp: credit_violation_None insert_first_balance_def empty_credit_db_def idempotency_keys_def source_keys_def
        List.map_filter_simps grant_effect_def put_balance_def put_user_credit_def find_credit_row_def user_credit_to_row_def
        user_credit_key_def rival_row_def rival_tx_def grant_tx_def sourced_grant_def source_key_def rival_env_def quiet_env_def)
  then show ?thesis
    using once committing.grant_run [OF cmd(2) empty_credit_ok(1), of ?env] empty_credit_ok(1) rival_valid(1)
    by (simp add: env empty_not_seen committing_tail Let_def)
      (simp add: insert_first_balance_def grant_effect_def empty_credit_db_def)
qed

theorem first_balance_race_loses_grant_witness:
  "\<exists>res s'. grant_credit (sqlalchemy_commit credit_violation) sqlalchemy_rollback (rival_env ''m'') (event_grant 1 ''k'')
     (open_session empty_credit_db) = (Inr res, s') \<and>
     \<not> grant_seen (event_grant 1 ''k'') (committed s')"
proof -
  have env: "ce_rival_lock (rival_env ''m'') = id"
    "ce_rival_flush (rival_env ''m'') = insert_first_balance rival_row (rival_tx ''m'')"
    by (simp_all add: rival_env_def quiet_env_def)
  have "user_credit_key rival_row = (gc_user_id (event_grant 1 ''k''), ''ocr'')"
    "has_idempotent_identity (event_grant 1 ''k'')"
    "\<not> grant_seen (event_grant 1 ''k'') (insert_first_balance rival_row (rival_tx ''m'') empty_credit_db)"
    by (simp_all add: user_credit_key_def rival_row_def event_grant_def has_idempotent_identity_def grant_seen_def
        insert_first_balance_def empty_credit_db_def rival_tx_def)
  from first_balance_race_loses_grant [OF empty_credit_ok(1) event_grant_admissible(2) empty_not_seen this(2)
      empty_stored env this(1) rival_valid(1) this(3)]
  show ?thesis by blast
qed

end
