(* ===== verification/Keyset_Pages.thy ===== *)
theory Keyset_Pages
  imports Core_Domain "HOL-Library.Product_Lexorder"
begin

text \<open>
  Pages of a sorted table, as every listing query of the backend reads them: what a page
  leaves out is what the next one starts with, so that following the pages to the end visits
  every row once.
\<close>

section \<open>Keyset pages\<close>

text \<open>
  A keyset page is the first \<open>limit + 1\<close> rows beyond a cursor in key order. The condition
  of the query has to select the rows with a larger key; then the pages cover the rows.
\<close>

locale keyset_page =
  fixes key :: "'r \<Rightarrow> 'k::linorder" and beyond :: "'k \<Rightarrow> 'r \<Rightarrow> bool"
  assumes beyond_iff: "beyond c r \<longleftrightarrow> c < key r"
begin

lemma sort_filter: "sort_key key (filter (beyond c) rows) = filter (beyond c) (sort_key key rows)"
  by (simp add: filter_sort)

lemma rest_of_sorted:
  assumes "sorted_wrt (<) (map key (xs @ [r] @ ys))"
  shows "filter (beyond (key r)) (xs @ [r] @ ys) = ys"
proof -
  have "filter (beyond (key r)) xs = []" and "filter (beyond (key r)) ys = ys"
    using assms by (auto simp: sorted_wrt_append beyond_iff filter_empty_conv intro!: filter_True)
  then show ?thesis by (simp add: beyond_iff)
qed

text \<open>What lies beyond the last row of a page is what the page left out.\<close>

lemma rest_after_page:
  assumes "sorted_wrt (<) (map key xs)" and "take n xs \<noteq> []"
  shows "filter (beyond (key (last (take n xs)))) xs = drop n xs"
proof -
  have "xs = butlast (take n xs) @ [last (take n xs)] @ drop n xs"
    using assms(2) by (metis append_assoc append_butlast_last_id append_take_drop_id)
  then show ?thesis using rest_of_sorted assms(1) by metis
qed

lemma beyond_twice:
  assumes "c \<le> d"
  shows "filter (beyond d) (filter (beyond c) xs) = filter (beyond d) xs"
  using assms by (auto simp: beyond_iff intro!: filter_cong)

end

section \<open>Loops over pages\<close>

text \<open>\<open>for x in xs: t = f(x, t)\<close>, where \<open>f\<close> may raise.\<close>

fun for_each :: "'x list \<Rightarrow> ('x \<Rightarrow> 't \<Rightarrow> ('s, 'e, 't) action) \<Rightarrow> 't \<Rightarrow> ('s, 'e, 't) action" where
  "for_each [] body t = returnA t"
| "for_each (x # xs) body t = bindA (body x t) (\<lambda>t'. for_each xs body t')"

text \<open>
  \<open>while True\<close>: fetch the page after the cursor, run the body on its elements, stop where no
  page follows. A page says what follows it (\<open>Inl\<close> where the code raises instead).
\<close>

fun page_loop ::
    "nat \<Rightarrow> ('c option \<Rightarrow> ('s, exn, 'x list \<times> (exn + 'c option)) action) \<Rightarrow> ('x \<Rightarrow> 't \<Rightarrow> ('s, exn, 't) action) \<Rightarrow>
     'c option \<Rightarrow> 't \<Rightarrow> ('s, exn, 't) action" where
  "page_loop 0 fetch body cursor t = raiseA FuelExhausted"
| "page_loop (Suc n) fetch body cursor t =
     bindA (fetch cursor) (\<lambda>(xs, following).
     bindA (for_each xs body t) (\<lambda>t'.
     bindA (liftE following) (\<lambda>c.
     case c of
       None \<Rightarrow> returnA t'
     | Some k \<Rightarrow> page_loop n fetch body (Some k) t')))"

function chunks :: "nat \<Rightarrow> 'r list \<Rightarrow> 'r list list" where
  "chunks n rows = (if n = 0 \<or> length rows \<le> n then [rows] else take n rows # chunks n (drop n rows))"
  by pat_completeness auto
termination by (relation "measure (\<lambda>(n, rows). length rows)") auto

declare chunks.simps [simp del]

lemma concat_chunks: "concat (chunks n rows) = rows"
proof (induction n rows rule: chunks.induct)
  case (1 n rows)
  then show ?case by (subst chunks.simps) auto
qed

lemma bind_assoc: "bindA (bindA m f) g = bindA m (\<lambda>x. bindA (f x) g)"
  by (rule ext) (simp add: bindA_def split: prod.split sum.split)

lemma for_each_append: "for_each (xs @ ys) body t = bindA (for_each xs body t) (for_each ys body)"
proof (induction xs arbitrary: t)
  case (Cons x xs)
  then have "for_each (xs @ ys) body = (\<lambda>t'. bindA (for_each xs body t') (for_each ys body))" by (rule ext)
  then show ?case by (simp add: bind_assoc)
qed (simp add: bind_pure)

lemma for_each_concat_map:
  "for_each (map f xs) body = for_each xs (\<lambda>x. body (f x))"
proof (induction xs)
  case (Cons x xs)
  then show ?case by (intro ext) simp
qed (simp add: fun_eq_iff)

text \<open>What a body keeps, the loop keeps.\<close>

lemma for_each_keeps:
  assumes "\<And>x t. x \<in> set xs \<Longrightarrow> runs P (body x t) (\<lambda>_. P) E" and "\<And>s. P s \<Longrightarrow> E s"
  shows "runs P (for_each xs body t) (\<lambda>_. P) E"
  using assms(1)
proof (induction xs arbitrary: t)
  case Nil
  then show ?case by (auto intro: runs_returnA)
next
  case (Cons x xs)
  then show ?case by (auto intro!: runs_bind [of P "body x t" "\<lambda>_. P"])
qed

lemma for_each_cong:
  assumes "\<And>x t s. x \<in> set xs \<Longrightarrow> P s \<Longrightarrow> body x t s = body' x t s"
    and "\<And>x t. x \<in> set xs \<Longrightarrow> runs P (body x t) (\<lambda>_. P) (\<lambda>_. True)" and "P s"
  shows "for_each xs body t s = for_each xs body' t s"
  using assms
proof (induction xs arbitrary: t s)
  case (Cons x xs)
  have "P s'" if "body x t s = (Inr t', s')" for t' s'
    using Cons.prems(2) [of x t] that Cons.prems(3) by (auto simp: runs_def split: prod.splits sum.splits)
  then show ?case
    using Cons by (auto simp: bindA_def split: prod.split sum.split)
qed simp

text \<open>
  While the body keeps the rows that the pages are read from (\<open>P\<close>), the loop runs its body on
  the rows in key order, a page at a time, and ends; a row of fuel per row is enough.
\<close>

context keyset_page
begin

definition rest :: "'r list \<Rightarrow> 'k option \<Rightarrow> 'r list" where
  "rest rows c = (case c of None \<Rightarrow> rows | Some k \<Rightarrow> filter (beyond k) rows)"

definition follows :: "nat \<Rightarrow> 'r list \<Rightarrow> 'k option" where
  "follows limit rows = (if limit < length rows then Some (key (last (take limit rows))) else None)"

lemma page_loop_chunks:
  assumes fetch: "\<And>c s. P s \<Longrightarrow>
      fetch c s = (Inr (G (take limit (rest rows c)), Inr (follows limit (rest rows c))), s)"
    and body: "\<And>x t. runs P (body x t) (\<lambda>_. P) (\<lambda>_. True)"
    and sorted: "sorted_wrt (<) (map key rows)" and limit: "0 < limit"
  shows "P s \<Longrightarrow> length (rest rows c) < n \<Longrightarrow>
    page_loop n fetch body c t s = for_each (concat (map G (chunks limit (rest rows c)))) body t s"
proof (induction n arbitrary: c t s)
  case (Suc n)
  let ?rest = "rest rows c"
  show ?case
  proof (cases "limit < length ?rest")
    case False
    then have all: "take limit ?rest = ?rest" "chunks limit ?rest = [?rest]" "follows limit ?rest = None"
      by (simp_all add: chunks.simps follows_def)
    have "bindA (for_each xs body t) (\<lambda>t'. returnA t') s' = for_each xs body t s'" for xs s'
      by (simp add: bindA_def returnA_def split: prod.split sum.split)
    then show ?thesis
      using fetch [OF Suc.prems(1), of c] all by (simp add: bindA_def [of "fetch c"] bind_pure)
  next
    case True
    have ne: "take limit ?rest \<noteq> []" using True limit by auto
    have sub: "sorted_wrt (<) (map key ?rest)"
      using sorted by (auto simp: rest_def sorted_wrt_map sorted_wrt_filter split: option.split)
    obtain k where k: "follows limit ?rest = Some k" "k = key (last (take limit ?rest))" using True by (simp add: follows_def)
    have "rest rows (Some k) = filter (beyond k) ?rest"
    proof (cases c)
      case (Some d)
      have "last (take limit ?rest) \<in> set ?rest" using ne by (meson in_set_takeD last_in_set)
      then have "d \<le> k" using Some k by (simp add: rest_def beyond_iff less_imp_le)
      from beyond_twice [OF this, of rows] show ?thesis unfolding Some rest_def option.case by simp
    qed (simp add: rest_def)
    also have "\<dots> = drop limit ?rest" using rest_after_page [OF sub ne] k by simp
    finally have next_rest: "rest rows (Some k) = drop limit ?rest" .
    have chunks: "chunks limit ?rest = take limit ?rest # chunks limit (drop limit ?rest)"
      using True limit by (subst chunks.simps) simp
    have shorter: "length (rest rows (Some k)) < n" unfolding next_rest using True limit Suc.prems(2) by simp
    have keep: "runs P (for_each xs body t) (\<lambda>_. P) (\<lambda>_. True)" for xs
      using body by (intro for_each_keeps) simp_all
    have step: "bindA (for_each xs body t) (\<lambda>t'. page_loop n fetch body (Some k) t') s =
        bindA (for_each xs body t) (for_each (concat (map G (chunks limit (drop limit ?rest)))) body) s" for xs
    proof -
      have "page_loop n fetch body (Some k) t' s' = for_each (concat (map G (chunks limit (drop limit ?rest)))) body t' s'"
        if "for_each xs body t s = (Inr t', s')" for t' s'
      proof -
        have "P s'" using keep [of xs] that Suc.prems(1) by (auto simp: runs_def split: prod.splits sum.splits)
        from Suc.IH [OF this shorter] show ?thesis unfolding next_rest .
      qed
      then show ?thesis by (auto simp: bindA_def split: prod.split sum.split)
    qed
    have "page_loop (Suc n) fetch body c t s =
        bindA (for_each (G (take limit ?rest)) body t) (\<lambda>t'. page_loop n fetch body (Some k) t') s"
      using fetch [OF Suc.prems(1), of c] k(1) by (simp add: bindA_def [of "fetch c"] bind_pure)
    then show ?thesis unfolding chunks step by (simp add: for_each_append)
  qed
qed simp

end

section \<open>Following the cursors\<close>

text \<open>A reader that asks for one page after the other, for at most \<open>n\<close> pages.\<close>

fun follow :: "nat \<Rightarrow> ('c option \<Rightarrow> 'e + 'x list \<times> 'c option) \<Rightarrow> 'c option \<Rightarrow> 'e + 'x list" where
  "follow 0 fetch c = Inr []"
| "follow (Suc n) fetch c =
     bindE (fetch c) (\<lambda>(xs, following).
       case following of
         None \<Rightarrow> Inr xs
       | Some k \<Rightarrow> bindE (follow n fetch (Some k)) (\<lambda>ys. Inr (xs @ ys)))"

context keyset_page
begin

text \<open>
  When the texts \<open>C\<close> stand for keys and every page is the next rows with the text for the last
  of them, the pages together are the rows.
\<close>

lemma follow_rows:
  assumes fetch: "\<And>c k. stands c k \<Longrightarrow> \<exists>following. fetch c = Inr (map g (take limit (rest rows k)), following) \<and>
      (if limit < length (rest rows k)
       then following \<noteq> None \<and> stands following (Some (key (last (take limit (rest rows k)))))
       else following = None)"
    and sorted: "sorted_wrt (<) (map key rows)" and limit: "0 < limit"
  shows "stands c k \<Longrightarrow> length (rest rows k) < n \<Longrightarrow> follow n fetch c = Inr (map g (rest rows k))"
proof (induction n arbitrary: c k)
  case (Suc n)
  let ?rest = "rest rows k"
  obtain following where page: "fetch c = Inr (map g (take limit ?rest), following)"
    and nxt: "if limit < length ?rest then following \<noteq> None \<and> stands following (Some (key (last (take limit ?rest)))) else following = None"
    using fetch [OF Suc.prems(1)] by blast
  show ?case
  proof (cases "limit < length ?rest")
    case False
    then show ?thesis using page nxt by simp
  next
    case True
    have ne: "take limit ?rest \<noteq> []" using True limit by auto
    have sub: "sorted_wrt (<) (map key ?rest)"
      using sorted by (auto simp: rest_def sorted_wrt_map sorted_wrt_filter split: option.split)
    let ?k = "key (last (take limit ?rest))"
    obtain f where f: "following = Some f" "stands (Some f) (Some ?k)" using nxt True by auto
    have "rest rows (Some ?k) = filter (beyond ?k) ?rest"
    proof (cases k)
      case (Some d)
      have "last (take limit ?rest) \<in> set ?rest" using ne by (meson in_set_takeD last_in_set)
      then have "d \<le> ?k" using Some by (simp add: rest_def beyond_iff less_imp_le)
      from beyond_twice [OF this, of rows] show ?thesis unfolding Some rest_def option.case by simp
    qed (simp add: rest_def)
    also have "\<dots> = drop limit ?rest" using rest_after_page [OF sub ne] by simp
    finally have drop: "rest rows (Some ?k) = drop limit ?rest" .
    have "length (rest rows (Some ?k)) < n" unfolding drop using True limit Suc.prems(2) by simp
    from Suc.IH [OF f(2) this] show ?thesis
      using page f(1) unfolding drop by (simp add: map_append [symmetric] del: map_append)
  qed
qed simp

end

end
