(* ===== verification/Cursor_Text.thy ===== *)
theory Cursor_Text
  imports Text_Codec
begin

text \<open>
  The text of a list cursor, \<open><created_at>|<id>\<close>, which the credits and the notifications
  modules write and read in the same way, with the \<open>str\<close> methods they use for it.
\<close>

section \<open>Splitting and replacing\<close>

fun split_on :: "nat \<Rightarrow> ustr \<Rightarrow> ustr list" where
  "split_on sep [] = [[]]"
| "split_on sep (c # s) =
     (if c = sep then [] # split_on sep s
      else (case split_on sep s of [] \<Rightarrow> [[c]] | p # ps \<Rightarrow> (c # p) # ps))"

text \<open>\<open>str.replace\<close>, left to right.\<close>

fun replace_text :: "ustr \<Rightarrow> ustr \<Rightarrow> nat \<Rightarrow> ustr \<Rightarrow> ustr" where
  "replace_text old new 0 s = s"
| "replace_text old new (Suc n) [] = []"
| "replace_text old new (Suc n) (c # s) =
     (if take (length old) (c # s) = old then new @ replace_text old new n (drop (length old) (c # s))
      else c # replace_text old new n s)"

definition str_replace :: "ustr \<Rightarrow> ustr \<Rightarrow> ustr \<Rightarrow> ustr" where
  "str_replace s old new = replace_text old new (length s) s"

definition utc_suffix :: ustr where
  "utc_suffix = [43, 48, 48, 58, 48, 48]"

section \<open>Cursors\<close>

type_synonym cursor = "datetime \<times> uuid"

definition cursor_text :: "datetime \<Rightarrow> uuid \<Rightarrow> ustr" where
  "cursor_text t i = str_replace (isoformat t) utc_suffix [90] @ [124] @ uuid_str i"

section \<open>Cursors are read back\<close>

lemma replace_text_suffix:
  assumes "old \<noteq> []" and "hd old \<notin> set body" and "length body < n"
  shows "replace_text old new n (body @ old) = body @ new"
  using assms(2,3)
proof (induction body arbitrary: n)
  case Nil
  then obtain m where n: "n = Suc m" by (cases n) auto
  have "replace_text old new m [] = []" by (cases m) simp_all
  then show ?case using assms(1) n by (cases old) simp_all
next
  case (Cons c body)
  then obtain m where n: "n = Suc m" by (cases n) auto
  have "take (length old) (c # body @ old) \<noteq> old"
    using assms(1) Cons.prems(1) by (cases old) auto
  then show ?case using Cons n by simp
qed

lemma split_on_none: "sep \<notin> set s \<Longrightarrow> split_on sep s = [s]"
  by (induction s) auto

lemma split_on_pair: "sep \<notin> set a \<Longrightarrow> sep \<notin> set b \<Longrightarrow> split_on sep (a @ sep # b) = [a, b]"
  by (induction a) (auto simp: split_on_none)

definition iso_body :: "datetime \<Rightarrow> ustr" where
  "iso_body t = take (length (isoformat t) - 6) (isoformat t)"

lemma dec_field_chars: "c \<in> set (dec_field n x) \<Longrightarrow> 48 \<le> c \<and> c \<le> 57"
proof -
  assume "c \<in> set (dec_field n x)"
  then obtain d where "d \<in> set (digits_of 10 n (nat x))" and "c = 48 + d" by (auto simp: dec_field_def dec_char_def)
  then show ?thesis using digits_of_less [of 10 d n "nat x"] by simp
qed

lemma isoformat_body:
  "isoformat t = iso_body t @ utc_suffix" "43 \<notin> set (iso_body t)" "90 \<notin> set (iso_body t)" "124 \<notin> set (iso_body t)"
proof -
  obtain y mo d h mi se f where iso: "isoformat t = dec_field 4 y @ [45] @ dec_field 2 mo @ [45] @ dec_field 2 d @ [84] @
      dec_field 2 h @ [58] @ dec_field 2 mi @ [58] @ dec_field 2 se @ f @ utc_suffix"
    and f: "f = [] \<or> (\<exists>us. f = [46] @ dec_field 6 us)"
  proof -
    let ?f = "if t mod second_us = 0 then [] else [46] @ dec_field 6 (t mod second_us)"
    have "?f = [] \<or> (\<exists>us. ?f = [46] @ dec_field 6 us)" by auto
    with that [of _ _ _ _ _ _ ?f] show thesis
      unfolding isoformat_def Let_def utc_suffix_def by blast
  qed
  obtain b where b: "b = dec_field 4 y @ [45] @ dec_field 2 mo @ [45] @ dec_field 2 d @ [84] @
      dec_field 2 h @ [58] @ dec_field 2 mi @ [58] @ dec_field 2 se @ f" by simp
  have "isoformat t = b @ utc_suffix" using iso b by simp
  then have body: "iso_body t = b" by (simp add: iso_body_def utc_suffix_def)
  show "isoformat t = iso_body t @ utc_suffix" using iso b body by simp
  have "c \<in> {45, 46, 84, 58} \<or> 48 \<le> c \<and> c \<le> 57" if "c \<in> set b" for c
    using that f unfolding b by (auto dest: dec_field_chars)
  then show "43 \<notin> set (iso_body t)" "90 \<notin> set (iso_body t)" "124 \<notin> set (iso_body t)"
    unfolding body by fastforce+
qed

lemma uuid_str_chars: "124 \<notin> set (uuid_str u)"
proof
  assume "124 \<in> set (uuid_str u)"
  then have "124 \<in> set (filter (\<lambda>c. c \<noteq> 45) (uuid_str u))" by simp
  then have "124 \<in> set (uuid_hex u)" by (simp only: filter_dash_uuid_str)
  then obtain d where "d \<in> set (digits_of 16 32 (unat u))" and "124 = hex_char d" unfolding uuid_hex_def by auto
  then show False
    using digits_of_less [of 16 d 32 "unat u"] by (auto simp: hex_char_def simp del: digits_of.simps split: if_splits)
qed

lemma cursor_text_body: "cursor_text t i = (iso_body t @ [90]) @ 124 # uuid_str i"
  using replace_text_suffix [of utc_suffix "iso_body t" "length (isoformat t)" "[90]"] isoformat_body [of t]
  by (simp add: cursor_text_def str_replace_def utc_suffix_def)

text \<open>What a reader of the cursor recovers.\<close>

lemma split_cursor_text: "split_on 124 (cursor_text t i) = [iso_body t @ [90], uuid_str i]"
  unfolding cursor_text_body using isoformat_body(4) uuid_str_chars by (intro split_on_pair) auto

lemma read_cursor_time: "str_replace (iso_body t @ [90]) [90] utc_suffix = isoformat t"
  using replace_text_suffix [of "[90]" "iso_body t" "Suc (length (iso_body t))" utc_suffix] isoformat_body [of t]
  by (simp add: str_replace_def)

end
