(* ===== verification/Credits_Queries.thy ===== *)
theory Credits_Queries
  imports Credits_Repository Keyset_Pages Cursor_Text
begin

text \<open>
  The queries of the credits module: the balance, and the ledger in pages
  (\<open>application/queries\<close> and \<open>SqlAlchemyCreditRepository.list_transactions\<close>), with the
  cursor between two pages.
\<close>

section \<open>Listing the ledger\<close>

definition tx_key :: "credit_tx_row \<Rightarrow> cursor" where
  "tx_key r = (ctr_created_at r, ctr_id r)"

definition after_cursor :: "cursor \<Rightarrow> credit_tx_row \<Rightarrow> bool" where
  "after_cursor c r \<longleftrightarrow> ctr_created_at r > fst c \<or> (ctr_created_at r = fst c \<and> ctr_id r > snd c)"

interpretation ledger_pages: keyset_page tx_key after_cursor
  by unfold_locales (auto simp: after_cursor_def tx_key_def less_prod_simp split: prod.splits)

record tx_list_result =
  tlr_transactions :: "credit_tx_item list"
  tlr_has_next :: bool
  tlr_total_count :: nat

definition user_transactions :: "uuid \<Rightarrow> 'z credit_db_scheme \<Rightarrow> credit_tx_row list" where
  "user_transactions user_id db =
     filter (\<lambda>r. ctr_user_id r = user_id \<and> ctr_feature_key r = feature_key_value OCR) (credit_transactions db)"

definition list_transactions :: "uuid \<Rightarrow> cursor option \<Rightarrow> nat \<Rightarrow> 'z credit_db_scheme \<Rightarrow> exn + tx_list_result" where
  "list_transactions user_id cursor limit db =
     (let mine = user_transactions user_id db;
          selected = (case cursor of None \<Rightarrow> mine | Some c \<Rightarrow> filter (after_cursor c) mine);
          records = take (limit + 1) (sort_key tx_key selected)
      in bindE (traverse transaction_to_list_item (take limit records)) (\<lambda>items.
         Inr \<lparr>tlr_transactions = items, tlr_has_next = limit < length records, tlr_total_count = length mine\<rparr>))"

section \<open>Cursors\<close>

definition parse_cursor :: "ustr option \<Rightarrow> exn + cursor option" where
  "parse_cursor cursor =
     (case cursor of
        None \<Rightarrow> Inr None
      | Some s \<Rightarrow>
          (case split_on 124 s of
             [d, i] \<Rightarrow>
               (case (fromisoformat (str_replace d [90] utc_suffix), uuid_parse i) of
                  (Some t, Some u) \<Rightarrow> Inr (Some (t, u))
                | _ \<Rightarrow> Inl InvalidCreditTransactionCursorError)
           | _ \<Rightarrow> Inl InvalidCreditTransactionCursorError))"

definition next_cursor :: "credit_tx_item list \<Rightarrow> ustr option" where
  "next_cursor items =
     (if items = [] then None
      else Some (cursor_text (cti_created_at (last items)) (cti_transaction_id (last items))))"

record tx_page =
  pg_transactions :: "credit_tx_item list"
  pg_next_cursor :: "ustr option"
  pg_has_next :: bool
  pg_limit :: nat
  pg_total_count :: nat

definition list_credit_transactions :: "uuid \<Rightarrow> ustr option \<Rightarrow> nat \<Rightarrow> 'z credit_db_scheme \<Rightarrow> exn + tx_page" where
  "list_credit_transactions user_id cursor limit db =
     bindE (parse_cursor cursor) (\<lambda>c.
     bindE (list_transactions user_id c limit db) (\<lambda>res.
     Inr \<lparr>pg_transactions = tlr_transactions res,
          pg_next_cursor = (if tlr_has_next res then next_cursor (tlr_transactions res) else None),
          pg_has_next = tlr_has_next res, pg_limit = limit, pg_total_count = tlr_total_count res\<rparr>))"

definition get_credit_balance :: "uuid \<Rightarrow> ('z, credit_balance) credit_action_on" where
  "get_credit_balance user_id = get_balance user_id"

text \<open>A client that follows \<open>next_cursor\<close> for at most \<open>n\<close> pages.\<close>

fun follow_pages :: "nat \<Rightarrow> uuid \<Rightarrow> nat \<Rightarrow> 'z credit_db_scheme \<Rightarrow> ustr option \<Rightarrow> exn + credit_tx_item list" where
  "follow_pages 0 user_id limit db cursor = Inr []"
| "follow_pages (Suc n) user_id limit db cursor =
     bindE (list_credit_transactions user_id cursor limit db) (\<lambda>p.
       case pg_next_cursor p of
         None \<Rightarrow> Inr (pg_transactions p)
       | Some c \<Rightarrow> bindE (follow_pages n user_id limit db (Some c)) (\<lambda>rest. Inr (pg_transactions p @ rest)))"

section \<open>Cursors are read back\<close>

lemma parse_cursor_written:
  assumes "valid_instant t"
  shows "parse_cursor (Some (cursor_text t i)) = Inr (Some (t, i))"
  using assms by (simp add: parse_cursor_def split_cursor_text read_cursor_time fromisoformat_isoformat uuid_parse_str)

section \<open>Following the pages\<close>

definition item_of :: "credit_tx_row \<Rightarrow> credit_tx_item" where
  "item_of r = projr (transaction_to_list_item r)"

lemma item_of_row:
  assumes "credit_tx_row_ok r"
  shows "transaction_to_list_item r = Inr (item_of r)" "cti_transaction_id (item_of r) = ctr_id r"
    "cti_created_at (item_of r) = ctr_created_at r"
proof -
  have d: "ctr_reason r \<in> {''monthlyOcrAllowance'', ''eventOcrAllowance'', ''ocrUsage''}"
    "ctr_action r \<in> {''grant'', ''use''}" "\<not> ctr_amount r < 1"
    using assms by (auto simp: credit_tx_row_ok_def credit_tx_checks_def)
  obtain reason where "credit_reason_of (ctr_reason r) = Some reason"
    using d(1) by (auto simp: credit_reason_of_def)
  moreover obtain action where "credit_action_of (ctr_action r) = Some action"
    using d(2) by (auto simp: credit_action_of_def)
  ultimately have item: "transaction_to_list_item r =
      Inr \<lparr>cti_transaction_id = ctr_id r, cti_user_id = ctr_user_id r, cti_reason = reason,
                    cti_action = action, cti_amount = CreditAmount (ctr_amount r), cti_created_at = ctr_created_at r\<rparr>"
    using d(3) by (simp add: transaction_to_list_item_def mk_credit_amount_def)
  show "transaction_to_list_item r = Inr (item_of r)" "cti_transaction_id (item_of r) = ctr_id r"
    "cti_created_at (item_of r) = ctr_created_at r"
    by (simp_all add: item_of_def item)
qed

definition rows_after :: "uuid \<Rightarrow> 'z credit_db_scheme \<Rightarrow> cursor option \<Rightarrow> credit_tx_row list" where
  "rows_after u db c =
     (case c of None \<Rightarrow> sort_key tx_key (user_transactions u db)
      | Some k \<Rightarrow> filter (after_cursor k) (sort_key tx_key (user_transactions u db)))"

lemma rows_after_props:
  assumes "credit_violation db = None"
  shows "sorted_wrt (<) (map tx_key (rows_after u db c))"
    and "r \<in> set (rows_after u db c) \<Longrightarrow> credit_tx_row_ok r \<and> r \<in> set (credit_transactions db)"
proof -
  have "distinct (map ctr_id (user_transactions u db))"
    using assms by (simp add: credit_violation_None user_transactions_def distinct_map_filter)
  then have "distinct (map tx_key (sort_key tx_key (user_transactions u db)))"
    by (auto simp: distinct_map inj_on_def tx_key_def)
  then have all: "sorted_wrt (<) (map tx_key (sort_key tx_key (user_transactions u db)))"
    by (simp add: strict_sorted_iff)
  then show "sorted_wrt (<) (map tx_key (rows_after u db c))"
    by (auto simp: rows_after_def sorted_wrt_map sorted_wrt_filter split: option.splits)
  show "credit_tx_row_ok r \<and> r \<in> set (credit_transactions db)" if "r \<in> set (rows_after u db c)"
    using that assms by (auto simp: rows_after_def user_transactions_def credit_violation_None split: option.splits)
qed

lemma list_transactions_rows:
  assumes "credit_violation db = None"
  shows "list_transactions u c limit db =
    Inr \<lparr>tlr_transactions = map item_of (take limit (rows_after u db c)), tlr_has_next = limit < length (rows_after u db c),
         tlr_total_count = length (user_transactions u db)\<rparr>"
proof -
  have sel: "sort_key tx_key (case c of None \<Rightarrow> user_transactions u db | Some k \<Rightarrow> filter (after_cursor k) (user_transactions u db))
      = rows_after u db c"
    by (simp add: rows_after_def ledger_pages.sort_filter split: option.splits)
  have "traverse transaction_to_list_item (take limit (rows_after u db c)) = Inr (map item_of (take limit (rows_after u db c)))"
    using rows_after_props(2) [OF assms] item_of_row(1) by (intro traverse_map) (meson in_set_takeD)
  moreover have "length (case c of None \<Rightarrow> user_transactions u db | Some k \<Rightarrow> filter (after_cursor k) (user_transactions u db))
      = length (rows_after u db c)" using sel by (metis length_sort)
  ultimately show ?thesis
    by (simp add: list_transactions_def Let_def sel min_def)
qed

lemma follow_pages_rows:
  assumes "credit_violation db = None" and "\<forall>r \<in> set (credit_transactions db). valid_instant (ctr_created_at r)"
    and "1 \<le> limit" and "length (rows_after u db c) < n" and "parse_cursor s = Inr c"
  shows "follow_pages n u limit db s = Inr (map item_of (rows_after u db c))"
  using assms(4,5)
proof (induction n arbitrary: s c)
  case (Suc n)
  let ?rows = "rows_after u db c"
  note page = list_transactions_rows [OF assms(1), of u c limit]
  show ?case
  proof (cases "limit < length ?rows")
    case False
    then show ?thesis using Suc.prems page by (simp add: list_credit_transactions_def)
  next
    case True
    obtain r where r: "r = last (take limit ?rows)" by simp
    have ne: "take limit ?rows \<noteq> []" using True assms(3) by auto
    then have mem: "r \<in> set ?rows" using r by (metis last_in_set in_set_takeD)
    note item = item_of_row [of r] rows_after_props(2) [OF assms(1) mem]
    have nx: "next_cursor (map item_of (take limit ?rows)) = Some (cursor_text (ctr_created_at r) (ctr_id r))"
      using ne item r by (simp add: next_cursor_def last_map)
    have cur: "parse_cursor (Some (cursor_text (ctr_created_at r) (ctr_id r))) = Inr (Some (tx_key r))"
      using parse_cursor_written assms(2) item by (simp add: tx_key_def)
    have "rows_after u db (Some (tx_key r)) = filter (after_cursor (tx_key r)) ?rows"
    proof (cases c)
      case (Some k)
      then have "k \<le> tx_key r" using mem by (simp add: rows_after_def ledger_pages.beyond_iff less_imp_le)
      note twice = ledger_pages.beyond_twice [OF this, of "sort_key tx_key (user_transactions u db)"]
      show ?thesis unfolding Some rows_after_def option.case by (rule twice [symmetric])
    qed (simp add: rows_after_def)
    also have "\<dots> = drop limit ?rows"
      using ledger_pages.rest_after_page [OF rows_after_props(1) [OF assms(1)] ne] r by simp
    finally have rest: "rows_after u db (Some (tx_key r)) = drop limit ?rows" .
    have "length (rows_after u db (Some (tx_key r))) < n" using rest Suc.prems(1) True assms(3) by simp
    note ih = Suc.IH [OF this cur]
    have "follow_pages (Suc n) u limit db s = Inr (map item_of (take limit ?rows) @ map item_of (drop limit ?rows))"
      using True Suc.prems(2) page ih by (simp add: list_credit_transactions_def nx rest)
    then show ?thesis by (simp add: map_append [symmetric] del: map_append)
  qed
qed simp

text \<open>A client that follows the cursors sees every ledger row of its user exactly once, in the order
  of creation, whatever the page size; the last page has no next cursor.\<close>

theorem follow_pages_complete:
  assumes "credit_violation db = None" and "\<forall>r \<in> set (credit_transactions db). valid_instant (ctr_created_at r)"
    and "1 \<le> limit"
  shows "follow_pages (Suc (length (user_transactions u db))) u limit db None =
    traverse transaction_to_list_item (sort_key tx_key (user_transactions u db))"
proof -
  have all: "rows_after u db None = sort_key tx_key (user_transactions u db)" by (simp add: rows_after_def)
  have "traverse transaction_to_list_item (rows_after u db None) = Inr (map item_of (rows_after u db None))"
    using rows_after_props(2) [OF assms(1)] item_of_row(1) by (intro traverse_map) blast
  then show ?thesis
    using follow_pages_rows [OF assms, of u None "Suc (length (user_transactions u db))" None]
    by (simp add: all parse_cursor_def)
qed

text \<open>A cursor that the listing wrote is read back as the key of the row it was written for.\<close>

theorem parse_cursor_round_trip:
  assumes "valid_instant t"
  shows "parse_cursor (Some (cursor_text t i)) = Inr (Some (t, i))"
  by (rule parse_cursor_written [OF assms])

theorem parse_cursor_round_trip_witness:
  "parse_cursor (Some (cursor_text (738000 * day_us + 1) 5)) = Inr (Some (738000 * day_us + 1, 5))"
  by (rule parse_cursor_round_trip) (simp add: valid_instant_def day_us_def)

definition sample_ledger :: credit_db where
  "sample_ledger = \<lparr>outbox_events = [], user_credits = [],
     credit_transactions = map (\<lambda>(i, t). \<lparr>ctr_id = i, ctr_user_id = 1, ctr_feature_key = ''ocr'',
       ctr_reason = ''ocrUsage'', ctr_action = ''use'', ctr_amount = 1, ctr_source_type = None, ctr_source_id = None,
       ctr_idempotency_key = None, ctr_created_at = t\<rparr>)
       [(4, 738000 * day_us), (2, 738001 * day_us), (3, 738000 * day_us)]\<rparr>"

theorem follow_pages_complete_witness:
  "map_sum id (map cti_transaction_id) (follow_pages 4 1 2 sample_ledger None) = Inr [3, 4, 2]"
proof -
  have v: "credit_violation sample_ledger = None"
    by (simp add: credit_violation_None sample_ledger_def idempotency_keys_def source_keys_def List.map_filter_simps
        source_key_def credit_tx_row_ok_def credit_tx_checks_def int4_def)
  have t: "\<forall>r \<in> set (credit_transactions sample_ledger). valid_instant (ctr_created_at r)"
    by (simp add: sample_ledger_def valid_instant_def day_us_def)
  have u: "sort_key tx_key (user_transactions 1 sample_ledger) = map (\<lambda>(i, t). \<lparr>ctr_id = i, ctr_user_id = 1, ctr_feature_key = ''ocr'',
       ctr_reason = ''ocrUsage'', ctr_action = ''use'', ctr_amount = 1, ctr_source_type = None, ctr_source_id = None,
       ctr_idempotency_key = None, ctr_created_at = t\<rparr>)
       [(3, 738000 * day_us), (4, 738000 * day_us), (2, 738001 * day_us)]"
    by (simp add: user_transactions_def sample_ledger_def tx_key_def day_us_def less_eq_prod_simp)
  have len: "length (user_transactions 1 sample_ledger) = 3" by (simp add: user_transactions_def sample_ledger_def)
  have "follow_pages 4 1 2 sample_ledger None =
      traverse transaction_to_list_item (sort_key tx_key (user_transactions 1 sample_ledger))"
    using follow_pages_complete [OF v t, of 2 1] unfolding len by simp
  then show ?thesis
    unfolding u by (simp add: transaction_to_list_item_def credit_reason_of_def credit_action_of_def mk_credit_amount_def del: follow_pages.simps)
qed

end
