(* ===== verification/Promotions.thy ===== *)
theory Promotions
  imports Credits_Properties "HOL-Library.Product_Lexorder"
begin

text \<open>
  The promotions module: \<open>app/modules/promotions/domain\<close> (promotions, codes and
  redemptions), the tables of \<open>infrastructure/persistence/orm.py\<close> with their constraints,
  the mapper and the repository.
\<close>

section \<open>Domain\<close>

datatype promotion_feature = PROMOTION_OCR
datatype promotion_context = RECHARGE | SIGNUP
datatype redemption_status = GRANTED | REJECTED | FAILED
datatype benefit_amount = BenefitAmount (benefit_value: int)

fun promotion_feature_value :: "promotion_feature \<Rightarrow> string" where
  "promotion_feature_value PROMOTION_OCR = ''ocr''"

fun promotion_context_value :: "promotion_context \<Rightarrow> string" where
  "promotion_context_value RECHARGE = ''recharge''"
| "promotion_context_value SIGNUP = ''signup''"

fun redemption_status_value :: "redemption_status \<Rightarrow> string" where
  "redemption_status_value GRANTED = ''granted''"
| "redemption_status_value REJECTED = ''rejected''"
| "redemption_status_value FAILED = ''failed''"

definition promotion_feature_of :: "string \<Rightarrow> promotion_feature option" where
  "promotion_feature_of s = find (\<lambda>m. promotion_feature_value m = s) [PROMOTION_OCR]"

definition promotion_context_of :: "string \<Rightarrow> promotion_context option" where
  "promotion_context_of s = find (\<lambda>m. promotion_context_value m = s) [RECHARGE, SIGNUP]"

definition redemption_status_of :: "string \<Rightarrow> redemption_status option" where
  "redemption_status_of s = find (\<lambda>m. redemption_status_value m = s) [GRANTED, REJECTED, FAILED]"

interpretation promo_context: str_enum promotion_context_value promotion_context_of
proof (rule str_enumI [OF promotion_context_of_def])
  fix m show "m \<in> set [RECHARGE, SIGNUP]" by (cases m) simp_all
  fix m n show "promotion_context_value m = promotion_context_value n \<Longrightarrow> m = n" by (cases m; cases n) simp_all
qed

interpretation redemption_state: str_enum redemption_status_value redemption_status_of
proof (rule str_enumI [OF redemption_status_of_def])
  fix m show "m \<in> set [GRANTED, REJECTED, FAILED]" by (cases m) simp_all
  fix m n show "redemption_status_value m = redemption_status_value n \<Longrightarrow> m = n" by (cases m; cases n) simp_all
qed

definition mk_benefit_amount :: "string \<Rightarrow> int \<Rightarrow> exn + benefit_amount" where
  "mk_benefit_amount field_name v =
     (if v < 1 then Inl (ValidationError [ErrorDetail field_name ''benefit_amount_positive'']) else Inr (BenefitAmount v))"

record promotion =
  pm_id :: uuid
  pm_name :: ustr
  pm_active :: bool
  pm_starts_at :: datetime
  pm_expires_at :: "datetime option"
  pm_max_redemptions :: "int option"
  pm_times_redeemed :: int
  pm_max_redemptions_per_user :: int
  pm_benefit_feature_key :: promotion_feature
  pm_context :: "promotion_context option"
  pm_benefit_amount :: benefit_amount

definition restore_promotion ::
    "uuid \<Rightarrow> ustr \<Rightarrow> bool \<Rightarrow> datetime \<Rightarrow> datetime option \<Rightarrow> int option \<Rightarrow> int \<Rightarrow> int \<Rightarrow> promotion_feature \<Rightarrow>
     promotion_context option \<Rightarrow> int \<Rightarrow> exn + promotion" where
  "restore_promotion i name active starts_at expires_at max_redemptions times_redeemed per_user feature ctx amount =
     bindE (mk_benefit_amount ''benefit_amount'' amount) (\<lambda>benefit.
     Inr \<lparr>pm_id = i, pm_name = name, pm_active = active, pm_starts_at = starts_at, pm_expires_at = expires_at,
          pm_max_redemptions = max_redemptions, pm_times_redeemed = times_redeemed,
          pm_max_redemptions_per_user = per_user, pm_benefit_feature_key = feature, pm_context = ctx,
          pm_benefit_amount = benefit\<rparr>)"

definition promotion_ensure_redeemable :: "datetime \<Rightarrow> promotion \<Rightarrow> exn + unit" where
  "promotion_ensure_redeemable at p =
     (if \<not> pm_active p then Inl (PromotionRedemptionConflictError ''promotion_inactive'')
      else if pm_starts_at p > at then Inl (PromotionRedemptionConflictError ''promotion_not_started'')
      else if (\<exists>e \<in> set_option (pm_expires_at p). e \<le> at) then Inl (PromotionRedemptionConflictError ''promotion_expired'')
      else if (\<exists>m \<in> set_option (pm_max_redemptions p). pm_times_redeemed p \<ge> m)
      then Inl (PromotionRedemptionConflictError ''promotion_exhausted'')
      else Inr ())"

definition ensure_user_can_redeem :: "int \<Rightarrow> promotion \<Rightarrow> exn + unit" where
  "ensure_user_can_redeem user_redemption_count p =
     (if user_redemption_count \<ge> pm_max_redemptions_per_user p
      then Inl (PromotionRedemptionConflictError ''promotion_already_used'') else Inr ())"

definition promotion_record_redemption :: "promotion \<Rightarrow> promotion" where
  "promotion_record_redemption p = p\<lparr>pm_times_redeemed := pm_times_redeemed p + 1\<rparr>"

record promotion_content =
  pcn_id :: uuid
  pcn_promotion_id :: uuid
  pcn_banner_image_url :: "ustr option"

record promotion_code =
  pc_id :: uuid
  pc_promotion_id :: uuid
  pc_code :: ustr
  pc_active :: bool
  pc_starts_at :: "datetime option"
  pc_expires_at :: "datetime option"
  pc_max_redemptions :: "int option"
  pc_times_redeemed :: int

definition code_ensure_redeemable :: "datetime \<Rightarrow> promotion_code \<Rightarrow> exn + unit" where
  "code_ensure_redeemable at c =
     (if \<not> pc_active c then Inl (PromotionRedemptionConflictError ''code_inactive'')
      else if (\<exists>t \<in> set_option (pc_starts_at c). t > at) then Inl (PromotionRedemptionConflictError ''code_not_started'')
      else if (\<exists>e \<in> set_option (pc_expires_at c). e \<le> at) then Inl (PromotionRedemptionConflictError ''code_expired'')
      else if (\<exists>m \<in> set_option (pc_max_redemptions c). pc_times_redeemed c \<ge> m)
      then Inl (PromotionRedemptionConflictError ''code_exhausted'')
      else Inr ())"

definition code_record_redemption :: "promotion_code \<Rightarrow> promotion_code" where
  "code_record_redemption c = c\<lparr>pc_times_redeemed := pc_times_redeemed c + 1\<rparr>"

record promotion_redemption = "domain_event aggregate_root" +
  rd_id :: uuid
  rd_promotion_id :: uuid
  rd_promotion_code_id :: "uuid option"
  rd_user_id :: uuid
  rd_beneficiary_key :: "ustr option"
  rd_status :: redemption_status
  rd_idempotency_key :: ustr
  rd_failure_reason :: "ustr option"
  rd_redeemed_at :: "datetime option"

definition create_granted ::
    "uuid \<Rightarrow> uuid \<Rightarrow> datetime \<Rightarrow> uuid \<Rightarrow> uuid option \<Rightarrow> uuid \<Rightarrow> ustr option \<Rightarrow> ustr \<Rightarrow> datetime \<Rightarrow> int \<Rightarrow>
     promotion_redemption" where
  "create_granted redemption_id event_id event_at promotion_id code_id user_id beneficiary key redeemed_at amount =
     record_event
       (new_event event_id event_at (PromotionRedemptionGranted redemption_id promotion_id user_id code_id amount key))
       \<lparr>pending_events = [], rd_id = redemption_id, rd_promotion_id = promotion_id, rd_promotion_code_id = code_id,
        rd_user_id = user_id, rd_beneficiary_key = beneficiary, rd_status = GRANTED, rd_idempotency_key = key,
        rd_failure_reason = None, rd_redeemed_at = Some redeemed_at\<rparr>"

section \<open>Limited offers\<close>

text \<open>
  A promotion and a code are both offers with a window and a limit: what lets a redemption
  through leaves room for it, and a redemption takes one.
\<close>

locale limited_offer =
  fixes ensure :: "datetime \<Rightarrow> 'o \<Rightarrow> exn + unit" and taken :: "'o \<Rightarrow> 'o" and times :: "'o \<Rightarrow> int"
    and limit :: "'o \<Rightarrow> int option"
  assumes ensure_limit: "ensure at p = Inr () \<Longrightarrow> limit p = Some m \<Longrightarrow> times p < m"
    and times_taken: "times (taken p) = times p + 1"
    and limit_taken: "limit (taken p) = limit p"
begin

lemma limit_kept:
  assumes "ensure at p = Inr ()"
  shows "limit (taken p) = Some m \<Longrightarrow> times (taken p) \<le> m"
  using ensure_limit [OF assms] by (auto simp: times_taken limit_taken)

lemma exhausted_raises: "limit p = Some m \<Longrightarrow> m \<le> times p \<Longrightarrow> \<exists>e. ensure at p = Inl e"
  using ensure_limit [of at p] by (cases "ensure at p") auto

text \<open>At most \<open>m\<close> redemptions in a row are let through.\<close>

lemma taken_often: "times ((taken ^^ n) p) = times p + int n \<and> limit ((taken ^^ n) p) = limit p"
  by (induction n) (simp_all add: times_taken limit_taken)

lemma never_beyond:
  assumes "limit p = Some m" and "m \<le> times p + int n"
  shows "\<exists>e. ensure at ((taken ^^ n) p) = Inl e"
  using exhausted_raises [of "(taken ^^ n) p" m at] assms taken_often [of n p] by auto

end

interpretation promotion_offer: limited_offer promotion_ensure_redeemable promotion_record_redemption
    pm_times_redeemed pm_max_redemptions
  by unfold_locales (auto simp: promotion_ensure_redeemable_def promotion_record_redemption_def split: if_splits)

interpretation code_offer: limited_offer code_ensure_redeemable code_record_redemption
    pc_times_redeemed pc_max_redemptions
  by unfold_locales (auto simp: code_ensure_redeemable_def code_record_redemption_def split: if_splits)

lemma promotion_redeemable_iff:
  "promotion_ensure_redeemable at p = Inr () \<longleftrightarrow>
     pm_active p \<and> pm_starts_at p \<le> at \<and> (\<forall>e. pm_expires_at p = Some e \<longrightarrow> at < e) \<and>
     (\<forall>m. pm_max_redemptions p = Some m \<longrightarrow> pm_times_redeemed p < m)"
  by (auto simp: promotion_ensure_redeemable_def not_le not_less)

lemma code_redeemable_iff:
  "code_ensure_redeemable at c = Inr () \<longleftrightarrow>
     pc_active c \<and> (\<forall>t. pc_starts_at c = Some t \<longrightarrow> t \<le> at) \<and> (\<forall>e. pc_expires_at c = Some e \<longrightarrow> at < e) \<and>
     (\<forall>m. pc_max_redemptions c = Some m \<longrightarrow> pc_times_redeemed c < m)"
  by (auto simp: code_ensure_redeemable_def not_le not_less)

section \<open>Tables\<close>

text \<open>\<open>promotions\<close>, \<open>promotion_contents\<close>, \<open>promotion_codes\<close> and \<open>promotion_redemptions\<close>.\<close>

record promotion_row =
  pr_id :: uuid
  pr_name :: ustr
  pr_active :: bool
  pr_starts_at :: datetime
  pr_expires_at :: "datetime option"
  pr_max_redemptions :: "int option"
  pr_times_redeemed :: int
  pr_max_redemptions_per_user :: int
  pr_benefit_feature_key :: string
  pr_context :: "string option"
  pr_benefit_amount :: int

record redemption_row =
  rr_id :: uuid
  rr_promotion_id :: uuid
  rr_promotion_code_id :: "uuid option"
  rr_user_id :: uuid
  rr_beneficiary_key :: "ustr option"
  rr_status :: string
  rr_idempotency_key :: ustr
  rr_failure_reason :: "ustr option"
  rr_redeemed_at :: "datetime option"

record promotion_db = credit_db +
  promotions :: "promotion_row list"
  promotion_contents :: "promotion_content list"
  promotion_codes :: "promotion_code list"
  promotion_redemptions :: "redemption_row list"

definition promotion_row_checks :: "promotion_row \<Rightarrow> (bool \<times> exn) list" where
  "promotion_row_checks r =
     [(length (pr_name r) \<le> 255 \<and> int4 (pr_times_redeemed r) \<and> int4 (pr_max_redemptions_per_user r) \<and>
       int4 (pr_benefit_amount r) \<and> (\<forall>m \<in> set_option (pr_max_redemptions r). int4 m), DataError),
      (pr_benefit_feature_key r = ''ocr'', IntegrityError ''ck_promotions_benefit_feature_key_allowed''),
      (pr_context r \<in> {None, Some ''recharge'', Some ''signup''}, IntegrityError ''ck_promotions_context_allowed''),
      (pr_benefit_amount r > 0, IntegrityError ''ck_promotions_benefit_amount_positive''),
      (\<forall>m \<in> set_option (pr_max_redemptions r). m > 0, IntegrityError ''ck_promotions_max_redemptions_positive''),
      (pr_times_redeemed r \<ge> 0, IntegrityError ''ck_promotions_times_redeemed_non_negative''),
      (pr_max_redemptions_per_user r > 0, IntegrityError ''ck_promotions_max_redemptions_per_user_positive'')]"

definition promotion_code_checks :: "promotion_code \<Rightarrow> (bool \<times> exn) list" where
  "promotion_code_checks c =
     [(length (pc_code c) \<le> 100 \<and> int4 (pc_times_redeemed c) \<and> (\<forall>m \<in> set_option (pc_max_redemptions c). int4 m), DataError),
      (\<forall>m \<in> set_option (pc_max_redemptions c). m > 0, IntegrityError ''ck_promotion_codes_max_redemptions_positive''),
      (pc_times_redeemed c \<ge> 0, IntegrityError ''ck_promotion_codes_times_redeemed_non_negative'')]"

definition redemption_row_checks :: "redemption_row \<Rightarrow> (bool \<times> exn) list" where
  "redemption_row_checks r =
     [(length (rr_idempotency_key r) \<le> 255 \<and> (\<forall>k \<in> set_option (rr_beneficiary_key r). length k \<le> 80) \<and>
       (\<forall>k \<in> set_option (rr_failure_reason r). length k \<le> 255), DataError),
      (rr_status r \<in> {''granted'', ''rejected'', ''failed''}, IntegrityError ''ck_promotion_redemptions_status_allowed'')]"

text \<open>The keys of the partial unique indexes of \<open>promotions\<close> and \<open>promotion_redemptions\<close>.\<close>

definition context_start_key :: "promotion_row \<Rightarrow> (string \<times> string \<times> datetime) option" where
  "context_start_key r = map_option (\<lambda>c. (pr_benefit_feature_key r, c, pr_starts_at r)) (pr_context r)"

definition beneficiary_key_of :: "redemption_row \<Rightarrow> (uuid \<times> ustr) option" where
  "beneficiary_key_of r = map_option (\<lambda>k. (rr_promotion_id r, k)) (rr_beneficiary_key r)"

text \<open>
  The constraints of the promotion tables; \<open>lower\<close> is \<open>lower()\<close> of the unique index on codes.
\<close>

definition promotion_checks :: "(ustr \<Rightarrow> ustr) \<Rightarrow> 'z promotion_db_scheme \<Rightarrow> (bool \<times> exn) list" where
  "promotion_checks lower db =
     concat (map promotion_row_checks (promotions db)) @
     [(distinct (map pr_id (promotions db)), IntegrityError ''pk_promotions''),
      (distinct (List.map_filter context_start_key (promotions db)),
       IntegrityError ''uq_promotions_benefit_context_starts_at''),
      (distinct (map pcn_promotion_id (promotion_contents db)), IntegrityError ''uq_promotion_contents_promotion_id'')] @
     concat (map promotion_code_checks (promotion_codes db)) @
     [(distinct (map pc_id (promotion_codes db)), IntegrityError ''pk_promotion_codes''),
      (distinct (map (lower \<circ> pc_code) (promotion_codes db)), IntegrityError ''ix_promotion_codes_code_unique'')] @
     concat (map redemption_row_checks (promotion_redemptions db)) @
     [(distinct (map rr_id (promotion_redemptions db)), IntegrityError ''pk_promotion_redemptions''),
      (distinct (map rr_idempotency_key (promotion_redemptions db)),
       IntegrityError ''uq_promotion_redemptions_idempotency_key''),
      (distinct (List.map_filter beneficiary_key_of (promotion_redemptions db)),
       IntegrityError ''uq_promotion_redemptions_promotion_beneficiary''),
      (rr_promotion_id ` set (promotion_redemptions db) \<subseteq> pr_id ` set (promotions db),
       IntegrityError ''fk_promotion_redemptions_promotion_id_promotions'')]"

definition promotion_violation :: "(ustr \<Rightarrow> ustr) \<Rightarrow> 'z promotion_db_scheme \<Rightarrow> exn option" where
  "promotion_violation lower db = first_violation (promotion_checks lower db @ credit_checks db)"

lemma promotion_violation_None:
  "promotion_violation lower db = None \<longleftrightarrow>
     (\<forall>(ok, e) \<in> set (promotion_checks lower db). ok) \<and> credit_violation db = None"
  by (auto simp: promotion_violation_def credit_violation_def first_violation_None)

end
