(* ===== verification/Promotions_Repository.thy ===== *)
theory Promotions_Repository
  imports Promotions
begin

text \<open>
  The promotion repository: \<open>app/modules/promotions/infrastructure/persistence/mapper.py\<close>
  and \<open>repository.py\<close>, as actions on a session over any database with the promotion tables.
\<close>

section \<open>Mapper\<close>

definition promotion_to_domain :: "promotion_row \<Rightarrow> exn + promotion" where
  "promotion_to_domain r =
     (case promotion_feature_of (pr_benefit_feature_key r) of
        None \<Rightarrow> Inl PyValueError
      | Some feature \<Rightarrow>
          bindE (case pr_context r of
                   None \<Rightarrow> Inr None
                 | Some c \<Rightarrow> (case promotion_context_of c of None \<Rightarrow> Inl PyValueError | Some ctx \<Rightarrow> Inr (Some ctx))) (\<lambda>ctx.
          restore_promotion (pr_id r) (pr_name r) (pr_active r) (pr_starts_at r) (pr_expires_at r)
            (pr_max_redemptions r) (pr_times_redeemed r) (pr_max_redemptions_per_user r) feature ctx
            (pr_benefit_amount r)))"

definition redemption_to_domain :: "redemption_row \<Rightarrow> exn + promotion_redemption" where
  "redemption_to_domain r =
     (case redemption_status_of (rr_status r) of
        None \<Rightarrow> Inl PyValueError
      | Some status \<Rightarrow>
          Inr \<lparr>pending_events = [], rd_id = rr_id r, rd_promotion_id = rr_promotion_id r,
               rd_promotion_code_id = rr_promotion_code_id r, rd_user_id = rr_user_id r,
               rd_beneficiary_key = rr_beneficiary_key r, rd_status = status,
               rd_idempotency_key = rr_idempotency_key r, rd_failure_reason = rr_failure_reason r,
               rd_redeemed_at = rr_redeemed_at r\<rparr>)"

definition redemption_to_record :: "promotion_redemption \<Rightarrow> redemption_row" where
  "redemption_to_record rd =
     \<lparr>rr_id = rd_id rd, rr_promotion_id = rd_promotion_id rd, rr_promotion_code_id = rd_promotion_code_id rd,
      rr_user_id = rd_user_id rd, rr_beneficiary_key = rd_beneficiary_key rd,
      rr_status = redemption_status_value (rd_status rd), rr_idempotency_key = rd_idempotency_key rd,
      rr_failure_reason = rd_failure_reason rd, rr_redeemed_at = rd_redeemed_at rd\<rparr>"

definition promotion_to_record :: "promotion \<Rightarrow> promotion_row" where
  "promotion_to_record p =
     \<lparr>pr_id = pm_id p, pr_name = pm_name p, pr_active = pm_active p, pr_starts_at = pm_starts_at p,
      pr_expires_at = pm_expires_at p, pr_max_redemptions = pm_max_redemptions p,
      pr_times_redeemed = pm_times_redeemed p, pr_max_redemptions_per_user = pm_max_redemptions_per_user p,
      pr_benefit_feature_key = promotion_feature_value (pm_benefit_feature_key p),
      pr_context = map_option promotion_context_value (pm_context p),
      pr_benefit_amount = benefit_value (pm_benefit_amount p)\<rparr>"

definition map_result :: "('a \<Rightarrow> exn + 'b) \<Rightarrow> 'a option \<Rightarrow> exn + 'b option" where
  "map_result f x = (case x of None \<Rightarrow> Inr None | Some v \<Rightarrow> bindE (f v) (\<lambda>w. Inr (Some w)))"

section \<open>Queries\<close>

type_synonym ('z, 'a) promotion_action_on = "('z promotion_db_scheme session, exn, 'a) action"

text \<open>
  The current promotion of a context (or of none): active, in its window, not exhausted; the
  latest start wins, then the larger id.
\<close>

definition is_current :: "datetime \<Rightarrow> string option \<Rightarrow> promotion_row \<Rightarrow> bool" where
  "is_current at ctx r \<longleftrightarrow>
     pr_active r \<and> pr_benefit_feature_key r = ''ocr'' \<and> pr_starts_at r \<le> at \<and>
     (case pr_expires_at r of None \<Rightarrow> True | Some e \<Rightarrow> e > at) \<and>
     (case pr_max_redemptions r of None \<Rightarrow> True | Some m \<Rightarrow> pr_times_redeemed r < m) \<and>
     pr_context r = ctx"

definition current_promotion :: "datetime \<Rightarrow> string option \<Rightarrow> 'z promotion_db_scheme \<Rightarrow> promotion_row option" where
  "current_promotion at ctx db =
     (case rev (sort_key (\<lambda>r. (pr_starts_at r, pr_id r)) (filter (is_current at ctx) (promotions db))) of
        [] \<Rightarrow> None | r # _ \<Rightarrow> Some r)"

definition find_current_ocr_credit_promotion ::
    "datetime \<Rightarrow> promotion_context option \<Rightarrow> ('z, promotion option) promotion_action_on" where
  "find_current_ocr_credit_promotion at ctx =
     bindA (query_session (current_promotion at (map_option promotion_context_value ctx))) (\<lambda>r.
     liftE (map_result promotion_to_domain r))"

definition find_current_ocr_credit_promotion_for_update ::
    "('z promotion_db_scheme \<Rightarrow> 'z promotion_db_scheme) \<Rightarrow> datetime \<Rightarrow> promotion_context \<Rightarrow>
     ('z, promotion option) promotion_action_on" where
  "find_current_ocr_credit_promotion_for_update rival at ctx =
     bindA (interfere rival) (\<lambda>_.
     bindA (query_session (current_promotion at (Some (promotion_context_value ctx)))) (\<lambda>r.
     liftE (map_result promotion_to_domain r)))"

definition find_content_by_promotion_id :: "uuid \<Rightarrow> ('z, promotion_content option) promotion_action_on" where
  "find_content_by_promotion_id promotion_id =
     query_session (\<lambda>db. find (\<lambda>c. pcn_promotion_id c = promotion_id) (promotion_contents db))"

definition find_promotion_for_update ::
    "('z promotion_db_scheme \<Rightarrow> 'z promotion_db_scheme) \<Rightarrow> uuid \<Rightarrow> ('z, promotion option) promotion_action_on" where
  "find_promotion_for_update rival promotion_id =
     bindA (interfere rival) (\<lambda>_.
     bindA (query_session (\<lambda>db. find (\<lambda>r. pr_id r = promotion_id) (promotions db))) (\<lambda>r.
     liftE (map_result promotion_to_domain r)))"

definition find_promotion_by_context_start_for_update ::
    "('z promotion_db_scheme \<Rightarrow> 'z promotion_db_scheme) \<Rightarrow> promotion_feature \<Rightarrow> promotion_context \<Rightarrow> datetime \<Rightarrow>
     ('z, promotion option) promotion_action_on" where
  "find_promotion_by_context_start_for_update rival feature ctx starts_at =
     bindA (interfere rival) (\<lambda>_.
     bindA (query_session (\<lambda>db. find (\<lambda>r. context_start_key r =
       Some (promotion_feature_value feature, promotion_context_value ctx, starts_at)) (promotions db))) (\<lambda>r.
     liftE (map_result promotion_to_domain r)))"

definition find_code_by_code_for_update ::
    "(ustr \<Rightarrow> ustr) \<Rightarrow> ('z promotion_db_scheme \<Rightarrow> 'z promotion_db_scheme) \<Rightarrow> ustr \<Rightarrow>
     ('z, promotion_code option) promotion_action_on" where
  "find_code_by_code_for_update lower rival code =
     bindA (interfere rival) (\<lambda>_.
     query_session (\<lambda>db. find (\<lambda>c. lower (pc_code c) = lower code) (promotion_codes db)))"

definition find_redemption_by_idempotency_key :: "ustr \<Rightarrow> ('z, promotion_redemption option) promotion_action_on" where
  "find_redemption_by_idempotency_key k =
     bindA (query_session (\<lambda>db. find (\<lambda>r. rr_idempotency_key r = k) (promotion_redemptions db))) (\<lambda>r.
     liftE (map_result redemption_to_domain r))"

definition find_redemption_by_user_and_promotion :: "uuid \<Rightarrow> uuid \<Rightarrow> ('z, promotion_redemption option) promotion_action_on" where
  "find_redemption_by_user_and_promotion user_id promotion_id =
     bindA (query_session (\<lambda>db. find (\<lambda>r. rr_user_id r = user_id \<and> rr_promotion_id r = promotion_id)
              (promotion_redemptions db))) (\<lambda>r.
     liftE (map_result redemption_to_domain r))"

definition find_redemption_by_promotion_and_beneficiary ::
    "uuid \<Rightarrow> ustr \<Rightarrow> ('z, promotion_redemption option) promotion_action_on" where
  "find_redemption_by_promotion_and_beneficiary promotion_id key =
     bindA (query_session (\<lambda>db. find (\<lambda>r. rr_promotion_id r = promotion_id \<and> rr_beneficiary_key r = Some key)
              (promotion_redemptions db))) (\<lambda>r.
     liftE (map_result redemption_to_domain r))"

definition user_redemptions :: "uuid \<Rightarrow> uuid \<Rightarrow> 'z promotion_db_scheme \<Rightarrow> redemption_row list" where
  "user_redemptions user_id promotion_id db =
     filter (\<lambda>r. rr_user_id r = user_id \<and> rr_promotion_id r = promotion_id \<and> rr_status r = ''granted'')
       (promotion_redemptions db)"

definition count_user_redemptions :: "uuid \<Rightarrow> uuid \<Rightarrow> ('z, int) promotion_action_on" where
  "count_user_redemptions user_id promotion_id =
     query_session (\<lambda>db. int (length (user_redemptions user_id promotion_id db)))"

section \<open>Writes\<close>

definition create_redemption :: "(ustr \<Rightarrow> ustr) \<Rightarrow> promotion_redemption \<Rightarrow> ('z, unit) promotion_action_on" where
  "create_redemption lower rd =
     bindA (write_session (\<lambda>db. db\<lparr>promotion_redemptions := promotion_redemptions db @ [redemption_to_record rd]\<rparr>)) (\<lambda>_.
     flush_session (promotion_violation lower))"

definition create_promotion :: "(ustr \<Rightarrow> ustr) \<Rightarrow> promotion \<Rightarrow> ('z, unit) promotion_action_on" where
  "create_promotion lower p =
     bindA (write_session (\<lambda>db. db\<lparr>promotions := promotions db @ [promotion_to_record p]\<rparr>)) (\<lambda>_.
     flush_session (promotion_violation lower))"

definition put_promotion :: "promotion \<Rightarrow> 'z promotion_db_scheme \<Rightarrow> 'z promotion_db_scheme" where
  "put_promotion p db =
     db\<lparr>promotions := update_rows (\<lambda>r. pr_id r = pm_id p) (\<lambda>_. promotion_to_record p) (promotions db)\<rparr>"

definition save_promotion :: "(ustr \<Rightarrow> ustr) \<Rightarrow> promotion \<Rightarrow> ('z, unit) promotion_action_on" where
  "save_promotion lower p =
     bindA (query_session (\<lambda>db. find (\<lambda>r. pr_id r = pm_id p) (promotions db))) (\<lambda>record.
     case record of
       None \<Rightarrow> returnA ()
     | Some _ \<Rightarrow> bindA (write_session (put_promotion p)) (\<lambda>_. flush_session (promotion_violation lower)))"

definition put_code :: "promotion_code \<Rightarrow> 'z promotion_db_scheme \<Rightarrow> 'z promotion_db_scheme" where
  "put_code c db =
     db\<lparr>promotion_codes := update_rows (\<lambda>r. pc_id r = pc_id c) (\<lambda>r. r\<lparr>pc_times_redeemed := pc_times_redeemed c\<rparr>)
          (promotion_codes db)\<rparr>"

definition save_code :: "(ustr \<Rightarrow> ustr) \<Rightarrow> promotion_code \<Rightarrow> ('z, unit) promotion_action_on" where
  "save_code lower c =
     bindA (query_session (\<lambda>db. find (\<lambda>r. pc_id r = pc_id c) (promotion_codes db))) (\<lambda>record.
     case record of
       None \<Rightarrow> returnA ()
     | Some _ \<Rightarrow> bindA (write_session (put_code c)) (\<lambda>_. flush_session (promotion_violation lower)))"

section \<open>Rows and domain objects\<close>

lemma promotion_row_of_valid:
  assumes "promotion_violation lower db = None" and "r \<in> set (promotions db)"
  shows "\<forall>(ok, e) \<in> set (promotion_row_checks r). ok"
  using assms unfolding promotion_violation_None promotion_checks_def by auto

definition domain_promotion :: "promotion_row \<Rightarrow> promotion" where
  "domain_promotion r =
     \<lparr>pm_id = pr_id r, pm_name = pr_name r, pm_active = pr_active r, pm_starts_at = pr_starts_at r,
      pm_expires_at = pr_expires_at r, pm_max_redemptions = pr_max_redemptions r,
      pm_times_redeemed = pr_times_redeemed r, pm_max_redemptions_per_user = pr_max_redemptions_per_user r,
      pm_benefit_feature_key = PROMOTION_OCR, pm_context = Option.bind (pr_context r) promotion_context_of,
      pm_benefit_amount = BenefitAmount (pr_benefit_amount r)\<rparr>"

lemma promotion_to_domain_valid:
  assumes "\<forall>(ok, e) \<in> set (promotion_row_checks r). ok"
  shows "promotion_to_domain r = Inr (domain_promotion r)"
  using assms
  by (auto simp: promotion_row_checks_def promotion_to_domain_def promotion_feature_of_def promotion_context_of_def
      restore_promotion_def mk_benefit_amount_def domain_promotion_def split: option.splits)

lemma promotion_round_trip:
  assumes "\<forall>(ok, e) \<in> set (promotion_row_checks r). ok"
  shows "promotion_to_record (domain_promotion r) = r"
  using assms
  by (cases r) (auto simp: promotion_row_checks_def promotion_to_record_def domain_promotion_def promotion_context_of_def)

lemma domain_promotion_simps [simp]:
  "pm_id (domain_promotion r) = pr_id r" "pm_max_redemptions (domain_promotion r) = pr_max_redemptions r"
  "pm_times_redeemed (domain_promotion r) = pr_times_redeemed r"
  "pm_max_redemptions_per_user (domain_promotion r) = pr_max_redemptions_per_user r"
  "benefit_value (pm_benefit_amount (domain_promotion r)) = pr_benefit_amount r"
  "pm_active (domain_promotion r) = pr_active r" "pm_starts_at (domain_promotion r) = pr_starts_at r"
  "pm_expires_at (domain_promotion r) = pr_expires_at r"
  by (simp_all add: domain_promotion_def)

lemma current_promotion_found:
  assumes "current_promotion at ctx db = Some r"
  shows "promotion_ensure_redeemable at (domain_promotion r) = Inr () \<and> r \<in> set (promotions db) \<and> pr_context r = ctx"
proof -
  have "r \<in> set (rev (sort_key (\<lambda>r. (pr_starts_at r, pr_id r)) (filter (is_current at ctx) (promotions db))))"
    using assms unfolding current_promotion_def
    by (cases "rev (sort_key (\<lambda>r. (pr_starts_at r, pr_id r)) (filter (is_current at ctx) (promotions db)))")
      (simp_all del: set_rev)
  then have "r \<in> set (promotions db)" and "is_current at ctx r" by simp_all
  then show ?thesis
    by (auto simp: promotion_redeemable_iff is_current_def split: option.splits)
qed

text \<open>What the query for the current promotion selects is redeemable: the query and the domain
  rule agree, so the use cases that check again never refuse what they were offered.\<close>

theorem current_promotion_redeemable:
  "current_promotion at ctx db = Some r \<Longrightarrow>
   promotion_ensure_redeemable at (domain_promotion r) = Inr () \<and> r \<in> set (promotions db) \<and> pr_context r = ctx"
  by (rule current_promotion_found)

end
