(* ===== verification/Promotions_Commands.thy ===== *)
theory Promotions_Commands
  imports Promotions_Repository
begin

text \<open>
  The commands and queries of \<open>app/modules/promotions/application\<close>: the redemption executor,
  redemption by promotion id, by code and at signup, the current promotion of a user, and the
  credit port of \<open>app/modules/promotions/dependencies.py\<close>.
\<close>

section \<open>The credit port\<close>

record credit_grant =
  cg_user_id :: uuid
  cg_amount :: int
  cg_redemption_id :: uuid
  cg_idempotency_key :: ustr

record credit_grant_result =
  cgr_credit_balance_after :: "int option"
  cgr_credit_remaining_after :: "int option"

type_synonym 'z grant_port = "credit_grant \<Rightarrow> ('z, credit_grant_result) promotion_action_on"
type_synonym 'z balance_port = "uuid \<Rightarrow> ('z, int \<times> int) promotion_action_on"

text \<open>
  \<open>CreditsPromotionCreditGrantPort\<close>: the credits module's grant in the caller's session, its
  commit deferred to the caller and its rollback the session's.
\<close>

definition grant_ocr_credit :: "'z promotion_db_scheme credit_env \<Rightarrow> 'z grant_port" where
  "grant_ocr_credit env g =
     bindA (liftE (mk_credit_amount ''amount'' (cg_amount g))) (\<lambda>amount.
     bindA (liftE (mk_grant_command (cg_user_id g) amount EVENT_OCR_ALLOWANCE (Some PROMOTION_REDEMPTION)
                     (Some (cg_redemption_id g)) (Some (cg_idempotency_key g)))) (\<lambda>cmd.
     bindA (grant_credit deferred_commit (deferred_rollback (Some rollback_session)) env cmd) (\<lambda>res.
     returnA \<lparr>cgr_credit_balance_after = Some (gr_total_granted_count res),
              cgr_credit_remaining_after = Some (gr_remaining_count res)\<rparr>)))"

definition get_ocr_credit_balance :: "'z balance_port" where
  "get_ocr_credit_balance user_id =
     bindA (get_balance user_id) (\<lambda>b. returnA (total_granted_count b, remaining_count b))"

section \<open>The redemption executor\<close>

text \<open>What a redemption takes from its surroundings, as for the credit commands.\<close>

record 'db promotion_env =
  pe_now :: datetime
  pe_redemption_id :: uuid
  pe_event_id :: uuid
  pe_event_at :: datetime
  pe_rival_code :: "'db \<Rightarrow> 'db"
  pe_rival_lock :: "'db \<Rightarrow> 'db"
  pe_rival_replay :: "'db \<Rightarrow> 'db"

record redemption_result =
  rs_redemption_id :: uuid
  rs_promotion_id :: uuid
  rs_promotion_code_id :: "uuid option"
  rs_status :: redemption_status
  rs_already_redeemed :: bool
  rs_credit_granted :: bool
  rs_benefit_amount :: int
  rs_remaining_redemptions :: "int option"
  rs_credit_balance_after :: "int option"
  rs_credit_remaining_after :: "int option"
  rs_banner_image_url :: "ustr option"

definition remaining_redemptions :: "promotion \<Rightarrow> int option" where
  "remaining_redemptions p = map_option (\<lambda>m. max (m - pm_times_redeemed p) 0) (pm_max_redemptions p)"

definition banner_image_url :: "promotion_content option \<Rightarrow> ustr option" where
  "banner_image_url content = Option.bind content pcn_banner_image_url"

definition redemption_result_of ::
    "promotion_redemption \<Rightarrow> promotion \<Rightarrow> ustr option \<Rightarrow> bool \<Rightarrow> bool \<Rightarrow> int option \<Rightarrow> int option \<Rightarrow> redemption_result" where
  "redemption_result_of rd p banner already granted balance_after remaining_after =
     \<lparr>rs_redemption_id = rd_id rd, rs_promotion_id = rd_promotion_id rd, rs_promotion_code_id = rd_promotion_code_id rd,
      rs_status = rd_status rd, rs_already_redeemed = already, rs_credit_granted = granted,
      rs_benefit_amount = benefit_value (pm_benefit_amount p), rs_remaining_redemptions = remaining_redemptions p,
      rs_credit_balance_after = balance_after, rs_credit_remaining_after = remaining_after,
      rs_banner_image_url = banner\<rparr>"

definition replay_if_existing ::
    "'z balance_port \<Rightarrow> 'z promotion_db_scheme promotion_env \<Rightarrow> uuid \<Rightarrow> ustr \<Rightarrow>
     ('z, redemption_result option) promotion_action_on" where
  "replay_if_existing balance_port env user_id key =
     bindA (find_redemption_by_idempotency_key key) (\<lambda>existing.
     case existing of
       None \<Rightarrow> returnA None
     | Some rd \<Rightarrow>
         bindA (find_promotion_for_update (pe_rival_replay env) (rd_promotion_id rd)) (\<lambda>promotion.
         case promotion of
           None \<Rightarrow> raiseA PromotionNotFoundError
         | Some p \<Rightarrow>
             bindA (balance_port user_id) (\<lambda>balance.
             bindA (find_content_by_promotion_id (pm_id p)) (\<lambda>content.
             returnA (Some (redemption_result_of rd p (banner_image_url content) True False
               (Some (fst balance)) (Some (snd balance))))))))"

definition redeem ::
    "(ustr \<Rightarrow> ustr) \<Rightarrow> ('z, unit) promotion_action_on \<Rightarrow> 'z grant_port \<Rightarrow> 'z promotion_db_scheme promotion_env \<Rightarrow>
     uuid \<Rightarrow> promotion \<Rightarrow> promotion_code option \<Rightarrow> ustr \<Rightarrow> ('z, redemption_result) promotion_action_on" where
  "redeem lower uow_commit grant_port env user_id p code key =
     bindA (liftE (case code of None \<Rightarrow> Inr () | Some c \<Rightarrow> code_ensure_redeemable (pe_now env) c)) (\<lambda>_.
     bindA (liftE (promotion_ensure_redeemable (pe_now env) p)) (\<lambda>_.
     bindA (count_user_redemptions user_id (pm_id p)) (\<lambda>n.
     bindA (liftE (ensure_user_can_redeem n p)) (\<lambda>_.
     let rd = create_granted (pe_redemption_id env) (pe_event_id env) (pe_event_at env) (pm_id p)
                (map_option pc_id code) user_id None key (pe_now env) (benefit_value (pm_benefit_amount p));
         p' = promotion_record_redemption p
     in
     bindA (create_redemption lower rd) (\<lambda>_.
     bindA (save_promotion lower p') (\<lambda>_.
     bindA (case code of None \<Rightarrow> returnA () | Some c \<Rightarrow> save_code lower (code_record_redemption c)) (\<lambda>_.
     bindA (publish build_promotions_event_registry (fst (pull_events rd))) (\<lambda>_.
     bindA (grant_port \<lparr>cg_user_id = rd_user_id rd, cg_amount = benefit_value (pm_benefit_amount p'),
                       cg_redemption_id = rd_id rd, cg_idempotency_key = key\<rparr>) (\<lambda>g.
     bindA uow_commit (\<lambda>_.
     bindA (find_content_by_promotion_id (pm_id p')) (\<lambda>content.
     returnA (redemption_result_of rd p' (banner_image_url content) False True
       (cgr_credit_balance_after g) (cgr_credit_remaining_after g)))))))))))))"

section \<open>Use cases\<close>

definition redemption_idempotency_key :: "uuid \<Rightarrow> uuid \<Rightarrow> ustr option \<Rightarrow> ustr" where
  "redemption_idempotency_key promotion_id user_id key =
     ascii ''promotionRedemption:'' @ uuid_str promotion_id @ ascii '':'' @ uuid_str user_id @
     (case key of None \<Rightarrow> [] | Some k \<Rightarrow> ascii '':'' @ k)"

definition code_idempotency_key :: "uuid \<Rightarrow> uuid \<Rightarrow> ustr option \<Rightarrow> ustr" where
  "code_idempotency_key code_id user_id key =
     ascii ''promotionCodeRedemption:'' @ uuid_str code_id @ ascii '':'' @ uuid_str user_id @
     (case key of None \<Rightarrow> [] | Some k \<Rightarrow> ascii '':'' @ k)"

definition create_promotion_redemption ::
    "(ustr \<Rightarrow> ustr) \<Rightarrow> ('z, unit) promotion_action_on \<Rightarrow> 'z grant_port \<Rightarrow> 'z balance_port \<Rightarrow>
     'z promotion_db_scheme promotion_env \<Rightarrow> uuid \<Rightarrow> uuid \<Rightarrow> ustr option \<Rightarrow> ('z, redemption_result) promotion_action_on" where
  "create_promotion_redemption lower uow_commit grant_port balance_port env user_id promotion_id key =
     bindA (find_promotion_for_update (pe_rival_lock env) promotion_id) (\<lambda>promotion.
     case promotion of
       None \<Rightarrow> raiseA PromotionNotFoundError
     | Some p \<Rightarrow>
         if pm_context p = Some SIGNUP then raiseA PromotionNotFoundError
         else
           bindA (replay_if_existing balance_port env user_id (redemption_idempotency_key promotion_id user_id key)) (\<lambda>replayed.
           case replayed of
             Some res \<Rightarrow> returnA res
           | None \<Rightarrow> redeem lower uow_commit grant_port env user_id p None
                       (redemption_idempotency_key promotion_id user_id key)))"

definition create_promotion_code_redemption ::
    "(ustr \<Rightarrow> ustr) \<Rightarrow> ('z, unit) promotion_action_on \<Rightarrow> 'z grant_port \<Rightarrow> 'z balance_port \<Rightarrow>
     'z promotion_db_scheme promotion_env \<Rightarrow> uuid \<Rightarrow> ustr \<Rightarrow> ustr option \<Rightarrow> ('z, redemption_result) promotion_action_on" where
  "create_promotion_code_redemption lower uow_commit grant_port balance_port env user_id code_text key =
     bindA (find_code_by_code_for_update lower (pe_rival_code env) code_text) (\<lambda>found.
     case found of
       None \<Rightarrow> raiseA PromotionCodeNotFoundError
     | Some code \<Rightarrow>
         bindA (find_promotion_for_update (pe_rival_lock env) (pc_promotion_id code)) (\<lambda>promotion.
         case promotion of
           None \<Rightarrow> raiseA PromotionNotFoundError
         | Some p \<Rightarrow>
             if pm_context p = Some SIGNUP then raiseA PromotionNotFoundError
             else
               bindA (replay_if_existing balance_port env user_id (code_idempotency_key (pc_id code) user_id key)) (\<lambda>replayed.
               case replayed of
                 Some res \<Rightarrow> returnA res
               | None \<Rightarrow> redeem lower uow_commit grant_port env user_id p (Some code)
                           (code_idempotency_key (pc_id code) user_id key))))"

definition mk_signup_command :: "uuid \<Rightarrow> ustr \<Rightarrow> exn + (uuid \<times> ustr)" where
  "mk_signup_command user_id beneficiary_key =
     (if strip beneficiary_key = [] \<or> length beneficiary_key > 80
      then Inl (ValidationError [ErrorDetail ''beneficiary_key'' ''beneficiary_key_invalid''])
      else Inr (user_id, beneficiary_key))"

definition signup_redemption_key :: "uuid \<Rightarrow> uuid \<Rightarrow> ustr" where
  "signup_redemption_key promotion_id redemption_id =
     ascii ''signupPromotionRedemption:'' @ uuid_str promotion_id @ ascii '':'' @ uuid_str redemption_id"

definition signup_credit_key :: "uuid \<Rightarrow> uuid \<Rightarrow> ustr" where
  "signup_credit_key promotion_id redemption_id =
     ascii ''signupPromotionCredit:'' @ uuid_str promotion_id @ ascii '':'' @ uuid_str redemption_id"

definition redeem_signup_promotion ::
    "(ustr \<Rightarrow> ustr) \<Rightarrow> ('z, unit) promotion_action_on \<Rightarrow> 'z grant_port \<Rightarrow> 'z promotion_db_scheme promotion_env \<Rightarrow>
     uuid \<times> ustr \<Rightarrow> ('z, bool) promotion_action_on" where
  "redeem_signup_promotion lower uow_commit grant_port env cmd =
     bindA (find_current_ocr_credit_promotion_for_update (pe_rival_lock env) (pe_now env) SIGNUP) (\<lambda>promotion.
     case promotion of
       None \<Rightarrow> returnA False
     | Some p \<Rightarrow>
         bindA (find_redemption_by_promotion_and_beneficiary (pm_id p) (snd cmd)) (\<lambda>existing.
         case existing of
           Some _ \<Rightarrow> returnA False
         | None \<Rightarrow>
             bindA (liftE (promotion_ensure_redeemable (pe_now env) p)) (\<lambda>_.
             let rid = pe_redemption_id env;
                 rd = create_granted rid (pe_event_id env) (pe_event_at env) (pm_id p) None (fst cmd) (Some (snd cmd))
                        (signup_redemption_key (pm_id p) rid) (pe_now env) (benefit_value (pm_benefit_amount p));
                 p' = promotion_record_redemption p
             in
             bindA (create_redemption lower rd) (\<lambda>_.
             bindA (save_promotion lower p') (\<lambda>_.
             bindA (publish build_promotions_event_registry (fst (pull_events rd))) (\<lambda>_.
             bindA (grant_port \<lparr>cg_user_id = fst cmd, cg_amount = benefit_value (pm_benefit_amount p'),
                               cg_redemption_id = rid, cg_idempotency_key = signup_credit_key (pm_id p') rid\<rparr>) (\<lambda>_.
             bindA uow_commit (\<lambda>_. returnA True))))))))"

record current_promotion_view =
  cv_promotion_id :: uuid
  cv_name :: ustr
  cv_benefit_amount :: int
  cv_remaining_redemptions :: "int option"
  cv_starts_at :: datetime
  cv_expires_at :: "datetime option"
  cv_already_redeemed :: bool
  cv_redemption_status :: "redemption_status option"
  cv_banner_image_url :: "ustr option"

definition get_current_ocr_credit_promotion ::
    "datetime \<Rightarrow> uuid \<Rightarrow> promotion_context option \<Rightarrow> ('z, current_promotion_view option) promotion_action_on" where
  "get_current_ocr_credit_promotion now user_id ctx =
     bindA (find_current_ocr_credit_promotion now ctx) (\<lambda>promotion.
     case promotion of
       None \<Rightarrow> returnA None
     | Some p \<Rightarrow>
         bindA (liftE (promotion_ensure_redeemable now p)) (\<lambda>_.
         bindA (count_user_redemptions user_id (pm_id p)) (\<lambda>n.
         let already = (n \<ge> pm_max_redemptions_per_user p) in
         bindA (if already then find_redemption_by_user_and_promotion user_id (pm_id p) else returnA None) (\<lambda>rd.
         bindA (find_content_by_promotion_id (pm_id p)) (\<lambda>content.
         returnA (Some \<lparr>cv_promotion_id = pm_id p, cv_name = pm_name p,
                        cv_benefit_amount = benefit_value (pm_benefit_amount p),
                        cv_remaining_redemptions = remaining_redemptions p, cv_starts_at = pm_starts_at p,
                        cv_expires_at = pm_expires_at p, cv_already_redeemed = already,
                        cv_redemption_status = map_option rd_status rd,
                        cv_banner_image_url = banner_image_url content\<rparr>))))))"

end
