(* ===== verification/Promotions_Properties.thy ===== *)
theory Promotions_Properties
  imports Promotions_Commands
begin

text \<open>
  What holds of the promotion commands: the writes of a redemption meet the constraints, a
  redemption is granted exactly under the conditions of the domain and is all or nothing, a
  repeated one is a replay, and the limits of promotions and codes are never exceeded.
\<close>

section \<open>Tables within their constraints\<close>

definition promotion_row_ok :: "promotion_row \<Rightarrow> bool" where
  "promotion_row_ok r \<longleftrightarrow> (\<forall>(ok, e) \<in> set (promotion_row_checks r). ok)"

definition promotion_code_ok :: "promotion_code \<Rightarrow> bool" where
  "promotion_code_ok c \<longleftrightarrow> (\<forall>(ok, e) \<in> set (promotion_code_checks c). ok)"

definition redemption_row_ok :: "redemption_row \<Rightarrow> bool" where
  "redemption_row_ok r \<longleftrightarrow> (\<forall>(ok, e) \<in> set (redemption_row_checks r). ok)"

definition promotion_tables_ok :: "(ustr \<Rightarrow> ustr) \<Rightarrow> 'z promotion_db_scheme \<Rightarrow> bool" where
  "promotion_tables_ok lower db \<longleftrightarrow>
     (\<forall>r \<in> set (promotions db). promotion_row_ok r) \<and> distinct (map pr_id (promotions db)) \<and>
     distinct (List.map_filter context_start_key (promotions db)) \<and>
     distinct (map pcn_promotion_id (promotion_contents db)) \<and>
     (\<forall>c \<in> set (promotion_codes db). promotion_code_ok c) \<and> distinct (map pc_id (promotion_codes db)) \<and>
     distinct (map (lower \<circ> pc_code) (promotion_codes db)) \<and>
     (\<forall>r \<in> set (promotion_redemptions db). redemption_row_ok r) \<and> distinct (map rr_id (promotion_redemptions db)) \<and>
     distinct (map rr_idempotency_key (promotion_redemptions db)) \<and>
     distinct (List.map_filter beneficiary_key_of (promotion_redemptions db)) \<and>
     rr_promotion_id ` set (promotion_redemptions db) \<subseteq> pr_id ` set (promotions db)"

lemma promotion_violation_iff:
  "promotion_violation lower db = None \<longleftrightarrow> promotion_tables_ok lower db \<and> credit_violation db = None"
proof -
  have "(\<forall>(ok, e) \<in> set (promotion_checks lower db). ok) \<longleftrightarrow> promotion_tables_ok lower db"
    unfolding promotion_checks_def promotion_tables_ok_def promotion_row_ok_def promotion_code_ok_def redemption_row_ok_def
    by (simp only: checks_simps conj_assoc simp_thms)
  then show ?thesis by (simp add: promotion_violation_None)
qed

definition add_redemption :: "redemption_row \<Rightarrow> 'z promotion_db_scheme \<Rightarrow> 'z promotion_db_scheme" where
  "add_redemption row db = db\<lparr>promotion_redemptions := promotion_redemptions db @ [row]\<rparr>"

definition fresh_redemption :: "redemption_row \<Rightarrow> 'z promotion_db_scheme \<Rightarrow> bool" where
  "fresh_redemption row db \<longleftrightarrow>
     redemption_row_ok row \<and> rr_id row \<notin> rr_id ` set (promotion_redemptions db) \<and>
     rr_idempotency_key row \<notin> rr_idempotency_key ` set (promotion_redemptions db) \<and>
     (case beneficiary_key_of row of None \<Rightarrow> True
      | Some k \<Rightarrow> k \<notin> set (List.map_filter beneficiary_key_of (promotion_redemptions db))) \<and>
     rr_promotion_id row \<in> pr_id ` set (promotions db)"

lemma add_redemption_ok:
  assumes "promotion_tables_ok lower db" and "fresh_redemption row db"
  shows "promotion_tables_ok lower (add_redemption row db)"
  using assms unfolding promotion_tables_ok_def fresh_redemption_def add_redemption_def
  by (auto simp: map_filter_snoc split: option.splits)

text \<open>Taking one redemption of a stored promotion is one more in its counter.\<close>

definition take_promotion :: "promotion_row \<Rightarrow> 'z promotion_db_scheme \<Rightarrow> 'z promotion_db_scheme" where
  "take_promotion r db =
     db\<lparr>promotions := update_rows (\<lambda>x. pr_id x = pr_id r) (\<lambda>x. x\<lparr>pr_times_redeemed := pr_times_redeemed x + 1\<rparr>)
          (promotions db)\<rparr>"

definition take_code :: "promotion_code \<Rightarrow> 'z promotion_db_scheme \<Rightarrow> 'z promotion_db_scheme" where
  "take_code c db =
     db\<lparr>promotion_codes := update_rows (\<lambda>x. pc_id x = pc_id c) (\<lambda>x. x\<lparr>pc_times_redeemed := pc_times_redeemed x + 1\<rparr>)
          (promotion_codes db)\<rparr>"

lemma update_rows_cong:
  "(\<And>r. r \<in> set rows \<Longrightarrow> p r \<Longrightarrow> f r = g r) \<Longrightarrow> update_rows p f rows = update_rows p g rows"
  by (induction rows) auto

lemma map_filter_update_rows:
  "(\<And>r. p r \<Longrightarrow> k (f r) = k r) \<Longrightarrow> List.map_filter k (update_rows p f rows) = List.map_filter k rows"
  by (induction rows) (auto simp: List.map_filter_simps split: option.splits)

lemma put_promotion_taken:
  assumes "promotion_tables_ok lower db" and "r \<in> set (promotions db)"
  shows "put_promotion (promotion_record_redemption (domain_promotion r)) db = take_promotion r db"
proof -
  have ok: "\<forall>(ok, e) \<in> set (promotion_row_checks r). ok"
    using assms by (auto simp: promotion_tables_ok_def promotion_row_ok_def)
  have rec: "promotion_to_record (promotion_record_redemption (domain_promotion r)) = r\<lparr>pr_times_redeemed := pr_times_redeemed r + 1\<rparr>"
    using promotion_round_trip [OF ok] by (cases r) (simp add: promotion_to_record_def promotion_record_redemption_def)
  have "x = r" if "x \<in> set (promotions db)" "pr_id x = pr_id r" for x
    using that assms by (auto simp: promotion_tables_ok_def distinct_map inj_on_def)
  then have "update_rows (\<lambda>x. pr_id x = pr_id r) (\<lambda>_. r\<lparr>pr_times_redeemed := pr_times_redeemed r + 1\<rparr>) (promotions db) =
      update_rows (\<lambda>x. pr_id x = pr_id r) (\<lambda>x. x\<lparr>pr_times_redeemed := pr_times_redeemed x + 1\<rparr>) (promotions db)"
    by (intro update_rows_cong) auto
  then show ?thesis
    unfolding put_promotion_def take_promotion_def rec by (simp add: promotion_record_redemption_def)
qed

lemma put_code_taken:
  assumes "promotion_tables_ok lower db" and "c \<in> set (promotion_codes db)"
  shows "put_code (code_record_redemption c) db = take_code c db"
proof -
  have "x = c" if "x \<in> set (promotion_codes db)" "pc_id x = pc_id c" for x
    using that assms by (auto simp: promotion_tables_ok_def distinct_map inj_on_def)
  then have "update_rows (\<lambda>x. pc_id x = pc_id c) (\<lambda>x. x\<lparr>pc_times_redeemed := pc_times_redeemed c + 1\<rparr>) (promotion_codes db) =
      update_rows (\<lambda>x. pc_id x = pc_id c) (\<lambda>x. x\<lparr>pc_times_redeemed := pc_times_redeemed x + 1\<rparr>) (promotion_codes db)"
    by (intro update_rows_cong) auto
  then show ?thesis
    unfolding put_code_def take_code_def by (simp add: code_record_redemption_def)
qed

lemma take_promotion_ok:
  assumes "promotion_tables_ok lower db" and "pr_times_redeemed r < 2147483647" and "r \<in> set (promotions db)"
  shows "promotion_tables_ok lower (take_promotion r db)"
proof -
  have one: "x = r" if "x \<in> set (promotions db)" "pr_id x = pr_id r" for x
    using that assms by (auto simp: promotion_tables_ok_def distinct_map inj_on_def)
  have ids: "map pr_id (update_rows (\<lambda>x. pr_id x = pr_id r) (\<lambda>x. x\<lparr>pr_times_redeemed := pr_times_redeemed x + 1\<rparr>) (promotions db))
      = map pr_id (promotions db)"
    by (rule map_key_update_rows) simp
  have keys: "List.map_filter context_start_key (update_rows (\<lambda>x. pr_id x = pr_id r)
      (\<lambda>x. x\<lparr>pr_times_redeemed := pr_times_redeemed x + 1\<rparr>) (promotions db)) = List.map_filter context_start_key (promotions db)"
    by (rule map_filter_update_rows) (simp add: context_start_key_def)
  have rows: "promotion_row_ok (x\<lparr>pr_times_redeemed := pr_times_redeemed x + 1\<rparr>)"
    if "x \<in> set (promotions db)" "pr_id x = pr_id r" for x
    using assms that one [OF that] by (auto simp: promotion_tables_ok_def promotion_row_ok_def promotion_row_checks_def int4_def)
  have idset: "pr_id ` set (update_rows (\<lambda>x. pr_id x = pr_id r) (\<lambda>x. x\<lparr>pr_times_redeemed := pr_times_redeemed x + 1\<rparr>)
      (promotions db)) = pr_id ` set (promotions db)"
    using arg_cong [OF ids, of set] by simp
  have row_set: "\<forall>x \<in> set (update_rows (\<lambda>x. pr_id x = pr_id r) (\<lambda>x. x\<lparr>pr_times_redeemed := pr_times_redeemed x + 1\<rparr>)
      (promotions db)). promotion_row_ok x"
    using assms(1) rows by (auto simp: set_update_rows promotion_tables_ok_def)
  show ?thesis
    using assms(1) row_set unfolding promotion_tables_ok_def take_promotion_def
    by (simp add: ids keys idset)
qed

lemma take_code_ok:
  assumes "promotion_tables_ok lower db" and "pc_times_redeemed c < 2147483647" and "c \<in> set (promotion_codes db)"
  shows "promotion_tables_ok lower (take_code c db)"
proof -
  have one: "x = c" if "x \<in> set (promotion_codes db)" "pc_id x = pc_id c" for x
    using that assms by (auto simp: promotion_tables_ok_def distinct_map inj_on_def)
  have keys: "map pc_id (update_rows (\<lambda>x. pc_id x = pc_id c) (\<lambda>x. x\<lparr>pc_times_redeemed := pc_times_redeemed x + 1\<rparr>) (promotion_codes db))
      = map pc_id (promotion_codes db)"
    "map (lower \<circ> pc_code) (update_rows (\<lambda>x. pc_id x = pc_id c) (\<lambda>x. x\<lparr>pc_times_redeemed := pc_times_redeemed x + 1\<rparr>)
      (promotion_codes db)) = map (lower \<circ> pc_code) (promotion_codes db)"
    by (rule map_key_update_rows; simp)+
  have rows: "promotion_code_ok (x\<lparr>pc_times_redeemed := pc_times_redeemed x + 1\<rparr>)"
    if "x \<in> set (promotion_codes db)" "pc_id x = pc_id c" for x
    using assms that one [OF that] by (auto simp: promotion_tables_ok_def promotion_code_ok_def promotion_code_checks_def int4_def)
  have row_set: "\<forall>x \<in> set (update_rows (\<lambda>x. pc_id x = pc_id c) (\<lambda>x. x\<lparr>pc_times_redeemed := pc_times_redeemed x + 1\<rparr>)
      (promotion_codes db)). promotion_code_ok x"
    using assms(1) rows by (auto simp: set_update_rows promotion_tables_ok_def)
  show ?thesis
    using assms(1) row_set unfolding promotion_tables_ok_def take_code_def
    by (simp add: keys)
qed

lemma tables_ok_outbox [simp]:
  "promotion_tables_ok lower (db\<lparr>outbox_events := es\<rparr>) = promotion_tables_ok lower db"
  by (simp add: promotion_tables_ok_def)

section \<open>What a redemption writes\<close>

definition redemption_of ::
    "'db promotion_env \<Rightarrow> uuid \<Rightarrow> promotion_row \<Rightarrow> promotion_code option \<Rightarrow> ustr option \<Rightarrow> ustr \<Rightarrow> promotion_redemption" where
  "redemption_of env user_id r code beneficiary key =
     create_granted (pe_redemption_id env) (pe_event_id env) (pe_event_at env) (pr_id r) (map_option pc_id code) user_id
       beneficiary key (pe_now env) (pr_benefit_amount r)"

definition redemption_event :: "'db promotion_env \<Rightarrow> uuid \<Rightarrow> promotion_row \<Rightarrow> promotion_code option \<Rightarrow> ustr \<Rightarrow> domain_event" where
  "redemption_event env user_id r code key =
     new_event (pe_event_id env) (pe_event_at env)
       (PromotionRedemptionGranted (pe_redemption_id env) (pr_id r) user_id (map_option pc_id code) (pr_benefit_amount r) key)"

lemma redemption_of_simps [simp]:
  "pending_events (redemption_of env u r code b key) = [redemption_event env u r code key]"
  "rd_id (redemption_of env u r code b key) = pe_redemption_id env"
  "rd_user_id (redemption_of env u r code b key) = u"
  "rd_promotion_id (redemption_of env u r code b key) = pr_id r"
  "rd_promotion_code_id (redemption_of env u r code b key) = map_option pc_id code"
  "rd_status (redemption_of env u r code b key) = GRANTED"
  "rd_idempotency_key (redemption_of env u r code b key) = key"
  "rd_beneficiary_key (redemption_of env u r code b key) = b"
  by (simp_all add: redemption_of_def create_granted_def record_event_def redemption_event_def)

definition redeem_writes ::
    "'z promotion_db_scheme promotion_env \<Rightarrow> uuid \<Rightarrow> promotion_row \<Rightarrow> promotion_code option \<Rightarrow> ustr option \<Rightarrow> ustr \<Rightarrow>
     'z promotion_db_scheme \<Rightarrow> 'z promotion_db_scheme" where
  "redeem_writes env user_id r code beneficiary key db =
     (let taken = take_promotion r (add_redemption (redemption_to_record (redemption_of env user_id r code beneficiary key)) db);
          coded = (case code of None \<Rightarrow> taken | Some c \<Rightarrow> take_code c taken)
      in coded\<lparr>outbox_events := outbox_events coded @ [outbox_row_of (redemption_event env user_id r code key)]\<rparr>)"

definition redeem_ready ::
    "(ustr \<Rightarrow> ustr) \<Rightarrow> 'z promotion_db_scheme promotion_env \<Rightarrow> uuid \<Rightarrow> promotion_row \<Rightarrow> promotion_code option \<Rightarrow>
     ustr option \<Rightarrow> ustr \<Rightarrow> 'z promotion_db_scheme \<Rightarrow> bool" where
  "redeem_ready lower env user_id r code beneficiary key db \<longleftrightarrow>
     promotion_violation lower db = None \<and> r \<in> set (promotions db) \<and>
     fresh_redemption (redemption_to_record (redemption_of env user_id r code beneficiary key)) db \<and>
     pr_times_redeemed r < 2147483647 \<and> pe_event_id env \<notin> ob_event_id ` set (outbox_events db) \<and>
     (case code of None \<Rightarrow> True | Some c \<Rightarrow> c \<in> set (promotion_codes db) \<and> pc_times_redeemed c < 2147483647)"

text \<open>The conditions of the domain for a redemption.\<close>

definition redeemable ::
    "datetime \<Rightarrow> uuid \<Rightarrow> promotion_row \<Rightarrow> promotion_code option \<Rightarrow> 'z promotion_db_scheme \<Rightarrow> bool" where
  "redeemable now user_id r code db \<longleftrightarrow>
     (case code of None \<Rightarrow> True | Some c \<Rightarrow> code_ensure_redeemable now c = Inr ()) \<and>
     promotion_ensure_redeemable now (domain_promotion r) = Inr () \<and>
     int (length (user_redemptions user_id (pr_id r) db)) < pr_max_redemptions_per_user r"

lemma promotion_writes_simps [simp]:
  "promotions (add_redemption row db) = promotions db" "promotion_codes (add_redemption row db) = promotion_codes db"
  "promotion_redemptions (add_redemption row db) = promotion_redemptions db @ [row]"
  "promotion_contents (add_redemption row db) = promotion_contents db"
  "outbox_events (add_redemption row db) = outbox_events db"
  "promotion_codes (take_promotion r db) = promotion_codes db"
  "promotion_redemptions (take_promotion r db) = promotion_redemptions db"
  "promotion_contents (take_promotion r db) = promotion_contents db"
  "outbox_events (take_promotion r db) = outbox_events db"
  "promotions (take_code c db) = promotions db" "promotion_redemptions (take_code c db) = promotion_redemptions db"
  "promotion_contents (take_code c db) = promotion_contents db" "outbox_events (take_code c db) = outbox_events db"
  by (simp_all add: add_redemption_def take_promotion_def take_code_def)

lemma credit_violation_cong:
  "user_credits db' = user_credits db \<Longrightarrow> credit_transactions db' = credit_transactions db \<Longrightarrow>
   outbox_events db' = outbox_events db \<Longrightarrow> credit_violation db' = credit_violation db"
  by (simp add: credit_violation_def credit_checks_def)

lemma promotion_writes_credits [simp]:
  "credit_violation (add_redemption row db) = credit_violation db"
  "credit_violation (take_promotion r db) = credit_violation db"
  "credit_violation (take_code c db) = credit_violation db"
  by (rule credit_violation_cong; simp add: add_redemption_def take_promotion_def take_code_def)+

lemma redeem_states_ok:
  assumes "redeem_ready lower env u r code b key db"
  shows "promotion_violation lower (add_redemption (redemption_to_record (redemption_of env u r code b key)) db) = None"
    and "promotion_violation lower (take_promotion r (add_redemption (redemption_to_record (redemption_of env u r code b key)) db)) = None"
    and "code = Some c \<Longrightarrow> promotion_violation lower
      (take_code c (take_promotion r (add_redemption (redemption_to_record (redemption_of env u r code b key)) db))) = None"
    and "promotion_violation lower (redeem_writes env u r code b key db) = None"
proof -
  let ?db1 = "add_redemption (redemption_to_record (redemption_of env u r code b key)) db"
  let ?db2 = "take_promotion r ?db1"
  have v: "promotion_tables_ok lower db" "credit_violation db = None" and r: "r \<in> set (promotions db)"
    and f: "fresh_redemption (redemption_to_record (redemption_of env u r code b key)) db" "pr_times_redeemed r < 2147483647"
    and e: "pe_event_id env \<notin> ob_event_id ` set (outbox_events db)"
    using assms by (simp_all add: redeem_ready_def promotion_violation_iff)
  have t1: "promotion_tables_ok lower ?db1" by (rule add_redemption_ok [OF v(1) f(1)])
  have t2: "promotion_tables_ok lower ?db2" by (rule take_promotion_ok [OF t1 f(2)]) (simp add: r)
  have t3: "promotion_tables_ok lower (take_code c ?db2)" if "code = Some c" for c
    using take_code_ok [OF t2, of c] assms that by (simp add: redeem_ready_def)
  show "promotion_violation lower ?db1 = None" "promotion_violation lower ?db2 = None"
    using t1 t2 v(2) by (simp_all add: promotion_violation_iff)
  show "code = Some c \<Longrightarrow> promotion_violation lower (take_code c ?db2) = None"
    using t3 v(2) by (simp add: promotion_violation_iff)
  let ?out = "outbox_events db @ [outbox_row_of (redemption_event env u r code key)]"
  have out: "credit_violation (x\<lparr>outbox_events := ?out\<rparr>) = None"
    if "credit_violation x = None" "outbox_events x = outbox_events db" for x :: "'a promotion_db_scheme"
    using that e by (simp add: credit_violation_None redemption_event_def new_event_def)
  show "promotion_violation lower (redeem_writes env u r code b key db) = None"
    using t2 t3 v(2) out by (cases code) (simp_all add: redeem_writes_def Let_def promotion_violation_iff)
qed

lemma promotion_event_publishable: "publishable build_promotions_event_registry (redemption_event env u r code key)"
  by (simp add: publishable_def redemption_event_def new_event_def registry_tables resolve_def)

text \<open>The writes of a redemption, each flushed: they succeed and leave \<open>redeem_writes\<close>.\<close>

lemma create_redemption_runs:
  assumes "\<not> tx_failed s" and "promotion_violation lower (add_redemption (redemption_to_record rd) (working s)) = None"
  shows "create_redemption lower rd s = (Inr (), s\<lparr>working := add_redemption (redemption_to_record rd) (working s)\<rparr>)"
  using assms by (simp add: create_redemption_def bindA_def session_apply add_redemption_def [symmetric])

lemma save_promotion_runs:
  assumes "\<not> tx_failed s" and "promotion_tables_ok lower (working s)" and "r \<in> set (promotions (working s))"
    and "promotion_violation lower (take_promotion r (working s)) = None"
  shows "save_promotion lower (promotion_record_redemption (domain_promotion r)) s =
    (Inr (), s\<lparr>working := take_promotion r (working s)\<rparr>)"
proof -
  have "find (\<lambda>x. pr_id x = pr_id r) (promotions (working s)) = Some r"
    using assms(2,3) find_unique_key by (fastforce simp: promotion_tables_ok_def)
  then show ?thesis
    using assms put_promotion_taken [OF assms(2,3)]
    by (simp add: save_promotion_def bindA_def session_apply promotion_record_redemption_def)
qed

lemma save_code_runs:
  assumes "\<not> tx_failed s" and "promotion_tables_ok lower (working s)" and "c \<in> set (promotion_codes (working s))"
    and "promotion_violation lower (take_code c (working s)) = None"
  shows "save_code lower (code_record_redemption c) s = (Inr (), s\<lparr>working := take_code c (working s)\<rparr>)"
proof -
  have "find (\<lambda>x. pc_id x = pc_id c) (promotion_codes (working s)) = Some c"
    using assms(2,3) find_unique_key by (fastforce simp: promotion_tables_ok_def)
  then show ?thesis
    using assms put_code_taken [OF assms(2,3)]
    by (simp add: save_code_def bindA_def session_apply code_record_redemption_def)
qed

definition grant_request :: "'db promotion_env \<Rightarrow> uuid \<Rightarrow> promotion_row \<Rightarrow> ustr \<Rightarrow> credit_grant" where
  "grant_request env user_id r key =
     \<lparr>cg_user_id = user_id, cg_amount = pr_benefit_amount r, cg_redemption_id = pe_redemption_id env,
      cg_idempotency_key = key\<rparr>"

text \<open>The end of a redemption: the credit grant, the commit and the result.\<close>

definition redeem_tail ::
    "('z, unit) promotion_action_on \<Rightarrow> 'z grant_port \<Rightarrow> 'z promotion_db_scheme promotion_env \<Rightarrow> uuid \<Rightarrow> promotion_row \<Rightarrow>
     promotion_code option \<Rightarrow> ustr \<Rightarrow> ('z, redemption_result) promotion_action_on" where
  "redeem_tail uow_commit grant_port env user_id r code key =
     bindA (grant_port (grant_request env user_id r key)) (\<lambda>g.
     bindA uow_commit (\<lambda>_.
     bindA (find_content_by_promotion_id (pr_id r)) (\<lambda>content.
     returnA (redemption_result_of (redemption_of env user_id r code None key)
       (promotion_record_redemption (domain_promotion r)) (banner_image_url content) False True
       (cgr_credit_balance_after g) (cgr_credit_remaining_after g)))))"

lemma redemption_writes_run:
  assumes "\<not> tx_failed s" and "redeem_ready lower env u r code b key (working s)"
  shows "bindA (create_redemption lower (redemption_of env u r code b key)) (\<lambda>_.
      bindA (save_promotion lower (promotion_record_redemption (domain_promotion r))) (\<lambda>_.
      bindA (case code of None \<Rightarrow> returnA () | Some c \<Rightarrow> save_code lower (code_record_redemption c)) (\<lambda>_.
      bindA (publish build_promotions_event_registry [redemption_event env u r code key]) (\<lambda>_. m)))) s =
    m (s\<lparr>working := redeem_writes env u r code b key (working s)\<rparr>)"
proof -
  let ?rd = "redemption_of env u r code b key"
  let ?db1 = "add_redemption (redemption_to_record ?rd) (working s)"
  let ?db2 = "take_promotion r ?db1"
  note ok = redeem_states_ok [OF assms(2)]
  have r: "r \<in> set (promotions (working s))" using assms(2) by (simp add: redeem_ready_def)
  have c1: "create_redemption lower ?rd s = (Inr (), s\<lparr>working := ?db1\<rparr>)"
    by (rule create_redemption_runs [OF assms(1) ok(1)])
  have c2: "save_promotion lower (promotion_record_redemption (domain_promotion r)) (s\<lparr>working := ?db1\<rparr>) =
      (Inr (), s\<lparr>working := ?db2\<rparr>)"
    using save_promotion_runs [of "s\<lparr>working := ?db1\<rparr>" lower r] assms(1) ok(1,2) r by (simp add: promotion_violation_iff)
  have c3: "save_code lower (code_record_redemption c) (s\<lparr>working := ?db2\<rparr>) = (Inr (), s\<lparr>working := take_code c ?db2\<rparr>)"
    if "code = Some c" for c
    using save_code_runs [of "s\<lparr>working := ?db2\<rparr>" lower c] assms(1,2) ok(2) ok(3) [OF that] that
    by (simp add: promotion_violation_iff redeem_ready_def)
  show ?thesis
    using assms(1) c1 c2 c3
    by (cases code)
      (simp_all add: bindA_def returnA_def session_apply Let_def publish_ok promotion_event_publishable redeem_writes_def)
qed

text \<open>The redemption of the request is the one of the specification, on either kind of offer.\<close>

lemma create_granted_redemption:
  "create_granted (pe_redemption_id env) (pe_event_id env) (pe_event_at env) (pr_id r) (map_option pc_id code) u b
     key (pe_now env) (pr_benefit_amount r) = redemption_of env u r code b key"
  by (simp add: redemption_of_def)

lemma record_redemption_keeps [simp]:
  "pm_id (promotion_record_redemption p) = pm_id p"
  "pm_benefit_amount (promotion_record_redemption p) = pm_benefit_amount p"
  by (simp_all add: promotion_record_redemption_def)

text \<open>Once the domain has let it through, a redemption is its writes and then its end.\<close>

lemma redeem_as_writes:
  assumes "\<not> tx_failed s" and "redeemable (pe_now env) u r code (working s)"
  shows "redeem lower uow_commit grant_port env u (domain_promotion r) code key s =
    bindA (create_redemption lower (redemption_of env u r code None key)) (\<lambda>_.
    bindA (save_promotion lower (promotion_record_redemption (domain_promotion r))) (\<lambda>_.
    bindA (case code of None \<Rightarrow> returnA () | Some c \<Rightarrow> save_code lower (code_record_redemption c)) (\<lambda>_.
    bindA (publish build_promotions_event_registry [redemption_event env u r code key]) (\<lambda>_.
    redeem_tail uow_commit grant_port env u r code key)))) s"
proof -
  have checks: "(case code of None \<Rightarrow> Inr () | Some c \<Rightarrow> code_ensure_redeemable (pe_now env) c) = Inr ()"
    "promotion_ensure_redeemable (pe_now env) (domain_promotion r) = Inr ()"
    "ensure_user_can_redeem (int (length (user_redemptions u (pr_id r) (working s)))) (domain_promotion r) = Inr ()"
    using assms(2) by (auto simp: redeemable_def ensure_user_can_redeem_def split: option.splits)
  show ?thesis
    unfolding redeem_def checks(1,2) bind_pure
    using assms(1)
    by (simp add: count_user_redemptions_def session_bind checks(3) bind_pure
        create_granted_redemption Let_def pull_events_def redeem_tail_def grant_request_def)
qed

lemma redeem_runs:
  assumes "\<not> tx_failed s" and "redeem_ready lower env u r code None key (working s)"
    and "redeemable (pe_now env) u r code (working s)"
  shows "redeem lower uow_commit grant_port env u (domain_promotion r) code key s =
    redeem_tail uow_commit grant_port env u r code key (s\<lparr>working := redeem_writes env u r code None key (working s)\<rparr>)"
  unfolding redeem_as_writes [OF assms(1,3)] by (rule redemption_writes_run [OF assms(1,2)])

text \<open>A refusal of the domain raises the conflict before anything is written.\<close>

lemma redeem_refused:
  assumes "\<not> tx_failed s" and "\<not> redeemable (pe_now env) u r code (working s)"
  shows "\<exists>m. redeem lower uow_commit grant_port env u (domain_promotion r) code key s =
    (Inl (PromotionRedemptionConflictError m), s)"
proof -
  have p: "\<exists>m. promotion_ensure_redeemable t p = Inl (PromotionRedemptionConflictError m)"
    if "promotion_ensure_redeemable t p \<noteq> Inr ()" for t p
    using that by (auto simp: promotion_ensure_redeemable_def split: if_splits)
  have c: "\<exists>m. code_ensure_redeemable t c = Inl (PromotionRedemptionConflictError m)"
    if "code_ensure_redeemable t c \<noteq> Inr ()" for t c
    using that by (auto simp: code_ensure_redeemable_def split: if_splits)
  consider (code) c' where "code = Some c'" "code_ensure_redeemable (pe_now env) c' \<noteq> Inr ()"
    | (promotion) "\<forall>c'. code = Some c' \<longrightarrow> code_ensure_redeemable (pe_now env) c' = Inr ()"
        "promotion_ensure_redeemable (pe_now env) (domain_promotion r) \<noteq> Inr ()"
    | (user) "\<forall>c'. code = Some c' \<longrightarrow> code_ensure_redeemable (pe_now env) c' = Inr ()"
        "promotion_ensure_redeemable (pe_now env) (domain_promotion r) = Inr ()"
        "\<not> int (length (user_redemptions u (pr_id r) (working s))) < pr_max_redemptions_per_user r"
    using assms(2) by (auto simp: redeemable_def split: option.splits)
  then show ?thesis
  proof cases
    case code
    then show ?thesis using c [OF code(2)] by (auto simp: redeem_def bindA_def liftE_def)
  next
    case promotion
    then show ?thesis using p [OF promotion(2)] by (cases code) (auto simp: redeem_def bindA_def liftE_def)
  next
    case user
    then show ?thesis using assms(1)
      by (cases code) (simp_all add: redeem_def bindA_def liftE_def count_user_redemptions_def session_apply
          ensure_user_can_redeem_def)
  qed
qed

end
