(* ===== verification/Promotions_Redemption.thy ===== *)
theory Promotions_Redemption
  imports Promotions_Properties
begin

text \<open>
  Redemptions end to end: the contract of the credit port, its interpretation by the credits
  module, and the outcomes of the use cases: granted, refused, replayed, and all or nothing.
\<close>

section \<open>The contract of the credit port\<close>

definition same_promotions :: "'z promotion_db_scheme \<Rightarrow> 'z promotion_db_scheme \<Rightarrow> bool" where
  "same_promotions db db' \<longleftrightarrow>
     promotions db' = promotions db \<and> promotion_contents db' = promotion_contents db \<and>
     promotion_codes db' = promotion_codes db \<and> promotion_redemptions db' = promotion_redemptions db"

lemma find_stored_promotion:
  "promotion_tables_ok lower db \<Longrightarrow> r \<in> set (promotions db) \<Longrightarrow> find (\<lambda>x. pr_id x = pr_id r) (promotions db) = Some r"
  unfolding promotion_tables_ok_def by (rule find_unique_key) simp_all

lemma find_stored_code:
  "promotion_tables_ok lower db \<Longrightarrow> c \<in> set (promotion_codes db) \<Longrightarrow>
   find (\<lambda>x. pc_id x = pc_id c) (promotion_codes db) = Some c"
  unfolding promotion_tables_ok_def by (rule find_unique_key) simp_all

text \<open>What a session may have committed when a redemption is over: nothing, or all of its writes.\<close>

definition redemption_committed ::
    "(ustr \<Rightarrow> ustr) \<Rightarrow> 'z promotion_db_scheme promotion_env \<Rightarrow> uuid \<Rightarrow> promotion_row \<Rightarrow> promotion_code option \<Rightarrow>
     ustr option \<Rightarrow> ustr \<Rightarrow> 'z promotion_db_scheme session \<Rightarrow> 'z promotion_db_scheme session \<Rightarrow> bool" where
  "redemption_committed lower env u r code b key s t \<longleftrightarrow>
     committed t = committed s \<or>
     promotion_violation lower (committed t) = None \<and>
     same_promotions (redeem_writes env u r code b key (working s)) (committed t)"

text \<open>
  What a redemption relies on: a grant that can be made is made in the open transaction, on
  the credit tables only and within the constraints (\<open>grants\<close>, \<open>grant_keeps\<close>, \<open>grant_valid\<close>);
  whatever else happens, a grant commits nothing, and one that returns leaves the
  promotion tables of the transaction alone or has rolled it back (\<open>grant_frame\<close>).
\<close>

locale promotion_credit_port =
  fixes lower :: "ustr \<Rightarrow> ustr"
    and grant_port :: "'z grant_port"
    and granted_db :: "credit_grant \<Rightarrow> 'z promotion_db_scheme \<Rightarrow> 'z promotion_db_scheme"
    and grantable :: "credit_grant \<Rightarrow> 'z promotion_db_scheme \<Rightarrow> bool"
  assumes grants: "\<not> tx_failed s \<Longrightarrow> promotion_violation lower (working s) = None \<Longrightarrow> grantable g (working s) \<Longrightarrow>
      \<exists>res. grant_port g s = (Inr res, s\<lparr>working := granted_db g (working s)\<rparr>)"
    and grant_keeps: "same_promotions db (granted_db g db)"
    and grant_valid: "promotion_violation lower db = None \<Longrightarrow> grantable g db \<Longrightarrow>
      promotion_violation lower (granted_db g db) = None"
    and grant_frame: "grant_port g s = (r, s') \<Longrightarrow>
      committed s' = committed s \<and>
      (\<forall>res. r = Inr res \<longrightarrow> same_promotions (working s) (working s') \<or> working s' = committed s)"
begin

text \<open>A redemption that is ready and grantable ends committed, with everything it writes.\<close>

lemma redeem_granted:
  assumes "\<not> tx_failed s" and "redeem_ready lower env u r code None key (working s)"
    and "redeemable (pe_now env) u r code (working s)"
    and "grantable (grant_request env u r key) (redeem_writes env u r code None key (working s))"
  obtains res where "redeem lower (sqlalchemy_commit (promotion_violation lower)) grant_port env u (domain_promotion r) code key s =
      (Inr res, open_session (granted_db (grant_request env u r key) (redeem_writes env u r code None key (working s))))"
    and "\<not> rs_already_redeemed res" and "rs_credit_granted res" and "rs_redemption_id res = pe_redemption_id env"
    and "rs_benefit_amount res = pr_benefit_amount r"
    and "rs_remaining_redemptions res = map_option (\<lambda>m. max (m - (pr_times_redeemed r + 1)) 0) (pr_max_redemptions r)"
proof -
  let ?db1 = "redeem_writes env u r code None key (working s)"
  let ?g = "grant_request env u r key"
  let ?D = "granted_db ?g ?db1"
  have v: "promotion_violation lower ?db1 = None" by (rule redeem_states_ok(4) [OF assms(2)])
  obtain g where g: "grant_port ?g (s\<lparr>working := ?db1\<rparr>) = (Inr g, s\<lparr>working := ?D\<rparr>)"
    using grants [of "s\<lparr>working := ?db1\<rparr>" ?g] assms(1,4) v by auto
  have D: "promotion_violation lower ?D = None" by (rule grant_valid [OF v assms(4)])
  have fin: "s\<lparr>committed := ?D, working := ?D\<rparr> = open_session ?D"
    using assms(1) by (simp add: open_session_def)
  have "redeem lower (sqlalchemy_commit (promotion_violation lower)) grant_port env u (domain_promotion r) code key s =
      (Inr (redemption_result_of (redemption_of env u r code None key) (promotion_record_redemption (domain_promotion r))
         (banner_image_url (find (\<lambda>c. pcn_promotion_id c = pr_id r) (promotion_contents ?D))) False True
         (cgr_credit_balance_after g) (cgr_credit_remaining_after g)), open_session ?D)"
    unfolding redeem_runs [OF assms(1-3)] redeem_tail_def
    using assms(1) D fin
    by (simp add: bindA_def g sqlalchemy_commit_def commit_session_def flush_session_def modifyA_def
        find_content_by_promotion_id_def query_session_def returnA_def)
  then show thesis
    by (rule that) (simp_all add: redemption_result_of_def remaining_redemptions_def promotion_record_redemption_def)
qed

text \<open>
  On every path, however it ends: a redemption commits nothing, or everything it writes, and
  then the domain had let it through.
\<close>

lemma writes_all_or_nothing:
  fixes s :: "'z promotion_db_scheme session"
  assumes "\<not> tx_failed s" and "promotion_tables_ok lower (working s)" and "r \<in> set (promotions (working s))"
    and "case code of None \<Rightarrow> True | Some c \<Rightarrow> c \<in> set (promotion_codes (working s))"
    and "\<And>x t. committed (snd (k x t)) = committed t"
  shows "runs (\<lambda>t. t = s)
     (bindA (create_redemption lower (redemption_of env u r code b key)) (\<lambda>_.
      bindA (save_promotion lower (promotion_record_redemption (domain_promotion r))) (\<lambda>_.
      bindA (case code of None \<Rightarrow> returnA () | Some c \<Rightarrow> save_code lower (code_record_redemption c)) (\<lambda>_.
      bindA (publish build_promotions_event_registry [redemption_event env u r code key]) (\<lambda>_.
      bindA (grant_port g) (\<lambda>x.
      bindA (sqlalchemy_commit (promotion_violation lower)) (\<lambda>_. k x)))))))
     (\<lambda>_. redemption_committed lower env u r code b key s) (redemption_committed lower env u r code b key s)"
proof -
  let ?row = "redemption_to_record (redemption_of env u r code b key)"
  let ?db1 = "add_redemption ?row (working s)"
  let ?db2 = "take_promotion r ?db1"
  let ?db3 = "case code of None \<Rightarrow> ?db2 | Some c \<Rightarrow> take_code c ?db2"
  let ?W = "redeem_writes env u r code b key (working s)"
  let ?C = "redemption_committed lower env u r code b key s"
  let ?at = "\<lambda>db t. t = s\<lparr>working := db\<rparr> \<and> promotion_tables_ok lower db"
  have E: "committed t = committed s \<Longrightarrow> ?C t" for t by (simp add: redemption_committed_def)
  have c1: "runs (\<lambda>t. t = s) (create_redemption lower (redemption_of env u r code b key)) (\<lambda>_. ?at ?db1) ?C"
    unfolding create_redemption_def add_redemption_def [symmetric]
    by (intro runs_bind [where Q = "\<lambda>_ t. t = s\<lparr>working := ?db1\<rparr>"] runs_write runs_flush)
      (simp_all add: E promotion_violation_iff)
  have c2: "runs (?at ?db1) (save_promotion lower (promotion_record_redemption (domain_promotion r))) (\<lambda>_. ?at ?db2) ?C"
  proof -
    have put: "put_promotion (promotion_record_redemption (domain_promotion r)) ?db1 = ?db2"
      if "promotion_tables_ok lower ?db1" by (rule put_promotion_taken [OF that]) (simp add: assms(3))
    have found: "find (\<lambda>x. pr_id x = pr_id r) (promotions ?db1) = Some r" if "promotion_tables_ok lower ?db1"
      by (rule find_stored_promotion [OF that]) (simp add: assms(3))
    show ?thesis
      unfolding runs_def using put found
      by (auto simp: save_promotion_def bindA_def query_session_def write_session_def flush_session_def E assms(1)
          promotion_record_redemption_def promotion_violation_iff split: option.splits)
  qed
  have c3: "runs (?at ?db2) (case code of None \<Rightarrow> returnA () | Some c \<Rightarrow> save_code lower (code_record_redemption c))
      (\<lambda>_. ?at ?db3) ?C"
  proof (cases code)
    case None
    then show ?thesis by (simp add: runs_def returnA_def)
  next
    case (Some c)
    have put: "put_code (code_record_redemption c) ?db2 = take_code c ?db2" if "promotion_tables_ok lower ?db2"
      using put_code_taken [OF that] assms(4) Some by simp
    have found: "find (\<lambda>x. pc_id x = pc_id c) (promotion_codes ?db2) = Some c" if "promotion_tables_ok lower ?db2"
      using find_stored_code [OF that] assms(4) Some by simp
    show ?thesis
      unfolding runs_def using put found
      by (auto simp: Some save_code_def bindA_def query_session_def write_session_def flush_session_def redemption_committed_def assms(1)
          code_record_redemption_def promotion_violation_iff split: option.splits)
  qed
  have c4: "runs (?at ?db3) (publish build_promotions_event_registry [redemption_event env u r code key])
      (\<lambda>_ t. t = s\<lparr>working := ?W\<rparr>) ?C"
    using assms(1) by (cases code)
      (simp_all add: runs_def publish_ok promotion_event_publishable session_apply redeem_writes_def)
  have c5: "runs (\<lambda>t. t = s\<lparr>working := ?W\<rparr>) (grant_port g)
      (\<lambda>_ t. committed t = committed s \<and> (same_promotions ?W (working t) \<or> working t = committed s)) ?C"
    unfolding runs_def using grant_frame [of g "s\<lparr>working := ?W\<rparr>"] by (fastforce simp: E split: prod.splits sum.splits)
  have c6: "runs (\<lambda>t. committed t = committed s \<and> (same_promotions ?W (working t) \<or> working t = committed s))
      (sqlalchemy_commit (promotion_violation lower)) (\<lambda>_. ?C) ?C"
    unfolding sqlalchemy_commit_def by (intro runs_commit) (auto simp: redemption_committed_def)
  have c7: "runs ?C (k x) (\<lambda>_. ?C) ?C" for x
    unfolding runs_def redemption_committed_def using assms(5) by (auto split: prod.splits sum.splits) (metis snd_conv)+
  show ?thesis
    by (intro runs_bind [OF c1] runs_bind [OF c2] runs_bind [OF c3] runs_bind [OF c4] runs_bind [OF c5] runs_bind [OF c6] c7)
qed

end

section \<open>The credits module behind the port\<close>

definition redemption_grant :: "credit_grant \<Rightarrow> grant_command" where
  "redemption_grant g =
     \<lparr>gc_user_id = cg_user_id g, gc_amount = CreditAmount (cg_amount g), gc_reason = EVENT_OCR_ALLOWANCE,
      gc_source_type = Some PROMOTION_REDEMPTION, gc_source_id = Some (cg_redemption_id g),
      gc_idempotency_key = Some (cg_idempotency_key g)\<rparr>"

definition credits_grantable :: "'z promotion_db_scheme credit_env \<Rightarrow> credit_grant \<Rightarrow> 'z promotion_db_scheme \<Rightarrow> bool" where
  "credits_grantable env g db \<longleftrightarrow>
     1 \<le> cg_amount g \<and> grant_admissible env (redemption_grant g) db \<and> \<not> grant_seen (redemption_grant g) db"

lemma grant_effect_promotions: "same_promotions db (grant_effect env cmd db)"
  by (simp add: same_promotions_def grant_effect_def add_records_def put_balance_def put_user_credit_def split: option.splits)

lemma tables_ok_cong: "same_promotions db db' \<Longrightarrow> promotion_tables_ok lower db' = promotion_tables_ok lower db"
  by (simp add: same_promotions_def promotion_tables_ok_def)

lemma grant_ocr_credit_amount:
  "grant_ocr_credit env g =
     (if cg_amount g < 1 then raiseA (ValidationError [ErrorDetail ''amount'' ''credit_amount_positive''])
      else bindA (grant_credit deferred_commit (deferred_rollback (Some rollback_session)) env (redemption_grant g)) (\<lambda>res.
           returnA \<lparr>cgr_credit_balance_after = Some (gr_total_granted_count res),
              cgr_credit_remaining_after = Some (gr_remaining_count res)\<rparr>))"
  by (rule ext) (simp add: grant_ocr_credit_def mk_credit_amount_def mk_grant_command_def redemption_grant_def bindA_def
      liftE_def raiseA_def)

text \<open>A deferred grant commits nothing, on any path.\<close>

lemma get_balance_frame: "get_balance u s = (r, s') \<Longrightarrow> s' = s"
  by (auto simp: get_balance_def bindA_def query_session_def liftE_def split: if_splits)

lemma is_duplicate_frame: "is_duplicate_grant cmd s = (r, s') \<Longrightarrow> s' = s"
  by (auto simp: is_duplicate_grant_def bindA_def exists_transaction_with_idempotency_key_def
      exists_transaction_with_source_def query_session_def returnA_def split: if_splits option.splits sum.splits prod.splits)

lemma publish_frame:
  "publish reg es s = (r, s') \<Longrightarrow> committed s' = committed s \<and> (\<exists>rows. working s' = (working s)\<lparr>outbox_events := rows\<rparr>)"
proof (induction es arbitrary: s)
  case Nil
  then show ?case by (auto simp: returnA_def intro: exI [of _ "outbox_events (working s)"])
next
  case (Cons e es)
  show ?case
  proof (cases "resolve reg (fst (serialize_event e))")
    case (Inl x)
    then show ?thesis using Cons.prems
      by (auto simp: publish.simps(2) bindA_def liftE_def intro: exI [of _ "outbox_events (working s)"])
  next
    case (Inr c)
    let ?s = "s\<lparr>working := (working s)\<lparr>outbox_events := outbox_events (working s) @ [outbox_row_of e]\<rparr>\<rparr>"
    show ?thesis
    proof (cases "tx_failed s")
      case True
      then show ?thesis using Cons.prems Inr
        by (auto simp: publish.simps(2) bindA_def liftE_def write_session_def intro: exI [of _ "outbox_events (working s)"])
    next
      case False
      then have "publish reg es ?s = (r, s')" using Cons.prems Inr
        by (simp add: publish.simps(2) bindA_def liftE_def write_session_def)
      from Cons.IH [OF this] show ?thesis by auto
    qed
  qed
qed

lemma same_promotions_refl [simp]: "same_promotions db db"
  by (simp add: same_promotions_def)

lemma put_user_credit_promotions: "same_promotions db (put_user_credit uc db)"
  by (simp add: same_promotions_def put_user_credit_def split: option.splits)

lemma same_promotions_outbox: "same_promotions db db' \<Longrightarrow> same_promotions db (db'\<lparr>outbox_events := es\<rparr>)"
  by (simp add: same_promotions_def)

lemma same_promotions_txs: "same_promotions db db' \<Longrightarrow> same_promotions db (db'\<lparr>credit_transactions := txs\<rparr>)"
  by (simp add: same_promotions_def)


text \<open>A deferred grant commits nothing; one that returns kept the promotion tables, or rolled back.\<close>

lemma deferred_grant_frame:
  fixes s :: "'z promotion_db_scheme session"
  shows "runs (\<lambda>t. t = s)
     (grant_credit deferred_commit (deferred_rollback (Some rollback_session)) (serial env) cmd)
     (\<lambda>_ t. committed t = committed s \<and> (same_promotions (working s) (working t) \<or> working t = committed s))
     (\<lambda>t. committed t = committed s)"
proof -
  let ?P = "\<lambda>t. committed t = committed s \<and> same_promotions (working s) (working t)"
  let ?Q = "\<lambda>t. committed t = committed s \<and> (same_promotions (working s) (working t) \<or> working t = committed s)"
  let ?E = "\<lambda>t. committed t = committed s"
  have bal: "runs ?Q (bindA (get_balance u) (\<lambda>b. returnA (grant_result_of b))) (\<lambda>_. ?Q) ?E" for u
    unfolding get_balance_def by (intro runs_bind [where Q = "\<lambda>_. ?Q"] runs_query runs_liftE runs_returnA) simp_all
  have dup: "runs (\<lambda>t. t = s) (is_duplicate_grant cmd) (\<lambda>_. ?P) ?E"
    using is_duplicate_frame [of cmd s] by (intro runsI) auto
  have upd: "runs ?P (get_user_credit_for_update id u) (\<lambda>_. ?P) ?E" for u
    unfolding get_user_credit_for_update_def
    by (intro runs_bind [where Q = "\<lambda>_. ?P"] runs_quiet runs_query runs_liftE) simp_all
  have save: "runs ?P (save_user_credit uc) (\<lambda>_. ?P) ?E" for uc
    unfolding save_user_credit_def
    by (intro runs_write) (auto simp: same_promotions_def put_user_credit_def split: option.splits)
  have app: "runs ?P (append_transaction i t tx) (\<lambda>_. ?P) ?E" for i t tx
    unfolding append_transaction_def by (intro runs_write) (simp_all add: same_promotions_txs)
  have pub: "runs ?P (publish reg es) (\<lambda>_. ?P) ?E" for reg es
  proof (intro runsI)
    fix t x t' assume "?P t" "publish reg es t = (Inr x, t')"
    then show "?P t'" using publish_frame [of reg es t "Inr x" t'] by (auto simp: same_promotions_def)
  next
    fix t e t' assume "?P t" "publish reg es t = (Inl e, t')"
    then show "?E t'" using publish_frame [of reg es t "Inl e" t'] by auto
  qed
  have flush: "runs ?P (flush_pending_writes id) (\<lambda>_. ?P) ?E"
    unfolding flush_pending_writes_def
    by (intro runs_bind [where Q = "\<lambda>_. ?P"] runs_quiet runs_catch [where ?E1.0 = ?E] runs_flush runs_if runs_raiseA)
      simp_all
  have rbk: "runs ?E (deferred_rollback (Some rollback_session)) (\<lambda>_. ?Q) ?E"
    by (simp add: runs_def deferred_rollback_def rollback_session_def)
  have tail: "runs ?P (catchA
         (bindA (flush_pending_writes id) (\<lambda>_. bindA deferred_commit (\<lambda>_. returnA b)))
         (\<lambda>e. if e = CreditTransactionWriteConflictError then
                (if \<not> has_idempotent_identity cmd then raiseA e
                 else bindA (deferred_rollback (Some rollback_session)) (\<lambda>_.
                      bindA (get_balance (gc_user_id cmd)) (\<lambda>b. returnA (grant_result_of b))))
              else raiseA e)) (\<lambda>_. ?Q) ?E" for b
    unfolding deferred_commit_def
    by (intro runs_catch [where ?E1.0 = ?E] runs_bind [OF flush] runs_bind [where Q = "\<lambda>_. ?P"] runs_returnA
        runs_if runs_raiseA runs_bind [OF rbk bal]) simp_all
  show ?thesis
    unfolding grant_credit_def serial_simps
    by (intro runs_bind [OF dup] runs_if runs_bind [OF upd] runs_bind [OF save] runs_bind [OF app] runs_bind [OF pub]
        runs_bind [where Q = "\<lambda>_. ?P"] runs_liftE tail runs_weaken [OF bal]) simp_all
qed

lemma deferred_grant_commits:
  assumes "\<not> tx_failed s" and "credit_violation (working s) = None" and "grant_admissible env cmd (working s)"
    and "\<not> grant_seen cmd (working s)"
  shows "grant_credit deferred_commit (deferred_rollback (Some rollback_session)) (serial env) cmd s =
    (Inr (grant_result_of (raised_balance (amount_value (gc_amount cmd)) (stored_balance (gc_user_id cmd) (working s)))),
     s\<lparr>working := grant_effect (serial env) cmd (working s)\<rparr>)"
proof -
  have adm: "grant_admissible (serial env) cmd (working s)"
    using assms(3) by (simp add: grant_admissible_def fresh_ids_def serial_def)
  have v: "credit_violation (grant_effect (serial env) cmd (working s)) = None"
    by (rule grant_effect_valid [OF assms(2) adm assms(4)])
  have ok: "grant_command_ok cmd" using assms(3) by (simp add: grant_admissible_def)
  show ?thesis
    using assms(1,2,4) ok v
    by (subst grant_credit_fresh)
      (simp_all add: grant_tail_def after_def catchA_def bindA_def flush_pending_writes_def session_apply deferred_commit_def returnA_def)
qed

interpretation credits_port: promotion_credit_port lower "grant_ocr_credit (serial env)"
    "\<lambda>g. grant_effect (serial env) (redemption_grant g)" "credits_grantable (serial env)" for lower env
proof unfold_locales
  fix s :: "'a promotion_db_scheme session" and g
  assume a: "\<not> tx_failed s" "promotion_violation lower (working s) = None" "credits_grantable (serial env) g (working s)"
  then have adm: "grant_admissible env (redemption_grant g) (working s)"
    by (simp add: credits_grantable_def grant_admissible_def fresh_ids_def serial_def)
  have c: "credit_violation (working s) = None" using a(2) by (simp add: promotion_violation_iff)
  have "\<not> cg_amount g < 1" "\<not> grant_seen (redemption_grant g) (working s)"
    using a(3) by (simp_all add: credits_grantable_def)
  then show "\<exists>res. grant_ocr_credit (serial env) g s = (Inr res, s\<lparr>working := grant_effect (serial env) (redemption_grant g) (working s)\<rparr>)"
    by (simp add: grant_ocr_credit_amount bindA_def deferred_grant_commits [OF a(1) c adm] returnA_def)
next
  fix db :: "'a promotion_db_scheme" and g
  show "same_promotions db (grant_effect (serial env) (redemption_grant g) db)" by (rule grant_effect_promotions)
  assume "promotion_violation lower db = None" "credits_grantable (serial env) g db"
  then show "promotion_violation lower (grant_effect (serial env) (redemption_grant g) db) = None"
    using grant_effect_valid [of db "serial env" "redemption_grant g"] grant_effect_promotions tables_ok_cong
    unfolding promotion_violation_iff credits_grantable_def by blast
next
  fix s s' :: "'a promotion_db_scheme session" and g r
  assume "grant_ocr_credit (serial env) g s = (r, s')"
  then show "committed s' = committed s \<and>
      (\<forall>res. r = Inr res \<longrightarrow> same_promotions (working s) (working s') \<or> working s' = committed s)"
    using deferred_grant_frame [of s env "redemption_grant g"]
    by (auto simp: grant_ocr_credit_amount runs_def bindA_def returnA_def raiseA_def split: if_splits prod.splits sum.splits)
qed

end
