(* ===== verification/Promotions_Outcomes.thy ===== *)
theory Promotions_Outcomes
  imports Promotions_Redemption
begin

text \<open>
  The use cases of redemption, from the request to the committed tables: granted exactly when
  the domain lets it through, replayed on a repeated key, at most once per signup beneficiary,
  and never beyond a limit, in any sequence of calls.
\<close>

section \<open>Looking up what is redeemed\<close>

lemma tables_of_valid: "promotion_violation lower db = None \<Longrightarrow> promotion_tables_ok lower db"
  by (simp add: promotion_violation_iff)

lemma promotion_to_domain_stored:
  assumes "promotion_tables_ok lower db" and "r \<in> set (promotions db)"
  shows "promotion_to_domain r = Inr (domain_promotion r)"
  using assms by (intro promotion_to_domain_valid) (auto simp: promotion_tables_ok_def promotion_row_ok_def)

lemma interfere_open: "interfere rival (open_session db) = (Inr (), open_session (rival db))"
  by (simp add: interfere_def modifyA_def open_session_def)

lemma query_open [simp]: "query_session f (open_session db) = (Inr (f db), open_session db)"
  by (simp add: query_session_def)

lemma find_promotion_open:
  assumes "promotion_tables_ok lower (rival db)"
  shows "find_promotion_for_update rival i (open_session db) =
    (Inr (map_option domain_promotion (find (\<lambda>r. pr_id r = i) (promotions (rival db)))), open_session (rival db))"
proof (cases "find (\<lambda>r. pr_id r = i) (promotions (rival db))")
  case (Some r)
  with find_SomeD [OF Some] promotion_to_domain_stored [OF assms, of r] show ?thesis
    by (simp add: find_promotion_for_update_def bindA_def interfere_open liftE_def map_result_def)
qed (simp add: find_promotion_for_update_def bindA_def interfere_open liftE_def map_result_def)

lemma promotion_row_context:
  "promotion_row_ok r \<Longrightarrow> pm_context (domain_promotion r) = Some SIGNUP \<longleftrightarrow> pr_context r = Some ''signup''"
  by (auto simp: promotion_row_ok_def promotion_row_checks_def domain_promotion_def promotion_context_of_def)

lemma redemption_to_domain_stored:
  assumes "promotion_tables_ok lower db" and "x \<in> set (promotion_redemptions db)"
  obtains rd where "redemption_to_domain x = Inr rd" and "rd_id rd = rr_id x" and "rd_promotion_id rd = rr_promotion_id x"
    and "rd_promotion_code_id rd = rr_promotion_code_id x" and "redemption_status_value (rd_status rd) = rr_status x"
proof -
  have "redemption_row_ok x" using assms by (simp add: promotion_tables_ok_def)
  then have "rr_status x \<in> {''granted'', ''rejected'', ''failed''}"
    by (simp add: redemption_row_ok_def redemption_row_checks_def)
  then obtain st where "redemption_status_of (rr_status x) = Some st" "redemption_status_value st = rr_status x"
    by (auto simp: redemption_status_of_def)
  then show thesis using that by (simp add: redemption_to_domain_def)
qed

lemma replay_none:
  assumes "key \<notin> rr_idempotency_key ` set (promotion_redemptions db)"
  shows "replay_if_existing balance_port env u key (open_session db) = (Inr None, open_session db)"
proof -
  have "find (\<lambda>r. rr_idempotency_key r = key) (promotion_redemptions db) = None"
    using assms by (auto simp: find_None_iff)
  then show ?thesis
    by (simp add: replay_if_existing_def find_redemption_by_idempotency_key_def bindA_def liftE_def map_result_def returnA_def)
qed

section \<open>Idempotency keys\<close>

lemma uuid_str_append_inj: "uuid_str u @ xs = uuid_str v @ ys \<longleftrightarrow> u = v \<and> xs = ys"
  by (simp add: append_eq_append_conv length_uuid_str)

lemma key_suffix_inj:
  "(case k of None \<Rightarrow> [] | Some t \<Rightarrow> ascii '':'' @ t) = (case k' of None \<Rightarrow> [] | Some t \<Rightarrow> ascii '':'' @ t) \<longleftrightarrow> k = k'"
  by (auto simp: ascii_def split: option.splits)

text \<open>The keys under which redemptions are recorded never collide: two requests have the same key
  exactly when they are for the same promotion (or code), the same user and the same client
  key, and a redemption by promotion never has the key of one by code or of a signup.\<close>

theorem redemption_keys_never_collide:
  "(redemption_idempotency_key p u k = redemption_idempotency_key p' u' k' \<longleftrightarrow> p = p' \<and> u = u' \<and> k = k') \<and>
   (code_idempotency_key c u k = code_idempotency_key c' u' k' \<longleftrightarrow> c = c' \<and> u = u' \<and> k = k') \<and>
   (signup_redemption_key p i = signup_redemption_key p' i' \<longleftrightarrow> p = p' \<and> i = i') \<and>
   redemption_idempotency_key p u k \<noteq> code_idempotency_key c u' k' \<and>
   signup_redemption_key p i \<noteq> redemption_idempotency_key p' u k \<and>
   signup_redemption_key p i \<noteq> code_idempotency_key c u k"
  by (simp add: redemption_idempotency_key_def code_idempotency_key_def signup_redemption_key_def uuid_str_append_inj
      key_suffix_inj) (simp add: ascii_def)

section \<open>Redemption by promotion\<close>

text \<open>The request as the application wires it: the credits module behind the port, one transaction.\<close>

abbreviation redeem_promotion_request where
  "redeem_promotion_request lower cenv env \<equiv>
     create_promotion_redemption lower (sqlalchemy_commit (promotion_violation lower)) (grant_ocr_credit (serial cenv))
       get_ocr_credit_balance env"

abbreviation redeem_code_request where
  "redeem_code_request lower cenv env \<equiv>
     create_promotion_code_redemption lower (sqlalchemy_commit (promotion_violation lower)) (grant_ocr_credit (serial cenv))
       get_ocr_credit_balance env"

abbreviation redeem_signup_request where
  "redeem_signup_request lower cenv env \<equiv>
     redeem_signup_promotion lower (sqlalchemy_commit (promotion_violation lower)) (grant_ocr_credit (serial cenv)) env"

text \<open>A granted redemption and its credits, as one effect on the tables.\<close>

definition redemption_effect ::
    "'z promotion_db_scheme credit_env \<Rightarrow> 'z promotion_db_scheme promotion_env \<Rightarrow> uuid \<Rightarrow> promotion_row \<Rightarrow>
     promotion_code option \<Rightarrow> ustr option \<Rightarrow> ustr \<Rightarrow> ustr \<Rightarrow> 'z promotion_db_scheme \<Rightarrow> 'z promotion_db_scheme" where
  "redemption_effect cenv env u r code b key credit_key db =
     grant_effect (serial cenv) (redemption_grant (grant_request env u r credit_key)) (redeem_writes env u r code b key db)"

definition redemption_possible ::
    "(ustr \<Rightarrow> ustr) \<Rightarrow> 'z promotion_db_scheme credit_env \<Rightarrow> 'z promotion_db_scheme promotion_env \<Rightarrow> uuid \<Rightarrow>
     promotion_row \<Rightarrow> promotion_code option \<Rightarrow> ustr option \<Rightarrow> ustr \<Rightarrow> ustr \<Rightarrow> 'z promotion_db_scheme \<Rightarrow> bool" where
  "redemption_possible lower cenv env u r code b key credit_key db \<longleftrightarrow>
     redeem_ready lower env u r code b key db \<and>
     credits_grantable (serial cenv) (grant_request env u r credit_key) (redeem_writes env u r code b key db)"

lemma redemption_possibleD:
  assumes "redemption_possible lower cenv env u r code b key credit_key db"
  shows "promotion_tables_ok lower db" "r \<in> set (promotions db)" "promotion_row_ok r"
    "find (\<lambda>x. pr_id x = pr_id r) (promotions db) = Some r" "key \<notin> rr_idempotency_key ` set (promotion_redemptions db)"
proof -
  show t: "promotion_tables_ok lower db" and r: "r \<in> set (promotions db)"
    using assms by (auto simp: redemption_possible_def redeem_ready_def promotion_violation_iff)
  then show "promotion_row_ok r" by (simp add: promotion_tables_ok_def)
  show "find (\<lambda>x. pr_id x = pr_id r) (promotions db) = Some r" by (rule find_stored_promotion [OF t r])
  show "key \<notin> rr_idempotency_key ` set (promotion_redemptions db)"
    using assms by (auto simp: redemption_possible_def redeem_ready_def fresh_redemption_def redemption_to_record_def)
qed

text \<open>How a redemption ends that nothing but the domain can refuse.\<close>

definition redemption_outcome ::
    "'z promotion_db_scheme credit_env \<Rightarrow> 'z promotion_db_scheme promotion_env \<Rightarrow> uuid \<Rightarrow> promotion_row \<Rightarrow>
     promotion_code option \<Rightarrow> ustr \<Rightarrow> 'z promotion_db_scheme \<Rightarrow>
     (exn + redemption_result) \<times> 'z promotion_db_scheme session \<Rightarrow> bool" where
  "redemption_outcome cenv env u r code key db out \<longleftrightarrow>
     (case out of
        (Inr res, s') \<Rightarrow>
          redeemable (pe_now env) u r code db \<and> s' = open_session (redemption_effect cenv env u r code None key key db) \<and>
          rs_redemption_id res = pe_redemption_id env \<and> rs_credit_granted res \<and> \<not> rs_already_redeemed res \<and>
          rs_benefit_amount res = pr_benefit_amount r \<and>
          rs_remaining_redemptions res = map_option (\<lambda>m. max (m - (pr_times_redeemed r + 1)) 0) (pr_max_redemptions r)
      | (Inl e, s') \<Rightarrow>
          \<not> redeemable (pe_now env) u r code db \<and> (\<exists>m. e = PromotionRedemptionConflictError m) \<and> s' = open_session db)"

lemma redeem_outcome:
  assumes "redemption_possible lower cenv env u r code None key key db"
  shows "redemption_outcome cenv env u r code key db
    (redeem lower (sqlalchemy_commit (promotion_violation lower)) (grant_ocr_credit (serial cenv)) env u
       (domain_promotion r) code key (open_session db))"
proof (cases "redeemable (pe_now env) u r code db")
  case True
  have "\<not> tx_failed (open_session db)" "redeem_ready lower env u r code None key (working (open_session db))"
    "redeemable (pe_now env) u r code (working (open_session db))"
    "credits_grantable (serial cenv) (grant_request env u r key) (redeem_writes env u r code None key (working (open_session db)))"
    using assms True by (simp_all add: redemption_possible_def)
  from credits_port.redeem_granted [OF this] obtain res where
    "redeem lower (sqlalchemy_commit (promotion_violation lower)) (grant_ocr_credit (serial cenv)) env u
       (domain_promotion r) code key (open_session db) = (Inr res, open_session (redemption_effect cenv env u r code None key key db))"
    "\<not> rs_already_redeemed res" "rs_credit_granted res" "rs_redemption_id res = pe_redemption_id env"
    "rs_benefit_amount res = pr_benefit_amount r"
    "rs_remaining_redemptions res = map_option (\<lambda>m. max (m - (pr_times_redeemed r + 1)) 0) (pr_max_redemptions r)"
    unfolding redemption_effect_def open_session_simps by blast
  with True show ?thesis by (simp add: redemption_outcome_def)
next
  case False
  then show ?thesis
    using redeem_refused [of "open_session db" env u r code lower "sqlalchemy_commit (promotion_violation lower)"
      "grant_ocr_credit (serial cenv)" key]
    by (auto simp: redemption_outcome_def)
qed

text \<open>C6. A redemption by promotion id is granted exactly when the promotion is active, in its window
  and not exhausted and the user has redemptions left. A granted one has committed the
  redemption row, the counter, the credits with their ledger row and both events, in one
  transaction; a refused one raises the conflict and changes nothing.\<close>

theorem promotion_redemption_outcome:
  assumes "pe_rival_lock env db0 = db" and "pr_context r \<noteq> Some ''signup''"
    and "redemption_possible lower cenv env u r None None key key db" and "key = redemption_idempotency_key (pr_id r) u k"
  shows "redemption_outcome cenv env u r None key db (redeem_promotion_request lower cenv env u (pr_id r) k (open_session db0))"
proof -
  note p = redemption_possibleD [OF assms(3)]
  have found: "find_promotion_for_update (pe_rival_lock env) (pr_id r) (open_session db0) =
      (Inr (Some (domain_promotion r)), open_session db)"
    using find_promotion_open [of lower "pe_rival_lock env" db0 "pr_id r"] p(1,4) assms(1) by simp
  show ?thesis
    using redeem_outcome [OF assms(3)] promotion_row_context [OF p(3)] assms(2) replay_none [OF p(5)]
    by (simp add: create_promotion_redemption_def bindA_def found assms(4) [symmetric])
qed

text \<open>A redemption by code is granted exactly when both the code and its promotion allow it, and
  then counts on both.\<close>

theorem code_redemption_outcome:
  assumes "pe_rival_code env db0 = db" and "pe_rival_lock env db = db" and "pr_context r \<noteq> Some ''signup''"
    and "find (\<lambda>c. lower (pc_code c) = lower text) (promotion_codes db) = Some c" and "pc_promotion_id c = pr_id r"
    and "redemption_possible lower cenv env u r (Some c) None key key db" and "key = code_idempotency_key (pc_id c) u k"
  shows "redemption_outcome cenv env u r (Some c) key db (redeem_code_request lower cenv env u text k (open_session db0))"
proof -
  note p = redemption_possibleD [OF assms(6)]
  have code: "find_code_by_code_for_update lower (pe_rival_code env) text (open_session db0) = (Inr (Some c), open_session db)"
    using assms(1,4) by (simp add: find_code_by_code_for_update_def bindA_def interfere_open)
  have found: "find_promotion_for_update (pe_rival_lock env) (pr_id r) (open_session db) =
      (Inr (Some (domain_promotion r)), open_session db)"
    using find_promotion_open [of lower "pe_rival_lock env" db "pr_id r"] p(1,4) assms(2) by simp
  show ?thesis
    using redeem_outcome [OF assms(6)] promotion_row_context [OF p(3)] assms(3) replay_none [OF p(5)]
    by (simp add: create_promotion_code_redemption_def bindA_def code found assms(5) assms(7) [symmetric])
qed

text \<open>A request repeated with its key is a replay: it grants nothing and changes nothing, and answers
  with the recorded redemption and the current balance.\<close>

theorem promotion_redemption_replayed:
  assumes "pe_rival_lock env db0 = db" and "pe_rival_replay env = id" and "promotion_violation lower db = None"
    and "r \<in> set (promotions db)" and "pr_context r \<noteq> Some ''signup''" and "x \<in> set (promotion_redemptions db)"
    and "rr_idempotency_key x = redemption_idempotency_key (pr_id r) u k"
  shows "\<exists>res. redeem_promotion_request lower cenv env u (pr_id r) k (open_session db0) = (Inr res, open_session db) \<and>
    rs_already_redeemed res \<and> \<not> rs_credit_granted res \<and> rs_redemption_id res = rr_id x \<and>
    rs_promotion_id res = rr_promotion_id x \<and> redemption_status_value (rs_status res) = rr_status x \<and>
    rs_credit_remaining_after res = Some (remaining_count (stored_balance u db))"
proof -
  have t: "promotion_tables_ok lower db" and c: "credit_violation db = None" using assms(3) by (simp_all add: promotion_violation_iff)
  have row: "promotion_row_ok r" using t assms(4) by (simp add: promotion_tables_ok_def)
  have x: "find (\<lambda>y. rr_idempotency_key y = redemption_idempotency_key (pr_id r) u k) (promotion_redemptions db) = Some x"
    using t assms(6,7) unfolding promotion_tables_ok_def by (intro find_unique_key) simp_all
  obtain rd where rd: "redemption_to_domain x = Inr rd" "rd_id rd = rr_id x" "rd_promotion_id rd = rr_promotion_id x"
    "rd_promotion_code_id rd = rr_promotion_code_id x" "redemption_status_value (rd_status rd) = rr_status x"
    by (rule redemption_to_domain_stored [OF t assms(6)])
  obtain p where p: "p \<in> set (promotions db)" "pr_id p = rr_promotion_id x"
    using t assms(6) by (auto simp: promotion_tables_ok_def)
  have first: "find_promotion_for_update (pe_rival_lock env) (pr_id r) (open_session db0) =
      (Inr (Some (domain_promotion r)), open_session db)"
    using find_promotion_open [of lower "pe_rival_lock env" db0 "pr_id r"] find_stored_promotion [OF t assms(4)] t assms(1) by simp
  have again: "find_promotion_for_update (pe_rival_replay env) (rr_promotion_id x) (open_session db) =
      (Inr (Some (domain_promotion p)), open_session db)"
    using find_promotion_open [of lower "pe_rival_replay env" db "rr_promotion_id x"] find_stored_promotion [OF t p(1)] t p(2)
      assms(2) by simp
  show ?thesis
    using row assms(5) c
    by (simp add: create_promotion_redemption_def bindA_def first promotion_row_context replay_if_existing_def
        find_redemption_by_idempotency_key_def liftE_def x map_result_def rd again get_ocr_credit_balance_def get_balance_ok
        returnA_def find_content_by_promotion_id_def redemption_result_of_def)
qed

section \<open>Redemption at signup\<close>

definition beneficiary_redeemed :: "uuid \<Rightarrow> ustr \<Rightarrow> 'z promotion_db_scheme \<Rightarrow> bool" where
  "beneficiary_redeemed i b db \<longleftrightarrow>
     (\<exists>x \<in> set (promotion_redemptions db). rr_promotion_id x = i \<and> rr_beneficiary_key x = Some b)"

lemma find_beneficiary_open:
  assumes "promotion_tables_ok lower db"
  shows "\<exists>rd. find_redemption_by_promotion_and_beneficiary i b (open_session db) = (Inr rd, open_session db) \<and>
    (rd = None \<longleftrightarrow> \<not> beneficiary_redeemed i b db)"
proof (cases "find (\<lambda>r. rr_promotion_id r = i \<and> rr_beneficiary_key r = Some b) (promotion_redemptions db)")
  case None
  then show ?thesis
    using None [unfolded find_None_iff_ball]
    by (auto simp: find_redemption_by_promotion_and_beneficiary_def bindA_def liftE_def map_result_def
        beneficiary_redeemed_def None)
next
  case (Some x)
  note x = find_SomeD [OF Some]
  obtain rd where "redemption_to_domain x = Inr rd"
    using redemption_to_domain_stored [OF assms, of x] x by blast
  then show ?thesis
    using x by (auto simp: find_redemption_by_promotion_and_beneficiary_def bindA_def liftE_def map_result_def
        beneficiary_redeemed_def Some)
qed

lemma find_current_open:
  assumes "promotion_tables_ok lower (rival db)"
  shows "find_current_ocr_credit_promotion_for_update rival at SIGNUP (open_session db) =
    (Inr (map_option domain_promotion (current_promotion at (Some ''signup'') (rival db))), open_session (rival db))"
proof (cases "current_promotion at (Some ''signup'') (rival db)")
  case (Some r)
  with current_promotion_found [OF Some] promotion_to_domain_stored [OF assms, of r] show ?thesis
    by (simp add: find_current_ocr_credit_promotion_for_update_def bindA_def interfere_open liftE_def map_result_def)
qed (simp add: find_current_ocr_credit_promotion_for_update_def bindA_def interfere_open liftE_def map_result_def)

text \<open>A signup for a beneficiary that has not redeemed is the writes of a redemption and their end.\<close>

abbreviation signup_end where
  "signup_end lower cenv env u r key \<equiv>
     bindA (grant_ocr_credit (serial cenv) (grant_request env u r key)) (\<lambda>_.
     bindA (sqlalchemy_commit (promotion_violation lower)) (\<lambda>_. returnA True))"

lemma signup_as_writes:
  assumes "find_current_ocr_credit_promotion_for_update (pe_rival_lock env) (pe_now env) SIGNUP s = (Inr (Some (domain_promotion r)), t)"
    and "find_redemption_by_promotion_and_beneficiary (pr_id r) b t = (Inr None, t)"
    and "promotion_ensure_redeemable (pe_now env) (domain_promotion r) = Inr ()"
    and "key = signup_redemption_key (pr_id r) (pe_redemption_id env)"
    and "credit_key = signup_credit_key (pr_id r) (pe_redemption_id env)"
  shows "redeem_signup_request lower cenv env (u, b) s =
    bindA (create_redemption lower (redemption_of env u r None (Some b) key)) (\<lambda>_.
    bindA (save_promotion lower (promotion_record_redemption (domain_promotion r))) (\<lambda>_.
    bindA (case None of None \<Rightarrow> returnA () | Some c \<Rightarrow> save_code lower (code_record_redemption c)) (\<lambda>_.
    bindA (publish build_promotions_event_registry [redemption_event env u r None key]) (\<lambda>_.
    signup_end lower cenv env u r credit_key)))) t"
  unfolding redeem_signup_promotion_def
  by (subst bindA_Inr, rule assms(1), simp, subst bindA_Inr, rule assms(2))
    (simp add: assms(3-5) bind_pure Let_def create_granted_redemption [where code = None, simplified] pull_events_def
      grant_request_def)

text \<open>At signup the current signup promotion is redeemed once per beneficiary: with no such
  promotion, or a beneficiary that has redeemed it, the answer is \<open>False\<close> and nothing changes;
  otherwise the answer is \<open>True\<close> and redemption, counter, credits and events are committed.\<close>

theorem signup_redemption_outcome:
  assumes "pe_rival_lock env db0 = db" and "promotion_violation lower db = None"
    and "\<And>r. current_promotion (pe_now env) (Some ''signup'') db = Some r \<Longrightarrow> \<not> beneficiary_redeemed (pr_id r) b db \<Longrightarrow>
      redemption_possible lower cenv env u r None (Some b) (signup_redemption_key (pr_id r) (pe_redemption_id env))
        (signup_credit_key (pr_id r) (pe_redemption_id env)) db"
  shows "redeem_signup_request lower cenv env (u, b) (open_session db0) =
    (case current_promotion (pe_now env) (Some ''signup'') db of
       None \<Rightarrow> (Inr False, open_session db)
     | Some r \<Rightarrow>
         if beneficiary_redeemed (pr_id r) b db then (Inr False, open_session db)
         else (Inr True, open_session (redemption_effect cenv env u r None (Some b)
                 (signup_redemption_key (pr_id r) (pe_redemption_id env))
                 (signup_credit_key (pr_id r) (pe_redemption_id env)) db)))"
proof (cases "current_promotion (pe_now env) (Some ''signup'') db")
  case None
  then show ?thesis
    using find_current_open [of lower "pe_rival_lock env" db0 "pe_now env"] tables_of_valid [OF assms(2)] assms(1)
    by (simp add: redeem_signup_promotion_def bindA_def returnA_def)
next
  case (Some r)
  have t: "promotion_tables_ok lower db" by (rule tables_of_valid [OF assms(2)])
  have cur: "find_current_ocr_credit_promotion_for_update (pe_rival_lock env) (pe_now env) SIGNUP (open_session db0) =
      (Inr (Some (domain_promotion r)), open_session db)"
    using find_current_open [of lower "pe_rival_lock env" db0 "pe_now env"] t assms(1) Some by simp
  have ok: "promotion_ensure_redeemable (pe_now env) (domain_promotion r) = Inr ()"
    using current_promotion_found [OF Some] by simp
  obtain rd where rd: "find_redemption_by_promotion_and_beneficiary (pr_id r) b (open_session db) = (Inr rd, open_session db)"
    "rd = None \<longleftrightarrow> \<not> beneficiary_redeemed (pr_id r) b db"
    using find_beneficiary_open [OF t] by blast
  show ?thesis
  proof (cases rd)
    case (Some y)
    then show ?thesis
      using \<open>current_promotion (pe_now env) (Some ''signup'') db = Some r\<close> rd
      by (simp add: redeem_signup_promotion_def bindA_def cur rd(1) returnA_def)
  next
    case None
    let ?key = "signup_redemption_key (pr_id r) (pe_redemption_id env)"
    let ?ckey = "signup_credit_key (pr_id r) (pe_redemption_id env)"
    have p: "redemption_possible lower cenv env u r None (Some b) ?key ?ckey db"
      using assms(3) Some rd None by simp
    note ready = p [unfolded redemption_possible_def, THEN conjunct1]
    note run = redemption_writes_run [of "open_session db" lower env u r None "Some b" ?key, simplified, OF ready]
    let ?W = "redeem_writes env u r None (Some b) ?key db"
    let ?g = "grant_request env u r ?ckey"
    let ?D = "redemption_effect cenv env u r None (Some b) ?key ?ckey db"
    have v: "promotion_violation lower ?W = None" by (rule redeem_states_ok(4) [OF ready])
    have g: "credits_grantable (serial cenv) ?g ?W" using p by (simp add: redemption_possible_def)
    obtain res where res: "grant_ocr_credit (serial cenv) ?g ((open_session db)\<lparr>working := ?W\<rparr>) =
        (Inr res, (open_session db)\<lparr>working := ?D\<rparr>)"
      using credits_port.grants [of "(open_session db)\<lparr>working := ?W\<rparr>" lower cenv ?g] v g by (auto simp: redemption_effect_def)
    have D: "promotion_violation lower ?D = None"
      unfolding redemption_effect_def by (rule credits_port.grant_valid [OF v g])
    let ?tail = "signup_end lower cenv env u r ?ckey"
    have tail: "?tail ((open_session db)\<lparr>working := ?W\<rparr>) = (Inr True, open_session ?D)"
      by (subst bindA_Inr, rule res)
        (simp add: D bindA_def sqlalchemy_commit_def commit_session_def flush_session_def modifyA_def returnA_def open_session_def)
    have "redeem_signup_request lower cenv env (u, b) (open_session db0) = ?tail ((open_session db)\<lparr>working := ?W\<rparr>)"
      using rd None ok cur by (simp add: signup_as_writes run)
    with tail show ?thesis using Some rd(2) None by simp
  qed
qed

section \<open>A race for the first balance\<close>

text \<open>
  The grant inside a redemption loses the race for the user's first balance row against a
  different grant: the write conflict is taken for a replay, and the deferred rollback is the
  rollback of the whole session.
\<close>

lemma deferred_grant_race:
  assumes "\<not> tx_failed s" and "credit_violation (working s) = None" and "grant_admissible env cmd (working s)"
    and "\<not> grant_seen cmd (working s)" and "has_idempotent_identity cmd"
    and "find_credit_row (gc_user_id cmd) ''ocr'' (working s) = None"
    and "ce_rival_lock env = id" and "ce_rival_flush env = insert_first_balance row tx"
    and "user_credit_key row = (gc_user_id cmd, ''ocr'')" and "user_credit_row_ok row"
    and "credit_violation (insert_first_balance row tx (committed s)) = None"
  shows "\<exists>res. grant_credit deferred_commit (deferred_rollback (Some rollback_session)) env cmd s =
    (Inr res, s\<lparr>committed := insert_first_balance row tx (committed s), working := insert_first_balance row tx (committed s)\<rparr>)"
proof -
  let ?w = "working s"
  let ?b = "raised_balance (amount_value (gc_amount cmd)) (stored_balance (gc_user_id cmd) ?w)"
  let ?t = "after id (grant_effect env cmd) s"
  have rows: "user_credits (grant_effect env cmd ?w) = user_credits ?w @
      [user_credit_to_row \<lparr>pending_events = [], uc_id = gc_user_id cmd, uc_feature_key = OCR, uc_balance = ?b\<rparr>]"
    using assms(6) by (simp add: grant_effect_def put_balance_def put_user_credit_def)
  have "\<forall>x \<in> set (user_credits (insert_first_balance row tx (grant_effect env cmd ?w))). user_credit_row_ok x"
    using grant_effect_valid [OF assms(2-4)] assms(10) by (auto simp: credit_violation_None insert_first_balance_def)
  moreover have "\<not> distinct (map user_credit_key (user_credits (insert_first_balance row tx (grant_effect env cmd ?w))))"
    using assms(9) by (simp add: insert_first_balance_def rows) (simp add: user_credit_key_def user_credit_to_row_def)
  ultimately have v: "credit_violation (ce_rival_flush env (working ?t)) = Some (IntegrityError ''pk_user_credits'')"
    using violation_pk assms(8) by simp
  have t: "\<not> tx_failed ?t" "is_write_conflict (IntegrityError ''pk_user_credits'')"
    using assms(1) by (simp_all add: idempotent_constraints_def)
  have vc: "credit_violation (ce_rival_flush env (committed ?t)) = None" using assms(8,11) by simp
  have fresh: "grant_credit deferred_commit (deferred_rollback (Some rollback_session)) env cmd s =
      grant_tail deferred_commit (deferred_rollback (Some rollback_session)) env cmd ?b ?t"
    using grant_credit_fresh [of s env cmd] assms(1-4,7) by (simp add: grant_admissible_def)
  show ?thesis
    unfolding fresh using deferring.grant_tail_conflict [OF t(1) v t(2) assms(5) vc] assms(8) by (simp add: after_def)
qed

text \<open>C33. Where it fails: a redemption for a user without a balance row, racing with another first grant
  for the same user. The rollback of the losing grant takes the redemption with it, the commit
  that follows commits nothing, and the request still answers that credits were granted.\<close>

theorem redemption_lost_in_balance_race:
  assumes "redeem_ready lower env u r None None key db" and "redeemable (pe_now env) u r None db"
    and "db1 = redeem_writes env u r None None key db" and "cmd = redemption_grant (grant_request env u r key)"
    and "1 \<le> pr_benefit_amount r" and "grant_admissible cenv cmd db1" and "\<not> grant_seen cmd db1"
    and "find_credit_row u ''ocr'' db1 = None"
    and "ce_rival_lock cenv = id" and "ce_rival_flush cenv = insert_first_balance row tx"
    and "user_credit_key row = (u, ''ocr'')" and "user_credit_row_ok row"
    and "promotion_violation lower (insert_first_balance row tx db) = None"
  shows "\<exists>res. redeem lower (sqlalchemy_commit (promotion_violation lower)) (grant_ocr_credit cenv) env u
      (domain_promotion r) None key (open_session db) = (Inr res, open_session (insert_first_balance row tx db)) \<and>
    rs_credit_granted res \<and> rs_redemption_id res = pe_redemption_id env \<and>
    promotion_redemptions (insert_first_balance row tx db) = promotion_redemptions db"
proof -
  let ?s = "(open_session db)\<lparr>working := db1\<rparr>"
  let ?lost = "insert_first_balance row tx db"
  have v1: "credit_violation db1 = None"
    using redeem_states_ok(4) [OF assms(1)] assms(3) by (simp add: promotion_violation_iff)
  have vl: "credit_violation ?lost = None" using assms(13) by (simp add: promotion_violation_iff)
  have cmd: "gc_user_id cmd = u" "has_idempotent_identity cmd"
    using assms(4) by (simp_all add: redemption_grant_def grant_request_def has_idempotent_identity_def)
  obtain res where "grant_credit deferred_commit (deferred_rollback (Some rollback_session)) cenv cmd ?s =
      (Inr res, ?s\<lparr>committed := ?lost, working := ?lost\<rparr>)"
    using deferred_grant_race [of ?s cenv cmd row tx] v1 assms(6-12) cmd vl by auto
  then have "grant_ocr_credit cenv (grant_request env u r key) ?s =
      (Inr \<lparr>cgr_credit_balance_after = Some (gr_total_granted_count res),
            cgr_credit_remaining_after = Some (gr_remaining_count res)\<rparr>, ?s\<lparr>committed := ?lost, working := ?lost\<rparr>)"
    using assms(4,5) by (simp add: grant_ocr_credit_amount bindA_def returnA_def grant_request_def)
  moreover have "?s\<lparr>committed := ?lost, working := ?lost\<rparr> = open_session ?lost" by (simp add: open_session_def)
  ultimately obtain g where g: "grant_ocr_credit cenv (grant_request env u r key) ?s = (Inr g, open_session ?lost)"
    by simp
  have c: "sqlalchemy_commit (promotion_violation lower) (open_session ?lost) = (Inr (), open_session ?lost)"
    using assms(13) by (simp add: sqlalchemy_commit_def commit_session_apply open_session_def)
  have kept: "promotion_redemptions ?lost = promotion_redemptions db" by (simp add: insert_first_balance_def)
  have s: "\<not> tx_failed (open_session db)" "redeem_ready lower env u r None None key (working (open_session db))"
    "redeemable (pe_now env) u r None (working (open_session db))" using assms(1,2) by simp_all
  have "(open_session db)\<lparr>working := redeem_writes env u r None None key (working (open_session db))\<rparr> = ?s"
    using assms(3) by simp
  then show ?thesis
    unfolding redeem_runs [OF s] redeem_tail_def
    by (simp add: bindA_def g c find_content_by_promotion_id_def returnA_def redemption_result_of_def kept)
qed

end
