(* ===== verification/Promotions_Limits.thy ===== *)
theory Promotions_Limits
  imports Promotions_Outcomes
begin

text \<open>
  The limits of promotions and codes, over any sequence of redemption requests: the counters
  count the redemptions, and no limit is ever exceeded.
\<close>

section \<open>Counters and limits\<close>

definition redemptions_of :: "(redemption_row \<Rightarrow> bool) \<Rightarrow> 'z promotion_db_scheme \<Rightarrow> int" where
  "redemptions_of p db = int (length (filter p (promotion_redemptions db)))"

definition promotion_within :: "'z promotion_db_scheme \<Rightarrow> promotion_row \<Rightarrow> bool" where
  "promotion_within db r \<longleftrightarrow>
     pr_times_redeemed r = redemptions_of (\<lambda>x. rr_promotion_id x = pr_id r) db \<and>
     (\<forall>m \<in> set_option (pr_max_redemptions r). pr_times_redeemed r \<le> m) \<and>
     (if pr_context r = Some ''signup''
      then \<forall>x \<in> set (promotion_redemptions db). rr_promotion_id x = pr_id r \<longrightarrow> rr_beneficiary_key x \<noteq> None
      else \<forall>u. int (length (user_redemptions u (pr_id r) db)) \<le> pr_max_redemptions_per_user r)"

text \<open>
  The limit per user is for redemptions on request; a sign-up promotion is only redeemed at sign-up, which does
  not look at that limit but at the beneficiary.
\<close>

definition beneficiary_redemptions :: "ustr \<Rightarrow> uuid \<Rightarrow> 'z promotion_db_scheme \<Rightarrow> redemption_row list" where
  "beneficiary_redemptions b i db =
     filter (\<lambda>x. rr_promotion_id x = i \<and> rr_beneficiary_key x = Some b) (promotion_redemptions db)"

lemma one_per_beneficiary:
  assumes "promotion_tables_ok lower db"
  shows "length (beneficiary_redemptions b i db) \<le> 1"
proof -
  have "length (filter (\<lambda>x. rr_promotion_id x = i \<and> rr_beneficiary_key x = Some b) rows) =
      length (filter ((=) (i, b)) (List.map_filter beneficiary_key_of rows))" for rows
    by (induction rows) (auto simp: List.map_filter_simps beneficiary_key_of_def split: option.split)
  moreover have "length (filter ((=) k) ks) \<le> 1" if "distinct ks" for k and ks :: "(uuid \<times> ustr) list"
    using that by (induction ks) (auto simp: filter_empty_conv)
  ultimately show ?thesis
    using assms by (simp add: beneficiary_redemptions_def promotion_tables_ok_def)
qed

definition code_within :: "'z promotion_db_scheme \<Rightarrow> promotion_code \<Rightarrow> bool" where
  "code_within db c \<longleftrightarrow>
     pc_times_redeemed c = redemptions_of (\<lambda>x. rr_promotion_code_id x = Some (pc_id c)) db \<and>
     (\<forall>m \<in> set_option (pc_max_redemptions c). pc_times_redeemed c \<le> m)"

definition within_limits :: "'z promotion_db_scheme \<Rightarrow> bool" where
  "within_limits db \<longleftrightarrow>
     (\<forall>r \<in> set (promotions db). promotion_within db r) \<and> (\<forall>c \<in> set (promotion_codes db). code_within db c)"

lemma within_limits_cong: "same_promotions db db' \<Longrightarrow> within_limits db' = within_limits db"
  by (simp add: same_promotions_def within_limits_def promotion_within_def code_within_def redemptions_of_def
      user_redemptions_def)

text \<open>What the domain demands of one more redemption of a promotion, or of a code.\<close>

definition room_left :: "uuid \<Rightarrow> promotion_row \<Rightarrow> promotion_code option \<Rightarrow> 'z promotion_db_scheme \<Rightarrow> bool" where
  "room_left u r code db \<longleftrightarrow>
     (\<forall>m \<in> set_option (pr_max_redemptions r). pr_times_redeemed r < m) \<and>
     (pr_context r \<noteq> Some ''signup'' \<longrightarrow> int (length (user_redemptions u (pr_id r) db)) < pr_max_redemptions_per_user r) \<and>
     (\<forall>c \<in> set_option code. \<forall>m \<in> set_option (pc_max_redemptions c). pc_times_redeemed c < m)"

lemma redeemable_room: "redeemable now u r code db \<Longrightarrow> room_left u r code db"
  by (auto simp: redeemable_def room_left_def promotion_redeemable_iff code_redeemable_iff split: option.splits)

lemma redemption_row_simps [simp]:
  "rr_promotion_id (redemption_to_record (redemption_of env u r code b key)) = pr_id r"
  "rr_promotion_code_id (redemption_to_record (redemption_of env u r code b key)) = map_option pc_id code"
  "rr_user_id (redemption_to_record (redemption_of env u r code b key)) = u"
  "rr_beneficiary_key (redemption_to_record (redemption_of env u r code b key)) = b"
  by (simp_all add: redemption_to_record_def)

lemma redeem_writes_tables:
  "promotions (redeem_writes env u r code b key db) =
     update_rows (\<lambda>x. pr_id x = pr_id r) (\<lambda>x. x\<lparr>pr_times_redeemed := pr_times_redeemed x + 1\<rparr>) (promotions db)"
  "promotion_codes (redeem_writes env u r code b key db) =
     (case code of None \<Rightarrow> promotion_codes db
      | Some c \<Rightarrow> update_rows (\<lambda>x. pc_id x = pc_id c) (\<lambda>x. x\<lparr>pc_times_redeemed := pc_times_redeemed x + 1\<rparr>)
                     (promotion_codes db))"
  "promotion_redemptions (redeem_writes env u r code b key db) =
     promotion_redemptions db @ [redemption_to_record (redemption_of env u r code b key)]"
  by (simp_all add: redeem_writes_def Let_def take_promotion_def take_code_def add_redemption_def split: option.split)

lemma redemptions_of_redeem:
  "redemptions_of p (redeem_writes env u r code b key db) =
     redemptions_of p db + (if p (redemption_to_record (redemption_of env u r code b key)) then 1 else 0)"
  by (simp add: redemptions_of_def redeem_writes_tables)

lemma ball_update_rows: "(\<forall>x \<in> set (update_rows p f rows). P x) \<longleftrightarrow> (\<forall>x \<in> set rows. P (if p x then f x else x))"
  by (induction rows) auto

lemma within_limits_redeem:
  assumes "within_limits db" and "promotion_tables_ok lower db" and "r \<in> set (promotions db)"
    and "case code of None \<Rightarrow> True | Some c \<Rightarrow> c \<in> set (promotion_codes db)" and "room_left u r code db"
    and "pr_context r = Some ''signup'' \<Longrightarrow> b \<noteq> None"
  shows "within_limits (redeem_writes env u r code b key db)"
proof -
  let ?W = "redeem_writes env u r code b key db"
  have one: "x = r" if "x \<in> set (promotions db)" "pr_id x = pr_id r" for x
    using that assms(2,3) by (auto simp: promotion_tables_ok_def distinct_map inj_on_def)
  have onec: "x = c" if "code = Some c" "x \<in> set (promotion_codes db)" "pc_id x = pc_id c" for x c
    using that assms(2,4) by (auto simp: promotion_tables_ok_def distinct_map inj_on_def)
  note cnt = redemptions_of_redeem
  have ucnt: "int (length (user_redemptions v i ?W)) \<le> int (length (user_redemptions v i db)) + (if v = u \<and> i = pr_id r then 1 else 0)"
    for v i by (auto simp: user_redemptions_def redeem_writes_tables)
  have P: "promotion_within ?W (if pr_id x = pr_id r then x\<lparr>pr_times_redeemed := pr_times_redeemed x + 1\<rparr> else x)"
    if "x \<in> set (promotions db)" for x
  proof (cases "pr_id x = pr_id r")
    case True
    then have x: "x = r" using one that by blast
    have w: "promotion_within db r" using assms(1,3) by (simp add: within_limits_def)
    have "int (length (user_redemptions v (pr_id r) ?W)) \<le> pr_max_redemptions_per_user r" if "pr_context r \<noteq> Some ''signup''" for v
    proof -
      have "int (length (user_redemptions v (pr_id r) db)) + (if v = u then 1 else 0) \<le> pr_max_redemptions_per_user r"
        using w assms(5) that by (simp add: promotion_within_def room_left_def)
      with ucnt [of v "pr_id r"] show ?thesis by simp
    qed
    then show ?thesis
      using w assms(5,6) x by (auto simp: promotion_within_def room_left_def cnt redeem_writes_tables)
  next
    case False
    have w: "promotion_within db x" using assms(1) that by (simp add: within_limits_def)
    have "int (length (user_redemptions v (pr_id x) ?W)) \<le> pr_max_redemptions_per_user x" if "pr_context x \<noteq> Some ''signup''" for v
    proof -
      have "int (length (user_redemptions v (pr_id x) db)) \<le> pr_max_redemptions_per_user x"
        using w that by (simp add: promotion_within_def)
      with ucnt [of v "pr_id x"] False show ?thesis by simp
    qed
    then show ?thesis
      using w False by (auto simp: promotion_within_def cnt redeem_writes_tables)
  qed
  have C: "code_within ?W (case code of None \<Rightarrow> x | Some c \<Rightarrow> if pc_id x = pc_id c then x\<lparr>pc_times_redeemed := pc_times_redeemed x + 1\<rparr> else x)"
    if "x \<in> set (promotion_codes db)" for x
  proof -
    have w: "code_within db x" using assms(1) that by (simp add: within_limits_def)
    then show ?thesis
      using onec [OF _ that] assms(5) by (cases code) (auto simp: code_within_def cnt room_left_def)
  qed
  show ?thesis
    unfolding within_limits_def redeem_writes_tables
    using P C by (cases code) (simp_all add: ball_update_rows)
qed

section \<open>Sequences of requests\<close>

datatype promotion_call =
    RedeemPromotion "promotion_db credit_env" "promotion_db promotion_env" uuid uuid "ustr option"
  | RedeemCode "promotion_db credit_env" "promotion_db promotion_env" uuid ustr "ustr option"
  | RedeemSignup "promotion_db credit_env" "promotion_db promotion_env" uuid ustr

text \<open>The requests of other sessions come before or after: the row locks order them.\<close>

definition serial_promotion :: "'db promotion_env \<Rightarrow> 'db promotion_env" where
  "serial_promotion env = env\<lparr>pe_rival_code := id, pe_rival_lock := id, pe_rival_replay := id\<rparr>"

lemma serial_promotion_simps [simp]:
  "pe_rival_code (serial_promotion env) = id" "pe_rival_lock (serial_promotion env) = id"
  "pe_rival_replay (serial_promotion env) = id" "pe_now (serial_promotion env) = pe_now env"
  by (simp_all add: serial_promotion_def)

fun run_promotion_call :: "(ustr \<Rightarrow> ustr) \<Rightarrow> promotion_call \<Rightarrow> promotion_db \<Rightarrow> promotion_db" where
  "run_promotion_call lower (RedeemPromotion cenv env u i k) db =
     committed (snd (redeem_promotion_request lower cenv (serial_promotion env) u i k (open_session db)))"
| "run_promotion_call lower (RedeemCode cenv env u text k) db =
     committed (snd (redeem_code_request lower cenv (serial_promotion env) u text k (open_session db)))"
| "run_promotion_call lower (RedeemSignup cenv env u b) db =
     committed (snd (redeem_signup_request lower cenv (serial_promotion env) (u, b) (open_session db)))"

text \<open>What a request may leave committed: what was there, or one more redemption with room for it.\<close>

definition redemption_step :: "(ustr \<Rightarrow> ustr) \<Rightarrow> 'z promotion_db_scheme \<Rightarrow> 'z promotion_db_scheme \<Rightarrow> bool" where
  "redemption_step lower db db' \<longleftrightarrow>
     db' = db \<or>
     (\<exists>env u r code b key. r \<in> set (promotions db) \<and> (case code of None \<Rightarrow> True | Some c \<Rightarrow> c \<in> set (promotion_codes db)) \<and>
        room_left u r code db \<and> (pr_context r = Some ''signup'' \<longrightarrow> b \<noteq> None) \<and> promotion_violation lower db' = None \<and>
        same_promotions (redeem_writes env u r code b key db) db')"

lemma redemption_step_refl: "redemption_step lower db db"
  by (simp add: redemption_step_def)

lemma redemption_stepI:
  assumes "r \<in> set (promotions db)" and "case code of None \<Rightarrow> True | Some c \<Rightarrow> c \<in> set (promotion_codes db)"
    and "room_left u r code db" and "pr_context r = Some ''signup'' \<longrightarrow> b \<noteq> None"
    and "promotion_violation lower db' = None" and "same_promotions (redeem_writes env u r code b key db) db'"
  shows "redemption_step lower db db'"
  using assms unfolding redemption_step_def by blast

lemma redemption_step_keeps:
  assumes "redemption_step lower db db'" and "promotion_violation lower db = None" and "within_limits db"
  shows "promotion_violation lower db' = None \<and> within_limits db'"
proof -
  have t: "promotion_tables_ok lower db" by (rule tables_of_valid [OF assms(2)])
  show ?thesis
  proof (cases "db' = db")
    case False
    then obtain env u r code b key where step: "r \<in> set (promotions db)"
      "case code of None \<Rightarrow> True | Some c \<Rightarrow> c \<in> set (promotion_codes db)" "room_left u r code db"
      "pr_context r = Some ''signup'' \<longrightarrow> b \<noteq> None" "promotion_violation lower db' = None"
      "same_promotions (redeem_writes env u r code b key db) db'"
      using assms(1) unfolding redemption_step_def by blast
    have "within_limits (redeem_writes env u r code b key db)"
      by (rule within_limits_redeem [OF assms(3) t step(1-3)]) (use step(4) in blast)
    then show ?thesis using within_limits_cong [OF step(6)] step(5) by simp
  qed (use assms(2,3) in simp)
qed

lemma committed_redeem_step:
  fixes db :: promotion_db
  assumes "promotion_tables_ok lower db" and "r \<in> set (promotions db)"
    and "case code of None \<Rightarrow> True | Some c \<Rightarrow> c \<in> set (promotion_codes db)" and "pr_context r \<noteq> Some ''signup''"
  shows "redemption_step lower db (committed (snd (redeem lower (sqlalchemy_commit (promotion_violation lower))
    (grant_ocr_credit (serial cenv)) env u (domain_promotion r) code key (open_session db))))"
proof (cases "redeemable (pe_now env) u r code db")
  case False
  then show ?thesis
    using redeem_refused [of "open_session db" env u r code lower "sqlalchemy_commit (promotion_violation lower)"
      "grant_ocr_credit (serial cenv)" key]
    by (auto simp: redemption_step_def)
next
  case True
  have s: "\<not> tx_failed (open_session db)" "redeemable (pe_now env) u r code (working (open_session db))" using True by simp_all
  have "redemption_committed lower env u r code None key (open_session db)
      (snd (redeem lower (sqlalchemy_commit (promotion_violation lower)) (grant_ocr_credit (serial cenv)) env u
        (domain_promotion r) code key (open_session db)))"
    unfolding redeem_as_writes [OF s] redeem_tail_def
    by (rule runs_result [OF credits_port.writes_all_or_nothing])
      (use assms in \<open>simp_all add: bindA_def find_content_by_promotion_id_def query_session_def returnA_def split: option.splits\<close>)
  then show ?thesis
    using redemption_stepI [OF assms(2,3) redeemable_room [OF True]] assms(4) redemption_step_refl [of lower db]
    by (auto simp: redemption_committed_def)
qed

lemma replay_changes_nothing:
  "runs (\<lambda>t. t = s) (replay_if_existing get_ocr_credit_balance (serial_promotion env) u key) (\<lambda>_ t. t = s) (\<lambda>t. t = s)"
  unfolding replay_if_existing_def find_redemption_by_idempotency_key_def find_promotion_for_update_def
    get_ocr_credit_balance_def get_balance_def find_content_by_promotion_id_def serial_promotion_simps
  by (intro runs_bind [where Q = "\<lambda>_ t. t = s"] runs_query runs_liftE runs_option runs_returnA runs_raiseA runs_quiet)

lemma replay_or_redeem_step:
  fixes db :: promotion_db
  assumes "promotion_tables_ok lower db" and "r \<in> set (promotions db)"
    and "case code of None \<Rightarrow> True | Some c \<Rightarrow> c \<in> set (promotion_codes db)" and "pr_context r \<noteq> Some ''signup''"
  shows "redemption_step lower db (committed (snd (bindA (replay_if_existing get_ocr_credit_balance (serial_promotion env) u key)
    (\<lambda>replayed. case replayed of Some res \<Rightarrow> returnA res
      | None \<Rightarrow> redeem lower (sqlalchemy_commit (promotion_violation lower)) (grant_ocr_credit (serial cenv))
          (serial_promotion env) u (domain_promotion r) code key) (open_session db))))"
proof -
  have stay: "redemption_step lower db db" by (simp add: redemption_step_def)
  obtain out where out: "replay_if_existing get_ocr_credit_balance (serial_promotion env) u key (open_session db) = (out, open_session db)"
    using replay_changes_nothing [of "open_session db" env u key] by (auto simp: runs_def split: prod.splits sum.splits)
  show ?thesis
    using committed_redeem_step [OF assms] stay
    by (cases out) (auto simp: bindA_def out returnA_def split: option.split)
qed

text \<open>Each kind of request, in turn.\<close>

lemma found_serial:
  assumes "promotion_tables_ok lower db"
  shows "find_promotion_for_update id i (open_session db) =
    (Inr (map_option domain_promotion (find (\<lambda>r. pr_id r = i) (promotions db))), open_session db)"
  using find_promotion_open [of lower id db i] assms by simp

lemma on_request:
  assumes "promotion_tables_ok lower db" and "r \<in> set (promotions db)"
  shows "pm_context (domain_promotion r) = Some SIGNUP \<longleftrightarrow> pr_context r = Some ''signup''"
  using assms by (intro promotion_row_context) (simp add: promotion_tables_ok_def)

lemma promotion_request_step:
  assumes "promotion_tables_ok lower db"
  shows "redemption_step lower db (run_promotion_call lower (RedeemPromotion cenv env u i k) db)"
proof (cases "find (\<lambda>r. pr_id r = i) (promotions db)")
  case None
  then show ?thesis
    by (simp add: create_promotion_redemption_def bindA_def found_serial [OF assms] raiseA_def redemption_step_refl)
next
  case (Some r)
  then have r: "r \<in> set (promotions db)" using find_SomeD by fast
  have first: "find_promotion_for_update id i (open_session db) = (Inr (Some (domain_promotion r)), open_session db)"
    using found_serial [OF assms, of i] Some by simp
  show ?thesis
    unfolding run_promotion_call.simps create_promotion_redemption_def serial_promotion_simps
    by (subst bindA_Inr, rule first)
      (use replay_or_redeem_step [OF assms r, of None] on_request [OF assms r] in \<open>auto simp: raiseA_def redemption_step_refl\<close>)
qed

lemma code_request_step:
  assumes "promotion_tables_ok lower db"
  shows "redemption_step lower db (run_promotion_call lower (RedeemCode cenv env u code_text k) db)"
proof -
  have code: "find_code_by_code_for_update lower id code_text (open_session db) =
      (Inr (find (\<lambda>c. lower (pc_code c) = lower code_text) (promotion_codes db)), open_session db)"
    by (simp add: find_code_by_code_for_update_def bindA_def interfere_open)
  show ?thesis
  proof (cases "find (\<lambda>c. lower (pc_code c) = lower code_text) (promotion_codes db)")
    case None
    then show ?thesis
      by (simp add: create_promotion_code_redemption_def bindA_def code raiseA_def redemption_step_refl)
  next
    case (Some c)
    then have c: "c \<in> set (promotion_codes db)" using find_SomeD by fast
    have code': "find_code_by_code_for_update lower id code_text (open_session db) = (Inr (Some c), open_session db)"
      using code Some by simp
    show ?thesis
    proof (cases "find (\<lambda>r. pr_id r = pc_promotion_id c) (promotions db)")
      case None
      then show ?thesis
        by (simp add: create_promotion_code_redemption_def bindA_def code' found_serial [OF assms] raiseA_def
            redemption_step_refl)
    next
      case (Some r)
      then have r: "r \<in> set (promotions db)" using find_SomeD by fast
      have first: "find_promotion_for_update id (pc_promotion_id c) (open_session db) =
          (Inr (Some (domain_promotion r)), open_session db)"
        using found_serial [OF assms, of "pc_promotion_id c"] Some by simp
      show ?thesis
        unfolding run_promotion_call.simps create_promotion_code_redemption_def serial_promotion_simps
        by (subst bindA_Inr, rule code', simp, subst bindA_Inr, rule first)
          (use replay_or_redeem_step [OF assms r, of "Some c"] on_request [OF assms r] c in \<open>auto simp: raiseA_def redemption_step_refl\<close>)
    qed
  qed
qed

lemma signup_request_step:
  assumes t: "promotion_tables_ok lower db"
  shows "redemption_step lower db (run_promotion_call lower (RedeemSignup cenv env u b) db)"
proof -
  let ?env = "serial_promotion env"
  have cur: "find_current_ocr_credit_promotion_for_update id (pe_now env) SIGNUP (open_session db) =
      (Inr (map_option domain_promotion (current_promotion (pe_now env) (Some ''signup'') db)), open_session db)"
    using find_current_open [of lower id db "pe_now env"] t by simp
  show ?thesis
  proof (cases "current_promotion (pe_now env) (Some ''signup'') db")
    case None
    then show ?thesis
      by (simp add: redeem_signup_promotion_def bindA_def cur returnA_def redemption_step_refl)
  next
    case (Some r)
    note r = current_promotion_found [OF Some]
    have cur': "find_current_ocr_credit_promotion_for_update id (pe_now env) SIGNUP (open_session db) =
        (Inr (Some (domain_promotion r)), open_session db)" using cur Some by simp
    have room: "room_left u r None db" using r by (simp add: room_left_def promotion_redeemable_iff)
    obtain rd where rd: "find_redemption_by_promotion_and_beneficiary (pr_id r) b (open_session db) = (Inr rd, open_session db)"
      using find_beneficiary_open [OF t] by blast
    show ?thesis
    proof (cases rd)
      case (Some y)
      then show ?thesis
        by (simp add: redeem_signup_promotion_def bindA_def cur' rd returnA_def redemption_step_refl)
    next
      case None
      let ?key = "signup_redemption_key (pr_id r) (pe_redemption_id ?env)"
      note eq = signup_as_writes [where env = ?env and s = "open_session db" and t = "open_session db" and r = r and b = b
        and lower = lower and cenv = cenv and u = u]
      have "redeem_signup_request lower cenv ?env (u, b) (open_session db) = bindA (create_redemption lower (redemption_of ?env u r None (Some b) ?key)) (\<lambda>_.
        bindA (save_promotion lower (promotion_record_redemption (domain_promotion r))) (\<lambda>_.
        bindA (case None of None \<Rightarrow> returnA () | Some c \<Rightarrow> save_code lower (code_record_redemption c)) (\<lambda>_.
        bindA (publish build_promotions_event_registry [redemption_event ?env u r None ?key]) (\<lambda>_.
        signup_end lower cenv ?env u r (signup_credit_key (pr_id r) (pe_redemption_id ?env)))))) (open_session db)"
        by (rule eq) (use cur' rd None r in simp_all)
      moreover have "redemption_committed lower ?env u r None (Some b) ?key (open_session db) (snd (\<dots>))"
        by (rule runs_result [OF credits_port.writes_all_or_nothing]) (use t r in \<open>simp_all add: returnA_def\<close>)
      ultimately have "redemption_committed lower ?env u r None (Some b) ?key (open_session db)
          (snd (redeem_signup_request lower cenv ?env (u, b) (open_session db)))" by (simp only:)
      then show ?thesis
        using redemption_stepI [of r db None u "Some b" lower _ ?env ?key] r room redemption_step_refl [of lower db]
        by (auto simp: redemption_committed_def)
    qed
  qed
qed

lemma promotion_call_step:
  assumes "promotion_violation lower db = None"
  shows "redemption_step lower db (run_promotion_call lower call db)"
proof -
  have "promotion_tables_ok lower db" by (rule tables_of_valid [OF assms])
  then show ?thesis
    by (cases call) (simp_all only: promotion_request_step code_request_step signup_request_step)
qed

text \<open>C29. After any sequence of redemption requests, granted, refused, replayed or failed, the counters of
  promotions and codes count their redemptions and exceed no limit. No user has redeemed a promotion on request more
  often than it allows each user; a sign-up promotion, for which that limit is not checked, is only ever redeemed
  for a beneficiary, and for none of them twice.\<close>

theorem redemptions_within_limits:
  assumes "promotion_violation lower db = None" and "within_limits db"
  shows "promotion_violation lower (fold (run_promotion_call lower) calls db) = None \<and>
    within_limits (fold (run_promotion_call lower) calls db) \<and>
    (\<forall>i b. length (beneficiary_redemptions b i (fold (run_promotion_call lower) calls db)) \<le> 1)"
proof -
  have "promotion_violation lower (fold (run_promotion_call lower) calls db) = None \<and>
      within_limits (fold (run_promotion_call lower) calls db)"
    using assms
  proof (induction calls arbitrary: db)
    case (Cons call calls)
    then show ?case
      using redemption_step_keeps [OF promotion_call_step [OF Cons.prems(1)] Cons.prems] by simp
  qed simp
  then show ?thesis using one_per_beneficiary [OF tables_of_valid] by blast
qed

end
