(* ===== verification/Promotions_Samples.thy ===== *)
theory Promotions_Samples
  imports Promotions_Limits
begin

text \<open>
  Concrete promotions, codes and requests on which the properties of redemption are applied.
\<close>

section \<open>A small database\<close>

definition sample_promotion :: "uuid \<Rightarrow> string option \<Rightarrow> promotion_row" where
  "sample_promotion i ctx = \<lparr>pr_id = i, pr_name = ascii ''welcome'', pr_active = True, pr_starts_at = 738000 * day_us,
     pr_expires_at = None, pr_max_redemptions = Some 2, pr_times_redeemed = 0, pr_max_redemptions_per_user = 1,
     pr_benefit_feature_key = ''ocr'', pr_context = ctx, pr_benefit_amount = 3\<rparr>"

definition sample_code :: promotion_code where
  "sample_code = \<lparr>pc_id = 9, pc_promotion_id = 5, pc_code = ascii ''HELLO'', pc_active = True, pc_starts_at = None,
     pc_expires_at = None, pc_max_redemptions = Some 1, pc_times_redeemed = 0\<rparr>"

definition sample_promotion_db :: promotion_db where
  "sample_promotion_db = \<lparr>outbox_events = [], user_credits = [], credit_transactions = [],
     promotions = [sample_promotion 5 (Some ''recharge''), sample_promotion 6 (Some ''signup'')],
     promotion_contents = [], promotion_codes = [sample_code], promotion_redemptions = []\<rparr>"

definition sample_promotion_env :: "promotion_db promotion_env" where
  "sample_promotion_env = \<lparr>pe_now = 738001 * day_us, pe_redemption_id = 11, pe_event_id = 12,
     pe_event_at = 738001 * day_us, pe_rival_code = id, pe_rival_lock = id, pe_rival_replay = id\<rparr>"

definition sample_credit_env :: "promotion_db credit_env" where
  "sample_credit_env = \<lparr>ce_event_id = 13, ce_now = 738001 * day_us, ce_tx_id = 14, ce_db_now = 738001 * day_us,
     ce_rival_lock = id, ce_rival_flush = id\<rparr>"

lemmas sample_promotion_defs = sample_promotion_def sample_code_def sample_promotion_db_def sample_promotion_env_def
  sample_credit_env_def

lemma sample_promotion_valid: "promotion_violation id sample_promotion_db = None"
  by (simp add: promotion_violation_iff promotion_tables_ok_def sample_promotion_defs promotion_row_ok_def
      promotion_row_checks_def promotion_code_ok_def promotion_code_checks_def int4_def context_start_key_def
      List.map_filter_simps credit_violation_None idempotency_keys_def source_keys_def)

lemma sample_within_limits: "within_limits sample_promotion_db"
  by (simp add: within_limits_def promotion_within_def code_within_def redemptions_of_def user_redemptions_def
      sample_promotion_defs)

lemma sample_key_length:
  "length (redemption_idempotency_key p u None) = 93" "length (code_idempotency_key p u None) = 97"
  "length (signup_redemption_key p u) = 99" "length (signup_credit_key p u) = 95"
  by (simp_all add: redemption_idempotency_key_def code_idempotency_key_def signup_redemption_key_def signup_credit_key_def
      length_uuid_str)

text \<open>Grants on a database without balances and ledger rows.\<close>

lemma fresh_grantable:
  assumes "user_credits db = []" and "credit_transactions db = []" and "ce_event_id env \<notin> ob_event_id ` set (outbox_events db)"
    and "length (cg_idempotency_key g) \<le> 255" and "1 \<le> cg_amount g" and "cg_amount g \<le> 2147483647"
  shows "credits_grantable env g db"
  using assms
  by (simp add: credits_grantable_def grant_admissible_def grant_command_ok_def redemption_grant_def amount_ok_def
      fresh_ids_def stored_balance_def find_credit_row_def grant_seen_def)

lemma redeem_writes_credits [simp]:
  "user_credits (redeem_writes env u r code b key db) = user_credits db"
  "credit_transactions (redeem_writes env u r code b key db) = credit_transactions db"
  "outbox_events (redeem_writes env u r code b key db) =
     outbox_events db @ [outbox_row_of (redemption_event env u r code key)]"
  by (simp_all add: redeem_writes_def Let_def take_promotion_def take_code_def add_redemption_def split: option.split)

lemma event_id_redemption [simp]: "ev_id (redemption_event env u r code key) = pe_event_id env"
  by (simp add: redemption_event_def new_event_def)

lemma sample_promotion_simps [simp]:
  "pr_id (sample_promotion i ctx) = i" "pr_times_redeemed (sample_promotion i ctx) = 0"
  "pr_benefit_amount (sample_promotion i ctx) = 3" "pr_context (sample_promotion i ctx) = ctx"
  "promotions sample_promotion_db = [sample_promotion 5 (Some ''recharge''), sample_promotion 6 (Some ''signup'')]"
  "promotion_redemptions sample_promotion_db = []" "promotion_codes sample_promotion_db = [sample_code]"
  "outbox_events sample_promotion_db = []" "user_credits sample_promotion_db = []"
  "credit_transactions sample_promotion_db = []" "pc_times_redeemed sample_code = 0" "pc_id sample_code = 9"
  "pc_promotion_id sample_code = 5" "pe_rival_lock sample_promotion_env db = db" "pe_rival_code sample_promotion_env db = db"
  "pe_rival_replay sample_promotion_env = id" "pe_now sample_promotion_env = 738001 * day_us"
  "pe_event_id sample_promotion_env = 12" "ce_event_id sample_credit_env = 13" "pe_redemption_id sample_promotion_env = 11"
  by (simp_all add: sample_promotion_defs)

lemma sample_fresh:
  assumes "length key \<le> 255" and "\<forall>k \<in> set_option b. length k \<le> 80" and "i = 5 \<or> i = 6"
  shows "fresh_redemption (redemption_to_record (redemption_of sample_promotion_env u (sample_promotion i ctx) code b key))
    sample_promotion_db"
proof -
  have "rd_failure_reason (redemption_of sample_promotion_env u (sample_promotion i ctx) code b key) = None"
    by (simp add: redemption_of_def create_granted_def record_event_def)
  with assms show ?thesis
    by (auto simp: fresh_redemption_def redemption_row_ok_def redemption_row_checks_def redemption_to_record_def
        List.map_filter_simps split: option.split)
qed

lemma sample_possible:
  assumes "i = 5 \<and> ctx = Some ''recharge'' \<or> i = 6 \<and> ctx = Some ''signup''"
    and "length key \<le> 255" and "length credit_key \<le> 255"
    and "\<forall>k \<in> set_option b. length k \<le> 80" and "code = None \<or> code = Some sample_code"
  shows "redemption_possible id sample_credit_env sample_promotion_env u (sample_promotion i ctx) code b key credit_key sample_promotion_db"
proof -
  have i: "i = 5 \<or> i = 6" and mem: "sample_promotion i ctx \<in> set (promotions sample_promotion_db)"
    using assms(1) by auto
  have code: "case code of None \<Rightarrow> True | Some c \<Rightarrow> c \<in> set (promotion_codes sample_promotion_db) \<and> pc_times_redeemed c < 2147483647"
    using assms(5) by auto
  have "redeem_ready id sample_promotion_env u (sample_promotion i ctx) code b key sample_promotion_db"
    unfolding redeem_ready_def using sample_fresh [OF assms(2,4) i] mem code sample_promotion_valid by simp
  moreover have "credits_grantable (serial sample_credit_env) (grant_request sample_promotion_env u (sample_promotion i ctx) credit_key)
      (redeem_writes sample_promotion_env u (sample_promotion i ctx) code b key sample_promotion_db)"
    by (rule fresh_grantable) (simp_all add: assms(3) grant_request_def serial_def)
  ultimately show ?thesis by (simp add: redemption_possible_def)
qed

lemma sample_redeemable: "redeemable (738001 * day_us) u (sample_promotion 5 (Some ''recharge'')) None sample_promotion_db"
  "redeemable (738001 * day_us) u (sample_promotion 5 (Some ''recharge'')) (Some sample_code) sample_promotion_db"
  by (simp_all add: redeemable_def promotion_redeemable_iff code_redeemable_iff user_redemptions_def sample_promotion_defs
      day_us_def)

section \<open>The properties at work\<close>

theorem current_promotion_redeemable_witness:
  "promotion_ensure_redeemable (738001 * day_us) (domain_promotion (sample_promotion 6 (Some ''signup''))) = Inr ()"
  using current_promotion_redeemable [of "738001 * day_us" "Some ''signup''" sample_promotion_db
      "sample_promotion 6 (Some ''signup'')"]
  by (simp add: current_promotion_def is_current_def sample_promotion_defs day_us_def)

theorem promotion_redemption_outcome_witness:
  "redemption_outcome sample_credit_env sample_promotion_env 1 (sample_promotion 5 (Some ''recharge'')) None
     (redemption_idempotency_key 5 1 None) sample_promotion_db
     (redeem_promotion_request id sample_credit_env sample_promotion_env 1 5 None (open_session sample_promotion_db)) \<and>
   redeemable (pe_now sample_promotion_env) 1 (sample_promotion 5 (Some ''recharge'')) None sample_promotion_db"
proof
  have p: "redemption_possible id sample_credit_env sample_promotion_env 1 (sample_promotion 5 (Some ''recharge'')) None None
      (redemption_idempotency_key 5 1 None) (redemption_idempotency_key 5 1 None) sample_promotion_db"
    by (rule sample_possible) (simp_all add: sample_key_length)
  show "redemption_outcome sample_credit_env sample_promotion_env 1 (sample_promotion 5 (Some ''recharge'')) None
     (redemption_idempotency_key 5 1 None) sample_promotion_db
     (redeem_promotion_request id sample_credit_env sample_promotion_env 1 5 None (open_session sample_promotion_db))"
    using promotion_redemption_outcome [OF _ _ p, of sample_promotion_db None] by simp
qed (simp add: sample_redeemable)

theorem code_redemption_outcome_witness:
  "redemption_outcome sample_credit_env sample_promotion_env 1 (sample_promotion 5 (Some ''recharge'')) (Some sample_code)
     (code_idempotency_key 9 1 None) sample_promotion_db
     (redeem_code_request id sample_credit_env sample_promotion_env 1 (ascii ''HELLO'') None (open_session sample_promotion_db)) \<and>
   redeemable (pe_now sample_promotion_env) 1 (sample_promotion 5 (Some ''recharge'')) (Some sample_code) sample_promotion_db"
proof
  have p: "redemption_possible id sample_credit_env sample_promotion_env 1 (sample_promotion 5 (Some ''recharge''))
      (Some sample_code) None (code_idempotency_key 9 1 None) (code_idempotency_key 9 1 None) sample_promotion_db"
    by (rule sample_possible) (simp_all add: sample_key_length)
  have "pc_code sample_code = ascii ''HELLO''" by (simp add: sample_code_def)
  then show "redemption_outcome sample_credit_env sample_promotion_env 1 (sample_promotion 5 (Some ''recharge'')) (Some sample_code)
     (code_idempotency_key 9 1 None) sample_promotion_db
     (redeem_code_request id sample_credit_env sample_promotion_env 1 (ascii ''HELLO'') None (open_session sample_promotion_db))"
    using code_redemption_outcome [OF _ _ _ _ _ p, of sample_promotion_db "ascii ''HELLO''" None] by simp
qed (simp add: sample_redeemable)

text \<open>A request and its repetition: the second one is a replay of the first.\<close>

definition once_redeemed :: promotion_db where
  "once_redeemed = redemption_effect sample_credit_env sample_promotion_env 1 (sample_promotion 5 (Some ''recharge'')) None None
     (redemption_idempotency_key 5 1 None) (redemption_idempotency_key 5 1 None) sample_promotion_db"

lemma effect_promotions:
  "same_promotions (redeem_writes env u r code b key db) (redemption_effect cenv env u r code b key credit_key db)"
  unfolding redemption_effect_def by (rule grant_effect_promotions)

lemma effect_valid:
  "redemption_possible lower cenv env u r code b key credit_key db \<Longrightarrow>
   promotion_violation lower (redemption_effect cenv env u r code b key credit_key db) = None"
  unfolding redemption_possible_def redemption_effect_def
  using redeem_states_ok(4) credits_port.grant_valid by blast

theorem promotion_redemption_replayed_witness:
  "\<exists>res. redeem_promotion_request id sample_credit_env sample_promotion_env 1 5 None (open_session once_redeemed) =
     (Inr res, open_session once_redeemed) \<and> rs_already_redeemed res \<and> rs_redemption_id res = 11"
proof -
  let ?key = "redemption_idempotency_key 5 1 None"
  let ?r = "sample_promotion 5 (Some ''recharge'')"
  let ?x = "redemption_to_record (redemption_of sample_promotion_env 1 ?r None None ?key)"
  let ?r1 = "?r\<lparr>pr_times_redeemed := 1\<rparr>"
  have p: "redemption_possible id sample_credit_env sample_promotion_env 1 ?r None None ?key ?key sample_promotion_db"
    by (rule sample_possible) (simp_all add: sample_key_length)
  have same: "same_promotions (redeem_writes sample_promotion_env 1 ?r None None ?key sample_promotion_db) once_redeemed"
    unfolding once_redeemed_def by (rule effect_promotions)
  have v: "promotion_violation id once_redeemed = None"
    unfolding once_redeemed_def by (rule effect_valid [OF p])
  have mem: "?r1 \<in> set (promotions once_redeemed)" "?x \<in> set (promotion_redemptions once_redeemed)"
    using same by (simp_all add: same_promotions_def redeem_writes_tables)
  have x: "rr_idempotency_key ?x = ?key" "rr_id ?x = 11" by (simp_all add: redemption_to_record_def)
  show ?thesis
    using promotion_redemption_replayed [OF _ _ v mem(1) _ mem(2), of sample_promotion_env once_redeemed 1 None sample_credit_env] x
    by auto
qed

theorem signup_redemption_outcome_witness:
  "fst (redeem_signup_request id sample_credit_env sample_promotion_env (1, ascii ''device'') (open_session sample_promotion_db)) = Inr True"
proof -
  have cur: "current_promotion (pe_now sample_promotion_env) (Some ''signup'') sample_promotion_db = Some (sample_promotion 6 (Some ''signup''))"
    by (simp add: current_promotion_def is_current_def sample_promotion_defs day_us_def)
  have p: "redemption_possible id sample_credit_env sample_promotion_env 1 r None (Some (ascii ''device''))
      (signup_redemption_key (pr_id r) (pe_redemption_id sample_promotion_env))
      (signup_credit_key (pr_id r) (pe_redemption_id sample_promotion_env)) sample_promotion_db"
    if "current_promotion (pe_now sample_promotion_env) (Some ''signup'') sample_promotion_db = Some r" for r
  proof -
    have r: "r = sample_promotion 6 (Some ''signup'')" using that cur by simp
    show ?thesis unfolding r by (rule sample_possible) (simp_all add: sample_key_length)
  qed
  have "\<not> beneficiary_redeemed 6 (ascii ''device'') sample_promotion_db" by (simp add: beneficiary_redeemed_def)
  then show ?thesis
    using signup_redemption_outcome [OF _ sample_promotion_valid p, of sample_promotion_db] cur by simp
qed

theorem redemptions_within_limits_witness:
  "within_limits (fold (run_promotion_call id)
     [RedeemPromotion sample_credit_env sample_promotion_env 1 5 None,
      RedeemCode sample_credit_env sample_promotion_env 2 (ascii ''HELLO'') None,
      RedeemSignup sample_credit_env sample_promotion_env 3 (ascii ''device'')] sample_promotion_db)"
  using redemptions_within_limits [OF sample_promotion_valid sample_within_limits] by blast

theorem redemption_lost_in_balance_race_witness:
  "\<exists>res. redeem id (sqlalchemy_commit (promotion_violation id))
      (grant_ocr_credit (sample_credit_env\<lparr>ce_rival_flush := insert_first_balance rival_row (rival_tx ''m'')\<rparr>)) sample_promotion_env 1
      (domain_promotion (sample_promotion 5 (Some ''recharge''))) None (redemption_idempotency_key 5 1 None)
      (open_session sample_promotion_db) =
     (Inr res, open_session (insert_first_balance rival_row (rival_tx ''m'') sample_promotion_db)) \<and> rs_credit_granted res"
proof -
  let ?key = "redemption_idempotency_key 5 1 None"
  let ?r = "sample_promotion 5 (Some ''recharge'')"
  let ?lost = "insert_first_balance rival_row (rival_tx ''m'') sample_promotion_db"
  have p: "redemption_possible id sample_credit_env sample_promotion_env 1 ?r None None ?key ?key sample_promotion_db"
    by (rule sample_possible) (simp_all add: sample_key_length)
  have "same_promotions sample_promotion_db ?lost" by (simp add: same_promotions_def insert_first_balance_def)
  moreover have "credit_violation ?lost = None"
    by (simp add: credit_violation_None insert_first_balance_def idempotency_keys_def source_keys_def
        List.map_filter_simps user_credit_row_ok_def user_credit_checks_def credit_tx_row_ok_def credit_tx_checks_def
        rival_row_def rival_tx_def int4_def source_key_def)
  ultimately have v: "promotion_violation id ?lost = None"
    using sample_promotion_valid tables_ok_cong unfolding promotion_violation_iff by blast
  have g: "grant_admissible (sample_credit_env\<lparr>ce_rival_flush := f\<rparr>) cmd db = grant_admissible (serial sample_credit_env) cmd db" for f cmd db
    by (simp add: grant_admissible_def fresh_ids_def serial_def)
  let ?env = "sample_credit_env\<lparr>ce_rival_flush := insert_first_balance rival_row (rival_tx ''m'')\<rparr>"
  have facts: "redeem_ready id sample_promotion_env 1 ?r None None ?key sample_promotion_db"
    "grant_admissible ?env (redemption_grant (grant_request sample_promotion_env 1 ?r ?key))
       (redeem_writes sample_promotion_env 1 ?r None None ?key sample_promotion_db)"
    "\<not> grant_seen (redemption_grant (grant_request sample_promotion_env 1 ?r ?key))
       (redeem_writes sample_promotion_env 1 ?r None None ?key sample_promotion_db)"
    using p by (simp_all add: redemption_possible_def credits_grantable_def g)
  have env: "ce_rival_lock ?env = id" "ce_rival_flush ?env = insert_first_balance rival_row (rival_tx ''m'')"
    by (simp_all add: sample_credit_env_def)
  have row: "user_credit_key rival_row = (1, ''ocr'')" "user_credit_row_ok rival_row"
    by (simp_all add: user_credit_key_def rival_row_def user_credit_row_ok_def user_credit_checks_def int4_def)
  show ?thesis
    using redemption_lost_in_balance_race [OF facts(1) _ refl refl _ facts(2,3) _ env row v] sample_redeemable(1)
    by (auto simp: find_credit_row_def)
qed

end
