(* ===== verification/Promotions_Job.thy ===== *)
theory Promotions_Job
  imports Promotions_Outcomes
begin

text \<open>
  The job that keeps the monthly recharge promotion in place:
  \<open>app/modules/promotions/jobs/ensure_monthly_recharge_promotion.py\<close>. The instants of a month
  are those of the Seoul calendar; \<open>asyncio\<close>, settings and the engine are left out.
\<close>

section \<open>The promotion of a month\<close>

record monthly_spec =
  ms_name :: ustr
  ms_starts_at :: datetime
  ms_expires_at :: datetime
  ms_benefit_amount :: int

record ensure_result =
  er_promotion_id :: ustr
  er_created :: bool
  er_starts_at :: datetime
  er_expires_at :: datetime

fun first_of_month :: "date \<Rightarrow> date" where
  "first_of_month (Date y m d) = Date y m 1"

definition target_month_or_current :: "date option \<Rightarrow> datetime \<Rightarrow> date" where
  "target_month_or_current target now =
     (case target of Some d \<Rightarrow> first_of_month d | None \<Rightarrow> first_of_month (seoul_date now))"

text \<open>\<open>date(y + 1, 1, 1)\<close> raises \<open>ValueError\<close> beyond the year 9999.\<close>

fun next_month :: "date \<Rightarrow> exn + date" where
  "next_month (Date y m d) =
     (case (if m = 12 then mk_date (y + 1) 1 1 else mk_date y (m + 1) 1) of
        None \<Rightarrow> Inl PyValueError | Some x \<Rightarrow> Inr x)"

text \<open>
  \<open>f"... {month:%Y-%m}"\<close>, after the Korean words of the name; and \<open>astimezone(UTC)\<close> of
  midnight in Seoul, which raises \<open>OverflowError\<close> before the year 1.
\<close>

definition monthly_name_prefix :: ustr where
  "monthly_name_prefix = [50900, 44036, 32, 79, 67, 82, 32, 53356, 47112, 46439, 32, 52649, 51204, 32]"

fun month_text :: "date \<Rightarrow> ustr" where
  "month_text (Date y m d) = dec_field 4 y @ 45 # dec_field 2 m"

definition seoul_midnight_utc :: "date \<Rightarrow> exn + datetime" where
  "seoul_midnight_utc d =
     (if seoul_datetime d 0 < date_ordinal (Date 1 1 1) * day_us then Inl PyOverflowError else Inr (seoul_datetime d 0))"

definition monthly_recharge_amount :: int where "monthly_recharge_amount = 5"
definition monthly_recharge_user_limit :: int where "monthly_recharge_user_limit = 1"

definition monthly_recharge_promotion_spec :: "date option \<Rightarrow> datetime \<Rightarrow> exn + monthly_spec" where
  "monthly_recharge_promotion_spec target now =
     (let month = target_month_or_current target now in
      bindE (next_month month) (\<lambda>next.
      bindE (seoul_midnight_utc month) (\<lambda>starts_at.
      bindE (seoul_midnight_utc next) (\<lambda>expires_at.
      Inr \<lparr>ms_name = monthly_name_prefix @ month_text month, ms_starts_at = starts_at, ms_expires_at = expires_at,
           ms_benefit_amount = monthly_recharge_amount\<rparr>))))"

definition new_monthly_recharge_promotion :: "uuid \<Rightarrow> monthly_spec \<Rightarrow> exn + promotion" where
  "new_monthly_recharge_promotion new_id spec =
     restore_promotion new_id (ms_name spec) True (ms_starts_at spec) (Some (ms_expires_at spec)) None 0
       monthly_recharge_user_limit PROMOTION_OCR (Some RECHARGE) (ms_benefit_amount spec)"

definition apply_monthly_recharge_spec :: "monthly_spec \<Rightarrow> promotion \<Rightarrow> exn + promotion" where
  "apply_monthly_recharge_spec spec p =
     bindE (mk_benefit_amount ''benefit_amount'' (ms_benefit_amount spec)) (\<lambda>benefit.
     Inr (p\<lparr>pm_name := ms_name spec, pm_active := True, pm_starts_at := ms_starts_at spec,
            pm_expires_at := Some (ms_expires_at spec), pm_max_redemptions := None,
            pm_max_redemptions_per_user := monthly_recharge_user_limit, pm_benefit_feature_key := PROMOTION_OCR,
            pm_context := Some RECHARGE, pm_benefit_amount := benefit\<rparr>))"

section \<open>The job\<close>

fun is_integrity_error :: "exn \<Rightarrow> bool" where
  "is_integrity_error (IntegrityError c) = True"
| "is_integrity_error _ = False"

text \<open>
  \<open>rival\<close> is what other sessions commit while the first query waits for its lock,
  \<open>rival_flush\<close> what they commit before the new row is flushed, \<open>rival_reload\<close> before the
  second query.
\<close>

record 'db job_env =
  je_new_id :: uuid
  je_now :: datetime
  je_rival :: "'db \<Rightarrow> 'db"
  je_rival_flush :: "'db \<Rightarrow> 'db"
  je_rival_reload :: "'db \<Rightarrow> 'db"

definition create_or_load_monthly_recharge_promotion ::
    "(ustr \<Rightarrow> ustr) \<Rightarrow> ('z, unit) promotion_action_on \<Rightarrow> 'z promotion_db_scheme job_env \<Rightarrow> monthly_spec \<Rightarrow>
     ('z, promotion \<times> bool) promotion_action_on" where
  "create_or_load_monthly_recharge_promotion lower uow_rollback env spec =
     bindA (liftE (new_monthly_recharge_promotion (je_new_id env) spec)) (\<lambda>promotion.
     catchA
       (bindA (interfere (je_rival_flush env)) (\<lambda>_.
        bindA (create_promotion lower promotion) (\<lambda>_. returnA (promotion, True))))
       (\<lambda>e. if \<not> is_integrity_error e then raiseA e
            else
              bindA uow_rollback (\<lambda>_.
              bindA (find_promotion_by_context_start_for_update (je_rival_reload env) PROMOTION_OCR RECHARGE
                       (ms_starts_at spec)) (\<lambda>existing.
              case existing of
                None \<Rightarrow> raiseA e
              | Some p \<Rightarrow>
                  bindA (liftE (apply_monthly_recharge_spec spec p)) (\<lambda>p'.
                  bindA (save_promotion lower p') (\<lambda>_. returnA (p', False)))))))"

definition ensure_monthly_recharge_promotion ::
    "(ustr \<Rightarrow> ustr) \<Rightarrow> ('z, unit) promotion_action_on \<Rightarrow> ('z, unit) promotion_action_on \<Rightarrow>
     'z promotion_db_scheme job_env \<Rightarrow> date option \<Rightarrow> ('z, ensure_result) promotion_action_on" where
  "ensure_monthly_recharge_promotion lower uow_commit uow_rollback env target =
     bindA (liftE (monthly_recharge_promotion_spec target (je_now env))) (\<lambda>spec.
     bindA (find_promotion_by_context_start_for_update (je_rival env) PROMOTION_OCR RECHARGE (ms_starts_at spec)) (\<lambda>found.
     bindA (case found of
              None \<Rightarrow> create_or_load_monthly_recharge_promotion lower uow_rollback env spec
            | Some p \<Rightarrow>
                bindA (liftE (apply_monthly_recharge_spec spec p)) (\<lambda>p'.
                bindA (save_promotion lower p') (\<lambda>_. returnA (p', False)))) (\<lambda>(p, created).
     bindA uow_commit (\<lambda>_.
     returnA \<lparr>er_promotion_id = uuid_str (pm_id p), er_created = created, er_starts_at = pm_starts_at p,
              er_expires_at = (case pm_expires_at p of Some t \<Rightarrow> t | None \<Rightarrow> ms_expires_at spec)\<rparr>))))"

section \<open>Months\<close>

lemma first_of_month_props:
  assumes "valid_date d"
  shows "valid_date (first_of_month d)" "month_count (first_of_month d) = month_count d" "date_day (first_of_month d) = 1"
  using assms days_in_month_bounds(1) [of "date_year d" "date_month d"]
  by (cases d; simp add: month_count_def)+

lemma next_month_props:
  assumes "next_month d = Inr n"
  shows "valid_date n" "month_count n = month_count d + 1" "date_day n = 1"
  using assms
  by (cases d; auto simp: mk_date_def month_count_def split: if_splits option.splits simp del: valid_date.simps)+

text \<open>A day lies between the firsts of two consecutive months exactly when it is of the former.\<close>

lemma between_firsts:
  assumes "valid_date m" "date_day m = 1" "valid_date n" "date_day n = 1" "month_count n = month_count m + 1" "valid_date d"
  shows "date_ordinal m \<le> date_ordinal d \<and> date_ordinal d < date_ordinal n \<longleftrightarrow> month_count d = month_count m"
proof -
  have "1 \<le> date_day d" using assms(6) by (cases d) simp
  then have "m \<le> d \<longleftrightarrow> month_count m \<le> month_count d" "n \<le> d \<longleftrightarrow> month_count n \<le> month_count d"
    using date_le_iff_month [OF assms(1,6)] date_le_iff_month [OF assms(3,6)] assms(2,4) by auto
  then show ?thesis
    using date_ordinal_le_iff [OF assms(1,6)] date_ordinal_le_iff [OF assms(3,6)] assms(5) by auto
qed

definition job_month :: "date option \<Rightarrow> datetime \<Rightarrow> date" where
  "job_month target now = (case target of Some d \<Rightarrow> d | None \<Rightarrow> seoul_date now)"

lemma monthly_spec_fields:
  assumes "monthly_recharge_promotion_spec target now = Inr spec"
  obtains n where "next_month (first_of_month (job_month target now)) = Inr n"
    and "ms_starts_at spec = seoul_datetime (first_of_month (job_month target now)) 0"
    and "ms_expires_at spec = seoul_datetime n 0" and "ms_benefit_amount spec = 5"
    and "length (ms_name spec) = 21"
proof -
  let ?m = "first_of_month (job_month target now)"
  have m: "target_month_or_current target now = ?m"
    by (simp add: target_month_or_current_def job_month_def split: option.split)
  have len: "length (month_text d) = 7" for d by (cases d) simp
  obtain n where n: "next_month ?m = Inr n"
    using assms by (cases "next_month ?m") (simp_all add: monthly_recharge_promotion_spec_def m)
  with assms show thesis
    by (intro that [OF n])
      (auto simp: monthly_recharge_promotion_spec_def Let_def m seoul_midnight_utc_def monthly_recharge_amount_def
        monthly_name_prefix_def len split: if_splits)
qed

text \<open>The window of the monthly promotion is exactly the month, in Seoul: an instant is in it when
  its date there is of the month. The promotions of consecutive months neither overlap nor
  leave a gap.\<close>

theorem monthly_window_is_the_month:
  assumes "monthly_recharge_promotion_spec target now = Inr spec" and "valid_date (job_month target now)"
    and "1 \<le> seoul_day t" and "seoul_day t \<le> 3652059"
  shows "ms_starts_at spec \<le> t \<and> t < ms_expires_at spec \<longleftrightarrow> month_count (seoul_date t) = month_count (job_month target now)"
proof -
  let ?m = "first_of_month (job_month target now)"
  obtain n where n: "next_month ?m = Inr n" and spec: "ms_starts_at spec = seoul_datetime ?m 0" "ms_expires_at spec = seoul_datetime n 0"
    using monthly_spec_fields [OF assms(1)] by metis
  note d = seoul_date_valid [OF assms(3,4)]
  note m = first_of_month_props [OF assms(2)]
  have "ms_starts_at spec \<le> t \<and> t < ms_expires_at spec \<longleftrightarrow>
      date_ordinal ?m \<le> date_ordinal (seoul_date t) \<and> date_ordinal (seoul_date t) < date_ordinal n"
    using seoul_midnight_le_iff [of ?m t] seoul_midnight_le_iff [of n t] d(2) spec by auto
  then show ?thesis
    using between_firsts [OF m(1,3) next_month_props(1,3) [OF n] _ d(1)] next_month_props(2) [OF n] m(2) by simp
qed

section \<open>What the job leaves in the table\<close>

definition monthly_row :: "monthly_spec \<Rightarrow> uuid \<Rightarrow> int \<Rightarrow> promotion_row" where
  "monthly_row spec i n =
     \<lparr>pr_id = i, pr_name = ms_name spec, pr_active = True, pr_starts_at = ms_starts_at spec,
      pr_expires_at = Some (ms_expires_at spec), pr_max_redemptions = None, pr_times_redeemed = n,
      pr_max_redemptions_per_user = 1, pr_benefit_feature_key = ''ocr'', pr_context = Some ''recharge'',
      pr_benefit_amount = ms_benefit_amount spec\<rparr>"

definition monthly_promotion :: "monthly_spec \<Rightarrow> 'z promotion_db_scheme \<Rightarrow> promotion_row option" where
  "monthly_promotion spec db =
     find (\<lambda>r. context_start_key r = Some (''ocr'', ''recharge'', ms_starts_at spec)) (promotions db)"

definition monthly_effect :: "monthly_spec \<Rightarrow> uuid \<Rightarrow> 'z promotion_db_scheme \<Rightarrow> 'z promotion_db_scheme" where
  "monthly_effect spec new_id db =
     (case monthly_promotion spec db of
        None \<Rightarrow> db\<lparr>promotions := promotions db @ [monthly_row spec new_id 0]\<rparr>
      | Some r \<Rightarrow> db\<lparr>promotions := update_rows (\<lambda>x. pr_id x = pr_id r)
                      (\<lambda>_. monthly_row spec (pr_id r) (pr_times_redeemed r)) (promotions db)\<rparr>)"

lemma monthly_row_key: "context_start_key (monthly_row spec i n) = Some (''ocr'', ''recharge'', ms_starts_at spec)"
  by (simp add: monthly_row_def context_start_key_def)

lemma monthly_row_ok:
  assumes "ms_benefit_amount spec = 5" and "length (ms_name spec) = 21" and "0 \<le> n" and "int4 n"
  shows "promotion_row_ok (monthly_row spec i n)"
  using assms by (simp add: promotion_row_ok_def promotion_row_checks_def monthly_row_def int4_def)

lemma monthly_promotion_found:
  assumes "monthly_promotion spec db = Some r"
  shows "r \<in> set (promotions db)" "context_start_key r = Some (''ocr'', ''recharge'', ms_starts_at spec)"
  using find_SomeD [OF assms [unfolded monthly_promotion_def]] by simp_all

lemma monthly_effect_tables:
  assumes "promotion_tables_ok lower db" and "ms_benefit_amount spec = 5" and "length (ms_name spec) = 21"
    and "monthly_promotion spec db = None \<Longrightarrow> new_id \<notin> pr_id ` set (promotions db)"
  shows "promotion_tables_ok lower (monthly_effect spec new_id db)"
proof (cases "monthly_promotion spec db")
  case None
  have "(''ocr'', ''recharge'', ms_starts_at spec) \<notin> set (List.map_filter context_start_key (promotions db))"
    using None by (auto simp: monthly_promotion_def find_None_iff set_map_filter)
  then show ?thesis
    using assms None monthly_row_ok [OF assms(2,3), of 0 new_id] unfolding promotion_tables_ok_def
    by (auto simp: monthly_effect_def map_filter_snoc monthly_row_key) (simp_all add: int4_def monthly_row_def)
next
  case (Some r)
  note r = monthly_promotion_found [OF Some]
  let ?row = "monthly_row spec (pr_id r) (pr_times_redeemed r)"
  let ?up = "update_rows (\<lambda>x. pr_id x = pr_id r) (\<lambda>_. ?row) (promotions db)"
  have one: "x = r" if "x \<in> set (promotions db)" "pr_id x = pr_id r" for x
    using that assms(1) r(1) by (auto simp: promotion_tables_ok_def distinct_map inj_on_def)
  have ids: "map pr_id ?up = map pr_id (promotions db)"
    by (rule map_key_update_rows) (simp add: monthly_row_def)
  have "?up = update_rows (\<lambda>x. pr_id x = pr_id r) (\<lambda>x. if context_start_key x = context_start_key r then ?row else x) (promotions db)"
    using one by (intro update_rows_cong) auto
  also have "List.map_filter context_start_key \<dots> = List.map_filter context_start_key (promotions db)"
    by (rule map_filter_update_rows) (simp add: monthly_row_key r(2))
  finally have keys: "List.map_filter context_start_key ?up = List.map_filter context_start_key (promotions db)" .
  have "promotion_row_ok r" using assms(1) r(1) by (simp add: promotion_tables_ok_def)
  then have "promotion_row_ok ?row"
    by (intro monthly_row_ok [OF assms(2,3)]) (simp_all add: promotion_row_ok_def promotion_row_checks_def)
  then have rows: "\<forall>x \<in> set ?up. promotion_row_ok x"
    using assms(1) by (auto simp: set_update_rows promotion_tables_ok_def)
  have idset: "pr_id ` set ?up = pr_id ` set (promotions db)" using arg_cong [OF ids, of set] by simp
  show ?thesis
    using assms(1) rows unfolding promotion_tables_ok_def monthly_effect_def Some
    by (simp add: ids keys idset)
qed

lemma monthly_effect_valid:
  assumes "promotion_violation lower db = None" and "ms_benefit_amount spec = 5" and "length (ms_name spec) = 21"
    and "monthly_promotion spec db = None \<Longrightarrow> new_id \<notin> pr_id ` set (promotions db)"
  shows "promotion_violation lower (monthly_effect spec new_id db) = None"
proof -
  have "credit_violation (monthly_effect spec new_id db) = credit_violation db"
    by (rule credit_violation_cong) (simp_all add: monthly_effect_def split: option.split)
  then show ?thesis
    using monthly_effect_tables [OF _ assms(2-4), of lower] assms(1) by (simp add: promotion_violation_iff)
qed

lemma map_filter_key_unique:
  "distinct (List.map_filter k rows) \<Longrightarrow> x \<in> set rows \<Longrightarrow> y \<in> set rows \<Longrightarrow> k x = Some v \<Longrightarrow> k y = Some v \<Longrightarrow> x = y"
  by (induction rows) (auto simp: List.map_filter_simps set_map_filter split: option.splits)

lemma update_rows_pred_cong:
  "(\<And>r. r \<in> set rows \<Longrightarrow> p r = q r) \<Longrightarrow> update_rows p f rows = update_rows q f rows"
  by (induction rows) auto

lemma find_update_rows_const:
  "p c \<Longrightarrow> find p (update_rows p (\<lambda>_. c) rows) = map_option (\<lambda>_. c) (find p rows)"
  by (induction rows) auto

text \<open>Afterwards there is one promotion with the month's key, and it is the specified one.\<close>

lemma monthly_promotion_effect:
  assumes "promotion_tables_ok lower db"
  shows "monthly_promotion spec (monthly_effect spec new_id db) = Some
    (case monthly_promotion spec db of None \<Rightarrow> monthly_row spec new_id 0
     | Some r \<Rightarrow> monthly_row spec (pr_id r) (pr_times_redeemed r))"
proof (cases "monthly_promotion spec db")
  case None
  then show ?thesis
    unfolding monthly_effect_def monthly_promotion_def by (simp add: find_append monthly_row_key)
next
  case (Some r)
  note r = monthly_promotion_found [OF Some]
  have key: "pr_id x = pr_id r \<longleftrightarrow> context_start_key x = Some (''ocr'', ''recharge'', ms_starts_at spec)"
    if "x \<in> set (promotions db)" for x
  proof
    assume "pr_id x = pr_id r"
    then have "x = r" using that assms r(1) by (auto simp: promotion_tables_ok_def distinct_map inj_on_def)
    then show "context_start_key x = Some (''ocr'', ''recharge'', ms_starts_at spec)" using r(2) by simp
  next
    assume "context_start_key x = Some (''ocr'', ''recharge'', ms_starts_at spec)"
    then have "x = r" using map_filter_key_unique that r assms unfolding promotion_tables_ok_def by metis
    then show "pr_id x = pr_id r" by simp
  qed
  have "update_rows (\<lambda>x. pr_id x = pr_id r) (\<lambda>_. monthly_row spec (pr_id r) (pr_times_redeemed r)) (promotions db) =
      update_rows (\<lambda>x. context_start_key x = Some (''ocr'', ''recharge'', ms_starts_at spec))
        (\<lambda>_. monthly_row spec (pr_id r) (pr_times_redeemed r)) (promotions db)"
    using key by (intro update_rows_pred_cong) simp
  then show ?thesis
    using Some by (simp add: monthly_effect_def) (simp add: monthly_promotion_def find_update_rows_const monthly_row_key)
qed

lemma monthly_effect_idem:
  assumes "promotion_tables_ok lower db" and "promotion_tables_ok lower (monthly_effect spec i1 db)"
  shows "monthly_effect spec i2 (monthly_effect spec i1 db) = monthly_effect spec i1 db"
proof -
  let ?db1 = "monthly_effect spec i1 db"
  obtain i n where found: "monthly_promotion spec ?db1 = Some (monthly_row spec i n)"
    using monthly_promotion_effect [OF assms(1)] by (cases "monthly_promotion spec db") simp_all
  have mem: "monthly_row spec i n \<in> set (promotions ?db1)" by (rule monthly_promotion_found(1) [OF found])
  have row: "pr_id (monthly_row spec i n) = i" "pr_times_redeemed (monthly_row spec i n) = n"
    by (simp_all add: monthly_row_def)
  have "x = monthly_row spec i n" if "x \<in> set (promotions ?db1)" "pr_id x = i" for x
    using that mem row(1) assms(2) unfolding promotion_tables_ok_def by (auto simp: distinct_map inj_on_def)
  then have "update_rows (\<lambda>x. pr_id x = i) (\<lambda>_. monthly_row spec i n) (promotions ?db1) = promotions ?db1"
    by (intro update_rows_id) simp
  then show ?thesis
    by (subst monthly_effect_def) (simp add: found row)
qed

section \<open>The job does it\<close>

lemma find_monthly_open:
  assumes "promotion_tables_ok lower (rival db)"
  shows "find_promotion_by_context_start_for_update rival PROMOTION_OCR RECHARGE (ms_starts_at spec) (open_session db) =
    (Inr (map_option domain_promotion (monthly_promotion spec (rival db))), open_session (rival db))"
proof (cases "monthly_promotion spec (rival db)")
  case (Some r)
  with promotion_to_domain_stored [OF assms monthly_promotion_found(1) [OF Some]] show ?thesis
    by (simp add: find_promotion_by_context_start_for_update_def bindA_def interfere_open liftE_def map_result_def
        monthly_promotion_def)
qed (simp add: find_promotion_by_context_start_for_update_def bindA_def interfere_open liftE_def map_result_def
    monthly_promotion_def)

text \<open>Saving the specified promotion over a stored one.\<close>

lemma save_monthly_open:
  assumes "promotion_violation lower db = None" and "monthly_promotion spec db = Some r"
    and "ms_benefit_amount spec = 5" and "length (ms_name spec) = 21"
  obtains p where "apply_monthly_recharge_spec spec (domain_promotion r) = Inr p"
    and "pm_id p = pr_id r" and "pm_starts_at p = ms_starts_at spec" and "pm_expires_at p = Some (ms_expires_at spec)"
    and "save_promotion lower p (open_session db) =
      (Inr (), (open_session db)\<lparr>working := monthly_effect spec new_id db\<rparr>)"
proof -
  let ?p = "(domain_promotion r)\<lparr>pm_name := ms_name spec, pm_active := True, pm_starts_at := ms_starts_at spec,
    pm_expires_at := Some (ms_expires_at spec), pm_max_redemptions := None, pm_max_redemptions_per_user := 1,
    pm_benefit_feature_key := PROMOTION_OCR, pm_context := Some RECHARGE, pm_benefit_amount := BenefitAmount 5\<rparr>"
  have ap: "apply_monthly_recharge_spec spec (domain_promotion r) = Inr ?p"
    using assms(3) by (simp add: apply_monthly_recharge_spec_def mk_benefit_amount_def monthly_recharge_user_limit_def)
  have rec: "promotion_to_record ?p = monthly_row spec (pr_id r) (pr_times_redeemed r)"
    using assms(3) by (simp add: promotion_to_record_def monthly_row_def)
  have t: "promotion_tables_ok lower db" by (rule tables_of_valid [OF assms(1)])
  have found: "find (\<lambda>x. pr_id x = pr_id r) (promotions db) = Some r"
    by (rule find_stored_promotion [OF t monthly_promotion_found(1) [OF assms(2)]])
  have put: "put_promotion ?p db = monthly_effect spec new_id db"
    by (simp add: put_promotion_def rec monthly_effect_def assms(2))
  have v: "promotion_violation lower (monthly_effect spec new_id db) = None"
    by (rule monthly_effect_valid [OF assms(1,3,4)]) (simp add: assms(2))
  have "save_promotion lower ?p (open_session db) = (Inr (), (open_session db)\<lparr>working := monthly_effect spec new_id db\<rparr>)"
    by (simp add: save_promotion_def bindA_def found session_apply put v)
  then show thesis by (intro that [OF ap]) simp_all
qed

text \<open>A row whose unique key is taken is refused by the constraints, by an \<open>IntegrityError\<close>.\<close>

lemma duplicate_month_refused:
  assumes "promotion_violation lower db = None" and "monthly_promotion spec db = Some r"
    and "promotion_row_ok (monthly_row spec i 0)"
  shows "\<exists>c. promotion_violation lower (db\<lparr>promotions := promotions db @ [monthly_row spec i 0]\<rparr>) = Some (IntegrityError c)"
proof -
  let ?rows = "promotions db @ [monthly_row spec i 0]"
  have t: "promotion_tables_ok lower db" by (rule tables_of_valid [OF assms(1)])
  have rows: "\<forall>(ok, e) \<in> set (concat (map promotion_row_checks ?rows)). ok"
    using t assms(3) by (auto simp: promotion_tables_ok_def promotion_row_ok_def)
  have key: "\<not> distinct (List.map_filter context_start_key ?rows)"
    using monthly_promotion_found [OF assms(2)] by (auto simp: map_filter_snoc monthly_row_key set_map_filter)
  show ?thesis
    unfolding promotion_violation_def promotion_checks_def append.assoc
    by (subst first_violation_skip) (use rows key in \<open>auto simp: first_violation_def\<close>)
qed

text \<open>The specified promotion, as the value the job goes on with.\<close>

definition is_monthly :: "monthly_spec \<Rightarrow> uuid \<Rightarrow> promotion \<Rightarrow> bool" where
  "is_monthly spec i p \<longleftrightarrow> pm_id p = i \<and> pm_starts_at p = ms_starts_at spec \<and> pm_expires_at p = Some (ms_expires_at spec)"

lemma monthly_create:
  assumes "promotion_violation lower db = None" and "ms_benefit_amount spec = 5" and "length (ms_name spec) = 21"
    and "new_monthly_recharge_promotion i spec = Inr p"
  shows "create_promotion lower p (open_session db) =
    (case promotion_violation lower (db\<lparr>promotions := promotions db @ [monthly_row spec i 0]\<rparr>) of
       None \<Rightarrow> (Inr (), (open_session db)\<lparr>working := db\<lparr>promotions := promotions db @ [monthly_row spec i 0]\<rparr>\<rparr>)
     | Some e \<Rightarrow> (Inl e, (open_session db)\<lparr>working := db\<lparr>promotions := promotions db @ [monthly_row spec i 0]\<rparr>, tx_failed := True\<rparr>))"
proof -
  have "promotion_to_record p = monthly_row spec i 0"
    using assms(2,4) by (auto simp: new_monthly_recharge_promotion_def restore_promotion_def mk_benefit_amount_def
        promotion_to_record_def monthly_row_def monthly_recharge_user_limit_def)
  then show ?thesis
    by (simp add: create_promotion_def session_bind flush_session_def split: option.split)
qed

lemma create_or_load_open:
  assumes "promotion_violation lower (je_rival_flush env db1) = None" and "db = je_rival_flush env db1"
    and "je_rival_reload env = id" and "je_new_id env \<notin> pr_id ` set (promotions db)"
    and ms: "ms_benefit_amount spec = 5" "length (ms_name spec) = 21"
  shows "\<exists>p i. create_or_load_monthly_recharge_promotion lower sqlalchemy_rollback env spec (open_session db1) =
      (Inr (p, monthly_promotion spec db = None), (open_session db)\<lparr>working := monthly_effect spec (je_new_id env) db\<rparr>) \<and>
    is_monthly spec i p \<and> i = (case monthly_promotion spec db of None \<Rightarrow> je_new_id env | Some r \<Rightarrow> pr_id r)"
proof -
  let ?i = "je_new_id env"
  let ?row = "monthly_row spec ?i 0"
  let ?ins = "db\<lparr>promotions := promotions db @ [?row]\<rparr>"
  have v: "promotion_violation lower db = None" using assms(1,2) by simp
  obtain p where p: "new_monthly_recharge_promotion ?i spec = Inr p" "is_monthly spec ?i p"
    using ms(1) by (auto simp: new_monthly_recharge_promotion_def restore_promotion_def mk_benefit_amount_def is_monthly_def)
  note create = monthly_create [OF v ms p(1)]
  have start: "interfere (je_rival_flush env) (open_session db1) = (Inr (), open_session db)"
    using assms(2) by (simp add: interfere_open)
  show ?thesis
  proof (cases "monthly_promotion spec db")
    case None
    have D: "monthly_effect spec ?i db = ?ins" by (simp add: monthly_effect_def None)
    have "promotion_violation lower ?ins = None"
      unfolding D [symmetric] by (rule monthly_effect_valid [OF v ms assms(4)])
    with create p show ?thesis
      by (auto simp: create_or_load_monthly_recharge_promotion_def bind_pure catchA_def bindA_def start returnA_def D None)
  next
    case (Some r)
    obtain c where c: "promotion_violation lower ?ins = Some (IntegrityError c)"
      using duplicate_month_refused [OF v Some monthly_row_ok [OF ms]] by (auto simp: int4_def)
    have back_again: "rollback_session ((open_session db)\<lparr>working := ?ins, tx_failed := True\<rparr>) = (Inr (), open_session db)"
      by (simp add: rollback_session_def open_session_def)
    have t: "promotion_tables_ok lower (id db)" using tables_of_valid [OF v] by simp
    have again: "find_promotion_by_context_start_for_update id PROMOTION_OCR RECHARGE (ms_starts_at spec) (open_session db) =
        (Inr (Some (domain_promotion r)), open_session db)"
      using find_monthly_open [where rival = id and spec = spec and lower = lower and db = db] t Some by simp
    obtain p' where p': "apply_monthly_recharge_spec spec (domain_promotion r) = Inr p'" "is_monthly spec (pr_id r) p'"
      "save_promotion lower p' (open_session db) = (Inr (), (open_session db)\<lparr>working := monthly_effect spec ?i db\<rparr>)"
      by (rule save_monthly_open [OF v Some ms]) (simp add: is_monthly_def)
    have fail: "create_promotion lower p (open_session db) =
        (Inl (IntegrityError c), (open_session db)\<lparr>working := ?ins, tx_failed := True\<rparr>)"
      using create c by simp
    have "create_or_load_monthly_recharge_promotion lower sqlalchemy_rollback env spec (open_session db1) =
        (Inr (p', False), (open_session db)\<lparr>working := monthly_effect spec ?i db\<rparr>)"
      unfolding create_or_load_monthly_recharge_promotion_def p(1) bind_pure catchA_def assms(3)
      by (simp add: bindA_def start fail sqlalchemy_rollback_def back_again again p' liftE_def returnA_def)
    then show ?thesis using p'(2) Some by auto
  qed
qed

lemma monthly_job_runs:
  assumes "monthly_recharge_promotion_spec target (je_now env) = Inr spec"
    and "promotion_violation lower (je_rival env db0) = None"
    and "db = (if monthly_promotion spec (je_rival env db0) = None then je_rival_flush env (je_rival env db0) else je_rival env db0)"
    and "promotion_violation lower db = None" and "je_rival_reload env = id"
    and "je_new_id env \<notin> pr_id ` set (promotions db)"
  shows "\<exists>i. ensure_monthly_recharge_promotion lower (sqlalchemy_commit (promotion_violation lower)) sqlalchemy_rollback env target
      (open_session db0) =
    (Inr \<lparr>er_promotion_id = uuid_str i, er_created = (monthly_promotion spec db = None),
          er_starts_at = ms_starts_at spec, er_expires_at = ms_expires_at spec\<rparr>,
     open_session (monthly_effect spec (je_new_id env) db)) \<and>
    map_option pr_id (monthly_promotion spec (monthly_effect spec (je_new_id env) db)) = Some i"
proof -
  obtain ms: "ms_benefit_amount spec = 5" "length (ms_name spec) = 21"
    using monthly_spec_fields [OF assms(1)] by metis
  let ?db1 = "je_rival env db0"
  let ?D = "monthly_effect spec (je_new_id env) db"
  have t1: "promotion_tables_ok lower ?db1" by (rule tables_of_valid [OF assms(2)])
  have t: "promotion_tables_ok lower db" by (rule tables_of_valid [OF assms(4)])
  have v: "promotion_violation lower ?D = None" by (rule monthly_effect_valid [OF assms(4) ms assms(6)])
  note first = find_monthly_open [where rival = "je_rival env" and spec = spec, OF t1]
  have commit: "sqlalchemy_commit (promotion_violation lower) ((open_session db)\<lparr>working := ?D\<rparr>) = (Inr (), open_session ?D)"
    by (simp add: sqlalchemy_commit_def commit_session_def bindA_def session_apply v modifyA_def open_session_def)
  have id': "map_option pr_id (monthly_promotion spec ?D) = Some
      (case monthly_promotion spec db of None \<Rightarrow> je_new_id env | Some r \<Rightarrow> pr_id r)"
    unfolding monthly_promotion_effect [OF t] by (simp add: monthly_row_def split: option.split)
  obtain p i where body: "(case map_option domain_promotion (monthly_promotion spec ?db1) of
        None \<Rightarrow> create_or_load_monthly_recharge_promotion lower sqlalchemy_rollback env spec
      | Some p \<Rightarrow> bindA (liftE (apply_monthly_recharge_spec spec p)) (\<lambda>p'.
                  bindA (save_promotion lower p') (\<lambda>_. returnA (p', False)))) (open_session ?db1) =
      (Inr (p, monthly_promotion spec db = None), (open_session db)\<lparr>working := ?D\<rparr>)"
    and p: "is_monthly spec i p" "i = (case monthly_promotion spec db of None \<Rightarrow> je_new_id env | Some r \<Rightarrow> pr_id r)"
  proof (cases "monthly_promotion spec ?db1")
    case None
    then show thesis
      using create_or_load_open [of lower env ?db1 db spec] assms(3-6) ms that by auto
  next
    case (Some r)
    have db: "db = ?db1" using assms(3) Some by simp
    have found: "monthly_promotion spec db = Some r" using Some db by simp
    obtain p where p: "apply_monthly_recharge_spec spec (domain_promotion r) = Inr p" "pm_id p = pr_id r"
      "pm_starts_at p = ms_starts_at spec" "pm_expires_at p = Some (ms_expires_at spec)"
      "save_promotion lower p (open_session db) = (Inr (), (open_session db)\<lparr>working := ?D\<rparr>)"
      by (rule save_monthly_open [OF assms(4) found ms])
    show thesis
    proof (rule that [of p "pr_id r"])
      show "(case map_option domain_promotion (monthly_promotion spec ?db1) of
          None \<Rightarrow> create_or_load_monthly_recharge_promotion lower sqlalchemy_rollback env spec
        | Some p \<Rightarrow> bindA (liftE (apply_monthly_recharge_spec spec p)) (\<lambda>p'.
                    bindA (save_promotion lower p') (\<lambda>_. returnA (p', False)))) (open_session ?db1) =
        (Inr (p, monthly_promotion spec db = None), (open_session db)\<lparr>working := ?D\<rparr>)"
        unfolding Some option.map option.case p(1) bind_pure db [symmetric]
        by (simp add: bindA_def p(1,5) liftE_def returnA_def found)
    qed (simp_all add: is_monthly_def p found)
  qed
  have "ensure_monthly_recharge_promotion lower (sqlalchemy_commit (promotion_violation lower)) sqlalchemy_rollback env target
      (open_session db0) =
    (Inr \<lparr>er_promotion_id = uuid_str i, er_created = (monthly_promotion spec db = None),
          er_starts_at = ms_starts_at spec, er_expires_at = ms_expires_at spec\<rparr>, open_session ?D)"
    unfolding ensure_monthly_recharge_promotion_def assms(1) bind_pure
    by (subst bindA_Inr, rule first, subst bindA_Inr, rule body)
      (use p(1) in \<open>simp add: bindA_def commit returnA_def is_monthly_def\<close>)
  then show ?thesis using id' p(2) by auto
qed

text \<open>The job leaves exactly the specified promotion of the month: it creates the row when there
  is none, brings an existing one (also one that another run of the job commits while it is
  at work) to the specification and keeps its redemption counter.\<close>

theorem monthly_promotion_ensured:
  assumes "monthly_recharge_promotion_spec target (je_now env) = Inr spec"
    and "promotion_violation lower (je_rival env db0) = None"
    and "db = (if monthly_promotion spec (je_rival env db0) = None then je_rival_flush env (je_rival env db0) else je_rival env db0)"
    and "promotion_violation lower db = None" and "je_rival_reload env = id"
    and "je_new_id env \<notin> pr_id ` set (promotions db)"
  shows "\<exists>i. ensure_monthly_recharge_promotion lower (sqlalchemy_commit (promotion_violation lower)) sqlalchemy_rollback env target
      (open_session db0) =
    (Inr \<lparr>er_promotion_id = uuid_str i, er_created = (monthly_promotion spec db = None),
          er_starts_at = ms_starts_at spec, er_expires_at = ms_expires_at spec\<rparr>,
     open_session (monthly_effect spec (je_new_id env) db)) \<and>
    map_option pr_id (monthly_promotion spec (monthly_effect spec (je_new_id env) db)) = Some i"
  by (rule monthly_job_runs [OF assms])

text \<open>Running the job again for the same month changes nothing.\<close>

theorem monthly_job_idempotent:
  assumes "monthly_recharge_promotion_spec target (je_now env) = Inr spec" and "promotion_violation lower db = None"
    and "je_rival env = id" and "je_rival_flush env = id" and "je_rival_reload env = id"
    and "new_id \<notin> pr_id ` set (promotions db)" and "je_new_id env \<notin> pr_id ` set (promotions (monthly_effect spec new_id db))"
  shows "snd (ensure_monthly_recharge_promotion lower (sqlalchemy_commit (promotion_violation lower)) sqlalchemy_rollback env target
    (open_session (monthly_effect spec new_id db))) = open_session (monthly_effect spec new_id db)"
proof -
  let ?D = "monthly_effect spec new_id db"
  obtain ms: "ms_benefit_amount spec = 5" "length (ms_name spec) = 21"
    using monthly_spec_fields [OF assms(1)] by metis
  have v: "promotion_violation lower ?D = None" by (rule monthly_effect_valid [OF assms(2) ms assms(6)])
  have "monthly_effect spec (je_new_id env) ?D = ?D"
    by (rule monthly_effect_idem [OF tables_of_valid [OF assms(2)] tables_of_valid [OF v]])
  with monthly_job_runs [OF assms(1), where lower = lower and ?db0.0 = ?D and db = ?D] v assms(3-5,7) show ?thesis
    by fastforce
qed

section \<open>A sample month\<close>

definition march_spec :: monthly_spec where
  "march_spec = \<lparr>ms_name = monthly_name_prefix @ month_text (Date 2026 3 1),
     ms_starts_at = seoul_datetime (Date 2026 3 1) 0, ms_expires_at = seoul_datetime (Date 2026 4 1) 0,
     ms_benefit_amount = 5\<rparr>"

definition no_promotions :: promotion_db where
  "no_promotions = \<lparr>outbox_events = [], user_credits = [], credit_transactions = [], promotions = [],
     promotion_contents = [], promotion_codes = [], promotion_redemptions = []\<rparr>"

definition march_env :: "uuid \<Rightarrow> promotion_db job_env" where
  "march_env i = \<lparr>je_new_id = i, je_now = 0, je_rival = id, je_rival_flush = id, je_rival_reload = id\<rparr>"

lemma march_spec_of: "monthly_recharge_promotion_spec (Some (Date 2026 3 15)) now = Inr march_spec"
  by (simp add: monthly_recharge_promotion_spec_def target_month_or_current_def mk_date_def days_in_month_def
      seoul_midnight_utc_def seoul_datetime_def day_us_def seoul_offset_us_def days_before_year_def days_before_month_def
      march_spec_def monthly_recharge_amount_def)

lemma no_promotions_valid: "promotion_violation lower no_promotions = None"
  by (simp add: promotion_violation_iff promotion_tables_ok_def no_promotions_def List.map_filter_simps
      credit_violation_None idempotency_keys_def source_keys_def)

lemma no_promotions_simps [simp]: "promotions no_promotions = []" "monthly_promotion spec no_promotions = None"
  by (simp_all add: no_promotions_def monthly_promotion_def)

theorem monthly_window_is_the_month_witness:
  "ms_starts_at march_spec \<le> seoul_datetime (Date 2026 3 31) 5 \<and> seoul_datetime (Date 2026 3 31) 5 < ms_expires_at march_spec"
proof -
  have t: "seoul_day (seoul_datetime (Date 2026 3 31) 5) = date_ordinal (Date 2026 3 31)"
    by (rule seoul_day_datetime) (simp_all add: day_us_def)
  have d: "valid_date (Date 2026 3 31)" by (simp add: days_in_month_def)
  have "seoul_date (seoul_datetime (Date 2026 3 31) 5) = Date 2026 3 31"
    unfolding seoul_date_def t by (rule date_of_ordinal_inverse [OF d])
  moreover have "month_count (Date 2026 3 31) = month_count (Date 2026 3 15)" by (simp add: month_count_def)
  moreover have "valid_date (job_month (Some (Date 2026 3 15)) 0)" by (simp add: job_month_def days_in_month_def)
  ultimately show ?thesis
    using monthly_window_is_the_month [OF march_spec_of, of 0 "seoul_datetime (Date 2026 3 31) 5"] date_ordinal_range [OF d]
    by (simp only: t) (simp add: job_month_def)
qed

theorem monthly_promotion_ensured_witness:
  "\<exists>res. ensure_monthly_recharge_promotion id (sqlalchemy_commit (promotion_violation id)) sqlalchemy_rollback (march_env 1)
     (Some (Date 2026 3 15)) (open_session no_promotions) = (Inr res, open_session (monthly_effect march_spec 1 no_promotions)) \<and>
   er_created res"
  using monthly_promotion_ensured [OF march_spec_of, of id "march_env 1" no_promotions no_promotions] no_promotions_valid
  by (auto simp: march_env_def)

theorem monthly_job_idempotent_witness:
  "snd (ensure_monthly_recharge_promotion id (sqlalchemy_commit (promotion_violation id)) sqlalchemy_rollback (march_env 2)
     (Some (Date 2026 3 15)) (open_session (monthly_effect march_spec 1 no_promotions))) =
   open_session (monthly_effect march_spec 1 no_promotions)"
  using monthly_job_idempotent [OF march_spec_of, of id no_promotions "march_env 2" 1] no_promotions_valid
  by (simp add: march_env_def monthly_effect_def monthly_row_def)

end
