(* ===== verification/Receipt_Ocr.thy ===== *)
theory Receipt_Ocr
  imports Core_Domain
begin

text \<open>
  Receipt recognition without the database: the value objects and \<open>ReceiptOcrResult.create\<close> of
  \<open>app/modules/ocr/domain\<close>, the structured output of the provider and its conversion
  (\<open>infrastructure/receipt_ocr_client.py\<close>), and the policy of
  \<open>application/commands/extract_receipt_ocr/use_case.py\<close> on what counts as a receipt.
\<close>

section \<open>Value objects\<close>

datatype item_name = ItemName (item_text: ustr)
datatype brand_name = BrandName (brand_text: ustr)
datatype payment_location = PaymentLocation (location_text: ustr)
datatype payment_date = PaymentDate (payment_day: date)
datatype warranty_months = WarrantyPeriodMonths (months_value: int)
datatype total_amount = TotalAmount (total_value: int)

definition mk_item_name :: "ustr \<Rightarrow> exn + item_name" where
  "mk_item_name v =
     (if v = [] \<or> strip v = [] then Inl (ValidationError [ErrorDetail ''item_name'' ''item_name_required''])
      else Inr (ItemName v))"

definition mk_brand_name :: "ustr \<Rightarrow> exn + brand_name" where
  "mk_brand_name v =
     (if strip v = [] then Inl (ValidationError [ErrorDetail ''brand_name'' ''brand_name_blank'']) else Inr (BrandName v))"

definition mk_payment_location :: "ustr \<Rightarrow> exn + payment_location" where
  "mk_payment_location v =
     (if strip v = [] then Inl (ValidationError [ErrorDetail ''payment_location'' ''payment_location_blank''])
      else Inr (PaymentLocation v))"

definition mk_payment_date :: "date \<Rightarrow> date \<Rightarrow> exn + payment_date" where
  "mk_payment_date today v =
     (if today < v then Inl (ValidationError [ErrorDetail ''payment_date'' ''payment_date_future'']) else Inr (PaymentDate v))"

definition mk_warranty_months :: "int \<Rightarrow> exn + warranty_months" where
  "mk_warranty_months v =
     (if \<not> (1 \<le> v \<and> v \<le> 60) then Inl (ValidationError [ErrorDetail ''period_months'' ''period_months_range''])
      else Inr (WarrantyPeriodMonths v))"

definition mk_total_amount :: "int \<Rightarrow> exn + total_amount" where
  "mk_total_amount v =
     (if \<not> (0 \<le> v \<and> v \<le> 999999999) then Inl (ValidationError [ErrorDetail ''total_amount'' ''total_amount_range''])
      else Inr (TotalAmount v))"

lemma ocr_values_validate [simp]:
  "validates (mk_item_name v)" "validates (mk_brand_name v)" "validates (mk_payment_location v)"
  "validates (mk_payment_date t d)" "validates (mk_warranty_months n)" "validates (mk_total_amount n)"
  by (simp_all add: mk_item_name_def mk_brand_name_def mk_payment_location_def mk_payment_date_def
      mk_warranty_months_def mk_total_amount_def)

definition blank_to_none :: "ustr option \<Rightarrow> ustr option" where
  "blank_to_none v = (case v of None \<Rightarrow> None | Some t \<Rightarrow> (if strip t = [] then None else Some (strip t)))"

lemma blank_to_none_Some: "blank_to_none v = Some t \<Longrightarrow> strip t = t \<and> t \<noteq> []"
  by (auto simp: blank_to_none_def split: option.splits if_splits)

lemma blank_to_none_idem [simp]: "blank_to_none (blank_to_none v) = blank_to_none v"
  by (simp add: blank_to_none_def split: option.split)

section \<open>The result\<close>

record transaction_evidence =
  te_merchant :: bool
  te_purchased_item :: bool
  te_total_paid :: bool
  te_payment_proof :: bool

text \<open>\<open>ExtractedReceiptOcrFields\<close>; its fields are also the arguments of \<open>ReceiptOcrResult.create\<close>.\<close>

record extracted_fields =
  ex_item_name :: "ustr option"
  ex_brand_name :: "ustr option"
  ex_serial_number :: "ustr option"
  ex_payment_location :: "ustr option"
  ex_payment_date :: "date option"
  ex_total_amount :: "int option"
  ex_period_months :: "int option"
  ex_category :: "ustr option"
  ex_sub_category :: "ustr option"
  ex_expires_on :: "date option"
  ex_evidence :: "transaction_evidence option"
  ex_receipt_indexes :: "int list"
  ex_unreadable_indexes :: "int list"
  ex_unsupported_indexes :: "int list"

record ocr_result =
  or_item_name :: item_name
  or_brand_name :: "brand_name option"
  or_serial_number :: "ustr option"
  or_payment_location :: "payment_location option"
  or_payment_date :: payment_date
  or_total_amount :: "total_amount option"
  or_period_months :: warranty_months
  or_expires_on :: date
  or_category :: ustr
  or_sub_category :: ustr
  or_warnings :: "string list"

text \<open>The Korean labels of the defaults: ``other device'' and ``other''.\<close>

definition default_category :: ustr where "default_category = [44592, 53440, 32, 44592, 44592]"
definition default_sub_category :: ustr where "default_sub_category = [44592, 53440]"
definition default_warranty_months :: int where "default_warranty_months = 12"

definition collect_optional :: "('a \<Rightarrow> exn + 'b) \<Rightarrow> 'a option \<Rightarrow> (notification, exn, 'b option) action" where
  "collect_optional mk v = (case v of None \<Rightarrow> returnA None | Some x \<Rightarrow> collect (mk x))"

text \<open>
  \<open>ReceiptOcrResult.create\<close>. \<open>today\<close> is \<open>date.today()\<close> where the default is taken, \<open>today'\<close> where
  \<open>PaymentDate\<close> checks. An item name that is \<open>None\<close> or empty is the empty text.
\<close>

definition create_ocr_result :: "date \<Rightarrow> date \<Rightarrow> extracted_fields \<Rightarrow> exn + ocr_result" where
  "create_ocr_result today today' x =
     (let paid = (case ex_payment_date x of None \<Rightarrow> today | Some d \<Rightarrow> d);
          months = (case ex_period_months x of None \<Rightarrow> default_warranty_months | Some n \<Rightarrow> n);
          early = (case ex_expires_on x of None \<Rightarrow> False | Some e \<Rightarrow> e < paid);
          expires = (if early then None else ex_expires_on x);
          warnings = (if ex_payment_date x = None then [''payment_date_defaulted''] else []) @
                     (if ex_period_months x = None then [''period_months_defaulted''] else []) @
                     (if early then [''expires_on_recomputed''] else []);
          category = (case blank_to_none (ex_category x) of None \<Rightarrow> default_category | Some c \<Rightarrow> c);
          sub_category = (case blank_to_none (ex_sub_category x) of None \<Rightarrow> default_sub_category | Some c \<Rightarrow> c)
      in fst (
        bindA (collect (mk_item_name (strip (case ex_item_name x of None \<Rightarrow> [] | Some t \<Rightarrow> t)))) (\<lambda>item.
        bindA (collect (mk_payment_date today' paid)) (\<lambda>pay.
        bindA (collect (mk_warranty_months months)) (\<lambda>period.
        bindA (collect_optional mk_brand_name (blank_to_none (ex_brand_name x))) (\<lambda>brand.
        bindA (collect_optional mk_payment_location (blank_to_none (ex_payment_location x))) (\<lambda>location.
        bindA (collect_optional mk_total_amount (ex_total_amount x)) (\<lambda>amount.
        bindA raise_if_any (\<lambda>_.
        case (item, pay, period) of
          (Some i, Some p, Some m) \<Rightarrow>
            (case (case expires of Some e \<Rightarrow> Some e | None \<Rightarrow> add_months (payment_day p) (months_value m)) of
               None \<Rightarrow> raiseA PyValueError
             | Some e \<Rightarrow>
                 returnA \<lparr>or_item_name = i, or_brand_name = brand, or_serial_number = blank_to_none (ex_serial_number x),
                          or_payment_location = location, or_payment_date = p, or_total_amount = amount,
                          or_period_months = m, or_expires_on = e, or_category = category,
                          or_sub_category = sub_category, or_warnings = warnings\<rparr>)
        | _ \<Rightarrow> raiseA PyTypeError))))))) []))"

text \<open>What \<open>create\<close> requires, what it reports, and what it makes of valid fields.\<close>

definition paid_on :: "date \<Rightarrow> extracted_fields \<Rightarrow> date" where
  "paid_on today x = (case ex_payment_date x of None \<Rightarrow> today | Some d \<Rightarrow> d)"

definition covered_months :: "extracted_fields \<Rightarrow> int" where
  "covered_months x = (case ex_period_months x of None \<Rightarrow> 12 | Some n \<Rightarrow> n)"

definition field_errors :: "date \<Rightarrow> date \<Rightarrow> extracted_fields \<Rightarrow> error_detail list" where
  "field_errors today today' x =
     failed_details (mk_item_name (strip (case ex_item_name x of None \<Rightarrow> [] | Some t \<Rightarrow> t))) @
     failed_details (mk_payment_date today' (paid_on today x)) @
     failed_details (mk_warranty_months (covered_months x)) @
     (case ex_total_amount x of None \<Rightarrow> [] | Some n \<Rightarrow> failed_details (mk_total_amount n))"

lemma collect_optional_text:
  "bindA (collect_optional mk_brand_name (blank_to_none v)) f ds = f (map_option BrandName (blank_to_none v)) ds"
  "bindA (collect_optional mk_payment_location (blank_to_none v)) g ds = g (map_option PaymentLocation (blank_to_none v)) ds"
  using blank_to_none_Some [of v]
  by (cases "blank_to_none v"; simp add: collect_optional_def bindA_def returnA_def collect_def mk_brand_name_def
      mk_payment_location_def)+

lemma collect_optional_amount:
  "bindA (collect_optional mk_total_amount v) f ds =
     f (Option.bind v (\<lambda>n. value_of (mk_total_amount n)))
       (ds @ (case v of None \<Rightarrow> [] | Some n \<Rightarrow> failed_details (mk_total_amount n)))"
  by (cases v) (simp_all add: collect_optional_def bindA_def returnA_def collect_validates)

definition explicit_expiry :: "date \<Rightarrow> extracted_fields \<Rightarrow> date option" where
  "explicit_expiry today x =
     (case ex_expires_on x of None \<Rightarrow> None | Some e \<Rightarrow> (if e < paid_on today x then None else Some e))"

definition ocr_result_of :: "date \<Rightarrow> extracted_fields \<Rightarrow> date \<Rightarrow> ocr_result" where
  "ocr_result_of today x expires =
     \<lparr>or_item_name = ItemName (strip (case ex_item_name x of None \<Rightarrow> [] | Some t \<Rightarrow> t)),
      or_brand_name = map_option BrandName (blank_to_none (ex_brand_name x)),
      or_serial_number = blank_to_none (ex_serial_number x),
      or_payment_location = map_option PaymentLocation (blank_to_none (ex_payment_location x)),
      or_payment_date = PaymentDate (paid_on today x), or_total_amount = map_option TotalAmount (ex_total_amount x),
      or_period_months = WarrantyPeriodMonths (covered_months x), or_expires_on = expires,
      or_category = (case blank_to_none (ex_category x) of None \<Rightarrow> default_category | Some c \<Rightarrow> c),
      or_sub_category = (case blank_to_none (ex_sub_category x) of None \<Rightarrow> default_sub_category | Some c \<Rightarrow> c),
      or_warnings = (if ex_payment_date x = None then [''payment_date_defaulted''] else []) @
        (if ex_period_months x = None then [''period_months_defaulted''] else []) @
        (if ex_expires_on x \<noteq> None \<and> explicit_expiry today x = None then [''expires_on_recomputed''] else [])\<rparr>"

lemma create_ocr_result_eq:
  "create_ocr_result today today' x =
     (if field_errors today today' x \<noteq> [] then Inl (ValidationError (field_errors today today' x))
      else case explicit_expiry today x of
             Some e \<Rightarrow> Inr (ocr_result_of today x e)
           | None \<Rightarrow> (case add_months (paid_on today x) (covered_months x) of
                        None \<Rightarrow> Inl PyValueError | Some e \<Rightarrow> Inr (ocr_result_of today x e)))"
proof -
  let ?item = "mk_item_name (strip (case ex_item_name x of None \<Rightarrow> [] | Some t \<Rightarrow> t))"
  let ?pay = "mk_payment_date today' (paid_on today x)"
  let ?period = "mk_warranty_months (covered_months x)"
  let ?amount = "Option.bind (ex_total_amount x) (\<lambda>n. value_of (mk_total_amount n))"
  have early: "(case ex_expires_on x of None \<Rightarrow> False | Some e \<Rightarrow> e < paid_on today x) \<longleftrightarrow>
      ex_expires_on x \<noteq> None \<and> explicit_expiry today x = None"
    by (simp add: explicit_expiry_def split: option.split)
  have expires: "(if ex_expires_on x \<noteq> None \<and> explicit_expiry today x = None then None else ex_expires_on x) = explicit_expiry today x"
    by (auto simp: explicit_expiry_def split: option.splits)
  have paid: "(case ex_payment_date x of None \<Rightarrow> today | Some d \<Rightarrow> d) = paid_on today x"
    and months: "(case ex_period_months x of None \<Rightarrow> default_warranty_months | Some n \<Rightarrow> n) = covered_months x"
    by (simp_all add: paid_on_def covered_months_def default_warranty_months_def split: option.split)
  show ?thesis
  proof (cases "field_errors today today' x = []")
    case True
    then have ok: "failed_details ?item = []" "failed_details ?pay = []" "failed_details ?period = []"
      "(case ex_total_amount x of None \<Rightarrow> [] | Some n \<Rightarrow> failed_details (mk_total_amount n)) = []"
      by (simp_all add: field_errors_def)
    have vals: "?item = Inr (ItemName (strip (case ex_item_name x of None \<Rightarrow> [] | Some t \<Rightarrow> t)))"
      "?pay = Inr (PaymentDate (paid_on today x))" "?period = Inr (WarrantyPeriodMonths (covered_months x))"
      using ok(1-3) by (auto simp: mk_item_name_def mk_payment_date_def mk_warranty_months_def split: if_splits)
    have amount: "?amount = map_option TotalAmount (ex_total_amount x)"
      using ok(4) by (auto simp: mk_total_amount_def split: option.splits if_splits)
    show ?thesis
      unfolding create_ocr_result_def Let_def paid months early expires
      using True
      by (simp add: bindA_collect collect_optional_text collect_optional_amount bindA_raise_if_any vals amount ok(4)
          ocr_result_of_def returnA_def raiseA_def split: option.split)
  next
    case False
    then show ?thesis
      unfolding create_ocr_result_def Let_def paid months early expires
      by (simp only: bindA_collect ocr_values_validate collect_optional_text collect_optional_amount bindA_raise_if_any
          append_Nil append_assoc field_errors_def [symmetric] if_False if_True fst_conv simp_thms)
  qed
qed

text \<open>What every result satisfies.\<close>

definition ocr_result_ok :: "date \<Rightarrow> ocr_result \<Rightarrow> bool" where
  "ocr_result_ok today' r \<longleftrightarrow>
     strip (item_text (or_item_name r)) \<noteq> [] \<and> payment_day (or_payment_date r) \<le> today' \<and>
     1 \<le> months_value (or_period_months r) \<and> months_value (or_period_months r) \<le> 60 \<and>
     (\<forall>a \<in> set_option (or_total_amount r). 0 \<le> total_value a \<and> total_value a \<le> 999999999) \<and>
     (\<forall>b \<in> set_option (or_brand_name r). strip (brand_text b) = brand_text b \<and> brand_text b \<noteq> []) \<and>
     (\<forall>l \<in> set_option (or_payment_location r). strip (location_text l) = location_text l \<and> location_text l \<noteq> []) \<and>
     or_category r \<noteq> [] \<and> or_sub_category r \<noteq> [] \<and> payment_day (or_payment_date r) \<le> or_expires_on r"

lemma field_errors_Nil:
  assumes "field_errors today today' x = []"
  shows "strip (case ex_item_name x of None \<Rightarrow> [] | Some t \<Rightarrow> t) \<noteq> []" "paid_on today x \<le> today'"
    "1 \<le> covered_months x" "covered_months x \<le> 60"
    "\<forall>n \<in> set_option (ex_total_amount x). 0 \<le> n \<and> n \<le> 999999999"
  using assms
  by (auto simp: field_errors_def mk_item_name_def mk_payment_date_def mk_warranty_months_def mk_total_amount_def
      split: if_splits option.splits)

text \<open>C35. What \<open>ReceiptOcrResult.create\<close> returns: a result whose purchase date is not in the future, whose
  period is 1 to 60 months, whose amount is in range, whose texts are stripped and not blank, and
  whose coverage never ends before the purchase; a warning stands exactly for each default taken.
  Otherwise it raises one \<open>ValidationError\<close> with the details of every invalid field.\<close>

theorem ocr_result_created:
  assumes "valid_date (paid_on today x)"
  shows "(case create_ocr_result today today' x of
      Inr r \<Rightarrow> ocr_result_ok today' r \<and> payment_day (or_payment_date r) = paid_on today x \<and>
               (or_warnings r = [] \<longleftrightarrow> ex_payment_date x \<noteq> None \<and> ex_period_months x \<noteq> None \<and>
                  (case ex_expires_on x of None \<Rightarrow> True | Some e \<Rightarrow> \<not> e < paid_on today x))
    | Inl e \<Rightarrow> (e = ValidationError (field_errors today today' x) \<and> field_errors today today' x \<noteq> []) \<or>
               (e = PyValueError \<and> add_months (paid_on today x) (covered_months x) = None))"
proof (cases "field_errors today today' x = []")
  case False
  then show ?thesis by (simp add: create_ocr_result_eq)
next
  case True
  note f = field_errors_Nil [OF True]
  have ok: "ocr_result_ok today' (ocr_result_of today x e)" if "paid_on today x \<le> e" for e
    using f that blank_to_none_Some
    by (auto simp: ocr_result_ok_def ocr_result_of_def default_category_def default_sub_category_def split: option.split)
  have warn: "or_warnings (ocr_result_of today x e) = [] \<longleftrightarrow> ex_payment_date x \<noteq> None \<and> ex_period_months x \<noteq> None \<and>
      (case ex_expires_on x of None \<Rightarrow> True | Some e \<Rightarrow> \<not> e < paid_on today x)" for e
    by (auto simp: ocr_result_of_def explicit_expiry_def split: option.splits)
  show ?thesis
  proof (cases "explicit_expiry today x")
    case (Some e)
    then have "paid_on today x \<le> e" by (auto simp: explicit_expiry_def split: option.splits if_splits)
    then show ?thesis
      using True Some ok warn by (simp add: create_ocr_result_eq) (simp add: ocr_result_of_def)
  next
    case None
    show ?thesis
    proof (cases "add_months (paid_on today x) (covered_months x)")
      case (Some e)
      have "paid_on today x \<le> e"
        using add_months_less [OF assms _ Some] f(3) by simp
      then show ?thesis
        using True None Some ok warn by (simp add: create_ocr_result_eq) (simp add: ocr_result_of_def)
    qed (simp add: create_ocr_result_eq True None)
  qed
qed

section \<open>The provider's answer\<close>

datatype ocr_category = KITCHEN_APPLIANCE | LAUNDRY_CLEANING | LIVING_CLIMATE | IT_DEVICE | OTHER_DEVICE

fun api_label :: "ocr_category \<Rightarrow> ustr" where
  "api_label KITCHEN_APPLIANCE = [51452, 48169, 32, 44032, 51204]"
| "api_label LAUNDRY_CLEANING = [49464, 53441, 47, 52397, 49548]"
| "api_label LIVING_CLIMATE = [47532, 48729, 47, 45257, 45212, 48169]"
| "api_label IT_DEVICE = [73, 84, 32, 44592, 44592]"
| "api_label OTHER_DEVICE = [44592, 53440, 32, 44592, 44592]"

text \<open>\<open>ReceiptOcrStructuredOutput\<close>; pydantic has checked the types and the literals.\<close>

record structured_output =
  so_item_name :: "ustr option"
  so_brand_name :: "ustr option"
  so_serial_number :: "ustr option"
  so_payment_location :: "ustr option"
  so_payment_date :: "date option"
  so_total_amount :: "int option"
  so_period_months :: "int option"
  so_expires_on :: "date option"
  so_category :: "ocr_category option"
  so_sub_category :: "ustr option"
  so_evidence :: transaction_evidence
  so_receipt_indexes :: "int list"
  so_unreadable_indexes :: "int list"
  so_unsupported_indexes :: "int list"

text \<open>\<open>tuple(sorted(set(xs)))\<close>.\<close>

definition sorted_indexes :: "int list \<Rightarrow> int list" where
  "sorted_indexes xs = sort (remdups xs)"

lemma sorted_indexes [simp]:
  "set (sorted_indexes xs) = set xs" "sorted (sorted_indexes xs)" "distinct (sorted_indexes xs)"
  "sorted_indexes xs = [] \<longleftrightarrow> xs = []"
  by (auto simp: sorted_indexes_def) (metis remdups_eq_nil_iff set_empty set_sort)+

definition to_extracted_fields :: "int \<Rightarrow> structured_output \<Rightarrow> exn + extracted_fields" where
  "to_extracted_fields image_count out =
     (let receipt = so_receipt_indexes out; unreadable = so_unreadable_indexes out; unsupported = so_unsupported_indexes out
      in if \<exists>i \<in> set (receipt @ unreadable @ unsupported). i < 0 \<or> i \<ge> image_count then Inl PyValueError
         else if \<exists>i \<in> set unreadable. i \<in> set unsupported then Inl PyValueError
         else if \<exists>i \<in> set receipt. i \<in> set unreadable \<or> i \<in> set unsupported then Inl PyValueError
         else Inr \<lparr>ex_item_name = blank_to_none (so_item_name out), ex_brand_name = blank_to_none (so_brand_name out),
                   ex_serial_number = blank_to_none (so_serial_number out),
                   ex_payment_location = blank_to_none (so_payment_location out),
                   ex_payment_date = so_payment_date out, ex_total_amount = so_total_amount out,
                   ex_period_months = so_period_months out,
                   ex_category = Some (case so_category out of None \<Rightarrow> default_category | Some c \<Rightarrow> api_label c),
                   ex_sub_category = Some (case blank_to_none (so_sub_category out) of None \<Rightarrow> default_sub_category | Some c \<Rightarrow> c),
                   ex_expires_on = so_expires_on out, ex_evidence = Some (so_evidence out),
                   ex_receipt_indexes = sorted_indexes receipt, ex_unreadable_indexes = sorted_indexes unreadable,
                   ex_unsupported_indexes = sorted_indexes unsupported\<rparr>)"

record ocr_image =
  im_file_index :: int
  im_content :: "8 word list"
  im_content_type :: ustr

text \<open>
  \<open>OpenRouterReceiptOcrClient.extract\<close>. The HTTP exchange with the provider and pydantic's
  parser are arguments (\<open>post\<close> returns the message content, \<open>parse\<close> the structured output); the
  errors the \<open>except\<close> clause names become \<open>ReceiptOcrProviderUnavailableError\<close>.
\<close>

definition provider_error :: "exn \<Rightarrow> bool" where
  "provider_error e \<longleftrightarrow> (case e of PyValueError \<Rightarrow> True | PyKeyError _ \<Rightarrow> True | PyTypeError \<Rightarrow> True | HttpClientError \<Rightarrow> True | _ \<Rightarrow> False)"

lemma provider_error_value: "provider_error PyValueError"
  by (simp add: provider_error_def)

definition openrouter_extract ::
    "(ocr_image list \<Rightarrow> exn + ustr) \<Rightarrow> (ustr \<Rightarrow> exn + structured_output) \<Rightarrow> ocr_image list \<Rightarrow> exn + extracted_fields" where
  "openrouter_extract post parse images =
     (case (if images = [] then Inl PyValueError
            else bindE (post images) (\<lambda>content.
                 bindE (parse content) (\<lambda>out.
                 to_extracted_fields (int (length images)) out))) of
        Inl e \<Rightarrow> Inl (if provider_error e then ReceiptOcrProviderUnavailableError else e)
      | Inr x \<Rightarrow> Inr x)"

text \<open>\<open>ReceiptOcrClient.extract\<close>, the client of local and test environments.\<close>

definition stub_output :: "date \<Rightarrow> structured_output" where
  "stub_output today =
     \<lparr>so_item_name = Some [49340, 49457, 32, 45257, 51109, 44256, 32, 56, 55, 53, 76], so_brand_name = Some [49340, 49457],
      so_serial_number = Some (ascii ''SN-20240526-001''),
      so_payment_location = Some [53580, 49828, 53944, 32, 44396, 47588, 52376], so_payment_date = Some today,
      so_total_amount = Some 129000, so_period_months = None, so_expires_on = None,
      so_category = Some KITCHEN_APPLIANCE, so_sub_category = Some [45257, 51109, 44256],
      so_evidence = \<lparr>te_merchant = True, te_purchased_item = True, te_total_paid = True, te_payment_proof = True\<rparr>,
      so_receipt_indexes = [0], so_unreadable_indexes = [], so_unsupported_indexes = []\<rparr>"

definition stub_extract :: "date \<Rightarrow> ocr_image list \<Rightarrow> exn + extracted_fields" where
  "stub_extract today images =
     (if images = [] then Inl PyValueError else to_extracted_fields (int (length images)) (stub_output today))"

section \<open>What counts as a receipt\<close>

definition required_evidence :: "extracted_fields \<Rightarrow> bool" where
  "required_evidence x \<longleftrightarrow>
     (case ex_evidence x of
        None \<Rightarrow> False
      | Some ev \<Rightarrow> te_merchant ev \<and> te_purchased_item ev \<and> te_total_paid ev \<and> te_payment_proof ev)"

definition enforce_supported_receipt_policy :: "int list \<Rightarrow> extracted_fields \<Rightarrow> extracted_fields" where
  "enforce_supported_receipt_policy request_indexes x =
     (if ex_receipt_indexes x = [] then x
      else if required_evidence x \<and> ex_total_amount x \<noteq> None then x
      else x\<lparr>ex_receipt_indexes := [],
             ex_unsupported_indexes :=
               sorted_indexes (filter (\<lambda>i. i \<notin> set (ex_unreadable_indexes x)) request_indexes)\<rparr>)"

text \<open>The constructors of the two receipt errors, which raise \<open>ValueError\<close> on indexes they refuse.\<close>

definition mk_unsupported_receipt :: "int list \<Rightarrow> int list \<Rightarrow> exn" where
  "mk_unsupported_receipt unsupported unreadable =
     (if unsupported = [] then PyValueError
      else if \<exists>i \<in> set unsupported. i \<in> set unreadable then PyValueError
      else UnsupportedReceiptError (sorted_indexes unsupported) (sorted_indexes unreadable))"

definition mk_image_unreadable :: "int list \<Rightarrow> exn" where
  "mk_image_unreadable indexes =
     (if indexes = [] then PyValueError else ReceiptImageUnreadableError (sorted_indexes indexes))"

text \<open>The checks of \<open>execute\<close> on the fields, once the policy has been applied, and the result.\<close>

definition refuse_or_create :: "int list \<Rightarrow> date \<Rightarrow> date \<Rightarrow> extracted_fields \<Rightarrow> exn + ocr_result" where
  "refuse_or_create request_indexes today today' x =
     (if ex_unsupported_indexes x \<noteq> [] then Inl (mk_unsupported_receipt (ex_unsupported_indexes x) (ex_unreadable_indexes x))
      else if ex_unreadable_indexes x \<noteq> [] then Inl (mk_image_unreadable (ex_unreadable_indexes x))
      else if ex_receipt_indexes x = [] then Inl (mk_unsupported_receipt request_indexes [])
      else if strip (case ex_item_name x of None \<Rightarrow> [] | Some t \<Rightarrow> t) = [] then Inl (mk_image_unreadable request_indexes)
      else create_ocr_result today today' x)"

text \<open>The part of \<open>ExtractReceiptOcrCommandUseCase.execute\<close> between the reservation and the final charge.\<close>

definition recognize ::
    "(ocr_image list \<Rightarrow> exn + extracted_fields) \<Rightarrow> date \<Rightarrow> date \<Rightarrow> ocr_image list \<Rightarrow> exn + ocr_result" where
  "recognize extract today today' images =
     bindE (extract images) (\<lambda>extracted.
     let request_indexes = map im_file_index images
     in refuse_or_create request_indexes today today' (enforce_supported_receipt_policy request_indexes extracted))"


section \<open>What is accepted, and what is refused how\<close>

text \<open>Indexes that name images of the request, each in one class at most.\<close>

definition indexes_ok :: "int \<Rightarrow> extracted_fields \<Rightarrow> bool" where
  "indexes_ok n x \<longleftrightarrow>
     set (ex_receipt_indexes x) \<union> set (ex_unreadable_indexes x) \<union> set (ex_unsupported_indexes x) \<subseteq> {0..<n} \<and>
     set (ex_unreadable_indexes x) \<inter> set (ex_unsupported_indexes x) = {} \<and>
     set (ex_receipt_indexes x) \<inter> (set (ex_unreadable_indexes x) \<union> set (ex_unsupported_indexes x)) = {}"

lemma to_extracted_fields_ok:
  assumes "to_extracted_fields n out = Inr x"
  shows "indexes_ok n x" "ex_payment_date x = so_payment_date out"
  using assms by (auto simp: to_extracted_fields_def indexes_ok_def Let_def not_le not_less split: if_splits)

lemma policy_ok:
  assumes "indexes_ok n x" and "set idx \<subseteq> {0..<n}"
  shows "indexes_ok n (enforce_supported_receipt_policy idx x)"
  using assms unfolding indexes_ok_def enforce_supported_receipt_policy_def by auto

lemma policy_fields [simp]:
  "ex_payment_date (enforce_supported_receipt_policy idx x) = ex_payment_date x"
  "ex_period_months (enforce_supported_receipt_policy idx x) = ex_period_months x"
  "ex_item_name (enforce_supported_receipt_policy idx x) = ex_item_name x"
  "ex_total_amount (enforce_supported_receipt_policy idx x) = ex_total_amount x"
  "ex_evidence (enforce_supported_receipt_policy idx x) = ex_evidence x"
  "ex_unreadable_indexes (enforce_supported_receipt_policy idx x) = ex_unreadable_indexes x"
  by (simp_all add: enforce_supported_receipt_policy_def)

text \<open>C34. A recognised receipt is backed by evidence: the provider named at least one receipt image and
  no unsupported or unreadable one, saw the merchant, the item, the total and a proof of payment,
  and read an amount and an item name.\<close>

theorem recognized_receipt_has_evidence:
  assumes "recognize extract today today' images = Inr r"
  shows "\<exists>x. extract images = Inr x \<and> ex_receipt_indexes x \<noteq> [] \<and> ex_unsupported_indexes x = [] \<and>
    ex_unreadable_indexes x = [] \<and> required_evidence x \<and> ex_total_amount x \<noteq> None \<and>
    (\<exists>t. ex_item_name x = Some t \<and> strip t \<noteq> []) \<and> create_ocr_result today today' x = Inr r"
  using assms unfolding recognize_def bindE_Inr
  by (auto simp: Let_def refuse_or_create_def enforce_supported_receipt_policy_def split: if_splits option.splits)

text \<open>The failures of a recognition that the client is told about.\<close>

definition ocr_failure :: "int \<Rightarrow> exn \<Rightarrow> bool" where
  "ocr_failure n e \<longleftrightarrow>
     e = ReceiptOcrProviderUnavailableError \<or>
     (\<exists>us rs. e = UnsupportedReceiptError us rs \<and> us \<noteq> [] \<and> set us \<inter> set rs = {} \<and> set us \<union> set rs \<subseteq> {0..<n}) \<or>
     (\<exists>is. e = ReceiptImageUnreadableError is \<and> is \<noteq> [] \<and> set is \<subseteq> {0..<n}) \<or>
     (\<exists>d ds. e = ValidationError (d # ds))"

lemma ocr_failure_status: "ocr_failure n e \<Longrightarrow> http_status e = Some 422 \<or> http_status e = Some 503"
  by (auto simp: ocr_failure_def http_status_simps)

lemma unsupported_failure:
  assumes "us \<noteq> []" and "set us \<inter> set rs = {}" and "set us \<union> set rs \<subseteq> {0..<n}"
  shows "ocr_failure n (mk_unsupported_receipt us rs)"
  using assms by (auto simp: ocr_failure_def mk_unsupported_receipt_def)

lemma unreadable_failure:
  assumes "is \<noteq> []" and "set is \<subseteq> {0..<n}"
  shows "ocr_failure n (mk_image_unreadable is)"
  using assms by (auto simp: ocr_failure_def mk_image_unreadable_def)

lemma create_failure:
  assumes "valid_date (paid_on today x)" and "month_count today' + 60 < 12 * 10000" and "valid_date today'"
    and "create_ocr_result today today' x = Inl e"
  shows "\<exists>d ds. e = ValidationError (d # ds)"
proof (cases "field_errors today today' x")
  case Nil
  note f = field_errors_Nil [OF Nil]
  have "month_count (paid_on today x) + covered_months x < 12 * 10000"
    using month_count_le [OF f(2) assms(1,3)] f(4) assms(2) by simp
  then have "add_months (paid_on today x) (covered_months x) \<noteq> None"
    using add_months_defined [OF assms(1)] f(3) by simp
  then show ?thesis using assms(4) Nil by (auto simp: create_ocr_result_eq split: option.splits)
next
  case (Cons d ds)
  then show ?thesis using assms(4) by (simp add: create_ocr_result_eq) blast
qed

lemma refusal_reported:
  assumes x: "indexes_ok n x" and idx: "set idx \<subseteq> {0..<n}" "idx \<noteq> []" and paid: "valid_date (paid_on today x)"
    and today': "month_count today' + 60 < 12 * 10000" "valid_date today'"
    and e: "refuse_or_create idx today today' x = Inl e"
  shows "ocr_failure n e"
proof (cases "ex_unsupported_indexes x = []")
  case False
  then show ?thesis
    using e unsupported_failure [of "ex_unsupported_indexes x" "ex_unreadable_indexes x" n] x
    by (auto simp: refuse_or_create_def indexes_ok_def)
next
  case True
  show ?thesis
  proof (cases "ex_unreadable_indexes x = []")
    case False
    then show ?thesis
      using e True unreadable_failure [of "ex_unreadable_indexes x" n] x by (auto simp: refuse_or_create_def indexes_ok_def)
  next
    case readable: True
    have "create_ocr_result today today' x = Inl e \<Longrightarrow> ocr_failure n e"
      using create_failure [OF paid today'] by (auto simp: ocr_failure_def)
    then show ?thesis
      using e True readable unsupported_failure [of idx "[]" n] unreadable_failure [of idx n] idx
      by (auto simp: refuse_or_create_def split: if_splits)
  qed
qed

lemma conversion_error:
  "to_extracted_fields n out = Inl e \<Longrightarrow> e = PyValueError"
  by (auto simp: to_extracted_fields_def Let_def split: if_splits)

text \<open>Every failure of a recognition through the provider client is one the API reports as such: the
  provider is unavailable (503), images of the request are unsupported or unreadable, or fields
  are invalid (422). The image indexes reported are those of the request, no image is reported
  as both, and no internal error (500) comes out.\<close>

theorem recognition_failures_reported:
  assumes "map im_file_index images = map int [0..<length images]" and "images \<noteq> []"
    and "\<And>e. post images = Inl e \<Longrightarrow> provider_error e" and "\<And>c e. parse c = Inl e \<Longrightarrow> provider_error e"
    and "\<And>c out d. parse c = Inr out \<Longrightarrow> so_payment_date out = Some d \<Longrightarrow> valid_date d"
    and "valid_date today" and "valid_date today'" and "month_count today' + 60 < 12 * 10000"
    and "recognize (openrouter_extract post parse) today today' images = Inl e"
  shows "ocr_failure (int (length images)) e \<and> (http_status e = Some 422 \<or> http_status e = Some 503)"
proof -
  let ?n = "int (length images)"
  let ?idx = "map im_file_index images"
  have idx: "set ?idx \<subseteq> {0..<?n}" "?idx \<noteq> []" unfolding assms(1) using assms(2) by auto
  have "ocr_failure ?n e"
  proof (cases "openrouter_extract post parse images")
    case (Inl e')
    have "e' = ReceiptOcrProviderUnavailableError"
    proof (cases "bindE (post images) (\<lambda>content. bindE (parse content) (\<lambda>out. to_extracted_fields ?n out))")
      case (Inl e1)
      have "provider_error e1"
        using Inl assms(3,4) conversion_error provider_error_value unfolding bindE_Inl by metis
      then show ?thesis using Inl \<open>openrouter_extract post parse images = Inl e'\<close> assms(2) by (simp add: openrouter_extract_def)
    next
      case (Inr x)
      then show ?thesis using \<open>openrouter_extract post parse images = Inl e'\<close> assms(2) by (simp add: openrouter_extract_def)
    qed
    then show ?thesis using Inl assms(9) by (simp add: recognize_def ocr_failure_def)
  next
    case (Inr x0)
    let ?x = "enforce_supported_receipt_policy ?idx x0"
    obtain c out where out: "post images = Inr c" "parse c = Inr out" "to_extracted_fields ?n out = Inr x0"
      using Inr assms(2) by (auto simp: openrouter_extract_def bindE_Inr split: sum.splits)
    note x0 = to_extracted_fields_ok [OF out(3)]
    have x: "indexes_ok ?n ?x" by (rule policy_ok [OF x0(1) idx(1)])
    have paid: "valid_date (paid_on today ?x)"
      using assms(5) [OF out(2)] assms(6) x0(2) by (simp add: paid_on_def split: option.split)
    have "refuse_or_create ?idx today today' ?x = Inl e"
      using assms(9) Inr by (simp add: recognize_def Let_def)
    then show ?thesis
      using refusal_reported [OF x idx paid assms(8,7)] by blast
  qed
  then show ?thesis using ocr_failure_status by blast
qed

section \<open>A sample receipt\<close>

definition sample_image :: ocr_image where
  "sample_image = \<lparr>im_file_index = 0, im_content = [1, 2, 3], im_content_type = ascii ''image/png''\<rparr>"

lemma strip_plain: "t \<noteq> [] \<Longrightarrow> \<not> is_space (hd t) \<Longrightarrow> \<not> is_space (last t) \<Longrightarrow> strip t = t"
  by (simp add: strip_eq_iff)

lemma stub_strips:
  "strip [49340, 49457, 32, 45257, 51109, 44256, 32, 56, 55, 53, 76] = [49340, 49457, 32, 45257, 51109, 44256, 32, 56, 55, 53, 76]"
  "strip [49340, 49457] = [49340, 49457]"
  "strip [53580, 49828, 53944, 32, 44396, 47588, 52376] = [53580, 49828, 53944, 32, 44396, 47588, 52376]"
  "strip [45257, 51109, 44256] = [45257, 51109, 44256]"
  by (rule strip_plain; simp add: is_space_def)+

lemma stub_recognized:
  "\<exists>r. recognize (stub_extract (Date 2026 3 1)) (Date 2026 3 1) (Date 2026 3 1) [sample_image] = Inr r"
  by (simp add: recognize_def stub_extract_def to_extracted_fields_def stub_output_def Let_def sorted_indexes_def
      enforce_supported_receipt_policy_def required_evidence_def refuse_or_create_def sample_image_def stub_strips
      blank_to_none_def create_ocr_result_eq field_errors_def mk_item_name_def mk_payment_date_def mk_warranty_months_def
      mk_total_amount_def paid_on_def covered_months_def explicit_expiry_def mk_date_def days_in_month_def is_leap_def)

definition named_fields :: extracted_fields where
  "named_fields = \<lparr>ex_item_name = Some (ascii ''TV''), ex_brand_name = None, ex_serial_number = None,
     ex_payment_location = None, ex_payment_date = Some (Date 2026 2 28), ex_total_amount = Some 1000, ex_period_months = None,
     ex_category = None, ex_sub_category = None, ex_expires_on = Some (Date 2026 1 1), ex_evidence = None,
     ex_receipt_indexes = [], ex_unreadable_indexes = [], ex_unsupported_indexes = []\<rparr>"

theorem ocr_result_created_witness:
  "\<exists>r. create_ocr_result (Date 2026 3 1) (Date 2026 3 1) named_fields = Inr r \<and> ocr_result_ok (Date 2026 3 1) r \<and>
    or_warnings r \<noteq> []"
proof -
  have "strip (ascii ''TV'') = ascii ''TV''" by (rule strip_plain) (simp_all add: ascii_def is_space_def)
  then have "\<exists>r. create_ocr_result (Date 2026 3 1) (Date 2026 3 1) named_fields = Inr r"
    by (simp add: named_fields_def create_ocr_result_eq field_errors_def mk_item_name_def mk_payment_date_def
        mk_warranty_months_def mk_total_amount_def paid_on_def covered_months_def explicit_expiry_def mk_date_def
        days_in_month_def is_leap_def less_date_def ascii_def)
  moreover have "valid_date (paid_on (Date 2026 3 1) named_fields)"
    by (simp add: paid_on_def named_fields_def days_in_month_def)
  ultimately show ?thesis
    using ocr_result_created [of "Date 2026 3 1" named_fields "Date 2026 3 1"] by (auto simp: named_fields_def)
qed

theorem recognized_receipt_has_evidence_witness:
  "\<exists>x. stub_extract (Date 2026 3 1) [sample_image] = Inr x \<and> required_evidence x"
  using stub_recognized recognized_receipt_has_evidence by blast

theorem recognition_failures_reported_witness:
  "recognize (openrouter_extract (\<lambda>_. Inl HttpClientError) (\<lambda>_. Inl PyValueError)) (Date 2026 3 1) (Date 2026 3 1) [sample_image] =
     Inl ReceiptOcrProviderUnavailableError \<and>
   ocr_failure 1 ReceiptOcrProviderUnavailableError"
proof -
  have r: "recognize (openrouter_extract (\<lambda>_. Inl HttpClientError) (\<lambda>_. Inl PyValueError)) (Date 2026 3 1) (Date 2026 3 1) [sample_image] =
     Inl ReceiptOcrProviderUnavailableError"
    by (simp add: recognize_def openrouter_extract_def provider_error_def)
  show ?thesis
    using recognition_failures_reported [OF _ _ _ _ _ _ _ _ r] r
    by (simp add: sample_image_def provider_error_def days_in_month_def month_count_def)
qed

end
