(* ===== verification/Ocr_Extraction.thy ===== *)
theory Ocr_Extraction
  imports Credits_Properties Receipt_Ocr
begin

text \<open>
  \<open>ExtractReceiptOcrCommandUseCase\<close> of \<open>app/modules/ocr/application\<close>: one credit is reserved,
  the provider recognises the images, and the charge is committed with the result or rolled
  back. The provider's answer is the argument \<open>extract\<close>; logging is left out.
\<close>

section \<open>The use case\<close>

definition ocr_use :: "uuid \<Rightarrow> credit_amount \<Rightarrow> use_command" where
  "ocr_use user_id amount = \<lparr>us_user_id = user_id, us_amount = amount, us_reason = OCR_USAGE\<rparr>"

definition extract_receipt_ocr ::
    "('z, unit) credit_action_on \<Rightarrow> ('z, unit) credit_action_on \<Rightarrow> 'z credit_db_scheme credit_env \<Rightarrow>
     (ocr_image list \<Rightarrow> exn + extracted_fields) \<Rightarrow> date \<Rightarrow> date \<Rightarrow> uuid \<Rightarrow> ocr_image list \<Rightarrow>
     ('z, ocr_result) credit_action_on" where
  "extract_receipt_ocr uow_commit uow_rollback env extract today today' user_id images =
     bindA (liftE (mk_credit_amount ''amount'' 1)) (\<lambda>amount.
     bindA (reserve_credit env (ocr_use user_id amount)) (\<lambda>_.
     catchA
       (bindA (liftE (recognize extract today today' images)) (\<lambda>result.
        bindA (finalize_credit_usage uow_commit env (ocr_use user_id amount)) (\<lambda>_.
        returnA result)))
       (\<lambda>e. bindA uow_rollback (\<lambda>_. raiseA e))))"

section \<open>Reservation and charge\<close>

lemma reserve_credit_runs:
  assumes "\<not> tx_failed s" and "credit_violation (ce_rival_lock env (working s)) = None" and "amount_ok (us_amount cmd)"
  shows "reserve_credit env cmd s =
    (if remaining_count (stored_balance (us_user_id cmd) (ce_rival_lock env (working s))) < amount_value (us_amount cmd)
     then (Inl InsufficientCreditError, after (ce_rival_lock env) id s)
     else (Inr (), after (ce_rival_lock env) (reserve_effect cmd) s))"
proof -
  let ?w = "ce_rival_lock env (working s)"
  note upd = get_user_credit_for_update_ok [where rival = "ce_rival_lock env", OF assms(1,2)]
  have "user_credit_use (us_amount cmd) (stored_user_credit (us_user_id cmd) ?w) =
      (if remaining_count (stored_balance (us_user_id cmd) ?w) < amount_value (us_amount cmd) then Inl InsufficientCreditError
       else Inr \<lparr>pending_events = [], uc_id = us_user_id cmd, uc_feature_key = OCR,
         uc_balance = spent_balance (amount_value (us_amount cmd)) (stored_balance (us_user_id cmd) ?w)\<rparr>)"
    using stored_balance_ok [OF assms(2)] assms(3)
    by (subst user_credit_use_ok) (simp_all add: stored_user_credit_def spent_balance_def)
  then show ?thesis
    using assms(1)
    by (simp add: reserve_credit_def bindA_def upd liftE_def save_user_credit_def session_apply put_user_credit_balance
        after_def reserve_effect_def)
qed

lemma finalize_credit_usage_runs:
  assumes "\<not> tx_failed s"
  shows "finalize_credit_usage uow_commit env cmd s =
    uow_commit (s\<lparr>working := add_records [use_tx env cmd] [use_event env cmd] (working s)\<rparr>)"
proof -
  have pub: "publishable build_credits_event_registry
      (new_event (ce_event_id env) (ce_now env) (CreditUsed (us_user_id cmd) (amount_value (us_amount cmd)) (us_reason cmd)))"
    using credits_publishable(2) [of env cmd] by (simp add: use_event_def)
  show ?thesis
    using assms
    by (simp add: finalize_credit_usage_def bindA_def liftE_def append_transaction_def mk_credit_append_def
        session_apply publish_ok pub append_to_row_def add_records_def use_tx_def use_event_def)
qed

lemma extract_receipt_ocr_run:
  assumes "ce_rival_lock env db0 = db" and "credit_violation db = None"
  shows "extract_receipt_ocr (sqlalchemy_commit credit_violation) sqlalchemy_rollback env extract today today' u images
      (open_session db0) =
    (if remaining_count (stored_balance u db) < 1 then (Inl InsufficientCreditError, open_session db)
     else case recognize extract today today' images of
            Inl e \<Rightarrow> (Inl e, open_session db)
          | Inr r \<Rightarrow>
              (case credit_violation (use_effect env (ocr_use u (CreditAmount 1)) db) of
                 None \<Rightarrow> (Inr r, open_session (use_effect env (ocr_use u (CreditAmount 1)) db))
               | Some e \<Rightarrow> (Inl e, open_session db)))"
proof -
  let ?cmd = "ocr_use u (CreditAmount 1)"
  let ?s = "after (ce_rival_lock env) (reserve_effect ?cmd) (open_session db0)"
  have cmd: "us_user_id ?cmd = u" "us_amount ?cmd = CreditAmount 1" by (simp_all add: ocr_use_def)
  have reserve: "reserve_credit env ?cmd (open_session db0) =
      (if remaining_count (stored_balance u db) < 1 then (Inl InsufficientCreditError, open_session db) else (Inr (), ?s))"
    using reserve_credit_runs [of "open_session db0" env ?cmd] assms cmd
    by (simp add: amount_ok_def after_def open_session_def)
  have s: "\<not> tx_failed ?s" "rollback_session ?s = (Inr (), open_session db)"
    "rollback_session (?s\<lparr>working := w, tx_failed := True\<rparr>) = (Inr (), open_session db)" for w
    using assms(1) by (simp_all add: rollback_session_def after_def open_session_def)
  have w: "add_records [use_tx env ?cmd] [use_event env ?cmd] (working ?s) = use_effect env ?cmd db"
    using assms(1) by (simp add: use_effect_def after_def)
  have final: "finalize_credit_usage (sqlalchemy_commit credit_violation) env ?cmd ?s =
      (case credit_violation (use_effect env ?cmd db) of
         None \<Rightarrow> (Inr (), open_session (use_effect env ?cmd db))
       | Some e \<Rightarrow> (Inl e, ?s\<lparr>working := use_effect env ?cmd db, tx_failed := True\<rparr>))"
    unfolding finalize_credit_usage_runs [OF s(1)] w
    by (simp add: sqlalchemy_commit_def commit_session_def bindA_def flush_session_def modifyA_def after_def open_session_def split: option.split)
  show ?thesis
    unfolding extract_receipt_ocr_def mk_credit_amount_def
    by (simp add: bind_pure bindA_def reserve catchA_def liftE_def final sqlalchemy_rollback_def s raiseA_def returnA_def
        split: sum.split option.split)
qed

text \<open>C7. A recognition costs one credit exactly when it succeeds. Without a credit the provider's answer
  plays no part and nothing changes; with one, a result is returned together with the committed
  charge (balance, ledger row, event), and on every failure, of the provider, of the receipt, of
  its fields or of the commit itself, the database is as before.\<close>

theorem ocr_charges_exactly_on_success:
  assumes "ce_rival_lock env db0 = db" and "credit_violation db = None"
  shows "extract_receipt_ocr (sqlalchemy_commit credit_violation) sqlalchemy_rollback env extract today today' u images
      (open_session db0) =
    (if remaining_count (stored_balance u db) < 1 then (Inl InsufficientCreditError, open_session db)
     else case recognize extract today today' images of
            Inl e \<Rightarrow> (Inl e, open_session db)
          | Inr r \<Rightarrow>
              (case credit_violation (use_effect env (ocr_use u (CreditAmount 1)) db) of
                 None \<Rightarrow> (Inr r, open_session (use_effect env (ocr_use u (CreditAmount 1)) db))
               | Some e \<Rightarrow> (Inl e, open_session db)))"
  using assms by (rule extract_receipt_ocr_run)

section \<open>A sample recognition\<close>

definition one_credit_db :: credit_db where
  "one_credit_db = \<lparr>outbox_events = [], user_credits = [\<lparr>ucr_user_id = 1, ucr_feature_key = ''ocr'',
     ucr_total_granted_count = 1, ucr_used_count = 0, ucr_remaining_count = 1\<rparr>], credit_transactions = []\<rparr>"

lemma one_credit_valid: "credit_violation one_credit_db = None"
  by (simp add: credit_violation_None one_credit_db_def user_credit_row_ok_def user_credit_checks_def int4_def
      idempotency_keys_def source_keys_def List.map_filter_simps)

lemma one_credit_left: "remaining_count (stored_balance 1 one_credit_db) = 1"
  by (simp add: stored_balance_def find_credit_row_def one_credit_db_def user_credit_key_def)

lemma one_credit_tables: "credit_transactions one_credit_db = []" "outbox_events one_credit_db = []"
  by (simp_all add: one_credit_db_def)

lemma quiet_rival: "ce_rival_lock (quiet_env i) db = db"
  by (simp add: quiet_env_def)

lemma one_use_valid: "credit_violation (use_effect (quiet_env 7) (ocr_use 1 (CreditAmount 1)) one_credit_db) = None"
  by (rule use_effect_valid [OF one_credit_valid])
    (simp_all add: use_admissible_def ocr_use_def amount_ok_def fresh_ids_def one_credit_left one_credit_tables)

theorem ocr_charges_exactly_on_success_witness:
  "\<exists>r. extract_receipt_ocr (sqlalchemy_commit credit_violation) sqlalchemy_rollback (quiet_env 7)
      (stub_extract (Date 2026 3 1)) (Date 2026 3 1) (Date 2026 3 1) 1 [sample_image] (open_session one_credit_db) =
    (Inr r, open_session (use_effect (quiet_env 7) (ocr_use 1 (CreditAmount 1)) one_credit_db))"
proof -
  obtain r where r: "recognize (stub_extract (Date 2026 3 1)) (Date 2026 3 1) (Date 2026 3 1) [sample_image] = Inr r"
    using stub_recognized by blast
  show ?thesis
    by (subst ocr_charges_exactly_on_success [where db = one_credit_db])
      (simp_all add: r one_credit_valid one_credit_left one_use_valid quiet_rival)
qed

end
