(* ===== verification/Candidate_Readers.thy ===== *)
theory Candidate_Readers
  imports Promotions Keyset_Pages
begin

text \<open>
  The tables of users and receipts and what the notification scheduler reads of them:
  \<open>app/modules/users/infrastructure/persistence\<close> (\<open>existing_user_ids_reader.py\<close>,
  \<open>user_registration_facts_reader.py\<close>) and
  \<open>app/modules/receipts/infrastructure/persistence/notification_candidates.py\<close>, with the queries
  and results of both modules' \<open>application/queries\<close>. Every reader is a page of a sorted table.
\<close>

section \<open>Tables\<close>

record user_row =
  ur_id :: uuid
  ur_name :: "ustr option"
  ur_nickname :: "ustr option"
  ur_email :: "ustr option"
  ur_profile_image_url :: "ustr option"
  ur_created_at :: datetime
  ur_updated_at :: datetime

record receipt_row =
  rc_id :: uuid
  rc_user_id :: uuid
  rc_item_name :: ustr
  rc_brand_name :: "ustr option"
  rc_serial_number :: "ustr option"
  rc_payment_location :: "ustr option"
  rc_payment_date :: date
  rc_total_amount :: "int option"
  rc_period_months :: int
  rc_expires_on :: date
  rc_category :: "string option"
  rc_sub_category :: "ustr option"
  rc_memo :: "ustr option"
  rc_requires_physical_receipt :: bool
  rc_created_at :: datetime
  rc_updated_at :: datetime

record owner_db = promotion_db +
  user_rows :: "user_row list"
  receipt_rows :: "receipt_row list"

section \<open>Receipts whose warranty ends on a day\<close>

record expiring_query =
  eq_target_date :: date
  eq_offset_days :: int
  eq_observed_before :: datetime
  eq_limit :: int
  eq_cursor_receipt_id :: "uuid option"

definition mk_expiring_query :: "date \<Rightarrow> int \<Rightarrow> datetime \<Rightarrow> int \<Rightarrow> uuid option \<Rightarrow> exn + expiring_query" where
  "mk_expiring_query target_date offset_days observed_before limit cursor =
     (let details = (if offset_days < 0 then [ErrorDetail ''offsetDays'' ''offset_days_invalid''] else []) @
                    (if limit < 1 then [ErrorDetail ''batchSize'' ''batch_size_invalid''] else [])
      in if details \<noteq> [] then Inl (ValidationError details)
         else Inr \<lparr>eq_target_date = target_date, eq_offset_days = offset_days, eq_observed_before = observed_before,
                   eq_limit = limit, eq_cursor_receipt_id = cursor\<rparr>)"

record expiring_receipt =
  er_user_id :: uuid
  er_receipt_id :: uuid
  er_item_name :: ustr
  er_sub_category :: "ustr option"
  er_expires_on :: date
  er_created_at :: datetime

record expiring_page =
  ep_receipts :: "expiring_receipt list"
  ep_next_cursor_receipt_id :: "uuid option"
  ep_has_next :: bool
  ep_limit :: int

definition expiring_receipt_of :: "receipt_row \<Rightarrow> expiring_receipt" where
  "expiring_receipt_of r =
     \<lparr>er_user_id = rc_user_id r, er_receipt_id = rc_id r, er_item_name = rc_item_name r,
      er_sub_category = rc_sub_category r, er_expires_on = rc_expires_on r, er_created_at = rc_created_at r\<rparr>"

definition receipt_beyond :: "uuid \<Rightarrow> receipt_row \<Rightarrow> bool" where
  "receipt_beyond c r \<longleftrightarrow> rc_id r > c"

text \<open>\<open>target_date + timedelta(days=offset_days)\<close> raises \<open>OverflowError\<close> beyond the year 9999.\<close>

definition list_receipts_expiring_on :: "expiring_query \<Rightarrow> 'z owner_db_scheme \<Rightarrow> exn + expiring_page" where
  "list_receipts_expiring_on q db =
     (if date_ordinal (eq_target_date q) + eq_offset_days q > 3652059 then Inl PyOverflowError
      else
        let target_expires_on = date_of_ordinal (date_ordinal (eq_target_date q) + eq_offset_days q);
            selected = filter (\<lambda>r. rc_expires_on r = target_expires_on \<and> rc_created_at r < eq_observed_before q)
                         (receipt_rows db);
            beyond = (case eq_cursor_receipt_id q of None \<Rightarrow> selected | Some c \<Rightarrow> filter (receipt_beyond c) selected);
            records = take (nat (eq_limit q) + 1) (sort_key rc_id beyond);
            page_records = take (nat (eq_limit q)) records;
            has_next = nat (eq_limit q) < length records
        in Inr \<lparr>ep_receipts = map expiring_receipt_of page_records,
                ep_next_cursor_receipt_id =
                  (if has_next \<and> page_records \<noteq> [] then Some (rc_id (last page_records)) else None),
                ep_has_next = has_next, ep_limit = eq_limit q\<rparr>)"

section \<open>Users and when they registered\<close>

record facts_query =
  fq_batch_size :: int
  fq_observed_before :: datetime
  fq_cursor :: "(datetime \<times> uuid) option"
  fq_registered_after :: "datetime option"

definition mk_facts_query ::
    "int \<Rightarrow> datetime \<Rightarrow> (datetime \<times> uuid) option \<Rightarrow> datetime option \<Rightarrow> exn + facts_query" where
  "mk_facts_query batch observed_before cursor registered_after =
     (let details = (if batch < 1 then [ErrorDetail ''batchSize'' ''batch_size_invalid''] else []) @
                    (case registered_after of
                       None \<Rightarrow> []
                     | Some a \<Rightarrow>
                         if a \<ge> observed_before then [ErrorDetail ''registeredAt'' ''registered_window_invalid''] else [])
      in if details \<noteq> [] then Inl (ValidationError details)
         else Inr \<lparr>fq_batch_size = batch, fq_observed_before = observed_before, fq_cursor = cursor,
                   fq_registered_after = registered_after\<rparr>)"

record registration_fact =
  rf_user_id :: uuid
  rf_registered_at :: datetime

record facts_page =
  fp_facts :: "registration_fact list"
  fp_next_cursor :: "(datetime \<times> uuid) option"

definition user_key :: "user_row \<Rightarrow> datetime \<times> uuid" where
  "user_key r = (ur_created_at r, ur_id r)"

definition user_beyond :: "datetime \<times> uuid \<Rightarrow> user_row \<Rightarrow> bool" where
  "user_beyond c r \<longleftrightarrow> ur_created_at r > fst c \<or> (ur_created_at r = fst c \<and> ur_id r > snd c)"

definition fact_of :: "user_row \<Rightarrow> registration_fact" where
  "fact_of r = \<lparr>rf_user_id = ur_id r, rf_registered_at = ur_created_at r\<rparr>"

definition list_registration_facts :: "facts_query \<Rightarrow> 'z owner_db_scheme \<Rightarrow> facts_page" where
  "list_registration_facts q db =
     (let after = (case fq_registered_after q of
                     None \<Rightarrow> user_rows db | Some a \<Rightarrow> filter (\<lambda>r. ur_created_at r \<ge> a) (user_rows db));
          selected = filter (\<lambda>r. ur_created_at r < fq_observed_before q) after;
          beyond = (case fq_cursor q of None \<Rightarrow> selected | Some c \<Rightarrow> filter (user_beyond c) selected);
          records = take (nat (fq_batch_size q) + 1) (sort_key user_key beyond);
          page_records = take (nat (fq_batch_size q)) records
      in \<lparr>fp_facts = map fact_of page_records,
          fp_next_cursor =
            (if nat (fq_batch_size q) < length records \<and> page_records \<noteq> [] then Some (user_key (last page_records))
             else None)\<rparr>)"

definition get_existing_user_ids :: "uuid list \<Rightarrow> 'z owner_db_scheme \<Rightarrow> uuid set" where
  "get_existing_user_ids user_ids db =
     (if user_ids = [] then {} else set (map ur_id (filter (\<lambda>r. ur_id r \<in> set user_ids) (user_rows db))))"

section \<open>Receipts per user\<close>

record activity_query =
  aq_user_ids :: "uuid list"
  aq_limit :: int
  aq_recent_since :: "datetime option"
  aq_observed_before :: datetime
  aq_cursor_user_id :: "uuid option"

definition mk_activity_query ::
    "uuid list \<Rightarrow> int \<Rightarrow> datetime option \<Rightarrow> datetime \<Rightarrow> uuid option \<Rightarrow> exn + activity_query" where
  "mk_activity_query user_ids limit recent_since observed_before cursor =
     (if limit < 1 then Inl (ValidationError [ErrorDetail ''batchSize'' ''batch_size_invalid''])
      else Inr \<lparr>aq_user_ids = user_ids, aq_limit = limit, aq_recent_since = recent_since,
                aq_observed_before = observed_before, aq_cursor_user_id = cursor\<rparr>)"

record receipt_activity =
  ra_user_id :: uuid
  ra_last_receipt_created_at :: "datetime option"
  ra_receipt_count :: nat
  ra_cursor_user_id :: uuid

record activity_page =
  ap_activities :: "receipt_activity list"
  ap_next_cursor_user_id :: "uuid option"
  ap_has_next :: bool
  ap_limit :: int

definition pageable_user_ids :: "activity_query \<Rightarrow> uuid list" where
  "pageable_user_ids q =
     filter (\<lambda>u. case aq_cursor_user_id q of None \<Rightarrow> True | Some c \<Rightarrow> u > c) (remdups (sort (aq_user_ids q)))"

text \<open>\<open>count(id)\<close> and \<open>max(created_at)\<close> of a user's receipts; a user without any is in no group.\<close>

definition activity_aggregate :: "datetime \<Rightarrow> 'z owner_db_scheme \<Rightarrow> uuid \<Rightarrow> (nat \<times> datetime) option" where
  "activity_aggregate observed_before db u =
     (let mine = filter (\<lambda>r. rc_user_id r = u \<and> rc_created_at r < observed_before) (receipt_rows db)
      in if mine = [] then None else Some (length mine, Max (set (map rc_created_at mine))))"

definition receipt_activity_of :: "uuid \<Rightarrow> (nat \<times> datetime) option \<Rightarrow> datetime option \<Rightarrow> receipt_activity option" where
  "receipt_activity_of user_id aggregate recent_since =
     (case aggregate of
        None \<Rightarrow> Some \<lparr>ra_user_id = user_id, ra_last_receipt_created_at = None, ra_receipt_count = 0,
                      ra_cursor_user_id = user_id\<rparr>
      | Some (n, last_created) \<Rightarrow>
          if (case recent_since of None \<Rightarrow> False | Some since \<Rightarrow> last_created \<ge> since) then None
          else Some \<lparr>ra_user_id = user_id, ra_last_receipt_created_at = Some last_created, ra_receipt_count = n,
                     ra_cursor_user_id = user_id\<rparr>)"

definition get_receipt_activity_for_users :: "activity_query \<Rightarrow> 'z owner_db_scheme \<Rightarrow> activity_page" where
  "get_receipt_activity_for_users q db =
     (let user_ids = pageable_user_ids q
      in if user_ids = []
         then \<lparr>ap_activities = [], ap_next_cursor_user_id = None, ap_has_next = False, ap_limit = aq_limit q\<rparr>
         else
           let activities = List.map_filter
                 (\<lambda>u. receipt_activity_of u (activity_aggregate (aq_observed_before q) db u) (aq_recent_since q)) user_ids;
               page_activities = take (nat (aq_limit q)) activities;
               has_next = nat (aq_limit q) < length activities
           in \<lparr>ap_activities = page_activities,
               ap_next_cursor_user_id =
                 (if has_next \<and> page_activities \<noteq> [] then Some (ra_user_id (last page_activities)) else None),
               ap_has_next = has_next, ap_limit = aq_limit q\<rparr>)"

section \<open>The pages as parts of a sorted table\<close>

interpretation receipt_pages: keyset_page rc_id receipt_beyond
  by unfold_locales (simp add: receipt_beyond_def)

interpretation user_pages: keyset_page user_key user_beyond
  by unfold_locales (auto simp: user_beyond_def user_key_def less_prod_simp split: prod.splits)

interpretation activity_pages: keyset_page ra_user_id "\<lambda>c a. ra_user_id a > c"
  by unfold_locales simp

definition expiring_rows :: "date \<Rightarrow> datetime \<Rightarrow> 'z owner_db_scheme \<Rightarrow> receipt_row list" where
  "expiring_rows expires_on observed_before db =
     sort_key rc_id (filter (\<lambda>r. rc_expires_on r = expires_on \<and> rc_created_at r < observed_before) (receipt_rows db))"

definition registered_rows :: "datetime \<Rightarrow> 'z owner_db_scheme \<Rightarrow> user_row list" where
  "registered_rows observed_before db = sort_key user_key (filter (\<lambda>r. ur_created_at r < observed_before) (user_rows db))"

definition user_activities :: "uuid list \<Rightarrow> datetime option \<Rightarrow> datetime \<Rightarrow> 'z owner_db_scheme \<Rightarrow> receipt_activity list" where
  "user_activities user_ids recent_since observed_before db =
     List.map_filter (\<lambda>u. receipt_activity_of u (activity_aggregate observed_before db u) recent_since)
       (remdups (sort user_ids))"

lemma take_page: "take n (take (n + 1) xs) = take n xs" "n < length (take (n + 1) xs) \<longleftrightarrow> n < length xs"
  by (simp_all add: min_def)

lemma page_nonempty: "n < length xs \<Longrightarrow> 1 \<le> n \<Longrightarrow> take n xs \<noteq> []"
  by (cases xs) auto

lemma list_receipts_page:
  assumes "mk_expiring_query target_date offset observed_before limit cursor = Inr q"
    and "date_ordinal target_date + offset \<le> 3652059"
  shows "list_receipts_expiring_on q db =
    (let rows = receipt_pages.rest (expiring_rows (date_of_ordinal (date_ordinal target_date + offset)) observed_before db) cursor;
         following = receipt_pages.follows (nat limit) rows
     in Inr \<lparr>ep_receipts = map expiring_receipt_of (take (nat limit) rows), ep_next_cursor_receipt_id = following,
             ep_has_next = (following \<noteq> None), ep_limit = limit\<rparr>)"
proof -
  have q: "q = \<lparr>eq_target_date = target_date, eq_offset_days = offset, eq_observed_before = observed_before,
      eq_limit = limit, eq_cursor_receipt_id = cursor\<rparr>" and limit: "1 \<le> nat limit"
    using assms(1) by (auto simp: mk_expiring_query_def Let_def split: if_splits)
  let ?sel = "filter (\<lambda>r. rc_expires_on r = date_of_ordinal (date_ordinal target_date + offset) \<and> rc_created_at r < observed_before)
                (receipt_rows db)"
  have rows: "sort_key rc_id (case cursor of None \<Rightarrow> ?sel | Some c \<Rightarrow> filter (receipt_beyond c) ?sel) =
      receipt_pages.rest (expiring_rows (date_of_ordinal (date_ordinal target_date + offset)) observed_before db) cursor"
    by (cases cursor) (simp_all add: receipt_pages.rest_def expiring_rows_def receipt_pages.sort_filter del: filter_filter)
  note len = arg_cong [OF rows, of length, unfolded length_sort]
  show ?thesis
    using assms(2) limit page_nonempty
    by (auto simp: q list_receipts_expiring_on_def Let_def rows len take_page receipt_pages.follows_def)
qed

lemma list_facts_page:
  assumes "mk_facts_query batch observed_before cursor None = Inr q"
  shows "list_registration_facts q db =
    (let rows = user_pages.rest (registered_rows observed_before db) cursor
     in \<lparr>fp_facts = map fact_of (take (nat batch) rows), fp_next_cursor = user_pages.follows (nat batch) rows\<rparr>)"
proof -
  have q: "q = \<lparr>fq_batch_size = batch, fq_observed_before = observed_before, fq_cursor = cursor, fq_registered_after = None\<rparr>"
    and limit: "1 \<le> nat batch"
    using assms by (auto simp: mk_facts_query_def Let_def split: if_splits)
  let ?sel = "filter (\<lambda>r. ur_created_at r < observed_before) (user_rows db)"
  have rows: "sort_key user_key (case cursor of None \<Rightarrow> ?sel | Some c \<Rightarrow> filter (user_beyond c) ?sel) =
      user_pages.rest (registered_rows observed_before db) cursor"
    by (cases cursor) (simp_all add: user_pages.rest_def registered_rows_def user_pages.sort_filter del: filter_filter)
  note len = arg_cong [OF rows, of length, unfolded length_sort]
  show ?thesis
    using limit page_nonempty
    by (auto simp: q list_registration_facts_def Let_def rows len take_page user_pages.follows_def)
qed

lemma activity_user [simp]: "receipt_activity_of u g since = Some a \<Longrightarrow> ra_user_id a = u"
  by (auto simp: receipt_activity_of_def split: option.splits prod.splits if_splits)

lemma activity_page:
  assumes "mk_activity_query user_ids limit recent_since observed_before cursor = Inr q"
  shows "get_receipt_activity_for_users q db =
    (let rows = activity_pages.rest (user_activities user_ids recent_since observed_before db) cursor;
         following = activity_pages.follows (nat limit) rows
     in \<lparr>ap_activities = take (nat limit) rows, ap_next_cursor_user_id = following, ap_has_next = (following \<noteq> None),
         ap_limit = limit\<rparr>)"
proof -
  have q: "q = \<lparr>aq_user_ids = user_ids, aq_limit = limit, aq_recent_since = recent_since,
      aq_observed_before = observed_before, aq_cursor_user_id = cursor\<rparr>" and limit: "1 \<le> nat limit"
    using assms by (auto simp: mk_activity_query_def split: if_splits)
  let ?act = "\<lambda>u. receipt_activity_of u (activity_aggregate observed_before db u) recent_since"
  have "List.map_filter ?act (filter (\<lambda>u. u > c) us) = filter (\<lambda>a. ra_user_id a > c) (List.map_filter ?act us)" for c us
    by (induction us) (auto simp: List.map_filter_simps split: option.split)
  then have rows: "List.map_filter ?act (pageable_user_ids q) =
      activity_pages.rest (user_activities user_ids recent_since observed_before db) cursor"
    by (simp add: q pageable_user_ids_def activity_pages.rest_def user_activities_def split: option.split)
  moreover have "pageable_user_ids q = [] \<Longrightarrow> List.map_filter ?act (pageable_user_ids q) = []"
    by (simp add: List.map_filter_simps)
  ultimately show ?thesis
    using limit page_nonempty
    by (auto simp: q get_receipt_activity_for_users_def Let_def activity_pages.follows_def)
qed

text \<open>The tables have their primary keys; so the pages are strictly ordered.\<close>

definition owner_keys :: "'z owner_db_scheme \<Rightarrow> bool" where
  "owner_keys db \<longleftrightarrow> distinct (map ur_id (user_rows db)) \<and> distinct (map rc_id (receipt_rows db))"

lemma strictly_sorted_rows:
  assumes "owner_keys db"
  shows "sorted_wrt (<) (map rc_id (expiring_rows d t db))" and "sorted_wrt (<) (map user_key (registered_rows t db))"
    and "sorted_wrt (<) (map ra_user_id (user_activities us since t db))"
proof -
  have "distinct (map rc_id (filter (\<lambda>r. rc_expires_on r = d \<and> rc_created_at r < t) (receipt_rows db)))"
    using assms by (simp add: owner_keys_def distinct_map_filter)
  then show "sorted_wrt (<) (map rc_id (expiring_rows d t db))"
    by (simp add: expiring_rows_def strict_sorted_iff distinct_map)
  have "distinct (map ur_id (filter (\<lambda>r. ur_created_at r < t) (user_rows db)))"
    using assms by (simp add: owner_keys_def distinct_map_filter)
  then have "distinct (map user_key (registered_rows t db))"
    by (auto simp: distinct_map inj_on_def user_key_def registered_rows_def)
  then show "sorted_wrt (<) (map user_key (registered_rows t db))"
    by (simp add: strict_sorted_iff registered_rows_def)
  have sorted: "sorted_wrt (<) (map ra_user_id (List.map_filter f us'))"
    if "sorted_wrt (<) us'" and "\<And>u a. f u = Some a \<Longrightarrow> ra_user_id a = u" for f :: "uuid \<Rightarrow> receipt_activity option" and us'
    using that
  proof (induction us')
    case (Cons u us')
    have "u < ra_user_id a" if "a \<in> set (List.map_filter f us')" for a
      using that Cons.prems by (auto simp: List.map_filter_def)
    then show ?case using Cons by (auto simp: List.map_filter_simps split: option.split)
  qed (simp add: List.map_filter_simps)
  have "sorted_wrt (<) (remdups (sort us))" by (simp add: strict_sorted_iff sorted_remdups)
  then show "sorted_wrt (<) (map ra_user_id (user_activities us since t db))"
    unfolding user_activities_def by (rule sorted) simp
qed

end
