(* ===== verification/Receipts.thy ===== *)
theory Receipts
  imports Candidate_Readers
begin

text \<open>
  The domain of the receipts module: \<open>app/modules/receipts/domain/value_objects.py\<close> and
  \<open>model.py\<close>. A receipt names what was bought and when, how long its warranty runs and which
  files document it; \<open>Receipt.create\<close> is the only way to make one, for new receipts and for
  the changed ones of an update alike.
\<close>

section \<open>Categories\<close>

datatype receipt_category = KITCHEN_APPLIANCE | LAUNDRY_CLEANING | LIVING_CLIMATE | IT_DEVICE | OTHER_DEVICE

fun receipt_category_value :: "receipt_category \<Rightarrow> string" where
  "receipt_category_value KITCHEN_APPLIANCE = ''kitchen_appliance''"
| "receipt_category_value LAUNDRY_CLEANING = ''laundry_cleaning''"
| "receipt_category_value LIVING_CLIMATE = ''living_climate''"
| "receipt_category_value IT_DEVICE = ''it_device''"
| "receipt_category_value OTHER_DEVICE = ''other_device''"

definition receipt_categories :: "receipt_category list" where
  "receipt_categories = [KITCHEN_APPLIANCE, LAUNDRY_CLEANING, LIVING_CLIMATE, IT_DEVICE, OTHER_DEVICE]"

definition receipt_category_of :: "string \<Rightarrow> receipt_category option" where
  "receipt_category_of s = find (\<lambda>c. receipt_category_value c = s) receipt_categories"

text \<open>The Korean labels, as code points.\<close>

fun category_api_label :: "receipt_category \<Rightarrow> ustr" where
  "category_api_label KITCHEN_APPLIANCE = [51452, 48169, 32, 44032, 51204]"
| "category_api_label LAUNDRY_CLEANING = [49464, 53441, 47, 52397, 49548]"
| "category_api_label LIVING_CLIMATE = [47532, 48729, 47, 45257, 45212, 48169]"
| "category_api_label IT_DEVICE = [73, 84, 32, 44592, 44592]"
| "category_api_label OTHER_DEVICE = [44592, 53440, 32, 44592, 44592]"

text \<open>
  \<open>"".join(value.split()).lower()\<close>. Besides the ASCII capitals only the Kelvin sign (8490)
  has a lower case within the characters of the aliases; the lower case of any other
  character is in no alias, so that it can stay as it is.
\<close>

definition lower_char :: "nat \<Rightarrow> nat" where
  "lower_char c = (if 65 \<le> c \<and> c \<le> 90 then c + 32 else if c = 8490 then 107 else c)"

definition category_alias_key :: "ustr \<Rightarrow> ustr" where
  "category_alias_key v = map lower_char (filter (\<lambda>c. \<not> is_space c) v)"

definition category_aliases :: "(ustr \<times> receipt_category) list" where
  "category_aliases =
     map (\<lambda>c. (category_alias_key (ascii (receipt_category_value c)), c)) receipt_categories @
     [([51452, 48169, 44032, 51204], KITCHEN_APPLIANCE),
      ([49464, 53441, 47, 52397, 49548], LAUNDRY_CLEANING),
      ([49464, 53441, 52397, 49548], LAUNDRY_CLEANING),
      ([47532, 48729, 47, 45257, 45212, 48169], LIVING_CLIMATE),
      ([47532, 48729, 45257, 45212, 48169], LIVING_CLIMATE),
      ([105, 116, 44592, 44592], IT_DEVICE),
      ([105, 116, 51228, 54408], IT_DEVICE),
      ([50689, 49345, 47, 105, 116, 51228, 54408], IT_DEVICE),
      ([50689, 49345, 105, 116, 51228, 54408], IT_DEVICE),
      ([44592, 53440, 44592, 44592], OTHER_DEVICE),
      ([44592, 53440, 51228, 54408], OTHER_DEVICE),
      ([44592, 53440], OTHER_DEVICE)]"

text \<open>\<open>ReceiptCategory(value)\<close>: a member's value, or what \<open>_missing_\<close> finds among the aliases.\<close>

definition receipt_category_from :: "ustr \<Rightarrow> receipt_category option" where
  "receipt_category_from v =
     (case find (\<lambda>c. ascii (receipt_category_value c) = v) receipt_categories of
        Some c \<Rightarrow> Some c
      | None \<Rightarrow> map_of category_aliases (category_alias_key v))"

lemma category_of_value [simp]: "receipt_category_of (receipt_category_value c) = Some c"
  by (cases c) (simp_all add: receipt_category_of_def receipt_categories_def)

lemma category_from_value: "receipt_category_from (ascii (receipt_category_value c)) = Some c"
  by (cases c) (simp_all add: receipt_category_from_def receipt_categories_def ascii_def)

text \<open>The labels the API shows are read back, with or without their spaces.\<close>

lemma category_from_label: "receipt_category_from (category_api_label c) = Some c"
  by (cases c) (simp_all add: receipt_category_from_def receipt_categories_def ascii_def category_aliases_def
      category_alias_key_def lower_char_def is_space_def)

section \<open>Value objects\<close>

datatype receipt_item = ItemName (item_text: ustr)
datatype purchase_date = PaymentDate (purchase_day: date)
datatype paid_amount = TotalAmount (paid_value: int)
datatype warranty_period = WarrantyPeriodMonths (warranty_months: int)
datatype file_references = ReceiptFileReferences (referenced_files: "uuid list")

definition mk_receipt_item :: "ustr \<Rightarrow> exn + receipt_item" where
  "mk_receipt_item v =
     (if strip v = [] then Inl (ValidationError [ErrorDetail ''item_name'' ''item_name_required''])
      else if 255 < length (strip v) then Inl (ValidationError [ErrorDetail ''item_name'' ''item_name_too_long''])
      else Inr (ItemName v))"

definition mk_purchase_date :: "date \<Rightarrow> date \<Rightarrow> exn + purchase_date" where
  "mk_purchase_date today v =
     (if today < v then Inl (ValidationError [ErrorDetail ''payment_date'' ''payment_date_future'']) else Inr (PaymentDate v))"

definition max_amount :: int where
  "max_amount = 999999999"

definition mk_paid_amount :: "int \<Rightarrow> exn + paid_amount" where
  "mk_paid_amount v =
     (if 0 \<le> v \<and> v \<le> max_amount then Inr (TotalAmount v)
      else Inl (ValidationError [ErrorDetail ''total_amount'' ''total_amount_out_of_range'']))"

definition restore_paid_amount :: "int \<Rightarrow> exn + paid_amount" where
  "restore_paid_amount v = (if v \<le> max_amount then mk_paid_amount v else Inr (TotalAmount v))"

definition max_months :: int where
  "max_months = 60"

definition mk_warranty_period :: "int \<Rightarrow> exn + warranty_period" where
  "mk_warranty_period v =
     (if 1 \<le> v \<and> v \<le> max_months then Inr (WarrantyPeriodMonths v)
      else Inl (ValidationError [ErrorDetail ''period_months'' ''period_months_out_of_range'']))"

definition restore_warranty_period :: "int \<Rightarrow> exn + warranty_period" where
  "restore_warranty_period v = (if v \<le> max_months then mk_warranty_period v else Inr (WarrantyPeriodMonths v))"

definition mk_file_references :: "uuid list \<Rightarrow> exn + file_references" where
  "mk_file_references v =
     (if length v < 1 then Inl (ValidationError [ErrorDetail ''receipt_file_ids'' ''receipt_file_ids_empty''])
      else if 5 < length v then Inl (ValidationError [ErrorDetail ''receipt_file_ids'' ''receipt_file_ids_too_many''])
      else if length (remdups v) \<noteq> length v
      then Inl (ValidationError [ErrorDetail ''receipt_file_ids'' ''receipt_file_ids_duplicate''])
      else Inr (ReceiptFileReferences v))"

section \<open>The aggregate\<close>

record receipt =
  rp_id :: uuid
  rp_user_id :: uuid
  rp_item_name :: receipt_item
  rp_brand_name :: "ustr option"
  rp_serial_number :: "ustr option"
  rp_payment_location :: "ustr option"
  rp_payment_date :: purchase_date
  rp_total_amount :: "paid_amount option"
  rp_period_months :: warranty_period
  rp_expires_on :: date
  rp_category :: "receipt_category option"
  rp_sub_category :: "ustr option"
  rp_memo :: "ustr option"
  rp_requires_physical_receipt :: bool
  rp_receipt_file_ids :: "uuid list"

text \<open>\<open>category: ReceiptCategory | str\<close>, and the parameters of \<open>Receipt.create\<close>.\<close>

datatype category_input = CategoryMember receipt_category | CategoryText ustr

record receipt_input =
  ri_user_id :: uuid
  ri_item_name :: "ustr option"
  ri_payment_date :: "date option"
  ri_receipt_id :: "uuid option"
  ri_brand_name :: "ustr option"
  ri_serial_number :: "ustr option"
  ri_payment_location :: "ustr option"
  ri_total_amount :: "int option"
  ri_preserve_legacy_total_amount :: bool
  ri_period_months :: "int option"
  ri_preserve_future_period_months :: bool
  ri_expires_on :: "date option"
  ri_category :: "category_input option"
  ri_sub_category :: "ustr option"
  ri_memo :: "ustr option"
  ri_requires_physical_receipt :: "bool option"
  ri_receipt_file_ids :: "uuid list option"

definition required_item_name :: "ustr option \<Rightarrow> exn + receipt_item" where
  "required_item_name v =
     (case v of
        None \<Rightarrow> Inl (ValidationError [ErrorDetail ''item_name'' ''item_name_required''])
      | Some s \<Rightarrow> mk_receipt_item (strip s))"

definition required_payment_date :: "date \<Rightarrow> date option \<Rightarrow> exn + purchase_date" where
  "required_payment_date today v =
     (case v of
        None \<Rightarrow> Inl (ValidationError [ErrorDetail ''payment_date'' ''payment_date_required''])
      | Some d \<Rightarrow> mk_purchase_date today d)"

definition required_bool :: "bool option \<Rightarrow> string \<Rightarrow> exn + bool" where
  "required_bool v field =
     (case v of None \<Rightarrow> Inl (ValidationError [ErrorDetail field ''required'']) | Some b \<Rightarrow> Inr b)"

definition required_file_references :: "uuid list option \<Rightarrow> exn + file_references" where
  "required_file_references v =
     (case v of
        None \<Rightarrow> Inl (ValidationError [ErrorDetail ''receipt_file_ids'' ''receipt_file_ids_required''])
      | Some ids \<Rightarrow> mk_file_references ids)"

definition optional_text :: "ustr option \<Rightarrow> string \<Rightarrow> nat \<Rightarrow> exn + ustr option" where
  "optional_text v field max_length =
     (case v of
        None \<Rightarrow> Inr None
      | Some s \<Rightarrow>
          if strip s = [] then Inr None
          else if max_length < length (strip s) then Inl (ValidationError [ErrorDetail field ''too_long''])
          else Inr (Some (strip s)))"

definition optional_category :: "category_input option \<Rightarrow> exn + receipt_category option" where
  "optional_category v =
     (case v of
        None \<Rightarrow> Inr None
      | Some (CategoryMember c) \<Rightarrow> Inr (Some c)
      | Some (CategoryText s) \<Rightarrow>
          if strip s = [] then Inr None
          else (case receipt_category_from (strip s) of
                  Some c \<Rightarrow> Inr (Some c)
                | None \<Rightarrow> Inl (ValidationError [ErrorDetail ''category'' ''category_unsupported''])))"

text \<open>\<open>date(year, month, day)\<close> raises \<open>ValueError\<close> beyond the year 9999.\<close>

definition resolve_expires_on :: "date option \<Rightarrow> date \<Rightarrow> int \<Rightarrow> exn + date" where
  "resolve_expires_on explicit payment_date period_months =
     (case explicit of
        None \<Rightarrow> (case add_months payment_date period_months of None \<Rightarrow> Inl PyValueError | Some d \<Rightarrow> Inr d)
      | Some d \<Rightarrow>
          if d < payment_date then Inl (ValidationError [ErrorDetail ''expires_on'' ''expires_on_before_payment_date''])
          else Inr d)"

definition resolved_period :: "receipt_input \<Rightarrow> int" where
  "resolved_period x = (case ri_period_months x of None \<Rightarrow> 12 | Some n \<Rightarrow> n)"

definition amount_factory :: "receipt_input \<Rightarrow> int \<Rightarrow> exn + paid_amount" where
  "amount_factory x v = (if ri_preserve_legacy_total_amount x then restore_paid_amount v else mk_paid_amount v)"

definition period_factory :: "receipt_input \<Rightarrow> exn + warranty_period" where
  "period_factory x =
     (if ri_preserve_future_period_months x then restore_warranty_period (resolved_period x)
      else mk_warranty_period (resolved_period x))"

definition create_receipt :: "uuid \<Rightarrow> date \<Rightarrow> receipt_input \<Rightarrow> exn + receipt" where
  "create_receipt fresh today x = fst (
     bindA (collect (required_item_name (ri_item_name x))) (\<lambda>item.
     bindA (collect (required_payment_date today (ri_payment_date x))) (\<lambda>paid.
     bindA (case ri_total_amount x of None \<Rightarrow> returnA None | Some v \<Rightarrow> collect (amount_factory x v)) (\<lambda>amount.
     bindA (collect (period_factory x)) (\<lambda>period.
     bindA (collect (optional_text (ri_brand_name x) ''brand_name'' 255)) (\<lambda>brand.
     bindA (collect (optional_text (ri_serial_number x) ''serial_number'' 255)) (\<lambda>serial.
     bindA (collect (optional_text (ri_payment_location x) ''payment_location'' 500)) (\<lambda>location.
     bindA (collect (optional_category (ri_category x))) (\<lambda>category.
     bindA (collect (optional_text (ri_sub_category x) ''sub_category'' 100)) (\<lambda>sub.
     bindA (collect (optional_text (ri_memo x) ''memo'' 1000)) (\<lambda>memo.
     bindA (collect (required_bool (ri_requires_physical_receipt x) ''requires_physical_receipt'')) (\<lambda>physical.
     bindA (collect (required_file_references (ri_receipt_file_ids x))) (\<lambda>files.
     bindA raise_if_any (\<lambda>_.
     case (item, paid, period, brand, serial, location, category, sub, memo, physical, files) of
       (Some i, Some p, Some m, Some b, Some s, Some l, Some c, Some sc, Some me, Some ph, Some fs) \<Rightarrow>
         bindA (liftE (resolve_expires_on (ri_expires_on x) (purchase_day p) (warranty_months m))) (\<lambda>expires.
         returnA \<lparr>rp_id = (case ri_receipt_id x of Some j \<Rightarrow> j | None \<Rightarrow> fresh), rp_user_id = ri_user_id x,
                  rp_item_name = i, rp_brand_name = b, rp_serial_number = s, rp_payment_location = l,
                  rp_payment_date = p, rp_total_amount = amount, rp_period_months = m, rp_expires_on = expires,
                  rp_category = c, rp_sub_category = sc, rp_memo = me, rp_requires_physical_receipt = ph,
                  rp_receipt_file_ids = referenced_files fs\<rparr>)
     | _ \<Rightarrow> raiseA PyTypeError))))))))))))) [])"

section \<open>Warranty\<close>

datatype receipt_status = ALL | ACTIVE | EXPIRING | EXPIRED

definition warranty_d_day :: "date \<Rightarrow> date \<Rightarrow> int" where
  "warranty_d_day today expires_on = date_ordinal expires_on - date_ordinal today"

definition warranty_status :: "date \<Rightarrow> date \<Rightarrow> receipt_status" where
  "warranty_status today expires_on =
     (let d_day = warranty_d_day today expires_on
      in if d_day < 0 then EXPIRED else if d_day \<le> 30 then EXPIRING else ACTIVE)"

section \<open>What is accepted\<close>

text \<open>The errors of all fields, in the order in which they are collected.\<close>

definition receipt_errors :: "date \<Rightarrow> receipt_input \<Rightarrow> error_detail list" where
  "receipt_errors today x =
     failed_details (required_item_name (ri_item_name x)) @
     failed_details (required_payment_date today (ri_payment_date x)) @
     (case ri_total_amount x of None \<Rightarrow> [] | Some v \<Rightarrow> failed_details (amount_factory x v)) @
     failed_details (period_factory x) @
     failed_details (optional_text (ri_brand_name x) ''brand_name'' 255) @
     failed_details (optional_text (ri_serial_number x) ''serial_number'' 255) @
     failed_details (optional_text (ri_payment_location x) ''payment_location'' 500) @
     failed_details (optional_category (ri_category x)) @
     failed_details (optional_text (ri_sub_category x) ''sub_category'' 100) @
     failed_details (optional_text (ri_memo x) ''memo'' 1000) @
     failed_details (required_bool (ri_requires_physical_receipt x) ''requires_physical_receipt'') @
     failed_details (required_file_references (ri_receipt_file_ids x))"

definition clean_text :: "ustr option \<Rightarrow> ustr option" where
  "clean_text v = (case v of None \<Rightarrow> None | Some s \<Rightarrow> if strip s = [] then None else Some (strip s))"

definition text_within :: "nat \<Rightarrow> ustr option \<Rightarrow> bool" where
  "text_within n v \<longleftrightarrow> (\<forall>s \<in> set_option v. length (strip s) \<le> n)"

definition chosen_category :: "category_input option \<Rightarrow> receipt_category option" where
  "chosen_category v =
     (case v of None \<Rightarrow> None | Some (CategoryMember c) \<Rightarrow> Some c | Some (CategoryText s) \<Rightarrow> receipt_category_from (strip s))"

definition category_accepted :: "category_input option \<Rightarrow> bool" where
  "category_accepted v \<longleftrightarrow>
     (\<forall>c \<in> set_option v. case c of CategoryMember _ \<Rightarrow> True | CategoryText s \<Rightarrow> strip s = [] \<or> receipt_category_from (strip s) \<noteq> None)"

definition amount_accepted :: "receipt_input \<Rightarrow> bool" where
  "amount_accepted x \<longleftrightarrow>
     (\<forall>v \<in> set_option (ri_total_amount x). 0 \<le> v \<and> (v \<le> max_amount \<or> ri_preserve_legacy_total_amount x))"

definition period_accepted :: "receipt_input \<Rightarrow> bool" where
  "period_accepted x \<longleftrightarrow>
     1 \<le> resolved_period x \<and> (resolved_period x \<le> max_months \<or> ri_preserve_future_period_months x)"

definition receipt_accepted :: "date \<Rightarrow> receipt_input \<Rightarrow> bool" where
  "receipt_accepted today x \<longleftrightarrow>
     (\<exists>s. ri_item_name x = Some s \<and> strip s \<noteq> [] \<and> length (strip s) \<le> 255) \<and>
     (\<exists>d. ri_payment_date x = Some d \<and> d \<le> today) \<and> amount_accepted x \<and> period_accepted x \<and>
     text_within 255 (ri_brand_name x) \<and> text_within 255 (ri_serial_number x) \<and>
     text_within 500 (ri_payment_location x) \<and> category_accepted (ri_category x) \<and>
     text_within 100 (ri_sub_category x) \<and> text_within 1000 (ri_memo x) \<and>
     ri_requires_physical_receipt x \<noteq> None \<and>
     (\<exists>fs. ri_receipt_file_ids x = Some fs \<and> 1 \<le> length fs \<and> length fs \<le> 5 \<and> distinct fs)"

text \<open>The receipt made of accepted fields.\<close>

definition receipt_made :: "uuid \<Rightarrow> receipt_input \<Rightarrow> date \<Rightarrow> receipt" where
  "receipt_made fresh x expires =
     \<lparr>rp_id = (case ri_receipt_id x of Some j \<Rightarrow> j | None \<Rightarrow> fresh), rp_user_id = ri_user_id x,
      rp_item_name = ItemName (strip (the (ri_item_name x))), rp_brand_name = clean_text (ri_brand_name x),
      rp_serial_number = clean_text (ri_serial_number x), rp_payment_location = clean_text (ri_payment_location x),
      rp_payment_date = PaymentDate (the (ri_payment_date x)), rp_total_amount = map_option TotalAmount (ri_total_amount x),
      rp_period_months = WarrantyPeriodMonths (resolved_period x), rp_expires_on = expires,
      rp_category = chosen_category (ri_category x), rp_sub_category = clean_text (ri_sub_category x),
      rp_memo = clean_text (ri_memo x), rp_requires_physical_receipt = the (ri_requires_physical_receipt x),
      rp_receipt_file_ids = the (ri_receipt_file_ids x)\<rparr>"

lemma remdups_length: "length (remdups xs) \<noteq> length xs \<longleftrightarrow> \<not> distinct xs"
  by (simp add: length_remdups_eq remdups_id_iff_distinct)

lemma value_of_Some: "value_of r = Some v \<longleftrightarrow> r = Inr v"
  by (cases r) simp_all

lemma text_factories [simp]: "validates (required_item_name v)" "validates (optional_text v f k)"
  by (cases v; simp add: required_item_name_def mk_receipt_item_def optional_text_def)+

lemma receipt_factories [simp]:
  "validates (required_payment_date today d)" "validates (amount_factory x n)"
  "validates (period_factory x)" "validates (required_bool b f)" "validates (required_file_references fs)"
  by (simp add: required_payment_date_def mk_purchase_date_def split: option.split)
    (simp add: amount_factory_def restore_paid_amount_def mk_paid_amount_def,
     simp add: period_factory_def restore_warranty_period_def mk_warranty_period_def,
     simp add: required_bool_def split: option.split,
     simp add: required_file_references_def mk_file_references_def split: option.split)

lemma category_factory [simp]: "validates (optional_category c)"
  by (simp add: optional_category_def split: option.split category_input.split)

lemma factory_values:
  "required_item_name v = Inr i \<longleftrightarrow>
     (\<exists>s. v = Some s \<and> strip s \<noteq> [] \<and> length (strip s) \<le> 255 \<and> i = ItemName (strip s))"
  "required_payment_date today d = Inr p \<longleftrightarrow> (\<exists>e. d = Some e \<and> e \<le> today \<and> p = PaymentDate e)"
  "optional_text v f k = Inr t \<longleftrightarrow> text_within k v \<and> t = clean_text v"
  "required_bool b f = Inr r \<longleftrightarrow> b = Some r"
  "required_file_references fs = Inr w \<longleftrightarrow>
     (\<exists>us. fs = Some us \<and> 1 \<le> length us \<and> length us \<le> 5 \<and> distinct us \<and> w = ReceiptFileReferences us)"
proof -
  show "required_item_name v = Inr i \<longleftrightarrow>
     (\<exists>s. v = Some s \<and> strip s \<noteq> [] \<and> length (strip s) \<le> 255 \<and> i = ItemName (strip s))"
    by (cases v) (auto simp: required_item_name_def mk_receipt_item_def)
  show "required_payment_date today d = Inr p \<longleftrightarrow> (\<exists>e. d = Some e \<and> e \<le> today \<and> p = PaymentDate e)"
    by (cases d) (auto simp: required_payment_date_def mk_purchase_date_def)
  show "optional_text v f k = Inr t \<longleftrightarrow> text_within k v \<and> t = clean_text v"
    by (cases v) (auto simp: optional_text_def text_within_def clean_text_def)
  show "required_bool b f = Inr r \<longleftrightarrow> b = Some r"
    by (cases b) (auto simp: required_bool_def)
  show "required_file_references fs = Inr w \<longleftrightarrow>
     (\<exists>us. fs = Some us \<and> 1 \<le> length us \<and> length us \<le> 5 \<and> distinct us \<and> w = ReceiptFileReferences us)"
    by (cases fs) (auto simp: required_file_references_def mk_file_references_def remdups_length Suc_le_eq)
qed

lemma category_value: "optional_category c = Inr k \<longleftrightarrow> category_accepted c \<and> k = chosen_category c"
proof (cases c)
  case (Some v)
  have blank: "receipt_category_from [] = None"
    by (simp add: receipt_category_from_def receipt_categories_def ascii_def category_aliases_def category_alias_key_def
        lower_char_def is_space_def)
  show ?thesis
    by (cases v) (auto simp: Some optional_category_def category_accepted_def chosen_category_def blank split: option.splits)
qed (simp add: optional_category_def category_accepted_def chosen_category_def eq_commute)

lemma period_value: "period_factory x = Inr m \<longleftrightarrow> period_accepted x \<and> m = WarrantyPeriodMonths (resolved_period x)"
  by (auto simp: period_factory_def restore_warranty_period_def mk_warranty_period_def period_accepted_def max_months_def)

lemma amount_value: "amount_factory x v = Inr a \<longleftrightarrow>
    0 \<le> v \<and> (v \<le> max_amount \<or> ri_preserve_legacy_total_amount x) \<and> a = TotalAmount v"
  by (auto simp: amount_factory_def restore_paid_amount_def mk_paid_amount_def max_amount_def)

lemma receipt_errors_Nil: "receipt_errors today x = [] \<longleftrightarrow> receipt_accepted today x"
proof -
  have "(case ri_total_amount x of None \<Rightarrow> [] | Some v \<Rightarrow> failed_details (amount_factory x v)) = [] \<longleftrightarrow> amount_accepted x"
    by (cases "ri_total_amount x") (simp_all add: validates_Inr_iff amount_value amount_accepted_def)
  then show ?thesis
    by (auto simp: receipt_errors_def receipt_accepted_def validates_Inr_iff factory_values category_value period_value)
qed

lemma create_receipt_eq:
  "create_receipt fresh today x =
     (if receipt_accepted today x
      then bindE (resolve_expires_on (ri_expires_on x) (the (ri_payment_date x)) (resolved_period x)) (\<lambda>e. Inr (receipt_made fresh x e))
      else Inl (ValidationError (receipt_errors today x)))"
proof -
  have amount: "bindA (case ri_total_amount x of None \<Rightarrow> returnA None | Some v \<Rightarrow> collect (amount_factory x v)) g ds =
      g (Option.bind (ri_total_amount x) (\<lambda>v. value_of (amount_factory x v)))
        (ds @ (case ri_total_amount x of None \<Rightarrow> [] | Some v \<Rightarrow> failed_details (amount_factory x v)))"
    for g :: "_ \<Rightarrow> (notification, exn, receipt) action" and ds
    by (cases "ri_total_amount x") (simp_all add: bind_pure bindA_collect)
  show ?thesis
  proof (cases "receipt_accepted today x")
    case False
    then have "receipt_errors today x \<noteq> []" by (simp add: receipt_errors_Nil)
    with False show ?thesis
      unfolding create_receipt_def
      by (simp only: category_factory text_factories bindA_collect receipt_factories amount bindA_raise_if_any append_Nil append_assoc
          receipt_errors_def [symmetric] if_False fst_conv)
  next
    case True
    then have none: "receipt_errors today x = []" by (simp add: receipt_errors_Nil)
    have vals: "value_of (required_item_name (ri_item_name x)) = Some (ItemName (strip (the (ri_item_name x))))"
      "value_of (required_payment_date today (ri_payment_date x)) = Some (PaymentDate (the (ri_payment_date x)))"
      "value_of (period_factory x) = Some (WarrantyPeriodMonths (resolved_period x))"
      "value_of (optional_category (ri_category x)) = Some (chosen_category (ri_category x))"
      "value_of (required_bool (ri_requires_physical_receipt x) ''requires_physical_receipt'') = Some (the (ri_requires_physical_receipt x))"
      "value_of (required_file_references (ri_receipt_file_ids x)) = Some (ReceiptFileReferences (the (ri_receipt_file_ids x)))"
      "value_of (optional_text (ri_brand_name x) ''brand_name'' 255) = Some (clean_text (ri_brand_name x))"
      "value_of (optional_text (ri_serial_number x) ''serial_number'' 255) = Some (clean_text (ri_serial_number x))"
      "value_of (optional_text (ri_payment_location x) ''payment_location'' 500) = Some (clean_text (ri_payment_location x))"
      "value_of (optional_text (ri_sub_category x) ''sub_category'' 100) = Some (clean_text (ri_sub_category x))"
      "value_of (optional_text (ri_memo x) ''memo'' 1000) = Some (clean_text (ri_memo x))"
      using True by (auto simp: receipt_accepted_def value_of_Some factory_values category_value period_value)
    have am: "Option.bind (ri_total_amount x) (\<lambda>v. value_of (amount_factory x v)) = map_option TotalAmount (ri_total_amount x)"
      using True by (cases "ri_total_amount x") (auto simp: receipt_accepted_def amount_accepted_def value_of_Some amount_value)
    have made: "create_receipt fresh today x = fst (bindA
        (liftE (resolve_expires_on (ri_expires_on x) (the (ri_payment_date x)) (resolved_period x)))
        (\<lambda>e. returnA (receipt_made fresh x e)) ([] :: notification))"
      unfolding create_receipt_def
      by (simp only: category_factory text_factories bindA_collect receipt_factories amount bindA_raise_if_any append_Nil append_assoc
          receipt_errors_def [symmetric] none if_True vals am option.case prod.case purchase_date.sel warranty_period.sel
          file_references.sel receipt_made_def simp_thms)
    show ?thesis
      using True unfolding made
      by (cases "resolve_expires_on (ri_expires_on x) (the (ri_payment_date x)) (resolved_period x)")
        (simp_all add: bind_pure returnA_def raiseA_def)
  qed
qed

end
