(* ===== verification/Receipt_Store.thy ===== *)
theory Receipt_Store
  imports Receipts
begin

text \<open>
  The tables of the receipts module and their repository:
  \<open>app/modules/receipts/infrastructure/persistence\<close> (\<open>orm.py\<close>, \<open>mapper.py\<close>, \<open>repository.py\<close>),
  and the read model of a receipt.
\<close>

section \<open>Tables\<close>

record attachment_row =
  at_id :: uuid
  at_receipt_id :: uuid
  at_file_id :: uuid
  at_created_at :: datetime

record receipt_db = owner_db +
  attachment_rows :: "attachment_row list"

definition varchar :: "nat \<Rightarrow> ustr option \<Rightarrow> bool" where
  "varchar n t \<longleftrightarrow> (\<forall>s \<in> set_option t. length s \<le> n)"

definition int8 :: "int \<Rightarrow> bool" where
  "int8 x \<longleftrightarrow> - 9223372036854775808 \<le> x \<and> x \<le> 9223372036854775807"

text \<open>The column types (\<open>category\<close> is an enumeration of the database) and the check constraints.\<close>

definition receipt_row_checks :: "receipt_row \<Rightarrow> (bool \<times> exn) list" where
  "receipt_row_checks r =
     [(length (rc_item_name r) \<le> 255 \<and> varchar 255 (rc_brand_name r) \<and> varchar 255 (rc_serial_number r) \<and>
       varchar 500 (rc_payment_location r) \<and> varchar 100 (rc_sub_category r) \<and> varchar 1000 (rc_memo r) \<and>
       (\<forall>v \<in> set_option (rc_total_amount r). int8 v) \<and> int4 (rc_period_months r) \<and>
       (\<forall>c \<in> set_option (rc_category r). c \<in> set (map receipt_category_value receipt_categories)), DataError),
      (1 \<le> rc_period_months r \<and> rc_period_months r \<le> 120, IntegrityError ''ck_receipts_period_months_range''),
      (\<forall>v \<in> set_option (rc_total_amount r). 0 \<le> v, IntegrityError ''ck_receipts_total_amount_non_negative'')]"

definition attachment_key :: "attachment_row \<Rightarrow> uuid \<times> uuid" where
  "attachment_key a = (at_receipt_id a, at_file_id a)"

definition receipt_checks :: "'z receipt_db_scheme \<Rightarrow> (bool \<times> exn) list" where
  "receipt_checks db =
     concat (map receipt_row_checks (receipt_rows db)) @
     [(distinct (map rc_id (receipt_rows db)), IntegrityError ''pk_receipts''),
      (distinct (map at_id (attachment_rows db)), IntegrityError ''pk_receipt_attachments''),
      (distinct (map attachment_key (attachment_rows db)), IntegrityError ''uq_receipt_attachments_receipt_id_file_id''),
      (\<forall>a \<in> set (attachment_rows db). \<exists>r \<in> set (receipt_rows db). rc_id r = at_receipt_id a,
       IntegrityError ''fk_receipt_attachments_receipt_id_receipts'')]"

definition receipt_violation :: "'z receipt_db_scheme \<Rightarrow> exn option" where
  "receipt_violation db = first_violation (receipt_checks db)"

definition receipt_row_ok :: "receipt_row \<Rightarrow> bool" where
  "receipt_row_ok r \<longleftrightarrow> (\<forall>(ok, e) \<in> set (receipt_row_checks r). ok)"

definition receipt_tables_ok :: "'z receipt_db_scheme \<Rightarrow> bool" where
  "receipt_tables_ok db \<longleftrightarrow>
     (\<forall>r \<in> set (receipt_rows db). receipt_row_ok r) \<and>
     distinct (map rc_id (receipt_rows db)) \<and> distinct (map at_id (attachment_rows db)) \<and>
     distinct (map attachment_key (attachment_rows db)) \<and>
     (\<forall>a \<in> set (attachment_rows db). \<exists>r \<in> set (receipt_rows db). rc_id r = at_receipt_id a)"

lemma receipt_violation_None: "receipt_violation db = None \<longleftrightarrow> receipt_tables_ok db"
  unfolding receipt_violation_def first_violation_None receipt_checks_def receipt_tables_ok_def receipt_row_ok_def
  by (simp only: checks_simps conj_assoc simp_thms)

section \<open>Mapping\<close>

definition receipt_to_record :: "datetime \<Rightarrow> receipt \<Rightarrow> receipt_row" where
  "receipt_to_record db_now x =
     \<lparr>rc_id = rp_id x, rc_user_id = rp_user_id x, rc_item_name = item_text (rp_item_name x),
      rc_brand_name = rp_brand_name x, rc_serial_number = rp_serial_number x, rc_payment_location = rp_payment_location x,
      rc_payment_date = purchase_day (rp_payment_date x), rc_total_amount = map_option paid_value (rp_total_amount x),
      rc_period_months = warranty_months (rp_period_months x), rc_expires_on = rp_expires_on x,
      rc_category = map_option receipt_category_value (rp_category x), rc_sub_category = rp_sub_category x,
      rc_memo = rp_memo x, rc_requires_physical_receipt = rp_requires_physical_receipt x,
      rc_created_at = db_now, rc_updated_at = db_now\<rparr>"

definition attachment_to_record :: "uuid \<Rightarrow> datetime \<Rightarrow> uuid \<Rightarrow> uuid \<Rightarrow> attachment_row" where
  "attachment_to_record fresh db_now receipt_id file_id =
     \<lparr>at_id = fresh, at_receipt_id = receipt_id, at_file_id = file_id, at_created_at = db_now\<rparr>"

record receipt_read_model =
  rm_receipt_id :: uuid
  rm_user_id :: uuid
  rm_item_name :: ustr
  rm_brand_name :: "ustr option"
  rm_serial_number :: "ustr option"
  rm_payment_location :: "ustr option"
  rm_payment_date :: date
  rm_total_amount :: "int option"
  rm_period_months :: int
  rm_expires_on :: date
  rm_category :: "receipt_category option"
  rm_sub_category :: "ustr option"
  rm_memo :: "ustr option"
  rm_requires_physical_receipt :: bool
  rm_receipt_file_ids :: "uuid list"
  rm_registered_at :: datetime

definition record_to_read_model :: "receipt_row \<Rightarrow> uuid list \<Rightarrow> receipt_read_model" where
  "record_to_read_model r file_ids =
     \<lparr>rm_receipt_id = rc_id r, rm_user_id = rc_user_id r, rm_item_name = rc_item_name r,
      rm_brand_name = rc_brand_name r, rm_serial_number = rc_serial_number r,
      rm_payment_location = rc_payment_location r, rm_payment_date = rc_payment_date r,
      rm_total_amount = rc_total_amount r, rm_period_months = rc_period_months r, rm_expires_on = rc_expires_on r,
      rm_category = Option.bind (rc_category r) receipt_category_of, rm_sub_category = rc_sub_category r,
      rm_memo = rc_memo r, rm_requires_physical_receipt = rc_requires_physical_receipt r,
      rm_receipt_file_ids = file_ids, rm_registered_at = rc_created_at r\<rparr>"

definition rm_warranty_d_day :: "date \<Rightarrow> receipt_read_model \<Rightarrow> int" where
  "rm_warranty_d_day today m = warranty_d_day today (rm_expires_on m)"

definition rm_warranty_status :: "date \<Rightarrow> receipt_read_model \<Rightarrow> receipt_status" where
  "rm_warranty_status today m = warranty_status today (rm_expires_on m)"

section \<open>Repository\<close>

type_synonym ('z, 'a) receipt_action = "('z receipt_db_scheme session, exn, 'a) action"

definition flush_receipts :: "('z, unit) receipt_action" where
  "flush_receipts = flush_session receipt_violation"

definition file_ids_for_receipt :: "uuid \<Rightarrow> 'z receipt_db_scheme \<Rightarrow> uuid list" where
  "file_ids_for_receipt receipt_id db =
     sort (map at_file_id (filter (\<lambda>a. at_receipt_id a = receipt_id) (attachment_rows db)))"

definition read_model_of :: "'z receipt_db_scheme \<Rightarrow> receipt_row \<Rightarrow> receipt_read_model" where
  "read_model_of db r = record_to_read_model r (file_ids_for_receipt (rc_id r) db)"

text \<open>The attachment rows of a receipt; the n-th gets the n-th new identifier.\<close>

definition new_attachments :: "(nat \<Rightarrow> uuid) \<Rightarrow> datetime \<Rightarrow> receipt \<Rightarrow> attachment_row list" where
  "new_attachments fresh db_now x =
     map (\<lambda>(n, f). attachment_to_record (fresh n) db_now (rp_id x) f) (enumerate 0 (rp_receipt_file_ids x))"

definition repo_create_receipt :: "(nat \<Rightarrow> uuid) \<Rightarrow> datetime \<Rightarrow> receipt \<Rightarrow> ('z, receipt_read_model) receipt_action" where
  "repo_create_receipt fresh db_now x =
     bindA (write_session (\<lambda>db. db\<lparr>receipt_rows := receipt_rows db @ [receipt_to_record db_now x]\<rparr>)) (\<lambda>_.
     bindA (write_session (\<lambda>db. db\<lparr>attachment_rows := attachment_rows db @ new_attachments fresh db_now x\<rparr>)) (\<lambda>_.
     bindA flush_receipts (\<lambda>_.
     query_session (\<lambda>db. read_model_of db (receipt_to_record db_now x)))))"

definition find_receipt_record :: "uuid \<Rightarrow> uuid \<Rightarrow> 'z receipt_db_scheme \<Rightarrow> receipt_row option" where
  "find_receipt_record receipt_id user_id db =
     find (\<lambda>r. rc_id r = receipt_id \<and> rc_user_id r = user_id) (receipt_rows db)"

definition repo_find_receipt :: "uuid \<Rightarrow> uuid \<Rightarrow> ('z, receipt_read_model option) receipt_action" where
  "repo_find_receipt receipt_id user_id =
     query_session (\<lambda>db. map_option (read_model_of db) (find_receipt_record receipt_id user_id db))"

text \<open>
  The assignments of \<open>update\<close>; the database sets \<open>updated_at\<close> when a column changes.
\<close>

definition apply_receipt :: "receipt \<Rightarrow> receipt_row \<Rightarrow> receipt_row" where
  "apply_receipt x r =
     r\<lparr>rc_item_name := item_text (rp_item_name x), rc_brand_name := rp_brand_name x,
       rc_serial_number := rp_serial_number x, rc_payment_location := rp_payment_location x,
       rc_payment_date := purchase_day (rp_payment_date x), rc_total_amount := map_option paid_value (rp_total_amount x),
       rc_period_months := warranty_months (rp_period_months x), rc_expires_on := rp_expires_on x,
       rc_category := map_option receipt_category_value (rp_category x), rc_sub_category := rp_sub_category x,
       rc_memo := rp_memo x, rc_requires_physical_receipt := rp_requires_physical_receipt x\<rparr>"

definition stamp_update :: "datetime \<Rightarrow> receipt \<Rightarrow> receipt_row \<Rightarrow> receipt_row" where
  "stamp_update db_now x r =
     (if apply_receipt x r = r then r else (apply_receipt x r)\<lparr>rc_updated_at := db_now\<rparr>)"

definition put_receipt :: "datetime \<Rightarrow> receipt \<Rightarrow> 'z receipt_db_scheme \<Rightarrow> 'z receipt_db_scheme" where
  "put_receipt db_now x db =
     db\<lparr>receipt_rows := update_rows (\<lambda>r. rc_id r = rp_id x) (stamp_update db_now x) (receipt_rows db)\<rparr>"

definition drop_attachments :: "uuid \<Rightarrow> 'z receipt_db_scheme \<Rightarrow> 'z receipt_db_scheme" where
  "drop_attachments receipt_id db =
     db\<lparr>attachment_rows := filter (\<lambda>a. at_receipt_id a \<noteq> receipt_id) (attachment_rows db)\<rparr>"

text \<open>
  The flush of the assignments to a record that was loaded as \<open>r\<close>: SQLAlchemy writes the columns whose value
  changed, nothing at all when none did, and raises \<open>StaleDataError\<close> when the row is gone.
\<close>

definition assigned :: "'a \<Rightarrow> 'a \<Rightarrow> 'a \<Rightarrow> 'a" where
  "assigned new_value loaded current = (if new_value = loaded then current else new_value)"

definition apply_changes :: "receipt \<Rightarrow> receipt_row \<Rightarrow> receipt_row \<Rightarrow> receipt_row" where
  "apply_changes x r q =
     q\<lparr>rc_item_name := assigned (item_text (rp_item_name x)) (rc_item_name r) (rc_item_name q),
       rc_brand_name := assigned (rp_brand_name x) (rc_brand_name r) (rc_brand_name q),
       rc_serial_number := assigned (rp_serial_number x) (rc_serial_number r) (rc_serial_number q),
       rc_payment_location := assigned (rp_payment_location x) (rc_payment_location r) (rc_payment_location q),
       rc_payment_date := assigned (purchase_day (rp_payment_date x)) (rc_payment_date r) (rc_payment_date q),
       rc_total_amount := assigned (map_option paid_value (rp_total_amount x)) (rc_total_amount r) (rc_total_amount q),
       rc_period_months := assigned (warranty_months (rp_period_months x)) (rc_period_months r) (rc_period_months q),
       rc_expires_on := assigned (rp_expires_on x) (rc_expires_on r) (rc_expires_on q),
       rc_category := assigned (map_option receipt_category_value (rp_category x)) (rc_category r) (rc_category q),
       rc_sub_category := assigned (rp_sub_category x) (rc_sub_category r) (rc_sub_category q),
       rc_memo := assigned (rp_memo x) (rc_memo r) (rc_memo q),
       rc_requires_physical_receipt :=
         assigned (rp_requires_physical_receipt x) (rc_requires_physical_receipt r) (rc_requires_physical_receipt q)\<rparr>"

definition put_changes :: "datetime \<Rightarrow> receipt \<Rightarrow> receipt_row \<Rightarrow> 'z receipt_db_scheme \<Rightarrow> 'z receipt_db_scheme" where
  "put_changes db_now x r db =
     db\<lparr>receipt_rows := update_rows (\<lambda>q. rc_id q = rc_id r) (\<lambda>q. (apply_changes x r q)\<lparr>rc_updated_at := db_now\<rparr>) (receipt_rows db)\<rparr>"

definition flush_changes :: "datetime \<Rightarrow> receipt \<Rightarrow> receipt_row \<Rightarrow> ('z, unit) receipt_action" where
  "flush_changes db_now x r =
     (if apply_receipt x r = r then flush_receipts
      else bindA (query_session (\<lambda>db. exists_row (\<lambda>q. rc_id q = rc_id r) (receipt_rows db))) (\<lambda>there.
           if \<not> there then (\<lambda>s. (Inl StaleDataError, s\<lparr>tx_failed := True\<rparr>))
           else bindA (write_session (put_changes db_now x r)) (\<lambda>_. flush_receipts)))"

text \<open>
  No row is locked before it is written. Other sessions may commit between the read of the use case and the one
  here (\<open>rival\<close>), and before each of the statements that write: the \<open>UPDATE\<close>, the \<open>DELETE\<close> of
  the attachments and the \<open>INSERT\<close> of the new ones (\<open>rivals 0\<close>, \<open>1\<close>, \<open>2\<close>).
\<close>

definition repo_update_receipt ::
    "('z receipt_db_scheme \<Rightarrow> 'z receipt_db_scheme) \<Rightarrow> (nat \<Rightarrow> 'z receipt_db_scheme \<Rightarrow> 'z receipt_db_scheme) \<Rightarrow>
     (nat \<Rightarrow> uuid) \<Rightarrow> datetime \<Rightarrow> receipt \<Rightarrow> ('z, receipt_read_model option) receipt_action" where
  "repo_update_receipt rival rivals fresh db_now x =
     bindA (interfere rival) (\<lambda>_.
     bindA (query_session (find_receipt_record (rp_id x) (rp_user_id x))) (\<lambda>record.
     case record of
       None \<Rightarrow> returnA None
     | Some r \<Rightarrow>
         bindA (interfere (rivals 0)) (\<lambda>_.
         bindA (flush_changes db_now x r) (\<lambda>_.
         bindA (interfere (rivals 1)) (\<lambda>_.
         bindA (write_session (drop_attachments (rp_id x))) (\<lambda>_.
         bindA (interfere (rivals 2)) (\<lambda>_.
         bindA (write_session (\<lambda>db. db\<lparr>attachment_rows := attachment_rows db @ new_attachments fresh db_now x\<rparr>)) (\<lambda>_.
         bindA flush_receipts (\<lambda>_.
         query_session (\<lambda>db. Some (read_model_of db (stamp_update db_now x r))))))))))))"

text \<open>Deleting a receipt deletes its attachments (\<open>ON DELETE CASCADE\<close>).\<close>

definition repo_delete_receipt :: "uuid \<Rightarrow> uuid \<Rightarrow> ('z, bool) receipt_action" where
  "repo_delete_receipt receipt_id user_id =
     bindA (query_session (find_receipt_record receipt_id user_id)) (\<lambda>record.
     case record of
       None \<Rightarrow> returnA False
     | Some r \<Rightarrow>
         bindA (write_session (\<lambda>db. drop_attachments (rc_id r)
            (db\<lparr>receipt_rows := filter (\<lambda>r'. rc_id r' \<noteq> rc_id r) (receipt_rows db)\<rparr>))) (\<lambda>_.
         bindA flush_receipts (\<lambda>_.
         returnA True)))"

section \<open>Tables stay within their constraints\<close>

lemma int8_iff: "int8 x \<longleftrightarrow> - 9223372036854775808 \<le> x \<and> x \<le> 9223372036854775807"
  by (simp add: int8_def)

text \<open>Every receipt the domain makes fits its table, but for the limits only the table has.\<close>

definition storable :: "receipt_input \<Rightarrow> bool" where
  "storable x \<longleftrightarrow> resolved_period x \<le> 120 \<and> (\<forall>v \<in> set_option (ri_total_amount x). int8 v)"

lemma clean_text_within: "text_within n v \<Longrightarrow> varchar n (clean_text v)"
  by (auto simp: text_within_def varchar_def clean_text_def split: option.splits)

lemma made_receipt_fits:
  assumes "receipt_accepted today x" and "storable x"
  shows "receipt_row_ok (receipt_to_record now (receipt_made fresh x expires))"
proof -
  have "receipt_category_value c \<in> set (map receipt_category_value receipt_categories)" for c
    by (cases c) (simp_all add: receipt_categories_def)
  then show ?thesis
    using assms
    by (auto simp: receipt_row_ok_def receipt_row_checks_def receipt_to_record_def receipt_made_def receipt_accepted_def storable_def
        clean_text_within int4_def period_accepted_def amount_accepted_def)
qed

lemma storable_new:
  assumes "receipt_accepted today x" and "\<not> ri_preserve_legacy_total_amount x" and "\<not> ri_preserve_future_period_months x"
  shows "storable x"
  using assms by (auto simp: receipt_accepted_def storable_def period_accepted_def amount_accepted_def max_months_def
      max_amount_def int8_def)

lemma stamp_update_ok: "receipt_row_ok (stamp_update now' x r) = receipt_row_ok (receipt_to_record now x)"
proof -
  have "receipt_row_ok (s\<lparr>rc_updated_at := t\<rparr>) = receipt_row_ok s" for s t
    by (simp add: receipt_row_ok_def receipt_row_checks_def)
  moreover have "receipt_row_ok (apply_receipt x r) = receipt_row_ok (receipt_to_record now x)"
    by (simp add: receipt_row_ok_def receipt_row_checks_def apply_receipt_def receipt_to_record_def)
  ultimately show ?thesis by (simp add: stamp_update_def) metis
qed

lemma stamp_update_keys [simp]:
  "rc_id (stamp_update now x r) = rc_id r" "rc_user_id (stamp_update now x r) = rc_user_id r"
  "rc_created_at (stamp_update now x r) = rc_created_at r"
  by (simp_all add: stamp_update_def apply_receipt_def)

lemma new_attachments_props:
  "map at_file_id (new_attachments fresh now x) = rp_receipt_file_ids x"
  "map at_id (new_attachments fresh now x) = map fresh [0..<length (rp_receipt_file_ids x)]"
  "a \<in> set (new_attachments fresh now x) \<Longrightarrow> at_receipt_id a = rp_id x"
proof -
  let ?row = "\<lambda>(n, f). attachment_to_record (fresh n) now (rp_id x) f"
  have "map at_file_id (map ?row (enumerate n fs)) = fs" "map at_id (map ?row (enumerate n fs)) = map fresh [n..<n + length fs]"
    for n fs by (induction fs arbitrary: n) (simp_all add: attachment_to_record_def upt_rec)
  from this [of 0 "rp_receipt_file_ids x"]
  show "map at_file_id (new_attachments fresh now x) = rp_receipt_file_ids x"
    "map at_id (new_attachments fresh now x) = map fresh [0..<length (rp_receipt_file_ids x)]"
    by (simp_all only: new_attachments_def add_0)
  show "at_receipt_id a = rp_id x" if "a \<in> set (new_attachments fresh now x)"
    using that by (auto simp: new_attachments_def attachment_to_record_def)
qed

end
