(* ===== verification/Notifications.thy ===== *)
theory Notifications
  imports Events
begin

text \<open>
  The notifications domain: the value objects of \<open>app/modules/notifications/domain/value_objects.py\<close>
  and the aggregates of \<open>domain/model.py\<close>. Every text of a notification is stripped, not empty
  and within the length of its column; a resource type comes with a resource id.
\<close>

section \<open>Value objects\<close>

datatype device_platform = IOS | ANDROID

fun platform_value :: "device_platform \<Rightarrow> string" where
  "platform_value IOS = ''ios''"
| "platform_value ANDROID = ''android''"

definition platform_of :: "string \<Rightarrow> device_platform option" where
  "platform_of s = find (\<lambda>m. platform_value m = s) [IOS, ANDROID]"

interpretation platform: str_enum platform_value platform_of
proof (rule str_enumI [OF platform_of_def])
  fix m show "m \<in> set [IOS, ANDROID]" by (cases m) simp_all
  fix m n show "platform_value m = platform_value n \<Longrightarrow> m = n" by (cases m; cases n) simp_all
qed

datatype notification_kind = NotificationKind (kind_text: ustr)
datatype notification_title = NotificationTitle (title_text: ustr)
datatype notification_message = NotificationMessage (message_text: ustr)
datatype resource_type = ResourceType (resource_text: ustr)
datatype registration_token = RegistrationToken (token_text: ustr)
datatype notification_metadata = NotificationMetadata (metadata_items: "(ustr \<times> ustr) list")

definition mk_notification_kind :: "ustr \<Rightarrow> exn + notification_kind" where
  "mk_notification_kind v =
     (if v = [] \<or> strip v \<noteq> v \<or> length v > 50
      then Inl (ValidationError [ErrorDetail ''kind'' ''notification_kind_invalid'']) else Inr (NotificationKind v))"

definition mk_notification_title :: "ustr \<Rightarrow> exn + notification_title" where
  "mk_notification_title v =
     (if v = [] \<or> strip v \<noteq> v \<or> length v > 100
      then Inl (ValidationError [ErrorDetail ''title'' ''notification_title_invalid'']) else Inr (NotificationTitle v))"

definition mk_notification_message :: "ustr \<Rightarrow> exn + notification_message" where
  "mk_notification_message v =
     (if v = [] \<or> strip v \<noteq> v \<or> length v > 255
      then Inl (ValidationError [ErrorDetail ''message'' ''notification_message_invalid'']) else Inr (NotificationMessage v))"

definition mk_resource_type :: "ustr \<Rightarrow> exn + resource_type" where
  "mk_resource_type v =
     (if v = [] \<or> strip v \<noteq> v \<or> length v > 50
      then Inl (ValidationError [ErrorDetail ''resourceType'' ''resource_type_invalid'']) else Inr (ResourceType v))"

definition mk_registration_token :: "ustr \<Rightarrow> exn + registration_token" where
  "mk_registration_token v =
     (if v = [] \<or> strip v \<noteq> v \<or> length v > 512
      then Inl (ValidationError [ErrorDetail ''token'' ''registration_token_invalid'']) else Inr (RegistrationToken v))"

text \<open>The metadata are a \<open>dict[str, str]\<close>: its items in insertion order, with distinct keys.\<close>

fun check_metadata_items :: "(ustr \<times> ustr) list \<Rightarrow> exn + unit" where
  "check_metadata_items [] = Inr ()"
| "check_metadata_items ((key, item_value) # items) =
     (if strip key \<noteq> key \<or> \<not> (1 \<le> length key \<and> length key \<le> 40)
      then Inl (ValidationError [ErrorDetail ''metadata'' ''metadata_key_invalid''])
      else if length item_value > 500 then Inl (ValidationError [ErrorDetail ''metadata'' ''metadata_value_invalid''])
      else check_metadata_items items)"

definition mk_notification_metadata :: "(ustr \<times> ustr) list \<Rightarrow> exn + notification_metadata" where
  "mk_notification_metadata items =
     (if length items > 50 then Inl (ValidationError [ErrorDetail ''metadata'' ''metadata_too_many_keys''])
      else bindE (check_metadata_items items) (\<lambda>_. Inr (NotificationMetadata items)))"

definition plain_text :: "nat \<Rightarrow> ustr \<Rightarrow> bool" where
  "plain_text n v \<longleftrightarrow> v \<noteq> [] \<and> strip v = v \<and> length v \<le> n"

definition metadata_ok :: "(ustr \<times> ustr) list \<Rightarrow> bool" where
  "metadata_ok items \<longleftrightarrow> length items \<le> 50 \<and> (\<forall>(k, v) \<in> set items. plain_text 40 k \<and> length v \<le> 500)"

lemma check_metadata_items_iff:
  "check_metadata_items items = Inr () \<longleftrightarrow> (\<forall>(k, v) \<in> set items. plain_text 40 k \<and> length v \<le> 500)"
  by (induction items rule: check_metadata_items.induct) (auto simp: plain_text_def Suc_le_eq)

lemma check_metadata_items_validates [simp]: "validates (check_metadata_items items)"
  by (induction items rule: check_metadata_items.induct) simp_all

text \<open>The constructors accept exactly the plain texts of their length.\<close>

lemma text_values:
  "mk_notification_kind v = (if plain_text 50 v then Inr (NotificationKind v)
     else Inl (ValidationError [ErrorDetail ''kind'' ''notification_kind_invalid'']))"
  "mk_notification_title v = (if plain_text 100 v then Inr (NotificationTitle v)
     else Inl (ValidationError [ErrorDetail ''title'' ''notification_title_invalid'']))"
  "mk_notification_message v = (if plain_text 255 v then Inr (NotificationMessage v)
     else Inl (ValidationError [ErrorDetail ''message'' ''notification_message_invalid'']))"
  "mk_resource_type v = (if plain_text 50 v then Inr (ResourceType v)
     else Inl (ValidationError [ErrorDetail ''resourceType'' ''resource_type_invalid'']))"
  "mk_registration_token v = (if plain_text 512 v then Inr (RegistrationToken v)
     else Inl (ValidationError [ErrorDetail ''token'' ''registration_token_invalid'']))"
  by (auto simp: plain_text_def mk_notification_kind_def mk_notification_title_def mk_notification_message_def
      mk_resource_type_def mk_registration_token_def)

lemma metadata_value: "mk_notification_metadata items = Inr m \<longleftrightarrow> metadata_ok items \<and> m = NotificationMetadata items"
  by (auto simp: mk_notification_metadata_def metadata_ok_def bindE_Inr check_metadata_items_iff)

lemma notification_values_validate [simp]:
  "validates (mk_notification_kind v)" "validates (mk_notification_title v)" "validates (mk_notification_message v)"
  "validates (mk_resource_type v)" "validates (mk_registration_token v)" "validates (mk_notification_metadata items)"
  by (simp_all add: mk_notification_kind_def mk_notification_title_def mk_notification_message_def mk_resource_type_def
      mk_registration_token_def mk_notification_metadata_def validates_bindE)

section \<open>Notifications\<close>

definition validate_resource_pair :: "ustr option \<Rightarrow> uuid option \<Rightarrow> exn + unit" where
  "validate_resource_pair resource_type resource_id =
     (if (resource_type = None) \<noteq> (resource_id = None)
      then Inl (ValidationError [ErrorDetail ''resource'' ''resource_pair_incomplete'']) else Inr ())"

record user_notification = "domain_event aggregate_root" +
  un_id :: uuid
  un_user_id :: uuid
  un_category :: notification_category
  un_message_type :: message_type
  un_kind :: notification_kind
  un_title :: notification_title
  un_message :: notification_message
  un_resource_type :: "resource_type option"
  un_resource_id :: "uuid option"
  un_metadata :: notification_metadata
  un_created_at :: datetime
  un_read_at :: "datetime option"

text \<open>The keyword arguments of \<open>create\<close>, \<open>restore\<close> and \<open>_assemble\<close>.\<close>

record notification_fields =
  nf_notification_id :: "uuid option"
  nf_user_id :: uuid
  nf_message_type :: message_type
  nf_category :: notification_category
  nf_kind :: ustr
  nf_title :: ustr
  nf_message :: ustr
  nf_resource_type :: "ustr option"
  nf_resource_id :: "uuid option"
  nf_metadata :: "(ustr \<times> ustr) list option"
  nf_created_at :: datetime
  nf_read_at :: "datetime option"

text \<open>\<open>_assemble\<close>; \<open>fresh\<close> is what \<open>uuid4()\<close> returns where no id is given.\<close>

definition assemble_notification :: "uuid \<Rightarrow> notification_fields \<Rightarrow> exn + user_notification" where
  "assemble_notification fresh f =
     fst (
       bindA (collect (mk_notification_kind (nf_kind f))) (\<lambda>new_kind.
       bindA (collect (mk_notification_title (nf_title f))) (\<lambda>new_title.
       bindA (collect (mk_notification_message (nf_message f))) (\<lambda>new_message.
       bindA (case nf_resource_type f of None \<Rightarrow> returnA None | Some t \<Rightarrow> collect (mk_resource_type t)) (\<lambda>new_resource_type.
       bindA (collect (validate_resource_pair (nf_resource_type f) (nf_resource_id f))) (\<lambda>_.
       bindA (collect (mk_notification_metadata (case nf_metadata f of None \<Rightarrow> [] | Some m \<Rightarrow> m))) (\<lambda>new_metadata.
       bindA raise_if_any (\<lambda>_.
       case (new_kind, new_title, new_message, new_metadata) of
         (Some k, Some t, Some m, Some md) \<Rightarrow>
           returnA \<lparr>pending_events = [], un_id = (case nf_notification_id f of Some i \<Rightarrow> i | None \<Rightarrow> fresh),
                    un_user_id = nf_user_id f, un_category = nf_category f, un_message_type = nf_message_type f,
                    un_kind = k, un_title = t, un_message = m, un_resource_type = new_resource_type,
                    un_resource_id = nf_resource_id f, un_metadata = md, un_created_at = nf_created_at f,
                    un_read_at = nf_read_at f\<rparr>
       | _ \<Rightarrow> raiseA PyTypeError))))))) [])"

definition created_body :: "user_notification \<Rightarrow> event_body" where
  "created_body u =
     NotificationCreated (un_id u) (un_user_id u) (un_message_type u) (kind_text (un_kind u)) (title_text (un_title u))
       (message_text (un_message u)) (map_option resource_text (un_resource_type u)) (un_resource_id u) (un_category u)"

definition create_user_notification ::
    "uuid \<Rightarrow> uuid \<Rightarrow> datetime \<Rightarrow> notification_fields \<Rightarrow> exn + user_notification" where
  "create_user_notification fresh event_id event_at f =
     bindE (assemble_notification fresh f) (\<lambda>created.
     Inr (record_event (new_event event_id event_at (created_body created)) created))"

definition restore_user_notification :: "uuid \<Rightarrow> notification_fields \<Rightarrow> exn + user_notification" where
  "restore_user_notification fresh f = assemble_notification fresh f"

definition notification_mark_read :: "datetime \<Rightarrow> user_notification \<Rightarrow> user_notification" where
  "notification_mark_read read_at u =
     \<lparr>pending_events = [], un_id = un_id u, un_user_id = un_user_id u, un_category = un_category u,
      un_message_type = un_message_type u, un_kind = un_kind u, un_title = un_title u, un_message = un_message u,
      un_resource_type = un_resource_type u, un_resource_id = un_resource_id u, un_metadata = un_metadata u,
      un_created_at = un_created_at u, un_read_at = Some read_at\<rparr>"

section \<open>Settings and tokens\<close>

record notification_settings =
  ns_user_id :: uuid
  ns_push_enabled :: bool
  ns_marketing_consent :: bool

definition default_settings :: "uuid \<Rightarrow> notification_settings" where
  "default_settings user_id = \<lparr>ns_user_id = user_id, ns_push_enabled = True, ns_marketing_consent = False\<rparr>"

record user_push_token =
  pt_id :: uuid
  pt_user_id :: uuid
  pt_token :: registration_token
  pt_platform :: device_platform
  pt_created_at :: datetime
  pt_updated_at :: datetime

definition create_push_token ::
    "uuid \<Rightarrow> uuid option \<Rightarrow> uuid \<Rightarrow> ustr \<Rightarrow> device_platform \<Rightarrow> datetime \<Rightarrow> datetime \<Rightarrow> exn + user_push_token" where
  "create_push_token fresh push_token_id user_id token platform created_at updated_at =
     fst (bindA (collect (mk_registration_token token)) (\<lambda>new_token.
          bindA raise_if_any (\<lambda>_.
          case new_token of
            None \<Rightarrow> raiseA PyTypeError
          | Some t \<Rightarrow>
              returnA \<lparr>pt_id = (case push_token_id of Some i \<Rightarrow> i | None \<Rightarrow> fresh), pt_user_id = user_id, pt_token = t,
                       pt_platform = platform, pt_created_at = created_at, pt_updated_at = updated_at\<rparr>)) [])"

section \<open>What is accepted\<close>

definition notification_errors :: "notification_fields \<Rightarrow> error_detail list" where
  "notification_errors f =
     failed_details (mk_notification_kind (nf_kind f)) @ failed_details (mk_notification_title (nf_title f)) @
     failed_details (mk_notification_message (nf_message f)) @
     (case nf_resource_type f of None \<Rightarrow> [] | Some t \<Rightarrow> failed_details (mk_resource_type t)) @
     failed_details (validate_resource_pair (nf_resource_type f) (nf_resource_id f)) @
     failed_details (mk_notification_metadata (case nf_metadata f of None \<Rightarrow> [] | Some m \<Rightarrow> m))"

definition fields_ok :: "notification_fields \<Rightarrow> bool" where
  "fields_ok f \<longleftrightarrow>
     plain_text 50 (nf_kind f) \<and> plain_text 100 (nf_title f) \<and> plain_text 255 (nf_message f) \<and>
     (\<forall>t \<in> set_option (nf_resource_type f). plain_text 50 t) \<and>
     (nf_resource_type f = None \<longleftrightarrow> nf_resource_id f = None) \<and> metadata_ok (case nf_metadata f of None \<Rightarrow> [] | Some m \<Rightarrow> m)"

definition notification_of :: "uuid \<Rightarrow> notification_fields \<Rightarrow> user_notification" where
  "notification_of fresh f =
     \<lparr>pending_events = [], un_id = (case nf_notification_id f of Some i \<Rightarrow> i | None \<Rightarrow> fresh),
      un_user_id = nf_user_id f, un_category = nf_category f, un_message_type = nf_message_type f,
      un_kind = NotificationKind (nf_kind f), un_title = NotificationTitle (nf_title f),
      un_message = NotificationMessage (nf_message f), un_resource_type = map_option ResourceType (nf_resource_type f),
      un_resource_id = nf_resource_id f,
      un_metadata = NotificationMetadata (case nf_metadata f of None \<Rightarrow> [] | Some m \<Rightarrow> m),
      un_created_at = nf_created_at f, un_read_at = nf_read_at f\<rparr>"

lemma resource_pair_validates [simp]: "validates (validate_resource_pair t i)"
  by (simp add: validate_resource_pair_def)

lemma metadata_details: "failed_details (mk_notification_metadata m) = [] \<longleftrightarrow> metadata_ok m"
  using validates_Inr_iff [of "mk_notification_metadata m"] by (auto simp: metadata_value)

lemma notification_errors_Nil: "notification_errors f = [] \<longleftrightarrow> fields_ok f"
  by (auto simp: notification_errors_def fields_ok_def text_values validate_resource_pair_def metadata_details
      split: option.splits)

lemma assemble_notification_eq:
  "assemble_notification fresh f =
     (if fields_ok f then Inr (notification_of fresh f) else Inl (ValidationError (notification_errors f)))"
proof -
  let ?md = "case nf_metadata f of None \<Rightarrow> [] | Some m \<Rightarrow> m"
  have resource: "bindA (case nf_resource_type f of None \<Rightarrow> returnA None | Some t \<Rightarrow> collect (mk_resource_type t)) g ds =
      g (Option.bind (nf_resource_type f) (\<lambda>t. value_of (mk_resource_type t)))
        (ds @ (case nf_resource_type f of None \<Rightarrow> [] | Some t \<Rightarrow> failed_details (mk_resource_type t)))"
    for g :: "_ \<Rightarrow> (notification, exn, user_notification) action" and ds
    by (cases "nf_resource_type f") (simp_all add: bind_pure bindA_collect)
  show ?thesis
  proof (cases "fields_ok f")
    case True
    then have md: "mk_notification_metadata ?md = Inr (NotificationMetadata ?md)"
      by (simp add: metadata_value fields_ok_def)
    show ?thesis
      using True notification_errors_Nil [of f] md
      by (auto simp: assemble_notification_def bindA_collect resource bindA_raise_if_any notification_errors_def
          fields_ok_def text_values notification_of_def returnA_def split: option.splits)
  next
    case False
    then have "notification_errors f \<noteq> []" by (simp add: notification_errors_Nil)
    with False show ?thesis
      unfolding assemble_notification_def
      by (simp only: bindA_collect notification_values_validate resource_pair_validates resource bindA_raise_if_any
          append_Nil append_assoc notification_errors_def [symmetric] if_False fst_conv)
  qed
qed

lemma create_user_notification_eq:
  "create_user_notification fresh i t f =
     (if fields_ok f
      then Inr ((notification_of fresh f)\<lparr>pending_events := [new_event i t (created_body (notification_of fresh f))]\<rparr>)
      else Inl (ValidationError (notification_errors f)))"
  by (simp add: create_user_notification_def assemble_notification_eq record_event_def notification_of_def)

lemma create_push_token_eq:
  "create_push_token fresh i u tok p c d =
     (if plain_text 512 tok
      then Inr \<lparr>pt_id = (case i of Some j \<Rightarrow> j | None \<Rightarrow> fresh), pt_user_id = u, pt_token = RegistrationToken tok,
                pt_platform = p, pt_created_at = c, pt_updated_at = d\<rparr>
      else Inl (ValidationError [ErrorDetail ''token'' ''registration_token_invalid'']))"
  by (simp add: create_push_token_def bindA_collect bindA_raise_if_any text_values returnA_def)

lemma record_without_events [simp]: "created_body (u\<lparr>pending_events := es\<rparr>) = created_body u"
  by (simp add: created_body_def)

end
