(* ===== verification/Notification_Schedule.thy ===== *)
theory Notification_Schedule
  imports Notifications Cursor_Text
begin

text \<open>
  Scheduled notifications without the database: \<open>domain/schedule_rule.py\<close>,
  \<open>domain/schedule_occurrence.py\<close> and \<open>domain/due_notification.py\<close> of
  \<open>app/modules/notifications\<close> - which rules are valid, when a rule is due, which users its
  cadence selects and how its templates are rendered.
\<close>

section \<open>Schedule rules\<close>

datatype target_kind =
    WARRANTY_RECEIPT | ENGAGEMENT_UNREGISTERED_RECEIPT | ENGAGEMENT_INACTIVE_RECEIPT | ENGAGEMENT_ALL_USER

fun target_kind_value :: "target_kind \<Rightarrow> string" where
  "target_kind_value WARRANTY_RECEIPT = ''warranty_receipt''"
| "target_kind_value ENGAGEMENT_UNREGISTERED_RECEIPT = ''engagement_unregistered_receipt''"
| "target_kind_value ENGAGEMENT_INACTIVE_RECEIPT = ''engagement_inactive_receipt''"
| "target_kind_value ENGAGEMENT_ALL_USER = ''engagement_all_user''"

definition target_kind_of :: "string \<Rightarrow> target_kind option" where
  "target_kind_of s = find (\<lambda>m. target_kind_value m = s)
     [WARRANTY_RECEIPT, ENGAGEMENT_UNREGISTERED_RECEIPT, ENGAGEMENT_INACTIVE_RECEIPT, ENGAGEMENT_ALL_USER]"

interpretation target: str_enum target_kind_value target_kind_of
proof (rule str_enumI [OF target_kind_of_def])
  fix m show "m \<in> set [WARRANTY_RECEIPT, ENGAGEMENT_UNREGISTERED_RECEIPT, ENGAGEMENT_INACTIVE_RECEIPT, ENGAGEMENT_ALL_USER]"
    by (cases m) simp_all
  fix m n show "target_kind_value m = target_kind_value n \<Longrightarrow> m = n" by (cases m; cases n) simp_all
qed

definition engagement_target_kinds :: "target_kind list" where
  "engagement_target_kinds = [ENGAGEMENT_UNREGISTERED_RECEIPT, ENGAGEMENT_INACTIVE_RECEIPT, ENGAGEMENT_ALL_USER]"

text \<open>\<open>send_time_local\<close> is a time of day, in microseconds since midnight.\<close>

record schedule_rule =
  sr_campaign_key :: ustr
  sr_enabled :: bool
  sr_target_kind :: target_kind
  sr_day_offset :: "int option"
  sr_first_delay_days :: "int option"
  sr_repeat_interval_days :: "int option"
  sr_lookback_days :: "int option"
  sr_send_time_local :: int
  sr_requires_marketing_consent :: bool
  sr_title_template :: ustr
  sr_body_template :: ustr

text \<open>The keyword arguments of \<open>create\<close>, which are the columns of \<open>notification_schedule_rules\<close>.\<close>

record rule_row =
  rl_campaign_key :: ustr
  rl_enabled :: bool
  rl_target_kind :: string
  rl_day_offset :: "int option"
  rl_first_delay_days :: "int option"
  rl_repeat_interval_days :: "int option"
  rl_lookback_days :: "int option"
  rl_send_time_local :: int
  rl_requires_marketing_consent :: bool
  rl_title_template :: ustr
  rl_body_template :: ustr

definition validate_text :: "string \<Rightarrow> ustr \<Rightarrow> nat \<Rightarrow> string \<Rightarrow> exn + unit" where
  "validate_text field v max_length message =
     (if v = [] \<or> strip v \<noteq> v \<or> length v > max_length then Inl (ValidationError [ErrorDetail field message]) else Inr ())"

definition validate_campaign_key :: "ustr \<Rightarrow> exn + unit" where
  "validate_campaign_key v = validate_text ''campaignKey'' v 100 ''campaign_key_invalid''"

definition validate_optional_non_negative :: "string \<Rightarrow> int option \<Rightarrow> exn + unit" where
  "validate_optional_non_negative field v =
     (case v of
        None \<Rightarrow> Inr ()
      | Some n \<Rightarrow> (if n < 0 then Inl (ValidationError [ErrorDetail field ''schedule_days_invalid'']) else Inr ()))"

definition read_target_kind :: "string \<Rightarrow> exn + target_kind" where
  "read_target_kind s =
     (case target_kind_of s of
        None \<Rightarrow> Inl (ValidationError [ErrorDetail ''targetKind'' ''target_kind_invalid''])
      | Some k \<Rightarrow> Inr k)"

definition timing_details :: "int option \<Rightarrow> int option \<Rightarrow> int option \<Rightarrow> int option \<Rightarrow> error_detail list" where
  "timing_details day_offset first_delay_days repeat_interval_days lookback_days =
     (if day_offset = None then [ErrorDetail ''dayOffset'' ''day_offset_required''] else []) @
     concat (map (\<lambda>(field, v). if v \<noteq> None then [ErrorDetail field ''day_offset_only''] else [])
       [(''firstDelayDays'', first_delay_days), (''repeatIntervalDays'', repeat_interval_days),
        (''lookbackDays'', lookback_days)])"

fun validate_timing_rule ::
    "target_kind \<Rightarrow> int option \<Rightarrow> int option \<Rightarrow> int option \<Rightarrow> int option \<Rightarrow> exn + unit" where
  "validate_timing_rule WARRANTY_RECEIPT day_offset first_delay_days repeat_interval_days lookback_days =
     (let details = timing_details day_offset first_delay_days repeat_interval_days lookback_days
      in if details \<noteq> [] then Inl (ValidationError details) else Inr ())"
| "validate_timing_rule _ day_offset first_delay_days repeat_interval_days lookback_days =
     (if repeat_interval_days = None
      then Inl (ValidationError [ErrorDetail ''repeatIntervalDays'' ''repeat_interval_required'']) else Inr ())"

definition validate_engagement_consent :: "target_kind \<Rightarrow> bool \<Rightarrow> exn + unit" where
  "validate_engagement_consent target_kind requires_marketing_consent =
     (if target_kind \<in> set engagement_target_kinds \<and> \<not> requires_marketing_consent
      then Inl (ValidationError [ErrorDetail ''requiresMarketingConsent'' ''marketing_consent_required''])
      else Inr ())"

definition create_schedule_rule :: "rule_row \<Rightarrow> exn + schedule_rule" where
  "create_schedule_rule r =
     fst (
       bindA (collect (validate_campaign_key (rl_campaign_key r))) (\<lambda>_.
       bindA (collect (validate_optional_non_negative ''dayOffset'' (rl_day_offset r))) (\<lambda>_.
       bindA (collect (validate_optional_non_negative ''firstDelayDays'' (rl_first_delay_days r))) (\<lambda>_.
       bindA (collect (validate_optional_non_negative ''repeatIntervalDays'' (rl_repeat_interval_days r))) (\<lambda>_.
       bindA (collect (validate_optional_non_negative ''lookbackDays'' (rl_lookback_days r))) (\<lambda>_.
       bindA (collect (validate_text ''titleTemplate'' (rl_title_template r) 100 ''title_template_invalid'')) (\<lambda>_.
       bindA (collect (validate_text ''bodyTemplate'' (rl_body_template r) 255 ''body_template_invalid'')) (\<lambda>_.
       bindA (collect (read_target_kind (rl_target_kind r))) (\<lambda>new_target_kind.
       bindA raise_if_any (\<lambda>_.
       case new_target_kind of
         None \<Rightarrow> raiseA PyTypeError
       | Some k \<Rightarrow>
           bindA (liftE (validate_timing_rule k (rl_day_offset r) (rl_first_delay_days r) (rl_repeat_interval_days r)
                    (rl_lookback_days r))) (\<lambda>_.
           bindA (liftE (validate_engagement_consent k (rl_requires_marketing_consent r))) (\<lambda>_.
           returnA \<lparr>sr_campaign_key = rl_campaign_key r, sr_enabled = rl_enabled r, sr_target_kind = k,
                    sr_day_offset = rl_day_offset r, sr_first_delay_days = rl_first_delay_days r,
                    sr_repeat_interval_days = rl_repeat_interval_days r, sr_lookback_days = rl_lookback_days r,
                    sr_send_time_local = rl_send_time_local r,
                    sr_requires_marketing_consent = rl_requires_marketing_consent r,
                    sr_title_template = rl_title_template r, sr_body_template = rl_body_template r\<rparr>))))))))))) [])"

section \<open>Occurrences\<close>

datatype occurrence_target = RECEIPT_TARGET | USER_TARGET

fun occurrence_target_value :: "occurrence_target \<Rightarrow> string" where
  "occurrence_target_value RECEIPT_TARGET = ''receipt''"
| "occurrence_target_value USER_TARGET = ''user''"

definition occurrence_target_of :: "string \<Rightarrow> occurrence_target option" where
  "occurrence_target_of s = find (\<lambda>m. occurrence_target_value m = s) [RECEIPT_TARGET, USER_TARGET]"

interpretation occurrence: str_enum occurrence_target_value occurrence_target_of
proof (rule str_enumI [OF occurrence_target_of_def])
  fix m show "m \<in> set [RECEIPT_TARGET, USER_TARGET]" by (cases m) simp_all
  fix m n show "occurrence_target_value m = occurrence_target_value n \<Longrightarrow> m = n" by (cases m; cases n) simp_all
qed

record occurrence_key =
  ok_campaign_key :: ustr
  ok_target_type :: occurrence_target
  ok_target_id :: uuid
  ok_occurrence_on :: date

definition create_occurrence_key :: "ustr \<Rightarrow> string \<Rightarrow> uuid \<Rightarrow> date \<Rightarrow> exn + occurrence_key" where
  "create_occurrence_key campaign_key target_type target_id occurrence_on =
     bindE (if campaign_key = [] \<or> strip campaign_key \<noteq> campaign_key \<or> length campaign_key > 100
            then Inl (ValidationError [ErrorDetail ''campaignKey'' ''campaign_key_invalid'']) else Inr ()) (\<lambda>_.
     case occurrence_target_of target_type of
       None \<Rightarrow> Inl (ValidationError [ErrorDetail ''targetType'' ''target_type_invalid''])
     | Some t \<Rightarrow> Inr \<lparr>ok_campaign_key = campaign_key, ok_target_type = t, ok_target_id = target_id,
                      ok_occurrence_on = occurrence_on\<rparr>)"

fun target_type_for_kind :: "target_kind \<Rightarrow> occurrence_target" where
  "target_type_for_kind WARRANTY_RECEIPT = RECEIPT_TARGET"
| "target_type_for_kind ENGAGEMENT_UNREGISTERED_RECEIPT = USER_TARGET"
| "target_type_for_kind ENGAGEMENT_INACTIVE_RECEIPT = USER_TARGET"
| "target_type_for_kind ENGAGEMENT_ALL_USER = USER_TARGET"

section \<open>Due rules\<close>

text \<open>A Python datetime may lack an offset; only an aware one is an instant.\<close>

datatype py_datetime = Naive int | Aware datetime

record due_rule =
  du_rule :: schedule_rule
  du_target_date :: date

definition resolve_due_notification_rule ::
    "schedule_rule \<Rightarrow> py_datetime \<Rightarrow> date option \<Rightarrow> exn + due_rule option" where
  "resolve_due_notification_rule rule now target_date =
     (case now of
        Naive _ \<Rightarrow> Inl (ValidationError [ErrorDetail ''now'' ''now_invalid''])
      | Aware t \<Rightarrow>
          if \<not> sr_enabled rule then Inr None
          else
            let current_date = seoul_date t;
                resolved_target_date = (case target_date of Some d \<Rightarrow> d | None \<Rightarrow> current_date)
            in if current_date < resolved_target_date then Inr None
               else if resolved_target_date = current_date \<and> seoul_time t < sr_send_time_local rule then Inr None
               else Inr (Some \<lparr>du_rule = rule, du_target_date = resolved_target_date\<rparr>))"

record delivery_contract =
  dc_category :: notification_category
  dc_message_type :: message_type
  dc_kind :: string
  dc_resource_type :: "string option"

fun delivery_contract_for :: "target_kind \<Rightarrow> delivery_contract" where
  "delivery_contract_for WARRANTY_RECEIPT =
     \<lparr>dc_category = WARRANTY, dc_message_type = TRANSACTIONAL, dc_kind = ''warranty_expiry'',
      dc_resource_type = Some ''receipt''\<rparr>"
| "delivery_contract_for ENGAGEMENT_UNREGISTERED_RECEIPT =
     \<lparr>dc_category = PRODUCT_MANAGEMENT, dc_message_type = MARKETING, dc_kind = ''receipt_registration_reminder'',
      dc_resource_type = None\<rparr>"
| "delivery_contract_for ENGAGEMENT_INACTIVE_RECEIPT =
     \<lparr>dc_category = PRODUCT_MANAGEMENT, dc_message_type = MARKETING, dc_kind = ''receipt_inactivity_reminder'',
      dc_resource_type = None\<rparr>"
| "delivery_contract_for ENGAGEMENT_ALL_USER =
     \<lparr>dc_category = BENEFIT, dc_message_type = MARKETING, dc_kind = ''receipt_analysis_reminder'',
      dc_resource_type = None\<rparr>"

definition observation_cutoff_for :: "due_rule \<Rightarrow> datetime" where
  "observation_cutoff_for d = seoul_datetime (du_target_date d) (sr_send_time_local (du_rule d))"

definition first_due_day :: "schedule_rule \<Rightarrow> int" where
  "first_due_day rule =
     (case sr_first_delay_days rule of
        Some n \<Rightarrow> n
      | None \<Rightarrow> (case sr_lookback_days rule of Some n \<Rightarrow> n | None \<Rightarrow> 0))"

definition matches_join_cadence :: "schedule_rule \<Rightarrow> int \<Rightarrow> bool" where
  "matches_join_cadence rule days_since_joined =
     (let first = first_due_day rule
      in if days_since_joined < first then False
         else (case sr_repeat_interval_days rule of
                 None \<Rightarrow> days_since_joined = first
               | Some interval \<Rightarrow>
                   if interval = 0 then days_since_joined = first else (days_since_joined - first) mod interval = 0))"

definition registration_age_days_on :: "date \<Rightarrow> datetime \<Rightarrow> int" where
  "registration_age_days_on target_date registered_at = date_ordinal target_date - seoul_day registered_at"

fun matches_receipt_activity :: "target_kind \<Rightarrow> nat \<Rightarrow> bool" where
  "matches_receipt_activity ENGAGEMENT_UNREGISTERED_RECEIPT receipt_count = (receipt_count = 0)"
| "matches_receipt_activity ENGAGEMENT_INACTIVE_RECEIPT receipt_count = (receipt_count > 0)"
| "matches_receipt_activity WARRANTY_RECEIPT receipt_count = False"
| "matches_receipt_activity ENGAGEMENT_ALL_USER receipt_count = False"

text \<open>
  The window of an inactivity rule starts \<open>lookback_days\<close> midnights earlier; before the year 1
  there is no such midnight, and Python raises \<open>OverflowError\<close>.
\<close>

definition receipt_activity_since_for :: "due_rule \<Rightarrow> exn + datetime option" where
  "receipt_activity_since_for d =
     (case sr_target_kind (du_rule d) of
        ENGAGEMENT_UNREGISTERED_RECEIPT \<Rightarrow> Inr None
      | ENGAGEMENT_INACTIVE_RECEIPT \<Rightarrow>
          (case sr_lookback_days (du_rule d) of
             None \<Rightarrow> Inl PyRuntimeError
           | Some n \<Rightarrow>
               if date_ordinal (du_target_date d) - n < 1 then Inl PyOverflowError
               else Inr (Some (seoul_datetime (du_target_date d) 0 - n * day_us)))
      | WARRANTY_RECEIPT \<Rightarrow> Inl PyRuntimeError
      | ENGAGEMENT_ALL_USER \<Rightarrow> Inl PyRuntimeError)"

section \<open>Templates\<close>

definition item_name_marker :: ustr where
  "item_name_marker = [91, 44592, 44592, 47749, 93]"

text \<open>\<open>str.count\<close>: the occurrences that \<open>str.replace\<close> would replace.\<close>

fun count_text :: "ustr \<Rightarrow> nat \<Rightarrow> ustr \<Rightarrow> nat" where
  "count_text old 0 s = 0"
| "count_text old (Suc n) [] = 0"
| "count_text old (Suc n) (c # s) =
     (if take (length old) (c # s) = old then Suc (count_text old n (drop (length old) (c # s)))
      else count_text old n s)"

definition str_count :: "ustr \<Rightarrow> ustr \<Rightarrow> nat" where
  "str_count s old = count_text old (length s) s"

definition render_notification_text :: "ustr \<Rightarrow> ustr \<Rightarrow> int \<Rightarrow> ustr" where
  "render_notification_text template item_name max_length =
     (let marker_count = str_count template item_name_marker
      in if marker_count = 0 then template
         else
           let fixed_text_length = int (length (str_replace template item_name_marker []));
               item_name_length = max ((max_length - fixed_text_length) div int marker_count) 0
           in str_replace template item_name_marker (take (nat item_name_length) item_name))"

section \<open>Which rules are accepted\<close>

definition optional_non_negative :: "int option \<Rightarrow> bool" where
  "optional_non_negative v \<longleftrightarrow> (\<forall>n \<in> set_option v. 0 \<le> n)"

definition timing_ok :: "target_kind \<Rightarrow> rule_row \<Rightarrow> bool" where
  "timing_ok k r \<longleftrightarrow>
     (if k = WARRANTY_RECEIPT
      then rl_day_offset r \<noteq> None \<and> rl_first_delay_days r = None \<and> rl_repeat_interval_days r = None \<and> rl_lookback_days r = None
      else rl_repeat_interval_days r \<noteq> None \<and> rl_requires_marketing_consent r)"

definition rule_accepted :: "rule_row \<Rightarrow> bool" where
  "rule_accepted r \<longleftrightarrow>
     plain_text 100 (rl_campaign_key r) \<and> optional_non_negative (rl_day_offset r) \<and>
     optional_non_negative (rl_first_delay_days r) \<and> optional_non_negative (rl_repeat_interval_days r) \<and>
     optional_non_negative (rl_lookback_days r) \<and> plain_text 100 (rl_title_template r) \<and>
     plain_text 255 (rl_body_template r) \<and> (\<exists>k. target_kind_of (rl_target_kind r) = Some k \<and> timing_ok k r)"

definition rule_of :: "target_kind \<Rightarrow> rule_row \<Rightarrow> schedule_rule" where
  "rule_of k r =
     \<lparr>sr_campaign_key = rl_campaign_key r, sr_enabled = rl_enabled r, sr_target_kind = k,
      sr_day_offset = rl_day_offset r, sr_first_delay_days = rl_first_delay_days r,
      sr_repeat_interval_days = rl_repeat_interval_days r, sr_lookback_days = rl_lookback_days r,
      sr_send_time_local = rl_send_time_local r, sr_requires_marketing_consent = rl_requires_marketing_consent r,
      sr_title_template = rl_title_template r, sr_body_template = rl_body_template r\<rparr>"

definition rule_details :: "rule_row \<Rightarrow> error_detail list" where
  "rule_details r =
     failed_details (validate_campaign_key (rl_campaign_key r)) @
     failed_details (validate_optional_non_negative ''dayOffset'' (rl_day_offset r)) @
     failed_details (validate_optional_non_negative ''firstDelayDays'' (rl_first_delay_days r)) @
     failed_details (validate_optional_non_negative ''repeatIntervalDays'' (rl_repeat_interval_days r)) @
     failed_details (validate_optional_non_negative ''lookbackDays'' (rl_lookback_days r)) @
     failed_details (validate_text ''titleTemplate'' (rl_title_template r) 100 ''title_template_invalid'') @
     failed_details (validate_text ''bodyTemplate'' (rl_body_template r) 255 ''body_template_invalid'') @
     failed_details (read_target_kind (rl_target_kind r))"

lemma rule_checks_validate [simp]:
  "validates (validate_text field v n m)" "validates (validate_campaign_key v)"
  "validates (validate_optional_non_negative field d)" "validates (read_target_kind s)"
  by (simp_all add: validate_text_def validate_campaign_key_def validate_optional_non_negative_def read_target_kind_def
      split: option.split)

lemma rule_details_Nil:
  "rule_details r = [] \<longleftrightarrow>
     plain_text 100 (rl_campaign_key r) \<and> optional_non_negative (rl_day_offset r) \<and>
     optional_non_negative (rl_first_delay_days r) \<and> optional_non_negative (rl_repeat_interval_days r) \<and>
     optional_non_negative (rl_lookback_days r) \<and> plain_text 100 (rl_title_template r) \<and>
     plain_text 255 (rl_body_template r) \<and> target_kind_of (rl_target_kind r) \<noteq> None"
proof -
  have "failed_details (validate_text f v n m) = [] \<longleftrightarrow> plain_text n v" for f v n m
    by (auto simp: validate_text_def plain_text_def)
  moreover have "failed_details (validate_optional_non_negative f d) = [] \<longleftrightarrow> optional_non_negative d" for f d
    by (cases d) (auto simp: validate_optional_non_negative_def optional_non_negative_def)
  moreover have "failed_details (read_target_kind s) = [] \<longleftrightarrow> target_kind_of s \<noteq> None" for s
    by (simp add: read_target_kind_def split: option.split)
  ultimately show ?thesis by (simp add: rule_details_def validate_campaign_key_def)
qed

lemma validate_timing_rule_iff:
  "validate_timing_rule k a b c d = Inr () \<longleftrightarrow>
     (if k = WARRANTY_RECEIPT then a \<noteq> None \<and> b = None \<and> c = None \<and> d = None else c \<noteq> None)"
  by (cases k) (simp_all add: timing_details_def Let_def)

lemma timing_rule_details:
  "validate_timing_rule k a b c d = Inr () \<or> (\<exists>ds. validate_timing_rule k a b c d = Inl (ValidationError ds) \<and> ds \<noteq> [])"
  by (cases k) (simp_all add: Let_def)

lemma create_schedule_rule_eq:
  "create_schedule_rule r =
     (if rule_details r \<noteq> [] then Inl (ValidationError (rule_details r))
      else case target_kind_of (rl_target_kind r) of
             None \<Rightarrow> Inl PyTypeError
           | Some k \<Rightarrow>
               bindE (validate_timing_rule k (rl_day_offset r) (rl_first_delay_days r) (rl_repeat_interval_days r)
                        (rl_lookback_days r)) (\<lambda>_.
               bindE (validate_engagement_consent k (rl_requires_marketing_consent r)) (\<lambda>_. Inr (rule_of k r))))"
proof (cases "rule_details r = []")
  case False
  then show ?thesis
    unfolding create_schedule_rule_def
    by (simp only: bindA_collect rule_checks_validate bindA_raise_if_any append_Nil append_assoc
        rule_details_def [symmetric] if_False if_True fst_conv simp_thms)
next
  case True
  have lift: "fst (bindA (liftE e) f []) = bindE e (\<lambda>x. fst (f x []))" for e and f :: "unit \<Rightarrow> (notification, exn, schedule_rule) action"
    by (cases e) (simp_all add: bindA_def liftE_def)
  show ?thesis
    using True unfolding create_schedule_rule_def
    by (simp only: bindA_collect rule_checks_validate bindA_raise_if_any append_Nil append_assoc
        rule_details_def [symmetric] if_True simp_thms lift)
      (simp add: read_target_kind_def lift returnA_def raiseA_def rule_of_def split: option.split)
qed

lemma create_schedule_rule_Inr:
  "create_schedule_rule r = Inr rule \<longleftrightarrow>
     rule_accepted r \<and> (\<exists>k. target_kind_of (rl_target_kind r) = Some k \<and> rule = rule_of k r)"
proof -
  have consent: "validate_engagement_consent k c = Inr () \<longleftrightarrow> k = WARRANTY_RECEIPT \<or> c" for k c
    by (cases k) (simp_all add: validate_engagement_consent_def engagement_target_kinds_def)
  show ?thesis
    using rule_details_Nil [of r]
    by (auto simp: create_schedule_rule_eq rule_accepted_def timing_ok_def bindE_Inr validate_timing_rule_iff consent
        split: option.splits if_splits)
qed

lemma create_schedule_rule_Inl:
  assumes "create_schedule_rule r = Inl e"
  shows "\<exists>ds. e = ValidationError ds \<and> ds \<noteq> []"
proof -
  have consent: "validate_engagement_consent k c = Inr () \<or> (\<exists>d. validate_engagement_consent k c = Inl (ValidationError [d]))" for k c
    by (simp add: validate_engagement_consent_def)
  show ?thesis
  proof (cases "rule_details r = []")
    case True
    then obtain k where k: "target_kind_of (rl_target_kind r) = Some k" by (auto simp: rule_details_Nil)
    then show ?thesis
      using assms True consent [of k "rl_requires_marketing_consent r"]
        timing_rule_details [of k "rl_day_offset r" "rl_first_delay_days r" "rl_repeat_interval_days r" "rl_lookback_days r"]
      by (auto simp: create_schedule_rule_eq bindE_Inl)
  next
    case False
    with assms show ?thesis by (auto simp: create_schedule_rule_eq)
  qed
qed

section \<open>When a rule is due\<close>

lemma resolve_due_iff:
  assumes "\<forall>d \<in> set_option target_date. valid_date d" and "1 \<le> seoul_day t" "seoul_day t \<le> 3652059"
    and "0 \<le> sr_send_time_local rule" and "sr_send_time_local rule < day_us"
  shows "resolve_due_notification_rule rule (Aware t) target_date =
    (let d = \<lparr>du_rule = rule, du_target_date = (case target_date of Some d \<Rightarrow> d | None \<Rightarrow> seoul_date t)\<rparr>
     in Inr (if sr_enabled rule \<and> observation_cutoff_for d \<le> t then Some d else None))"
proof -
  let ?d = "case target_date of Some d \<Rightarrow> d | None \<Rightarrow> seoul_date t"
  let ?n = "sr_send_time_local rule"
  have today: "valid_date (seoul_date t)" "date_ordinal (seoul_date t) = seoul_day t"
    by (rule seoul_date_valid [OF assms(2,3)])+
  have d: "valid_date ?d" using assms(1) today by (cases target_date) auto
  have less: "seoul_date t < ?d \<longleftrightarrow> seoul_day t < date_ordinal ?d"
    and eq: "?d = seoul_date t \<longleftrightarrow> date_ordinal ?d = seoul_day t"
    using d today date_ordinal_le_iff date_ordinal_inj by (metis not_le, metis)
  have "t + seoul_offset_us = seoul_day t * day_us + seoul_time t"
    by (simp add: seoul_day_def seoul_time_def)
  then have now: "seoul_datetime ?d ?n \<le> t \<longleftrightarrow> date_ordinal ?d * day_us + ?n \<le> seoul_day t * day_us + seoul_time t"
    unfolding seoul_datetime_def by linarith
  have "0 \<le> seoul_time t" "seoul_time t < day_us" by (simp_all add: seoul_time_def day_us_def)
  then have "seoul_datetime ?d ?n \<le> t \<longleftrightarrow> date_ordinal ?d < seoul_day t \<or> (date_ordinal ?d = seoul_day t \<and> ?n \<le> seoul_time t)"
    unfolding now using assms(4,5) unfolding day_us_def by linarith
  then show ?thesis
    by (auto simp: resolve_due_notification_rule_def Let_def observation_cutoff_for_def less eq)
qed

text \<open>A cadence selects the days \<open>first, first + interval, first + 2 * interval, ...\<close>.\<close>

lemma matches_join_cadence_iff:
  assumes "optional_non_negative (sr_repeat_interval_days rule)"
  shows "matches_join_cadence rule days \<longleftrightarrow>
    (\<exists>k::nat. days = first_due_day rule + int k * (case sr_repeat_interval_days rule of None \<Rightarrow> 0 | Some i \<Rightarrow> i))"
proof -
  have "(\<exists>k::nat. days = a + int k * i) \<longleftrightarrow> a \<le> days \<and> (days - a) mod i = 0" if "0 < i" for a i
  proof
    assume "a \<le> days \<and> (days - a) mod i = 0"
    then obtain q where q: "days - a = i * q" by (auto simp: mod_eq_0_iff_dvd)
    with \<open>a \<le> days \<and> _\<close> that have "0 \<le> q" using zero_le_mult_iff [of i q] by auto
    then show "\<exists>k::nat. days = a + int k * i" using q by (intro exI [of _ "nat q"]) (simp add: mult.commute)
  next
    assume "\<exists>k::nat. days = a + int k * i"
    then show "a \<le> days \<and> (days - a) mod i = 0" using that by auto
  qed
  note cadence = this
  show ?thesis
  proof (cases "sr_repeat_interval_days rule")
    case None
    then show ?thesis by (auto simp: matches_join_cadence_def Let_def)
  next
    case (Some i)
    then have "i = 0 \<or> 0 < i" using assms by (auto simp: optional_non_negative_def)
    then show ?thesis using Some cadence [of i "first_due_day rule"] by (auto simp: matches_join_cadence_def Let_def mult_less_0_iff)
  qed
qed

section \<open>Rendering\<close>

lemma length_replace_text:
  "length (replace_text old new n s) = length (replace_text old [] n s) + count_text old n s * length new"
  by (induction old n s rule: count_text.induct) simp_all

lemma length_removed:
  "length s = length (replace_text old [] n s) + count_text old n s * length old"
proof (induction old n s rule: count_text.induct)
  case (3 old n c s)
  show ?case
  proof (cases "take (length old) (c # s) = old")
    case True
    then have "length old \<le> length (c # s)" by (metis length_take min.cobounded1)
    then have cut: "length (c # s) = length old + length (drop (length old) (c # s))" by (simp only: length_drop)
    show ?thesis
      unfolding cut "3.IH"(1) [OF True] using True by (simp del: take_Suc_Cons drop_Suc_Cons)
  next
    case False
    then show ?thesis using "3.IH"(2) [OF False] by (simp del: take_Suc_Cons drop_Suc_Cons)
  qed
qed simp_all

lemma render_length:
  "length (str_replace t m new) = length (str_replace t m []) + str_count t m * length new"
  "length (str_replace t m []) \<le> length t"
  using length_replace_text [of m new "length t" t] length_removed [of t m "length t"]
  by (simp_all add: str_replace_def str_count_def)

lemma render_props:
  assumes "int (length template) \<le> max_length" and "str_count template item_name_marker \<noteq> 0"
  defines "fixed \<equiv> length (str_replace template item_name_marker [])"
    and "k \<equiv> nat ((max_length - int (length (str_replace template item_name_marker []))) div int (str_count template item_name_marker))"
  shows "render_notification_text template item max_length = str_replace template item_name_marker (take k item)"
    and "int (fixed + str_count template item_name_marker * k) \<le> max_length"
    and "max_length < int (fixed + str_count template item_name_marker * Suc k)"
proof -
  let ?n = "int (str_count template item_name_marker)" and ?d = "max_length - int fixed"
  have "0 \<le> ?d" using assms(1) render_length(2) [of template item_name_marker] unfolding fixed_def by linarith
  moreover have n: "0 < ?n" using assms(2) by simp
  ultimately have k: "int k = ?d div ?n" and "0 \<le> ?d div ?n"
    unfolding k_def fixed_def by (simp_all add: pos_imp_zdiv_nonneg_iff)
  then show "render_notification_text template item max_length = str_replace template item_name_marker (take k item)"
    using assms(2) by (simp add: render_notification_text_def Let_def k_def fixed_def max_def)
  have "?d = ?n * int k + ?d mod ?n" unfolding k by simp
  moreover have "0 \<le> ?d mod ?n" "?d mod ?n < ?n" using n by simp_all
  ultimately show "int (fixed + str_count template item_name_marker * k) \<le> max_length"
    "max_length < int (fixed + str_count template item_name_marker * Suc k)"
    by (simp_all add: distrib_left)
qed

lemma render_cut:
  assumes "int (length template) \<le> max_length"
  obtains k where "render_notification_text template item max_length = str_replace template item_name_marker (take k item)"
    and "int (length (render_notification_text template item max_length)) \<le> max_length"
    and "str_count template item_name_marker \<noteq> 0 \<Longrightarrow> k < length item \<Longrightarrow>
      max_length < int (length (str_replace template item_name_marker (take (Suc k) item)))"
proof (cases "str_count template item_name_marker = 0")
  case True
  have same: "str_replace template item_name_marker r = template" for r
  proof -
    have "replace_text m r n t = t" if "count_text m n t = 0" for m n t
      using that by (induction m n t rule: count_text.induct) (auto split: if_splits)
    then show ?thesis using True by (simp add: str_replace_def str_count_def)
  qed
  then show thesis
    using that [of 0] True assms by (simp add: render_notification_text_def)
next
  case False
  obtain k where k: "k = nat ((max_length - int (length (str_replace template item_name_marker []))) div int (str_count template item_name_marker))"
    by simp
  let ?n = "str_count template item_name_marker" and ?fixed = "length (str_replace template item_name_marker [])"
  note props = render_props [OF assms False, folded k]
  note len = render_length(1) [of template item_name_marker]
  show thesis
  proof (rule that [of k])
    have "?n * length (take k item) \<le> ?n * k" by simp
    then show "int (length (render_notification_text template item max_length)) \<le> max_length"
      unfolding props(1) len [of "take k item"] using props(2) by linarith
    show "max_length < int (length (str_replace template item_name_marker (take (Suc k) item)))" if "k < length item"
    proof -
      have cut: "length (take (Suc k) item) = Suc k" using that by simp
      show ?thesis using props(3) unfolding len [of "take (Suc k) item"] cut .
    qed
  qed (rule props(1))
qed

text \<open>C36. A template within the length of its column is rendered within it, whatever the item name: the
  marker is replaced by a prefix of the name, and a longer prefix would not have fitted.\<close>

theorem rendered_text_fits:
  assumes "int (length template) \<le> max_length"
  shows "\<exists>k. render_notification_text template item max_length = str_replace template item_name_marker (take k item) \<and>
    int (length (render_notification_text template item max_length)) \<le> max_length \<and>
    (str_count template item_name_marker = 0 \<or> length item \<le> k \<or>
     max_length < int (length (str_replace template item_name_marker (take (Suc k) item))))"
proof -
  obtain k where "render_notification_text template item max_length = str_replace template item_name_marker (take k item)"
    and "int (length (render_notification_text template item max_length)) \<le> max_length"
    and "str_count template item_name_marker \<noteq> 0 \<Longrightarrow> k < length item \<Longrightarrow>
      max_length < int (length (str_replace template item_name_marker (take (Suc k) item)))"
    using render_cut [OF assms, of item] by blast
  then show ?thesis by (intro exI [of _ k]) linarith
qed

theorem rendered_text_fits_witness:
  "length (render_notification_text (item_name_marker @ [33] @ item_name_marker) (replicate 9 65) 12) \<le> 12"
  using rendered_text_fits [of "item_name_marker @ [33] @ item_name_marker" 12 "replicate 9 65"]
  by (auto simp: item_name_marker_def)

text \<open>A rule is due for a date exactly when it is enabled and the instant of its send time on that date,
  Seoul time, has passed; without an explicit date that date is today.\<close>

theorem rule_due_exactly_after_cutoff:
  assumes "\<forall>d \<in> set_option target_date. valid_date d" and "1 \<le> seoul_day t" and "seoul_day t \<le> 3652059"
    and "0 \<le> sr_send_time_local rule" and "sr_send_time_local rule < day_us"
  shows "resolve_due_notification_rule rule (Aware t) target_date =
    (let d = \<lparr>du_rule = rule, du_target_date = (case target_date of Some d \<Rightarrow> d | None \<Rightarrow> seoul_date t)\<rparr>
     in Inr (if sr_enabled rule \<and> observation_cutoff_for d \<le> t then Some d else None))"
  by (rule resolve_due_iff [OF assms])

definition sample_rule :: schedule_rule where
  "sample_rule = \<lparr>sr_campaign_key = ascii ''warranty_d30'', sr_enabled = True, sr_target_kind = WARRANTY_RECEIPT,
     sr_day_offset = Some 30, sr_first_delay_days = None, sr_repeat_interval_days = None, sr_lookback_days = None,
     sr_send_time_local = 36000 * second_us, sr_requires_marketing_consent = False,
     sr_title_template = item_name_marker, sr_body_template = ascii ''30 days left''\<rparr>"

theorem rule_due_exactly_after_cutoff_witness:
  "resolve_due_notification_rule sample_rule (Aware (739000 * day_us)) None = Inr None \<and>
   resolve_due_notification_rule sample_rule (Aware (739000 * day_us + 3600 * second_us)) None =
     Inr (Some \<lparr>du_rule = sample_rule, du_target_date = date_of_ordinal 739000\<rparr>)"
  using rule_due_exactly_after_cutoff [of None "739000 * day_us" sample_rule]
    rule_due_exactly_after_cutoff [of None "739000 * day_us + 3600 * second_us" sample_rule]
    date_of_ordinal_valid [of 739000]
  by (simp add: sample_rule_def seoul_day_def seoul_date_def seoul_offset_us_def day_us_def second_us_def
      observation_cutoff_for_def seoul_datetime_def Let_def)

end
