(* ===== verification/Notification_Store.thy ===== *)
theory Notification_Store
  imports Receipt_Store Notification_Schedule
begin

text \<open>
  The tables of the notifications module and the repositories over them:
  \<open>app/modules/notifications/infrastructure/persistence\<close> (\<open>orm.py\<close>, \<open>schedule_rule_orm.py\<close>,
  \<open>schedule_occurrence_orm.py\<close>, \<open>mapper.py\<close>, \<open>repository.py\<close>, \<open>schedule_rule_repository.py\<close>,
  \<open>schedule_occurrence_repository.py\<close>).
\<close>

section \<open>Tables\<close>

record notification_row =
  nr_id :: uuid
  nr_user_id :: uuid
  nr_category :: string
  nr_message_type :: string
  nr_kind :: ustr
  nr_title :: ustr
  nr_message :: ustr
  nr_resource_type :: "ustr option"
  nr_resource_id :: "uuid option"
  nr_metadata :: "(ustr \<times> ustr) list"
  nr_created_at :: datetime
  nr_read_at :: "datetime option"

record settings_row =
  st_user_id :: uuid
  st_push_enabled :: bool
  st_marketing_consent :: bool

record token_row =
  tk_id :: uuid
  tk_user_id :: uuid
  tk_token :: ustr
  tk_platform :: string
  tk_created_at :: datetime
  tk_updated_at :: datetime

record occurrence_row =
  oc_campaign_key :: ustr
  oc_target_type :: string
  oc_target_id :: uuid
  oc_occurrence_on :: date
  oc_notification_id :: "uuid option"

text \<open>\<open>rule_rows\<close> lists the rules in the order of \<open>ORDER BY campaign_key\<close>.\<close>

record notification_db = receipt_db +
  notification_rows :: "notification_row list"
  settings_rows :: "settings_row list"
  token_rows :: "token_row list"
  occurrence_rows :: "occurrence_row list"
  rule_rows :: "rule_row list"

definition occurrence_row_key :: "occurrence_row \<Rightarrow> ustr \<times> string \<times> uuid \<times> date" where
  "occurrence_row_key r = (oc_campaign_key r, oc_target_type r, oc_target_id r, oc_occurrence_on r)"

text \<open>\<open>btrim(s) = s\<close>: PostgreSQL strips spaces only.\<close>

definition btrimmed :: "ustr \<Rightarrow> bool" where
  "btrimmed s \<longleftrightarrow> s = [] \<or> (hd s \<noteq> 32 \<and> last s \<noteq> 32)"

definition fits :: "nat \<Rightarrow> ustr \<Rightarrow> bool" where
  "fits n s \<longleftrightarrow> length s \<le> n"

definition notification_row_checks :: "notification_row \<Rightarrow> (bool \<times> exn) list" where
  "notification_row_checks r =
     [(fits 50 (nr_kind r) \<and> fits 100 (nr_title r) \<and> fits 255 (nr_message r) \<and>
       (\<forall>t \<in> set_option (nr_resource_type r). fits 50 t), DataError),
      (nr_message_type r \<in> {''transactional'', ''marketing''}, IntegrityError ''ck_user_notifications_message_type_allowed''),
      (nr_category r \<in> {''product_management'', ''warranty'', ''benefit''}, IntegrityError ''ck_user_notifications_category_allowed''),
      ((nr_resource_type r = None) = (nr_resource_id r = None), IntegrityError ''ck_user_notifications_resource_pair'')]"

definition token_row_checks :: "token_row \<Rightarrow> (bool \<times> exn) list" where
  "token_row_checks r = [(fits 512 (tk_token r), DataError)]"

definition occurrence_row_checks :: "occurrence_row \<Rightarrow> (bool \<times> exn) list" where
  "occurrence_row_checks r =
     [(fits 100 (oc_campaign_key r), DataError),
      (oc_campaign_key r \<noteq> [] \<and> btrimmed (oc_campaign_key r), IntegrityError ''ck_notification_schedule_occurrences_campaign_key''),
      (oc_target_type r \<in> {''receipt'', ''user''}, IntegrityError ''ck_notification_schedule_occurrences_target_type'')]"

definition optional_int4 :: "int option \<Rightarrow> bool" where
  "optional_int4 v \<longleftrightarrow> (\<forall>n \<in> set_option v. int4 n)"

definition rule_row_checks :: "rule_row \<Rightarrow> (bool \<times> exn) list" where
  "rule_row_checks r =
     [(fits 100 (rl_campaign_key r) \<and> fits 100 (rl_title_template r) \<and> fits 255 (rl_body_template r) \<and>
       optional_int4 (rl_day_offset r) \<and> optional_int4 (rl_first_delay_days r) \<and>
       optional_int4 (rl_repeat_interval_days r) \<and> optional_int4 (rl_lookback_days r), DataError),
      (rl_campaign_key r \<noteq> [] \<and> btrimmed (rl_campaign_key r), IntegrityError ''ck_notification_schedule_rules_campaign_key''),
      (rl_target_kind r \<in> {''warranty_receipt'', ''engagement_unregistered_receipt'', ''engagement_inactive_receipt'',
         ''engagement_all_user''}, IntegrityError ''ck_notification_schedule_rules_target_kind''),
      (optional_non_negative (rl_day_offset r), IntegrityError ''ck_notification_schedule_rules_day_offset''),
      (optional_non_negative (rl_first_delay_days r), IntegrityError ''ck_notification_schedule_rules_first_delay_days''),
      (optional_non_negative (rl_repeat_interval_days r), IntegrityError ''ck_notification_schedule_rules_repeat_interval_days''),
      (optional_non_negative (rl_lookback_days r), IntegrityError ''ck_notification_schedule_rules_lookback_days''),
      (rl_target_kind r \<noteq> ''warranty_receipt'' \<or>
         (rl_day_offset r \<noteq> None \<and> rl_first_delay_days r = None \<and> rl_repeat_interval_days r = None \<and> rl_lookback_days r = None),
       IntegrityError ''ck_notification_schedule_rules_warranty_timing''),
      (rl_target_kind r = ''warranty_receipt'' \<or> rl_repeat_interval_days r \<noteq> None,
       IntegrityError ''ck_notification_schedule_rules_engagement_timing''),
      (rl_target_kind r = ''warranty_receipt'' \<or> rl_requires_marketing_consent r,
       IntegrityError ''ck_notification_schedule_rules_engagement_consent'')]"

definition notification_checks :: "'z notification_db_scheme \<Rightarrow> (bool \<times> exn) list" where
  "notification_checks db =
     concat (map notification_row_checks (notification_rows db)) @
     [(distinct (map nr_id (notification_rows db)), IntegrityError ''pk_user_notifications''),
      (distinct (map st_user_id (settings_rows db)), IntegrityError ''pk_notification_settings'')] @
     concat (map token_row_checks (token_rows db)) @
     [(distinct (map tk_id (token_rows db)), IntegrityError ''pk_user_push_tokens''),
      (distinct (map tk_token (token_rows db)), IntegrityError ''uq_user_push_tokens_token'')] @
     concat (map occurrence_row_checks (occurrence_rows db)) @
     [(distinct (map occurrence_row_key (occurrence_rows db)), IntegrityError ''pk_notification_schedule_occurrences'')] @
     concat (map rule_row_checks (rule_rows db)) @
     [(distinct (map rl_campaign_key (rule_rows db)), IntegrityError ''pk_notification_schedule_rules''),
      (distinct (map ob_event_id (outbox_events db)), IntegrityError ''uq_outbox_events_event_id'')]"

definition notification_violation :: "'z notification_db_scheme \<Rightarrow> exn option" where
  "notification_violation db = first_violation (notification_checks db)"

section \<open>Mapper\<close>

definition schedule_rule_to_domain :: "rule_row \<Rightarrow> exn + schedule_rule" where
  "schedule_rule_to_domain r = create_schedule_rule r"

definition schedule_rule_to_row :: "schedule_rule \<Rightarrow> rule_row" where
  "schedule_rule_to_row rule =
     \<lparr>rl_campaign_key = sr_campaign_key rule, rl_enabled = sr_enabled rule,
      rl_target_kind = target_kind_value (sr_target_kind rule), rl_day_offset = sr_day_offset rule,
      rl_first_delay_days = sr_first_delay_days rule, rl_repeat_interval_days = sr_repeat_interval_days rule,
      rl_lookback_days = sr_lookback_days rule, rl_send_time_local = sr_send_time_local rule,
      rl_requires_marketing_consent = sr_requires_marketing_consent rule,
      rl_title_template = sr_title_template rule, rl_body_template = sr_body_template rule\<rparr>"

definition notification_to_row :: "user_notification \<Rightarrow> notification_row" where
  "notification_to_row u =
     \<lparr>nr_id = un_id u, nr_user_id = un_user_id u, nr_category = category_value (un_category u),
      nr_message_type = message_type_value (un_message_type u), nr_kind = kind_text (un_kind u),
      nr_title = title_text (un_title u), nr_message = message_text (un_message u),
      nr_resource_type = map_option resource_text (un_resource_type u), nr_resource_id = un_resource_id u,
      nr_metadata = metadata_items (un_metadata u), nr_created_at = un_created_at u, nr_read_at = un_read_at u\<rparr>"

definition notification_to_domain :: "notification_row \<Rightarrow> exn + user_notification" where
  "notification_to_domain r =
     (case category_of (nr_category r) of
        None \<Rightarrow> Inl PyValueError
      | Some c \<Rightarrow>
          (case message_type_of (nr_message_type r) of
             None \<Rightarrow> Inl PyValueError
           | Some m \<Rightarrow>
               restore_user_notification 0
                 \<lparr>nf_notification_id = Some (nr_id r), nf_user_id = nr_user_id r, nf_message_type = m, nf_category = c,
                  nf_kind = nr_kind r, nf_title = nr_title r, nf_message = nr_message r,
                  nf_resource_type = nr_resource_type r, nf_resource_id = nr_resource_id r,
                  nf_metadata = Some (nr_metadata r), nf_created_at = nr_created_at r, nf_read_at = nr_read_at r\<rparr>))"

definition settings_to_domain :: "settings_row \<Rightarrow> notification_settings" where
  "settings_to_domain r =
     \<lparr>ns_user_id = st_user_id r, ns_push_enabled = st_push_enabled r, ns_marketing_consent = st_marketing_consent r\<rparr>"

definition push_token_to_domain :: "token_row \<Rightarrow> exn + user_push_token" where
  "push_token_to_domain r =
     (case platform_of (tk_platform r) of
        None \<Rightarrow> Inl PyValueError
      | Some p \<Rightarrow> create_push_token 0 (Some (tk_id r)) (tk_user_id r) (tk_token r) p (tk_created_at r) (tk_updated_at r))"

section \<open>Notifications\<close>

type_synonym ('z, 'a) notify_action = "('z notification_db_scheme session, exn, 'a) action"
type_synonym 'z rival = "'z notification_db_scheme \<Rightarrow> 'z notification_db_scheme"

definition flush_notifications :: "('z, unit) notify_action" where
  "flush_notifications = flush_session notification_violation"

definition repo_create_notification :: "user_notification \<Rightarrow> ('z, user_notification) notify_action" where
  "repo_create_notification u =
     bindA (write_session (\<lambda>db. db\<lparr>notification_rows := notification_rows db @ [notification_to_row u]\<rparr>)) (\<lambda>_.
     bindA flush_notifications (\<lambda>_.
     returnA u))"

text \<open>A marketing notification is visible while its user consents to marketing.\<close>

definition marketing_visible :: "uuid \<Rightarrow> 'z notification_db_scheme \<Rightarrow> bool" where
  "marketing_visible user_id db \<longleftrightarrow> exists_row (\<lambda>r. st_user_id r = user_id \<and> st_marketing_consent r) (settings_rows db)"

definition notification_visible :: "uuid \<Rightarrow> 'z notification_db_scheme \<Rightarrow> notification_row \<Rightarrow> bool" where
  "notification_visible user_id db r \<longleftrightarrow>
     nr_user_id r = user_id \<and> (nr_message_type r \<noteq> ''marketing'' \<or> marketing_visible user_id db)"

definition notification_key :: "notification_row \<Rightarrow> cursor" where
  "notification_key r = (nr_created_at r, nr_id r)"

definition notification_before :: "cursor \<Rightarrow> notification_row \<Rightarrow> bool" where
  "notification_before c r \<longleftrightarrow> nr_created_at r < fst c \<or> (nr_created_at r = fst c \<and> nr_id r < snd c)"

record notification_list =
  nl_notifications :: "user_notification list"
  nl_has_next :: bool
  nl_total_count :: nat

definition repo_list_by_user :: "uuid \<Rightarrow> cursor option \<Rightarrow> nat \<Rightarrow> 'z notification_db_scheme \<Rightarrow> exn + notification_list" where
  "repo_list_by_user user_id cursor limit db =
     (let visible = filter (notification_visible user_id db) (notification_rows db);
          page = (case cursor of None \<Rightarrow> visible | Some c \<Rightarrow> filter (notification_before c) visible);
          records = take (limit + 1) (rev (sort_key notification_key page))
      in bindE (traverse notification_to_domain (take limit records)) (\<lambda>ns.
         Inr \<lparr>nl_notifications = ns, nl_has_next = limit < length records, nl_total_count = length visible\<rparr>))"

definition find_record_by_id_for_user :: "uuid \<Rightarrow> uuid \<Rightarrow> 'z notification_db_scheme \<Rightarrow> notification_row option" where
  "find_record_by_id_for_user notification_id user_id db =
     find (\<lambda>r. nr_id r = notification_id \<and> notification_visible user_id db r) (notification_rows db)"

definition repo_find_by_id_for_user :: "uuid \<Rightarrow> uuid \<Rightarrow> ('z, user_notification option) notify_action" where
  "repo_find_by_id_for_user notification_id user_id =
     bindA (query_session (find_record_by_id_for_user notification_id user_id)) (\<lambda>record.
     case record of
       None \<Rightarrow> returnA None
     | Some r \<Rightarrow> bindA (liftE (notification_to_domain r)) (\<lambda>u. returnA (Some u)))"

definition set_read_at :: "uuid \<Rightarrow> datetime \<Rightarrow> 'z notification_db_scheme \<Rightarrow> 'z notification_db_scheme" where
  "set_read_at i t db =
     db\<lparr>notification_rows := update_rows (\<lambda>r. nr_id r = i) (\<lambda>r. r\<lparr>nr_read_at := Some t\<rparr>) (notification_rows db)\<rparr>"

definition repo_mark_read :: "'z rival \<Rightarrow> uuid \<Rightarrow> uuid \<Rightarrow> datetime \<Rightarrow> ('z, user_notification option) notify_action" where
  "repo_mark_read rival notification_id user_id read_at =
     bindA (interfere rival) (\<lambda>_.
     bindA (query_session (find_record_by_id_for_user notification_id user_id)) (\<lambda>record.
     case record of
       None \<Rightarrow> returnA None
     | Some r \<Rightarrow>
         bindA (write_session (set_read_at (nr_id r) read_at)) (\<lambda>_.
         bindA flush_notifications (\<lambda>_.
         bindA (liftE (notification_to_domain (r\<lparr>nr_read_at := Some read_at\<rparr>))) (\<lambda>u.
         returnA (Some u))))))"

definition repo_delete_by_id_for_user :: "'z rival \<Rightarrow> uuid \<Rightarrow> uuid \<Rightarrow> ('z, bool) notify_action" where
  "repo_delete_by_id_for_user rival notification_id user_id =
     bindA (interfere rival) (\<lambda>_.
     bindA (query_session (\<lambda>db. find (\<lambda>r. nr_id r = notification_id \<and> nr_user_id r = user_id) (notification_rows db))) (\<lambda>record.
     case record of
       None \<Rightarrow> returnA False
     | Some r \<Rightarrow>
         bindA (write_session (\<lambda>db. db\<lparr>notification_rows := filter (\<lambda>r'. nr_id r' \<noteq> nr_id r) (notification_rows db)\<rparr>)) (\<lambda>_.
         bindA flush_notifications (\<lambda>_.
         returnA True))))"

section \<open>Settings\<close>

definition find_settings :: "uuid \<Rightarrow> 'z notification_db_scheme \<Rightarrow> settings_row option" where
  "find_settings user_id db = find (\<lambda>r. st_user_id r = user_id) (settings_rows db)"

definition repo_get_settings :: "uuid \<Rightarrow> ('z, notification_settings) notify_action" where
  "repo_get_settings user_id =
     bindA (query_session (find_settings user_id)) (\<lambda>record.
     returnA (case record of None \<Rightarrow> default_settings user_id | Some r \<Rightarrow> settings_to_domain r))"

text \<open>
  The insert that does nothing on a conflict, then the locking select. Each waits for the
  holder of the row's lock; while it waits, others may commit changes of the settings (which
  are all that the rest of the transaction reads).
\<close>

type_synonym settings_rival = "settings_row list \<Rightarrow> settings_row list"

definition ensure_settings :: "uuid \<Rightarrow> settings_row list \<Rightarrow> settings_row list" where
  "ensure_settings user_id rows =
     (if exists_row (\<lambda>r. st_user_id r = user_id) rows then rows
      else rows @ [\<lparr>st_user_id = user_id, st_push_enabled = True, st_marketing_consent = False\<rparr>])"

definition map_settings :: "settings_rival \<Rightarrow> 'z rival" where
  "map_settings f db = db\<lparr>settings_rows := f (settings_rows db)\<rparr>"

definition repo_get_settings_for_update ::
    "settings_rival \<Rightarrow> settings_rival \<Rightarrow> uuid \<Rightarrow> ('z, notification_settings) notify_action" where
  "repo_get_settings_for_update rival_insert rival_lock user_id =
     bindA (interfere (map_settings rival_insert)) (\<lambda>_.
     bindA (write_session (map_settings (ensure_settings user_id))) (\<lambda>_.
     bindA flush_notifications (\<lambda>_.
     bindA (interfere (map_settings rival_lock)) (\<lambda>_.
     bindA (query_session (find_settings user_id)) (\<lambda>record.
     case record of
       None \<Rightarrow> raiseA PyRuntimeError
     | Some r \<Rightarrow> returnA (settings_to_domain r))))))"

definition put_settings :: "uuid \<Rightarrow> bool option \<Rightarrow> bool option \<Rightarrow> settings_row list \<Rightarrow> settings_row list" where
  "put_settings user_id push_enabled marketing_consent rows =
     (if exists_row (\<lambda>r. st_user_id r = user_id) rows
      then update_rows (\<lambda>r. st_user_id r = user_id)
             (\<lambda>r. r\<lparr>st_push_enabled := (case push_enabled of Some b \<Rightarrow> b | None \<Rightarrow> st_push_enabled r),
                    st_marketing_consent := (case marketing_consent of Some b \<Rightarrow> b | None \<Rightarrow> st_marketing_consent r)\<rparr>) rows
      else rows @ [\<lparr>st_user_id = user_id, st_push_enabled = (case push_enabled of Some b \<Rightarrow> b | None \<Rightarrow> True),
                    st_marketing_consent = (case marketing_consent of Some b \<Rightarrow> b | None \<Rightarrow> False)\<rparr>])"

definition repo_update_settings ::
    "settings_rival \<Rightarrow> uuid \<Rightarrow> bool option \<Rightarrow> bool option \<Rightarrow> ('z, notification_settings) notify_action" where
  "repo_update_settings rival user_id push_enabled marketing_consent =
     bindA (if push_enabled \<noteq> None \<or> marketing_consent \<noteq> None
            then bindA (interfere (map_settings rival)) (\<lambda>_.
                 write_session (map_settings (put_settings user_id push_enabled marketing_consent)))
            else returnA ()) (\<lambda>_.
     bindA flush_notifications (\<lambda>_.
     bindA (query_session (find_settings user_id)) (\<lambda>record.
     returnA (case record of None \<Rightarrow> default_settings user_id | Some r \<Rightarrow> settings_to_domain r))))"

section \<open>Push tokens\<close>

definition put_token :: "uuid \<Rightarrow> datetime \<Rightarrow> uuid \<Rightarrow> ustr \<Rightarrow> device_platform \<Rightarrow> token_row list \<Rightarrow> token_row list" where
  "put_token fresh db_now user_id token platform rows =
     (if exists_row (\<lambda>r. tk_token r = token) rows
      then update_rows (\<lambda>r. tk_token r = token)
             (\<lambda>r. r\<lparr>tk_user_id := user_id, tk_platform := platform_value platform, tk_updated_at := db_now\<rparr>) rows
      else rows @ [\<lparr>tk_id = fresh, tk_user_id = user_id, tk_token = token, tk_platform = platform_value platform,
                    tk_created_at = db_now, tk_updated_at = db_now\<rparr>])"

definition map_tokens :: "(token_row list \<Rightarrow> token_row list) \<Rightarrow> 'z rival" where
  "map_tokens f db = db\<lparr>token_rows := f (token_rows db)\<rparr>"

definition repo_register_token ::
    "'z rival \<Rightarrow> uuid \<Rightarrow> datetime \<Rightarrow> uuid \<Rightarrow> ustr \<Rightarrow> device_platform \<Rightarrow> ('z, user_push_token) notify_action" where
  "repo_register_token rival fresh db_now user_id token platform =
     bindA (interfere rival) (\<lambda>_.
     bindA (write_session (map_tokens (put_token fresh db_now user_id token platform))) (\<lambda>_.
     bindA flush_notifications (\<lambda>_.
     bindA (query_session (\<lambda>db. find (\<lambda>r. tk_token r = token) (token_rows db))) (\<lambda>record.
     case record of
       None \<Rightarrow> raiseA PyRuntimeError
     | Some r \<Rightarrow> liftE (push_token_to_domain r)))))"

definition delete_tokens :: "(token_row \<Rightarrow> bool) \<Rightarrow> ('z, unit) notify_action" where
  "delete_tokens p = bindA (write_session (map_tokens (filter (\<lambda>r. \<not> p r)))) (\<lambda>_. flush_notifications)"

definition repo_unregister_token :: "uuid \<Rightarrow> ustr \<Rightarrow> ('z, unit) notify_action" where
  "repo_unregister_token user_id token = delete_tokens (\<lambda>r. tk_user_id r = user_id \<and> tk_token r = token)"

definition repo_list_tokens :: "uuid \<Rightarrow> ('z, user_push_token list) notify_action" where
  "repo_list_tokens user_id =
     bindA (query_session (\<lambda>db. sort_key (\<lambda>r. (tk_created_at r, tk_id r)) (filter (\<lambda>r. tk_user_id r = user_id) (token_rows db)))) (\<lambda>records.
     liftE (traverse push_token_to_domain records))"

definition repo_delete_by_tokens :: "ustr list \<Rightarrow> ('z, unit) notify_action" where
  "repo_delete_by_tokens tokens =
     (if tokens = [] then returnA () else delete_tokens (\<lambda>r. tk_token r \<in> set tokens))"

definition repo_delete_tokens_of_user :: "uuid \<Rightarrow> ('z, unit) notify_action" where
  "repo_delete_tokens_of_user user_id = delete_tokens (\<lambda>r. tk_user_id r = user_id)"

definition repo_delete_stale :: "datetime \<Rightarrow> ('z, nat) notify_action" where
  "repo_delete_stale older_than =
     bindA (query_session (\<lambda>db. length (filter (\<lambda>r. tk_updated_at r < older_than) (token_rows db)))) (\<lambda>n.
     bindA (delete_tokens (\<lambda>r. tk_updated_at r < older_than)) (\<lambda>_.
     returnA n))"

section \<open>Rules and occurrences\<close>

definition repo_list_rules :: "('z, schedule_rule list) notify_action" where
  "repo_list_rules =
     bindA (query_session rule_rows) (\<lambda>records. liftE (traverse schedule_rule_to_domain records))"

definition occurrence_key_of :: "occurrence_key \<Rightarrow> ustr \<times> string \<times> uuid \<times> date" where
  "occurrence_key_of k =
     (ok_campaign_key k, occurrence_target_value (ok_target_type k), ok_target_id k, ok_occurrence_on k)"

definition occurrence_taken :: "occurrence_key \<Rightarrow> 'z notification_db_scheme \<Rightarrow> bool" where
  "occurrence_taken k db \<longleftrightarrow> exists_row (\<lambda>r. occurrence_row_key r = occurrence_key_of k) (occurrence_rows db)"

definition add_occurrence :: "occurrence_key \<Rightarrow> 'z rival" where
  "add_occurrence k db = db\<lparr>occurrence_rows := occurrence_rows db @
     [\<lparr>oc_campaign_key = ok_campaign_key k, oc_target_type = occurrence_target_value (ok_target_type k),
       oc_target_id = ok_target_id k, oc_occurrence_on = ok_occurrence_on k, oc_notification_id = None\<rparr>]\<rparr>"

text \<open>The insert waits for a transaction that holds the same key, and sees what it committed.\<close>

definition repo_reserve :: "'z rival \<Rightarrow> occurrence_key \<Rightarrow> ('z, bool) notify_action" where
  "repo_reserve rival k =
     bindA (interfere rival) (\<lambda>_.
     bindA (query_session (occurrence_taken k)) (\<lambda>taken.
     bindA (if taken then returnA () else write_session (add_occurrence k)) (\<lambda>_.
     bindA flush_notifications (\<lambda>_.
     returnA (\<not> taken)))))"

definition bind_occurrence :: "occurrence_key \<Rightarrow> uuid \<Rightarrow> 'z rival" where
  "bind_occurrence k i db = db\<lparr>occurrence_rows := update_rows (\<lambda>r. occurrence_row_key r = occurrence_key_of k)
     (\<lambda>r. r\<lparr>oc_notification_id := Some i\<rparr>) (occurrence_rows db)\<rparr>"

definition repo_bind_notification :: "occurrence_key \<Rightarrow> uuid \<Rightarrow> ('z, unit) notify_action" where
  "repo_bind_notification k i = bindA (write_session (bind_occurrence k i)) (\<lambda>_. flush_notifications)"

section \<open>Rows and domain values\<close>

lemma plain_text_btrimmed: "plain_text n v \<Longrightarrow> v \<noteq> [] \<and> btrimmed v \<and> fits n v"
proof -
  have "is_space 32" by (simp add: is_space_def)
  then show "plain_text n v \<Longrightarrow> v \<noteq> [] \<and> btrimmed v \<and> fits n v"
    using strip_eq_iff [of v] unfolding plain_text_def btrimmed_def fits_def by metis
qed

lemma resource_texts [simp]: "map_option resource_text (map_option ResourceType t) = t"
  by (cases t) simp_all

text \<open>A stored notification is restored as it was, without its events.\<close>

lemma notification_row_restored:
  assumes "fields_ok f"
  shows "notification_to_domain (notification_to_row (notification_of i f)) = Inr (notification_of i f)"
proof -
  have id: "assemble_notification 0 (f\<lparr>nf_notification_id := Some j, nf_metadata := Some m\<rparr>) =
      Inr (notification_of i (f\<lparr>nf_notification_id := Some j\<rparr>))"
    if "m = (case nf_metadata f of None \<Rightarrow> [] | Some m \<Rightarrow> m)" for j m
    using assms that by (simp add: assemble_notification_eq fields_ok_def notification_of_def)
  obtain j where j: "un_id (notification_of i f) = j" by simp
  have "notification_of i (f\<lparr>nf_notification_id := Some j\<rparr>) = notification_of i f"
    using j by (cases "nf_notification_id f") (simp_all add: notification_of_def)
  then show ?thesis
    using id [of _ j] j
    by (cases f) (simp add: notification_to_domain_def notification_to_row_def notification_of_def category.of_val_val
        msgtype.of_val_val restore_user_notification_def)
qed

lemma notification_row_ok:
  assumes "fields_ok f"
  shows "\<forall>(ok, e) \<in> set (notification_row_checks (notification_to_row ((notification_of i f)\<lparr>pending_events := es\<rparr>))). ok"
proof -
  have "message_type_value m \<in> {''transactional'', ''marketing''}" for m by (cases m) simp_all
  moreover have "category_value c \<in> {''product_management'', ''warranty'', ''benefit''}" for c by (cases c) simp_all
  ultimately show ?thesis
    using assms
    by (simp add: notification_row_checks_def notification_to_row_def notification_of_def fields_ok_def plain_text_def fits_def)
qed

definition rule_days_int4 :: "schedule_rule \<Rightarrow> bool" where
  "rule_days_int4 rule \<longleftrightarrow> optional_int4 (sr_day_offset rule) \<and> optional_int4 (sr_first_delay_days rule) \<and>
     optional_int4 (sr_repeat_interval_days rule) \<and> optional_int4 (sr_lookback_days rule)"

lemma rule_row_restored:
  assumes "create_schedule_rule r = Inr rule"
  shows "schedule_rule_to_domain (schedule_rule_to_row rule) = Inr rule"
proof -
  obtain k where k: "rule_accepted r" "target_kind_of (rl_target_kind r) = Some k" "rule = rule_of k r"
    using assms by (auto simp: create_schedule_rule_Inr)
  have "target_kind_value k = rl_target_kind r" using k(2) by (rule target.val_of_val)
  then have "schedule_rule_to_row rule = r" using k(3) by (simp add: schedule_rule_to_row_def rule_of_def)
  then show ?thesis using assms by (simp add: schedule_rule_to_domain_def)
qed

text \<open>A rule that the domain accepts is stored without violating a constraint of its table, as long as its
  days fit the integer columns, and is read back unchanged; every other input is refused with a
  non-empty \<open>ValidationError\<close>.\<close>

theorem schedule_rule_stored_and_restored:
  shows "(case create_schedule_rule r of
      Inr rule \<Rightarrow> rule_accepted r \<and> schedule_rule_to_domain (schedule_rule_to_row rule) = Inr rule \<and>
        (first_violation (rule_row_checks (schedule_rule_to_row rule)) = None \<longleftrightarrow> rule_days_int4 rule)
    | Inl e \<Rightarrow> \<not> rule_accepted r \<and> (\<exists>d ds. e = ValidationError (d # ds)))"
proof (cases "create_schedule_rule r")
  case (Inl e)
  then have "\<not> rule_accepted r"
    using create_schedule_rule_Inr [of r] by (auto simp: rule_accepted_def)
  then show ?thesis
    using Inl create_schedule_rule_Inl [OF Inl] by (auto simp: neq_Nil_conv)
next
  case (Inr rule)
  then obtain k where k: "rule_accepted r" "target_kind_of (rl_target_kind r) = Some k" "rule = rule_of k r"
    by (auto simp: create_schedule_rule_Inr)
  have kind: "target_kind_value k = rl_target_kind r" using k(2) by (rule target.val_of_val)
  then have row: "schedule_rule_to_row rule = r" using k(3) by (simp add: schedule_rule_to_row_def rule_of_def)
  have kinds: "rl_target_kind r \<in> {''warranty_receipt'', ''engagement_unregistered_receipt'', ''engagement_inactive_receipt'',
         ''engagement_all_user''}" "rl_target_kind r = ''warranty_receipt'' \<longleftrightarrow> k = WARRANTY_RECEIPT"
    using kind by (cases k; auto)+
  have "timing_ok k r" "plain_text 100 (rl_campaign_key r)" "plain_text 100 (rl_title_template r)"
    "plain_text 255 (rl_body_template r)" "optional_non_negative (rl_day_offset r)"
    "optional_non_negative (rl_first_delay_days r)" "optional_non_negative (rl_repeat_interval_days r)"
    "optional_non_negative (rl_lookback_days r)"
    using k(1,2) by (auto simp: rule_accepted_def)
  note facts = this plain_text_btrimmed [OF this(2)] plain_text_btrimmed [OF this(3)] plain_text_btrimmed [OF this(4)]
  have "(\<forall>(ok, e) \<in> set (rule_row_checks r). ok) \<longleftrightarrow> rule_days_int4 rule"
    using facts kinds k(3)
    by (auto simp: rule_row_checks_def timing_ok_def rule_days_int4_def rule_of_def split: if_splits)
  then show ?thesis
    using Inr k(1) rule_row_restored [OF Inr] by (simp add: first_violation_None row)
qed

end
