(* ===== verification/Notification_Scheduler.thy ===== *)
theory Notification_Scheduler
  imports Notification_Store
begin

text \<open>
  Creating notifications: \<open>app/modules/notifications/application/commands/create_notification\<close>, the
  notifications that fall due (\<open>application/due_notification.py\<close>,
  \<open>warranty_expiry_notifications.py\<close>, \<open>receipt_reminder_notifications.py\<close>) and the scheduler's
  use case (\<open>application/commands/create_due_notifications\<close>) with its loops over pages.
\<close>

section \<open>Creating a notification\<close>

text \<open>
  What a call takes from its surroundings: fresh ids, clocks, what others commit before the
  call takes its first lock, and how they change the settings while it waits for theirs.
\<close>

record 'db notify_env =
  ne_notification_id :: uuid
  ne_now :: datetime
  ne_event_id :: uuid
  ne_event_at :: datetime
  ne_rival :: "'db \<Rightarrow> 'db"
  ne_rival_insert :: settings_rival
  ne_rival_lock :: settings_rival

record create_command =
  cn_user_id :: uuid
  cn_message_type :: message_type
  cn_kind :: ustr
  cn_title :: ustr
  cn_message :: ustr
  cn_resource_type :: "ustr option"
  cn_resource_id :: "uuid option"
  cn_metadata :: "(ustr \<times> ustr) list"
  cn_category :: notification_category

record notification_result =
  nres_notification_id :: uuid
  nres_message_type :: message_type
  nres_category :: notification_category
  nres_kind :: ustr
  nres_title :: ustr
  nres_message :: ustr
  nres_resource_type :: "ustr option"
  nres_resource_id :: "uuid option"
  nres_metadata :: "(ustr \<times> ustr) list"
  nres_created_at :: datetime
  nres_read_at :: "datetime option"

datatype creation_result = CreatedResult notification_result | SkippedMarketingConsent

definition result_from_notification :: "user_notification \<Rightarrow> notification_result" where
  "result_from_notification u =
     \<lparr>nres_notification_id = un_id u, nres_message_type = un_message_type u, nres_category = un_category u,
      nres_kind = kind_text (un_kind u), nres_title = title_text (un_title u), nres_message = message_text (un_message u),
      nres_resource_type = map_option resource_text (un_resource_type u), nres_resource_id = un_resource_id u,
      nres_metadata = metadata_items (un_metadata u), nres_created_at = un_created_at u, nres_read_at = un_read_at u\<rparr>"

type_synonym 'z publisher = "domain_event list \<Rightarrow> ('z, unit) notify_action"

definition outbox_publisher :: "'z publisher" where
  "outbox_publisher events = publish build_notification_event_registry events"

definition no_op_publisher :: "'z publisher" where
  "no_op_publisher events = returnA ()"

definition command_fields :: "datetime \<Rightarrow> create_command \<Rightarrow> notification_fields" where
  "command_fields now cmd =
     \<lparr>nf_notification_id = None, nf_user_id = cn_user_id cmd, nf_message_type = cn_message_type cmd,
      nf_category = cn_category cmd, nf_kind = cn_kind cmd, nf_title = cn_title cmd, nf_message = cn_message cmd,
      nf_resource_type = cn_resource_type cmd, nf_resource_id = cn_resource_id cmd,
      nf_metadata = Some (cn_metadata cmd), nf_created_at = now, nf_read_at = None\<rparr>"

definition new_notification :: "'db notify_env \<Rightarrow> create_command \<Rightarrow> exn + user_notification" where
  "new_notification env cmd =
     create_user_notification (ne_notification_id env) (ne_event_id env) (ne_event_at env) (command_fields (ne_now env) cmd)"

definition save_notification :: "'z publisher \<Rightarrow> user_notification \<Rightarrow> ('z, notification_result) notify_action" where
  "save_notification publisher u =
     bindA (repo_create_notification u) (\<lambda>saved.
     bindA (publisher (fst (pull_events saved))) (\<lambda>_.
     returnA (result_from_notification saved)))"

definition notification_create ::
    "'z publisher \<Rightarrow> 'z notification_db_scheme notify_env \<Rightarrow> create_command \<Rightarrow> ('z, creation_result) notify_action" where
  "notification_create publisher env cmd =
     bindA (liftE (new_notification env cmd)) (\<lambda>u.
     case cn_message_type cmd of
       TRANSACTIONAL \<Rightarrow> bindA (save_notification publisher u) (\<lambda>r. returnA (CreatedResult r))
     | MARKETING \<Rightarrow>
         bindA (repo_get_settings_for_update (ne_rival_insert env) (ne_rival_lock env) (cn_user_id cmd)) (\<lambda>settings.
         if \<not> ns_marketing_consent settings then returnA SkippedMarketingConsent
         else bindA (save_notification publisher u) (\<lambda>r. returnA (CreatedResult r))))"

definition notify_commit :: "('z, unit) notify_action" where
  "notify_commit = sqlalchemy_commit notification_violation"

text \<open>\<open>CreateNotificationCommandUseCase.execute\<close>.\<close>

definition create_notification_command ::
    "'z publisher \<Rightarrow> 'z notification_db_scheme notify_env \<Rightarrow> create_command \<Rightarrow> ('z, creation_result) notify_action" where
  "create_notification_command publisher env cmd =
     bindA (notification_create publisher env cmd) (\<lambda>result.
     case result of
       CreatedResult r \<Rightarrow> bindA notify_commit (\<lambda>_. returnA result)
     | SkippedMarketingConsent \<Rightarrow> bindA sqlalchemy_rollback (\<lambda>_. returnA result))"

section \<open>Notifications that fall due\<close>

record due_notification =
  dn_command :: create_command
  dn_occurrence :: occurrence_key

definition warranty_expiry_notification ::
    "due_rule \<Rightarrow> uuid \<Rightarrow> uuid \<Rightarrow> ustr \<Rightarrow> ustr option \<Rightarrow> due_notification" where
  "warranty_expiry_notification due user_id receipt_id item_name sub_category =
     (let rule = du_rule due; delivery = delivery_contract_for (sr_target_kind rule);
          metadata = (ascii ''productName'', item_name) #
                     (case sub_category of None \<Rightarrow> [] | Some s \<Rightarrow> [(ascii ''subCategory'', s)])
      in \<lparr>dn_command =
            \<lparr>cn_user_id = user_id, cn_message_type = dc_message_type delivery, cn_kind = ascii (dc_kind delivery),
             cn_title = render_notification_text (sr_title_template rule) item_name 100,
             cn_message = render_notification_text (sr_body_template rule) item_name 255,
             cn_resource_type = map_option ascii (dc_resource_type delivery), cn_resource_id = Some receipt_id,
             cn_metadata = metadata, cn_category = dc_category delivery\<rparr>,
          dn_occurrence =
            \<lparr>ok_campaign_key = sr_campaign_key rule, ok_target_type = target_type_for_kind (sr_target_kind rule),
             ok_target_id = receipt_id, ok_occurrence_on = du_target_date due\<rparr>\<rparr>)"

definition receipt_reminder_notification :: "due_rule \<Rightarrow> uuid \<Rightarrow> nat option \<Rightarrow> due_notification" where
  "receipt_reminder_notification due user_id receipt_count =
     (let rule = du_rule due; delivery = delivery_contract_for (sr_target_kind rule);
          metadata = (case receipt_count of None \<Rightarrow> [] | Some n \<Rightarrow> [(ascii ''receiptCount'', nat_text n)])
      in \<lparr>dn_command =
            \<lparr>cn_user_id = user_id, cn_message_type = dc_message_type delivery, cn_kind = ascii (dc_kind delivery),
             cn_title = sr_title_template rule, cn_message = sr_body_template rule,
             cn_resource_type = map_option ascii (dc_resource_type delivery), cn_resource_id = None,
             cn_metadata = metadata, cn_category = dc_category delivery\<rparr>,
          dn_occurrence =
            \<lparr>ok_campaign_key = sr_campaign_key rule, ok_target_type = target_type_for_kind (sr_target_kind rule),
             ok_target_id = user_id, ok_occurrence_on = du_target_date due\<rparr>\<rparr>)"

record due_command =
  dm_target_date :: "date option"
  dm_now :: py_datetime
  dm_campaign_key :: "ustr option"
  dm_dry_run :: bool
  dm_batch_size :: int

definition mk_due_command :: "date option \<Rightarrow> py_datetime \<Rightarrow> ustr option \<Rightarrow> bool \<Rightarrow> int \<Rightarrow> exn + due_command" where
  "mk_due_command target_date now campaign_key dry_run batch =
     (let details = (case now of Naive _ \<Rightarrow> [ErrorDetail ''now'' ''now_invalid''] | Aware _ \<Rightarrow> []) @
            (case campaign_key of
               None \<Rightarrow> []
             | Some k \<Rightarrow> if k = [] \<or> strip k \<noteq> k \<or> length k > 100
                         then [ErrorDetail ''campaignKey'' ''campaign_key_invalid''] else []) @
            (if batch < 1 then [ErrorDetail ''batchSize'' ''batch_size_invalid''] else [])
      in if details \<noteq> [] then Inl (ValidationError details)
         else Inr \<lparr>dm_target_date = target_date, dm_now = now, dm_campaign_key = campaign_key, dm_dry_run = dry_run,
                   dm_batch_size = batch\<rparr>)"

text \<open>
  The generators: \<open>async for\<close> runs its body on each notification as it is yielded, so that a
  page is fetched after the body has run on the notifications of the page before it.
\<close>

type_synonym ('z, 't) due_body = "due_notification \<Rightarrow> 't \<Rightarrow> ('z, 't) notify_action"

definition warranty_fetch ::
    "due_rule \<Rightarrow> int \<Rightarrow> datetime \<Rightarrow> int \<Rightarrow> uuid option \<Rightarrow>
     ('z, due_notification list \<times> (exn + uuid option)) notify_action" where
  "warranty_fetch due offset_days observed_before batch cursor =
     bindA (liftE (mk_expiring_query (du_target_date due) offset_days observed_before batch cursor)) (\<lambda>q.
     bindA (query_session (list_receipts_expiring_on q)) (\<lambda>answer.
     bindA (liftE answer) (\<lambda>page.
     bindA (query_session (get_existing_user_ids (map er_user_id (ep_receipts page)))) (\<lambda>existing.
     returnA
       (map (\<lambda>r. warranty_expiry_notification due (er_user_id r) (er_receipt_id r) (er_item_name r) (er_sub_category r))
          (filter (\<lambda>r. er_user_id r \<in> existing) (ep_receipts page)),
        if \<not> ep_has_next page then Inr None
        else (case ep_next_cursor_receipt_id page of None \<Rightarrow> Inl PyRuntimeError | Some c \<Rightarrow> Inr (Some c)))))))"

definition warranty_notifications ::
    "nat \<Rightarrow> due_rule \<Rightarrow> due_command \<Rightarrow> ('z, 't) due_body \<Rightarrow> 't \<Rightarrow> ('z, 't) notify_action" where
  "warranty_notifications fuel due cmd body t =
     (case sr_day_offset (du_rule due) of
        None \<Rightarrow> returnA t
      | Some offset_days \<Rightarrow>
          page_loop fuel (warranty_fetch due offset_days (observation_cutoff_for due) (dm_batch_size cmd)) body None t)"

definition activity_fetch ::
    "registration_fact list \<Rightarrow> datetime option \<Rightarrow> datetime \<Rightarrow> int \<Rightarrow> uuid option \<Rightarrow>
     ('z, receipt_activity list \<times> (exn + uuid option)) notify_action" where
  "activity_fetch facts recent_since observed_before batch cursor =
     bindA (liftE (mk_activity_query (map rf_user_id facts) batch recent_since observed_before cursor)) (\<lambda>q.
     bindA (query_session (get_receipt_activity_for_users q)) (\<lambda>page.
     returnA
       (ap_activities page,
        if \<not> ap_has_next page then Inr None
        else (case ap_next_cursor_user_id page of None \<Rightarrow> Inl PyRuntimeError | Some c \<Rightarrow> Inr (Some c)))))"

definition activities_for ::
    "nat \<Rightarrow> registration_fact list \<Rightarrow> datetime option \<Rightarrow> datetime \<Rightarrow> int \<Rightarrow>
     (receipt_activity \<Rightarrow> 't \<Rightarrow> ('z, 't) notify_action) \<Rightarrow> 't \<Rightarrow> ('z, 't) notify_action" where
  "activities_for fuel facts recent_since observed_before batch body t =
     (if facts = [] then returnA t
      else page_loop fuel (activity_fetch facts recent_since observed_before batch) body None t)"

definition notifications_for_facts ::
    "nat \<Rightarrow> due_rule \<Rightarrow> datetime \<Rightarrow> int \<Rightarrow> ('z, 't) due_body \<Rightarrow> registration_fact list \<Rightarrow> 't \<Rightarrow> ('z, 't) notify_action" where
  "notifications_for_facts fuel due observed_before batch body facts t =
     (let kind = sr_target_kind (du_rule due);
          on_activities = bindA (liftE (receipt_activity_since_for due)) (\<lambda>recent_since.
            activities_for fuel facts recent_since observed_before batch
              (\<lambda>a. if matches_receipt_activity kind (ra_receipt_count a)
                   then body (receipt_reminder_notification due (ra_user_id a) (Some (ra_receipt_count a)))
                   else returnA) t)
      in case kind of
           ENGAGEMENT_ALL_USER \<Rightarrow> for_each facts (\<lambda>f. body (receipt_reminder_notification due (rf_user_id f) None)) t
         | ENGAGEMENT_UNREGISTERED_RECEIPT \<Rightarrow> on_activities
         | ENGAGEMENT_INACTIVE_RECEIPT \<Rightarrow> on_activities
         | WARRANTY_RECEIPT \<Rightarrow> returnA t)"

definition due_fact :: "due_rule \<Rightarrow> registration_fact \<Rightarrow> bool" where
  "due_fact due f =
     matches_join_cadence (du_rule due) (registration_age_days_on (du_target_date due) (rf_registered_at f))"

definition facts_fetch ::
    "due_rule \<Rightarrow> datetime \<Rightarrow> int \<Rightarrow> (datetime \<times> uuid) option \<Rightarrow>
     ('z, registration_fact list list \<times> (exn + (datetime \<times> uuid) option)) notify_action" where
  "facts_fetch due observed_before batch cursor =
     bindA (liftE (mk_facts_query batch observed_before cursor None)) (\<lambda>q.
     bindA (query_session (list_registration_facts q)) (\<lambda>page.
     returnA ([filter (due_fact due) (fp_facts page)], Inr (fp_next_cursor page))))"

definition reminder_notifications ::
    "nat \<Rightarrow> due_rule \<Rightarrow> due_command \<Rightarrow> ('z, 't) due_body \<Rightarrow> 't \<Rightarrow> ('z, 't) notify_action" where
  "reminder_notifications fuel due cmd body t =
     page_loop fuel (facts_fetch due (observation_cutoff_for due) (dm_batch_size cmd))
       (notifications_for_facts fuel due (observation_cutoff_for due) (dm_batch_size cmd) body) None t"

section \<open>The use case\<close>

datatype due_action = CreatedAction | SkippedAction | FailedAction | DryRunAction

record rule_totals =
  rt_candidates :: nat
  rt_created :: nat
  rt_skipped :: nat
  rt_failed :: nat

definition no_totals :: rule_totals where
  "no_totals = \<lparr>rt_candidates = 0, rt_created = 0, rt_skipped = 0, rt_failed = 0\<rparr>"

fun totals_add :: "rule_totals \<Rightarrow> due_action \<Rightarrow> rule_totals" where
  "totals_add t CreatedAction = t\<lparr>rt_candidates := rt_candidates t + 1, rt_created := rt_created t + 1\<rparr>"
| "totals_add t SkippedAction = t\<lparr>rt_candidates := rt_candidates t + 1, rt_skipped := rt_skipped t + 1\<rparr>"
| "totals_add t FailedAction = t\<lparr>rt_candidates := rt_candidates t + 1, rt_failed := rt_failed t + 1\<rparr>"
| "totals_add t DryRunAction = t\<lparr>rt_candidates := rt_candidates t + 1\<rparr>"

record rule_summary =
  rsu_campaign_key :: ustr
  rsu_candidates :: nat
  rsu_created :: nat
  rsu_skipped :: nat
  rsu_failed :: nat

record due_result =
  dr_rules :: "rule_summary list"
  dr_candidates :: nat
  dr_created :: nat
  dr_skipped :: nat
  dr_failed :: nat
  dr_dry_run :: bool

definition create_due_notification ::
    "'z notification_db_scheme notify_env \<Rightarrow> due_command \<Rightarrow> due_notification \<Rightarrow> ('z, due_action) notify_action" where
  "create_due_notification env cmd n =
     (if dm_dry_run cmd then returnA DryRunAction
      else
        bindA (repo_reserve (ne_rival env) (dn_occurrence n)) (\<lambda>reserved.
        if \<not> reserved then returnA SkippedAction
        else
          bindA (catchA
              (bindA (notification_create outbox_publisher env (dn_command n)) (\<lambda>r. returnA (Some r)))
              (\<lambda>e. if is_instance C_ValidationError e then bindA sqlalchemy_rollback (\<lambda>_. returnA None) else raiseA e)) (\<lambda>result.
          case result of
            None \<Rightarrow> returnA FailedAction
          | Some (CreatedResult r) \<Rightarrow>
              bindA (repo_bind_notification (dn_occurrence n) (nres_notification_id r)) (\<lambda>_.
              bindA notify_commit (\<lambda>_. returnA CreatedAction))
          | Some SkippedMarketingConsent \<Rightarrow> bindA sqlalchemy_rollback (\<lambda>_. returnA SkippedAction))))"

text \<open>\<open>envs\<close> supplies the surroundings of the call for the n-th candidate of a rule.\<close>

definition due_notifications ::
    "nat \<Rightarrow> due_rule \<Rightarrow> due_command \<Rightarrow> ('z, 't) due_body \<Rightarrow> 't \<Rightarrow> ('z, 't) notify_action" where
  "due_notifications fuel due cmd =
     (case sr_target_kind (du_rule due) of
        WARRANTY_RECEIPT \<Rightarrow> warranty_notifications fuel due cmd
      | ENGAGEMENT_UNREGISTERED_RECEIPT \<Rightarrow> reminder_notifications fuel due cmd
      | ENGAGEMENT_INACTIVE_RECEIPT \<Rightarrow> reminder_notifications fuel due cmd
      | ENGAGEMENT_ALL_USER \<Rightarrow> reminder_notifications fuel due cmd)"

definition create_for_rule ::
    "nat \<Rightarrow> (nat \<Rightarrow> 'z notification_db_scheme notify_env) \<Rightarrow> due_command \<Rightarrow> due_rule \<Rightarrow> ('z, rule_summary) notify_action" where
  "create_for_rule fuel envs cmd due =
     bindA (due_notifications fuel due cmd
        (\<lambda>n t. bindA (create_due_notification (envs (rt_candidates t)) cmd n) (\<lambda>a. returnA (totals_add t a))) no_totals) (\<lambda>t.
     returnA \<lparr>rsu_campaign_key = sr_campaign_key (du_rule due), rsu_candidates = rt_candidates t, rsu_created = rt_created t,
              rsu_skipped = rt_skipped t, rsu_failed = rt_failed t\<rparr>)"

definition create_notifications ::
    "nat \<Rightarrow> (ustr \<Rightarrow> nat \<Rightarrow> 'z notification_db_scheme notify_env) \<Rightarrow> due_command \<Rightarrow> ('z, rule_summary list) notify_action" where
  "create_notifications fuel envs cmd =
     bindA repo_list_rules (\<lambda>rules.
     for_each rules (\<lambda>rule summaries.
       if (case dm_campaign_key cmd of None \<Rightarrow> False | Some k \<Rightarrow> sr_campaign_key rule \<noteq> k) then returnA summaries
       else
         bindA (liftE (resolve_due_notification_rule rule (dm_now cmd) (dm_target_date cmd))) (\<lambda>resolved.
         case resolved of
           None \<Rightarrow> returnA summaries
         | Some due \<Rightarrow>
             bindA (create_for_rule fuel (envs (sr_campaign_key rule)) cmd due) (\<lambda>summary. returnA (summaries @ [summary]))))
       [])"

definition due_result_of :: "rule_summary list \<Rightarrow> bool \<Rightarrow> due_result" where
  "due_result_of summaries dry_run =
     \<lparr>dr_rules = summaries, dr_candidates = sum_list (map rsu_candidates summaries),
      dr_created = sum_list (map rsu_created summaries), dr_skipped = sum_list (map rsu_skipped summaries),
      dr_failed = sum_list (map rsu_failed summaries), dr_dry_run = dry_run\<rparr>"

definition create_due_notifications ::
    "nat \<Rightarrow> (ustr \<Rightarrow> nat \<Rightarrow> 'z notification_db_scheme notify_env) \<Rightarrow> due_command \<Rightarrow> ('z, due_result) notify_action" where
  "create_due_notifications fuel envs cmd =
     bindA (catchA (create_notifications fuel envs cmd) (\<lambda>e. bindA sqlalchemy_rollback (\<lambda>_. raiseA e))) (\<lambda>summaries.
     returnA (due_result_of summaries (dm_dry_run cmd)))"

end
