(* ===== verification/Due_Delivery.thy ===== *)
theory Due_Delivery
  imports Notification_Scheduler
begin

text \<open>
  What a scheduled notification does to the database: it is delivered with its occurrence, its
  event and its binding in one commit, or nothing of it is; and an occurrence is delivered at
  most once, however often and by however many schedulers it is attempted.
\<close>

section \<open>Tables within their constraints\<close>

definition notification_tables_ok :: "'z notification_db_scheme \<Rightarrow> bool" where
  "notification_tables_ok db \<longleftrightarrow>
     (\<forall>r \<in> set (notification_rows db). \<forall>(ok, e) \<in> set (notification_row_checks r). ok) \<and>
     distinct (map nr_id (notification_rows db)) \<and> distinct (map st_user_id (settings_rows db)) \<and>
     (\<forall>r \<in> set (token_rows db). \<forall>(ok, e) \<in> set (token_row_checks r). ok) \<and>
     distinct (map tk_id (token_rows db)) \<and> distinct (map tk_token (token_rows db)) \<and>
     (\<forall>r \<in> set (occurrence_rows db). \<forall>(ok, e) \<in> set (occurrence_row_checks r). ok) \<and>
     distinct (map occurrence_row_key (occurrence_rows db)) \<and>
     (\<forall>r \<in> set (rule_rows db). \<forall>(ok, e) \<in> set (rule_row_checks r). ok) \<and>
     distinct (map rl_campaign_key (rule_rows db)) \<and> distinct (map ob_event_id (outbox_events db))"

lemma notification_violation_None: "notification_violation db = None \<longleftrightarrow> notification_tables_ok db"
  unfolding notification_violation_def first_violation_None notification_checks_def notification_tables_ok_def
  by (simp only: checks_simps conj_assoc simp_thms)

definition occurrence_row_of :: "occurrence_key \<Rightarrow> uuid option \<Rightarrow> occurrence_row" where
  "occurrence_row_of k i = \<lparr>oc_campaign_key = ok_campaign_key k, oc_target_type = occurrence_target_value (ok_target_type k),
     oc_target_id = ok_target_id k, oc_occurrence_on = ok_occurrence_on k, oc_notification_id = i\<rparr>"

lemma occurrence_row_of_key [simp]: "occurrence_row_key (occurrence_row_of k i) = occurrence_key_of k"
  by (simp add: occurrence_row_of_def occurrence_row_key_def occurrence_key_of_def)

lemma add_occurrence_eq: "add_occurrence k db = db\<lparr>occurrence_rows := occurrence_rows db @ [occurrence_row_of k None]\<rparr>"
  by (simp add: add_occurrence_def occurrence_row_of_def)

lemma occurrence_row_of_ok:
  "plain_text 100 (ok_campaign_key k) \<Longrightarrow> \<forall>(ok, e) \<in> set (occurrence_row_checks (occurrence_row_of k i)). ok"
  using plain_text_btrimmed [of 100 "ok_campaign_key k"]
  by (cases "ok_target_type k") (simp_all add: occurrence_row_checks_def occurrence_row_of_def)

lemma taken_iff: "occurrence_taken k db \<longleftrightarrow> occurrence_key_of k \<in> occurrence_row_key ` set (occurrence_rows db)"
  by (force simp: occurrence_taken_def exists_row_iff)

section \<open>The effect of a delivery\<close>

definition delivered_notification :: "'db notify_env \<Rightarrow> create_command \<Rightarrow> user_notification" where
  "delivered_notification env cmd = notification_of (ne_notification_id env) (command_fields (ne_now env) cmd)"

definition delivered_event :: "'db notify_env \<Rightarrow> create_command \<Rightarrow> domain_event" where
  "delivered_event env cmd =
     new_event (ne_event_id env) (ne_event_at env) (created_body (delivered_notification env cmd))"

definition deliver :: "'db notify_env \<Rightarrow> due_notification \<Rightarrow> 'z rival" where
  "deliver env n db =
     db\<lparr>occurrence_rows := occurrence_rows db @ [occurrence_row_of (dn_occurrence n) (Some (ne_notification_id env))],
        notification_rows := notification_rows db @ [notification_to_row (delivered_notification env (dn_command n))],
        outbox_events := outbox_events db @ [outbox_row_of (delivered_event env (dn_command n))]\<rparr>"

definition deliverable :: "create_command \<Rightarrow> bool" where
  "deliverable cmd \<longleftrightarrow> fields_ok (command_fields 0 cmd)"

lemma deliverable_iff: "fields_ok (command_fields now cmd) \<longleftrightarrow> deliverable cmd"
  by (simp add: deliverable_def fields_ok_def command_fields_def)

lemma delivered_id [simp]: "un_id (delivered_notification env cmd) = ne_notification_id env"
  by (simp add: delivered_notification_def notification_of_def command_fields_def)

lemma new_notification_eq:
  "new_notification env cmd =
     (if deliverable cmd
      then Inr ((delivered_notification env cmd)\<lparr>pending_events := [delivered_event env cmd]\<rparr>)
      else Inl (ValidationError (notification_errors (command_fields (ne_now env) cmd))))"
  by (simp add: new_notification_def create_user_notification_eq deliverable_iff delivered_event_def delivered_notification_def)

lemma delivered_publishable [simp]: "publishable build_notification_event_registry (delivered_event env cmd)"
  by (simp add: publishable_def delivered_event_def new_event_def created_body_def registry_tables resolve_def)

lemma row_without_events [simp]: "notification_to_row (u\<lparr>pending_events := es\<rparr>) = notification_to_row u"
  by (simp add: notification_to_row_def)

text \<open>Ids and the campaign key are as the database expects them.\<close>

definition env_fresh :: "'db notify_env \<Rightarrow> 'z notification_db_scheme \<Rightarrow> bool" where
  "env_fresh env db \<longleftrightarrow>
     ne_notification_id env \<notin> nr_id ` set (notification_rows db) \<and> ne_event_id env \<notin> ob_event_id ` set (outbox_events db)"

lemma deliver_ok:
  assumes "notification_tables_ok db" and "env_fresh env db" and "\<not> occurrence_taken (dn_occurrence n) db"
    and "plain_text 100 (ok_campaign_key (dn_occurrence n))" and "deliverable (dn_command n)"
  shows "notification_tables_ok (deliver env n db)"
    and "notification_tables_ok (add_occurrence (dn_occurrence n) db)"
    and "notification_tables_ok ((add_occurrence (dn_occurrence n) db)\<lparr>notification_rows := notification_rows db @
          [notification_to_row (delivered_notification env (dn_command n))]\<rparr>)"
    and "notification_tables_ok ((add_occurrence (dn_occurrence n) db)\<lparr>notification_rows := notification_rows db @
          [notification_to_row (delivered_notification env (dn_command n))],
        outbox_events := outbox_events db @ [outbox_row_of (delivered_event env (dn_command n))]\<rparr>)"
proof -
  have row: "\<forall>(ok, e) \<in> set (notification_row_checks (notification_to_row (delivered_notification env (dn_command n)))). ok"
    using notification_row_ok [where f = "command_fields (ne_now env) (dn_command n)" and i = "ne_notification_id env" and es = "[]"] assms(5)
    by (simp add: delivered_notification_def deliverable_iff)
  have ids: "nr_id (notification_to_row (delivered_notification env (dn_command n))) = ne_notification_id env"
    "ob_event_id (outbox_row_of (delivered_event env (dn_command n))) = ne_event_id env"
    by (simp_all add: notification_to_row_def outbox_row_of_def delivered_event_def new_event_def)
  note key = occurrence_row_of_ok [OF assms(4)]
  show "notification_tables_ok (deliver env n db)"
    using assms(1-3) row ids key [of "Some (ne_notification_id env)"]
    unfolding notification_tables_ok_def deliver_def env_fresh_def taken_iff by simp
  show "notification_tables_ok (add_occurrence (dn_occurrence n) db)"
    using assms(1,3) key [of None] unfolding notification_tables_ok_def taken_iff add_occurrence_eq by simp
  show "notification_tables_ok ((add_occurrence (dn_occurrence n) db)\<lparr>notification_rows := notification_rows db @
          [notification_to_row (delivered_notification env (dn_command n))]\<rparr>)"
    "notification_tables_ok ((add_occurrence (dn_occurrence n) db)\<lparr>notification_rows := notification_rows db @
          [notification_to_row (delivered_notification env (dn_command n))],
        outbox_events := outbox_events db @ [outbox_row_of (delivered_event env (dn_command n))]\<rparr>)"
    using assms(1-3) row ids key [of None]
    unfolding notification_tables_ok_def env_fresh_def taken_iff add_occurrence_eq by simp_all
qed

section \<open>The outcome of a call\<close>

text \<open>Other sessions change settings, but they neither delete them nor break their key.\<close>

definition settings_rival_ok :: "settings_rival \<Rightarrow> bool" where
  "settings_rival_ok f \<longleftrightarrow>
     (\<forall>rows. distinct (map st_user_id rows) \<longrightarrow>
        distinct (map st_user_id (f rows)) \<and> st_user_id ` set rows \<subseteq> st_user_id ` set (f rows))"

definition locked_settings :: "'db notify_env \<Rightarrow> create_command \<Rightarrow> settings_row list \<Rightarrow> settings_row list" where
  "locked_settings env cmd rows = ne_rival_lock env (ensure_settings (cn_user_id cmd) (ne_rival_insert env rows))"

definition consents :: "uuid \<Rightarrow> settings_row list \<Rightarrow> bool" where
  "consents u rows \<longleftrightarrow> exists_row (\<lambda>r. st_user_id r = u \<and> st_marketing_consent r) rows"

text \<open>
  The specification of a call: what it answers and the database it leaves committed, given the
  database it starts from.
\<close>

definition due_outcome ::
    "'z notification_db_scheme notify_env \<Rightarrow> due_notification \<Rightarrow> 'z notification_db_scheme \<Rightarrow>
     due_action \<times> 'z notification_db_scheme" where
  "due_outcome env n db =
     (let db1 = ne_rival env db; cmd = dn_command n
      in if occurrence_taken (dn_occurrence n) db1 then (SkippedAction, db1)
         else if \<not> deliverable cmd then (FailedAction, db1)
         else if cn_message_type cmd = TRANSACTIONAL then (CreatedAction, deliver env n db1)
         else if consents (cn_user_id cmd) (locked_settings env cmd (settings_rows db1))
              then (CreatedAction, deliver env n (map_settings (locked_settings env cmd) db1))
         else (SkippedAction, map_settings (\<lambda>rows. ne_rival_lock env (ne_rival_insert env rows)) db1))"

lemma ensure_settings_ok:
  "distinct (map st_user_id rows) \<Longrightarrow> distinct (map st_user_id (ensure_settings u rows)) \<and> u \<in> st_user_id ` set (ensure_settings u rows)"
  by (auto simp: ensure_settings_def exists_row_iff)

lemma settings_rivals:
  assumes "settings_rival_ok (ne_rival_insert env)" and "settings_rival_ok (ne_rival_lock env)"
    and "distinct (map st_user_id rows)"
  shows "distinct (map st_user_id (ensure_settings u (ne_rival_insert env rows)))"
    and "distinct (map st_user_id (locked_settings env cmd rows))"
    and "cn_user_id cmd \<in> st_user_id ` set (locked_settings env cmd rows)"
proof -
  have i: "distinct (map st_user_id (ne_rival_insert env rows))"
    using assms(1,3) by (simp add: settings_rival_ok_def)
  then show "distinct (map st_user_id (ensure_settings u (ne_rival_insert env rows)))"
    by (simp add: ensure_settings_ok)
  note e = ensure_settings_ok [OF i, of "cn_user_id cmd"]
  then show "distinct (map st_user_id (locked_settings env cmd rows))"
    "cn_user_id cmd \<in> st_user_id ` set (locked_settings env cmd rows)"
    using assms(2) unfolding locked_settings_def settings_rival_ok_def by blast+
qed

lemma find_settings_consents:
  assumes "distinct (map st_user_id rows)" and "u \<in> st_user_id ` set rows"
  obtains r where "find (\<lambda>r. st_user_id r = u) rows = Some r" and "st_marketing_consent r \<longleftrightarrow> consents u rows"
proof -
  obtain r where r: "r \<in> set rows" "st_user_id r = u" using assms(2) by auto
  note found = find_unique_key [of st_user_id, OF assms(1) r]
  have "st_marketing_consent r \<longleftrightarrow> consents u rows"
    using r assms(1) by (auto simp: consents_def exists_row_iff distinct_map inj_on_def)
  with found that show thesis by blast
qed

lemma flush_ok: "\<not> tx_failed s \<Longrightarrow> notification_tables_ok (working s) \<Longrightarrow> flush_notifications s = (Inr (), s)"
  by (simp add: flush_notifications_def action_simps notification_violation_None)

lemma bind_flush_ok:
  "\<not> tx_failed s \<Longrightarrow> notification_tables_ok (working s) \<Longrightarrow> bindA flush_notifications f s = f () s"
  by (simp add: bindA_def flush_ok)

lemma commit_ok:
  "\<not> tx_failed s \<Longrightarrow> notification_tables_ok (working s) \<Longrightarrow> notify_commit s = (Inr (), s\<lparr>committed := working s\<rparr>)"
  by (simp add: notify_commit_def sqlalchemy_commit_def action_simps notification_violation_None)

lemma bind_commit_ok:
  "\<not> tx_failed s \<Longrightarrow> notification_tables_ok (working s) \<Longrightarrow> bindA notify_commit f s = f () (s\<lparr>committed := working s\<rparr>)"
  by (simp add: bindA_def commit_ok)

lemma reserve_run:
  assumes "notification_tables_ok (r db)"
    and "\<not> occurrence_taken k (r db) \<Longrightarrow> notification_tables_ok (add_occurrence k (r db))"
  shows "repo_reserve r k (open_session db) =
    (if occurrence_taken k (r db) then (Inr False, open_session (r db))
     else (Inr True, (open_session (r db))\<lparr>working := add_occurrence k (r db)\<rparr>))"
  using assms by (simp add: repo_reserve_def session_bind bind_pure open_session_def bind_flush_ok returnA_def)

lemma save_run:
  assumes "\<not> tx_failed s" and "deliverable cmd"
    and "notification_tables_ok ((working s)\<lparr>notification_rows := notification_rows (working s) @
          [notification_to_row (delivered_notification env cmd)]\<rparr>)"
  shows "save_notification outbox_publisher ((delivered_notification env cmd)\<lparr>pending_events := [delivered_event env cmd]\<rparr>) s =
    (Inr (result_from_notification (delivered_notification env cmd)),
     s\<lparr>working := (working s)\<lparr>notification_rows := notification_rows (working s) @
          [notification_to_row (delivered_notification env cmd)],
        outbox_events := outbox_events (working s) @ [outbox_row_of (delivered_event env cmd)]\<rparr>\<rparr>)"
  using assms
  by (simp add: save_notification_def repo_create_notification_def bind_assoc session_bind bind_flush_ok bind_pure
      outbox_publisher_def pull_events_def publish_ok bindA_Inr [OF publish_ok] returnA_def result_from_notification_def)

lemma bind_occurrence_run:
  assumes "occurrence_rows w = occurrence_rows db @ [occurrence_row_of k None]" and "\<not> occurrence_taken k db"
  shows "bind_occurrence k i w = w\<lparr>occurrence_rows := occurrence_rows db @ [occurrence_row_of k (Some i)]\<rparr>"
proof -
  have "update_rows (\<lambda>r. occurrence_row_key r = occurrence_key_of k) f (occurrence_rows db) = occurrence_rows db" for f
    using assms(2) by (intro update_rows_id) (metis taken_iff imageI)
  moreover have "update_rows p f (xs @ ys) = update_rows p f xs @ update_rows p f ys" for p f and xs ys :: "occurrence_row list"
    by (simp add: update_rows_def)
  moreover have "(occurrence_row_of k None)\<lparr>oc_notification_id := Some i\<rparr> = occurrence_row_of k (Some i)"
    by (simp add: occurrence_row_of_def)
  ultimately show ?thesis
    unfolding bind_occurrence_def assms(1) by simp
qed

lemma deliver_run:
  assumes "\<not> tx_failed s" and w: "working s = add_occurrence (dn_occurrence n) db"
    and "notification_tables_ok db" and "env_fresh env db" and "\<not> occurrence_taken (dn_occurrence n) db"
    and "plain_text 100 (ok_campaign_key (dn_occurrence n))" and "deliverable (dn_command n)"
  shows "bindA (save_notification outbox_publisher
        ((delivered_notification env (dn_command n))\<lparr>pending_events := [delivered_event env (dn_command n)]\<rparr>)) (\<lambda>r.
      bindA (repo_bind_notification (dn_occurrence n) (nres_notification_id r)) (\<lambda>_.
      bindA notify_commit (\<lambda>_. returnA CreatedAction))) s =
    (Inr CreatedAction, s\<lparr>committed := deliver env n db, working := deliver env n db\<rparr>)"
proof -
  note ok = deliver_ok [OF assms(3-7)]
  let ?row = "notification_to_row (delivered_notification env (dn_command n))"
  let ?ev = "outbox_row_of (delivered_event env (dn_command n))"
  obtain w2 where w2: "w2 = (add_occurrence (dn_occurrence n) db)\<lparr>notification_rows := notification_rows db @ [?row],
      outbox_events := outbox_events db @ [?ev]\<rparr>" by simp
  have add: "notification_rows (add_occurrence k db') = notification_rows db'" "outbox_events (add_occurrence k db') = outbox_events db'"
    "occurrence_rows (add_occurrence k db') = occurrence_rows db' @ [occurrence_row_of k None]" for k db'
    by (simp_all add: add_occurrence_eq)
  have save: "save_notification outbox_publisher
        ((delivered_notification env (dn_command n))\<lparr>pending_events := [delivered_event env (dn_command n)]\<rparr>) s =
      (Inr (result_from_notification (delivered_notification env (dn_command n))), s\<lparr>working := w2\<rparr>)"
    using save_run [OF assms(1) assms(7), of env] ok(3) by (simp add: w w2 add)
  have "bind_occurrence (dn_occurrence n) (ne_notification_id env) w2 = deliver env n db"
    using bind_occurrence_run [of w2 db "dn_occurrence n" "ne_notification_id env", OF _ assms(5)]
    by (simp add: w2 add deliver_def add_occurrence_eq)
  moreover have "nres_notification_id (result_from_notification (delivered_notification env (dn_command n))) = ne_notification_id env"
    by (simp add: result_from_notification_def)
  ultimately show ?thesis
    using assms(1) ok(1)
    unfolding bindA_def [of "save_notification _ _"] save
    by (simp add: repo_bind_notification_def bind_assoc session_bind bind_flush_ok bind_commit_ok returnA_def)
qed

lemma lock_run:
  assumes "\<not> tx_failed s" and "notification_tables_ok (map_settings (ensure_settings u) (map_settings (ne_rival_insert env) (working s)))"
    and "find (\<lambda>r. st_user_id r = u) (ne_rival_lock env (ensure_settings u (ne_rival_insert env (settings_rows (working s))))) = Some r"
  shows "repo_get_settings_for_update (ne_rival_insert env) (ne_rival_lock env) u s =
    (Inr (settings_to_domain r),
     s\<lparr>committed := map_settings (\<lambda>rows. ne_rival_lock env (ne_rival_insert env rows)) (committed s),
       working := map_settings (\<lambda>rows. ne_rival_lock env (ensure_settings u (ne_rival_insert env rows))) (working s)\<rparr>)"
proof -
  have twice: "map_settings f (map_settings g db) = map_settings (\<lambda>rows. f (g rows)) db" for f g and db :: "'a notification_db_scheme"
    by (simp add: map_settings_def)
  show ?thesis
    using assms
    by (simp add: repo_get_settings_for_update_def session_bind bind_flush_ok find_settings_def)
      (simp add: twice returnA_def map_settings_def)
qed

text \<open>What the use case makes of the creator's answer, or of its \<open>ValidationError\<close>.\<close>

definition settle ::
    "due_notification \<Rightarrow> creation_result option \<Rightarrow> ('z, due_action) notify_action" where
  "settle n result =
     (case result of
        None \<Rightarrow> returnA FailedAction
      | Some (CreatedResult r) \<Rightarrow>
          bindA (repo_bind_notification (dn_occurrence n) (nres_notification_id r)) (\<lambda>_.
          bindA notify_commit (\<lambda>_. returnA CreatedAction))
      | Some SkippedMarketingConsent \<Rightarrow> bindA sqlalchemy_rollback (\<lambda>_. returnA SkippedAction))"

lemma attempt_run:
  "bindA (catchA (bindA m (\<lambda>r. returnA (Some r)))
      (\<lambda>e. if is_instance C_ValidationError e then bindA sqlalchemy_rollback (\<lambda>_. returnA None) else raiseA e)) k s =
   (case m s of
      (Inr r, s') \<Rightarrow> k (Some r) s'
    | (Inl e, s') \<Rightarrow> if is_instance C_ValidationError e then bindA sqlalchemy_rollback (\<lambda>_. k None) s' else (Inl e, s'))"
  by (simp add: bindA_def catchA_def returnA_def raiseA_def split: prod.split sum.split)

lemma save_and_settle:
  assumes "\<not> tx_failed s" and "working s = add_occurrence (dn_occurrence n) db"
    and "notification_tables_ok db" and "env_fresh env db" and "\<not> occurrence_taken (dn_occurrence n) db"
    and "plain_text 100 (ok_campaign_key (dn_occurrence n))" and "deliverable (dn_command n)"
  obtains r s' where "save_notification outbox_publisher
        ((delivered_notification env (dn_command n))\<lparr>pending_events := [delivered_event env (dn_command n)]\<rparr>) s = (Inr r, s')"
    and "settle n (Some (CreatedResult r)) s' = (Inr CreatedAction, s\<lparr>committed := deliver env n db, working := deliver env n db\<rparr>)"
  by (rule bindA_InrE [OF deliver_run [OF assms]]) (simp add: settle_def that)

lemma create_due_notification_run:
  assumes dry: "\<not> dm_dry_run cmd" and ok: "notification_tables_ok (ne_rival env db)" and fresh: "env_fresh env (ne_rival env db)"
    and key: "plain_text 100 (ok_campaign_key (dn_occurrence n))"
    and rivals: "settings_rival_ok (ne_rival_insert env)" "settings_rival_ok (ne_rival_lock env)"
  shows "create_due_notification env cmd n (open_session db) =
    (Inr (fst (due_outcome env n db)), open_session (snd (due_outcome env n db)))"
proof -
  let ?db = "ne_rival env db" and ?c = "dn_command n" and ?k = "dn_occurrence n"
  have added: "notification_tables_ok (add_occurrence ?k ?db)" if "\<not> occurrence_taken ?k ?db"
    using ok that occurrence_row_of_ok [OF key, of None] unfolding notification_tables_ok_def taken_iff add_occurrence_eq by simp
  have reserve: "repo_reserve (ne_rival env) ?k (open_session db) =
      (if occurrence_taken ?k ?db then (Inr False, open_session ?db)
       else (Inr True, (open_session ?db)\<lparr>working := add_occurrence ?k ?db\<rparr>))"
    by (rule reserve_run) (rule ok, rule added)
  have unfolded: "create_due_notification env cmd n s =
      bindA (repo_reserve (ne_rival env) ?k) (\<lambda>reserved. if \<not> reserved then returnA SkippedAction
        else (\<lambda>s. case notification_create outbox_publisher env ?c s of
           (Inr r, s') \<Rightarrow> settle n (Some r) s'
         | (Inl e, s') \<Rightarrow> if is_instance C_ValidationError e then bindA sqlalchemy_rollback (\<lambda>_. settle n None) s' else (Inl e, s'))) s" for s
    unfolding create_due_notification_def settle_def [symmetric] attempt_run using dry
    by (simp add: attempt_run [THEN ext] settle_def)
  show ?thesis
  proof (cases "occurrence_taken ?k ?db")
    case True
    then show ?thesis unfolding unfolded bindA_def [of "repo_reserve _ _"] reserve by (simp add: due_outcome_def returnA_def)
  next
    case free: False
    obtain s1 where s1: "s1 = (open_session ?db)\<lparr>working := add_occurrence ?k ?db\<rparr>" by simp
    have s1p: "\<not> tx_failed s1" "working s1 = add_occurrence ?k ?db" "committed s1 = ?db" by (simp_all add: s1)
    have run: "create_due_notification env cmd n (open_session db) = (case notification_create outbox_publisher env ?c s1 of
           (Inr r, s') \<Rightarrow> settle n (Some r) s'
         | (Inl e, s') \<Rightarrow> if is_instance C_ValidationError e then bindA sqlalchemy_rollback (\<lambda>_. settle n None) s' else (Inl e, s'))"
      unfolding unfolded bindA_def [of "repo_reserve _ _"] reserve using free by (simp add: s1)
    show ?thesis
    proof (cases "deliverable ?c")
      case False
      then have "notification_create outbox_publisher env ?c s1 =
          (Inl (ValidationError (notification_errors (command_fields (ne_now env) ?c))), s1)"
        by (simp add: notification_create_def new_notification_eq bind_pure raiseA_def)
      then show ?thesis
        unfolding run using free False s1p
        by (simp add: is_instance_def sqlalchemy_rollback_def session_bind settle_def returnA_def due_outcome_def open_session_def s1)
    next
      case valid: True
      let ?u = "(delivered_notification env ?c)\<lparr>pending_events := [delivered_event env ?c]\<rparr>"
      show ?thesis
      proof (cases "cn_message_type ?c")
        case TRANSACTIONAL
        obtain r s' where "save_notification outbox_publisher ?u s1 = (Inr r, s')"
          and "settle n (Some (CreatedResult r)) s' = (Inr CreatedAction, s1\<lparr>committed := deliver env n ?db, working := deliver env n ?db\<rparr>)"
          using save_and_settle [OF s1p(1,2) ok fresh free key valid] .
        then show ?thesis
          unfolding run using TRANSACTIONAL valid free
          by (simp add: notification_create_def new_notification_eq bind_pure bindA_def returnA_def due_outcome_def open_session_def s1)
      next
        case MARKETING
        have dist: "distinct (map st_user_id (settings_rows ?db))" using ok by (simp add: notification_tables_ok_def)
        note sr = settings_rivals [OF rivals dist]
        obtain r where r: "find (\<lambda>r. st_user_id r = cn_user_id ?c) (locked_settings env ?c (settings_rows ?db)) = Some r"
          and consent: "st_marketing_consent r \<longleftrightarrow> consents (cn_user_id ?c) (locked_settings env ?c (settings_rows ?db))"
          using find_settings_consents [OF sr(2,3)] .
        obtain s2 where s2: "s2 = s1\<lparr>committed := map_settings (\<lambda>rows. ne_rival_lock env (ne_rival_insert env rows)) ?db,
            working := add_occurrence ?k (map_settings (locked_settings env ?c) ?db)\<rparr>" by simp
        have swap: "map_settings f (add_occurrence ?k db') = add_occurrence ?k (map_settings f db')" for f and db' :: "'a notification_db_scheme"
          by (simp add: map_settings_def add_occurrence_def)
        have tables: "notification_tables_ok (map_settings f db')" if "notification_tables_ok db'" "distinct (map st_user_id (f (settings_rows db')))" for f and db' :: "'a notification_db_scheme"
          using that by (simp add: notification_tables_ok_def map_settings_def)
        have lock: "repo_get_settings_for_update (ne_rival_insert env) (ne_rival_lock env) (cn_user_id ?c) s1 = (Inr (settings_to_domain r), s2)"
        proof -
          have rows: "settings_rows (working s1) = settings_rows ?db" by (simp add: s1p add_occurrence_def)
          have "notification_tables_ok (map_settings (\<lambda>rows. ensure_settings (cn_user_id ?c) (ne_rival_insert env rows)) (working s1))"
            using tables [OF added [OF free]] sr(1) by (simp add: s1p add_occurrence_def)
          then have "notification_tables_ok (map_settings (ensure_settings (cn_user_id ?c)) (map_settings (ne_rival_insert env) (working s1)))"
            by (simp add: map_settings_def)
          moreover have "find (\<lambda>r. st_user_id r = cn_user_id ?c)
              (ne_rival_lock env (ensure_settings (cn_user_id ?c) (ne_rival_insert env (settings_rows (working s1))))) = Some r"
            using r by (simp add: rows locked_settings_def)
          ultimately have "repo_get_settings_for_update (ne_rival_insert env) (ne_rival_lock env) (cn_user_id ?c) s1 =
            (Inr (settings_to_domain r),
             s1\<lparr>committed := map_settings (\<lambda>rows. ne_rival_lock env (ne_rival_insert env rows)) (committed s1),
               working := map_settings (\<lambda>rows. ne_rival_lock env (ensure_settings (cn_user_id ?c) (ne_rival_insert env rows))) (working s1)\<rparr>)"
            using lock_run [OF s1p(1)] by blast
          then show ?thesis
            by (simp add: s2 s1p swap locked_settings_def [abs_def])
        qed
        show ?thesis
        proof (cases "st_marketing_consent r")
          case False
          then show ?thesis
            unfolding run using MARKETING valid free consent lock
            by (simp add: notification_create_def new_notification_eq bind_pure bindA_def returnA_def settings_to_domain_def
                settle_def sqlalchemy_rollback_def rollback_session_def due_outcome_def open_session_def s1 s2)
        next
          case True
          have s2p: "\<not> tx_failed s2" "working s2 = add_occurrence ?k (map_settings (locked_settings env ?c) ?db)"
            using s1p by (simp_all add: s2)
          have db2: "notification_tables_ok (map_settings (locked_settings env ?c) ?db)" "env_fresh env (map_settings (locked_settings env ?c) ?db)"
            "\<not> occurrence_taken ?k (map_settings (locked_settings env ?c) ?db)"
            using tables [OF ok] sr(2) fresh free by (simp_all add: env_fresh_def occurrence_taken_def map_settings_def)
          obtain r' s' where "save_notification outbox_publisher ?u s2 = (Inr r', s')"
            and "settle n (Some (CreatedResult r')) s' = (Inr CreatedAction,
              s2\<lparr>committed := deliver env n (map_settings (locked_settings env ?c) ?db),
                 working := deliver env n (map_settings (locked_settings env ?c) ?db)\<rparr>)"
            using save_and_settle [OF s2p db2 key valid] .
          then show ?thesis
            unfolding run using MARKETING valid free consent lock True
            by (simp add: notification_create_def new_notification_eq bind_pure bindA_def returnA_def settings_to_domain_def
                due_outcome_def open_session_def s1 s2)
        qed
      qed
    qed
  qed
qed

section \<open>Calls and histories of calls\<close>

text \<open>
  A call happens under ordinary circumstances: what the others commit before it keeps the
  tables valid and removes no occurrence, and the ids it draws are new.
\<close>

definition call_ok :: "'z notification_db_scheme notify_env \<Rightarrow> due_notification \<Rightarrow> 'z notification_db_scheme \<Rightarrow> bool" where
  "call_ok env n db \<longleftrightarrow>
     notification_tables_ok (ne_rival env db) \<and> env_fresh env (ne_rival env db) \<and>
     occurrence_row_key ` set (occurrence_rows db) \<subseteq> occurrence_row_key ` set (occurrence_rows (ne_rival env db)) \<and>
     plain_text 100 (ok_campaign_key (dn_occurrence n)) \<and>
     settings_rival_ok (ne_rival_insert env) \<and> settings_rival_ok (ne_rival_lock env)"

text \<open>
  Calls one after the other, each in a session of its own, by one scheduler or by several: a
  call that reserves an occurrence another transaction holds waits for it, so that calls for the
  same occurrence never overlap.
\<close>

type_synonym 'z due_call = "'z notification_db_scheme notify_env \<times> due_command \<times> due_notification"

fun due_calls :: "'z due_call list \<Rightarrow> 'z notification_db_scheme \<Rightarrow> (exn + due_action) list" where
  "due_calls [] db = []"
| "due_calls ((env, cmd, n) # calls) db =
     (case create_due_notification env cmd n (open_session db) of
        (r, s) \<Rightarrow> r # due_calls calls (committed s))"

fun calls_ok :: "'z due_call list \<Rightarrow> 'z notification_db_scheme \<Rightarrow> bool" where
  "calls_ok [] db \<longleftrightarrow> True"
| "calls_ok ((env, cmd, n) # calls) db \<longleftrightarrow>
     call_ok env n db \<and> calls_ok calls (committed (snd (create_due_notification env cmd n (open_session db))))"

lemma call_run:
  assumes "call_ok env n db"
  shows "create_due_notification env cmd n (open_session db) =
    (if dm_dry_run cmd then (Inr DryRunAction, open_session db)
     else (Inr (fst (due_outcome env n db)), open_session (snd (due_outcome env n db))))"
  using assms create_due_notification_run [of cmd env db n]
  by (simp add: call_ok_def) (simp add: create_due_notification_def returnA_def)

lemma outcome_occurrences:
  assumes "call_ok env n db"
  shows "occurrence_taken k db \<Longrightarrow> occurrence_taken k (snd (due_outcome env n db))"
    and "fst (due_outcome env n db) = CreatedAction \<Longrightarrow>
      \<not> occurrence_taken (dn_occurrence n) db \<and> occurrence_taken (dn_occurrence n) (snd (due_outcome env n db))"
proof -
  have keep: "occurrence_taken k db \<Longrightarrow> occurrence_taken k (ne_rival env db)" for k
    using assms by (auto simp: call_ok_def taken_iff)
  have settings: "occurrence_taken k (map_settings f db') = occurrence_taken k db'" for k f and db' :: "'a notification_db_scheme"
    by (simp add: taken_iff map_settings_def)
  have add: "occurrence_taken k (deliver env n db') \<longleftrightarrow> occurrence_taken k db' \<or> occurrence_key_of k = occurrence_key_of (dn_occurrence n)"
    for k db' by (auto simp: taken_iff deliver_def)
  show "occurrence_taken k db \<Longrightarrow> occurrence_taken k (snd (due_outcome env n db))"
    using keep by (simp add: due_outcome_def Let_def settings add)
  show "fst (due_outcome env n db) = CreatedAction \<Longrightarrow>
      \<not> occurrence_taken (dn_occurrence n) db \<and> occurrence_taken (dn_occurrence n) (snd (due_outcome env n db))"
    using keep [of "dn_occurrence n"] by (auto simp: due_outcome_def Let_def settings add split: if_splits)
qed

definition deliveries :: "occurrence_key \<Rightarrow> 'z due_call list \<Rightarrow> 'z notification_db_scheme \<Rightarrow> nat" where
  "deliveries k calls db =
     length (filter (\<lambda>((env, cmd, n), r). dn_occurrence n = k \<and> r = Inr CreatedAction) (zip calls (due_calls calls db)))"

lemma deliveries_bound: "calls_ok calls db \<Longrightarrow> deliveries k calls db \<le> (if occurrence_taken k db then 0 else 1)"
proof (induction calls db rule: calls_ok.induct)
  case (2 env cmd n calls db)
  then have ok: "call_ok env n db" by simp
  obtain r db' where run: "create_due_notification env cmd n (open_session db) = (r, open_session db')"
    and res: "(r, db') = (if dm_dry_run cmd then (Inr DryRunAction, db) else (Inr (fst (due_outcome env n db)), snd (due_outcome env n db)))"
    using call_run [OF ok, of cmd] by (cases "dm_dry_run cmd") auto
  have ih: "deliveries k calls db' \<le> (if occurrence_taken k db' then 0 else 1)"
    using 2 run by simp
  have split: "deliveries k ((env, cmd, n) # calls) db =
      (if dn_occurrence n = k \<and> r = Inr CreatedAction then 1 else 0) + deliveries k calls db'"
    by (simp add: deliveries_def run)
  have keep: "occurrence_taken k db \<Longrightarrow> occurrence_taken k db'"
    and created: "dn_occurrence n = k \<Longrightarrow> r = Inr CreatedAction \<Longrightarrow> \<not> occurrence_taken k db \<and> occurrence_taken k db'"
    using res outcome_occurrences [OF ok] by (auto split: if_splits)
  show ?case unfolding split using ih keep created by (auto split: if_splits)
qed (simp add: deliveries_def)

text \<open>C8. An occurrence - a campaign, a target and a day - is notified at most once: however often it is
  attempted, by one scheduler run or by several, with whatever the other sessions commit in between
  (they may add occurrences of their own), at most one attempt creates a notification, and none
  does once the occurrence is recorded.\<close>

theorem scheduled_at_most_once:
  assumes "calls_ok calls db"
  shows "deliveries k calls db \<le> (if occurrence_taken k db then 0 else 1)"
  by (rule deliveries_bound [OF assms])

text \<open>C9. What an attempt does: it skips an occurrence that is recorded, fails on a notification the domain
  rejects, skips a marketing notification whose user does not consent at the moment the settings
  row is locked, and otherwise commits the notification, its event and its occurrence, bound to
  it, together; in every other case it leaves nothing of its own.\<close>

theorem due_notification_implements_outcome:
  assumes "call_ok env n db" and "\<not> dm_dry_run cmd"
  shows "create_due_notification env cmd n (open_session db) =
    (Inr (fst (due_outcome env n db)), open_session (snd (due_outcome env n db)))"
  using call_run [OF assms(1), of cmd] assms(2) by simp

text \<open>
  An item name is cut to the length of the title without regard to where it is cut: if the
  cut falls behind a space, the title is not stripped and the domain rejects it.
\<close>

lemma replace_whole: "m \<noteq> [] \<Longrightarrow> str_replace m m new = new" "m \<noteq> [] \<Longrightarrow> str_count m m = 1"
  using length_removed [of m m "length m"]
  by (cases m; simp add: str_replace_def str_count_def del: take_Suc_Cons drop_Suc_Cons;
      cases "length (tl m)"; simp)+

lemma cut_title:
  assumes "100 < length item" and "is_space (item ! 99)"
  shows "\<not> plain_text 100 (render_notification_text item_name_marker item 100)"
proof -
  have marker: "item_name_marker \<noteq> []" by (simp add: item_name_marker_def)
  have rendered: "render_notification_text item_name_marker item 100 = take 100 item"
    by (simp add: render_notification_text_def replace_whole [OF marker])
  have "last (take 100 item) = item ! 99"
    using assms(1) by (subst last_conv_nth) (auto simp: min_def)
  moreover have "take 100 item \<noteq> []" using assms(1) by auto
  ultimately show ?thesis
    using assms(2) strip_eq_iff [of "take 100 item"] by (auto simp: plain_text_def rendered)
qed

text \<open>A warranty reminder whose title is the item name is never delivered for an item whose name has more
  than 100 characters with a space as the hundredth: every attempt fails, the receipt's owner gets no
  notification and the attempt leaves no occurrence, so that every later run fails again.\<close>

theorem cut_item_name_never_notified:
  assumes "sr_title_template (du_rule due) = item_name_marker" and "100 < length item" and "is_space (item ! 99)"
    and "call_ok env (warranty_expiry_notification due user receipt item sub) db" and "\<not> dm_dry_run cmd"
    and "\<not> occurrence_taken (dn_occurrence (warranty_expiry_notification due user receipt item sub)) (ne_rival env db)"
  shows "create_due_notification env cmd (warranty_expiry_notification due user receipt item sub) (open_session db) =
    (Inr FailedAction, open_session (ne_rival env db))"
proof -
  have "\<not> deliverable (dn_command (warranty_expiry_notification due user receipt item sub))"
    using cut_title [OF assms(2,3)]
    by (simp add: deliverable_def fields_ok_def command_fields_def warranty_expiry_notification_def Let_def assms(1))
  then show ?thesis
    using call_run [OF assms(4), of cmd] assms(5,6) by (simp add: due_outcome_def Let_def)
qed

end
