(* ===== verification/Due_Candidates.thy ===== *)
theory Due_Candidates
  imports Due_Delivery "HOL-Library.Multiset"
begin

text \<open>
  The scheduler's generators read users, receipts and receipt activity a page at a time. While
  nobody changes these tables they yield exactly the notifications that are due, whatever the
  page size, and their loops end.
\<close>

section \<open>Loops that keep the tables\<close>

lemma runs_lift_keeps: "runs P (liftE r) (\<lambda>_. P) (\<lambda>_. True)"
  by (rule runs_liftE) simp_all

lemma page_loop_keeps:
  assumes "\<And>c. runs P (fetch c) (\<lambda>_. P) (\<lambda>_. True)" and "\<And>x t. runs P (body x t) (\<lambda>_. P) (\<lambda>_. True)"
  shows "runs P (page_loop n fetch body c t) (\<lambda>_. P) (\<lambda>_. True)"
proof (induction n arbitrary: c t)
  case 0
  show ?case by (simp add: runs_raiseA)
next
  case (Suc n)
  have loop: "runs P (for_each xs body t) (\<lambda>_. P) (\<lambda>_. True)" for xs t
    using assms(2) by (intro for_each_keeps) simp_all
  have "runs P (case o' of None \<Rightarrow> returnA t' | Some k \<Rightarrow> page_loop n fetch body (Some k) t') (\<lambda>_. P) (\<lambda>_. True)" for o' t'
    using Suc.IH by (cases o') (simp_all add: runs_returnA)
  then have "runs P (bindA (for_each xs body t) (\<lambda>t'. bindA (liftE r) (\<lambda>o'.
      case o' of None \<Rightarrow> returnA t' | Some k \<Rightarrow> page_loop n fetch body (Some k) t'))) (\<lambda>_. P) (\<lambda>_. True)" for xs r
    by (intro runs_bind [OF loop] runs_bind [OF runs_lift_keeps])
  then show ?case
    unfolding page_loop.simps by (intro runs_bind [OF assms(1)]) (simp add: case_prod_beta)
qed

lemma for_each_flat:
  assumes "\<And>x t s. x \<in> set xs \<Longrightarrow> P s \<Longrightarrow> outer x t s = for_each (h x) body t s"
    and "\<And>x t. runs P (body x t) (\<lambda>_. P) (\<lambda>_. True)" and "P s"
  shows "for_each xs outer t s = for_each (concat (map h xs)) body t s"
  using assms(1,3)
proof (induction xs arbitrary: t s)
  case (Cons x xs)
  have keep: "P s'" if "for_each (h x) body t s = (Inr t', s')" for t' s'
    using for_each_keeps [of "h x" P body "\<lambda>_. True" t] assms(2) Cons.prems(2) that by (auto simp: runs_def split: prod.splits sum.splits)
  have "bindA (outer x t) (for_each xs outer) s = bindA (for_each (h x) body t) (for_each (concat (map h xs)) body) s"
    using Cons keep by (auto simp: bindA_def split: prod.split sum.split)
  then show ?case by (simp add: for_each_append)
qed simp

lemma for_each_filter:
  "for_each xs (\<lambda>x. if p x then body (f x) else returnA) = for_each (map f (filter p xs)) body"
proof (induction xs)
  case (Cons x xs)
  then show ?case by (intro ext) (simp add: bind_pure)
qed (simp add: fun_eq_iff)

definition reads_of :: "'z notification_db_scheme \<Rightarrow> 'z notification_db_scheme session \<Rightarrow> bool" where
  "reads_of db s \<longleftrightarrow> \<not> tx_failed s \<and> user_rows (working s) = user_rows db \<and> receipt_rows (working s) = receipt_rows db"

lemma same_rows:
  assumes "reads_of db s"
  shows "expiring_rows d t (working s) = expiring_rows d t db" "registered_rows t (working s) = registered_rows t db"
    "user_activities us since t (working s) = user_activities us since t db"
    "get_existing_user_ids us (working s) = get_existing_user_ids us db"
  using assms
  by (simp_all add: reads_of_def expiring_rows_def registered_rows_def user_activities_def activity_aggregate_def
      get_existing_user_ids_def)

section \<open>What is due\<close>

definition expiry_day :: "due_rule \<Rightarrow> int \<Rightarrow> date" where
  "expiry_day due offset_days = date_of_ordinal (date_ordinal (du_target_date due) + offset_days)"

definition receipt_candidates :: "due_rule \<Rightarrow> 'z owner_db_scheme \<Rightarrow> receipt_row list \<Rightarrow> due_notification list" where
  "receipt_candidates due db rows =
     map (\<lambda>r. warranty_expiry_notification due (rc_user_id r) (rc_id r) (rc_item_name r) (rc_sub_category r))
       (filter (\<lambda>r. rc_user_id r \<in> ur_id ` set (user_rows db)) rows)"

definition activity_since :: "due_rule \<Rightarrow> datetime option" where
  "activity_since due = (case receipt_activity_since_for due of Inr since \<Rightarrow> since | Inl _ \<Rightarrow> None)"

definition fact_candidates :: "due_rule \<Rightarrow> 'z owner_db_scheme \<Rightarrow> registration_fact list \<Rightarrow> due_notification list" where
  "fact_candidates due db facts =
     (let kind = sr_target_kind (du_rule due);
          on_activities =
            map (\<lambda>a. receipt_reminder_notification due (ra_user_id a) (Some (ra_receipt_count a)))
              (filter (\<lambda>a. matches_receipt_activity kind (ra_receipt_count a))
                 (user_activities (map rf_user_id facts) (activity_since due) (observation_cutoff_for due) db))
      in case kind of
           ENGAGEMENT_ALL_USER \<Rightarrow> map (\<lambda>f. receipt_reminder_notification due (rf_user_id f) None) facts
         | ENGAGEMENT_UNREGISTERED_RECEIPT \<Rightarrow> on_activities
         | ENGAGEMENT_INACTIVE_RECEIPT \<Rightarrow> on_activities
         | WARRANTY_RECEIPT \<Rightarrow> [])"

definition user_candidates :: "due_rule \<Rightarrow> 'z owner_db_scheme \<Rightarrow> user_row list \<Rightarrow> due_notification list" where
  "user_candidates due db rows = fact_candidates due db (filter (due_fact due) (map fact_of rows))"

text \<open>The notifications that are due, from the whole tables; and in the order pages of size \<open>n\<close> give.\<close>

definition due_candidates :: "due_rule \<Rightarrow> 'z owner_db_scheme \<Rightarrow> due_notification list" where
  "due_candidates due db =
     (if sr_target_kind (du_rule due) = WARRANTY_RECEIPT
      then (case sr_day_offset (du_rule due) of
              None \<Rightarrow> []
            | Some off \<Rightarrow> receipt_candidates due db (expiring_rows (expiry_day due off) (observation_cutoff_for due) db))
      else user_candidates due db (registered_rows (observation_cutoff_for due) db))"

definition paged_candidates :: "nat \<Rightarrow> due_rule \<Rightarrow> 'z owner_db_scheme \<Rightarrow> due_notification list" where
  "paged_candidates n due db =
     (if sr_target_kind (du_rule due) = WARRANTY_RECEIPT then due_candidates due db
      else concat (map (user_candidates due db) (chunks n (registered_rows (observation_cutoff_for due) db))))"

text \<open>The dates the rule computes with exist.\<close>

definition searchable :: "due_rule \<Rightarrow> bool" where
  "searchable due \<longleftrightarrow>
     (case sr_target_kind (du_rule due) of
        WARRANTY_RECEIPT \<Rightarrow>
          (\<forall>off \<in> set_option (sr_day_offset (du_rule due)). 0 \<le> off \<and> date_ordinal (du_target_date due) + off \<le> 3652059)
      | ENGAGEMENT_ALL_USER \<Rightarrow> True
      | _ \<Rightarrow> (\<exists>since. receipt_activity_since_for due = Inr since))"

section \<open>The pages yield what is due\<close>

lemma existing_users: "get_existing_user_ids us db = {u \<in> set us. u \<in> ur_id ` set (user_rows db)}"
  by (auto simp: get_existing_user_ids_def)

lemma warranty_fetch_run:
  fixes observed :: datetime
  assumes "reads_of db s" and "0 \<le> off" and "date_ordinal (du_target_date due) + off \<le> 3652059" and "1 \<le> batch"
  defines "rows \<equiv> expiring_rows (expiry_day due off) observed db"
  shows "warranty_fetch due off observed batch c s =
    (Inr (receipt_candidates due db (take (nat batch) (receipt_pages.rest rows c)),
          Inr (receipt_pages.follows (nat batch) (receipt_pages.rest rows c))), s)"
proof -
  obtain q where q: "mk_expiring_query (du_target_date due) off observed batch c = Inr q"
    using assms(2,4) by (simp add: mk_expiring_query_def)
  let ?rest = "receipt_pages.rest rows c"
  let ?page = "\<lparr>ep_receipts = map expiring_receipt_of (take (nat batch) ?rest),
      ep_next_cursor_receipt_id = receipt_pages.follows (nat batch) ?rest,
      ep_has_next = (receipt_pages.follows (nat batch) ?rest \<noteq> None), ep_limit = batch\<rparr>"
  have page: "list_receipts_expiring_on q (working s) = Inr ?page"
    using list_receipts_page [OF q assms(3), of "working s"]
    unfolding Let_def rows_def expiry_day_def same_rows(1) [OF assms(1)] .
  have ok: "\<not> tx_failed s" using assms(1) by (simp add: reads_of_def)
  have mem: "er_user_id r \<in> get_existing_user_ids (map er_user_id (map expiring_receipt_of page)) (working s) \<longleftrightarrow>
      er_user_id r \<in> ur_id ` set (user_rows db)" if "r \<in> set (map expiring_receipt_of page)" for r page
    using that unfolding same_rows(4) [OF assms(1)] unfolding existing_users by auto
  have cands: "map (\<lambda>r. warranty_expiry_notification due (er_user_id r) (er_receipt_id r) (er_item_name r) (er_sub_category r))
      (filter (\<lambda>r. er_user_id r \<in> get_existing_user_ids (map er_user_id (map expiring_receipt_of page)) (working s))
        (map expiring_receipt_of page)) = receipt_candidates due db page" for page
  proof -
    have kept: "filter (\<lambda>r. er_user_id r \<in> get_existing_user_ids (map er_user_id (map expiring_receipt_of page)) (working s))
        (map expiring_receipt_of page) = filter (\<lambda>r. er_user_id r \<in> ur_id ` set (user_rows db)) (map expiring_receipt_of page)"
      by (rule filter_cong [OF refl mem])
    show ?thesis unfolding kept by (simp add: receipt_candidates_def filter_map comp_def expiring_receipt_of_def)
  qed
  show ?thesis
    using cands [of "take (nat batch) ?rest"]
    by (cases "receipt_pages.follows (nat batch) ?rest")
      (simp_all add: warranty_fetch_def q bind_pure session_bind ok page returnA_def)
qed

lemma receipt_candidates_concat: "concat (map (receipt_candidates due db) xss) = receipt_candidates due db (concat xss)"
  by (induction xss) (simp_all add: receipt_candidates_def)

lemma warranty_notifications_run:
  assumes "reads_of db s" and "owner_keys db" and "searchable due" and "sr_target_kind (du_rule due) = WARRANTY_RECEIPT"
    and "1 \<le> dm_batch_size cmd" and "length (receipt_rows db) < fuel"
    and body: "\<And>x t. runs (reads_of db) (body x t) (\<lambda>_. reads_of db) (\<lambda>_. True)"
  shows "warranty_notifications fuel due cmd body t s = for_each (due_candidates due db) body t s"
proof (cases "sr_day_offset (du_rule due)")
  case None
  then show ?thesis using assms(4) by (simp add: warranty_notifications_def due_candidates_def)
next
  case (Some off)
  let ?rows = "expiring_rows (expiry_day due off) (observation_cutoff_for due) db"
  have off: "0 \<le> off" "date_ordinal (du_target_date due) + off \<le> 3652059"
    using assms(3,4) Some by (simp_all add: searchable_def)
  have len: "length (receipt_pages.rest ?rows None) < fuel"
    using le_less_trans [OF length_filter_le assms(6)] by (simp add: receipt_pages.rest_def expiring_rows_def)
  have "page_loop fuel (warranty_fetch due off (observation_cutoff_for due) (dm_batch_size cmd)) body None t s =
      for_each (concat (map (receipt_candidates due db) (chunks (nat (dm_batch_size cmd)) (receipt_pages.rest ?rows None)))) body t s"
    by (rule receipt_pages.page_loop_chunks [where P = "reads_of db"])
      (simp_all add: warranty_fetch_run off assms(1,5) body strictly_sorted_rows(1) [OF assms(2)] len less_le_trans [OF zero_less_one assms(5)])
  then show ?thesis
    using Some assms(4)
    by (simp add: warranty_notifications_def due_candidates_def receipt_candidates_concat concat_chunks receipt_pages.rest_def)
qed

lemma fetches_keep:
  "runs (reads_of db) (facts_fetch due observed batch c) (\<lambda>_. reads_of db) (\<lambda>_. True)"
  "runs (reads_of db) (activity_fetch facts since observed batch cur) (\<lambda>_. reads_of db) (\<lambda>_. True)"
  unfolding facts_fetch_def activity_fetch_def
  by (intro runs_bind [OF runs_lift_keeps] runs_bind [OF runs_query] runs_returnA; simp)+

lemma notifications_for_facts_keeps:
  assumes "\<And>x t. runs (reads_of db) (body x t) (\<lambda>_. reads_of db) (\<lambda>_. True)"
  shows "runs (reads_of db) (notifications_for_facts fuel due observed batch body facts t) (\<lambda>_. reads_of db) (\<lambda>_. True)"
proof -
  have step: "runs (reads_of db) ((if p then body x else returnA) t) (\<lambda>_. reads_of db) (\<lambda>_. True)" for p x t
    using assms by (simp add: runs_returnA)
  have acts: "runs (reads_of db) (activities_for fuel facts since observed batch
        (\<lambda>a. if p a then body (g a) else returnA) t) (\<lambda>_. reads_of db) (\<lambda>_. True)" for since p g
    unfolding activities_for_def
    by (intro runs_if runs_returnA page_loop_keeps fetches_keep(2) step)
  have lifted: "runs (reads_of db) (bindA (liftE r) (\<lambda>since. activities_for fuel facts since observed batch
        (\<lambda>a. if p a then body (g a) else returnA) t)) (\<lambda>_. reads_of db) (\<lambda>_. True)" for r p g
    by (intro runs_bind [OF runs_lift_keeps] acts)
  have facts: "runs (reads_of db) (for_each facts (\<lambda>f. body (receipt_reminder_notification due (rf_user_id f) None)) t)
      (\<lambda>_. reads_of db) (\<lambda>_. True)"
    by (rule for_each_keeps) (simp_all add: assms)
  show ?thesis
    by (cases "sr_target_kind (du_rule due)")
      (simp_all add: notifications_for_facts_def Let_def runs_returnA facts lifted del: matches_receipt_activity.simps)
qed

lemma activities_for_run:
  assumes "reads_of db s" and "owner_keys db" and "1 \<le> batch" and "length facts < fuel"
    and body: "\<And>x t. runs (reads_of db) (body x t) (\<lambda>_. reads_of db) (\<lambda>_. True)"
  shows "activities_for fuel facts since observed batch body t s =
    for_each (user_activities (map rf_user_id facts) since observed db) body t s"
proof (cases "facts = []")
  case True
  then show ?thesis by (simp add: activities_for_def user_activities_def List.map_filter_simps)
next
  case False
  let ?rows = "user_activities (map rf_user_id facts) since observed db"
  have fetch: "activity_fetch facts since observed batch c s' =
      (Inr (take (nat batch) (activity_pages.rest ?rows c),
            Inr (activity_pages.follows (nat batch) (activity_pages.rest ?rows c))), s')" if s': "reads_of db s'" for c s'
  proof -
    obtain q where q: "mk_activity_query (map rf_user_id facts) batch since observed c = Inr q"
      using assms(3) by (simp add: mk_activity_query_def)
    have ok: "\<not> tx_failed s'" using s' by (simp add: reads_of_def)
    note page = activity_page [OF q, of "working s'", unfolded same_rows(3) [OF s'] Let_def]
    show ?thesis
      by (cases "activity_pages.follows (nat batch) (activity_pages.rest ?rows c)")
        (simp_all add: activity_fetch_def q bind_pure session_bind ok page returnA_def)
  qed
  have bound: "length (List.map_filter f xs) \<le> length xs" for f :: "uuid \<Rightarrow> receipt_activity option" and xs
    by (induction xs) (auto simp: List.map_filter_simps split: option.split)
  have "length ?rows \<le> length (remdups (sort (map rf_user_id facts)))" unfolding user_activities_def by (rule bound)
  also have "\<dots> \<le> length (sort (map rf_user_id facts))" by (rule length_remdups_leq)
  finally have len: "length (activity_pages.rest ?rows None) < fuel"
    using assms(4) by (simp add: activity_pages.rest_def)
  have "page_loop fuel (activity_fetch facts since observed batch) body None t s =
      for_each (concat (map (\<lambda>x. x) (chunks (nat batch) (activity_pages.rest ?rows None)))) body t s"
    by (rule activity_pages.page_loop_chunks [where P = "reads_of db"])
      (simp_all add: fetch assms(1) body strictly_sorted_rows(3) [OF assms(2)] len less_le_trans [OF zero_less_one assms(3)])
  then show ?thesis using False by (simp add: activities_for_def concat_chunks activity_pages.rest_def)
qed

lemma notifications_for_facts_run:
  assumes "reads_of db s" and "owner_keys db" and "searchable due" and "1 \<le> batch" and "length facts < fuel"
    and body: "\<And>x t. runs (reads_of db) (body x t) (\<lambda>_. reads_of db) (\<lambda>_. True)"
  shows "notifications_for_facts fuel due (observation_cutoff_for due) batch body facts t s =
    for_each (fact_candidates due db facts) body t s"
proof -
  have acts: "activities_for fuel facts since observed batch (\<lambda>a. if p a then body (g a) else returnA) t s =
      for_each (map g (filter p (user_activities (map rf_user_id facts) since observed db))) body t s" for since observed p g
    using activities_for_run [OF assms(1,2,4,5), where body = "\<lambda>a. if p a then body (g a) else returnA"] body
    by (simp add: runs_returnA for_each_filter)
  show ?thesis
  proof (cases "sr_target_kind (du_rule due)")
    case ENGAGEMENT_ALL_USER
    then show ?thesis by (simp add: notifications_for_facts_def fact_candidates_def for_each_concat_map)
  qed (use assms(3) acts in \<open>auto simp: notifications_for_facts_def fact_candidates_def searchable_def activity_since_def bind_pure\<close>)
qed

lemma reminder_notifications_run:
  assumes "reads_of db s" and "owner_keys db" and "searchable due" and "sr_target_kind (du_rule due) \<noteq> WARRANTY_RECEIPT"
    and "1 \<le> dm_batch_size cmd" and "length (user_rows db) < fuel"
    and body: "\<And>x t. runs (reads_of db) (body x t) (\<lambda>_. reads_of db) (\<lambda>_. True)"
  shows "reminder_notifications fuel due cmd body t s = for_each (paged_candidates (nat (dm_batch_size cmd)) due db) body t s"
proof -
  let ?cutoff = "observation_cutoff_for due" and ?n = "nat (dm_batch_size cmd)"
  let ?rows = "registered_rows ?cutoff db"
  let ?pages = "chunks ?n ?rows"
  have fetch: "facts_fetch due ?cutoff (dm_batch_size cmd) c s' =
      (Inr ([filter (due_fact due) (map fact_of (take ?n (user_pages.rest ?rows c)))],
            Inr (user_pages.follows ?n (user_pages.rest ?rows c))), s')" if s': "reads_of db s'" for c s'
  proof -
    obtain q where q: "mk_facts_query (dm_batch_size cmd) ?cutoff c None = Inr q"
      using assms(5) by (simp add: mk_facts_query_def)
    have ok: "\<not> tx_failed s'" using s' by (simp add: reads_of_def)
    note page = list_facts_page [OF q, of "working s'", unfolded same_rows(2) [OF s'] Let_def]
    show ?thesis by (simp add: facts_fetch_def q bind_pure session_bind ok page returnA_def)
  qed
  have small: "length ?rows \<le> length (user_rows db)" by (simp add: registered_rows_def)
  then have len: "length (user_pages.rest ?rows None) < fuel" using assms(6) by (simp add: user_pages.rest_def)
  have "reminder_notifications fuel due cmd body t s =
      for_each (concat (map (\<lambda>p. [filter (due_fact due) (map fact_of p)]) (chunks ?n (user_pages.rest ?rows None))))
        (notifications_for_facts fuel due ?cutoff (dm_batch_size cmd) body) t s"
    unfolding reminder_notifications_def
    by (rule user_pages.page_loop_chunks [where P = "reads_of db"])
      (simp_all add: fetch assms(1) notifications_for_facts_keeps [OF body] strictly_sorted_rows(2) [OF assms(2)] len
        less_le_trans [OF zero_less_one assms(5)])
  also have "\<dots> = for_each (map (\<lambda>p. filter (due_fact due) (map fact_of p)) ?pages)
        (notifications_for_facts fuel due ?cutoff (dm_batch_size cmd) body) t s"
    by (simp add: user_pages.rest_def concat_map_singleton)
  also have "\<dots> = for_each (concat (map (fact_candidates due db) (map (\<lambda>p. filter (due_fact due) (map fact_of p)) ?pages))) body t s"
  proof (rule for_each_flat [where P = "reads_of db"])
    fix facts t and s' :: "'a notification_db_scheme session"
    assume "facts \<in> set (map (\<lambda>p. filter (due_fact due) (map fact_of p)) ?pages)" and s': "reads_of db s'"
    then obtain p where p: "p \<in> set ?pages" "facts = filter (due_fact due) (map fact_of p)" by auto
    have "length p \<le> length (concat ?pages)"
      using p(1) by (simp add: length_concat member_le_sum_list)
    moreover have "length facts \<le> length p" unfolding p(2) by (simp add: filter_map)
    ultimately have "length facts < fuel" using small assms(6) by (simp add: concat_chunks)
    then show "notifications_for_facts fuel due ?cutoff (dm_batch_size cmd) body facts t s' =
        for_each (fact_candidates due db facts) body t s'"
      by (rule notifications_for_facts_run [OF s' assms(2,3,5)]) (rule body)
  qed (use body assms(1) in simp_all)
  finally show ?thesis using assms(4) by (simp add: paged_candidates_def user_candidates_def [abs_def] comp_def)
qed

section \<open>The page size does not matter\<close>

lemma due_notifications_run:
  assumes "reads_of db s" and "owner_keys db" and "searchable due" and "1 \<le> dm_batch_size cmd"
    and "length (receipt_rows db) < fuel" and "length (user_rows db) < fuel"
    and "\<And>x t. runs (reads_of db) (body x t) (\<lambda>_. reads_of db) (\<lambda>_. True)"
  shows "due_notifications fuel due cmd body t s = for_each (paged_candidates (nat (dm_batch_size cmd)) due db) body t s"
  using warranty_notifications_run [OF assms(1-3) _ assms(4,5,7)] reminder_notifications_run [OF assms(1-3) _ assms(4,6,7)]
  by (cases "sr_target_kind (du_rule due)") (simp_all add: due_notifications_def paged_candidates_def)

lemma mset_user_activities:
  "distinct us \<Longrightarrow> mset (user_activities us since observed db) =
     mset (List.map_filter (\<lambda>u. receipt_activity_of u (activity_aggregate observed db u) since) us)"
proof -
  assume "distinct us"
  then have "remdups (sort us) = sort us" by simp
  then have "mset (remdups (sort us)) = mset (sort us)" by (rule arg_cong)
  then show ?thesis
    unfolding user_activities_def List.map_filter_def by (simp only: mset_map mset_filter mset_sort)
qed

lemma user_candidates_append:
  assumes "distinct (map ur_id (xs @ ys))"
  shows "mset (user_candidates due db (xs @ ys)) = mset (user_candidates due db xs) + mset (user_candidates due db ys)"
proof -
  let ?ids = "\<lambda>rows. map rf_user_id (filter (due_fact due) (map fact_of rows))"
  have ids: "?ids rows = map ur_id (filter (due_fact due \<circ> fact_of) rows)" for rows
    by (simp add: filter_map comp_def fact_of_def)
  have "distinct (map ur_id (filter (due_fact due \<circ> fact_of) (xs @ ys)))"
    using assms by (simp only: distinct_map_filter)
  then have "distinct (?ids (xs @ ys))" "distinct (?ids xs)" "distinct (?ids ys)"
    unfolding ids by simp_all
  note acts = this [THEN mset_user_activities]
  have "mset (user_activities (?ids (xs @ ys)) since observed db) =
      mset (user_activities (?ids xs) since observed db) + mset (user_activities (?ids ys) since observed db)" for since observed
    unfolding acts by (simp add: List.map_filter_def)
  then show ?thesis
    by (cases "sr_target_kind (du_rule due)") (simp_all add: user_candidates_def fact_candidates_def Let_def del: filter_append map_append)
qed

lemma user_candidates_concat:
  "distinct (map ur_id (concat xss)) \<Longrightarrow>
   mset (concat (map (user_candidates due db) xss)) = mset (user_candidates due db (concat xss))"
proof (induction xss)
  case Nil
  show ?case
    by (cases "sr_target_kind (du_rule due)")
      (simp_all add: user_candidates_def fact_candidates_def user_activities_def List.map_filter_simps)
next
  case (Cons xs xss)
  then show ?case using user_candidates_append [of xs "concat xss" due db] by simp
qed

lemma paged_candidates_mset:
  assumes "owner_keys db"
  shows "mset (paged_candidates n due db) = mset (due_candidates due db)"
proof -
  let ?rows = "registered_rows (observation_cutoff_for due) db"
  have "distinct (map ur_id (filter (\<lambda>r. ur_created_at r < observation_cutoff_for due) (user_rows db)))"
    using assms by (simp add: owner_keys_def distinct_map_filter)
  then have "distinct (map ur_id ?rows)" by (simp add: registered_rows_def distinct_map)
  then show ?thesis
    using user_candidates_concat [of "chunks n ?rows" due db] by (simp add: paged_candidates_def due_candidates_def concat_chunks)
qed

text \<open>C23. While users and receipts stay as they are, the scheduler's generators run their body once for each
  notification that is due - every matching receipt, or every user whose cadence and receipt
  activity match - and for no other, whatever the page size; only the order may depend on it. The
  loops end: one round per row is enough.\<close>

theorem due_notifications_enumerated:
  assumes "owner_keys db" and "searchable due" and "1 \<le> dm_batch_size cmd" and "reads_of db s"
    and "length (receipt_rows db) < fuel" and "length (user_rows db) < fuel"
    and "\<forall>n t. runs (reads_of db) (body n t) (\<lambda>_. reads_of db) (\<lambda>_. True)"
  shows "\<exists>ns. mset ns = mset (due_candidates due db) \<and> due_notifications fuel due cmd body t s = for_each ns body t s"
proof (intro exI conjI)
  show "mset (paged_candidates (nat (dm_batch_size cmd)) due db) = mset (due_candidates due db)"
    by (rule paged_candidates_mset [OF assms(1)])
  show "due_notifications fuel due cmd body t s = for_each (paged_candidates (nat (dm_batch_size cmd)) due db) body t s"
    by (rule due_notifications_run [OF assms(4,1-3,5,6)]) (use assms(7) in blast)
qed

section \<open>Dry runs\<close>

lemma dry_run_totals:
  "for_each ns (\<lambda>n t. returnA (totals_add t DryRunAction)) t s = (Inr (t\<lparr>rt_candidates := rt_candidates t + length ns\<rparr>), s)"
  by (induction ns arbitrary: t) (simp_all add: returnA_def bindA_def)

text \<open>C37. A dry run of a rule counts exactly the notifications that are due, whatever the page size, creates
  nothing, and leaves the session as it was.\<close>

theorem dry_run_counts_due_notifications:
  assumes "owner_keys db" and "searchable due" and "1 \<le> dm_batch_size cmd" and "dm_dry_run cmd"
    and "length (receipt_rows db) < fuel" and "length (user_rows db) < fuel"
  shows "create_for_rule fuel envs cmd due (open_session db) =
    (Inr \<lparr>rsu_campaign_key = sr_campaign_key (du_rule due), rsu_candidates = length (due_candidates due db),
          rsu_created = 0, rsu_skipped = 0, rsu_failed = 0\<rparr>, open_session db)"
proof -
  have s: "reads_of db (open_session db)" by (simp add: reads_of_def)
  have body: "(\<lambda>n t. bindA (create_due_notification (envs (rt_candidates t)) cmd n) (\<lambda>a. returnA (totals_add t a))) =
      (\<lambda>n t. returnA (totals_add t DryRunAction))"
    using assms(4) by (intro ext) (simp add: create_due_notification_def bind_pure)
  have "length (paged_candidates (nat (dm_batch_size cmd)) due db) = length (due_candidates due db)"
    using paged_candidates_mset [OF assms(1)] by (rule mset_eq_length)
  moreover have "due_notifications fuel due cmd (\<lambda>n t. returnA (totals_add t DryRunAction)) no_totals (open_session db) =
      for_each (paged_candidates (nat (dm_batch_size cmd)) due db) (\<lambda>n t. returnA (totals_add t DryRunAction)) no_totals (open_session db)"
    by (rule due_notifications_run [OF s assms(1-3,5,6)]) (simp add: runs_returnA)
  ultimately show ?thesis
    by (simp add: create_for_rule_def body bindA_def dry_run_totals returnA_def no_totals_def del: totals_add.simps)
qed

end
