(* ===== verification/Push_Notifications.thy ===== *)
theory Push_Notifications
  imports Due_Delivery
begin

text \<open>
  The remaining use cases of \<open>app/modules/notifications/application\<close> - reading, deleting and listing
  notifications, settings, device tokens, the stale token job - and the push that follows a
  created notification: \<open>send_notification_push\<close>, the FCM sender
  (\<open>infrastructure/fcm/push_sender.py\<close>) and the event handler (\<open>push_dependencies.py\<close>).
\<close>

section \<open>Notifications of a user\<close>

definition mark_notification_read ::
    "settings_rival \<Rightarrow> settings_rival \<Rightarrow> 'z rival \<Rightarrow> datetime \<Rightarrow> uuid \<Rightarrow> uuid \<Rightarrow> ('z, notification_result) notify_action" where
  "mark_notification_read rival_insert rival_lock rival now user_id notification_id =
     bindA (repo_get_settings_for_update rival_insert rival_lock user_id) (\<lambda>_.
     bindA (repo_mark_read rival notification_id user_id now) (\<lambda>notification.
     case notification of
       None \<Rightarrow> raiseA (NotFoundError ''notification_not_found'')
     | Some u \<Rightarrow> bindA notify_commit (\<lambda>_. returnA (result_from_notification u))))"

definition delete_notification :: "'z rival \<Rightarrow> uuid \<Rightarrow> uuid \<Rightarrow> ('z, unit) notify_action" where
  "delete_notification rival user_id notification_id =
     bindA (repo_delete_by_id_for_user rival notification_id user_id) (\<lambda>deleted.
     if \<not> deleted then raiseA (NotFoundError ''notification_not_found'') else notify_commit)"

definition parse_notification_cursor :: "ustr option \<Rightarrow> exn + cursor option" where
  "parse_notification_cursor cursor =
     (case cursor of
        None \<Rightarrow> Inr None
      | Some s \<Rightarrow>
          (case split_on 124 s of
             [d, i] \<Rightarrow>
               (case (fromisoformat (str_replace d [90] utc_suffix), uuid_parse i) of
                  (Some t, Some u) \<Rightarrow> Inr (Some (t, u))
                | _ \<Rightarrow> Inl InvalidNotificationCursorError)
           | _ \<Rightarrow> Inl InvalidNotificationCursorError))"

record notification_page =
  np_notifications :: "notification_result list"
  np_next_cursor :: "ustr option"
  np_has_next :: bool
  np_limit :: nat
  np_total_count :: nat

definition next_notification_cursor :: "notification_result list \<Rightarrow> ustr option" where
  "next_notification_cursor items =
     (if items = [] then None
      else Some (cursor_text (nres_created_at (last items)) (nres_notification_id (last items))))"

definition list_notifications ::
    "uuid \<Rightarrow> ustr option \<Rightarrow> nat \<Rightarrow> 'z notification_db_scheme \<Rightarrow> exn + notification_page" where
  "list_notifications user_id cursor limit db =
     bindE (parse_notification_cursor cursor) (\<lambda>c.
     bindE (repo_list_by_user user_id c limit db) (\<lambda>res.
     let items = map result_from_notification (nl_notifications res)
     in Inr \<lparr>np_notifications = items,
             np_next_cursor = (if nl_has_next res then next_notification_cursor items else None),
             np_has_next = nl_has_next res, np_limit = limit, np_total_count = nl_total_count res\<rparr>))"

section \<open>Settings and devices\<close>

definition get_notification_settings :: "uuid \<Rightarrow> ('z, bool \<times> bool) notify_action" where
  "get_notification_settings user_id =
     bindA (repo_get_settings user_id) (\<lambda>settings. returnA (ns_push_enabled settings, ns_marketing_consent settings))"

definition update_notification_settings ::
    "('z, unit) notify_action \<Rightarrow> settings_rival \<Rightarrow> uuid \<Rightarrow> bool option \<Rightarrow> bool option \<Rightarrow>
     ('z, bool \<times> bool) notify_action" where
  "update_notification_settings uow_commit rival user_id push_enabled marketing_consent =
     bindA (repo_update_settings rival user_id push_enabled marketing_consent) (\<lambda>settings.
     bindA uow_commit (\<lambda>_.
     returnA (ns_push_enabled settings, ns_marketing_consent settings)))"

text \<open>The token of the aggregate that is created first is only validated; the row is the database's.\<close>

definition register_device_token ::
    "'z rival \<Rightarrow> uuid \<Rightarrow> datetime \<Rightarrow> datetime \<Rightarrow> uuid \<Rightarrow> ustr \<Rightarrow> device_platform \<Rightarrow> ('z, user_push_token) notify_action" where
  "register_device_token rival fresh now db_now user_id token platform =
     bindA (liftE (create_push_token fresh None user_id token platform now now)) (\<lambda>_.
     bindA (repo_register_token rival fresh db_now user_id token platform) (\<lambda>saved.
     bindA notify_commit (\<lambda>_.
     returnA saved)))"

definition unregister_device_token :: "uuid \<Rightarrow> ustr \<Rightarrow> ('z, unit) notify_action" where
  "unregister_device_token user_id token = bindA (repo_unregister_token user_id token) (\<lambda>_. notify_commit)"

definition delete_user_push_tokens :: "('z, unit) notify_action \<Rightarrow> uuid \<Rightarrow> ('z, unit) notify_action" where
  "delete_user_push_tokens uow_commit user_id = bindA (repo_delete_tokens_of_user user_id) (\<lambda>_. uow_commit)"

definition delete_stale_push_tokens :: "datetime \<Rightarrow> ('z, nat) notify_action" where
  "delete_stale_push_tokens older_than =
     bindA (repo_delete_stale older_than) (\<lambda>n. bindA notify_commit (\<lambda>_. returnA n))"

text \<open>The job \<open>jobs/cleanup_stale_tokens.py\<close>.\<close>

definition cleanup_stale_tokens :: "int \<Rightarrow> datetime \<Rightarrow> ('z, nat) notify_action" where
  "cleanup_stale_tokens stale_days now = delete_stale_push_tokens (now - stale_days * day_us)"

section \<open>Pushing\<close>

record push_command =
  pcm_user_id :: uuid
  pcm_notification_id :: uuid
  pcm_message_type :: message_type
  pcm_kind :: ustr
  pcm_title :: ustr
  pcm_message :: ustr
  pcm_resource_type :: "ustr option"
  pcm_resource_id :: "uuid option"
  pcm_category :: notification_category

record push_message =
  pmsg_title :: ustr
  pmsg_body :: ustr
  pmsg_data :: "(ustr \<times> ustr) list"

definition legacy_scheduler_kind_aliases :: "(ustr \<times> ustr) list" where
  "legacy_scheduler_kind_aliases =
     [(ascii ''warranty'', ascii ''warranty_expiry''),
      (ascii ''engagement_unregistered_receipt'', ascii ''receipt_registration_reminder''),
      (ascii ''engagement_inactive_receipt'', ascii ''receipt_inactivity_reminder''),
      (ascii ''engagement_all_user'', ascii ''receipt_analysis_reminder'')]"

definition push_data :: "push_command \<Rightarrow> notification_category \<Rightarrow> (ustr \<times> ustr) list" where
  "push_data cmd category =
     [(ascii ''notificationId'', uuid_str (pcm_notification_id cmd)),
      (ascii ''category'', ascii (category_value category)),
      (ascii ''messageType'', ascii (message_type_value (pcm_message_type cmd))),
      (ascii ''kind'', case map_of legacy_scheduler_kind_aliases (pcm_kind cmd) of Some k \<Rightarrow> k | None \<Rightarrow> pcm_kind cmd)] @
     (case pcm_resource_type cmd of None \<Rightarrow> [] | Some t \<Rightarrow> [(ascii ''resourceType'', t)]) @
     (case pcm_resource_id cmd of None \<Rightarrow> [] | Some i \<Rightarrow> [(ascii ''resourceId'', uuid_str i)])"

text \<open>
  A sender takes tokens and a message and reports the tokens that are dead. Firebase is a
  parameter: \<open>messaging.send_each\<close> raises or answers once per message.
\<close>

type_synonym push_sender = "user_push_token list \<Rightarrow> push_message \<Rightarrow> exn + ustr list"

datatype fcm_response = FcmSent | FcmUnregistered | FcmSenderIdMismatch | FcmOtherError
datatype fcm_failure = FirebaseError | OtherFcmFailure exn

type_synonym fcm = "user_push_token list \<Rightarrow> push_message \<Rightarrow> fcm_failure + fcm_response list"

definition disabled_push_sender :: push_sender where
  "disabled_push_sender tokens message = Inr []"

definition dead_registration :: "fcm_response \<Rightarrow> bool" where
  "dead_registration r \<longleftrightarrow> r = FcmUnregistered \<or> r = FcmSenderIdMismatch"

function batched :: "nat \<Rightarrow> 'a list \<Rightarrow> 'a list list" where
  "batched n xs = (if n = 0 \<or> xs = [] then [] else take n xs # batched n (drop n xs))"
  by pat_completeness auto
termination by (relation "measure (\<lambda>(n, xs). length xs)") auto

declare batched.simps [simp del]

fun send_chunks :: "fcm \<Rightarrow> push_message \<Rightarrow> user_push_token list list \<Rightarrow> exn + ustr list" where
  "send_chunks fcm message [] = Inr []"
| "send_chunks fcm message (chunk # more_chunks) =
     (case fcm chunk message of
        Inl FirebaseError \<Rightarrow> Inl ExternalServiceError
      | Inl (OtherFcmFailure e) \<Rightarrow> Inl e
      | Inr responses \<Rightarrow>
          if length responses \<noteq> length chunk then Inl PyValueError
          else bindE (send_chunks fcm message more_chunks) (\<lambda>more.
               Inr (map (\<lambda>(t, r). token_text (pt_token t)) (filter (\<lambda>(t, r). dead_registration r) (zip chunk responses)) @ more)))"

definition fcm_push_sender :: "fcm \<Rightarrow> push_sender" where
  "fcm_push_sender fcm tokens message = send_chunks fcm message (batched 500 tokens)"

definition send_notification_push :: "push_sender \<Rightarrow> 'z rival \<Rightarrow> push_command \<Rightarrow> ('z, unit) notify_action" where
  "send_notification_push sender rival cmd =
     catchA
       (bindA (repo_find_by_id_for_user (pcm_notification_id cmd) (pcm_user_id cmd)) (\<lambda>notification.
        case notification of
          None \<Rightarrow> returnA ()
        | Some u \<Rightarrow>
            bindA (repo_get_settings (pcm_user_id cmd)) (\<lambda>settings.
            if \<not> ns_push_enabled settings then returnA ()
            else if pcm_message_type cmd = MARKETING \<and> \<not> ns_marketing_consent settings then returnA ()
            else
              bindA (repo_list_tokens (pcm_user_id cmd)) (\<lambda>tokens.
              if tokens = [] then returnA ()
              else
                bindA sqlalchemy_rollback (\<lambda>_.
                bindA (liftE (sender tokens \<lparr>pmsg_title = pcm_title cmd, pmsg_body = pcm_message cmd,
                                 pmsg_data = push_data cmd (un_category u)\<rparr>)) (\<lambda>invalid.
                bindA (interfere rival) (\<lambda>_.
                if invalid = [] then returnA ()
                else bindA (repo_delete_by_tokens invalid) (\<lambda>_. notify_commit))))))))
       (\<lambda>_. returnA ())"

definition push_command_of :: "event_body \<Rightarrow> push_command option" where
  "push_command_of b =
     (case b of
        NotificationCreated i u m k t msg rt ri c \<Rightarrow>
          Some \<lparr>pcm_user_id = u, pcm_notification_id = i, pcm_message_type = m, pcm_kind = k, pcm_title = t,
                pcm_message = msg, pcm_resource_type = rt, pcm_resource_id = ri, pcm_category = c\<rparr>
      | _ \<Rightarrow> None)"

section \<open>What a push does\<close>

text \<open>What the sender is given, if anything: the specification of the guards.\<close>

definition push_tokens_for :: "push_command \<Rightarrow> 'z notification_db_scheme \<Rightarrow> (user_push_token list \<times> push_message) option" where
  "push_tokens_for cmd db =
     (case find_record_by_id_for_user (pcm_notification_id cmd) (pcm_user_id cmd) db of
        None \<Rightarrow> None
      | Some r \<Rightarrow>
          (case notification_to_domain r of
             Inl _ \<Rightarrow> None
           | Inr u \<Rightarrow>
               let settings = (case find_settings (pcm_user_id cmd) db of None \<Rightarrow> default_settings (pcm_user_id cmd) | Some r \<Rightarrow> settings_to_domain r)
               in if ns_push_enabled settings \<and> (pcm_message_type cmd = MARKETING \<longrightarrow> ns_marketing_consent settings)
                  then (case traverse push_token_to_domain
                          (sort_key (\<lambda>r. (tk_created_at r, tk_id r)) (filter (\<lambda>r. tk_user_id r = pcm_user_id cmd) (token_rows db))) of
                          Inr (t # ts) \<Rightarrow> Some (t # ts, \<lparr>pmsg_title = pcm_title cmd, pmsg_body = pcm_message cmd,
                                                      pmsg_data = push_data cmd (un_category u)\<rparr>)
                        | _ \<Rightarrow> None)
                  else None))"

definition push_outcome :: "push_sender \<Rightarrow> 'z rival \<Rightarrow> push_command \<Rightarrow> 'z rival" where
  "push_outcome sender rival cmd db =
     (case push_tokens_for cmd db of
        None \<Rightarrow> db
      | Some (tokens, message) \<Rightarrow>
          (case sender tokens message of
             Inl _ \<Rightarrow> db
           | Inr invalid \<Rightarrow> map_tokens (filter (\<lambda>r. tk_token r \<notin> set invalid)) (rival db)))"

lemma tables_ok_map_tokens:
  "notification_tables_ok db \<Longrightarrow> notification_tables_ok (map_tokens (filter p) db)"
  by (auto simp: notification_tables_ok_def map_tokens_def distinct_map_filter)

lemma map_tokens_all: "map_tokens (filter (\<lambda>r. True)) db = db"
  by (simp add: map_tokens_def)

lemma catch_all: "catchA m (\<lambda>_. returnA ()) s = (Inr (), snd (m s))" for m :: "('z, unit) notify_action"
  by (simp add: catchA_def returnA_def split: prod.split sum.split)

lemma push_run:
  assumes "notification_tables_ok (rival db)"
  shows "fst (send_notification_push sender rival cmd (open_session db)) = Inr ()"
    and "committed (snd (send_notification_push sender rival cmd (open_session db))) = push_outcome sender rival cmd db"
proof -
  show "fst (send_notification_push sender rival cmd (open_session db)) = Inr ()"
    by (simp add: send_notification_push_def catch_all)
  have clean: "\<not> tx_failed (open_session db)" by simp
  note steps = repo_find_by_id_for_user_def repo_get_settings_def repo_list_tokens_def bind_assoc session_bind clean bind_pure
  have delete: "bindA (repo_delete_by_tokens invalid) (\<lambda>_. notify_commit) (open_session (rival db)) =
      (Inr (), open_session (map_tokens (filter (\<lambda>r. tk_token r \<notin> set invalid)) (rival db)))" if "invalid \<noteq> []" for invalid
    using that tables_ok_map_tokens [OF assms]
    by (simp add: repo_delete_by_tokens_def delete_tokens_def bind_assoc session_bind bind_flush_ok commit_ok open_session_def)
  have other: "interfere rival (open_session db) = (Inr (), open_session (rival db))"
    by (simp add: interfere_def modifyA_def open_session_def)
  have rolled: "bindA sqlalchemy_rollback k (open_session db) = k () (open_session db)" for k :: "unit \<Rightarrow> ('a, 'b) notify_action"
    by (simp add: sqlalchemy_rollback_def session_bind open_session_def)
  have send: "committed (snd (bindA (liftE (sender ts msg)) (\<lambda>invalid. bindA (interfere rival) (\<lambda>_.
          if invalid = [] then returnA () else bindA (repo_delete_by_tokens invalid) (\<lambda>_. notify_commit))) (open_session db))) =
      (case sender ts msg of Inl _ \<Rightarrow> db | Inr invalid \<Rightarrow> map_tokens (filter (\<lambda>r. tk_token r \<notin> set invalid)) (rival db))" for ts msg
  proof (cases "sender ts msg")
    case (Inr invalid)
    then show ?thesis
      by (cases "invalid = []") (simp_all add: bind_pure bindA_def [of "interfere rival"] other returnA_def delete map_tokens_all)
  qed (simp add: bind_pure raiseA_def)
  let ?user = "pcm_user_id cmd"
  let ?settings = "case find_settings ?user db of None \<Rightarrow> default_settings ?user | Some r \<Rightarrow> settings_to_domain r"
  let ?tokens = "traverse push_token_to_domain (sort_key (\<lambda>r. (tk_created_at r, tk_id r)) (filter (\<lambda>r. tk_user_id r = ?user) (token_rows db)))"
  let ?msg = "\<lambda>u. \<lparr>pmsg_title = pcm_title cmd, pmsg_body = pcm_message cmd, pmsg_data = push_data cmd (un_category u)\<rparr>"
  show "committed (snd (send_notification_push sender rival cmd (open_session db))) = push_outcome sender rival cmd db"
  proof (cases "find_record_by_id_for_user (pcm_notification_id cmd) ?user db")
    case None
    then show ?thesis
      by (simp add: send_notification_push_def catch_all push_outcome_def push_tokens_for_def steps returnA_def)
  next
    case found: (Some r)
    show ?thesis
    proof (cases "notification_to_domain r")
      case (Inl e)
      then show ?thesis using found
        by (simp add: send_notification_push_def catch_all push_outcome_def push_tokens_for_def steps raiseA_def)
    next
      case domain: (Inr u)
      show ?thesis
      proof (cases "ns_push_enabled ?settings \<and> (pcm_message_type cmd = MARKETING \<longrightarrow> ns_marketing_consent ?settings)")
        case False
        then show ?thesis using found domain
          by (simp add: send_notification_push_def catch_all push_outcome_def push_tokens_for_def steps Let_def)
            (auto simp: returnA_def)
      next
        case True
        then have guards: "(\<not> ns_push_enabled ?settings) = False"
          "(pcm_message_type cmd = MARKETING \<and> \<not> ns_marketing_consent ?settings) = False" by auto
        have run: "snd (send_notification_push sender rival cmd (open_session db)) =
            snd (bindA (liftE ?tokens) (\<lambda>tokens. if tokens = [] then returnA () else
              bindA sqlalchemy_rollback (\<lambda>_. bindA (liftE (sender tokens (?msg u))) (\<lambda>invalid. bindA (interfere rival) (\<lambda>_.
                if invalid = [] then returnA () else bindA (repo_delete_by_tokens invalid) (\<lambda>_. notify_commit))))) (open_session db))"
          unfolding send_notification_push_def catch_all snd_conv
          by (simp add: steps found domain guards del: option.case_eq_if)
        have outcome: "push_tokens_for cmd db = (case ?tokens of Inr (t # ts) \<Rightarrow> Some (t # ts, ?msg u) | _ \<Rightarrow> None)"
          using True by (simp add: push_tokens_for_def found domain Let_def)
        show ?thesis
        proof (cases ?tokens)
          case (Inl e)
          then show ?thesis by (simp add: run push_outcome_def outcome bind_pure raiseA_def)
        next
          case (Inr ts)
          then show ?thesis by (cases ts) (simp_all add: run push_outcome_def outcome bind_pure returnA_def rolled send)
        qed
      qed
    qed
  qed
qed

text \<open>FCM is given every token once, at most 500 at a time.\<close>

lemma concat_batched: "0 < n \<Longrightarrow> concat (batched n xs) = xs"
  by (induction n xs rule: batched.induct) (subst batched.simps, simp)

lemma batched_length: "chunk \<in> set (batched n xs) \<Longrightarrow> length chunk \<le> n"
proof (induction n xs rule: batched.induct)
  case (1 n xs)
  then show ?case by (subst (asm) (2) batched.simps) (auto split: if_splits)
qed

text \<open>
  What the answers of FCM say of a token: \<open>UnregisteredError\<close> or \<open>SenderIdMismatchError\<close> at its place in the
  answer to its batch. Batches that raise, or whose answer has another length, end the sending.
\<close>

definition declared_dead_in :: "fcm \<Rightarrow> push_message \<Rightarrow> user_push_token list \<Rightarrow> ustr \<Rightarrow> bool" where
  "declared_dead_in fcm message chunk token \<longleftrightarrow>
     (\<exists>answers i. fcm chunk message = Inr answers \<and> i < length chunk \<and> token_text (pt_token (chunk ! i)) = token \<and>
        answers ! i \<in> {FcmUnregistered, FcmSenderIdMismatch})"

definition declared_dead :: "fcm \<Rightarrow> push_message \<Rightarrow> user_push_token list \<Rightarrow> ustr \<Rightarrow> bool" where
  "declared_dead fcm message tokens token \<longleftrightarrow>
     (\<exists>chunk \<in> set (batched 500 tokens). declared_dead_in fcm message chunk token)"

definition answered :: "fcm \<Rightarrow> push_message \<Rightarrow> user_push_token list \<Rightarrow> bool" where
  "answered fcm message tokens \<longleftrightarrow>
     (\<forall>chunk \<in> set (batched 500 tokens). \<exists>answers. fcm chunk message = Inr answers \<and> length answers = length chunk)"

lemma dead_tokens_of_chunk:
  assumes "length answers = length chunk"
  shows "set (map (\<lambda>(t, r). token_text (pt_token t)) (filter (\<lambda>(t, r). dead_registration r) (zip chunk answers))) =
    {token. \<exists>i < length chunk. token_text (pt_token (chunk ! i)) = token \<and> answers ! i \<in> {FcmUnregistered, FcmSenderIdMismatch}}"
  using assms by (auto simp: dead_registration_def set_zip image_iff)

lemma send_chunks_Inr:
  "(\<exists>dead. send_chunks fcm message css = Inr dead) \<longleftrightarrow>
     (\<forall>chunk \<in> set css. \<exists>answers. fcm chunk message = Inr answers \<and> length answers = length chunk)"
  by (induction css) (auto simp: bindE_def split: sum.splits fcm_failure.splits)

lemma send_chunks_reports:
  "send_chunks fcm message css = Inr dead \<Longrightarrow> token \<in> set dead \<longleftrightarrow> (\<exists>chunk \<in> set css. declared_dead_in fcm message chunk token)"
proof (induction css arbitrary: dead)
  case (Cons chunk css)
  then obtain answers more where more: "send_chunks fcm message css = Inr more"
    and ans: "fcm chunk message = Inr answers" "length answers = length chunk"
    and dead: "dead = map (\<lambda>(t, r). token_text (pt_token t)) (filter (\<lambda>(t, r). dead_registration r) (zip chunk answers)) @ more"
    by (auto simp: bindE_Inr split: sum.splits fcm_failure.splits if_splits)
  show ?case
    unfolding dead set_append Un_iff dead_tokens_of_chunk [OF ans(2)] Cons.IH [OF more]
    using ans(1) by (auto simp: declared_dead_in_def)
qed simp

text \<open>The sender returns when every batch was answered, and reports exactly the tokens declared dead.\<close>

lemma fcm_reports:
  "fcm_push_sender fcm tokens message = Inr dead \<Longrightarrow> token \<in> set dead \<longleftrightarrow> declared_dead fcm message tokens token"
  "(\<exists>dead. fcm_push_sender fcm tokens message = Inr dead) \<longleftrightarrow> answered fcm message tokens"
  by (simp_all add: fcm_push_sender_def send_chunks_reports declared_dead_def send_chunks_Inr answered_def)

lemma push_needs_consent:
  assumes "push_tokens_for cmd db = Some a"
  shows "ns_push_enabled (case find_settings (pcm_user_id cmd) db of None \<Rightarrow> default_settings (pcm_user_id cmd) | Some r \<Rightarrow> settings_to_domain r)"
    and "pcm_message_type cmd = MARKETING \<Longrightarrow> marketing_visible (pcm_user_id cmd) db"
proof -
  obtain u where guards: "ns_push_enabled u" "pcm_message_type cmd = MARKETING \<longrightarrow> ns_marketing_consent u"
    and u: "u = (case find_settings (pcm_user_id cmd) db of None \<Rightarrow> default_settings (pcm_user_id cmd) | Some r \<Rightarrow> settings_to_domain r)"
    using assms by (auto simp: push_tokens_for_def Let_def split: option.splits sum.splits if_splits)
  show "ns_push_enabled (case find_settings (pcm_user_id cmd) db of None \<Rightarrow> default_settings (pcm_user_id cmd) | Some r \<Rightarrow> settings_to_domain r)"
    using guards(1) u by simp
  show "marketing_visible (pcm_user_id cmd) db" if "pcm_message_type cmd = MARKETING"
    using guards(2) that u
    by (auto simp: marketing_visible_def exists_row_iff find_settings_def default_settings_def settings_to_domain_def
        split: option.splits dest!: find_SomeD)
qed

text \<open>C28. A push never fails its event: it returns whatever the repository or Firebase does. It changes nothing unless
  the notification is still there, its user has pushes enabled (and consents to marketing if it is such a message) and
  FCM answered for every batch of the user's tokens; then exactly the registrations are removed for which the answer of
  FCM was that they are no longer registered or belong to another sender, and everything others committed meanwhile stays.\<close>

theorem push_is_best_effort:
  assumes "notification_tables_ok (rival db)"
  shows "fst (send_notification_push (fcm_push_sender fcm) rival cmd (open_session db)) = Inr () \<and>
    (case push_tokens_for cmd db of
       None \<Rightarrow> committed (snd (send_notification_push (fcm_push_sender fcm) rival cmd (open_session db))) = db
     | Some (tokens, message) \<Rightarrow>
         (pcm_message_type cmd = TRANSACTIONAL \<or> marketing_visible (pcm_user_id cmd) db) \<and>
         committed (snd (send_notification_push (fcm_push_sender fcm) rival cmd (open_session db))) =
           (if answered fcm message tokens
            then map_tokens (filter (\<lambda>r. \<not> declared_dead fcm message tokens (tk_token r))) (rival db) else db))"
proof (cases "push_tokens_for cmd db")
  case None
  then show ?thesis using push_run [where rival = rival and db = db, OF assms] by (simp add: push_outcome_def)
next
  case (Some a)
  obtain tokens message where a: "a = (tokens, message)" by (cases a)
  have consent: "pcm_message_type cmd = TRANSACTIONAL \<or> marketing_visible (pcm_user_id cmd) db"
    using push_needs_consent(2) [OF Some] by (cases "pcm_message_type cmd") simp_all
  show ?thesis
  proof (cases "fcm_push_sender fcm tokens message")
    case (Inl e)
    then have "\<not> answered fcm message tokens" using fcm_reports(2) [of fcm tokens message] by simp
    then show ?thesis
      using push_run [where rival = rival and db = db, OF assms] Some a consent Inl by (simp add: push_outcome_def)
  next
    case (Inr dead)
    then have "answered fcm message tokens" using fcm_reports(2) [of fcm tokens message] by blast
    then show ?thesis
      using push_run [where rival = rival and db = db, OF assms] Some a consent Inr fcm_reports(1) [OF Inr]
      by (simp add: push_outcome_def)
  qed
qed

end
