(* ===== verification/Due_Samples.thy ===== *)
theory Due_Samples
  imports Due_Candidates Push_Notifications
begin

text \<open>A small database of the notifications and their properties at work on it.\<close>

definition sample_owners :: notification_db where
  "sample_owners = \<lparr>outbox_events = [], user_credits = [], credit_transactions = [], promotions = [], promotion_contents = [],
     promotion_codes = [], promotion_redemptions = [],
     user_rows = [\<lparr>ur_id = 1, ur_name = None, ur_nickname = None, ur_email = None, ur_profile_image_url = None,
       ur_created_at = 738000 * day_us, ur_updated_at = 738000 * day_us\<rparr>],
     receipt_rows = [\<lparr>rc_id = 10, rc_user_id = 1, rc_item_name = ascii ''TV'', rc_brand_name = None, rc_serial_number = None,
       rc_payment_location = None, rc_payment_date = date_of_ordinal 738500, rc_total_amount = None, rc_period_months = 12,
       rc_expires_on = date_of_ordinal 739030, rc_category = None, rc_sub_category = None, rc_memo = None,
       rc_requires_physical_receipt = False, rc_created_at = 738500 * day_us, rc_updated_at = 738500 * day_us\<rparr>],
     attachment_rows = [], notification_rows = [], settings_rows = [], token_rows = [], occurrence_rows = [], rule_rows = []\<rparr>"

definition sample_due :: due_rule where
  "sample_due = \<lparr>du_rule = sample_rule, du_target_date = date_of_ordinal 739000\<rparr>"

definition sample_due_command :: "bool \<Rightarrow> int \<Rightarrow> due_command" where
  "sample_due_command dry batch = \<lparr>dm_target_date = None, dm_now = Aware (739001 * day_us), dm_campaign_key = None,
     dm_dry_run = dry, dm_batch_size = batch\<rparr>"

definition sample_env :: "uuid \<Rightarrow> notification_db notify_env" where
  "sample_env i = \<lparr>ne_notification_id = i, ne_now = 739001 * day_us, ne_event_id = i, ne_event_at = 739001 * day_us,
     ne_rival = id, ne_rival_insert = id, ne_rival_lock = id\<rparr>"

definition sample_note :: "ustr \<Rightarrow> due_notification" where
  "sample_note item = warranty_expiry_notification sample_due 1 10 item None"

lemma sample_dates: "date_ordinal (date_of_ordinal 739000) = 739000" "date_ordinal (date_of_ordinal 739030) = 739030"
  using date_of_ordinal_valid [of 739000] date_of_ordinal_valid [of 739030] by simp_all

lemma sample_owners_keys: "owner_keys sample_owners"
  by (simp add: owner_keys_def sample_owners_def)

lemma sample_searchable: "searchable sample_due"
  by (simp add: searchable_def sample_due_def sample_rule_def sample_dates)

lemma sample_candidates: "due_candidates sample_due sample_owners = [sample_note (ascii ''TV'')]"
  by (simp add: due_candidates_def sample_due_def sample_rule_def expiry_day_def sample_dates sample_owners_def
      expiring_rows_def observation_cutoff_for_def seoul_datetime_def day_us_def second_us_def seoul_offset_us_def
      receipt_candidates_def sample_note_def)

theorem dry_run_counts_due_notifications_witness:
  "create_for_rule 2 (\<lambda>n. sample_env 5) (sample_due_command True 7) sample_due (open_session sample_owners) =
    (Inr \<lparr>rsu_campaign_key = sr_campaign_key (du_rule sample_due), rsu_candidates = 1, rsu_created = 0, rsu_skipped = 0,
          rsu_failed = 0\<rparr>, open_session sample_owners)"
  using dry_run_counts_due_notifications [OF sample_owners_keys sample_searchable, of "sample_due_command True 7" 2 "\<lambda>n. sample_env 5"]
  by (simp add: sample_candidates sample_due_command_def) (simp add: sample_owners_def)

theorem due_notifications_enumerated_witness:
  "fst (due_notifications 2 sample_due (sample_due_command False 1) (\<lambda>n t. returnA (t @ [n])) [] (open_session sample_owners)) =
    Inr [sample_note (ascii ''TV'')]"
proof -
  have "reads_of sample_owners (open_session sample_owners)" by (simp add: reads_of_def)
  from due_notifications_enumerated [OF sample_owners_keys sample_searchable _ this,
      of "sample_due_command False 1" 2 "\<lambda>n t. returnA (t @ [n])" "[]"]
  obtain ns where "mset ns = mset [sample_note (ascii ''TV'')]"
    and "due_notifications 2 sample_due (sample_due_command False 1) (\<lambda>n t. returnA (t @ [n])) [] (open_session sample_owners) =
      for_each ns (\<lambda>n t. returnA (t @ [n])) [] (open_session sample_owners)"
    unfolding sample_candidates
    by (auto simp: sample_due_command_def runs_returnA) (simp add: sample_owners_def)
  then show ?thesis by (simp add: bindA_def returnA_def)
qed

section \<open>Calls\<close>

lemma sample_key: "plain_text 100 (ok_campaign_key (dn_occurrence (sample_note item)))"
  by (simp add: sample_note_def warranty_expiry_notification_def Let_def sample_due_def sample_rule_def plain_text_def ascii_def
      strip_eq_iff is_space_def)

lemma sample_deliverable: "deliverable (dn_command (sample_note (ascii ''TV'')))"
proof -
  have "render_notification_text item_name_marker (ascii ''TV'') 100 = ascii ''TV''"
    by (simp add: render_notification_text_def replace_whole item_name_marker_def)
  then show ?thesis
    by (simp add: deliverable_def fields_ok_def command_fields_def sample_note_def warranty_expiry_notification_def Let_def
        sample_due_def sample_rule_def plain_text_def metadata_ok_def ascii_def strip_eq_iff is_space_def
        render_notification_text_def str_count_def item_name_marker_def)
qed

lemma sample_tables: "notification_tables_ok sample_owners"
  by (simp add: notification_tables_ok_def sample_owners_def)

lemma sample_call: "notification_tables_ok db \<Longrightarrow> env_fresh (sample_env i) db \<Longrightarrow> call_ok (sample_env i) (sample_note item) db"
  by (simp add: call_ok_def sample_key settings_rival_ok_def) (simp add: sample_env_def)

lemma sample_free: "\<not> occurrence_taken k sample_owners"
  by (simp add: occurrence_taken_def exists_row_def sample_owners_def)

lemma sample_outcome:
  "due_outcome (sample_env i) (sample_note (ascii ''TV'')) sample_owners =
     (CreatedAction, deliver (sample_env i) (sample_note (ascii ''TV'')) sample_owners)"
proof -
  have "ne_rival (sample_env i) sample_owners = sample_owners" by (simp add: sample_env_def)
  moreover have "cn_message_type (dn_command (sample_note (ascii ''TV''))) = TRANSACTIONAL"
    by (simp add: sample_note_def warranty_expiry_notification_def Let_def sample_due_def sample_rule_def)
  ultimately show ?thesis by (simp add: due_outcome_def sample_free sample_deliverable)
qed

lemma sample_env_fresh: "env_fresh (sample_env i) sample_owners"
  by (simp add: env_fresh_def sample_owners_def)

theorem due_notification_implements_outcome_witness:
  "create_due_notification (sample_env 5) (sample_due_command False 1) (sample_note (ascii ''TV'')) (open_session sample_owners) =
    (Inr CreatedAction, open_session (deliver (sample_env 5) (sample_note (ascii ''TV'')) sample_owners))"
  using due_notification_implements_outcome [OF sample_call [OF sample_tables sample_env_fresh], of "sample_due_command False 1" "5" "ascii ''TV''"]
  by (simp add: sample_outcome) (simp add: sample_due_command_def)

text \<open>Two schedulers, one after the other: the second skips what the first delivered.\<close>

theorem scheduled_at_most_once_witness:
  "deliveries (dn_occurrence (sample_note (ascii ''TV'')))
     [(sample_env 5, sample_due_command False 1, sample_note (ascii ''TV'')),
      (sample_env 6, sample_due_command False 9, sample_note (ascii ''TV''))] sample_owners \<le> 1"
proof -
  let ?n = "sample_note (ascii ''TV'')"
  note first = sample_call [OF sample_tables sample_env_fresh, of 5 "ascii ''TV''"]
  have run: "create_due_notification (sample_env 5) (sample_due_command False 1) ?n (open_session sample_owners) =
      (Inr CreatedAction, open_session (deliver (sample_env 5) ?n sample_owners))"
    using call_run [OF first, of "sample_due_command False 1"] by (simp add: sample_outcome) (simp add: sample_due_command_def)
  have "notification_tables_ok (deliver (sample_env 5) ?n sample_owners)"
    using deliver_ok(1) [OF sample_tables sample_env_fresh sample_free sample_key sample_deliverable] .
  moreover have "env_fresh (sample_env 6) (deliver (sample_env 5) ?n sample_owners)"
    by (simp add: env_fresh_def deliver_def sample_owners_def sample_env_def notification_to_row_def outbox_row_of_def
        delivered_event_def new_event_def delivered_notification_def notification_of_def command_fields_def)
  ultimately have "calls_ok [(sample_env 5, sample_due_command False 1, ?n), (sample_env 6, sample_due_command False 9, ?n)] sample_owners"
    using first run sample_call [of "deliver (sample_env 5) ?n sample_owners" 6 "ascii ''TV''"] by simp
  from scheduled_at_most_once [OF this, of "dn_occurrence ?n"] show ?thesis by (simp add: sample_free)
qed

definition long_item :: ustr where
  "long_item = replicate 99 84 @ [32, 84]"

theorem cut_item_name_never_notified_witness:
  "create_due_notification (sample_env 5) (sample_due_command False 1) (sample_note long_item) (open_session sample_owners) =
    (Inr FailedAction, open_session sample_owners)"
proof -
  have item: "100 < length long_item" "is_space (long_item ! 99)"
    by (simp_all add: long_item_def is_space_def nth_append)
  have "sr_title_template (du_rule sample_due) = item_name_marker" by (simp add: sample_due_def sample_rule_def)
  moreover have "call_ok (sample_env 5) (warranty_expiry_notification sample_due 1 10 long_item None) sample_owners"
    using sample_call [OF sample_tables sample_env_fresh] by (simp add: sample_note_def)
  moreover have "ne_rival (sample_env 5) sample_owners = sample_owners" by (simp add: sample_env_def)
  ultimately show ?thesis
    using cut_item_name_never_notified [OF _ item, of sample_due "sample_env 5" 1 10 None sample_owners "sample_due_command False 1"]
    by (simp add: sample_free sample_note_def) (simp add: sample_due_command_def)
qed

section \<open>A push\<close>

definition pushed_row :: notification_row where
  "pushed_row = \<lparr>nr_id = 5, nr_user_id = 1, nr_category = ''warranty'', nr_message_type = ''transactional'', nr_kind = ascii ''n'',
     nr_title = ascii ''t'', nr_message = ascii ''m'', nr_resource_type = None, nr_resource_id = None, nr_metadata = [],
     nr_created_at = 0, nr_read_at = None\<rparr>"

definition sample_token :: "uuid \<Rightarrow> ustr \<Rightarrow> token_row" where
  "sample_token i t = \<lparr>tk_id = i, tk_user_id = 1, tk_token = t, tk_platform = ''ios'', tk_created_at = 0, tk_updated_at = 0\<rparr>"

definition push_db :: notification_db where
  "push_db = sample_owners\<lparr>notification_rows := [pushed_row],
     token_rows := [sample_token 7 (ascii ''dead''), sample_token 8 (ascii ''live'')]\<rparr>"

definition sample_push :: push_command where
  "sample_push = \<lparr>pcm_user_id = 1, pcm_notification_id = 5, pcm_message_type = TRANSACTIONAL, pcm_kind = ascii ''n'',
     pcm_title = ascii ''t'', pcm_message = ascii ''m'', pcm_resource_type = None, pcm_resource_id = None, pcm_category = WARRANTY\<rparr>"

definition sample_fcm :: fcm where
  "sample_fcm ts message = Inr (map (\<lambda>t. if token_text (pt_token t) = ascii ''dead'' then FcmUnregistered else FcmSent) ts)"

lemma push_db_ok: "notification_tables_ok push_db"
  by (simp add: notification_tables_ok_def push_db_def sample_owners_def notification_row_checks_def token_row_checks_def
      pushed_row_def sample_token_def fits_def ascii_def)

lemma sample_push_texts: "plain_text 512 (ascii ''dead'')" "plain_text 512 (ascii ''live'')" "plain_text 50 (ascii ''n'')"
  "plain_text 100 (ascii ''t'')" "plain_text 255 (ascii ''m'')"
  by (simp_all add: plain_text_def ascii_def strip_eq_iff is_space_def)

lemma sample_pushed: "\<exists>u. notification_to_domain pushed_row = Inr u"
  by (simp add: notification_to_domain_def pushed_row_def category_of_def message_type_of_def restore_user_notification_def
      assemble_notification_eq fields_ok_def sample_push_texts metadata_ok_def)

lemma sample_registered: "traverse push_token_to_domain [sample_token 7 (ascii ''dead''), sample_token 8 (ascii ''live'')] =
  Inr [\<lparr>pt_id = 7, pt_user_id = 1, pt_token = RegistrationToken (ascii ''dead''), pt_platform = IOS, pt_created_at = 0, pt_updated_at = 0\<rparr>,
       \<lparr>pt_id = 8, pt_user_id = 1, pt_token = RegistrationToken (ascii ''live''), pt_platform = IOS, pt_created_at = 0, pt_updated_at = 0\<rparr>]"
  by (simp add: push_token_to_domain_def sample_token_def platform_of_def create_push_token_eq sample_push_texts)

lemma sample_push_tokens:
  "\<exists>message. push_tokens_for sample_push push_db =
     Some ([\<lparr>pt_id = 7, pt_user_id = 1, pt_token = RegistrationToken (ascii ''dead''), pt_platform = IOS, pt_created_at = 0, pt_updated_at = 0\<rparr>,
            \<lparr>pt_id = 8, pt_user_id = 1, pt_token = RegistrationToken (ascii ''live''), pt_platform = IOS, pt_created_at = 0, pt_updated_at = 0\<rparr>],
           message)"
proof -
  obtain u where "notification_to_domain pushed_row = Inr u" using sample_pushed by blast
  moreover have "find_record_by_id_for_user 5 1 push_db = Some pushed_row"
    by (simp add: find_record_by_id_for_user_def push_db_def pushed_row_def notification_visible_def)
  moreover have "find_settings 1 push_db = None"
    "sort_key (\<lambda>r. (tk_created_at r, tk_id r)) (filter (\<lambda>r. tk_user_id r = 1) (token_rows push_db)) = [sample_token 7 (ascii ''dead''), sample_token 8 (ascii ''live'')]"
    by (simp_all add: find_settings_def push_db_def sample_owners_def sample_token_def)
  ultimately show ?thesis
    by (simp add: push_tokens_for_def sample_registered sample_push_def default_settings_def del: traverse.simps)
qed

theorem push_is_best_effort_witness:
  "fst (send_notification_push (fcm_push_sender sample_fcm) id sample_push (open_session push_db)) = Inr () \<and>
   filter (\<lambda>r. tk_user_id r = 1)
     (token_rows (committed (snd (send_notification_push (fcm_push_sender sample_fcm) id sample_push (open_session push_db))))) =
   [sample_token 8 (ascii ''live'')]"
proof -
  let ?tokens = "[\<lparr>pt_id = 7, pt_user_id = 1, pt_token = RegistrationToken (ascii ''dead''), pt_platform = IOS, pt_created_at = 0, pt_updated_at = 0\<rparr>,
    \<lparr>pt_id = 8, pt_user_id = 1, pt_token = RegistrationToken (ascii ''live''), pt_platform = IOS, pt_created_at = 0, pt_updated_at = 0\<rparr>]"
  obtain message where tokens: "push_tokens_for sample_push push_db = Some (?tokens, message)" using sample_push_tokens by blast
  have sent: "fcm_push_sender sample_fcm ?tokens message = Inr [ascii ''dead'']"
    by (simp add: fcm_push_sender_def batched.simps sample_fcm_def dead_registration_def ascii_def)
  then have "answered sample_fcm message ?tokens" using fcm_reports(2) [of sample_fcm ?tokens message] by blast
  moreover have "declared_dead sample_fcm message ?tokens t \<longleftrightarrow> t = ascii ''dead''" for t
    using fcm_reports(1) [OF sent, of t] by simp
  moreover have "filter (\<lambda>r. tk_user_id r = 1) (token_rows (map_tokens (filter (\<lambda>r. tk_token r \<noteq> ascii ''dead'')) push_db)) =
      [sample_token 8 (ascii ''live'')]"
    by (simp add: map_tokens_def push_db_def sample_token_def ascii_def)
  moreover have "notification_tables_ok (id push_db)" by (simp add: push_db_ok)
  ultimately show ?thesis
    using push_is_best_effort [where rival = id and db = push_db and fcm = sample_fcm and cmd = sample_push] by (simp add: tokens)
qed

end
