(* ===== verification/Receipt_Commands.thy ===== *)
theory Receipt_Commands
  imports Receipt_Store
begin

text \<open>
  The commands of the receipts module (\<open>application/commands\<close>: \<open>create_receipt\<close>,
  \<open>update_receipt\<close>, \<open>delete_receipt\<close>) and the query of one receipt, with what each does to the
  tables. An update changes the fields the client sent and keeps the others.
\<close>

section \<open>Commands\<close>

text \<open>
  What a call takes from its surroundings: new identifiers, the clock of the database, the
  local date of the server, and what other sessions commit between the two reads of an update and before each of
  the statements that write it.
\<close>

record 'db receipt_env =
  re_receipt_id :: uuid
  re_attachment_ids :: "nat \<Rightarrow> uuid"
  re_db_now :: datetime
  re_today :: date
  re_rival :: "'db \<Rightarrow> 'db"
  re_rivals :: "nat \<Rightarrow> 'db \<Rightarrow> 'db"

definition receipts_commit :: "('z, unit) receipt_action" where
  "receipts_commit = sqlalchemy_commit receipt_violation"

record create_receipt_command =
  cr_user_id :: uuid
  cr_item_name :: ustr
  cr_payment_date :: date
  cr_brand_name :: "ustr option"
  cr_serial_number :: "ustr option"
  cr_payment_location :: "ustr option"
  cr_total_amount :: "int option"
  cr_period_months :: "int option"
  cr_expires_on :: "date option"
  cr_category :: "receipt_category option"
  cr_sub_category :: "ustr option"
  cr_memo :: "ustr option"
  cr_requires_physical_receipt :: bool
  cr_receipt_file_ids :: "uuid list option"

definition create_input :: "create_receipt_command \<Rightarrow> receipt_input" where
  "create_input cmd =
     \<lparr>ri_user_id = cr_user_id cmd, ri_item_name = Some (cr_item_name cmd), ri_payment_date = Some (cr_payment_date cmd),
      ri_receipt_id = None, ri_brand_name = cr_brand_name cmd, ri_serial_number = cr_serial_number cmd,
      ri_payment_location = cr_payment_location cmd, ri_total_amount = cr_total_amount cmd,
      ri_preserve_legacy_total_amount = False, ri_period_months = cr_period_months cmd,
      ri_preserve_future_period_months = False, ri_expires_on = cr_expires_on cmd,
      ri_category = map_option CategoryMember (cr_category cmd), ri_sub_category = cr_sub_category cmd,
      ri_memo = cr_memo cmd, ri_requires_physical_receipt = Some (cr_requires_physical_receipt cmd),
      ri_receipt_file_ids = cr_receipt_file_ids cmd\<rparr>"

text \<open>The result has the fields of the read model but the user.\<close>

definition create_new_receipt ::
    "'z receipt_db_scheme receipt_env \<Rightarrow> create_receipt_command \<Rightarrow> ('z, receipt_read_model) receipt_action" where
  "create_new_receipt env cmd =
     bindA (liftE (create_receipt (re_receipt_id env) (re_today env) (create_input cmd))) (\<lambda>x.
     bindA (repo_create_receipt (re_attachment_ids env) (re_db_now env) x) (\<lambda>saved.
     bindA receipts_commit (\<lambda>_.
     returnA saved)))"

record update_receipt_command =
  up_user_id :: uuid
  up_receipt_id :: uuid
  up_updated_fields :: "string set"
  up_item_name :: "ustr option"
  up_brand_name :: "ustr option"
  up_serial_number :: "ustr option"
  up_payment_location :: "ustr option"
  up_payment_date :: "date option"
  up_total_amount :: "int option"
  up_period_months :: "int option"
  up_expires_on :: "date option"
  up_category :: "receipt_category option"
  up_sub_category :: "ustr option"
  up_memo :: "ustr option"
  up_requires_physical_receipt :: "bool option"
  up_receipt_file_ids :: "uuid list option"

definition has_update :: "update_receipt_command \<Rightarrow> string \<Rightarrow> bool" where
  "has_update cmd field \<longleftrightarrow> field \<in> up_updated_fields cmd"

definition updated_value :: "update_receipt_command \<Rightarrow> string \<Rightarrow> 'a option \<Rightarrow> 'a option \<Rightarrow> 'a option" where
  "updated_value cmd field new_value current_value = (if \<not> has_update cmd field then current_value else new_value)"

definition required_updated_value :: "update_receipt_command \<Rightarrow> string \<Rightarrow> 'a option \<Rightarrow> 'a \<Rightarrow> exn + 'a" where
  "required_updated_value cmd field new_value current_value =
     (if \<not> has_update cmd field then Inr current_value
      else (case new_value of None \<Rightarrow> Inl (ValidationError [ErrorDetail field ''required'']) | Some v \<Rightarrow> Inr v))"

definition resolved_expires_on :: "update_receipt_command \<Rightarrow> receipt_read_model \<Rightarrow> date option" where
  "resolved_expires_on cmd current =
     (if has_update cmd ''expires_on'' then up_expires_on cmd
      else
        let payment_date_changed = (has_update cmd ''payment_date'' \<and> up_payment_date cmd \<noteq> Some (rm_payment_date current));
            period_months_changed = (has_update cmd ''period_months'' \<and> up_period_months cmd \<noteq> Some (rm_period_months current))
        in if payment_date_changed \<or> period_months_changed then None else Some (rm_expires_on current))"

definition updated_input :: "update_receipt_command \<Rightarrow> receipt_read_model \<Rightarrow> exn + receipt_input" where
  "updated_input cmd current =
     bindE (required_updated_value cmd ''period_months'' (up_period_months cmd) (rm_period_months current)) (\<lambda>period.
     Inr \<lparr>ri_user_id = up_user_id cmd,
          ri_item_name = updated_value cmd ''item_name'' (up_item_name cmd) (Some (rm_item_name current)),
          ri_payment_date = updated_value cmd ''payment_date'' (up_payment_date cmd) (Some (rm_payment_date current)),
          ri_receipt_id = Some (rm_receipt_id current),
          ri_brand_name = updated_value cmd ''brand_name'' (up_brand_name cmd) (rm_brand_name current),
          ri_serial_number = updated_value cmd ''serial_number'' (up_serial_number cmd) (rm_serial_number current),
          ri_payment_location = updated_value cmd ''payment_location'' (up_payment_location cmd) (rm_payment_location current),
          ri_total_amount = updated_value cmd ''total_amount'' (up_total_amount cmd) (rm_total_amount current),
          ri_preserve_legacy_total_amount =
            (\<not> has_update cmd ''total_amount'' \<and> (\<exists>v \<in> set_option (rm_total_amount current). v > max_amount)),
          ri_period_months = Some period,
          ri_preserve_future_period_months = (\<not> has_update cmd ''period_months'' \<and> rm_period_months current > max_months),
          ri_expires_on = resolved_expires_on cmd current,
          ri_category = map_option CategoryMember (updated_value cmd ''category'' (up_category cmd) (rm_category current)),
          ri_sub_category = updated_value cmd ''sub_category'' (up_sub_category cmd) (rm_sub_category current),
          ri_memo = updated_value cmd ''memo'' (up_memo cmd) (rm_memo current),
          ri_requires_physical_receipt =
            updated_value cmd ''requires_physical_receipt'' (up_requires_physical_receipt cmd)
              (Some (rm_requires_physical_receipt current)),
          ri_receipt_file_ids =
            updated_value cmd ''receipt_file_ids'' (up_receipt_file_ids cmd) (Some (rm_receipt_file_ids current))\<rparr>)"

definition update_receipt ::
    "'z receipt_db_scheme receipt_env \<Rightarrow> update_receipt_command \<Rightarrow> ('z, receipt_read_model) receipt_action" where
  "update_receipt env cmd =
     bindA (repo_find_receipt (up_receipt_id cmd) (up_user_id cmd)) (\<lambda>found.
     case found of
       None \<Rightarrow> raiseA (ReceiptNotFoundError (up_receipt_id cmd))
     | Some current \<Rightarrow>
         bindA (liftE (bindE (updated_input cmd current) (create_receipt (re_receipt_id env) (re_today env)))) (\<lambda>x.
         bindA (repo_update_receipt (re_rival env) (re_rivals env) (re_attachment_ids env) (re_db_now env) x) (\<lambda>updated.
         case updated of
           None \<Rightarrow> raiseA (ReceiptNotFoundError (up_receipt_id cmd))
         | Some m \<Rightarrow> bindA receipts_commit (\<lambda>_. returnA m))))"

definition delete_receipt :: "uuid \<Rightarrow> uuid \<Rightarrow> ('z, unit) receipt_action" where
  "delete_receipt user_id receipt_id =
     bindA (repo_delete_receipt receipt_id user_id) (\<lambda>deleted.
     if \<not> deleted then raiseA (ReceiptNotFoundError receipt_id) else receipts_commit)"

definition get_receipt :: "uuid \<Rightarrow> uuid \<Rightarrow> ('z, receipt_read_model) receipt_action" where
  "get_receipt user_id receipt_id =
     bindA (repo_find_receipt receipt_id user_id) (\<lambda>found.
     case found of None \<Rightarrow> raiseA (ReceiptNotFoundError receipt_id) | Some m \<Rightarrow> returnA m)"

section \<open>Tables kept\<close>

text \<open>What a call has to find: the identifiers it is given are new (a receipt has at most five attachments).\<close>

definition receipt_env_fresh :: "'z receipt_db_scheme receipt_env \<Rightarrow> 'z receipt_db_scheme \<Rightarrow> bool" where
  "receipt_env_fresh env db \<longleftrightarrow>
     re_receipt_id env \<notin> set (map rc_id (receipt_rows db)) \<and> inj_on (re_attachment_ids env) {..<5} \<and>
     (\<forall>n < 5. re_attachment_ids env n \<notin> set (map at_id (attachment_rows db)))"

definition add_receipt :: "'z receipt_db_scheme receipt_env \<Rightarrow> receipt \<Rightarrow> 'z receipt_db_scheme \<Rightarrow> 'z receipt_db_scheme" where
  "add_receipt env x db =
     db\<lparr>receipt_rows := receipt_rows db @ [receipt_to_record (re_db_now env) x],
        attachment_rows := attachment_rows db @ new_attachments (re_attachment_ids env) (re_db_now env) x\<rparr>"

definition replace_receipt :: "'z receipt_db_scheme receipt_env \<Rightarrow> receipt \<Rightarrow> 'z receipt_db_scheme \<Rightarrow> 'z receipt_db_scheme" where
  "replace_receipt env x db =
     (let put = put_receipt (re_db_now env) x db
      in put\<lparr>attachment_rows := filter (\<lambda>a. at_receipt_id a \<noteq> rp_id x) (attachment_rows put) @
               new_attachments (re_attachment_ids env) (re_db_now env) x\<rparr>)"

definition remove_receipt :: "uuid \<Rightarrow> 'z receipt_db_scheme \<Rightarrow> 'z receipt_db_scheme" where
  "remove_receipt i db = drop_attachments i (db\<lparr>receipt_rows := filter (\<lambda>r. rc_id r \<noteq> i) (receipt_rows db)\<rparr>)"

lemma new_attachment_keys:
  "map attachment_key (new_attachments fresh now x) = map (Pair (rp_id x)) (rp_receipt_file_ids x)"
proof -
  have "map attachment_key (new_attachments fresh now x) = map (Pair (rp_id x)) (map at_file_id (new_attachments fresh now x))"
    using new_attachments_props(3) [of _ fresh now x] by (simp add: attachment_key_def)
  then show ?thesis by (simp only: new_attachments_props)
qed

lemma new_attachments_distinct:
  assumes "receipt_env_fresh env db" and "distinct (rp_receipt_file_ids x)" and "length (rp_receipt_file_ids x) \<le> 5"
  shows "distinct (map at_id (new_attachments (re_attachment_ids env) now x))"
    and "distinct (map attachment_key (new_attachments (re_attachment_ids env) now x))"
    and "set (map at_id (attachment_rows db)) \<inter> set (map at_id (new_attachments (re_attachment_ids env) now x)) = {}"
proof -
  have "inj_on (re_attachment_ids env) (set [0..<length (rp_receipt_file_ids x)])"
    using assms(1,3) by (auto simp: receipt_env_fresh_def intro: inj_on_subset)
  then show "distinct (map at_id (new_attachments (re_attachment_ids env) now x))"
    by (simp add: new_attachments_props(2) distinct_map)
  show "distinct (map attachment_key (new_attachments (re_attachment_ids env) now x))"
    using assms(2) by (simp add: new_attachment_keys distinct_map inj_on_def)
  have "re_attachment_ids env n \<notin> set (map at_id (attachment_rows db))" if "n < length (rp_receipt_file_ids x)" for n
    using assms(1,3) that unfolding receipt_env_fresh_def by (meson order_less_le_trans)
  moreover have "set (map (re_attachment_ids env) [0..<length (rp_receipt_file_ids x)]) =
      re_attachment_ids env ` {..<length (rp_receipt_file_ids x)}" by auto
  ultimately show "set (map at_id (attachment_rows db)) \<inter> set (map at_id (new_attachments (re_attachment_ids env) now x)) = {}"
    unfolding new_attachments_props(2) by (metis (no_types, lifting) disjoint_iff imageE lessThan_iff)
qed

lemma tables_okD:
  assumes "receipt_tables_ok db"
  shows "\<forall>r \<in> set (receipt_rows db). receipt_row_ok r" "distinct (map rc_id (receipt_rows db))"
    "distinct (map at_id (attachment_rows db))" "distinct (map attachment_key (attachment_rows db))"
    "\<forall>a \<in> set (attachment_rows db). \<exists>r \<in> set (receipt_rows db). rc_id r = at_receipt_id a"
  using assms unfolding receipt_tables_ok_def by - (elim conjE, assumption)+

lemma add_receipt_ok:
  assumes "receipt_tables_ok db" and "receipt_env_fresh env db" and "rp_id x = re_receipt_id env"
    and "distinct (rp_receipt_file_ids x)" and "length (rp_receipt_file_ids x) \<le> 5"
    and "receipt_row_ok (receipt_to_record (re_db_now env) x)"
  shows "receipt_tables_ok (add_receipt env x db)"
proof -
  have id: "rc_id (receipt_to_record (re_db_now env) x) = rp_id x" by (simp add: receipt_to_record_def)
  note new = new_attachments_distinct [OF assms(2,4,5), of "re_db_now env"]
  note ok = tables_okD [OF assms(1)]
  have fresh: "rp_id x \<notin> set (map rc_id (receipt_rows db))"
    using assms(2) unfolding assms(3) receipt_env_fresh_def by (elim conjE)
  have "at_receipt_id a \<noteq> rp_id x" if a: "a \<in> set (attachment_rows db)" for a
  proof -
    obtain r where "r \<in> set (receipt_rows db)" "rc_id r = at_receipt_id a"
      by (rule bexE [OF bspec [OF ok(5) a]])
    then have "at_receipt_id a \<in> set (map rc_id (receipt_rows db))" by (metis image_eqI list.set_map)
    then show ?thesis using fresh by metis
  qed
  then have keys: "set (map attachment_key (attachment_rows db)) \<inter>
      set (map attachment_key (new_attachments (re_attachment_ids env) (re_db_now env) x)) = {}"
    unfolding new_attachment_keys by (auto simp: attachment_key_def)
  have owned: "\<forall>a \<in> set (new_attachments (re_attachment_ids env) (re_db_now env) x). at_receipt_id a = rp_id x"
    using new_attachments_props(3) by blast
  show ?thesis
    using fresh ok new keys owned assms(6) unfolding receipt_tables_ok_def add_receipt_def
    by (simp add: id ball_Un)
qed

lemma put_receipt_ok:
  assumes "receipt_tables_ok db" and "receipt_row_ok (receipt_to_record now x)"
  shows "receipt_tables_ok (put_receipt now x db)"
proof -
  have ids: "map rc_id (update_rows p (stamp_update now x) rows) = map rc_id rows" for p rows
    by (rule map_key_update_rows) simp
  then have "set (map rc_id (update_rows p (stamp_update now x) rows)) = set (map rc_id rows)" for p rows by metis
  then have same: "(\<exists>r \<in> set (update_rows p (stamp_update now x) rows). rc_id r = i) \<longleftrightarrow> (\<exists>r \<in> set rows. rc_id r = i)" for p rows i
    by (simp add: image_iff set_eq_iff) metis
  show ?thesis
    using tables_okD [OF assms(1)] assms(2) stamp_update_ok [of now x _ now]
    unfolding receipt_tables_ok_def put_receipt_def
    by (simp add: ids same) (auto simp: set_update_rows)
qed

lemma drop_attachments_ok:
  assumes "receipt_tables_ok db"
  shows "receipt_tables_ok (drop_attachments i db)"
  using tables_okD [OF assms] unfolding receipt_tables_ok_def drop_attachments_def
  by (simp add: distinct_map_filter)

lemma add_attachments_ok:
  assumes "receipt_tables_ok db" and "receipt_env_fresh env db" and "distinct (rp_receipt_file_ids x)"
    and "length (rp_receipt_file_ids x) \<le> 5" and "\<exists>r \<in> set (receipt_rows db). rc_id r = rp_id x"
  shows "receipt_tables_ok ((drop_attachments (rp_id x) db)\<lparr>attachment_rows := attachment_rows (drop_attachments (rp_id x) db) @
           new_attachments (re_attachment_ids env) now x\<rparr>)"
proof -
  let ?new = "new_attachments (re_attachment_ids env) now x"
  note ok = tables_okD [OF drop_attachments_ok [OF assms(1), of "rp_id x"]]
  note new = new_attachments_distinct [OF assms(2,3,4), of now]
  have rows: "attachment_rows (drop_attachments (rp_id x) db) = filter (\<lambda>a. at_receipt_id a \<noteq> rp_id x) (attachment_rows db)"
    "receipt_rows (drop_attachments (rp_id x) db) = receipt_rows db"
    by (simp_all add: drop_attachments_def)
  have "set (map at_id (attachment_rows (drop_attachments (rp_id x) db))) \<subseteq> set (map at_id (attachment_rows db))"
    unfolding rows by auto
  with new(3) have ids: "set (map at_id (attachment_rows (drop_attachments (rp_id x) db))) \<inter> set (map at_id ?new) = {}" by blast
  have "fst k = rp_id x" if "k \<in> set (map attachment_key ?new)" for k
    using that unfolding new_attachment_keys by auto
  moreover have "fst k \<noteq> rp_id x" if "k \<in> set (map attachment_key (attachment_rows (drop_attachments (rp_id x) db)))" for k
    using that unfolding rows by (auto simp: attachment_key_def)
  ultimately have keys: "set (map attachment_key (attachment_rows (drop_attachments (rp_id x) db))) \<inter> set (map attachment_key ?new) = {}"
    by (meson disjoint_iff)
  have owned: "\<forall>a \<in> set ?new. \<exists>r \<in> set (receipt_rows db). rc_id r = at_receipt_id a"
    using new_attachments_props(3) [of _ "re_attachment_ids env" now x] assms(5) by metis
  show ?thesis
    using ok new(1,2) ids keys owned unfolding receipt_tables_ok_def rows
    by (simp add: rows ball_Un)
qed

lemma remove_receipt_ok:
  assumes "receipt_tables_ok db"
  shows "receipt_tables_ok (remove_receipt i db)"
proof -
  have "\<exists>r \<in> set (receipt_rows db). rc_id r \<noteq> i \<and> rc_id r = at_receipt_id a"
    if "a \<in> set (attachment_rows db)" "at_receipt_id a \<noteq> i" for a
    using bspec [OF tables_okD(5) [OF assms] that(1)] that(2) by metis
  then show ?thesis
    using tables_okD [OF assms] unfolding receipt_tables_ok_def remove_receipt_def drop_attachments_def
    by (simp add: distinct_map_filter) blast
qed

section \<open>What others do beside an update\<close>

text \<open>
  Other sessions work beside the writes of a receipt when they leave its row and its attachments alone: then it makes
  no difference whether they commit before or after one of its statements.
\<close>

definition beside :: "uuid \<Rightarrow> ('z receipt_db_scheme \<Rightarrow> 'z receipt_db_scheme) \<Rightarrow> bool" where
  "beside i rival \<longleftrightarrow>
     (\<forall>db q. rc_id q = i \<longrightarrow> (q \<in> set (receipt_rows (rival db)) \<longleftrightarrow> q \<in> set (receipt_rows db))) \<and>
     (\<forall>now x db. rp_id x = i \<longrightarrow> rival (put_receipt now x db) = put_receipt now x (rival db)) \<and>
     (\<forall>db. rival (drop_attachments i db) = drop_attachments i (rival db))"

lemma besideD:
  assumes "beside i rival"
  shows "rc_id q = i \<Longrightarrow> q \<in> set (receipt_rows (rival db)) \<longleftrightarrow> q \<in> set (receipt_rows db)"
    and "rp_id x = i \<Longrightarrow> rival (put_receipt now x db) = put_receipt now x (rival db)"
    and "rival (drop_attachments i db) = drop_attachments i (rival db)"
  using assms by (simp_all add: beside_def)

text \<open>So do the calls that create, change or delete other receipts.\<close>

lemma update_rows_append: "update_rows p f (xs @ ys) = update_rows p f xs @ update_rows p f ys"
  by (induction xs) auto

lemma update_rows_none: "(\<And>r. r \<in> set rows \<Longrightarrow> \<not> p r) \<Longrightarrow> update_rows p f rows = rows"
  by (rule update_rows_id) blast

lemma update_rows_commute:
  assumes "\<And>r. \<not> (p r \<and> q r)" and "\<And>r. p (g r) = p r" and "\<And>r. q (f r) = q r"
  shows "update_rows p f (update_rows q g rows) = update_rows q g (update_rows p f rows)"
  using assms by (induction rows) auto

lemma filter_update_rows: "(\<And>r. q (f r) = q r) \<Longrightarrow> filter q (update_rows p f rows) = update_rows p f (filter q rows)"
  by (induction rows) auto

lemma beside_id [simp]: "beside i id" "beside i (\<lambda>db. db)"
  by (simp_all add: beside_def)

lemma beside_commands:
  assumes "rp_id x \<noteq> i" and "j \<noteq> i"
  shows "beside i (add_receipt env x)" and "beside i (replace_receipt env x)" and "beside i (remove_receipt j)"
proof -
  have none: "filter (\<lambda>a. at_receipt_id a \<noteq> i) (new_attachments f now x) = new_attachments f now x" for f now
    using new_attachments_props(3) [of _ f now x] assms(1) by (auto simp: filter_id_conv)
  have other: "rc_id (receipt_to_record now x) \<noteq> i" for now using assms(1) by (simp add: receipt_to_record_def)
  have put: "update_rows (\<lambda>r. rc_id r = rp_id x) (stamp_update n x) (update_rows (\<lambda>r. rc_id r = i) (stamp_update m y) rows) =
      update_rows (\<lambda>r. rc_id r = i) (stamp_update m y) (update_rows (\<lambda>r. rc_id r = rp_id x) (stamp_update n x) rows)" for n m y rows
    by (rule update_rows_commute) (use assms(1) in auto)
  have swap: "filter (\<lambda>a. at_receipt_id a \<noteq> rp_id x \<and> at_receipt_id a \<noteq> i) as =
      filter (\<lambda>a. at_receipt_id a \<noteq> i \<and> at_receipt_id a \<noteq> rp_id x) as" for as :: "attachment_row list"
    by (rule filter_cong) auto
  show "beside i (add_receipt env x)"
    using assms(1) other none
    by (auto simp: beside_def add_receipt_def put_receipt_def drop_attachments_def update_rows_append update_rows_none)
  show "beside i (replace_receipt env x)"
    using assms(1) none put swap
    by (auto simp: beside_def replace_receipt_def put_receipt_def drop_attachments_def Let_def set_update_rows split: if_splits)
  show "beside i (remove_receipt j)"
    using assms(2)
    by (auto simp: beside_def remove_receipt_def put_receipt_def drop_attachments_def filter_update_rows conj_commute)
qed

definition undisturbed :: "'z receipt_db_scheme receipt_env \<Rightarrow> bool" where
  "undisturbed env \<longleftrightarrow> re_rival env = id \<and> re_rivals env = (\<lambda>_. id)"

definition others_done :: "'z receipt_db_scheme receipt_env \<Rightarrow> 'z receipt_db_scheme \<Rightarrow> 'z receipt_db_scheme" where
  "others_done env db = re_rivals env 2 (re_rivals env 1 (re_rivals env 0 (re_rival env db)))"

lemma undisturbed_simps [simp]:
  "undisturbed env \<Longrightarrow> re_rival env = id" "undisturbed env \<Longrightarrow> re_rivals env n = id" "undisturbed env \<Longrightarrow> others_done env db = db"
  by (simp_all add: undisturbed_def others_done_def)

text \<open>The columns that changed, written to the row as it was loaded.\<close>

lemma apply_changes_same: "apply_changes x r r = apply_receipt x r"
  by (simp add: apply_changes_def apply_receipt_def assigned_def)

lemma put_changes_loaded:
  assumes "\<And>q. q \<in> set (receipt_rows db) \<Longrightarrow> rc_id q = rc_id r \<Longrightarrow> q = r" and "rc_id r = rp_id x"
  shows "apply_receipt x r \<noteq> r \<Longrightarrow> put_changes now x r db = put_receipt now x db"
    and "apply_receipt x r = r \<Longrightarrow> put_receipt now x db = db"
proof -
  have same: "update_rows p f rows = update_rows p g rows" if "\<And>q. q \<in> set rows \<Longrightarrow> p q \<Longrightarrow> f q = g q"
    for p f g and rows :: "receipt_row list" using that by (induction rows) auto
  show "put_changes now x r db = put_receipt now x db" if "apply_receipt x r \<noteq> r"
  proof -
    have "update_rows (\<lambda>q. rc_id q = rp_id x) (\<lambda>q. (apply_changes x r q)\<lparr>rc_updated_at := now\<rparr>) (receipt_rows db) =
        update_rows (\<lambda>q. rc_id q = rp_id x) (stamp_update now x) (receipt_rows db)"
    proof (rule same)
      fix q assume "q \<in> set (receipt_rows db)" "rc_id q = rp_id x"
      then have "q = r" using assms by simp
      then show "(apply_changes x r q)\<lparr>rc_updated_at := now\<rparr> = stamp_update now x q"
        using that by (simp add: apply_changes_same stamp_update_def)
    qed
    then show ?thesis using assms(2) by (simp add: put_changes_def put_receipt_def)
  qed
  assume "apply_receipt x r = r"
  then have "update_rows (\<lambda>q. rc_id q = rp_id x) (stamp_update now x) (receipt_rows db) = receipt_rows db"
    using assms by (intro update_rows_id) (auto simp: stamp_update_def)
  then show "put_receipt now x db = db" by (simp add: put_receipt_def)
qed

section \<open>What the commands do\<close>

lemma flush_receipts_ok:
  "\<not> tx_failed s \<Longrightarrow> receipt_tables_ok (working s) \<Longrightarrow> bindA flush_receipts f s = f () s"
  by (simp add: flush_receipts_def bindA_def session_apply receipt_violation_None)

lemma receipts_commit_ok:
  "\<not> tx_failed s \<Longrightarrow> receipt_tables_ok (working s) \<Longrightarrow> bindA receipts_commit f s = f () (s\<lparr>committed := working s\<rparr>)"
  by (simp add: receipts_commit_def sqlalchemy_commit_def bindA_def commit_session_apply receipt_violation_None)

text \<open>A receipt that came out of \<open>create\<close> for fields its table can hold.\<close>

lemma created_receipt:
  assumes "create_receipt fresh today x = Inr y" and "storable x"
  shows "receipt_row_ok (receipt_to_record now y)" and "distinct (rp_receipt_file_ids y)"
    and "1 \<le> length (rp_receipt_file_ids y)" and "length (rp_receipt_file_ids y) \<le> 5"
    and "rp_user_id y = ri_user_id x" and "rp_id y = (case ri_receipt_id x of Some j \<Rightarrow> j | None \<Rightarrow> fresh)"
    and "receipt_accepted today x"
proof -
  obtain e where y: "receipt_accepted today x" "y = receipt_made fresh x e"
    using assms(1) by (auto simp: create_receipt_eq bindE_Inr split: if_splits)
  show "receipt_row_ok (receipt_to_record now y)" using made_receipt_fits [OF y(1) assms(2)] y(2) by simp
  obtain fs where "ri_receipt_file_ids x = Some fs" "1 \<le> length fs" "length fs \<le> 5" "distinct fs"
    using y(1) unfolding receipt_accepted_def by blast
  then show "distinct (rp_receipt_file_ids y)" "1 \<le> length (rp_receipt_file_ids y)" "length (rp_receipt_file_ids y) \<le> 5"
    by (simp_all add: y(2) receipt_made_def)
  show "rp_user_id y = ri_user_id x" "rp_id y = (case ri_receipt_id x of Some j \<Rightarrow> j | None \<Rightarrow> fresh)"
    by (simp_all add: y(2) receipt_made_def)
  show "receipt_accepted today x" by (rule y(1))
qed

lemma create_input_storable: "create_receipt fresh today (create_input cmd) = Inr y \<Longrightarrow> storable (create_input cmd)"
  by (rule storable_new [of today]) (simp_all add: create_receipt_eq create_input_def split: if_splits)

lemma created_file_ids:
  assumes "receipt_tables_ok db" and "receipt_env_fresh env db" and "rp_id x = re_receipt_id env"
  shows "file_ids_for_receipt (rp_id x) (add_receipt env x db) = sort (rp_receipt_file_ids x)"
proof -
  have "at_receipt_id a \<noteq> rp_id x" if a: "a \<in> set (attachment_rows db)" for a
  proof -
    obtain r where "r \<in> set (receipt_rows db)" "rc_id r = at_receipt_id a"
      by (rule bexE [OF bspec [OF tables_okD(5) [OF assms(1)] a]])
    then have "at_receipt_id a \<in> set (map rc_id (receipt_rows db))" by (metis image_eqI list.set_map)
    then show ?thesis using assms(2) unfolding assms(3) receipt_env_fresh_def by metis
  qed
  then have "filter (\<lambda>a. at_receipt_id a = rp_id x) (attachment_rows db) = []" by (simp add: filter_empty_conv)
  moreover have "filter (\<lambda>a. at_receipt_id a = rp_id x) (new_attachments f now x) = new_attachments f now x" for f now
    using new_attachments_props(3) [of _ f now x] by (simp add: filter_id_conv)
  ultimately show ?thesis
    by (simp add: file_ids_for_receipt_def add_receipt_def new_attachments_props)
qed

lemma replaced_file_ids: "file_ids_for_receipt (rp_id x) (replace_receipt env x db) = sort (rp_receipt_file_ids x)"
proof -
  have "filter (\<lambda>a. at_receipt_id a = rp_id x) (filter (\<lambda>a. at_receipt_id a \<noteq> rp_id x) as) = []" for as
    by (simp add: filter_empty_conv)
  moreover have "filter (\<lambda>a. at_receipt_id a = rp_id x) (new_attachments f now x) = new_attachments f now x" for f now
    using new_attachments_props(3) [of _ f now x] by (simp add: filter_id_conv)
  ultimately show ?thesis
    by (simp add: file_ids_for_receipt_def replace_receipt_def Let_def new_attachments_props filter_filter)
qed

lemma create_run:
  assumes "receipt_tables_ok db" and "receipt_env_fresh env db"
  shows "create_new_receipt env cmd (open_session db) =
    (case create_receipt (re_receipt_id env) (re_today env) (create_input cmd) of
       Inl e \<Rightarrow> (Inl e, open_session db)
     | Inr x \<Rightarrow> (Inr (record_to_read_model (receipt_to_record (re_db_now env) x) (sort (rp_receipt_file_ids x))),
                open_session (add_receipt env x db)))"
proof (cases "create_receipt (re_receipt_id env) (re_today env) (create_input cmd)")
  case (Inl e)
  then show ?thesis by (simp add: create_new_receipt_def bind_pure raiseA_def)
next
  case (Inr x)
  note made = created_receipt [OF Inr create_input_storable [OF Inr]]
  have id: "rp_id x = re_receipt_id env" using made(6) by (simp add: create_input_def)
  note ok = add_receipt_ok [OF assms id made(2,4) made(1) [of "re_db_now env"]]
  note files = created_file_ids [OF assms id]
  have rc: "rc_id (receipt_to_record (re_db_now env) x) = rp_id x" by (simp add: receipt_to_record_def)
  show ?thesis
    using ok files unfolding add_receipt_def
    by (simp add: create_new_receipt_def Inr bind_pure repo_create_receipt_def bind_assoc session_bind
        flush_receipts_ok receipts_commit_ok returnA_def open_session_def read_model_of_def rc)
qed

text \<open>What an update asks of its table: nothing that a stored receipt does not have already.\<close>

lemma found_receipt:
  assumes "find_receipt_record i u db = Some r"
  shows "r \<in> set (receipt_rows db)" "rc_id r = i" "rc_user_id r = u"
  using find_SomeD [OF assms [unfolded find_receipt_record_def]] by simp_all

lemma updated_input_storable:
  assumes "receipt_row_ok r" and "updated_input cmd (record_to_read_model r fs) = Inr x" and "receipt_accepted today x"
  shows "storable x"
proof -
  have table: "rc_period_months r \<le> 120" "\<forall>v \<in> set_option (rc_total_amount r). int8 v"
    using assms(1) by (auto simp: receipt_row_ok_def receipt_row_checks_def)
  obtain period where period: "required_updated_value cmd ''period_months'' (up_period_months cmd) (rc_period_months r) = Inr period"
    and x: "ri_period_months x = Some period"
      "ri_total_amount x = updated_value cmd ''total_amount'' (up_total_amount cmd) (rc_total_amount r)"
      "ri_preserve_future_period_months x = (\<not> has_update cmd ''period_months'' \<and> rc_period_months r > max_months)"
      "ri_preserve_legacy_total_amount x =
        (\<not> has_update cmd ''total_amount'' \<and> (\<exists>v \<in> set_option (rc_total_amount r). v > max_amount))"
    using assms(2) by (auto simp: updated_input_def bindE_Inr record_to_read_model_def)
  have "resolved_period x \<le> 120"
    using assms(3) period table(1) x(1,3)
    by (auto simp: receipt_accepted_def period_accepted_def resolved_period_def required_updated_value_def max_months_def split: if_splits)
  moreover have "int8 v" if "ri_total_amount x = Some v" for v
  proof (cases "has_update cmd ''total_amount''")
    case True
    then have "0 \<le> v \<and> v \<le> max_amount" using assms(3) that x(4) by (auto simp: receipt_accepted_def amount_accepted_def)
    then show ?thesis by (simp add: int8_def max_amount_def)
  next
    case False
    then show ?thesis using that x(2) table(2) by (simp add: updated_value_def)
  qed
  ultimately show ?thesis by (auto simp: storable_def)
qed

definition update_outcome ::
    "'z receipt_db_scheme receipt_env \<Rightarrow> update_receipt_command \<Rightarrow> 'z receipt_db_scheme \<Rightarrow>
     (exn + receipt_read_model) \<times> 'z receipt_db_scheme" where
  "update_outcome env cmd db =
     (let missing = Inl (ReceiptNotFoundError (up_receipt_id cmd))
      in case find_receipt_record (up_receipt_id cmd) (up_user_id cmd) db of
           None \<Rightarrow> (missing, db)
         | Some r \<Rightarrow>
             (case bindE (updated_input cmd (read_model_of db r)) (create_receipt (re_receipt_id env) (re_today env)) of
                Inl e \<Rightarrow> (Inl e, db)
              | Inr x \<Rightarrow>
                  (case find_receipt_record (up_receipt_id cmd) (up_user_id cmd) (re_rival env db) of
                     None \<Rightarrow> (missing, re_rival env db)
                   | Some r' \<Rightarrow>
                       (Inr (record_to_read_model (stamp_update (re_db_now env) x r') (sort (rp_receipt_file_ids x))),
                        replace_receipt env x (others_done env db)))))"

lemma find_one_receipt:
  assumes "receipt_tables_ok db" and "find_receipt_record i u db = Some r" and "q \<in> set (receipt_rows db)" and "rc_id q = i"
  shows "q = r"
  using found_receipt [OF assms(2)] assms(3,4) tables_okD(2) [OF assms(1)] by (metis distinct_map inj_onD)

text \<open>What an update finds, others leave to it when they work beside it.\<close>

lemma find_only_receipt:
  assumes "receipt_tables_ok db" and "r \<in> set (receipt_rows db)" and "rc_id r = i" and "rc_user_id r = u"
  shows "find_receipt_record i u db = Some r"
  using assms(2-) tables_okD(2) [OF assms(1)]
  by (cases "find_receipt_record i u db")
    (auto simp: find_receipt_record_def find_None_iff distinct_map dest!: find_SomeD dest: inj_onD)

lemma find_beside:
  assumes "beside i rival" and "receipt_tables_ok (rival db)" and "find_receipt_record i u db = Some r"
  shows "find_receipt_record i u (rival db) = Some r"
  using found_receipt [OF assms(3)] besideD(1) [OF assms(1), of r db] by (intro find_only_receipt [OF assms(2)]) simp_all

text \<open>The steps from the flush of the columns on.\<close>

lemma flush_changes_run:
  assumes "\<not> tx_failed s" and "receipt_tables_ok (working s)" and "find_receipt_record i u (working s) = Some r" and "i = rp_id x"
    and "receipt_row_ok (receipt_to_record now x)"
  shows "bindA (flush_changes now x r) k s = k () (s\<lparr>working := put_receipt now x (working s)\<rparr>)"
proof -
  have r: "rc_id r = rp_id x" "exists_row (\<lambda>q. rc_id q = rc_id r) (receipt_rows (working s))"
    using found_receipt [OF assms(3)] assms(4) by (auto simp: exists_row_iff)
  have "q = r" if "q \<in> set (receipt_rows (working s))" "rc_id q = rc_id r" for q
    using find_one_receipt [OF assms(2,3) that(1)] that(2) r(1) assms(4) by simp
  note loaded = put_changes_loaded [of "working s", OF this r(1), of now]
  note ok = put_receipt_ok [OF assms(2,5)]
  show ?thesis
  proof (cases "apply_receipt x r = r")
    case True
    then show ?thesis using loaded(2) assms(1,2) by (simp add: flush_changes_def flush_receipts_ok)
  next
    case False
    then show ?thesis
      using loaded(1) assms(1) r(2) ok by (simp add: flush_changes_def bind_assoc session_bind flush_receipts_ok)
  qed
qed

lemma update_run:
  assumes "receipt_tables_ok db" and "receipt_tables_ok (re_rivals env 0 (re_rival env db))"
    and "receipt_tables_ok (others_done env db)" and "receipt_env_fresh env (others_done env db)"
    and "\<forall>n. beside (up_receipt_id cmd) (re_rivals env n)"
  shows "update_receipt env cmd (open_session db) =
    (fst (update_outcome env cmd db), open_session (snd (update_outcome env cmd db)))"
proof (cases "find_receipt_record (up_receipt_id cmd) (up_user_id cmd) db")
  case None
  then show ?thesis
    by (simp add: update_receipt_def repo_find_receipt_def session_bind update_outcome_def Let_def raiseA_def)
next
  case found: (Some r)
  let ?create = "bindE (updated_input cmd (read_model_of db r)) (create_receipt (re_receipt_id env) (re_today env))"
  show ?thesis
  proof (cases ?create)
    case (Inl e)
    then show ?thesis
      by (simp add: update_receipt_def repo_find_receipt_def session_bind update_outcome_def Let_def found bind_pure raiseA_def)
  next
    case (Inr x)
    then obtain inp where inp: "updated_input cmd (read_model_of db r) = Inr inp"
      and made: "create_receipt (re_receipt_id env) (re_today env) inp = Inr x" by (auto simp: bindE_Inr)
    have row: "receipt_row_ok r" using bspec [OF tables_okD(1) [OF assms(1)] found_receipt(1) [OF found]] .
    have acc: "receipt_accepted (re_today env) inp" using made by (simp add: create_receipt_eq split: if_splits)
    note x = created_receipt [OF made updated_input_storable [OF row inp [unfolded read_model_of_def] acc]]
    have ids: "rp_id x = up_receipt_id cmd" "rp_user_id x = up_user_id cmd"
      using x(5,6) inp found_receipt(2) [OF found]
      by (auto simp: updated_input_def bindE_Inr read_model_of_def record_to_read_model_def)
    let ?now = "re_db_now env" and ?w = "re_rival env db" and ?later = "re_rivals env 0 (re_rival env db)" and ?done = "others_done env db"
    show ?thesis
    proof (cases "find_receipt_record (up_receipt_id cmd) (up_user_id cmd) ?w")
      case None
      have "repo_update_receipt (re_rival env) (re_rivals env) (re_attachment_ids env) ?now x (open_session db) =
          (Inr None, open_session ?w)"
        using None by (simp add: repo_update_receipt_def session_bind open_session_def ids returnA_def)
      then show ?thesis
        using None by (simp add: update_receipt_def repo_find_receipt_def session_bind update_outcome_def Let_def found Inr bind_pure
            bindA_Inr raiseA_def)
    next
      case again: (Some r')
      have beside: "beside (rp_id x) (re_rivals env n)" for n using assms(5) ids(1) by simp
      have found0: "find_receipt_record (rp_id x) (rp_user_id x) ?later = Some r'"
        using find_beside [OF beside assms(2)] again ids by simp
      have in_done: "r' \<in> set (receipt_rows ?done)"
        using found_receipt [OF found0] besideD(1) [OF beside, of r'] by (simp add: others_done_def)
      note put = put_receipt_ok [OF assms(3) x(1)]
      have fresh: "receipt_env_fresh env (put_receipt now x ?done)" for now
      proof -
        have "map rc_id (update_rows p (stamp_update now x) rows) = map rc_id rows" for p rows
          by (rule map_key_update_rows) simp
        then show ?thesis using assms(4) unfolding receipt_env_fresh_def put_receipt_def by simp
      qed
      have in_put: "\<exists>r \<in> set (receipt_rows (put_receipt now x ?done)). rc_id r = rp_id x" for now
        using in_done found_receipt(2) [OF found0] by (auto simp: put_receipt_def set_update_rows intro!: bexI [of _ "stamp_update now x r'"])
      note added = add_attachments_ok [OF put fresh x(2,4) in_put, of ?now ?now]
      have replaced: "(drop_attachments (rp_id x) (put_receipt ?now x ?done))\<lparr>attachment_rows :=
          attachment_rows (drop_attachments (rp_id x) (put_receipt ?now x ?done)) @
          new_attachments (re_attachment_ids env) ?now x\<rparr> = replace_receipt env x ?done"
        by (simp add: replace_receipt_def drop_attachments_def Let_def)
      have ok: "receipt_tables_ok (replace_receipt env x ?done)" using added unfolding replaced .
      have moved: "re_rivals env 2 (drop_attachments (rp_id x) (re_rivals env 1 (put_receipt ?now x ?later))) =
          drop_attachments (rp_id x) (put_receipt ?now x ?done)"
        by (simp add: besideD(2) [OF beside refl] besideD(3) [OF beside] others_done_def)
      have flush: "bindA (flush_changes ?now x r') k \<lparr>committed = ?later, working = ?later, tx_failed = False\<rparr> =
          k () \<lparr>committed = ?later, working = put_receipt ?now x ?later, tx_failed = False\<rparr>" for k :: "unit \<Rightarrow> ('a, 'b) receipt_action"
        by (subst flush_changes_run [where i = "rp_id x" and u = "rp_user_id x"]) (use assms(2) found0 x(1) in simp_all)
      have commit_done: "re_rivals env 2 (re_rivals env 1 ?later) = ?done" by (simp add: others_done_def)
      have "repo_update_receipt (re_rival env) (re_rivals env) (re_attachment_ids env) ?now x (open_session db) =
          (Inr (Some (record_to_read_model (stamp_update ?now x r') (sort (rp_receipt_file_ids x)))),
           \<lparr>committed = ?done, working = replace_receipt env x ?done, tx_failed = False\<rparr>)"
        by (simp add: repo_update_receipt_def session_bind open_session_def again [folded ids] flush moved replaced commit_done
            flush_receipts_ok ok query_session_def read_model_of_def found_receipt(2) [OF found0] replaced_file_ids del: One_nat_def)
      then show ?thesis
        by (simp add: update_receipt_def repo_find_receipt_def session_bind update_outcome_def Let_def found Inr bind_pure again
            bindA_Inr receipts_commit_ok ok returnA_def open_session_def)
    qed
  qed
qed

text \<open>What the second read finds is still there when the others are done.\<close>

lemma find_when_done:
  assumes "\<forall>n. beside i (re_rivals env n)" and "receipt_tables_ok (re_rivals env 0 (re_rival env db))"
    and "receipt_tables_ok (others_done env db)" and "find_receipt_record i u (re_rival env db) = Some r"
  shows "find_receipt_record i u (others_done env db) = Some r"
proof -
  have "r \<in> set (receipt_rows (others_done env db))"
    using found_receipt [OF assms(4)] besideD(1) [OF spec [OF assms(1)]] by (simp add: others_done_def)
  then show ?thesis by (rule find_only_receipt [OF assms(3) _ found_receipt(2,3) [OF assms(4)]])
qed

lemma update_undisturbed:
  assumes "receipt_tables_ok db" and "receipt_env_fresh env db" and "undisturbed env"
  shows "update_receipt env cmd (open_session db) =
    (fst (update_outcome env cmd db), open_session (snd (update_outcome env cmd db)))"
  by (rule update_run) (use assms in simp_all)

lemma delete_run:
  assumes "receipt_tables_ok db"
  shows "delete_receipt user_id receipt_id (open_session db) =
    (if find_receipt_record receipt_id user_id db = None
     then (Inl (ReceiptNotFoundError receipt_id), open_session db)
     else (Inr (), open_session (remove_receipt receipt_id db)))"
proof (cases "find_receipt_record receipt_id user_id db")
  case (Some r)
  note ok = remove_receipt_ok [OF assms, of receipt_id]
  have commit: "receipts_commit s = (Inr (), s\<lparr>committed := working s\<rparr>)" if "\<not> tx_failed s" "receipt_tables_ok (working s)" for s
    using receipts_commit_ok [OF that, of returnA] that by (simp add: bindA_def returnA_def receipts_commit_def sqlalchemy_commit_def
        commit_session_apply receipt_violation_None)
  show ?thesis
    using ok found_receipt(2) [OF Some] Some
    by (simp add: delete_receipt_def repo_delete_receipt_def bind_assoc session_bind flush_receipts_ok commit bind_pure
        open_session_def flip: remove_receipt_def)
qed (simp add: delete_receipt_def repo_delete_receipt_def bind_assoc session_bind bind_pure raiseA_def)

end
