(* ===== verification/Receipt_Properties.thy ===== *)
theory Receipt_Properties
  imports Receipt_Commands
begin

text \<open>
  What the receipts module keeps: every receipt of the tables stays well formed whatever the
  clients call, no call touches the receipts of another user, a created receipt is read back as
  entered and an update changes what was sent and nothing else.
\<close>

section \<open>Receipts of a user\<close>

definition receipts_of :: "uuid \<Rightarrow> 'z receipt_db_scheme \<Rightarrow> receipt_read_model list" where
  "receipts_of u db = map (read_model_of db) (filter (\<lambda>r. rc_user_id r = u) (receipt_rows db))"

lemma receipt_of_attachment:
  assumes "receipt_tables_ok db" and "a \<in> set (attachment_rows db)"
  shows "at_receipt_id a \<in> set (map rc_id (receipt_rows db))"
  using bspec [OF tables_okD(5) [OF assms(1)] assms(2)] by (metis image_eqI list.set_map)

lemma files_of_others:
  assumes "i \<noteq> rp_id x"
  shows "file_ids_for_receipt i (add_receipt env x db) = file_ids_for_receipt i db"
    and "file_ids_for_receipt i (replace_receipt env x db) = file_ids_for_receipt i db"
proof -
  have "at_receipt_id a \<noteq> i" if "a \<in> set (new_attachments f now x)" for a f now
    using new_attachments_props(3) [OF that] assms by simp
  then have none: "filter (\<lambda>a. at_receipt_id a = i) (new_attachments f now x) = []" for f now
    by (auto simp: filter_empty_conv)
  have other: "filter (\<lambda>a. at_receipt_id a \<noteq> rp_id x \<and> at_receipt_id a = i) as = filter (\<lambda>a. at_receipt_id a = i) as" for as
    using assms by (auto intro: filter_cong)
  show "file_ids_for_receipt i (add_receipt env x db) = file_ids_for_receipt i db"
    by (simp add: file_ids_for_receipt_def add_receipt_def none)
  show "file_ids_for_receipt i (replace_receipt env x db) = file_ids_for_receipt i db"
    by (simp add: file_ids_for_receipt_def replace_receipt_def Let_def put_receipt_def none other)
qed

lemma files_of_removed: "i \<noteq> j \<Longrightarrow> file_ids_for_receipt i (remove_receipt j db) = file_ids_for_receipt i db"
proof -
  assume "i \<noteq> j"
  then have "filter (\<lambda>a. at_receipt_id a \<noteq> j \<and> at_receipt_id a = i) as = filter (\<lambda>a. at_receipt_id a = i) as"
    for as :: "attachment_row list" by (auto intro: filter_cong)
  then show ?thesis by (simp add: file_ids_for_receipt_def remove_receipt_def drop_attachments_def)
qed

lemma receipts_of_others:
  assumes "\<And>r. r \<in> set (receipt_rows db) \<Longrightarrow> rc_user_id r = u \<Longrightarrow> rc_id r \<noteq> rp_id x"
  shows "rp_user_id x \<noteq> u \<Longrightarrow> receipts_of u (add_receipt env x db) = receipts_of u db"
    and "receipts_of u (replace_receipt env x db) = receipts_of u db"
proof -
  let ?mine = "filter (\<lambda>r. rc_user_id r = u)"
  have models: "read_model_of (add_receipt env x db) r = read_model_of db r"
    "read_model_of (replace_receipt env x db) r = read_model_of db r" if "r \<in> set (?mine (receipt_rows db))" for r
    using files_of_others [of "rc_id r" x env db] assms [of r] that by (simp_all add: read_model_of_def)
  have "?mine (receipt_rows (add_receipt env x db)) = ?mine (receipt_rows db)" if "rp_user_id x \<noteq> u"
    using that by (simp add: add_receipt_def receipt_to_record_def)
  then show "receipts_of u (add_receipt env x db) = receipts_of u db" if "rp_user_id x \<noteq> u"
    using that models(1) by (auto simp: receipts_of_def)
  have "?mine (update_rows (\<lambda>r. rc_id r = rp_id x) (stamp_update now x) rows) = ?mine rows"
    if "\<And>r. r \<in> set rows \<Longrightarrow> rc_user_id r = u \<Longrightarrow> rc_id r \<noteq> rp_id x" for rows now
    using that by (induction rows) auto
  then have "?mine (receipt_rows (replace_receipt env x db)) = ?mine (receipt_rows db)"
    using assms by (simp add: replace_receipt_def put_receipt_def Let_def)
  then show "receipts_of u (replace_receipt env x db) = receipts_of u db"
    using models(2) by (auto simp: receipts_of_def)
qed

lemma receipts_of_removed:
  assumes "\<And>r. r \<in> set (receipt_rows db) \<Longrightarrow> rc_user_id r = u \<Longrightarrow> rc_id r \<noteq> i"
  shows "receipts_of u (remove_receipt i db) = receipts_of u db"
proof -
  have "filter (\<lambda>r. rc_user_id r = u) (receipt_rows (remove_receipt i db)) = filter (\<lambda>r. rc_user_id r = u) (receipt_rows db)"
    using assms by (auto simp: remove_receipt_def drop_attachments_def filter_filter intro!: filter_cong)
  then show ?thesis
    using files_of_removed [of _ i db] assms by (auto simp: receipts_of_def read_model_of_def)
qed

text \<open>A receipt of somebody is found for nobody else.\<close>

lemma other_ids:
  assumes "receipt_tables_ok db" and "find_receipt_record i v db = Some r'" and "v \<noteq> u"
    and "r \<in> set (receipt_rows db)" and "rc_user_id r = u"
  shows "rc_id r \<noteq> i"
proof
  assume "rc_id r = i"
  then have "r = r'"
    using found_receipt [OF assms(2)] assms(4) tables_okD(2) [OF assms(1)] by (metis distinct_map inj_onD)
  then show False using found_receipt(3) [OF assms(2)] assms(3,5) by simp
qed

section \<open>Well-formed receipts\<close>

definition tidy :: "ustr option \<Rightarrow> bool" where
  "tidy v \<longleftrightarrow> (\<forall>s \<in> set_option v. s \<noteq> [] \<and> strip s = s)"

definition receipt_well_formed :: "receipt_read_model \<Rightarrow> bool" where
  "receipt_well_formed m \<longleftrightarrow>
     rm_item_name m \<noteq> [] \<and> strip (rm_item_name m) = rm_item_name m \<and> length (rm_item_name m) \<le> 255 \<and>
     tidy (rm_brand_name m) \<and> tidy (rm_serial_number m) \<and> tidy (rm_payment_location m) \<and>
     tidy (rm_sub_category m) \<and> tidy (rm_memo m) \<and>
     valid_date (rm_payment_date m) \<and> rm_payment_date m \<le> rm_expires_on m \<and>
     (\<forall>v \<in> set_option (rm_total_amount m). 0 \<le> v) \<and> 1 \<le> rm_period_months m \<and> rm_period_months m \<le> 120 \<and>
     1 \<le> length (rm_receipt_file_ids m) \<and> length (rm_receipt_file_ids m) \<le> 5 \<and> distinct (rm_receipt_file_ids m)"

definition receipts_well_formed :: "'z receipt_db_scheme \<Rightarrow> bool" where
  "receipts_well_formed db \<longleftrightarrow>
     receipt_tables_ok db \<and> (\<forall>r \<in> set (receipt_rows db). receipt_well_formed (read_model_of db r))"

text \<open>Python's dates are dates of the calendar.\<close>

definition input_dates :: "receipt_input \<Rightarrow> bool" where
  "input_dates x \<longleftrightarrow> (\<forall>d \<in> set_option (ri_payment_date x). valid_date d)"

lemma clean_text_tidy: "tidy (clean_text v)"
  by (simp add: tidy_def clean_text_def split: option.split)

lemma resolve_expires_on_after:
  assumes "resolve_expires_on explicit paid months = Inr e" and "valid_date paid" and "0 < months"
  shows "paid \<le> e"
  using assms add_months_less [OF assms(2,3)]
  by (auto simp: resolve_expires_on_def less_imp_le split: option.splits if_splits)

lemma created_well_formed:
  assumes "create_receipt fresh today x = Inr y" and "storable x" and "input_dates x" and "fs = sort (rp_receipt_file_ids y)"
  shows "receipt_well_formed (record_to_read_model (receipt_to_record now y) fs)"
proof -
  obtain e where acc: "receipt_accepted today x" and y: "y = receipt_made fresh x e"
    and e: "resolve_expires_on (ri_expires_on x) (the (ri_payment_date x)) (resolved_period x) = Inr e"
    using assms(1) by (auto simp: create_receipt_eq bindE_Inr split: if_splits)
  have months: "1 \<le> resolved_period x" "resolved_period x \<le> 120"
    using acc assms(2) by (auto simp: receipt_accepted_def period_accepted_def storable_def)
  obtain d where d: "ri_payment_date x = Some d" "valid_date d"
    using acc assms(3) by (auto simp: receipt_accepted_def input_dates_def)
  have "d \<le> e" using resolve_expires_on_after [OF e] d months by simp
  moreover obtain s where "ri_item_name x = Some s" "strip s \<noteq> []" "length (strip s) \<le> 255"
    using acc by (auto simp: receipt_accepted_def)
  moreover obtain us where "ri_receipt_file_ids x = Some us" "1 \<le> length us" "length us \<le> 5" "distinct us"
    using acc unfolding receipt_accepted_def by blast
  moreover have "\<forall>v \<in> set_option (ri_total_amount x). 0 \<le> v"
    using acc by (auto simp: receipt_accepted_def amount_accepted_def)
  ultimately show ?thesis
    using months d
    by (simp add: receipt_well_formed_def record_to_read_model_def receipt_to_record_def y assms(4) receipt_made_def clean_text_tidy
        option.set_map)
qed

lemma stamped_model:
  assumes "find_receipt_record (rp_id x) (rp_user_id x) db = Some r"
  shows "record_to_read_model (stamp_update now x r) fs =
    (record_to_read_model (receipt_to_record now x) fs)\<lparr>rm_registered_at := rc_created_at r\<rparr>"
proof -
  have "record_to_read_model (apply_receipt x r) fs =
      (record_to_read_model (receipt_to_record now x) fs)\<lparr>rm_registered_at := rc_created_at r\<rparr>"
    using found_receipt(2,3) [OF assms(1)]
    by (simp add: record_to_read_model_def apply_receipt_def receipt_to_record_def)
  moreover have "record_to_read_model (s\<lparr>rc_updated_at := t\<rparr>) fs = record_to_read_model s fs" for s t
    by (simp add: record_to_read_model_def)
  ultimately show ?thesis by (simp add: stamp_update_def split: if_split) metis
qed

lemma well_formed_registered [simp]:
  "receipt_well_formed (m\<lparr>rm_registered_at := t\<rparr>) = receipt_well_formed m"
  by (simp add: receipt_well_formed_def)

text \<open>A row that a call leaves alone reads as before.\<close>

lemma models_of_others:
  assumes "rc_id r \<noteq> rp_id x"
  shows "read_model_of (add_receipt env x db) r = read_model_of db r"
    and "read_model_of (replace_receipt env x db) r = read_model_of db r"
  using files_of_others [OF assms, of env db] by (simp_all add: read_model_of_def)

lemma well_formedD:
  "receipts_well_formed db \<Longrightarrow> receipt_tables_ok db"
  "receipts_well_formed db \<Longrightarrow> r \<in> set (receipt_rows db) \<Longrightarrow> receipt_well_formed (read_model_of db r)"
  by (simp_all add: receipts_well_formed_def)

lemma fresh_receipt_id:
  assumes "receipt_env_fresh env db" and "r \<in> set (receipt_rows db)"
  shows "rc_id r \<noteq> re_receipt_id env"
  using assms by (metis receipt_env_fresh_def image_eqI list.set_map)

lemma added_model:
  assumes "receipt_tables_ok db" and "receipt_env_fresh env db" and "rp_id x = re_receipt_id env"
  shows "read_model_of (add_receipt env x db) (receipt_to_record now x) =
    record_to_read_model (receipt_to_record now x) (sort (rp_receipt_file_ids x))"
  using created_file_ids [OF assms] by (simp add: read_model_of_def receipt_to_record_def)

lemma added_well_formed:
  assumes db: "receipts_well_formed db" and env: "receipt_env_fresh env db"
    and made: "create_receipt (re_receipt_id env) today x = Inr y" and x: "storable x" "input_dates x" "ri_receipt_id x = None"
  shows "receipts_well_formed (add_receipt env y db)"
proof -
  note y = created_receipt [OF made x(1)]
  have id: "rp_id y = re_receipt_id env" using y(6) x(3) by simp
  have "receipt_well_formed (read_model_of (add_receipt env y db) (receipt_to_record (re_db_now env) y))"
    unfolding added_model [OF well_formedD(1) [OF db] env id] by (rule created_well_formed [OF made x(1,2) refl])
  moreover have "receipt_well_formed (read_model_of (add_receipt env y db) r)" if r: "r \<in> set (receipt_rows db)" for r
    using models_of_others(1) [of r y env db] fresh_receipt_id [OF env r] well_formedD(2) [OF db r] id by simp
  ultimately show ?thesis
    using add_receipt_ok [OF well_formedD(1) [OF db] env id y(2,4) y(1) [of "re_db_now env"]]
    unfolding receipts_well_formed_def by (auto simp: add_receipt_def)
qed

lemma replaced_ok:
  assumes db: "receipt_tables_ok db" and env: "receipt_env_fresh env db"
    and x: "receipt_row_ok (receipt_to_record (re_db_now env) x)" "distinct (rp_receipt_file_ids x)" "length (rp_receipt_file_ids x) \<le> 5"
    and r: "find_receipt_record (rp_id x) (rp_user_id x) db = Some r"
  shows "receipt_tables_ok (replace_receipt env x db)"
proof -
  let ?put = "put_receipt (re_db_now env) x db"
  have "map rc_id (update_rows p (stamp_update now x) rows) = map rc_id rows" for p rows now
    by (rule map_key_update_rows) simp
  then have "receipt_env_fresh env ?put" using env unfolding receipt_env_fresh_def put_receipt_def by simp
  moreover have "\<exists>r \<in> set (receipt_rows ?put). rc_id r = rp_id x"
    using found_receipt [OF r] by (auto simp: put_receipt_def set_update_rows intro!: bexI [of _ "stamp_update (re_db_now env) x r"])
  ultimately have "receipt_tables_ok ((drop_attachments (rp_id x) ?put)\<lparr>attachment_rows :=
      attachment_rows (drop_attachments (rp_id x) ?put) @ new_attachments (re_attachment_ids env) (re_db_now env) x\<rparr>)"
    by (intro add_attachments_ok put_receipt_ok db x)
  then show ?thesis by (simp add: replace_receipt_def drop_attachments_def Let_def)
qed

lemma replaced_well_formed:
  assumes db: "receipts_well_formed db" and env: "receipt_env_fresh env db"
    and made: "create_receipt fresh today x = Inr y" and x: "storable x" "input_dates x"
    and r: "find_receipt_record (rp_id y) (rp_user_id y) db = Some r"
  shows "receipts_well_formed (replace_receipt env y db)"
proof -
  note y = created_receipt [OF made x(1)]
  note tables = replaced_ok [OF well_formedD(1) [OF db] env y(1,2,4) r]
  have "receipt_well_formed (read_model_of (replace_receipt env y db) q')"
    if q: "q \<in> set (receipt_rows db)" and q': "q' = (if rc_id q = rp_id y then stamp_update (re_db_now env) y q else q)" for q q'
  proof (cases "rc_id q = rp_id y")
    case True
    have "q = r"
      using True found_receipt [OF r] q tables_okD(2) [OF well_formedD(1) [OF db]] by (metis distinct_map inj_onD)
    then have "read_model_of (replace_receipt env y db) q' =
        (record_to_read_model (receipt_to_record (re_db_now env) y) (sort (rp_receipt_file_ids y)))\<lparr>rm_registered_at := rc_created_at r\<rparr>"
      using stamped_model [OF r] replaced_file_ids [of y env db] q' True by (simp add: read_model_of_def)
    then show ?thesis using created_well_formed [OF made x(1,2) refl] by simp
  next
    case False
    then show ?thesis
      using models_of_others(2) [OF False, of env db] well_formedD(2) [OF db q] q' by simp
  qed
  moreover have "set (receipt_rows (replace_receipt env y db)) =
      (\<lambda>q. if rc_id q = rp_id y then stamp_update (re_db_now env) y q else q) ` set (receipt_rows db)"
    by (simp add: replace_receipt_def put_receipt_def set_update_rows Let_def)
  ultimately show ?thesis using tables unfolding receipts_well_formed_def by blast
qed

lemma removed_well_formed:
  assumes "receipts_well_formed db"
  shows "receipts_well_formed (remove_receipt i db)"
proof -
  have "read_model_of (remove_receipt i db) r = read_model_of db r" if "rc_id r \<noteq> i" for r
    using files_of_removed [OF that, of db] by (simp add: read_model_of_def)
  then show ?thesis
    using remove_receipt_ok [OF well_formedD(1) [OF assms], of i] well_formedD(2) [OF assms]
    unfolding receipts_well_formed_def by (auto simp: remove_receipt_def drop_attachments_def)
qed

section \<open>Calls\<close>

text \<open>
  What sessions can make of the tables: any calls, one after the other or overlapping with an update. Between the two
  reads of an update, where nothing is locked yet, others may commit whatever calls they like; between its writes they
  may commit calls on other receipts.
\<close>

inductive receipts_reach :: "'z receipt_db_scheme \<Rightarrow> 'z receipt_db_scheme \<Rightarrow> bool" for db where
  start: "receipts_reach db db"
| created: "receipts_reach db db1 \<Longrightarrow> receipt_env_fresh env db1 \<Longrightarrow> valid_date (cr_payment_date cmd) \<Longrightarrow>
    receipts_reach db (committed (snd (create_new_receipt env cmd (open_session db1))))"
| updated: "receipts_reach db db1 \<Longrightarrow> receipts_reach db (re_rivals env 0 (re_rival env db1)) \<Longrightarrow>
    receipts_reach db (re_rival env db1) \<Longrightarrow> receipts_reach db (others_done env db1) \<Longrightarrow>
    receipt_env_fresh env (others_done env db1) \<Longrightarrow> \<forall>n. beside (up_receipt_id cmd) (re_rivals env n) \<Longrightarrow>
    \<forall>d \<in> set_option (up_payment_date cmd). valid_date d \<Longrightarrow>
    receipts_reach db (committed (snd (update_receipt env cmd (open_session db1))))"
| deleted: "receipts_reach db db1 \<Longrightarrow> receipts_reach db (committed (snd (delete_receipt u i (open_session db1))))"

lemma committed_open_session [simp]: "committed (open_session db) = db"
  by (simp add: open_session_def)

lemma created_tables_well_formed:
  assumes "receipts_well_formed db" and "receipt_env_fresh env db" and "valid_date (cr_payment_date cmd)"
  shows "receipts_well_formed (committed (snd (create_new_receipt env cmd (open_session db))))"
proof (cases "create_receipt (re_receipt_id env) (re_today env) (create_input cmd)")
  case (Inr x)
  have "input_dates (create_input cmd)" "ri_receipt_id (create_input cmd) = None"
    using assms(3) by (simp_all add: input_dates_def create_input_def)
  from added_well_formed [OF assms(1,2) Inr create_input_storable [OF Inr] this] show ?thesis
    by (simp add: create_run [OF well_formedD(1) [OF assms(1)] assms(2)] Inr)
qed (simp add: create_run [OF well_formedD(1) [OF assms(1)] assms(2)] assms(1))

lemma updated_inputD:
  assumes "updated_input cmd m = Inr inp"
  shows "ri_user_id inp = up_user_id cmd" "ri_receipt_id inp = Some (rm_receipt_id m)"
    "ri_item_name inp = updated_value cmd ''item_name'' (up_item_name cmd) (Some (rm_item_name m))"
    "ri_payment_date inp = updated_value cmd ''payment_date'' (up_payment_date cmd) (Some (rm_payment_date m))"
    "ri_brand_name inp = updated_value cmd ''brand_name'' (up_brand_name cmd) (rm_brand_name m)"
    "ri_serial_number inp = updated_value cmd ''serial_number'' (up_serial_number cmd) (rm_serial_number m)"
    "ri_payment_location inp = updated_value cmd ''payment_location'' (up_payment_location cmd) (rm_payment_location m)"
    "ri_total_amount inp = updated_value cmd ''total_amount'' (up_total_amount cmd) (rm_total_amount m)"
    "Inr (ri_period_months inp) = bindE (required_updated_value cmd ''period_months'' (up_period_months cmd) (rm_period_months m)) (\<lambda>n. Inr (Some n))"
    "ri_expires_on inp = resolved_expires_on cmd m"
    "ri_category inp = map_option CategoryMember (updated_value cmd ''category'' (up_category cmd) (rm_category m))"
    "ri_sub_category inp = updated_value cmd ''sub_category'' (up_sub_category cmd) (rm_sub_category m)"
    "ri_memo inp = updated_value cmd ''memo'' (up_memo cmd) (rm_memo m)"
    "ri_requires_physical_receipt inp = updated_value cmd ''requires_physical_receipt'' (up_requires_physical_receipt cmd)
       (Some (rm_requires_physical_receipt m))"
    "ri_receipt_file_ids inp = updated_value cmd ''receipt_file_ids'' (up_receipt_file_ids cmd) (Some (rm_receipt_file_ids m))"
  using assms unfolding updated_input_def bindE_Inr by - (elim exE conjE, simp only: sum.inject, hypsubst, simp)+

text \<open>An update that gets as far as the second read has made a receipt of what it found.\<close>

lemma updated_receipt:
  assumes db: "receipt_tables_ok db" and r: "find_receipt_record i u db = Some r"
    and inp: "updated_input cmd (read_model_of db r) = Inr inp" and made: "create_receipt fresh today inp = Inr x"
    and cmd: "up_receipt_id cmd = i" "up_user_id cmd = u"
  shows "storable inp" and "rp_id x = i" and "rp_user_id x = u"
proof -
  have row: "receipt_row_ok r" using bspec [OF tables_okD(1) [OF db] found_receipt(1) [OF r]] .
  have acc: "receipt_accepted today inp" using made by (simp add: create_receipt_eq split: if_splits)
  show st: "storable inp" by (rule updated_input_storable [OF row inp [unfolded read_model_of_def] acc])
  show "rp_id x = i" "rp_user_id x = u"
    using created_receipt(5,6) [OF made st] updated_inputD(1,2) [OF inp] found_receipt(2) [OF r] cmd
    by (simp_all add: read_model_of_def record_to_read_model_def)
qed

lemma updated_input_dates:
  assumes "receipt_well_formed m" and "\<forall>d \<in> set_option (up_payment_date cmd). valid_date d" and "updated_input cmd m = Inr inp"
  shows "input_dates inp"
  using assms(1,2) by (simp add: input_dates_def updated_inputD(4) [OF assms(3)] updated_value_def receipt_well_formed_def)

lemma updated_tables_well_formed:
  assumes db: "receipts_well_formed db" and rival: "receipts_well_formed (re_rival env db)"
    and later: "receipts_well_formed (re_rivals env 0 (re_rival env db))" and last: "receipts_well_formed (others_done env db)"
    and env: "receipt_env_fresh env (others_done env db)" and beside: "\<forall>n. beside (up_receipt_id cmd) (re_rivals env n)"
    and dates: "\<forall>d \<in> set_option (up_payment_date cmd). valid_date d"
  shows "receipts_well_formed (committed (snd (update_receipt env cmd (open_session db))))"
proof -
  have "receipts_well_formed (snd (update_outcome env cmd db))"
  proof (cases "find_receipt_record (up_receipt_id cmd) (up_user_id cmd) db")
    case (Some r)
    have m: "receipt_well_formed (read_model_of db r)" using well_formedD(2) [OF db found_receipt(1) [OF Some]] .
    have "receipts_well_formed (replace_receipt env x (others_done env db))"
      if inp: "updated_input cmd (read_model_of db r) = Inr inp" and made: "create_receipt (re_receipt_id env) (re_today env) inp = Inr x"
        and r': "find_receipt_record (up_receipt_id cmd) (up_user_id cmd) (re_rival env db) = Some r'" for inp x r'
    proof -
      note x = updated_receipt [OF well_formedD(1) [OF db] Some inp made refl refl]
      have "find_receipt_record (rp_id x) (rp_user_id x) (others_done env db) = Some r'"
        using find_when_done [OF beside well_formedD(1) [OF later] well_formedD(1) [OF last] r'] x(2,3) by simp
      then show ?thesis by (rule replaced_well_formed [OF last env made x(1) updated_input_dates [OF m dates inp]])
    qed
    then show ?thesis
      using db rival Some by (auto simp: update_outcome_def Let_def bindE_def split: sum.split option.split)
  qed (simp add: update_outcome_def db)
  then show ?thesis
    using update_run [OF well_formedD(1) [OF db] well_formedD(1) [OF later] well_formedD(1) [OF last] env beside] by simp
qed

text \<open>C25. However clients create, change and delete receipts, one call after the other or with other calls in the middle
  of an update (any calls between its two reads, calls on other receipts between its writes), every stored receipt is
  well formed: its texts are stripped and not blank, the amount is not negative, the warranty runs for 1 to 120 months
  and ends on or after the payment, and it has one to five different files; the tables keep their constraints. What two
  updates do that write the same receipt at once is \<open>overlapping_updates_add_up\<close>.\<close>

theorem receipts_stay_well_formed:
  assumes "receipts_reach db db'" and "receipts_well_formed db"
  shows "receipts_well_formed db'"
  using assms
proof induction
  case (deleted db1 u i)
  then have db1: "receipts_well_formed db1" by simp
  show ?case
    using db1 removed_well_formed [OF db1, of i] by (simp add: delete_run [OF well_formedD(1) [OF db1]])
qed (simp_all add: created_tables_well_formed updated_tables_well_formed)

section \<open>Reading a receipt\<close>

lemma get_receipt_run:
  "get_receipt u i (open_session db) =
    (case find_receipt_record i u db of
       None \<Rightarrow> (Inl (ReceiptNotFoundError i), open_session db)
     | Some r \<Rightarrow> (Inr (read_model_of db r), open_session db))"
  by (simp add: get_receipt_def repo_find_receipt_def session_bind raiseA_def returnA_def open_session_def split: option.split)

lemma not_found_for_others:
  assumes "receipt_tables_ok db" and "r \<in> set (receipt_rows db)" and "rc_user_id r \<noteq> v"
  shows "find_receipt_record (rc_id r) v db = None"
  using other_ids [OF assms(1) _ _ assms(2) refl, of "rc_id r" v] assms(3) by (cases "find_receipt_record (rc_id r) v db") auto

section \<open>What is stored is what was sent\<close>

text \<open>The read model a create command asks for, given its expiry.\<close>

definition entered_model :: "'db receipt_env \<Rightarrow> create_receipt_command \<Rightarrow> date \<Rightarrow> receipt_read_model" where
  "entered_model env cmd expires =
     \<lparr>rm_receipt_id = re_receipt_id env, rm_user_id = cr_user_id cmd, rm_item_name = strip (cr_item_name cmd),
      rm_brand_name = clean_text (cr_brand_name cmd), rm_serial_number = clean_text (cr_serial_number cmd),
      rm_payment_location = clean_text (cr_payment_location cmd), rm_payment_date = cr_payment_date cmd,
      rm_total_amount = cr_total_amount cmd,
      rm_period_months = (case cr_period_months cmd of None \<Rightarrow> 12 | Some n \<Rightarrow> n), rm_expires_on = expires,
      rm_category = cr_category cmd, rm_sub_category = clean_text (cr_sub_category cmd), rm_memo = clean_text (cr_memo cmd),
      rm_requires_physical_receipt = cr_requires_physical_receipt cmd,
      rm_receipt_file_ids = sort (the (cr_receipt_file_ids cmd)), rm_registered_at = re_db_now env\<rparr>"

lemma stored_category: "Option.bind (map_option receipt_category_value c) receipt_category_of = c"
  by (cases c) simp_all

lemma created_model:
  assumes "create_receipt (re_receipt_id env) today (create_input cmd) = Inr x"
  shows "record_to_read_model (receipt_to_record (re_db_now env) x) (sort (rp_receipt_file_ids x)) = entered_model env cmd (rp_expires_on x)"
    and "resolve_expires_on (cr_expires_on cmd) (cr_payment_date cmd) (resolved_period (create_input cmd)) = Inr (rp_expires_on x)"
proof -
  obtain e where x: "x = receipt_made (re_receipt_id env) (create_input cmd) e"
    and e: "resolve_expires_on (cr_expires_on cmd) (cr_payment_date cmd) (resolved_period (create_input cmd)) = Inr e"
    using assms by (auto simp: create_receipt_eq bindE_Inr create_input_def split: if_splits)
  have "map_option paid_value (map_option TotalAmount a) = a" for a by (cases a) simp_all
  moreover have "chosen_category (map_option CategoryMember c) = c" for c by (cases c) (simp_all add: chosen_category_def)
  ultimately show "record_to_read_model (receipt_to_record (re_db_now env) x) (sort (rp_receipt_file_ids x)) =
      entered_model env cmd (rp_expires_on x)"
    by (simp add: record_to_read_model_def receipt_to_record_def x receipt_made_def create_input_def entered_model_def
        resolved_period_def stored_category)
  show "resolve_expires_on (cr_expires_on cmd) (cr_payment_date cmd) (resolved_period (create_input cmd)) = Inr (rp_expires_on x)"
    using e by (simp add: x receipt_made_def)
qed

text \<open>A create command with fields the domain accepts stores the receipt as entered, stripped of surrounding blanks,
  with the expiry that was sent or the payment date moved by the warranty months; its user reads the same receipt back.
  Otherwise every rejected field is reported, or the expiry that is before the payment, and nothing is stored.\<close>

theorem created_receipt_is_read_back:
  assumes "receipt_tables_ok db" and "receipt_env_fresh env db"
  shows "case create_new_receipt env cmd (open_session db) of
      (Inr m, s) \<Rightarrow>
        receipt_accepted (re_today env) (create_input cmd) \<and>
        m = entered_model env cmd (rm_expires_on m) \<and>
        rm_expires_on m = (case cr_expires_on cmd of Some d \<Rightarrow> d
          | None \<Rightarrow> the (add_months (cr_payment_date cmd) (rm_period_months m))) \<and>
        get_receipt (cr_user_id cmd) (re_receipt_id env) (open_session (committed s)) = (Inr m, open_session (committed s))
    | (Inl e, s) \<Rightarrow>
        committed s = db \<and>
        (if receipt_accepted (re_today env) (create_input cmd)
         then resolve_expires_on (cr_expires_on cmd) (cr_payment_date cmd) (resolved_period (create_input cmd)) = Inl e
         else e = ValidationError (receipt_errors (re_today env) (create_input cmd)))"
proof (cases "create_receipt (re_receipt_id env) (re_today env) (create_input cmd)")
  case (Inl e)
  then have "if receipt_accepted (re_today env) (create_input cmd)
      then resolve_expires_on (cr_expires_on cmd) (cr_payment_date cmd) (resolved_period (create_input cmd)) = Inl e
      else e = ValidationError (receipt_errors (re_today env) (create_input cmd))"
    by (auto simp: create_receipt_eq bindE_Inl create_input_def split: if_splits)
  then show ?thesis by (simp add: create_run [OF assms] Inl)
next
  case (Inr x)
  note x = created_receipt [OF Inr create_input_storable [OF Inr]]
  note m = created_model [OF Inr]
  have id: "rp_id x = re_receipt_id env" "rp_user_id x = cr_user_id cmd" using x(5,6) by (simp_all add: create_input_def)
  have "find (\<lambda>r. rc_id r = re_receipt_id env \<and> rc_user_id r = cr_user_id cmd) (receipt_rows db) = None"
    using fresh_receipt_id [OF assms(2)] by (auto simp: find_None_iff_ball)
  then have found: "find_receipt_record (re_receipt_id env) (cr_user_id cmd) (add_receipt env x db) =
      Some (receipt_to_record (re_db_now env) x)"
    by (simp add: find_receipt_record_def add_receipt_def find_append receipt_to_record_def id)
  have "rm_expires_on (entered_model env cmd e) = e" for e by (simp add: entered_model_def)
  moreover have "rm_period_months (entered_model env cmd e) = resolved_period (create_input cmd)" for e
    by (simp add: entered_model_def resolved_period_def create_input_def)
  moreover have "rp_expires_on x = (case cr_expires_on cmd of Some d \<Rightarrow> d
      | None \<Rightarrow> the (add_months (cr_payment_date cmd) (resolved_period (create_input cmd))))"
    using m(2) by (auto simp: resolve_expires_on_def split: option.splits if_splits)
  ultimately show ?thesis
    using x(7) by (cases "cr_expires_on cmd")
      (simp_all add: create_run [OF assms] Inr get_receipt_run found added_model [OF assms id(1)] m(1))
qed

text \<open>The read model an update asks for.\<close>

definition sent :: "update_receipt_command \<Rightarrow> string \<Rightarrow> 'a \<Rightarrow> 'a \<Rightarrow> 'a" where
  "sent cmd field new_value current_value = (if has_update cmd field then new_value else current_value)"

definition changed_model :: "update_receipt_command \<Rightarrow> receipt_read_model \<Rightarrow> receipt_read_model" where
  "changed_model cmd m =
     (let paid = sent cmd ''payment_date'' (the (up_payment_date cmd)) (rm_payment_date m);
          months = sent cmd ''period_months'' (the (up_period_months cmd)) (rm_period_months m)
      in m\<lparr>rm_item_name := sent cmd ''item_name'' (strip (the (up_item_name cmd))) (rm_item_name m),
           rm_brand_name := sent cmd ''brand_name'' (clean_text (up_brand_name cmd)) (rm_brand_name m),
           rm_serial_number := sent cmd ''serial_number'' (clean_text (up_serial_number cmd)) (rm_serial_number m),
           rm_payment_location := sent cmd ''payment_location'' (clean_text (up_payment_location cmd)) (rm_payment_location m),
           rm_payment_date := paid,
           rm_total_amount := sent cmd ''total_amount'' (up_total_amount cmd) (rm_total_amount m),
           rm_period_months := months,
           rm_expires_on :=
             (if has_update cmd ''expires_on'' \<and> up_expires_on cmd \<noteq> None then the (up_expires_on cmd)
              else if has_update cmd ''expires_on'' \<or> paid \<noteq> rm_payment_date m \<or> months \<noteq> rm_period_months m
              then the (add_months paid months)
              else rm_expires_on m),
           rm_category := sent cmd ''category'' (up_category cmd) (rm_category m),
           rm_sub_category := sent cmd ''sub_category'' (clean_text (up_sub_category cmd)) (rm_sub_category m),
           rm_memo := sent cmd ''memo'' (clean_text (up_memo cmd)) (rm_memo m),
           rm_requires_physical_receipt :=
             sent cmd ''requires_physical_receipt'' (the (up_requires_physical_receipt cmd)) (rm_requires_physical_receipt m),
           rm_receipt_file_ids := sent cmd ''receipt_file_ids'' (sort (the (up_receipt_file_ids cmd))) (rm_receipt_file_ids m)\<rparr>)"

lemma tidy_clean_text [simp]: "tidy v \<Longrightarrow> clean_text v = v"
  by (cases v) (simp_all add: tidy_def clean_text_def)

lemma updated_value_sent: "updated_value cmd f v c = sent cmd f v c"
  by (simp add: updated_value_def sent_def)

lemma sent_push:
  "clean_text (sent cmd f v c) = sent cmd f (clean_text v) (clean_text c)"
  "strip (sent cmd f s t) = sent cmd f (strip s) (strip t)"
  "the (sent cmd f x (Some y)) = sent cmd f (the x) y"
  "sort (sent cmd f us ws) = sent cmd f (sort us) (sort ws)"
  by (simp_all add: sent_def)

lemma updated_model:
  assumes m: "m = record_to_read_model r fs" "receipt_well_formed m" "sorted fs" and user: "rc_user_id r = up_user_id cmd"
    and inp: "updated_input cmd m = Inr inp"
    and made: "create_receipt fresh today inp = Inr x"
  shows "(record_to_read_model (receipt_to_record now x) (sort (rp_receipt_file_ids x)))\<lparr>rm_registered_at := rc_created_at r\<rparr> =
    changed_model cmd m"
proof -
  obtain e where x: "x = receipt_made fresh inp e" and acc: "receipt_accepted today inp"
    and e: "resolve_expires_on (ri_expires_on inp) (the (ri_payment_date inp)) (resolved_period inp) = Inr e"
    using made by (auto simp: create_receipt_eq bindE_Inr split: if_splits)
  have "map_option paid_value (map_option TotalAmount a) = a" for a by (cases a) simp_all
  moreover have "chosen_category (map_option CategoryMember c) = c" for c by (cases c) (simp_all add: chosen_category_def)
  moreover have period: "resolved_period inp = sent cmd ''period_months'' (the (up_period_months cmd)) (rm_period_months m)"
    using updated_inputD(9) [OF inp]
    by (auto simp: resolved_period_def required_updated_value_def sent_def split: if_splits option.splits)
  moreover have "e = (let paid = sent cmd ''payment_date'' (the (up_payment_date cmd)) (rm_payment_date m);
        months = sent cmd ''period_months'' (the (up_period_months cmd)) (rm_period_months m)
      in if has_update cmd ''expires_on'' \<and> up_expires_on cmd \<noteq> None then the (up_expires_on cmd)
         else if has_update cmd ''expires_on'' \<or> paid \<noteq> rm_payment_date m \<or> months \<noteq> rm_period_months m
         then the (add_months paid months) else rm_expires_on m)"
  proof -
    let ?paid = "sent cmd ''payment_date'' (the (up_payment_date cmd)) (rm_payment_date m)"
    let ?months = "sent cmd ''period_months'' (the (up_period_months cmd)) (rm_period_months m)"
    have "ri_payment_date inp \<noteq> None" using acc by (auto simp: receipt_accepted_def)
    then have "(has_update cmd ''payment_date'' \<and> up_payment_date cmd \<noteq> Some (rm_payment_date m)) = (?paid \<noteq> rm_payment_date m)"
      by (auto simp: updated_inputD(4) [OF inp] updated_value_def sent_def split: if_splits)
    moreover have "(has_update cmd ''period_months'' \<and> up_period_months cmd \<noteq> Some (rm_period_months m)) = (?months \<noteq> rm_period_months m)"
      using updated_inputD(9) [OF inp]
      by (auto simp: required_updated_value_def sent_def split: if_splits option.splits)
    ultimately have "resolved_expires_on cmd m =
        (if has_update cmd ''expires_on'' then up_expires_on cmd
         else if ?paid \<noteq> rm_payment_date m \<or> ?months \<noteq> rm_period_months m then None else Some (rm_expires_on m))"
      by (simp add: resolved_expires_on_def Let_def)
    moreover have "the (ri_payment_date inp) = ?paid" by (simp add: updated_inputD(4) [OF inp] updated_value_sent sent_push)
    ultimately show ?thesis
      using e updated_inputD(10) [OF inp] by (auto simp: resolve_expires_on_def period Let_def split: option.splits if_splits)
  qed
  moreover have "rm_receipt_id m = rc_id r" "rm_user_id m = rc_user_id r" "rm_registered_at m = rc_created_at r"
    "sort (rm_receipt_file_ids m) = rm_receipt_file_ids m" "up_user_id cmd = rc_user_id r"
    using m(1,3) user by (simp_all add: record_to_read_model_def sorted_sort_id)
  ultimately show ?thesis
    using m(2) unfolding x
    by (intro receipt_read_model.equality)
      (simp_all add: record_to_read_model_def receipt_to_record_def receipt_made_def stored_category updated_inputD [OF inp]
        updated_value_sent sent_push changed_model_def Let_def receipt_well_formed_def)
qed

lemma find_replaced:
  "find_receipt_record i u (replace_receipt env x db) =
    (if i = rp_id x then map_option (stamp_update (re_db_now env) x) (find_receipt_record i u db) else find_receipt_record i u db)"
proof -
  have "find (\<lambda>r. rc_id r = rp_id x \<and> rc_user_id r = u) (update_rows (\<lambda>r. rc_id r = rp_id x) (stamp_update now x) rows) =
      map_option (stamp_update now x) (find (\<lambda>r. rc_id r = rp_id x \<and> rc_user_id r = u) rows)" for rows now
    by (induction rows) auto
  moreover have "find (\<lambda>r. rc_id r = i \<and> rc_user_id r = u) (update_rows (\<lambda>r. rc_id r = rp_id x) (stamp_update now x) rows) =
      find (\<lambda>r. rc_id r = i \<and> rc_user_id r = u) rows" if "i \<noteq> rp_id x" for rows now
    using that by (intro find_update_rows_other) auto
  ultimately show ?thesis
    by (simp add: find_receipt_record_def replace_receipt_def put_receipt_def Let_def)
qed

text \<open>C24. An update that succeeds changes the fields that were sent and no others: a field that was not sent keeps its
  value, legacy amounts and periods beyond today's limits included; the expiry is what was sent, or computed anew when
  the payment date or the period really changed, or kept. The user reads the result back, every other receipt reads as
  before; an update that fails stores nothing.\<close>

theorem update_changes_what_was_sent:
  assumes "receipts_well_formed db" and "receipt_env_fresh env db" and "undisturbed env"
    and "find_receipt_record (up_receipt_id cmd) (up_user_id cmd) db = Some r"
  shows "case update_receipt env cmd (open_session db) of
      (Inl e, s) \<Rightarrow> committed s = db
    | (Inr m, s) \<Rightarrow>
        m = changed_model cmd (read_model_of db r) \<and>
        get_receipt (up_user_id cmd) (up_receipt_id cmd) (open_session (committed s)) = (Inr m, open_session (committed s)) \<and>
        (\<forall>i u. i \<noteq> up_receipt_id cmd \<longrightarrow>
          fst (get_receipt u i (open_session (committed s))) = fst (get_receipt u i (open_session db)))"
proof -
  let ?create = "bindE (updated_input cmd (read_model_of db r)) (create_receipt (re_receipt_id env) (re_today env))"
  note db = well_formedD(1) [OF assms(1)]
  have upd: "update_receipt env cmd (open_session db) = (fst (update_outcome env cmd db), open_session (snd (update_outcome env cmd db)))"
    using update_undisturbed [OF db assms(2,3)] by simp
  show ?thesis
  proof (cases ?create)
    case (Inl e)
    then show ?thesis by (simp add: upd update_outcome_def assms(4))
  next
    case (Inr x)
    then obtain inp where inp: "updated_input cmd (read_model_of db r) = Inr inp"
      and made: "create_receipt (re_receipt_id env) (re_today env) inp = Inr x" by (auto simp: bindE_Inr)
    note x = updated_receipt [OF db assms(4) inp made refl refl]
    have found: "find_receipt_record (rp_id x) (rp_user_id x) db = Some r" using assms(4) x by simp
    have m: "record_to_read_model (stamp_update (re_db_now env) x r) (sort (rp_receipt_file_ids x)) = changed_model cmd (read_model_of db r)"
      unfolding stamped_model [OF found]
      using well_formedD(2) [OF assms(1) found_receipt(1) [OF found]] found_receipt(3) [OF found] x(3)
      by (intro updated_model [OF read_model_of_def _ _ _ inp made]) (simp_all add: file_ids_for_receipt_def)
    have "read_model_of (replace_receipt env x db) (stamp_update (re_db_now env) x r) = changed_model cmd (read_model_of db r)"
      using m replaced_file_ids [of x env db] found_receipt(2) [OF found] by (simp add: read_model_of_def)
    then have "get_receipt (up_user_id cmd) (up_receipt_id cmd) (open_session (replace_receipt env x db)) =
        (Inr (changed_model cmd (read_model_of db r)), open_session (replace_receipt env x db))"
      using found x(2,3) by (simp add: get_receipt_run find_replaced)
    moreover have "fst (get_receipt u i (open_session (replace_receipt env x db))) = fst (get_receipt u i (open_session db))"
      if "i \<noteq> rp_id x" for i u
      using that models_of_others(2) [of _ x env db] found_receipt(2) [of i u db]
      by (auto simp: get_receipt_run find_replaced split: option.split)
    ultimately show ?thesis
      using inp made m assms(3,4) x(2) by (simp add: upd update_outcome_def Let_def)
  qed
qed

text \<open>What is stored passes the checks of the domain again, when nothing is sent.\<close>

lemma unchanged_input_accepted:
  assumes db: "receipt_tables_ok db" and r: "r \<in> set (receipt_rows db)" and wf: "receipt_well_formed (read_model_of db r)"
    and none: "up_updated_fields cmd = {}" and today: "rc_payment_date r \<le> today"
    and inp: "updated_input cmd (read_model_of db r) = Inr inp"
  shows "receipt_accepted today inp"
    and "resolve_expires_on (ri_expires_on inp) (the (ri_payment_date inp)) (resolved_period inp) = Inr (rc_expires_on r)"
proof -
  have keep: "updated_value cmd f v c = c" "has_update cmd f = False" for f and v c :: "'x option"
    using none by (simp_all add: updated_value_def has_update_def)
  have row: "receipt_row_ok r" by (rule bspec [OF tables_okD(1) [OF db] r])
  have period: "ri_period_months inp = Some (rc_period_months r)"
    using updated_inputD(9) [OF inp] keep(2)
    by (simp add: required_updated_value_def read_model_of_def record_to_read_model_def)
  have preserve: "ri_preserve_legacy_total_amount inp = (\<exists>v \<in> set_option (rc_total_amount r). v > max_amount)"
    "ri_preserve_future_period_months inp = (rc_period_months r > max_months)"
    using inp keep(2) by (auto simp: updated_input_def required_updated_value_def read_model_of_def record_to_read_model_def)
  have within: "text_within n v" if "varchar n v" "tidy v" for n v
    using that by (cases v) (simp_all add: text_within_def varchar_def tidy_def)
  have keeps: "sent cmd f v c = c" for f and v c :: 'x using none by (simp add: sent_def has_update_def)
  note inputs = updated_inputD [OF inp, unfolded updated_value_sent]
  have texts: "varchar 255 (rc_brand_name r)" "varchar 255 (rc_serial_number r)" "varchar 500 (rc_payment_location r)"
    "varchar 100 (rc_sub_category r)" "varchar 1000 (rc_memo r)"
    using row by (simp_all add: receipt_row_ok_def receipt_row_checks_def)
  note models = read_model_of_def record_to_read_model_def
  have wf': "rc_item_name r \<noteq> []" "strip (rc_item_name r) = rc_item_name r" "length (rc_item_name r) \<le> 255"
    "tidy (rc_brand_name r)" "tidy (rc_serial_number r)" "tidy (rc_payment_location r)" "tidy (rc_sub_category r)" "tidy (rc_memo r)"
    "rc_payment_date r \<le> rc_expires_on r" "\<forall>v \<in> set_option (rc_total_amount r). 0 \<le> v" "1 \<le> rc_period_months r"
    "1 \<le> length (file_ids_for_receipt (rc_id r) db)" "length (file_ids_for_receipt (rc_id r) db) \<le> 5"
    "distinct (file_ids_for_receipt (rc_id r) db)"
    using wf by (simp_all add: receipt_well_formed_def models)
  have category: "category_accepted (map_option CategoryMember c)" for c
    by (cases c) (simp_all add: category_accepted_def)
  show "receipt_accepted today inp"
    unfolding receipt_accepted_def amount_accepted_def period_accepted_def resolved_period_def
    using wf' texts today by (auto simp: inputs keeps period preserve models within category)
  show "resolve_expires_on (ri_expires_on inp) (the (ri_payment_date inp)) (resolved_period inp) = Inr (rc_expires_on r)"
    using wf'(9) none by (simp add: inputs keeps models resolve_expires_on_def resolved_expires_on_def has_update_def)
qed

text \<open>An update that sends nothing succeeds on every well-formed receipt, those with an amount or a period beyond the
  limits of new receipts included, and the receipt reads exactly as before.\<close>

theorem empty_update_keeps_receipt:
  assumes "receipts_well_formed db" and "receipt_env_fresh env db" and "undisturbed env"
    and "find_receipt_record (up_receipt_id cmd) (up_user_id cmd) db = Some r"
    and "up_updated_fields cmd = {}" and "rc_payment_date r \<le> re_today env"
  shows "\<exists>s. update_receipt env cmd (open_session db) = (Inr (read_model_of db r), s) \<and>
    get_receipt (up_user_id cmd) (up_receipt_id cmd) (open_session (committed s)) =
      (Inr (read_model_of db r), open_session (committed s))"
proof -
  note db = well_formedD(1) [OF assms(1)]
  note row = found_receipt [OF assms(4)]
  note wf = well_formedD(2) [OF assms(1) row(1)]
  obtain inp where inp: "updated_input cmd (read_model_of db r) = Inr inp"
    using assms(5) by (simp add: updated_input_def required_updated_value_def has_update_def)
  note ok = unchanged_input_accepted [OF db row(1) wf assms(5,6) inp]
  obtain x where made: "create_receipt (re_receipt_id env) (re_today env) inp = Inr x"
    using ok by (simp add: create_receipt_eq)
  note x = updated_receipt [OF db assms(4) inp made refl refl]
  have found: "find_receipt_record (rp_id x) (rp_user_id x) db = Some r" using assms(4) x by simp
  have "changed_model cmd (read_model_of db r) = read_model_of db r"
    using assms(5) by (simp add: changed_model_def sent_def has_update_def Let_def)
  then have m: "record_to_read_model (stamp_update (re_db_now env) x r) (sort (rp_receipt_file_ids x)) = read_model_of db r"
    using updated_model [OF read_model_of_def wf _ _ inp made] row(3) by (simp add: stamped_model [OF found] file_ids_for_receipt_def)
  have "update_receipt env cmd (open_session db) = (Inr (read_model_of db r), open_session (replace_receipt env x db))"
    using update_undisturbed [OF db assms(2,3), of cmd] assms(3,4) inp made by (simp add: update_outcome_def Let_def m)
  moreover have "read_model_of (replace_receipt env x db) (stamp_update (re_db_now env) x r) = read_model_of db r"
    using m replaced_file_ids [of x env db] row(2) x(2) by (simp add: read_model_of_def [of "replace_receipt env x db"])
  ultimately show ?thesis
    using assms(4) x(2) by (simp add: get_receipt_run find_replaced)
qed

section \<open>A sample\<close>

definition no_receipts :: receipt_db where
  "no_receipts = \<lparr>outbox_events = [], user_credits = [], credit_transactions = [], promotions = [], promotion_contents = [],
     promotion_codes = [], promotion_redemptions = [],
     user_rows = [], receipt_rows = [], attachment_rows = []\<rparr>"

text \<open>A receipt from before the limits: 72 months of warranty and an amount of a billion.\<close>

definition sample_receipt :: receipt_row where
  "sample_receipt = \<lparr>rc_id = 10, rc_user_id = 1, rc_item_name = ascii ''TV'', rc_brand_name = Some (ascii ''LG''),
     rc_serial_number = None, rc_payment_location = None, rc_payment_date = Date 2024 1 31,
     rc_total_amount = Some 1000000000, rc_period_months = 72, rc_expires_on = Date 2030 1 31,
     rc_category = Some ''it_device'', rc_sub_category = None, rc_memo = None, rc_requires_physical_receipt = True,
     rc_created_at = 738000 * day_us, rc_updated_at = 738000 * day_us\<rparr>"

definition sample_receipts :: receipt_db where
  "sample_receipts = no_receipts\<lparr>receipt_rows := [sample_receipt],
     attachment_rows := [\<lparr>at_id = 20, at_receipt_id = 10, at_file_id = 30, at_created_at = 738000 * day_us\<rparr>]\<rparr>"

definition sample_receipt_env :: "receipt_db receipt_env" where
  "sample_receipt_env = \<lparr>re_receipt_id = 11, re_attachment_ids = (\<lambda>n. of_nat (40 + n)), re_db_now = 739000 * day_us,
     re_today = Date 2025 1 1, re_rival = id, re_rivals = (\<lambda>_. id)\<rparr>"

definition sample_create :: create_receipt_command where
  "sample_create = \<lparr>cr_user_id = 2, cr_item_name = ascii '' Fridge '', cr_payment_date = Date 2024 1 31,
     cr_brand_name = Some (ascii '' ''), cr_serial_number = None, cr_payment_location = None, cr_total_amount = Some 500,
     cr_period_months = Some 1, cr_expires_on = None, cr_category = Some KITCHEN_APPLIANCE, cr_sub_category = None,
     cr_memo = None, cr_requires_physical_receipt = False, cr_receipt_file_ids = Some [32, 31]\<rparr>"

definition sample_update :: "string set \<Rightarrow> update_receipt_command" where
  "sample_update names = \<lparr>up_user_id = 1, up_receipt_id = 10, up_updated_fields = names, up_item_name = None,
     up_brand_name = None, up_serial_number = None, up_payment_location = None, up_payment_date = Some (Date 2024 1 31),
     up_total_amount = None, up_period_months = Some 13, up_expires_on = None, up_category = None, up_sub_category = None,
     up_memo = Some (ascii '' note ''), up_requires_physical_receipt = None, up_receipt_file_ids = None\<rparr>"

lemma small_uuid: "a < 100 \<Longrightarrow> b < 100 \<Longrightarrow> (of_nat a :: uuid) = of_nat b \<Longrightarrow> a = b"
proof -
  have small: "unat (of_nat n :: uuid) = n" if "n < 100" for n using that by (simp add: unat_of_nat)
  assume "a < 100" "b < 100" "(of_nat a :: uuid) = of_nat b"
  then show "a = b" using small by metis
qed

lemma sample_ids_fresh: "receipt_env_fresh sample_receipt_env no_receipts" "receipt_env_fresh sample_receipt_env sample_receipts"
proof -
  have "inj_on (\<lambda>n. of_nat (40 + n) :: uuid) {..<5}"
    by (rule inj_onI) (use small_uuid [of "40 + n" "40 + m" for n m] in simp)
  moreover have "of_nat (40 + n) \<noteq> (20 :: uuid)" if "n < 5" for n
    using small_uuid [of "40 + n" 20] that by auto
  ultimately show "receipt_env_fresh sample_receipt_env no_receipts" "receipt_env_fresh sample_receipt_env sample_receipts"
    by (simp_all add: receipt_env_fresh_def sample_receipt_env_def no_receipts_def sample_receipts_def sample_receipt_def del: of_nat_add)
qed

lemma sample_well_formed: "receipts_well_formed no_receipts" "receipts_well_formed sample_receipts"
  by (simp_all add: receipts_well_formed_def receipt_tables_ok_def no_receipts_def sample_receipts_def sample_receipt_def
      receipt_row_ok_def receipt_row_checks_def receipt_well_formed_def read_model_of_def record_to_read_model_def
      file_ids_for_receipt_def tidy_def strip_eq_iff ascii_def is_space_def varchar_def int4_def int8_def
      receipt_categories_def less_eq_date_def days_in_month_def)

lemma sample_undisturbed: "undisturbed sample_receipt_env"
  by (simp add: undisturbed_def sample_receipt_env_def)

lemma sample_found: "find_receipt_record 10 1 sample_receipts = Some sample_receipt"
  by (simp add: find_receipt_record_def sample_receipts_def sample_receipt_def)

theorem receipts_stay_well_formed_witness:
  "receipts_well_formed (committed (snd (create_new_receipt sample_receipt_env sample_create (open_session no_receipts))))"
proof (rule receipts_stay_well_formed)
  show "receipts_reach no_receipts (committed (snd (create_new_receipt sample_receipt_env sample_create (open_session no_receipts))))"
    by (intro receipts_reach.created receipts_reach.start sample_ids_fresh) (simp add: sample_create_def days_in_month_def)
qed (rule sample_well_formed)

theorem created_receipt_is_read_back_witness:
  "\<exists>m s. create_new_receipt sample_receipt_env sample_create (open_session sample_receipts) = (Inr m, s) \<and>
    rm_item_name m = ascii ''Fridge'' \<and> rm_brand_name m = None \<and> rm_expires_on m = Date 2024 2 29 \<and>
    rm_receipt_file_ids m = [31, 32] \<and> fst (get_receipt 2 11 (open_session (committed s))) = Inr m"
proof -
  let ?in = "create_input sample_create"
  have acc: "receipt_accepted (re_today sample_receipt_env) ?in"
    by (simp add: receipt_accepted_def create_input_def sample_create_def sample_receipt_env_def strip_def lstrip_def rstrip_def ascii_def
        is_space_def amount_accepted_def period_accepted_def resolved_period_def max_amount_def max_months_def text_within_def
        category_accepted_def less_eq_date_def)
  have months: "add_months (Date 2024 1 31) 1 = Some (Date 2024 2 29)" by (simp add: mk_date_def days_in_month_def is_leap_def)
  obtain r s where run: "create_new_receipt sample_receipt_env sample_create (open_session sample_receipts) = (r, s)" by fastforce
  note stored = created_receipt_is_read_back [OF well_formedD(1) [OF sample_well_formed(2)] sample_ids_fresh(2), of sample_create, unfolded run]
  show ?thesis
  proof (cases r)
    case (Inl e)
    then show ?thesis
      using stored acc months by (simp add: sample_create_def resolve_expires_on_def resolved_period_def create_input_def)
  next
    case (Inr m)
    have m: "m = entered_model sample_receipt_env sample_create (rm_expires_on m)"
      and e: "rm_expires_on m = (case cr_expires_on sample_create of Some d \<Rightarrow> d
        | None \<Rightarrow> the (add_months (cr_payment_date sample_create) (rm_period_months m)))"
      and got: "get_receipt (cr_user_id sample_create) (re_receipt_id sample_receipt_env) (open_session (committed s)) =
        (Inr m, open_session (committed s))"
      using stored unfolding Inr prod.case sum.case by blast+
    have "rm_item_name m = strip (ascii '' Fridge '')" "rm_brand_name m = clean_text (Some (ascii '' ''))"
      "rm_period_months m = 1" "rm_receipt_file_ids m = sort [32, 31]"
      by (subst m; simp add: entered_model_def sample_create_def)+
    then show ?thesis
      using run Inr e got months
      by (simp add: strip_def lstrip_def rstrip_def ascii_def is_space_def clean_text_def sample_create_def sample_receipt_env_def
          del: add_months.simps)
  qed
qed

theorem update_changes_what_was_sent_witness:
  "case update_receipt sample_receipt_env (sample_update {''period_months'', ''memo''}) (open_session sample_receipts) of
     (Inl e, s) \<Rightarrow> committed s = sample_receipts
   | (Inr m, s) \<Rightarrow> m = (read_model_of sample_receipts sample_receipt)
       \<lparr>rm_period_months := 13, rm_expires_on := Date 2025 2 28, rm_memo := Some (ascii ''note'')\<rparr>"
proof -
  let ?cmd = "sample_update {''period_months'', ''memo''}"
  have "changed_model ?cmd (read_model_of sample_receipts sample_receipt) = (read_model_of sample_receipts sample_receipt)
      \<lparr>rm_period_months := 13, rm_expires_on := Date 2025 2 28, rm_memo := Some (ascii ''note'')\<rparr>"
    by (simp add: changed_model_def sent_def has_update_def sample_update_def resolved_expires_on_def read_model_of_def
        record_to_read_model_def sample_receipt_def mk_date_def days_in_month_def is_leap_def Let_def clean_text_def strip_def lstrip_def rstrip_def ascii_def is_space_def)
  moreover have "find_receipt_record (up_receipt_id ?cmd) (up_user_id ?cmd) sample_receipts = Some sample_receipt"
    using sample_found by (simp add: sample_update_def)
  ultimately show ?thesis
    using update_changes_what_was_sent [OF sample_well_formed(2) sample_ids_fresh(2) sample_undisturbed, of ?cmd sample_receipt]
    by (auto split: prod.split sum.split)
qed

theorem empty_update_keeps_receipt_witness:
  "\<exists>s. update_receipt sample_receipt_env (sample_update {}) (open_session sample_receipts) =
    (Inr (read_model_of sample_receipts sample_receipt), s)"
  using empty_update_keeps_receipt [OF sample_well_formed(2) sample_ids_fresh(2) sample_undisturbed, of "sample_update {}" sample_receipt] sample_found
  by (auto simp: sample_receipt_env_def sample_update_def sample_receipt_def less_eq_date_def)

end
