(* ===== verification/Web_Text.thy ===== *)
theory Web_Text
  imports Cursor_Text
begin

text \<open>
  Texts as they cross the wire: UTF-8, URL-safe Base64 and JSON, the way Python's \<open>str.encode\<close>,
  \<open>bytes.decode\<close>, \<open>base64\<close> and \<open>json\<close> write and read them. The readers take any input; what is
  written is read back.
\<close>

section \<open>UTF-8\<close>

text \<open>A byte is a number below 256; a surrogate has no UTF-8 form (\<open>UnicodeEncodeError\<close>).\<close>

definition scalar_value :: "nat \<Rightarrow> bool" where
  "scalar_value c \<longleftrightarrow> c < 55296 \<or> 57344 \<le> c \<and> c < 1114112"

definition utf8_char :: "nat \<Rightarrow> nat list" where
  "utf8_char c =
     (if c < 128 then [c]
      else if c < 2048 then [192 + c div 64, 128 + c mod 64]
      else if c < 65536 then [224 + c div 4096, 128 + c div 64 mod 64, 128 + c mod 64]
      else [240 + c div 262144, 128 + c div 4096 mod 64, 128 + c div 64 mod 64, 128 + c mod 64])"

definition utf8_encode :: "ustr \<Rightarrow> nat list option" where
  "utf8_encode s = (if list_all scalar_value s then Some (concat (map utf8_char s)) else None)"

definition utf8_length :: "nat \<Rightarrow> nat" where
  "utf8_length b =
     (if b < 128 then 1 else if b < 192 then 0 else if b < 224 then 2 else if b < 240 then 3 else if b < 248 then 4 else 0)"

fun utf8_value :: "nat list \<Rightarrow> nat" where
  "utf8_value [a] = a"
| "utf8_value [a, b] = (a - 192) * 64 + (b - 128)"
| "utf8_value [a, b, c] = (a - 224) * 4096 + (b - 128) * 64 + (c - 128)"
| "utf8_value [a, b, c, d] = (a - 240) * 262144 + (b - 128) * 4096 + (c - 128) * 64 + (d - 128)"
| "utf8_value _ = 0"

text \<open>Exactly the bytes that a scalar value is written with are accepted for it.\<close>

definition utf8_first :: "nat list \<Rightarrow> nat option" where
  "utf8_first bs =
     (let ch = take (utf8_length (hd bs)) bs
      in if ch \<noteq> [] \<and> scalar_value (utf8_value ch) \<and> utf8_char (utf8_value ch) = ch then Some (utf8_value ch) else None)"

fun utf8_decode :: "nat list \<Rightarrow> ustr option" where
  "utf8_decode [] = Some []"
| "utf8_decode (b # bs) =
     (case utf8_first (b # bs) of
        None \<Rightarrow> None
      | Some c \<Rightarrow> map_option (\<lambda>s. c # s) (utf8_decode (drop (utf8_length b - 1) bs)))"

declare utf8_decode.simps [simp del]

lemma utf8_char_read:
  assumes "scalar_value c"
  shows "utf8_char c = hd (utf8_char c) # tl (utf8_char c)" and "utf8_length (hd (utf8_char c)) = length (utf8_char c)"
    and "utf8_value (utf8_char c) = c" and "b \<in> set (utf8_char c) \<Longrightarrow> b < 256"
proof -
  have c: "c < 1114112" using assms by (auto simp: scalar_value_def)
  have "c div 4096 = c div 64 div 64" "c div 262144 = c div 64 div 64 div 64" by (simp_all add: div_mult2_eq [symmetric])
  moreover have "c div 64 * 64 + c mod 64 = c" "c div 64 div 64 * 64 + c div 64 mod 64 = c div 64"
    "c div 64 div 64 div 64 * 64 + c div 64 div 64 mod 64 = c div 64 div 64" by simp_all
  moreover have "z * 64 + y' = y \<Longrightarrow> y * 64 + x' = x \<Longrightarrow> x * 64 + c' = k \<Longrightarrow>
      z * 262144 + y' * 4096 + x' * 64 + c' = k \<and> y * 4096 + x' * 64 + c' = k" for x y z x' y' c' k :: nat
    by auto
  ultimately have d: "c div 262144 * 262144 + c div 4096 mod 64 * 4096 + c div 64 mod 64 * 64 + c mod 64 = c"
    "c div 64 * 64 + c mod 64 = c" "c div 4096 * 4096 + c div 64 mod 64 * 64 + c mod 64 = c"
    by metis+
  have lt: "c div 262144 < 8" "c < 2048 \<Longrightarrow> c div 64 < 32" "c < 65536 \<Longrightarrow> c div 4096 < 16" using c by linarith+
  have m: "c div 4096 mod 64 < 64" "c div 64 mod 64 < 64" "c mod 64 < 64" by simp_all
  show "utf8_char c = hd (utf8_char c) # tl (utf8_char c)" by (simp add: utf8_char_def)
  show "utf8_length (hd (utf8_char c)) = length (utf8_char c)"
    using lt by (auto simp: utf8_char_def utf8_length_def)
  show "utf8_value (utf8_char c) = c" using d lt by (simp add: utf8_char_def)
  show "b < 256" if "b \<in> set (utf8_char c)"
    using that lt m by (auto simp: utf8_char_def split: if_splits)
qed

lemma utf8_decode_char:
  assumes "scalar_value c"
  shows "utf8_decode (utf8_char c @ bs) = map_option (\<lambda>s. c # s) (utf8_decode bs)"
proof -
  obtain b rest where b: "utf8_char c = b # rest" using utf8_char_read(1) [OF assms] by metis
  have "utf8_length b = Suc (length rest)" using utf8_char_read(2) [OF assms] by (simp add: b)
  moreover have "utf8_value (b # rest) = c" using utf8_char_read(3) [OF assms] by (simp add: b)
  ultimately show ?thesis using assms b by (simp add: utf8_decode.simps utf8_first_def)
qed

lemma utf8_decode_encode:
  assumes "list_all scalar_value s"
  shows "utf8_encode s = Some (concat (map utf8_char s))" and "utf8_decode (concat (map utf8_char s)) = Some s"
    and "b \<in> set (concat (map utf8_char s)) \<Longrightarrow> b < 256"
proof -
  show "utf8_encode s = Some (concat (map utf8_char s))" using assms by (simp add: utf8_encode_def)
  show "utf8_decode (concat (map utf8_char s)) = Some s"
    using assms by (induction s) (simp_all add: utf8_decode_char utf8_decode.simps(1))
  show "b < 256" if "b \<in> set (concat (map utf8_char s))"
    using that assms utf8_char_read(4) by (auto simp: list_all_iff)
qed

section \<open>Base64\<close>

text \<open>The URL-safe alphabet for writing; for reading both alphabets, as \<open>urlsafe_b64decode\<close> translates one to the other.\<close>

definition b64_char :: "nat \<Rightarrow> nat" where
  "b64_char v = (if v < 26 then 65 + v else if v < 52 then 71 + v else if v < 62 then v - 4 else if v = 62 then 45 else 95)"

definition b64_value :: "nat \<Rightarrow> nat option" where
  "b64_value c =
     (if 65 \<le> c \<and> c \<le> 90 then Some (c - 65) else if 97 \<le> c \<and> c \<le> 122 then Some (c - 71)
      else if 48 \<le> c \<and> c \<le> 57 then Some (c + 4) else if c = 45 \<or> c = 43 then Some 62
      else if c = 95 \<or> c = 47 then Some 63 else None)"

fun urlsafe_b64encode :: "nat list \<Rightarrow> ustr" where
  "urlsafe_b64encode [] = []"
| "urlsafe_b64encode [a] = [b64_char (a div 4), b64_char (a mod 4 * 16), 61, 61]"
| "urlsafe_b64encode [a, b] =
     [b64_char (a div 4), b64_char (a mod 4 * 16 + b div 16), b64_char (b mod 16 * 4), 61]"
| "urlsafe_b64encode (a # b # c # bs) =
     [b64_char (a div 4), b64_char (a mod 4 * 16 + b div 16), b64_char (b mod 16 * 4 + c div 64), b64_char (c mod 64)] @
     urlsafe_b64encode bs"

text \<open>
  \<open>binascii.a2b_base64\<close> in its lenient mode: characters outside the alphabet are skipped, the
  padding that completes a group ends the reading, and an incomplete group is an error. The state is the
  position in the group, the bits left over and the padding seen.
\<close>

fun b64_scan :: "nat \<Rightarrow> nat \<Rightarrow> nat \<Rightarrow> ustr \<Rightarrow> nat list option" where
  "b64_scan q left pads [] = (if q = 0 then Some [] else None)"
| "b64_scan q left pads (c # cs) =
     (if c = 61
      then if 2 \<le> q \<and> 4 \<le> q + (pads + 1) then Some []
           else b64_scan q left (if 2 \<le> q then pads + 1 else pads) cs
      else
        (case b64_value c of
           None \<Rightarrow> b64_scan q left pads cs
         | Some v \<Rightarrow>
             if q = 0 then b64_scan 1 v 0 cs
             else if q = 1 then map_option (\<lambda>bs. (left * 4 + v div 16) # bs) (b64_scan 2 (v mod 16) 0 cs)
             else if q = 2 then map_option (\<lambda>bs. (left * 16 + v div 4) # bs) (b64_scan 3 (v mod 4) 0 cs)
             else map_option (\<lambda>bs. (left * 64 + v) # bs) (b64_scan 0 0 0 cs)))"

definition urlsafe_b64decode :: "ustr \<Rightarrow> nat list option" where
  "urlsafe_b64decode s = (if list_all (\<lambda>c. c < 128) s then b64_scan 0 0 0 s else None)"

text \<open>\<open>s.rstrip("=")\<close> and \<open>s + "=" * (-len(s) % 4)\<close>.\<close>

definition strip_padding :: "ustr \<Rightarrow> ustr" where
  "strip_padding s = rev (dropWhile (\<lambda>c. c = 61) (rev s))"

definition add_padding :: "ustr \<Rightarrow> ustr" where
  "add_padding s = s @ replicate (nat (- int (length s) mod 4)) 61"

lemma b64_char_read:
  assumes "v < 64"
  shows "b64_value (b64_char v) = Some v" and "b64_char v \<noteq> 61" and "b64_char v < 128"
  using assms by (auto simp: b64_value_def b64_char_def)

lemma b64_parts:
  fixes a :: nat
  assumes "a < 256"
  shows "a div 4 < 64" "a mod 4 * 16 < 64" "a mod 16 * 4 < 64" "a mod 64 < 64"
proof -
  have "a mod 4 < 4" "a mod 16 < 16" by simp_all
  then show "a div 4 < 64" "a mod 4 * 16 < 64" "a mod 16 * 4 < 64" "a mod 64 < 64" using assms by linarith+
qed

lemma b64_pairs:
  fixes a b :: nat
  assumes "b < 256"
  shows "a mod 4 * 16 + b div 16 < 64" "a mod 16 * 4 + b div 64 < 64"
proof -
  have "a mod 4 < 4" "a mod 16 < 16" "b div 16 < 16" "b div 64 < 4" using assms by simp_all
  then show "a mod 4 * 16 + b div 16 < 64" "a mod 16 * 4 + b div 64 < 64" by linarith+
qed

lemma b64_join:
  fixes a b c :: nat
  shows "a div 4 * 4 + a mod 4 * 16 div 16 = a" "b < 256 \<Longrightarrow> a div 4 * 4 + (a mod 4 * 16 + b div 16) div 16 = a"
    "b < 256 \<Longrightarrow> (a mod 4 * 16 + b div 16) mod 16 = b div 16"
    "b div 16 * 16 + b mod 16 * 4 div 4 = b"
    "c < 256 \<Longrightarrow> b div 16 * 16 + (b mod 16 * 4 + c div 64) div 4 = b"
    "c < 256 \<Longrightarrow> (b mod 16 * 4 + c div 64) mod 4 * 64 + c mod 64 = c"
    "b mod 16 * 4 mod 4 = 0" "a mod 4 * 16 mod 16 = 0"
proof -
  show "a div 4 * 4 + a mod 4 * 16 div 16 = a" "b div 16 * 16 + b mod 16 * 4 div 4 = b" "b mod 16 * 4 mod 4 = 0"
    "a mod 4 * 16 mod 16 = 0" by simp_all
  show "a div 4 * 4 + (a mod 4 * 16 + b div 16) div 16 = a" "(a mod 4 * 16 + b div 16) mod 16 = b div 16" if "b < 256"
  proof -
    have "b div 16 < 16" using that by simp
    then have "(a mod 4 * 16 + b div 16) div 16 = a mod 4" "(a mod 4 * 16 + b div 16) mod 16 = b div 16"
      by simp_all
    then show "a div 4 * 4 + (a mod 4 * 16 + b div 16) div 16 = a" "(a mod 4 * 16 + b div 16) mod 16 = b div 16" by simp_all
  qed
  show "b div 16 * 16 + (b mod 16 * 4 + c div 64) div 4 = b" "(b mod 16 * 4 + c div 64) mod 4 * 64 + c mod 64 = c" if "c < 256"
  proof -
    have "c div 64 < 4" using that by simp
    then have "(b mod 16 * 4 + c div 64) div 4 = b mod 16" "(b mod 16 * 4 + c div 64) mod 4 = c div 64" by simp_all
    then show "b div 16 * 16 + (b mod 16 * 4 + c div 64) div 4 = b" "(b mod 16 * 4 + c div 64) mod 4 * 64 + c mod 64 = c"
      by simp_all
  qed
qed

lemma b64_scan_char:
  assumes "v < 64"
  shows "b64_scan q left pads (b64_char v # cs) =
    (if q = 0 then b64_scan 1 v 0 cs
     else if q = 1 then map_option (\<lambda>bs. (left * 4 + v div 16) # bs) (b64_scan 2 (v mod 16) 0 cs)
     else if q = 2 then map_option (\<lambda>bs. (left * 16 + v div 4) # bs) (b64_scan 3 (v mod 4) 0 cs)
     else map_option (\<lambda>bs. (left * 64 + v) # bs) (b64_scan 0 0 0 cs))"
  using b64_char_read [OF assms] by simp

lemma b64_scan_encode: "list_all (\<lambda>b. b < 256) bs \<Longrightarrow> b64_scan 0 0 pads (urlsafe_b64encode bs) = Some bs"
proof (induction bs arbitrary: pads rule: urlsafe_b64encode.induct)
  case (2 a)
  then show ?case using b64_parts [of a] b64_join(1,8) [where a = a] by (simp add: b64_scan_char del: b64_scan.simps(2)) (simp add: b64_scan.simps)
next
  case (3 a b)
  then have "a < 256" "b < 256" by simp_all
  then show ?case
    using b64_parts [of a] b64_pairs [of b a] b64_parts [of b] b64_join(2,3) [where a = a and b = b] b64_join(4,7) [where b = b]
    by (simp add: b64_scan_char del: b64_scan.simps(2)) (simp add: b64_scan.simps)
next
  case (4 a b c bs)
  then have "a < 256" "b < 256" "c < 256" by simp_all
  then show ?case
    using 4 b64_parts [of a] b64_pairs [of b a] b64_parts [of b] b64_pairs [of c b] b64_parts [of c] b64_join(2,3) [where a = a and b = b] b64_join(5,6) [where b = b and c = c]
    by (simp add: b64_scan_char del: b64_scan.simps(2))
qed simp

text \<open>What the padding leaves is what it was added to.\<close>

lemma encode_padding:
  assumes "list_all (\<lambda>b. b < 256) bs"
  shows "\<exists>core k. urlsafe_b64encode bs = core @ replicate k 61 \<and> k < 3 \<and> (length core + k) mod 4 = 0 \<and>
    list_all (\<lambda>c. c \<noteq> 61 \<and> c < 128) core"
  using assms
proof (induction bs rule: urlsafe_b64encode.induct)
  case 1
  show ?case by (rule exI [of _ "[]"], rule exI [of _ 0]) simp
next
  case (2 a)
  then show ?case
    using b64_parts [of a] b64_char_read by (intro exI [of _ "[b64_char (a div 4), b64_char (a mod 4 * 16)]"] exI [of _ 2]) (simp add: numeral_2_eq_2)
next
  case (3 a b)
  then show ?case
    using b64_parts [of a] b64_pairs [of b a] b64_parts [of b] b64_char_read
    by (intro exI [of _ "[b64_char (a div 4), b64_char (a mod 4 * 16 + b div 16), b64_char (b mod 16 * 4)]"] exI [of _ 1]) simp
next
  case (4 a b c bs)
  then obtain core k where "urlsafe_b64encode bs = core @ replicate k 61" "k < 3" "(length core + k) mod 4 = 0"
    "list_all (\<lambda>c. c \<noteq> 61 \<and> c < 128) core" by auto
  then show ?case
    using 4(2) b64_parts [of a] b64_pairs [of b a] b64_parts [of b] b64_pairs [of c b] b64_parts [of c] b64_char_read
    by (intro exI [of _ "[b64_char (a div 4), b64_char (a mod 4 * 16 + b div 16), b64_char (b mod 16 * 4 + c div 64), b64_char (c mod 64)] @ core"]
        exI [of _ k]) simp
qed

lemma strip_padding_core:
  assumes "list_all (\<lambda>c. c \<noteq> 61 \<and> P c) core"
  shows "strip_padding (core @ replicate k 61) = core"
proof -
  have "dropWhile (\<lambda>c. c = 61) (replicate k 61 @ rev core) = dropWhile (\<lambda>c. c = 61) (rev core)"
    by (induction k) simp_all
  moreover have "dropWhile (\<lambda>c. c = 61) (rev core) = rev core"
    using assms by (cases core rule: rev_cases) (auto simp: list_all_iff)
  ultimately show ?thesis by (simp add: strip_padding_def)
qed

lemma pad_count:
  assumes "k < 3" and "(n + k) mod 4 = 0"
  shows "nat (- int n mod 4) = k"
proof -
  obtain q where "n + k = 4 * q" using mod_0_imp_dvd [OF assms(2)] by (rule dvdE)
  then have "int (n + k) = int (4 * q)" by simp
  then have minus: "- int n = int k + 4 * (- int q)" by simp
  have "- int n mod 4 = int k mod 4" unfolding minus by (rule mod_mult_self2)
  then have "- int n mod 4 = int k" using assms(1) by simp
  then show ?thesis by simp
qed

theorem base64_read_back:
  assumes "list_all (\<lambda>b. b < 256) bs"
  shows "urlsafe_b64decode (add_padding (strip_padding (urlsafe_b64encode bs))) = Some bs"
proof -
  obtain core k where core: "urlsafe_b64encode bs = core @ replicate k 61" "k < 3" "(length core + k) mod 4 = 0"
    "list_all (\<lambda>c. c \<noteq> 61 \<and> c < 128) core" using encode_padding [OF assms] by (elim exE conjE) (rule that)
  have "add_padding (strip_padding (urlsafe_b64encode bs)) = urlsafe_b64encode bs"
    using core(1) strip_padding_core [OF core(4)] pad_count [OF core(2,3)] by (simp add: add_padding_def)
  moreover have "list_all (\<lambda>c. c < 128) (urlsafe_b64encode bs)"
    using core(4) by (auto simp: core(1) list_all_iff)
  ultimately show ?thesis using b64_scan_encode [OF assms] by (simp add: urlsafe_b64decode_def)
qed

section \<open>JSON\<close>

datatype json_value =
    JString ustr | JNumber ustr | JWord string | JArray "json_value list" | JObject "(ustr \<times> json_value) list"

text \<open>\<open>json.dumps(.., ensure_ascii=False, separators=(",", ":"))\<close> of a \<open>dict\<close> from texts to texts.\<close>

definition json_escape :: "nat \<Rightarrow> ustr" where
  "json_escape c =
     (if c = 34 then [92, 34] else if c = 92 then [92, 92] else if c = 10 then [92, 110] else if c = 13 then [92, 114]
      else if c = 9 then [92, 116] else if c = 12 then [92, 102] else if c = 8 then [92, 98]
      else if c < 32 then [92, 117] @ map hex_char (digits_of 16 4 c) else [c])"

definition json_string :: "ustr \<Rightarrow> ustr" where
  "json_string s = [34] @ concat (map json_escape s) @ [34]"

fun json_members :: "(ustr \<times> ustr) list \<Rightarrow> ustr" where
  "json_members [] = []"
| "json_members [(k, v)] = json_string k @ [58] @ json_string v"
| "json_members ((k, v) # m # ms) = json_string k @ [58] @ json_string v @ [44] @ json_members (m # ms)"

definition json_dumps :: "(ustr \<times> ustr) list \<Rightarrow> ustr" where
  "json_dumps kvs = [123] @ json_members kvs @ [125]"

definition skip_space :: "ustr \<Rightarrow> ustr" where
  "skip_space s = dropWhile (\<lambda>c. c \<in> {32, 9, 10, 13}) s"

text \<open>A text after its opening quote; \<open>scanstring\<close> with \<open>strict=True\<close>.\<close>

definition json_hex4 :: "ustr \<Rightarrow> nat option" where
  "json_hex4 s = (if length s < 4 then None else map_option (number_of 16) (read_all hex_value (take 4 s)))"

definition json_unescape :: "nat \<Rightarrow> nat option" where
  "json_unescape c =
     (if c = 34 \<or> c = 92 \<or> c = 47 then Some c else if c = 98 then Some 8 else if c = 102 then Some 12
      else if c = 110 then Some 10 else if c = 114 then Some 13 else if c = 116 then Some 9 else None)"

definition low_surrogate_after :: "ustr \<Rightarrow> nat option" where
  "low_surrogate_after s =
     (if take 2 s = [92, 117]
      then (case json_hex4 (drop 2 s) of Some l \<Rightarrow> if 56320 \<le> l \<and> l \<le> 57343 then Some l else None | None \<Rightarrow> None)
      else None)"

fun scan_string :: "ustr \<Rightarrow> (ustr \<times> ustr) option" where
  "scan_string [] = None"
| "scan_string (c # s) =
     (if c = 34 then Some ([], s)
      else if c < 32 then None
      else if c \<noteq> 92 then map_option (\<lambda>(x, r). (c # x, r)) (scan_string s)
      else
        (case s of
           [] \<Rightarrow> None
         | e # s' \<Rightarrow>
             if e \<noteq> 117
             then (case json_unescape e of
                     None \<Rightarrow> None
                   | Some d \<Rightarrow> map_option (\<lambda>(x, r). (d # x, r)) (scan_string s'))
             else
               (case json_hex4 s' of
                  None \<Rightarrow> None
                | Some h \<Rightarrow>
                    (case (if 55296 \<le> h \<and> h \<le> 56319 then low_surrogate_after (drop 4 s') else None) of
                       None \<Rightarrow> map_option (\<lambda>(x, r). (h # x, r)) (scan_string (drop 4 s'))
                     | Some l \<Rightarrow>
                         map_option (\<lambda>(x, r). ((65536 + (h - 55296) * 1024 + (l - 56320)) # x, r)) (scan_string (drop 10 s'))))))"

definition is_digit :: "nat \<Rightarrow> bool" where
  "is_digit c \<longleftrightarrow> 48 \<le> c \<and> c \<le> 57"

text \<open>\<open>-?(0|[1-9][0-9]*)(\.[0-9]+)?([eE][-+]?[0-9]+)?\<close>, the longest match.\<close>

definition scan_fraction :: "ustr \<Rightarrow> ustr \<times> ustr" where
  "scan_fraction s =
     (let fraction = takeWhile is_digit (drop 1 s)
      in if take 1 s = [46] \<and> fraction \<noteq> [] then (46 # fraction, drop (Suc (length fraction)) s) else ([], s))"

definition scan_exponent :: "ustr \<Rightarrow> ustr \<times> ustr" where
  "scan_exponent s =
     (let mark = (if take 1 (drop 1 s) = [45] \<or> take 1 (drop 1 s) = [43] then take 2 s else take 1 s);
          exponent = takeWhile is_digit (drop (length mark) s)
      in if (take 1 s = [101] \<or> take 1 s = [69]) \<and> exponent \<noteq> []
         then (mark @ exponent, drop (length (mark @ exponent)) s) else ([], s))"

definition scan_digits :: "ustr \<Rightarrow> ustr" where
  "scan_digits s = (if take 1 s = [48] then [48] else takeWhile is_digit s)"

definition scan_number :: "ustr \<Rightarrow> (ustr \<times> ustr) option" where
  "scan_number s =
     (let sign = (if take 1 s = [45] then [45] else []);
          digits = scan_digits (drop (length sign) s);
          (frac, s3) = scan_fraction (drop (length sign + length digits) s);
          (ex, s4) = scan_exponent s3
      in if digits = [] then None else Some (sign @ digits @ frac @ ex, s4))"

definition json_words :: "string list" where
  "json_words = [''null'', ''true'', ''false'', ''NaN'', ''Infinity'', ''-Infinity'']"

definition scan_word :: "ustr \<Rightarrow> (string \<times> ustr) option" where
  "scan_word s =
     map_option (\<lambda>w. (w, drop (length w) s)) (find (\<lambda>w. take (length w) s = ascii w) json_words)"

text \<open>The scanner, with fuel for the nesting and the length; two for each character are enough (\<open>fuel_enough\<close>).\<close>

fun read_value :: "nat \<Rightarrow> ustr \<Rightarrow> (json_value \<times> ustr) option"
and read_elements :: "nat \<Rightarrow> ustr \<Rightarrow> (json_value list \<times> ustr) option"
and read_members :: "nat \<Rightarrow> ustr \<Rightarrow> ((ustr \<times> json_value) list \<times> ustr) option" where
  "read_value 0 s = None"
| "read_value (Suc n) s =
     (case s of
        [] \<Rightarrow> None
      | c # t \<Rightarrow>
          if c = 34 then map_option (\<lambda>(x, r). (JString x, r)) (scan_string t)
          else if c = 123
          then if take 1 (skip_space t) = [125] then Some (JObject [], drop 1 (skip_space t))
               else map_option (\<lambda>(ms, r). (JObject ms, r)) (read_members n (skip_space t))
          else if c = 91
          then if take 1 (skip_space t) = [93] then Some (JArray [], drop 1 (skip_space t))
               else map_option (\<lambda>(vs, r). (JArray vs, r)) (read_elements n (skip_space t))
          else
            (case scan_word s of
               Some (w, r) \<Rightarrow> Some (JWord w, r)
             | None \<Rightarrow> map_option (\<lambda>(x, r). (JNumber x, r)) (scan_number s)))"
| "read_elements 0 s = None"
| "read_elements (Suc n) s =
     (case read_value n s of
        None \<Rightarrow> None
      | Some (v, r) \<Rightarrow>
          if take 1 (skip_space r) = [93] then Some ([v], drop 1 (skip_space r))
          else if take 1 (skip_space r) = [44]
          then map_option (\<lambda>(vs, r'). (v # vs, r')) (read_elements n (skip_space (drop 1 (skip_space r))))
          else None)"
| "read_members 0 s = None"
| "read_members (Suc n) s =
     (if take 1 s \<noteq> [34] then None
      else
        (case scan_string (drop 1 s) of
           None \<Rightarrow> None
         | Some (k, r) \<Rightarrow>
             if take 1 (skip_space r) \<noteq> [58] then None
             else
               (case read_value n (skip_space (drop 1 (skip_space r))) of
                  None \<Rightarrow> None
                | Some (v, r') \<Rightarrow>
                    if take 1 (skip_space r') = [125] then Some ([(k, v)], drop 1 (skip_space r'))
                    else if take 1 (skip_space r') = [44]
                    then map_option (\<lambda>(ms, r''). ((k, v) # ms, r'')) (read_members n (skip_space (drop 1 (skip_space r'))))
                    else None)))"

definition json_loads :: "ustr \<Rightarrow> json_value option" where
  "json_loads s =
     (case read_value (2 * length s + 1) (skip_space s) of
        Some (v, r) \<Rightarrow> if skip_space r = [] then Some v else None
      | None \<Rightarrow> None)"

section \<open>The scanner ends\<close>

lemma skip_space_shorter: "length (skip_space s) \<le> length s"
  by (simp add: skip_space_def length_dropWhile_le)

lemma scan_string_shorter: "scan_string s = Some (x, r) \<Longrightarrow> length r < length s"
proof (induction s arbitrary: x r rule: scan_string.induct)
  case (2 c s)
  then show ?case
    by (auto simp: less_Suc_eq_le split: if_splits list.splits option.splits) (fastforce dest: less_imp_le)+
qed simp

lemma scan_word_shorter: "scan_word s = Some (w, r) \<Longrightarrow> length r < length s"
proof -
  assume "scan_word s = Some (w, r)"
  then have w: "w \<in> set json_words" "take (length w) s = ascii w" "r = drop (length w) s"
    by (auto simp: scan_word_def dest!: find_SomeD)
  then have "length w \<le> length s" by (metis length_ascii length_take min.absorb_iff2 min.commute)
  then show ?thesis using w by (auto simp: json_words_def)
qed

lemma scan_number_shorter: "scan_number s = Some (x, r) \<Longrightarrow> length r < length s"
proof -
  assume num: "scan_number s = Some (x, r)"
  define sign where "sign = (if take 1 s = [45] then [45] else [] :: ustr)"
  define digits where "digits = scan_digits (drop (length sign) s)"
  have frac: "length (snd (scan_fraction t)) \<le> length t" for t by (simp add: scan_fraction_def Let_def)
  have ex: "length (snd (scan_exponent t)) \<le> length t" for t by (simp add: scan_exponent_def Let_def)
  have "digits \<noteq> []" and r: "r = snd (scan_exponent (snd (scan_fraction (drop (length sign + length digits) s))))"
    using num unfolding scan_number_def Let_def sign_def [symmetric] digits_def [symmetric]
    by (auto split: prod.splits if_splits)
  have "length digits \<le> length (drop (length sign) s)"
    unfolding digits_def scan_digits_def by (cases "drop (length sign) s") (auto simp: length_takeWhile_le)
  moreover have "length r \<le> length s - (length sign + length digits)"
    unfolding r using ex frac order_trans by (metis length_drop)
  ultimately show ?thesis using \<open>digits \<noteq> []\<close> by (cases digits) auto
qed

text \<open>Without the tests the code branches on, what a scan that returned has read.\<close>

lemma read_valueE:
  assumes "read_value (Suc n) s = Some (v, r)"
  obtains x where "scan_string (tl s) = Some (x, r)" "s \<noteq> []"
  | x where "scan_number s = Some (x, r)" | w where "scan_word s = Some (w, r)"
  | "r = drop 1 (skip_space (tl s))" "s \<noteq> []"
  | vs where "read_elements n (skip_space (tl s)) = Some (vs, r)" "s \<noteq> []"
  | ms where "read_members n (skip_space (tl s)) = Some (ms, r)" "s \<noteq> []"
  using assms by (cases s) (auto split: if_splits option.splits)

lemma shorter_rest: "length r < length (skip_space (tl s)) \<Longrightarrow> length r < length s"
  using skip_space_shorter [of "tl s"] by (cases s) auto

lemma scanner_shorter_all:
  "(\<forall>s v r. read_value n s = Some (v, r) \<longrightarrow> length r < length s) \<and>
   (\<forall>s vs r. read_elements n s = Some (vs, r) \<longrightarrow> length r < length s) \<and>
   (\<forall>s ms r. read_members n s = Some (ms, r) \<longrightarrow> length r < length s)"
proof (induction n)
  case (Suc n)
  have skip: "length (drop 1 (skip_space t)) \<le> length t" "length (skip_space (drop 1 (skip_space t))) \<le> length t" for t
    using skip_space_shorter [of t] skip_space_shorter [of "drop 1 (skip_space t)"] by simp_all
  have tl: "length (tl t) < length t" if "t \<noteq> []" for t :: ustr using that by (cases t) auto
  have val: "length r < length s" if "read_value (Suc n) s = Some (v, r)" for s v r
    using that
  proof (cases rule: read_valueE)
    case (1 x)
    then show ?thesis using scan_string_shorter tl by (meson less_trans)
  next
    case 4
    then show ?thesis using skip(1) [of "tl s"] tl by (meson le_less_trans)
  qed (use scan_number_shorter scan_word_shorter Suc.IH shorter_rest in blast)+
  have els: "length r < length s" if run: "read_elements (Suc n) s = Some (vs, r)" for s vs r
  proof -
    obtain v t where v: "read_value n s = Some (v, t)" using run by (auto split: option.splits)
    then have t: "length t < length s" using Suc.IH by blast
    from run v consider "r = drop 1 (skip_space t)" | ws where "read_elements n (skip_space (drop 1 (skip_space t))) = Some (ws, r)"
      by (auto split: if_splits)
    then show ?thesis
    proof cases
      case 1
      then show ?thesis using skip(1) [of t] t by simp
    next
      case 2
      then have "length r < length (skip_space (drop 1 (skip_space t)))" using Suc.IH by blast
      then show ?thesis using skip(2) [of t] t by simp
    qed
  qed
  have mems: "length r < length s" if run: "read_members (Suc n) s = Some (ms, r)" for s ms r
  proof -
    obtain k q where k: "take 1 s = [34]" "scan_string (drop 1 s) = Some (k, q)"
      using run by (auto split: if_splits option.splits)
    then have q: "length q < length s" using scan_string_shorter [OF k(2)] by simp
    from run k obtain v t where v: "read_value n (skip_space (drop 1 (skip_space q))) = Some (v, t)"
      by (auto split: if_splits option.splits)
    then have "length t < length (skip_space (drop 1 (skip_space q)))" using Suc.IH by blast
    then have t: "length t < length s" using skip(2) [of q] q by simp
    from run k v consider "r = drop 1 (skip_space t)" | ws where "read_members n (skip_space (drop 1 (skip_space t))) = Some (ws, r)"
      by (auto split: if_splits)
    then show ?thesis
    proof cases
      case 1
      then show ?thesis using skip(1) [of t] t by simp
    next
      case 2
      then have "length r < length (skip_space (drop 1 (skip_space t)))" using Suc.IH by blast
      then show ?thesis using skip(2) [of t] t by simp
    qed
  qed
  show ?case using val els mems by blast
qed simp

lemmas scanner_shorter = scanner_shorter_all [THEN conjunct1, rule_format]

text \<open>More fuel than the text can use changes nothing.\<close>

lemma fuel_enough:
  "(2 * length s < n \<longrightarrow> 2 * length s < m \<longrightarrow> read_value n s = read_value m s) \<and>
   (2 * length s + 1 < n \<longrightarrow> 2 * length s + 1 < m \<longrightarrow> read_elements n s = read_elements m s) \<and>
   (2 * length s + 1 < n \<longrightarrow> 2 * length s + 1 < m \<longrightarrow> read_members n s = read_members m s)"
proof (induction n arbitrary: m s)
  case (Suc n)
  show ?case
  proof (cases m)
    case m: (Suc m')
    have skip: "length (skip_space t) \<le> length t" "length (skip_space (drop 1 (skip_space t))) \<le> length t - 1" for t
      using skip_space_shorter [of t] skip_space_shorter [of "drop 1 (skip_space t)"] by simp_all
    have val: "read_value (Suc n) s = read_value m s" if "2 * length s < Suc n" "2 * length s < m"
    proof (cases s)
      case (Cons c t)
      then have "2 * length (skip_space t) + 1 < n" "2 * length (skip_space t) + 1 < m'"
        using that m skip(1) [of t] by simp_all
      then show ?thesis using Suc.IH [of "skip_space t" m'] Cons m by simp
    qed (simp add: m)
    have els: "read_elements (Suc n) s = read_elements m s" if f: "2 * length s + 1 < Suc n" "2 * length s + 1 < m"
    proof -
      have "read_value n s = read_value m' s" using Suc.IH [of s m'] f m by simp
      moreover have "read_elements n (skip_space (drop 1 (skip_space r))) = read_elements m' (skip_space (drop 1 (skip_space r)))"
        if "read_value m' s = Some (v, r)" for v r
        using Suc.IH [of "skip_space (drop 1 (skip_space r))" m'] scanner_shorter [OF that] skip(2) [of r] f m by simp
      ultimately show ?thesis by (simp add: m split: option.split)
    qed
    have mems: "read_members (Suc n) s = read_members m s" if f: "2 * length s + 1 < Suc n" "2 * length s + 1 < m"
    proof -
      have same: "read_value n (skip_space (drop 1 (skip_space q))) = read_value m' (skip_space (drop 1 (skip_space q)))"
        and more: "read_value m' (skip_space (drop 1 (skip_space q))) = Some (v, r) \<Longrightarrow>
          read_members n (skip_space (drop 1 (skip_space r))) = read_members m' (skip_space (drop 1 (skip_space r)))"
        if "scan_string (drop 1 s) = Some (k, q)" for k q v r
      proof -
        have q: "length q < length s" using scan_string_shorter [OF that] by simp
        show "read_value n (skip_space (drop 1 (skip_space q))) = read_value m' (skip_space (drop 1 (skip_space q)))"
          using Suc.IH [of "skip_space (drop 1 (skip_space q))" m'] skip(2) [of q] q f m by simp
        assume "read_value m' (skip_space (drop 1 (skip_space q))) = Some (v, r)"
        then have "length r < length (skip_space (drop 1 (skip_space q)))" by (rule scanner_shorter)
        then show "read_members n (skip_space (drop 1 (skip_space r))) = read_members m' (skip_space (drop 1 (skip_space r)))"
          using Suc.IH [of "skip_space (drop 1 (skip_space r))" m'] skip(2) [of q] skip(2) [of r] q f m by simp
      qed
      show ?thesis using same more by (simp add: m split: option.split)
    qed
    show ?thesis using val els mems by blast
  qed simp
qed simp

section \<open>What is dumped is loaded\<close>

lemma json_hex4_written:
  assumes "c < 65536"
  shows "json_hex4 (map hex_char (digits_of 16 4 c) @ r) = Some c"
proof -
  have "read_all hex_value (map hex_char (digits_of 16 4 c)) = Some (digits_of 16 4 c)"
    using digits_of_less [of 16 _ 4 c] hex_value_char by (intro read_all_map) auto
  then show ?thesis using assms number_of_digits_of [of 16 4 c] by (simp add: json_hex4_def del: digits_of.simps)
qed

lemma scan_escaped: "scan_string (json_escape c @ r) = map_option (\<lambda>(x, t). (c # x, t)) (scan_string r)"
proof -
  consider "c \<in> {34, 92, 10, 13, 9, 12, 8}" | "c \<notin> {34, 92, 10, 13, 9, 12, 8}" "c < 32" | "c \<notin> {34, 92}" "32 \<le> c"
    by fastforce
  then show ?thesis
  proof cases
    case 1
    then show ?thesis by (auto simp: json_escape_def json_unescape_def)
  next
    case 2
    then have "json_escape c = [92, 117] @ map hex_char (digits_of 16 4 c)" by (simp add: json_escape_def)
    then show ?thesis using 2(2) json_hex4_written [of c r] by (simp del: digits_of.simps)
  next
    case 3
    then show ?thesis by (simp add: json_escape_def)
  qed
qed

lemma scan_written: "scan_string (concat (map json_escape s) @ 34 # r) = Some (s, r)"
proof (induction s)
  case (Cons c s)
  then show ?case by (simp add: scan_escaped del: scan_string.simps)
qed simp

lemma read_string: "read_value (Suc n) (json_string s @ r) = Some (JString s, r)"
  using scan_written [of s r] by (simp add: json_string_def)

lemma skip_none: "c \<notin> {32, 9, 10, 13} \<Longrightarrow> skip_space (c # s) = c # s" "skip_space [] = []"
  by (auto simp: skip_space_def)

lemma json_string_quote: "json_string s @ r = 34 # concat (map json_escape s) @ 34 # r"
  by (simp add: json_string_def)

lemma read_members_written:
  "kvs \<noteq> [] \<Longrightarrow> length kvs < n \<Longrightarrow>
    read_members n (json_members kvs @ 125 # r) = Some (map (\<lambda>(k, v). (k, JString v)) kvs, r)"
proof (induction kvs arbitrary: n rule: json_members.induct)
  case (2 k v)
  then obtain m where n: "n = Suc (Suc m)" by (metis Suc_lessE less_imp_Suc_add length_Cons)
  have "read_value (Suc m) (json_string v @ 125 # r) = Some (JString v, 125 # r)" by (rule read_string)
  then show ?case
    using scan_written [of k] by (simp add: n json_string_quote skip_none del: read_value.simps scan_string.simps)
next
  case (3 k v m ms)
  then obtain n' where n: "n = Suc (Suc n')" by (metis Suc_lessE less_imp_Suc_add length_Cons)
  have "read_value (Suc n') (json_string v @ 44 # json_members (m # ms) @ 125 # r) =
      Some (JString v, 44 # json_members (m # ms) @ 125 # r)" by (rule read_string)
  moreover have "skip_space (json_members (m # ms) @ 125 # r) = json_members (m # ms) @ 125 # r"
    by (cases m; cases ms) (simp_all add: json_string_quote skip_none split: prod.split)
  moreover have "read_members (Suc n') (json_members (m # ms) @ 125 # r) =
      Some (map (\<lambda>(k, v). (k, JString v)) (m # ms), r)" using 3 n by (simp del: read_members.simps)
  ultimately show ?case
    using scan_written [of k] by (simp add: n json_string_quote skip_none read_members.simps(2) [of "Suc n'"]
        del: read_value.simps scan_string.simps read_members.simps(2))
qed simp

theorem json_read_back:
  assumes "kvs \<noteq> []"
  shows "json_loads (json_dumps kvs) = Some (JObject (map (\<lambda>(k, v). (k, JString v)) kvs))"
proof -
  have len: "length kvs \<le> length (json_members kvs)"
    by (induction kvs rule: json_members.induct) (simp_all add: json_string_def)
  have "read_members (2 * length (json_dumps kvs)) (json_members kvs @ [125]) = Some (map (\<lambda>(k, v). (k, JString v)) kvs, [])"
    using assms len by (intro read_members_written) (simp_all add: json_dumps_def)
  moreover have "skip_space (json_members kvs @ [125]) = json_members kvs @ [125]" "take 1 (json_members kvs @ [125]) = [34]"
    using assms by (cases kvs rule: json_members.cases; simp add: json_string_quote skip_none)+
  ultimately show ?thesis
    by (simp add: json_loads_def json_dumps_def skip_none)
qed

section \<open>Texts without surrogates\<close>

lemma scalar_dec_field: "list_all scalar_value (dec_field n x)"
  using dec_field_chars [of _ n x] by (fastforce simp: list_all_iff scalar_value_def)

lemma scalar_isoformat: "list_all scalar_value (isoformat t)"
  unfolding isoformat_def Let_def by (simp add: scalar_dec_field) (simp add: scalar_value_def)

lemma scalar_uuid_str: "list_all scalar_value (uuid_str u)"
proof -
  have "scalar_value c" if "c \<in> set (uuid_hex u)" for c
    using that digits_of_less [of 16 _ 32 "unat u"]
    by (fastforce simp: uuid_hex_def hex_char_def scalar_value_def simp del: digits_of.simps)
  then have "list_all scalar_value (take n (drop k (uuid_hex u)))" "list_all scalar_value (drop k (uuid_hex u))" for n k
    unfolding list_all_iff by (meson in_set_takeD in_set_dropD)+
  from this(1) [of 8 0] this(1) [of 4] this(2) [of 20] show ?thesis
    unfolding uuid_str_def Let_def by (simp add: scalar_value_def)
qed

lemma scalar_ascii: "list_all scalar_value (ascii s)"
proof -
  have "scalar_value (of_char c)" for c using nat_of_char_less_256 [of c] by (simp add: scalar_value_def del: nat_of_char_less_256)
  then show ?thesis by (simp add: ascii_def list_all_iff)
qed

end
