(* ===== verification/Receipt_Listing.thy ===== *)
theory Receipt_Listing
  imports Receipt_Store Keyset_Pages Web_Text "HOL-Library.Sublist" "HOL-Library.Multiset"
begin

text \<open>
  The list of a user's receipts: \<open>infrastructure/persistence/listing.py\<close>,
  \<open>SqlAlchemyReceiptRepository.list_by_user\<close> and the query use case. A list is filtered by
  warranty status, category and keyword, sorted in one of four ways, and read in pages whose cursor
  is a Base64 text of JSON.
\<close>

section \<open>Queries\<close>

datatype receipt_sort = RECENT | EXPIRES_ON | PURCHASE_DATE | TITLE

fun receipt_sort_value :: "receipt_sort \<Rightarrow> string" where
  "receipt_sort_value RECENT = ''recent''"
| "receipt_sort_value EXPIRES_ON = ''expiresOn''"
| "receipt_sort_value PURCHASE_DATE = ''purchaseDate''"
| "receipt_sort_value TITLE = ''title''"

definition receipt_sort_of :: "ustr \<Rightarrow> receipt_sort option" where
  "receipt_sort_of s = find (\<lambda>m. ascii (receipt_sort_value m) = s) [RECENT, EXPIRES_ON, PURCHASE_DATE, TITLE]"

record list_receipts_query =
  lr_user_id :: uuid
  lr_status :: receipt_status
  lr_sort :: receipt_sort
  lr_limit :: int
  lr_cursor :: "ustr option"
  lr_category :: "receipt_category option"
  lr_q :: "ustr option"

definition mk_list_receipts_query :: "list_receipts_query \<Rightarrow> exn + list_receipts_query" where
  "mk_list_receipts_query q = (if lr_limit q < 1 then Inl PyValueError else Inr q)"

section \<open>Conditions\<close>

text \<open>\<open>_escape_like_keyword\<close>: the backslash first, then the two wildcards.\<close>

definition escape_like_keyword :: "ustr \<Rightarrow> ustr" where
  "escape_like_keyword keyword =
     str_replace (str_replace (str_replace keyword [92] [92, 92]) [37] [92, 37]) [95] [92, 95]"

text \<open>
  PostgreSQL's \<open>LIKE .. ESCAPE '\\'\<close>: \<open>%\<close> stands for any text, \<open>_\<close> for any character, and a
  backslash takes the next character as it is. \<open>ILIKE\<close> compares lower cases; \<open>lower\<close> is the
  lower case of a character in the database's locale.
\<close>

fun like :: "ustr \<Rightarrow> ustr \<Rightarrow> bool" where
  "like [] t \<longleftrightarrow> t = []"
| "like (p # ps) t \<longleftrightarrow>
     (if p = 37 then like ps t \<or> (case t of [] \<Rightarrow> False | c # t' \<Rightarrow> like (p # ps) t')
      else
        (case t of
           [] \<Rightarrow> False
         | c # t' \<Rightarrow>
             if p = 95 then like ps t'
             else if p = 92 then (case ps of [] \<Rightarrow> False | e # ps' \<Rightarrow> c = e \<and> like ps' t')
             else c = p \<and> like ps t'))"

definition ilike :: "(nat \<Rightarrow> nat) \<Rightarrow> ustr option \<Rightarrow> ustr \<Rightarrow> bool" where
  "ilike lower text pattern \<longleftrightarrow> (\<exists>t \<in> set_option text. like (map lower pattern) (map lower t))"

text \<open>\<open>today + timedelta(days=n)\<close>.\<close>

definition days_after :: "date \<Rightarrow> int \<Rightarrow> exn + date" where
  "days_after today n =
     (if date_ordinal today + n > 3652059 then Inl PyOverflowError else Inr (date_of_ordinal (date_ordinal today + n)))"

definition status_condition :: "date \<Rightarrow> receipt_status \<Rightarrow> exn + (receipt_row \<Rightarrow> bool)" where
  "status_condition today status =
     (case status of
        receipt_status.ALL \<Rightarrow> Inr (\<lambda>r. True)
      | ACTIVE \<Rightarrow> bindE (days_after today 30) (\<lambda>last. Inr (\<lambda>r. rc_expires_on r > last))
      | EXPIRING \<Rightarrow> bindE (days_after today 30) (\<lambda>last. Inr (\<lambda>r. today \<le> rc_expires_on r \<and> rc_expires_on r \<le> last))
      | EXPIRED \<Rightarrow> Inr (\<lambda>r. rc_expires_on r < today))"

definition list_conditions :: "date \<Rightarrow> (nat \<Rightarrow> nat) \<Rightarrow> list_receipts_query \<Rightarrow> exn + (receipt_row \<Rightarrow> bool)" where
  "list_conditions today lower q =
     bindE (status_condition today (lr_status q)) (\<lambda>status.
     Inr (\<lambda>r. rc_user_id r = lr_user_id q \<and> status r \<and>
              (\<forall>c \<in> set_option (lr_category q). rc_category r = Some (receipt_category_value c)) \<and>
              (\<forall>w \<in> set_option (lr_q q).
                 let pattern = [37] @ escape_like_keyword w @ [37]
                 in ilike lower (Some (rc_item_name r)) pattern \<or> ilike lower (rc_brand_name r) pattern \<or>
                    ilike lower (rc_payment_location r) pattern \<or> ilike lower (rc_memo r) pattern)))"

section \<open>Sorting and cursors\<close>

text \<open>
  \<open>ReceiptCursor(sort, value, receipt_id)\<close>: the sort decides what the value is. Titles are
  compared in the order of the database's collation; \<open>collate\<close> is the key of a text in it.
\<close>

datatype 'k receipt_cursor =
    RecentCursor datetime uuid | ExpiresOnCursor date uuid | PurchaseDateCursor date uuid | TitleCursor 'k uuid

fun cursor_sort :: "'k receipt_cursor \<Rightarrow> receipt_sort" where
  "cursor_sort (RecentCursor _ _) = RECENT"
| "cursor_sort (ExpiresOnCursor _ _) = EXPIRES_ON"
| "cursor_sort (PurchaseDateCursor _ _) = PURCHASE_DATE"
| "cursor_sort (TitleCursor _ _) = TITLE"

text \<open>\<open>list_order_by\<close>: newest first, the next to expire first, the latest purchase first, or by title.\<close>

fun sort_rank :: "'k receipt_cursor \<Rightarrow> nat" where
  "sort_rank (RecentCursor _ _) = 0"
| "sort_rank (ExpiresOnCursor _ _) = 1"
| "sort_rank (PurchaseDateCursor _ _) = 2"
| "sort_rank (TitleCursor _ _) = 3"

fun cursor_le :: "'k::linorder receipt_cursor \<Rightarrow> 'k receipt_cursor \<Rightarrow> bool" where
  "cursor_le (RecentCursor t i) (RecentCursor u j) \<longleftrightarrow> u < t \<or> (u = t \<and> j \<le> i)"
| "cursor_le (ExpiresOnCursor t i) (ExpiresOnCursor u j) \<longleftrightarrow> t < u \<or> (t = u \<and> i \<le> j)"
| "cursor_le (PurchaseDateCursor t i) (PurchaseDateCursor u j) \<longleftrightarrow> u < t \<or> (u = t \<and> j \<le> i)"
| "cursor_le (TitleCursor t i) (TitleCursor u j) \<longleftrightarrow> t < u \<or> (t = u \<and> i \<le> j)"
| "cursor_le x y \<longleftrightarrow> sort_rank x < sort_rank y"

instantiation receipt_cursor :: (linorder) linorder
begin

definition less_eq_receipt_cursor :: "'a receipt_cursor \<Rightarrow> 'a receipt_cursor \<Rightarrow> bool" where
  "less_eq_receipt_cursor = cursor_le"

definition less_receipt_cursor :: "'a receipt_cursor \<Rightarrow> 'a receipt_cursor \<Rightarrow> bool" where
  "less_receipt_cursor x y \<longleftrightarrow> x \<le> y \<and> \<not> y \<le> x"

instance
proof
  fix x y z :: "'a receipt_cursor"
  show "x < y \<longleftrightarrow> x \<le> y \<and> \<not> y \<le> x" by (rule less_receipt_cursor_def)
  show "x \<le> x" by (cases x) (simp_all add: less_eq_receipt_cursor_def)
  show "x \<le> y \<Longrightarrow> y \<le> z \<Longrightarrow> x \<le> z"
    unfolding less_eq_receipt_cursor_def by (cases x; cases y; cases z) auto
  show "x \<le> y \<Longrightarrow> y \<le> x \<Longrightarrow> x = y"
    unfolding less_eq_receipt_cursor_def by (cases x; cases y) auto
  show "x \<le> y \<or> y \<le> x"
    unfolding less_eq_receipt_cursor_def by (cases x; cases y) auto
qed

end

lemmas cursor_le_simps [simp] = cursor_le.simps [folded less_eq_receipt_cursor_def]

fun row_cursor :: "(ustr \<Rightarrow> 'k) \<Rightarrow> receipt_sort \<Rightarrow> receipt_row \<Rightarrow> 'k receipt_cursor" where
  "row_cursor collate RECENT r = RecentCursor (rc_created_at r) (rc_id r)"
| "row_cursor collate EXPIRES_ON r = ExpiresOnCursor (rc_expires_on r) (rc_id r)"
| "row_cursor collate PURCHASE_DATE r = PurchaseDateCursor (rc_payment_date r) (rc_id r)"
| "row_cursor collate TITLE r = TitleCursor (collate (rc_item_name r)) (rc_id r)"

text \<open>\<open>cursor_condition\<close>; the database collates the title of the cursor like those of the rows.\<close>

fun cursor_condition :: "(ustr \<Rightarrow> 'k::linorder) \<Rightarrow> 'k receipt_cursor \<Rightarrow> receipt_row \<Rightarrow> bool" where
  "cursor_condition collate (RecentCursor v i) r \<longleftrightarrow> rc_created_at r < v \<or> (rc_created_at r = v \<and> rc_id r < i)"
| "cursor_condition collate (ExpiresOnCursor v i) r \<longleftrightarrow> rc_expires_on r > v \<or> (rc_expires_on r = v \<and> rc_id r > i)"
| "cursor_condition collate (PurchaseDateCursor v i) r \<longleftrightarrow> rc_payment_date r < v \<or> (rc_payment_date r = v \<and> rc_id r < i)"
| "cursor_condition collate (TitleCursor v i) r \<longleftrightarrow>
     collate (rc_item_name r) > v \<or> (collate (rc_item_name r) = v \<and> rc_id r > i)"

text \<open>A cursor goes with the sort it was made for; \<open>decode_cursor\<close> lets no other through.\<close>

definition beyond_cursor :: "(ustr \<Rightarrow> 'k::linorder) \<Rightarrow> receipt_sort \<Rightarrow> 'k receipt_cursor \<Rightarrow> receipt_row \<Rightarrow> bool" where
  "beyond_cursor collate sort_by c r \<longleftrightarrow>
     (if cursor_sort c = sort_by then cursor_condition collate c r else c < row_cursor collate sort_by r)"

interpretation listed: keyset_page "row_cursor collate sort_by" "beyond_cursor collate sort_by" for collate sort_by
proof unfold_locales
  fix c :: "'a receipt_cursor" and r
  show "beyond_cursor collate sort_by c r \<longleftrightarrow> c < row_cursor collate sort_by r"
    by (cases c; cases sort_by) (auto simp: beyond_cursor_def less_receipt_cursor_def)
qed

section \<open>Cursor texts\<close>

text \<open>\<open>date.isoformat\<close> and its reader, for the form that is written.\<close>

fun date_text :: "date \<Rightarrow> ustr" where
  "date_text (Date y m d) = dec_field 4 y @ [45] @ dec_field 2 m @ [45] @ dec_field 2 d"

definition date_of_text :: "ustr \<Rightarrow> date option" where
  "date_of_text s =
     (if length s = 10 \<and> s ! 4 = 45 \<and> s ! 7 = 45
      then (case (dec_read (take 4 s), dec_read (take 2 (drop 5 s)), dec_read (drop 8 s)) of
              (Some y, Some m, Some d) \<Rightarrow> mk_date y m d
            | _ \<Rightarrow> None)
      else None)"

text \<open>\<open>_cursor_value\<close>, already as the text that goes into the payload.\<close>

fun cursor_value_text :: "receipt_sort \<Rightarrow> receipt_row \<Rightarrow> ustr" where
  "cursor_value_text RECENT r = isoformat (rc_created_at r)"
| "cursor_value_text EXPIRES_ON r = date_text (rc_expires_on r)"
| "cursor_value_text PURCHASE_DATE r = date_text (rc_payment_date r)"
| "cursor_value_text TITLE r = rc_item_name r"

definition cursor_payload :: "receipt_sort \<Rightarrow> receipt_row \<Rightarrow> (ustr \<times> ustr) list" where
  "cursor_payload sort_by r =
     [(ascii ''sort'', ascii (receipt_sort_value sort_by)), (ascii ''value'', cursor_value_text sort_by r),
      (ascii ''id'', uuid_str (rc_id r))]"

definition encode_cursor :: "receipt_sort \<Rightarrow> receipt_row \<Rightarrow> exn + ustr" where
  "encode_cursor sort_by r =
     (case utf8_encode (json_dumps (cursor_payload sort_by r)) of
        None \<Rightarrow> Inl PyValueError
      | Some bytes \<Rightarrow> Inr (strip_padding (urlsafe_b64encode bytes)))"

text \<open>\<open>payload[key]\<close>: the last of several members with the same key; anything but an object has no members.\<close>

definition payload_member :: "json_value \<Rightarrow> string \<Rightarrow> json_value option" where
  "payload_member payload k = (case payload of JObject kvs \<Rightarrow> map_of (rev kvs) (ascii k) | _ \<Rightarrow> None)"

definition json_text :: "json_value \<Rightarrow> ustr option" where
  "json_text v = (case v of JString s \<Rightarrow> Some s | _ \<Rightarrow> None)"

fun parse_cursor_value :: "receipt_sort \<Rightarrow> ustr \<Rightarrow> uuid \<Rightarrow> ustr receipt_cursor option" where
  "parse_cursor_value RECENT v i = map_option (\<lambda>t. RecentCursor t i) (fromisoformat v)"
| "parse_cursor_value EXPIRES_ON v i = map_option (\<lambda>d. ExpiresOnCursor d i) (date_of_text v)"
| "parse_cursor_value PURCHASE_DATE v i = map_option (\<lambda>d. PurchaseDateCursor d i) (date_of_text v)"
| "parse_cursor_value TITLE v i = Some (TitleCursor v i)"

text \<open>The body of the \<open>try\<close>; whatever fails in it ends in the same \<open>ValidationError\<close>.\<close>

definition read_cursor :: "receipt_sort \<Rightarrow> ustr \<Rightarrow> ustr receipt_cursor option" where
  "read_cursor sort_by cursor =
     Option.bind (urlsafe_b64decode (add_padding cursor)) (\<lambda>bytes.
     Option.bind (utf8_decode bytes) (\<lambda>s.
     Option.bind (json_loads s) (\<lambda>payload.
     Option.bind (Option.bind (payload_member payload ''sort'') json_text) (\<lambda>sort_text.
     if receipt_sort_of sort_text \<noteq> Some sort_by then None
     else
       Option.bind (Option.bind (payload_member payload ''id'') json_text) (\<lambda>id_text.
       Option.bind (Option.bind (payload_member payload ''value'') json_text) (\<lambda>v.
       Option.bind (uuid_parse id_text) (\<lambda>i.
       parse_cursor_value sort_by v i)))))))"

definition decode_cursor :: "ustr option \<Rightarrow> receipt_sort \<Rightarrow> exn + ustr receipt_cursor option" where
  "decode_cursor cursor sort_by =
     (case cursor of
        None \<Rightarrow> Inr None
      | Some s \<Rightarrow>
          (case read_cursor sort_by s of
             None \<Rightarrow> Inl (ValidationError [ErrorDetail ''cursor'' ''cursor_invalid''])
           | Some c \<Rightarrow> Inr (Some c)))"

section \<open>Listing\<close>

text \<open>The attachments of the page's receipts, in one query.\<close>

definition file_ids_by_receipt_id :: "uuid list \<Rightarrow> 'z receipt_db_scheme \<Rightarrow> uuid \<Rightarrow> uuid list" where
  "file_ids_by_receipt_id ids db =
     (let rows = sort_key attachment_key (filter (\<lambda>a. at_receipt_id a \<in> set ids) (attachment_rows db))
      in (\<lambda>i. map at_file_id (filter (\<lambda>a. at_receipt_id a = i) rows)))"

definition records_to_read_models :: "receipt_row list \<Rightarrow> 'z receipt_db_scheme \<Rightarrow> receipt_read_model list" where
  "records_to_read_models records db =
     (let files = file_ids_by_receipt_id (map rc_id records) db
      in map (\<lambda>r. record_to_read_model r (files (rc_id r))) records)"

record receipt_list_page =
  rl_receipts :: "receipt_read_model list"
  rl_total_count :: nat
  rl_next_cursor :: "ustr option"
  rl_has_next :: bool
  rl_limit :: int

definition list_receipts_by_user ::
    "date \<Rightarrow> (nat \<Rightarrow> nat) \<Rightarrow> (ustr \<Rightarrow> 'k::linorder) \<Rightarrow> list_receipts_query \<Rightarrow> 'z receipt_db_scheme \<Rightarrow> exn + receipt_list_page" where
  "list_receipts_by_user today lower collate q db =
     bindE (list_conditions today lower q) (\<lambda>base.
     bindE (decode_cursor (lr_cursor q) (lr_sort q)) (\<lambda>cursor.
     let selected = filter base (receipt_rows db);
         further = (case cursor of
                      None \<Rightarrow> selected
                    | Some c \<Rightarrow> filter (cursor_condition collate (map_receipt_cursor collate c)) selected);
         records = take (nat (lr_limit q) + 1) (sort_key (row_cursor collate (lr_sort q)) further);
         page_records = take (nat (lr_limit q)) records;
         has_next = nat (lr_limit q) < length records
     in bindE (if has_next \<and> page_records \<noteq> [] then bindE (encode_cursor (lr_sort q) (last page_records)) (\<lambda>c. Inr (Some c))
               else Inr None) (\<lambda>following.
        Inr \<lparr>rl_receipts = records_to_read_models page_records db, rl_total_count = length selected,
             rl_next_cursor = following, rl_has_next = has_next, rl_limit = lr_limit q\<rparr>)))"

definition list_receipts ::
    "date \<Rightarrow> (nat \<Rightarrow> nat) \<Rightarrow> (ustr \<Rightarrow> 'k::linorder) \<Rightarrow> list_receipts_query \<Rightarrow> 'z receipt_db_scheme \<Rightarrow> exn + receipt_list_page" where
  "list_receipts today lower collate q db =
     bindE (mk_list_receipts_query q) (\<lambda>q'. list_receipts_by_user today lower collate q' db)"

section \<open>Keywords\<close>

text \<open>Lower-casing neither makes nor unmakes a wildcard or a backslash.\<close>

definition lower_keeps_wildcards :: "(nat \<Rightarrow> nat) \<Rightarrow> bool" where
  "lower_keeps_wildcards lower \<longleftrightarrow> (\<forall>w \<in> {37, 92, 95}. \<forall>c. lower c = w \<longleftrightarrow> c = w)"

definition escaped :: "nat \<Rightarrow> ustr" where
  "escaped c = (if c \<in> {37, 92, 95} then [92, c] else [c])"

lemma replace_char:
  "length s \<le> n \<Longrightarrow> replace_text [a] new n s = concat (map (\<lambda>c. if c = a then new else [c]) s)"
proof (induction s arbitrary: n)
  case Nil
  then show ?case by (cases n) simp_all
next
  case (Cons c s)
  then obtain m where "n = Suc m" by (cases n) auto
  then show ?case using Cons by simp
qed

lemma escape_like_keyword_eq: "escape_like_keyword w = concat (map escaped w)"
proof -
  have "concat (map f (concat (map g w))) = concat (map (\<lambda>c. concat (map f (g c))) w)" for f g :: "nat \<Rightarrow> ustr"
    by (induction w) simp_all
  then show ?thesis
    by (simp add: escape_like_keyword_def str_replace_def replace_char)
      (intro arg_cong [where f = concat] map_cong refl, auto simp: escaped_def)
qed

lemma like_any: "like (37 # ps) t \<longleftrightarrow> (\<exists>a b. t = a @ b \<and> like ps b)"
proof (induction t)
  case (Cons c t)
  have "(\<exists>a b. c # t = a @ b \<and> like ps b) \<longleftrightarrow> like ps (c # t) \<or> (\<exists>a b. t = a @ b \<and> like ps b)"
    by (metis append_Cons append_Nil append_eq_Cons_conv list.inject)
  then show ?case using Cons by simp
qed simp

lemma like_escaped:
  assumes "lower_keeps_wildcards lower"
  shows "like (map lower (concat (map escaped w)) @ ps) t \<longleftrightarrow> (\<exists>b. t = map lower w @ b \<and> like ps b)"
proof (induction w arbitrary: t)
  case (Cons c w)
  have special: "lower c = v \<longleftrightarrow> c = v" if "v \<in> {37, 92, 95}" for v
    using assms that unfolding lower_keeps_wildcards_def by blast
  have "like (map lower (escaped c) @ qs) t \<longleftrightarrow> (\<exists>t'. t = lower c # t' \<and> like qs t')" for qs
    using special assms by (cases t) (auto simp: escaped_def lower_keeps_wildcards_def)
  then show ?case using Cons by auto
qed simp

lemma keyword_found:
  assumes "lower_keeps_wildcards lower"
  shows "ilike lower t ([37] @ escape_like_keyword w @ [37]) \<longleftrightarrow> (\<exists>s \<in> set_option t. sublist (map lower w) (map lower s))"
proof -
  have "lower 37 = 37" using assms by (simp add: lower_keeps_wildcards_def)
  moreover have "like [37] b" for b unfolding like_any by (rule exI [of _ b]) simp
  ultimately show ?thesis
    using like_escaped [OF assms, of w "[37]"]
    by (simp add: ilike_def escape_like_keyword_eq like_any sublist_def del: like.simps) metis
qed

section \<open>Status\<close>

lemma days_after_less:
  assumes "days_after today n = Inr d" and "valid_date today" and "valid_date e" and "0 \<le> n"
  shows "d < e \<longleftrightarrow> date_ordinal today + n < date_ordinal e" and "e \<le> d \<longleftrightarrow> date_ordinal e \<le> date_ordinal today + n"
proof -
  have d: "d = date_of_ordinal (date_ordinal today + n)" "date_ordinal today + n \<le> 3652059"
    using assms(1) by (auto simp: days_after_def split: if_splits)
  then have "valid_date d \<and> date_ordinal d = date_ordinal today + n"
    using date_of_ordinal_valid [of "date_ordinal today + n"] date_ordinal_range [OF assms(2)] assms(4) by simp
  then show "e \<le> d \<longleftrightarrow> date_ordinal e \<le> date_ordinal today + n" "d < e \<longleftrightarrow> date_ordinal today + n < date_ordinal e"
    using date_ordinal_le_iff [of e d] assms(3) by (auto simp: not_le [symmetric])
qed

lemma status_condition_is_status:
  assumes "status_condition today st = Inr p" and "valid_date today" and "valid_date (rc_expires_on r)"
  shows "p r \<longleftrightarrow> st = receipt_status.ALL \<or> warranty_status today (rc_expires_on r) = st"
proof -
  have "rc_expires_on r < today \<longleftrightarrow> date_ordinal (rc_expires_on r) < date_ordinal today"
    using date_ordinal_le_iff [OF assms(2,3)] by (auto simp: not_le [symmetric])
  then show ?thesis
    using assms days_after_less [of today 30 _ "rc_expires_on r"]
    by (cases st) (auto simp: status_condition_def warranty_status_def warranty_d_day_def Let_def bindE_Inr not_less [symmetric])
qed

text \<open>C38. The list shows exactly the receipts of the user that match: those with the chosen warranty status as it is
  shown with each receipt, with the chosen category, and with the keyword, taken literally and regardless of case,
  somewhere in the item name, the brand, the place of payment or the memo.\<close>

theorem listed_receipts_match:
  assumes "list_conditions today lower q = Inr p" and "valid_date today" and "valid_date (rc_expires_on r)"
    and "lower_keeps_wildcards lower"
  shows "p r \<longleftrightarrow>
    rc_user_id r = lr_user_id q \<and>
    (lr_status q = receipt_status.ALL \<or> rm_warranty_status today (record_to_read_model r fs) = lr_status q) \<and>
    (lr_category q = None \<or> rc_category r = map_option receipt_category_value (lr_category q)) \<and>
    (\<forall>w \<in> set_option (lr_q q).
       \<exists>t \<in> {rc_item_name r} \<union> set_option (rc_brand_name r) \<union> set_option (rc_payment_location r) \<union> set_option (rc_memo r).
         sublist (map lower w) (map lower t))"
proof -
  obtain st where st: "status_condition today (lr_status q) = Inr st"
    and p: "p = (\<lambda>r. rc_user_id r = lr_user_id q \<and> st r \<and>
              (\<forall>c \<in> set_option (lr_category q). rc_category r = Some (receipt_category_value c)) \<and>
              (\<forall>w \<in> set_option (lr_q q).
                 let pattern = [37] @ escape_like_keyword w @ [37]
                 in ilike lower (Some (rc_item_name r)) pattern \<or> ilike lower (rc_brand_name r) pattern \<or>
                    ilike lower (rc_payment_location r) pattern \<or> ilike lower (rc_memo r) pattern))"
    using assms(1) unfolding list_conditions_def bindE_Inr by blast
  have "rm_warranty_status today (record_to_read_model r fs) = warranty_status today (rc_expires_on r)"
    by (simp add: rm_warranty_status_def record_to_read_model_def)
  then show ?thesis
    unfolding p Let_def keyword_found [OF assms(4)] status_condition_is_status [OF st assms(2,3)]
    by (cases "lr_category q"; cases "lr_q q") auto
qed

section \<open>Cursors are read back\<close>

lemma date_of_text_written: "valid_date d \<Longrightarrow> date_of_text (date_text d) = Some d"
proof (cases d)
  case (Date y m k)
  assume "valid_date d"
  then have v: "1 \<le> y" "y \<le> 9999" "1 \<le> m" "m \<le> 12" "1 \<le> k" "k \<le> 31"
    using days_in_month_bounds(2) [of y m] Date by auto
  have "length (date_text d) = 10" "date_text d ! 4 = 45" "date_text d ! 7 = 45" "take 4 (date_text d) = dec_field 4 y"
    "take 2 (drop 5 (date_text d)) = dec_field 2 m" "drop 8 (date_text d) = dec_field 2 k"
    by (simp_all add: Date nth_append)
  then show ?thesis
    using v \<open>valid_date d\<close> dec_read_4 [of y] dec_read_2 [of m] dec_read_2 [of k]
    by (simp add: date_of_text_def Date mk_date_def del: valid_date.simps date_text.simps)
qed

lemma sort_of_value: "receipt_sort_of (ascii (receipt_sort_value m)) = Some m"
  by (cases m) (simp_all add: receipt_sort_of_def ascii_def)

definition cursor_dates_valid :: "receipt_row \<Rightarrow> bool" where
  "cursor_dates_valid r \<longleftrightarrow>
     valid_instant (rc_created_at r) \<and> valid_date (rc_expires_on r) \<and> valid_date (rc_payment_date r) \<and>
     list_all scalar_value (rc_item_name r)"

lemma scalar_json_string: "list_all scalar_value s \<Longrightarrow> list_all scalar_value (json_string s)"
proof -
  have hex: "scalar_value (hex_char d)" if "d \<in> set (digits_of 16 4 c)" for c d
    using digits_of_less [OF _ that] by (simp add: hex_char_def scalar_value_def)
  have "list_all scalar_value (json_escape c)" if "scalar_value c" for c
    using that hex by (auto simp: json_escape_def list_all_iff scalar_value_def [of "_ :: nat"] simp del: digits_of.simps)
  then show "list_all scalar_value s \<Longrightarrow> list_all scalar_value (json_string s)"
    by (auto simp: json_string_def list_all_iff) (simp add: scalar_value_def)
qed

lemma scalar_json_dumps:
  "\<forall>(k, v) \<in> set kvs. list_all scalar_value k \<and> list_all scalar_value v \<Longrightarrow> list_all scalar_value (json_dumps kvs)"
proof -
  assume "\<forall>(k, v) \<in> set kvs. list_all scalar_value k \<and> list_all scalar_value v"
  then have "list_all scalar_value (json_members kvs)"
    by (induction kvs rule: json_members.induct) (auto simp: scalar_json_string scalar_value_def)
  then show ?thesis by (simp add: json_dumps_def scalar_value_def)
qed

lemma cursor_written:
  assumes "cursor_dates_valid r"
  shows "\<exists>s. encode_cursor sort_by r = Inr s \<and>
    (\<forall>other. read_cursor other s = (if other = sort_by then Some (row_cursor id sort_by r) else None))"
proof -
  let ?payload = "cursor_payload sort_by r" let ?json = "json_dumps ?payload"
  have date: "list_all scalar_value (date_text d)" for d by (cases d) (simp add: scalar_dec_field scalar_value_def)
  have "list_all scalar_value (cursor_value_text sort_by r)"
    using assms date scalar_isoformat by (cases sort_by) (simp_all add: cursor_dates_valid_def)
  then have "list_all scalar_value ?json"
    by (intro scalar_json_dumps) (auto simp: cursor_payload_def scalar_ascii scalar_uuid_str)
  note utf8 = utf8_decode_encode [OF this]
  obtain bytes where bytes: "utf8_encode ?json = Some bytes" "utf8_decode bytes = Some ?json" "list_all (\<lambda>b. b < 256) bytes"
    using utf8 by (simp add: list_all_iff)
  obtain s where s: "s = strip_padding (urlsafe_b64encode bytes)" by simp
  have "json_loads ?json = Some (JObject (map (\<lambda>(k, v). (k, JString v)) ?payload))"
    by (rule json_read_back) (simp add: cursor_payload_def)
  then have payload: "Option.bind (urlsafe_b64decode (add_padding s)) (\<lambda>bs. Option.bind (utf8_decode bs) (\<lambda>t. Option.bind (json_loads t) f)) =
      f (JObject (map (\<lambda>(k, v). (k, JString v)) ?payload))" for f :: "_ \<Rightarrow> 'x option"
    using base64_read_back [OF bytes(3)] bytes(2) by (simp add: s)
  have members: "payload_member (JObject (map (\<lambda>(k, v). (k, JString v)) ?payload)) ''sort'' = Some (JString (ascii (receipt_sort_value sort_by)))"
    "payload_member (JObject (map (\<lambda>(k, v). (k, JString v)) ?payload)) ''value'' = Some (JString (cursor_value_text sort_by r))"
    "payload_member (JObject (map (\<lambda>(k, v). (k, JString v)) ?payload)) ''id'' = Some (JString (uuid_str (rc_id r)))"
    by (simp_all add: payload_member_def cursor_payload_def ascii_def)
  have value': "parse_cursor_value sort_by (cursor_value_text sort_by r) i = Some (row_cursor id sort_by (r\<lparr>rc_id := i\<rparr>))" for i
    using assms by (cases sort_by) (simp_all add: cursor_dates_valid_def fromisoformat_isoformat date_of_text_written)
  have "read_cursor other s = (if other = sort_by then Some (row_cursor id sort_by r) else None)" for other
    unfolding read_cursor_def payload using value' [of "rc_id r"] by (simp add: members json_text_def sort_of_value uuid_parse_str)
  then show ?thesis
    using bytes(1) s by (auto simp: encode_cursor_def)
qed

text \<open>The cursor of a row is read back as the position of that row, in each of the four sorts; with any other sort
  it is refused as an invalid cursor.\<close>

theorem receipt_cursor_read_back:
  assumes "cursor_dates_valid r"
  shows "\<exists>s. encode_cursor sort_by r = Inr s \<and>
    decode_cursor (Some s) sort_by = Inr (Some (row_cursor id sort_by r)) \<and>
    (\<forall>other. other \<noteq> sort_by \<longrightarrow>
       decode_cursor (Some s) other = Inl (ValidationError [ErrorDetail ''cursor'' ''cursor_invalid'']))"
  using cursor_written [OF assms, of sort_by] by (auto simp: decode_cursor_def)

section \<open>Every receipt once\<close>

definition receipt_page_after ::
    "date \<Rightarrow> (nat \<Rightarrow> nat) \<Rightarrow> (ustr \<Rightarrow> 'k::linorder) \<Rightarrow> list_receipts_query \<Rightarrow> 'z receipt_db_scheme \<Rightarrow>
     ustr option \<Rightarrow> exn + receipt_read_model list \<times> ustr option" where
  "receipt_page_after today lower collate q db c =
     bindE (list_receipts today lower collate (q\<lparr>lr_cursor := c\<rparr>) db) (\<lambda>p. Inr (rl_receipts p, rl_next_cursor p))"

lemma files_by_id: "i \<in> set ids \<Longrightarrow> file_ids_by_receipt_id ids db i = file_ids_for_receipt i db"
proof -
  assume i: "i \<in> set ids"
  let ?rows = "filter (\<lambda>a. at_receipt_id a \<in> set ids) (attachment_rows db)"
  have rows: "filter (\<lambda>a. at_receipt_id a = i) (sort_key attachment_key ?rows) =
      sort_key attachment_key (filter (\<lambda>a. at_receipt_id a = i) (attachment_rows db))"
    using i by (simp add: filter_sort filter_filter) (metis (mono_tags, lifting) filter_cong)
  have "sorted (map at_file_id (sort_key attachment_key as))" if "\<forall>a \<in> set as. at_receipt_id a = i" for as
  proof -
    have "sorted (map attachment_key (sort_key attachment_key as))" by (rule sorted_sort_key)
    then have "sorted_wrt (\<lambda>a b. attachment_key a \<le> attachment_key b) (sort_key attachment_key as)" by (simp add: sorted_wrt_map)
    then have "sorted_wrt (\<lambda>a b. at_file_id a \<le> at_file_id b) (sort_key attachment_key as)"
      by (rule sorted_wrt_mono_rel [rotated]) (use that in \<open>auto simp: attachment_key_def less_eq_prod_def\<close>)
    then show ?thesis by (simp add: sorted_wrt_map)
  qed
  then have "sorted (map at_file_id (sort_key attachment_key (filter (\<lambda>a. at_receipt_id a = i) (attachment_rows db))))" by simp
  moreover have "mset (map at_file_id (sort_key attachment_key as)) = mset (map at_file_id as)" for as by simp
  ultimately show ?thesis
    unfolding file_ids_by_receipt_id_def Let_def rows file_ids_for_receipt_def
    by (intro properties_for_sort [symmetric]) simp_all
qed

lemma records_models: "records_to_read_models records db = map (read_model_of db) records"
  by (simp add: records_to_read_models_def Let_def read_model_of_def files_by_id)

text \<open>What the pages of a query without a cursor are the pages of.\<close>

definition listed_rows ::
    "date \<Rightarrow> (nat \<Rightarrow> nat) \<Rightarrow> (ustr \<Rightarrow> 'k::linorder) \<Rightarrow> list_receipts_query \<Rightarrow> 'z receipt_db_scheme \<Rightarrow> exn + receipt_row list" where
  "listed_rows today lower collate q db =
     bindE (list_conditions today lower q) (\<lambda>p. Inr (sort_key (row_cursor collate (lr_sort q)) (filter p (receipt_rows db))))"

lemma collated_cursor: "map_receipt_cursor collate (row_cursor id sort_by r) = row_cursor collate sort_by r"
  by (cases sort_by) simp_all

lemma row_cursors_sorted:
  assumes "distinct (map rc_id rows)"
  shows "sorted_wrt (<) (map (row_cursor collate sort_by) (sort_key (row_cursor collate sort_by) (filter p rows)))"
proof -
  have "inj_on (row_cursor collate sort_by) (set rows)"
    using assms by (cases sort_by) (auto simp: inj_on_def distinct_map)
  then have "distinct (map (row_cursor collate sort_by) (sort_key (row_cursor collate sort_by) (filter p rows)))"
    using assms by (auto simp: distinct_map inj_on_def)
  then show ?thesis by (simp add: strict_sorted_iff)
qed

text \<open>One page, from any position a cursor stands for.\<close>

definition cursor_stands :: "(ustr \<Rightarrow> 'k::linorder) \<Rightarrow> receipt_sort \<Rightarrow> ustr option \<Rightarrow> 'k receipt_cursor option \<Rightarrow> bool" where
  "cursor_stands collate sort_by c k \<longleftrightarrow>
     (\<exists>d. decode_cursor c sort_by = Inr d \<and> k = map_option (map_receipt_cursor collate) d \<and>
          (\<forall>x \<in> set_option d. cursor_sort x = sort_by))"

lemma receipt_page_rows:
  assumes rows: "listed_rows today lower collate q db = Inr rows" and limit: "1 \<le> lr_limit q"
    and valid: "\<forall>r \<in> set (receipt_rows db). cursor_dates_valid r"
    and stands: "cursor_stands collate (lr_sort q) c k"
  shows "\<exists>following. receipt_page_after today lower collate q db c =
      Inr (map (read_model_of db) (take (nat (lr_limit q)) (listed.rest collate (lr_sort q) rows k)), following) \<and>
    (if nat (lr_limit q) < length (listed.rest collate (lr_sort q) rows k)
     then following \<noteq> None \<and>
       cursor_stands collate (lr_sort q) following
         (Some (row_cursor collate (lr_sort q) (last (take (nat (lr_limit q)) (listed.rest collate (lr_sort q) rows k)))))
     else following = None)"
proof -
  let ?sort = "lr_sort q" and ?L = "nat (lr_limit q)"
  obtain p where p: "list_conditions today lower q = Inr p" "rows = sort_key (row_cursor collate ?sort) (filter p (receipt_rows db))"
    using rows by (auto simp: listed_rows_def bindE_Inr)
  obtain d where d: "decode_cursor c ?sort = Inr d" "k = map_option (map_receipt_cursor collate) d"
    "\<forall>x \<in> set_option d. cursor_sort x = ?sort" using stands by (auto simp: cursor_stands_def)
  have same: "cursor_condition collate (map_receipt_cursor collate x) = beyond_cursor collate ?sort (map_receipt_cursor collate x)"
    if "cursor_sort x = ?sort" for x
    using that by (intro ext, cases x) (simp_all add: beyond_cursor_def)
  let ?rest = "listed.rest collate ?sort rows k"
  have further: "sort_key (row_cursor collate ?sort) (case d of None \<Rightarrow> filter p (receipt_rows db)
      | Some x \<Rightarrow> filter (cursor_condition collate (map_receipt_cursor collate x)) (filter p (receipt_rows db))) = ?rest"
    using d(2,3) same by (auto simp: listed.rest_def p(2) listed.sort_filter simp del: filter_filter split: option.split)
  have len: "length (case d of None \<Rightarrow> filter p (receipt_rows db)
      | Some x \<Rightarrow> filter (cursor_condition collate (map_receipt_cursor collate x)) (filter p (receipt_rows db))) = length ?rest"
    using arg_cong [OF further, of length] by (simp only: length_sort)
  have cond: "list_conditions today lower (q\<lparr>lr_cursor := c\<rparr>) = Inr p" using p(1) by (simp add: list_conditions_def)
  have page: "receipt_page_after today lower collate q db c =
      bindE (if ?L < length ?rest \<and> take ?L ?rest \<noteq> [] then bindE (encode_cursor ?sort (last (take ?L ?rest))) (\<lambda>c. Inr (Some c))
             else Inr None) (\<lambda>following. Inr (map (read_model_of db) (take ?L ?rest), following))"
    unfolding receipt_page_after_def list_receipts_def mk_list_receipts_query_def list_receipts_by_user_def
    using limit cond d(1) by (simp add: Let_def further len records_models min_def bindE_def del: filter_filter split: sum.split)
  show ?thesis
  proof (cases "?L < length ?rest")
    case False
    then show ?thesis unfolding page by simp
  next
    case True
    then have ne: "take ?L ?rest \<noteq> []" using limit by auto
    then have "last (take ?L ?rest) \<in> set ?rest" by (meson in_set_takeD last_in_set)
    then have "last (take ?L ?rest) \<in> set (receipt_rows db)" by (auto simp: listed.rest_def p(2) split: option.splits)
    then obtain s where s: "encode_cursor ?sort (last (take ?L ?rest)) = Inr s"
      "read_cursor ?sort s = Some (row_cursor id ?sort (last (take ?L ?rest)))"
      using cursor_written [of "last (take ?L ?rest)" ?sort] valid by auto
    have "cursor_sort (row_cursor id ?sort r) = ?sort" for r by (cases ?sort) simp_all
    then have "cursor_stands collate ?sort (Some s) (Some (row_cursor collate ?sort (last (take ?L ?rest))))"
      by (simp add: cursor_stands_def decode_cursor_def s(2) collated_cursor)
    then show ?thesis using True ne unfolding page by (simp add: s(1))
  qed
qed

text \<open>C27. A client that follows the cursors of a list sees every receipt that matches exactly once, in the chosen order,
  whatever the page size; the last page has no next cursor.\<close>

theorem receipt_pages_complete:
  assumes "listed_rows today lower collate q db = Inr rows" and "1 \<le> lr_limit q" and "receipt_tables_ok db"
    and "\<forall>r \<in> set (receipt_rows db). cursor_dates_valid r"
  shows "follow (Suc (length rows)) (receipt_page_after today lower collate q db) None = Inr (map (read_model_of db) rows) \<and>
    distinct rows \<and> sorted (map (row_cursor collate (lr_sort q)) rows) \<and>
    (\<forall>p. list_conditions today lower q = Inr p \<longrightarrow> set rows = {r \<in> set (receipt_rows db). p r})"
proof -
  have ids: "distinct (map rc_id (receipt_rows db))"
    using assms(3) unfolding receipt_tables_ok_def by (elim conjE)
  obtain p where p: "list_conditions today lower q = Inr p"
    and rows: "rows = sort_key (row_cursor collate (lr_sort q)) (filter p (receipt_rows db))"
    using assms(1) by (auto simp: listed_rows_def bindE_Inr)
  have "follow (Suc (length rows)) (receipt_page_after today lower collate q db) None =
      Inr (map (read_model_of db) (listed.rest collate (lr_sort q) rows None))"
  proof (rule listed.follow_rows [where stands = "cursor_stands collate (lr_sort q)" and limit = "nat (lr_limit q)"])
    show "sorted_wrt (<) (map (row_cursor collate (lr_sort q)) rows)" unfolding rows by (rule row_cursors_sorted [OF ids])
    show "cursor_stands collate (lr_sort q) None None" by (simp add: cursor_stands_def decode_cursor_def)
  qed (use receipt_page_rows [OF assms(1,2,4)] assms(2) in \<open>simp_all add: listed.rest_def\<close>)
  moreover have "distinct rows" using ids by (simp add: rows distinct_map)
  ultimately show ?thesis using p by (simp add: rows listed.rest_def)
qed

end
