(* ===== verification/Receipt_Ownership.thy ===== *)
theory Receipt_Ownership
  imports Receipt_Properties Receipt_Listing
begin

text \<open>
  Whose receipts a call reaches: the writes and the reads of the receipts module, the list included, seen from the
  receipts of another user.
\<close>

section \<open>Writes\<close>

text \<open>After an update the receipts of another user read as in the tables before it, or as other sessions left them.\<close>

lemma updated_others:
  assumes db: "receipt_tables_ok db" and later: "receipt_tables_ok (re_rivals env 0 (re_rival env db))"
    and last: "receipt_tables_ok (others_done env db)"
    and beside: "\<forall>n. beside (up_receipt_id cmd) (re_rivals env n)" and other: "up_user_id cmd \<noteq> u"
  shows "receipts_of u (snd (update_outcome env cmd db)) \<in> receipts_of u ` {db, re_rival env db, others_done env db}"
proof (cases "find_receipt_record (up_receipt_id cmd) (up_user_id cmd) db")
  case (Some r)
  have "receipts_of u (replace_receipt env x (others_done env db)) = receipts_of u (others_done env db)"
    if inp: "updated_input cmd (read_model_of db r) = Inr inp" and made: "create_receipt (re_receipt_id env) (re_today env) inp = Inr x"
      and r': "find_receipt_record (up_receipt_id cmd) (up_user_id cmd) (re_rival env db) = Some r'" for inp x r'
    using updated_receipt(2) [OF db Some inp made refl refl] other_ids [OF last find_when_done [OF beside later last r'] other]
    by (intro receipts_of_others(2)) simp
  then show ?thesis
    using Some by (auto simp: update_outcome_def Let_def bindE_def split: sum.split option.split)
qed (simp add: update_outcome_def)

lemma update_missing:
  "find_receipt_record (up_receipt_id cmd) (up_user_id cmd) db = None \<Longrightarrow>
    update_receipt env cmd (open_session db) = (Inl (ReceiptNotFoundError (up_receipt_id cmd)), open_session db)"
  by (simp add: update_receipt_def repo_find_receipt_def session_bind raiseA_def)

section \<open>Reads\<close>

text \<open>The tables as if nobody but \<open>u\<close> had receipts.\<close>

definition only_of :: "uuid \<Rightarrow> 'z receipt_db_scheme \<Rightarrow> 'z receipt_db_scheme" where
  "only_of u db =
     (let mine = filter (\<lambda>r. rc_user_id r = u) (receipt_rows db)
      in db\<lparr>receipt_rows := mine, attachment_rows := filter (\<lambda>a. at_receipt_id a \<in> set (map rc_id mine)) (attachment_rows db)\<rparr>)"

lemma only_of_model:
  assumes "r \<in> set (receipt_rows db)" and "rc_user_id r = u"
  shows "read_model_of (only_of u db) r = read_model_of db r"
proof -
  have "filter (\<lambda>a. at_receipt_id a = rc_id r) (attachment_rows (only_of u db)) =
      filter (\<lambda>a. at_receipt_id a = rc_id r) (attachment_rows db)"
    unfolding only_of_def using assms by (auto simp: Let_def filter_filter intro!: filter_cong)
  then show ?thesis by (simp add: read_model_of_def file_ids_for_receipt_def)
qed

lemma find_only_of: "find_receipt_record i u (only_of u db) = find_receipt_record i u db"
proof -
  have "find (\<lambda>r. rc_id r = i \<and> rc_user_id r = u) (filter (\<lambda>r. rc_user_id r = u) rows) =
      find (\<lambda>r. rc_id r = i \<and> rc_user_id r = u) rows" for rows
    by (induction rows) auto
  then show ?thesis by (simp add: find_receipt_record_def only_of_def Let_def)
qed

lemma get_only_of: "fst (get_receipt u i (open_session db)) = fst (get_receipt u i (open_session (only_of u db)))"
proof (cases "find_receipt_record i u db")
  case (Some r)
  then show ?thesis using only_of_model [OF found_receipt(1,3) [OF Some]] by (simp add: get_receipt_run find_only_of)
qed (simp add: get_receipt_run find_only_of)

lemma conditions_of_user:
  "list_conditions today lower q = Inr p \<Longrightarrow> p r \<Longrightarrow> rc_user_id r = lr_user_id q"
  by (auto simp: list_conditions_def bindE_Inr)

lemma list_only_of:
  fixes collate :: "ustr \<Rightarrow> 'k::linorder"
  assumes "lr_user_id q = u"
  shows "list_receipts today lower collate q db = list_receipts today lower collate q (only_of u db)"
proof -
  have "list_receipts_by_user today lower collate q db = list_receipts_by_user today lower collate q (only_of u db)"
  proof (cases "list_conditions today lower q")
    case (Inr p)
    have selected: "filter p (receipt_rows (only_of u db)) = filter p (receipt_rows db)"
      using conditions_of_user [OF Inr] assms by (auto simp: only_of_def Let_def filter_filter intro!: filter_cong)
    have models: "records_to_read_models page (only_of u db) = records_to_read_models page db"
      if "set page \<subseteq> set (filter p (receipt_rows db))" for page
      unfolding records_models using that conditions_of_user [OF Inr] assms by (auto intro!: only_of_model)
    have pages: "records_to_read_models (take n (take m (sort_key f further))) (only_of u db) =
        records_to_read_models (take n (take m (sort_key f further))) db"
      if "set further \<subseteq> set (filter p (receipt_rows db))" for n m further and f :: "receipt_row \<Rightarrow> 'k receipt_cursor"
    proof (rule models)
      show "set (take n (take m (sort_key f further))) \<subseteq> set (filter p (receipt_rows db))"
        using set_take_subset [of n "take m (sort_key f further)"] set_take_subset [of m "sort_key f further"] that
        unfolding set_sort by (rule subset_trans [OF subset_trans])
    qed
    have narrowed: "set (filter c (filter p (receipt_rows db))) \<subseteq> set (filter p (receipt_rows db))" for c by auto
    show ?thesis
      unfolding list_receipts_by_user_def Inr bindE_simps selected Let_def
      by (intro arg_cong [where f = "bindE _"] ext; split option.split)
        (simp add: pages [OF subset_refl] pages [OF narrowed] del: filter_filter take_take)
  qed (simp add: list_receipts_by_user_def)
  then show ?thesis by (auto simp: list_receipts_def mk_list_receipts_query_def bindE_def split: sum.split)
qed

section \<open>Ownership\<close>

text \<open>C26. No call of one user changes, removes or shows a receipt of another. After a create, an update or a delete the
  other user's receipts read as before, or as other sessions left them that committed during the update. Asking for one
  of them by its identifier, to show, update or delete it, ends like asking for a receipt that does not exist. What one
  receipt or a list shows a user is what it would show if nobody else had any receipts.\<close>

theorem receipts_belong_to_their_user:
  assumes "receipt_tables_ok db" and "receipt_tables_ok (re_rivals env 0 (re_rival env db))" and "receipt_tables_ok (others_done env db)"
    and "receipt_env_fresh env db" and "receipt_env_fresh env (others_done env db)"
    and "\<forall>n. beside (up_receipt_id ucmd) (re_rivals env n)"
    and "cr_user_id ccmd = v" and "up_user_id ucmd = v" and "v \<noteq> u"
  shows "receipts_of u (committed (snd (create_new_receipt env ccmd (open_session db)))) = receipts_of u db \<and>
    receipts_of u (committed (snd (update_receipt env ucmd (open_session db)))) \<in>
      receipts_of u ` {db, re_rival env db, others_done env db} \<and>
    receipts_of u (committed (snd (delete_receipt v i (open_session db)))) = receipts_of u db \<and>
    (\<forall>r \<in> set (receipt_rows db). rc_user_id r = u \<longrightarrow>
       get_receipt v (rc_id r) (open_session db) = (Inl (ReceiptNotFoundError (rc_id r)), open_session db) \<and>
       update_receipt env (ucmd\<lparr>up_receipt_id := rc_id r\<rparr>) (open_session db) = (Inl (ReceiptNotFoundError (rc_id r)), open_session db) \<and>
       delete_receipt v (rc_id r) (open_session db) = (Inl (ReceiptNotFoundError (rc_id r)), open_session db)) \<and>
    fst (get_receipt v i (open_session db)) = fst (get_receipt v i (open_session (only_of v db))) \<and>
    list_receipts today lower collate (q\<lparr>lr_user_id := v\<rparr>) db = list_receipts today lower collate (q\<lparr>lr_user_id := v\<rparr>) (only_of v db)"
proof (intro conjI ballI impI)
  show "receipts_of u (committed (snd (create_new_receipt env ccmd (open_session db)))) = receipts_of u db"
  proof (cases "create_receipt (re_receipt_id env) (re_today env) (create_input ccmd)")
    case (Inr x)
    note x = created_receipt(5,6) [OF Inr create_input_storable [OF Inr]]
    have "rp_id x = re_receipt_id env" "rp_user_id x \<noteq> u" using x assms(7,9) by (simp_all add: create_input_def)
    then show ?thesis
      using receipts_of_others(1) [of db u x env] fresh_receipt_id [OF assms(4)] by (simp add: create_run [OF assms(1,4)] Inr)
  qed (simp add: create_run [OF assms(1,4)])
  show "receipts_of u (committed (snd (update_receipt env ucmd (open_session db)))) \<in>
      receipts_of u ` {db, re_rival env db, others_done env db}"
    using updated_others [OF assms(1-3,6)] assms(8,9) update_run [OF assms(1-3,5,6)] by simp
  show "receipts_of u (committed (snd (delete_receipt v i (open_session db)))) = receipts_of u db"
  proof (cases "find_receipt_record i v db")
    case (Some r)
    then show ?thesis
      using receipts_of_removed [of db u i] other_ids [OF assms(1) Some assms(9)] by (simp add: delete_run [OF assms(1)])
  qed (simp add: delete_run [OF assms(1)])
  fix r assume r: "r \<in> set (receipt_rows db)" "rc_user_id r = u"
  then have "find_receipt_record (rc_id r) v db = None" using not_found_for_others [OF assms(1) r(1)] assms(9) by simp
  then show "get_receipt v (rc_id r) (open_session db) = (Inl (ReceiptNotFoundError (rc_id r)), open_session db)"
    "update_receipt env (ucmd\<lparr>up_receipt_id := rc_id r\<rparr>) (open_session db) = (Inl (ReceiptNotFoundError (rc_id r)), open_session db)"
    "delete_receipt v (rc_id r) (open_session db) = (Inl (ReceiptNotFoundError (rc_id r)), open_session db)"
    using assms(8) by (simp_all add: get_receipt_run update_missing delete_run [OF assms(1)])
qed (rule get_only_of, rule list_only_of, simp)

end
