(* ===== verification/Receipt_Samples.thy ===== *)
theory Receipt_Samples
  imports Receipt_Ownership
begin

text \<open>
  The receipts module at work on the small tables of \<open>Receipt_Properties\<close>: who sees what, lists, and two
  updates of one receipt that overlap.
\<close>

definition sample_query :: list_receipts_query where
  "sample_query = \<lparr>lr_user_id = 1, lr_status = ACTIVE, lr_sort = TITLE, lr_limit = 1, lr_cursor = None,
     lr_category = Some IT_DEVICE, lr_q = Some (ascii ''tv'')\<rparr>"

definition sample_rows :: receipt_db where
  "sample_rows = no_receipts\<lparr>receipt_rows := [sample_receipt\<lparr>rc_id := 12, rc_item_name := ascii ''My TV''\<rparr>, sample_receipt]\<rparr>"

definition ascii_lower :: "nat \<Rightarrow> nat" where
  "ascii_lower c = (if 65 \<le> c \<and> c \<le> 90 then c + 32 else c)"

lemma ascii_lower_plain: "lower_keeps_wildcards ascii_lower"
  by (auto simp: lower_keeps_wildcards_def ascii_lower_def)

lemma sample_today: "days_after (Date 2025 1 1) 30 = Inr (Date 2025 1 31)"
proof -
  have "date_ordinal (Date 2025 1 1) + 30 = date_ordinal (Date 2025 1 31)" "valid_date (Date 2025 1 31)"
    by (simp_all add: days_in_month_def)
  moreover have "date_ordinal (Date 2025 1 31) \<le> 3652059"
    using date_ordinal_range [OF \<open>valid_date (Date 2025 1 31)\<close>] by simp
  ultimately show ?thesis by (simp add: days_after_def date_of_ordinal_inverse del: date_ordinal.simps valid_date.simps)
qed

lemma sample_conditions: "\<exists>p. list_conditions (Date 2025 1 1) ascii_lower sample_query = Inr p"
  by (simp add: list_conditions_def status_condition_def sample_query_def bindE_Inr sample_today)

theorem listed_receipts_match_witness:
  "\<exists>p. list_conditions (Date 2025 1 1) ascii_lower sample_query = Inr p \<and> p sample_receipt"
proof -
  obtain p where p: "list_conditions (Date 2025 1 1) ascii_lower sample_query = Inr p" using sample_conditions by blast
  have "sublist (ascii ''tv'') (ascii ''tv'')" by simp
  then show ?thesis
    using listed_receipts_match [OF p _ _ ascii_lower_plain, of sample_receipt "[]"] p
    by (simp add: sample_receipt_def sample_query_def days_in_month_def rm_warranty_status_def record_to_read_model_def
        warranty_status_def warranty_d_day_def days_before_year_def days_before_month_def is_leap_def ascii_def ascii_lower_def)
qed

lemma sample_row_dates: "\<forall>r \<in> set (receipt_rows sample_rows). cursor_dates_valid r"
  by (simp add: sample_rows_def no_receipts_def sample_receipt_def cursor_dates_valid_def valid_instant_def day_us_def
      days_in_month_def ascii_def scalar_value_def)

theorem receipt_cursor_read_back_witness:
  "\<exists>s. encode_cursor TITLE sample_receipt = Inr s \<and>
    decode_cursor (Some s) TITLE = Inr (Some (TitleCursor (ascii ''TV'') 10)) \<and>
    decode_cursor (Some s) RECENT = Inl (ValidationError [ErrorDetail ''cursor'' ''cursor_invalid''])"
proof -
  have "cursor_dates_valid sample_receipt" using sample_row_dates by (simp add: sample_rows_def)
  from receipt_cursor_read_back [OF this, of TITLE] show ?thesis by (auto simp: sample_receipt_def)
qed

theorem receipt_pages_complete_witness:
  "follow 3 (receipt_page_after (Date 2025 1 1) ascii_lower (length :: ustr \<Rightarrow> nat) (sample_query\<lparr>lr_q := None\<rparr>) sample_rows) None =
    Inr (map (read_model_of sample_rows) [sample_receipt, sample_receipt\<lparr>rc_id := 12, rc_item_name := ascii ''My TV''\<rparr>])"
proof -
  have rows: "listed_rows (Date 2025 1 1) ascii_lower (length :: ustr \<Rightarrow> nat) (sample_query\<lparr>lr_q := None\<rparr>) sample_rows =
      Inr [sample_receipt, sample_receipt\<lparr>rc_id := 12, rc_item_name := ascii ''My TV''\<rparr>]"
    by (simp add: listed_rows_def list_conditions_def status_condition_def sample_query_def bindE_Inr sample_today sample_rows_def
        no_receipts_def sample_receipt_def less_date_def ascii_def sort_key_def insort_key_def cursor_le_simps)
  have "receipt_tables_ok sample_rows"
    using well_formedD(1) [OF sample_well_formed(2)]
    by (simp add: receipt_tables_ok_def sample_rows_def sample_receipts_def no_receipts_def sample_receipt_def
        receipt_row_ok_def receipt_row_checks_def)
  from receipt_pages_complete [OF rows _ this sample_row_dates] show ?thesis
    by (simp add: sample_query_def numeral_3_eq_3)
qed

theorem receipts_belong_to_their_user_witness:
  "get_receipt 2 10 (open_session sample_receipts) = (Inl (ReceiptNotFoundError 10), open_session sample_receipts) \<and>
    list_receipts (Date 2025 1 1) ascii_lower (length :: ustr \<Rightarrow> nat) (sample_query\<lparr>lr_user_id := 2\<rparr>) sample_receipts =
      list_receipts (Date 2025 1 1) ascii_lower length (sample_query\<lparr>lr_user_id := 2\<rparr>) no_receipts"
proof -
  note quiet = undisturbed_simps [OF sample_undisturbed]
  have "(\<forall>r \<in> set (receipt_rows sample_receipts). rc_user_id r = 1 \<longrightarrow>
      get_receipt 2 (rc_id r) (open_session sample_receipts) = (Inl (ReceiptNotFoundError (rc_id r)), open_session sample_receipts)) \<and>
    list_receipts (Date 2025 1 1) ascii_lower (length :: ustr \<Rightarrow> nat) (sample_query\<lparr>lr_user_id := 2\<rparr>) sample_receipts =
      list_receipts (Date 2025 1 1) ascii_lower length (sample_query\<lparr>lr_user_id := 2\<rparr>) (only_of 2 sample_receipts)"
    using receipts_belong_to_their_user [of sample_receipts sample_receipt_env "sample_update {}\<lparr>up_user_id := 2\<rparr>" sample_create 2 1 10
        "Date 2025 1 1" ascii_lower "length :: ustr \<Rightarrow> nat" sample_query]
      well_formedD(1) [OF sample_well_formed(2)] sample_ids_fresh(2)
    by (simp add: quiet sample_create_def)
  moreover have "only_of 2 sample_receipts = no_receipts"
    by (simp add: only_of_def sample_receipts_def no_receipts_def sample_receipt_def)
  ultimately show ?thesis by (simp add: sample_receipts_def sample_receipt_def)
qed

section \<open>Updates that overlap\<close>

text \<open>
  An update deletes the attachments it sees and inserts its own, and locks nothing that another update of the same
  receipt would wait for before that. When the other one commits before the \<open>INSERT\<close> of the first, both stay.
\<close>

definition files_update :: "uuid list \<Rightarrow> update_receipt_command" where
  "files_update fs = sample_update {''receipt_file_ids''}\<lparr>up_receipt_file_ids := Some fs\<rparr>"

definition other_receipt_env :: "receipt_db receipt_env" where
  "other_receipt_env = sample_receipt_env\<lparr>re_attachment_ids := (\<lambda>n. of_nat (50 + n))\<rparr>"

definition overtaken_env :: "receipt_db receipt_env" where
  "overtaken_env = sample_receipt_env\<lparr>re_rivals := (\<lambda>n.
     if n = 2 then (\<lambda>db. committed (snd (update_receipt other_receipt_env (files_update [34, 35, 36]) (open_session db)))) else id)\<rparr>"

lemma files_update_made:
  assumes "distinct fs" and "1 \<le> length fs" and "length fs \<le> 5"
  obtains x where "\<And>gs. bindE (updated_input (files_update fs) (record_to_read_model sample_receipt gs)) (create_receipt 11 (Date 2025 1 1)) = Inr x"
    and "rp_id x = 10" and "rp_user_id x = 1" and "rp_receipt_file_ids x = fs" and "apply_receipt x sample_receipt = sample_receipt"
proof -
  let ?x = "receipt_made 11 \<lparr>ri_user_id = 1, ri_item_name = Some (ascii ''TV''), ri_payment_date = Some (Date 2024 1 31), ri_receipt_id = Some 10,
      ri_brand_name = Some (ascii ''LG''), ri_serial_number = None, ri_payment_location = None, ri_total_amount = Some 1000000000,
      ri_preserve_legacy_total_amount = True, ri_period_months = Some 72, ri_preserve_future_period_months = True,
      ri_expires_on = Some (Date 2030 1 31), ri_category = Some (CategoryMember IT_DEVICE), ri_sub_category = None, ri_memo = None,
      ri_requires_physical_receipt = Some True, ri_receipt_file_ids = Some fs\<rparr> (Date 2030 1 31)"
  have "bindE (updated_input (files_update fs) (record_to_read_model sample_receipt gs)) (create_receipt 11 (Date 2025 1 1)) = Inr ?x" for gs
    using assms
    by (simp add: updated_input_def required_updated_value_def updated_value_def has_update_def resolved_expires_on_def files_update_def
        sample_update_def record_to_read_model_def sample_receipt_def create_receipt_eq receipt_accepted_def resolve_expires_on_def
        amount_accepted_def period_accepted_def resolved_period_def max_amount_def max_months_def text_within_def category_accepted_def
        less_eq_date_def less_date_def strip_def lstrip_def rstrip_def ascii_def is_space_def receipt_category_of_def receipt_categories_def)
  moreover have "apply_receipt ?x sample_receipt = sample_receipt"
    by (simp add: apply_receipt_def receipt_made_def sample_receipt_def clean_text_def strip_def lstrip_def rstrip_def ascii_def
        is_space_def resolved_period_def chosen_category_def)
  ultimately show thesis using that [of ?x] by (simp add: receipt_made_def)
qed

lemma files_update_overtaking:
  assumes "d \<in> {sample_receipts, drop_attachments 10 sample_receipts}"
  shows "committed (snd (update_receipt other_receipt_env (files_update [34, 35, 36]) (open_session d))) =
    sample_receipts\<lparr>attachment_rows := [\<lparr>at_id = 50, at_receipt_id = 10, at_file_id = 34, at_created_at = 739000 * day_us\<rparr>,
      \<lparr>at_id = 51, at_receipt_id = 10, at_file_id = 35, at_created_at = 739000 * day_us\<rparr>,
      \<lparr>at_id = 52, at_receipt_id = 10, at_file_id = 36, at_created_at = 739000 * day_us\<rparr>]\<rparr>"
proof -
  obtain x where x: "\<And>gs. bindE (updated_input (files_update [34, 35, 36]) (record_to_read_model sample_receipt gs)) (create_receipt 11 (Date 2025 1 1)) = Inr x"
    "rp_id x = 10" "rp_user_id x = 1" "rp_receipt_file_ids x = [34, 35, 36]" "apply_receipt x sample_receipt = sample_receipt"
    by (rule files_update_made [of "[34, 35, 36]"]) simp_all
  have ok: "receipt_tables_ok d"
    using assms well_formedD(1) [OF sample_well_formed(2)] drop_attachments_ok by auto
  have "inj_on (\<lambda>n. of_nat (50 + n) :: uuid) {..<5}"
    by (rule inj_onI) (use small_uuid [of "50 + n" "50 + m" for n m] in simp)
  moreover have "of_nat (50 + n) \<noteq> (20 :: uuid)" if "n < 5" for n
    using small_uuid [of "50 + n" 20] that by auto
  ultimately have fresh: "receipt_env_fresh other_receipt_env d"
    using assms by (auto simp: receipt_env_fresh_def other_receipt_env_def sample_receipt_env_def sample_receipts_def no_receipts_def
        sample_receipt_def drop_attachments_def simp del: of_nat_add)
  have quiet: "undisturbed other_receipt_env" using sample_undisturbed by (simp add: undisturbed_def other_receipt_env_def)
  have same: "find_receipt_record 10 1 d = Some sample_receipt" "receipt_rows d = [sample_receipt]"
    using assms by (auto simp: find_receipt_record_def sample_receipts_def sample_receipt_def drop_attachments_def)
  have cmd: "up_receipt_id (files_update fs) = 10" "up_user_id (files_update fs) = 1" for fs
    by (simp_all add: files_update_def sample_update_def)
  have "update_outcome other_receipt_env (files_update [34, 35, 36]) d =
      (Inr (record_to_read_model sample_receipt [34, 35, 36]), replace_receipt other_receipt_env x d)"
    using x quiet by (simp add: update_outcome_def Let_def cmd same read_model_of_def other_receipt_env_def sample_receipt_env_def stamp_update_def)
  moreover have "replace_receipt other_receipt_env x d = sample_receipts\<lparr>attachment_rows := new_attachments (\<lambda>n. of_nat (50 + n)) (739000 * day_us) x\<rparr>"
    using assms x by (auto simp: replace_receipt_def put_receipt_def Let_def stamp_update_def other_receipt_env_def sample_receipt_env_def
        sample_receipts_def drop_attachments_def)
  ultimately show ?thesis
    using update_undisturbed [OF ok fresh quiet] x(2,4) by (simp add: new_attachments_def attachment_to_record_def)
qed

theorem overlapping_updates_add_up:
  "\<exists>m s. update_receipt overtaken_env (files_update [31, 32, 33]) (open_session sample_receipts) = (Inr m, s) \<and>
    rm_receipt_file_ids m = [31, 32, 33, 34, 35, 36] \<and>
    get_receipt 1 10 (open_session (committed s)) = (Inr m, open_session (committed s)) \<and>
    \<not> receipts_well_formed (committed s)"
proof -
  obtain x where x: "\<And>gs. bindE (updated_input (files_update [31, 32, 33]) (record_to_read_model sample_receipt gs)) (create_receipt 11 (Date 2025 1 1)) = Inr x"
    "rp_id x = 10" "rp_user_id x = 1" "rp_receipt_file_ids x = [31, 32, 33]" "apply_receipt x sample_receipt = sample_receipt"
    by (rule files_update_made [of "[31, 32, 33]"]) simp_all
  define both where "both = sample_receipts\<lparr>attachment_rows :=
    map (\<lambda>n. \<lparr>at_id = 50 + n, at_receipt_id = 10, at_file_id = 34 + n, at_created_at = 739000 * day_us\<rparr>) [0, 1, 2] @
    map (\<lambda>n. \<lparr>at_id = 40 + n, at_receipt_id = 10, at_file_id = 31 + n, at_created_at = 739000 * day_us\<rparr>) [0, 1, 2]\<rparr>"
  note tables = well_formedD(1) [OF sample_well_formed(2)]
  have cmd: "up_receipt_id (files_update fs) = 10" "up_user_id (files_update fs) = 1" for fs
    by (simp_all add: files_update_def sample_update_def)
  have env: "re_rival overtaken_env = id" "re_rivals overtaken_env 0 = id" "re_rivals overtaken_env (Suc 0) = id"
    "re_db_now overtaken_env = 739000 * day_us" "re_receipt_id overtaken_env = 11" "re_today overtaken_env = Date 2025 1 1"
    "re_attachment_ids overtaken_env = (\<lambda>n. of_nat (40 + n))"
    by (simp_all add: overtaken_env_def sample_receipt_env_def)
  have rival: "re_rivals overtaken_env 2 d = sample_receipts\<lparr>attachment_rows :=
      map (\<lambda>n. \<lparr>at_id = 50 + n, at_receipt_id = 10, at_file_id = 34 + n, at_created_at = 739000 * day_us\<rparr>) [0, 1, 2]\<rparr>"
    if "d \<in> {sample_receipts, drop_attachments 10 sample_receipts}" for d
    using files_update_overtaking [OF that] by (simp add: overtaken_env_def)
  have found: "find_receipt_record 10 1 both = Some sample_receipt"
    using sample_found by (simp add: find_receipt_record_def both_def)
  have ok: "receipt_tables_ok both"
    using tables by (simp add: both_def receipt_tables_ok_def sample_receipts_def no_receipts_def sample_receipt_def attachment_key_def)
  have model: "read_model_of both sample_receipt = record_to_read_model sample_receipt [31, 32, 33, 34, 35, 36]"
    by (simp add: read_model_of_def file_ids_for_receipt_def both_def sample_receipt_def)
  have new: "new_attachments (\<lambda>n. of_nat (40 + n)) (739000 * day_us) x =
      map (\<lambda>n. \<lparr>at_id = 40 + n, at_receipt_id = 10, at_file_id = 31 + n, at_created_at = 739000 * day_us\<rparr>) [0, 1, 2]"
    by (simp add: new_attachments_def attachment_to_record_def x)
  have run: "repo_update_receipt id (re_rivals overtaken_env) (\<lambda>n. of_nat (40 + n)) (739000 * day_us) x (open_session sample_receipts) =
      (Inr (Some (record_to_read_model sample_receipt [31, 32, 33, 34, 35, 36])),
       \<lparr>committed = re_rivals overtaken_env 2 sample_receipts, working = both, tx_failed = False\<rparr>)"
    using ok by (simp add: repo_update_receipt_def session_bind open_session_def x sample_found flush_changes_def flush_receipts_ok tables env
        rival new [simplified] both_def [symmetric, simplified] query_session_def stamp_update_def model)
  have "bindA (repo_update_receipt id (re_rivals overtaken_env) (\<lambda>n. of_nat (40 + n)) (739000 * day_us) x) k (open_session sample_receipts) =
      k (Some (record_to_read_model sample_receipt [31, 32, 33, 34, 35, 36]))
        \<lparr>committed = re_rivals overtaken_env 2 sample_receipts, working = both, tx_failed = False\<rparr>"
    for k :: "_ \<Rightarrow> (unit, receipt_read_model) receipt_action"
    using run by (rule bindA_Inr)
  then have "update_receipt overtaken_env (files_update [31, 32, 33]) (open_session sample_receipts) =
      (Inr (record_to_read_model sample_receipt [31, 32, 33, 34, 35, 36]), open_session both)"
    using ok by (simp add: update_receipt_def repo_find_receipt_def session_bind cmd sample_found read_model_of_def x env bind_pure
        receipts_commit_ok returnA_def open_session_def del: of_nat_add)
  moreover have "\<not> receipt_well_formed (read_model_of both sample_receipt)"
    by (simp add: model receipt_well_formed_def record_to_read_model_def)
  then have "\<not> receipts_well_formed both" using well_formedD(2) [of both] found_receipt(1) [OF found] by blast
  ultimately show ?thesis using found model by (simp add: get_receipt_run record_to_read_model_def)
qed

end
