(* ===== verification/Service_Centers.thy ===== *)
theory Service_Centers
  imports Receipts Web_Text
begin

text \<open>
  \<open>app/modules/receipts/domain/service_centers.py\<close>: the address of a search for the service
  center of a receipt's brand, or of its item when there is no brand.
\<close>

text \<open>\<open>urllib.parse.quote_plus\<close>: letters, digits and \<open>_.-~\<close> stay, a blank becomes \<open>+\<close>, any other byte \<open>%XX\<close>.\<close>

definition url_safe :: "nat \<Rightarrow> bool" where
  "url_safe c \<longleftrightarrow> 65 \<le> c \<and> c \<le> 90 \<or> 97 \<le> c \<and> c \<le> 122 \<or> 48 \<le> c \<and> c \<le> 57 \<or> c \<in> {95, 46, 45, 126}"

definition upper_hex :: "nat \<Rightarrow> nat" where
  "upper_hex d = (if d < 10 then 48 + d else 55 + d)"

definition quote_byte :: "nat \<Rightarrow> ustr" where
  "quote_byte b = (if url_safe b then [b] else if b = 32 then [43] else [37, upper_hex (b div 16), upper_hex (b mod 16)])"

definition quote_plus :: "ustr \<Rightarrow> exn + ustr" where
  "quote_plus s = (case utf8_encode s of None \<Rightarrow> Inl PyValueError | Some bs \<Rightarrow> Inr (concat (map quote_byte bs)))"

definition brand_or_none :: "ustr option \<Rightarrow> ustr option" where
  "brand_or_none v = (case v of None \<Rightarrow> None | Some s \<Rightarrow> if strip s = [] then None else Some (strip s))"

definition search_keyword :: "ustr option \<Rightarrow> ustr \<Rightarrow> ustr" where
  "search_keyword brand_name item_name = (case brand_or_none brand_name of Some b \<Rightarrow> b | None \<Rightarrow> strip item_name)"

definition resolve_service_center_url :: "ustr option \<Rightarrow> ustr \<Rightarrow> exn + ustr" where
  "resolve_service_center_url brand_name item_name =
     bindE (quote_plus (search_keyword brand_name item_name @ [32, 49436, 48708, 49828, 49468, 53552])) (\<lambda>query.
     Inr (ascii ''https://search.naver.com/search.naver?query='' @ query))"

text \<open>The query of the address can be read by \<open>unquote_plus\<close>; different keywords have different addresses.\<close>

fun unquote_bytes :: "ustr \<Rightarrow> nat list option" where
  "unquote_bytes [] = Some []"
| "unquote_bytes (c # s) =
     (if c = 43 then map_option (\<lambda>bs. 32 # bs) (unquote_bytes s)
      else if c \<noteq> 37 then map_option (\<lambda>bs. c # bs) (unquote_bytes s)
      else (case s of
              h # l # s' \<Rightarrow>
                (case (hex_value h, hex_value l) of
                   (Some x, Some y) \<Rightarrow> map_option (\<lambda>bs. (16 * x + y) # bs) (unquote_bytes s')
                 | _ \<Rightarrow> None)
            | _ \<Rightarrow> None))"

lemma hex_value_upper: "d < 16 \<Longrightarrow> hex_value (upper_hex d) = Some d"
  by (simp add: hex_value_def upper_hex_def)

lemma unquote_byte: "b < 256 \<Longrightarrow> unquote_bytes (quote_byte b @ s) = map_option (\<lambda>bs. b # bs) (unquote_bytes s)"
proof -
  assume "b < 256"
  then have "b div 16 < 16" "b mod 16 < 16" by simp_all
  then have "hex_value (upper_hex (b div 16)) = Some (b div 16)" "hex_value (upper_hex (b mod 16)) = Some (b mod 16)"
    by (simp_all add: hex_value_upper)
  moreover have "\<not> url_safe 43" "\<not> url_safe 37" by (simp_all add: url_safe_def)
  ultimately show ?thesis by (auto simp: quote_byte_def)
qed

lemma unquote_quote: "list_all (\<lambda>b. b < 256) bs \<Longrightarrow> unquote_bytes (concat (map quote_byte bs)) = Some bs"
  by (induction bs) (simp_all add: unquote_byte)

theorem service_center_url_names_keyword:
  assumes "resolve_service_center_url brand item = Inr url" and "resolve_service_center_url brand' item' = Inr url"
  shows "search_keyword brand item = search_keyword brand' item'"
proof -
  have inj: "s = t" if s: "quote_plus s = Inr q" and t: "quote_plus t = Inr q" for s t q
  proof -
    have scalar: "list_all scalar_value s" "list_all scalar_value t"
      using s t by (auto simp: quote_plus_def utf8_encode_def split: option.splits if_splits)
    have "unquote_bytes q = Some (concat (map utf8_char s))" "unquote_bytes q = Some (concat (map utf8_char t))"
      using s t utf8_decode_encode(1,3) [OF scalar(1)] utf8_decode_encode(1,3) [OF scalar(2)]
        unquote_quote [of "concat (map utf8_char s)"] unquote_quote [of "concat (map utf8_char t)"]
      by (simp_all add: quote_plus_def list_all_iff)
    then show "s = t" using utf8_decode_encode(2) [OF scalar(1)] utf8_decode_encode(2) [OF scalar(2)] by simp
  qed
  obtain q where "quote_plus (search_keyword brand item @ [32, 49436, 48708, 49828, 49468, 53552]) = Inr q"
    "quote_plus (search_keyword brand' item' @ [32, 49436, 48708, 49828, 49468, 53552]) = Inr q"
    using assms by (auto simp: resolve_service_center_url_def bindE_Inr)
  from inj [OF this] show ?thesis by simp
qed

end
