(* ===== verification/Files.thy ===== *)
theory Files
  imports Notification_Store
begin

text \<open>
  The files module: the value objects and aggregates of \<open>app/modules/files/domain\<close>, its tables and
  repository (\<open>infrastructure/persistence\<close>: \<open>orm.py\<close>, \<open>mapper.py\<close>, \<open>repository.py\<close>).
\<close>

section \<open>Value objects\<close>

datatype original_name = OriginalName (original_text: ustr)

definition original_name_accepted :: "ustr \<Rightarrow> bool" where
  "original_name_accepted s \<longleftrightarrow> s \<noteq> [] \<and> strip s = s \<and> 47 \<notin> set s \<and> 92 \<notin> set s \<and> length s \<le> 255"

definition mk_original_name :: "ustr \<Rightarrow> exn + original_name" where
  "mk_original_name s =
     (if original_name_accepted s then Inr (OriginalName s)
      else Inl (ValidationError [ErrorDetail ''originalName'' ''original_name_invalid'']))"

datatype file_variant = ORIGINAL | THUMBNAIL | COMPRESSED

fun file_variant_value :: "file_variant \<Rightarrow> string" where
  "file_variant_value ORIGINAL = ''original''"
| "file_variant_value THUMBNAIL = ''thumbnail''"
| "file_variant_value COMPRESSED = ''compressed''"

definition file_variant_of :: "string \<Rightarrow> exn + file_variant" where
  "file_variant_of s =
     (if s = ''original'' then Inr ORIGINAL else if s = ''thumbnail'' then Inr THUMBNAIL
      else if s = ''compressed'' then Inr COMPRESSED else Inl PyValueError)"

datatype storage_key = StorageKey (storage_text: ustr)

definition storage_key_accepted :: "ustr \<Rightarrow> bool" where
  "storage_key_accepted s \<longleftrightarrow>
     s \<noteq> [] \<and> hd s \<noteq> 47 \<and> 92 \<notin> set s \<and> [] \<notin> set (split_on 47 s) \<and> ascii ''.'' \<notin> set (split_on 47 s) \<and>
     ascii ''..'' \<notin> set (split_on 47 s) \<and> length s \<le> 500"

definition mk_storage_key :: "ustr \<Rightarrow> exn + storage_key" where
  "mk_storage_key s =
     (if storage_key_accepted s then Inr (StorageKey s)
      else Inl (ValidationError [ErrorDetail ''storageKey'' ''storage_key_invalid'']))"

datatype content_type = ContentType (content_type_text: ustr)

definition allowed_content_types :: "ustr list" where
  "allowed_content_types = map ascii [''image/jpeg'', ''image/png'', ''image/heic'', ''image/heif'']"

definition mk_content_type :: "ustr \<Rightarrow> exn + content_type" where
  "mk_content_type s =
     (if s \<notin> set allowed_content_types \<or> length s > 100
      then Inl (ValidationError [ErrorDetail ''contentType'' ''content_type_unsupported''])
      else Inr (ContentType s))"

datatype file_size = FileSize (size_bytes: int)

definition mk_file_size :: "int \<Rightarrow> exn + file_size" where
  "mk_file_size n =
     (if n \<le> 0 \<or> n > 10485760 then Inl (ValidationError [ErrorDetail ''size'' ''file_size_invalid''])
      else Inr (FileSize n))"

datatype checksum = Checksum (checksum_text: ustr)

definition mk_checksum :: "ustr \<Rightarrow> exn + checksum" where
  "mk_checksum s =
     (if s = [] \<or> strip s \<noteq> s \<or> length s > 255
      then Inl (ValidationError [ErrorDetail ''checksum'' ''checksum_invalid''])
      else Inr (Checksum s))"

lemma file_values_validate [simp]:
  "validates (mk_original_name s)" "validates (mk_storage_key s)" "validates (mk_content_type s)"
  "validates (mk_file_size n)" "validates (mk_checksum s)"
  by (simp_all add: mk_original_name_def mk_storage_key_def mk_content_type_def mk_file_size_def mk_checksum_def)

section \<open>Aggregates\<close>

record file_entity = "domain_event aggregate_root" +
  fl_id :: uuid
  fl_user_id :: uuid
  fl_original_name :: original_name

definition create_file :: "uuid \<Rightarrow> uuid \<Rightarrow> ustr \<Rightarrow> exn + file_entity" where
  "create_file file_id user_id original = fst (
     bindA (collect (mk_original_name original)) (\<lambda>new_original_name.
     bindA raise_if_any (\<lambda>_.
     case new_original_name of
       Some n \<Rightarrow> returnA \<lparr>pending_events = [], fl_id = file_id, fl_user_id = user_id, fl_original_name = n\<rparr>
     | None \<Rightarrow> raiseA PyTypeError)) [])"

record file_object =
  fob_id :: uuid
  fob_file_id :: uuid
  fob_variant_type :: file_variant
  fob_storage_key :: storage_key
  fob_content_type :: content_type
  fob_size :: file_size
  fob_checksum :: "checksum option"

definition create_file_object ::
    "uuid \<Rightarrow> uuid \<Rightarrow> ustr \<Rightarrow> ustr \<Rightarrow> int \<Rightarrow> file_variant \<Rightarrow> ustr option \<Rightarrow> exn + file_object" where
  "create_file_object object_id file_id key ctype n variant check = fst (
     bindA (collect (mk_storage_key key)) (\<lambda>new_key.
     bindA (collect (mk_content_type ctype)) (\<lambda>new_ctype.
     bindA (collect (mk_file_size n)) (\<lambda>new_size.
     bindA (case check of None \<Rightarrow> returnA None | Some s \<Rightarrow> collect (mk_checksum s)) (\<lambda>new_checksum.
     bindA raise_if_any (\<lambda>_.
     case (new_key, new_ctype, new_size) of
       (Some k, Some t, Some b) \<Rightarrow>
         returnA \<lparr>fob_id = object_id, fob_file_id = file_id, fob_variant_type = variant, fob_storage_key = k,
                  fob_content_type = t, fob_size = b, fob_checksum = new_checksum\<rparr>
     | _ \<Rightarrow> raiseA PyTypeError))))) [])"

definition record_uploaded :: "uuid \<Rightarrow> datetime \<Rightarrow> file_object \<Rightarrow> file_entity \<Rightarrow> file_entity" where
  "record_uploaded event_id event_at fo f =
     record_event (new_event event_id event_at
       (FileUploaded (fl_id f) (fl_user_id f) (original_text (fl_original_name f))
          (content_type_text (fob_content_type fo)) (size_bytes (fob_size fo)) (storage_text (fob_storage_key fo)))) f"

definition record_deleted :: "uuid \<Rightarrow> datetime \<Rightarrow> ustr list \<Rightarrow> file_entity \<Rightarrow> file_entity" where
  "record_deleted event_id event_at storage_keys f =
     record_event (new_event event_id event_at (FileDeleted (fl_id f) (fl_user_id f) storage_keys)) f"

record stored_file =
  sf_file :: file_entity
  sf_file_object :: file_object

text \<open>The errors of the value objects of a file, in the order in which they are collected.\<close>

definition file_object_errors :: "ustr \<Rightarrow> ustr \<Rightarrow> int \<Rightarrow> ustr option \<Rightarrow> error_detail list" where
  "file_object_errors key ctype n check =
     failed_details (mk_storage_key key) @ failed_details (mk_content_type ctype) @ failed_details (mk_file_size n) @
     (case check of None \<Rightarrow> [] | Some s \<Rightarrow> failed_details (mk_checksum s))"

definition made_file_object ::
    "uuid \<Rightarrow> uuid \<Rightarrow> ustr \<Rightarrow> ustr \<Rightarrow> int \<Rightarrow> file_variant \<Rightarrow> ustr option \<Rightarrow> file_object" where
  "made_file_object object_id file_id key ctype n variant check =
     \<lparr>fob_id = object_id, fob_file_id = file_id, fob_variant_type = variant, fob_storage_key = StorageKey key,
      fob_content_type = ContentType ctype, fob_size = FileSize n, fob_checksum = map_option Checksum check\<rparr>"

lemma create_file_eq:
  "create_file i u s =
     (if original_name_accepted s
      then Inr \<lparr>pending_events = [], fl_id = i, fl_user_id = u, fl_original_name = OriginalName s\<rparr>
      else Inl (ValidationError [ErrorDetail ''originalName'' ''original_name_invalid'']))"
  by (simp add: create_file_def action_simps mk_original_name_def)

lemma create_file_object_eq:
  "create_file_object i f k t n v c =
     (if file_object_errors k t n c = [] then Inr (made_file_object i f k t n v c)
      else Inl (ValidationError (file_object_errors k t n c)))"
proof (cases "file_object_errors k t n c = []")
  case True
  then have "mk_storage_key k = Inr (StorageKey k)" "mk_content_type t = Inr (ContentType t)" "mk_file_size n = Inr (FileSize n)"
    "\<And>s. c = Some s \<Longrightarrow> mk_checksum s = Inr (Checksum s)"
    by (auto simp: file_object_errors_def mk_storage_key_def mk_content_type_def mk_file_size_def mk_checksum_def split: if_splits)
  then show ?thesis
    using True by (cases c) (simp_all add: create_file_object_def made_file_object_def action_simps)
next
  case False
  have "fst (bindA raise_if_any g (failed_details (mk_storage_key k) @ failed_details (mk_content_type t) @
      failed_details (mk_file_size n) @ (case c of None \<Rightarrow> [] | Some s \<Rightarrow> failed_details (mk_checksum s)))) =
      Inl (ValidationError (file_object_errors k t n c))" for g :: "unit \<Rightarrow> (notification, exn, file_object) action"
    using False by (simp only: bindA_raise_if_any file_object_errors_def if_False fst_conv)
  then show ?thesis
    using False by (cases c) (simp_all add: create_file_object_def bindA_collect bind_pure)
qed

section \<open>Tables\<close>

record file_row =
  fr_id :: uuid
  fr_user_id :: uuid
  fr_original_name :: ustr
  fr_created_at :: datetime

record file_object_row =
  fo_id :: uuid
  fo_file_id :: uuid
  fo_variant_type :: string
  fo_storage_key :: ustr
  fo_content_type :: ustr
  fo_size :: int
  fo_checksum :: "ustr option"
  fo_created_at :: datetime

record file_db = notification_db +
  file_rows :: "file_row list"
  file_object_rows :: "file_object_row list"

definition file_object_checks :: "file_object_row \<Rightarrow> (bool \<times> exn) list" where
  "file_object_checks r =
     [(length (fo_variant_type r) \<le> 50 \<and> length (fo_storage_key r) \<le> 500 \<and> length (fo_content_type r) \<le> 100 \<and>
       int8 (fo_size r) \<and> (\<forall>s \<in> set_option (fo_checksum r). length s \<le> 255), DataError)]"

definition file_checks :: "'z file_db_scheme \<Rightarrow> (bool \<times> exn) list" where
  "file_checks db =
     concat (map (\<lambda>r. [(length (fr_original_name r) \<le> 255, DataError)]) (file_rows db)) @
     concat (map file_object_checks (file_object_rows db)) @
     [(distinct (map fr_id (file_rows db)), IntegrityError ''pk_files''),
      (distinct (map fo_id (file_object_rows db)), IntegrityError ''pk_file_objects''),
      (distinct (map fo_storage_key (file_object_rows db)), IntegrityError ''uq_file_objects_storage_key''),
      (distinct (map (\<lambda>r. (fo_file_id r, fo_variant_type r)) (file_object_rows db)),
       IntegrityError ''ix_file_objects_file_id_variant_type''),
      (list_all (\<lambda>r. exists_row (\<lambda>f. fr_id f = fo_file_id r) (file_rows db)) (file_object_rows db),
       IntegrityError ''fk_file_objects_file_id_files''),
      (distinct (map ob_event_id (outbox_events db)), IntegrityError ''uq_outbox_events_event_id'')]"

definition file_violation :: "'z file_db_scheme \<Rightarrow> exn option" where
  "file_violation db = first_violation (file_checks db)"

definition file_tables_ok :: "'z file_db_scheme \<Rightarrow> bool" where
  "file_tables_ok db \<longleftrightarrow>
     (\<forall>r \<in> set (file_rows db). length (fr_original_name r) \<le> 255) \<and>
     (\<forall>r \<in> set (file_object_rows db). \<forall>(ok, e) \<in> set (file_object_checks r). ok) \<and>
     distinct (map fr_id (file_rows db)) \<and> distinct (map fo_id (file_object_rows db)) \<and>
     distinct (map fo_storage_key (file_object_rows db)) \<and>
     distinct (map (\<lambda>r. (fo_file_id r, fo_variant_type r)) (file_object_rows db)) \<and>
     (\<forall>r \<in> set (file_object_rows db). \<exists>f \<in> set (file_rows db). fr_id f = fo_file_id r) \<and>
     distinct (map ob_event_id (outbox_events db))"

lemma file_violation_None: "file_violation db = None \<longleftrightarrow> file_tables_ok db"
  unfolding file_violation_def first_violation_None file_checks_def file_tables_ok_def
  by (simp only: checks_simps list_all_iff exists_row_iff conj_assoc simp_thms)

section \<open>Mapping\<close>

definition file_to_domain :: "file_row \<Rightarrow> exn + file_entity" where
  "file_to_domain r = create_file (fr_id r) (fr_user_id r) (fr_original_name r)"

definition file_to_record :: "datetime \<Rightarrow> file_entity \<Rightarrow> file_row" where
  "file_to_record db_now f =
     \<lparr>fr_id = fl_id f, fr_user_id = fl_user_id f, fr_original_name = original_text (fl_original_name f),
      fr_created_at = db_now\<rparr>"

definition file_object_to_domain :: "file_object_row \<Rightarrow> exn + file_object" where
  "file_object_to_domain r =
     bindE (file_variant_of (fo_variant_type r)) (\<lambda>variant.
     create_file_object (fo_id r) (fo_file_id r) (fo_storage_key r) (fo_content_type r) (fo_size r) variant (fo_checksum r))"

definition file_object_to_record :: "datetime \<Rightarrow> file_object \<Rightarrow> file_object_row" where
  "file_object_to_record db_now x =
     \<lparr>fo_id = fob_id x, fo_file_id = fob_file_id x, fo_variant_type = file_variant_value (fob_variant_type x),
      fo_storage_key = storage_text (fob_storage_key x), fo_content_type = content_type_text (fob_content_type x),
      fo_size = size_bytes (fob_size x), fo_checksum = map_option checksum_text (fob_checksum x), fo_created_at = db_now\<rparr>"

definition stored_file_to_domain :: "file_row \<Rightarrow> file_object_row \<Rightarrow> exn + stored_file" where
  "stored_file_to_domain fr fo =
     bindE (file_to_domain fr) (\<lambda>f.
     bindE (file_object_to_domain fo) (\<lambda>x.
     Inr \<lparr>sf_file = f, sf_file_object = x\<rparr>))"

section \<open>Repository\<close>

type_synonym ('z, 'a) file_action = "('z file_db_scheme session, exn, 'a) action"

definition flush_files :: "('z, unit) file_action" where
  "flush_files = flush_session file_violation"

definition add_file :: "file_row \<Rightarrow> file_object_row \<Rightarrow> 'z file_db_scheme \<Rightarrow> 'z file_db_scheme" where
  "add_file fr fo db = db\<lparr>file_rows := file_rows db @ [fr], file_object_rows := file_object_rows db @ [fo]\<rparr>"

definition repo_save_file :: "datetime \<Rightarrow> file_entity \<Rightarrow> file_object \<Rightarrow> ('z, stored_file) file_action" where
  "repo_save_file db_now f x =
     bindA (write_session (add_file (file_to_record db_now f) (file_object_to_record db_now x))) (\<lambda>_.
     bindA flush_files (\<lambda>_.
     returnA \<lparr>sf_file = f, sf_file_object = x\<rparr>))"

definition original_object :: "uuid \<Rightarrow> 'z file_db_scheme \<Rightarrow> file_object_row option" where
  "original_object file_id db =
     find (\<lambda>r. fo_file_id r = file_id \<and> fo_variant_type r = ''original'') (file_object_rows db)"

definition stored_file_of :: "file_row \<Rightarrow> ('z, stored_file option) file_action" where
  "stored_file_of fr =
     bindA (query_session (original_object (fr_id fr))) (\<lambda>record.
     case record of
       None \<Rightarrow> returnA None
     | Some fo \<Rightarrow> bindA (liftE (stored_file_to_domain fr fo)) (\<lambda>x. returnA (Some x)))"

definition repo_find_file :: "uuid \<Rightarrow> ('z, stored_file option) file_action" where
  "repo_find_file file_id =
     bindA (query_session (\<lambda>db. find (\<lambda>r. fr_id r = file_id) (file_rows db))) (\<lambda>record.
     case record of None \<Rightarrow> returnA None | Some fr \<Rightarrow> stored_file_of fr)"

definition find_file_record :: "uuid \<Rightarrow> uuid \<Rightarrow> 'z file_db_scheme \<Rightarrow> file_row option" where
  "find_file_record file_id user_id db = find (\<lambda>r. fr_id r = file_id \<and> fr_user_id r = user_id) (file_rows db)"

definition repo_find_file_for_user :: "uuid \<Rightarrow> uuid \<Rightarrow> ('z, stored_file option) file_action" where
  "repo_find_file_for_user file_id user_id =
     bindA (query_session (find_file_record file_id user_id)) (\<lambda>record.
     case record of None \<Rightarrow> returnA None | Some fr \<Rightarrow> stored_file_of fr)"

definition repo_find_all_for_user :: "uuid \<Rightarrow> uuid \<Rightarrow> ('z, stored_file list) file_action" where
  "repo_find_all_for_user file_id user_id =
     bindA (query_session (find_file_record file_id user_id)) (\<lambda>record.
     case record of
       None \<Rightarrow> returnA []
     | Some fr \<Rightarrow>
         bindA (query_session (\<lambda>db. filter (\<lambda>r. fo_file_id r = fr_id fr) (file_object_rows db))) (\<lambda>objects.
         liftE (traverse (stored_file_to_domain fr) objects)))"

text \<open>\<open>DELETE FROM files\<close>; the objects of the file go with it (\<open>ON DELETE CASCADE\<close>).\<close>

definition drop_file :: "uuid \<Rightarrow> 'z file_db_scheme \<Rightarrow> 'z file_db_scheme" where
  "drop_file file_id db =
     db\<lparr>file_rows := filter (\<lambda>r. fr_id r \<noteq> file_id) (file_rows db),
        file_object_rows := filter (\<lambda>r. fo_file_id r \<noteq> file_id) (file_object_rows db)\<rparr>"

definition repo_delete_file :: "uuid \<Rightarrow> ('z, unit) file_action" where
  "repo_delete_file file_id = write_session (drop_file file_id)"

end
