(* ===== verification/Files_Commands.thy ===== *)
theory Files_Commands
  imports Files
begin

text \<open>
  Uploads and their storage: the checks of \<open>app/modules/files/api/upload_validation.py\<close>, the object
  storages of \<open>infrastructure/storage\<close> (\<open>local.py\<close>, \<open>s3.py\<close>) and the use cases of
  \<open>application\<close> (\<open>upload_file\<close>, \<open>delete_file\<close>, \<open>get_file\<close>, \<open>open_file_content\<close>). A use case works on
  the session and on the storage, which a rollback does not reach. Bytes are numbers below 256.
\<close>

section \<open>Checking an upload\<close>

definition slice :: "nat \<Rightarrow> nat \<Rightarrow> 'a list \<Rightarrow> 'a list" where
  "slice a b xs = take (b - a) (drop a xs)"

definition starts_with :: "'a list \<Rightarrow> 'a list \<Rightarrow> bool" where
  "starts_with prefix xs \<longleftrightarrow> take (length prefix) xs = prefix"

definition from_bytes_big :: "nat list \<Rightarrow> nat" where
  "from_bytes_big bs = foldl (\<lambda>n b. 256 * n + b) 0 bs"

definition png_signature :: "nat list" where
  "png_signature = [137, 80, 78, 71, 13, 10, 26, 10]"

definition jpeg_signature :: "nat list" where
  "jpeg_signature = [255, 216, 255]"

definition heif_compatible_brands :: "nat list list" where
  "heif_compatible_brands = map ascii [''heic'', ''heix'', ''hevc'', ''hevx'', ''mif1'', ''msf1'']"

definition heif_content_types :: "ustr list" where
  "heif_content_types = map ascii [''image/heic'', ''image/heif'']"

text \<open>The brands of an \<open>ftyp\<close> box: the major one and every complete compatible one within the box.\<close>

definition ftyp_brands :: "nat \<Rightarrow> nat list \<Rightarrow> nat list list" where
  "ftyp_brands box_size content =
     slice 8 12 content # map (\<lambda>k. slice (16 + 4 * k) (16 + 4 * k + 4) content) [0..<(box_size - 16) div 4]"

definition detect_image_content_type :: "nat list \<Rightarrow> ustr option" where
  "detect_image_content_type content =
     (if starts_with png_signature content then Some (ascii ''image/png'')
      else if starts_with jpeg_signature content then Some (ascii ''image/jpeg'')
      else if length content \<ge> 16 \<and> slice 4 8 content = ascii ''ftyp'' then
        (let box_size = from_bytes_big (slice 0 4 content)
         in if \<not> (16 \<le> box_size \<and> box_size \<le> length content) then None
            else if list_ex (\<lambda>b. b \<in> set heif_compatible_brands) (ftyp_brands box_size content)
            then Some (ascii ''image/heif'') else None)
      else None)"

definition matches_image_content_type :: "ustr \<Rightarrow> nat list \<Rightarrow> bool" where
  "matches_image_content_type ctype content =
     (case detect_image_content_type content of
        None \<Rightarrow> False
      | Some detected \<Rightarrow>
          if detected \<in> set heif_content_types \<and> ctype \<in> set heif_content_types then True else detected = ctype)"

record upload_policy =
  pol_allowed_content_types :: "ustr list"
  pol_max_upload_bytes :: nat
  pol_max_upload_count :: nat

text \<open>\<open>RECEIPT_OCR_UPLOAD_POLICY\<close>, the policy of the OCR endpoint; the files endpoint takes its policy from the settings.\<close>

definition receipt_ocr_upload_policy :: upload_policy where
  "receipt_ocr_upload_policy =
     \<lparr>pol_allowed_content_types = map ascii [''image/jpeg'', ''image/png'', ''image/heic'', ''image/heif''],
      pol_max_upload_bytes = 10485760, pol_max_upload_count = 5\<rparr>"

record upload_part =
  upf_filename :: "ustr option"
  upf_content_type :: "ustr option"
  upf_data :: "nat list"

record validated_upload =
  vu_original_name :: ustr
  vu_content_type :: ustr
  vu_content :: "nat list"

definition is_allowed :: "upload_policy \<Rightarrow> ustr option \<Rightarrow> bool" where
  "is_allowed policy ctype \<longleftrightarrow> (\<exists>t \<in> set (pol_allowed_content_types policy). ctype = Some t)"

definition validate_upload :: "upload_policy \<Rightarrow> ustr option \<Rightarrow> nat list \<Rightarrow> exn + unit" where
  "validate_upload policy ctype content =
     (let details =
        (if \<not> is_allowed policy ctype then [ErrorDetail ''contentType'' ''content_type_unsupported''] else []) @
        (if content = [] \<or> length content > pol_max_upload_bytes policy then [ErrorDetail ''size'' ''file_size_invalid''] else []) @
        (if is_allowed policy ctype \<and> \<not> matches_image_content_type (the ctype) content
         then [ErrorDetail ''contentType'' ''content_type_unsupported''] else [])
      in if details \<noteq> [] then Inl (ValidationError details) else Inr ())"

text \<open>\<open>await file.read(max_upload_bytes + 1)\<close> reads at most one byte more than is accepted.\<close>

definition read_upload :: "upload_policy \<Rightarrow> upload_part \<Rightarrow> exn + validated_upload" where
  "read_upload policy f =
     (let content = take (pol_max_upload_bytes policy + 1) (upf_data f)
      in bindE (validate_upload policy (upf_content_type f) content) (\<lambda>_.
         Inr \<lparr>vu_original_name = (case upf_filename f of None \<Rightarrow> ascii ''upload'' | Some n \<Rightarrow> if n = [] then ascii ''upload'' else n),
              vu_content_type = (case upf_content_type f of None \<Rightarrow> [] | Some t \<Rightarrow> t), vu_content = content\<rparr>))"

definition read_and_validate_uploads :: "upload_policy \<Rightarrow> upload_part list \<Rightarrow> exn + validated_upload list" where
  "read_and_validate_uploads policy fs =
     (if \<not> (1 \<le> length fs \<and> length fs \<le> pol_max_upload_count policy)
      then Inl (ValidationError [ErrorDetail ''files'' ''file_count_invalid''])
      else traverse (read_upload policy) fs)"

section \<open>Object storage\<close>

record stored_object =
  so_storage_key :: ustr
  so_size :: int
  so_checksum :: ustr

record 'w storage_ops =
  sto_put :: "ustr \<Rightarrow> nat list \<Rightarrow> ('w, exn, stored_object) action"
  sto_read :: "ustr \<Rightarrow> ('w, exn, nat list) action"
  sto_delete :: "ustr \<Rightarrow> ('w, exn, unit) action"

text \<open>
  \<open>LocalObjectStorage\<close> over a file system of files and directories, each with the components of
  its absolute path; \<open>resolve\<close> drops empty and \<open>.\<close> components and lets \<open>..\<close> leave a directory.
\<close>

record local_fs =
  fs_files :: "(ustr list \<times> nat list) list"
  fs_dirs :: "ustr list list"

fun resolve_from :: "ustr list \<Rightarrow> ustr list \<Rightarrow> ustr list" where
  "resolve_from done [] = done"
| "resolve_from done (p # ps) =
     (if p = [] \<or> p = ascii ''.'' then resolve_from done ps
      else if p = ascii ''..'' then resolve_from (butlast done) ps
      else resolve_from (done @ [p]) ps)"

definition is_relative_to :: "ustr list \<Rightarrow> ustr list \<Rightarrow> bool" where
  "is_relative_to target root \<longleftrightarrow> starts_with root target"

definition target_path :: "ustr list \<Rightarrow> ustr \<Rightarrow> exn + ustr list" where
  "target_path root key =
     bindE (mk_storage_key key) (\<lambda>_.
     let target = resolve_from root (split_on 47 key)
     in if \<not> is_relative_to target root then Inl (ValidationError [ErrorDetail ''storageKey'' ''storage_key_invalid''])
        else Inr target)"

definition temporary_path :: "ustr list \<Rightarrow> ustr list" where
  "temporary_path target = butlast target @ [ascii ''.'' @ last target @ ascii ''.tmp'']"

definition parents_of :: "ustr list \<Rightarrow> ustr list list" where
  "parents_of p = map (\<lambda>n. take n p) [0..<length p]"

definition is_file :: "local_fs \<Rightarrow> ustr list \<Rightarrow> bool" where
  "is_file fs p \<longleftrightarrow> map_of (fs_files fs) p \<noteq> None"

definition through_a_file :: "local_fs \<Rightarrow> ustr list \<Rightarrow> bool" where
  "through_a_file fs p \<longleftrightarrow> list_ex (is_file fs) (parents_of p)"

text \<open>
  \<open>_write_bytes\<close>: the directories are made, the bytes go to a temporary file that then replaces the
  target. A component that is a file, or a target that is a directory, is an \<open>OSError\<close>.
\<close>

definition fs_write :: "ustr list \<Rightarrow> nat list \<Rightarrow> (local_fs, exn, unit) action" where
  "fs_write p content fs = (Inr (), fs\<lparr>fs_files := AList.update p content (fs_files fs)\<rparr>)"

definition fs_remove :: "ustr list \<Rightarrow> local_fs \<Rightarrow> local_fs" where
  "fs_remove p fs = fs\<lparr>fs_files := AList.delete p (fs_files fs)\<rparr>"

definition write_bytes :: "ustr list \<Rightarrow> ustr \<Rightarrow> nat list \<Rightarrow> (local_fs, exn, unit) action" where
  "write_bytes root key content =
     bindA (liftE (target_path root key)) (\<lambda>target.
     bindA (readA (\<lambda>fs. through_a_file fs target)) (\<lambda>blocked.
     if blocked then raiseA PyOSError
     else
       bindA (modifyA (\<lambda>fs. fs\<lparr>fs_dirs := parents_of target @ fs_dirs fs\<rparr>)) (\<lambda>_.
       bindA (readA fs_dirs) (\<lambda>dirs.
       if temporary_path target \<in> set dirs then raiseA PyOSError
       else
         bindA (fs_write (temporary_path target) content) (\<lambda>_.
         if target \<in> set dirs then raiseA PyOSError
         else
           bindA (fs_write target content) (\<lambda>_.
           modifyA (fs_remove (temporary_path target)))))))) "

definition read_bytes :: "ustr list \<Rightarrow> ustr \<Rightarrow> (local_fs, exn, nat list) action" where
  "read_bytes root key =
     bindA (liftE (target_path root key)) (\<lambda>target.
     bindA (readA (\<lambda>fs. map_of (fs_files fs) target)) (\<lambda>found.
     case found of None \<Rightarrow> raiseA PyOSError | Some content \<Rightarrow> returnA content))"

text \<open>\<open>unlink\<close>: only a missing file is passed over.\<close>

definition delete_bytes :: "ustr list \<Rightarrow> ustr \<Rightarrow> (local_fs, exn, unit) action" where
  "delete_bytes root key =
     bindA (liftE (target_path root key)) (\<lambda>target.
     bindA (readA (\<lambda>fs. target \<in> set (fs_dirs fs) \<or> through_a_file fs target)) (\<lambda>bad.
     if bad then raiseA PyOSError else modifyA (fs_remove target)))"

text \<open>The SHA-256 of the standard library is the parameter \<open>sha256_hex\<close>.\<close>

definition local_put :: "(nat list \<Rightarrow> ustr) \<Rightarrow> ustr list \<Rightarrow> ustr \<Rightarrow> nat list \<Rightarrow> (local_fs, exn, stored_object) action" where
  "local_put sha256_hex root key content =
     bindA (write_bytes root key content) (\<lambda>_.
     returnA \<lparr>so_storage_key = key, so_size = int (length content), so_checksum = sha256_hex content\<rparr>)"

definition local_storage :: "(nat list \<Rightarrow> ustr) \<Rightarrow> ustr list \<Rightarrow> local_fs storage_ops" where
  "local_storage sha256_hex root =
     \<lparr>sto_put = local_put sha256_hex root, sto_read = read_bytes root, sto_delete = delete_bytes root\<rparr>"

text \<open>
  \<open>S3ObjectStorage\<close> over a client of the S3 service, which is a parameter; \<open>None\<close> is a
  \<open>BotoCoreError\<close> or \<open>ClientError\<close>. A response may have no readable body.
\<close>

record 'w s3_client =
  s3_put_object :: "ustr \<Rightarrow> nat list \<Rightarrow> 'w \<Rightarrow> unit option \<times> 'w"
  s3_get_object :: "ustr \<Rightarrow> 'w \<Rightarrow> nat list option option \<times> 'w"
  s3_delete_object :: "ustr \<Rightarrow> 'w \<Rightarrow> unit option \<times> 'w"

definition s3_call :: "('w \<Rightarrow> 'a option \<times> 'w) \<Rightarrow> ('w, exn, 'a) action" where
  "s3_call f w = (case f w of (None, w') \<Rightarrow> (Inl ExternalServiceError, w') | (Some x, w') \<Rightarrow> (Inr x, w'))"

definition s3_put :: "(nat list \<Rightarrow> ustr) \<Rightarrow> 'w s3_client \<Rightarrow> ustr \<Rightarrow> nat list \<Rightarrow> ('w, exn, stored_object) action" where
  "s3_put sha256_hex client key content =
     bindA (liftE (mk_storage_key key)) (\<lambda>_.
     bindA (s3_call (s3_put_object client key content)) (\<lambda>_.
     returnA \<lparr>so_storage_key = key, so_size = int (length content), so_checksum = sha256_hex content\<rparr>))"

definition s3_read :: "'w s3_client \<Rightarrow> ustr \<Rightarrow> ('w, exn, nat list) action" where
  "s3_read client key =
     bindA (liftE (mk_storage_key key)) (\<lambda>_.
     bindA (s3_call (s3_get_object client key)) (\<lambda>body.
     case body of None \<Rightarrow> raiseA ExternalServiceError | Some content \<Rightarrow> returnA content))"

definition s3_delete :: "'w s3_client \<Rightarrow> ustr \<Rightarrow> ('w, exn, unit) action" where
  "s3_delete client key =
     bindA (liftE (mk_storage_key key)) (\<lambda>_. s3_call (s3_delete_object client key))"

definition s3_storage :: "(nat list \<Rightarrow> ustr) \<Rightarrow> 'w s3_client \<Rightarrow> 'w storage_ops" where
  "s3_storage sha256_hex client =
     \<lparr>sto_put = s3_put sha256_hex client, sto_read = s3_read client, sto_delete = s3_delete client\<rparr>"

section \<open>Use cases\<close>

definition on_session :: "('s, 'e, 'a) action \<Rightarrow> ('s \<times> 'w, 'e, 'a) action" where
  "on_session m sw = (case m (fst sw) of (r, s) \<Rightarrow> (r, (s, snd sw)))"

definition on_storage :: "('w, 'e, 'a) action \<Rightarrow> ('s \<times> 'w, 'e, 'a) action" where
  "on_storage m sw = (case m (snd sw) of (r, w) \<Rightarrow> (r, (fst sw, w)))"

lemma on_session_apply [action_simps]: "m s = (r, s') \<Longrightarrow> on_session m (s, w) = (r, (s', w))"
  by (simp add: on_session_def)

lemma on_storage_apply [action_simps]: "m w = (r, w') \<Longrightarrow> on_storage m (s, w) = (r, (s, w'))"
  by (simp add: on_storage_def)

type_synonym ('z, 'w, 'a) stored_action = "('z file_db_scheme session \<times> 'w, exn, 'a) action"

record 'db file_env =
  fe_file_id :: uuid
  fe_draft_id :: uuid
  fe_object_id :: uuid
  fe_event_id :: uuid
  fe_now :: datetime
  fe_db_now :: datetime
  fe_rival :: "'db \<Rightarrow> 'db"

record upload_command =
  fu_user_id :: uuid
  fu_original_name :: ustr
  fu_content_type :: ustr
  fu_size :: int
  fu_content :: "nat list"
  fu_storage_key :: "ustr option"
  fu_checksum :: "ustr option"

record file_result =
  fres_file_id :: uuid
  fres_original_name :: ustr
  fres_content_type :: ustr
  fres_size :: int
  fres_content_path :: ustr

definition content_path :: "uuid \<Rightarrow> ustr" where
  "content_path file_id = ascii ''/files/'' @ uuid_str file_id @ ascii ''/content''"

definition build_storage_key :: "uuid \<Rightarrow> uuid \<Rightarrow> ustr" where
  "build_storage_key user_id file_id =
     ascii ''users/'' @ uuid_str user_id @ ascii ''/files/'' @ uuid_str file_id @ ascii ''/'' @
     ascii (file_variant_value ORIGINAL)"

definition file_result_of :: "stored_file \<Rightarrow> file_result" where
  "file_result_of x =
     \<lparr>fres_file_id = fl_id (sf_file x), fres_original_name = original_text (fl_original_name (sf_file x)),
      fres_content_type = content_type_text (fob_content_type (sf_file_object x)),
      fres_size = size_bytes (fob_size (sf_file_object x)), fres_content_path = content_path (fl_id (sf_file x))\<rparr>"

definition chosen_key :: "'db file_env \<Rightarrow> upload_command \<Rightarrow> ustr" where
  "chosen_key env cmd =
     (case fu_storage_key cmd of
        None \<Rightarrow> build_storage_key (fu_user_id cmd) (fe_file_id env)
      | Some k \<Rightarrow> if k = [] then build_storage_key (fu_user_id cmd) (fe_file_id env) else k)"

definition upload_file ::
    "'w storage_ops option \<Rightarrow> ('z, unit) file_action \<Rightarrow> 'z file_db_scheme file_env \<Rightarrow> upload_command \<Rightarrow>
     ('z, 'w, file_result) stored_action" where
  "upload_file storage uow_commit env cmd =
     bindA (liftE (create_file (fe_file_id env) (fu_user_id cmd) (fu_original_name cmd))) (\<lambda>f.
     bindA (liftE (create_file_object (fe_draft_id env) (fl_id f) (chosen_key env cmd) (fu_content_type cmd) (fu_size cmd)
                     ORIGINAL (fu_checksum cmd))) (\<lambda>draft.
     bindA (case storage of
              None \<Rightarrow> returnA draft
            | Some st \<Rightarrow>
                bindA (on_storage (sto_put st (storage_text (fob_storage_key draft)) (fu_content cmd))) (\<lambda>stored.
                liftE (create_file_object (fe_object_id env) (fl_id f) (so_storage_key stored) (fu_content_type cmd)
                         (so_size stored) ORIGINAL (Some (so_checksum stored))))) (\<lambda>x.
     let f' = record_uploaded (fe_event_id env) (fe_now env) x f
     in
     bindA (on_session (repo_save_file (fe_db_now env) f' x)) (\<lambda>stored_file.
     bindA (on_session (publish build_files_event_registry (fst (pull_events f')))) (\<lambda>_.
     bindA (on_session uow_commit) (\<lambda>_.
     returnA (file_result_of stored_file)))))))"

definition stored_key :: "stored_file \<Rightarrow> ustr" where
  "stored_key x = storage_text (fob_storage_key (sf_file_object x))"

fun delete_objects :: "'w storage_ops \<Rightarrow> ustr list \<Rightarrow> ('w, exn, unit) action" where
  "delete_objects st [] = returnA ()"
| "delete_objects st (k # ks) = bindA (sto_delete st k) (\<lambda>_. delete_objects st ks)"

text \<open>\<open>fe_rival\<close> is what other sessions commit after the guard has looked.\<close>

definition delete_file ::
    "'w storage_ops option \<Rightarrow> (uuid \<Rightarrow> ('z, unit) file_action) option \<Rightarrow> ('z, unit) file_action \<Rightarrow>
     'z file_db_scheme file_env \<Rightarrow> uuid \<Rightarrow> uuid \<Rightarrow> ('z, 'w, unit) stored_action" where
  "delete_file storage guard uow_commit env file_id user_id =
     bindA (on_session (repo_find_all_for_user file_id user_id)) (\<lambda>stored_files.
     if stored_files = [] then raiseA (FileNotFoundError file_id)
     else
       bindA (case guard of None \<Rightarrow> returnA () | Some ensure_not_referenced \<Rightarrow> on_session (ensure_not_referenced file_id)) (\<lambda>_.
       bindA (on_session (interfere (fe_rival env))) (\<lambda>_.
       bindA (case storage of None \<Rightarrow> returnA () | Some st \<Rightarrow> on_storage (delete_objects st (map stored_key stored_files))) (\<lambda>_.
       bindA (on_session (repo_delete_file file_id)) (\<lambda>_.
       let f = record_deleted (fe_event_id env) (fe_now env) (map stored_key stored_files) (sf_file (hd stored_files))
       in
       bindA (on_session (publish build_files_event_registry (fst (pull_events f)))) (\<lambda>_.
       on_session uow_commit))))))"

definition get_file :: "uuid \<Rightarrow> uuid \<Rightarrow> ('z, 'w, file_result) stored_action" where
  "get_file file_id user_id =
     bindA (on_session (repo_find_file_for_user file_id user_id)) (\<lambda>found.
     case found of None \<Rightarrow> raiseA (FileNotFoundError file_id) | Some x \<Rightarrow> returnA (file_result_of x))"

record file_content =
  fcn_content :: "nat list"
  fcn_content_type :: ustr
  fcn_size :: int

definition open_file_content :: "'w storage_ops \<Rightarrow> uuid \<Rightarrow> uuid \<Rightarrow> ('z, 'w, file_content) stored_action" where
  "open_file_content st file_id user_id =
     bindA (on_session (repo_find_file_for_user file_id user_id)) (\<lambda>found.
     case found of
       None \<Rightarrow> raiseA (FileNotFoundError file_id)
     | Some x \<Rightarrow>
         bindA (on_storage (sto_read st (stored_key x))) (\<lambda>content.
         returnA \<lparr>fcn_content = content, fcn_content_type = content_type_text (fob_content_type (sf_file_object x)),
                  fcn_size = size_bytes (fob_size (sf_file_object x))\<rparr>))"

definition allow_file_delete :: "uuid \<Rightarrow> ('z, unit) file_action" where
  "allow_file_delete file_id = returnA ()"

definition files_commit :: "('z, unit) file_action" where
  "files_commit = sqlalchemy_commit file_violation"

text \<open>The upload endpoint: the files are checked first, then stored one after the other, each with its own commit.\<close>

fun upload_all ::
    "'w storage_ops \<Rightarrow> 'z file_db_scheme file_env list \<Rightarrow> uuid \<Rightarrow> validated_upload list \<Rightarrow>
     ('z, 'w, file_result list) stored_action" where
  "upload_all st envs user_id [] = returnA []"
| "upload_all st envs user_id (u # us) =
     bindA (upload_file (Some st) files_commit (hd envs)
              \<lparr>fu_user_id = user_id, fu_original_name = vu_original_name u, fu_content_type = vu_content_type u,
               fu_size = int (length (vu_content u)), fu_content = vu_content u, fu_storage_key = None, fu_checksum = None\<rparr>) (\<lambda>r.
     bindA (upload_all st (tl envs) user_id us) (\<lambda>rs. returnA (r # rs)))"

definition upload_files_endpoint ::
    "'w storage_ops \<Rightarrow> upload_policy \<Rightarrow> 'z file_db_scheme file_env list \<Rightarrow> uuid \<Rightarrow> upload_part list \<Rightarrow>
     ('z, 'w, file_result list) stored_action" where
  "upload_files_endpoint st policy envs user_id parts =
     bindA (liftE (read_and_validate_uploads policy parts)) (\<lambda>uploads. upload_all st envs user_id uploads)"

end
