(* ===== verification/Files_Storage.thy ===== *)
theory Files_Storage
  imports Files_Commands
begin

text \<open>
  The contract that the use cases of the files module rely on, as a locale over an object storage,
  what follows from it for an upload and a download, and the local storage as its provider.
\<close>

section \<open>Keys\<close>

lemma uuid_str_range: "c \<in> set (uuid_str u) \<Longrightarrow> c \<noteq> 45 \<Longrightarrow> 48 \<le> c \<and> c \<le> 57 \<or> 97 \<le> c \<and> c \<le> 102"
proof -
  assume "c \<in> set (uuid_str u)" "c \<noteq> 45"
  then have "c \<in> set (filter (\<lambda>c. c \<noteq> 45) (uuid_str u))" by simp
  then have "c \<in> hex_char ` set (digits_of 16 32 (unat u))" by (simp only: filter_dash_uuid_str uuid_hex_def set_map)
  then obtain d where d: "d \<in> set (digits_of 16 32 (unat u))" "c = hex_char d" by (rule imageE)
  have "d < 16" by (rule digits_of_less [OF _ d(1)]) simp
  then show ?thesis by (simp add: d(2) hex_char_def)
qed

lemma not_in_uuid: "47 \<notin> set (uuid_str u)" "92 \<notin> set (uuid_str u)"
  using uuid_str_range [of 47 u] uuid_str_range [of 92 u] by auto

lemma split_on_append: "sep \<notin> set a \<Longrightarrow> split_on sep (a @ sep # s) = a # split_on sep s"
  by (induction a) simp_all

definition key_parts :: "uuid \<Rightarrow> uuid \<Rightarrow> ustr list" where
  "key_parts u f = [ascii ''users'', uuid_str u, ascii ''files'', uuid_str f, ascii ''original'']"

lemma split_built_key: "split_on 47 (build_storage_key u f) = key_parts u f"
proof -
  have "build_storage_key u f = ascii ''users'' @ 47 # uuid_str u @ 47 # ascii ''files'' @ 47 # uuid_str f @ 47 # ascii ''original''"
    by (simp add: build_storage_key_def ascii_def)
  moreover have "47 \<notin> set (ascii ''users'')" "47 \<notin> set (ascii ''files'')" "47 \<notin> set (ascii ''original'')"
    by (simp_all add: ascii_def)
  ultimately show ?thesis
    by (simp add: split_on_append not_in_uuid(1) split_on_none key_parts_def del: append_assoc)
qed

lemma built_key_inj [simp]: "build_storage_key u f = build_storage_key v g \<longleftrightarrow> u = v \<and> f = g"
proof
  assume "build_storage_key u f = build_storage_key v g"
  then have "key_parts u f = key_parts v g" by (simp only: split_built_key [symmetric])
  then show "u = v \<and> f = g" by (simp add: key_parts_def)
qed simp

lemma long_uuid_str: "uuid_str u \<noteq> []" "length s \<noteq> 36 \<Longrightarrow> uuid_str u \<noteq> s" "length s \<noteq> 36 \<Longrightarrow> s \<noteq> uuid_str u"
  using length_uuid_str [of u] by auto

lemma built_key_accepted: "storage_key_accepted (build_storage_key u f)"
  unfolding storage_key_accepted_def split_built_key key_parts_def
  by (simp add: long_uuid_str build_storage_key_def not_in_uuid(2) length_uuid_str)
    (simp add: ascii_def)

lemma mk_storage_key_built [simp]: "mk_storage_key (build_storage_key u f) = Inr (StorageKey (build_storage_key u f))"
  by (simp add: mk_storage_key_def built_key_accepted)

section \<open>The contract\<close>

definition key_of_some_file :: "ustr \<Rightarrow> bool" where
  "key_of_some_file k \<longleftrightarrow> (\<exists>u f. k = build_storage_key u f)"

locale object_storage =
  fixes st :: "'w storage_ops" and checksum_of :: "nat list \<Rightarrow> ustr" and ok :: "'w \<Rightarrow> bool"
  assumes put: "ok w \<Longrightarrow> key_of_some_file k \<Longrightarrow>
      \<exists>w'. sto_put st k c w = (Inr \<lparr>so_storage_key = k, so_size = int (length c), so_checksum = checksum_of c\<rparr>, w') \<and>
        ok w' \<and> fst (sto_read st k w') = Inr c \<and>
        (\<forall>k'. key_of_some_file k' \<longrightarrow> k' \<noteq> k \<longrightarrow> fst (sto_read st k' w') = fst (sto_read st k' w))"
    and delete: "ok w \<Longrightarrow> key_of_some_file k \<Longrightarrow>
      \<exists>w'. sto_delete st k w = (Inr (), w') \<and> ok w' \<and>
        (\<forall>k'. key_of_some_file k' \<longrightarrow> k' \<noteq> k \<longrightarrow> fst (sto_read st k' w') = fst (sto_read st k' w))"
    and read: "snd (sto_read st k w) = w"
begin

lemma read_apply: "fst (sto_read st k w) = Inr c \<Longrightarrow> sto_read st k w = (Inr c, w)"
  using read [of k w] by (cases "sto_read st k w") simp

end

section \<open>The local storage\<close>

lemma resolve_plain: "[] \<notin> set ps \<Longrightarrow> ascii ''.'' \<notin> set ps \<Longrightarrow> ascii ''..'' \<notin> set ps \<Longrightarrow> resolve_from done ps = done @ ps"
  by (induction ps arbitrary: "done") auto

lemma target_path_eq:
  "target_path root key =
     (if storage_key_accepted key then Inr (root @ split_on 47 key)
      else Inl (ValidationError [ErrorDetail ''storageKey'' ''storage_key_invalid'']))"
  by (auto simp: target_path_def mk_storage_key_def storage_key_accepted_def resolve_plain is_relative_to_def starts_with_def)

lemma target_of_built: "target_path root (build_storage_key u f) = Inr (root @ key_parts u f)"
  by (simp add: target_path_eq built_key_accepted split_built_key)

text \<open>Files lie five components below the root, directories above them.\<close>

definition served :: "ustr list \<Rightarrow> local_fs \<Rightarrow> bool" where
  "served root fs \<longleftrightarrow> (\<forall>p \<in> fst ` set (fs_files fs). length p = length root + 5) \<and>
     (\<forall>d \<in> set (fs_dirs fs). length d < length root + 5)"

lemma length_key_parts [simp]: "length (key_parts u f) = 5"
  by (simp add: key_parts_def)

lemma served_clear:
  assumes "served root fs"
  shows "\<not> through_a_file fs (root @ key_parts u f)" and "root @ key_parts u f \<notin> set (fs_dirs fs)"
    and "length q = length root + 5 \<Longrightarrow> q \<notin> set (fs_dirs fs)"
proof -
  have "\<not> is_file fs (take n (root @ key_parts u f))" if "n < length (root @ key_parts u f)" for n
  proof
    assume "is_file fs (take n (root @ key_parts u f))"
    then have "take n (root @ key_parts u f) \<in> fst ` set (fs_files fs)"
      by (metis is_file_def map_of_eq_None_iff)
    then show False using assms that unfolding served_def by fastforce
  qed
  then show "\<not> through_a_file fs (root @ key_parts u f)"
    by (auto simp: through_a_file_def parents_of_def list_ex_iff)
qed (use assms in \<open>auto simp: served_def\<close>)

lemma parents_short: "p \<in> set (parents_of (root @ key_parts u f)) \<Longrightarrow> length p < length root + 5"
  by (auto simp: parents_of_def)

lemma temporary_of_key: "temporary_path (root @ key_parts u f) =
    root @ [ascii ''users'', uuid_str u, ascii ''files'', uuid_str f, ascii ''.original.tmp'']"
  by (simp add: temporary_path_def key_parts_def butlast_append ascii_def)

lemma not_temporary: "root @ key_parts u f \<noteq> temporary_path (root @ key_parts v g)"
  by (subst temporary_of_key) (simp add: key_parts_def ascii_def)

lemma keys_of_update: "fst ` set (AList.update k v xs) = insert k (fst ` set xs)"
  using dom_update [of k v xs] by (simp add: dom_map_of_conv_image_fst)

lemma keys_of_delete: "fst ` set (AList.delete k xs) = fst ` set xs - {k}"
  by (auto simp: AList.delete_eq)

definition written :: "ustr list \<Rightarrow> uuid \<Rightarrow> uuid \<Rightarrow> nat list \<Rightarrow> local_fs \<Rightarrow> local_fs" where
  "written root u f content fs =
     fs_remove (temporary_path (root @ key_parts u f))
       (fs\<lparr>fs_dirs := parents_of (root @ key_parts u f) @ fs_dirs fs,
           fs_files := AList.update (root @ key_parts u f) content
             (AList.update (temporary_path (root @ key_parts u f)) content (fs_files fs))\<rparr>)"

lemma local_put_run:
  assumes "served root fs"
  shows "local_put sha256_hex root (build_storage_key u f) content fs =
    (Inr \<lparr>so_storage_key = build_storage_key u f, so_size = int (length content), so_checksum = sha256_hex content\<rparr>,
     written root u f content fs)"
proof -
  have "temporary_path (root @ key_parts u f) \<notin> set (parents_of (root @ key_parts u f))"
    "root @ key_parts u f \<notin> set (parents_of (root @ key_parts u f))"
    using parents_short [of "temporary_path (root @ key_parts u f)" root u f] parents_short [of "root @ key_parts u f" root u f]
    by (auto simp: temporary_of_key)
  moreover have "temporary_path (root @ key_parts u f) \<notin> set (fs_dirs fs)"
    using served_clear(3) [OF assms] by (simp add: temporary_of_key)
  ultimately show ?thesis
    using served_clear(1,2) [OF assms, of u f]
    by (simp add: local_put_def write_bytes_def target_of_built bindA_def liftE_def readA_def modifyA_def fs_write_def
        returnA_def written_def)
qed

lemma written_files:
  "map_of (fs_files (written root u f content fs)) p =
     (if p = root @ key_parts u f then Some content
      else if p = temporary_path (root @ key_parts u f) then None else map_of (fs_files fs) p)"
  using not_temporary [of root u f u f] by (auto simp: written_def fs_remove_def update_conv' delete_conv')

lemma served_written: "served root fs \<Longrightarrow> served root (written root u f content fs)"
  using parents_short [of _ root u f]
  by (auto simp: served_def written_def fs_remove_def keys_of_delete keys_of_update temporary_of_key)

lemma served_removed: "served root fs \<Longrightarrow> served root (fs_remove p fs)"
  by (auto simp: served_def fs_remove_def keys_of_delete)

lemma read_bytes_run:
  "read_bytes root (build_storage_key u f) fs =
    ((case map_of (fs_files fs) (root @ key_parts u f) of None \<Rightarrow> Inl PyOSError | Some c \<Rightarrow> Inr c), fs)"
  by (simp add: read_bytes_def target_of_built bindA_def liftE_def readA_def raiseA_def returnA_def split: option.split)

lemma delete_bytes_run:
  "served root fs \<Longrightarrow> delete_bytes root (build_storage_key u f) fs = (Inr (), fs_remove (root @ key_parts u f) fs)"
  using served_clear(1,2) [of root fs u f]
  by (simp add: delete_bytes_def target_of_built bindA_def liftE_def readA_def modifyA_def)

lemma key_parts_inj: "key_parts u f = key_parts v g \<longleftrightarrow> u = v \<and> f = g"
  by (auto simp: key_parts_def)

lemma read_bytes_keeps: "snd (read_bytes root k w) = w"
  by (auto simp: read_bytes_def target_path_eq bindA_def liftE_def readA_def raiseA_def returnA_def split: option.split)

interpretation local_store: object_storage "local_storage sha256_hex root" sha256_hex "served root" for sha256_hex root
proof unfold_locales
  fix fs k c
  assume fs: "served root fs" and k: "key_of_some_file k"
  then obtain u f where key: "k = build_storage_key u f" by (auto simp: key_of_some_file_def)
  show "\<exists>w'. sto_put (local_storage sha256_hex root) k c fs =
        (Inr \<lparr>so_storage_key = k, so_size = int (length c), so_checksum = sha256_hex c\<rparr>, w') \<and> served root w' \<and>
      fst (sto_read (local_storage sha256_hex root) k w') = Inr c \<and>
      (\<forall>k'. key_of_some_file k' \<longrightarrow> k' \<noteq> k \<longrightarrow>
         fst (sto_read (local_storage sha256_hex root) k' w') = fst (sto_read (local_storage sha256_hex root) k' fs))"
    using served_written [OF fs, of u f c] not_temporary
    by (intro exI [of _ "written root u f c fs"])
      (auto simp: local_storage_def key local_put_run [OF fs] read_bytes_run written_files key_of_some_file_def key_parts_inj)
  show "\<exists>w'. sto_delete (local_storage sha256_hex root) k fs = (Inr (), w') \<and> served root w' \<and>
      (\<forall>k'. key_of_some_file k' \<longrightarrow> k' \<noteq> k \<longrightarrow>
         fst (sto_read (local_storage sha256_hex root) k' w') = fst (sto_read (local_storage sha256_hex root) k' fs))"
    using served_removed [OF fs]
    by (intro exI [of _ "fs_remove (root @ key_parts u f) fs"])
      (auto simp: local_storage_def key delete_bytes_run [OF fs] read_bytes_run fs_remove_def delete_conv' key_of_some_file_def key_parts_inj)
qed (simp add: local_storage_def read_bytes_keeps)

end
