(* ===== verification/Files_Properties.thy ===== *)
theory Files_Properties
  imports Files_Storage
begin

text \<open>
  What holds of stored files: every file of the table has one object under the key of its owner, and
  the storage holds as many bytes for it as the table says, whatever users upload and delete.
\<close>

section \<open>Well-formed tables\<close>

definition object_well_formed :: "'z file_db_scheme \<Rightarrow> file_object_row \<Rightarrow> bool" where
  "object_well_formed db r \<longleftrightarrow>
     fo_variant_type r = ''original'' \<and>
     file_object_errors (fo_storage_key r) (fo_content_type r) (fo_size r) (fo_checksum r) = [] \<and>
     (\<exists>f \<in> set (file_rows db). fr_id f = fo_file_id r \<and> fo_storage_key r = build_storage_key (fr_user_id f) (fr_id f))"

definition files_well_formed :: "'z file_db_scheme \<Rightarrow> bool" where
  "files_well_formed db \<longleftrightarrow>
     file_tables_ok db \<and> (\<forall>f \<in> set (file_rows db). original_name_accepted (fr_original_name f)) \<and>
     (\<forall>r \<in> set (file_object_rows db). object_well_formed db r) \<and>
     (\<forall>f \<in> set (file_rows db). \<exists>r \<in> set (file_object_rows db). fo_file_id r = fr_id f)"

definition contents_kept :: "'w storage_ops \<Rightarrow> 'z file_db_scheme \<Rightarrow> 'w \<Rightarrow> bool" where
  "contents_kept st db w \<longleftrightarrow>
     (\<forall>r \<in> set (file_object_rows db). \<exists>c. fst (sto_read st (fo_storage_key r) w) = Inr c \<and> int (length c) = fo_size r)"

lemma wfD:
  assumes "files_well_formed db"
  shows "file_tables_ok db"
    and "f \<in> set (file_rows db) \<Longrightarrow> original_name_accepted (fr_original_name f)"
    and "r \<in> set (file_object_rows db) \<Longrightarrow> object_well_formed db r"
    and "f \<in> set (file_rows db) \<Longrightarrow> \<exists>r \<in> set (file_object_rows db). fo_file_id r = fr_id f"
  using assms by (auto simp: files_well_formed_def)

lemma tablesD:
  assumes "file_tables_ok db"
  shows "distinct (map fr_id (file_rows db))" and "distinct (map fo_storage_key (file_object_rows db))"
    and "distinct (map (\<lambda>r. (fo_file_id r, fo_variant_type r)) (file_object_rows db))"
    and "r \<in> set (file_object_rows db) \<Longrightarrow> \<exists>f \<in> set (file_rows db). fr_id f = fo_file_id r"
    and "distinct (map ob_event_id (outbox_events db))"
  using assms by (auto simp: file_tables_ok_def)

lemma find_the_one:
  assumes "r \<in> set rows" and "p r" and "distinct (map k rows)" and "\<And>x. x \<in> set rows \<Longrightarrow> p x \<Longrightarrow> k x = k r"
  shows "find p rows = Some r" and "filter p rows = [r]"
proof -
  have eq: "p x \<longleftrightarrow> k x = k r" if "x \<in> set rows" for x
    using assms that by (metis distinct_map inj_onD)
  have "find p rows = find (\<lambda>x. k x = k r) rows" by (rule find_cong) (rule eq)
  then show "find p rows = Some r" by (simp add: find_unique_key [OF assms(3,1) refl])
  have "filter (\<lambda>x. k x = k r) rows = [r]" if "r \<in> set rows" "distinct (map k rows)" for rows :: "'a list"
    using that by (induction rows) (auto simp: filter_empty_conv rev_image_eqI)
  then show "filter p rows = [r]"
    using assms(1,3) filter_cong [OF refl eq, of rows] by simp
qed

lemma file_of_user:
  assumes "file_tables_ok db" and "f \<in> set (file_rows db)"
  shows "find_file_record (fr_id f) u db = (if fr_user_id f = u then Some f else None)"
proof (cases "fr_user_id f = u")
  case True
  then show ?thesis
    unfolding find_file_record_def using find_the_one(1) [OF assms(2) _ tablesD(1) [OF assms(1)], of "\<lambda>r. fr_id r = fr_id f \<and> fr_user_id r = u"]
    by simp
next
  case False
  then show ?thesis
    using tablesD(1) [OF assms(1)] assms(2)
    by (auto simp: find_file_record_def find_None_iff distinct_map dest: inj_onD)
qed

lemma found_file_record: "find_file_record i u db = Some f \<Longrightarrow> f \<in> set (file_rows db) \<and> fr_id f = i \<and> fr_user_id f = u"
  unfolding find_file_record_def by (auto dest!: find_SomeD)

lemma object_of_file:
  assumes "files_well_formed db" and "r \<in> set (file_object_rows db)" and "fo_file_id r = i"
  shows "original_object i db = Some r" and "filter (\<lambda>x. fo_file_id x = i) (file_object_rows db) = [r]"
proof -
  have v: "fo_variant_type x = ''original''" if "x \<in> set (file_object_rows db)" for x
    using wfD(3) [OF assms(1) that] by (simp add: object_well_formed_def)
  note one = find_the_one [OF assms(2) _ tablesD(3) [OF wfD(1) [OF assms(1)]]]
  show "original_object i db = Some r"
    unfolding original_object_def by (rule one(1)) (simp_all add: assms(3) v [OF assms(2)])
  show "filter (\<lambda>x. fo_file_id x = i) (file_object_rows db) = [r]"
    by (rule one(2)) (simp_all add: assms(3) v v [OF assms(2)])
qed

definition stored_of :: "file_row \<Rightarrow> file_object_row \<Rightarrow> stored_file" where
  "stored_of f r =
     \<lparr>sf_file = \<lparr>pending_events = [], fl_id = fr_id f, fl_user_id = fr_user_id f, fl_original_name = OriginalName (fr_original_name f)\<rparr>,
      sf_file_object = made_file_object (fo_id r) (fo_file_id r) (fo_storage_key r) (fo_content_type r) (fo_size r) ORIGINAL
        (fo_checksum r)\<rparr>"

lemma restored_file:
  assumes "files_well_formed db" and "f \<in> set (file_rows db)" and "r \<in> set (file_object_rows db)"
  shows "stored_file_to_domain f r = Inr (stored_of f r)"
  using wfD(2) [OF assms(1,2)] wfD(3) [OF assms(1,3)]
  by (simp add: stored_file_to_domain_def file_to_domain_def create_file_eq file_object_to_domain_def object_well_formed_def
      file_variant_of_def create_file_object_eq stored_of_def)

lemma find_file_run:
  assumes "files_well_formed db" and "f \<in> set (file_rows db)" and "r \<in> set (file_object_rows db)" and "fo_file_id r = fr_id f"
  shows "repo_find_file_for_user (fr_id f) u (open_session db) =
      (Inr (if fr_user_id f = u then Some (stored_of f r) else None), open_session db)"
    and "repo_find_all_for_user (fr_id f) u (open_session db) =
      (Inr (if fr_user_id f = u then [stored_of f r] else []), open_session db)"
proof -
  note found = file_of_user [OF wfD(1) [OF assms(1)] assms(2), of u]
  have "stored_file_of f (open_session db) = (Inr (Some (stored_of f r)), open_session db)"
    using object_of_file(1) [OF assms(1,3,4)] restored_file [OF assms(1,2,3)]
    by (simp add: stored_file_of_def session_bind bind_pure returnA_def)
  then show "repo_find_file_for_user (fr_id f) u (open_session db) =
      (Inr (if fr_user_id f = u then Some (stored_of f r) else None), open_session db)"
    by (simp add: repo_find_file_for_user_def session_bind found returnA_def)
  have "bindA (query_session (\<lambda>db. filter (\<lambda>r. fo_file_id r = fr_id f) (file_object_rows db)))
      (\<lambda>objects. liftE (traverse (stored_file_to_domain f) objects)) (open_session db) = (Inr [stored_of f r], open_session db)"
    using object_of_file(2) [OF assms(1,3,4)] restored_file [OF assms(1,2,3)] by (simp add: session_bind liftE_def)
  then show "repo_find_all_for_user (fr_id f) u (open_session db) =
      (Inr (if fr_user_id f = u then [stored_of f r] else []), open_session db)"
    by (simp add: repo_find_all_for_user_def session_bind found returnA_def)
qed

lemma no_file_run:
  assumes "find_file_record i u db = None"
  shows "repo_find_file_for_user i u (open_session db) = (Inr None, open_session db)"
    and "repo_find_all_for_user i u (open_session db) = (Inr [], open_session db)"
  by (simp_all add: repo_find_file_for_user_def repo_find_all_for_user_def session_bind assms returnA_def)

section \<open>Uploads\<close>

lemma bindA_assoc: "bindA (bindA m f) g = bindA m (\<lambda>x. bindA (f x) g)"
  by (rule ext) (simp add: bindA_def split: prod.split sum.split)

definition file_env_fresh :: "'z file_db_scheme file_env \<Rightarrow> 'z file_db_scheme \<Rightarrow> bool" where
  "file_env_fresh env db \<longleftrightarrow>
     fe_file_id env \<notin> fr_id ` set (file_rows db) \<and> fe_object_id env \<notin> fo_id ` set (file_object_rows db) \<and>
     fe_event_id env \<notin> ob_event_id ` set (outbox_events db)"

definition uploaded_file_row :: "'db file_env \<Rightarrow> upload_command \<Rightarrow> file_row" where
  "uploaded_file_row env cmd =
     \<lparr>fr_id = fe_file_id env, fr_user_id = fu_user_id cmd, fr_original_name = fu_original_name cmd, fr_created_at = fe_db_now env\<rparr>"

definition uploaded_object_row :: "(nat list \<Rightarrow> ustr) \<Rightarrow> 'db file_env \<Rightarrow> upload_command \<Rightarrow> file_object_row" where
  "uploaded_object_row checksum_of env cmd =
     \<lparr>fo_id = fe_object_id env, fo_file_id = fe_file_id env, fo_variant_type = ''original'',
      fo_storage_key = build_storage_key (fu_user_id cmd) (fe_file_id env), fo_content_type = fu_content_type cmd,
      fo_size = int (length (fu_content cmd)), fo_checksum = Some (checksum_of (fu_content cmd)), fo_created_at = fe_db_now env\<rparr>"

definition uploaded_event :: "'db file_env \<Rightarrow> upload_command \<Rightarrow> domain_event" where
  "uploaded_event env cmd = new_event (fe_event_id env) (fe_now env)
     (FileUploaded (fe_file_id env) (fu_user_id cmd) (fu_original_name cmd) (fu_content_type cmd)
        (int (length (fu_content cmd))) (build_storage_key (fu_user_id cmd) (fe_file_id env)))"

definition uploaded :: "(nat list \<Rightarrow> ustr) \<Rightarrow> 'db file_env \<Rightarrow> upload_command \<Rightarrow> 'z file_db_scheme \<Rightarrow> 'z file_db_scheme" where
  "uploaded checksum_of env cmd db =
     (add_file (uploaded_file_row env cmd) (uploaded_object_row checksum_of env cmd) db)
       \<lparr>outbox_events := outbox_events db @ [outbox_row_of (uploaded_event env cmd)]\<rparr>"

text \<open>The errors of the draft, from the size the client states, and those of the stored object.\<close>

definition draft_errors :: "upload_command \<Rightarrow> error_detail list" where
  "draft_errors cmd =
     file_object_errors (build_storage_key 0 0) (fu_content_type cmd) (fu_size cmd) (fu_checksum cmd)"

definition upload_errors :: "(nat list \<Rightarrow> ustr) \<Rightarrow> upload_command \<Rightarrow> error_detail list" where
  "upload_errors checksum_of cmd =
     file_object_errors (build_storage_key 0 0) (fu_content_type cmd) (int (length (fu_content cmd)))
       (Some (checksum_of (fu_content cmd)))"

lemma errors_of_built_key: "file_object_errors (build_storage_key u f) t n c = file_object_errors (build_storage_key 0 0) t n c"
  by (simp add: file_object_errors_def)

lemma int8_size: "failed_details (mk_file_size n) = [] \<Longrightarrow> int8 n"
  by (auto simp: mk_file_size_def int8_def split: if_splits)

lemma accepted_lengths:
  "failed_details (mk_storage_key k) = [] \<Longrightarrow> length k \<le> 500"
  "failed_details (mk_content_type t) = [] \<Longrightarrow> length t \<le> 100"
  "failed_details (mk_checksum c) = [] \<Longrightarrow> length c \<le> 255"
  by (auto simp: mk_storage_key_def storage_key_accepted_def mk_content_type_def mk_checksum_def split: if_splits)

lemma object_fits: "object_well_formed db r \<Longrightarrow> \<forall>(ok, e) \<in> set (file_object_checks r). ok"
  using int8_size accepted_lengths
  by (cases "fo_checksum r") (auto simp: object_well_formed_def file_object_errors_def file_object_checks_def)

lemma uploaded_well_formed:
  assumes db: "files_well_formed db" and env: "file_env_fresh env db"
    and name: "original_name_accepted (fu_original_name cmd)" and obj: "upload_errors checksum_of cmd = []"
  shows "files_well_formed (uploaded checksum_of env cmd db)"
proof -
  let ?f = "uploaded_file_row env cmd" and ?r = "uploaded_object_row checksum_of env cmd" and ?db = "uploaded checksum_of env cmd db"
  have rows: "file_rows ?db = file_rows db @ [?f]" "file_object_rows ?db = file_object_rows db @ [?r]"
    "outbox_events ?db = outbox_events db @ [outbox_row_of (uploaded_event env cmd)]"
    by (simp_all add: uploaded_def add_file_def)
  have new: "object_well_formed ?db ?r"
    using obj by (simp add: object_well_formed_def rows uploaded_object_row_def uploaded_file_row_def upload_errors_def
          errors_of_built_key [of "fu_user_id cmd"])
  have old: "object_well_formed ?db r" if "r \<in> set (file_object_rows db)" for r
    using wfD(3) [OF db that] by (auto simp: object_well_formed_def rows)
  have no_file: "fo_file_id r \<noteq> fe_file_id env" if "r \<in> set (file_object_rows db)" for r
    using tablesD(4) [OF wfD(1) [OF db] that] env unfolding file_env_fresh_def by (metis image_eqI)
  have other_key: "fo_storage_key r \<noteq> fo_storage_key ?r" if "r \<in> set (file_object_rows db)" for r
    using wfD(3) [OF db that] no_file [OF that] by (auto simp: object_well_formed_def uploaded_object_row_def)
  have "distinct (map fr_id (file_rows ?db))" "distinct (map fo_id (file_object_rows ?db))"
    "distinct (map ob_event_id (outbox_events ?db))"
    using wfD(1) [OF db] env unfolding rows file_tables_ok_def file_env_fresh_def
    by (simp_all add: uploaded_file_row_def uploaded_object_row_def outbox_row_of_def uploaded_event_def new_event_def)
  moreover have "distinct (map fo_storage_key (file_object_rows ?db))"
    unfolding rows distinct_map_snoc by (intro conjI notI tablesD(2) [OF wfD(1) [OF db]]) (metis imageE other_key)
  moreover have "distinct (map (\<lambda>r. (fo_file_id r, fo_variant_type r)) (file_object_rows ?db))"
    using tablesD(3) [OF wfD(1) [OF db]] no_file unfolding rows distinct_map_snoc uploaded_object_row_def by fastforce
  moreover have "\<forall>r \<in> set (file_object_rows ?db). \<exists>f \<in> set (file_rows ?db). fr_id f = fo_file_id r"
    using tablesD(4) [OF wfD(1) [OF db]] unfolding rows by (auto simp: uploaded_object_row_def uploaded_file_row_def)
  moreover have "\<forall>r \<in> set (file_object_rows ?db). \<forall>(ok, e) \<in> set (file_object_checks r). ok"
    using object_fits [OF new] object_fits [OF old] unfolding rows by simp
  moreover have "\<forall>r \<in> set (file_rows ?db). length (fr_original_name r) \<le> 255"
    using wfD(2) [OF db] name unfolding rows by (auto simp: uploaded_file_row_def original_name_accepted_def)
  ultimately have "file_tables_ok ?db" unfolding file_tables_ok_def by blast
  then show ?thesis
    using wfD(2-4) [OF db] old new name unfolding files_well_formed_def rows
    by (auto simp: uploaded_file_row_def uploaded_object_row_def)
qed

text \<open>An upload as one step on the tables and the storage.\<close>

definition upload_key :: "'db file_env \<Rightarrow> upload_command \<Rightarrow> ustr" where
  "upload_key env cmd = build_storage_key (fu_user_id cmd) (fe_file_id env)"

definition upload_result :: "(nat list \<Rightarrow> ustr) \<Rightarrow> 'db file_env \<Rightarrow> upload_command \<Rightarrow> file_result" where
  "upload_result checksum_of env cmd =
     \<lparr>fres_file_id = fe_file_id env, fres_original_name = fu_original_name cmd, fres_content_type = fu_content_type cmd,
      fres_size = int (length (fu_content cmd)), fres_content_path = content_path (fe_file_id env)\<rparr>"

definition upload_outcome ::
    "'w storage_ops \<Rightarrow> (nat list \<Rightarrow> ustr) \<Rightarrow> 'z file_db_scheme file_env \<Rightarrow> upload_command \<Rightarrow> 'z file_db_scheme \<Rightarrow> 'w \<Rightarrow>
     (exn + file_result) \<times> 'z file_db_scheme \<times> 'w" where
  "upload_outcome st checksum_of env cmd db w =
     (let w' = snd (sto_put st (upload_key env cmd) (fu_content cmd) w)
      in if \<not> original_name_accepted (fu_original_name cmd)
         then (Inl (ValidationError [ErrorDetail ''originalName'' ''original_name_invalid'']), db, w)
         else if draft_errors cmd \<noteq> [] then (Inl (ValidationError (draft_errors cmd)), db, w)
         else if upload_errors checksum_of cmd \<noteq> [] then (Inl (ValidationError (upload_errors checksum_of cmd)), db, w')
         else (Inr (upload_result checksum_of env cmd), uploaded checksum_of env cmd db, w'))"

definition file_entered :: "'db file_env \<Rightarrow> upload_command \<Rightarrow> file_entity" where
  "file_entered env cmd = \<lparr>pending_events = [], fl_id = fe_file_id env, fl_user_id = fu_user_id cmd,
     fl_original_name = OriginalName (fu_original_name cmd)\<rparr>"

definition object_entered :: "(nat list \<Rightarrow> ustr) \<Rightarrow> 'db file_env \<Rightarrow> upload_command \<Rightarrow> file_object" where
  "object_entered checksum_of env cmd = made_file_object (fe_object_id env) (fe_file_id env) (upload_key env cmd)
     (fu_content_type cmd) (int (length (fu_content cmd))) ORIGINAL (Some (checksum_of (fu_content cmd)))"

lemma entered_records:
  "file_to_record (fe_db_now env) (record_uploaded i t x (file_entered env cmd)) = uploaded_file_row env cmd"
  "file_object_to_record (fe_db_now env) (object_entered checksum_of env cmd) = uploaded_object_row checksum_of env cmd"
  by (simp_all add: file_to_record_def record_uploaded_def record_event_def uploaded_file_row_def file_object_to_record_def
      made_file_object_def uploaded_object_row_def file_entered_def object_entered_def upload_key_def)

lemma entered_event:
  "fst (pull_events (record_uploaded (fe_event_id env) (fe_now env) (object_entered checksum_of env cmd) (file_entered env cmd))) =
   [uploaded_event env cmd]"
  by (simp add: pull_events_def record_uploaded_def record_event_def uploaded_event_def made_file_object_def file_entered_def
      object_entered_def upload_key_def)

text \<open>What the database does for an accepted upload: the rows, the event and the commit.\<close>

lemma save_upload_run:
  assumes "files_well_formed (uploaded checksum_of env cmd db)"
  shows "bindA (on_session (repo_save_file (fe_db_now env) (record_uploaded (fe_event_id env) (fe_now env)
        (object_entered checksum_of env cmd) (file_entered env cmd)) (object_entered checksum_of env cmd))) (\<lambda>sf.
      bindA (on_session (publish build_files_event_registry [uploaded_event env cmd])) (\<lambda>_.
      bindA (on_session files_commit) (\<lambda>_. returnA (file_result_of sf)))) (open_session db, w) =
    (Inr (upload_result checksum_of env cmd), (open_session (uploaded checksum_of env cmd db), w))"
proof -
  let ?mid = "add_file (uploaded_file_row env cmd) (uploaded_object_row checksum_of env cmd) db"
  have "file_tables_ok ?mid"
    using wfD(1) [OF assms] by (simp add: file_tables_ok_def uploaded_def add_file_def)
  then have mid: "file_violation ?mid = None" and after: "file_violation (uploaded checksum_of env cmd db) = None"
    using wfD(1) [OF assms] by (simp_all add: file_violation_None)
  have pub: "publishable build_files_event_registry (uploaded_event env cmd)"
    by (simp add: publishable_def uploaded_event_def new_event_def registry_tables resolve_def)
  have "file_result_of \<lparr>sf_file = record_uploaded (fe_event_id env) (fe_now env) (object_entered checksum_of env cmd) (file_entered env cmd),
      sf_file_object = object_entered checksum_of env cmd\<rparr> = upload_result checksum_of env cmd"
    by (simp add: file_result_of_def record_uploaded_def record_event_def file_entered_def object_entered_def made_file_object_def
        upload_result_def)
  moreover have "uploaded checksum_of env cmd db =
      ?mid\<lparr>outbox_events := outbox_events ?mid @ [outbox_row_of (uploaded_event env cmd)]\<rparr>"
    by (simp add: uploaded_def add_file_def)
  ultimately show ?thesis
    using mid after pub
    by (simp add: on_session_def repo_save_file_def session_bind flush_files_def bindA_def session_apply returnA_def entered_records
        publish_ok files_commit_def sqlalchemy_commit_def commit_session_apply open_session_def)
qed

context object_storage begin

lemma put_built:
  assumes "ok w"
  shows "sto_put st (build_storage_key u f) c w = (Inr \<lparr>so_storage_key = build_storage_key u f, so_size = int (length c),
      so_checksum = checksum_of c\<rparr>, snd (sto_put st (build_storage_key u f) c w))"
    and "ok (snd (sto_put st (build_storage_key u f) c w))"
    and "fst (sto_read st (build_storage_key u f) (snd (sto_put st (build_storage_key u f) c w))) = Inr c"
    and "key_of_some_file k \<Longrightarrow> k \<noteq> build_storage_key u f \<Longrightarrow>
      fst (sto_read st k (snd (sto_put st (build_storage_key u f) c w))) = fst (sto_read st k w)"
  using put [OF assms, of "build_storage_key u f" c] by (auto simp: key_of_some_file_def)

text \<open>Once the draft is accepted the content is put, and only then measured.\<close>

lemma upload_after_put:
  assumes w: "ok w" and key: "fu_storage_key cmd = None"
    and name: "original_name_accepted (fu_original_name cmd)" and draft: "draft_errors cmd = []"
  shows "upload_file (Some st) files_commit env cmd (open_session db, w) =
    (if upload_errors checksum_of cmd = [] then
       bindA (on_session (repo_save_file (fe_db_now env) (record_uploaded (fe_event_id env) (fe_now env)
         (object_entered checksum_of env cmd) (file_entered env cmd)) (object_entered checksum_of env cmd))) (\<lambda>sf.
       bindA (on_session (publish build_files_event_registry [uploaded_event env cmd])) (\<lambda>_.
       bindA (on_session files_commit) (\<lambda>_. returnA (file_result_of sf))))
     else raiseA (ValidationError (upload_errors checksum_of cmd)))
    (open_session db, snd (sto_put st (upload_key env cmd) (fu_content cmd) w))"
proof -
  have made: "create_file (fe_file_id env) (fu_user_id cmd) (fu_original_name cmd) = Inr (file_entered env cmd)"
    "fl_id (file_entered env cmd) = fe_file_id env" "chosen_key env cmd = upload_key env cmd"
    using name by (simp_all add: create_file_eq file_entered_def chosen_key_def key upload_key_def)
  have draft': "create_file_object (fe_draft_id env) (fe_file_id env) (upload_key env cmd) (fu_content_type cmd) (fu_size cmd) ORIGINAL
      (fu_checksum cmd) = Inr (made_file_object (fe_draft_id env) (fe_file_id env) (upload_key env cmd) (fu_content_type cmd)
      (fu_size cmd) ORIGINAL (fu_checksum cmd))"
    using draft by (simp add: create_file_object_eq errors_of_built_key [of "fu_user_id cmd"] draft_errors_def upload_key_def)
  have object: "create_file_object (fe_object_id env) (fe_file_id env) (upload_key env cmd) (fu_content_type cmd)
      (int (length (fu_content cmd))) ORIGINAL (Some (checksum_of (fu_content cmd))) =
      (if upload_errors checksum_of cmd = [] then Inr (object_entered checksum_of env cmd)
       else Inl (ValidationError (upload_errors checksum_of cmd)))"
    by (simp add: create_file_object_eq errors_of_built_key [of "fu_user_id cmd"] upload_errors_def upload_key_def object_entered_def)
  have stored: "on_storage (sto_put st (upload_key env cmd) (fu_content cmd)) (open_session db, w) =
      (Inr \<lparr>so_storage_key = upload_key env cmd, so_size = int (length (fu_content cmd)), so_checksum = checksum_of (fu_content cmd)\<rparr>,
       (open_session db, snd (sto_put st (upload_key env cmd) (fu_content cmd) w)))"
    using put_built(1) [OF w, of "fu_user_id cmd" "fe_file_id env" "fu_content cmd"]
    by (cases "sto_put st (upload_key env cmd) (fu_content cmd) w") (simp add: on_storage_def upload_key_def)
  have key_of: "storage_text (fob_storage_key (made_file_object i f k t n v c)) = k" for i f k t n v c
    by (simp add: made_file_object_def)
  show ?thesis
    unfolding upload_file_def made draft' option.case
    by (simp add: bind_pure made draft' key_of bindA_assoc bindA_Inr [where m = "on_storage _", OF stored] object entered_event)
qed

lemma upload_run:
  assumes db: "files_well_formed db" and env: "file_env_fresh env db" and w: "ok w" and key: "fu_storage_key cmd = None"
  shows "upload_file (Some st) files_commit env cmd (open_session db, w) =
    (case upload_outcome st checksum_of env cmd db w of (r, db', w') \<Rightarrow> (r, (open_session db', w')))"
proof -
  note steps = upload_file_def create_file_eq create_file_object_eq chosen_key_def key errors_of_built_key [of "fu_user_id cmd"]
    draft_errors_def bindA_def liftE_def
  show ?thesis
  proof (cases "original_name_accepted (fu_original_name cmd) \<and> draft_errors cmd = []")
    case True
    note after = upload_after_put [OF w key conjunct1 [OF True] conjunct2 [OF True]]
    show ?thesis
    proof (cases "upload_errors checksum_of cmd = []")
      case clean: True
      show ?thesis
        using True clean save_upload_run [OF uploaded_well_formed [OF db env conjunct1 [OF True] clean]]
        by (simp add: after upload_outcome_def Let_def)
    qed (use True in \<open>simp add: after upload_outcome_def Let_def raiseA_def\<close>)
  next
    case False
    then show ?thesis by (auto simp: steps upload_outcome_def Let_def)
  qed
qed

end

text \<open>\<open>other_contents\<close>: an upload only touches the content under its own key.\<close>

lemma uploaded_rows:
  "file_rows (uploaded checksum_of env cmd db) = file_rows db @ [uploaded_file_row env cmd]"
  "file_object_rows (uploaded checksum_of env cmd db) = file_object_rows db @ [uploaded_object_row checksum_of env cmd]"
  by (simp_all add: uploaded_def add_file_def)

lemma stored_under_built_key:
  assumes "files_well_formed db" and "r \<in> set (file_object_rows db)"
  obtains f where "f \<in> set (file_rows db)" and "fr_id f = fo_file_id r" and "fo_storage_key r = build_storage_key (fr_user_id f) (fr_id f)"
    and "key_of_some_file (fo_storage_key r)"
  using wfD(3) [OF assms] by (auto simp: object_well_formed_def key_of_some_file_def)

lemma other_key_than_upload:
  assumes "files_well_formed db" and "file_env_fresh env db" and "r \<in> set (file_object_rows db)"
  shows "fo_storage_key r \<noteq> upload_key env cmd"
  using stored_under_built_key [OF assms(1,3)] assms(2) unfolding file_env_fresh_def upload_key_def
  by (metis built_key_inj image_eqI)

context object_storage begin

lemma upload_keeps:
  assumes db: "files_well_formed db" and env: "file_env_fresh env db" and w: "ok w" and kept: "contents_kept st db w"
    and out: "upload_outcome st checksum_of env cmd db w = (r, db', w')"
  shows "files_well_formed db'" and "ok w'" and "contents_kept st db' w'"
proof -
  let ?w = "snd (sto_put st (upload_key env cmd) (fu_content cmd) w)"
  have put_ok: "ok ?w" "fst (sto_read st (upload_key env cmd) ?w) = Inr (fu_content cmd)"
    using put_built(2,3) [OF w] by (simp_all add: upload_key_def)
  have same: "fst (sto_read st (fo_storage_key x) ?w) = fst (sto_read st (fo_storage_key x) w)" if "x \<in> set (file_object_rows db)" for x
    using stored_under_built_key [OF db that] other_key_than_upload [OF db env that]
    unfolding upload_key_def by (metis put_built(4) [OF w])
  have old: "contents_kept st db ?w" using kept same by (auto simp: contents_kept_def)
  moreover have "contents_kept st (uploaded checksum_of env cmd db) ?w"
    using old put_ok(2) by (simp add: contents_kept_def uploaded_rows uploaded_object_row_def upload_key_def)
  ultimately show "files_well_formed db'" "ok w'" "contents_kept st db' w'"
    using out put_ok(1) db w kept uploaded_well_formed [OF db env]
    by (auto simp: upload_outcome_def Let_def split: if_splits)
qed

text \<open>What was uploaded is what its owner downloads.\<close>

lemma open_run:
  assumes "files_well_formed db" and "f \<in> set (file_rows db)" and "r \<in> set (file_object_rows db)" and "fo_file_id r = fr_id f"
    and "fst (sto_read st (fo_storage_key r) w) = Inr c"
  shows "open_file_content st (fr_id f) u (open_session db, w) =
    (if fr_user_id f = u then Inr \<lparr>fcn_content = c, fcn_content_type = fo_content_type r, fcn_size = fo_size r\<rparr>
     else Inl (FileNotFoundError (fr_id f)), (open_session db, w))"
  using find_file_run(1) [OF assms(1-4), of u] read_apply [OF assms(5)]
  by (simp add: open_file_content_def bindA_def on_session_def on_storage_def raiseA_def returnA_def stored_of_def stored_key_def
      made_file_object_def)

lemma download_after_upload:
  assumes db: "files_well_formed db" and env: "file_env_fresh env db" and w: "ok w"
    and out: "upload_outcome st checksum_of env cmd db w = (Inr res, db', w')"
  shows "open_file_content st (fe_file_id env) u (open_session db', w') =
    (if fu_user_id cmd = u then Inr \<lparr>fcn_content = fu_content cmd, fcn_content_type = fu_content_type cmd,
        fcn_size = int (length (fu_content cmd))\<rparr> else Inl (FileNotFoundError (fe_file_id env)), (open_session db', w'))"
proof -
  have db': "db' = uploaded checksum_of env cmd db" and w': "w' = snd (sto_put st (upload_key env cmd) (fu_content cmd) w)"
    and ok: "original_name_accepted (fu_original_name cmd)" "upload_errors checksum_of cmd = []"
    using out by (auto simp: upload_outcome_def Let_def split: if_splits)
  have "fst (sto_read st (fo_storage_key (uploaded_object_row checksum_of env cmd)) w') = Inr (fu_content cmd)"
    using put_built(3) [OF w] by (simp add: w' upload_key_def uploaded_object_row_def)
  from open_run [OF uploaded_well_formed [OF db env ok] _ _ _ this, of "uploaded_file_row env cmd" u] show ?thesis
    by (simp add: db' uploaded_rows) (simp add: uploaded_file_row_def uploaded_object_row_def)
qed

end

section \<open>Deletions\<close>

definition deleted_event :: "'db file_env \<Rightarrow> uuid \<Rightarrow> uuid \<Rightarrow> domain_event" where
  "deleted_event env file_id user_id =
     new_event (fe_event_id env) (fe_now env) (FileDeleted file_id user_id [build_storage_key user_id file_id])"

definition file_deleted :: "'db file_env \<Rightarrow> uuid \<Rightarrow> uuid \<Rightarrow> 'z file_db_scheme \<Rightarrow> 'z file_db_scheme" where
  "file_deleted env file_id user_id db =
     (drop_file file_id db)\<lparr>outbox_events := outbox_events db @ [outbox_row_of (deleted_event env file_id user_id)]\<rparr>"

text \<open>A guard only looks: it answers with its verdict and leaves the session as it is.\<close>

definition guard_verdict :: "(uuid \<Rightarrow> ('z, unit) file_action) \<Rightarrow> uuid \<Rightarrow> 'z file_db_scheme \<Rightarrow> exn + unit" where
  "guard_verdict guard i db = fst (guard i (open_session db))"

definition guard_looks :: "(uuid \<Rightarrow> ('z, unit) file_action) \<Rightarrow> bool" where
  "guard_looks guard \<longleftrightarrow> (\<forall>i s. snd (guard i s) = s)"

definition delete_outcome ::
    "'w storage_ops \<Rightarrow> (uuid \<Rightarrow> ('z, unit) file_action) \<Rightarrow> 'z file_db_scheme file_env \<Rightarrow> uuid \<Rightarrow> uuid \<Rightarrow>
     'z file_db_scheme \<Rightarrow> 'w \<Rightarrow> (exn + unit) \<times> 'z file_db_scheme \<times> 'w" where
  "delete_outcome st guard env file_id user_id db w =
     (if find_file_record file_id user_id db = None then (Inl (FileNotFoundError file_id), db, w)
      else case guard_verdict guard file_id db of
             Inl e \<Rightarrow> (Inl e, db, w)
           | Inr _ \<Rightarrow> (Inr (), file_deleted env file_id user_id db, snd (sto_delete st (build_storage_key user_id file_id) w)))"

lemma drop_file_rows:
  "file_rows (file_deleted env i u db) = filter (\<lambda>r. fr_id r \<noteq> i) (file_rows db)"
  "file_object_rows (file_deleted env i u db) = filter (\<lambda>r. fo_file_id r \<noteq> i) (file_object_rows db)"
  "outbox_events (file_deleted env i u db) = outbox_events db @ [outbox_row_of (deleted_event env i u)]"
  by (simp_all add: file_deleted_def drop_file_def)

lemma deleted_well_formed:
  assumes db: "files_well_formed db" and env: "file_env_fresh env db"
  shows "files_well_formed (file_deleted env i u db)"
proof -
  have "file_tables_ok (file_deleted env i u db)"
    using wfD(1) [OF db] env unfolding file_tables_ok_def drop_file_rows file_env_fresh_def
    by (auto simp: distinct_map_filter outbox_row_of_def deleted_event_def new_event_def) metis
  then show ?thesis
    using wfD(2-4) [OF db] unfolding files_well_formed_def drop_file_rows object_well_formed_def by fastforce
qed

context object_storage begin

lemma delete_file_run:
  assumes db: "files_well_formed db" and env: "file_env_fresh env db" and quiet: "fe_rival env = id" and w: "ok w"
    and looks: "guard_looks guard"
  shows "delete_file (Some st) (Some guard) files_commit env i u (open_session db, w) =
    (case delete_outcome st guard env i u db w of (r, db', w') \<Rightarrow> (r, (open_session db', w')))"
proof (cases "find_file_record i u db")
  case None
  then show ?thesis
    by (simp add: delete_file_def on_session_def bindA_def no_file_run raiseA_def delete_outcome_def)
next
  case (Some f)
  note f = found_file_record [OF Some]
  obtain r where r: "r \<in> set (file_object_rows db)" "fo_file_id r = fr_id f" using wfD(4) [OF db] f by blast
  have found: "repo_find_all_for_user i u (open_session db) = (Inr [stored_of f r], open_session db)"
    using find_file_run(2) [OF db conjunct1 [OF f] r, of u] f by simp
  have key: "stored_key (stored_of f r) = build_storage_key u i"
    using stored_under_built_key [OF db r(1)] f r(2) tablesD(1) [OF wfD(1) [OF db]]
    by (metis file_of_user [OF wfD(1) [OF db]] option.inject option.simps(3) stored_of_def stored_key_def made_file_object_def
        stored_file.select_convs(2) file_object.select_convs(4) storage_key.sel)
  obtain w' where del: "sto_delete st (build_storage_key u i) w = (Inr (), w')"
    using delete [OF w, of "build_storage_key u i"] by (auto simp: key_of_some_file_def)
  have after: "file_violation (file_deleted env i u db) = None"
    using wfD(1) [OF deleted_well_formed [OF db env]] by (simp add: file_violation_None)
  have pub: "publishable build_files_event_registry (deleted_event env i u)"
    by (simp add: publishable_def deleted_event_def new_event_def registry_tables resolve_def)
  have event: "fst (pull_events (record_deleted (fe_event_id env) (fe_now env) [build_storage_key u i] (sf_file (stored_of f r)))) =
      [deleted_event env i u]"
    using f by (simp add: pull_events_def record_deleted_def record_event_def stored_of_def deleted_event_def)
  obtain verdict where verdict: "guard i (open_session db) = (verdict, open_session db)"
    using looks unfolding guard_looks_def by (metis prod.collapse)
  have row: "(drop_file i db)\<lparr>outbox_events := outbox_events (drop_file i db) @ [outbox_row_of (deleted_event env i u)]\<rparr> =
      file_deleted env i u db"
    by (simp add: file_deleted_def drop_file_def)
  have committed: "files_commit ((open_session db)\<lparr>working := file_deleted env i u db\<rparr>) = (Inr (), open_session (file_deleted env i u db))"
    using after by (simp add: files_commit_def sqlalchemy_commit_def commit_session_apply open_session_def)
  show ?thesis
    by (cases verdict)
      (simp_all add: delete_file_def on_session_def on_storage_def bindA_def found verdict raiseA_def returnA_def key del Some
        delete_outcome_def guard_verdict_def interfere_def modifyA_def quiet repo_delete_file_def session_apply event publish_ok pub
        row committed)
qed

lemma delete_keeps:
  assumes db: "files_well_formed db" and env: "file_env_fresh env db" and w: "ok w" and kept: "contents_kept st db w"
    and out: "delete_outcome st guard env i u db w = (r, db', w')"
  shows "files_well_formed db'" and "ok w'" and "contents_kept st db' w'"
proof -
  obtain w2 where w2: "sto_delete st (build_storage_key u i) w = (Inr (), w2)" "ok w2"
    "\<And>k. key_of_some_file k \<Longrightarrow> k \<noteq> build_storage_key u i \<Longrightarrow> fst (sto_read st k w2) = fst (sto_read st k w)"
    using delete [OF w, of "build_storage_key u i"] by (auto simp: key_of_some_file_def)
  have "fst (sto_read st (fo_storage_key x) w2) = fst (sto_read st (fo_storage_key x) w)"
    if "x \<in> set (file_object_rows db)" "fo_file_id x \<noteq> i" for x
    using stored_under_built_key [OF db that(1)] that(2) by (metis built_key_inj w2(3))
  then have "contents_kept st (file_deleted env i u db) w2"
    using kept by (simp add: contents_kept_def drop_file_rows)
  then show "files_well_formed db'" "ok w'" "contents_kept st db' w'"
    using out w2(1,2) db w kept deleted_well_formed [OF db env]
    by (auto simp: delete_outcome_def split: if_splits sum.splits)
qed

end

end
