(* ===== verification/Files_Outcomes.thy ===== *)
theory Files_Outcomes
  imports Files_Properties
begin

text \<open>
  The properties of the files module on the local storage, and small runs of it as witnesses.
\<close>

section \<open>Runs\<close>

text \<open>The tables and the storage after any number of uploads and deletions, one after the other, each with new identifiers.\<close>

inductive files_reach ::
    "'w storage_ops \<Rightarrow> (uuid \<Rightarrow> ('z, unit) file_action) \<Rightarrow> 'z file_db_scheme \<times> 'w \<Rightarrow> 'z file_db_scheme \<times> 'w \<Rightarrow> bool"
  for st guard x where
  start: "files_reach st guard x x"
| uploaded_one: "files_reach st guard x (db, w) \<Longrightarrow> file_env_fresh env db \<Longrightarrow> fu_storage_key cmd = None \<Longrightarrow>
    upload_file (Some st) files_commit env cmd (open_session db, w) = (r, (s, w')) \<Longrightarrow> files_reach st guard x (committed s, w')"
| deleted_one: "files_reach st guard x (db, w) \<Longrightarrow> file_env_fresh env db \<Longrightarrow> fe_rival env = id \<Longrightarrow>
    delete_file (Some st) (Some guard) files_commit env i u (open_session db, w) = (r', (s, w')) \<Longrightarrow>
    files_reach st guard x (committed s, w')"

context object_storage begin

lemma reach_keeps:
  assumes "files_reach st guard x y" and "guard_looks guard"
    and "files_well_formed (fst x) \<and> ok (snd x) \<and> contents_kept st (fst x) (snd x)"
  shows "files_well_formed (fst y) \<and> ok (snd y) \<and> contents_kept st (fst y) (snd y)"
  using assms(1)
proof induction
  case (uploaded_one db w env cmd r s w')
  then have now: "files_well_formed db" "ok w" "contents_kept st db w" by simp_all
  obtain r' db' w2 where out: "upload_outcome st checksum_of env cmd db w = (r', db', w2)" by (rule prod_cases3)
  have "s = open_session db'" "w' = w2"
    using uploaded_one.hyps(4) upload_run [OF now(1) uploaded_one.hyps(2) now(2) uploaded_one.hyps(3)] out by simp_all
  then show ?case using upload_keeps [OF now(1) uploaded_one.hyps(2) now(2,3) out] by simp
next
  case (deleted_one db w env i u r s w')
  then have now: "files_well_formed db" "ok w" "contents_kept st db w" by simp_all
  obtain r' db' w2 where out: "delete_outcome st guard env i u db w = (r', db', w2)" by (rule prod_cases3)
  have "s = open_session db'" "w' = w2"
    using deleted_one.hyps(4) delete_file_run [OF now(1) deleted_one.hyps(2,3) now(2) assms(2)] out by simp_all
  then show ?case using delete_keeps [OF now(1) deleted_one.hyps(2) now(2,3) out] by simp
qed (use assms(3) in simp)

lemma kept_files_open:
  assumes "files_well_formed db" and "contents_kept st db w" and "f \<in> set (file_rows db)"
  shows "\<exists>r \<in> set (file_object_rows db). \<exists>c. fo_file_id r = fr_id f \<and> int (length c) = fo_size r \<and>
    open_file_content st (fr_id f) (fr_user_id f) (open_session db, w) =
      (Inr \<lparr>fcn_content = c, fcn_content_type = fo_content_type r, fcn_size = fo_size r\<rparr>, (open_session db, w))"
proof -
  obtain r where r: "r \<in> set (file_object_rows db)" "fo_file_id r = fr_id f" using wfD(4) [OF assms(1,3)] by blast
  then obtain c where "fst (sto_read st (fo_storage_key r) w) = Inr c" "int (length c) = fo_size r"
    using assms(2) by (auto simp: contents_kept_def)
  with r open_run [OF assms(1,3) r] show ?thesis by auto
qed

end

text \<open>C14. However files are uploaded and deleted, every file in the table can be opened by its owner, and the
  storage then returns exactly as many bytes as the table says the file has.\<close>

theorem stored_files_can_be_opened:
  assumes "files_reach (local_storage sha256_hex root) guard x (db, w)" and "guard_looks guard"
    and "files_well_formed (fst x)" and "served root (snd x)" and "contents_kept (local_storage sha256_hex root) (fst x) (snd x)"
  shows "\<forall>f \<in> set (file_rows db). \<exists>r \<in> set (file_object_rows db). \<exists>c. fo_file_id r = fr_id f \<and> int (length c) = fo_size r \<and>
    open_file_content (local_storage sha256_hex root) (fr_id f) (fr_user_id f) (open_session db, w) =
      (Inr \<lparr>fcn_content = c, fcn_content_type = fo_content_type r, fcn_size = fo_size r\<rparr>, (open_session db, w))"
proof
  have "files_well_formed db \<and> served root w \<and> contents_kept (local_storage sha256_hex root) db w"
    using local_store.reach_keeps [OF assms(1,2)] assms(3-5) by simp
  then show "\<exists>r \<in> set (file_object_rows db). \<exists>c. fo_file_id r = fr_id f \<and> int (length c) = fo_size r \<and>
    open_file_content (local_storage sha256_hex root) (fr_id f) (fr_user_id f) (open_session db, w) =
      (Inr \<lparr>fcn_content = c, fcn_content_type = fo_content_type r, fcn_size = fo_size r\<rparr>, (open_session db, w))"
    if "f \<in> set (file_rows db)" for f
    using local_store.kept_files_open [OF _ _ that] by blast
qed

text \<open>C20. An upload whose key the module chooses either reports the rejected fields, or its owner downloads exactly the
  bytes that were sent, with the content type that was stated, while to every other user the file does not exist. A
  rejected upload leaves the tables and the contents of all other keys as they were; the storage changes at most under the
  new key of the upload, when what is measured of the content is rejected after what was stated of it was accepted, and
  not at all when the stated size is the real one and the checksum is one the domain takes.\<close>

theorem uploaded_file_is_downloaded:
  assumes "files_well_formed db" and "file_env_fresh env db" and "served root w" and "fu_storage_key cmd = None"
  shows "case upload_file (Some (local_storage sha256_hex root)) files_commit env cmd (open_session db, w) of
      (Inl e, (s, w')) \<Rightarrow> s = open_session db \<and> (\<exists>d ds. e = ValidationError (d # ds)) \<and>
        (\<forall>k. key_of_some_file k \<and> k \<noteq> build_storage_key (fu_user_id cmd) (fe_file_id env) \<longrightarrow>
          fst (sto_read (local_storage sha256_hex root) k w') = fst (sto_read (local_storage sha256_hex root) k w)) \<and>
        (fu_size cmd = int (length (fu_content cmd)) \<and> mk_checksum (sha256_hex (fu_content cmd)) = Inr (Checksum (sha256_hex (fu_content cmd)))
          \<longrightarrow> w' = w)
    | (Inr res, (s, w')) \<Rightarrow>
        fres_file_id res = fe_file_id env \<and> fres_size res = int (length (fu_content cmd)) \<and>
        (\<forall>u. open_file_content (local_storage sha256_hex root) (fe_file_id env) u (open_session (committed s), w') =
           (if u = fu_user_id cmd
            then Inr \<lparr>fcn_content = fu_content cmd, fcn_content_type = fu_content_type cmd, fcn_size = int (length (fu_content cmd))\<rparr>
            else Inl (FileNotFoundError (fe_file_id env)), (open_session (committed s), w')))"
proof (cases "upload_outcome (local_storage sha256_hex root) sha256_hex env cmd db w")
  case (fields r db' w')
  note run = local_store.upload_run [where sha256_hex = sha256_hex, OF assms, unfolded fields]
  show ?thesis
  proof (cases r)
    case (Inr res)
    have "res = upload_result sha256_hex env cmd"
      using fields Inr by (auto simp: upload_outcome_def Let_def split: if_splits)
    then show ?thesis
      using run Inr local_store.download_after_upload [OF assms(1-3) fields [unfolded Inr]]
      by (auto simp: upload_result_def)
  next
    case (Inl e)
    then have rejected: "db' = db" "\<exists>d ds. e = ValidationError (d # ds)"
      using fields by (auto simp: upload_outcome_def Let_def neq_Nil_conv split: if_splits)
    have put: "w' = w \<or> w' = snd (sto_put (local_storage sha256_hex root) (upload_key env cmd) (fu_content cmd) w) \<and>
        draft_errors cmd = [] \<and> upload_errors sha256_hex cmd \<noteq> []"
      using fields Inl by (auto simp: upload_outcome_def Let_def split: if_splits)
    then have "fst (sto_read (local_storage sha256_hex root) k w') = fst (sto_read (local_storage sha256_hex root) k w)"
      if "key_of_some_file k" "k \<noteq> build_storage_key (fu_user_id cmd) (fe_file_id env)" for k
      using local_store.put_built(4) [OF assms(3) that] by (auto simp: upload_key_def)
    moreover have "w' = w" if "fu_size cmd = int (length (fu_content cmd))"
      "mk_checksum (sha256_hex (fu_content cmd)) = Inr (Checksum (sha256_hex (fu_content cmd)))"
      using put that by (auto simp: draft_errors_def upload_errors_def file_object_errors_def failed_details_def)
    ultimately show ?thesis using run Inl rejected by simp
  qed
qed

section \<open>What an upload may be\<close>

definition declared_type_matches :: "ustr \<Rightarrow> nat list \<Rightarrow> bool" where
  "declared_type_matches t content \<longleftrightarrow>
     (\<exists>d. detect_image_content_type content = Some d \<and>
        (d = t \<or> (d \<in> set heif_content_types \<and> t \<in> set heif_content_types)))"

definition image_upload :: "upload_policy \<Rightarrow> upload_part \<Rightarrow> bool" where
  "image_upload policy p \<longleftrightarrow>
     0 < length (upf_data p) \<and> length (upf_data p) \<le> pol_max_upload_bytes policy \<and>
     (\<exists>t \<in> set (pol_allowed_content_types policy). upf_content_type p = Some t \<and> declared_type_matches t (upf_data p))"

definition taken_upload :: "upload_part \<Rightarrow> validated_upload" where
  "taken_upload p =
     \<lparr>vu_original_name = (if upf_filename p \<in> {None, Some []} then ascii ''upload'' else the (upf_filename p)),
      vu_content_type = the (upf_content_type p), vu_content = upf_data p\<rparr>"

lemma matches_iff: "matches_image_content_type t content \<longleftrightarrow> declared_type_matches t content"
  by (auto simp: matches_image_content_type_def declared_type_matches_def split: option.split)

lemma read_upload_iff: "read_upload policy p = Inr u \<longleftrightarrow> image_upload policy p \<and> u = taken_upload p"
proof (cases "length (upf_data p) \<le> pol_max_upload_bytes policy")
  case True
  then have "take (pol_max_upload_bytes policy + 1) (upf_data p) = upf_data p" by simp
  then show ?thesis
    using True
    by (auto simp: read_upload_def validate_upload_def Let_def image_upload_def taken_upload_def is_allowed_def matches_iff
        split: if_splits option.splits)
next
  case False
  then show ?thesis by (simp add: read_upload_def validate_upload_def Let_def image_upload_def)
qed

lemma traverse_Inr_iff: "traverse f xs = Inr ys \<longleftrightarrow> list_all2 (\<lambda>x y. f x = Inr y) xs ys"
  by (induction xs arbitrary: ys) (auto simp: bindE_Inr list_all2_Cons1)

text \<open>Exactly these uploads are taken: at least one and at most the allowed number of files, each not empty and within
  the size limit, whose first bytes are those of the image type its sender declared, which the policy allows. What is
  taken is the file as sent; nothing is cut.\<close>

theorem taken_uploads_are_images:
  "read_and_validate_uploads policy parts = Inr us \<longleftrightarrow>
     1 \<le> length parts \<and> length parts \<le> pol_max_upload_count policy \<and> list_all (image_upload policy) parts \<and>
     us = map taken_upload parts"
proof -
  have "list_all2 (\<lambda>p u. image_upload policy p \<and> u = taken_upload p) ps us \<longleftrightarrow>
      list_all (image_upload policy) ps \<and> us = map taken_upload ps" for ps
    by (induction ps arbitrary: us) (auto simp: list_all2_Cons1)
  then show ?thesis
    by (auto simp: read_and_validate_uploads_def traverse_Inr_iff read_upload_iff)
qed

text \<open>C39. A storage key is accepted only as a relative path without empty, \<open>.\<close> or \<open>..\<close> components, and then names a
  path below the storage root; nothing above the root can be read, written or removed through a key.\<close>

theorem keys_stay_below_root:
  "target_path root key = (if storage_key_accepted key then Inr (root @ split_on 47 key)
     else Inl (ValidationError [ErrorDetail ''storageKey'' ''storage_key_invalid''])) \<and>
   (storage_key_accepted key \<longrightarrow> split_on 47 key \<noteq> [] \<and>
     (\<forall>p \<in> set (split_on 47 key). p \<noteq> [] \<and> p \<noteq> ascii ''.'' \<and> p \<noteq> ascii ''..''))"
proof -
  have "split_on 47 s \<noteq> []" for s by (induction s) (auto split: list.split)
  then show ?thesis by (auto simp: target_path_eq storage_key_accepted_def)
qed

section \<open>A lost commit\<close>

text \<open>
  The storage is emptied before the transaction commits. When the commit raises - a lost connection - the
  row is still there and its content is not.
\<close>

lemma lost_commit_loses_content:
  assumes db: "files_well_formed db" and quiet: "fe_rival env = id" and w: "served root w" and f: "f \<in> set (file_rows db)"
  shows "\<exists>s w'. delete_file (Some (local_storage sha256_hex root)) (Some allow_file_delete) (raiseA HandlerFailure) env
      (fr_id f) (fr_user_id f) (open_session db, w) = (Inl HandlerFailure, (s, w')) \<and> committed s = db \<and>
    open_file_content (local_storage sha256_hex root) (fr_id f) (fr_user_id f) (open_session db, w') =
      (Inl PyOSError, (open_session db, w'))"
proof -
  obtain r where r: "r \<in> set (file_object_rows db)" "fo_file_id r = fr_id f" using wfD(4) [OF db f] by blast
  note found = find_file_run [OF db f r, of "fr_user_id f", simplified]
  obtain g where g: "g \<in> set (file_rows db)" "fr_id g = fr_id f" "fo_storage_key r = build_storage_key (fr_user_id g) (fr_id g)"
    using stored_under_built_key [OF db r(1)] r(2) by metis
  have "g = f" using tablesD(1) [OF wfD(1) [OF db]] g(1,2) f by (auto simp: distinct_map dest: inj_onD)
  then have key: "stored_key (stored_of f r) = build_storage_key (fr_user_id f) (fr_id f)"
    using g(3) by (simp add: stored_key_def stored_of_def made_file_object_def)
  have event: "fst (pull_events (record_deleted (fe_event_id env) (fe_now env) [build_storage_key (fr_user_id f) (fr_id f)]
      (sf_file (stored_of f r)))) = [deleted_event env (fr_id f) (fr_user_id f)]"
    by (simp add: pull_events_def record_deleted_def record_event_def stored_of_def deleted_event_def)
  have pub: "publishable build_files_event_registry (deleted_event env i u)" for i u
    by (simp add: publishable_def deleted_event_def new_event_def registry_tables resolve_def)
  have row: "(drop_file i db)\<lparr>outbox_events := outbox_events (drop_file i db) @ [outbox_row_of (deleted_event env i u)]\<rparr> =
      file_deleted env i u db" for i u
    by (simp add: file_deleted_def drop_file_def)
  let ?w = "fs_remove (root @ key_parts (fr_user_id f) (fr_id f)) w"
  have "delete_file (Some (local_storage sha256_hex root)) (Some allow_file_delete) (raiseA HandlerFailure) env
      (fr_id f) (fr_user_id f) (open_session db, w) =
    (Inl HandlerFailure, ((open_session db)\<lparr>working := file_deleted env (fr_id f) (fr_user_id f) db\<rparr>, ?w))"
    using quiet
    by (simp add: delete_file_def on_session_def on_storage_def bindA_def found(2) raiseA_def returnA_def key allow_file_delete_def
        interfere_def modifyA_def local_storage_def delete_bytes_run [OF w] repo_delete_file_def session_apply
        publish_ok pub event row)
  moreover have "open_file_content (local_storage sha256_hex root) (fr_id f) (fr_user_id f) (open_session db, ?w) =
      (Inl PyOSError, (open_session db, ?w))"
    by (simp add: open_file_content_def on_session_def on_storage_def bindA_def found(1) key local_storage_def read_bytes_run
        fs_remove_def delete_conv')
  ultimately show ?thesis by auto
qed

end
