(* ===== verification/Files_Samples.thy ===== *)
theory Files_Samples
  imports Files_Outcomes
begin

text \<open>
  The properties of the files module on small tables: an empty storage, one upload of a PNG image.
\<close>

definition no_files :: file_db where
  "no_files = \<lparr>outbox_events = [], user_credits = [], credit_transactions = [], promotions = [], promotion_contents = [],
     promotion_codes = [], promotion_redemptions = [], user_rows = [], receipt_rows = [], attachment_rows = [],
     notification_rows = [], settings_rows = [], token_rows = [], occurrence_rows = [], rule_rows = [], file_rows = [],
     file_object_rows = []\<rparr>"

definition empty_disk :: local_fs where
  "empty_disk = \<lparr>fs_files = [], fs_dirs = []\<rparr>"

definition sample_file_env :: "file_db file_env" where
  "sample_file_env = \<lparr>fe_file_id = 30, fe_draft_id = 33, fe_object_id = 31, fe_event_id = 32, fe_now = 739000 * day_us,
     fe_db_now = 739000 * day_us, fe_rival = id\<rparr>"

definition sample_upload :: upload_command where
  "sample_upload = \<lparr>fu_user_id = 1, fu_original_name = ascii ''a.png'', fu_content_type = ascii ''image/png'', fu_size = 9,
     fu_content = png_signature @ [0], fu_storage_key = None, fu_checksum = None\<rparr>"

abbreviation zero_sha :: "nat list \<Rightarrow> ustr" where
  "zero_sha \<equiv> \<lambda>c. replicate 64 48"

lemma sample_files_ready:
  "files_well_formed no_files" "file_env_fresh sample_file_env no_files" "served [ascii ''data''] empty_disk"
  "contents_kept st no_files w" "fu_storage_key sample_upload = None" "guard_looks allow_file_delete"
  by (simp_all add: files_well_formed_def file_tables_ok_def no_files_def file_env_fresh_def sample_file_env_def served_def
      empty_disk_def contents_kept_def sample_upload_def guard_looks_def allow_file_delete_def returnA_def)

theorem stored_files_can_be_opened_witness:
  "case upload_file (Some (local_storage zero_sha [ascii ''data''])) files_commit sample_file_env sample_upload
      (open_session no_files, empty_disk) of
    (r, (s, w)) \<Rightarrow> \<forall>f \<in> set (file_rows (committed s)). \<exists>r \<in> set (file_object_rows (committed s)). \<exists>c.
      fo_file_id r = fr_id f \<and> int (length c) = fo_size r \<and>
      open_file_content (local_storage zero_sha [ascii ''data'']) (fr_id f) (fr_user_id f) (open_session (committed s), w) =
        (Inr \<lparr>fcn_content = c, fcn_content_type = fo_content_type r, fcn_size = fo_size r\<rparr>, (open_session (committed s), w))"
proof (cases "upload_file (Some (local_storage zero_sha [ascii ''data''])) files_commit sample_file_env sample_upload
    (open_session no_files, empty_disk)")
  case (fields r s w)
  have "files_reach (local_storage zero_sha [ascii ''data'']) allow_file_delete (no_files, empty_disk) (committed s, w)"
    using files_reach.uploaded_one [OF files_reach.start sample_files_ready(2,5) fields] .
  from stored_files_can_be_opened [OF this, unfolded fst_conv snd_conv, OF sample_files_ready(6,1,3,4)] show ?thesis
    unfolding fields prod.case .
qed

theorem uploaded_file_is_downloaded_witness:
  "case upload_file (Some (local_storage zero_sha [ascii ''data''])) files_commit sample_file_env sample_upload
      (open_session no_files, empty_disk) of
      (Inl e, (s, w')) \<Rightarrow> s = open_session no_files \<and> (\<exists>d ds. e = ValidationError (d # ds)) \<and>
        (\<forall>k. key_of_some_file k \<and> k \<noteq> build_storage_key (fu_user_id sample_upload) (fe_file_id sample_file_env) \<longrightarrow>
          fst (sto_read (local_storage zero_sha [ascii ''data'']) k w') =
          fst (sto_read (local_storage zero_sha [ascii ''data'']) k empty_disk)) \<and>
        (fu_size sample_upload = int (length (fu_content sample_upload)) \<and>
          mk_checksum (zero_sha (fu_content sample_upload)) = Inr (Checksum (zero_sha (fu_content sample_upload)))
          \<longrightarrow> w' = empty_disk)
    | (Inr res, (s, w')) \<Rightarrow>
        fres_file_id res = fe_file_id sample_file_env \<and> fres_size res = int (length (fu_content sample_upload)) \<and>
        (\<forall>u. open_file_content (local_storage zero_sha [ascii ''data'']) (fe_file_id sample_file_env) u (open_session (committed s), w') =
           (if u = fu_user_id sample_upload
            then Inr \<lparr>fcn_content = fu_content sample_upload, fcn_content_type = fu_content_type sample_upload,
                      fcn_size = int (length (fu_content sample_upload))\<rparr>
            else Inl (FileNotFoundError (fe_file_id sample_file_env)), (open_session (committed s), w')))"
  by (rule uploaded_file_is_downloaded [OF sample_files_ready(1-3,5)])

theorem keys_stay_below_root_witness:
  "target_path [ascii ''data''] (ascii ''a/b'') = Inr [ascii ''data'', ascii ''a'', ascii ''b'']"
  using keys_stay_below_root [of "[ascii ''data'']" "ascii ''a/b''"]
  by (simp add: storage_key_accepted_def ascii_def strip_def lstrip_def rstrip_def is_space_def)

end
