(* ===== verification/Users.thy ===== *)
theory Users
  imports Files_Commands
begin

text \<open>
  The users module: its domain (\<open>app/modules/users/domain\<close>), the tables \<open>users\<close> and
  \<open>user_settings\<close> with their repository (\<open>infrastructure/persistence\<close>), the commands and the query of
  \<open>application\<close>, and the adapters of \<open>dependencies.py\<close> that tie profile images to files.
\<close>

section \<open>Domain\<close>

datatype email = Email (email_text: ustr)

definition email_accepted :: "ustr \<Rightarrow> bool" where
  "email_accepted s \<longleftrightarrow> s \<noteq> [] \<and> strip s = s \<and> 64 \<in> set s \<and> length s \<le> 255"

definition mk_email :: "ustr \<Rightarrow> exn + email" where
  "mk_email s = (if email_accepted s then Inr (Email s) else Inl (ValidationError [ErrorDetail ''email'' ''email_invalid'']))"

lemma email_validates [simp]: "validates (mk_email s)"
  by (simp add: mk_email_def)

record user = "domain_event aggregate_root" +
  us_id :: uuid
  us_name :: "ustr option"
  us_email :: "email option"
  us_nickname :: "ustr option"
  us_profile_image_url :: "ustr option"

text \<open>\<open>_assemble\<close>; the id is the given one or a new one.\<close>

definition assemble_user :: "uuid \<Rightarrow> ustr option \<Rightarrow> ustr option \<Rightarrow> ustr option \<Rightarrow> ustr option \<Rightarrow> exn + user" where
  "assemble_user user_id name mail nickname url = fst (
     bindA (case mail of None \<Rightarrow> returnA None | Some e \<Rightarrow> collect (mk_email e)) (\<lambda>new_email.
     bindA raise_if_any (\<lambda>_.
     returnA \<lparr>pending_events = [], us_id = user_id, us_name = name, us_email = new_email, us_nickname = nickname,
              us_profile_image_url = url\<rparr>)) [])"

definition create_user :: "uuid \<Rightarrow> uuid \<Rightarrow> datetime \<Rightarrow> ustr option \<Rightarrow> ustr option \<Rightarrow> ustr option \<Rightarrow> exn + user" where
  "create_user user_id event_id event_at name mail url =
     bindE (assemble_user user_id name mail None url) (\<lambda>created.
     Inr (record_event (new_event event_id event_at
       (UserRegistered (us_id created) (map_option email_text (us_email created)) (us_name created))) created))"

definition restore_user :: "uuid \<Rightarrow> ustr option \<Rightarrow> ustr option \<Rightarrow> ustr option \<Rightarrow> ustr option \<Rightarrow> exn + user" where
  "restore_user user_id name mail nickname url = assemble_user user_id name mail nickname url"

definition user_update_profile_image_url :: "uuid \<Rightarrow> datetime \<Rightarrow> ustr option \<Rightarrow> user \<Rightarrow> user" where
  "user_update_profile_image_url event_id event_at url u =
     (let updated = \<lparr>pending_events = [], us_id = us_id u, us_name = us_name u, us_email = us_email u,
                     us_nickname = us_nickname u, us_profile_image_url = url\<rparr>
      in record_event (new_event event_id event_at (UserProfileImageChanged (us_id u) (us_profile_image_url u) url)) updated)"

record user_settings =
  uset_id :: uuid
  uset_terms_version :: "ustr option"
  uset_privacy_version :: "ustr option"
  uset_terms_accepted_at :: "datetime option"
  uset_privacy_accepted_at :: "datetime option"

definition mail_ok :: "ustr option \<Rightarrow> bool" where
  "mail_ok m \<longleftrightarrow> (\<forall>e \<in> set_option m. email_accepted e)"

lemma assemble_user_eq:
  "assemble_user i n m k url =
     (if mail_ok m
      then Inr \<lparr>pending_events = [], us_id = i, us_name = n, us_email = map_option Email m, us_nickname = k, us_profile_image_url = url\<rparr>
      else Inl (ValidationError [ErrorDetail ''email'' ''email_invalid'']))"
  by (cases m) (simp_all add: assemble_user_def mail_ok_def mk_email_def action_simps bind_pure)

section \<open>Tables\<close>

record user_settings_row =
  uss_user_id :: uuid
  uss_terms_version :: "ustr option"
  uss_privacy_version :: "ustr option"
  uss_terms_accepted_at :: "datetime option"
  uss_privacy_accepted_at :: "datetime option"
  uss_created_at :: datetime
  uss_updated_at :: datetime

record user_db = file_db +
  user_settings_rows :: "user_settings_row list"

definition fits_opt :: "nat \<Rightarrow> ustr option \<Rightarrow> bool" where
  "fits_opt n v \<longleftrightarrow> (\<forall>s \<in> set_option v. fits n s)"

definition user_row_checks :: "user_row \<Rightarrow> (bool \<times> exn) list" where
  "user_row_checks r =
     [(fits_opt 255 (ur_name r) \<and> fits_opt 255 (ur_nickname r) \<and> fits_opt 255 (ur_email r) \<and>
       fits_opt 2048 (ur_profile_image_url r), DataError)]"

definition settings_row_checks :: "user_settings_row \<Rightarrow> (bool \<times> exn) list" where
  "settings_row_checks r = [(fits_opt 50 (uss_terms_version r) \<and> fits_opt 50 (uss_privacy_version r), DataError)]"

definition user_checks :: "'z user_db_scheme \<Rightarrow> (bool \<times> exn) list" where
  "user_checks db =
     concat (map user_row_checks (user_rows db)) @
     [(distinct (map ur_id (user_rows db)), IntegrityError ''pk_users'')] @
     concat (map settings_row_checks (user_settings_rows db)) @
     [(distinct (map uss_user_id (user_settings_rows db)), IntegrityError ''pk_user_settings''),
      (list_all (\<lambda>r. exists_row (\<lambda>u. ur_id u = uss_user_id r) (user_rows db)) (user_settings_rows db),
       IntegrityError ''fk_user_settings_user_id_users''),
      (distinct (map ob_event_id (outbox_events db)), IntegrityError ''uq_outbox_events_event_id'')]"

definition user_violation :: "'z user_db_scheme \<Rightarrow> exn option" where
  "user_violation db = first_violation (user_checks db)"

definition user_tables_ok :: "'z user_db_scheme \<Rightarrow> bool" where
  "user_tables_ok db \<longleftrightarrow>
     (\<forall>r \<in> set (user_rows db). \<forall>(ok, e) \<in> set (user_row_checks r). ok) \<and> distinct (map ur_id (user_rows db)) \<and>
     (\<forall>r \<in> set (user_settings_rows db). \<forall>(ok, e) \<in> set (settings_row_checks r). ok) \<and>
     distinct (map uss_user_id (user_settings_rows db)) \<and>
     (\<forall>r \<in> set (user_settings_rows db). \<exists>u \<in> set (user_rows db). ur_id u = uss_user_id r) \<and>
     distinct (map ob_event_id (outbox_events db))"

lemma user_violation_None: "user_violation db = None \<longleftrightarrow> user_tables_ok db"
  unfolding user_violation_def first_violation_None user_checks_def user_tables_ok_def
  by (simp only: checks_simps list_all_iff exists_row_iff conj_assoc simp_thms)

section \<open>Repository\<close>

type_synonym ('z, 'a) user_action = "('z user_db_scheme session, exn, 'a) action"

definition flush_users :: "('z, unit) user_action" where
  "flush_users = flush_session user_violation"

definition user_to_domain :: "user_row \<Rightarrow> exn + user" where
  "user_to_domain r = restore_user (ur_id r) (ur_name r) (ur_email r) (ur_nickname r) (ur_profile_image_url r)"

definition user_to_record :: "datetime \<Rightarrow> user \<Rightarrow> user_row" where
  "user_to_record db_now u =
     \<lparr>ur_id = us_id u, ur_name = us_name u, ur_nickname = us_nickname u, ur_email = map_option email_text (us_email u),
      ur_profile_image_url = us_profile_image_url u, ur_created_at = db_now, ur_updated_at = db_now\<rparr>"

definition user_settings_to_domain :: "user_settings_row \<Rightarrow> user_settings" where
  "user_settings_to_domain r =
     \<lparr>uset_id = uss_user_id r, uset_terms_version = uss_terms_version r, uset_privacy_version = uss_privacy_version r,
      uset_terms_accepted_at = uss_terms_accepted_at r, uset_privacy_accepted_at = uss_privacy_accepted_at r\<rparr>"

definition user_settings_to_record :: "datetime \<Rightarrow> user_settings \<Rightarrow> user_settings_row" where
  "user_settings_to_record db_now s =
     \<lparr>uss_user_id = uset_id s, uss_terms_version = uset_terms_version s, uss_privacy_version = uset_privacy_version s,
      uss_terms_accepted_at = uset_terms_accepted_at s, uss_privacy_accepted_at = uset_privacy_accepted_at s,
      uss_created_at = db_now, uss_updated_at = db_now\<rparr>"

text \<open>What a call takes from its surroundings: new identifiers and the clocks of the process and the database.\<close>

record user_env =
  ue_user_id :: uuid
  ue_event_id :: uuid
  ue_event_at :: datetime
  ue_now :: datetime
  ue_db_now :: datetime

definition add_user_row :: "user_row \<Rightarrow> 'z user_db_scheme \<Rightarrow> 'z user_db_scheme" where
  "add_user_row r db = db\<lparr>user_rows := user_rows db @ [r]\<rparr>"

definition add_settings_row :: "user_settings_row \<Rightarrow> 'z user_db_scheme \<Rightarrow> 'z user_db_scheme" where
  "add_settings_row r db = db\<lparr>user_settings_rows := user_settings_rows db @ [r]\<rparr>"

definition repo_create_user :: "user_env \<Rightarrow> ustr option \<Rightarrow> ustr option \<Rightarrow> ('z, user) user_action" where
  "repo_create_user env name mail =
     bindA (liftE (create_user (ue_user_id env) (ue_event_id env) (ue_event_at env) name mail None)) (\<lambda>u.
     bindA (write_session (add_user_row (user_to_record (ue_db_now env) u))) (\<lambda>_.
     bindA flush_users (\<lambda>_.
     returnA u)))"

definition repo_create_account_state :: "datetime \<Rightarrow> user \<Rightarrow> user_settings \<Rightarrow> ('z, user \<times> user_settings) user_action" where
  "repo_create_account_state db_now u s =
     bindA (write_session (add_user_row (user_to_record db_now u))) (\<lambda>_.
     bindA (write_session (add_settings_row (user_settings_to_record db_now s))) (\<lambda>_.
     bindA flush_users (\<lambda>_.
     returnA (u, s))))"

definition get_user_row :: "uuid \<Rightarrow> 'z user_db_scheme \<Rightarrow> user_row option" where
  "get_user_row user_id db = find (\<lambda>r. ur_id r = user_id) (user_rows db)"

definition get_settings_row :: "uuid \<Rightarrow> 'z user_db_scheme \<Rightarrow> user_settings_row option" where
  "get_settings_row user_id db = find (\<lambda>r. uss_user_id r = user_id) (user_settings_rows db)"

definition account_state :: "user_row \<Rightarrow> ('z, user \<times> user_settings) user_action" where
  "account_state r =
     bindA (query_session (get_settings_row (ur_id r))) (\<lambda>record.
     bindA (liftE (user_to_domain r)) (\<lambda>u.
     returnA (u, case record of
                   None \<Rightarrow> \<lparr>uset_id = ur_id r, uset_terms_version = None, uset_privacy_version = None,
                            uset_terms_accepted_at = None, uset_privacy_accepted_at = None\<rparr>
                 | Some s \<Rightarrow> user_settings_to_domain s)))"

definition repo_find_account_state :: "uuid \<Rightarrow> ('z, (user \<times> user_settings) option) user_action" where
  "repo_find_account_state user_id =
     bindA (query_session (get_user_row user_id)) (\<lambda>record.
     case record of None \<Rightarrow> returnA None | Some r \<Rightarrow> bindA (account_state r) (\<lambda>x. returnA (Some x)))"

text \<open>\<open>update_settings\<close>; the database stamps \<open>updated_at\<close> when a column changes.\<close>

definition apply_settings :: "datetime \<Rightarrow> user_settings \<Rightarrow> user_settings_row \<Rightarrow> user_settings_row" where
  "apply_settings db_now s r =
     (let r' = r\<lparr>uss_terms_version := uset_terms_version s, uss_privacy_version := uset_privacy_version s,
                 uss_terms_accepted_at := uset_terms_accepted_at s, uss_privacy_accepted_at := uset_privacy_accepted_at s\<rparr>
      in if r' = r then r else r'\<lparr>uss_updated_at := db_now\<rparr>)"

definition repo_update_user_settings :: "datetime \<Rightarrow> user_settings \<Rightarrow> ('z, user_settings) user_action" where
  "repo_update_user_settings db_now s =
     bindA (query_session (get_settings_row (uset_id s))) (\<lambda>record.
     case record of
       None \<Rightarrow>
         bindA (write_session (add_settings_row (user_settings_to_record db_now s))) (\<lambda>_.
         bindA flush_users (\<lambda>_. returnA s))
     | Some r \<Rightarrow>
         bindA (write_session (\<lambda>db. db\<lparr>user_settings_rows :=
                  update_rows (\<lambda>x. uss_user_id x = uset_id s) (apply_settings db_now s) (user_settings_rows db)\<rparr>)) (\<lambda>_.
         bindA flush_users (\<lambda>_. returnA (user_settings_to_domain (apply_settings db_now s r)))))"

definition set_profile_url :: "datetime \<Rightarrow> ustr option \<Rightarrow> user_row \<Rightarrow> user_row" where
  "set_profile_url db_now url r =
     (if ur_profile_image_url r = url then r else r\<lparr>ur_profile_image_url := url, ur_updated_at := db_now\<rparr>)"

definition put_profile_url :: "datetime \<Rightarrow> uuid \<Rightarrow> ustr option \<Rightarrow> 'z user_db_scheme \<Rightarrow> 'z user_db_scheme" where
  "put_profile_url db_now user_id url db =
     db\<lparr>user_rows := update_rows (\<lambda>r. ur_id r = user_id) (set_profile_url db_now url) (user_rows db)\<rparr>"

definition repo_update_profile_image_url :: "user_env \<Rightarrow> uuid \<Rightarrow> ustr option \<Rightarrow> ('z, user) user_action" where
  "repo_update_profile_image_url env user_id url =
     bindA (query_session (get_user_row user_id)) (\<lambda>record.
     case record of
       None \<Rightarrow> raiseA (NotFoundError ''user_not_found'')
     | Some r \<Rightarrow>
         bindA (liftE (user_to_domain r)) (\<lambda>current.
         let updated = user_update_profile_image_url (ue_event_id env) (ue_event_at env) url current
         in
         bindA (write_session (put_profile_url (ue_db_now env) user_id (us_profile_image_url updated))) (\<lambda>_.
         bindA flush_users (\<lambda>_.
         returnA updated))))"

definition drop_user_settings :: "uuid \<Rightarrow> 'z user_db_scheme \<Rightarrow> 'z user_db_scheme" where
  "drop_user_settings user_id db =
     db\<lparr>user_settings_rows := filter (\<lambda>r. uss_user_id r \<noteq> user_id) (user_settings_rows db)\<rparr>"

text \<open>Deleting a user row deletes what is left of its settings (\<open>ON DELETE CASCADE\<close>).\<close>

definition drop_user :: "uuid \<Rightarrow> 'z user_db_scheme \<Rightarrow> 'z user_db_scheme" where
  "drop_user user_id db = drop_user_settings user_id (db\<lparr>user_rows := filter (\<lambda>r. ur_id r \<noteq> user_id) (user_rows db)\<rparr>)"

definition repo_delete_account_state :: "uuid \<Rightarrow> ('z, unit) user_action" where
  "repo_delete_account_state user_id =
     bindA (write_session (drop_user_settings user_id)) (\<lambda>_. write_session (drop_user user_id))"

definition repo_delete_user :: "uuid \<Rightarrow> ('z, unit) user_action" where
  "repo_delete_user user_id = repo_delete_account_state user_id"

section \<open>Commands\<close>

definition users_commit :: "('z, unit) user_action" where
  "users_commit = sqlalchemy_commit user_violation"

definition provision_user :: "('z, unit) user_action \<Rightarrow> user_env \<Rightarrow> ustr option \<Rightarrow> ustr option \<Rightarrow> ('z, uuid) user_action" where
  "provision_user uow_commit env name mail =
     bindA (repo_create_user env name mail) (\<lambda>u.
     bindA (publish build_users_event_registry (fst (pull_events u))) (\<lambda>_.
     bindA uow_commit (\<lambda>_.
     returnA (us_id u))))"

definition withdrawn_event :: "user_env \<Rightarrow> uuid \<Rightarrow> domain_event" where
  "withdrawn_event env user_id = new_event (ue_event_id env) (ue_event_at env) (UserWithdrawn user_id)"

definition delete_user :: "('z, unit) user_action \<Rightarrow> user_env \<Rightarrow> uuid \<Rightarrow> ('z, unit) user_action" where
  "delete_user uow_commit env user_id =
     bindA (repo_delete_user user_id) (\<lambda>_.
     bindA (publish build_users_event_registry [withdrawn_event env user_id]) (\<lambda>_. uow_commit))"

definition withdrawal_cleanup :: "('z, unit) user_action \<Rightarrow> user_env \<Rightarrow> uuid \<Rightarrow> ('z, unit) user_action" where
  "withdrawal_cleanup uow_commit env user_id =
     bindA (repo_delete_account_state user_id) (\<lambda>_.
     bindA (publish build_users_event_registry [withdrawn_event env user_id]) (\<lambda>_. uow_commit))"

text \<open>\<open>resolve_user_for_login\<close>: consent is checked before anything is stored.\<close>

record resolve_command =
  rv_name :: "ustr option"
  rv_email :: "ustr option"
  rv_profile_image_url :: "ustr option"
  rv_terms_version :: "ustr option"
  rv_privacy_version :: "ustr option"
  rv_terms_accepted :: bool
  rv_privacy_accepted :: bool

definition normalized_consent_version :: "ustr option \<Rightarrow> ustr option" where
  "normalized_consent_version v = (case v of None \<Rightarrow> None | Some s \<Rightarrow> if strip s = [] then None else Some (strip s))"

definition require_consent :: "resolve_command \<Rightarrow> ustr option \<Rightarrow> ustr option \<Rightarrow> exn + unit" where
  "require_consent cmd terms privacy =
     (let details =
        (if \<not> rv_terms_accepted cmd then [ErrorDetail ''termsAccepted'' ''terms_required''] else []) @
        (if rv_terms_accepted cmd \<and> terms = None then [ErrorDetail ''termsVersion'' ''terms_version_required''] else []) @
        (if rv_terms_accepted cmd \<and> \<not> fits_opt 50 terms then [ErrorDetail ''termsVersion'' ''terms_version_too_long''] else []) @
        (if \<not> rv_privacy_accepted cmd then [ErrorDetail ''privacyAccepted'' ''privacy_required''] else []) @
        (if rv_privacy_accepted cmd \<and> privacy = None then [ErrorDetail ''privacyVersion'' ''privacy_version_required''] else []) @
        (if rv_privacy_accepted cmd \<and> \<not> fits_opt 50 privacy then [ErrorDetail ''privacyVersion'' ''privacy_version_too_long''] else [])
      in if details \<noteq> [] then Inl (ValidationError details) else Inr ())"

definition resolve_user_for_login :: "('z, unit) user_action \<Rightarrow> user_env \<Rightarrow> resolve_command \<Rightarrow> ('z, uuid) user_action" where
  "resolve_user_for_login uow_commit env cmd =
     (let terms = normalized_consent_version (rv_terms_version cmd);
          privacy = normalized_consent_version (rv_privacy_version cmd)
      in
      bindA (liftE (require_consent cmd terms privacy)) (\<lambda>_.
      bindA (liftE (create_user (ue_user_id env) (ue_event_id env) (ue_event_at env) (rv_name cmd) (rv_email cmd)
                      (rv_profile_image_url cmd))) (\<lambda>u.
      bindA (repo_create_account_state (ue_db_now env) (snd (pull_events u))
               \<lparr>uset_id = us_id u, uset_terms_version = terms, uset_privacy_version = privacy,
                uset_terms_accepted_at = (if rv_terms_accepted cmd then Some (ue_now env) else None),
                uset_privacy_accepted_at = (if rv_privacy_accepted cmd then Some (ue_now env) else None)\<rparr>) (\<lambda>state.
      bindA (publish build_users_event_registry (fst (pull_events u))) (\<lambda>_.
      bindA uow_commit (\<lambda>_.
      returnA (us_id (fst state))))))))"

section \<open>Profile images\<close>

text \<open>\<open>FileRepositoryProfileImageFileValidator\<close> and \<open>UserProfileImageFileReferenceGuard\<close> of \<open>dependencies.py\<close>.\<close>

definition ensure_owned_image_file :: "uuid \<Rightarrow> uuid \<Rightarrow> ('z, unit) file_action" where
  "ensure_owned_image_file user_id file_id =
     bindA (repo_find_file_for_user file_id user_id) (\<lambda>found.
     case found of None \<Rightarrow> raiseA (NotFoundError ''file_not_found'') | Some _ \<Rightarrow> returnA ())"

definition profile_image_path :: "uuid \<Rightarrow> ustr" where
  "profile_image_path file_id = ascii ''/files/'' @ uuid_str file_id @ ascii ''/content''"

definition ensure_not_profile_image :: "uuid \<Rightarrow> ('z, unit) file_action" where
  "ensure_not_profile_image file_id =
     bindA (query_session (\<lambda>db. exists_row (\<lambda>r. ur_profile_image_url r = Some (profile_image_path file_id)) (user_rows db))) (\<lambda>used.
     if used then raiseA (ConflictError ''file_is_profile_image'') else returnA ())"

definition set_profile_image :: "('z, unit) user_action \<Rightarrow> user_env \<Rightarrow> uuid \<Rightarrow> uuid \<Rightarrow> ('z, ustr) user_action" where
  "set_profile_image uow_commit env user_id file_id =
     bindA (ensure_owned_image_file user_id file_id) (\<lambda>_.
     bindA (repo_update_profile_image_url env user_id (Some (profile_image_path file_id))) (\<lambda>updated.
     bindA (publish build_users_event_registry (fst (pull_events updated))) (\<lambda>_.
     bindA uow_commit (\<lambda>_.
     returnA (profile_image_path file_id)))))"

definition clear_profile_image :: "('z, unit) user_action \<Rightarrow> user_env \<Rightarrow> uuid \<Rightarrow> ('z, unit) user_action" where
  "clear_profile_image uow_commit env user_id =
     bindA (repo_update_profile_image_url env user_id None) (\<lambda>updated.
     bindA (publish build_users_event_registry (fst (pull_events updated))) (\<lambda>_. uow_commit))"

section \<open>The profile of a user\<close>

record profile_result =
  pfr_user_id :: uuid
  pfr_email :: "ustr option"
  pfr_name :: "ustr option"
  pfr_nickname :: "ustr option"
  pfr_profile_image_url :: "ustr option"

definition profile_result_of :: "user \<Rightarrow> profile_result" where
  "profile_result_of u =
     \<lparr>pfr_user_id = us_id u, pfr_email = map_option email_text (us_email u), pfr_name = us_name u,
      pfr_nickname = us_nickname u, pfr_profile_image_url = us_profile_image_url u\<rparr>"

definition current_user_profile :: "uuid \<Rightarrow> ('z, profile_result) user_action" where
  "current_user_profile user_id =
     bindA (repo_find_account_state user_id) (\<lambda>state.
     case state of
       None \<Rightarrow> raiseA (NotFoundError ''user_not_found'')
     | Some x \<Rightarrow> returnA (profile_result_of (fst x)))"

text \<open>\<open>_with_api_prefix\<close> of the routers; \<open>rstrip("/")\<close> of the configured prefix.\<close>

definition with_api_prefix :: "ustr \<Rightarrow> ustr option \<Rightarrow> ustr option" where
  "with_api_prefix api_prefix path =
     (case path of
        None \<Rightarrow> None
      | Some p \<Rightarrow> if p = [] \<or> hd p \<noteq> 47 then Some p
                  else Some (rev (dropWhile (\<lambda>c. c = 47) (rev api_prefix)) @ p))"

end
