(* ===== verification/Auth.thy ===== *)
theory Auth
  imports Users
begin

text \<open>
  The auth module: its domain (\<open>app/modules/auth/domain\<close>), the tables of credentials, external
  identities, sessions and refresh tokens, and the repository over them
  (\<open>infrastructure/persistence\<close>: \<open>orm.py\<close>, \<open>mapper.py\<close>, \<open>credential_repository.py\<close>).
\<close>

section \<open>Value objects\<close>

datatype issuer = Issuer (issuer_text: ustr)
datatype subject = Subject (subject_text: ustr)
datatype provider = Provider (provider_text: ustr)
datatype identity_email = IdentityEmail (identity_email_text: ustr)
datatype role = Role (role_text: ustr)
datatype token_hash = TokenHash (hash_text: ustr)

definition sized_text :: "nat \<Rightarrow> ustr \<Rightarrow> bool" where
  "sized_text n s \<longleftrightarrow> s \<noteq> [] \<and> length s \<le> n"

definition mk_issuer :: "ustr \<Rightarrow> exn + issuer" where
  "mk_issuer s = (if sized_text 50 s then Inr (Issuer s) else Inl (ValidationError [ErrorDetail ''issuer'' ''issuer_invalid'']))"

definition mk_subject :: "ustr \<Rightarrow> exn + subject" where
  "mk_subject s = (if sized_text 255 s then Inr (Subject s) else Inl (ValidationError [ErrorDetail ''subject'' ''subject_invalid'']))"

definition mk_provider :: "ustr \<Rightarrow> exn + provider" where
  "mk_provider s = (if sized_text 50 s then Inr (Provider s) else Inl (ValidationError [ErrorDetail ''provider'' ''provider_invalid'']))"

definition identity_email_accepted :: "ustr \<Rightarrow> bool" where
  "identity_email_accepted s \<longleftrightarrow> s \<noteq> [] \<and> strip s = s \<and> 64 \<in> set s \<and> length s \<le> 255"

definition mk_identity_email :: "ustr \<Rightarrow> exn + identity_email" where
  "mk_identity_email s =
     (if identity_email_accepted s then Inr (IdentityEmail s) else Inl (ValidationError [ErrorDetail ''email'' ''email_invalid'']))"

definition allowed_roles :: "ustr list" where
  "allowed_roles = map ascii [''user'', ''admin'']"

definition mk_role :: "ustr \<Rightarrow> exn + role" where
  "mk_role s = (if s \<in> set allowed_roles then Inr (Role s) else Inl (ValidationError [ErrorDetail ''role'' ''role_invalid'']))"

definition mk_token_hash :: "ustr \<Rightarrow> exn + token_hash" where
  "mk_token_hash s =
     (if sized_text 255 s then Inr (TokenHash s) else Inl (ValidationError [ErrorDetail ''tokenHash'' ''token_hash_invalid'']))"

lemma auth_values_validate [simp]:
  "validates (mk_issuer s)" "validates (mk_subject s)" "validates (mk_provider s)" "validates (mk_identity_email s)"
  "validates (mk_role s)" "validates (mk_token_hash s)"
  by (simp_all add: mk_issuer_def mk_subject_def mk_provider_def mk_identity_email_def mk_role_def mk_token_hash_def)

section \<open>Aggregates\<close>

record user_credential = "domain_event aggregate_root" +
  crd_id :: uuid
  crd_user_id :: uuid
  crd_role :: role
  crd_last_login_at :: "datetime option"

definition assemble_credential :: "uuid \<Rightarrow> uuid \<Rightarrow> ustr \<Rightarrow> datetime option \<Rightarrow> exn + user_credential" where
  "assemble_credential credentials_id user_id role_name last_login_at =
     bindE (mk_role role_name) (\<lambda>r.
     Inr \<lparr>pending_events = [], crd_id = credentials_id, crd_user_id = user_id, crd_role = r, crd_last_login_at = last_login_at\<rparr>)"

definition create_credential :: "uuid \<Rightarrow> uuid \<Rightarrow> datetime \<Rightarrow> uuid \<Rightarrow> ustr \<Rightarrow> datetime option \<Rightarrow> exn + user_credential" where
  "create_credential credentials_id event_id event_at user_id role_name last_login_at =
     bindE (assemble_credential credentials_id user_id role_name last_login_at) (\<lambda>created.
     Inr (record_event (new_event event_id event_at
       (UserCredentialCreated (crd_id created) (crd_user_id created) (role_text (crd_role created)))) created))"

definition restore_credential :: "uuid \<Rightarrow> uuid \<Rightarrow> ustr \<Rightarrow> datetime option \<Rightarrow> exn + user_credential" where
  "restore_credential credentials_id user_id role_name last_login_at =
     assemble_credential credentials_id user_id role_name last_login_at"

record external_identity =
  xi_id :: uuid
  xi_credentials_id :: "uuid option"
  xi_issuer :: issuer
  xi_subject :: subject
  xi_provider :: provider
  xi_email :: "identity_email option"
  xi_email_verified :: bool
  xi_name :: "ustr option"

definition create_external_identity ::
    "uuid \<Rightarrow> ustr \<Rightarrow> ustr \<Rightarrow> ustr \<Rightarrow> ustr option \<Rightarrow> ustr option \<Rightarrow> bool \<Rightarrow> exn + external_identity" where
  "create_external_identity identity_id iss sub prov mail name verified = fst (
     bindA (collect (mk_issuer iss)) (\<lambda>new_issuer.
     bindA (collect (mk_subject sub)) (\<lambda>new_subject.
     bindA (collect (mk_provider prov)) (\<lambda>new_provider.
     bindA (case mail of None \<Rightarrow> returnA None | Some e \<Rightarrow> collect (mk_identity_email e)) (\<lambda>new_email.
     bindA raise_if_any (\<lambda>_.
     case (new_issuer, new_subject, new_provider) of
       (Some i, Some s, Some p) \<Rightarrow>
         returnA \<lparr>xi_id = identity_id, xi_credentials_id = None, xi_issuer = i, xi_subject = s, xi_provider = p,
                  xi_email = new_email, xi_email_verified = verified, xi_name = name\<rparr>
     | _ \<Rightarrow> raiseA PyTypeError))))) [])"

record auth_session =
  ses_id :: uuid
  ses_credentials_id :: uuid
  ses_revoked_at :: "datetime option"

record refresh_token =
  rft_id :: uuid
  rft_credentials_id :: uuid
  rft_token_hash :: token_hash
  rft_expires_at :: datetime
  rft_session_id :: "uuid option"

definition create_refresh_token :: "uuid \<Rightarrow> uuid \<Rightarrow> ustr \<Rightarrow> datetime \<Rightarrow> uuid option \<Rightarrow> exn + refresh_token" where
  "create_refresh_token refresh_token_id credentials_id hash expires_at session_id =
     bindE (mk_token_hash hash) (\<lambda>h.
     Inr \<lparr>rft_id = refresh_token_id, rft_credentials_id = credentials_id, rft_token_hash = h, rft_expires_at = expires_at,
          rft_session_id = session_id\<rparr>)"

section \<open>Tables\<close>

record credential_row =
  cd_id :: uuid
  cd_user_id :: uuid
  cd_role :: ustr
  cd_last_login_at :: "datetime option"
  cd_created_at :: datetime
  cd_updated_at :: datetime

record identity_row =
  ei_id :: uuid
  ei_credentials_id :: uuid
  ei_issuer :: ustr
  ei_subject :: ustr
  ei_provider :: ustr
  ei_email :: "ustr option"
  ei_normalized_email :: "ustr option"
  ei_email_verified :: bool
  ei_created_at :: datetime
  ei_updated_at :: datetime

record session_row =
  sn_id :: uuid
  sn_credentials_id :: uuid
  sn_revoked_at :: "datetime option"
  sn_created_at :: datetime
  sn_updated_at :: datetime

record refresh_row =
  rt_id :: uuid
  rt_credentials_id :: uuid
  rt_session_id :: "uuid option"
  rt_token_hash :: ustr
  rt_expires_at :: datetime
  rt_created_at :: datetime

record auth_db = user_db +
  credential_rows :: "credential_row list"
  identity_rows :: "identity_row list"
  session_rows :: "session_row list"
  refresh_rows :: "refresh_row list"

definition identity_row_checks :: "identity_row \<Rightarrow> (bool \<times> exn) list" where
  "identity_row_checks r =
     [(fits 50 (ei_issuer r) \<and> fits 255 (ei_subject r) \<and> fits 50 (ei_provider r) \<and> fits_opt 255 (ei_email r) \<and>
       fits_opt 255 (ei_normalized_email r), DataError)]"

definition has_credential :: "uuid \<Rightarrow> 'z auth_db_scheme \<Rightarrow> bool" where
  "has_credential i db \<longleftrightarrow> exists_row (\<lambda>c. cd_id c = i) (credential_rows db)"

definition has_session :: "uuid option \<Rightarrow> 'z auth_db_scheme \<Rightarrow> bool" where
  "has_session i db \<longleftrightarrow> (case i of None \<Rightarrow> True | Some j \<Rightarrow> exists_row (\<lambda>s. sn_id s = j) (session_rows db))"

definition auth_checks :: "'z auth_db_scheme \<Rightarrow> (bool \<times> exn) list" where
  "auth_checks db =
     concat (map (\<lambda>r. [(fits 50 (cd_role r), DataError)]) (credential_rows db)) @
     [(distinct (map cd_id (credential_rows db)), IntegrityError ''pk_user_credentials''),
      (distinct (map cd_user_id (credential_rows db)), IntegrityError ''uq_user_credentials_user_id'')] @
     concat (map identity_row_checks (identity_rows db)) @
     [(distinct (map ei_id (identity_rows db)), IntegrityError ''pk_external_identities''),
      (distinct (map (\<lambda>r. (ei_issuer r, ei_subject r)) (identity_rows db)), IntegrityError ''uq_external_identities_issuer''),
      (distinct (map (\<lambda>r. (ei_credentials_id r, ei_issuer r)) (identity_rows db)),
       IntegrityError ''uq_external_identities_credentials_id''),
      (list_all (\<lambda>r. has_credential (ei_credentials_id r) db) (identity_rows db),
       IntegrityError ''fk_external_identities_credentials_id_user_credentials''),
      (distinct (map sn_id (session_rows db)), IntegrityError ''pk_auth_sessions''),
      (list_all (\<lambda>r. has_credential (sn_credentials_id r) db) (session_rows db),
       IntegrityError ''fk_auth_sessions_credentials_id_user_credentials'')] @
     concat (map (\<lambda>r. [(fits 255 (rt_token_hash r), DataError)]) (refresh_rows db)) @
     [(distinct (map rt_id (refresh_rows db)), IntegrityError ''pk_refresh_tokens''),
      (distinct (map rt_token_hash (refresh_rows db)), IntegrityError ''uq_refresh_tokens_token_hash''),
      (list_all (\<lambda>r. has_credential (rt_credentials_id r) db) (refresh_rows db),
       IntegrityError ''fk_refresh_tokens_credentials_id_user_credentials''),
      (list_all (\<lambda>r. has_session (rt_session_id r) db) (refresh_rows db),
       IntegrityError ''fk_refresh_tokens_session_id_auth_sessions''),
      (distinct (map ob_event_id (outbox_events db)), IntegrityError ''uq_outbox_events_event_id'')]"

definition auth_violation :: "'z auth_db_scheme \<Rightarrow> exn option" where
  "auth_violation db = first_violation (auth_checks db)"

definition auth_tables_ok :: "'z auth_db_scheme \<Rightarrow> bool" where
  "auth_tables_ok db \<longleftrightarrow>
     (\<forall>r \<in> set (credential_rows db). fits 50 (cd_role r)) \<and>
     distinct (map cd_id (credential_rows db)) \<and> distinct (map cd_user_id (credential_rows db)) \<and>
     (\<forall>r \<in> set (identity_rows db). \<forall>(ok, e) \<in> set (identity_row_checks r). ok) \<and>
     distinct (map ei_id (identity_rows db)) \<and> distinct (map (\<lambda>r. (ei_issuer r, ei_subject r)) (identity_rows db)) \<and>
     distinct (map (\<lambda>r. (ei_credentials_id r, ei_issuer r)) (identity_rows db)) \<and>
     (\<forall>r \<in> set (identity_rows db). has_credential (ei_credentials_id r) db) \<and>
     distinct (map sn_id (session_rows db)) \<and> (\<forall>r \<in> set (session_rows db). has_credential (sn_credentials_id r) db) \<and>
     (\<forall>r \<in> set (refresh_rows db). fits 255 (rt_token_hash r)) \<and>
     distinct (map rt_id (refresh_rows db)) \<and> distinct (map rt_token_hash (refresh_rows db)) \<and>
     (\<forall>r \<in> set (refresh_rows db). has_credential (rt_credentials_id r) db) \<and>
     (\<forall>r \<in> set (refresh_rows db). has_session (rt_session_id r) db) \<and>
     distinct (map ob_event_id (outbox_events db))"

lemma auth_violation_None: "auth_violation db = None \<longleftrightarrow> auth_tables_ok db"
  unfolding auth_violation_def first_violation_None auth_checks_def auth_tables_ok_def
  by (simp only: checks_simps list_all_iff conj_assoc simp_thms)

section \<open>Mapping\<close>

definition credential_to_domain :: "credential_row \<Rightarrow> exn + user_credential" where
  "credential_to_domain r = restore_credential (cd_id r) (cd_user_id r) (cd_role r) (cd_last_login_at r)"

definition credential_to_record :: "datetime \<Rightarrow> user_credential \<Rightarrow> credential_row" where
  "credential_to_record db_now c =
     \<lparr>cd_id = crd_id c, cd_user_id = crd_user_id c, cd_role = role_text (crd_role c), cd_last_login_at = crd_last_login_at c,
      cd_created_at = db_now, cd_updated_at = db_now\<rparr>"

text \<open>\<open>str.lower\<close> of Python is the parameter \<open>lower\<close>.\<close>

definition canonical_email :: "(ustr \<Rightarrow> ustr) \<Rightarrow> external_identity \<Rightarrow> ustr option" where
  "canonical_email lower x = map_option (\<lambda>e. lower (identity_email_text e)) (xi_email x)"

definition identity_to_record :: "(ustr \<Rightarrow> ustr) \<Rightarrow> datetime \<Rightarrow> uuid \<Rightarrow> external_identity \<Rightarrow> identity_row" where
  "identity_to_record lower db_now credentials_id x =
     \<lparr>ei_id = xi_id x, ei_credentials_id = credentials_id, ei_issuer = issuer_text (xi_issuer x),
      ei_subject = subject_text (xi_subject x), ei_provider = provider_text (xi_provider x),
      ei_email = map_option identity_email_text (xi_email x), ei_normalized_email = canonical_email lower x,
      ei_email_verified = xi_email_verified x, ei_created_at = db_now, ei_updated_at = db_now\<rparr>"

definition session_to_record :: "datetime \<Rightarrow> auth_session \<Rightarrow> session_row" where
  "session_to_record db_now s =
     \<lparr>sn_id = ses_id s, sn_credentials_id = ses_credentials_id s, sn_revoked_at = ses_revoked_at s, sn_created_at = db_now,
      sn_updated_at = db_now\<rparr>"

definition refresh_to_record :: "datetime \<Rightarrow> refresh_token \<Rightarrow> refresh_row" where
  "refresh_to_record db_now t =
     \<lparr>rt_id = rft_id t, rt_credentials_id = rft_credentials_id t, rt_session_id = rft_session_id t,
      rt_token_hash = hash_text (rft_token_hash t), rt_expires_at = rft_expires_at t, rt_created_at = db_now\<rparr>"

section \<open>Repository\<close>

type_synonym ('z, 'a) auth_action = "('z auth_db_scheme session, exn, 'a) action"

definition flush_auth :: "('z, unit) auth_action" where
  "flush_auth = flush_session auth_violation"

definition credential_by_id :: "uuid \<Rightarrow> 'z auth_db_scheme \<Rightarrow> credential_row option" where
  "credential_by_id i db = find (\<lambda>c. cd_id c = i) (credential_rows db)"

definition session_by_id :: "uuid \<Rightarrow> 'z auth_db_scheme \<Rightarrow> session_row option" where
  "session_by_id i db = find (\<lambda>s. sn_id s = i) (session_rows db)"

text \<open>
  The credential joined to the first identity that satisfies the condition; where several do, the
  database is free to return any, and the table order is taken here.
\<close>

definition joined_credential :: "(identity_row \<Rightarrow> bool) \<Rightarrow> 'z auth_db_scheme \<Rightarrow> credential_row option" where
  "joined_credential p db =
     Option.bind (find (\<lambda>r. p r \<and> has_credential (ei_credentials_id r) db) (identity_rows db))
       (\<lambda>r. credential_by_id (ei_credentials_id r) db)"

definition is_identity :: "external_identity \<Rightarrow> identity_row \<Rightarrow> bool" where
  "is_identity x r \<longleftrightarrow> ei_issuer r = issuer_text (xi_issuer x) \<and> ei_subject r = subject_text (xi_subject x)"

definition has_verified_email :: "ustr \<Rightarrow> identity_row \<Rightarrow> bool" where
  "has_verified_email mail r \<longleftrightarrow> ei_normalized_email r = Some mail \<and> ei_email_verified r"

definition restored :: "credential_row option \<Rightarrow> exn + user_credential option" where
  "restored record = (case record of None \<Rightarrow> Inr None | Some r \<Rightarrow> bindE (credential_to_domain r) (\<lambda>c. Inr (Some c)))"

definition repo_find_by_external_identity :: "external_identity \<Rightarrow> ('z, user_credential option) auth_action" where
  "repo_find_by_external_identity x =
     bindA (query_session (joined_credential (is_identity x))) (\<lambda>record. liftE (restored record))"

definition repo_find_by_verified_email :: "ustr \<Rightarrow> ('z, user_credential option) auth_action" where
  "repo_find_by_verified_email mail =
     bindA (query_session (joined_credential (has_verified_email mail))) (\<lambda>record. liftE (restored record))"

definition repo_find_credential_by_user_id :: "uuid \<Rightarrow> ('z, user_credential option) auth_action" where
  "repo_find_credential_by_user_id user_id =
     bindA (query_session (\<lambda>db. find (\<lambda>c. cd_user_id c = user_id) (credential_rows db))) (\<lambda>record. liftE (restored record))"

text \<open>What a call takes from its surroundings: new identifiers, the clocks, and what others commit while it waits.\<close>

record 'db auth_env =
  ae_now :: datetime
  ae_db_now :: datetime
  ae_identity_id :: uuid
  ae_credentials_id :: uuid
  ae_session_id :: uuid
  ae_refresh_id :: uuid
  ae_event_id :: uuid
  ae_event_at :: datetime
  ae_rival :: "'db \<Rightarrow> 'db"

definition add_credential :: "credential_row \<Rightarrow> 'z auth_db_scheme \<Rightarrow> 'z auth_db_scheme" where
  "add_credential r db = db\<lparr>credential_rows := credential_rows db @ [r]\<rparr>"

definition add_identity :: "identity_row \<Rightarrow> 'z auth_db_scheme \<Rightarrow> 'z auth_db_scheme" where
  "add_identity r db = db\<lparr>identity_rows := identity_rows db @ [r]\<rparr>"

definition add_session :: "session_row \<Rightarrow> 'z auth_db_scheme \<Rightarrow> 'z auth_db_scheme" where
  "add_session r db = db\<lparr>session_rows := session_rows db @ [r]\<rparr>"

definition add_refresh :: "refresh_row \<Rightarrow> 'z auth_db_scheme \<Rightarrow> 'z auth_db_scheme" where
  "add_refresh r db = db\<lparr>refresh_rows := refresh_rows db @ [r]\<rparr>"

definition repo_create_for_external_identity ::
    "(ustr \<Rightarrow> ustr) \<Rightarrow> 'db auth_env \<Rightarrow> external_identity \<Rightarrow> uuid \<Rightarrow> ('z, user_credential) auth_action" where
  "repo_create_for_external_identity lower env x user_id =
     bindA (liftE (create_credential (ae_credentials_id env) (ae_event_id env) (ae_event_at env) user_id (ascii ''user'')
                     (Some (ae_now env)))) (\<lambda>c.
     bindA (write_session (add_credential (credential_to_record (ae_db_now env) c))) (\<lambda>_.
     bindA flush_auth (\<lambda>_.
     bindA (write_session (add_identity (identity_to_record lower (ae_db_now env) (crd_id c) x))) (\<lambda>_.
     returnA c))))"

definition logged_in :: "datetime \<Rightarrow> datetime \<Rightarrow> credential_row \<Rightarrow> credential_row" where
  "logged_in db_now now r =
     (if cd_last_login_at r = Some now then r else r\<lparr>cd_last_login_at := Some now, cd_updated_at := db_now\<rparr>)"

definition put_login :: "datetime \<Rightarrow> datetime \<Rightarrow> uuid \<Rightarrow> 'z auth_db_scheme \<Rightarrow> 'z auth_db_scheme" where
  "put_login db_now now i db = db\<lparr>credential_rows := update_rows (\<lambda>c. cd_id c = i) (logged_in db_now now) (credential_rows db)\<rparr>"

definition repo_record_login :: "'db auth_env \<Rightarrow> uuid \<Rightarrow> ('z, user_credential) auth_action" where
  "repo_record_login env credentials_id =
     bindA (query_session (credential_by_id credentials_id)) (\<lambda>record.
     case record of
       None \<Rightarrow> raiseA AuthenticationError
     | Some r \<Rightarrow>
         bindA (write_session (put_login (ae_db_now env) (ae_now env) credentials_id)) (\<lambda>_.
         liftE (credential_to_domain (logged_in (ae_db_now env) (ae_now env) r))))"

definition repo_attach_external_identity ::
    "(ustr \<Rightarrow> ustr) \<Rightarrow> 'db auth_env \<Rightarrow> uuid \<Rightarrow> external_identity \<Rightarrow> ('z, unit) auth_action" where
  "repo_attach_external_identity lower env credentials_id x =
     write_session (add_identity (identity_to_record lower (ae_db_now env) credentials_id x))"

definition repo_create_session :: "'db auth_env \<Rightarrow> uuid \<Rightarrow> ('z, uuid) auth_action" where
  "repo_create_session env credentials_id =
     bindA (write_session (add_session (session_to_record (ae_db_now env)
              \<lparr>ses_id = ae_session_id env, ses_credentials_id = credentials_id, ses_revoked_at = None\<rparr>))) (\<lambda>_.
     bindA flush_auth (\<lambda>_.
     returnA (ae_session_id env)))"

definition repo_save_refresh_token ::
    "'db auth_env \<Rightarrow> uuid \<Rightarrow> uuid \<Rightarrow> ustr \<Rightarrow> datetime \<Rightarrow> ('z, unit) auth_action" where
  "repo_save_refresh_token env credentials_id session_id hash expires_at =
     bindA (liftE (create_refresh_token (ae_refresh_id env) credentials_id hash expires_at (Some session_id))) (\<lambda>t.
     write_session (add_refresh (refresh_to_record (ae_db_now env) t)))"

definition refresh_by_hash :: "ustr \<Rightarrow> 'z auth_db_scheme \<Rightarrow> refresh_row option" where
  "refresh_by_hash hash db = find (\<lambda>t. rt_token_hash t = hash) (refresh_rows db)"

definition drop_refresh :: "(refresh_row \<Rightarrow> bool) \<Rightarrow> 'z auth_db_scheme \<Rightarrow> 'z auth_db_scheme" where
  "drop_refresh p db = db\<lparr>refresh_rows := filter (\<lambda>t. \<not> p t) (refresh_rows db)\<rparr>"

text \<open>
  \<open>rotate_refresh_token\<close>: \<open>DELETE ... RETURNING\<close> removes the token before it is examined. What others
  commit before the delete takes the row's lock is \<open>ae_rival\<close>.
\<close>

definition repo_rotate_refresh_token ::
    "'z auth_db_scheme auth_env \<Rightarrow> ustr \<Rightarrow> ustr \<Rightarrow> datetime \<Rightarrow> ('z, user_credential \<times> uuid) auth_action" where
  "repo_rotate_refresh_token env hash new_hash expires_at =
     bindA (interfere (ae_rival env)) (\<lambda>_.
     bindA (query_session (refresh_by_hash hash)) (\<lambda>row.
     bindA (write_session (drop_refresh (\<lambda>t. rt_token_hash t = hash))) (\<lambda>_.
     case row of
       None \<Rightarrow> raiseA AuthenticationError
     | Some t \<Rightarrow>
         (case rt_session_id t of
            None \<Rightarrow> raiseA AuthenticationError
          | Some sid \<Rightarrow>
              if rt_expires_at t \<le> ae_now env then raiseA AuthenticationError
              else
                bindA (query_session (session_by_id sid)) (\<lambda>sess.
                case sess of
                  None \<Rightarrow> raiseA AuthenticationError
                | Some s \<Rightarrow>
                    if sn_revoked_at s \<noteq> None then raiseA AuthenticationError
                    else
                      bindA (query_session (credential_by_id (rt_credentials_id t))) (\<lambda>record.
                      case record of
                        None \<Rightarrow> raiseA AuthenticationError
                      | Some c \<Rightarrow>
                          if cd_id c \<noteq> sn_credentials_id s then raiseA AuthenticationError
                          else
                            bindA (liftE (create_refresh_token (ae_refresh_id env) (cd_id c) new_hash expires_at (Some (sn_id s)))) (\<lambda>new.
                            bindA (write_session (add_refresh (refresh_to_record (ae_db_now env) new))) (\<lambda>_.
                            bindA (liftE (credential_to_domain c)) (\<lambda>credentials.
                            returnA (credentials, sn_id s))))))))))"

definition revoked :: "datetime \<Rightarrow> datetime \<Rightarrow> session_row \<Rightarrow> session_row" where
  "revoked db_now now s =
     (if sn_revoked_at s = Some now then s else s\<lparr>sn_revoked_at := Some now, sn_updated_at := db_now\<rparr>)"

definition put_revoked :: "datetime \<Rightarrow> datetime \<Rightarrow> uuid \<Rightarrow> 'z auth_db_scheme \<Rightarrow> 'z auth_db_scheme" where
  "put_revoked db_now now i db = db\<lparr>session_rows := update_rows (\<lambda>s. sn_id s = i) (revoked db_now now) (session_rows db)\<rparr>"

definition repo_revoke_session :: "'z auth_db_scheme auth_env \<Rightarrow> ustr \<Rightarrow> ('z, unit) auth_action" where
  "repo_revoke_session env hash =
     bindA (query_session (\<lambda>db. find (\<lambda>t. rt_token_hash t = hash \<and> rt_expires_at t > ae_now env) (refresh_rows db))) (\<lambda>token.
     case token of
       None \<Rightarrow> returnA ()
     | Some t \<Rightarrow>
         (case rt_session_id t of
            None \<Rightarrow> write_session (drop_refresh (\<lambda>x. rt_id x = rt_id t))
          | Some sid \<Rightarrow>
              bindA (query_session (session_by_id sid)) (\<lambda>sess.
              bindA (case sess of
                       None \<Rightarrow> returnA ()
                     | Some s \<Rightarrow> write_session (put_revoked (ae_db_now env) (ae_now env) sid)) (\<lambda>_.
              write_session (drop_refresh (\<lambda>x. rt_session_id x = Some sid))))))"

definition exists_active_credential :: "uuid \<Rightarrow> uuid \<Rightarrow> 'z auth_db_scheme \<Rightarrow> bool" where
  "exists_active_credential user_id credentials_id db \<longleftrightarrow>
     exists_row (\<lambda>c. cd_id c = credentials_id \<and> cd_user_id c = user_id) (credential_rows db)"

definition exists_active_session :: "uuid \<Rightarrow> uuid \<Rightarrow> uuid \<Rightarrow> 'z auth_db_scheme \<Rightarrow> bool" where
  "exists_active_session user_id credentials_id session_id db \<longleftrightarrow>
     exists_row (\<lambda>s. sn_id s = session_id \<and> sn_revoked_at s = None \<and> sn_credentials_id s = credentials_id \<and>
       exists_active_credential user_id credentials_id db) (session_rows db)"

text \<open>\<open>delete_account_auth_state\<close>; with a session go the tokens that point to it (\<open>ON DELETE CASCADE\<close>).\<close>

definition of_session :: "(session_row \<Rightarrow> bool) \<Rightarrow> 'z auth_db_scheme \<Rightarrow> refresh_row \<Rightarrow> bool" where
  "of_session p db t \<longleftrightarrow> exists_row (\<lambda>s. p s \<and> rt_session_id t = Some (sn_id s)) (session_rows db)"

definition drop_auth_state :: "uuid \<Rightarrow> 'z auth_db_scheme \<Rightarrow> 'z auth_db_scheme" where
  "drop_auth_state i db =
     db\<lparr>refresh_rows := filter (\<lambda>t. rt_credentials_id t \<noteq> i \<and> \<not> of_session (\<lambda>s. sn_credentials_id s = i) db t) (refresh_rows db),
        session_rows := filter (\<lambda>s. sn_credentials_id s \<noteq> i) (session_rows db),
        identity_rows := filter (\<lambda>r. ei_credentials_id r \<noteq> i) (identity_rows db),
        credential_rows := filter (\<lambda>c. cd_id c \<noteq> i) (credential_rows db)\<rparr>"

definition repo_delete_account_auth_state :: "uuid \<Rightarrow> uuid \<Rightarrow> ('z, unit) auth_action" where
  "repo_delete_account_auth_state user_id credentials_id =
     bindA (query_session (exists_active_credential user_id credentials_id)) (\<lambda>owned.
     if \<not> owned then returnA () else write_session (drop_auth_state credentials_id))"

end
