(* ===== verification/Auth_Tokens.thy ===== *)
theory Auth_Tokens
  imports Auth Web_Text
begin

text \<open>
  Tokens and the identity provider: \<open>app/modules/auth/infrastructure\<close> (\<open>identity_providers/firebase.py\<close>,
  \<open>tokens/jwt.py\<close>, \<open>tokens/opaque_refresh_token.py\<close>, \<open>promotion_beneficiary_key.py\<close>, the locks of
  \<open>persistence/external_identity_login_synchronizer.py\<close>). Firebase, PyJWT and the hash functions are
  parameters.
\<close>

section \<open>Identities from Firebase\<close>

text \<open>The values of the claims; \<open>OtherClaim\<close> is any value that is neither a text, \<open>True\<close> nor a mapping.\<close>

datatype token_claim = TextClaim ustr | TrueClaim | MapClaim "(ustr \<times> token_claim) list" | OtherClaim

record firebase_mapping =
  fm_uid_claim :: ustr
  fm_subject_claim :: ustr
  fm_email_claim :: ustr
  fm_email_verified_claim :: ustr
  fm_name_claim :: ustr
  fm_namespace_claim :: ustr
  fm_sign_in_provider_claim :: ustr
  fm_provider_normalization_map :: "(ustr \<times> ustr) list"

definition string_claim :: "(ustr \<times> token_claim) list \<Rightarrow> ustr \<Rightarrow> ustr option" where
  "string_claim claims key =
     (case map_of claims key of Some (TextClaim s) \<Rightarrow> if s = [] then None else Some s | _ \<Rightarrow> None)"

definition subject_from :: "firebase_mapping \<Rightarrow> (ustr \<times> token_claim) list \<Rightarrow> ustr option" where
  "subject_from fm claims =
     (case string_claim claims (fm_uid_claim fm) of
        Some s \<Rightarrow> Some s | None \<Rightarrow> string_claim claims (fm_subject_claim fm))"

definition email_from :: "firebase_mapping \<Rightarrow> (ustr \<times> token_claim) list \<Rightarrow> ustr option" where
  "email_from fm claims = string_claim claims (fm_email_claim fm)"

definition email_verified_from :: "firebase_mapping \<Rightarrow> (ustr \<times> token_claim) list \<Rightarrow> bool" where
  "email_verified_from fm claims \<longleftrightarrow> map_of claims (fm_email_verified_claim fm) = Some TrueClaim"

definition name_from :: "firebase_mapping \<Rightarrow> (ustr \<times> token_claim) list \<Rightarrow> ustr option" where
  "name_from fm claims = string_claim claims (fm_name_claim fm)"

definition raw_provider_from :: "firebase_mapping \<Rightarrow> (ustr \<times> token_claim) list \<Rightarrow> ustr option" where
  "raw_provider_from fm claims =
     (case map_of claims (fm_namespace_claim fm) of
        Some (MapClaim cs) \<Rightarrow> string_claim cs (fm_sign_in_provider_claim fm) | _ \<Rightarrow> None)"

definition normalize_provider :: "firebase_mapping \<Rightarrow> ustr \<Rightarrow> ustr option" where
  "normalize_provider fm raw = map_of (fm_provider_normalization_map fm) raw"

text \<open>The exception of a factory becomes an \<open>AuthenticationError\<close> when it is a validation error.\<close>

definition hide_validation :: "exn + 'a \<Rightarrow> exn + 'a" where
  "hide_validation r = (case r of Inl e \<Rightarrow> if is_instance C_ValidationError e then Inl AuthenticationError else Inl e | Inr x \<Rightarrow> Inr x)"

definition to_external_identity :: "firebase_mapping \<Rightarrow> uuid \<Rightarrow> (ustr \<times> token_claim) list \<Rightarrow> exn + external_identity" where
  "to_external_identity fm identity_id claims =
     (case subject_from fm claims of
        None \<Rightarrow> Inl AuthenticationError
      | Some sub \<Rightarrow>
          (case Option.bind (raw_provider_from fm claims) (normalize_provider fm) of
             None \<Rightarrow> Inl AuthenticationError
           | Some clean \<Rightarrow>
               hide_validation (create_external_identity identity_id clean sub clean (map_option strip (email_from fm claims))
                 (name_from fm claims) (email_verified_from fm claims))))"

text \<open>\<open>auth.verify_id_token\<close> returns claims, raises a \<open>FirebaseError\<close> or something else, which passes through.\<close>

datatype firebase_failure = FirebaseError | FirebaseOther exn

definition verify_identity ::
    "(ustr \<Rightarrow> firebase_failure + (ustr \<times> token_claim) list) \<Rightarrow> firebase_mapping \<Rightarrow> uuid \<Rightarrow> ustr \<Rightarrow> exn + external_identity" where
  "verify_identity verify_id_token fm identity_id provider_token =
     (case verify_id_token provider_token of
        Inl FirebaseError \<Rightarrow> Inl AuthenticationError
      | Inl (FirebaseOther e) \<Rightarrow> Inl e
      | Inr claims \<Rightarrow> to_external_identity fm identity_id claims)"

section \<open>Access tokens\<close>

record jwt_claims =
  jc_issuer :: ustr
  jc_audience :: ustr
  jc_subject :: ustr
  jc_credentials_id :: ustr
  jc_session_id :: ustr
  jc_role :: ustr
  jc_issued_at :: datetime
  jc_expires_at :: datetime
  jc_id :: ustr

record jwt_settings =
  js_issuer :: ustr
  js_audience :: ustr
  js_expires_minutes :: int

record 'tok issued_access =
  ia_token :: 'tok
  ia_expires_at :: datetime
  ia_expires_in :: int

record principal =
  prl_user_id :: uuid
  prl_credentials_id :: uuid
  prl_session_id :: uuid
  prl_role :: ustr

definition minute_us :: int where
  "minute_us = 60000000"

definition issue_access_token ::
    "(jwt_claims \<Rightarrow> 'tok) \<Rightarrow> jwt_settings \<Rightarrow> datetime \<Rightarrow> uuid \<Rightarrow> uuid \<Rightarrow> uuid \<Rightarrow> uuid \<Rightarrow> ustr \<Rightarrow> 'tok issued_access" where
  "issue_access_token encode js issued_at jti user_id credentials_id session_id role_name =
     (let expires_at = issued_at + js_expires_minutes js * minute_us
      in \<lparr>ia_token = encode \<lparr>jc_issuer = js_issuer js, jc_audience = js_audience js, jc_subject = uuid_str user_id,
                             jc_credentials_id = uuid_str credentials_id, jc_session_id = uuid_str session_id,
                             jc_role = role_name, jc_issued_at = issued_at, jc_expires_at = expires_at, jc_id = uuid_str jti\<rparr>,
          ia_expires_at = expires_at, ia_expires_in = (expires_at - issued_at) div 1000000\<rparr>)"

text \<open>
  \<open>jwt.decode\<close> checks the signature, the issuer, the audience, the expiry and that all claims are
  there; \<open>None\<close> is a \<open>PyJWTError\<close>.
\<close>

definition verify_access_token :: "(datetime \<Rightarrow> 'tok \<Rightarrow> jwt_claims option) \<Rightarrow> datetime \<Rightarrow> 'tok \<Rightarrow> exn + principal" where
  "verify_access_token decode now token =
     (case decode now token of
        None \<Rightarrow> Inl AuthenticationError
      | Some cs \<Rightarrow>
          (case (uuid_parse (jc_subject cs), uuid_parse (jc_credentials_id cs), uuid_parse (jc_session_id cs)) of
             (Some u, Some c, Some s) \<Rightarrow>
               Inr \<lparr>prl_user_id = u, prl_credentials_id = c, prl_session_id = s, prl_role = jc_role cs\<rparr>
           | _ \<Rightarrow> Inl AuthenticationError))"

section \<open>Refresh tokens\<close>

text \<open>\<open>str.encode()\<close>; the SHA-256 of the standard library is the parameter \<open>sha256_hex\<close>.\<close>

definition encoded :: "ustr \<Rightarrow> exn + nat list" where
  "encoded s = (case utf8_encode s of None \<Rightarrow> Inl PyValueError | Some bs \<Rightarrow> Inr bs)"

definition hash_refresh_token :: "(nat list \<Rightarrow> ustr) \<Rightarrow> ustr \<Rightarrow> ustr \<Rightarrow> exn + ustr" where
  "hash_refresh_token sha256_hex pepper token =
     bindE (encoded pepper) (\<lambda>p. bindE (encoded token) (\<lambda>t. Inr (sha256_hex (p @ 58 # t))))"

record issued_refresh =
  ir_token :: ustr
  ir_token_hash :: ustr
  ir_expires_at :: datetime

text \<open>\<open>secrets.token_urlsafe(48)\<close> is the parameter \<open>token\<close>.\<close>

definition issue_refresh_token ::
    "(nat list \<Rightarrow> ustr) \<Rightarrow> ustr \<Rightarrow> int \<Rightarrow> datetime \<Rightarrow> ustr \<Rightarrow> exn + issued_refresh" where
  "issue_refresh_token sha256_hex pepper expires_days now token =
     bindE (hash_refresh_token sha256_hex pepper token) (\<lambda>h.
     Inr \<lparr>ir_token = token, ir_token_hash = h, ir_expires_at = now + expires_days * day_us\<rparr>)"

section \<open>The tokens a command uses\<close>

text \<open>\<open>AccessTokenIssuer\<close>, \<open>RefreshTokenIssuer\<close> and \<open>RefreshTokenHasher\<close> as one request sees them.\<close>

record 'tok token_ports =
  tp_issue_access :: "uuid \<Rightarrow> uuid \<Rightarrow> uuid \<Rightarrow> ustr \<Rightarrow> 'tok issued_access"
  tp_issue_refresh :: "exn + issued_refresh"
  tp_hash :: "ustr \<Rightarrow> exn + ustr"

definition token_ports_of ::
    "(jwt_claims \<Rightarrow> 'tok) \<Rightarrow> jwt_settings \<Rightarrow> (nat list \<Rightarrow> ustr) \<Rightarrow> ustr \<Rightarrow> int \<Rightarrow> datetime \<Rightarrow> uuid \<Rightarrow> ustr \<Rightarrow> 'tok token_ports" where
  "token_ports_of encode js sha256_hex pepper expires_days now jti token =
     \<lparr>tp_issue_access = issue_access_token encode js now jti,
      tp_issue_refresh = issue_refresh_token sha256_hex pepper expires_days now token,
      tp_hash = hash_refresh_token sha256_hex pepper\<rparr>"

text \<open>What the commands rely on: an issued refresh token is found again under the hash it was stored with.\<close>

locale refresh_token_service =
  fixes issue :: "exn + issued_refresh" and hash :: "ustr \<Rightarrow> exn + ustr"
  assumes issued_hash: "issue = Inr t \<Longrightarrow> hash (ir_token t) = Inr (ir_token_hash t)"
begin

lemma same_token_same_row:
  "issue = Inr t \<Longrightarrow> hash s = Inr (ir_token_hash t) \<Longrightarrow> hash s = hash (ir_token t)"
  by (simp add: issued_hash)

end

interpretation opaque: refresh_token_service "issue_refresh_token sha256_hex pepper expires_days now token"
    "hash_refresh_token sha256_hex pepper" for sha256_hex pepper expires_days now token
  by unfold_locales (auto simp: issue_refresh_token_def bindE_Inr)

section \<open>Beneficiary keys\<close>

text \<open>\<open>PromotionBeneficiaryKey\<close> is \<open>v1:\<close> and 64 hexadecimal digits; HMAC-SHA256 is a parameter.\<close>

definition beneficiary_key_accepted :: "ustr \<Rightarrow> bool" where
  "beneficiary_key_accepted s \<longleftrightarrow>
     take 3 s = ascii ''v1:'' \<and> length s = 67 \<and> list_all (\<lambda>c. 48 \<le> c \<and> c \<le> 57 \<or> 97 \<le> c \<and> c \<le> 102) (drop 3 s)"

definition mk_beneficiary_key :: "ustr \<Rightarrow> exn + ustr" where
  "mk_beneficiary_key s =
     (if beneficiary_key_accepted s then Inr s
      else Inl (ValidationError [ErrorDetail ''promotionBeneficiaryKey'' ''promotion_beneficiary_key_invalid'']))"

definition mk_hmac_secret :: "ustr \<Rightarrow> exn + ustr" where
  "mk_hmac_secret s =
     (if s = [] \<or> strip s \<noteq> s
      then Inl (ValidationError [ErrorDetail ''promotionBeneficiaryHmacSecret'' ''promotion_beneficiary_hmac_secret_invalid''])
      else Inr s)"

definition canonical_identity :: "issuer \<Rightarrow> subject \<Rightarrow> ustr" where
  "canonical_identity i s = issuer_text i @ 0 # subject_text s"

definition beneficiary_key ::
    "(nat list \<Rightarrow> nat list \<Rightarrow> ustr) \<Rightarrow> ustr \<Rightarrow> issuer \<Rightarrow> subject \<Rightarrow> exn + ustr" where
  "beneficiary_key hmac_sha256_hex secret i s =
     bindE (encoded secret) (\<lambda>k.
     bindE (encoded (canonical_identity i s)) (\<lambda>m.
     mk_beneficiary_key (ascii ''v1:'' @ hmac_sha256_hex k m)))"

section \<open>Login locks\<close>

text \<open>The advisory locks of a login, in the order in which they are taken; BLAKE2b with 8 bytes is a parameter.\<close>

definition lock_id_from_key :: "(nat list \<Rightarrow> nat list) \<Rightarrow> ustr \<Rightarrow> exn + int" where
  "lock_id_from_key blake2b_8 key =
     bindE (encoded key) (\<lambda>bs.
     let n = int (foldl (\<lambda>n b. 256 * n + b) 0 (blake2b_8 bs))
     in Inr (if n \<ge> 2 ^ 63 then n - 2 ^ 64 else n))"

definition identity_lock_id :: "(nat list \<Rightarrow> nat list) \<Rightarrow> external_identity \<Rightarrow> exn + int" where
  "identity_lock_id blake2b_8 x =
     lock_id_from_key blake2b_8 (issuer_text (xi_issuer x) @ 31 # subject_text (xi_subject x))"

definition email_lock_id :: "(nat list \<Rightarrow> nat list) \<Rightarrow> ustr \<Rightarrow> exn + int" where
  "email_lock_id blake2b_8 mail = lock_id_from_key blake2b_8 (ascii ''email'' @ 31 # mail)"

definition login_locks :: "(nat list \<Rightarrow> nat list) \<Rightarrow> (ustr \<Rightarrow> ustr) \<Rightarrow> external_identity \<Rightarrow> exn + int list" where
  "login_locks blake2b_8 lower x =
     bindE (identity_lock_id blake2b_8 x) (\<lambda>first.
     case canonical_email lower x of
       None \<Rightarrow> Inr [first]
     | Some mail \<Rightarrow> bindE (email_lock_id blake2b_8 mail) (\<lambda>second. Inr [first, second]))"

text \<open>
  \<open>synchronize\<close>: the locks are taken one after the other and kept until the transaction ends; while it
  waits, the holders commit what they did (\<open>rival\<close>).
\<close>

definition synchronize ::
    "(nat list \<Rightarrow> nat list) \<Rightarrow> (ustr \<Rightarrow> ustr) \<Rightarrow> ('z auth_db_scheme \<Rightarrow> 'z auth_db_scheme) \<Rightarrow> external_identity \<Rightarrow> ('z, unit) auth_action" where
  "synchronize blake2b_8 lower rival x =
     bindA (liftE (login_locks blake2b_8 lower x)) (\<lambda>_. interfere rival)"

end
