(* ===== verification/Auth_Commands.thy ===== *)
theory Auth_Commands
  imports Auth_Tokens Promotions_Commands Push_Notifications
begin

text \<open>
  The use cases of \<open>app/modules/auth/application\<close> (\<open>login\<close>, \<open>signup\<close>, \<open>refresh\<close>, \<open>logout\<close>, \<open>withdraw\<close>,
  \<open>current_principal\<close>), the check of the bearer token in \<open>api/security.py\<close>, and the adapters of
  \<open>dependencies.py\<close> and \<open>dependency_adapters.py\<close> by which sign-up and withdrawal call the modules of
  users, notifications, promotions and credits in one session.
\<close>

definition auth_commit :: "('z, unit) auth_action" where
  "auth_commit = sqlalchemy_commit auth_violation"

record 'tok token_result =
  tr_access_token :: 'tok
  tr_refresh_token :: ustr
  tr_expires_in :: int

section \<open>Opening a session\<close>

text \<open>The tail that login and sign-up share: a session, its refresh token, the access token and the commit.\<close>

definition open_login ::
    "('z, unit) auth_action \<Rightarrow> 'tok token_ports \<Rightarrow> 'z auth_db_scheme auth_env \<Rightarrow> user_credential \<Rightarrow> ('z, 'tok token_result) auth_action" where
  "open_login uow_commit ports env c =
     bindA (repo_create_session env (crd_id c)) (\<lambda>session_id.
     bindA (liftE (tp_issue_refresh ports)) (\<lambda>refresh.
     bindA (repo_save_refresh_token env (crd_id c) session_id (ir_token_hash refresh) (ir_expires_at refresh)) (\<lambda>_.
     let access = tp_issue_access ports (crd_user_id c) (crd_id c) session_id (role_text (crd_role c))
     in
     bindA uow_commit (\<lambda>_.
     returnA \<lparr>tr_access_token = ia_token access, tr_refresh_token = ir_token refresh, tr_expires_in = ia_expires_in access\<rparr>))))"

text \<open>The credential a login is for: the one of the identity, else the one of its verified email.\<close>

definition login_credential ::
    "(ustr \<Rightarrow> ustr) \<Rightarrow> 'z auth_db_scheme auth_env \<Rightarrow> external_identity \<Rightarrow> ('z, user_credential) auth_action" where
  "login_credential lower env x =
     bindA (repo_find_by_external_identity x) (\<lambda>found.
     case found of
       Some c \<Rightarrow> repo_record_login env (crd_id c)
     | None \<Rightarrow>
         (case (xi_email_verified x, canonical_email lower x) of
            (True, Some mail) \<Rightarrow>
              bindA (repo_find_by_verified_email mail) (\<lambda>linked.
              case linked of
                Some c \<Rightarrow>
                  bindA (repo_attach_external_identity lower env (crd_id c) x) (\<lambda>_. repo_record_login env (crd_id c))
              | None \<Rightarrow> raiseA UserNotRegisteredError)
          | _ \<Rightarrow> raiseA AuthenticationError))"

definition login ::
    "(nat list \<Rightarrow> nat list) \<Rightarrow> (ustr \<Rightarrow> ustr) \<Rightarrow> (ustr \<Rightarrow> exn + external_identity) \<Rightarrow> 'tok token_ports \<Rightarrow>
     ('z, unit) auth_action \<Rightarrow> 'z auth_db_scheme auth_env \<Rightarrow> ustr \<Rightarrow> ('z, 'tok token_result) auth_action" where
  "login blake2b_8 lower verify ports uow_commit env provider_token =
     bindA (liftE (verify provider_token)) (\<lambda>x.
     bindA (synchronize blake2b_8 lower (ae_rival env) x) (\<lambda>_.
     bindA (login_credential lower env x) (\<lambda>c.
     open_login uow_commit ports env c)))"

section \<open>Refreshing and leaving a session\<close>

definition refresh ::
    "'tok token_ports \<Rightarrow> ('z, unit) auth_action \<Rightarrow> 'z auth_db_scheme auth_env \<Rightarrow> ustr \<Rightarrow> ('z, 'tok token_result) auth_action" where
  "refresh ports uow_commit env token =
     bindA (liftE (tp_issue_refresh ports)) (\<lambda>rotated.
     bindA (liftE (tp_hash ports token)) (\<lambda>h.
     bindA (repo_rotate_refresh_token env h (ir_token_hash rotated) (ir_expires_at rotated)) (\<lambda>(c, session_id).
     let access = tp_issue_access ports (crd_user_id c) (crd_id c) session_id (role_text (crd_role c))
     in
     bindA uow_commit (\<lambda>_.
     returnA \<lparr>tr_access_token = ia_token access, tr_refresh_token = ir_token rotated, tr_expires_in = ia_expires_in access\<rparr>))))"

definition logout ::
    "'tok token_ports \<Rightarrow> ('z, unit) auth_action \<Rightarrow> 'z auth_db_scheme auth_env \<Rightarrow> ustr \<Rightarrow> ('z, unit) auth_action" where
  "logout ports uow_commit env token =
     bindA (liftE (tp_hash ports token)) (\<lambda>h.
     bindA (repo_revoke_session env h) (\<lambda>_. uow_commit))"

section \<open>Who is calling\<close>

text \<open>The session check runs in a session of its own on the committed rows.\<close>

definition current_principal :: "(datetime \<Rightarrow> 'tok \<Rightarrow> jwt_claims option) \<Rightarrow> datetime \<Rightarrow> 'tok \<Rightarrow> 'z auth_db_scheme \<Rightarrow> exn + principal" where
  "current_principal decode now token db =
     bindE (verify_access_token decode now token) (\<lambda>p.
     if exists_active_session (prl_user_id p) (prl_credentials_id p) (prl_session_id p) db then Inr p
     else Inl AuthenticationError)"

text \<open>\<open>HTTPBearer(auto_error=False)\<close> gives the scheme and the token of the header, or nothing; \<open>casefold\<close> is \<open>fold_case\<close>.\<close>

definition authenticate_current_principal ::
    "(ustr \<Rightarrow> ustr) \<Rightarrow> (datetime \<Rightarrow> 'tok \<Rightarrow> jwt_claims option) \<Rightarrow> datetime \<Rightarrow> (ustr \<times> 'tok) option \<Rightarrow> 'z auth_db_scheme \<Rightarrow> exn + principal" where
  "authenticate_current_principal fold_case decode now header db =
     (case header of
        None \<Rightarrow> Inl AuthenticationRequiredError
      | Some (scheme, token) \<Rightarrow>
          if fold_case scheme \<noteq> ascii ''bearer'' then Inl AuthenticationRequiredError
          else current_principal decode now token db)"

definition require_roles :: "principal \<Rightarrow> ustr list \<Rightarrow> exn + unit" where
  "require_roles p roles = (if prl_role p \<notin> set roles then Inl AuthorizationError else Inr ())"

section \<open>Sign-up\<close>

record signup_command =
  su_provider_token :: ustr
  su_terms_accepted :: bool
  su_privacy_accepted :: bool
  su_terms_version :: "ustr option"
  su_privacy_version :: "ustr option"
  su_marketing_consent :: bool

definition signup_consent_version :: "ustr option \<Rightarrow> ustr option" where
  "signup_consent_version v = (case v of None \<Rightarrow> None | Some s \<Rightarrow> if strip s = [] then None else Some (strip s))"

definition signup_errors :: "signup_command \<Rightarrow> error_detail list" where
  "signup_errors cmd =
     (let terms = signup_consent_version (su_terms_version cmd);
          privacy = signup_consent_version (su_privacy_version cmd)
      in (if \<not> su_terms_accepted cmd then [ErrorDetail ''termsAccepted'' ''terms_required''] else []) @
         (if su_terms_accepted cmd \<and> terms = None then [ErrorDetail ''termsVersion'' ''terms_version_required''] else []) @
         (if su_terms_accepted cmd \<and> \<not> fits_opt 50 terms then [ErrorDetail ''termsVersion'' ''terms_version_too_long''] else []) @
         (if \<not> su_privacy_accepted cmd then [ErrorDetail ''privacyAccepted'' ''privacy_required''] else []) @
         (if su_privacy_accepted cmd \<and> privacy = None then [ErrorDetail ''privacyVersion'' ''privacy_version_required''] else []) @
         (if su_privacy_accepted cmd \<and> \<not> fits_opt 50 privacy then [ErrorDetail ''privacyVersion'' ''privacy_version_too_long''] else []))"

definition ensure_new_user :: "(ustr \<Rightarrow> ustr) \<Rightarrow> external_identity \<Rightarrow> ('z, unit) auth_action" where
  "ensure_new_user lower x =
     bindA (repo_find_by_external_identity x) (\<lambda>existing.
     if existing \<noteq> None then raiseA UserAlreadyExistsError
     else
       (case (xi_email_verified x, canonical_email lower x) of
          (True, Some mail) \<Rightarrow>
            bindA (repo_find_by_verified_email mail) (\<lambda>linked.
            if linked \<noteq> None then raiseA UserAlreadyExistsError else returnA ())
        | _ \<Rightarrow> returnA ()))"

text \<open>\<open>ProvisionUserPortAdapter\<close> with its default picture; an empty text counts as no picture.\<close>

definition provision_for_signup ::
    "ustr option \<Rightarrow> user_env \<Rightarrow> signup_command \<Rightarrow> external_identity \<Rightarrow> ('z, uuid) user_action" where
  "provision_for_signup default_url env cmd x =
     resolve_user_for_login deferred_commit env
       \<lparr>rv_name = xi_name x, rv_email = map_option identity_email_text (xi_email x), rv_profile_image_url = default_url,
        rv_terms_version = signup_consent_version (su_terms_version cmd),
        rv_privacy_version = signup_consent_version (su_privacy_version cmd),
        rv_terms_accepted = su_terms_accepted cmd, rv_privacy_accepted = su_privacy_accepted cmd\<rparr>"

text \<open>\<open>NotificationSettingsInitializerAdapter\<close> and \<open>SignupPromotionRedeemerAdapter\<close>.\<close>

definition initialize_settings :: "settings_rival \<Rightarrow> uuid \<Rightarrow> bool \<Rightarrow> ('z, unit) notify_action" where
  "initialize_settings rival user_id marketing_consent =
     bindA (update_notification_settings deferred_commit rival user_id None (Some marketing_consent)) (\<lambda>_. returnA ())"

definition redeem_for_signup ::
    "(ustr \<Rightarrow> ustr) \<Rightarrow> (issuer \<Rightarrow> subject \<Rightarrow> exn + ustr) \<Rightarrow> 'z promotion_db_scheme credit_env \<Rightarrow>
     'z promotion_db_scheme promotion_env \<Rightarrow> external_identity \<Rightarrow> uuid \<Rightarrow> ('z, unit) promotion_action_on" where
  "redeem_for_signup db_lower key_of cenv penv x user_id =
     bindA (liftE (key_of (xi_issuer x) (xi_subject x))) (\<lambda>key.
     bindA (liftE (mk_signup_command user_id key)) (\<lambda>cmd.
     bindA (redeem_signup_promotion db_lower deferred_commit (grant_ocr_credit cenv) penv cmd) (\<lambda>_. returnA ())))"

text \<open>
  What a sign-up takes from its surroundings, one record per module it calls; \<open>db_lower\<close> is the
  \<open>lower()\<close> of the database.
\<close>

record ('db, 'tok) signup_env =
  sg_lower :: "ustr \<Rightarrow> ustr"
  sg_db_lower :: "ustr \<Rightarrow> ustr"
  sg_blake2b_8 :: "nat list \<Rightarrow> nat list"
  sg_default_url :: "ustr option"
  sg_key_of :: "issuer \<Rightarrow> subject \<Rightarrow> exn + ustr"
  sg_ports :: "'tok token_ports"
  sg_auth :: "'db auth_env"
  sg_user :: user_env
  sg_settings_rival :: settings_rival
  sg_credit :: "'db credit_env"
  sg_promotion :: "'db promotion_env"

definition signup_steps ::
    "('z auth_db_scheme, 'tok) signup_env \<Rightarrow> ('z, unit) auth_action \<Rightarrow> signup_command \<Rightarrow> external_identity \<Rightarrow>
     ('z, 'tok token_result) auth_action" where
  "signup_steps env uow_commit cmd x =
     bindA (ensure_new_user (sg_lower env) x) (\<lambda>_.
     bindA (synchronize (sg_blake2b_8 env) (sg_lower env) (ae_rival (sg_auth env)) x) (\<lambda>_.
     bindA (provision_for_signup (sg_default_url env) (sg_user env) cmd x) (\<lambda>user_id.
     bindA (initialize_settings (sg_settings_rival env) user_id (su_marketing_consent cmd)) (\<lambda>_.
     bindA (redeem_for_signup (sg_db_lower env) (sg_key_of env) (sg_credit env) (sg_promotion env) x user_id) (\<lambda>_.
     bindA (repo_create_for_external_identity (sg_lower env) (sg_auth env) x user_id) (\<lambda>c.
     bindA (publish build_auth_event_registry (fst (pull_events c))) (\<lambda>_.
     open_login uow_commit (sg_ports env) (sg_auth env) (snd (pull_events c)))))))))"

definition signup ::
    "(ustr \<Rightarrow> exn + external_identity) \<Rightarrow> ('z auth_db_scheme, 'tok) signup_env \<Rightarrow> ('z, unit) auth_action \<Rightarrow>
     ('z, unit) auth_action \<Rightarrow> signup_command \<Rightarrow> ('z, 'tok token_result) auth_action" where
  "signup verify env uow_commit uow_rollback cmd =
     (if signup_errors cmd \<noteq> [] then raiseA (ValidationError (signup_errors cmd))
      else
        bindA (liftE (verify (su_provider_token cmd))) (\<lambda>x.
        catchA (signup_steps env uow_commit cmd x)
          (\<lambda>e. bindA (catchA uow_rollback (\<lambda>_. returnA ())) (\<lambda>_. raiseA e))))"

section \<open>Withdrawal\<close>

record 'db withdraw_env =
  wd_event_id :: uuid
  wd_event_at :: datetime
  wd_user :: user_env
  wd_credit :: "'db credit_env"

definition withdraw_account ::
    "'z auth_db_scheme withdraw_env \<Rightarrow> ('z, unit) auth_action \<Rightarrow> uuid \<Rightarrow> uuid \<Rightarrow> ('z, unit) auth_action" where
  "withdraw_account env uow_commit user_id credentials_id =
     bindA (repo_delete_account_auth_state user_id credentials_id) (\<lambda>_.
     bindA (publish build_auth_event_registry
              [new_event (wd_event_id env) (wd_event_at env) (AccountWithdrawn credentials_id user_id)]) (\<lambda>_.
     bindA (withdrawal_cleanup deferred_commit (wd_user env) user_id) (\<lambda>_.
     bindA (delete_user_credits deferred_commit (wd_credit env) user_id) (\<lambda>_.
     bindA (delete_user_push_tokens deferred_commit user_id) (\<lambda>_.
     uow_commit)))))"

end
