(* ===== verification/Auth_Properties.thy ===== *)
theory Auth_Properties
  imports Auth_Commands
begin

text \<open>
  What holds of the auth tables: how each repository operation changes them, that they keep their
  constraints, and what login, refresh and logout do to them.
\<close>

section \<open>Tables\<close>

named_theorems auth_rows

lemma auth_table_rows [auth_rows]:
  "credential_rows (add_credential c db) = credential_rows db @ [c]" "identity_rows (add_credential c db) = identity_rows db"
  "session_rows (add_credential c db) = session_rows db" "refresh_rows (add_credential c db) = refresh_rows db"
  "outbox_events (add_credential c db) = outbox_events db"
  "credential_rows (add_identity r db) = credential_rows db" "identity_rows (add_identity r db) = identity_rows db @ [r]"
  "session_rows (add_identity r db) = session_rows db" "refresh_rows (add_identity r db) = refresh_rows db"
  "outbox_events (add_identity r db) = outbox_events db"
  "credential_rows (add_session s db) = credential_rows db" "identity_rows (add_session s db) = identity_rows db"
  "session_rows (add_session s db) = session_rows db @ [s]" "refresh_rows (add_session s db) = refresh_rows db"
  "outbox_events (add_session s db) = outbox_events db"
  "credential_rows (add_refresh t db) = credential_rows db" "identity_rows (add_refresh t db) = identity_rows db"
  "session_rows (add_refresh t db) = session_rows db" "refresh_rows (add_refresh t db) = refresh_rows db @ [t]"
  "outbox_events (add_refresh t db) = outbox_events db"
  "credential_rows (drop_refresh p db) = credential_rows db" "identity_rows (drop_refresh p db) = identity_rows db"
  "session_rows (drop_refresh p db) = session_rows db" "refresh_rows (drop_refresh p db) = filter (\<lambda>t. \<not> p t) (refresh_rows db)"
  "outbox_events (drop_refresh p db) = outbox_events db"
  "credential_rows (put_login a b i db) = update_rows (\<lambda>c. cd_id c = i) (logged_in a b) (credential_rows db)"
  "identity_rows (put_login a b i db) = identity_rows db" "session_rows (put_login a b i db) = session_rows db"
  "refresh_rows (put_login a b i db) = refresh_rows db" "outbox_events (put_login a b i db) = outbox_events db"
  "credential_rows (put_revoked a b i db) = credential_rows db" "identity_rows (put_revoked a b i db) = identity_rows db"
  "session_rows (put_revoked a b i db) = update_rows (\<lambda>s. sn_id s = i) (revoked a b) (session_rows db)"
  "refresh_rows (put_revoked a b i db) = refresh_rows db" "outbox_events (put_revoked a b i db) = outbox_events db"
  by (simp_all add: add_credential_def add_identity_def add_session_def add_refresh_def drop_refresh_def put_login_def put_revoked_def)

lemma logged_in_keeps [simp]:
  "cd_id (logged_in a b c) = cd_id c" "cd_user_id (logged_in a b c) = cd_user_id c" "cd_role (logged_in a b c) = cd_role c"
  by (simp_all add: logged_in_def)

lemma revoked_keeps [simp]: "sn_id (revoked a b s) = sn_id s" "sn_credentials_id (revoked a b s) = sn_credentials_id s"
  "sn_revoked_at (revoked a b s) = Some b"
  by (auto simp: revoked_def)

lemma map_update_rows: "(\<And>r. k (f r) = k r) \<Longrightarrow> map k (update_rows p f rows) = map k rows"
  by (induction rows) auto

lemma exists_update_rows: "(\<And>r. q (f r) = q r) \<Longrightarrow> exists_row q (update_rows p f rows) = exists_row q rows"
  by (induction rows) (auto simp: exists_row_def)

lemma ball_rewritten_rows: "(\<And>r. q (f r) = q r) \<Longrightarrow> (\<forall>r \<in> set (update_rows p f rows). q r) \<longleftrightarrow> (\<forall>r \<in> set rows. q r)"
  by (induction rows) auto

lemma references [auth_rows]:
  "has_credential i (add_credential c db) \<longleftrightarrow> cd_id c = i \<or> has_credential i db"
  "has_credential i (add_identity r db) = has_credential i db" "has_credential i (add_session s db) = has_credential i db"
  "has_credential i (add_refresh t db) = has_credential i db" "has_credential i (drop_refresh p db) = has_credential i db"
  "has_session k (add_credential c db) = has_session k db" "has_session k (add_identity r db) = has_session k db"
  "has_session k (add_session s db) \<longleftrightarrow> k = Some (sn_id s) \<or> has_session k db" "has_session k (add_refresh t db) = has_session k db"
  "has_session k (drop_refresh p db) = has_session k db" "has_session k (put_login a b j db) = has_session k db"
  "has_credential i (put_revoked a b j db) = has_credential i db"
  by (auto simp: has_credential_def has_session_def auth_rows exists_row_iff split: option.splits)

lemma references_of_updates [auth_rows]:
  "has_credential i (put_login a b j db) = has_credential i db" "has_session k (put_revoked a b j db) = has_session k db"
  by (auto simp: has_credential_def has_session_def auth_rows exists_update_rows split: option.splits)

lemma references_outbox [simp]:
  "has_credential i (outbox_events_update f db) = has_credential i db" "has_session k (outbox_events_update f db) = has_session k db"
  by (simp_all add: has_credential_def has_session_def split: option.split)

lemma auth_okD:
  assumes "auth_tables_ok db"
  shows "distinct (map cd_id (credential_rows db))" and "distinct (map cd_user_id (credential_rows db))"
    and "distinct (map (\<lambda>r. (ei_issuer r, ei_subject r)) (identity_rows db))"
    and "distinct (map (\<lambda>r. (ei_credentials_id r, ei_issuer r)) (identity_rows db))"
    and "distinct (map sn_id (session_rows db))" and "distinct (map rt_id (refresh_rows db))"
    and "distinct (map rt_token_hash (refresh_rows db))" and "distinct (map ob_event_id (outbox_events db))"
  using assms by (simp_all add: auth_tables_ok_def)

lemma auth_referencesD:
  assumes "auth_tables_ok db"
  shows "r \<in> set (identity_rows db) \<Longrightarrow> has_credential (ei_credentials_id r) db"
    and "s \<in> set (session_rows db) \<Longrightarrow> has_credential (sn_credentials_id s) db"
    and "t \<in> set (refresh_rows db) \<Longrightarrow> has_credential (rt_credentials_id t) db"
    and "t \<in> set (refresh_rows db) \<Longrightarrow> has_session (rt_session_id t) db"
  using assms by (auto simp: auth_tables_ok_def)

text \<open>What each change adds to the constraints.\<close>

lemma ok_put_login: "auth_tables_ok (put_login a b i db) = auth_tables_ok db"
  unfolding auth_tables_ok_def auth_rows by (simp only: map_update_rows logged_in_keeps ball_rewritten_rows)

lemma ok_put_revoked: "auth_tables_ok (put_revoked a b i db) = auth_tables_ok db"
  unfolding auth_tables_ok_def auth_rows by (simp only: map_update_rows revoked_keeps ball_rewritten_rows)

lemma ok_add_session:
  "auth_tables_ok db \<Longrightarrow> sn_id s \<notin> sn_id ` set (session_rows db) \<Longrightarrow> has_credential (sn_credentials_id s) db \<Longrightarrow>
   auth_tables_ok (add_session s db)"
  unfolding auth_tables_ok_def auth_rows by simp

lemma ok_add_refresh:
  "auth_tables_ok db \<Longrightarrow> rt_id t \<notin> rt_id ` set (refresh_rows db) \<Longrightarrow> rt_token_hash t \<notin> rt_token_hash ` set (refresh_rows db) \<Longrightarrow>
   fits 255 (rt_token_hash t) \<Longrightarrow> has_credential (rt_credentials_id t) db \<Longrightarrow> has_session (rt_session_id t) db \<Longrightarrow>
   auth_tables_ok (add_refresh t db)"
  unfolding auth_tables_ok_def auth_rows by simp

lemma ok_add_credential:
  "auth_tables_ok db \<Longrightarrow> cd_id c \<notin> cd_id ` set (credential_rows db) \<Longrightarrow> cd_user_id c \<notin> cd_user_id ` set (credential_rows db) \<Longrightarrow>
   fits 50 (cd_role c) \<Longrightarrow> auth_tables_ok (add_credential c db)"
  unfolding auth_tables_ok_def auth_rows by simp

lemma ok_add_identity:
  "auth_tables_ok db \<Longrightarrow> ei_id r \<notin> ei_id ` set (identity_rows db) \<Longrightarrow>
   (ei_issuer r, ei_subject r) \<notin> (\<lambda>r. (ei_issuer r, ei_subject r)) ` set (identity_rows db) \<Longrightarrow>
   (ei_credentials_id r, ei_issuer r) \<notin> (\<lambda>r. (ei_credentials_id r, ei_issuer r)) ` set (identity_rows db) \<Longrightarrow>
   \<forall>(ok, e) \<in> set (identity_row_checks r). ok \<Longrightarrow> has_credential (ei_credentials_id r) db \<Longrightarrow> auth_tables_ok (add_identity r db)"
  unfolding auth_tables_ok_def auth_rows by simp

lemma ok_drop_refresh: "auth_tables_ok db \<Longrightarrow> auth_tables_ok (drop_refresh p db)"
  unfolding auth_tables_ok_def auth_rows by (simp add: distinct_map_filter)

lemma ok_drop_auth_state:
  assumes "auth_tables_ok db"
  shows "auth_tables_ok (drop_auth_state i db)"
proof -
  have creds: "has_credential j (drop_auth_state i db)" if "has_credential j db" "j \<noteq> i" for j
    using that by (auto simp: has_credential_def drop_auth_state_def exists_row_iff)
  have sess: "has_session k (drop_auth_state i db)"
    if "has_session k db" "\<forall>s \<in> set (session_rows db). sn_credentials_id s = i \<longrightarrow> k \<noteq> Some (sn_id s)" for k
    using that by (auto simp: has_session_def drop_auth_state_def exists_row_iff split: option.splits)
  have rows: "credential_rows (drop_auth_state i db) = filter (\<lambda>c. cd_id c \<noteq> i) (credential_rows db)"
    "identity_rows (drop_auth_state i db) = filter (\<lambda>r. ei_credentials_id r \<noteq> i) (identity_rows db)"
    "session_rows (drop_auth_state i db) = filter (\<lambda>s. sn_credentials_id s \<noteq> i) (session_rows db)"
    "refresh_rows (drop_auth_state i db) =
       filter (\<lambda>t. rt_credentials_id t \<noteq> i \<and> \<not> of_session (\<lambda>s. sn_credentials_id s = i) db t) (refresh_rows db)"
    "outbox_events (drop_auth_state i db) = outbox_events db"
    by (simp_all add: drop_auth_state_def)
  show ?thesis
    using assms auth_referencesD [OF assms] creds sess unfolding auth_tables_ok_def rows
    by (auto simp: distinct_map_filter of_session_def exists_row_iff)
qed

lemma ok_outbox:
  "auth_tables_ok (db\<lparr>outbox_events := es\<rparr>) \<longleftrightarrow>
   auth_tables_ok (db\<lparr>outbox_events := []\<rparr>) \<and> distinct (map ob_event_id es)"
  unfolding auth_tables_ok_def by simp

section \<open>Well-formed auth state\<close>

text \<open>Beyond the constraints: roles are known ones, and a refresh token belongs to the credential of its session.\<close>

definition token_of_its_session :: "'z auth_db_scheme \<Rightarrow> refresh_row \<Rightarrow> bool" where
  "token_of_its_session db t \<longleftrightarrow>
     (\<exists>s \<in> set (session_rows db). rt_session_id t = Some (sn_id s) \<and> sn_credentials_id s = rt_credentials_id t)"

definition auth_well_formed :: "'z auth_db_scheme \<Rightarrow> bool" where
  "auth_well_formed db \<longleftrightarrow>
     auth_tables_ok db \<and> (\<forall>c \<in> set (credential_rows db). cd_role c \<in> set allowed_roles) \<and>
     (\<forall>t \<in> set (refresh_rows db). token_of_its_session db t)"

lemma auth_wfD:
  assumes "auth_well_formed db"
  shows "auth_tables_ok db" and "c \<in> set (credential_rows db) \<Longrightarrow> cd_role c \<in> set allowed_roles"
    and "t \<in> set (refresh_rows db) \<Longrightarrow> token_of_its_session db t"
  using assms by (auto simp: auth_well_formed_def)

definition credential_of :: "credential_row \<Rightarrow> user_credential" where
  "credential_of c =
     \<lparr>pending_events = [], crd_id = cd_id c, crd_user_id = cd_user_id c, crd_role = Role (cd_role c), crd_last_login_at = cd_last_login_at c\<rparr>"

lemma restored_credential: "cd_role c \<in> set allowed_roles \<Longrightarrow> credential_to_domain c = Inr (credential_of c)"
  by (simp add: credential_to_domain_def restore_credential_def assemble_credential_def mk_role_def credential_of_def)

lemma find_key_iff:
  assumes "distinct (map k rows)"
  shows "find (\<lambda>r. k r = i) rows = Some r \<longleftrightarrow> r \<in> set rows \<and> k r = i"
  using find_unique_key [OF assms] by (blast dest: find_SomeD)

lemma credential_by_id_iff:
  assumes "auth_tables_ok db"
  shows "credential_by_id i db = Some c \<longleftrightarrow> c \<in> set (credential_rows db) \<and> cd_id c = i"
  unfolding credential_by_id_def by (rule find_key_iff [OF auth_okD(1) [OF assms]])

lemma session_by_id_iff:
  assumes "auth_tables_ok db"
  shows "session_by_id i db = Some s \<longleftrightarrow> s \<in> set (session_rows db) \<and> sn_id s = i"
  unfolding session_by_id_def by (rule find_key_iff [OF auth_okD(5) [OF assms]])

lemma refresh_by_hash_iff:
  assumes "auth_tables_ok db"
  shows "refresh_by_hash h db = Some t \<longleftrightarrow> t \<in> set (refresh_rows db) \<and> rt_token_hash t = h"
  unfolding refresh_by_hash_def by (rule find_key_iff [OF auth_okD(7) [OF assms]])

lemma joined_credential_SomeD:
  assumes "auth_tables_ok db" and "joined_credential p db = Some c"
  obtains r where "r \<in> set (identity_rows db)" and "p r" and "ei_credentials_id r = cd_id c" and "c \<in> set (credential_rows db)"
  using assms(2) unfolding joined_credential_def
  by (auto simp: bind_eq_Some_conv credential_by_id_iff [OF assms(1)] dest!: find_SomeD)

lemma joined_credential_None:
  assumes "auth_tables_ok db"
  shows "joined_credential p db = None \<longleftrightarrow> (\<forall>r \<in> set (identity_rows db). \<not> p r)"
proof
  assume none: "joined_credential p db = None"
  show "\<forall>r \<in> set (identity_rows db). \<not> p r"
  proof (rule ccontr)
    assume "\<not> (\<forall>r \<in> set (identity_rows db). \<not> p r)"
    then obtain q where q: "find (\<lambda>r. p r \<and> has_credential (ei_credentials_id r) db) (identity_rows db) = Some q"
      using auth_referencesD(1) [OF assms] by (cases "find (\<lambda>r. p r \<and> has_credential (ei_credentials_id r) db) (identity_rows db)")
        (auto simp: find_None_iff_ball)
    then have "has_credential (ei_credentials_id q) db" by (auto dest: find_SomeD)
    then obtain c where "c \<in> set (credential_rows db)" "cd_id c = ei_credentials_id q" by (auto simp: has_credential_def exists_row_iff)
    then have "credential_by_id (ei_credentials_id q) db = Some c" by (simp add: credential_by_id_iff [OF assms])
    with none q show False by (simp add: joined_credential_def)
  qed
next
  assume "\<forall>r \<in> set (identity_rows db). \<not> p r"
  then have "find (\<lambda>r. p r \<and> has_credential (ei_credentials_id r) db) (identity_rows db) = None" by (simp add: find_None_iff_ball)
  then show "joined_credential p db = None" by (simp add: joined_credential_def)
qed

section \<open>Opening a session\<close>

text \<open>The rows a login adds, and when what it is given makes room for them.\<close>

definition new_session_row :: "'db auth_env \<Rightarrow> uuid \<Rightarrow> session_row" where
  "new_session_row env credentials_id =
     \<lparr>sn_id = ae_session_id env, sn_credentials_id = credentials_id, sn_revoked_at = None, sn_created_at = ae_db_now env,
      sn_updated_at = ae_db_now env\<rparr>"

definition new_refresh_row :: "'db auth_env \<Rightarrow> uuid \<Rightarrow> uuid \<Rightarrow> issued_refresh \<Rightarrow> refresh_row" where
  "new_refresh_row env credentials_id session_id t =
     \<lparr>rt_id = ae_refresh_id env, rt_credentials_id = credentials_id, rt_session_id = Some session_id,
      rt_token_hash = ir_token_hash t, rt_expires_at = ir_expires_at t, rt_created_at = ae_db_now env\<rparr>"

definition with_session :: "'db auth_env \<Rightarrow> uuid \<Rightarrow> issued_refresh \<Rightarrow> 'z auth_db_scheme \<Rightarrow> 'z auth_db_scheme" where
  "with_session env i t db = add_refresh (new_refresh_row env i (ae_session_id env) t) (add_session (new_session_row env i) db)"

definition tokens_fresh :: "'db auth_env \<Rightarrow> issued_refresh \<Rightarrow> 'z auth_db_scheme \<Rightarrow> bool" where
  "tokens_fresh env t db \<longleftrightarrow>
     ae_session_id env \<notin> sn_id ` set (session_rows db) \<and> ae_refresh_id env \<notin> rt_id ` set (refresh_rows db) \<and>
     ir_token_hash t \<notin> rt_token_hash ` set (refresh_rows db) \<and> sized_text 255 (ir_token_hash t)"

definition token_result_of :: "'tok token_ports \<Rightarrow> issued_refresh \<Rightarrow> credential_row \<Rightarrow> uuid \<Rightarrow> 'tok token_result" where
  "token_result_of ports t c session_id =
     (let access = tp_issue_access ports (cd_user_id c) (cd_id c) session_id (cd_role c)
      in \<lparr>tr_access_token = ia_token access, tr_refresh_token = ir_token t, tr_expires_in = ia_expires_in access\<rparr>)"

lemma with_session_ok:
  assumes "auth_tables_ok db" and "tokens_fresh env t db" and "has_credential i db"
  shows "auth_tables_ok (add_session (new_session_row env i) db)" and "auth_tables_ok (with_session env i t db)"
proof -
  show first: "auth_tables_ok (add_session (new_session_row env i) db)"
    using assms by (intro ok_add_session) (simp_all add: new_session_row_def tokens_fresh_def)
  show "auth_tables_ok (with_session env i t db)"
    unfolding with_session_def using assms
    by (intro ok_add_refresh first) (simp_all add: auth_rows new_refresh_row_def new_session_row_def tokens_fresh_def sized_text_def fits_def)
qed

lemma open_login_run:
  assumes "auth_tables_ok (working s)" and "tokens_fresh env t (working s)" and "has_credential (cd_id c) (working s)"
    and "\<not> tx_failed s" and "tp_issue_refresh ports = Inr t"
  shows "open_login auth_commit ports env (credential_of c) s =
    (Inr (token_result_of ports t c (ae_session_id env)), open_session (with_session env (cd_id c) t (working s)))"
proof -
  note ok = with_session_ok [OF assms(1-3)]
  have v: "auth_violation (add_session (new_session_row env (cd_id c)) (working s)) = None"
    "auth_violation (with_session env (cd_id c) t (working s)) = None"
    using ok by (simp_all add: auth_violation_None)
  have hash: "mk_token_hash (ir_token_hash t) = Inr (TokenHash (ir_token_hash t))"
    using assms(2) by (simp add: mk_token_hash_def tokens_fresh_def)
  have row: "session_to_record (ae_db_now env) \<lparr>ses_id = ae_session_id env, ses_credentials_id = cd_id c, ses_revoked_at = None\<rparr> =
      new_session_row env (cd_id c)"
    "refresh_to_record (ae_db_now env) \<lparr>rft_id = ae_refresh_id env, rft_credentials_id = cd_id c,
       rft_token_hash = TokenHash (ir_token_hash t), rft_expires_at = ir_expires_at t, rft_session_id = Some (ae_session_id env)\<rparr> =
      new_refresh_row env (cd_id c) (ae_session_id env) t"
    by (simp_all add: session_to_record_def new_session_row_def refresh_to_record_def new_refresh_row_def)
  have committed: "auth_commit (s\<lparr>working := with_session env (cd_id c) t (working s)\<rparr>) =
      (Inr (), open_session (with_session env (cd_id c) t (working s)))"
    using assms(4) v(2) by (simp add: auth_commit_def sqlalchemy_commit_def commit_session_apply open_session_def)
  have id: "crd_id (credential_of c) = cd_id c" "crd_user_id (credential_of c) = cd_user_id c" "role_text (crd_role (credential_of c)) = cd_role c"
    by (simp_all add: credential_of_def)
  show ?thesis
    using assms(4,5) v(1) committed
    by (simp add: open_login_def repo_create_session_def bindA_def write_session_def row id flush_auth_def flush_session_def returnA_def
        liftE_def repo_save_refresh_token_def create_refresh_token_def hash with_session_def token_result_of_def Let_def)
qed

lemma with_session_well_formed:
  assumes "auth_well_formed db" and "tokens_fresh env t db" and "has_credential i db"
  shows "auth_well_formed (with_session env i t db)"
  using with_session_ok(2) [OF auth_wfD(1) [OF assms(1)] assms(2,3)] assms(1)
  unfolding auth_well_formed_def token_of_its_session_def with_session_def auth_rows
  by (auto simp: new_refresh_row_def new_session_row_def)

end
