(* ===== verification/Auth_Outcomes.thy ===== *)
theory Auth_Outcomes
  imports Auth_Properties Files_Properties
begin

text \<open>
  What the commands of \<open>modules/auth\<close> do: refreshing, leaving and opening a session, each on every
  branch, and what access and refresh tokens are worth afterwards.
\<close>

section \<open>Refreshing\<close>

text \<open>A refresh token may be used while it has not expired and its session is not revoked.\<close>

definition usable_token :: "datetime \<Rightarrow> ustr \<Rightarrow> 'z auth_db_scheme \<Rightarrow> refresh_row \<Rightarrow> session_row \<Rightarrow> credential_row \<Rightarrow> bool" where
  "usable_token now h db t s c \<longleftrightarrow>
     t \<in> set (refresh_rows db) \<and> rt_token_hash t = h \<and> now < rt_expires_at t \<and>
     s \<in> set (session_rows db) \<and> rt_session_id t = Some (sn_id s) \<and> sn_revoked_at s = None \<and>
     c \<in> set (credential_rows db) \<and> cd_id c = sn_credentials_id s"

definition rotated :: "'db auth_env \<Rightarrow> issued_refresh \<Rightarrow> ustr \<Rightarrow> session_row \<Rightarrow> 'z auth_db_scheme \<Rightarrow> 'z auth_db_scheme" where
  "rotated env new h s db =
     add_refresh (new_refresh_row env (sn_credentials_id s) (sn_id s) new) (drop_refresh (\<lambda>t. rt_token_hash t = h) db)"

definition refresh_fresh :: "'db auth_env \<Rightarrow> issued_refresh \<Rightarrow> 'z auth_db_scheme \<Rightarrow> bool" where
  "refresh_fresh env new db \<longleftrightarrow>
     ae_refresh_id env \<notin> rt_id ` set (refresh_rows db) \<and> ir_token_hash new \<notin> rt_token_hash ` set (refresh_rows db) \<and>
     sized_text 255 (ir_token_hash new)"

lemma rotated_ok:
  assumes "auth_tables_ok db" and "refresh_fresh env new db" and "usable_token now h db t s c"
  shows "auth_tables_ok (rotated env new h s db)"
proof -
  have refs: "has_credential (sn_credentials_id s) db" "has_session (Some (sn_id s)) db"
    using assms(3) by (auto simp: usable_token_def has_credential_def has_session_def exists_row_iff)
  show ?thesis
    unfolding rotated_def
    by (rule ok_add_refresh [OF ok_drop_refresh [OF assms(1)]])
      (use assms(2) refs in \<open>auto simp: refresh_fresh_def new_refresh_row_def auth_rows sized_text_def fits_def\<close>)
qed

lemma usable_lookups:
  assumes "auth_well_formed db" and "usable_token now h db t s c"
  shows "refresh_by_hash h db = Some t" and "session_by_id (sn_id s) db = Some s"
    and "credential_by_id (rt_credentials_id t) db = Some c" and "cd_role c \<in> set allowed_roles"
proof -
  note ok = auth_wfD(1) [OF assms(1)]
  show "refresh_by_hash h db = Some t" "session_by_id (sn_id s) db = Some s"
    using assms(2) by (simp_all add: refresh_by_hash_iff [OF ok] session_by_id_iff [OF ok] usable_token_def)
  obtain s' where s': "s' \<in> set (session_rows db)" "rt_session_id t = Some (sn_id s')" "sn_credentials_id s' = rt_credentials_id t"
    using auth_wfD(3) [OF assms(1)] assms(2) unfolding usable_token_def token_of_its_session_def by blast
  have "s' = s"
    using s'(1,2) assms(2) auth_okD(5) [OF ok] by (auto simp: usable_token_def distinct_map dest: inj_onD)
  then show "credential_by_id (rt_credentials_id t) db = Some c"
    using s'(3) assms(2) by (simp add: credential_by_id_iff [OF ok] usable_token_def)
  show "cd_role c \<in> set allowed_roles" using auth_wfD(2) [OF assms(1)] assms(2) by (simp add: usable_token_def)
qed

lemma commit_auth_tables:
  assumes "\<not> tx_failed s" and "auth_tables_ok db"
  shows "auth_commit (s\<lparr>working := db\<rparr>) = (Inr (), open_session db)"
  using assms by (simp add: auth_commit_def sqlalchemy_commit_def commit_session_apply auth_violation_None open_session_def)

lemma quiet_bind: "bindA (interfere id) k s = k () s"
  by (simp add: session_bind)

lemma rotate_run:
  assumes "auth_well_formed db" and "ae_rival env = id" and "refresh_fresh env new db" and "usable_token (ae_now env) h db t s c"
  shows "repo_rotate_refresh_token env h (ir_token_hash new) (ir_expires_at new) (open_session db) =
    (Inr (credential_of c, sn_id s), (open_session db)\<lparr>working := rotated env new h s db\<rparr>)"
proof -
  note found = usable_lookups [OF assms(1,4)]
  have here: "now < rt_expires_at t \<longleftrightarrow> \<not> rt_expires_at t \<le> now" for now by linarith
  have facts: "rt_session_id t = Some (sn_id s)" "\<not> rt_expires_at t \<le> ae_now env" "sn_revoked_at s = None" "cd_id c = sn_credentials_id s"
    using assms(4) by (simp_all add: usable_token_def here)
  have hash: "mk_token_hash (ir_token_hash new) = Inr (TokenHash (ir_token_hash new))"
    using assms(3) by (simp add: mk_token_hash_def refresh_fresh_def)
  have dropped: "session_by_id i (drop_refresh p db) = session_by_id i db" "credential_by_id i (drop_refresh p db) = credential_by_id i db" for i p
    by (simp_all add: session_by_id_def credential_by_id_def auth_rows)
  show ?thesis
    by (simp add: repo_rotate_refresh_token_def assms(2) quiet_bind session_bind(1,2) bind_pure found facts dropped restored_credential action_apply hash
        create_refresh_token_def refresh_to_record_def rotated_def new_refresh_row_def)
qed

lemma rotate_refused:
  assumes "ae_rival env = id" and "auth_well_formed db" and "\<nexists>t s c. usable_token (ae_now env) h db t s c"
  shows "\<exists>db'. repo_rotate_refresh_token env h new_hash expires_at (open_session db) =
    (Inl AuthenticationError, (open_session db)\<lparr>working := db'\<rparr>)"
proof (cases "refresh_by_hash h db")
  case None
  then show ?thesis
    by (auto simp: repo_rotate_refresh_token_def assms(1) quiet_bind session_bind(1,2) bind_pure raiseA_def)
next
  case (Some t)
  note ok = auth_wfD(1) [OF assms(2)]
  have t: "t \<in> set (refresh_rows db)" "rt_token_hash t = h" using Some by (simp_all add: refresh_by_hash_iff [OF ok])
  obtain s where s: "s \<in> set (session_rows db)" "rt_session_id t = Some (sn_id s)" "sn_credentials_id s = rt_credentials_id t"
    using auth_wfD(3) [OF assms(2) t(1)] unfolding token_of_its_session_def by blast
  obtain c where c: "c \<in> set (credential_rows db)" "cd_id c = sn_credentials_id s"
    using auth_referencesD(2) [OF ok s(1)] by (auto simp: has_credential_def exists_row_iff)
  have "rt_expires_at t \<le> ae_now env \<or> sn_revoked_at s \<noteq> None"
    using assms(3) t s c unfolding usable_token_def by (metis linorder_not_le)
  moreover have "session_by_id (sn_id s) (drop_refresh p db) = Some s" for p
    using s(1) session_by_id_iff [OF ok, of "sn_id s" s] by (simp add: session_by_id_def auth_rows)
  ultimately show ?thesis
    by (auto simp: repo_rotate_refresh_token_def assms(1) quiet_bind session_bind(1,2) bind_pure Some s(2) raiseA_def)
qed

lemma refresh_run:
  assumes "auth_well_formed db" and "ae_rival env = id" and "tp_issue_refresh ports = Inr new" and "tp_hash ports token = Inr h"
    and "refresh_fresh env new db" and "usable_token (ae_now env) h db t s c"
  shows "refresh ports auth_commit env token (open_session db) =
    (Inr (token_result_of ports new c (sn_id s)), open_session (rotated env new h s db))"
  using rotate_run [OF assms(1,2,5,6)] rotated_ok [OF auth_wfD(1) [OF assms(1)] assms(5,6)]
  by (simp add: refresh_def bindA_def liftE_def assms(3,4) commit_auth_tables token_result_of_def credential_of_def Let_def returnA_def)

lemma refresh_refused:
  assumes "auth_well_formed db" and "ae_rival env = id" and "tp_issue_refresh ports = Inr new" and "tp_hash ports token = Inr h"
    and "\<nexists>t s c. usable_token (ae_now env) h db t s c"
  shows "\<exists>db'. refresh ports auth_commit env token (open_session db) = (Inl AuthenticationError, (open_session db)\<lparr>working := db'\<rparr>)"
  using rotate_refused [OF assms(2,1,5), of "ir_token_hash new" "ir_expires_at new"]
  by (auto simp: refresh_def bindA_def liftE_def assms(3,4))

text \<open>A rival that commits first is seen as if it had been there from the start.\<close>

lemma rotate_after_rival:
  "repo_rotate_refresh_token env h new_hash expires_at (open_session db) =
    repo_rotate_refresh_token (env\<lparr>ae_rival := id\<rparr>) h new_hash expires_at (open_session (ae_rival env db))"
proof -
  have "ae_now (env\<lparr>ae_rival := id\<rparr>) = ae_now env" "ae_db_now (env\<lparr>ae_rival := id\<rparr>) = ae_db_now env"
    "ae_refresh_id (env\<lparr>ae_rival := id\<rparr>) = ae_refresh_id env" "ae_rival (env\<lparr>ae_rival := id\<rparr>) = id"
    by simp_all
  moreover have "bindA (interfere (ae_rival env)) k (open_session db) = k () (open_session (ae_rival env db))" for k
    by (simp add: session_bind open_session_def)
  ultimately show ?thesis
    unfolding repo_rotate_refresh_token_def by (simp only: quiet_bind cong: option.case_cong)
qed

lemma refresh_after_rival:
  assumes "tp_issue_refresh ports = Inr new" and "tp_hash ports token = Inr h"
  shows "refresh ports uow env token (open_session db) =
    refresh ports uow (env\<lparr>ae_rival := id\<rparr>) token (open_session (ae_rival env db))"
  unfolding refresh_def assms bind_pure unfolding bindA_def by (simp only: rotate_after_rival [of env h "ir_token_hash new" "ir_expires_at new" db])

lemma used_token_gone:
  assumes "ir_token_hash new \<noteq> h"
  shows "refresh_by_hash h (rotated env new h s db) = None"
  using assms by (auto simp: refresh_by_hash_def rotated_def auth_rows new_refresh_row_def find_None_iff_ball)

lemma refresh_unknown:
  assumes "tp_issue_refresh ports = Inr new" and "tp_hash ports token = Inr h" and "refresh_by_hash h (ae_rival env db) = None"
  shows "\<exists>d. refresh ports uow env token (open_session db) = (Inl AuthenticationError, (open_session (ae_rival env db))\<lparr>working := d\<rparr>)"
  using assms
  by (subst refresh_after_rival [OF assms(1,2)], auto simp: refresh_def bindA_def [of "liftE _"] liftE_def repo_rotate_refresh_token_def quiet_bind bindA_assoc session_bind(1,2)
      bind_pure action_apply)

lemma new_token_usable:
  assumes "usable_token now h db t s c" and "now' < ir_expires_at new"
  shows "usable_token now' (ir_token_hash new) (rotated env new h s db) (new_refresh_row env (sn_credentials_id s) (sn_id s) new) s c"
  using assms by (simp add: usable_token_def rotated_def auth_rows new_refresh_row_def)

text \<open>C17. A refresh token that has not expired and whose session is not revoked is exchanged for tokens of the same session
  and the same account, and the new refresh token can be used until it expires; any other token is refused and nothing is
  stored.\<close>

theorem refresh_outcome:
  assumes "auth_well_formed db" and "ae_rival env = id" and "tp_issue_refresh ports = Inr new" and "tp_hash ports token = Inr h"
    and "refresh_fresh env new db"
  shows "(\<forall>t s c. usable_token (ae_now env) h db t s c \<longrightarrow>
      refresh ports auth_commit env token (open_session db) =
        (Inr (token_result_of ports new c (sn_id s)), open_session (rotated env new h s db)) \<and>
      (\<forall>now < ir_expires_at new. usable_token now (ir_token_hash new) (rotated env new h s db)
         (new_refresh_row env (sn_credentials_id s) (sn_id s) new) s c)) \<and>
    ((\<nexists>t s c. usable_token (ae_now env) h db t s c) \<longrightarrow>
      (\<exists>s'. refresh ports auth_commit env token (open_session db) = (Inl AuthenticationError, s') \<and> committed s' = db))"
proof (intro conjI allI impI)
  fix t s c now
  assume t: "usable_token (ae_now env) h db t s c"
  show "refresh ports auth_commit env token (open_session db) =
      (Inr (token_result_of ports new c (sn_id s)), open_session (rotated env new h s db))"
    by (rule refresh_run [OF assms t])
  show "usable_token now (ir_token_hash new) (rotated env new h s db) (new_refresh_row env (sn_credentials_id s) (sn_id s) new) s c"
    if "now < ir_expires_at new"
    by (rule new_token_usable [OF t that])
next
  assume "\<nexists>t s c. usable_token (ae_now env) h db t s c"
  from refresh_refused [OF assms(1-4) this]
  show "\<exists>s'. refresh ports auth_commit env token (open_session db) = (Inl AuthenticationError, s') \<and> committed s' = db"
    by force
qed

text \<open>C10. A refresh token works once: after it was exchanged, the next request with it is refused and changes nothing, also
  when that request was sent before the first one committed and waited for the row of the token.\<close>

theorem refresh_token_single_use:
  assumes "auth_well_formed db" and "ae_rival env = id" and "tp_issue_refresh ports = Inr new" and "refresh_fresh env new db"
    and "refresh ports auth_commit env token (open_session db) = (Inr res, s)"
    and "tp_hash ports' token = tp_hash ports token" and "tp_issue_refresh ports' = Inr new'" and "ae_rival env' db' = committed s"
  shows "\<exists>s'. refresh ports' auth_commit env' token (open_session db') = (Inl AuthenticationError, s') \<and> committed s' = committed s"
proof -
  obtain h where h: "tp_hash ports token = Inr h"
    using assms(3,5) by (cases "tp_hash ports token") (simp_all add: refresh_def bind_pure raiseA_def)
  note first = assms(1-3) h
  obtain t r c where t: "usable_token (ae_now env) h db t r c"
    using refresh_refused [OF first] assms(5) by fastforce
  then have "h \<in> rt_token_hash ` set (refresh_rows db)" by (auto simp: usable_token_def)
  then have "ir_token_hash new \<noteq> h" using assms(4) by (auto simp: refresh_fresh_def)
  then have "refresh_by_hash h (committed s) = None"
    using refresh_run [OF first assms(4) t] assms(5) by (simp add: used_token_gone)
  then show ?thesis
    using refresh_unknown [OF assms(7), of token h env' db' auth_commit] assms(6,8) h by force
qed

section \<open>Leaving\<close>

definition logged_out :: "'db auth_env \<Rightarrow> uuid \<Rightarrow> 'z auth_db_scheme \<Rightarrow> 'z auth_db_scheme" where
  "logged_out env sid db = drop_refresh (\<lambda>x. rt_session_id x = Some sid) (put_revoked (ae_db_now env) (ae_now env) sid db)"

lemma logout_run:
  assumes "auth_well_formed db" and "tp_hash ports token = Inr h" and "t \<in> set (refresh_rows db)" and "rt_token_hash t = h"
    and "ae_now env < rt_expires_at t" and "rt_session_id t = Some sid"
  shows "logout ports auth_commit env token (open_session db) = (Inr (), open_session (logged_out env sid db))"
proof -
  note ok = auth_wfD(1) [OF assms(1)]
  have "find (\<lambda>x. rt_token_hash x = h \<and> ae_now env < rt_expires_at x) (refresh_rows db) = Some t"
  proof (cases "find (\<lambda>x. rt_token_hash x = h \<and> ae_now env < rt_expires_at x) (refresh_rows db)")
    case None
    then show ?thesis using assms(3-5) by (auto simp: find_None_iff_ball)
  next
    case (Some x)
    then have "x \<in> set (refresh_rows db)" "rt_token_hash x = h" by (auto dest: find_SomeD)
    then have "x = t" using assms(3,4) auth_okD(7) [OF ok] by (auto simp: distinct_map dest: inj_onD)
    then show ?thesis using Some by simp
  qed
  moreover obtain s where "s \<in> set (session_rows db)" "rt_session_id t = Some (sn_id s)"
    using auth_wfD(3) [OF assms(1,3)] by (auto simp: token_of_its_session_def)
  then have "session_by_id sid db = Some s" using assms(6) by (simp add: session_by_id_iff [OF ok])
  moreover have "auth_tables_ok (logged_out env sid db)" using ok by (simp add: logged_out_def ok_drop_refresh ok_put_revoked)
  ultimately show ?thesis
    by (simp add: logout_def assms(2,6) bind_pure bindA_assoc repo_revoke_session_def session_bind(1,2) commit_auth_tables logged_out_def)
qed

lemma logout_nothing:
  assumes "auth_tables_ok db" and "tp_hash ports token = Inr h"
    and "\<forall>t \<in> set (refresh_rows db). \<not> (rt_token_hash t = h \<and> ae_now env < rt_expires_at t)"
  shows "logout ports auth_commit env token (open_session db) = (Inr (), open_session db)"
proof -
  have "find (\<lambda>x. rt_token_hash x = h \<and> ae_now env < rt_expires_at x) (refresh_rows db) = None"
    using assms(3) by (simp add: find_None_iff_ball)
  moreover have "auth_commit (open_session db) = (Inr (), open_session db)"
    using commit_auth_tables [of "open_session db" db] assms(1) by (simp add: open_session_def)
  ultimately show ?thesis
    by (simp add: logout_def assms(2) bind_pure bindA_assoc repo_revoke_session_def session_bind(1,2))
qed

lemma active_after_logout:
  "exists_active_session u c k (logged_out env sid db) \<longleftrightarrow> k \<noteq> sid \<and> exists_active_session u c k db"
  by (auto simp: exists_active_session_def exists_active_credential_def logged_out_def auth_rows exists_row_iff set_update_rows)

lemma current_principal_active:
  "current_principal decode now access db = Inr p \<longleftrightarrow>
    verify_access_token decode now access = Inr p \<and>
    exists_active_session (prl_user_id p) (prl_credentials_id p) (prl_session_id p) db"
  by (auto simp: current_principal_def bindE_Inr)

lemma tokens_after_logout:
  "set (refresh_rows (logged_out env sid db)) = {x \<in> set (refresh_rows db). rt_session_id x \<noteq> Some sid}"
  by (auto simp: logged_out_def auth_rows)

text \<open>C18. Logging out with a refresh token that has not expired ends its session: every refresh token of the session is gone,
  every access token that names it is refused from then on, and no other session is touched; with any other token the
  call succeeds and changes nothing.\<close>

theorem logout_ends_session:
  assumes "auth_well_formed db" and "tp_hash ports token = Inr h"
  shows "(\<forall>t \<in> set (refresh_rows db). rt_token_hash t = h \<and> ae_now env < rt_expires_at t \<longrightarrow>
      (\<exists>sid d. rt_session_id t = Some sid \<and>
         logout ports auth_commit env token (open_session db) = (Inr (), open_session d) \<and>
         set (refresh_rows d) = {x \<in> set (refresh_rows db). rt_session_id x \<noteq> Some sid} \<and>
         (\<forall>x \<in> set (refresh_rows db). \<forall>now u r c. rt_session_id x = Some sid \<longrightarrow> \<not> usable_token now (rt_token_hash x) d u r c) \<and>
         (\<forall>decode now access p. verify_access_token decode now access = Inr p \<and> prl_session_id p = sid \<longrightarrow>
            current_principal decode now access d = Inl AuthenticationError) \<and>
         (\<forall>u c k. k \<noteq> sid \<longrightarrow> exists_active_session u c k d = exists_active_session u c k db))) \<and>
    ((\<forall>t \<in> set (refresh_rows db). rt_token_hash t = h \<longrightarrow> rt_expires_at t \<le> ae_now env) \<longrightarrow>
       logout ports auth_commit env token (open_session db) = (Inr (), open_session db))"
proof (intro conjI ballI impI)
  fix t assume t: "t \<in> set (refresh_rows db)" and live: "rt_token_hash t = h \<and> ae_now env < rt_expires_at t"
  obtain sid where sid: "rt_session_id t = Some sid"
    using auth_wfD(3) [OF assms(1) t] by (auto simp: token_of_its_session_def)
  have unusable: "\<not> usable_token now (rt_token_hash x) (logged_out env sid db) u r c"
    if "x \<in> set (refresh_rows db)" "rt_session_id x = Some sid" for x now u r c
    using that auth_okD(7) [OF auth_wfD(1) [OF assms(1)]]
    by (auto simp: usable_token_def tokens_after_logout distinct_map dest: inj_onD)
  have refused: "current_principal decode now access (logged_out env sid db) = Inl AuthenticationError"
    if "verify_access_token decode now access = Inr p" "prl_session_id p = sid" for decode now access p
    using that by (simp add: current_principal_def active_after_logout)
  show "\<exists>sid d. rt_session_id t = Some sid \<and>
         logout ports auth_commit env token (open_session db) = (Inr (), open_session d) \<and>
         set (refresh_rows d) = {x \<in> set (refresh_rows db). rt_session_id x \<noteq> Some sid} \<and>
         (\<forall>x \<in> set (refresh_rows db). \<forall>now u r c. rt_session_id x = Some sid \<longrightarrow> \<not> usable_token now (rt_token_hash x) d u r c) \<and>
         (\<forall>decode now access p. verify_access_token decode now access = Inr p \<and> prl_session_id p = sid \<longrightarrow>
            current_principal decode now access d = Inl AuthenticationError) \<and>
         (\<forall>u c k. k \<noteq> sid \<longrightarrow> exists_active_session u c k d = exists_active_session u c k db)"
  proof (intro exI conjI ballI allI impI)
    show "logout ports auth_commit env token (open_session db) = (Inr (), open_session (logged_out env sid db))"
      using live by (intro logout_run [OF assms t _ _ sid]) simp_all
    show "rt_session_id t = Some sid" by (rule sid)
    show "set (refresh_rows (logged_out env sid db)) = {x \<in> set (refresh_rows db). rt_session_id x \<noteq> Some sid}"
      by (rule tokens_after_logout)
    show "\<not> usable_token now (rt_token_hash x) (logged_out env sid db) u r c"
      if "x \<in> set (refresh_rows db)" "rt_session_id x = Some sid" for x now u r c
      by (rule unusable [OF that])
    show "current_principal decode now access (logged_out env sid db) = Inl AuthenticationError"
      if "verify_access_token decode now access = Inr p \<and> prl_session_id p = sid" for decode now access p
      by (rule refused [OF conjunct1 [OF that] conjunct2 [OF that]])
    show "exists_active_session u c k (logged_out env sid db) = exists_active_session u c k db" if "k \<noteq> sid" for u c k
      using that by (simp add: active_after_logout)
  qed
next
  assume "\<forall>t \<in> set (refresh_rows db). rt_token_hash t = h \<longrightarrow> rt_expires_at t \<le> ae_now env"
  then show "logout ports auth_commit env token (open_session db) = (Inr (), open_session db)"
    by (intro logout_nothing [OF auth_wfD(1) [OF assms(1)] assms(2)]) auto
qed

end
