(* ===== verification/Auth_Login.thy ===== *)
theory Auth_Login
  imports Auth_Outcomes
begin

text \<open>
  Login (\<open>auth/application/commands/login\<close>): whose account it opens, and what the tokens it hands out
  are worth.
\<close>

section \<open>Whose account\<close>

definition identity_account :: "external_identity \<Rightarrow> 'z auth_db_scheme \<Rightarrow> credential_row \<Rightarrow> bool" where
  "identity_account x db c \<longleftrightarrow>
     c \<in> set (credential_rows db) \<and> (\<exists>r \<in> set (identity_rows db). is_identity x r \<and> ei_credentials_id r = cd_id c)"

text \<open>An account may be linked by its email when both the new and the stored identity have it verified.\<close>

definition email_account :: "(ustr \<Rightarrow> ustr) \<Rightarrow> external_identity \<Rightarrow> 'z auth_db_scheme \<Rightarrow> credential_row \<Rightarrow> bool" where
  "email_account lower x db c \<longleftrightarrow>
     xi_email_verified x \<and> c \<in> set (credential_rows db) \<and>
     (\<exists>mail. canonical_email lower x = Some mail \<and>
        (\<exists>r \<in> set (identity_rows db). has_verified_email mail r \<and> ei_credentials_id r = cd_id c))"

text \<open>What the call is given: tokens and identifiers that are new, texts that fit their columns.\<close>

definition login_ready ::
    "(nat list \<Rightarrow> nat list) \<Rightarrow> (ustr \<Rightarrow> ustr) \<Rightarrow> (ustr \<Rightarrow> exn + external_identity) \<Rightarrow> 'tok token_ports \<Rightarrow>
     'z auth_db_scheme auth_env \<Rightarrow> ustr \<Rightarrow> external_identity \<Rightarrow> issued_refresh \<Rightarrow> 'z auth_db_scheme \<Rightarrow> bool" where
  "login_ready blake2b_8 lower verify ports env provider_token x t db \<longleftrightarrow>
     verify provider_token = Inr x \<and> tp_issue_refresh ports = Inr t \<and> ae_rival env = id \<and>
     (\<exists>locks. login_locks blake2b_8 lower x = Inr locks) \<and> tokens_fresh env t db \<and>
     ae_identity_id env \<notin> ei_id ` set (identity_rows db) \<and> xi_id x = ae_identity_id env \<and>
     (\<forall>i. \<forall>(ok, e) \<in> set (identity_row_checks (identity_to_record lower (ae_db_now env) i x)). ok)"

lemma joined_identity:
  assumes "auth_tables_ok db" and "identity_account x db c"
  shows "joined_credential (is_identity x) db = Some c"
proof -
  obtain r where r: "r \<in> set (identity_rows db)" "is_identity x r" "ei_credentials_id r = cd_id c" and c: "c \<in> set (credential_rows db)"
    using assms(2) by (auto simp: identity_account_def)
  obtain c' where c': "joined_credential (is_identity x) db = Some c'"
    using joined_credential_None [OF assms(1), of "is_identity x"] r(1,2) by fastforce
  then obtain r' where r': "r' \<in> set (identity_rows db)" "is_identity x r'" "ei_credentials_id r' = cd_id c'" "c' \<in> set (credential_rows db)"
    by (rule joined_credential_SomeD [OF assms(1)])
  have "r' = r"
    using r(1,2) r'(1,2) auth_okD(3) [OF assms(1)]
    by (intro inj_onD [of "\<lambda>r. (ei_issuer r, ei_subject r)" "set (identity_rows db)"]) (auto simp: is_identity_def distinct_map)
  then have "c' = c"
    using r(3) r'(3,4) c auth_okD(1) [OF assms(1)] by (auto simp: distinct_map dest: inj_onD)
  with c' show ?thesis by simp
qed

lemma no_identity:
  assumes "auth_tables_ok db" and "\<nexists>c. identity_account x db c"
  shows "joined_credential (is_identity x) db = None"
proof (rule ccontr)
  assume "joined_credential (is_identity x) db \<noteq> None"
  then obtain c where "joined_credential (is_identity x) db = Some c" by blast
  then show False
    by (rule joined_credential_SomeD [OF assms(1)]) (use assms(2) in \<open>auto simp: identity_account_def\<close>)
qed

lemma joined_email:
  assumes "auth_tables_ok db" and "email_account lower x db c" and "canonical_email lower x = Some mail"
  obtains c' where "joined_credential (has_verified_email mail) db = Some c'" and "email_account lower x db c'"
proof -
  obtain c' where c': "joined_credential (has_verified_email mail) db = Some c'"
    using joined_credential_None [OF assms(1), of "has_verified_email mail"] assms(2,3) by (fastforce simp: email_account_def)
  moreover from c' have "email_account lower x db c'"
    by (rule joined_credential_SomeD [OF assms(1)]) (use assms(2,3) in \<open>auto simp: email_account_def\<close>)
  ultimately show thesis by (rule that)
qed

lemma no_email:
  assumes "auth_tables_ok db" and "\<nexists>c. email_account lower x db c" and "canonical_email lower x = Some mail" and "xi_email_verified x"
  shows "joined_credential (has_verified_email mail) db = None"
proof (rule ccontr)
  assume "joined_credential (has_verified_email mail) db \<noteq> None"
  then obtain c where "joined_credential (has_verified_email mail) db = Some c" by blast
  then show False
    by (rule joined_credential_SomeD [OF assms(1)]) (use assms(2-4) in \<open>auto simp: email_account_def\<close>)
qed

section \<open>Steps\<close>

lemma find_identity_run:
  assumes "auth_well_formed db"
  shows "identity_account x db c \<Longrightarrow> repo_find_by_external_identity x (open_session db) = (Inr (Some (credential_of c)), open_session db)"
    and "\<nexists>c. identity_account x db c \<Longrightarrow> repo_find_by_external_identity x (open_session db) = (Inr None, open_session db)"
  using joined_identity [OF auth_wfD(1) [OF assms]] no_identity [OF auth_wfD(1) [OF assms]] auth_wfD(2) [OF assms, of c]
  by (auto simp: repo_find_by_external_identity_def session_bind(1) action_apply restored_def restored_credential identity_account_def)

lemma find_email_run:
  assumes "auth_well_formed db"
  shows "joined_credential (has_verified_email mail) db = Some c \<Longrightarrow> c \<in> set (credential_rows db) \<Longrightarrow>
      repo_find_by_verified_email mail (open_session db) = (Inr (Some (credential_of c)), open_session db)"
    and "joined_credential (has_verified_email mail) db = None \<Longrightarrow>
      repo_find_by_verified_email mail (open_session db) = (Inr None, open_session db)"
  using auth_wfD(2) [OF assms, of c]
  by (auto simp: repo_find_by_verified_email_def session_bind(1) action_apply restored_def restored_credential)

text \<open>The account with the login recorded.\<close>

definition at_login :: "'db auth_env \<Rightarrow> credential_row \<Rightarrow> credential_row" where
  "at_login env c = logged_in (ae_db_now env) (ae_now env) c"

lemma record_login_run:
  assumes "auth_tables_ok (working s)" and "\<not> tx_failed s" and "c \<in> set (credential_rows (working s))"
    and "cd_role c \<in> set allowed_roles"
  shows "repo_record_login env (cd_id c) s =
    (Inr (credential_of (at_login env c)), s\<lparr>working := put_login (ae_db_now env) (ae_now env) (cd_id c) (working s)\<rparr>)"
proof -
  have "credential_by_id (cd_id c) (working s) = Some c"
    using assms(3) by (simp add: credential_by_id_iff [OF assms(1)])
  then show ?thesis
    using assms(2,4)
    by (simp add: repo_record_login_def session_bind(1,2) action_apply restored_credential at_login_def)
qed

lemma login_start:
  assumes "login_ready blake2b_8 lower verify ports env token x t db"
  shows "login blake2b_8 lower verify ports auth_commit env token (open_session db) =
    bindA (login_credential lower env x) (open_login auth_commit ports env) (open_session db)"
proof -
  obtain locks where "login_locks blake2b_8 lower x = Inr locks" using assms by (auto simp: login_ready_def)
  with assms show ?thesis by (simp add: login_ready_def login_def bind_pure synchronize_def bindA_assoc quiet_bind)
qed

lemma put_login_well_formed:
  assumes "auth_well_formed db"
  shows "auth_well_formed (put_login a b i db)"
  using assms unfolding auth_well_formed_def token_of_its_session_def auth_rows
  by (auto simp: ok_put_login set_update_rows)

lemma login_finish:
  assumes "auth_well_formed (working s)" and "\<not> tx_failed s" and "c \<in> set (credential_rows (working s))"
    and "login_ready blake2b_8 lower verify ports env token x t db" and "session_rows (working s) = session_rows db"
    and "refresh_rows (working s) = refresh_rows db"
  shows "bindA (repo_record_login env (cd_id c)) (open_login auth_commit ports env) s =
    (Inr (token_result_of ports t c (ae_session_id env)),
     open_session (with_session env (cd_id c) t (put_login (ae_db_now env) (ae_now env) (cd_id c) (working s))))"
proof -
  let ?s = "s\<lparr>working := put_login (ae_db_now env) (ae_now env) (cd_id c) (working s)\<rparr>"
  have has: "has_credential (cd_id c) (working s)" using assms(3) by (auto simp: has_credential_def exists_row_iff)
  have "open_login auth_commit ports env (credential_of (at_login env c)) ?s =
      (Inr (token_result_of ports t (at_login env c) (ae_session_id env)), open_session (with_session env (cd_id (at_login env c)) t (working ?s)))"
    using auth_wfD(1) [OF put_login_well_formed [OF assms(1)]] assms(2,4-6) has
    by (intro open_login_run) (auto simp: tokens_fresh_def login_ready_def auth_rows at_login_def)
  moreover have "token_result_of ports t (at_login env c) i = token_result_of ports t c i" for i
    by (simp add: token_result_of_def at_login_def)
  ultimately show ?thesis
    using record_login_run [OF auth_wfD(1) [OF assms(1)] assms(2,3) auth_wfD(2) [OF assms(1,3)], of env]
    by (simp add: bindA_Inr at_login_def)
qed

section \<open>Linking an identity\<close>

definition linked :: "(ustr \<Rightarrow> ustr) \<Rightarrow> 'db auth_env \<Rightarrow> uuid \<Rightarrow> external_identity \<Rightarrow> 'z auth_db_scheme \<Rightarrow> 'z auth_db_scheme" where
  "linked lower env i x db = add_identity (identity_to_record lower (ae_db_now env) i x) db"

definition has_issuer :: "uuid \<Rightarrow> external_identity \<Rightarrow> 'z auth_db_scheme \<Rightarrow> bool" where
  "has_issuer i x db \<longleftrightarrow>
     (\<exists>r \<in> set (identity_rows db). ei_credentials_id r = i \<and> ei_issuer r = issuer_text (xi_issuer x))"

lemma linked_row [simp]:
  "ei_id (identity_to_record lower now i x) = xi_id x" "ei_credentials_id (identity_to_record lower now i x) = i"
  "ei_issuer (identity_to_record lower now i x) = issuer_text (xi_issuer x)"
  "ei_subject (identity_to_record lower now i x) = subject_text (xi_subject x)"
  by (simp_all add: identity_to_record_def)

lemma identity_row_free:
  assumes "auth_tables_ok db" and "\<nexists>c. identity_account x db c" and "r \<in> set (identity_rows db)"
  shows "(ei_issuer r, ei_subject r) \<noteq> (issuer_text (xi_issuer x), subject_text (xi_subject x))"
proof
  assume "(ei_issuer r, ei_subject r) = (issuer_text (xi_issuer x), subject_text (xi_subject x))"
  then have "is_identity x r" by (simp add: is_identity_def)
  moreover obtain c where "c \<in> set (credential_rows db)" "cd_id c = ei_credentials_id r"
    using auth_referencesD(1) [OF assms(1,3)] by (auto simp: has_credential_def exists_row_iff)
  ultimately show False using assms(2,3) by (metis identity_account_def)
qed

lemma linked_well_formed:
  assumes "auth_well_formed db" and "\<nexists>c. identity_account x db c" and "\<not> has_issuer i x db" and "has_credential i db"
    and "login_ready blake2b_8 lower verify ports env token x t db"
  shows "auth_well_formed (linked lower env i x db)"
proof -
  note ok = auth_wfD(1) [OF assms(1)]
  have "auth_tables_ok (linked lower env i x db)"
    unfolding linked_def
  proof (rule ok_add_identity [OF ok])
    show "(ei_issuer (identity_to_record lower (ae_db_now env) i x), ei_subject (identity_to_record lower (ae_db_now env) i x))
        \<notin> (\<lambda>r. (ei_issuer r, ei_subject r)) ` set (identity_rows db)"
      using identity_row_free [OF ok assms(2)] by force
    show "(ei_credentials_id (identity_to_record lower (ae_db_now env) i x), ei_issuer (identity_to_record lower (ae_db_now env) i x))
        \<notin> (\<lambda>r. (ei_credentials_id r, ei_issuer r)) ` set (identity_rows db)"
      using assms(3) by (auto simp: has_issuer_def)
  qed (use assms(4,5) in \<open>simp_all add: login_ready_def\<close>)
  then show ?thesis
    using assms(1) by (simp add: auth_well_formed_def token_of_its_session_def linked_def auth_rows)
qed

lemma login_identity_run:
  assumes "auth_well_formed db" and "login_ready blake2b_8 lower verify ports env token x t db" and "identity_account x db c"
  shows "login blake2b_8 lower verify ports auth_commit env token (open_session db) =
    (Inr (token_result_of ports t c (ae_session_id env)),
     open_session (with_session env (cd_id c) t (put_login (ae_db_now env) (ae_now env) (cd_id c) db)))"
proof -
  have "c \<in> set (credential_rows db)" using assms(3) by (simp add: identity_account_def)
  then have "bindA (repo_record_login env (cd_id c)) (open_login auth_commit ports env) (open_session db) =
      (Inr (token_result_of ports t c (ae_session_id env)),
       open_session (with_session env (cd_id c) t (put_login (ae_db_now env) (ae_now env) (cd_id c) db)))"
    using login_finish [of "open_session db" c, OF _ _ _ assms(2)] assms(1) by simp
  then show ?thesis
    unfolding login_start [OF assms(2)] login_credential_def
    by (simp add: bindA_assoc bindA_Inr [where m = "repo_find_by_external_identity x", OF find_identity_run(1) [OF assms(1,3)]] credential_of_def)
qed

lemma login_email_start:
  assumes "auth_well_formed db" and "login_ready blake2b_8 lower verify ports env token x t db" and "\<nexists>c. identity_account x db c"
    and "xi_email_verified x" and "canonical_email lower x = Some mail" and "joined_credential (has_verified_email mail) db = Some c"
    and "c \<in> set (credential_rows db)"
  shows "login blake2b_8 lower verify ports auth_commit env token (open_session db) =
    bindA (repo_record_login env (cd_id c)) (open_login auth_commit ports env)
      ((open_session db)\<lparr>working := linked lower env (cd_id c) x db\<rparr>)"
  unfolding login_start [OF assms(2)] login_credential_def
  by (simp add: bindA_assoc bindA_Inr [where m = "repo_find_by_external_identity x", OF find_identity_run(2) [OF assms(1,3)]]
      bindA_Inr [where m = "repo_find_by_verified_email mail", OF find_email_run(1) [OF assms(1,6,7)]] assms(4,5)
      repo_attach_external_identity_def session_bind(2) linked_def credential_of_def)

lemma login_linked_run:
  assumes "auth_well_formed db" and "login_ready blake2b_8 lower verify ports env token x t db" and "\<nexists>c. identity_account x db c"
    and "xi_email_verified x" and "canonical_email lower x = Some mail" and "joined_credential (has_verified_email mail) db = Some c"
    and "c \<in> set (credential_rows db)" and "\<not> has_issuer (cd_id c) x db"
  shows "login blake2b_8 lower verify ports auth_commit env token (open_session db) =
    (Inr (token_result_of ports t c (ae_session_id env)),
     open_session (with_session env (cd_id c) t
       (put_login (ae_db_now env) (ae_now env) (cd_id c) (linked lower env (cd_id c) x db))))"
proof -
  have "has_credential (cd_id c) db" using assms(7) by (auto simp: has_credential_def exists_row_iff)
  then have "auth_well_formed (linked lower env (cd_id c) x db)"
    by (rule linked_well_formed [OF assms(1,3,8) _ assms(2)])
  moreover have "credential_rows (linked lower env (cd_id c) x db) = credential_rows db"
    "session_rows (linked lower env (cd_id c) x db) = session_rows db" "refresh_rows (linked lower env (cd_id c) x db) = refresh_rows db"
    by (simp_all add: linked_def auth_rows)
  ultimately show ?thesis
    unfolding login_email_start [OF assms(1-7)]
    using login_finish [of "(open_session db)\<lparr>working := linked lower env (cd_id c) x db\<rparr>" c, OF _ _ _ assms(2)] assms(7) by simp
qed

text \<open>An account has one identity per issuer: a second subject with the same verified email breaks the unique key.\<close>

lemma only_issuer_violated:
  assumes "auth_violation d = Some e" and "auth_tables_ok (d\<lparr>identity_rows := []\<rparr>)"
    and "\<forall>r \<in> set (identity_rows d). \<forall>(ok, e) \<in> set (identity_row_checks r). ok" and "distinct (map ei_id (identity_rows d))"
    and "distinct (map (\<lambda>r. (ei_issuer r, ei_subject r)) (identity_rows d))"
    and "\<forall>r \<in> set (identity_rows d). has_credential (ei_credentials_id r) d"
  shows "e = IntegrityError ''uq_external_identities_credentials_id''"
proof -
  have "has_credential i (d\<lparr>identity_rows := []\<rparr>) = has_credential i d" "has_session k (d\<lparr>identity_rows := []\<rparr>) = has_session k d" for i k
    by (simp_all add: has_credential_def has_session_def split: option.split)
  with assms(2) have rest: "\<forall>r \<in> set (credential_rows d). fits 50 (cd_role r)"
    "distinct (map cd_id (credential_rows d))" "distinct (map cd_user_id (credential_rows d))" "distinct (map sn_id (session_rows d))"
    "\<forall>r \<in> set (session_rows d). has_credential (sn_credentials_id r) d" "\<forall>r \<in> set (refresh_rows d). fits 255 (rt_token_hash r)"
    "distinct (map rt_id (refresh_rows d))" "distinct (map rt_token_hash (refresh_rows d))"
    "\<forall>r \<in> set (refresh_rows d). has_credential (rt_credentials_id r) d" "\<forall>r \<in> set (refresh_rows d). has_session (rt_session_id r) d"
    "distinct (map ob_event_id (outbox_events d))"
    unfolding auth_tables_ok_def by simp_all
  obtain ok where "(ok, e) \<in> set (auth_checks d)" "\<not> ok"
    using first_violation_Some [OF assms(1) [unfolded auth_violation_def]] by blast
  then show ?thesis
    using assms(3) unfolding auth_checks_def set_append set_concat
    by (auto simp: rest assms(4-6) list_all_iff rest(1,5,6,9,10) [THEN bspec] split: if_splits)
qed

lemma second_subject_violation:
  assumes "auth_well_formed db" and "login_ready blake2b_8 lower verify ports env token x t db" and "\<nexists>c. identity_account x db c"
    and "has_issuer i x db" and "has_credential i db"
  shows "auth_violation (add_session (new_session_row env i) (put_login a b i (linked lower env i x db))) =
    Some (IntegrityError ''uq_external_identities_credentials_id'')"
proof -
  note ok = auth_wfD(1) [OF assms(1)]
  let ?d = "add_session (new_session_row env i) (put_login a b i (linked lower env i x db))"
  have rows: "identity_rows ?d = identity_rows db @ [identity_to_record lower (ae_db_now env) i x]"
    by (simp add: linked_def auth_rows)
  have "\<not> distinct (map (\<lambda>r. (ei_credentials_id r, ei_issuer r)) (identity_rows ?d))"
    using assms(4) unfolding rows by (force simp: has_issuer_def)
  then have "\<not> auth_tables_ok ?d" using auth_okD(4) by blast
  then obtain e where e: "auth_violation ?d = Some e" using auth_violation_None by blast
  have "auth_tables_ok (add_session (new_session_row env i) (put_login a b i db))"
    using ok assms(2,5) by (intro ok_add_session) (simp_all add: ok_put_login auth_rows new_session_row_def login_ready_def tokens_fresh_def)
  moreover have "?d\<lparr>identity_rows := []\<rparr> = (add_session (new_session_row env i) (put_login a b i db))\<lparr>identity_rows := []\<rparr>"
    by (simp add: linked_def add_session_def put_login_def add_identity_def)
  moreover have "auth_tables_ok d \<Longrightarrow> auth_tables_ok (d\<lparr>identity_rows := []\<rparr>)" for d :: "'a auth_db_scheme"
    by (simp add: auth_tables_ok_def has_credential_def has_session_def cong: option.case_cong)
  ultimately have "auth_tables_ok (?d\<lparr>identity_rows := []\<rparr>)" by simp
  then have "e = IntegrityError ''uq_external_identities_credentials_id''"
  proof (rule only_issuer_violated [OF e])
    show "distinct (map (\<lambda>r. (ei_issuer r, ei_subject r)) (identity_rows ?d))"
      using identity_row_free [OF ok assms(3)] auth_okD(3) [OF ok] unfolding rows by force
    show "distinct (map ei_id (identity_rows ?d))"
      using ok assms(2) unfolding rows by (simp add: auth_tables_ok_def login_ready_def)
    show "\<forall>r \<in> set (identity_rows ?d). \<forall>(ok, e) \<in> set (identity_row_checks r). ok"
      using ok assms(2) unfolding rows by (simp add: auth_tables_ok_def login_ready_def)
    show "\<forall>r \<in> set (identity_rows ?d). has_credential (ei_credentials_id r) ?d"
      using auth_referencesD(1) [OF ok] assms(5) unfolding rows by (auto simp: linked_def auth_rows)
  qed
  with e show ?thesis by simp
qed

section \<open>Outcomes\<close>

lemma login_linked_rejected:
  assumes "auth_well_formed db" and "login_ready blake2b_8 lower verify ports env token x t db" and "\<nexists>c. identity_account x db c"
    and "xi_email_verified x" and "canonical_email lower x = Some mail" and "joined_credential (has_verified_email mail) db = Some c"
    and "c \<in> set (credential_rows db)" and "has_issuer (cd_id c) x db"
  shows "\<exists>s. login blake2b_8 lower verify ports auth_commit env token (open_session db) =
    (Inl (IntegrityError ''uq_external_identities_credentials_id''), s) \<and> committed s = db"
proof -
  let ?s = "(open_session db)\<lparr>working := linked lower env (cd_id c) x db\<rparr>"
  let ?d = "put_login (ae_db_now env) (ae_now env) (cd_id c) (linked lower env (cd_id c) x db)"
  have cred: "has_credential (cd_id c) db" using assms(7) by (auto simp: has_credential_def exists_row_iff)
  have "credential_by_id (cd_id c) (linked lower env (cd_id c) x db) = Some c"
    using credential_by_id_iff [OF auth_wfD(1) [OF assms(1)], of "cd_id c" c] assms(7) by (simp add: credential_by_id_def linked_def auth_rows)
  then have "repo_record_login env (cd_id c) ?s = (Inr (credential_of (at_login env c)), ?s\<lparr>working := ?d\<rparr>)"
    using auth_wfD(2) [OF assms(1,7)]
    by (simp add: repo_record_login_def session_bind(1,2) action_apply restored_credential at_login_def)
  moreover have "session_to_record (ae_db_now env) \<lparr>ses_id = ae_session_id env, ses_credentials_id = i, ses_revoked_at = None\<rparr> =
      new_session_row env i" for i
    by (simp add: session_to_record_def new_session_row_def)
  then have "repo_create_session env (cd_id c) (?s\<lparr>working := ?d\<rparr>) =
      (Inl (IntegrityError ''uq_external_identities_credentials_id''),
       ?s\<lparr>working := add_session (new_session_row env (cd_id c)) ?d, tx_failed := True\<rparr>)"
    using second_subject_violation [OF assms(1-3,8) cred]
    by (simp add: repo_create_session_def session_bind(2) flush_auth_def bindA_def [of "flush_session _"] flush_session_def)
  ultimately show ?thesis
    unfolding login_email_start [OF assms(1-7)]
    by (simp add: bindA_Inr open_login_def bindA_Inl credential_of_def at_login_def)
qed

lemma login_unregistered:
  assumes "auth_well_formed db" and "login_ready blake2b_8 lower verify ports env token x t db" and "\<nexists>c. identity_account x db c"
    and "\<nexists>c. email_account lower x db c"
  shows "login blake2b_8 lower verify ports auth_commit env token (open_session db) =
    (Inl (if xi_email_verified x \<and> xi_email x \<noteq> None then UserNotRegisteredError else AuthenticationError), open_session db)"
proof -
  note start = bindA_Inr [where m = "repo_find_by_external_identity x", OF find_identity_run(2) [OF assms(1,3)]]
  have none: "canonical_email lower x = None \<longleftrightarrow> xi_email x = None" by (simp add: canonical_email_def)
  show ?thesis
  proof (cases "xi_email_verified x \<and> xi_email x \<noteq> None")
    case True
    then obtain mail where mail: "canonical_email lower x = Some mail" using none by fastforce
    have "joined_credential (has_verified_email mail) db = None"
      by (rule no_email [OF auth_wfD(1) [OF assms(1)] assms(4) mail]) (use True in simp)
    note found = bindA_Inr [where m = "repo_find_by_verified_email mail", OF find_email_run(2) [OF assms(1) this]]
    show ?thesis
      unfolding login_start [OF assms(2)] login_credential_def
      using True mail by (auto simp: bindA_assoc start found action_apply bind_pure)
  next
    case False
    then show ?thesis
      unfolding login_start [OF assms(2)] login_credential_def
      using none by (auto simp: bindA_assoc start action_apply bind_pure split: bool.split)
  qed
qed

text \<open>C12. A login opens a session of the account that has the identity; else, when the provider has verified the email, of an
  account with the same verified email, to which the identity is then added - unless that account has an identity of this
  issuer already, which ends in a constraint error; without such an account the caller is told to sign up, and without a
  verified email the login is refused. Nothing is stored in the last three cases.\<close>

theorem login_outcome:
  assumes "auth_well_formed db" and "login_ready blake2b_8 lower verify ports env token x t db"
  shows "(\<forall>c. identity_account x db c \<longrightarrow>
      login blake2b_8 lower verify ports auth_commit env token (open_session db) =
        (Inr (token_result_of ports t c (ae_session_id env)),
         open_session (with_session env (cd_id c) t (put_login (ae_db_now env) (ae_now env) (cd_id c) db)))) \<and>
    ((\<nexists>c. identity_account x db c) \<and> (\<exists>c. email_account lower x db c) \<longrightarrow>
      (\<exists>c. email_account lower x db c \<and>
        (if has_issuer (cd_id c) x db
         then \<exists>s. login blake2b_8 lower verify ports auth_commit env token (open_session db) =
           (Inl (IntegrityError ''uq_external_identities_credentials_id''), s) \<and> committed s = db
         else login blake2b_8 lower verify ports auth_commit env token (open_session db) =
           (Inr (token_result_of ports t c (ae_session_id env)),
            open_session (with_session env (cd_id c) t
              (put_login (ae_db_now env) (ae_now env) (cd_id c) (linked lower env (cd_id c) x db))))))) \<and>
    ((\<nexists>c. identity_account x db c) \<and> (\<nexists>c. email_account lower x db c) \<longrightarrow>
      login blake2b_8 lower verify ports auth_commit env token (open_session db) =
        (Inl (if xi_email_verified x \<and> xi_email x \<noteq> None then UserNotRegisteredError else AuthenticationError), open_session db))"
proof (intro conjI allI impI)
  fix c assume "identity_account x db c"
  then show "login blake2b_8 lower verify ports auth_commit env token (open_session db) =
      (Inr (token_result_of ports t c (ae_session_id env)),
       open_session (with_session env (cd_id c) t (put_login (ae_db_now env) (ae_now env) (cd_id c) db)))"
    by (rule login_identity_run [OF assms])
next
  assume "(\<nexists>c. identity_account x db c) \<and> (\<exists>c. email_account lower x db c)"
  then have none: "\<nexists>c. identity_account x db c" and ex: "\<exists>c. email_account lower x db c" by simp_all
  obtain c0 mail where mail: "email_account lower x db c0" "canonical_email lower x = Some mail" "xi_email_verified x"
    using ex by (auto simp: email_account_def)
  obtain c where c: "joined_credential (has_verified_email mail) db = Some c" "email_account lower x db c"
    by (rule joined_email [OF auth_wfD(1) [OF assms(1)] mail(1,2)])
  then have row: "c \<in> set (credential_rows db)" by (simp add: email_account_def)
  show "\<exists>c. email_account lower x db c \<and>
        (if has_issuer (cd_id c) x db
         then \<exists>s. login blake2b_8 lower verify ports auth_commit env token (open_session db) =
           (Inl (IntegrityError ''uq_external_identities_credentials_id''), s) \<and> committed s = db
         else login blake2b_8 lower verify ports auth_commit env token (open_session db) =
           (Inr (token_result_of ports t c (ae_session_id env)),
            open_session (with_session env (cd_id c) t
              (put_login (ae_db_now env) (ae_now env) (cd_id c) (linked lower env (cd_id c) x db)))))"
    using c(2) login_linked_rejected [OF assms none mail(3,2) c(1) row] login_linked_run [OF assms none mail(3,2) c(1) row]
    by (intro exI [of _ c]) simp
next
  assume "(\<nexists>c. identity_account x db c) \<and> (\<nexists>c. email_account lower x db c)"
  then show "login blake2b_8 lower verify ports auth_commit env token (open_session db) =
      (Inl (if xi_email_verified x \<and> xi_email x \<noteq> None then UserNotRegisteredError else AuthenticationError), open_session db)"
    by (intro login_unregistered [OF assms]) blast+
qed

section \<open>What the tokens are worth\<close>

lemma login_success:
  assumes "auth_well_formed db" and "login_ready blake2b_8 lower verify ports env token x t db"
    and "login blake2b_8 lower verify ports auth_commit env token (open_session db) = (Inr res, s)"
  obtains c db1 where "res = token_result_of ports t c (ae_session_id env)"
    and "s = open_session (with_session env (cd_id c) t (put_login (ae_db_now env) (ae_now env) (cd_id c) db1))"
    and "identity_account x db1 c" and "cd_role c \<in> set allowed_roles"
proof (cases "\<exists>c. identity_account x db c")
  case True
  then obtain c where c: "identity_account x db c" by blast
  then have "cd_role c \<in> set allowed_roles" using auth_wfD(2) [OF assms(1)] by (simp add: identity_account_def)
  then show thesis using that [of c db] login_identity_run [OF assms(1,2) c] assms(3) c by simp
next
  case False
  then have none: "\<nexists>c. identity_account x db c" by simp
  have "\<exists>c. email_account lower x db c" using login_unregistered [OF assms(1,2) none] assms(3) by fastforce
  then obtain c0 mail where mail: "email_account lower x db c0" "canonical_email lower x = Some mail" "xi_email_verified x"
    by (auto simp: email_account_def)
  obtain c where c: "joined_credential (has_verified_email mail) db = Some c" "email_account lower x db c"
    by (rule joined_email [OF auth_wfD(1) [OF assms(1)] mail(1,2)])
  then have row: "c \<in> set (credential_rows db)" by (simp add: email_account_def)
  have free: "\<not> has_issuer (cd_id c) x db"
    using login_linked_rejected [OF assms(1,2) none mail(3,2) c(1) row] assms(3) by auto
  have "identity_account x (linked lower env (cd_id c) x db) c"
    using row by (simp add: identity_account_def linked_def auth_rows is_identity_def)
  then show thesis
    using that [of c] login_linked_run [OF assms(1,2) none mail(3,2) c(1) row free] assms(3) auth_wfD(2) [OF assms(1) row] by simp
qed

text \<open>
  What PyJWT documents of a token that this service encodes: \<open>iat\<close> and \<open>exp\<close> are written as whole seconds, and
  decoding with the same key, issuer and audience returns the claims from the second of \<open>iat\<close> on (a later one raises
  \<open>ImmatureSignatureError\<close>) until the second of \<open>exp\<close> (then \<open>ExpiredSignatureError\<close>). An audience has to be set.
\<close>

definition whole_second :: "datetime \<Rightarrow> datetime" where
  "whole_second t = t - t mod 1000000"

definition plain_claims :: "jwt_claims \<Rightarrow> bool" where
  "plain_claims cs \<longleftrightarrow>
     (\<forall>v \<in> {jc_issuer cs, jc_audience cs, jc_subject cs, jc_credentials_id cs, jc_session_id cs, jc_role cs, jc_id cs}.
        list_all scalar_value v)"

definition pyjwt_decodes :: "(jwt_claims \<Rightarrow> 'tok) \<Rightarrow> (datetime \<Rightarrow> 'tok \<Rightarrow> jwt_claims option) \<Rightarrow> jwt_settings \<Rightarrow> bool" where
  "pyjwt_decodes encode decode js \<longleftrightarrow>
     (\<forall>cs now. jc_issuer cs = js_issuer js \<and> jc_audience cs = js_audience js \<and> jc_audience cs \<noteq> [] \<and> plain_claims cs \<longrightarrow>
        decode now (encode cs) =
          (if whole_second (jc_issued_at cs) \<le> now \<and> now < whole_second (jc_expires_at cs)
           then Some (cs\<lparr>jc_issued_at := whole_second (jc_issued_at cs), jc_expires_at := whole_second (jc_expires_at cs)\<rparr>)
           else None))"

definition jwt_settings_ok :: "jwt_settings \<Rightarrow> bool" where
  "jwt_settings_ok js \<longleftrightarrow> js_audience js \<noteq> [] \<and> list_all scalar_value (js_audience js) \<and> list_all scalar_value (js_issuer js)"

lemma whole_second_le: "whole_second t \<le> t"
  by (simp add: whole_second_def)

lemma issued_access_verified:
  assumes "pyjwt_decodes encode decode js" and "jwt_settings_ok js" and "r \<in> set allowed_roles" and "issued_at \<le> now"
  shows "verify_access_token decode now (ia_token (issue_access_token encode js issued_at jti u c s r)) =
    (if now < whole_second (issued_at + js_expires_minutes js * minute_us)
     then Inr \<lparr>prl_user_id = u, prl_credentials_id = c, prl_session_id = s, prl_role = r\<rparr> else Inl AuthenticationError)"
proof -
  have "list_all scalar_value r" using assms(3) by (auto simp: allowed_roles_def scalar_ascii)
  moreover have "whole_second issued_at \<le> now" using whole_second_le [of issued_at] assms(4) by simp
  ultimately show ?thesis
    using assms(1,2)
    by (simp add: verify_access_token_def issue_access_token_def pyjwt_decodes_def jwt_settings_ok_def plain_claims_def Let_def
        scalar_uuid_str uuid_parse_str)
qed

lemma session_opened:
  assumes "c \<in> set (credential_rows db)"
  shows "exists_active_session (cd_user_id c) (cd_id c) (ae_session_id env) (with_session env (cd_id c) t db)"
  using assms
  by (auto simp: exists_active_session_def exists_active_credential_def exists_row_iff with_session_def auth_rows new_session_row_def)

text \<open>C15. Whoever logs in is, with the access token that comes back, the user of the account that has the verified
  identity, in the role of that account, from the login until the second in which the token expires and no longer; and the
  refresh token that comes back is usable until it expires.\<close>

theorem login_then_authenticated:
  assumes "auth_well_formed db" and "pyjwt_decodes encode decode js" and "jwt_settings_ok js"
    and "login_ready blake2b_8 lower verify (token_ports_of encode js sha256_hex pepper days issued_at jti secret) env token x t db"
    and "login blake2b_8 lower verify (token_ports_of encode js sha256_hex pepper days issued_at jti secret) auth_commit env token
           (open_session db) = (Inr res, s)"
    and "issued_at \<le> now"
  shows "\<exists>c \<in> set (credential_rows (committed s)). identity_account x (committed s) c \<and>
      current_principal decode now (tr_access_token res) (committed s) =
        (if now < whole_second (issued_at + js_expires_minutes js * minute_us)
         then Inr \<lparr>prl_user_id = cd_user_id c, prl_credentials_id = cd_id c, prl_session_id = ae_session_id env, prl_role = cd_role c\<rparr>
         else Inl AuthenticationError) \<and>
      (now < issued_at + days * day_us \<longrightarrow>
        (\<exists>h r se. hash_refresh_token sha256_hex pepper (tr_refresh_token res) = Inr h \<and> usable_token now h (committed s) r se c))"
proof -
  let ?ports = "token_ports_of encode js sha256_hex pepper days issued_at jti secret"
  obtain c0 db1 where c0: "res = token_result_of ?ports t c0 (ae_session_id env)"
    and s: "s = open_session (with_session env (cd_id c0) t (put_login (ae_db_now env) (ae_now env) (cd_id c0) db1))"
    and acc: "identity_account x db1 c0" and role: "cd_role c0 \<in> set allowed_roles"
    by (rule login_success [OF assms(1,4,5)])
  let ?db = "put_login (ae_db_now env) (ae_now env) (cd_id c0) db1" and ?c = "at_login env c0"
  have row: "?c \<in> set (credential_rows ?db)"
    using acc by (auto simp: identity_account_def auth_rows set_update_rows at_login_def)
  have same: "cd_id ?c = cd_id c0" "cd_user_id ?c = cd_user_id c0" "cd_role ?c = cd_role c0" by (simp_all add: at_login_def)
  have "identity_account x (committed s) ?c"
    using acc row by (auto simp: identity_account_def s with_session_def auth_rows same)
  moreover have "current_principal decode now (tr_access_token res) (committed s) =
      (if now < whole_second (issued_at + js_expires_minutes js * minute_us)
       then Inr \<lparr>prl_user_id = cd_user_id ?c, prl_credentials_id = cd_id ?c, prl_session_id = ae_session_id env, prl_role = cd_role ?c\<rparr>
       else Inl AuthenticationError)"
    using issued_access_verified [OF assms(2,3) role assms(6)] session_opened [OF row, of env t]
    by (simp add: current_principal_def c0 token_result_of_def token_ports_of_def s same Let_def)
  moreover have issue: "issue_refresh_token sha256_hex pepper days issued_at secret = Inr t"
    using assms(4) by (simp add: login_ready_def token_ports_of_def)
  have "hash_refresh_token sha256_hex pepper (tr_refresh_token res) = Inr (ir_token_hash t)"
    using opaque.issued_hash [OF issue] by (simp add: c0 token_result_of_def Let_def)
  moreover have "ir_expires_at t = issued_at + days * day_us" using issue by (auto simp: issue_refresh_token_def bindE_Inr)
  then have "now < issued_at + days * day_us \<longrightarrow>
      usable_token now (ir_token_hash t) (committed s) (new_refresh_row env (cd_id c0) (ae_session_id env) t) (new_session_row env (cd_id c0)) ?c"
    using row by (simp add: usable_token_def s with_session_def auth_rows new_refresh_row_def new_session_row_def same)
  ultimately show ?thesis using row by (auto simp: identity_account_def)
qed

end
