(* ===== verification/Account_Frames.thy ===== *)
theory Account_Frames
  imports Auth_Login Promotions_Outcomes
begin

text \<open>
  What the calls into other modules leave alone: sign-up and withdrawal run the commands of users,
  notifications, promotions and credits in their own session, and these change tables of their own
  only. A view \<open>v\<close> of the tables is framed by an action that neither changes it nor commits.
\<close>

section \<open>Frames\<close>

text \<open>
  A property of sessions that can see the pending rows through \<open>v\<close> only, and that a failed flush and,
  where the action may roll back, a rollback keep.
\<close>

definition blind :: "bool \<Rightarrow> ('db \<Rightarrow> 'v) \<Rightarrow> ('db session \<Rightarrow> bool) \<Rightarrow> bool" where
  "blind rb v P \<longleftrightarrow>
     (\<forall>s. P s \<longrightarrow> P (s\<lparr>tx_failed := True\<rparr>) \<and> (rb \<longrightarrow> P (s\<lparr>working := committed s, tx_failed := False\<rparr>))) \<and>
     (\<forall>s db. P s \<and> v db = v (working s) \<longrightarrow> P (s\<lparr>working := db\<rparr>))"

definition frames :: "bool \<Rightarrow> ('db \<Rightarrow> 'v) \<Rightarrow> ('db session, exn, 'a) action \<Rightarrow> bool" where
  "frames rb v m \<longleftrightarrow> (\<forall>P. blind rb v P \<longrightarrow> runs P m (\<lambda>_. P) P)"

named_theorems framing

lemma frames_bind [framing]: "frames rb v m \<Longrightarrow> (\<And>x. frames rb v (f x)) \<Longrightarrow> frames rb v (bindA m f)"
  unfolding frames_def by (auto intro!: runs_bind)

lemma frames_catch [framing]: "frames rb v m \<Longrightarrow> (\<And>e. frames rb v (h e)) \<Longrightarrow> frames rb v (catchA m h)"
  unfolding frames_def by (auto intro!: runs_catch)

lemma frames_pure [framing]: "frames rb v (returnA x)" "frames rb v (raiseA e)" "frames rb v (liftE r)"
  unfolding frames_def by (auto intro!: runs_returnA runs_raiseA runs_liftE)

lemma frames_query [framing]: "frames rb v (query_session f)"
  unfolding frames_def by (auto intro!: runs_query)

lemma frames_flush [framing]: "frames rb v (flush_session violation)"
  unfolding frames_def by (auto intro!: runs_flush simp: blind_def)

lemma frames_rollback [framing]: "frames True v rollback_session"
  by (simp add: frames_def runs_def rollback_session_def blind_def)

lemma frames_quiet [framing]: "frames rb v (interfere id)"
  by (simp add: frames_def runs_quiet)

lemma frames_write:
  assumes "\<And>db. v (g db) = v db"
  shows "frames rb v (write_session g)"
  using assms unfolding frames_def by (auto intro!: runs_write simp: blind_def)

lemma frames_cases [framing]:
  "frames rb v m \<Longrightarrow> frames rb v m' \<Longrightarrow> frames rb v (if c then m else m')"
  "frames rb v n \<Longrightarrow> (\<And>x. frames rb v (k x)) \<Longrightarrow> frames rb v (case x of None \<Rightarrow> n | Some y \<Rightarrow> k y)"
  by (auto split: option.split)

lemma frames_coarser:
  assumes "frames rb v m" and "\<And>db. w db = f (v db)"
  shows "frames rb w m"
  using assms unfolding frames_def blind_def by auto

text \<open>What a frame gives: the view and the committed rows stay.\<close>

lemma frames_committed:
  assumes "frames rb v m"
  shows "runs (\<lambda>s. committed s = db) m (\<lambda>_ s. committed s = db) (\<lambda>s. committed s = db)"
  using assms by (simp add: frames_def blind_def)

lemma frames_view:
  assumes "frames rb v m"
  shows "runs (\<lambda>s. v (working s) = a \<and> v (committed s) = a) m (\<lambda>_ s. v (working s) = a \<and> v (committed s) = a)
    (\<lambda>s. v (working s) = a \<and> v (committed s) = a)"
  using assms by (simp add: frames_def blind_def)

section \<open>Credits and promotions\<close>

locale redemption_view =
  fixes v :: "'z promotion_db_scheme \<Rightarrow> 'v"
  assumes no_outbox: "v (outbox_events_update a db) = v db"
    and no_promotions: "v (promotions_update d db) = v db" "v (promotion_redemptions_update e db) = v db"
begin

lemma publish_frames: "frames rb v (publish reg es)"
  by (induction es) (unfold publish.simps, intro framing, intro framing frames_write no_outbox)

lemma save_promotion_frames: "frames rb v (save_promotion lower p)"
proof -
  have "v (put_promotion p db) = v db" for db
    by (simp add: put_promotion_def no_promotions)
  then show ?thesis unfolding save_promotion_def by (intro framing frames_write)
qed

lemma create_redemption_frames: "frames rb v (create_redemption lower rd)"
  unfolding create_redemption_def by (intro framing frames_write) (rule no_promotions)

lemma redeem_signup_frames:
  assumes "pe_rival_lock env = id" and "\<And>g. frames rb v (grant_port g)"
  shows "frames rb v (redeem_signup_promotion lower deferred_commit grant_port env cmd)"
  unfolding redeem_signup_promotion_def Let_def assms(1) deferred_commit_def
    find_current_ocr_credit_promotion_for_update_def find_redemption_by_promotion_and_beneficiary_def
  by (intro framing save_promotion_frames create_redemption_frames publish_frames assms(2))

end

locale promotion_view = redemption_view v for v :: "'z promotion_db_scheme \<Rightarrow> 'v" +
  assumes no_credits: "v (user_credits_update b db) = v db" "v (credit_transactions_update c db) = v db"
begin

lemma grant_step_frames:
  "frames rb v (is_duplicate_grant cmd)" "frames rb v (get_balance u)" "frames rb v (get_user_credit_for_update id u)"
  "frames rb v (save_user_credit uc)" "frames rb v (append_transaction i now t)" "frames rb v (flush_pending_writes id)"
proof -
  show "frames rb v (is_duplicate_grant cmd)"
    unfolding is_duplicate_grant_def exists_transaction_with_idempotency_key_def exists_transaction_with_source_def
    by (intro framing) (simp add: framing split: option.split)
  have "v (put_user_credit uc db) = v db" for db
    by (simp add: put_user_credit_def no_credits split: option.split)
  then show "frames rb v (save_user_credit uc)"
    unfolding save_user_credit_def by (rule frames_write)
  show "frames rb v (append_transaction i now t)"
    unfolding append_transaction_def by (rule frames_write) (rule no_credits)
qed (unfold get_balance_def get_user_credit_for_update_def flush_pending_writes_def, (intro framing)+)

lemma grant_credit_frames:
  assumes "ce_rival_lock env = id" and "ce_rival_flush env = id"
  shows "frames True v (grant_credit deferred_commit (deferred_rollback (Some rollback_session)) env cmd)"
  unfolding grant_credit_def assms deferred_commit_def deferred_rollback_def option.case
  by (intro framing grant_step_frames publish_frames)

lemma grant_port_frames:
  assumes "ce_rival_lock env = id" and "ce_rival_flush env = id"
  shows "frames True v (grant_ocr_credit env g)"
  unfolding grant_ocr_credit_def by (intro framing grant_credit_frames assms)

end

section \<open>A first grant does not roll back\<close>

text \<open>
  The rollback inside a grant would take the rows of the caller with it. It follows a violated key of
  the credit tables, which a grant that nobody races cannot cause.
\<close>

definition credit_keys_ok :: "'z credit_db_scheme \<Rightarrow> bool" where
  "credit_keys_ok db \<longleftrightarrow>
     distinct (map user_credit_key (user_credits db)) \<and> distinct (idempotency_keys (credit_transactions db)) \<and>
     distinct (source_keys (credit_transactions db))"

lemma put_user_credit_keys: "credit_keys_ok db \<Longrightarrow> credit_keys_ok (put_user_credit uc db)"
proof (cases "find_credit_row (uc_id uc) (feature_key_value (uc_feature_key uc)) db")
  case None
  assume ok: "credit_keys_ok db"
  have "\<forall>r \<in> set (user_credits db). user_credit_key r \<noteq> (uc_id uc, feature_key_value (uc_feature_key uc))"
    using None by (simp add: find_credit_row_def find_None_iff_ball)
  moreover have "user_credit_key (user_credit_to_row uc) = (uc_id uc, feature_key_value (uc_feature_key uc))"
    by (simp add: user_credit_key_def user_credit_to_row_def)
  ultimately show ?thesis
    using ok None by (auto simp: credit_keys_ok_def put_user_credit_def)
next
  case (Some r)
  assume "credit_keys_ok db"
  with Some show ?thesis
    by (simp add: credit_keys_ok_def put_user_credit_def) (subst map_key_update_rows, simp_all add: user_credit_key_def)
qed

lemma append_keys:
  assumes "credit_keys_ok db" and "\<not> grant_seen cmd db"
    and "mk_credit_append (gc_user_id cmd) (gc_reason cmd) GRANT (gc_amount cmd) (gc_source_type cmd) (gc_source_id cmd)
           (gc_idempotency_key cmd) = Inr tx"
  shows "credit_keys_ok (db\<lparr>credit_transactions := credit_transactions db @ [append_to_row i now tx]\<rparr>)"
proof -
  let ?r = "append_to_row i now tx"
  have tx: "ctr_idempotency_key ?r = gc_idempotency_key cmd"
    "source_key ?r = (case (gc_source_type cmd, gc_source_id cmd) of
       (Some t, Some j) \<Rightarrow> Some (credit_source_value t, j, gc_user_id cmd, ''ocr'', ''grant'') | _ \<Rightarrow> None)"
    using assms(3) by (auto simp: mk_credit_append_def append_to_row_def source_key_def split: if_splits option.splits)
  have snoc: "List.map_filter f (rs @ [r]) = List.map_filter f rs @ (case f r of None \<Rightarrow> [] | Some y \<Rightarrow> [y])" for f :: "credit_tx_row \<Rightarrow> 'k option" and rs r
    by (induction rs) (simp_all add: map_filter_simps split: option.split)
  have mem: "y \<in> set (List.map_filter f rs) \<longleftrightarrow> (\<exists>r \<in> set rs. f r = Some y)" for f :: "credit_tx_row \<Rightarrow> 'k option" and y rs
    by (induction rs) (auto simp: map_filter_simps split: option.split)
  show ?thesis
    using assms(1,2) unfolding credit_keys_ok_def idempotency_keys_def source_keys_def
    by (auto simp: snoc mem tx grant_seen_def split: option.splits)
qed

lemma flush_no_conflict:
  assumes "credit_keys_ok (working s)" and "flush_pending_writes id s = (r, s')"
  shows "r \<noteq> Inl CreditTransactionWriteConflictError" and "working s' = working s"
proof -
  have no: "\<not> is_write_conflict e \<and> e \<noteq> CreditTransactionWriteConflictError" if v: "credit_violation (working s) = Some e" for e
  proof -
    obtain ok where "(ok, e) \<in> set (credit_checks (working s))" "\<not> ok"
      using first_violation_Some [OF v [unfolded credit_violation_def]] by blast
    then show ?thesis
      using assms(1)
      by (auto simp: credit_checks_def credit_keys_ok_def user_credit_checks_def credit_tx_checks_def idempotent_constraints_def split: if_splits)
  qed
  show "r \<noteq> Inl CreditTransactionWriteConflictError" "working s' = working s"
    using assms(2) no
    by (auto simp: flush_pending_writes_def quiet_bind catchA_def flush_session_def raiseA_def
        split: if_splits option.splits)
qed

definition credit_tables :: "'z credit_db_scheme \<Rightarrow> user_credit_row list \<times> credit_tx_row list" where
  "credit_tables db = (user_credits db, credit_transactions db)"

lemma runs_if_pre:
  assumes "runs (\<lambda>s. P s \<and> c) m Q E" and "runs (\<lambda>s. P s \<and> \<not> c) m' Q E"
  shows "runs P (if c then m else m') Q E"
  using assms by (cases c) simp_all

context promotion_view begin

lemma fresh_grant_keeps:
  assumes "ce_rival_lock env = id" and "ce_rival_flush env = id"
  shows "runs (\<lambda>t. v (working t) = a \<and> credit_keys_ok (working t))
    (grant_credit deferred_commit (deferred_rollback (Some rollback_session)) env cmd)
    (\<lambda>_ t. v (working t) = a) (\<lambda>_. True)"
proof -
  let ?P = "\<lambda>t. v (working t) = a \<and> credit_keys_ok (working t)"
  let ?N = "\<lambda>t. ?P t \<and> \<not> grant_seen cmd (working t)"
  let ?V = "\<lambda>t. v (working t) = a"
  have dup: "runs ?P (is_duplicate_grant cmd) (\<lambda>d t. ?P t \<and> (\<not> d \<longrightarrow> ?N t)) (\<lambda>_. True)"
  proof (rule runsI)
    fix t d t' assume P: "?P t" and run: "is_duplicate_grant cmd t = (Inr d, t')"
    have "d = grant_seen cmd (working t)"
    proof (cases "tx_failed t")
      case True
      then have "gc_idempotency_key cmd = None" "gc_source_type cmd = None \<or> gc_source_id cmd = None" "\<not> d"
        using run by (auto simp: is_duplicate_grant_def bindA_def query_session_def exists_transaction_with_idempotency_key_def
            exists_transaction_with_source_def returnA_def split: option.splits)
      then show ?thesis by (auto simp: grant_seen_def)
    qed (use run in \<open>auto simp: is_duplicate_grant_ok\<close>)
    then show "?P t' \<and> (\<not> d \<longrightarrow> ?N t')" using P is_duplicate_frame [OF run] by simp
  qed simp
  have lock: "runs (\<lambda>t. (?P t \<and> (\<not> d \<longrightarrow> ?N t)) \<and> \<not> d) (get_user_credit_for_update id u) (\<lambda>_. ?N) (\<lambda>_. True)" for d u
    unfolding get_user_credit_for_update_def
    by (rule runs_weaken [where P = ?N], intro runs_bind [where Q = "\<lambda>_. ?N"] runs_quiet runs_query runs_liftE) simp_all
  have dupl: "runs (\<lambda>t. (?P t \<and> (\<not> d \<longrightarrow> ?N t)) \<and> d) (bindA (get_balance u) (\<lambda>b. returnA (grant_result_of b))) (\<lambda>_. ?V) (\<lambda>_. True)" for d u
    unfolding get_balance_def
    by (rule runs_weaken [where P = ?V], intro runs_bind [where Q = "\<lambda>_. ?V"] runs_query runs_liftE runs_returnA) simp_all
  have lift1: "runs ?N (liftE r) (\<lambda>_. ?N) (\<lambda>_. True)" for r :: "exn + user_credit"
    by (intro runs_liftE) simp_all
  have lift2: "runs ?N (liftE r) (\<lambda>tx t. ?N t \<and> r = Inr tx) (\<lambda>_. True)" for r :: "exn + credit_append"
    by (intro runs_liftE) simp_all
  have keep: "v (put_user_credit uc db) = v db" "credit_transactions (put_user_credit uc db) = credit_transactions db" for uc db
    by (simp_all add: put_user_credit_def no_credits split: option.split)
  have save: "runs ?N (save_user_credit uc) (\<lambda>_. ?N) (\<lambda>_. True)" for uc
    unfolding save_user_credit_def
    by (intro runs_write) (auto simp: keep put_user_credit_keys grant_seen_def)
  have app: "runs (\<lambda>t. ?N t \<and> mk_credit_append (gc_user_id cmd) (gc_reason cmd) GRANT (gc_amount cmd) (gc_source_type cmd)
      (gc_source_id cmd) (gc_idempotency_key cmd) = Inr tx) (append_transaction i now tx) (\<lambda>_. ?P) (\<lambda>_. True)" for i now tx
    unfolding append_transaction_def
    by (intro runs_write) (auto simp: no_credits append_keys)
  have pub: "runs ?P (publish reg es) (\<lambda>_. ?P) (\<lambda>_. True)" for reg es
    using publish_frame [of reg es] by (intro runsI) (fastforce simp: no_outbox credit_keys_ok_def)+
  have tail: "runs ?P (catchA
         (bindA (flush_pending_writes id) (\<lambda>_. bindA (returnA ()) (\<lambda>_. returnA b)))
         (\<lambda>e. if e = CreditTransactionWriteConflictError then h e else raiseA e)) (\<lambda>_. ?V) (\<lambda>_. True)" for b h
  proof (rule runsI)
    fix t x t' assume "?P t"
      "catchA (bindA (flush_pending_writes id) (\<lambda>_. bindA (returnA ()) (\<lambda>_. returnA b)))
         (\<lambda>e. if e = CreditTransactionWriteConflictError then h e else raiseA e) t = (Inr x, t')"
    then show "?V t'"
      using flush_no_conflict [of t]
      by (auto simp: catchA_def bindA_def raiseA_def returnA_def split: prod.splits sum.splits if_splits)
  qed simp
  show ?thesis
    unfolding grant_credit_def assms deferred_commit_def
    by (intro runs_bind [OF dup] runs_if_pre dupl runs_bind [OF lock] runs_bind [OF lift1] runs_bind [OF save] runs_bind [OF lift2]
        runs_bind [OF app] runs_bind [OF pub] tail)
qed

end

text \<open>The account tables: users with their settings and the tables of the auth module.\<close>

definition auth_tables ::
    "'z auth_db_scheme \<Rightarrow> credential_row list \<times> identity_row list \<times> session_row list \<times> refresh_row list" where
  "auth_tables db = (credential_rows db, identity_rows db, session_rows db, refresh_rows db)"

definition account_tables where
  "account_tables db = (user_rows db, user_settings_rows db, auth_tables db)"

interpretation account_view: promotion_view "account_tables :: 'z auth_db_scheme \<Rightarrow> _"
  by unfold_locales (simp_all add: account_tables_def auth_tables_def)

interpretation books: redemption_view "\<lambda>db :: 'z auth_db_scheme. (account_tables db, credit_tables db)"
  by unfold_locales (simp_all add: account_tables_def auth_tables_def credit_tables_def)

lemma framesD: "frames rb v m \<Longrightarrow> blind rb v P \<Longrightarrow> runs P m (\<lambda>_. P) P"
  by (simp add: frames_def)

lemma frames_weak: "frames rb v m \<Longrightarrow> blind rb v P \<Longrightarrow> runs P m (\<lambda>_. P) (\<lambda>_. True)"
  by (rule runs_weaken [OF framesD]) simp_all

lemma grant_port_keeps:
  assumes "ce_rival_lock env = id" and "ce_rival_flush env = id"
  shows "runs (\<lambda>t. account_tables (working t) = a \<and> credit_keys_ok (working t)) (grant_ocr_credit env g)
    (\<lambda>_ t. account_tables (working t) = a) (\<lambda>_. True)"
proof -
  let ?P = "\<lambda>t. account_tables (working t) = a \<and> credit_keys_ok (working t)" and ?V = "\<lambda>t. account_tables (working t) = a"
  have lift1: "runs ?P (liftE r) (\<lambda>_. ?P) (\<lambda>_. True)" for r :: "exn + credit_amount" by (intro runs_liftE) simp_all
  have lift2: "runs ?P (liftE r) (\<lambda>_. ?P) (\<lambda>_. True)" for r :: "exn + grant_command" by (intro runs_liftE) simp_all
  show ?thesis
    unfolding grant_ocr_credit_def
    by (intro runs_bind [OF lift1] runs_bind [OF lift2] runs_bind [OF account_view.fresh_grant_keeps [OF assms]] runs_returnA)
qed

lemma redeem_keeps_account:
  assumes "ce_rival_lock cenv = id" and "ce_rival_flush cenv = id" and "pe_rival_lock penv = id"
  shows "runs (\<lambda>t. account_tables (working t) = a \<and> credit_keys_ok (working t)) (redeem_for_signup db_lower key_of cenv penv x u)
    (\<lambda>_ t. account_tables (working t) = a) (\<lambda>_. True)"
proof -
  let ?P = "\<lambda>t. account_tables (working t) = a \<and> credit_keys_ok (working t)" and ?V = "\<lambda>t. account_tables (working t) = a"
  have bl: "blind False (\<lambda>db. (account_tables db, credit_tables db)) ?P"
    by (auto simp: blind_def credit_tables_def credit_keys_ok_def)
  have find1: "runs ?P (find_current_ocr_credit_promotion_for_update id now ctx) (\<lambda>_. ?P) (\<lambda>_. True)" for now ctx
    by (rule frames_weak [OF _ bl], unfold find_current_ocr_credit_promotion_for_update_def, intro framing)
  have find2: "runs ?P (find_redemption_by_promotion_and_beneficiary p k) (\<lambda>_. ?P) (\<lambda>_. True)" for p k
    by (rule frames_weak [OF _ bl], unfold find_redemption_by_promotion_and_beneficiary_def, intro framing)
  have create: "runs ?P (create_redemption db_lower rd) (\<lambda>_. ?P) (\<lambda>_. True)" for rd
    by (rule frames_weak [OF books.create_redemption_frames bl])
  have save: "runs ?P (save_promotion db_lower p) (\<lambda>_. ?P) (\<lambda>_. True)" for p
    by (rule frames_weak [OF books.save_promotion_frames bl])
  have pub: "runs ?P (publish reg es) (\<lambda>_. ?P) (\<lambda>_. True)" for reg es
    by (rule frames_weak [OF books.publish_frames bl])
  have lifts: "runs ?P (liftE r) (\<lambda>_. ?P) (\<lambda>_. True)" "runs ?P (liftE r') (\<lambda>_. ?P) (\<lambda>_. True)" "runs ?P (liftE r'') (\<lambda>_. ?P) (\<lambda>_. True)"
    for r :: "exn + unit" and r' :: "exn + ustr" and r'' :: "exn + uuid \<times> ustr"
    by (intro runs_liftE; simp)+
  have "runs ?P (redeem_signup_promotion db_lower deferred_commit (grant_ocr_credit cenv) penv cmd) (\<lambda>_. ?V) (\<lambda>_. True)" for cmd
    unfolding redeem_signup_promotion_def assms(3) deferred_commit_def Let_def
    by (intro runs_bind [OF find1] runs_option runs_bind [OF find2] runs_bind [OF lifts(1)] runs_bind [OF create] runs_bind [OF save]
        runs_bind [OF pub] runs_bind [OF grant_port_keeps [OF assms(1,2)]] runs_bind [where Q = "\<lambda>_. ?V"] runs_returnA) simp_all
  then show ?thesis
    unfolding redeem_for_signup_def
    by (intro runs_bind [OF lifts(2)] runs_bind [OF lifts(3)] runs_bind [where Q = "\<lambda>_. ?V"] runs_returnA)
qed

end
