(* ===== verification/Auth_Signup.thy ===== *)
theory Auth_Signup
  imports Account_Frames
begin

text \<open>
  Sign-up (\<open>auth/application/commands/signup\<close>) with the modules it calls: all of an account or nothing
  of it, and what happens when two requests sign the same person up.
\<close>

section \<open>What a step that returned did\<close>

lemma returned:
  "returnA y s = (Inr x, s') \<longleftrightarrow> x = y \<and> s' = s"
  "raiseA e s = (Inr x, s') \<longleftrightarrow> False"
  "liftE r s = (Inr x, s') \<longleftrightarrow> r = Inr x \<and> s' = s"
  "query_session f s = (Inr z, s') \<longleftrightarrow> \<not> tx_failed s \<and> z = f (working s) \<and> s' = s"
  "write_session g s = (Inr u, s') \<longleftrightarrow> \<not> tx_failed s \<and> s' = s\<lparr>working := g (working s)\<rparr>"
  "flush_session violation s = (Inr u, s') \<longleftrightarrow> \<not> tx_failed s \<and> violation (working s) = None \<and> s' = s"
  "interfere id s = (Inr u, s') \<longleftrightarrow> s' = s"
  by (auto simp: returnA_def raiseA_def liftE_def query_session_def write_session_def flush_session_def interfere_def modifyA_def
      split: option.splits)

lemma committed_returned:
  "auth_commit s = (Inr u, s') \<longleftrightarrow> \<not> tx_failed s \<and> auth_tables_ok (working s) \<and> s' = s\<lparr>committed := working s\<rparr>"
  by (auto simp: auth_commit_def sqlalchemy_commit_def commit_session_def bindA_def flush_session_def modifyA_def
      simp flip: auth_violation_None split: option.splits)

lemma publish_returned:
  assumes "publish reg es s = (Inr x, s')"
  shows "committed s' = committed s" and "tx_failed s' = tx_failed s" and "\<exists>rows. working s' = (working s)\<lparr>outbox_events := rows\<rparr>"
proof -
  show "committed s' = committed s" "\<exists>rows. working s' = (working s)\<lparr>outbox_events := rows\<rparr>"
    using publish_frame [OF assms] by auto
  show "tx_failed s' = tx_failed s"
    using assms by (induction es arbitrary: s) (fastforce simp: returned publish.simps elim!: bindA_InrE)+
qed

section \<open>The rows of a new account\<close>

definition new_user_row :: "('db, 'tok) signup_env \<Rightarrow> external_identity \<Rightarrow> user_row" where
  "new_user_row env x =
     \<lparr>ur_id = ue_user_id (sg_user env), ur_name = xi_name x, ur_nickname = None, ur_email = map_option identity_email_text (xi_email x),
      ur_profile_image_url = sg_default_url env, ur_created_at = ue_db_now (sg_user env), ur_updated_at = ue_db_now (sg_user env)\<rparr>"

definition new_consent_row :: "('db, 'tok) signup_env \<Rightarrow> signup_command \<Rightarrow> user_settings_row" where
  "new_consent_row env cmd =
     \<lparr>uss_user_id = ue_user_id (sg_user env), uss_terms_version = signup_consent_version (su_terms_version cmd),
      uss_privacy_version = signup_consent_version (su_privacy_version cmd), uss_terms_accepted_at = Some (ue_now (sg_user env)),
      uss_privacy_accepted_at = Some (ue_now (sg_user env)), uss_created_at = ue_db_now (sg_user env),
      uss_updated_at = ue_db_now (sg_user env)\<rparr>"

definition new_credential_row :: "('db, 'tok) signup_env \<Rightarrow> credential_row" where
  "new_credential_row env =
     \<lparr>cd_id = ae_credentials_id (sg_auth env), cd_user_id = ue_user_id (sg_user env), cd_role = ascii ''user'',
      cd_last_login_at = Some (ae_now (sg_auth env)), cd_created_at = ae_db_now (sg_auth env), cd_updated_at = ae_db_now (sg_auth env)\<rparr>"

definition new_account where
  "new_account env cmd x t db =
     (user_rows db @ [new_user_row env x], user_settings_rows db @ [new_consent_row env cmd],
      credential_rows db @ [new_credential_row env],
      identity_rows db @ [identity_to_record (sg_lower env) (ae_db_now (sg_auth env)) (ae_credentials_id (sg_auth env)) x],
      session_rows db @ [new_session_row (sg_auth env) (ae_credentials_id (sg_auth env))],
      refresh_rows db @ [new_refresh_row (sg_auth env) (ae_credentials_id (sg_auth env)) (ae_session_id (sg_auth env)) t])"

definition signup_quiet :: "('z auth_db_scheme, 'tok) signup_env \<Rightarrow> bool" where
  "signup_quiet env \<longleftrightarrow>
     ae_rival (sg_auth env) = id \<and> sg_settings_rival env = id \<and> ce_rival_lock (sg_credit env) = id \<and>
     ce_rival_flush (sg_credit env) = id \<and> pe_rival_lock (sg_promotion env) = id"

section \<open>Steps\<close>

lemma provision_returned:
  assumes "provision_for_signup url env cmd x s = (Inr i, s')" and "su_terms_accepted cmd" and "su_privacy_accepted cmd"
  shows "i = ue_user_id env" and "committed s' = committed s" and "\<not> tx_failed s'"
    and "\<exists>rows. working s' = (working s)\<lparr>user_rows := user_rows (working s) @
        [\<lparr>ur_id = ue_user_id env, ur_name = xi_name x, ur_nickname = None, ur_email = map_option identity_email_text (xi_email x),
          ur_profile_image_url = url, ur_created_at = ue_db_now env, ur_updated_at = ue_db_now env\<rparr>],
      user_settings_rows := user_settings_rows (working s) @
        [\<lparr>uss_user_id = ue_user_id env, uss_terms_version = signup_consent_version (su_terms_version cmd),
          uss_privacy_version = signup_consent_version (su_privacy_version cmd), uss_terms_accepted_at = Some (ue_now env),
          uss_privacy_accepted_at = Some (ue_now env), uss_created_at = ue_db_now env, uss_updated_at = ue_db_now env\<rparr>],
      outbox_events := rows\<rparr>"
proof -
  have trimmed: "normalized_consent_version (signup_consent_version v) = signup_consent_version v" for v
    by (cases v) (simp_all add: normalized_consent_version_def signup_consent_version_def)
  have mail: "map_option email_text (map_option Email m) = m" for m by (cases m) simp_all
  obtain u es t where u: "create_user (ue_user_id env) (ue_event_id env) (ue_event_at env) (xi_name x)
      (map_option identity_email_text (xi_email x)) url = Inr u"
    and t: "t = s\<lparr>working := add_settings_row (user_settings_to_record (ue_db_now env)
        \<lparr>uset_id = us_id u, uset_terms_version = signup_consent_version (su_terms_version cmd),
         uset_privacy_version = signup_consent_version (su_privacy_version cmd),
         uset_terms_accepted_at = Some (ue_now env), uset_privacy_accepted_at = Some (ue_now env)\<rparr>)
        (add_user_row (user_to_record (ue_db_now env) (snd (pull_events u))) (working s))\<rparr>" "\<not> tx_failed s"
    and p: "publish build_users_event_registry es t = (Inr (), s')" and i: "i = us_id (snd (pull_events u))"
    using assms
    by (auto simp: provision_for_signup_def resolve_user_for_login_def Let_def trimmed deferred_commit_def returned flush_users_def
        repo_create_account_state_def elim!: bindA_InrE)
  have u': "us_id u = ue_user_id env" "us_name u = xi_name x" "us_nickname u = None" "us_profile_image_url u = url"
    "us_email u = map_option Email (map_option identity_email_text (xi_email x))"
    using u by (auto simp: create_user_def assemble_user_eq record_event_def split: if_splits)
  have pulled: "us_id (snd (pull_events u)) = us_id u" "us_name (snd (pull_events u)) = us_name u"
    "us_email (snd (pull_events u)) = us_email u" "us_nickname (snd (pull_events u)) = us_nickname u"
    "us_profile_image_url (snd (pull_events u)) = us_profile_image_url u"
    by (simp_all add: pull_events_def)
  show "i = ue_user_id env" "committed s' = committed s" "\<not> tx_failed s'"
    using i u'(1) pulled publish_returned(1,2) [OF p] t by simp_all
  show "\<exists>rows. working s' = (working s)\<lparr>user_rows := user_rows (working s) @
        [\<lparr>ur_id = ue_user_id env, ur_name = xi_name x, ur_nickname = None, ur_email = map_option identity_email_text (xi_email x),
          ur_profile_image_url = url, ur_created_at = ue_db_now env, ur_updated_at = ue_db_now env\<rparr>],
      user_settings_rows := user_settings_rows (working s) @
        [\<lparr>uss_user_id = ue_user_id env, uss_terms_version = signup_consent_version (su_terms_version cmd),
          uss_privacy_version = signup_consent_version (su_privacy_version cmd), uss_terms_accepted_at = Some (ue_now env),
          uss_privacy_accepted_at = Some (ue_now env), uss_created_at = ue_db_now env, uss_updated_at = ue_db_now env\<rparr>],
      outbox_events := rows\<rparr>"
    using publish_returned(3) [OF p] t(1) u' pulled mail
    by (auto simp: add_settings_row_def add_user_row_def user_to_record_def user_settings_to_record_def)
qed

lemma map_settings_id: "map_settings id = id"
  by (rule ext) (simp add: map_settings_def)

lemma settings_returned:
  assumes "initialize_settings id u consent s = (Inr y, s')"
  shows "committed s' = committed s" and "\<not> tx_failed s'" and "\<exists>rows. working s' = (working s)\<lparr>settings_rows := rows\<rparr>"
  using assms
  by (auto simp: initialize_settings_def update_notification_settings_def repo_update_settings_def map_settings_id quiet_bind returned
      deferred_commit_def flush_notifications_def map_settings_def elim!: bindA_InrE)

lemma credential_returned:
  assumes "repo_create_for_external_identity lower env x u s = (Inr c, s')"
  shows "committed s' = committed s" and "\<not> tx_failed s'"
    and "working s' = add_identity (identity_to_record lower (ae_db_now env) (ae_credentials_id env) x)
      (add_credential \<lparr>cd_id = ae_credentials_id env, cd_user_id = u, cd_role = ascii ''user'', cd_last_login_at = Some (ae_now env),
        cd_created_at = ae_db_now env, cd_updated_at = ae_db_now env\<rparr> (working s))"
    and "crd_id c = ae_credentials_id env" and "crd_user_id c = u" and "role_text (crd_role c) = ascii ''user''"
  using assms
  by (auto simp: repo_create_for_external_identity_def returned flush_auth_def create_credential_def assemble_credential_def
      bindE_Inr mk_role_def allowed_roles_def record_event_def credential_to_record_def split: if_splits elim!: bindA_InrE)

lemma open_login_returned:
  assumes "open_login auth_commit ports env c s = (Inr res, s')"
  obtains t where "tp_issue_refresh ports = Inr t" and "\<not> tx_failed s"
    and "s' = open_session (with_session env (crd_id c) t (working s))" and "auth_tables_ok (working s')"
    and "tr_refresh_token res = ir_token t"
    and "tr_access_token res =
      ia_token (tp_issue_access ports (crd_user_id c) (crd_id c) (ae_session_id env) (role_text (crd_role c)))"
  using assms
  by (auto simp: open_login_def repo_create_session_def returned flush_auth_def repo_save_refresh_token_def create_refresh_token_def
      mk_token_hash_def bindE_Inr Let_def committed_returned open_session_def with_session_def new_session_row_def new_refresh_row_def
      session_to_record_def refresh_to_record_def split: if_splits elim!: bindA_InrE)

lemma new_user_ensured:
  assumes "auth_well_formed db" and "ensure_new_user lower x (open_session db) = (Inr y, s)"
  shows "s = open_session db" and "\<nexists>c. identity_account x db c" and "\<nexists>c. email_account lower x db c"
proof -
  note ok = auth_wfD(1) [OF assms(1)]
  show none: "\<nexists>c. identity_account x db c"
    using assms(2) find_identity_run(1) [OF assms(1), of x]
    by (auto simp: ensure_new_user_def raiseA_def elim!: bindA_InrE)
  note found = bindA_Inr [where m = "repo_find_by_external_identity x", OF find_identity_run(2) [OF assms(1) none]]
  have rest: "(case (xi_email_verified x, canonical_email lower x) of
      (True, Some mail) \<Rightarrow> bindA (repo_find_by_verified_email mail)
        (\<lambda>linked. if linked \<noteq> None then raiseA UserAlreadyExistsError else returnA ())
    | _ \<Rightarrow> returnA ()) (open_session db) = (Inr y, s)"
    using assms(2) by (simp add: ensure_new_user_def found)
  show "\<nexists>c. email_account lower x db c"
  proof
    assume "\<exists>c. email_account lower x db c"
    then obtain c mail where m: "email_account lower x db c" "canonical_email lower x = Some mail" "xi_email_verified x"
      by (auto simp: email_account_def)
    obtain c' where c': "joined_credential (has_verified_email mail) db = Some c'" "email_account lower x db c'"
      by (rule joined_email [OF ok m(1,2)])
    then have "c' \<in> set (credential_rows db)" by (simp add: email_account_def)
    from find_email_run(1) [OF assms(1) c'(1) this] show False
      using rest m(2,3) by (simp add: bindA_Inr [where m = "repo_find_by_verified_email mail"] raiseA_def)
  qed
  show "s = open_session db"
  proof (cases "xi_email_verified x \<and> canonical_email lower x \<noteq> None")
    case True
    then obtain mail where mail: "xi_email_verified x" "canonical_email lower x = Some mail" by blast
    from find_email_run(2) [OF assms(1) no_email [OF ok \<open>\<nexists>c. email_account lower x db c\<close> mail(2,1)]] show ?thesis
      using rest mail by (simp add: bindA_Inr [where m = "repo_find_by_verified_email mail"] returnA_def)
  next
    case False
    then show ?thesis using rest by (auto simp: returnA_def split: bool.splits option.splits)
  qed
qed

section \<open>All or nothing\<close>

lemma accepted_consent: "signup_errors cmd = [] \<Longrightarrow> su_terms_accepted cmd \<and> su_privacy_accepted cmd"
  by (auto simp: signup_errors_def Let_def split: if_splits)

lemma signup_steps_returned:
  assumes "auth_well_formed db" and "credit_keys_ok db" and "signup_quiet env" and "signup_errors cmd = []"
    and "signup_steps env auth_commit cmd x (open_session db) = (Inr res, s)"
  shows "\<exists>t. tp_issue_refresh (sg_ports env) = Inr t \<and> s = open_session (committed s) \<and> auth_tables_ok (committed s) \<and>
    account_tables (committed s) = new_account env cmd x t db \<and>
    (\<nexists>c. identity_account x db c) \<and> (\<nexists>c. email_account (sg_lower env) x db c) \<and>
    tr_refresh_token res = ir_token t \<and>
    tr_access_token res = ia_token (tp_issue_access (sg_ports env) (ue_user_id (sg_user env)) (ae_credentials_id (sg_auth env))
      (ae_session_id (sg_auth env)) (ascii ''user''))"
proof -
  note quiet = assms(3) [unfolded signup_quiet_def]
  obtain s1 s2 u s3 s4 s5 c s6 s7 where
    ensured: "ensure_new_user (sg_lower env) x (open_session db) = (Inr (), s1)" and
    sync: "synchronize (sg_blake2b_8 env) (sg_lower env) (ae_rival (sg_auth env)) x s1 = (Inr (), s2)" and
    user: "provision_for_signup (sg_default_url env) (sg_user env) cmd x s2 = (Inr u, s3)" and
    settings: "initialize_settings (sg_settings_rival env) u (su_marketing_consent cmd) s3 = (Inr (), s4)" and
    redeemed: "redeem_for_signup (sg_db_lower env) (sg_key_of env) (sg_credit env) (sg_promotion env) x u s4 = (Inr (), s5)" and
    cred: "repo_create_for_external_identity (sg_lower env) (sg_auth env) x u s5 = (Inr c, s6)" and
    event: "publish build_auth_event_registry (fst (pull_events c)) s6 = (Inr (), s7)" and
    opened: "open_login auth_commit (sg_ports env) (sg_auth env) (snd (pull_events c)) s7 = (Inr res, s)"
    using assms(5) unfolding signup_steps_def by (auto elim!: bindA_InrE)
  note new = new_user_ensured [OF assms(1) ensured]
  have s2: "s2 = open_session db"
    using sync new(1) quiet by (auto simp: synchronize_def returned elim!: bindA_InrE)
  note u = provision_returned [OF user accepted_consent [OF assms(4), THEN conjunct1] accepted_consent [OF assms(4), THEN conjunct2]]
  note st = settings_returned [OF settings [unfolded quiet [THEN conjunct2, THEN conjunct1]]]
  have before: "account_tables (working s4) =
      (user_rows db @ [new_user_row env x], user_settings_rows db @ [new_consent_row env cmd], auth_tables db)"
    using u(4) st(3) by (auto simp: s2 account_tables_def auth_tables_def new_user_row_def new_consent_row_def)
  have "credit_keys_ok (working s4)"
    using u(4) st(3) assms(2) by (auto simp: s2 credit_keys_ok_def)
  then have kept: "account_tables (working s5) = account_tables (working s4)"
    using redeem_keeps_account [of "sg_credit env" "sg_promotion env" "account_tables (working s4)" "sg_db_lower env" "sg_key_of env" x u]
      redeemed quiet by (auto simp: runs_def)
  note c = credential_returned [OF cred] and p = publish_returned [OF event]
  obtain t where t: "tp_issue_refresh (sg_ports env) = Inr t"
    and s: "s = open_session (with_session (sg_auth env) (crd_id (snd (pull_events c))) t (working s7))" and ok: "auth_tables_ok (working s)"
    and tokens: "tr_refresh_token res = ir_token t"
      "tr_access_token res = ia_token (tp_issue_access (sg_ports env) (crd_user_id (snd (pull_events c))) (crd_id (snd (pull_events c)))
        (ae_session_id (sg_auth env)) (role_text (crd_role (snd (pull_events c)))))"
    by (rule open_login_returned [OF opened])
  have pulled: "crd_id (snd (pull_events c)) = ae_credentials_id (sg_auth env)" "crd_user_id (snd (pull_events c)) = ue_user_id (sg_user env)"
    "role_text (crd_role (snd (pull_events c))) = ascii ''user''"
    using c(4-6) u(1) by (simp_all add: pull_events_def)
  obtain rows where w7: "working s7 = (working s6)\<lparr>outbox_events := rows\<rparr>" using p(3) by blast
  have "account_tables (working s) = new_account env cmd x t db"
    using before unfolding kept [symmetric]
    by (simp add: s w7 c(3) pulled u(1) account_tables_def auth_tables_def new_account_def with_session_def auth_rows
        add_session_def add_refresh_def add_identity_def add_credential_def new_credential_row_def)
  then show ?thesis
    using t s ok new(2,3) tokens pulled by (intro exI [of _ t]) simp
qed

text \<open>None of the steps before the commit commits.\<close>

lemma publish_any: "frames rb (\<lambda>_. ()) (publish reg es)"
  by (induction es) (unfold publish.simps, intro framing, intro framing frames_write refl)

lemma settings_any: "frames rb (\<lambda>_. ()) (initialize_settings id u consent)"
  unfolding initialize_settings_def update_notification_settings_def repo_update_settings_def map_settings_id deferred_commit_def
    flush_notifications_def
  by (intro framing frames_write refl)

lemma provision_any: "frames rb (\<lambda>_. ()) (provision_for_signup url env cmd x)"
  unfolding provision_for_signup_def resolve_user_for_login_def Let_def repo_create_account_state_def flush_users_def deferred_commit_def
  by (intro framing frames_write refl publish_any)

lemma redeem_any:
  assumes "ce_rival_lock cenv = id" and "ce_rival_flush cenv = id" and "pe_rival_lock penv = id"
  shows "frames True (\<lambda>_ :: 'z auth_db_scheme. ()) (redeem_for_signup db_lower key_of cenv penv x u)"
proof -
  have "frames True (account_tables :: 'z auth_db_scheme \<Rightarrow> _) (redeem_for_signup db_lower key_of cenv penv x u)"
    unfolding redeem_for_signup_def
    by (intro framing account_view.redeem_signup_frames account_view.grant_port_frames assms)
  then show ?thesis by (rule frames_coarser [where f = "\<lambda>_. ()"]) simp
qed

lemma ensure_any: "frames rb (\<lambda>_. ()) (ensure_new_user lower x)"
  unfolding ensure_new_user_def repo_find_by_external_identity_def repo_find_by_verified_email_def
  by (intro framing) (auto intro!: framing split: bool.split option.split)

lemma credential_any: "frames rb (\<lambda>_. ()) (repo_create_for_external_identity lower env x u)"
  unfolding repo_create_for_external_identity_def flush_auth_def by (intro framing frames_write refl)

lemma open_login_uncommitted:
  "runs (\<lambda>s. committed s = db) (open_login auth_commit ports env c) (\<lambda>_ _. True) (\<lambda>s. committed s = db)"
proof -
  have steps: "frames rb (\<lambda>_. ()) (repo_create_session env i)" "frames rb (\<lambda>_. ()) (repo_save_refresh_token env i k h e)" for rb i k h e
    unfolding repo_create_session_def repo_save_refresh_token_def flush_auth_def by (intro framing frames_write refl)+
  have last: "runs (\<lambda>s. committed s = db) auth_commit (\<lambda>_ _. True) (\<lambda>s. committed s = db)"
    unfolding auth_commit_def sqlalchemy_commit_def by (intro runs_commit) simp_all
  show ?thesis
    unfolding open_login_def Let_def
    by (intro runs_bind [OF frames_committed [OF steps(1)]] runs_bind [OF frames_committed [OF frames_pure(3)]]
        runs_bind [OF frames_committed [OF steps(2)]] runs_bind [OF last] runs_returnA TrueI)
qed

lemma signup_steps_uncommitted:
  assumes "signup_quiet env"
  shows "runs (\<lambda>s. committed s = db) (signup_steps env auth_commit cmd x) (\<lambda>_ _. True) (\<lambda>s. committed s = db)"
proof -
  note quiet = assms [unfolded signup_quiet_def]
  have sync: "frames rb (\<lambda>_. ()) (synchronize b l id x)" for rb b l
    unfolding synchronize_def by (intro framing)
  note c = frames_committed
  show ?thesis
    unfolding signup_steps_def quiet [THEN conjunct1] quiet [THEN conjunct2, THEN conjunct1]
    by (intro runs_bind [OF c [OF ensure_any]] runs_bind [OF c [OF sync]] runs_bind [OF c [OF provision_any]]
        runs_bind [OF c [OF settings_any]] runs_bind [OF c [OF redeem_any]] runs_bind [OF c [OF credential_any]]
        runs_bind [OF c [OF publish_any]] open_login_uncommitted) (use quiet in simp_all)
qed

text \<open>C11. A sign-up creates the whole account - user, consents, credential, identity, session and refresh token, nothing else
  in these tables - for a person who has none, commits it and hands out its tokens; or it reports an error, the session is
  rolled back and nothing at all is stored, whichever step failed.\<close>

theorem signup_all_or_nothing:
  assumes "auth_well_formed db" and "credit_keys_ok db" and "signup_quiet env"
  shows "case signup verify env auth_commit sqlalchemy_rollback cmd (open_session db) of
      (Inl e, s) \<Rightarrow> s = open_session db
    | (Inr res, s) \<Rightarrow> \<exists>x t. signup_errors cmd = [] \<and> verify (su_provider_token cmd) = Inr x \<and> tp_issue_refresh (sg_ports env) = Inr t \<and>
        s = open_session (committed s) \<and> auth_tables_ok (committed s) \<and> account_tables (committed s) = new_account env cmd x t db \<and>
        (\<nexists>c. identity_account x db c) \<and> (\<nexists>c. email_account (sg_lower env) x db c) \<and>
        tr_refresh_token res = ir_token t \<and>
        tr_access_token res = ia_token (tp_issue_access (sg_ports env) (ue_user_id (sg_user env)) (ae_credentials_id (sg_auth env))
          (ae_session_id (sg_auth env)) (ascii ''user''))"
proof (cases "signup_errors cmd = []")
  case False
  then show ?thesis by (simp add: signup_def raiseA_def)
next
  case True
  show ?thesis
  proof (cases "verify (su_provider_token cmd)")
    case (Inl e)
    then show ?thesis using True by (simp add: signup_def bind_pure raiseA_def)
  next
    case (Inr x)
    show ?thesis
    proof (cases "signup_steps env auth_commit cmd x (open_session db)")
      case (Pair r s)
      show ?thesis
      proof (cases r)
        case (Inl e)
        then have "committed s = db"
          using signup_steps_uncommitted [OF assms(3), of db cmd x, unfolded runs_def, rule_format, of "open_session db"] Pair by simp
        then show ?thesis
          using True \<open>verify (su_provider_token cmd) = Inr x\<close> Pair Inl
          by (simp add: signup_def bind_pure catchA_def sqlalchemy_rollback_def rollback_session_def bindA_def raiseA_def open_session_def)
      next
        case (Inr res)
        then show ?thesis
          using True \<open>verify (su_provider_token cmd) = Inr x\<close> Pair
            signup_steps_returned [OF assms True Pair [unfolded Inr]]
          by (auto simp: signup_def bind_pure catchA_def)
      qed
    qed
  qed
qed

end
