(* ===== verification/Auth_Runs.thy ===== *)
theory Auth_Runs
  imports Auth_Signup
begin

text \<open>
  Any sequence of sign-ups, logins, refreshes, logouts and withdrawals keeps the tables of the auth
  module well-formed, whatever identifiers, tokens and clocks the calls are given.
\<close>

definition auth_sound :: "'z auth_db_scheme \<Rightarrow> bool" where
  "auth_sound db \<longleftrightarrow>
     (\<forall>c \<in> set (credential_rows db). cd_role c \<in> set allowed_roles) \<and> (\<forall>t \<in> set (refresh_rows db). token_of_its_session db t)"

definition auth_inv :: "'z auth_db_scheme session \<Rightarrow> bool" where
  "auth_inv s \<longleftrightarrow> auth_well_formed (committed s) \<and> auth_sound (working s)"

text \<open>What others commit while a call waits keeps the tables as they should be.\<close>

definition calm :: "('z auth_db_scheme \<Rightarrow> 'z auth_db_scheme) \<Rightarrow> bool" where
  "calm rival \<longleftrightarrow>
     (\<forall>db. auth_well_formed db \<longrightarrow> auth_well_formed (rival db)) \<and> (\<forall>db. auth_sound db \<longrightarrow> auth_sound (rival db))"

lemma well_formed_iff: "auth_well_formed db \<longleftrightarrow> auth_tables_ok db \<and> auth_sound db"
  by (auto simp: auth_well_formed_def auth_sound_def)

lemma auth_sound_cong: "auth_tables db' = auth_tables db \<Longrightarrow> auth_sound db' = auth_sound db"
  by (simp add: auth_tables_def auth_sound_def token_of_its_session_def)

lemma auth_inv_blind: "blind True auth_tables auth_inv"
  using auth_sound_cong by (auto simp: blind_def auth_inv_def well_formed_iff)

lemma auth_inv_frames: "frames True auth_tables m \<Longrightarrow> runs auth_inv m (\<lambda>_. auth_inv) auth_inv"
  by (rule framesD [OF _ auth_inv_blind])

lemma auth_inv_commit: "runs auth_inv auth_commit (\<lambda>_. auth_inv) auth_inv"
  unfolding auth_commit_def sqlalchemy_commit_def
  by (intro runs_commit) (simp_all add: auth_inv_def well_formed_iff auth_violation_None)

lemma auth_inv_flush: "runs auth_inv (flush_session violation) (\<lambda>_. auth_inv) auth_inv"
  by (intro runs_flush) (simp_all add: auth_inv_def)

lemma auth_inv_rival:
  assumes "calm rival"
  shows "runs auth_inv (interfere rival) (\<lambda>_. auth_inv) auth_inv"
  using assms by (simp add: runs_def interfere_def modifyA_def auth_inv_def calm_def)

section \<open>Writes\<close>

lemma token_of_writes:
  "token_of_its_session (put_revoked a b i db) t = token_of_its_session db t"
  "token_of_its_session (put_login a b i db) t = token_of_its_session db t"
  "token_of_its_session (add_identity r db) t = token_of_its_session db t"
  "token_of_its_session (add_credential c db) t = token_of_its_session db t"
  "token_of_its_session (drop_refresh p db) t = token_of_its_session db t"
  "token_of_its_session (add_refresh u db) t = token_of_its_session db t"
  by (simp_all add: token_of_its_session_def auth_rows exists_row_iff [symmetric] exists_update_rows)

lemma sound_writes:
  "auth_sound db \<Longrightarrow> auth_sound (put_login a b i db)"
  "auth_sound db \<Longrightarrow> auth_sound (put_revoked a b i db)"
  "auth_sound db \<Longrightarrow> auth_sound (add_identity r db)"
  "auth_sound db \<Longrightarrow> auth_sound (drop_refresh p db)"
  "auth_sound db \<Longrightarrow> cd_role c \<in> set allowed_roles \<Longrightarrow> auth_sound (add_credential c db)"
  "auth_sound db \<Longrightarrow> token_of_its_session db t \<Longrightarrow> auth_sound (add_refresh t db)"
  by (auto simp: auth_sound_def token_of_writes auth_rows set_update_rows)

lemma sound_add_session: "auth_sound db \<Longrightarrow> auth_sound (add_session n db)"
  by (auto simp: auth_sound_def token_of_its_session_def auth_rows)

lemma sound_drop: "auth_sound db \<Longrightarrow> auth_sound (drop_auth_state i db)"
  by (auto simp: auth_sound_def token_of_its_session_def drop_auth_state_def of_session_def exists_row_iff) fastforce

section \<open>Operations\<close>

definition keeps :: "('z auth_db_scheme session, exn, 'a) action \<Rightarrow> bool" where
  "keeps m \<longleftrightarrow> runs auth_inv m (\<lambda>_. auth_inv) auth_inv"

named_theorems keeping

lemma keeps_bind [keeping]: "keeps m \<Longrightarrow> (\<And>x. keeps (f x)) \<Longrightarrow> keeps (bindA m f)"
  unfolding keeps_def by (rule runs_bind)

lemma keeps_catch [keeping]: "keeps m \<Longrightarrow> (\<And>e. keeps (h e)) \<Longrightarrow> keeps (catchA m h)"
  unfolding keeps_def by (rule runs_catch)

lemma keeps_pure [keeping]: "keeps (returnA x)" "keeps (raiseA e)" "keeps (liftE r)" "keeps (query_session f)"
  unfolding keeps_def by (intro runs_returnA runs_raiseA runs_liftE runs_query; simp)+

lemma keeps_session [keeping]: "keeps rollback_session" "keeps auth_commit" "keeps (flush_session violation)"
  using auth_inv_commit auth_inv_flush
  by (simp_all add: keeps_def runs_def [of _ rollback_session] rollback_session_def auth_inv_def [abs_def] well_formed_iff)

lemma keeps_if [keeping]: "keeps m \<Longrightarrow> keeps m' \<Longrightarrow> keeps (if c then m else m')"
  by simp

lemma keeps_option [keeping]: "keeps n \<Longrightarrow> (\<And>y. keeps (k y)) \<Longrightarrow> keeps (case x of None \<Rightarrow> n | Some y \<Rightarrow> k y)"
  by (cases x) simp_all

lemma keeps_pair [keeping]: "(\<And>y z. keeps (k y z)) \<Longrightarrow> keeps (case x of (y, z) \<Rightarrow> k y z)"
  by (cases x) simp

lemma keeps_bool [keeping]: "keeps n \<Longrightarrow> keeps k \<Longrightarrow> keeps (case b of True \<Rightarrow> n | False \<Rightarrow> k)"
  by (cases b) simp_all

lemma keeps_rival: "calm rival \<Longrightarrow> keeps (interfere rival)"
  by (simp add: keeps_def auth_inv_rival)

lemma keeps_write: "(\<And>db. auth_sound db \<Longrightarrow> auth_sound (g db)) \<Longrightarrow> keeps (write_session g)"
  unfolding keeps_def by (intro runs_write) (simp_all add: auth_inv_def)

lemma keeps_frames: "frames True auth_tables m \<Longrightarrow> keeps m"
  by (simp add: keeps_def auth_inv_frames)

lemma flush_keeps [keeping]: "keeps flush_auth"
  by (simp add: flush_auth_def keeps_session)

text \<open>A session that was just stored is there for its token.\<close>

definition stored_session :: "uuid \<Rightarrow> uuid \<Rightarrow> 'z auth_db_scheme session \<Rightarrow> bool" where
  "stored_session i k s \<longleftrightarrow>
     auth_inv s \<and> (\<exists>n \<in> set (session_rows (working s)). sn_id n = k \<and> sn_credentials_id n = i)"

lemma add_token_keeps:
  assumes "rt_credentials_id t = i" and "rt_session_id t = Some k"
  shows "runs (stored_session i k) (write_session (add_refresh t)) (\<lambda>_. auth_inv) auth_inv"
  using assms
  by (intro runs_write) (auto simp: stored_session_def auth_inv_def token_of_its_session_def intro!: sound_writes(6))

lemma create_session_stores: "runs auth_inv (repo_create_session env i) (stored_session i) auth_inv"
proof -
  let ?Q = "stored_session i (ae_session_id env)"
  have "runs auth_inv (write_session (add_session (session_to_record (ae_db_now env)
      \<lparr>ses_id = ae_session_id env, ses_credentials_id = i, ses_revoked_at = None\<rparr>))) (\<lambda>_. ?Q) auth_inv"
    by (intro runs_write) (auto simp: stored_session_def auth_inv_def sound_add_session auth_rows session_to_record_def)
  moreover have "runs ?Q flush_auth (\<lambda>_. ?Q) auth_inv"
    unfolding flush_auth_def by (intro runs_flush) (simp_all add: stored_session_def auth_inv_def)
  ultimately show ?thesis
    unfolding repo_create_session_def by (intro runs_bind runs_returnA) auto
qed

lemma save_token_keeps: "runs (stored_session i k) (repo_save_refresh_token env i k h e) (\<lambda>_. auth_inv) auth_inv"
  unfolding repo_save_refresh_token_def
proof (rule runs_bind)
  let ?Q = "\<lambda>t s. stored_session i k s \<and> rft_credentials_id t = i \<and> rft_session_id t = Some k"
  show "runs (stored_session i k) (liftE (create_refresh_token (ae_refresh_id env) i h e (Some k))) ?Q auth_inv"
    by (intro runs_liftE) (auto simp: create_refresh_token_def bindE_Inr stored_session_def)
  show "runs (?Q t) (write_session (add_refresh (refresh_to_record (ae_db_now env) t))) (\<lambda>_. auth_inv) auth_inv" for t
    by (intro runs_write)
      (auto simp: stored_session_def auth_inv_def token_of_its_session_def refresh_to_record_def intro!: sound_writes(6))
qed

lemma open_login_keeps: "keeps (open_login auth_commit ports env c)"
proof -
  have lift: "runs (stored_session i k) (liftE r) (\<lambda>_. stored_session i k) auth_inv" for i k and r :: "exn + issued_refresh"
    by (intro runs_liftE) (simp_all add: stored_session_def)
  show ?thesis
    unfolding open_login_def Let_def keeps_def
    by (intro runs_bind [OF create_session_stores] runs_bind [OF lift] runs_bind [OF save_token_keeps] runs_bind [OF auth_inv_commit]
        runs_returnA)
qed

lemma rotated_token_keeps:
  assumes "cd_id c = j"
  shows "runs (stored_session j k)
    (bindA (liftE (create_refresh_token i (cd_id c) new_hash expires_at (Some k))) (\<lambda>new.
     bindA (write_session (add_refresh (refresh_to_record now new))) (\<lambda>_.
     bindA (liftE (credential_to_domain c)) (\<lambda>credentials.
     returnA (credentials, k))))) (\<lambda>_. auth_inv) auth_inv"
proof (rule runs_bind)
  let ?Q = "\<lambda>t s. stored_session j k s \<and> rft_credentials_id t = cd_id c \<and> rft_session_id t = Some k"
  show "runs (stored_session j k) (liftE (create_refresh_token i (cd_id c) new_hash expires_at (Some k))) ?Q auth_inv"
    using assms by (intro runs_liftE) (auto simp: create_refresh_token_def bindE_Inr stored_session_def)
  have added: "runs (?Q t) (write_session (add_refresh (refresh_to_record now t))) (\<lambda>_. auth_inv) auth_inv" for t
    by (intro runs_write)
      (auto simp: stored_session_def auth_inv_def token_of_its_session_def refresh_to_record_def assms intro!: sound_writes(6))
  show "runs (?Q t) (bindA (write_session (add_refresh (refresh_to_record now t))) (\<lambda>_.
      bindA (liftE (credential_to_domain c)) (\<lambda>credentials. returnA (credentials, k)))) (\<lambda>_. auth_inv) auth_inv" for t
    by (intro runs_bind [OF added] runs_bind [where Q = "\<lambda>_. auth_inv"] runs_liftE runs_returnA)
qed

lemma runs_if_known: "(c \<Longrightarrow> runs P m Q E) \<Longrightarrow> (\<not> c \<Longrightarrow> runs P m' Q E) \<Longrightarrow> runs P (if c then m else m') Q E"
  by simp

lemma rotate_keeps:
  assumes "calm (ae_rival env)"
  shows "keeps (repo_rotate_refresh_token env h new_hash expires_at)"
proof -
  let ?tail = "\<lambda>t s. bindA (query_session (credential_by_id (rt_credentials_id t))) (\<lambda>found.
      case found of
        None \<Rightarrow> raiseA AuthenticationError
      | Some c \<Rightarrow>
          if cd_id c \<noteq> sn_credentials_id s then raiseA AuthenticationError
          else
            bindA (liftE (create_refresh_token (ae_refresh_id env) (cd_id c) new_hash expires_at (Some (sn_id s)))) (\<lambda>new.
            bindA (write_session (add_refresh (refresh_to_record (ae_db_now env) new))) (\<lambda>_.
            bindA (liftE (credential_to_domain c)) (\<lambda>credentials.
            returnA (credentials, sn_id s)))))"
  let ?there = "\<lambda>n. \<lambda>s. auth_inv s \<and> (\<forall>r. n = Some r \<longrightarrow> stored_session (sn_credentials_id r) (sn_id r) s)"
  have find: "runs auth_inv (query_session (session_by_id k)) ?there auth_inv" for k
    by (intro runs_query) (auto simp: stored_session_def session_by_id_def dest: find_SomeD)
  have inv: "stored_session i k s \<Longrightarrow> auth_inv s" for i k s by (simp add: stored_session_def)
  have tail: "runs (stored_session (sn_credentials_id s) (sn_id s)) (?tail t s) (\<lambda>_. auth_inv) auth_inv" for t s
  proof (rule runs_bind [where Q = "\<lambda>_. stored_session (sn_credentials_id s) (sn_id s)"])
    show "runs (stored_session (sn_credentials_id s) (sn_id s)) (case found of
        None \<Rightarrow> raiseA AuthenticationError
      | Some c \<Rightarrow>
          if cd_id c \<noteq> sn_credentials_id s then raiseA AuthenticationError
          else
            bindA (liftE (create_refresh_token (ae_refresh_id env) (cd_id c) new_hash expires_at (Some (sn_id s)))) (\<lambda>new.
            bindA (write_session (add_refresh (refresh_to_record (ae_db_now env) new))) (\<lambda>_.
            bindA (liftE (credential_to_domain c)) (\<lambda>credentials.
            returnA (credentials, sn_id s))))) (\<lambda>_. auth_inv) auth_inv" for found
    proof (cases found)
      case (Some c)
      show ?thesis
        unfolding Some option.case by (intro runs_if_known runs_raiseA inv) (auto simp: rotated_token_keeps dest: sym)
    qed (simp add: runs_raiseA inv)
  qed (intro runs_query, simp_all add: inv)
  have looked: "keeps (bindA (query_session (session_by_id k)) (\<lambda>sess.
      case sess of
        None \<Rightarrow> raiseA AuthenticationError
      | Some s \<Rightarrow> if sn_revoked_at s \<noteq> None then raiseA AuthenticationError else ?tail t s))" for k t
    unfolding keeps_def
  proof (rule runs_bind [OF find])
    show "runs (?there n) (case n of
        None \<Rightarrow> raiseA AuthenticationError
      | Some s \<Rightarrow> if sn_revoked_at s \<noteq> None then raiseA AuthenticationError else ?tail t s) (\<lambda>_. auth_inv) auth_inv" for n
      by (cases n) (auto intro!: runs_raiseA runs_weaken [OF tail])
  qed
  show ?thesis
    unfolding repo_rotate_refresh_token_def
    by (rule keeps_bind, rule keeps_rival [OF assms], rule keeps_bind, rule keeps_pure, rule keeps_bind, rule keeps_write,
        erule sound_writes, intro keeps_option keeps_if keeps_pure looked)
qed

lemma finders_keep [keeping]: "keeps (repo_find_by_external_identity x)" "keeps (repo_find_by_verified_email mail)"
  unfolding repo_find_by_external_identity_def repo_find_by_verified_email_def by (intro keeping)+

lemma login_steps_keep [keeping]:
  "keeps (repo_record_login env i)" "keeps (repo_attach_external_identity lower env i x)"
  "keeps (repo_create_for_external_identity lower env x u)"
proof -
  show "keeps (repo_record_login env i)"
    unfolding repo_record_login_def by (intro keeping keeps_write sound_writes)
  show "keeps (repo_attach_external_identity lower env i x)"
    unfolding repo_attach_external_identity_def by (intro keeps_write sound_writes)
  have "cd_role (credential_to_record now c) \<in> set allowed_roles"
    if "create_credential i e t u (ascii ''user'') l = Inr c" for now c i e t l
    using that
    by (auto simp: create_credential_def assemble_credential_def bindE_Inr mk_role_def credential_to_record_def record_event_def split: if_splits)
  then show "keeps (repo_create_for_external_identity lower env x u)"
    unfolding repo_create_for_external_identity_def
    by (cases "create_credential (ae_credentials_id env) (ae_event_id env) (ae_event_at env) u (ascii ''user'') (Some (ae_now env))")
      (auto simp: bind_pure intro!: keeping keeps_write sound_writes)
qed

lemma login_keeps:
  assumes "calm (ae_rival env)"
  shows "keeps (login blake2b_8 lower verify ports auth_commit env token)"
  unfolding login_def login_credential_def synchronize_def
  by (intro keeping keeps_rival assms open_login_keeps)

lemma refresh_keeps:
  assumes "calm (ae_rival env)"
  shows "keeps (refresh ports auth_commit env token)"
  unfolding refresh_def Let_def by (intro keeping rotate_keeps assms)

lemma logout_keeps: "keeps (logout ports auth_commit env token)"
  unfolding logout_def repo_revoke_session_def by (intro keeping keeps_write sound_writes)

text \<open>The modules that sign-up and withdrawal call do not touch the tables of this one.\<close>

lemma publish_auth_frames: "frames rb (auth_tables :: 'z auth_db_scheme \<Rightarrow> _) (publish reg es)"
  by (rule frames_coarser [OF account_view.publish_frames, where f = "snd \<circ> snd"]) (simp add: account_tables_def)

lemma signup_keeps:
  assumes "signup_quiet (env\<lparr>sg_auth := (sg_auth env)\<lparr>ae_rival := id\<rparr>\<rparr>)" and "calm (ae_rival (sg_auth env))"
  shows "keeps (signup verify env auth_commit sqlalchemy_rollback cmd)"
proof -
  have quiet: "sg_settings_rival env = id" "ce_rival_lock (sg_credit env) = id" "ce_rival_flush (sg_credit env) = id"
    "pe_rival_lock (sg_promotion env) = id"
    using assms(1) by (simp_all add: signup_quiet_def)
  have provision: "keeps (provision_for_signup url uenv cmd x)" for url uenv x
    unfolding provision_for_signup_def resolve_user_for_login_def Let_def repo_create_account_state_def flush_users_def deferred_commit_def
    by (rule keeps_frames) (intro framing frames_write publish_auth_frames;
        simp add: auth_tables_def add_user_row_def add_settings_row_def)
  have settings: "keeps (initialize_settings id u c)" for u c
    unfolding initialize_settings_def update_notification_settings_def repo_update_settings_def map_settings_id deferred_commit_def
      flush_notifications_def
    by (rule keeps_frames) (intro framing frames_write; simp add: auth_tables_def map_settings_def)
  have redeem: "keeps (redeem_for_signup db_lower key_of (sg_credit env) (sg_promotion env) x u)" for db_lower key_of x u
    unfolding redeem_for_signup_def
    by (rule keeps_frames, rule frames_coarser [where v = account_tables and f = "snd \<circ> snd"],
        intro framing account_view.redeem_signup_frames account_view.grant_port_frames quiet) (simp add: account_tables_def)
  have pub: "keeps (publish reg es)" for reg es by (rule keeps_frames [OF publish_auth_frames])
  have steps: "keeps (signup_steps env auth_commit cmd x)" for x
    unfolding signup_steps_def ensure_new_user_def synchronize_def quiet(1)
    by (intro keeping provision settings redeem pub open_login_keeps keeps_rival assms(2))
  show ?thesis
    unfolding signup_def sqlalchemy_rollback_def by (intro keeping steps)
qed

lemma withdraw_keeps: "keeps (withdraw_account env auth_commit u c)"
proof -
  have auth: "keeps (repo_delete_account_auth_state u c)"
    unfolding repo_delete_account_auth_state_def by (intro keeping keeps_write sound_drop)
  have users: "keeps (withdrawal_cleanup deferred_commit e u)" for e
    unfolding withdrawal_cleanup_def repo_delete_account_state_def deferred_commit_def
    by (rule keeps_frames) (intro framing frames_write publish_auth_frames; simp add: auth_tables_def drop_user_def drop_user_settings_def)
  have credits: "keeps (delete_user_credits deferred_commit e u)" for e
    unfolding delete_user_credits_def delete_by_user_id_def deferred_commit_def
    by (rule keeps_frames) (intro framing frames_write publish_auth_frames; simp add: auth_tables_def)
  have tokens: "keeps (delete_user_push_tokens deferred_commit u)"
    unfolding delete_user_push_tokens_def repo_delete_tokens_of_user_def delete_tokens_def flush_notifications_def deferred_commit_def
    by (rule keeps_frames) (intro framing frames_write; simp add: auth_tables_def map_tokens_def)
  have pub: "keeps (publish reg es)" for reg es by (rule keeps_frames [OF publish_auth_frames])
  show ?thesis
    unfolding withdraw_account_def by (intro keeping auth users credits tokens pub)
qed

section \<open>Runs\<close>

text \<open>The committed tables after any number of calls, each in a session of its own.\<close>

inductive auth_reach :: "'z auth_db_scheme \<Rightarrow> 'z auth_db_scheme \<Rightarrow> bool" for start where
  begun: "auth_reach start start"
| signed_up: "auth_reach start db \<Longrightarrow> signup_quiet (senv\<lparr>sg_auth := (sg_auth senv)\<lparr>ae_rival := id\<rparr>\<rparr>) \<Longrightarrow> calm (ae_rival (sg_auth senv)) \<Longrightarrow>
    signup verify (senv :: ('z auth_db_scheme, ustr) signup_env) auth_commit sqlalchemy_rollback cmd (open_session db) = (rs, s) \<Longrightarrow> auth_reach start (committed s)"
| logged_in_one: "auth_reach start db \<Longrightarrow> calm (ae_rival env) \<Longrightarrow>
    login blake2b_8 lower verify (ports :: ustr token_ports) auth_commit env token (open_session db) = (rl, s) \<Longrightarrow> auth_reach start (committed s)"
| refreshed: "auth_reach start db \<Longrightarrow> calm (ae_rival env) \<Longrightarrow>
    refresh (ports :: ustr token_ports) auth_commit env token (open_session db) = (rr, s) \<Longrightarrow> auth_reach start (committed s)"
| left: "auth_reach start db \<Longrightarrow>
    logout (ports :: ustr token_ports) auth_commit env token (open_session db) = (ro, s) \<Longrightarrow> auth_reach start (committed s)"
| withdrawn: "auth_reach start db \<Longrightarrow>
    withdraw_account wenv auth_commit u c (open_session db) = (rw, s) \<Longrightarrow> auth_reach start (committed s)"

lemma keeps_well_formed:
  assumes "keeps m" and "auth_well_formed db" and "m (open_session db) = (r, s)"
  shows "auth_well_formed (committed s)"
  using runs_result [OF assms(1) [unfolded keeps_def], of "open_session db"] assms(2,3) by (simp add: auth_inv_def well_formed_iff)

text \<open>C19. However accounts are created, used and withdrawn, the auth tables stay consistent: keys are unique, one credential per
  user and one identity per issuer and subject, every identity and session belongs to a stored credential with a known
  role, and every refresh token to a stored session of the same credential.\<close>

theorem auth_tables_stay_well_formed:
  assumes "auth_reach start db" and "auth_well_formed start"
  shows "auth_well_formed db"
  using assms(1)
proof induction
  case (signed_up db senv verify cmd rs s)
  from keeps_well_formed [OF signup_keeps [OF signed_up.hyps(2,3)] signed_up.IH signed_up.hyps(4)] show ?case .
next
  case (logged_in_one db env blake2b_8 lower verify ports token rl s)
  from keeps_well_formed [OF login_keeps [OF logged_in_one.hyps(2)] logged_in_one.IH logged_in_one.hyps(3)] show ?case .
next
  case (refreshed db env ports token rr s)
  from keeps_well_formed [OF refresh_keeps [OF refreshed.hyps(2)] refreshed.IH refreshed.hyps(3)] show ?case .
next
  case (left db ports env token ro s)
  from keeps_well_formed [OF logout_keeps left.IH left.hyps(2)] show ?case .
next
  case (withdrawn db wenv u c rw s)
  from keeps_well_formed [OF withdraw_keeps withdrawn.IH withdrawn.hyps(2)] show ?case .
qed (rule assms(2))

end
