(* ===== verification/Auth_Withdrawal.thy ===== *)
theory Auth_Withdrawal
  imports Auth_Runs
begin

text \<open>
  Withdrawal (\<open>auth/application/commands/withdraw\<close>) with the clean-up of users, credits and push tokens
  in one transaction.
\<close>

definition withdrawal_events :: "'db withdraw_env \<Rightarrow> uuid \<Rightarrow> uuid \<Rightarrow> domain_event list" where
  "withdrawal_events env u i =
     [new_event (wd_event_id env) (wd_event_at env) (AccountWithdrawn i u), withdrawn_event (wd_user env) u,
      new_event (ce_event_id (wd_credit env)) (ce_now (wd_credit env)) (UserCreditsDeleted u)]"

definition without_account :: "'db withdraw_env \<Rightarrow> uuid \<Rightarrow> uuid \<Rightarrow> 'z auth_db_scheme \<Rightarrow> 'z auth_db_scheme" where
  "without_account env u i db =
     (drop_auth_state i db)
       \<lparr>outbox_events := outbox_events db @ map outbox_row_of (withdrawal_events env u i),
        user_credits := filter (\<lambda>r. ucr_user_id r \<noteq> u) (user_credits db),
        credit_transactions := filter (\<lambda>r. ctr_user_id r \<noteq> u) (credit_transactions db),
        user_rows := filter (\<lambda>r. ur_id r \<noteq> u) (user_rows db),
        token_rows := filter (\<lambda>r. tk_user_id r \<noteq> u) (token_rows db),
        user_settings_rows := filter (\<lambda>r. uss_user_id r \<noteq> u) (user_settings_rows db)\<rparr>"

definition withdrawal_fresh :: "'db withdraw_env \<Rightarrow> 'z auth_db_scheme \<Rightarrow> bool" where
  "withdrawal_fresh env db \<longleftrightarrow>
     distinct (map ob_event_id (outbox_events db) @ [wd_event_id env, ue_event_id (wd_user env), ce_event_id (wd_credit env)])"

lemma withdrawal_publishable:
  "publishable build_auth_event_registry (new_event e t (AccountWithdrawn i u))"
  "publishable build_users_event_registry (withdrawn_event uenv u)"
  "publishable build_credits_event_registry (new_event e t (UserCreditsDeleted u))"
  by (simp_all add: publishable_def withdrawn_event_def new_event_def registry_tables resolve_def)

lemma notification_violation_shrinks:
  assumes "notification_violation db = None" and "notification_rows d = notification_rows db" and "settings_rows d = settings_rows db"
    and "token_rows d = filter p (token_rows db)" and "occurrence_rows d = occurrence_rows db" and "rule_rows d = rule_rows db"
    and "distinct (map ob_event_id (outbox_events d))"
  shows "notification_violation d = None"
  using assms(1,7)
  unfolding notification_violation_def first_violation_None notification_checks_def checks_simps assms(2-6)
  by (simp add: distinct_map_filter) blast

lemma without_account_ok:
  assumes "auth_well_formed db" and "withdrawal_fresh env db"
  shows "auth_well_formed (without_account env u i db)"
proof -
  let ?w = "without_account env u i db" and ?d = "drop_auth_state i db"
  have d: "auth_tables_ok ?d" "auth_sound ?d"
    using ok_drop_auth_state sound_drop assms(1) by (auto simp: well_formed_iff)
  have same: "credential_rows ?w = credential_rows ?d" "identity_rows ?w = identity_rows ?d" "session_rows ?w = session_rows ?d"
    "refresh_rows ?w = refresh_rows ?d"
    by (simp_all add: without_account_def)
  have refs: "has_credential j ?w = has_credential j ?d" "has_session k ?w = has_session k ?d" for j k
    by (simp_all add: has_credential_def has_session_def same cong: option.case_cong)
  have "distinct (map ob_event_id (outbox_events ?w))"
    using assms(2) by (auto simp: without_account_def withdrawal_fresh_def withdrawal_events_def withdrawn_event_def new_event_def)
  then have "auth_tables_ok ?w" using d(1) unfolding auth_tables_ok_def same refs by simp
  moreover have "auth_sound ?w" using d(2) auth_sound_cong [of ?w ?d] by (simp add: auth_tables_def same)
  ultimately show ?thesis by (simp add: well_formed_iff)
qed

text \<open>Each of the called modules drops its rows and leaves its event.\<close>

definition with_event :: "domain_event \<Rightarrow> 'z outbox_db_scheme \<Rightarrow> 'z outbox_db_scheme" where
  "with_event e db = db\<lparr>outbox_events := outbox_events db @ [outbox_row_of e]\<rparr>"

lemma cleanup_runs:
  assumes "\<not> tx_failed s"
  shows "withdrawal_cleanup deferred_commit e u s =
      (Inr (), s\<lparr>working := with_event (withdrawn_event e u) (drop_user u (drop_user_settings u (working s)))\<rparr>)"
    and "delete_user_credits deferred_commit ce u s =
      (Inr (), s\<lparr>working := with_event (new_event (ce_event_id ce) (ce_now ce) (UserCreditsDeleted u))
        ((working s)\<lparr>credit_transactions := filter (\<lambda>r. ctr_user_id r \<noteq> u) (credit_transactions (working s)),
           user_credits := filter (\<lambda>r. ucr_user_id r \<noteq> u) (user_credits (working s))\<rparr>)\<rparr>)"
  using assms
  by (simp_all add: withdrawal_cleanup_def repo_delete_account_state_def delete_user_credits_def delete_by_user_id_def deferred_commit_def
      bindA_assoc session_bind(2) bindA_Inr [OF publish_ok] withdrawal_publishable action_apply with_event_def)

lemma tokens_run:
  assumes "\<not> tx_failed s" and "notification_violation (map_tokens (filter (\<lambda>r. tk_user_id r \<noteq> u)) (working s)) = None"
  shows "delete_user_push_tokens deferred_commit u s = (Inr (), s\<lparr>working := map_tokens (filter (\<lambda>r. tk_user_id r \<noteq> u)) (working s)\<rparr>)"
  using assms
  by (simp add: delete_user_push_tokens_def repo_delete_tokens_of_user_def delete_tokens_def deferred_commit_def bindA_assoc
      session_bind(2) flush_notifications_def bindA_def session_apply returnA_def)

lemma withdraw_run:
  assumes "auth_well_formed db" and "notification_violation db = None" and "withdrawal_fresh env db"
    and "exists_active_credential u i db"
  shows "withdraw_account env auth_commit u i (open_session db) = (Inr (), open_session (without_account env u i db))"
proof -
  let ?d = "without_account env u i db"
  let ?w2 = "with_event (new_event (wd_event_id env) (wd_event_at env) (AccountWithdrawn i u)) (drop_auth_state i db)"
  let ?w3 = "with_event (withdrawn_event (wd_user env) u) (drop_user u (drop_user_settings u ?w2))"
  let ?w4 = "with_event (new_event (ce_event_id (wd_credit env)) (ce_now (wd_credit env)) (UserCreditsDeleted u))
    (?w3\<lparr>credit_transactions := filter (\<lambda>r. ctr_user_id r \<noteq> u) (credit_transactions ?w3),
         user_credits := filter (\<lambda>r. ucr_user_id r \<noteq> u) (user_credits ?w3)\<rparr>)"
  have last: "map_tokens (filter (\<lambda>r. tk_user_id r \<noteq> u)) ?w4 = ?d"
    by (simp add: with_event_def map_tokens_def drop_user_def drop_user_settings_def drop_auth_state_def without_account_def
        withdrawal_events_def)
  have n: "notification_violation ?d = None"
    using auth_okD(8) [OF auth_wfD(1) [OF without_account_ok [OF assms(1,3)]]]
    by (intro notification_violation_shrinks [OF assms(2)]) (simp_all add: without_account_def drop_auth_state_def)
  have "repo_delete_account_auth_state u i (open_session db) = (Inr (), (open_session db)\<lparr>working := drop_auth_state i db\<rparr>)"
    using assms(4) by (simp add: repo_delete_account_auth_state_def session_bind(1) session_apply(2))
  moreover have "publish build_auth_event_registry [new_event (wd_event_id env) (wd_event_at env) (AccountWithdrawn i u)]
      ((open_session db)\<lparr>working := drop_auth_state i db\<rparr>) = (Inr (), (open_session db)\<lparr>working := ?w2\<rparr>)"
    by (simp add: publish_ok withdrawal_publishable with_event_def)
  moreover have "delete_user_push_tokens deferred_commit u ((open_session db)\<lparr>working := ?w4\<rparr>) = (Inr (), (open_session db)\<lparr>working := ?d\<rparr>)"
    using tokens_run [of "(open_session db)\<lparr>working := ?w4\<rparr>" u] n by (simp add: last)
  moreover have "auth_commit ((open_session db)\<lparr>working := ?d\<rparr>) = (Inr (), open_session ?d)"
    by (intro commit_auth_tables auth_wfD(1) [OF without_account_ok [OF assms(1,3)]]) simp
  ultimately show ?thesis
    by (simp add: withdraw_account_def bindA_Inr cleanup_runs)
qed

text \<open>C16. Withdrawing removes, in one transaction, everything the account can be used with - credential, identities, sessions,
  refresh tokens, user, consents, credits, push tokens - so that no access token of the account is accepted any more; the
  rows of other accounts stay, and so do the receipts, files and notifications of the user.\<close>

theorem withdrawal_removes_account:
  assumes "auth_well_formed db" and "notification_violation db = None" and "withdrawal_fresh env db"
    and "exists_active_credential u i db"
  shows "\<exists>d. withdraw_account env auth_commit u i (open_session db) = (Inr (), open_session d) \<and>
    (\<forall>c \<in> set (credential_rows d). cd_id c \<noteq> i) \<and> (\<forall>r \<in> set (identity_rows d). ei_credentials_id r \<noteq> i) \<and>
    (\<forall>s \<in> set (session_rows d). sn_credentials_id s \<noteq> i) \<and> (\<forall>t \<in> set (refresh_rows d). rt_credentials_id t \<noteq> i) \<and>
    (\<forall>r \<in> set (user_rows d). ur_id r \<noteq> u) \<and> (\<forall>r \<in> set (user_settings_rows d). uss_user_id r \<noteq> u) \<and>
    (\<forall>r \<in> set (user_credits d). ucr_user_id r \<noteq> u) \<and> (\<forall>r \<in> set (token_rows d). tk_user_id r \<noteq> u) \<and>
    (\<forall>decode now access p. verify_access_token decode now access = Inr p \<and> prl_credentials_id p = i \<longrightarrow>
       current_principal decode now access d = Inl AuthenticationError) \<and>
    (\<forall>u' c k. c \<noteq> i \<longrightarrow> exists_active_session u' c k d = exists_active_session u' c k db) \<and>
    set (refresh_rows d) = {t \<in> set (refresh_rows db). rt_credentials_id t \<noteq> i} \<and>
    receipt_rows d = receipt_rows db \<and> file_rows d = file_rows db \<and> notification_rows d = notification_rows db"
proof -
  let ?d = "without_account env u i db"
  have gone: "\<not> exists_active_session u' i k ?d" for u' k
    by (auto simp: exists_active_session_def exists_active_credential_def exists_row_iff without_account_def drop_auth_state_def)
  have cred: "exists_active_credential u' c ?d = exists_active_credential u' c db" if "c \<noteq> i" for u' c
    using that by (auto simp: exists_active_credential_def exists_row_iff without_account_def drop_auth_state_def)
  have sessions: "session_rows ?d = filter (\<lambda>s. sn_credentials_id s \<noteq> i) (session_rows db)"
    by (simp add: without_account_def drop_auth_state_def)
  have others: "exists_active_session u' c k ?d = exists_active_session u' c k db" if "c \<noteq> i" for u' c k
    unfolding exists_active_session_def cred [OF that] sessions exists_row_iff using that by auto
  have tokens: "set (refresh_rows ?d) = {t \<in> set (refresh_rows db). rt_credentials_id t \<noteq> i}"
  proof -
    have "\<not> of_session (\<lambda>s. sn_credentials_id s = i) db t" if t: "t \<in> set (refresh_rows db)" "rt_credentials_id t \<noteq> i" for t
    proof
      assume "of_session (\<lambda>s. sn_credentials_id s = i) db t"
      then obtain s where s: "s \<in> set (session_rows db)" "sn_credentials_id s = i" "rt_session_id t = Some (sn_id s)"
        by (auto simp: of_session_def exists_row_iff)
      obtain s' where s': "s' \<in> set (session_rows db)" "rt_session_id t = Some (sn_id s')" "sn_credentials_id s' = rt_credentials_id t"
        using auth_wfD(3) [OF assms(1) t(1)] by (auto simp: token_of_its_session_def)
      have "s' = s"
        using s(1,3) s'(1,2) auth_okD(5) [OF auth_wfD(1) [OF assms(1)]] by (auto simp: distinct_map dest: inj_onD)
      then show False using s(2) s'(3) t(2) by simp
    qed
    then show ?thesis by (auto simp: without_account_def drop_auth_state_def)
  qed
  have refused: "current_principal decode now access ?d = Inl AuthenticationError"
    if "verify_access_token decode now access = Inr p \<and> prl_credentials_id p = i" for decode now access p
    using that gone [of "prl_user_id p" "prl_session_id p"] by (auto simp: current_principal_def)
  show ?thesis
    by (intro exI [of _ ?d] conjI withdraw_run [OF assms] tokens allI impI refused others; assumption?)
      (auto simp: without_account_def drop_auth_state_def)
qed

end
