(* ===== verification/Auth_Samples.thy ===== *)
theory Auth_Samples
  imports Auth_Withdrawal
begin

text \<open>
  The properties of the auth module on small tables: one account with a session and a refresh token, or
  none. Tokens are their own claims, and a hash is the text it hashes.
\<close>

section \<open>Tables and ports\<close>

definition no_accounts :: auth_db where
  "no_accounts = \<lparr>outbox_events = [], user_credits = [], credit_transactions = [], promotions = [], promotion_contents = [],
     promotion_codes = [], promotion_redemptions = [], user_rows = [], receipt_rows = [], attachment_rows = [],
     notification_rows = [], settings_rows = [], token_rows = [], occurrence_rows = [], rule_rows = [], file_rows = [],
     file_object_rows = [], user_settings_rows = [], credential_rows = [], identity_rows = [], session_rows = [],
     refresh_rows = []\<rparr>"

definition kim :: credential_row where
  "kim = \<lparr>cd_id = 11, cd_user_id = 10, cd_role = ascii ''user'', cd_last_login_at = None, cd_created_at = 0, cd_updated_at = 0\<rparr>"

definition kims_identity :: identity_row where
  "kims_identity = \<lparr>ei_id = 12, ei_credentials_id = 11, ei_issuer = ascii ''google'', ei_subject = ascii ''kim'',
     ei_provider = ascii ''google'', ei_email = None, ei_normalized_email = None, ei_email_verified = False,
     ei_created_at = 0, ei_updated_at = 0\<rparr>"

definition kims_session :: session_row where
  "kims_session = \<lparr>sn_id = 13, sn_credentials_id = 11, sn_revoked_at = None, sn_created_at = 0, sn_updated_at = 0\<rparr>"

definition kims_token :: refresh_row where
  "kims_token = \<lparr>rt_id = 14, rt_credentials_id = 11, rt_session_id = Some 13, rt_token_hash = ascii ''p:old'',
     rt_expires_at = 30 * day_us, rt_created_at = 0\<rparr>"

definition one_account :: auth_db where
  "one_account = no_accounts\<lparr>credential_rows := [kim], identity_rows := [kims_identity], session_rows := [kims_session],
     refresh_rows := [kims_token]\<rparr>"

definition quiet_env :: "auth_db auth_env" where
  "quiet_env = \<lparr>ae_now = day_us, ae_db_now = day_us, ae_identity_id = 21, ae_credentials_id = 22, ae_session_id = 23,
     ae_refresh_id = 24, ae_event_id = 25, ae_event_at = day_us, ae_rival = id\<rparr>"

definition sample_jwt :: jwt_settings where
  "sample_jwt = \<lparr>js_issuer = ascii ''keeper'', js_audience = ascii ''app'', js_expires_minutes = 30\<rparr>"

abbreviation read_claims :: "datetime \<Rightarrow> jwt_claims \<Rightarrow> jwt_claims option" where
  "read_claims now cs \<equiv>
     if whole_second (jc_issued_at cs) \<le> now \<and> now < whole_second (jc_expires_at cs)
     then Some (cs\<lparr>jc_issued_at := whole_second (jc_issued_at cs), jc_expires_at := whole_second (jc_expires_at cs)\<rparr>) else None"

abbreviation ports_at :: "ustr \<Rightarrow> jwt_claims token_ports" where
  "ports_at secret \<equiv> token_ports_of id sample_jwt id (ascii ''p'') 30 day_us 26 secret"

definition new_token :: issued_refresh where
  "new_token = \<lparr>ir_token = ascii ''new'', ir_token_hash = ascii ''p:new'', ir_expires_at = 31 * day_us\<rparr>"

lemma accounts_well_formed: "auth_well_formed one_account" "auth_well_formed no_accounts"
  by (simp_all add: auth_well_formed_def auth_tables_ok_def one_account_def no_accounts_def kim_def kims_identity_def kims_session_def
      kims_token_def identity_row_checks_def fits_def fits_opt_def has_credential_def has_session_def exists_row_def
      token_of_its_session_def allowed_roles_def ascii_def)

lemma sample_ports:
  "tp_hash (ports_at secret) (ascii ''old'') = Inr (ascii ''p:old'')" "tp_issue_refresh (ports_at (ascii ''new'')) = Inr new_token"
  by (simp_all add: token_ports_of_def hash_refresh_token_def issue_refresh_token_def encoded_def new_token_def bindE_def ascii_def
      utf8_encode_def scalar_value_def utf8_char_def)

lemma sample_env: "ae_rival quiet_env = id" "ae_now quiet_env = day_us"
  by (simp_all add: quiet_env_def)

lemma kims_token_usable: "usable_token day_us (ascii ''p:old'') one_account kims_token kims_session kim"
  by (simp add: usable_token_def one_account_def kims_token_def kims_session_def kim_def day_us_def)

lemma sample_refresh_fresh: "refresh_fresh quiet_env new_token one_account"
  by (simp add: refresh_fresh_def quiet_env_def new_token_def one_account_def kims_token_def ascii_def sized_text_def)

section \<open>Refreshing and leaving\<close>

theorem refresh_outcome_witness:
  "refresh (ports_at (ascii ''new'')) auth_commit quiet_env (ascii ''old'') (open_session one_account) =
     (Inr (token_result_of (ports_at (ascii ''new'')) new_token kim 13),
      open_session (rotated quiet_env new_token (ascii ''p:old'') kims_session one_account))"
proof -
  have "usable_token (ae_now quiet_env) (ascii ''p:old'') one_account kims_token kims_session kim"
    by (simp add: sample_env kims_token_usable)
  note refresh_outcome [OF accounts_well_formed(1) sample_env(1) sample_ports(2) sample_ports(1) sample_refresh_fresh,
      THEN conjunct1, rule_format, OF this, THEN conjunct1]
  then show ?thesis by (simp add: kims_session_def)
qed

lemma sample_refreshed:
  "refresh (ports_at (ascii ''new'')) auth_commit quiet_env (ascii ''old'') (open_session one_account) =
     (Inr (token_result_of (ports_at (ascii ''new'')) new_token kim (sn_id kims_session)),
      open_session (rotated quiet_env new_token (ascii ''p:old'') kims_session one_account))"
  by (rule refresh_run [OF accounts_well_formed(1) sample_env(1) sample_ports(2,1) sample_refresh_fresh, where t = kims_token])
    (simp add: sample_env kims_token_usable)

text \<open>The second request had begun before the first one committed.\<close>

theorem refresh_token_single_use_witness:
  "\<exists>s'. refresh (ports_at (ascii ''new'')) auth_commit
      (quiet_env\<lparr>ae_refresh_id := 27, ae_rival := \<lambda>_. rotated quiet_env new_token (ascii ''p:old'') kims_session one_account\<rparr>)
      (ascii ''old'') (open_session one_account) = (Inl AuthenticationError, s') \<and>
    committed s' = rotated quiet_env new_token (ascii ''p:old'') kims_session one_account"
  using refresh_token_single_use [OF accounts_well_formed(1) sample_env(1) sample_ports(2) sample_refresh_fresh sample_refreshed
      refl sample_ports(2), of "quiet_env\<lparr>ae_refresh_id := 27, ae_rival := \<lambda>_. rotated quiet_env new_token (ascii ''p:old'') kims_session one_account\<rparr>"
      one_account]
  by (simp add: open_session_def)

theorem logout_ends_session_witness:
  "\<exists>d. logout (ports_at (ascii ''new'')) auth_commit quiet_env (ascii ''old'') (open_session one_account) = (Inr (), open_session d) \<and>
     refresh_rows d = [] \<and> (\<forall>c k. k \<noteq> 13 \<longrightarrow> exists_active_session 10 c k d = exists_active_session 10 c k one_account)"
proof -
  have t: "kims_token \<in> set (refresh_rows one_account)"
    "rt_token_hash kims_token = ascii ''p:old'' \<and> ae_now quiet_env < rt_expires_at kims_token"
    and only: "\<forall>x \<in> set (refresh_rows one_account). rt_session_id x = Some 13" "rt_session_id kims_token = Some 13"
    by (simp_all add: one_account_def kims_token_def quiet_env_def day_us_def)
  obtain sid d where d: "rt_session_id kims_token = Some sid"
    "logout (ports_at (ascii ''new'')) auth_commit quiet_env (ascii ''old'') (open_session one_account) = (Inr (), open_session d)"
    "set (refresh_rows d) = {x \<in> set (refresh_rows one_account). rt_session_id x \<noteq> Some sid}"
    "\<forall>u c k. k \<noteq> sid \<longrightarrow> exists_active_session u c k d = exists_active_session u c k one_account"
    using logout_ends_session [where db = one_account and ports = "ports_at (ascii ''new'')" and env = quiet_env, OF accounts_well_formed(1)
        sample_ports(1), THEN conjunct1, THEN bspec, OF t(1), THEN mp, OF t(2)]
    by (elim exE conjE)
  moreover have "sid = 13" using d(1) only(2) by simp
  moreover have "set (refresh_rows d) = {}" unfolding d(3) \<open>sid = 13\<close> using only(1) by simp
  then have "refresh_rows d = []" by simp
  ultimately show ?thesis by blast
qed

section \<open>Logging in\<close>

definition kim_at_google :: external_identity where
  "kim_at_google = \<lparr>xi_id = 21, xi_credentials_id = None, xi_issuer = Issuer (ascii ''google''), xi_subject = Subject (ascii ''kim''),
     xi_provider = Provider (ascii ''google''), xi_email = None, xi_email_verified = False, xi_name = None\<rparr>"

lemma kim_known: "identity_account kim_at_google one_account kim"
  by (simp add: identity_account_def one_account_def kim_def kims_identity_def is_identity_def kim_at_google_def)

lemma sample_login_ready:
  "login_ready (\<lambda>_. [0]) id (\<lambda>_. Inr kim_at_google) (ports_at (ascii ''new'')) quiet_env (ascii ''t'') kim_at_google new_token one_account"
proof -
  have "login_locks (\<lambda>_. [0]) id kim_at_google = Inr [0]"
    by (simp add: kim_at_google_def login_locks_def identity_lock_id_def lock_id_from_key_def encoded_def utf8_encode_def scalar_value_def
        bindE_def canonical_email_def ascii_def)
  moreover have "tokens_fresh quiet_env new_token one_account" "ae_identity_id quiet_env \<notin> ei_id ` set (identity_rows one_account)"
    "xi_id kim_at_google = ae_identity_id quiet_env"
    by (simp_all add: tokens_fresh_def quiet_env_def new_token_def one_account_def kims_session_def kims_token_def kims_identity_def
        kim_at_google_def sized_text_def ascii_def)
  moreover have "\<forall>(ok, e) \<in> set (identity_row_checks (identity_to_record id (ae_db_now quiet_env) i kim_at_google)). ok" for i
    by (simp add: kim_at_google_def identity_to_record_def identity_row_checks_def fits_def fits_opt_def canonical_email_def ascii_def)
  ultimately show ?thesis unfolding login_ready_def using sample_ports(2) sample_env(1) by blast
qed

lemma sample_login:
  "login (\<lambda>_. [0]) id (\<lambda>_. Inr kim_at_google) (ports_at (ascii ''new'')) auth_commit quiet_env (ascii ''t'') (open_session one_account) =
     (Inr (token_result_of (ports_at (ascii ''new'')) new_token kim 23),
      open_session (with_session quiet_env 11 new_token (put_login day_us day_us 11 one_account)))"
  using login_identity_run [OF accounts_well_formed(1) sample_login_ready kim_known] by (simp add: kim_def quiet_env_def)

theorem login_outcome_witness:
  "login (\<lambda>_. [0]) id (\<lambda>_. Inr kim_at_google) (ports_at (ascii ''new'')) auth_commit quiet_env (ascii ''t'') (open_session one_account) =
     (Inr (token_result_of (ports_at (ascii ''new'')) new_token kim 23),
      open_session (with_session quiet_env 11 new_token (put_login day_us day_us 11 one_account)))"
  using login_outcome [OF accounts_well_formed(1) sample_login_ready, THEN conjunct1, rule_format, OF kim_known]
  by (simp add: kim_def quiet_env_def)

lemma sample_decodes: "pyjwt_decodes id read_claims sample_jwt" "jwt_settings_ok sample_jwt"
  by (simp_all add: pyjwt_decodes_def jwt_settings_ok_def sample_jwt_def scalar_ascii) (simp add: ascii_def)

theorem login_then_authenticated_witness:
  "current_principal read_claims (day_us + 1) (tr_access_token (token_result_of (ports_at (ascii ''new'')) new_token kim 23))
       (with_session quiet_env 11 new_token (put_login day_us day_us 11 one_account)) =
     Inr \<lparr>prl_user_id = 10, prl_credentials_id = 11, prl_session_id = 23, prl_role = ascii ''user''\<rparr> \<and>
   current_principal read_claims (day_us + 30 * minute_us) (tr_access_token (token_result_of (ports_at (ascii ''new'')) new_token kim 23))
       (with_session quiet_env 11 new_token (put_login day_us day_us 11 one_account)) = Inl AuthenticationError"
proof -
  let ?db = "with_session quiet_env 11 new_token (put_login day_us day_us 11 one_account)"
  have same: "committed (open_session db) = db" "ae_session_id quiet_env = 23" for db :: auth_db
    by (simp_all add: open_session_def quiet_env_def)
  note at = login_then_authenticated [OF accounts_well_formed(1) sample_decodes sample_login_ready sample_login, unfolded same]
  have only: "cd_id c = 11" "cd_user_id c = 10" "cd_role c = ascii ''user''" if "c \<in> set (credential_rows ?db)" for c
    using that by (simp_all add: with_session_def auth_rows put_login_def logged_in_def one_account_def kim_def)
  have "whole_second (day_us + js_expires_minutes sample_jwt * minute_us) = day_us + 30 * minute_us"
    by (simp add: whole_second_def sample_jwt_def minute_us_def day_us_def)
  moreover have "day_us \<le> day_us + 1" "day_us \<le> day_us + 30 * minute_us" "day_us + 1 < day_us + 30 * minute_us"
    by (simp_all add: minute_us_def)
  ultimately show ?thesis
    using at [of "day_us + 1"] at [of "day_us + 30 * minute_us"] only by (metis (no_types, lifting) less_irrefl)
qed

section \<open>Signing up and withdrawing\<close>

definition first_signup :: "(auth_db, jwt_claims) signup_env" where
  "first_signup =
     \<lparr>sg_lower = id, sg_db_lower = id, sg_blake2b_8 = \<lambda>_. [0], sg_default_url = None,
      sg_key_of = \<lambda>_ _. mk_beneficiary_key (ascii ''v1:'' @ replicate 64 48), sg_ports = ports_at (ascii ''new''), sg_auth = quiet_env,
      sg_user = \<lparr>ue_user_id = 10, ue_event_id = 31, ue_event_at = day_us, ue_now = day_us, ue_db_now = day_us\<rparr>,
      sg_settings_rival = id,
      sg_credit = \<lparr>ce_event_id = 32, ce_now = day_us, ce_tx_id = 33, ce_db_now = day_us, ce_rival_lock = id, ce_rival_flush = id\<rparr>,
      sg_promotion = \<lparr>pe_now = day_us, pe_redemption_id = 34, pe_event_id = 35, pe_event_at = day_us, pe_rival_code = id,
        pe_rival_lock = id, pe_rival_replay = id\<rparr>\<rparr>"

lemma first_signup_quiet: "signup_quiet first_signup" "credit_keys_ok no_accounts"
  by (simp_all add: signup_quiet_def first_signup_def quiet_env_def credit_keys_ok_def no_accounts_def idempotency_keys_def source_keys_def
      List.map_filter_simps)

definition sample_consent :: signup_command where
  "sample_consent = \<lparr>su_provider_token = ascii ''t'', su_terms_accepted = True, su_privacy_accepted = True,
     su_terms_version = Some (ascii ''1''), su_privacy_version = Some (ascii ''1''), su_marketing_consent = False\<rparr>"

theorem signup_all_or_nothing_witness:
  "case signup (\<lambda>_. Inr kim_at_google) first_signup auth_commit sqlalchemy_rollback sample_consent (open_session no_accounts) of
      (Inl e, s) \<Rightarrow> s = open_session no_accounts
    | (Inr res, s) \<Rightarrow> auth_tables_ok (committed s) \<and> length (user_rows (committed s)) = 1 \<and>
        map cd_user_id (credential_rows (committed s)) = [10]"
proof (cases "signup (\<lambda>_. Inr kim_at_google) first_signup auth_commit sqlalchemy_rollback sample_consent (open_session no_accounts)")
  case (Pair r s)
  note outcome = signup_all_or_nothing [OF accounts_well_formed(2) first_signup_quiet(2,1), of sample_consent "\<lambda>_. Inr kim_at_google",
      unfolded Pair prod.case]
  show ?thesis
  proof (cases r)
    case (Inl e)
    then show ?thesis using outcome by (simp add: Pair)
  next
    case (Inr res)
    obtain x t where x: "auth_tables_ok (committed s)" "account_tables (committed s) = new_account first_signup sample_consent x t no_accounts"
      using outcome unfolding Inr sum.case by blast
    have "user_rows no_accounts = []" "credential_rows no_accounts = []" "ue_user_id (sg_user first_signup) = 10"
      by (simp_all add: no_accounts_def first_signup_def)
    then show ?thesis using x by (simp add: Pair Inr account_tables_def auth_tables_def new_account_def new_credential_row_def)
  qed
qed

definition sample_withdrawal :: "auth_db withdraw_env" where
  "sample_withdrawal =
     \<lparr>wd_event_id = 41, wd_event_at = day_us,
      wd_user = \<lparr>ue_user_id = 0, ue_event_id = 42, ue_event_at = day_us, ue_now = day_us, ue_db_now = day_us\<rparr>,
      wd_credit = \<lparr>ce_event_id = 43, ce_now = day_us, ce_tx_id = 0, ce_db_now = day_us, ce_rival_lock = id, ce_rival_flush = id\<rparr>\<rparr>"

lemma sample_withdrawal_ready:
  "notification_violation one_account = None" "withdrawal_fresh sample_withdrawal one_account" "exists_active_credential 10 11 one_account"
  by (simp_all add: notification_violation_def first_violation_None notification_checks_def checks_simps one_account_def no_accounts_def
      withdrawal_fresh_def sample_withdrawal_def exists_active_credential_def exists_row_def kim_def)

theorem auth_tables_stay_well_formed_witness:
  "case withdraw_account sample_withdrawal auth_commit 10 11 (open_session one_account) of (r, s) \<Rightarrow> auth_well_formed (committed s)"
proof (cases "withdraw_account sample_withdrawal auth_commit 10 11 (open_session one_account)")
  case (Pair r s)
  from auth_tables_stay_well_formed [OF auth_reach.withdrawn [OF auth_reach.begun Pair] accounts_well_formed(1)] show ?thesis
    by (simp add: Pair)
qed

theorem withdrawal_removes_account_witness:
  "\<exists>d. withdraw_account sample_withdrawal auth_commit 10 11 (open_session one_account) = (Inr (), open_session d) \<and>
     (\<forall>c \<in> set (credential_rows d). cd_id c \<noteq> 11)"
  using withdrawal_removes_account [OF accounts_well_formed(1) sample_withdrawal_ready]
  by (elim exE conjE, intro exI conjI)

end
