(* ===== verification/Profile_Images.thy ===== *)
theory Profile_Images
  imports Auth_Withdrawal Files_Outcomes
begin

text \<open>
  Profile images tie \<open>modules/users\<close> to \<open>modules/files\<close>: a user points to a file by the path of its
  content, the users module checks that the file is the user's own, and \<open>main.py\<close> installs the guard
  that keeps a file in use from being deleted.
\<close>

section \<open>What is kept\<close>

definition image_sound :: "'z user_db_scheme \<Rightarrow> bool" where
  "image_sound db \<longleftrightarrow>
     (\<forall>r \<in> set (user_rows db). \<forall>i. ur_profile_image_url r = Some (profile_image_path i) \<longrightarrow>
        (\<exists>f \<in> set (file_rows db). fr_id f = i \<and> fr_user_id f = ur_id r))"

definition file_tables :: "'z file_db_scheme \<Rightarrow> file_row list \<times> file_object_row list" where
  "file_tables db = (file_rows db, file_object_rows db)"

text \<open>During a call of the users module: the tables of files stay what they are.\<close>

definition image_inv :: "file_row list \<times> file_object_row list \<Rightarrow> 'z user_db_scheme session \<Rightarrow> bool" where
  "image_inv ft s \<longleftrightarrow>
     file_tables (committed s) = ft \<and> distinct (map ob_event_id (outbox_events (committed s))) \<and> image_sound (committed s) \<and>
     file_tables (working s) = ft \<and> image_sound (working s)"

definition image_view :: "'z user_db_scheme \<Rightarrow> user_row list \<times> file_row list \<times> file_object_row list" where
  "image_view db = (user_rows db, file_tables db)"

lemma image_inv_blind: "blind True image_view (image_inv ft)"
  by (auto simp: blind_def image_inv_def image_view_def image_sound_def file_tables_def)

lemma image_frames: "frames True image_view m \<Longrightarrow> runs (image_inv ft) m (\<lambda>_. image_inv ft) (image_inv ft)"
  by (rule framesD [OF _ image_inv_blind])

lemma files_well_formed_cong:
  assumes "file_tables d = file_tables db" and "distinct (map ob_event_id (outbox_events d))"
  shows "files_well_formed db \<Longrightarrow> files_well_formed d"
  using assms unfolding files_well_formed_def file_tables_ok_def object_well_formed_def file_tables_def by simp

lemma contents_kept_cong: "file_tables d = file_tables db \<Longrightarrow> contents_kept st db w \<Longrightarrow> contents_kept st d w"
  by (simp add: contents_kept_def file_tables_def)

lemma commit_images: "runs (image_inv ft) users_commit (\<lambda>_. image_inv ft) (image_inv ft)"
  unfolding users_commit_def sqlalchemy_commit_def
  by (intro runs_commit) (simp_all add: image_inv_def user_violation_None user_tables_ok_def)

section \<open>The commands of users\<close>

lemma profile_image_path_inj: "profile_image_path i = profile_image_path j \<longleftrightarrow> i = j"
  by (simp add: profile_image_path_def)

lemma publish_images: "frames rb image_view (publish reg es)"
  by (induction es) (unfold publish.simps, intro framing, intro framing frames_write, simp add: image_view_def file_tables_def)

lemma write_images:
  assumes "\<And>db. file_tables (g db) = file_tables db" and "\<And>db. file_tables db = ft \<Longrightarrow> image_sound db \<Longrightarrow> image_sound (g db)"
  shows "runs (image_inv ft) (write_session g) (\<lambda>_. image_inv ft) (image_inv ft)"
  by (intro runs_write) (use assms in \<open>simp_all add: image_inv_def\<close>)

lemma put_image_sound:
  assumes "file_tables db = ft" and "image_sound db"
    and "\<forall>i. url = Some (profile_image_path i) \<longrightarrow> (\<exists>f \<in> set (fst ft). fr_id f = i \<and> fr_user_id f = u)"
  shows "image_sound (put_profile_url now u url db)"
  using assms by (auto simp: image_sound_def put_profile_url_def set_update_rows set_profile_url_def file_tables_def split: if_splits)

lemma update_image_runs:
  assumes "\<forall>i. url = Some (profile_image_path i) \<longrightarrow> (\<exists>f \<in> set (fst ft). fr_id f = i \<and> fr_user_id f = u)"
  shows "runs (image_inv ft) (repo_update_profile_image_url env u url) (\<lambda>_. image_inv ft) (image_inv ft)"
proof -
  have url: "us_profile_image_url (user_update_profile_image_url e t url c) = url" for e t c
    by (simp add: user_update_profile_image_url_def record_event_def Let_def)
  have wr: "runs (image_inv ft) (write_session (put_profile_url now u url)) (\<lambda>_. image_inv ft) (image_inv ft)" for now
    by (intro write_images put_image_sound) (use assms in \<open>simp_all add: put_profile_url_def file_tables_def\<close>)
  note pure = image_frames [OF frames_pure(2)] image_frames [OF frames_pure(3)] image_frames [OF frames_query] image_frames [OF frames_flush]
  show ?thesis
    unfolding repo_update_profile_image_url_def Let_def url flush_users_def
    by (intro runs_bind [OF pure(3)] runs_option pure(1) runs_bind [OF pure(2)] runs_bind [OF wr] runs_bind [OF pure(4)]
        image_frames [OF frames_pure(1)])
qed

lemma owned_file_runs:
  "runs (image_inv ft) (ensure_owned_image_file u i)
     (\<lambda>_ s. image_inv ft s \<and> (\<exists>f \<in> set (fst ft). fr_id f = i \<and> fr_user_id f = u)) (image_inv ft)"
proof (rule runsI)
  have fr: "frames True image_view (ensure_owned_image_file u i)"
    unfolding ensure_owned_image_file_def repo_find_file_for_user_def stored_file_of_def by (intro framing)
  fix s s' r assume inv: "image_inv ft s"
  show "image_inv ft s'" if "ensure_owned_image_file u i s = (Inl e, s')" for e
    using image_frames [OF fr, of ft, unfolded runs_def, rule_format, OF inv] that by simp
  assume run: "ensure_owned_image_file u i s = (Inr r, s')"
  have "image_inv ft s'" using image_frames [OF fr, of ft, unfolded runs_def, rule_format, OF inv] run by simp
  moreover have "find_file_record i u (working s) \<noteq> None"
    using run by (auto simp: ensure_owned_image_file_def repo_find_file_for_user_def returned elim!: bindA_InrE split: option.splits)
  then obtain f where "f \<in> set (file_rows (working s))" "fr_id f = i" "fr_user_id f = u"
    by (auto simp: find_file_record_def dest: find_SomeD)
  ultimately show "image_inv ft s' \<and> (\<exists>f \<in> set (fst ft). fr_id f = i \<and> fr_user_id f = u)"
    using inv by (auto simp: image_inv_def file_tables_def)
qed

lemma image_commands_run:
  "runs (image_inv ft) (set_profile_image users_commit env u i) (\<lambda>_. image_inv ft) (image_inv ft)"
  "runs (image_inv ft) (clear_profile_image users_commit env u) (\<lambda>_. image_inv ft) (image_inv ft)"
proof -
  note last = runs_bind [OF commit_images] image_frames [OF frames_pure(1)]
  have set_owned: "runs (\<lambda>s. image_inv ft s \<and> (\<exists>f \<in> set (fst ft). fr_id f = i \<and> fr_user_id f = u))
      (repo_update_profile_image_url env u (Some (profile_image_path i))) (\<lambda>_. image_inv ft) (image_inv ft)"
  proof (cases "\<exists>f \<in> set (fst ft). fr_id f = i \<and> fr_user_id f = u")
    case True
    have "runs (image_inv ft) (repo_update_profile_image_url env u (Some (profile_image_path i))) (\<lambda>_. image_inv ft) (image_inv ft)"
      by (intro update_image_runs) (use True in \<open>auto simp: profile_image_path_inj\<close>)
    then show ?thesis by (rule runs_weaken) simp_all
  qed (auto simp: runs_def)
  show "runs (image_inv ft) (set_profile_image users_commit env u i) (\<lambda>_. image_inv ft) (image_inv ft)"
    unfolding set_profile_image_def
    by (intro runs_bind [OF owned_file_runs] runs_bind [OF set_owned] runs_bind [OF image_frames [OF publish_images]] last)
  show "runs (image_inv ft) (clear_profile_image users_commit env u) (\<lambda>_. image_inv ft) (image_inv ft)"
    unfolding clear_profile_image_def
    by (intro runs_bind [OF update_image_runs] runs_bind [OF image_frames [OF publish_images]] commit_images) simp
qed

text \<open>A new user has no picture, or one that is not a stored file.\<close>

lemma add_user_sound:
  "image_sound db \<Longrightarrow> \<forall>i. ur_profile_image_url r \<noteq> Some (profile_image_path i) \<Longrightarrow> image_sound (add_user_row r db)"
  by (auto simp: image_sound_def add_user_row_def)

lemma created_user_image: "create_user i e t n m url = Inr u \<Longrightarrow> us_profile_image_url u = url"
  by (auto simp: create_user_def assemble_user_eq record_event_def split: if_splits)

lemma add_user_runs:
  assumes "\<forall>i. us_profile_image_url u \<noteq> Some (profile_image_path i)"
  shows "runs (image_inv ft) (write_session (add_user_row (user_to_record now u))) (\<lambda>_. image_inv ft) (image_inv ft)"
  by (intro write_images add_user_sound) (use assms in \<open>simp_all add: add_user_row_def file_tables_def user_to_record_def\<close>)

lemma create_user_runs:
  "runs (image_inv ft) (liftE (create_user i e t n m url)) (\<lambda>u s. image_inv ft s \<and> us_profile_image_url u = url) (image_inv ft)"
  by (intro runs_liftE) (simp_all add: created_user_image)

lemma settings_written: "frames True image_view (write_session (add_settings_row r))"
  by (rule frames_write) (simp add: add_settings_row_def image_view_def file_tables_def)

lemma user_commands_run:
  "runs (image_inv ft) (provision_user users_commit env n m) (\<lambda>_. image_inv ft) (image_inv ft)"
  "\<forall>i. rv_profile_image_url cmd \<noteq> Some (profile_image_path i) \<Longrightarrow>
   runs (image_inv ft) (resolve_user_for_login users_commit env cmd) (\<lambda>_. image_inv ft) (image_inv ft)"
  "runs (image_inv ft) (delete_user users_commit env u) (\<lambda>_. image_inv ft) (image_inv ft)"
  "runs (image_inv ft) (withdrawal_cleanup users_commit env u) (\<lambda>_. image_inv ft) (image_inv ft)"
proof -
  note framed = image_frames [OF publish_images] image_frames [OF settings_written] image_frames [OF frames_flush]
    image_frames [OF frames_pure(1)] image_frames [OF frames_pure(2)] image_frames [OF frames_pure(3)] commit_images
  have created: "runs (\<lambda>s. image_inv ft s \<and> us_profile_image_url c = url) (write_session (add_user_row (user_to_record now c')))
      (\<lambda>_. image_inv ft) (image_inv ft)"
    if "\<forall>i. url \<noteq> Some (profile_image_path i)" "us_profile_image_url c' = us_profile_image_url c" for now c c' url
  proof (cases "us_profile_image_url c = url")
    case True
    with that add_user_runs [of c' ft now] show ?thesis by (simp add: runs_weaken)
  qed (auto simp: runs_def)
  have pulled: "us_profile_image_url (snd (pull_events c)) = us_profile_image_url c" for c
    by (simp add: pull_events_def)
  have stored: "runs (image_inv ft) (repo_create_user env n m) (\<lambda>_. image_inv ft) (image_inv ft)"
    unfolding repo_create_user_def flush_users_def
    by (intro runs_bind [OF create_user_runs] runs_bind [OF created] runs_bind [OF framed(3)] framed(4)) simp_all
  show "runs (image_inv ft) (provision_user users_commit env n m) (\<lambda>_. image_inv ft) (image_inv ft)"
    unfolding provision_user_def
    by (intro runs_bind [OF stored] runs_bind [OF framed(1)] runs_bind [OF framed(7)] framed(4))
  have account_stored: "runs (\<lambda>s. image_inv ft s \<and> us_profile_image_url c = url) (repo_create_account_state now (snd (pull_events c)) x)
      (\<lambda>_. image_inv ft) (image_inv ft)" if "\<forall>i. url \<noteq> Some (profile_image_path i)" for now c url x
    unfolding repo_create_account_state_def flush_users_def
    by (intro runs_bind [OF created [OF that pulled]] runs_bind [OF framed(2)] runs_bind [OF framed(3)] framed(4))
  show "runs (image_inv ft) (resolve_user_for_login users_commit env cmd) (\<lambda>_. image_inv ft) (image_inv ft)"
    if "\<forall>i. rv_profile_image_url cmd \<noteq> Some (profile_image_path i)"
    unfolding resolve_user_for_login_def Let_def
    by (intro runs_bind [OF framed(6)] runs_bind [OF create_user_runs] runs_bind [OF account_stored [OF that]]
        runs_bind [OF framed(1)] runs_bind [OF framed(7)] framed(4))
  have dropped: "runs (image_inv ft) (repo_delete_account_state u) (\<lambda>_. image_inv ft) (image_inv ft)"
    unfolding repo_delete_account_state_def
    by (intro runs_bind [where Q = "\<lambda>_. image_inv ft"] write_images)
      (auto simp: drop_user_settings_def drop_user_def file_tables_def image_sound_def)
  show "runs (image_inv ft) (delete_user users_commit env u) (\<lambda>_. image_inv ft) (image_inv ft)"
    "runs (image_inv ft) (withdrawal_cleanup users_commit env u) (\<lambda>_. image_inv ft) (image_inv ft)"
    unfolding delete_user_def repo_delete_user_def withdrawal_cleanup_def
    by (intro runs_bind [OF dropped] runs_bind [OF framed(1)] commit_images)+
qed

section \<open>Runs\<close>

text \<open>
  The tables and the storage after any number of calls to the two modules, and what was uploaded so far under the
  identifiers that came back. Each call is a transaction of its own; while a file is being deleted, between the look at
  the profiles and the delete, others may commit any calls of the users module but the choice of this file as a picture
  (\<open>picture_lost_in_race\<close> shows why). The picture a new user may get is not the path of a stored file.
\<close>

type_synonym upload_log = "uuid \<Rightarrow> nat list option"

definition logged_upload :: "exn + file_result \<Rightarrow> nat list \<Rightarrow> upload_log \<Rightarrow> upload_log" where
  "logged_upload r content log = (case r of Inl _ \<Rightarrow> log | Inr res \<Rightarrow> log(fres_file_id res \<mapsto> content))"

definition no_picture :: "uuid \<Rightarrow> 'z user_db_scheme \<Rightarrow> bool" where
  "no_picture i db \<longleftrightarrow> (\<forall>r \<in> set (user_rows db). ur_profile_image_url r \<noteq> Some (profile_image_path i))"

inductive user_files_reach ::
    "'w storage_ops \<Rightarrow> 'z user_db_scheme \<times> 'w \<times> upload_log \<Rightarrow> 'z user_db_scheme \<times> 'w \<times> upload_log \<Rightarrow> bool" for st begun where
  begun: "user_files_reach st begun begun"
| file_uploaded: "user_files_reach st begun (db, w, log) \<Longrightarrow> file_env_fresh env db \<Longrightarrow> fu_storage_key cmd = None \<Longrightarrow>
    upload_file (Some st) files_commit env cmd (open_session db, w) = (ru, (s, w')) \<Longrightarrow>
    user_files_reach st begun (committed s, w', logged_upload ru (fu_content cmd) log)"
| file_removed: "user_files_reach st begun (db, w, log) \<Longrightarrow> user_files_reach st begun (fe_rival env db, w, log) \<Longrightarrow>
    file_tables (fe_rival env db) = file_tables db \<Longrightarrow> (no_picture i db \<Longrightarrow> no_picture i (fe_rival env db)) \<Longrightarrow>
    file_env_fresh env (fe_rival env db) \<Longrightarrow>
    delete_file (Some st) (Some ensure_not_profile_image) files_commit env i u (open_session db, w) = (rd, (s, w')) \<Longrightarrow>
    user_files_reach st begun (committed s, w', log)"
| image_chosen: "user_files_reach st begun (db, w, log) \<Longrightarrow> set_profile_image users_commit uenv u i (open_session db) = (rs, s) \<Longrightarrow>
    user_files_reach st begun (committed s, w, log)"
| image_cleared: "user_files_reach st begun (db, w, log) \<Longrightarrow> clear_profile_image users_commit uenv u (open_session db) = (rc, s) \<Longrightarrow>
    user_files_reach st begun (committed s, w, log)"
| user_provisioned: "user_files_reach st begun (db, w, log) \<Longrightarrow> provision_user users_commit uenv n m (open_session db) = (rp, s) \<Longrightarrow>
    user_files_reach st begun (committed s, w, log)"
| user_resolved: "user_files_reach st begun (db, w, log) \<Longrightarrow> \<forall>i. rv_profile_image_url rcmd \<noteq> Some (profile_image_path i) \<Longrightarrow>
    resolve_user_for_login users_commit uenv rcmd (open_session db) = (rr, s) \<Longrightarrow> user_files_reach st begun (committed s, w, log)"
| user_deleted: "user_files_reach st begun (db, w, log) \<Longrightarrow> delete_user users_commit uenv u (open_session db) = (rx, s) \<Longrightarrow>
    user_files_reach st begun (committed s, w, log)"
| user_withdrawn: "user_files_reach st begun (db, w, log) \<Longrightarrow> withdrawal_cleanup users_commit uenv u (open_session db) = (rw, s) \<Longrightarrow>
    user_files_reach st begun (committed s, w, log)"

text \<open>What the storage has for a file is what was uploaded as that file.\<close>

definition contents_logged :: "'w storage_ops \<Rightarrow> 'z file_db_scheme \<Rightarrow> 'w \<Rightarrow> upload_log \<Rightarrow> bool" where
  "contents_logged st db w log \<longleftrightarrow>
     (\<forall>r \<in> set (file_object_rows db). \<exists>c. log (fo_file_id r) = Some c \<and> fst (sto_read st (fo_storage_key r) w) = Inr c \<and>
        int (length c) = fo_size r)"

lemma contents_logged_cong: "file_tables d = file_tables db \<Longrightarrow> contents_logged st db w log \<Longrightarrow> contents_logged st d w log"
  by (simp add: contents_logged_def file_tables_def)

definition images_kept :: "'w storage_ops \<Rightarrow> 'z user_db_scheme \<times> 'w \<times> upload_log \<Rightarrow> bool" where
  "images_kept st x \<longleftrightarrow>
     (case x of (db, w, log) \<Rightarrow> files_well_formed db \<and> contents_logged st db w log \<and> image_sound db)"

lemma images_keptD:
  assumes "images_kept st (db, w, log)"
  shows "files_well_formed db" "contents_logged st db w log" "image_sound db"
  using assms by (simp_all add: images_kept_def)

lemma image_call_keeps:
  assumes "runs (image_inv (file_tables db)) m (\<lambda>_. image_inv (file_tables db)) (image_inv (file_tables db))"
    and "m (open_session db) = (r, s)" and "images_kept st (db, w, log)"
  shows "images_kept st (committed s, w, log)"
proof -
  note now = images_keptD [OF assms(3)]
  have "image_inv (file_tables db) (open_session db)"
    using now(1,3) by (simp add: image_inv_def open_session_def files_well_formed_def file_tables_ok_def)
  from runs_result [OF assms(1) this] have inv: "image_inv (file_tables db) s" by (simp add: assms(2))
  then have "files_well_formed (committed s)"
    by (intro files_well_formed_cong [OF _ _ now(1)]) (simp_all add: image_inv_def)
  moreover have "contents_logged st (committed s) w log"
    by (rule contents_logged_cong [OF _ now(2)]) (use inv in \<open>simp add: image_inv_def\<close>)
  ultimately show ?thesis using inv by (simp add: images_kept_def image_inv_def)
qed

lemma guard_of_images:
  "guard_looks ensure_not_profile_image"
  "guard_verdict ensure_not_profile_image i db = Inr x \<Longrightarrow> no_picture i db"
  by (auto simp: guard_looks_def guard_verdict_def ensure_not_profile_image_def bindA_def query_session_def raiseA_def returnA_def
      exists_row_iff no_picture_def split: if_splits)

lemma allowing_guard: "guard_looks allow_file_delete" "guard_verdict allow_file_delete i db = Inr ()"
  by (simp_all add: guard_looks_def guard_verdict_def allow_file_delete_def returnA_def)

lemma image_sound_files:
  assumes "image_sound db"
  shows "image_sound (uploaded h env cmd db)" and "no_picture i db \<Longrightarrow> image_sound (file_deleted env i u db)"
  using assms by (auto simp: image_sound_def uploaded_def file_deleted_def drop_file_def add_file_def profile_image_path_inj no_picture_def; blast)+

text \<open>
  Once the guard has let a deletion pass, what it does is what it does on the tables as others left them.
\<close>

lemma delete_behind_guard:
  assumes db: "files_well_formed db" and later: "files_well_formed (fe_rival env db)" and same: "file_tables (fe_rival env db) = file_tables db"
    and looks: "guard_looks guard"
  shows "delete_file (Some st) (Some guard) uow_commit env i u (open_session db, w) =
    (if find_file_record i u db = None then (Inl (FileNotFoundError i), (open_session db, w))
     else case guard_verdict guard i db of
       Inl e \<Rightarrow> (Inl e, (open_session db, w))
     | Inr _ \<Rightarrow> delete_file (Some st) (Some allow_file_delete) uow_commit (env\<lparr>fe_rival := id\<rparr>) i u (open_session (fe_rival env db), w))"
proof (cases "find_file_record i u db")
  case None
  then show ?thesis by (simp add: delete_file_def on_session_def bindA_def no_file_run raiseA_def)
next
  case (Some f)
  note f = found_file_record [OF Some]
  obtain x where x: "x \<in> set (file_object_rows db)" "fo_file_id x = fr_id f" using wfD(4) [OF db] f by blast
  have later_rows: "f \<in> set (file_rows (fe_rival env db))" "x \<in> set (file_object_rows (fe_rival env db))"
    using f x(1) same by (simp_all add: file_tables_def)
  note found = find_file_run(2) [OF db conjunct1 [OF f] x, of u] find_file_run(2) [OF later later_rows x(2), of u]
  obtain verdict where verdict: "guard i (open_session db) = (verdict, open_session db)"
    using looks unfolding guard_looks_def by (metis prod.collapse)
  have interfered: "interfere (fe_rival env) (open_session db) = (Inr (), open_session (fe_rival env db))"
    "interfere id (open_session d) = (Inr (), open_session d)" for d :: "'a file_db_scheme"
    by (simp_all add: interfere_def modifyA_def open_session_def)
  show ?thesis
    by (cases verdict)
      (use f found in \<open>simp_all add: delete_file_def bindA_def on_session_def verdict guard_verdict_def Some allow_file_delete_def
        returnA_def interfered\<close>)
qed

context object_storage begin

lemma upload_logged:
  assumes db: "files_well_formed db" and env: "file_env_fresh env db" and w: "ok w" and logged: "contents_logged st db w log"
    and out: "upload_outcome st checksum_of env cmd db w = (r, db', w')"
  shows "contents_logged st db' w' (logged_upload r (fu_content cmd) log)"
proof -
  let ?w = "snd (sto_put st (upload_key env cmd) (fu_content cmd) w)"
  have same: "fst (sto_read st (fo_storage_key x) ?w) = fst (sto_read st (fo_storage_key x) w)" if "x \<in> set (file_object_rows db)" for x
    using stored_under_built_key [OF db that] other_key_than_upload [OF db env that]
    unfolding upload_key_def by (metis put_built(4) [OF w])
  have new: "fst (sto_read st (upload_key env cmd) ?w) = Inr (fu_content cmd)"
    using put_built(3) [OF w] by (simp add: upload_key_def)
  have others: "fo_file_id x \<noteq> fe_file_id env" if "x \<in> set (file_object_rows db)" for x
    using tablesD(4) [OF wfD(1) [OF db] that] env unfolding file_env_fresh_def by (metis image_eqI)
  have "contents_logged st db ?w log" using logged same by (auto simp: contents_logged_def)
  moreover have "contents_logged st (uploaded checksum_of env cmd db) ?w (log(fe_file_id env \<mapsto> fu_content cmd))"
    using logged same new others
    by (auto simp: contents_logged_def uploaded_rows uploaded_object_row_def upload_key_def)
  ultimately show ?thesis
    using out logged by (auto simp: upload_outcome_def Let_def logged_upload_def upload_result_def split: if_splits)
qed

lemma delete_logged:
  assumes db: "files_well_formed db" and w: "ok w" and logged: "contents_logged st db w log"
  shows "contents_logged st (file_deleted env i u db) (snd (sto_delete st (build_storage_key u i) w)) log"
    and "ok (snd (sto_delete st (build_storage_key u i) w))"
proof -
  obtain w2 where w2: "sto_delete st (build_storage_key u i) w = (Inr (), w2)" "ok w2"
    "\<And>k. key_of_some_file k \<Longrightarrow> k \<noteq> build_storage_key u i \<Longrightarrow> fst (sto_read st k w2) = fst (sto_read st k w)"
    using delete [OF w, of "build_storage_key u i"] by (auto simp: key_of_some_file_def)
  have "fst (sto_read st (fo_storage_key x) w2) = fst (sto_read st (fo_storage_key x) w)"
    if "x \<in> set (file_object_rows db)" "fo_file_id x \<noteq> i" for x
    using stored_under_built_key [OF db that(1)] that(2) by (metis built_key_inj w2(3))
  then show "contents_logged st (file_deleted env i u db) (snd (sto_delete st (build_storage_key u i) w)) log"
    using logged by (simp add: contents_logged_def drop_file_rows w2(1))
  show "ok (snd (sto_delete st (build_storage_key u i) w))" by (simp add: w2(1,2))
qed

lemma removal_keeps:
  assumes db: "images_kept st (db, w, log)" and later: "images_kept st (fe_rival env db, w, log)" and w: "ok w"
    and same: "file_tables (fe_rival env db) = file_tables db" and unused: "no_picture i db \<Longrightarrow> no_picture i (fe_rival env db)"
    and fresh: "file_env_fresh env (fe_rival env db)"
    and run: "delete_file (Some st) (Some ensure_not_profile_image) files_commit env i u (open_session db, w) = (r, (s, w'))"
  shows "images_kept st (committed s, w', log) \<and> ok w'"
proof -
  note now = images_keptD [OF db] and later_now = images_keptD [OF later]
  note run' = run [unfolded delete_behind_guard [OF now(1) later_now(1) same guard_of_images(1)]]
  have stays: "(s, w') = (open_session db, w) \<Longrightarrow> ?thesis" using db w by (simp add: open_session_def)
  show ?thesis
  proof (cases "find_file_record i u db")
    case None
    then show ?thesis using run' stays by simp
  next
    case (Some f)
    show ?thesis
    proof (cases "guard_verdict ensure_not_profile_image i db")
      case (Inl e)
      then show ?thesis using run' stays Some by simp
    next
      case (Inr x)
      let ?d = "fe_rival env db" and ?env = "env\<lparr>fe_rival := id\<rparr>"
      have f: "find_file_record i u ?d = Some f" using Some same by (simp add: find_file_record_def file_tables_def)
      have fresh': "file_env_fresh ?env ?d" using fresh by (simp add: file_env_fresh_def)
      have "s = open_session (file_deleted ?env i u ?d)" "w' = snd (sto_delete st (build_storage_key u i) w)"
        using run' Some Inr delete_file_run [OF later_now(1) fresh' _ w allowing_guard(1), of i u] f
        by (simp_all add: delete_outcome_def allowing_guard)
      moreover have "image_sound (file_deleted ?env i u ?d)"
        by (rule image_sound_files(2) [OF later_now(3) unused [OF guard_of_images(2) [OF Inr]]])
      ultimately show ?thesis
        using deleted_well_formed [OF later_now(1) fresh'] delete_logged [OF later_now(1) w later_now(2)]
        by (simp add: images_kept_def open_session_def)
    qed
  qed
qed

lemma user_files_keep:
  assumes "user_files_reach st x y" and "images_kept st x \<and> ok (fst (snd x))"
  shows "images_kept st y \<and> ok (fst (snd y))"
  using assms(1)
proof induction
  case (file_uploaded db w log env cmd ru s w')
  then have kept: "images_kept st (db, w, log)" and w: "ok w" by simp_all
  note now = images_keptD [OF kept]
  obtain r' db' w2 where out: "upload_outcome st checksum_of env cmd db w = (r', db', w2)" by (rule prod_cases3)
  have run: "s = open_session db'" "w' = w2" "ru = r'"
    using file_uploaded.hyps(4) upload_run [OF now(1) file_uploaded.hyps(2) w file_uploaded.hyps(3)] out by simp_all
  have "db' = db \<and> (\<exists>e. r' = Inl e) \<and> (w2 = w \<or> w2 = snd (sto_put st (upload_key env cmd) (fu_content cmd) w)) \<or>
      db' = uploaded checksum_of env cmd db \<and> original_name_accepted (fu_original_name cmd) \<and> upload_errors checksum_of cmd = [] \<and>
      w2 = snd (sto_put st (upload_key env cmd) (fu_content cmd) w)"
    using out by (auto simp: upload_outcome_def Let_def split: if_splits)
  then have "image_sound db'" "files_well_formed db'" "ok w2"
    using image_sound_files(1) [OF now(3)] now(1,3) uploaded_well_formed [OF now(1) file_uploaded.hyps(2)] put_built(2) [OF w] w
    unfolding upload_key_def by metis+
  then show ?case
    using upload_logged [OF now(1) file_uploaded.hyps(2) w now(2) out] by (simp add: images_kept_def run open_session_def)
next
  case (file_removed db w log env i u rd s w')
  have kept: "images_kept st (db, w, log)" "images_kept st (fe_rival env db, w, log)" "ok w" using file_removed.IH assms(2) by simp_all
  show ?case using removal_keeps [OF kept file_removed.hyps(3-6)] by simp
next
  case (image_chosen db w log uenv u i rs s)
  then show ?case by (auto intro: image_call_keeps [OF image_commands_run(1) image_chosen.hyps(2)])
next
  case (image_cleared db w log uenv u rc s)
  then show ?case by (auto intro: image_call_keeps [OF image_commands_run(2) image_cleared.hyps(2)])
next
  case (user_provisioned db w log uenv n m rp s)
  then show ?case by (auto intro: image_call_keeps [OF user_commands_run(1) user_provisioned.hyps(2)])
next
  case (user_resolved db w log rcmd uenv rr s)
  then show ?case by (auto intro: image_call_keeps [OF user_commands_run(2) [OF user_resolved.hyps(2)] user_resolved.hyps(3)])
next
  case (user_deleted db w log uenv u rx s)
  then show ?case by (auto intro: image_call_keeps [OF user_commands_run(3) user_deleted.hyps(2)])
next
  case (user_withdrawn db w log uenv u rw s)
  then show ?case by (auto intro: image_call_keeps [OF user_commands_run(4) user_withdrawn.hyps(2)])
qed (use assms(2) in simp)

end

text \<open>C13. However files are uploaded and deleted, users created and removed, pictures chosen and cleared, in transactions
  one after the other or with calls of the users module in the middle of a deletion that do not choose the file being
  deleted, whoever has a stored file as profile picture opens it and gets exactly the bytes that were uploaded as that
  file. (A login provider is taken to name no picture by a path of this service.)\<close>

theorem profile_images_can_be_opened:
  assumes "user_files_reach (local_storage sha256_hex root) start (db, w, log)" and "served root (fst (snd start))"
    and "images_kept (local_storage sha256_hex root) start"
    and "r \<in> set (user_rows db)" and "ur_profile_image_url r = Some (profile_image_path i)"
  shows "\<exists>content content_type. log i = Some content \<and>
    open_file_content (local_storage sha256_hex root) i (ur_id r) (open_session db, w) =
      (Inr \<lparr>fcn_content = content, fcn_content_type = content_type, fcn_size = int (length content)\<rparr>, (open_session db, w))"
proof -
  have "images_kept (local_storage sha256_hex root) (db, w, log)"
    using local_store.user_files_keep [OF assms(1)] assms(2,3) by simp
  note now = images_keptD [OF this]
  obtain f where f: "f \<in> set (file_rows db)" "fr_id f = i" "fr_user_id f = ur_id r"
    using now(3) assms(4,5) unfolding image_sound_def by blast
  obtain x where x: "x \<in> set (file_object_rows db)" "fo_file_id x = fr_id f" using wfD(4) [OF now(1) f(1)] by blast
  then obtain c where c: "log i = Some c" "fst (sto_read (local_storage sha256_hex root) (fo_storage_key x) w) = Inr c"
    "int (length c) = fo_size x"
    using now(2) f(2) unfolding contents_logged_def by metis
  show ?thesis
    using local_store.open_run [OF now(1) f(1) x c(2), of "ur_id r"] f(2,3) c(1,3) by simp
qed

section \<open>Two requests at once\<close>

definition image_event :: "user_env \<Rightarrow> uuid \<Rightarrow> ustr option \<Rightarrow> user_row \<Rightarrow> domain_event" where
  "image_event env u url r =
     new_event (ue_event_id env) (ue_event_at env) (UserProfileImageChanged u (ur_profile_image_url r) url)"

definition with_image :: "user_env \<Rightarrow> user_row \<Rightarrow> uuid \<Rightarrow> 'z user_db_scheme \<Rightarrow> 'z user_db_scheme" where
  "with_image env r i db =
     (put_profile_url (ue_db_now env) (ur_id r) (Some (profile_image_path i)) db)
       \<lparr>outbox_events := outbox_events db @ [outbox_row_of (image_event env (ur_id r) (Some (profile_image_path i)) r)]\<rparr>"

lemma put_image_ok:
  assumes "user_tables_ok db"
  shows "user_tables_ok (put_profile_url now u (Some (profile_image_path i)) db)"
proof -
  have "fits_opt 2048 (Some (profile_image_path i))"
    by (simp add: fits_opt_def fits_def profile_image_path_def ascii_def length_uuid_str)
  then have row: "(\<forall>(ok, e) \<in> set (user_row_checks r). ok) \<Longrightarrow>
      (\<forall>(ok, e) \<in> set (user_row_checks (set_profile_url now (Some (profile_image_path i)) r)). ok)" for r
    by (auto simp: user_row_checks_def set_profile_url_def)
  have keeps: "ur_id (set_profile_url now url r) = ur_id r" for url r by (simp add: set_profile_url_def)
  have ids: "(\<exists>x \<in> set (update_rows p (set_profile_url now url) rows). ur_id x = k) \<longleftrightarrow> (\<exists>x \<in> set rows. ur_id x = k)" for p url rows k
    by (simp only: exists_row_iff [symmetric] exists_update_rows keeps)
  show ?thesis
    using assms row unfolding user_tables_ok_def put_profile_url_def
    by (simp add: map_update_rows keeps ids) (fastforce simp: set_update_rows)
qed

lemma set_image_run:
  assumes "files_well_formed db" and "user_tables_ok db" and "f \<in> set (file_rows db)" and "r \<in> set (user_rows db)"
    and "ur_id r = fr_user_id f" and "mail_ok (ur_email r)" and "ue_event_id env \<notin> ob_event_id ` set (outbox_events db)"
  shows "set_profile_image users_commit env (ur_id r) (fr_id f) (open_session db) =
    (Inr (profile_image_path (fr_id f)), open_session (with_image env r (fr_id f) db))"
proof -
  let ?p = "profile_image_path (fr_id f)" and ?s = "open_session db"
  let ?d = "put_profile_url (ue_db_now env) (ur_id r) (Some ?p) db"
  obtain x where x: "x \<in> set (file_object_rows db)" "fo_file_id x = fr_id f" using wfD(4) [OF assms(1,3)] by blast
  have owned: "ensure_owned_image_file (ur_id r) (fr_id f) ?s = (Inr (), ?s)"
    using find_file_run(1) [OF assms(1,3) x, of "ur_id r"] assms(5)
    by (simp add: ensure_owned_image_file_def bindA_Inr returnA_def)
  have row: "get_user_row (ur_id r) db = Some r"
    using assms(2,4) by (simp add: get_user_row_def user_tables_ok_def find_unique_key [where k = ur_id])
  have ok: "user_violation ?d = None" using put_image_ok [OF assms(2)] by (simp add: user_violation_None)
  obtain c where c: "user_to_domain r = Inr c" "us_id c = ur_id r" "us_profile_image_url c = ur_profile_image_url r"
    using assms(6) by (simp add: user_to_domain_def restore_user_def assemble_user_eq)
  let ?u = "user_update_profile_image_url (ue_event_id env) (ue_event_at env) (Some ?p) c"
  have u: "us_profile_image_url ?u = Some ?p" "fst (pull_events ?u) = [image_event env (ur_id r) (Some ?p) r]"
    using c(2,3) by (simp_all add: user_update_profile_image_url_def record_event_def pull_events_def image_event_def Let_def)
  have upd: "repo_update_profile_image_url env (ur_id r) (Some ?p) ?s = (Inr ?u, ?s\<lparr>working := ?d\<rparr>)"
    using ok by (simp add: repo_update_profile_image_url_def session_bind(1,2) row bind_pure c(1) u(1) Let_def flush_users_def bindA_def
        session_apply returnA_def)
  have pub: "publishable build_users_event_registry (image_event env (ur_id r) (Some ?p) r)"
    by (simp add: publishable_def image_event_def new_event_def registry_tables resolve_def)
  have event: "publish build_users_event_registry [image_event env (ur_id r) (Some ?p) r] (?s\<lparr>working := ?d\<rparr>) =
      (Inr (), ?s\<lparr>working := with_image env r (fr_id f) db\<rparr>)"
    using pub by (simp add: publish_ok with_image_def put_profile_url_def)
  have "user_tables_ok (with_image env r (fr_id f) db)"
    using put_image_ok [OF assms(2), of "ue_db_now env" "ur_id r" "fr_id f"] assms(7)
    unfolding user_tables_ok_def with_image_def by (simp add: put_profile_url_def outbox_row_of_def image_event_def new_event_def)
  then have "users_commit (?s\<lparr>working := with_image env r (fr_id f) db\<rparr>) = (Inr (), open_session (with_image env r (fr_id f) db))"
    by (simp add: users_commit_def sqlalchemy_commit_def commit_session_apply user_violation_None open_session_def)
  then show ?thesis
    by (simp add: set_profile_image_def bindA_Inr owned upd u event returnA_def)
qed

text \<open>
  The guard and the delete are two statements. When the owner's request to use the file commits in
  between, both succeed and the picture points to nothing.
\<close>

lemma picture_lost_in_race:
  assumes "files_well_formed db" and "user_tables_ok db" and "served root w" and "f \<in> set (file_rows db)" and "r \<in> set (user_rows db)"
    and "ur_id r = fr_user_id f" and "mail_ok (ur_email r)" and "ue_event_id uenv \<notin> ob_event_id ` set (outbox_events db)"
    and "guard_verdict ensure_not_profile_image (fr_id f) db = Inr ()"
    and "fe_rival env = (\<lambda>d. committed (snd (set_profile_image users_commit uenv (ur_id r) (fr_id f) (open_session d))))"
    and "fe_event_id env \<notin> insert (ue_event_id uenv) (ob_event_id ` set (outbox_events db))"
    and "fe_file_id env \<notin> fr_id ` set (file_rows db)" and "fe_object_id env \<notin> fo_id ` set (file_object_rows db)"
  shows "\<exists>s w'. delete_file (Some (local_storage sha256_hex root)) (Some ensure_not_profile_image) files_commit env (fr_id f) (ur_id r)
      (open_session db, w) = (Inr (), (s, w')) \<and> \<not> image_sound (committed s)"
proof -
  let ?i = "fr_id f" and ?u = "ur_id r" and ?st = "local_storage sha256_hex root"
  let ?db = "with_image uenv r (fr_id f) db" and ?env = "env\<lparr>fe_rival := id\<rparr>"
  have rival: "fe_rival env db = ?db"
    using set_image_run [OF assms(1,2,4-8)] by (simp add: assms(10) open_session_def)
  have same: "file_tables ?db = file_tables db" by (simp add: with_image_def put_profile_url_def file_tables_def)
  have "distinct (map ob_event_id (outbox_events ?db))"
    using assms(2,8) by (simp add: with_image_def user_tables_ok_def outbox_row_of_def image_event_def new_event_def)
  then have wf: "files_well_formed ?db" by (rule files_well_formed_cong [OF same _ assms(1)])
  have fresh: "file_env_fresh ?env ?db" "fe_rival ?env = id"
    using assms(11-13) same
    by (simp_all add: file_env_fresh_def file_tables_def with_image_def outbox_row_of_def image_event_def new_event_def)
  have f': "f \<in> set (file_rows ?db)" using assms(4) same by (simp add: file_tables_def)
  have "delete_file (Some ?st) (Some ensure_not_profile_image) files_commit env ?i ?u (open_session db, w) =
      delete_file (Some ?st) (Some allow_file_delete) files_commit ?env ?i ?u (open_session ?db, w)"
    using delete_behind_guard [OF assms(1) _ _ guard_of_images(1), of env ?st files_commit ?i ?u w] wf same assms(6,9) rival
      file_of_user [OF wfD(1) [OF assms(1)] assms(4), of ?u]
    by simp
  also have "\<dots> = (Inr (), (open_session (file_deleted ?env ?i ?u ?db), snd (sto_delete ?st (build_storage_key ?u ?i) w)))"
    using file_of_user [OF wfD(1) [OF wf] f', of ?u] assms(6)
    by (subst local_store.delete_file_run [OF wf fresh assms(3) allowing_guard(1)]) (simp add: delete_outcome_def allowing_guard)
  finally have run: "delete_file (Some ?st) (Some ensure_not_profile_image) files_commit env ?i ?u (open_session db, w) =
      (Inr (), (open_session (file_deleted ?env ?i ?u ?db), snd (sto_delete ?st (build_storage_key ?u ?i) w)))" .
  have "set_profile_url (ue_db_now uenv) (Some (profile_image_path ?i)) r \<in> set (user_rows (file_deleted ?env ?i ?u ?db))"
    using assms(5) by (auto simp: file_deleted_def drop_file_def with_image_def put_profile_url_def set_update_rows)
  moreover have "ur_profile_image_url (set_profile_url now url r) = url" for now url by (simp add: set_profile_url_def)
  moreover have "?i \<notin> fr_id ` set (file_rows (file_deleted ?env ?i ?u ?db))" by (auto simp: drop_file_rows)
  ultimately have "\<not> image_sound (file_deleted ?env ?i ?u ?db)"
    unfolding image_sound_def by (metis image_eqI)
  then show ?thesis using run by (simp add: open_session_def)
qed

end
