(* ===== verification/Profile_Samples.thy ===== *)
theory Profile_Samples
  imports Profile_Images
begin

text \<open>The property of profile pictures on a small run: one user uploads a picture and chooses it.\<close>

definition lee :: user_row where
  "lee = \<lparr>ur_id = 1, ur_name = None, ur_nickname = None, ur_email = None, ur_profile_image_url = None, ur_created_at = 0, ur_updated_at = 0\<rparr>"

definition one_user :: user_db where
  "one_user = \<lparr>outbox_events = [], user_credits = [], credit_transactions = [], promotions = [], promotion_contents = [],
     promotion_codes = [], promotion_redemptions = [], user_rows = [lee], receipt_rows = [], attachment_rows = [],
     notification_rows = [], settings_rows = [], token_rows = [], occurrence_rows = [], rule_rows = [], file_rows = [],
     file_object_rows = [], user_settings_rows = []\<rparr>"

definition clean_disk :: local_fs where
  "clean_disk = \<lparr>fs_files = [], fs_dirs = []\<rparr>"

definition lees_env :: "user_db file_env" where
  "lees_env = \<lparr>fe_file_id = 30, fe_draft_id = 33, fe_object_id = 31, fe_event_id = 32, fe_now = 0, fe_db_now = 0, fe_rival = id\<rparr>"

definition lees_picture :: upload_command where
  "lees_picture = \<lparr>fu_user_id = 1, fu_original_name = ascii ''a.png'', fu_content_type = ascii ''image/png'', fu_size = 9,
     fu_content = png_signature @ [0], fu_storage_key = None, fu_checksum = None\<rparr>"

definition lees_request :: user_env where
  "lees_request = \<lparr>ue_user_id = 0, ue_event_id = 34, ue_event_at = 0, ue_now = 0, ue_db_now = 0\<rparr>"

abbreviation disk_at_data :: "local_fs storage_ops" where
  "disk_at_data \<equiv> local_storage (\<lambda>c. replicate 64 48) [ascii ''data'']"

abbreviation with_picture :: user_db where
  "with_picture \<equiv> uploaded (\<lambda>c. replicate 64 48) lees_env lees_picture one_user"

lemma lee_ready:
  "files_well_formed one_user" "file_env_fresh lees_env one_user" "served [ascii ''data''] clean_disk" "contents_kept st one_user w"
  "fu_storage_key lees_picture = None" "image_sound one_user" "user_tables_ok one_user" "mail_ok (ur_email lee)"
  by (simp_all add: files_well_formed_def file_tables_ok_def one_user_def lee_def file_env_fresh_def lees_env_def served_def
      clean_disk_def contents_kept_def lees_picture_def image_sound_def user_tables_ok_def user_row_checks_def fits_opt_def mail_ok_def)

lemma lees_picture_accepted:
  "original_name_accepted (fu_original_name lees_picture)" "draft_errors lees_picture = []"
  "upload_errors (\<lambda>c. replicate 64 48) lees_picture = []"
  by (simp_all add: lees_picture_def original_name_accepted_def draft_errors_def upload_errors_def file_object_errors_def
      mk_content_type_def mk_file_size_def mk_checksum_def allowed_content_types_def failed_details_def png_signature_def
      ascii_def strip_def lstrip_def rstrip_def is_space_def)

lemma lees_upload:
  "\<exists>w r. upload_file (Some disk_at_data) files_commit lees_env lees_picture (open_session one_user, clean_disk) =
     (Inr r, (open_session with_picture, w)) \<and> fres_file_id r = 30"
  using local_store.upload_run [OF lee_ready(1-3,5), where sha256_hex = "\<lambda>c. replicate 64 48"] lees_picture_accepted
  by (simp add: upload_outcome_def upload_result_def) (simp add: lees_env_def)

lemma lees_choice:
  "set_profile_image users_commit lees_request 1 30 (open_session with_picture) =
     (Inr (profile_image_path 30), open_session (with_image lees_request lee 30 with_picture))"
proof -
  let ?f = "uploaded_file_row lees_env lees_picture"
  have rows: "?f \<in> set (file_rows with_picture)" "lee \<in> set (user_rows with_picture)" "fr_user_id ?f = 1" "fr_id ?f = 30" "ur_id lee = 1"
    by (simp_all add: uploaded_rows) (simp_all add: uploaded_def add_file_def one_user_def lee_def uploaded_file_row_def lees_env_def
        lees_picture_def)
  have "user_tables_ok with_picture" "ue_event_id lees_request \<notin> ob_event_id ` set (outbox_events with_picture)"
    by (simp_all add: user_tables_ok_def uploaded_def add_file_def one_user_def lee_def user_row_checks_def fits_opt_def outbox_row_of_def
        uploaded_event_def new_event_def lees_env_def lees_request_def)
  with set_image_run [OF uploaded_well_formed [OF lee_ready(1,2) lees_picture_accepted(1,3)] _ rows(1,2)] rows(3-5) lee_ready(8)
  show ?thesis by simp
qed

theorem profile_images_can_be_opened_witness:
  "\<exists>w t. open_file_content disk_at_data 30 1 (open_session (with_image lees_request lee 30 with_picture), w) =
      (Inr \<lparr>fcn_content = fu_content lees_picture, fcn_content_type = t, fcn_size = int (length (fu_content lees_picture))\<rparr>,
       (open_session (with_image lees_request lee 30 with_picture), w))"
proof -
  let ?db = "with_image lees_request lee 30 with_picture"
  obtain w r where w: "upload_file (Some disk_at_data) files_commit lees_env lees_picture (open_session one_user, clean_disk) =
      (Inr r, (open_session with_picture, w))" and id: "fres_file_id r = 30"
    using lees_upload by blast
  have same: "committed (open_session d) = d" for d :: user_db by (simp add: open_session_def)
  note reach = user_files_reach.image_chosen [OF user_files_reach.file_uploaded [OF user_files_reach.begun lee_ready(2,5) w, unfolded same]
      lees_choice, unfolded same]
  have lee: "lee\<lparr>ur_profile_image_url := Some (profile_image_path 30), ur_updated_at := 0\<rparr> \<in> set (user_rows ?db)"
    by (simp add: with_image_def put_profile_url_def uploaded_def add_file_def one_user_def set_profile_url_def lee_def lees_request_def)
  have url: "ur_profile_image_url (lee\<lparr>ur_profile_image_url := Some (profile_image_path 30), ur_updated_at := 0\<rparr>) = Some (profile_image_path 30)"
    and owner: "ur_id (lee\<lparr>ur_profile_image_url := Some (profile_image_path 30), ur_updated_at := 0\<rparr>) = 1"
    by (simp_all add: lee_def)
  have kept: "images_kept disk_at_data (one_user, clean_disk, Map.empty)"
    using lee_ready(1,6) by (simp add: images_kept_def contents_logged_def one_user_def)
  have "served [ascii ''data''] (fst (snd (one_user, clean_disk, Map.empty :: upload_log)))" using lee_ready(3) by simp
  from profile_images_can_be_opened [OF reach this kept lee url, unfolded owner] id show ?thesis
    by (auto simp: logged_upload_def)
qed

end
