(* ===== verification/Usage_Snapshot.thy ===== *)
theory Usage_Snapshot
  imports Ocr_Extraction Credits_Queries
begin

text \<open>
  The module \<open>usage\<close> (\<open>app/modules/usage\<close>): what a user sees of the credits, how many recognitions are
  left and whether one may be asked for, and what it is worth when one is.
\<close>

record ocr_usage =
  ou_remaining_count :: int
  ou_can_analyze :: bool

record usage_snapshot =
  usn_ocr :: ocr_usage

definition get_usage_snapshot :: "uuid \<Rightarrow> ('z, usage_snapshot) credit_action_on" where
  "get_usage_snapshot user_id =
     bindA (get_credit_balance user_id) (\<lambda>balance.
     returnA \<lparr>usn_ocr = \<lparr>ou_remaining_count = remaining_count balance, ou_can_analyze = remaining_count balance > 0\<rparr>\<rparr>)"

definition usage_of :: "int \<Rightarrow> usage_snapshot" where
  "usage_of n = \<lparr>usn_ocr = \<lparr>ou_remaining_count = n, ou_can_analyze = n > 0\<rparr>\<rparr>"

lemma get_usage_snapshot_run:
  assumes "credit_violation db = None"
  shows "get_usage_snapshot u (open_session db) = (Inr (usage_of (remaining_count (stored_balance u db))), open_session db)"
  using get_balance_ok [of "open_session db" u] assms
  by (simp add: get_usage_snapshot_def get_credit_balance_def bindA_Inr returnA_def usage_of_def)

text \<open>C40. The snapshot tells what a recognition that follows will do: with \<open>canAnalyze\<close> the images decide alone, and if one
  is recognized the next snapshot shows one credit less; without it every recognition is refused for want of a credit; and
  after a failure the snapshot is the same.\<close>

theorem usage_snapshot_foretells_recognition:
  assumes "credit_violation db = None" and "ce_rival_lock env = id" and "fresh_ids env db"
  shows "\<exists>n \<ge> 0. get_usage_snapshot u (open_session db) = (Inr (usage_of n), open_session db) \<and>
    (case extract_receipt_ocr (sqlalchemy_commit credit_violation) sqlalchemy_rollback env extract today today' u images (open_session db) of
       (Inr r, s) \<Rightarrow> ou_can_analyze (usn_ocr (usage_of n)) \<and> recognize extract today today' images = Inr r \<and>
         get_usage_snapshot u s = (Inr (usage_of (n - 1)), s)
     | (Inl e, s) \<Rightarrow> s = open_session db \<and>
         (if ou_can_analyze (usn_ocr (usage_of n)) then recognize extract today today' images = Inl e else e = InsufficientCreditError))"
proof -
  let ?n = "remaining_count (stored_balance u db)" and ?cmd = "ocr_use u (CreditAmount 1)"
  have n: "0 \<le> ?n" using stored_balance_ok [OF assms(1), of u] by (simp add: balance_ok_def)
  have valid: "credit_violation (use_effect env ?cmd db) = None" if "0 < ?n"
    by (rule use_effect_valid [OF assms(1)]) (use that assms(3) in \<open>simp add: use_admissible_def ocr_use_def amount_ok_def\<close>)
  have less: "remaining_count (stored_balance u (use_effect env ?cmd db)) = ?n - 1"
    by (simp add: stored_balance_effects(2) ocr_use_def spent_balance_def)
  have "ce_rival_lock env db = db" by (simp add: assms(2))
  note charged = extract_receipt_ocr_run [OF this assms(1), of "extract" today today' u images]
  show ?thesis
    by (intro exI [of _ ?n] conjI n get_usage_snapshot_run [OF assms(1)], cases "recognize extract today today' images"; cases "0 < ?n")
      (use n valid less get_usage_snapshot_run [OF valid, of u] in \<open>simp_all add: charged usage_of_def\<close>)
qed

theorem usage_snapshot_foretells_recognition_witness:
  "\<exists>r s. extract_receipt_ocr (sqlalchemy_commit credit_violation) sqlalchemy_rollback (quiet_env 7) (stub_extract (Date 2026 3 1))
      (Date 2026 3 1) (Date 2026 3 1) 1 [sample_image] (open_session one_credit_db) = (Inr r, s) \<and>
    get_usage_snapshot 1 s = (Inr (usage_of 0), s)"
proof -
  have ready: "ce_rival_lock (quiet_env 7) = id" "fresh_ids (quiet_env 7) one_credit_db"
    by (rule ext, simp add: quiet_rival) (simp add: fresh_ids_def one_credit_tables)
  obtain r where r: "recognize (stub_extract (Date 2026 3 1)) (Date 2026 3 1) (Date 2026 3 1) [sample_image] = Inr r"
    using stub_recognized by blast
  have one: "get_usage_snapshot 1 (open_session one_credit_db) = (Inr (usage_of 1), open_session one_credit_db)"
    using get_usage_snapshot_run [OF one_credit_valid, of 1] by (simp add: one_credit_left)
  show ?thesis
    using usage_snapshot_foretells_recognition [OF one_credit_valid ready, of 1 "stub_extract (Date 2026 3 1)" "Date 2026 3 1"
        "Date 2026 3 1" "[sample_image]"]
    by (auto simp: one r usage_of_def split: prod.splits sum.splits)
qed

end
