(* ===== verification/Web_Errors.thy ===== *)
theory Web_Errors
  imports Core_Domain "HOL-Library.Multiset"
begin

text \<open>
  What a client is told when a request fails: \<open>app/core/http/exception_handlers.py\<close> and \<open>responses.py\<close>, the
  handlers of \<open>modules/auth/api\<close> and \<open>modules/ocr/api\<close>, and their registration in \<open>main.py\<close>. Messages are
  named by identifiers; the several messages of \<open>ExternalServiceError\<close> have one name.
\<close>

section \<open>Bodies\<close>

text \<open>
  \<open>FieldError\<close> and \<open>ReceiptOcrFieldError\<close>. A code that is \<open>None\<close> is left out of the JSON where the model is dumped with
  \<open>exclude_none\<close>, and \<open>null\<close> where it is not. The time stamp is the argument \<open>stamp\<close>.
\<close>

datatype field_error =
    FieldError (error_field: ustr) (error_message: string)
  | FileError (error_file_index: int) (error_message: string)

datatype code_field = CodeAbsent | CodeNull | CodeText string

record error_body =
  eb_timestamp :: ustr
  eb_code :: code_field
  eb_message :: string
  eb_path :: ustr
  eb_errors :: "field_error list"

record error_response =
  er_status_code :: int
  er_success :: bool
  er_status :: int
  er_data :: error_body

definition failure_response :: "ustr \<Rightarrow> int \<Rightarrow> string \<Rightarrow> ustr \<Rightarrow> string option \<Rightarrow> field_error list \<Rightarrow> error_response" where
  "failure_response stamp status_code message path code errors =
     \<lparr>er_status_code = status_code, er_success = False, er_status = status_code,
      er_data = \<lparr>eb_timestamp = stamp, eb_code = (case code of None \<Rightarrow> CodeAbsent | Some c \<Rightarrow> CodeText c), eb_message = message, eb_path = path, eb_errors = errors\<rparr>\<rparr>"

section \<open>Messages and codes\<close>

fun exn_message :: "exn \<Rightarrow> string" where
  "exn_message (ValidationError _) = ''input_invalid''"
| "exn_message InvalidCreditTransactionCursorError = ''input_invalid''"
| "exn_message (ReceiptImageUnreadableError _) = ''input_invalid''"
| "exn_message InvalidNotificationCursorError = ''invalid_cursor''"
| "exn_message (NotFoundError m) = m"
| "exn_message ExternalServiceError = ''external_service_failed''"
| "exn_message PromotionNotFoundError = ''promotion_not_found''"
| "exn_message PromotionCodeNotFoundError = ''promotion_code_not_found''"
| "exn_message (ReceiptNotFoundError _) = ''receipt_not_found''"
| "exn_message (PromotionRedemptionConflictError m) = m"
| "exn_message InsufficientCreditError = ''insufficient_credit''"
| "exn_message (UnsupportedReceiptError _ _) = ''unsupported_receipt''"
| "exn_message AuthenticationError = ''authentication_invalid''"
| "exn_message AuthenticationRequiredError = ''authentication_required''"
| "exn_message AuthorizationError = ''access_denied''"
| "exn_message UserNotRegisteredError = ''user_not_registered''"
| "exn_message UserAlreadyExistsError = ''user_already_exists''"
| "exn_message (FileNotFoundError _) = ''file_not_found''"
| "exn_message (ConflictError m) = m"
| "exn_message ReceiptOcrProviderUnavailableError = ''ocr_unavailable''"
| "exn_message _ = []"

text \<open>The classes with a property \<open>code\<close>.\<close>

fun error_code :: "exn \<Rightarrow> string option" where
  "error_code InsufficientCreditError = Some ''INSUFFICIENT_CREDIT''"
| "error_code UserNotRegisteredError = Some ''USER_NOT_REGISTERED''"
| "error_code UserAlreadyExistsError = Some ''USER_ALREADY_EXISTS''"
| "error_code _ = None"

section \<open>Handlers\<close>

definition handle_domain_validation_error :: "ustr \<Rightarrow> ustr \<Rightarrow> exn \<Rightarrow> error_response" where
  "handle_domain_validation_error stamp path e =
     failure_response stamp 422 (exn_message e) path None
       (map (\<lambda>d. FieldError (ascii (detail_field d)) (detail_message d)) (the (validation_details e)))"

definition handle_with_code :: "int \<Rightarrow> ustr \<Rightarrow> ustr \<Rightarrow> exn \<Rightarrow> error_response" where
  "handle_with_code status_code stamp path e = failure_response stamp status_code (exn_message e) path (error_code e) []"

definition handle_plain :: "int \<Rightarrow> ustr \<Rightarrow> ustr \<Rightarrow> exn \<Rightarrow> error_response" where
  "handle_plain status_code stamp path e = failure_response stamp status_code (exn_message e) path None []"

definition handle_unexpected_error :: "ustr \<Rightarrow> ustr \<Rightarrow> error_response" where
  "handle_unexpected_error stamp path = failure_response stamp 500 ''internal_error'' path None []"

text \<open>The one handler that dumps its response without \<open>exclude_none\<close>.\<close>

definition handle_receipt_ocr_provider_unavailable_error :: "ustr \<Rightarrow> ustr \<Rightarrow> exn \<Rightarrow> error_response" where
  "handle_receipt_ocr_provider_unavailable_error stamp path e =
     \<lparr>er_status_code = 503, er_success = False, er_status = 503,
      er_data = \<lparr>eb_timestamp = stamp, eb_code = CodeNull, eb_message = exn_message e, eb_path = path, eb_errors = []\<rparr>\<rparr>"

definition handle_receipt_image_unreadable_error :: "ustr \<Rightarrow> ustr \<Rightarrow> exn \<Rightarrow> error_response" where
  "handle_receipt_image_unreadable_error stamp path e =
     (case e of
        ReceiptImageUnreadableError is \<Rightarrow>
          failure_response stamp 422 (exn_message e) path None (map (\<lambda>i. FileError i ''receipt_image_unreadable'') is)
      | _ \<Rightarrow> handle_unexpected_error stamp path)"

definition handle_unsupported_receipt_error :: "ustr \<Rightarrow> ustr \<Rightarrow> exn \<Rightarrow> error_response" where
  "handle_unsupported_receipt_error stamp path e =
     (case e of
        UnsupportedReceiptError unsupported unreadable \<Rightarrow>
          failure_response stamp 422 (exn_message e) path (Some ''UNSUPPORTED_RECEIPT'')
            (sort_key error_file_index
              (map (\<lambda>i. FileError i (exn_message e)) unsupported @ map (\<lambda>i. FileError i ''receipt_image_unreadable'') unreadable))
      | _ \<Rightarrow> handle_unexpected_error stamp path)"

section \<open>Requests that cannot be read\<close>

text \<open>
  An error of pydantic: where it is, its message, and the text of the error in its context if there is one.
\<close>

datatype loc_part = LocName ustr | LocIndex nat

record pydantic_error =
  pe_loc :: "loc_part list"
  pe_msg :: string
  pe_context_error :: "string option"

definition request_location_prefixes :: "ustr list" where
  "request_location_prefixes = map ascii [''body'', ''query'', ''path'', ''header'', ''cookie'']"

fun loc_text :: "loc_part \<Rightarrow> ustr" where
  "loc_text (LocName s) = s"
| "loc_text (LocIndex n) = nat_text n"

definition join_dots :: "ustr list \<Rightarrow> ustr" where
  "join_dots parts = (case parts of [] \<Rightarrow> [] | p # ps \<Rightarrow> p @ concat (map (\<lambda>x. 46 # x) ps))"

definition from_pydantic_error :: "pydantic_error \<Rightarrow> field_error" where
  "from_pydantic_error e =
     (let location = (case pe_loc e of
                        LocName s # rest \<Rightarrow> if s \<in> set request_location_prefixes then rest else pe_loc e
                      | _ \<Rightarrow> pe_loc e)
      in FieldError (join_dots (map loc_text location))
           (case pe_context_error e of Some m \<Rightarrow> m | None \<Rightarrow> pe_msg e))"

definition handle_request_validation_error :: "ustr \<Rightarrow> ustr \<Rightarrow> pydantic_error list \<Rightarrow> error_response" where
  "handle_request_validation_error stamp path errors =
     failure_response stamp 422 ''request_invalid'' path None (map from_pydantic_error errors)"

definition handle_http_exception :: "ustr \<Rightarrow> ustr \<Rightarrow> int \<Rightarrow> string \<Rightarrow> error_response" where
  "handle_http_exception stamp path status_code detail = failure_response stamp status_code detail path None []"

section \<open>Registration\<close>

text \<open>
  What reaches the handlers: FastAPI's \<open>RequestValidationError\<close>, Starlette's \<open>HTTPException\<close> with its status and
  detail, or an exception of the program.
\<close>

datatype web_exception = RequestInvalid "pydantic_error list" | HttpException int string | AppException exn

datatype web_class = C_RequestValidationError | C_StarletteHTTPException | AppClass exn_class

fun web_mro :: "web_exception \<Rightarrow> web_class list" where
  "web_mro (RequestInvalid _) = [C_RequestValidationError, AppClass C_Exception]"
| "web_mro (HttpException _ _) = [C_StarletteHTTPException, AppClass C_Exception]"
| "web_mro (AppException e) = map AppClass (mro (class_of e))"

text \<open>A handler raises what is not of its class again; that is answered as an unexpected error.\<close>

type_synonym web_handler = "ustr \<Rightarrow> ustr \<Rightarrow> web_exception \<Rightarrow> error_response"

definition internal_error :: web_handler where
  "internal_error stamp path x = handle_unexpected_error stamp path"

definition for_app :: "(ustr \<Rightarrow> ustr \<Rightarrow> exn \<Rightarrow> error_response) \<Rightarrow> web_handler" where
  "for_app h stamp path x = (case x of AppException e \<Rightarrow> h stamp path e | _ \<Rightarrow> internal_error stamp path x)"

definition for_request :: "(ustr \<Rightarrow> ustr \<Rightarrow> pydantic_error list \<Rightarrow> error_response) \<Rightarrow> web_handler" where
  "for_request h stamp path x = (case x of RequestInvalid es \<Rightarrow> h stamp path es | _ \<Rightarrow> internal_error stamp path x)"

definition for_http :: "(ustr \<Rightarrow> ustr \<Rightarrow> int \<Rightarrow> string \<Rightarrow> error_response) \<Rightarrow> web_handler" where
  "for_http h stamp path x = (case x of HttpException n d \<Rightarrow> h stamp path n d | _ \<Rightarrow> internal_error stamp path x)"

text \<open>\<open>_register_exception_handlers\<close>.\<close>

definition exception_handlers :: "(web_class \<times> web_handler) list" where
  "exception_handlers =
     [(AppClass C_ValidationError, for_app handle_domain_validation_error), (AppClass C_NotFoundError, for_app (handle_with_code 404)),
      (AppClass C_ConflictError, for_app (handle_with_code 409)), (AppClass C_ExternalServiceError, for_app (handle_plain 503)),
      (AppClass C_AuthenticationError, for_app (handle_plain 401)), (AppClass C_AuthorizationError, for_app (handle_plain 403)),
      (AppClass C_ReceiptOcrProviderUnavailableError, for_app handle_receipt_ocr_provider_unavailable_error),
      (AppClass C_ReceiptImageUnreadableError, for_app handle_receipt_image_unreadable_error),
      (AppClass C_UnsupportedReceiptError, for_app handle_unsupported_receipt_error), (AppClass C_DomainError, for_app (handle_plain 400)),
      (C_RequestValidationError, for_request handle_request_validation_error),
      (C_StarletteHTTPException, for_http handle_http_exception), (AppClass C_Exception, internal_error)]"

text \<open>Starlette takes the handler of the first class of the exception's MRO that has one.\<close>

fun lookup_handler :: "('c \<times> 'h) list \<Rightarrow> 'c list \<Rightarrow> 'h option" where
  "lookup_handler hs [] = None"
| "lookup_handler hs (c # cs) = (case map_of hs c of Some h \<Rightarrow> Some h | None \<Rightarrow> lookup_handler hs cs)"

definition web_answer :: web_handler where
  "web_answer stamp path x = the (lookup_handler exception_handlers (web_mro x)) stamp path x"

definition error_answer :: "ustr \<Rightarrow> ustr \<Rightarrow> exn \<Rightarrow> error_response" where
  "error_answer stamp path e = web_answer stamp path (AppException e)"

section \<open>Every failure is answered\<close>

lemmas answer_defs = error_answer_def web_answer_def exception_handlers_def for_app_def for_request_def for_http_def
  internal_error_def handle_unexpected_error_def

lemma error_answer_simps:
  "error_answer stamp path (ValidationError ds) = handle_domain_validation_error stamp path (ValidationError ds)"
  "error_answer stamp path (ReceiptImageUnreadableError is) = handle_receipt_image_unreadable_error stamp path (ReceiptImageUnreadableError is)"
  "error_answer stamp path (UnsupportedReceiptError us rs) = handle_unsupported_receipt_error stamp path (UnsupportedReceiptError us rs)"
  by (simp_all add: answer_defs)

lemma web_answer_simps:
  "web_answer stamp path (RequestInvalid es) = handle_request_validation_error stamp path es"
  "web_answer stamp path (HttpException n d) = handle_http_exception stamp path n d"
  "web_answer stamp path (AppException e) = error_answer stamp path e"
  by (simp_all add: answer_defs)

lemma error_answer_status: "http_status e = Some (er_status_code (error_answer stamp path e))"
  by (cases e)
    (simp_all add: http_status_simps answer_defs handle_domain_validation_error_def handle_with_code_def handle_plain_def
      handle_receipt_ocr_provider_unavailable_error_def handle_receipt_image_unreadable_error_def handle_unsupported_receipt_error_def
      failure_response_def, simp_all add: http_status_def registered_handlers_def)

definition in_envelope :: "ustr \<Rightarrow> ustr \<Rightarrow> error_response \<Rightarrow> bool" where
  "in_envelope stamp path r \<longleftrightarrow>
     er_status r = er_status_code r \<and> \<not> er_success r \<and> eb_path (er_data r) = path \<and> eb_timestamp (er_data r) = stamp"

lemma failure_response_envelope: "in_envelope stamp path (failure_response stamp n m path code errors)"
  by (simp add: in_envelope_def failure_response_def)

lemma error_answer_envelope: "in_envelope stamp path (error_answer stamp path e)"
  by (cases e)
    (simp_all add: answer_defs handle_domain_validation_error_def handle_with_code_def handle_plain_def
      handle_receipt_image_unreadable_error_def handle_unsupported_receipt_error_def failure_response_envelope
      handle_receipt_ocr_provider_unavailable_error_def, simp add: in_envelope_def)

lemma error_answer_internal:
  "\<not> is_instance C_DomainError e \<Longrightarrow> error_answer stamp path e = failure_response stamp 500 ''internal_error'' path None []"
  by (cases e) (simp_all add: is_instance_def answer_defs)

lemma file_errors_in_order:
  "map error_file_index (sort_key error_file_index (map (\<lambda>i. FileError i m) us @ map (\<lambda>i. FileError i n) rs)) = sort (us @ rs)"
proof (rule properties_for_sort [symmetric])
  let ?es = "map (\<lambda>i. FileError i m) us @ map (\<lambda>i. FileError i n) rs"
  have "mset (map error_file_index (sort_key error_file_index ?es)) = mset (map error_file_index ?es)"
    by (simp only: mset_map mset_sort)
  also have "map error_file_index ?es = us @ rs" by (simp add: comp_def)
  finally show "mset (map error_file_index (sort_key error_file_index ?es)) = mset (us @ rs)" .
  show "sorted (map error_file_index (sort_key error_file_index ?es))" by (rule sorted_sort_key)
qed

text \<open>C22. Whatever a request raises is answered in one envelope, with the status of the first registered class of the
  exception in the body as well. A failed validation lists every rejected field in order, a rejected upload every rejected image
  in the order of the request; of an error that is not of the domain the client learns nothing but that it happened. A request
  that cannot be read is answered with every fault that was found in it, an HTTP exception of the framework with its own status
  and detail.\<close>

theorem errors_are_answered:
  "er_status (error_answer stamp path e) = er_status_code (error_answer stamp path e) \<and> \<not> er_success (error_answer stamp path e) \<and>
   http_status e = Some (er_status_code (error_answer stamp path e)) \<and> eb_path (er_data (error_answer stamp path e)) = path \<and>
   (\<not> is_instance C_DomainError e \<longrightarrow> error_answer stamp path e = failure_response stamp 500 ''internal_error'' path None []) \<and>
   (case e of
      ValidationError ds \<Rightarrow>
        eb_errors (er_data (error_answer stamp path e)) = map (\<lambda>d. FieldError (ascii (detail_field d)) (detail_message d)) ds
    | ReceiptImageUnreadableError is \<Rightarrow> map error_file_index (eb_errors (er_data (error_answer stamp path e))) = is
    | UnsupportedReceiptError us rs \<Rightarrow>
        map error_file_index (eb_errors (er_data (error_answer stamp path e))) = sort (us @ rs) \<and>
        set (eb_errors (er_data (error_answer stamp path e))) =
          (\<lambda>i. FileError i ''unsupported_receipt'') ` set us \<union> (\<lambda>i. FileError i ''receipt_image_unreadable'') ` set rs
    | _ \<Rightarrow> True) \<and>
   in_envelope stamp path (web_answer stamp path x) \<and>
   (case x of
      RequestInvalid es \<Rightarrow> er_status_code (web_answer stamp path x) = 422 \<and>
        eb_errors (er_data (web_answer stamp path x)) = map from_pydantic_error es
    | HttpException n detail \<Rightarrow> er_status_code (web_answer stamp path x) = n \<and> eb_message (er_data (web_answer stamp path x)) = detail
    | AppException e \<Rightarrow> web_answer stamp path x = error_answer stamp path e)"
proof -
  have env: "in_envelope stamp path (error_answer stamp path e)" for e by (rule error_answer_envelope)
  have web: "in_envelope stamp path (web_answer stamp path x)"
    by (cases x) (simp_all add: web_answer_simps env failure_response_envelope handle_request_validation_error_def handle_http_exception_def)
  show ?thesis
  proof (intro conjI impI)
    show "error_answer stamp path e = failure_response stamp 500 ''internal_error'' path None []" if "\<not> is_instance C_DomainError e"
      by (rule error_answer_internal [OF that])
    show "http_status e = Some (er_status_code (error_answer stamp path e))" by (rule error_answer_status)
    show "in_envelope stamp path (web_answer stamp path x)" by (rule web)
  qed (use env [of e] in \<open>simp_all add: in_envelope_def\<close>,
    auto simp: error_answer_simps web_answer_simps handle_domain_validation_error_def handle_receipt_image_unreadable_error_def
      handle_unsupported_receipt_error_def handle_request_validation_error_def handle_http_exception_def failure_response_def
      file_errors_in_order comp_def split: exn.split web_exception.split)
qed

theorem errors_are_answered_witness:
  "error_answer [] (ascii ''/receipts'') (PyKeyError ''x'') = failure_response [] 500 ''internal_error'' (ascii ''/receipts'') None [] \<and>
   map error_file_index (eb_errors (er_data (error_answer [] (ascii ''/ocr'') (UnsupportedReceiptError [2] [0])))) = [0, 2] \<and>
   er_status_code (web_answer [] (ascii ''/none'') (HttpException 404 ''Not Found'')) = 404"
  using errors_are_answered [of "[]" "ascii ''/receipts''" "PyKeyError ''x''"]
    errors_are_answered [of "[]" "ascii ''/ocr''" "UnsupportedReceiptError [2] [0]"]
    errors_are_answered [of "[]" "ascii ''/none''" "PyKeyError ''x''" "HttpException 404 ''Not Found''"]
  by (simp add: is_instance_def)

end
