(* ===== verification/Receipt_Api.thy ===== *)
theory Receipt_Api
  imports Receipt_Samples Service_Centers Web_Errors
begin

text \<open>
  The receipts API (\<open>app/modules/receipts/api\<close>: \<open>schemas.py\<close>, \<open>router.py\<close>): what requests have to be, the
  commands and queries they become, and the answers. FastAPI and pydantic turn JSON into the typed request
  records before and the response records into JSON afterwards; the user is the authenticated principal.
\<close>

section \<open>Requests\<close>

text \<open>What a client may send as a category; \<open>CategoryNoText\<close> is any value that is not a text.\<close>

datatype category_field = CategoryAbsent | CategorySent ustr | CategoryNoText

definition normalize_category :: "category_field \<Rightarrow> string + receipt_category option" where
  "normalize_category v =
     (case v of
        CategoryAbsent \<Rightarrow> Inr None
      | CategoryNoText \<Rightarrow> Inl ''category_unsupported''
      | CategorySent s \<Rightarrow>
          if strip s = [] then Inr None
          else (case receipt_category_from (strip s) of None \<Rightarrow> Inl ''category_unsupported'' | Some c \<Rightarrow> Inr (Some c)))"

definition category_given :: "category_field \<Rightarrow> receipt_category option" where
  "category_given v = (case normalize_category v of Inl _ \<Rightarrow> None | Inr c \<Rightarrow> c)"

definition pydantic_fault :: "string \<Rightarrow> string \<Rightarrow> string \<Rightarrow> string option \<Rightarrow> pydantic_error" where
  "pydantic_fault place field message context =
     \<lparr>pe_loc = [LocName (ascii place), LocName (ascii field)], pe_msg = message, pe_context_error = context\<rparr>"

definition length_faults :: "string \<Rightarrow> string \<Rightarrow> nat \<Rightarrow> nat \<Rightarrow> 'a list option \<Rightarrow> pydantic_error list" where
  "length_faults place field lo hi v =
     (case v of
        None \<Rightarrow> []
      | Some s \<Rightarrow>
          if length s < lo then [pydantic_fault place field ''too_short'' None]
          else if hi < length s then [pydantic_fault place field ''too_long'' None] else [])"

definition category_faults :: "string \<Rightarrow> category_field \<Rightarrow> pydantic_error list" where
  "category_faults place v =
     (case normalize_category v of Inl m \<Rightarrow> [pydantic_fault place ''category'' ''value_error'' (Some m)] | Inr _ \<Rightarrow> [])"

record receipt_list_request =
  rlq_status :: receipt_status
  rlq_sort :: receipt_sort
  rlq_limit :: int
  rlq_cursor :: "ustr option"
  rlq_category :: category_field
  rlq_q :: "ustr option"

definition receipt_list_faults :: "receipt_list_request \<Rightarrow> pydantic_error list" where
  "receipt_list_faults req =
     (if rlq_limit req < 1 then [pydantic_fault ''query'' ''limit'' ''greater_than_equal'' None]
      else if 50 < rlq_limit req then [pydantic_fault ''query'' ''limit'' ''less_than_equal'' None] else []) @
     length_faults ''query'' ''cursor'' 1 2048 (rlq_cursor req) @
     category_faults ''query'' (rlq_category req) @
     length_faults ''query'' ''q'' 1 100 (rlq_q req)"

record create_receipt_request =
  crq_item_name :: ustr
  crq_brand_name :: "ustr option"
  crq_serial_number :: "ustr option"
  crq_payment_location :: "ustr option"
  crq_payment_date :: date
  crq_total_amount :: "int option"
  crq_period_months :: "int option"
  crq_expires_on :: "date option"
  crq_category :: category_field
  crq_sub_category :: "ustr option"
  crq_memo :: "ustr option"
  crq_requires_physical_receipt :: bool
  crq_receipt_file_ids :: "uuid list"

definition create_receipt_faults :: "create_receipt_request \<Rightarrow> pydantic_error list" where
  "create_receipt_faults req =
     length_faults ''body'' ''item_name'' 0 255 (Some (crq_item_name req)) @
     length_faults ''body'' ''brand_name'' 0 255 (crq_brand_name req) @
     length_faults ''body'' ''serial_number'' 0 255 (crq_serial_number req) @
     length_faults ''body'' ''payment_location'' 0 500 (crq_payment_location req) @
     category_faults ''body'' (crq_category req) @
     length_faults ''body'' ''sub_category'' 0 100 (crq_sub_category req) @
     length_faults ''body'' ''memo'' 0 1000 (crq_memo req) @
     length_faults ''body'' ''receipt_file_ids'' 1 5 (Some (crq_receipt_file_ids req))"

text \<open>\<open>urq_fields_set\<close> is \<open>model_fields_set\<close>, the names of the fields that were sent.\<close>

record update_receipt_request =
  urq_fields_set :: "string set"
  urq_item_name :: "ustr option"
  urq_brand_name :: "ustr option"
  urq_serial_number :: "ustr option"
  urq_payment_location :: "ustr option"
  urq_payment_date :: "date option"
  urq_total_amount :: "int option"
  urq_period_months :: "int option"
  urq_expires_on :: "date option"
  urq_category :: category_field
  urq_sub_category :: "ustr option"
  urq_memo :: "ustr option"
  urq_requires_physical_receipt :: "bool option"
  urq_receipt_file_ids :: "uuid list option"

definition update_receipt_faults :: "update_receipt_request \<Rightarrow> pydantic_error list" where
  "update_receipt_faults req =
     length_faults ''body'' ''item_name'' 0 255 (urq_item_name req) @
     length_faults ''body'' ''brand_name'' 0 255 (urq_brand_name req) @
     length_faults ''body'' ''serial_number'' 0 255 (urq_serial_number req) @
     length_faults ''body'' ''payment_location'' 0 500 (urq_payment_location req) @
     category_faults ''body'' (urq_category req) @
     length_faults ''body'' ''sub_category'' 0 100 (urq_sub_category req) @
     length_faults ''body'' ''memo'' 0 1000 (urq_memo req) @
     length_faults ''body'' ''receipt_file_ids'' 1 5 (urq_receipt_file_ids req)"

section \<open>Responses\<close>

record receipt_file_response =
  rfr_file_id :: uuid
  rfr_content_path :: ustr

record receipt_response =
  rsp_receipt_id :: uuid
  rsp_item_name :: ustr
  rsp_brand_name :: "ustr option"
  rsp_payment_location :: "ustr option"
  rsp_payment_date :: date
  rsp_total_amount :: "int option"
  rsp_period_months :: int
  rsp_expires_on :: date
  rsp_category :: "ustr option"
  rsp_sub_category :: "ustr option"
  rsp_memo :: "ustr option"
  rsp_requires_physical_receipt :: bool
  rsp_receipt_file_ids :: "uuid list"
  rsp_receipt_files :: "receipt_file_response list"
  rsp_image_url :: "ustr option"
  rsp_warranty_d_day :: "int option"
  rsp_serial_number :: "ustr option"
  rsp_support_url :: "ustr option"
  rsp_registered_at :: "datetime option"

text \<open>\<open>rstrip("/")\<close> of the configured prefix.\<close>

definition prefixed_path :: "ustr \<Rightarrow> ustr \<Rightarrow> ustr" where
  "prefixed_path api_prefix path = rev (dropWhile (\<lambda>c. c = 47) (rev api_prefix)) @ path"

definition receipt_file_responses :: "ustr \<Rightarrow> uuid list \<Rightarrow> receipt_file_response list" where
  "receipt_file_responses api_prefix file_ids =
     map (\<lambda>i. \<lparr>rfr_file_id = i, rfr_content_path = prefixed_path api_prefix (ascii ''/files/'' @ uuid_str i @ ascii ''/content'')\<rparr>) file_ids"

definition category_label :: "receipt_category option \<Rightarrow> ustr option" where
  "category_label c = map_option category_api_label c"

definition receipt_response_of :: "ustr \<Rightarrow> date \<Rightarrow> receipt_read_model \<Rightarrow> exn + receipt_response" where
  "receipt_response_of api_prefix today m =
     bindE (resolve_service_center_url (rm_brand_name m) (rm_item_name m)) (\<lambda>support.
     Inr \<lparr>rsp_receipt_id = rm_receipt_id m, rsp_item_name = rm_item_name m, rsp_brand_name = rm_brand_name m,
          rsp_payment_location = rm_payment_location m, rsp_payment_date = rm_payment_date m,
          rsp_total_amount = rm_total_amount m, rsp_period_months = rm_period_months m, rsp_expires_on = rm_expires_on m,
          rsp_category = category_label (rm_category m), rsp_sub_category = rm_sub_category m, rsp_memo = rm_memo m,
          rsp_requires_physical_receipt = rm_requires_physical_receipt m, rsp_receipt_file_ids = rm_receipt_file_ids m,
          rsp_receipt_files = receipt_file_responses api_prefix (rm_receipt_file_ids m), rsp_image_url = None,
          rsp_warranty_d_day = Some (rm_warranty_d_day today m), rsp_serial_number = rm_serial_number m,
          rsp_support_url = Some support, rsp_registered_at = Some (rm_registered_at m)\<rparr>)"

text \<open>The answer to a creation names neither the image nor the days that are left.\<close>

definition create_receipt_response :: "ustr \<Rightarrow> receipt_read_model \<Rightarrow> exn + receipt_response" where
  "create_receipt_response api_prefix m =
     bindE (resolve_service_center_url (rm_brand_name m) (rm_item_name m)) (\<lambda>support.
     Inr \<lparr>rsp_receipt_id = rm_receipt_id m, rsp_item_name = rm_item_name m, rsp_brand_name = rm_brand_name m,
          rsp_payment_location = rm_payment_location m, rsp_payment_date = rm_payment_date m,
          rsp_total_amount = rm_total_amount m, rsp_period_months = rm_period_months m, rsp_expires_on = rm_expires_on m,
          rsp_category = category_label (rm_category m), rsp_sub_category = rm_sub_category m, rsp_memo = rm_memo m,
          rsp_requires_physical_receipt = rm_requires_physical_receipt m, rsp_receipt_file_ids = rm_receipt_file_ids m,
          rsp_receipt_files = receipt_file_responses api_prefix (rm_receipt_file_ids m), rsp_image_url = None,
          rsp_warranty_d_day = None, rsp_serial_number = rm_serial_number m, rsp_support_url = Some support,
          rsp_registered_at = Some (rm_registered_at m)\<rparr>)"

section \<open>Endpoints\<close>

text \<open>A request fails before its endpoint is called, with the list of its faults, or by what the endpoint raises.\<close>

datatype web_failure = BadRequest "pydantic_error list" | Raised exn

definition failure_answer :: "ustr \<Rightarrow> ustr \<Rightarrow> web_failure \<Rightarrow> error_response" where
  "failure_answer stamp path f =
     web_answer stamp path (case f of BadRequest es \<Rightarrow> RequestInvalid es | Raised e \<Rightarrow> AppException e)"

definition raising :: "('s, exn, 'a) action \<Rightarrow> ('s, web_failure, 'a) action" where
  "raising m s = (case m s of (Inl e, t) \<Rightarrow> (Inl (Raised e), t) | (Inr x, t) \<Rightarrow> (Inr x, t))"

definition validated :: "pydantic_error list \<Rightarrow> ('s, web_failure, 'a) action \<Rightarrow> ('s, web_failure, 'a) action" where
  "validated faults endpoint = (if faults \<noteq> [] then raiseA (BadRequest faults) else endpoint)"

definition create_receipt_command_of :: "uuid \<Rightarrow> create_receipt_request \<Rightarrow> create_receipt_command" where
  "create_receipt_command_of user_id req =
     \<lparr>cr_user_id = user_id, cr_item_name = crq_item_name req, cr_payment_date = crq_payment_date req,
      cr_brand_name = crq_brand_name req, cr_serial_number = crq_serial_number req,
      cr_payment_location = crq_payment_location req, cr_total_amount = crq_total_amount req,
      cr_period_months = crq_period_months req, cr_expires_on = crq_expires_on req,
      cr_category = category_given (crq_category req), cr_sub_category = crq_sub_category req, cr_memo = crq_memo req,
      cr_requires_physical_receipt = crq_requires_physical_receipt req, cr_receipt_file_ids = Some (crq_receipt_file_ids req)\<rparr>"

definition create_receipt_endpoint ::
    "ustr \<Rightarrow> 'z receipt_db_scheme receipt_env \<Rightarrow> uuid \<Rightarrow> create_receipt_request \<Rightarrow>
     ('z receipt_db_scheme session, web_failure, receipt_response) action" where
  "create_receipt_endpoint api_prefix env user_id req =
     validated (create_receipt_faults req) (raising (
       bindA (create_new_receipt env (create_receipt_command_of user_id req)) (\<lambda>result.
       liftE (create_receipt_response api_prefix result))))"

definition get_receipt_endpoint ::
    "ustr \<Rightarrow> date \<Rightarrow> uuid \<Rightarrow> uuid \<Rightarrow> ('z receipt_db_scheme session, web_failure, receipt_response) action" where
  "get_receipt_endpoint api_prefix today user_id receipt_id =
     raising (bindA (get_receipt user_id receipt_id) (\<lambda>result. liftE (receipt_response_of api_prefix today result)))"

definition update_receipt_command_of :: "uuid \<Rightarrow> uuid \<Rightarrow> update_receipt_request \<Rightarrow> update_receipt_command" where
  "update_receipt_command_of user_id receipt_id req =
     \<lparr>up_user_id = user_id, up_receipt_id = receipt_id, up_updated_fields = urq_fields_set req,
      up_item_name = urq_item_name req, up_brand_name = urq_brand_name req, up_serial_number = urq_serial_number req,
      up_payment_location = urq_payment_location req, up_payment_date = urq_payment_date req,
      up_total_amount = urq_total_amount req, up_period_months = urq_period_months req, up_expires_on = urq_expires_on req,
      up_category = category_given (urq_category req), up_sub_category = urq_sub_category req, up_memo = urq_memo req,
      up_requires_physical_receipt = urq_requires_physical_receipt req, up_receipt_file_ids = urq_receipt_file_ids req\<rparr>"

definition update_receipt_endpoint ::
    "ustr \<Rightarrow> date \<Rightarrow> 'z receipt_db_scheme receipt_env \<Rightarrow> uuid \<Rightarrow> uuid \<Rightarrow> update_receipt_request \<Rightarrow>
     ('z receipt_db_scheme session, web_failure, receipt_response) action" where
  "update_receipt_endpoint api_prefix today env user_id receipt_id req =
     validated (update_receipt_faults req) (raising (
       bindA (update_receipt env (update_receipt_command_of user_id receipt_id req)) (\<lambda>result.
       liftE (receipt_response_of api_prefix today result))))"

definition delete_receipt_endpoint :: "uuid \<Rightarrow> uuid \<Rightarrow> ('z receipt_db_scheme session, web_failure, unit) action" where
  "delete_receipt_endpoint user_id receipt_id = raising (delete_receipt user_id receipt_id)"

record pagination_response =
  pgr_next_cursor :: "ustr option"
  pgr_has_next :: bool
  pgr_limit :: int
  pgr_total_count :: nat

record receipt_list_response =
  rlr_receipts :: "receipt_response list"
  rlr_total_count :: nat
  rlr_pagination :: pagination_response

definition list_query_of :: "uuid \<Rightarrow> receipt_list_request \<Rightarrow> list_receipts_query" where
  "list_query_of user_id req =
     \<lparr>lr_user_id = user_id, lr_status = rlq_status req, lr_sort = rlq_sort req, lr_limit = rlq_limit req,
      lr_cursor = rlq_cursor req, lr_category = category_given (rlq_category req), lr_q = rlq_q req\<rparr>"

definition list_receipts_endpoint ::
    "ustr \<Rightarrow> date \<Rightarrow> (nat \<Rightarrow> nat) \<Rightarrow> (ustr \<Rightarrow> 'k::linorder) \<Rightarrow> uuid \<Rightarrow> receipt_list_request \<Rightarrow>
     ('z receipt_db_scheme session, web_failure, receipt_list_response) action" where
  "list_receipts_endpoint api_prefix today lower collate user_id req =
     validated (receipt_list_faults req) (raising (
       bindA (query_session (list_receipts today lower collate (list_query_of user_id req))) (\<lambda>answer.
       bindA (liftE answer) (\<lambda>result.
       bindA (liftE (traverse (receipt_response_of api_prefix today) (rl_receipts result))) (\<lambda>receipts.
       returnA \<lparr>rlr_receipts = receipts, rlr_total_count = rl_total_count result,
                rlr_pagination = \<lparr>pgr_next_cursor = rl_next_cursor result, pgr_has_next = rl_has_next result,
                                  pgr_limit = rl_limit result, pgr_total_count = rl_total_count result\<rparr>\<rparr>)))))"

section \<open>A receipt that was entered is shown\<close>

lemma set_strip: "set (strip s) \<subseteq> set s"
  by (auto simp: strip_def lstrip_def rstrip_def dest!: set_dropWhileD)

lemma scalar_strip: "list_all scalar_value s \<Longrightarrow> list_all scalar_value (strip s)"
  using set_strip [of s] by (auto simp: list_all_iff)

lemma scalar_clean_text: "pred_option (list_all scalar_value) v \<Longrightarrow> pred_option (list_all scalar_value) (clean_text v)"
  by (cases v) (simp_all add: clean_text_def scalar_strip)

lemma support_url_exists:
  assumes "pred_option (list_all scalar_value) brand" and "list_all scalar_value item"
  obtains url where "resolve_service_center_url brand item = Inr url"
proof -
  have "list_all scalar_value (search_keyword brand item)"
    using assms by (auto simp: search_keyword_def brand_or_none_def scalar_strip split: option.split)
  then have "list_all scalar_value (search_keyword brand item @ [32, 49436, 48708, 49828, 49468, 53552])"
    by (simp add: scalar_value_def)
  from utf8_decode_encode(1) [OF this] that show ?thesis
    by (simp add: resolve_service_center_url_def quote_plus_def)
qed

text \<open>What is shown is what was answered at the creation, with the days that are left.\<close>

lemma shown_receipt:
  "receipt_response_of api_prefix today m =
     map_sum id (\<lambda>r. r\<lparr>rsp_warranty_d_day := Some (rm_warranty_d_day today m)\<rparr>) (create_receipt_response api_prefix m)"
  by (cases "resolve_service_center_url (rm_brand_name m) (rm_item_name m)")
    (simp_all add: receipt_response_of_def create_receipt_response_def)

lemma validated_apply:
  "validated faults endpoint s = (if faults \<noteq> [] then (Inl (BadRequest faults), s) else endpoint s)"
  by (simp add: validated_def raiseA_def)

lemma command_of_request:
  "cr_user_id (create_receipt_command_of user_id req) = user_id"
  "cr_payment_date (create_receipt_command_of user_id req) = crq_payment_date req"
  "cr_expires_on (create_receipt_command_of user_id req) = crq_expires_on req"
  by (simp_all add: create_receipt_command_of_def)

text \<open>The fields a request asks to store.\<close>

definition shown_as_entered :: "ustr \<Rightarrow> create_receipt_request \<Rightarrow> receipt_response \<Rightarrow> bool" where
  "shown_as_entered api_prefix req r \<longleftrightarrow>
     rsp_item_name r = strip (crq_item_name req) \<and> rsp_brand_name r = clean_text (crq_brand_name req) \<and>
     rsp_serial_number r = clean_text (crq_serial_number req) \<and>
     rsp_payment_location r = clean_text (crq_payment_location req) \<and> rsp_payment_date r = crq_payment_date req \<and>
     rsp_total_amount r = crq_total_amount req \<and>
     rsp_period_months r = (case crq_period_months req of None \<Rightarrow> 12 | Some n \<Rightarrow> n) \<and>
     rsp_expires_on r = (case crq_expires_on req of Some d \<Rightarrow> d
       | None \<Rightarrow> the (add_months (crq_payment_date req) (rsp_period_months r))) \<and>
     rsp_category r = map_option category_api_label (category_given (crq_category req)) \<and>
     rsp_sub_category r = clean_text (crq_sub_category req) \<and> rsp_memo r = clean_text (crq_memo req) \<and>
     rsp_requires_physical_receipt r = crq_requires_physical_receipt req \<and>
     rsp_receipt_file_ids r = sort (crq_receipt_file_ids req) \<and>
     map rfr_file_id (rsp_receipt_files r) = sort (crq_receipt_file_ids req)"

lemma entered_is_shown:
  assumes "create_receipt_response api_prefix m = Inr r"
    and "m = entered_model env (create_receipt_command_of user_id req) (rm_expires_on m)"
    and "rm_expires_on m = (case crq_expires_on req of Some d \<Rightarrow> d
      | None \<Rightarrow> the (add_months (crq_payment_date req) (rm_period_months m)))"
  shows "shown_as_entered api_prefix req r" and "rsp_receipt_id r = re_receipt_id env"
    and "rsp_expires_on r = rm_expires_on m"
proof -
  have m: "rm_item_name m = strip (crq_item_name req)" "rm_brand_name m = clean_text (crq_brand_name req)"
    "rm_serial_number m = clean_text (crq_serial_number req)"
    "rm_payment_location m = clean_text (crq_payment_location req)" "rm_payment_date m = crq_payment_date req"
    "rm_total_amount m = crq_total_amount req"
    "rm_period_months m = (case crq_period_months req of None \<Rightarrow> 12 | Some n \<Rightarrow> n)"
    "rm_category m = category_given (crq_category req)" "rm_sub_category m = clean_text (crq_sub_category req)"
    "rm_memo m = clean_text (crq_memo req)" "rm_requires_physical_receipt m = crq_requires_physical_receipt req"
    "rm_receipt_file_ids m = sort (crq_receipt_file_ids req)" "rm_receipt_id m = re_receipt_id env"
    by (subst assms(2); simp add: entered_model_def create_receipt_command_of_def)+
  have same: "rsp_item_name r = rm_item_name m" "rsp_brand_name r = rm_brand_name m" "rsp_serial_number r = rm_serial_number m"
    "rsp_payment_location r = rm_payment_location m" "rsp_payment_date r = rm_payment_date m"
    "rsp_total_amount r = rm_total_amount m" "rsp_period_months r = rm_period_months m" "rsp_expires_on r = rm_expires_on m"
    "rsp_category r = category_label (rm_category m)" "rsp_sub_category r = rm_sub_category m" "rsp_memo r = rm_memo m"
    "rsp_requires_physical_receipt r = rm_requires_physical_receipt m" "rsp_receipt_file_ids r = rm_receipt_file_ids m"
    "rsp_receipt_files r = receipt_file_responses api_prefix (rm_receipt_file_ids m)" "rsp_receipt_id r = rm_receipt_id m"
    using assms(1) by (auto simp: create_receipt_response_def bindE_Inr)
  show "shown_as_entered api_prefix req r"
    unfolding shown_as_entered_def same assms(3)
    by (simp add: m(1-6,8-) category_label_def receipt_file_responses_def comp_def) (simp add: m(7))
  show "rsp_receipt_id r = re_receipt_id env" "rsp_expires_on r = rm_expires_on m" by (simp_all add: same m(13))
qed

text \<open>C21. A creation request is refused with the list of its faults before anything is done, or by what the domain rejects,
  with nothing stored, or it is answered with the receipt as it was entered, and the user is then shown the same receipt
  with the days of warranty that are left. (Texts are Unicode texts, which is all that pydantic accepts.)\<close>

theorem created_receipt_is_shown:
  assumes "receipt_tables_ok db" and "receipt_env_fresh env db"
    and "list_all scalar_value (crq_item_name req)" and "pred_option (list_all scalar_value) (crq_brand_name req)"
  shows "case create_receipt_endpoint api_prefix env user_id req (open_session db) of
      (Inr r, s) \<Rightarrow>
        create_receipt_faults req = [] \<and> shown_as_entered api_prefix req r \<and>
        get_receipt_endpoint api_prefix today user_id (rsp_receipt_id r) (open_session (committed s)) =
          (Inr (r\<lparr>rsp_warranty_d_day := Some (warranty_d_day today (rsp_expires_on r))\<rparr>), open_session (committed s))
    | (Inl (BadRequest es), s) \<Rightarrow> s = open_session db \<and> es = create_receipt_faults req \<and> es \<noteq> []
    | (Inl (Raised e), s) \<Rightarrow>
        create_receipt_faults req = [] \<and> committed s = db \<and>
        (let entered = create_input (create_receipt_command_of user_id req)
         in if receipt_accepted (re_today env) entered
            then resolve_expires_on (crq_expires_on req) (crq_payment_date req) (resolved_period entered) = Inl e
            else e = ValidationError (receipt_errors (re_today env) entered))"
proof (cases "create_receipt_faults req = []")
  case False
  then show ?thesis by (simp add: create_receipt_endpoint_def validated_apply)
next
  case True
  let ?cmd = "create_receipt_command_of user_id req"
  obtain r s where run: "create_new_receipt env ?cmd (open_session db) = (r, s)" by fastforce
  note stored = created_receipt_is_read_back [OF assms(1,2), of ?cmd, unfolded run]
  show ?thesis
  proof (cases r)
    case (Inl e)
    have "committed s = db \<and>
        (if receipt_accepted (re_today env) (create_input ?cmd)
         then resolve_expires_on (crq_expires_on req) (crq_payment_date req) (resolved_period (create_input ?cmd)) = Inl e
         else e = ValidationError (receipt_errors (re_today env) (create_input ?cmd)))"
      using stored [unfolded Inl prod.case sum.case command_of_request] .
    then show ?thesis
      by (simp add: create_receipt_endpoint_def validated_apply True raising_def bindA_def run Inl Let_def)
  next
    case (Inr m)
    have m: "m = entered_model env ?cmd (rm_expires_on m)"
      and e: "rm_expires_on m = (case crq_expires_on req of Some d \<Rightarrow> d
        | None \<Rightarrow> the (add_months (crq_payment_date req) (rm_period_months m)))"
      and got: "get_receipt user_id (re_receipt_id env) (open_session (committed s)) = (Inr m, open_session (committed s))"
      using stored [unfolded Inr prod.case sum.case command_of_request] by blast+
    have "pred_option (list_all scalar_value) (rm_brand_name m)" "list_all scalar_value (rm_item_name m)"
      by (subst m; simp add: entered_model_def create_receipt_command_of_def scalar_strip scalar_clean_text assms(3,4))+
    from support_url_exists [OF this] obtain url where url: "resolve_service_center_url (rm_brand_name m) (rm_item_name m) = Inr url" .
    then obtain q where q: "create_receipt_response api_prefix m = Inr q"
      unfolding create_receipt_response_def url by simp
    note shown = entered_is_shown [OF q m e]
    have "create_receipt_endpoint api_prefix env user_id req (open_session db) = (Inr q, s)"
      using q by (simp add: create_receipt_endpoint_def validated_apply True raising_def bindA_def run Inr liftE_def)
    moreover have "get_receipt_endpoint api_prefix today user_id (re_receipt_id env) (open_session (committed s)) =
        (Inr (q\<lparr>rsp_warranty_d_day := Some (warranty_d_day today (rm_expires_on m))\<rparr>), open_session (committed s))"
      using q by (simp add: get_receipt_endpoint_def raising_def bindA_def got shown_receipt liftE_def rm_warranty_d_day_def)
    ultimately show ?thesis using shown True by (simp only: prod.case sum.case)
  qed
qed

definition sample_receipt_request :: create_receipt_request where
  "sample_receipt_request =
     \<lparr>crq_item_name = ascii '' Fridge '', crq_brand_name = Some (ascii '' ''), crq_serial_number = None,
      crq_payment_location = None, crq_payment_date = Date 2024 1 31, crq_total_amount = Some 500, crq_period_months = Some 1,
      crq_expires_on = None, crq_category = CategorySent (10 # category_api_label KITCHEN_APPLIANCE), crq_sub_category = None,
      crq_memo = None, crq_requires_physical_receipt = False, crq_receipt_file_ids = [32, 31]\<rparr>"

lemma sample_request_category: "normalize_category (crq_category sample_receipt_request) = Inr (Some KITCHEN_APPLIANCE)"
proof -
  have "strip (10 # category_api_label KITCHEN_APPLIANCE) = category_api_label KITCHEN_APPLIANCE"
    by (simp add: strip_def lstrip_def rstrip_def is_space_def)
  then show ?thesis
    using category_from_label [of KITCHEN_APPLIANCE] by (simp add: normalize_category_def sample_receipt_request_def)
qed

lemma sample_request_command: "create_receipt_command_of 2 sample_receipt_request = sample_create"
  using sample_request_category
  by (simp add: create_receipt_command_of_def category_given_def sample_create_def) (simp add: sample_receipt_request_def)

lemma sample_request_faultless: "create_receipt_faults sample_receipt_request = []"
  using sample_request_category
  by (simp add: create_receipt_faults_def category_faults_def) (simp add: sample_receipt_request_def length_faults_def ascii_def)

theorem created_receipt_is_shown_witness:
  "\<exists>r s. create_receipt_endpoint (ascii ''/api/v1/'') sample_receipt_env 2 sample_receipt_request (open_session sample_receipts) =
      (Inr r, s) \<and>
    rsp_item_name r = ascii ''Fridge'' \<and> rsp_category r = Some (category_api_label KITCHEN_APPLIANCE) \<and>
    get_receipt_endpoint (ascii ''/api/v1/'') (Date 2024 2 1) 2 (rsp_receipt_id r) (open_session (committed s)) =
      (Inr (r\<lparr>rsp_warranty_d_day := Some 28\<rparr>), open_session (committed s))"
proof -
  let ?call = "create_receipt_endpoint (ascii ''/api/v1/'') sample_receipt_env 2 sample_receipt_request (open_session sample_receipts)"
  obtain m s where run: "create_new_receipt sample_receipt_env sample_create (open_session sample_receipts) = (Inr m, s)"
    and m: "rm_item_name m = ascii ''Fridge''" "rm_brand_name m = None" "rm_expires_on m = Date 2024 2 29"
    using created_receipt_is_read_back_witness by blast
  have "pred_option (list_all scalar_value) (rm_brand_name m)" "list_all scalar_value (rm_item_name m)"
    by (simp_all add: m scalar_ascii)
  from support_url_exists [OF this] obtain url where url: "resolve_service_center_url (rm_brand_name m) (rm_item_name m) = Inr url" .
  then obtain r where r: "create_receipt_response (ascii ''/api/v1/'') m = Inr r" and expires: "rsp_expires_on r = Date 2024 2 29"
    unfolding create_receipt_response_def url by (simp add: m(3))
  have call: "?call = (Inr r, s)"
    using r by (simp add: create_receipt_endpoint_def validated_apply sample_request_faultless raising_def bindA_def run
        sample_request_command liftE_def)
  have scalar: "list_all scalar_value (crq_item_name sample_receipt_request)"
    "pred_option (list_all scalar_value) (crq_brand_name sample_receipt_request)"
    by (simp_all add: sample_receipt_request_def scalar_ascii)
  have shown: "shown_as_entered (ascii ''/api/v1/'') sample_receipt_request r"
    "get_receipt_endpoint (ascii ''/api/v1/'') (Date 2024 2 1) 2 (rsp_receipt_id r) (open_session (committed s)) =
      (Inr (r\<lparr>rsp_warranty_d_day := Some (warranty_d_day (Date 2024 2 1) (rsp_expires_on r))\<rparr>), open_session (committed s))"
    using created_receipt_is_shown [OF well_formedD(1) [OF sample_well_formed(2)] sample_ids_fresh(2) scalar,
        where api_prefix = "ascii ''/api/v1/''" and user_id = 2 and today = "Date 2024 2 1", unfolded call prod.case sum.case] by blast+
  have fields: "rsp_item_name r = strip (ascii '' Fridge '')"
    "rsp_category r = map_option category_api_label (category_given (crq_category sample_receipt_request))"
    using shown(1) unfolding shown_as_entered_def by (simp_all add: sample_receipt_request_def)
  have "strip (ascii '' Fridge '') = ascii ''Fridge''"
    by (simp add: strip_def lstrip_def rstrip_def ascii_def is_space_def)
  moreover have "category_given (crq_category sample_receipt_request) = Some KITCHEN_APPLIANCE"
    by (simp add: category_given_def sample_request_category)
  moreover have "warranty_d_day (Date 2024 2 1) (Date 2024 2 29) = 28" by (simp add: warranty_d_day_def)
  ultimately show ?thesis using call shown(2) expires fields by simp
qed

end
