(* ===== verification/Spec2Isabelle.thy ===== *)
theory Spec2Isabelle
  imports Outbox_Protocol Credits_Properties Credits_Queries Promotions_Samples Promotions_Job Ocr_Extraction Due_Samples Push_Notifications Receipt_Samples Service_Centers
    Files_Samples Auth_Samples Profile_Samples Usage_Snapshot Receipt_Api
begin

text \<open>
  A verification library of the receipt-keeper backend (Python, FastAPI, SQLAlchemy on PostgreSQL).

  \<^bold>\<open>The program.\<close> A modular monolith: \<open>src/app/core\<close> holds what the modules share,
  \<open>src/app/modules/<module>\<close> a bounded context each, layered as \<open>api\<close>, \<open>application\<close> (use
  cases and ports), \<open>domain\<close> and \<open>infrastructure\<close>. Use cases load aggregates through
  repositories, let the domain decide, write the outcome in one database session and publish domain
  events into the outbox table of the same transaction; after the commit an immediate dispatcher or
  a relay hands the events to their handlers. Modules call each other through ports that
  \<open>dependencies.py\<close> wires to the use cases of the other module on the same session, with a unit
  of work that leaves the commit to the caller.

  \<^bold>\<open>How it is modelled.\<close> An operation that may raise returns \<open>Inl\<close> the exception or
  \<open>Inr\<close> the value; one that uses the session is an action \<open>state \<Rightarrow> result \<times> state\<close>
  (\<open>Prelude\<close>). A session (\<open>Session\<close>) is the database as committed and as the transaction
  sees it; a flush checks the constraints that the ORM classes declare and makes the session refuse
  work when one is violated. A database is a record of tables, a table a list of rows. What other
  sessions commit while a call waits or between two of its statements is a parameter of the call (a
  \<open>rival\<close> function applied to the tables), and so are new identifiers and the clocks. The
  messages of errors are named by ASCII identifiers, texts are lists of code points.

  \<^bold>\<open>Theories and code.\<close>
  \<^item> \<open>Prelude\<close>, \<open>Calendar\<close>, \<open>Text_Codec\<close>: actions, tables, Python's dates and the texts
    of identifiers and instants; \<open>Calendar.add_months\<close> is \<open>_add_months\<close> of
    \<open>receipts/domain/model.py\<close>.
  \<^item> \<open>Core_Domain\<close>: \<open>core/domain\<close> (errors, notification of errors, recorded events) and the
    handlers of \<open>main.py\<close>.
  \<^item> \<open>Events\<close>, \<open>Serialization\<close>: the event classes of all modules and
    \<open>core/db/outbox/serialization.py\<close>.
  \<^item> \<open>Session\<close>: \<open>core/db/unit_of_work.py\<close>, \<open>core/application/unit_of_work.py\<close>.
  \<^item> \<open>Outbox\<close>, \<open>Outbox_Protocol\<close>: \<open>core/db/outbox\<close> (\<open>publisher.py\<close>, \<open>relay.py\<close>,
    \<open>immediate_dispatch.py\<close>); the protocol is the step relation of workers that claim, dispatch,
    finish or stop in any order.
  \<^item> \<open>Credits\<close>, \<open>Credits_Repository\<close>, \<open>Credits_Commands\<close>, \<open>Credits_Queries\<close>,
    \<open>Credits_Properties\<close>: \<open>modules/credits\<close>, the ledger and its balances.
  \<^item> \<open>Promotions\<close> and \<open>Promotions_*\<close>: \<open>modules/promotions\<close> with the redemption commands on
    top of the credits (\<open>Promotions_Commands\<close>), their outcomes, limits and samples, and the monthly
    job (\<open>Promotions_Job\<close>).
  \<^item> \<open>Receipt_Ocr\<close>, \<open>Ocr_Extraction\<close>: \<open>modules/ocr\<close>, the reading of the model's answer and
    the recognition that costs a credit.
  \<^item> \<open>Keyset_Pages\<close>, \<open>Cursor_Text\<close>: what every paged query shares, the page of a sorted
    table (a locale, interpreted for the ledger, receipts, users and activities) and the text of cursors.
  \<^item> \<open>Notifications\<close>, \<open>Notification_Schedule\<close>, \<open>Notification_Store\<close>,
    \<open>Notification_Scheduler\<close>, \<open>Candidate_Readers\<close>, \<open>Due_Delivery\<close>, \<open>Due_Candidates\<close>,
    \<open>Due_Samples\<close>, \<open>Push_Notifications\<close>: \<open>modules/notifications\<close> (inbox, settings,
    devices, schedule rules, the scheduler job, pushes) and the readers of users and receipts it uses.
  \<^item> \<open>Receipts\<close>, \<open>Receipt_Store\<close>, \<open>Receipt_Commands\<close>, \<open>Receipt_Properties\<close>,
    \<open>Receipt_Ownership\<close>, \<open>Receipt_Listing\<close>, \<open>Receipt_Samples\<close>, \<open>Service_Centers\<close>: \<open>modules/receipts\<close>, the receipts
    users keep, their attachments, and the list with its filters and cursors.
  \<^item> \<open>Files\<close>, \<open>Files_Commands\<close>, \<open>Files_Storage\<close>, \<open>Files_Properties\<close>,
    \<open>Files_Outcomes\<close>, \<open>Files_Samples\<close>: \<open>modules/files\<close>, uploads and their validation, the
    tables, and the two object storages behind one contract (the locale \<open>object_storage\<close>).
  \<^item> \<open>Users\<close>: \<open>modules/users\<close>, accounts with their settings and profile images;
    \<open>Profile_Images\<close>, \<open>Profile_Samples\<close>: any calls of users and files together.
  \<^item> \<open>Usage_Snapshot\<close>: \<open>modules/usage\<close>, and what it says of the next recognition.
  \<^item> \<open>Auth\<close>, \<open>Auth_Tokens\<close>, \<open>Auth_Commands\<close>, \<open>Auth_Properties\<close>: \<open>modules/auth\<close>,
    credentials, sessions and refresh tokens, identities and access tokens, and the commands; sign-up
    and withdrawal are composed with users, notifications, promotions and credits on one session as
    \<open>dependencies.py\<close> wires them.
  \<^item> \<open>Auth_Outcomes\<close> (refresh and logout), \<open>Auth_Login\<close>, \<open>Auth_Signup\<close>,
    \<open>Auth_Withdrawal\<close>: what the commands of \<open>modules/auth\<close> do on every branch;
    \<open>Auth_Runs\<close>: the invariant of their tables over any sequence of calls; \<open>Account_Frames\<close>:
    which tables the modules called by sign-up leave alone, proved in the locales
    \<open>redemption_view\<close> and \<open>promotion_view\<close>; \<open>Auth_Samples\<close>.
  \<^item> \<open>Web_Errors\<close>: the answers to failed requests, by the handlers of \<open>core/http\<close>, \<open>auth/api\<close> and
    \<open>ocr/api\<close> that \<open>main.py\<close> registers; \<open>Receipt_Api\<close>: \<open>receipts/api\<close>, what a request has to
    be, the call it becomes and its answer.
  \<^item> \<open>Web_Text\<close>: UTF-8, Base64 and JSON as the standard library writes and reads them.

  \<^bold>\<open>What the lemmas show.\<close> Value objects and aggregates: what they accept, what they report
  otherwise, and invariants under every operation. Commands: the whole outcome on every branch, with
  the committed database, and what happens when other sessions interfere. Sequences of calls: the
  ledger, the limits of promotions, the occurrences of scheduled notifications, the tables of files
  and their storage, the auth tables. Protocols: no
  event is lost, superseded claims are fenced. Codecs: what is written is read back. Queries:
  following the cursors visits every row once.

  \<^bold>\<open>Bounds and fuel.\<close> The relay loop of a run takes its batch size as fuel, as the code
  does. \<open>page_loop\<close> takes the number of rounds; one more than the rows of the table is enough
  (\<open>due_notifications_enumerated\<close>), and a run cut off would end with \<open>FuelExhausted\<close>.

  \<^bold>\<open>Assumptions.\<close> Isolation is READ COMMITTED. The Seoul offset is nine hours throughout.
  While a settings row is locked only settings change. \<open>rule_rows\<close> is kept in the order of its
  key. Texts of instants and identifiers are read back only in the forms the program writes.
  A statement about a call assumes new identifiers to be new. Where other sessions run while a call
  waits for the login locks, the runs of the auth tables assume that they keep those tables
  well-formed (\<open>calm\<close>), and the outcomes of login and sign-up that they change nothing. Of PyJWT
  (\<open>pyjwt_decodes\<close>): an encoded token is decoded when issuer and audience are the configured ones,
  it was not issued in the future and its expiry, a whole second, is not over, and gives the claims
  back with their instants cut to whole seconds. A redemption at sign-up, which the code does not hold
  against the per-user limit, is limited by its beneficiary key instead.

  \<^bold>\<open>Where other sessions run.\<close> The update of a receipt takes no lock: what others commit is
  applied between its two reads, before its \<open>UPDATE\<close> and before the statements on attachments.
  \<open>receipts_stay_well_formed\<close> and \<open>receipts_belong_to_their_user\<close> let others do anything
  between the two reads that calls do, and between the writes what leaves that receipt alone;
  without that, two overlapping updates leave more than five attachments
  (\<open>overlapping_updates_add_up\<close>). A grant of credits has rivals at the lock of the balance and
  at the flush; \<open>grant_credit_exactly_once\<close> lets others commit anything there, given that they
  cannot see the rows of the grant, the first balance of the same user excepted
  (\<open>first_balance_race_loses_grant\<close>). A deletion of a file has one between its check and its
  delete: the statements on files alone take it to be quiet, \<open>profile_images_can_be_opened\<close> lets the
  users module do there whatever does not choose that file, and \<open>picture_lost_in_race\<close> is the rest.
  Outcomes of single commands are those of undisturbed calls unless they name a rival.

  \<^bold>\<open>Not modelled.\<close> Of the HTTP layer the routers of the other modules, the conversion of
  JSON to typed requests and back, the documentation of the API; settings, wiring and engines, logging, migrations and the example module are glue or I/O; of the OCR client the prompt
  and the HTTP payload, of the FCM sender the message of a platform. Third-party services (Firebase,
  PyJWT, the language model, the S3 client) and the hash functions are parameters. The local storage
  is a map of paths without symbolic links.
\<close>

end
